(* ===== verification/Prelude.thy ===== *)
theory Prelude
  imports Main "HOL-Library.Word" "HOL-Library.List_Lexorder" "HOL-Library.Product_Lexorder"
begin

text \<open>
  Shared vocabulary of the development.

  \<^item> Rust's fixed-width unsigned integers are words (\<open>u8\<close> .. \<open>u64\<close>); the arithmetic the
    source calls by name (\<open>saturating_add\<close>, \<open>saturating_sub\<close>, \<open>saturating_mul\<close>,
    \<open>checked_add\<close>) is defined here once, with its meaning over \<open>nat\<close> collected in
    \<open>word_nat_simps\<close>.
  \<^item> \<open>Result<T, E>\<close> is the sum \<open>'e + 'a\<close>, read through \<open>Err\<close> and \<open>Ok\<close>, and the \<open>?\<close>
    operator is \<open>bind_result\<close>.
  \<^item> Loops that keep a \<open>HashSet\<close> of values already seen use \<open>first_dup\<close>; its
    characterisation by \<open>distinct\<close> is shared by every validator.
  \<^item> Byte strings are big-endian or little-endian encodings of words
    (\<open>to_be_bytes\<close>, \<open>to_le_bytes\<close>), injective and of fixed length.
\<close>

unbundle bit_operations_syntax

subsection \<open>Machine integers\<close>

type_synonym u8 = "8 word"
type_synonym u16 = "16 word"
type_synonym u32 = "32 word"
type_synonym u64 = "64 word"

text \<open>An IEEE double is carried by its bit pattern: the source stores and compares some
  floats that the modelled operations never compute with.\<close>

type_synonym f64_bits = "64 word"
type_synonym f32_bits = "32 word"

named_theorems word_nat_simps "word arithmetic read over nat"

definition saturating_add :: "'a::len word \<Rightarrow> 'a word \<Rightarrow> 'a word" where
  "saturating_add a b = (if unat a + unat b < 2 ^ LENGTH('a) then a + b else - 1)"

definition saturating_sub :: "'a::len word \<Rightarrow> 'a word \<Rightarrow> 'a word" where
  "saturating_sub a b = (if b \<le> a then a - b else 0)"

definition saturating_mul :: "'a::len word \<Rightarrow> 'a word \<Rightarrow> 'a word" where
  "saturating_mul a b = (if unat a * unat b < 2 ^ LENGTH('a) then a * b else - 1)"

definition checked_add :: "'a::len word \<Rightarrow> 'a word \<Rightarrow> 'a word option" where
  "checked_add a b = (if unat a + unat b < 2 ^ LENGTH('a) then Some (a + b) else None)"

text \<open>Rust's \<open>as\<close> cast of a collection length to a narrower integer keeps the low bits.\<close>

definition as_word :: "nat \<Rightarrow> 'a::len word" where
  "as_word n = of_nat n"

lemma unat_max_word [word_nat_simps]: "unat (- 1 :: 'a::len word) = 2 ^ LENGTH('a) - 1"
  by (simp add: unsigned_minus_1_eq_mask mask_eq_exp_minus_1)

lemma unat_u64_bound: "unat (x :: u64) < 2 ^ 64" "unat (x :: u64) \<le> 18446744073709551615"
  using unsigned_less [of x, where ?'a = nat] by simp_all

lemma unat_saturating_add [word_nat_simps]:
  "unat (saturating_add a b :: 'a::len word) = min (unat a + unat b) (2 ^ LENGTH('a) - 1)"
proof -
  have "unat (a + b) = unat a + unat b" if "unat a + unat b < 2 ^ LENGTH('a)"
    using that by (simp add: unat_word_ariths)
  then show ?thesis
    by (cases "unat a + unat b < 2 ^ LENGTH('a)")
      (simp_all add: saturating_add_def unat_max_word)
qed

lemma unat_saturating_sub [word_nat_simps]:
  "unat (saturating_sub a b :: 'a::len word) = unat a - unat b"
  by (auto simp: saturating_sub_def unat_sub word_le_nat_alt)

lemma unat_saturating_mul [word_nat_simps]:
  "unat (saturating_mul a b :: 'a::len word) = min (unat a * unat b) (2 ^ LENGTH('a) - 1)"
proof -
  have "unat (a * b) = unat a * unat b" if "unat a * unat b < 2 ^ LENGTH('a)"
    using that by (simp add: unat_word_ariths)
  then show ?thesis
    by (cases "unat a * unat b < 2 ^ LENGTH('a)")
      (simp_all add: saturating_mul_def unat_max_word)
qed

lemma unat_min [word_nat_simps]: "unat (min a b) = min (unat a) (unat b)"
  by (simp add: min_def word_le_nat_alt)

lemma unat_max [word_nat_simps]: "unat (max a b) = max (unat a) (unat b)"
  by (simp add: max_def word_le_nat_alt)

lemma checked_add_eq_Some:
  "checked_add a b = Some (c :: 'a::len word)
   \<longleftrightarrow> unat a + unat b < 2 ^ LENGTH('a) \<and> unat c = unat a + unat b"
proof -
  have "unat (a + b) = unat a + unat b" if "unat a + unat b < 2 ^ LENGTH('a)"
    using that by (simp add: unat_word_ariths)
  then show ?thesis
    by (auto simp: checked_add_def word_unat_eq_iff)
qed

lemma checked_add_eq_None:
  "checked_add a b = (None :: 'a::len word option) \<longleftrightarrow> 2 ^ LENGTH('a) \<le> unat a + unat b"
  by (auto simp: checked_add_def)

lemma unat_as_word: "n < 2 ^ LENGTH('a) \<Longrightarrow> unat (as_word n :: 'a::len word) = n"
  by (simp add: as_word_def unsigned_of_nat take_bit_nat_eq_self)

lemma as_word_eq_iff:
  "m < 2 ^ LENGTH('a) \<Longrightarrow> n < 2 ^ LENGTH('a) \<Longrightarrow> (as_word m :: 'a::len word) = as_word n \<longleftrightarrow> m = n"
  by (metis unat_as_word)

lemma saturating_sub_le: "saturating_sub a b \<le> (a :: 'a::len word)"
  by (simp add: word_le_nat_alt unat_saturating_sub)

lemma saturating_sub_self_min:
  "saturating_sub a (min a b) = (a :: 'a::len word) - min a b"
  by (simp add: saturating_sub_def)

subsection \<open>Results\<close>

abbreviation Ok :: "'a \<Rightarrow> 'e + 'a" where "Ok \<equiv> Inr"
abbreviation Err :: "'e \<Rightarrow> 'e + 'a" where "Err \<equiv> Inl"

definition bind_result :: "'e + 'a \<Rightarrow> ('a \<Rightarrow> 'e + 'b) \<Rightarrow> 'e + 'b" where
  "bind_result r f = (case r of Err e \<Rightarrow> Err e | Ok x \<Rightarrow> f x)"

definition ok_or :: "'a option \<Rightarrow> 'e \<Rightarrow> 'e + 'a" where
  "ok_or x e = (case x of None \<Rightarrow> Err e | Some v \<Rightarrow> Ok v)"

definition is_ok :: "'e + 'a \<Rightarrow> bool" where
  "is_ok r = (case r of Err _ \<Rightarrow> False | Ok _ \<Rightarrow> True)"

text \<open>\<open>result.map_err\<close> and \<open>result.context(...)\<close>: another error, the same value.\<close>

definition map_err :: "('e \<Rightarrow> 'f) \<Rightarrow> 'e + 'a \<Rightarrow> 'f + 'a" where
  "map_err f r = (case r of Ok v \<Rightarrow> Ok v | Err e \<Rightarrow> Err (f e))"

lemma map_err_Ok [simp]: "map_err f r = Ok v \<longleftrightarrow> r = Ok v"
  by (simp add: map_err_def split: sum.splits)

lemma bind_result_simps [simp]:
  "bind_result (Ok x) f = f x"
  "bind_result (Err e) f = Err e"
  by (simp_all add: bind_result_def)

lemma bind_result_eq_Ok [simp]:
  "bind_result r f = Ok y \<longleftrightarrow> (\<exists>x. r = Ok x \<and> f x = Ok y)"
  by (cases r) auto

lemma bind_result_eq_Err:
  "bind_result r f = Err e \<longleftrightarrow> r = Err e \<or> (\<exists>x. r = Ok x \<and> f x = Err e)"
  by (cases r) auto

lemma ok_or_eq_Ok [simp]: "ok_or x e = Ok v \<longleftrightarrow> x = Some v"
  by (cases x) (auto simp: ok_or_def)

lemma ok_or_simps [simp]: "ok_or (Some v) e = Ok v" "ok_or None e = Err e"
  by (simp_all add: ok_or_def)

lemma is_ok_simps [simp]: "is_ok (Ok x)" "\<not> is_ok (Err e)"
  by (simp_all add: is_ok_def)

lemma is_ok_iff: "is_ok r \<longleftrightarrow> (\<exists>x. r = Ok x)"
  by (cases r) auto

subsection \<open>Loops over a slice\<close>

text \<open>\<open>for x in xs { if !seen.insert(x) { ... } }\<close>: the first element already seen.\<close>

fun first_dup :: "'a set \<Rightarrow> 'a list \<Rightarrow> 'a option" where
  "first_dup seen [] = None"
| "first_dup seen (x # xs) = (if x \<in> seen then Some x else first_dup (insert x seen) xs)"

lemma first_dup_None_iff:
  "first_dup seen xs = None \<longleftrightarrow> distinct xs \<and> set xs \<inter> seen = {}"
  by (induction xs arbitrary: seen) auto

lemma first_dup_empty_None [simp]: "first_dup {} xs = None \<longleftrightarrow> distinct xs"
  by (simp add: first_dup_None_iff)

text \<open>\<open>iter().try_fold(acc, f)\<close> over \<open>Option\<close>.\<close>

fun try_fold :: "('b \<Rightarrow> 'a \<Rightarrow> 'b option) \<Rightarrow> 'b \<Rightarrow> 'a list \<Rightarrow> 'b option" where
  "try_fold f acc [] = Some acc"
| "try_fold f acc (x # xs) = (case f acc x of None \<Rightarrow> None | Some acc' \<Rightarrow> try_fold f acc' xs)"

lemma try_fold_checked_add:
  "try_fold (\<lambda>a x. checked_add a (g x)) acc xs = Some (r :: 'a::len word)
   \<longleftrightarrow> unat acc + (\<Sum>x\<leftarrow>xs. unat (g x)) < 2 ^ LENGTH('a)
       \<and> unat r = unat acc + (\<Sum>x\<leftarrow>xs. unat (g x))"
proof (induction xs arbitrary: acc)
  case Nil
  then show ?case by (auto simp: word_unat_eq_iff)
next
  case (Cons x xs)
  show ?case
  proof (cases "checked_add acc (g x)")
    case None
    moreover from None have "2 ^ LENGTH('a) \<le> unat acc + unat (g x)"
      by (simp add: checked_add_eq_None)
    ultimately show ?thesis by simp
  next
    case (Some b)
    then have "unat b = unat acc + unat (g x)" by (simp add: checked_add_eq_Some)
    with Some Cons.IH [of b] show ?thesis by (simp add: add.assoc)
  qed
qed

lemma try_fold_checked_add_None:
  "try_fold (\<lambda>a x. checked_add a (g x)) acc xs = (None :: 'a::len word option)
   \<longleftrightarrow> 2 ^ LENGTH('a) \<le> unat acc + (\<Sum>x\<leftarrow>xs. unat (g x))"
proof (cases "unat acc + (\<Sum>x\<leftarrow>xs. unat (g x)) < 2 ^ LENGTH('a)")
  case True
  then have "try_fold (\<lambda>a x. checked_add a (g x)) acc xs
      = Some (as_word (unat acc + (\<Sum>x\<leftarrow>xs. unat (g x))) :: 'a word)"
    by (simp add: try_fold_checked_add unat_as_word)
  with True show ?thesis by simp
next
  case False
  then have "\<nexists>r. try_fold (\<lambda>a x. checked_add a (g x)) acc xs = Some r"
    by (simp add: try_fold_checked_add)
  with False show ?thesis by (simp only: not_less) (metis option.exhaust)
qed

text \<open>\<open>iter().position(p)\<close>.\<close>

fun position :: "('a \<Rightarrow> bool) \<Rightarrow> 'a list \<Rightarrow> nat option" where
  "position p [] = None"
| "position p (x # xs) = (if p x then Some 0 else map_option Suc (position p xs))"

lemma position_eq_Some:
  "position p xs = Some i \<longleftrightarrow> i < length xs \<and> p (xs ! i) \<and> (\<forall>j < i. \<not> p (xs ! j))"
proof (induction xs arbitrary: i)
  case Nil
  then show ?case by simp
next
  case (Cons x xs)
  show ?case by (cases i) (auto simp: Cons.IH All_less_Suc2)
qed

lemma position_eq_None: "position p xs = None \<longleftrightarrow> (\<forall>x \<in> set xs. \<not> p x)"
  by (induction xs) auto

text \<open>\<open>xs.get(i)\<close>.\<close>

definition get :: "'a list \<Rightarrow> nat \<Rightarrow> 'a option" where
  "get xs i = (if i < length xs then Some (xs ! i) else None)"

lemma get_eq_Some [simp]: "get xs i = Some x \<longleftrightarrow> i < length xs \<and> xs ! i = x"
  by (auto simp: get_def)

lemma get_eq_None [simp]: "get xs i = None \<longleftrightarrow> length xs \<le> i"
  by (auto simp: get_def)

lemma inj_on_pair_eq: "inj_on f {a, b} \<Longrightarrow> f a = f b \<longleftrightarrow> a = b"
  by (auto simp: inj_on_def)

subsection \<open>Concatenations of fixed-length parts\<close>

lemma append_eq_same_len:
  "length xs = length ys \<Longrightarrow> xs @ us = ys @ vs \<longleftrightarrow> xs = ys \<and> us = vs"
  by (rule append_eq_append_conv) simp

lemma append_eq_same_suffix_len:
  "length us = length vs \<Longrightarrow> xs @ us = ys @ vs \<longleftrightarrow> xs = ys \<and> us = vs"
  by (rule append_eq_append_conv) simp

subsection \<open>Words as bytes\<close>

fun le_bytes :: "nat \<Rightarrow> nat \<Rightarrow> u8 list" where
  "le_bytes 0 n = []"
| "le_bytes (Suc k) n = of_nat (n mod 256) # le_bytes k (n div 256)"

definition to_le_bytes :: "'a::len word \<Rightarrow> u8 list" where
  "to_le_bytes w = le_bytes (LENGTH('a) div 8) (unat w)"

definition to_be_bytes :: "'a::len word \<Rightarrow> u8 list" where
  "to_be_bytes w = rev (to_le_bytes w)"

lemma length_le_bytes [simp]: "length (le_bytes k n) = k"
  by (induction k arbitrary: n) auto

lemma length_to_le_bytes [simp]: "length (to_le_bytes (w :: 'a::len word)) = LENGTH('a) div 8"
  by (simp add: to_le_bytes_def)

lemma length_to_be_bytes [simp]: "length (to_be_bytes (w :: 'a::len word)) = LENGTH('a) div 8"
  by (simp add: to_be_bytes_def)

lemma of_nat_mod_256_eq: "(of_nat (m mod 256) :: u8) = of_nat (n mod 256) \<longleftrightarrow> m mod 256 = n mod 256"
  by (auto simp: word_of_nat_eq_iff take_bit_eq_mod)

lemma le_bytes_inj:
  "le_bytes k m = le_bytes k n \<Longrightarrow> m < 256 ^ k \<Longrightarrow> n < 256 ^ k \<Longrightarrow> m = n"
proof (induction k arbitrary: m n)
  case 0
  then show ?case by simp
next
  case (Suc k)
  from Suc.prems(1) have low: "m mod 256 = n mod 256"
    and high: "le_bytes k (m div 256) = le_bytes k (n div 256)"
    by (simp_all add: of_nat_mod_256_eq)
  from Suc.prems have "m div 256 < 256 ^ k" "n div 256 < 256 ^ k"
    by (auto simp: div_less_iff_less_mult mult.commute)
  with high have "m div 256 = n div 256" by (rule Suc.IH)
  with low show ?case by (metis div_mult_mod_eq)
qed

lemma to_le_bytes_inj:
  fixes v w :: "'a::len word"
  assumes "8 dvd LENGTH('a)"
  shows "to_le_bytes v = to_le_bytes w \<longleftrightarrow> v = w"
proof
  assume eq: "to_le_bytes v = to_le_bytes w"
  have "(256 :: nat) ^ (LENGTH('a) div 8) = 2 ^ (8 * (LENGTH('a) div 8))"
    by (simp add: power_mult)
  also have "8 * (LENGTH('a) div 8) = LENGTH('a)" using assms by simp
  finally have bound: "(256 :: nat) ^ (LENGTH('a) div 8) = 2 ^ LENGTH('a)" .
  have "unat v = unat w"
    using eq unfolding to_le_bytes_def by (rule le_bytes_inj) (simp_all add: bound)
  then show "v = w" by (simp add: word_unat_eq_iff)
qed simp

lemma to_be_bytes_inj:
  fixes v w :: "'a::len word"
  assumes "8 dvd LENGTH('a)"
  shows "to_be_bytes v = to_be_bytes w \<longleftrightarrow> v = w"
  using to_le_bytes_inj [OF assms] by (simp add: to_be_bytes_def)

subsection \<open>Sequences of operations\<close>

text \<open>
  The contract of a component whose operations keep an invariant, and of one that moreover
  never lets a counter go back. Each stateful component interprets one of them on its own
  step function; the invariant of every reachable state is then a fact of the interpretation.
\<close>

locale stateful =
  fixes step :: "'s \<Rightarrow> 'op \<Rightarrow> 's"
    and inv :: "'s \<Rightarrow> bool"
  assumes step_inv: "inv s \<Longrightarrow> inv (step s op)"
begin

lemma run_inv: "inv s \<Longrightarrow> inv (foldl step s ops)"
  by (induction ops arbitrary: s) (auto intro: step_inv)

lemma run_prefix_inv: "inv s \<Longrightarrow> inv (foldl step s (take n ops))"
  by (rule run_inv)

end

text \<open>An operation may only keep the invariant under a condition on its arguments.\<close>

locale guarded =
  fixes step :: "'s \<Rightarrow> 'op \<Rightarrow> 's"
    and inv :: "'s \<Rightarrow> bool"
    and ok :: "'op \<Rightarrow> bool"
  assumes guarded_step: "inv s \<Longrightarrow> ok op \<Longrightarrow> inv (step s op)"
begin

lemma guarded_run: "inv s \<Longrightarrow> list_all ok ops \<Longrightarrow> inv (foldl step s ops)"
  by (induction ops arbitrary: s) (auto intro: guarded_step)

end

sublocale stateful \<subseteq> unguarded: guarded step inv "\<lambda>_. True"
  by unfold_locales (rule step_inv)

locale stateful_mono = stateful step inv
  for step :: "'s \<Rightarrow> 'op \<Rightarrow> 's" and inv :: "'s \<Rightarrow> bool" +
  fixes level :: "'s \<Rightarrow> nat"
  assumes step_mono: "inv s \<Longrightarrow> level s \<le> level (step s op)"
begin

lemma run_mono: "inv s \<Longrightarrow> level s \<le> level (foldl step s ops)"
proof (induction ops arbitrary: s)
  case (Cons op ops)
  then have "level s \<le> level (step s op)" by (simp add: step_mono)
  also have "\<dots> \<le> level (foldl step (step s op) ops)" using Cons by (simp add: step_inv)
  finally show ?case by simp
qed simp

end

end
