(* ===== verification/Rust_Str.thy ===== *)
theory Rust_Str
  imports Prelude
begin

text \<open>
  Rust strings. A \<open>String\<close> or \<open>&str\<close> is the list of its Unicode scalar values, and its
  UTF-8 bytes (\<open>as_bytes\<close>, \<open>len\<close>) are computed by \<open>utf8\<close>, so that \<open>len\<close> counts bytes and
  \<open>chars().count()\<close> counts scalar values, as the standard library does. The standard
  library's \<open>char::is_whitespace\<close> is the Unicode property \<open>White_Space\<close> and
  \<open>char::is_control\<close> is the category \<open>Cc\<close>; both are finite tables here.

  The lemmas say what the string operations the validators use guarantee: \<open>trim\<close> is
  idempotent and leaves no surrounding whitespace, \<open>split\<close> cuts at every separator and
  is inverted by joining, decimal printing is injective and made of digits only.
\<close>

type_synonym rchar = nat
type_synonym rstr = "rchar list"

abbreviation lit :: "string \<Rightarrow> rstr" where
  "lit s \<equiv> map of_char s"

subsection \<open>Scalar values and UTF-8\<close>

definition is_scalar :: "rchar \<Rightarrow> bool" where
  "is_scalar c \<longleftrightarrow> c < 0x110000 \<and> \<not> (0xD800 \<le> c \<and> c < 0xE000)"

definition wf_str :: "rstr \<Rightarrow> bool" where
  "wf_str s \<longleftrightarrow> list_all is_scalar s"

definition utf8_units :: "rchar \<Rightarrow> nat list" where
  "utf8_units c =
     (if c < 0x80 then [c]
      else if c < 0x800 then [0xC0 + c div 64, 0x80 + c mod 64]
      else if c < 0x10000 then [0xE0 + c div 4096, 0x80 + c div 64 mod 64, 0x80 + c mod 64]
      else [0xF0 + c div 262144, 0x80 + c div 4096 mod 64, 0x80 + c div 64 mod 64, 0x80 + c mod 64])"

definition utf8_char :: "rchar \<Rightarrow> u8 list" where
  "utf8_char c = map of_nat (utf8_units c)"

definition utf8 :: "rstr \<Rightarrow> u8 list" where
  "utf8 s = concat (map utf8_char s)"

definition str_len :: "rstr \<Rightarrow> nat" where
  "str_len s = length (utf8 s)"

definition is_whitespace :: "rchar \<Rightarrow> bool" where
  "is_whitespace c \<longleftrightarrow>
     (0x09 \<le> c \<and> c \<le> 0x0D) \<or> c = 0x20 \<or> c = 0x85 \<or> c = 0xA0 \<or> c = 0x1680
     \<or> (0x2000 \<le> c \<and> c \<le> 0x200A) \<or> c = 0x2028 \<or> c = 0x2029 \<or> c = 0x202F
     \<or> c = 0x205F \<or> c = 0x3000"

definition is_control :: "rchar \<Rightarrow> bool" where
  "is_control c \<longleftrightarrow> c < 0x20 \<or> (0x7F \<le> c \<and> c < 0xA0)"

definition is_ascii_lowercase :: "rchar \<Rightarrow> bool" where
  "is_ascii_lowercase c \<longleftrightarrow> 0x61 \<le> c \<and> c \<le> 0x7A"

definition is_ascii_uppercase :: "rchar \<Rightarrow> bool" where
  "is_ascii_uppercase c \<longleftrightarrow> 0x41 \<le> c \<and> c \<le> 0x5A"

definition is_ascii_digit :: "rchar \<Rightarrow> bool" where
  "is_ascii_digit c \<longleftrightarrow> 0x30 \<le> c \<and> c \<le> 0x39"

definition to_ascii_lowercase :: "rstr \<Rightarrow> rstr" where
  "to_ascii_lowercase s = map (\<lambda>c. if is_ascii_uppercase c then c + 32 else c) s"

lemmas char_class_defs = is_whitespace_def is_control_def is_ascii_lowercase_def
  is_ascii_uppercase_def is_ascii_digit_def

subsection \<open>Trimming, prefixes, splitting\<close>

definition trim_start :: "rstr \<Rightarrow> rstr" where
  "trim_start s = dropWhile is_whitespace s"

definition trim :: "rstr \<Rightarrow> rstr" where
  "trim s = rev (dropWhile is_whitespace (rev (trim_start s)))"

definition starts_with :: "rstr \<Rightarrow> rstr \<Rightarrow> bool" where
  "starts_with s p \<longleftrightarrow> take (length p) s = p"

definition ends_with :: "rstr \<Rightarrow> rstr \<Rightarrow> bool" where
  "ends_with s p \<longleftrightarrow> starts_with (rev s) (rev p)"

definition strip_prefix :: "rstr \<Rightarrow> rstr \<Rightarrow> rstr option" where
  "strip_prefix s p = (if starts_with s p then Some (drop (length p) s) else None)"

text \<open>\<open>s.split(c)\<close>: one more segment than there are separators.\<close>

fun split_on :: "rchar \<Rightarrow> rstr \<Rightarrow> rstr list" where
  "split_on c [] = [[]]"
| "split_on c (x # xs) =
     (if x = c then [] # split_on c xs
      else (case split_on c xs of [] \<Rightarrow> [[x]] | seg # segs \<Rightarrow> (x # seg) # segs))"

fun join_with :: "rstr \<Rightarrow> rstr list \<Rightarrow> rstr" where
  "join_with sep [] = []"
| "join_with sep [s] = s"
| "join_with sep (s # t # ss) = s @ sep @ join_with sep (t # ss)"

text \<open>\<open>s.split_once(c)\<close>.\<close>

fun split_once :: "rchar \<Rightarrow> rstr \<Rightarrow> (rstr \<times> rstr) option" where
  "split_once c [] = None"
| "split_once c (x # xs) =
     (if x = c then Some ([], xs) else map_option (\<lambda>(a, b). (x # a, b)) (split_once c xs))"

subsection \<open>Decimal printing\<close>

fun show_nat :: "nat \<Rightarrow> rstr" where
  "show_nat n = (if n < 10 then [0x30 + n] else show_nat (n div 10) @ [0x30 + n mod 10])"

declare show_nat.simps [simp del]

subsection \<open>Lemmas\<close>

lemma trim_eq_append:
  "\<exists>l r. s = l @ trim s @ r \<and> list_all is_whitespace l \<and> list_all is_whitespace r"
proof -
  let ?t = "trim_start s"
  have s: "s = takeWhile is_whitespace s @ ?t" by (simp add: trim_start_def)
  have "rev ?t = takeWhile is_whitespace (rev ?t) @ dropWhile is_whitespace (rev ?t)" by simp
  then have "?t = trim s @ rev (takeWhile is_whitespace (rev ?t))"
    unfolding trim_def by (metis rev_append rev_rev_ident)
  with s have "s = takeWhile is_whitespace s @ trim s @ rev (takeWhile is_whitespace (rev ?t))"
    by simp
  moreover have "list_all is_whitespace (takeWhile is_whitespace xs)" for xs
    by (auto simp: list_all_iff dest: set_takeWhileD)
  ultimately show ?thesis by (metis list_all_rev)
qed

lemma trim_last: "trim s \<noteq> [] \<Longrightarrow> \<not> is_whitespace (last (trim s))"
  using hd_dropWhile [of is_whitespace "rev (trim_start s)"]
  by (auto simp: trim_def last_rev)

lemma trim_hd: "trim s \<noteq> [] \<Longrightarrow> \<not> is_whitespace (hd (trim s))"
proof -
  assume ne: "trim s \<noteq> []"
  let ?t = "trim_start s" and ?w = "takeWhile is_whitespace (rev (trim_start s))"
  have "rev ?t = ?w @ rev (trim s)" by (simp add: trim_def)
  then have t: "?t = trim s @ rev ?w" by (metis rev_append rev_rev_ident)
  have "hd ?t = hd (trim s)" by (subst t) (simp add: ne)
  moreover have "?t \<noteq> []" by (subst t) (simp add: ne)
  moreover from this have "\<not> is_whitespace (hd ?t)"
    using hd_dropWhile [of is_whitespace s] by (simp add: trim_start_def)
  ultimately show ?thesis by simp
qed

lemma trim_id:
  assumes "s = [] \<or> \<not> is_whitespace (hd s) \<and> \<not> is_whitespace (last s)"
  shows "trim s = s"
proof (cases "s = []")
  case True
  then show ?thesis by (simp add: trim_def trim_start_def)
next
  case False
  with assms have "\<not> is_whitespace (hd s)" "\<not> is_whitespace (hd (rev s))"
    by (auto simp: hd_rev)
  with False have "dropWhile is_whitespace s = s" "dropWhile is_whitespace (rev s) = rev s"
    by (auto simp: dropWhile_eq_self_iff)
  then show ?thesis by (simp add: trim_def trim_start_def)
qed

lemma trim_trim [simp]: "trim (trim s) = trim s"
  using trim_hd trim_last by (intro trim_id) blast

lemma set_trim_subset: "set (trim s) \<subseteq> set s"
proof -
  obtain l r where "s = l @ trim s @ r" using trim_eq_append by blast
  then show ?thesis by (metis set_append sup.cobounded1 sup.coboundedI2)
qed

lemma starts_with_append [simp]: "starts_with (p @ s) p"
  by (simp add: starts_with_def)

lemma starts_with_iff: "starts_with s p \<longleftrightarrow> (\<exists>t. s = p @ t)"
  by (metis append_take_drop_id starts_with_append starts_with_def)

lemma strip_prefix_append [simp]: "strip_prefix (p @ s) p = Some s"
  by (simp add: strip_prefix_def)

lemma strip_prefix_eq_Some [simp]: "strip_prefix s p = Some t \<longleftrightarrow> s = p @ t"
  by (auto simp: strip_prefix_def starts_with_iff)

lemma strip_prefix_eq_None [simp]: "strip_prefix s p = None \<longleftrightarrow> \<not> starts_with s p"
  by (simp add: strip_prefix_def)

lemma split_on_nonempty [simp]: "split_on c s \<noteq> []"
  by (induction c s rule: split_on.induct) (auto split: list.splits)

lemma split_on_no_sep: "seg \<in> set (split_on c s) \<Longrightarrow> c \<notin> set seg"
  by (induction c s arbitrary: seg rule: split_on.induct) (auto split: list.splits if_splits)

lemma join_split_on: "join_with [c] (split_on c s) = s"
proof (induction c s rule: split_on.induct)
  case (1 c)
  then show ?case by simp
next
  case (2 c x xs)
  obtain seg segs where seg: "split_on c xs = seg # segs"
    using split_on_nonempty [of c xs] by (cases "split_on c xs") auto
  show ?case
  proof (cases "x = c")
    case True
    with 2(1) seg show ?thesis by simp
  next
    case False
    with 2(2) seg have IH: "join_with [c] (seg # segs) = xs" by simp
    have "join_with [c] ((x # seg) # segs) = x # join_with [c] (seg # segs)"
      by (cases segs) auto
    with False seg IH show ?thesis by simp
  qed
qed

lemma split_on_fresh: "c \<notin> set s \<Longrightarrow> split_on c s = [s]"
  by (induction s) auto

lemma split_on_append_sep:
  "c \<notin> set a \<Longrightarrow> split_on c (a @ c # b) = a # split_on c b"
  by (induction a) auto

lemma split_join:
  "ss \<noteq> [] \<Longrightarrow> (\<And>s. s \<in> set ss \<Longrightarrow> c \<notin> set s) \<Longrightarrow> split_on c (join_with [c] ss) = ss"
proof (induction "[c]" ss rule: join_with.induct)
  case (3 s t ss)
  then have "split_on c (join_with [c] (t # ss)) = t # ss" by simp
  moreover have "c \<notin> set s" using 3 by simp
  ultimately show ?case by (simp add: split_on_append_sep)
qed (auto simp: split_on_fresh)

lemma set_join_with: "seg \<in> set ss \<Longrightarrow> set seg \<subseteq> set (join_with sep ss)"
  by (induction sep ss rule: join_with.induct) auto

lemma set_split_on: "seg \<in> set (split_on c s) \<Longrightarrow> set seg \<subseteq> set s"
  using set_join_with [of seg "split_on c s" "[c]"] by (simp add: join_split_on)

lemma split_once_eq_Some:
  "split_once c s = Some (a, b) \<longleftrightarrow> s = a @ c # b \<and> c \<notin> set a"
proof (induction c s arbitrary: a b rule: split_once.induct)
  case (1 c)
  then show ?case by simp
next
  case (2 c x xs)
  show ?case
  proof (cases "x = c")
    case True
    then show ?thesis by (cases a) auto
  next
    case False
    with 2 show ?thesis by (cases a) (auto simp: Cons_eq_append_conv)
  qed
qed

subsection \<open>Decimal strings\<close>

lemma show_nat_digits: "c \<in> set (show_nat n) \<Longrightarrow> is_ascii_digit c"
proof (induction n rule: show_nat.induct)
  case (1 n)
  show ?case
  proof (cases "n < 10")
    case True
    with 1(2) show ?thesis by (auto simp: show_nat.simps [of n] is_ascii_digit_def)
  next
    case False
    then have "n mod 10 < 10" by simp
    with 1 False show ?thesis by (auto simp: show_nat.simps [of n] is_ascii_digit_def)
  qed
qed

lemma show_nat_not_Nil [simp]: "show_nat n \<noteq> []"
  by (subst show_nat.simps) simp

lemma last_show_nat: "last (show_nat n) = 0x30 + n mod 10"
  by (subst show_nat.simps) simp

lemma length_show_nat_one: "length (show_nat n) = 1 \<longleftrightarrow> n < 10"
  by (subst show_nat.simps) simp

lemma show_nat_inj: "show_nat m = show_nat n \<longleftrightarrow> m = n"
proof (induction m arbitrary: n rule: show_nat.induct)
  case (1 m)
  show ?case
  proof
    assume eq: "show_nat m = show_nat n"
    then have low: "m mod 10 = n mod 10" by (metis add_left_cancel last_show_nat)
    show "m = n"
    proof (cases "m < 10")
      case True
      with eq have "n < 10" by (metis length_show_nat_one)
      with True low show ?thesis by simp
    next
      case False
      with eq have "\<not> n < 10" by (metis length_show_nat_one)
      with eq False have "show_nat (m div 10) = show_nat (n div 10)"
        by (simp add: show_nat.simps [of m] show_nat.simps [of n])
      then have "m div 10 = n div 10" using "1.IH" [OF False, of "n div 10"] by blast
      with low show ?thesis by (metis div_mult_mod_eq)
    qed
  qed simp
qed

end
