(* ===== verification/Crypto.thy ===== *)
theory Crypto
  imports Rust_Str
begin

text \<open>
  Hashes, addresses and signing keys (\<open>crypto/hash.rs\<close>, \<open>crypto/keys.rs\<close>).

  SHA-256, hexadecimal coding and Ed25519 live in third-party crates. They are the fields
  of a record \<open>externs\<close> that every definition calling them takes as its first argument;
  what the code relies on is stated by the predicates \<open>sha256_ok\<close>, \<open>hex_ok\<close> and \<open>ed25519_ok\<close>,
  which are hypotheses of the theorems that need them. \<open>demo_externs\<close> is a concrete record
  satisfying all of them, on which the hypotheses are discharged in witnesses.
\<close>

subsection \<open>External functions\<close>

record externs =
  sha256 :: "u8 list \<Rightarrow> u8 list"
  hex_encode :: "u8 list \<Rightarrow> rstr"
  hex_decode :: "rstr \<Rightarrow> u8 list option"
  ed_public :: "u8 list \<Rightarrow> u8 list"
  ed_valid_key :: "u8 list \<Rightarrow> bool"
  ed_sign :: "u8 list \<Rightarrow> u8 list \<Rightarrow> u8 list"
  ed_verify :: "u8 list \<Rightarrow> u8 list \<Rightarrow> u8 list \<Rightarrow> bool"

definition sha256_ok :: "externs \<Rightarrow> bool" where
  "sha256_ok X \<longleftrightarrow> (\<forall>m. length (sha256 X m) = 32)"

definition hex_ok :: "externs \<Rightarrow> bool" where
  "hex_ok X \<longleftrightarrow> (\<forall>b. hex_decode X (hex_encode X b) = Some b)
     \<and> (\<forall>b. list_all (\<lambda>c. is_ascii_digit c \<or> 0x61 \<le> c \<and> c \<le> 0x66) (hex_encode X b))
     \<and> (\<forall>b. length (hex_encode X b) = 2 * length b)"

definition ed25519_ok :: "externs \<Rightarrow> bool" where
  "ed25519_ok X \<longleftrightarrow>
     (\<forall>sk. length sk = 32 \<longrightarrow> length (ed_public X sk) = 32 \<and> ed_valid_key X (ed_public X sk))
     \<and> (\<forall>sk m. length sk = 32 \<longrightarrow> length (ed_sign X sk m) = 64
          \<and> ed_verify X (ed_public X sk) m (ed_sign X sk m))"

subsection \<open>Hash256\<close>

datatype hash256 = Hash256 (hash_as_bytes: "u8 list")

definition wf_hash :: "hash256 \<Rightarrow> bool" where
  "wf_hash h \<longleftrightarrow> length (hash_as_bytes h) = 32"

text \<open>Copying the first \<open>min(len, 32)\<close> bytes of a slice into a zeroed array.\<close>

definition copy_into_zeroed :: "nat \<Rightarrow> u8 list \<Rightarrow> u8 list" where
  "copy_into_zeroed n src =
     (let len = min (length src) n in take len src @ replicate (n - len) 0)"

definition hash_zero :: hash256 where
  "hash_zero = Hash256 (replicate 32 0)"

definition from_slice :: "u8 list \<Rightarrow> hash256" where
  "from_slice src = Hash256 (copy_into_zeroed 32 src)"

definition hash_to_hex :: "externs \<Rightarrow> hash256 \<Rightarrow> rstr" where
  "hash_to_hex X h = hex_encode X (hash_as_bytes h)"

definition hash_from_hex :: "externs \<Rightarrow> rstr \<Rightarrow> hash256 option" where
  "hash_from_hex X s = map_option (\<lambda>bytes. Hash256 (copy_into_zeroed 32 bytes)) (hex_decode X s)"

definition hash_bytes :: "externs \<Rightarrow> u8 list \<Rightarrow> hash256" where
  "hash_bytes X data = from_slice (sha256 X data)"

definition double_hash :: "externs \<Rightarrow> u8 list \<Rightarrow> hash256" where
  "double_hash X data = hash_bytes X (hash_as_bytes (hash_bytes X data))"

definition combine_hashes :: "externs \<Rightarrow> hash256 \<Rightarrow> hash256 \<Rightarrow> hash256" where
  "combine_hashes X left right = hash_bytes X (hash_as_bytes left @ hash_as_bytes right)"

text \<open>The derived \<open>Ord\<close> of a newtype over a byte array is lexicographic.\<close>

instantiation hash256 :: linorder
begin

definition less_eq_hash256 :: "hash256 \<Rightarrow> hash256 \<Rightarrow> bool" where
  "less_eq_hash256 a b \<longleftrightarrow> hash_as_bytes a \<le> hash_as_bytes b"

definition less_hash256 :: "hash256 \<Rightarrow> hash256 \<Rightarrow> bool" where
  "less_hash256 a b \<longleftrightarrow> hash_as_bytes a < hash_as_bytes b"

instance
  by standard (auto simp: less_eq_hash256_def less_hash256_def intro: hash256.expand)

end

subsection \<open>Addresses\<close>

datatype address = Address (addr_bytes: "u8 list")

definition wf_addr :: "address \<Rightarrow> bool" where
  "wf_addr a \<longleftrightarrow> length (addr_bytes a) = 20"

instantiation address :: linorder
begin

definition less_eq_address :: "address \<Rightarrow> address \<Rightarrow> bool" where
  "less_eq_address a b \<longleftrightarrow> addr_bytes a \<le> addr_bytes b"

definition less_address :: "address \<Rightarrow> address \<Rightarrow> bool" where
  "less_address a b \<longleftrightarrow> addr_bytes a < addr_bytes b"

instance
  by standard (auto simp: less_eq_address_def less_address_def intro: address.expand)

end

datatype key_error = InvalidHex | InvalidAddressLength nat | MissingPrefix | UnexpectedPrefix
  | InvalidPublicKey | InvalidSignature

definition ADDRESS_PREFIX :: rstr where
  "ADDRESS_PREFIX = lit ''zn1''"

datatype public_key = PublicKey (pk_bytes: "u8 list")
datatype signature = Signature (sig_bytes: "u8 list")
datatype keypair = Keypair (secret_bytes: "u8 list")

definition wf_pk :: "externs \<Rightarrow> public_key \<Rightarrow> bool" where
  "wf_pk X k \<longleftrightarrow> length (pk_bytes k) = 32 \<and> ed_valid_key X (pk_bytes k)"

definition wf_sig :: "signature \<Rightarrow> bool" where
  "wf_sig s \<longleftrightarrow> length (sig_bytes s) = 64"

definition wf_keypair :: "keypair \<Rightarrow> bool" where
  "wf_keypair k \<longleftrightarrow> length (secret_bytes k) = 32"

definition from_public_key :: "externs \<Rightarrow> public_key \<Rightarrow> address" where
  "from_public_key X pubkey = Address (take 20 (drop 12 (sha256 X (pk_bytes pubkey))))"

definition decode_raw_hex_body :: "externs \<Rightarrow> rstr \<Rightarrow> key_error + address" where
  "decode_raw_hex_body X s =
     (case hex_decode X s of
        None \<Rightarrow> Err InvalidHex
      | Some bytes \<Rightarrow>
          if length bytes \<noteq> 20 then Err (InvalidAddressLength (length bytes))
          else Ok (Address bytes))"

definition addr_from_hex :: "externs \<Rightarrow> rstr \<Rightarrow> key_error + address" where
  "addr_from_hex X s =
     (case strip_prefix s ADDRESS_PREFIX of
        None \<Rightarrow> Err MissingPrefix
      | Some raw_hex \<Rightarrow> decode_raw_hex_body X raw_hex)"

definition addr_from_raw_hex :: "externs \<Rightarrow> rstr \<Rightarrow> key_error + address" where
  "addr_from_raw_hex X s =
     (if starts_with s ADDRESS_PREFIX then Err UnexpectedPrefix else decode_raw_hex_body X s)"

definition system_address :: "u8 \<Rightarrow> address" where
  "system_address b = Address ((replicate 20 0)[19 := b])"

definition treasury :: address where "treasury = system_address 1"
definition ecosystem_fund :: address where "ecosystem_fund = system_address 2"
definition distribution_fund :: address where "distribution_fund = system_address 3"
definition foundation :: address where "foundation = system_address 4"
definition addr_zero :: address where "addr_zero = Address (replicate 20 0)"

definition to_raw_hex :: "externs \<Rightarrow> address \<Rightarrow> rstr" where
  "to_raw_hex X a = hex_encode X (addr_bytes a)"

definition addr_to_hex :: "externs \<Rightarrow> address \<Rightarrow> rstr" where
  "addr_to_hex X a = ADDRESS_PREFIX @ to_raw_hex X a"

subsection \<open>Keys and signatures\<close>

definition pk_from_bytes :: "externs \<Rightarrow> u8 list \<Rightarrow> key_error + public_key" where
  "pk_from_bytes X bytes = (if ed_valid_key X bytes then Ok (PublicKey bytes) else Err InvalidPublicKey)"

definition pk_verify :: "externs \<Rightarrow> public_key \<Rightarrow> u8 list \<Rightarrow> signature \<Rightarrow> key_error + unit" where
  "pk_verify X k message sig =
     (if ed_verify X (pk_bytes k) message (sig_bytes sig) then Ok () else Err InvalidSignature)"

definition sig_from_bytes :: "u8 list \<Rightarrow> key_error + signature" where
  "sig_from_bytes bytes = Ok (Signature bytes)"

definition from_secret_bytes :: "u8 list \<Rightarrow> keypair" where
  "from_secret_bytes bytes = Keypair bytes"

definition kp_public_key :: "externs \<Rightarrow> keypair \<Rightarrow> public_key" where
  "kp_public_key X k = PublicKey (ed_public X (secret_bytes k))"

definition kp_address :: "externs \<Rightarrow> keypair \<Rightarrow> address" where
  "kp_address X k = from_public_key X (kp_public_key X k)"

definition kp_sign :: "externs \<Rightarrow> keypair \<Rightarrow> u8 list \<Rightarrow> signature" where
  "kp_sign X k message = Signature (ed_sign X (secret_bytes k) message)"

text \<open>\<open>fixed_bytes_serde\<close>: hexadecimal text for human-readable formats (the length is
  checked), the bare bytes for binary formats.\<close>

definition fixed_bytes_human :: "externs \<Rightarrow> u8 list \<Rightarrow> rstr" where
  "fixed_bytes_human X bytes = hex_encode X bytes"

definition fixed_bytes_from_human :: "externs \<Rightarrow> nat \<Rightarrow> rstr \<Rightarrow> u8 list option" where
  "fixed_bytes_from_human X n s =
     (case hex_decode X s of
        None \<Rightarrow> None
      | Some decoded \<Rightarrow> if length decoded = n then Some decoded else None)"

definition fixed_bytes_from_binary :: "nat \<Rightarrow> u8 list \<Rightarrow> (u8 list \<times> u8 list) option" where
  "fixed_bytes_from_binary n input =
     (if length input < n then None else Some (take n input, drop n input))"

text \<open>How collision-freeness on two preimages is used.\<close>

lemma hash_bytes_eq_iff:
  "inj_on (hash_bytes X) {a, b} \<Longrightarrow> hash_bytes X a = hash_bytes X b \<longleftrightarrow> a = b"
  by (auto dest: inj_onD)

subsection \<open>A concrete instance of the external functions\<close>

definition hex_digit :: "nat \<Rightarrow> rchar" where
  "hex_digit n = (if n < 10 then 0x30 + n else 0x61 + (n - 10))"

definition unhex_digit :: "rchar \<Rightarrow> nat option" where
  "unhex_digit c =
     (if 0x30 \<le> c \<and> c \<le> 0x39 then Some (c - 0x30)
      else if 0x61 \<le> c \<and> c \<le> 0x66 then Some (c - 0x61 + 10)
      else if 0x41 \<le> c \<and> c \<le> 0x46 then Some (c - 0x41 + 10) else None)"

fun demo_hex_encode :: "u8 list \<Rightarrow> rstr" where
  "demo_hex_encode [] = []"
| "demo_hex_encode (b # bs) =
     hex_digit (unat b div 16) # hex_digit (unat b mod 16) # demo_hex_encode bs"

fun demo_hex_decode :: "rstr \<Rightarrow> u8 list option" where
  "demo_hex_decode [] = Some []"
| "demo_hex_decode [c] = None"
| "demo_hex_decode (c # d # s) =
     (case (unhex_digit c, unhex_digit d, demo_hex_decode s) of
        (Some h, Some l, Some bs) \<Rightarrow> Some (of_nat (16 * h + l) # bs)
      | _ \<Rightarrow> None)"

definition demo_externs :: externs where
  "demo_externs =
     \<lparr>sha256 = copy_into_zeroed 32, hex_encode = demo_hex_encode, hex_decode = demo_hex_decode,
      ed_public = (\<lambda>sk. sk), ed_valid_key = (\<lambda>pk. length pk = 32),
      ed_sign = (\<lambda>sk m. copy_into_zeroed 64 (sk @ m)),
      ed_verify = (\<lambda>pk m sig. sig = copy_into_zeroed 64 (pk @ m))\<rparr>"

lemma length_copy_into_zeroed [simp]: "length (copy_into_zeroed n s) = n"
  by (simp add: copy_into_zeroed_def Let_def)

lemma copy_into_zeroed_exact [simp]: "length s = n \<Longrightarrow> copy_into_zeroed n s = s"
  by (simp add: copy_into_zeroed_def Let_def)

lemma unhex_hex_digit: "n < 16 \<Longrightarrow> unhex_digit (hex_digit n) = Some n"
  by (auto simp: unhex_digit_def hex_digit_def)

lemma demo_hex_roundtrip: "demo_hex_decode (demo_hex_encode b) = Some b"
proof (induction b)
  case Nil
  then show ?case by simp
next
  case (Cons x xs)
  have "unat x < 256" using unsigned_less [of x, where ?'a = nat] by simp
  then have "unat x div 16 < 16" "unat x mod 16 < 16" by auto
  with Cons show ?case by (simp add: unhex_hex_digit)
qed

lemma demo_hex_chars:
  "list_all (\<lambda>c. is_ascii_digit c \<or> 0x61 \<le> c \<and> c \<le> 0x66) (demo_hex_encode b)"
proof (induction b)
  case Nil
  then show ?case by simp
next
  case (Cons x xs)
  have "unat x < 256" using unsigned_less [of x, where ?'a = nat] by simp
  then have "unat x div 16 < 16" "unat x mod 16 < 16" by auto
  with Cons show ?case by (auto simp: hex_digit_def is_ascii_digit_def)
qed

lemma length_demo_hex: "length (demo_hex_encode b) = 2 * length b"
  by (induction b) auto

lemma demo_sha256_ok [simp]: "sha256_ok demo_externs"
  by (simp add: sha256_ok_def demo_externs_def)

lemma demo_hex_ok [simp]: "hex_ok demo_externs"
  by (simp add: hex_ok_def demo_externs_def demo_hex_roundtrip demo_hex_chars length_demo_hex)

lemma demo_ed25519_ok [simp]: "ed25519_ok demo_externs"
  by (simp add: ed25519_ok_def demo_externs_def)

text \<open>A variant whose hash separates one message from all others, for hypotheses that exclude
  a collision between two messages.\<close>

definition tag_externs :: "u8 list \<Rightarrow> externs" where
  "tag_externs m =
     demo_externs\<lparr>sha256 := (\<lambda>x. if x = m then replicate 32 1 else replicate 32 0)\<rparr>"

lemma tag_sha256_ok [simp]: "sha256_ok (tag_externs m)"
  by (simp add: sha256_ok_def tag_externs_def)

lemma tag_hex_ok [simp]: "hex_ok (tag_externs m)"
  using demo_hex_ok by (simp add: hex_ok_def tag_externs_def)

lemma tag_ed25519_ok [simp]: "ed25519_ok (tag_externs m)"
  using demo_ed25519_ok by (simp add: ed25519_ok_def tag_externs_def)

lemma tag_hash_eq:
  "hash_bytes (tag_externs m) x
     = (if x = m then Hash256 (replicate 32 1) else Hash256 (replicate 32 0))"
  by (simp add: hash_bytes_def from_slice_def tag_externs_def copy_into_zeroed_def)

lemma tag_inj_on [simp]:
  "inj_on (hash_bytes (tag_externs m)) {m, x}" "inj_on (hash_bytes (tag_externs m)) {x, m}"
  by (auto simp: inj_on_def tag_hash_eq numeral_eq_Suc)

subsection \<open>Hashes\<close>

lemma wf_from_slice [simp]: "wf_hash (from_slice s)"
  by (simp add: wf_hash_def from_slice_def)

lemma wf_hash_bytes [simp]: "wf_hash (hash_bytes X m)"
  by (simp add: hash_bytes_def)

lemma wf_combine_hashes [simp]: "wf_hash (combine_hashes X a b)"
  by (simp add: combine_hashes_def)

lemma length_hash_bytes [simp]: "length (hash_as_bytes (hash_bytes X m)) = 32"
  using wf_hash_bytes [of X m] by (simp add: wf_hash_def)

lemma hash_bytes_eq: "sha256_ok X \<Longrightarrow> hash_bytes X m = Hash256 (sha256 X m)"
  by (simp add: hash_bytes_def from_slice_def sha256_ok_def)

lemma combine_preimage_inj:
  assumes "wf_hash a" "wf_hash a'"
  shows "hash_as_bytes a @ hash_as_bytes b = hash_as_bytes a' @ hash_as_bytes b'
         \<longleftrightarrow> a = a' \<and> b = b'"
  using assms by (simp add: append_eq_same_len wf_hash_def) (metis hash256.expand)

subsection \<open>Text forms\<close>

lemma hash_hex_roundtrip:
  "hex_ok X \<Longrightarrow> wf_hash h \<Longrightarrow> hash_from_hex X (hash_to_hex X h) = Some h"
  by (cases h) (simp add: hash_from_hex_def hash_to_hex_def hex_ok_def wf_hash_def)

lemma addr_hex_roundtrip_lemma:
  "hex_ok X \<Longrightarrow> wf_addr a \<Longrightarrow> addr_from_hex X (addr_to_hex X a) = Ok a"
  by (cases a)
    (simp add: addr_from_hex_def addr_to_hex_def decode_raw_hex_body_def to_raw_hex_def
      hex_ok_def wf_addr_def)

lemma hex_not_prefixed:
  assumes "hex_ok X"
  shows "\<not> starts_with (hex_encode X b) ADDRESS_PREFIX"
proof
  assume "starts_with (hex_encode X b) ADDRESS_PREFIX"
  then obtain t where "hex_encode X b = lit ''zn1'' @ t"
    by (auto simp: starts_with_iff ADDRESS_PREFIX_def)
  moreover have "list_all (\<lambda>c. is_ascii_digit c \<or> 0x61 \<le> c \<and> c \<le> 0x66) (hex_encode X b)"
    using assms by (simp add: hex_ok_def)
  ultimately show False by (simp add: is_ascii_digit_def)
qed

lemma addr_raw_hex_roundtrip:
  "hex_ok X \<Longrightarrow> wf_addr a \<Longrightarrow> addr_from_raw_hex X (to_raw_hex X a) = Ok a"
  by (cases a)
    (simp add: addr_from_raw_hex_def to_raw_hex_def hex_not_prefixed decode_raw_hex_body_def
      hex_ok_def wf_addr_def)

lemma decode_raw_hex_body_wf: "decode_raw_hex_body X s = Ok a \<Longrightarrow> wf_addr a"
  by (auto simp: decode_raw_hex_body_def wf_addr_def split: option.splits if_splits)

text \<open>A key pair's signatures verify under its own public key.\<close>

lemma sign_verify:
  "ed25519_ok X \<Longrightarrow> wf_keypair k \<Longrightarrow> pk_verify X (kp_public_key X k) m (kp_sign X k m) = Ok ()"
  by (simp add: ed25519_ok_def wf_keypair_def pk_verify_def kp_public_key_def kp_sign_def)

lemma wf_kp_public_key: "ed25519_ok X \<Longrightarrow> wf_keypair k \<Longrightarrow> wf_pk X (kp_public_key X k)"
  by (simp add: ed25519_ok_def wf_keypair_def wf_pk_def kp_public_key_def)

lemma wf_kp_sign: "ed25519_ok X \<Longrightarrow> wf_keypair k \<Longrightarrow> wf_sig (kp_sign X k m)"
  by (simp add: ed25519_ok_def wf_keypair_def wf_sig_def kp_sign_def)

lemma wf_from_public_key: "sha256_ok X \<Longrightarrow> wf_addr (from_public_key X k)"
  by (simp add: sha256_ok_def wf_addr_def from_public_key_def)

end
