(* ===== verification/Merkle.thy ===== *)
theory Merkle
  imports Crypto
begin

text \<open>
  Merkle trees over leaf hashes (\<open>crypto/merkle.rs\<close>): construction of all layers, the
  root-only reduction that overwrites its buffer, inclusion proofs and their verification.

  The lemmas relate the layers to one another (\<open>nth_next_layer\<close>), show that every proof the
  tree hands out verifies, that the in-place reduction computes the same root, and that,
  where the hash has no collision on the preimages involved, a root determines its leaves
  and a proof determines the leaf it speaks about.
\<close>

subsection \<open>Trees and proofs\<close>

record merkle_tree =
  mt_layers :: "hash256 list list"

record merkle_proof =
  mp_leaf :: hash256
  mp_siblings :: "(hash256 \<times> bool) list"
  mp_root :: hash256

text \<open>The inner loop: pairs from the left, the last element paired with itself when odd.\<close>

fun next_layer :: "externs \<Rightarrow> hash256 list \<Rightarrow> hash256 list" where
  "next_layer X [] = []"
| "next_layer X [left] = [combine_hashes X left left]"
| "next_layer X (left # right # rest) = combine_hashes X left right # next_layer X rest"

lemma length_next_layer [simp]: "length (next_layer X hs) = (length hs + 1) div 2"
  by (induction X hs rule: next_layer.induct) auto

lemma next_layer_eq_Nil [simp]: "next_layer X hs = [] \<longleftrightarrow> hs = []"
  by (cases "(X, hs)" rule: next_layer.cases) auto

text \<open>The outer loop, from the current layer to the root. It is entered with at least one
  leaf, and stops when one hash is left.\<close>

function build_layers :: "externs \<Rightarrow> hash256 list \<Rightarrow> hash256 list list" where
  "build_layers X current =
     (if length current \<le> 1 then [current]
      else current # build_layers X (next_layer X current))"
  by pat_completeness auto
termination
  by (relation "measure (\<lambda>(X, current). length current)") auto

declare build_layers.simps [simp del]

definition EMPTY_TAG :: "u8 list" where
  "EMPTY_TAG = utf8 (lit ''empty'')"

definition from_hashes :: "externs \<Rightarrow> hash256 list \<Rightarrow> merkle_tree" where
  "from_hashes X leaves =
     (if leaves = [] then \<lparr>mt_layers = [[hash_bytes X EMPTY_TAG]]\<rparr>
      else \<lparr>mt_layers = build_layers X leaves\<rparr>)"

definition from_data :: "externs \<Rightarrow> u8 list list \<Rightarrow> merkle_tree" where
  "from_data X items = from_hashes X (map (hash_bytes X) items)"

definition root :: "merkle_tree \<Rightarrow> hash256" where
  "root t =
     (if mt_layers t = [] then hash_zero
      else (case last (mt_layers t) of [] \<Rightarrow> hash_zero | h # _ \<Rightarrow> h))"

definition leaf_count :: "merkle_tree \<Rightarrow> nat" where
  "leaf_count t = (case mt_layers t of [] \<Rightarrow> 0 | l # _ \<Rightarrow> length l)"

text \<open>The sibling of \<open>idx\<close> in one layer, and the walk over all layers but the last.\<close>

definition layer_sibling :: "hash256 list \<Rightarrow> nat \<Rightarrow> hash256 \<times> bool" where
  "layer_sibling layer idx =
     (let sibling_idx = (if idx mod 2 = 0 then idx + 1 else idx - 1);
          sibling = (if sibling_idx < length layer then layer ! sibling_idx else layer ! idx)
      in (sibling, idx mod 2 = 0))"

fun proof_siblings :: "hash256 list list \<Rightarrow> nat \<Rightarrow> (hash256 \<times> bool) list" where
  "proof_siblings [] idx = []"
| "proof_siblings (layer # layers) idx =
     (if layers = [] then []
      else layer_sibling layer idx # proof_siblings layers (idx div 2))"

definition merkle_proof_of :: "merkle_tree \<Rightarrow> nat \<Rightarrow> merkle_proof option" where
  "merkle_proof_of t leaf_index =
     (if leaf_count t \<le> leaf_index then None
      else Some \<lparr>mp_leaf = hd (mt_layers t) ! leaf_index,
                 mp_siblings = proof_siblings (mt_layers t) leaf_index,
                 mp_root = root t\<rparr>)"

definition proof_step :: "externs \<Rightarrow> hash256 \<Rightarrow> hash256 \<times> bool \<Rightarrow> hash256" where
  "proof_step X current sb =
     (if snd sb then combine_hashes X current (fst sb) else combine_hashes X (fst sb) current)"

definition verify_proof :: "externs \<Rightarrow> merkle_proof \<Rightarrow> bool" where
  "verify_proof X p \<longleftrightarrow> foldl (proof_step X) (mp_leaf p) (mp_siblings p) = mp_root p"

text \<open>\<open>root_from_hashes_in_place\<close>: one level overwrites a prefix of the buffer, reading
  each pair before its slot is written, then truncates.\<close>

definition in_place_write :: "externs \<Rightarrow> nat \<Rightarrow> hash256 list \<Rightarrow> nat \<Rightarrow> hash256 list" where
  "in_place_write X width hashes write_index =
     (let left_index = write_index * 2;
          right_index = min (left_index + 1) (width - 1)
      in hashes[write_index := combine_hashes X (hashes ! left_index) (hashes ! right_index)])"

definition in_place_level :: "externs \<Rightarrow> hash256 list \<Rightarrow> hash256 list" where
  "in_place_level X hashes =
     (let width = length hashes;
          next_width = (width + 1) div 2
      in take next_width (foldl (in_place_write X width) hashes [0..<next_width]))"

lemma length_in_place_writes [simp]:
  "length (foldl (in_place_write X w) hs is) = length hs"
  by (induction "is" arbitrary: hs) (auto simp: in_place_write_def Let_def)

lemma length_in_place_level: "length (in_place_level X hs) = (length hs + 1) div 2"
  by (simp add: in_place_level_def Let_def)

function in_place_loop :: "externs \<Rightarrow> hash256 list \<Rightarrow> hash256 list" where
  "in_place_loop X hashes =
     (if length hashes \<le> 1 then hashes else in_place_loop X (in_place_level X hashes))"
  by pat_completeness auto
termination
  by (relation "measure (\<lambda>(X, hashes). length hashes)") (auto simp: length_in_place_level)

declare in_place_loop.simps [simp del]

definition root_from_hashes_in_place :: "externs \<Rightarrow> hash256 list \<Rightarrow> hash256 \<times> hash256 list" where
  "root_from_hashes_in_place X hashes =
     (if hashes = [] then (hash_bytes X EMPTY_TAG, hashes)
      else let hashes' = in_place_loop X hashes in (hashes' ! 0, hashes'))"

definition root_from_hashes_owned :: "externs \<Rightarrow> hash256 list \<Rightarrow> hash256" where
  "root_from_hashes_owned X hashes = fst (root_from_hashes_in_place X hashes)"

subsection \<open>Layers\<close>

lemma build_layers_not_Nil [simp]: "build_layers X hs \<noteq> []"
  by (subst build_layers.simps) simp

lemma hd_build_layers [simp]: "hd (build_layers X hs) = hs"
  by (subst build_layers.simps) simp

lemma build_layers_single: "length hs \<le> 1 \<Longrightarrow> build_layers X hs = [hs]"
  by (subst build_layers.simps) simp

lemma build_layers_step:
  "1 < length hs \<Longrightarrow> build_layers X hs = hs # build_layers X (next_layer X hs)"
  by (subst build_layers.simps) simp

definition tree_root :: "externs \<Rightarrow> hash256 list \<Rightarrow> hash256" where
  "tree_root X hs = hd (last (build_layers X hs))"

lemma tree_root_single: "tree_root X [h] = h"
  by (simp add: tree_root_def build_layers_single)

lemma tree_root_step: "1 < length hs \<Longrightarrow> tree_root X hs = tree_root X (next_layer X hs)"
  by (simp add: tree_root_def build_layers_step)

lemma length_last_build_layers: "hs \<noteq> [] \<Longrightarrow> length (last (build_layers X hs)) = 1"
proof (induction "length hs" arbitrary: hs rule: less_induct)
  case less
  show ?case
  proof (cases "1 < length hs")
    case True
    then have "next_layer X hs \<noteq> []" by auto
    moreover have "length (next_layer X hs) < length hs" using True by simp
    ultimately show ?thesis using less.hyps [of "next_layer X hs"] True
      by (simp add: build_layers_step)
  next
    case False
    with less.prems have "length hs = 1" by (cases hs) auto
    then show ?thesis by (simp add: build_layers_single)
  qed
qed

lemma root_from_hashes: "leaves \<noteq> [] \<Longrightarrow> root (from_hashes X leaves) = tree_root X leaves"
  using length_last_build_layers [of leaves X]
  by (auto simp: root_def from_hashes_def tree_root_def split: list.splits)

lemma nth_next_layer:
  assumes "i < length (next_layer X hs)"
  shows "next_layer X hs ! i
         = combine_hashes X (hs ! (2 * i)) (hs ! (min (2 * i + 1) (length hs - 1)))"
  using assms
proof (induction X hs arbitrary: i rule: next_layer.induct)
  case (3 X l r rest)
  show ?case
  proof (cases i)
    case 0
    then show ?thesis by simp
  next
    case (Suc j)
    with 3 have j: "j < length (next_layer X rest)" by simp
    then have "rest \<noteq> []" by auto
    then have "min (2 * i + 1) (length (l # r # rest) - 1) = 2 + min (2 * j + 1) (length rest - 1)"
      using Suc by (cases rest) auto
    with 3(1) [OF j] Suc show ?thesis by simp
  qed
qed auto

subsection \<open>Proofs of a tree\<close>

lemma proof_siblings_build:
  "proof_siblings (build_layers X hs) i =
     (if length hs \<le> 1 then []
      else layer_sibling hs i # proof_siblings (build_layers X (next_layer X hs)) (i div 2))"
  by (subst build_layers.simps) simp

lemma proof_step_layer_sibling:
  assumes "i < length hs" "1 < length hs"
  shows "proof_step X (hs ! i) (layer_sibling hs i) = next_layer X hs ! (i div 2)"
proof -
  have bound: "i div 2 < length (next_layer X hs)" using assms by simp
  show ?thesis
  proof (cases "even i")
    case True
    then have "2 * (i div 2) = i" by simp
    moreover have "min (i + 1) (length hs - 1) = (if i + 1 < length hs then i + 1 else i)"
      using assms by auto
    ultimately show ?thesis using True nth_next_layer [OF bound]
      by (simp add: proof_step_def layer_sibling_def Let_def)
  next
    case False
    then have "2 * (i div 2) = i - 1" "2 * (i div 2) + 1 = i" "0 < i" "i mod 2 = 1"
      by (auto elim: oddE simp: odd_iff_mod_2_eq_one)
    moreover have "min i (length hs - 1) = i" "i - 1 < length hs" using assms by auto
    ultimately show ?thesis using nth_next_layer [OF bound]
      by (simp add: proof_step_def layer_sibling_def Let_def)
  qed
qed

lemma proof_siblings_fold:
  "i < length hs \<Longrightarrow>
   foldl (proof_step X) (hs ! i) (proof_siblings (build_layers X hs) i) = tree_root X hs"
proof (induction "length hs" arbitrary: hs i rule: less_induct)
  case less
  show ?case
  proof (cases "1 < length hs")
    case True
    have "i div 2 < length (next_layer X hs)" "length (next_layer X hs) < length hs"
      using less.prems True by auto
    with less.hyps [of "next_layer X hs" "i div 2"] True less.prems show ?thesis
      by (simp add: proof_siblings_build proof_step_layer_sibling tree_root_step)
  next
    case False
    with less.prems obtain h where "hs = [h]" by (cases hs) auto
    with less.prems show ?thesis by (simp add: proof_siblings_build tree_root_single)
  qed
qed

lemma leaf_count_from_hashes: "leaves \<noteq> [] \<Longrightarrow> leaf_count (from_hashes X leaves) = length leaves"
  by (simp add: leaf_count_def from_hashes_def build_layers.simps [of X leaves])

lemma merkle_proof_of_from_hashes:
  assumes "i < length leaves"
  shows "merkle_proof_of (from_hashes X leaves) i =
           Some \<lparr>mp_leaf = leaves ! i, mp_siblings = proof_siblings (build_layers X leaves) i,
                 mp_root = tree_root X leaves\<rparr>"
proof -
  from assms have "leaves \<noteq> []" by auto
  with assms root_from_hashes [of leaves X] leaf_count_from_hashes [of leaves X] show ?thesis
    by (simp add: merkle_proof_of_def) (simp add: from_hashes_def)
qed

subsection \<open>The in-place reduction\<close>

lemma in_place_writes:
  "k \<le> (length hs + 1) div 2 \<Longrightarrow>
   foldl (in_place_write X (length hs)) hs [0..<k] = take k (next_layer X hs) @ drop k hs"
proof (induction k)
  case 0
  then show ?case by simp
next
  case (Suc k)
  let ?L = "take k (next_layer X hs) @ drop k hs"
  let ?r = "min (2 * k + 1) (length hs - 1)"
  from Suc.prems have k: "k < length (next_layer X hs)" "2 * k < length hs" by auto
  have len: "length (take k (next_layer X hs)) = k" using k by simp
  have "?L ! (k * 2) = hs ! (2 * k)" "?L ! ?r = hs ! ?r"
    using k len by (auto simp: nth_append mult_2_right [symmetric] mult.commute [of k 2] min_def)
  then have "in_place_write X (length hs) ?L k = ?L[k := next_layer X hs ! k]"
    by (simp add: in_place_write_def Let_def nth_next_layer [OF k(1)] mult.commute)
  also have "\<dots> = take k (next_layer X hs) @ (drop k hs)[0 := next_layer X hs ! k]"
    using len by (simp add: list_update_append)
  also have "(drop k hs)[0 := next_layer X hs ! k] = next_layer X hs ! k # drop (Suc k) hs"
    using k by (cases "drop k hs") (auto simp: drop_Suc drop_tl dest: arg_cong [of _ _ tl])
  finally show ?case using Suc k by (simp add: take_Suc_conv_app_nth)
qed

lemma in_place_level_eq: "in_place_level X hs = next_layer X hs"
  by (simp add: in_place_level_def Let_def in_place_writes)

lemma in_place_loop_root: "hs \<noteq> [] \<Longrightarrow> in_place_loop X hs = [tree_root X hs]"
proof (induction "length hs" arbitrary: hs rule: less_induct)
  case less
  show ?case
  proof (cases "1 < length hs")
    case True
    with less.hyps [of "next_layer X hs"] less.prems show ?thesis
      by (simp add: in_place_loop.simps [of X hs] in_place_level_eq tree_root_step)
  next
    case False
    with less.prems obtain h where "hs = [h]" by (cases hs) auto
    then show ?thesis by (simp add: in_place_loop.simps [of X "[h]"] tree_root_single)
  qed
qed

lemma root_from_hashes_owned_eq:
  "root_from_hashes_owned X hs = root (from_hashes X hs)"
proof (cases "hs = []")
  case True
  then show ?thesis
    by (simp add: root_from_hashes_owned_def root_from_hashes_in_place_def from_hashes_def root_def)
next
  case False
  then show ?thesis
    by (simp add: root_from_hashes_owned_def root_from_hashes_in_place_def in_place_loop_root
        root_from_hashes Let_def)
qed

subsection \<open>Binding\<close>

text \<open>The preimages hashed while building a layer, a whole tree, or replaying a proof.\<close>

fun layer_preimages :: "hash256 list \<Rightarrow> u8 list list" where
  "layer_preimages [] = []"
| "layer_preimages [l] = [hash_as_bytes l @ hash_as_bytes l]"
| "layer_preimages (l # r # rest) = (hash_as_bytes l @ hash_as_bytes r) # layer_preimages rest"

definition tree_preimages :: "externs \<Rightarrow> hash256 list \<Rightarrow> u8 list set" where
  "tree_preimages X hs = set (concat (map layer_preimages (butlast (build_layers X hs))))"

fun path_preimages :: "externs \<Rightarrow> hash256 \<Rightarrow> (hash256 \<times> bool) list \<Rightarrow> u8 list list" where
  "path_preimages X h [] = []"
| "path_preimages X h (sb # sbs) =
     (if snd sb then hash_as_bytes h @ hash_as_bytes (fst sb)
      else hash_as_bytes (fst sb) @ hash_as_bytes h)
     # path_preimages X (proof_step X h sb) sbs"

definition wf_proof :: "merkle_proof \<Rightarrow> bool" where
  "wf_proof p \<longleftrightarrow> wf_hash (mp_leaf p) \<and> list_all (\<lambda>sb. wf_hash (fst sb)) (mp_siblings p)"

lemma next_layer_preimages: "next_layer X hs = map (hash_bytes X) (layer_preimages hs)"
  by (induction X hs rule: next_layer.induct) (auto simp: combine_hashes_def)

lemma wf_next_layer [simp]: "list_all wf_hash (next_layer X hs)"
  by (simp add: next_layer_preimages list_all_iff)

lemma layer_preimages_inj:
  "layer_preimages hs = layer_preimages ks \<Longrightarrow> length hs = length ks \<Longrightarrow>
   list_all wf_hash hs \<Longrightarrow> list_all wf_hash ks \<Longrightarrow> hs = ks"
proof (induction hs arbitrary: ks rule: layer_preimages.induct)
  case 1
  then show ?case by simp
next
  case (2 l)
  then obtain k where "ks = [k]" by (cases ks) auto
  with 2 show ?case by (auto simp: combine_preimage_inj)
next
  case (3 l r rest)
  then obtain l' r' rest' where ks: "ks = l' # r' # rest'"
    by (metis length_Suc_conv)
  with 3 show ?case by (auto simp: combine_preimage_inj)
qed

lemma tree_preimages_step:
  "1 < length hs \<Longrightarrow>
   tree_preimages X hs = set (layer_preimages hs) \<union> tree_preimages X (next_layer X hs)"
  by (simp add: tree_preimages_def build_layers_step)

lemma tree_root_inj:
  "tree_root X hs = tree_root X ks \<Longrightarrow> length hs = length ks \<Longrightarrow> hs \<noteq> [] \<Longrightarrow>
   list_all wf_hash hs \<Longrightarrow> list_all wf_hash ks \<Longrightarrow>
   inj_on (hash_bytes X) (tree_preimages X hs \<union> tree_preimages X ks) \<Longrightarrow> hs = ks"
proof (induction "length hs" arbitrary: hs ks rule: less_induct)
  case less
  show ?case
  proof (cases "1 < length hs")
    case True
    let ?h = "next_layer X hs" and ?k = "next_layer X ks"
    have inj: "inj_on (hash_bytes X) (tree_preimages X ?h \<union> tree_preimages X ?k)"
      and inj': "inj_on (hash_bytes X) (set (layer_preimages hs) \<union> set (layer_preimages ks))"
      using less.prems(2,6) True
      by (auto simp: tree_preimages_step intro: inj_on_subset)
    have "?h = ?k"
      using less.hyps [of ?h ?k] less.prems True inj by (auto simp: tree_root_step)
    with inj' have "layer_preimages hs = layer_preimages ks"
      by (simp add: next_layer_preimages inj_on_map_eq_map)
    then show ?thesis using less.prems by (intro layer_preimages_inj)
  next
    case False
    with less.prems obtain h k where "hs = [h]" "ks = [k]"
      by (metis One_nat_def length_0_conv length_Suc_conv less_one linorder_neqE_nat)
    with less.prems show ?thesis by (simp add: tree_root_single)
  qed
qed

lemma wf_proof_step: "wf_hash (proof_step X h sb)"
  by (simp add: proof_step_def)

lemma path_binding:
  "foldl (proof_step X) h sbs = foldl (proof_step X) k tbs \<Longrightarrow> map snd sbs = map snd tbs \<Longrightarrow>
   wf_hash h \<Longrightarrow> wf_hash k \<Longrightarrow> list_all (\<lambda>sb. wf_hash (fst sb)) sbs \<Longrightarrow>
   list_all (\<lambda>sb. wf_hash (fst sb)) tbs \<Longrightarrow>
   inj_on (hash_bytes X) (set (path_preimages X h sbs) \<union> set (path_preimages X k tbs)) \<Longrightarrow>
   h = k \<and> sbs = tbs"
proof (induction sbs arbitrary: h k tbs)
  case Nil
  then show ?case by simp
next
  case (Cons s sbs)
  then obtain t tbs' where tbs: "tbs = t # tbs'" by (cases tbs) auto
  have sub: "inj_on (hash_bytes X) (set (path_preimages X (proof_step X h s) sbs)
      \<union> set (path_preimages X (proof_step X k t) tbs'))"
    using Cons.prems(7) by (rule inj_on_subset) (auto simp: tbs)
  have eq: "proof_step X h s = proof_step X k t \<and> sbs = tbs'"
    using Cons.prems(1,2,5,6) sub unfolding tbs
    by (intro Cons.IH) (simp_all add: wf_proof_step)
  let ?p = "hd (path_preimages X h (s # sbs))" and ?q = "hd (path_preimages X k tbs)"
  have "hash_bytes X ?p = hash_bytes X ?q"
    using eq by (simp add: tbs proof_step_def combine_hashes_def split: if_splits)
  then have "?p = ?q"
    by (rule inj_onD [OF Cons.prems(7)]) (simp_all add: tbs)
  with Cons.prems(2-6) have "h = k \<and> fst s = fst t"
    by (cases "snd s") (simp_all add: tbs combine_preimage_inj)
  with Cons.prems(2) tbs eq show ?case by (simp add: prod_eq_iff)
qed

lemma wf_layer_sibling: "list_all wf_hash hs \<Longrightarrow> i < length hs \<Longrightarrow> wf_hash (fst (layer_sibling hs i))"
  by (simp add: layer_sibling_def Let_def list_all_length)

lemma wf_proof_siblings:
  "list_all wf_hash hs \<Longrightarrow> i < length hs \<Longrightarrow>
   list_all (\<lambda>sb. wf_hash (fst sb)) (proof_siblings (build_layers X hs) i)"
proof (induction "length hs" arbitrary: hs i rule: less_induct)
  case less
  show ?case
  proof (cases "1 < length hs")
    case True
    then show ?thesis
      using less.hyps [of "next_layer X hs" "i div 2"] less.prems
      by (simp add: proof_siblings_build [of X hs] wf_layer_sibling)
  qed (simp add: proof_siblings_build)
qed

lemma wf_merkle_proof_of:
  "list_all wf_hash leaves \<Longrightarrow> i < length leaves \<Longrightarrow>
   merkle_proof_of (from_hashes X leaves) i = Some q \<Longrightarrow> wf_proof q"
  using wf_proof_siblings [of leaves i X]
  by (auto simp: merkle_proof_of_from_hashes wf_proof_def list_all_iff)

subsection \<open>Odd layers\<close>

lemma next_layer_dup_last:
  "odd (length hs) \<Longrightarrow> next_layer X (hs @ [last hs]) = next_layer X hs"
  by (induction X hs rule: next_layer.induct) auto

subsection \<open>Properties\<close>

text \<open>(C1) Completeness of inclusion proofs: for every leaf position the tree produces a
  proof that names that leaf and the tree's root and that \<open>verify_proof\<close> accepts; beyond the
  last leaf there is no proof.\<close>

theorem merkle_proof_complete:
  assumes "leaves \<noteq> []"
  shows "(case merkle_proof_of (from_hashes X leaves) i of
            Some p \<Rightarrow> i < length leaves \<and> mp_leaf p = leaves ! i
              \<and> mp_root p = root (from_hashes X leaves) \<and> verify_proof X p
          | None \<Rightarrow> length leaves \<le> i)"
proof (cases "i < length leaves")
  case True
  then show ?thesis
    using proof_siblings_fold [of i leaves X] root_from_hashes [of leaves X] assms
    by (simp add: merkle_proof_of_from_hashes verify_proof_def)
next
  case False
  with assms show ?thesis by (simp add: merkle_proof_of_def leaf_count_from_hashes)
qed

theorem merkle_proof_complete_witness:
  "\<exists>p. merkle_proof_of (from_hashes demo_externs [hash_zero, Hash256 (replicate 32 1), Hash256 (replicate 32 2)]) 2
       = Some p \<and> mp_leaf p = Hash256 (replicate 32 2) \<and> verify_proof demo_externs p"
  using merkle_proof_complete
    [where leaves = "[hash_zero, Hash256 (replicate 32 1), Hash256 (replicate 32 2)]"
       and X = demo_externs and i = 2]
  by (auto split: option.splits)

text \<open>(C11) The root-only reduction that overwrites its input buffer computes the same root
  as the full tree, for every list of leaves, and leaves exactly that root in the buffer.\<close>

theorem root_in_place_correct:
  "fst (root_from_hashes_in_place X hashes) = root (from_hashes X hashes)
   \<and> snd (root_from_hashes_in_place X hashes)
       = (if hashes = [] then [] else [root (from_hashes X hashes)])"
proof -
  have "snd (root_from_hashes_in_place X hashes)
      = (if hashes = [] then [] else [root (from_hashes X hashes)])"
    by (simp add: root_from_hashes_in_place_def Let_def in_place_loop_root root_from_hashes)
  then show ?thesis
    using root_from_hashes_owned_eq [of X hashes] by (simp add: root_from_hashes_owned_def)
qed

text \<open>(C2) Soundness of inclusion proofs: where SHA-256 does not collide on the preimages
  that occur in replaying the two proofs, an accepted proof against the tree's root, whose
  left/right directions are those of position \<open>i\<close>, is the tree's own proof, so the leaf it
  names is the \<open>i\<close>-th leaf.\<close>

theorem merkle_proof_sound:
  assumes "list_all wf_hash leaves" "i < length leaves"
    and own: "merkle_proof_of (from_hashes X leaves) i = Some q"
    and "wf_proof p" "verify_proof X p" "mp_root p = root (from_hashes X leaves)"
    and "map snd (mp_siblings p) = map snd (mp_siblings q)"
    and "inj_on (hash_bytes X)
           (set (path_preimages X (mp_leaf p) (mp_siblings p))
            \<union> set (path_preimages X (mp_leaf q) (mp_siblings q)))"
  shows "mp_leaf p = leaves ! i \<and> p = q"
proof -
  from assms(2) have root: "root (from_hashes X leaves) = tree_root X leaves"
    by (intro root_from_hashes) auto
  have q: "mp_leaf q = leaves ! i" "mp_root q = root (from_hashes X leaves)" "verify_proof X q"
    using own proof_siblings_fold [OF assms(2), of X]
    by (auto simp: merkle_proof_of_from_hashes [OF assms(2)] verify_proof_def root)
  have "wf_proof q" using wf_merkle_proof_of assms by blast
  with assms q have "mp_leaf p = mp_leaf q \<and> mp_siblings p = mp_siblings q"
    by (intro path_binding [of X]) (auto simp: verify_proof_def wf_proof_def)
  with assms q show ?thesis by simp
qed

theorem merkle_proof_sound_witness:
  "mp_leaf \<lparr>mp_leaf = hash_zero, mp_siblings = [(Hash256 (replicate 32 1), True)],
            mp_root = root (from_hashes demo_externs [hash_zero, Hash256 (replicate 32 1)])\<rparr>
   = [hash_zero, Hash256 (replicate 32 1)] ! 0"
proof -
  let ?p = "\<lparr>mp_leaf = hash_zero, mp_siblings = [(Hash256 (replicate 32 1), True)],
            mp_root = root (from_hashes demo_externs [hash_zero, Hash256 (replicate 32 1)])\<rparr>"
  have r: "root (from_hashes demo_externs [hash_zero, Hash256 (replicate 32 1)])
      = combine_hashes demo_externs hash_zero (Hash256 (replicate 32 1))"
    by (simp add: root_from_hashes tree_root_step tree_root_single)
  have "merkle_proof_of (from_hashes demo_externs [hash_zero, Hash256 (replicate 32 1)]) 0 = Some ?p"
    by (simp add: merkle_proof_of_from_hashes proof_siblings_build layer_sibling_def
        root_from_hashes)
  then show ?thesis
    by (rule merkle_proof_sound [THEN conjunct1, rotated 2])
      (simp_all add: r wf_proof_def verify_proof_def proof_step_def, simp_all add: wf_hash_def hash_zero_def)
qed

text \<open>A root binds the whole list of leaves of a given length: where the hash has no
  collision on the preimages of the two trees, equal roots mean equal leaves in equal
  order.\<close>

theorem merkle_root_binds_leaves:
  assumes "length leaves = length leaves'" "leaves \<noteq> []"
    and "list_all wf_hash leaves" "list_all wf_hash leaves'"
    and "inj_on (hash_bytes X) (tree_preimages X leaves \<union> tree_preimages X leaves')"
  shows "root (from_hashes X leaves) = root (from_hashes X leaves') \<longleftrightarrow> leaves = leaves'"
proof
  assume eq: "root (from_hashes X leaves) = root (from_hashes X leaves')"
  from assms(1,2) have "leaves' \<noteq> []" by auto
  with eq assms show "leaves = leaves'"
    by (intro tree_root_inj [of X]) (simp_all add: root_from_hashes)
qed simp

theorem merkle_root_binds_leaves_witness:
  "root (from_hashes demo_externs [hash_zero]) \<noteq> root (from_hashes demo_externs [Hash256 (replicate 32 1)])"
  using merkle_root_binds_leaves [of "[hash_zero]" "[Hash256 (replicate 32 1)]" demo_externs]
  by (simp add: wf_hash_def hash_zero_def tree_preimages_def build_layers_single)

text \<open>The length matters: a list with an odd number of leaves, more than one, has the
  same root as that list with its last leaf repeated, because odd layers pair the last hash
  with itself.\<close>

theorem merkle_odd_duplicate:
  assumes "odd (length leaves)" "1 < length leaves"
  shows "root (from_hashes X (leaves @ [last leaves])) = root (from_hashes X leaves)"
proof -
  from assms have "leaves \<noteq> []" by auto
  with assms show ?thesis
    by (simp add: root_from_hashes tree_root_step next_layer_dup_last)
qed

theorem merkle_odd_duplicate_witness:
  "root (from_hashes demo_externs ([hash_zero, hash_zero, Hash256 (replicate 32 1)] @ [Hash256 (replicate 32 1)]))
   = root (from_hashes demo_externs [hash_zero, hash_zero, Hash256 (replicate 32 1)])"
  using merkle_odd_duplicate [of "[hash_zero, hash_zero, Hash256 (replicate 32 1)]" demo_externs]
  by simp

end
