(* ===== verification/Wire.thy ===== *)
theory Wire
  imports Crypto
begin

text \<open>
  The binary wire format. Every hash and signature of the chain is taken over a
  \<open>bincode\<close> encoding: little-endian fixed-width integers, \<open>u64\<close> length prefixes for byte
  strings, strings and vectors, a one-byte tag for options, bare bytes for fixed-size
  arrays. The repository writes this format out in \<open>sdk/python/src/zincha/bincode.py\<close>
  (\<open>BincodeWriter\<close>), which is what the definitions below translate; the Rust structures
  fix the order of the fields.

  The contract all users rely on is the locale \<open>wire_format\<close>: no valid encoding is a proper
  prefix of another, so that concatenated fields can be told apart. The locale is
  interpreted on each writer, and its lemmas lift it to options, vectors and pairs.
\<close>

subsection \<open>Writers\<close>

definition write_u8 :: "u8 \<Rightarrow> u8 list" where
  "write_u8 v = [v]"

definition write_u16 :: "u16 \<Rightarrow> u8 list" where
  "write_u16 v = to_le_bytes v"

definition write_u32 :: "u32 \<Rightarrow> u8 list" where
  "write_u32 v = to_le_bytes v"

definition write_u64 :: "u64 \<Rightarrow> u8 list" where
  "write_u64 v = to_le_bytes v"

definition write_bool :: "bool \<Rightarrow> u8 list" where
  "write_bool b = write_u8 (if b then 1 else 0)"

definition write_bytes :: "u8 list \<Rightarrow> u8 list" where
  "write_bytes bs = write_u64 (of_nat (length bs)) @ bs"

definition write_string :: "rstr \<Rightarrow> u8 list" where
  "write_string s = write_bytes (utf8 s)"

definition write_option :: "('a \<Rightarrow> u8 list) \<Rightarrow> 'a option \<Rightarrow> u8 list" where
  "write_option encode v =
     (case v of None \<Rightarrow> write_u8 0 | Some x \<Rightarrow> write_u8 1 @ encode x)"

definition write_vec :: "('a \<Rightarrow> u8 list) \<Rightarrow> 'a list \<Rightarrow> u8 list" where
  "write_vec encode vs = write_u64 (of_nat (length vs)) @ concat (map encode vs)"

definition write_pair :: "('a \<Rightarrow> u8 list) \<Rightarrow> ('b \<Rightarrow> u8 list) \<Rightarrow> 'a \<times> 'b \<Rightarrow> u8 list" where
  "write_pair f g p = f (fst p) @ g (snd p)"

definition write_hash :: "hash256 \<Rightarrow> u8 list" where
  "write_hash h = hash_as_bytes h"

definition write_addr :: "address \<Rightarrow> u8 list" where
  "write_addr a = addr_bytes a"

definition write_pk :: "public_key \<Rightarrow> u8 list" where
  "write_pk k = pk_bytes k"

definition write_sig :: "signature \<Rightarrow> u8 list" where
  "write_sig s = sig_bytes s"

text \<open>What the encoders can represent: collections shorter than \<open>2 ^ 64\<close>, strings of Unicode
  scalar values.\<close>

definition fits_u64 :: "'a list \<Rightarrow> bool" where
  "fits_u64 xs \<longleftrightarrow> length xs < 2 ^ 64"

definition valid_string :: "rstr \<Rightarrow> bool" where
  "valid_string s \<longleftrightarrow> wf_str s \<and> fits_u64 (utf8 s)"

definition valid_vec :: "('a \<Rightarrow> bool) \<Rightarrow> 'a list \<Rightarrow> bool" where
  "valid_vec valid xs \<longleftrightarrow> fits_u64 xs \<and> list_all valid xs"

definition valid_opt :: "('a \<Rightarrow> bool) \<Rightarrow> 'a option \<Rightarrow> bool" where
  "valid_opt valid x \<longleftrightarrow> (case x of None \<Rightarrow> True | Some v \<Rightarrow> valid v)"

subsection \<open>The contract\<close>

locale wire_format =
  fixes enc :: "'a \<Rightarrow> u8 list"
    and valid :: "'a \<Rightarrow> bool"
  assumes prefix_free: "valid x \<Longrightarrow> valid y \<Longrightarrow> enc x @ r = enc y @ s \<Longrightarrow> x = y \<and> r = s"
begin

lemma append_iff: "valid x \<Longrightarrow> valid y \<Longrightarrow> enc x @ r = enc y @ s \<longleftrightarrow> x = y \<and> r = s"
  using prefix_free by blast

lemma enc_inj: "valid x \<Longrightarrow> valid y \<Longrightarrow> enc x = enc y \<longleftrightarrow> x = y"
  using append_iff [of x y "[]" "[]"] by simp

lemma enc_inj_on: "inj_on enc {x. valid x}"
  by (rule inj_onI) (simp add: enc_inj)

lemma concat_append_iff:
  "length xs = length ys \<Longrightarrow> list_all valid xs \<Longrightarrow> list_all valid ys \<Longrightarrow>
   concat (map enc xs) @ r = concat (map enc ys) @ s \<longleftrightarrow> xs = ys \<and> r = s"
  by (induction xs ys rule: list_induct2) (auto simp: append_iff)

lemma concat_fixed_inj:
  assumes "list_all valid xs" "list_all valid ys" "\<And>x. valid x \<Longrightarrow> enc x \<noteq> []"
  shows "concat (map enc xs) = concat (map enc ys) \<longleftrightarrow> xs = ys"
  using assms(1,2)
proof (induction xs arbitrary: ys)
  case Nil
  then show ?case using assms(3) by (cases ys) auto
next
  case (Cons x xs)
  then show ?case using assms(3) by (cases ys) (auto simp: append_iff)
qed

end

lemma fits_u64_append:
  assumes "fits_u64 xs" "fits_u64 ys"
    and "write_u64 (of_nat (length xs)) @ r = write_u64 (of_nat (length ys)) @ s"
  shows "length xs = length ys \<and> r = s"
proof -
  from assms(3) have "(of_nat (length xs) :: u64) = of_nat (length ys)" and "r = s"
    by (auto simp: write_u64_def append_eq_same_len to_le_bytes_inj)
  then have "unat (of_nat (length xs) :: u64) = unat (of_nat (length ys) :: u64)" by simp
  with assms(1,2) have "length xs = length ys"
    by (simp add: fits_u64_def unsigned_of_nat take_bit_nat_eq_self)
  with \<open>r = s\<close> show ?thesis by simp
qed

subsection \<open>Interpretations on the writers\<close>

interpretation u8w: wire_format write_u8 "\<lambda>_. True"
  by unfold_locales (auto simp: write_u8_def)

interpretation u16w: wire_format write_u16 "\<lambda>_. True"
  by unfold_locales (auto simp: write_u16_def append_eq_same_len to_le_bytes_inj)

interpretation u32w: wire_format write_u32 "\<lambda>_. True"
  by unfold_locales (auto simp: write_u32_def append_eq_same_len to_le_bytes_inj)

interpretation u64w: wire_format write_u64 "\<lambda>_. True"
  by unfold_locales (auto simp: write_u64_def append_eq_same_len to_le_bytes_inj)

interpretation boolw: wire_format write_bool "\<lambda>_. True"
  by unfold_locales (auto simp: write_bool_def write_u8_def split: if_splits)

interpretation bytesw: wire_format write_bytes fits_u64
proof unfold_locales
  fix xs ys r s
  assume "fits_u64 xs" "fits_u64 ys" and eq: "write_bytes xs @ r = write_bytes ys @ s"
  then have "length xs = length ys \<and> xs @ r = ys @ s"
    by (intro fits_u64_append) (simp_all add: write_bytes_def)
  then show "xs = ys \<and> r = s" by (auto simp: append_eq_same_len)
qed

interpretation hashw: wire_format write_hash wf_hash
  by unfold_locales (auto simp: write_hash_def wf_hash_def append_eq_same_len intro: hash256.expand)

interpretation addrw: wire_format write_addr wf_addr
  by unfold_locales (auto simp: write_addr_def wf_addr_def append_eq_same_len intro: address.expand)

interpretation pkw: wire_format write_pk "wf_pk X" for X
  by unfold_locales (auto simp: write_pk_def wf_pk_def append_eq_same_len intro: public_key.expand)

interpretation sigw: wire_format write_sig wf_sig
  by unfold_locales (auto simp: write_sig_def wf_sig_def append_eq_same_len intro: signature.expand)

subsection \<open>UTF-8 is prefix-free\<close>

lemma utf8_units_bound: "is_scalar c \<Longrightarrow> u \<in> set (utf8_units c) \<Longrightarrow> u < 256"
proof -
  have *: "a mod 64 < 128" for a :: nat by (rule less_trans [of _ 64]) simp_all
  show "is_scalar c \<Longrightarrow> u \<in> set (utf8_units c) \<Longrightarrow> u < 256"
    using *[of c] *[of "c div 64"] *[of "c div 4096"]
    by (auto simp: utf8_units_def is_scalar_def split: if_splits)
qed

lemma map_unat_utf8_char: "is_scalar c \<Longrightarrow> map unat (utf8_char c) = utf8_units c"
  unfolding utf8_char_def map_map
  by (rule map_idI) (auto simp: unsigned_of_nat take_bit_nat_eq_self dest: utf8_units_bound)

lemma split_base64:
  "c div 64 = d div 64 \<Longrightarrow> c mod 64 = d mod 64 \<Longrightarrow> c = (d :: nat)"
  by (metis div_mult_mod_eq)

lemma split_base64_3:
  "c div 4096 = d div 4096 \<Longrightarrow> c div 64 mod 64 = d div 64 mod 64 \<Longrightarrow> c mod 64 = d mod 64 \<Longrightarrow> c = (d :: nat)"
  by (rule split_base64, rule split_base64) (simp_all add: div_mult2_eq [symmetric])

lemma split_base64_4:
  "c div 262144 = d div 262144 \<Longrightarrow> c div 4096 mod 64 = d div 4096 mod 64 \<Longrightarrow>
   c div 64 mod 64 = d div 64 mod 64 \<Longrightarrow> c mod 64 = d mod 64 \<Longrightarrow> c = (d :: nat)"
  by (rule split_base64_3, rule split_base64) (simp_all add: div_mult2_eq [symmetric])

lemma utf8_units_prefix_free:
  assumes "is_scalar c" "is_scalar d" "utf8_units c @ r = utf8_units d @ s"
  shows "c = d \<and> r = s"
proof -
  have scal: "a div 262144 < 8" "a < 0x10000 \<Longrightarrow> a div 4096 < 16" "a < 0x800 \<Longrightarrow> a div 64 < 32"
    if "is_scalar a" for a
    using that by (auto simp: is_scalar_def)
  note ranges = scal [OF assms(1)] scal [OF assms(2)]
  consider "c < 0x80" | "0x80 \<le> c" "c < 0x800" | "0x800 \<le> c" "c < 0x10000" | "0x10000 \<le> c"
    by linarith
  then show ?thesis
  proof cases
    case 1
    with assms(3) show ?thesis by (simp add: utf8_units_def split: if_splits)
  next
    case 2
    with assms(3) ranges show ?thesis
      by (simp add: utf8_units_def split: if_splits) (metis split_base64)
  next
    case 3
    with assms(3) ranges show ?thesis
      by (simp add: utf8_units_def split: if_splits) (metis split_base64_3)
  next
    case 4
    with assms(3) ranges show ?thesis
      by (simp add: utf8_units_def split: if_splits) (metis split_base64_4)
  qed
qed

lemma utf8_char_prefix_free:
  assumes "is_scalar c" "is_scalar d" "utf8_char c @ r = utf8_char d @ s"
  shows "c = d \<and> r = s"
proof -
  have "map unat (utf8_char c @ r) = map unat (utf8_char d @ s)" using assms(3) by simp
  with assms(1,2) have "c = d \<and> map unat r = map unat s"
    by (intro utf8_units_prefix_free) (simp_all add: map_unat_utf8_char)
  with assms(3) show ?thesis by simp
qed

interpretation charw: wire_format utf8_char is_scalar
  by unfold_locales (rule utf8_char_prefix_free)

lemma utf8_inj:
  assumes "wf_str s" "wf_str t"
  shows "utf8 s = utf8 t \<longleftrightarrow> s = t"
proof -
  have "utf8_char c \<noteq> []" for c by (simp add: utf8_char_def utf8_units_def)
  with assms show ?thesis
    unfolding utf8_def wf_str_def by (intro charw.concat_fixed_inj)
qed

interpretation stringw: wire_format write_string valid_string
  by unfold_locales (auto simp: write_string_def valid_string_def bytesw.append_iff utf8_inj)

subsection \<open>Lifting\<close>

context wire_format begin

lemma option_append_iff:
  "valid_opt valid x \<Longrightarrow> valid_opt valid y \<Longrightarrow>
   write_option enc x @ r = write_option enc y @ s \<longleftrightarrow> x = y \<and> r = s"
  by (auto simp: write_option_def valid_opt_def write_u8_def append_iff split: option.splits)

lemma vec_append_iff:
  assumes "valid_vec valid xs" "valid_vec valid ys"
  shows "write_vec enc xs @ r = write_vec enc ys @ s \<longleftrightarrow> xs = ys \<and> r = s"
proof
  assume eq: "write_vec enc xs @ r = write_vec enc ys @ s"
  have "length xs = length ys \<and> concat (map enc xs) @ r = concat (map enc ys) @ s"
    using assms eq by (intro fits_u64_append) (simp_all add: valid_vec_def write_vec_def)
  with assms show "xs = ys \<and> r = s"
    using concat_append_iff [of xs ys r s] by (simp add: valid_vec_def)
qed simp

lemma option_format: "wire_format (write_option enc) (valid_opt valid)"
  by unfold_locales (simp add: option_append_iff)

lemma vec_format: "wire_format (write_vec enc) (valid_vec valid)"
  by unfold_locales (simp add: vec_append_iff)

end

lemma pair_format:
  assumes "wire_format f v" "wire_format g w"
  shows "wire_format (write_pair f g) (\<lambda>p. v (fst p) \<and> w (snd p))"
proof
  fix x y r s
  assume "v (fst x) \<and> w (snd x)" "v (fst y) \<and> w (snd y)"
    "write_pair f g x @ r = write_pair f g y @ s"
  with wire_format.append_iff [OF assms(1)] wire_format.append_iff [OF assms(2)]
  show "x = y \<and> r = s" by (auto simp: write_pair_def prod_eq_iff)
qed

lemmas wire_append_iffs = u8w.append_iff u16w.append_iff u32w.append_iff u64w.append_iff
  boolw.append_iff bytesw.append_iff hashw.append_iff addrw.append_iff sigw.append_iff
  stringw.append_iff

end
