(* ===== verification/Tx_Type.thy ===== *)
theory Tx_Type
  imports Rust_Str
begin

text \<open>
  The transaction types of the chain (\<open>define_tx_types!\<close> in \<open>primitives/transaction.rs\<close>):
  one table gives each type its binary wire code and its textual label, and the four
  conversions are lookups in it. Wire code 40 belonged to a retired type and is refused
  with an error of its own.
\<close>

subsection \<open>Transaction types\<close>

datatype (plugins only: size) tx_type =
    Transfer | EntityLink | AgentRegister | AgentUpdate | TaskSubmit
  | TaskFulfill | TaskCancel | ReputationUpdate | TaskAccept | TaskDispute
  | TaskResolve | TaskFinalize | ToolRegister | ToolInvoke | ToolResultSubmit
  | ToolResultAccept | ToolResultDispute | ToolResultResolve | ToolJobExpire | ToolSubscriptionPlanCreate
  | ToolSubscriptionPlanUpdate | ToolSubscriptionStart | ToolSubscriptionTopUp | ToolSubscriptionCancel | ToolSubscriptionResume
  | ToolSubscriptionRenew | ToolUpdate | AgreementCreate | AgreementAccept | AgreementExecute
  | AgreementDispute | AgreementResolve | AgreementCancel | ArbitratorRegister | ValidatorRegister
  | ValidatorExit | ValidatorVrfCommit | ValidatorVrfContribution | Stake | Unstake
  | TaskDecompose | Batch | ContractDeploy | ContractCall | TokenCreate
  | TokenTransfer | TokenApprove | TokenMint | TokenUpdateAuthority | TokenBurn
  | AgentDeregister | ToolDeregister | ArbitratorDeregister | ContractDeactivate | TokenDestroy
  | ToolUsageReport | ToolUsageAccept | ToolUsageDispute | ToolUsageResolve | ToolUsageExpire
  | ValidatorUpdate | ContractVerify | ContractPublishAbi | ContractRouteUpdate | ContractRouteCall
  | ProtocolParamsUpdate | CapabilityPropose | CapabilityApprove | CapabilityReject | CapabilityDeprecate
  | RpcReadDelegationGrant | RpcReadDelegationRevoke

text \<open>The rows of \<open>define_tx_types!\<close>, in their order.\<close>

definition tx_types :: "(tx_type \<times> u32 \<times> string) list" where
  "tx_types = [
     (Transfer, 0, ''transfer''),
     (EntityLink, 1, ''entity_link''),
     (AgentRegister, 2, ''agent_register''),
     (AgentUpdate, 3, ''agent_update''),
     (TaskSubmit, 4, ''task_submit''),
     (TaskFulfill, 5, ''task_fulfill''),
     (TaskCancel, 6, ''task_cancel''),
     (ReputationUpdate, 7, ''reputation_update''),
     (TaskAccept, 63, ''task_accept''),
     (TaskDispute, 64, ''task_dispute''),
     (TaskResolve, 65, ''task_resolve''),
     (TaskFinalize, 66, ''task_finalize''),
     (ToolRegister, 8, ''tool_register''),
     (ToolInvoke, 9, ''tool_invoke''),
     (ToolResultSubmit, 10, ''tool_result_submit''),
     (ToolResultAccept, 11, ''tool_result_accept''),
     (ToolResultDispute, 12, ''tool_result_dispute''),
     (ToolResultResolve, 13, ''tool_result_resolve''),
     (ToolJobExpire, 14, ''tool_job_expire''),
     (ToolSubscriptionPlanCreate, 15, ''tool_subscription_plan_create''),
     (ToolSubscriptionPlanUpdate, 16, ''tool_subscription_plan_update''),
     (ToolSubscriptionStart, 17, ''tool_subscription_start''),
     (ToolSubscriptionTopUp, 18, ''tool_subscription_top_up''),
     (ToolSubscriptionCancel, 19, ''tool_subscription_cancel''),
     (ToolSubscriptionResume, 20, ''tool_subscription_resume''),
     (ToolSubscriptionRenew, 21, ''tool_subscription_renew''),
     (ToolUpdate, 22, ''tool_update''),
     (AgreementCreate, 23, ''agreement_create''),
     (AgreementAccept, 24, ''agreement_accept''),
     (AgreementExecute, 25, ''agreement_execute''),
     (AgreementDispute, 26, ''agreement_dispute''),
     (AgreementResolve, 27, ''agreement_resolve''),
     (AgreementCancel, 28, ''agreement_cancel''),
     (ArbitratorRegister, 29, ''arbitrator_register''),
     (ValidatorRegister, 30, ''validator_register''),
     (ValidatorExit, 31, ''validator_exit''),
     (ValidatorVrfCommit, 32, ''validator_vrf_commit''),
     (ValidatorVrfContribution, 33, ''validator_vrf_contribution''),
     (Stake, 34, ''stake''),
     (Unstake, 35, ''unstake''),
     (TaskDecompose, 36, ''task_decompose''),
     (Batch, 37, ''batch''),
     (ContractDeploy, 38, ''contract_deploy''),
     (ContractCall, 39, ''contract_call''),
     (TokenCreate, 41, ''token_create''),
     (TokenTransfer, 42, ''token_transfer''),
     (TokenApprove, 43, ''token_approve''),
     (TokenMint, 44, ''token_mint''),
     (TokenUpdateAuthority, 45, ''token_update_authority''),
     (TokenBurn, 46, ''token_burn''),
     (AgentDeregister, 47, ''agent_deregister''),
     (ToolDeregister, 48, ''tool_deregister''),
     (ArbitratorDeregister, 49, ''arbitrator_deregister''),
     (ContractDeactivate, 50, ''contract_deactivate''),
     (TokenDestroy, 51, ''token_destroy''),
     (ToolUsageReport, 52, ''tool_usage_report''),
     (ToolUsageAccept, 53, ''tool_usage_accept''),
     (ToolUsageDispute, 54, ''tool_usage_dispute''),
     (ToolUsageResolve, 55, ''tool_usage_resolve''),
     (ToolUsageExpire, 56, ''tool_usage_expire''),
     (ValidatorUpdate, 57, ''validator_update''),
     (ContractVerify, 58, ''contract_verify''),
     (ContractPublishAbi, 59, ''contract_publish_abi''),
     (ContractRouteUpdate, 60, ''contract_route_update''),
     (ContractRouteCall, 61, ''contract_route_call''),
     (ProtocolParamsUpdate, 62, ''protocol_params_update''),
     (CapabilityPropose, 67, ''capability_propose''),
     (CapabilityApprove, 68, ''capability_approve''),
     (CapabilityReject, 69, ''capability_reject''),
     (CapabilityDeprecate, 70, ''capability_deprecate''),
     (RpcReadDelegationGrant, 71, ''rpc_read_delegation_grant''),
     (RpcReadDelegationRevoke, 72, ''rpc_read_delegation_revoke'')]"

datatype tx_type_error = RetiredContractUpgrade | UnknownWireCode u32 | UnknownTypeName rstr

definition RETIRED_CONTRACT_UPGRADE_WIRE_CODE :: u32 where
  "RETIRED_CONTRACT_UPGRADE_WIRE_CODE = 40"

definition tx_row :: "tx_type \<Rightarrow> u32 \<times> string" where
  "tx_row t = the (map_of tx_types t)"

definition as_str :: "tx_type \<Rightarrow> rstr" where
  "as_str t = lit (snd (tx_row t))"

definition wire_code :: "tx_type \<Rightarrow> u32" where
  "wire_code t = fst (tx_row t)"

definition from_str_name :: "rstr \<Rightarrow> tx_type option" where
  "from_str_name name = map_option fst (List.find (\<lambda>(t, code, label). lit label = name) tx_types)"

definition from_wire_code :: "u32 \<Rightarrow> tx_type_error + tx_type" where
  "from_wire_code code =
     (case List.find (\<lambda>(t, c, label). c = code) tx_types of
        Some (t, c, label) \<Rightarrow> Ok t
      | None \<Rightarrow>
          if code = RETIRED_CONTRACT_UPGRADE_WIRE_CODE then Err RetiredContractUpgrade
          else Err (UnknownWireCode code))"

text \<open>\<open>Deserialize for TxType\<close>: a label in text formats, a code in binary ones.\<close>

definition tx_type_from_human :: "rstr \<Rightarrow> tx_type_error + tx_type" where
  "tx_type_from_human name = ok_or (from_str_name name) (UnknownTypeName name)"

definition tx_type_from_binary :: "u32 \<Rightarrow> tx_type_error + tx_type" where
  "tx_type_from_binary code = from_wire_code code"

subsection \<open>The type table\<close>

lemma tx_types_names:
  "map fst tx_types =
    [Transfer, EntityLink, AgentRegister, AgentUpdate, TaskSubmit,
     TaskFulfill, TaskCancel, ReputationUpdate, TaskAccept, TaskDispute,
     TaskResolve, TaskFinalize, ToolRegister, ToolInvoke, ToolResultSubmit,
     ToolResultAccept, ToolResultDispute, ToolResultResolve, ToolJobExpire, ToolSubscriptionPlanCreate,
     ToolSubscriptionPlanUpdate, ToolSubscriptionStart, ToolSubscriptionTopUp, ToolSubscriptionCancel, ToolSubscriptionResume,
     ToolSubscriptionRenew, ToolUpdate, AgreementCreate, AgreementAccept, AgreementExecute,
     AgreementDispute, AgreementResolve, AgreementCancel, ArbitratorRegister, ValidatorRegister,
     ValidatorExit, ValidatorVrfCommit, ValidatorVrfContribution, Stake, Unstake,
     TaskDecompose, Batch, ContractDeploy, ContractCall, TokenCreate,
     TokenTransfer, TokenApprove, TokenMint, TokenUpdateAuthority, TokenBurn,
     AgentDeregister, ToolDeregister, ArbitratorDeregister, ContractDeactivate, TokenDestroy,
     ToolUsageReport, ToolUsageAccept, ToolUsageDispute, ToolUsageResolve, ToolUsageExpire,
     ValidatorUpdate, ContractVerify, ContractPublishAbi, ContractRouteUpdate, ContractRouteCall,
     ProtocolParamsUpdate, CapabilityPropose, CapabilityApprove, CapabilityReject, CapabilityDeprecate,
     RpcReadDelegationGrant, RpcReadDelegationRevoke]"
  by (simp only: tx_types_def list.map fst_conv)

lemma tx_types_codes:
  "map (fst \<circ> snd) tx_types =
    [0, 1, 2, 3, 4, 5, 6, 7, 63, 64, 65, 66, 8, 9, 10, 11, 12, 13,
     14, 15, 16, 17, 18, 19, 20, 21, 22, 23, 24, 25, 26, 27, 28, 29, 30, 31,
     32, 33, 34, 35, 36, 37, 38, 39, 41, 42, 43, 44, 45, 46, 47, 48, 49, 50,
     51, 52, 53, 54, 55, 56, 57, 58, 59, 60, 61, 62, 67, 68, 69, 70, 71, 72]"
  by (simp only: tx_types_def list.map fst_conv snd_conv comp_apply)

lemma tx_types_labels:
  "map (snd \<circ> snd) tx_types =
    [''transfer'', ''entity_link'', ''agent_register'', ''agent_update'',
     ''task_submit'', ''task_fulfill'', ''task_cancel'', ''reputation_update'',
     ''task_accept'', ''task_dispute'', ''task_resolve'', ''task_finalize'',
     ''tool_register'', ''tool_invoke'', ''tool_result_submit'', ''tool_result_accept'',
     ''tool_result_dispute'', ''tool_result_resolve'', ''tool_job_expire'', ''tool_subscription_plan_create'',
     ''tool_subscription_plan_update'', ''tool_subscription_start'', ''tool_subscription_top_up'', ''tool_subscription_cancel'',
     ''tool_subscription_resume'', ''tool_subscription_renew'', ''tool_update'', ''agreement_create'',
     ''agreement_accept'', ''agreement_execute'', ''agreement_dispute'', ''agreement_resolve'',
     ''agreement_cancel'', ''arbitrator_register'', ''validator_register'', ''validator_exit'',
     ''validator_vrf_commit'', ''validator_vrf_contribution'', ''stake'', ''unstake'',
     ''task_decompose'', ''batch'', ''contract_deploy'', ''contract_call'',
     ''token_create'', ''token_transfer'', ''token_approve'', ''token_mint'',
     ''token_update_authority'', ''token_burn'', ''agent_deregister'', ''tool_deregister'',
     ''arbitrator_deregister'', ''contract_deactivate'', ''token_destroy'', ''tool_usage_report'',
     ''tool_usage_accept'', ''tool_usage_dispute'', ''tool_usage_resolve'', ''tool_usage_expire'',
     ''validator_update'', ''contract_verify'', ''contract_publish_abi'', ''contract_route_update'',
     ''contract_route_call'', ''protocol_params_update'', ''capability_propose'', ''capability_approve'',
     ''capability_reject'', ''capability_deprecate'', ''rpc_read_delegation_grant'', ''rpc_read_delegation_revoke'']"
  by (simp only: tx_types_def list.map fst_conv snd_conv comp_apply)

lemma tx_types_total: "t \<in> set (map fst tx_types)"
  unfolding tx_types_names by (cases t) simp_all

lemma tx_types_distinct_types: "distinct (map fst tx_types)"
  unfolding tx_types_names by simp

lemma tx_types_distinct_codes: "distinct (map (fst \<circ> snd) tx_types)"
  unfolding tx_types_codes by simp

lemma tx_types_distinct_labels: "distinct (map (snd \<circ> snd) tx_types)"
  unfolding tx_types_labels by simp

lemma retired_code_unused: "40 \<notin> set (map (fst \<circ> snd) tx_types)"
  unfolding tx_types_codes by simp

lemma tx_row_in: "\<exists>code label. (t, code, label) \<in> set tx_types \<and> tx_row t = (code, label)"
proof -
  obtain row where "(t, row) \<in> set tx_types" using tx_types_total [of t] by auto
  with tx_types_distinct_types have "map_of tx_types t = Some row" by simp
  with \<open>(t, row) \<in> set tx_types\<close> show ?thesis by (cases row) (auto simp: tx_row_def)
qed

lemma find_key:
  "distinct (map f xs) \<Longrightarrow> x \<in> set xs \<Longrightarrow> List.find (\<lambda>y. f y = f x) xs = Some x"
  by (induction xs) (auto simp: rev_image_eqI)

lemma from_wire_code_row:
  assumes "(t, code, label) \<in> set tx_types"
  shows "from_wire_code code = Ok t"
  using find_key [OF tx_types_distinct_codes assms] by (simp add: from_wire_code_def case_prod_unfold)

lemma lit_inj: "lit s = lit t \<longleftrightarrow> s = t"
  by (auto intro: map_injective inj_onI dest: of_char_eq_iff [THEN iffD1])

lemma from_str_name_row:
  assumes "(t, code, label) \<in> set tx_types"
  shows "from_str_name (lit label) = Some t"
  using find_key [OF tx_types_distinct_labels assms]
  by (simp add: from_str_name_def case_prod_unfold lit_inj)

lemma from_wire_code_eq_Ok: "from_wire_code code = Ok t \<longleftrightarrow> code = wire_code t"
proof
  assume "from_wire_code code = Ok t"
  then obtain label where "(t, code, label) \<in> set tx_types"
    by (auto simp: from_wire_code_def find_Some_iff split: option.splits if_splits)
      (metis nth_mem)
  moreover obtain c l where "(t, c, l) \<in> set tx_types" "tx_row t = (c, l)" using tx_row_in by blast
  ultimately have "(c, l) = (code, label)"
    using tx_types_distinct_types by (metis map_of_eq_Some_iff option.inject)
  with \<open>tx_row t = (c, l)\<close> show "code = wire_code t" by (simp add: wire_code_def)
next
  assume "code = wire_code t"
  with tx_row_in [of t] show "from_wire_code code = Ok t"
    by (auto simp: wire_code_def from_wire_code_row)
qed

lemma wire_code_inj: "wire_code s = wire_code t \<longleftrightarrow> s = t"
  by (metis from_wire_code_eq_Ok sum.inject(2))

lemma from_str_name_as_str: "from_str_name (as_str t) = Some t"
  using tx_row_in [of t] by (auto simp: as_str_def from_str_name_row)

lemma from_wire_code_retired: "from_wire_code 40 = Err RetiredContractUpgrade"
proof -
  have "List.find (\<lambda>(t, c, label). c = 40) tx_types = None"
    using retired_code_unused by (auto simp: find_None_iff image_iff)
  then show ?thesis by (simp add: from_wire_code_def RETIRED_CONTRACT_UPGRADE_WIRE_CODE_def)
qed

subsection \<open>Properties\<close>

text \<open>The two encodings of a transaction type are round trips: every type is recovered
  from its wire code and from its label, a code decodes to a type only if it is that type's
  code, and the retired code is refused rather than reused.\<close>

theorem tx_type_roundtrip:
  "tx_type_from_binary (wire_code t) = Ok t \<and> tx_type_from_human (as_str t) = Ok t
   \<and> (tx_type_from_binary code = Ok t \<longleftrightarrow> code = wire_code t)
   \<and> wire_code t \<noteq> RETIRED_CONTRACT_UPGRADE_WIRE_CODE
   \<and> tx_type_from_binary RETIRED_CONTRACT_UPGRADE_WIRE_CODE = Err RetiredContractUpgrade"
proof -
  have "wire_code t \<noteq> 40"
    using from_wire_code_retired by (metis from_wire_code_eq_Ok sum.distinct(1))
  then show ?thesis
    by (simp add: tx_type_from_binary_def tx_type_from_human_def from_wire_code_eq_Ok
        from_str_name_as_str from_wire_code_retired RETIRED_CONTRACT_UPGRADE_WIRE_CODE_def)
qed

end
