(* ===== verification/Transaction.thy ===== *)
theory Transaction
  imports Wire Tx_Type
begin

text \<open>
  Transactions (\<open>primitives/transaction.rs\<close>): the unsigned body, signing, verification, the validity window, and the
  synthetic inner transactions of a batch.

  \<open>serialize_transaction\<close> is the canonical encoding that \<open>Transaction::hash\<close> feeds to SHA-256.
  It is an instance of \<open>wire_format\<close> (\<open>txw\<close>), hence injective: the hash of a transaction
  commits to every one of its fields.
\<close>

datatype stake_target = StakeAgent | StakeValidator | StakeRequesterAutoMatch

subsection \<open>Transactions\<close>

record batch_operation =
  bop_tx_type :: tx_type
  bop_recipient :: address
  bop_amount :: u64
  bop_data :: "u8 list"

record transaction =
  tx_type_of :: tx_type
  tx_sender :: address
  tx_recipient :: address
  tx_amount :: u64
  tx_fee :: u64
  tx_max_priority_fee_per_gas :: u64
  tx_nonce :: u64
  tx_timestamp :: u64
  tx_reference_block_height :: u64
  tx_reference_block_hash :: hash256
  tx_max_valid_block_height :: u64
  tx_data :: "u8 list"
  tx_chain_id :: rstr

record signed_transaction =
  st_transaction :: transaction
  st_signature :: signature
  st_public_key :: public_key
  st_hash :: hash256

definition serialize_transaction :: "transaction \<Rightarrow> u8 list" where
  "serialize_transaction t =
     write_u32 (wire_code (tx_type_of t)) @ write_addr (tx_sender t) @ write_addr (tx_recipient t)
     @ write_u64 (tx_amount t) @ write_u64 (tx_fee t) @ write_u64 (tx_max_priority_fee_per_gas t)
     @ write_u64 (tx_nonce t) @ write_u64 (tx_timestamp t)
     @ write_u64 (tx_reference_block_height t) @ write_hash (tx_reference_block_hash t)
     @ write_u64 (tx_max_valid_block_height t) @ write_bytes (tx_data t)
     @ write_string (tx_chain_id t)"

definition serialize_signed_transaction :: "signed_transaction \<Rightarrow> u8 list" where
  "serialize_signed_transaction st =
     serialize_transaction (st_transaction st) @ write_sig (st_signature st)
     @ write_pk (st_public_key st) @ write_hash (st_hash st)"

definition tx_hash_of :: "externs \<Rightarrow> transaction \<Rightarrow> hash256" where
  "tx_hash_of X t = hash_bytes X (serialize_transaction t)"

definition sign :: "externs \<Rightarrow> transaction \<Rightarrow> keypair \<Rightarrow> signed_transaction" where
  "sign X t keypair =
     (let h = tx_hash_of X t in
      \<lparr>st_transaction = t, st_signature = kp_sign X keypair (hash_as_bytes h),
       st_public_key = kp_public_key X keypair, st_hash = h\<rparr>)"

definition has_explicit_validity_window :: "transaction \<Rightarrow> bool" where
  "has_explicit_validity_window t \<longleftrightarrow> tx_max_valid_block_height t \<noteq> 0"

definition is_expired_at_block :: "transaction \<Rightarrow> u64 \<Rightarrow> bool" where
  "is_expired_at_block t block_number \<longleftrightarrow>
     has_explicit_validity_window t \<and> tx_max_valid_block_height t < block_number"

definition blocks_until_expiry_at :: "transaction \<Rightarrow> u64 \<Rightarrow> u64 option" where
  "blocks_until_expiry_at t block_number =
     (if has_explicit_validity_window t
      then Some (saturating_sub (tx_max_valid_block_height t) block_number) else None)"

definition set_validity_window :: "transaction \<Rightarrow> u64 \<Rightarrow> hash256 \<Rightarrow> u64 \<Rightarrow> transaction" where
  "set_validity_window t height block_hash ttl_blocks =
     t\<lparr>tx_reference_block_height := height, tx_reference_block_hash := block_hash,
       tx_max_valid_block_height := saturating_add height (max ttl_blocks 1)\<rparr>"

text \<open>\<open>new_transfer\<close> reads the clock; the timestamp is the argument \<open>now\<close>.\<close>

definition new_transfer ::
  "u64 \<Rightarrow> address \<Rightarrow> address \<Rightarrow> u64 \<Rightarrow> u64 \<Rightarrow> u64 \<Rightarrow> rstr \<Rightarrow> transaction" where
  "new_transfer now sender recipient amount fee nonce chain_id =
     \<lparr>tx_type_of = Transfer, tx_sender = sender, tx_recipient = recipient, tx_amount = amount,
      tx_fee = fee, tx_max_priority_fee_per_gas = 0, tx_nonce = nonce, tx_timestamp = now,
      tx_reference_block_height = 0, tx_reference_block_hash = hash_zero,
      tx_max_valid_block_height = 0, tx_data = [], tx_chain_id = chain_id\<rparr>"

datatype tx_error = HashMismatch | SenderMismatch | KeyError key_error

definition verify_signed :: "externs \<Rightarrow> signed_transaction \<Rightarrow> tx_error + unit" where
  "verify_signed X st =
     (let expected_hash = tx_hash_of X (st_transaction st) in
      if expected_hash \<noteq> st_hash st then Err HashMismatch
      else let derived_address = from_public_key X (st_public_key st) in
        if derived_address \<noteq> tx_sender (st_transaction st) then Err SenderMismatch
        else (case pk_verify X (st_public_key st) (hash_as_bytes (st_hash st)) (st_signature st) of
                Err e \<Rightarrow> Err (KeyError e)
              | Ok u \<Rightarrow> Ok u))"

definition total_cost :: "signed_transaction \<Rightarrow> u64" where
  "total_cost st = saturating_add (tx_amount (st_transaction st)) (tx_fee (st_transaction st))"

definition byte_size :: "signed_transaction \<Rightarrow> nat" where
  "byte_size st = length (serialize_signed_transaction st)"

definition BATCH_INNER_TAG :: "u8 list" where
  "BATCH_INNER_TAG = utf8 (lit ''zincha_batch_inner_tx_v1'')"

definition synthetic_batch_preimage :: "hash256 \<Rightarrow> nat \<Rightarrow> u8 list" where
  "synthetic_batch_preimage batch_tx_hash op_index =
     BATCH_INNER_TAG @ hash_as_bytes batch_tx_hash @ to_be_bytes (as_word op_index :: u64)"

definition synthetic_batch_operation_hash :: "externs \<Rightarrow> hash256 \<Rightarrow> nat \<Rightarrow> hash256" where
  "synthetic_batch_operation_hash X batch_tx_hash op_index =
     hash_bytes X (synthetic_batch_preimage batch_tx_hash op_index)"

definition synthetic_batch_operation ::
  "externs \<Rightarrow> signed_transaction \<Rightarrow> nat \<Rightarrow> u64 \<Rightarrow> batch_operation \<Rightarrow> signed_transaction" where
  "synthetic_batch_operation X batch_tx op_index nonce operation =
     (let outer = st_transaction batch_tx;
          inner_tx =
            \<lparr>tx_type_of = bop_tx_type operation, tx_sender = tx_sender outer,
             tx_recipient = bop_recipient operation, tx_amount = bop_amount operation,
             tx_fee = 0, tx_max_priority_fee_per_gas = 0, tx_nonce = nonce,
             tx_timestamp = tx_timestamp outer,
             tx_reference_block_height = tx_reference_block_height outer,
             tx_reference_block_hash = tx_reference_block_hash outer,
             tx_max_valid_block_height = tx_max_valid_block_height outer,
             tx_data = bop_data operation, tx_chain_id = tx_chain_id outer\<rparr>
      in \<lparr>st_transaction = inner_tx, st_signature = st_signature batch_tx,
          st_public_key = st_public_key batch_tx,
          st_hash = synthetic_batch_operation_hash X (st_hash batch_tx) op_index\<rparr>)"

subsection \<open>Canonical encoding\<close>

definition wf_tx :: "transaction \<Rightarrow> bool" where
  "wf_tx t \<longleftrightarrow> wf_addr (tx_sender t) \<and> wf_addr (tx_recipient t)
     \<and> wf_hash (tx_reference_block_hash t) \<and> fits_u64 (tx_data t) \<and> valid_string (tx_chain_id t)"

interpretation txw: wire_format serialize_transaction wf_tx
  by unfold_locales
    (simp add: serialize_transaction_def wf_tx_def wire_append_iffs wire_code_inj)

lemma tx_hash_binding:
  assumes "wf_tx t" "wf_tx u"
    and "inj_on (hash_bytes X) {serialize_transaction t, serialize_transaction u}"
  shows "tx_hash_of X t = tx_hash_of X u \<longleftrightarrow> t = u"
  using assms txw.enc_inj [of t u] by (auto simp: tx_hash_of_def dest: inj_onD)

lemma verify_signed_Ok:
  "verify_signed X st = Ok () \<longleftrightarrow>
     st_hash st = tx_hash_of X (st_transaction st)
     \<and> from_public_key X (st_public_key st) = tx_sender (st_transaction st)
     \<and> ed_verify X (pk_bytes (st_public_key st)) (hash_as_bytes (st_hash st)) (sig_bytes (st_signature st))"
  by (auto simp: verify_signed_def Let_def pk_verify_def)

subsection \<open>Batches\<close>

lemma synthetic_preimage_inj:
  assumes "wf_hash h" "wf_hash h'" "i < 2 ^ 64" "j < 2 ^ 64"
  shows "synthetic_batch_preimage h i = synthetic_batch_preimage h' j \<longleftrightarrow> h = h' \<and> i = j"
proof -
  have "(as_word i :: u64) = as_word j \<longleftrightarrow> i = j"
    using assms(3,4) by (intro as_word_eq_iff) simp_all
  with assms(1,2) hashw.append_iff [of h h'] show ?thesis
    by (simp add: synthetic_batch_preimage_def write_hash_def to_be_bytes_inj)
qed

subsection \<open>Properties\<close>

definition demo_keypair :: keypair where
  "demo_keypair = Keypair (replicate 32 7)"

definition demo_tx :: transaction where
  "demo_tx = new_transfer 1000 addr_zero treasury 5 1 0 (lit ''zincha'')"

definition demo_tx_externs :: externs where
  "demo_tx_externs = tag_externs (serialize_transaction demo_tx)"

lemma wf_demo_keypair: "wf_keypair demo_keypair"
  by (simp add: wf_keypair_def demo_keypair_def)

lemma wf_demo_tx: "wf_tx demo_tx"
  by (simp add: wf_tx_def demo_tx_def new_transfer_def treasury_def system_address_def
      addr_zero_def wf_addr_def hash_zero_def wf_hash_def fits_u64_def valid_string_def wf_str_def
      is_scalar_def utf8_def utf8_char_def utf8_units_def)

lemma length_serialize_transaction: "52 \<le> length (serialize_transaction t)"
  by (simp add: serialize_transaction_def write_u32_def write_u64_def)

lemma demo_sender: "kp_address demo_tx_externs demo_keypair = tx_sender demo_tx"
proof -
  have "serialize_transaction demo_tx \<noteq> replicate 32 7"
    using length_serialize_transaction [of demo_tx] by auto
  then show ?thesis
    by (auto simp: kp_address_def from_public_key_def kp_public_key_def demo_keypair_def
        demo_tx_externs_def tag_externs_def demo_externs_def demo_tx_def new_transfer_def addr_zero_def)
qed

text \<open>Signing produces a transaction that verifies whenever the sender is the signer's
  address, and one that is refused with the sender error otherwise.\<close>

theorem sign_verifies:
  assumes "ed25519_ok X" "wf_keypair k"
  shows "verify_signed X (sign X t k)
         = (if tx_sender t = kp_address X k then Ok () else Err SenderMismatch)"
  using sign_verify [OF assms, of "hash_as_bytes (tx_hash_of X t)"]
  by (auto simp: verify_signed_def sign_def Let_def kp_address_def)

theorem sign_verifies_witness:
  "verify_signed demo_tx_externs (sign demo_tx_externs demo_tx demo_keypair) = Ok ()"
  using sign_verifies [of demo_tx_externs demo_keypair demo_tx] demo_sender wf_demo_keypair
  by (simp add: demo_tx_externs_def)

text \<open>(C12) A transaction hash binds every field: where SHA-256 does not collide on the two
  encodings, replacing the body of a verified signed transaction by any different
  well-formed body makes verification fail with the hash error.\<close>

theorem verified_body_tamper_evident:
  assumes "verify_signed X st = Ok ()" "wf_tx (st_transaction st)" "wf_tx t"
    and "inj_on (hash_bytes X) {serialize_transaction (st_transaction st), serialize_transaction t}"
  shows "t \<noteq> st_transaction st \<longleftrightarrow>
         verify_signed X (st\<lparr>st_transaction := t\<rparr>) = Err HashMismatch"
proof -
  have "tx_hash_of X t = st_hash st \<longleftrightarrow> t = st_transaction st"
    using assms tx_hash_binding [of "st_transaction st" t X] by (auto simp: verify_signed_Ok)
  then show ?thesis using assms(1)
    by (auto simp: verify_signed_def Let_def split: sum.splits if_splits)
qed

theorem verified_body_tamper_evident_witness:
  "verify_signed demo_tx_externs
     ((sign demo_tx_externs demo_tx demo_keypair)\<lparr>st_transaction := demo_tx\<lparr>tx_amount := 6\<rparr>\<rparr>)
   = Err HashMismatch"
proof -
  let ?st = "sign demo_tx_externs demo_tx demo_keypair" and ?t = "demo_tx\<lparr>tx_amount := 6\<rparr>"
  have st: "st_transaction ?st = demo_tx" by (simp add: sign_def Let_def)
  have "verify_signed demo_tx_externs ?st = Ok ()"
    using sign_verify [of demo_tx_externs demo_keypair] wf_demo_keypair demo_sender
    by (simp add: demo_tx_externs_def verify_signed_def sign_def Let_def kp_address_def)
  moreover have "wf_tx ?t" using wf_demo_tx by (simp add: wf_tx_def)
  moreover have "?t \<noteq> demo_tx" by (simp add: demo_tx_def new_transfer_def)
  moreover have "inj_on (hash_bytes demo_tx_externs) {serialize_transaction demo_tx, serialize_transaction ?t}"
    unfolding demo_tx_externs_def by (rule tag_inj_on)
  ultimately show ?thesis
    using verified_body_tamper_evident [of demo_tx_externs ?st ?t] wf_demo_tx st by metis
qed

text \<open>The validity window: after \<open>set_validity_window\<close> a transaction is explicitly
  bounded; it is live at every block up to the reference height plus the time to live (at
  least one block, saturating at the largest height), expired at every later block, and the
  reported remaining blocks are exact.\<close>

theorem validity_window:
  fixes t height block_hash ttl defines "t' \<equiv> set_validity_window t height block_hash ttl"
  shows "has_explicit_validity_window t'
    \<and> (is_expired_at_block t' n \<longleftrightarrow>
         min (unat height + max (unat ttl) 1) (2 ^ 64 - 1) < unat n)
    \<and> map_option unat (blocks_until_expiry_at t' n)
        = Some (min (unat height + max (unat ttl) 1) (2 ^ 64 - 1) - unat n)"
proof -
  have last: "unat (tx_max_valid_block_height t') = min (unat height + max (unat ttl) 1) (2 ^ 64 - 1)"
    by (simp add: t'_def set_validity_window_def word_nat_simps)
  then have "tx_max_valid_block_height t' \<noteq> 0" by (auto simp: unat_eq_0)
  with last show ?thesis
    by (simp add: has_explicit_validity_window_def is_expired_at_block_def
        blocks_until_expiry_at_def word_less_nat_alt word_nat_simps)
qed

text \<open>The internal hashes of a batch's operations identify the batch and the position:
  where SHA-256 does not collide on the two preimages, two operations share a hash only if
  they are the same operation of the same batch.\<close>

theorem synthetic_hash_unique:
  assumes "wf_hash h" "wf_hash h'" "i < 2 ^ 64" "j < 2 ^ 64"
    and "inj_on (hash_bytes X) {synthetic_batch_preimage h i, synthetic_batch_preimage h' j}"
  shows "synthetic_batch_operation_hash X h i = synthetic_batch_operation_hash X h' j
         \<longleftrightarrow> h = h' \<and> i = j"
  using assms(5) synthetic_preimage_inj [OF assms(1-4)]
  by (auto simp: synthetic_batch_operation_hash_def dest: inj_onD)

theorem synthetic_hash_unique_witness:
  "synthetic_batch_operation_hash (tag_externs (synthetic_batch_preimage hash_zero 0)) hash_zero 0
   \<noteq> synthetic_batch_operation_hash (tag_externs (synthetic_batch_preimage hash_zero 0)) hash_zero 1"
  using synthetic_hash_unique [OF _ _ _ _ tag_inj_on(1), of hash_zero hash_zero 0 1]
  by (simp add: wf_hash_def hash_zero_def)

end
