(* ===== verification/Agreement.thy ===== *)
theory Agreement
  imports Crypto "HOL-Library.Multiset"
begin

text \<open>
  Escrow agreements (\<open>primitives/agreement.rs\<close>): milestones, settlement allocations, the
  checks of an \<open>AgreementCreate\<close> payload, the escrow counter, dispute bookkeeping, payout
  distribution and dispute reputation effects.

  The source passes a closure \<open>same_entity\<close> that compares the owners of two addresses; it
  is an argument of the definitions here too. Error values name the branch that raised
  them; the message texts are left out.
\<close>

subsection \<open>Data\<close>

datatype agreement_status = AgProposed | AgActive | AgCompleted | AgDisputed | AgResolved
  | AgExpired | AgCancelled

datatype milestone_status = MsPending | MsCompleted | MsDisputed | MsResolved

record payout_share =
  ps_recipient :: address
  ps_share_bps :: u16

datatype party_outcome = Won | Lost

record reputation_effect =
  re_party :: address
  re_outcome :: party_outcome

record dispute_resolution =
  dr_payouts :: "payout_share list"
  dr_reputation_effects :: "reputation_effect list"
  dr_reason :: rstr
  dr_resolved_at_block :: u64
  dr_milestone_index :: "u32 option"

record milestone =
  ms_index :: u32
  ms_description :: rstr
  ms_amount :: u64
  ms_status :: milestone_status
  ms_result_hash :: "hash256 option"
  ms_completed_at_block :: "u64 option"
  ms_resolution :: "dispute_resolution option"

record milestone_def =
  md_description :: rstr
  md_amount :: u64

record agreement =
  ag_agreement_id :: hash256
  ag_parties :: "address list"
  ag_proposer :: address
  ag_terms :: "u8 list"
  ag_escrow_amount :: u64
  ag_status :: agreement_status
  ag_created_at_block :: u64
  ag_expires_at :: u64
  ag_accepted_by :: "address list"
  ag_arbitrator :: "address option"
  ag_result_hash :: "hash256 option"
  ag_dispute_reason :: rstr
  ag_disputed_milestone_index :: "u32 option"
  ag_disputed_at :: "u64 option"
  ag_arbitration_deadline_at :: "u64 option"
  ag_arbitration_reassignments :: u8
  ag_prior_arbitrators :: "address list"
  ag_resolution :: "dispute_resolution option"
  ag_milestones :: "milestone list"
  ag_escrow_released :: u64
  ag_arbitrator_fee_bps :: u16
  ag_service_provider :: address
  ag_settlement_allocations :: "payout_share list"
  ag_storage_deposit :: u64
  ag_settlement_approver :: "address option"

record agreement_create_data =
  ac_parties :: "address list"
  ac_terms :: "u8 list"
  ac_escrow_amount :: u64
  ac_expires_at :: u64
  ac_arbitrator :: "address option"
  ac_milestones :: "milestone_def list"
  ac_service_provider :: address
  ac_settlement_allocations :: "payout_share list"
  ac_settlement_approver :: "address option"

datatype agreement_error =
    NoMilestones | MilestoneOverflow | MilestoneTotalMismatch u64 u64 | TooManyMilestones
  | MilestoneDescriptionTooLong nat
  | ZeroShare | AllocationNotParty | DuplicateAllocation | SharesNotTotal | NoThirdPartyRecipient
  | ProviderWithoutShare
  | ApproverNotParty | ApproverRequired | ApproverNotIndependent
  | EffectNotParty | DuplicateEffect | MissingWinnerOrLoser | SameEntityEffects
  | TooFewParties | TooManyParties nat | ProposerNotParty | DuplicateParty address | ZeroEscrow
  | TermsTooLarge nat | ArbitratorIsParty | ArbitratorSameEntity | ProviderNotParty
  | ProviderSameEntity

subsection \<open>Milestones\<close>

definition canonical_single_payment_milestones :: "u64 \<Rightarrow> milestone_def list" where
  "canonical_single_payment_milestones escrow_amount =
     [\<lparr>md_description = lit ''Complete agreement'', md_amount = escrow_amount\<rparr>]"

definition materialize_milestone :: "nat \<Rightarrow> milestone_def \<Rightarrow> milestone" where
  "materialize_milestone i m =
     \<lparr>ms_index = as_word i, ms_description = md_description m, ms_amount = md_amount m,
      ms_status = MsPending, ms_result_hash = None, ms_completed_at_block = None,
      ms_resolution = None\<rparr>"

definition materialize_agreement_milestones ::
  "milestone_def list \<Rightarrow> u64 \<Rightarrow> agreement_error + milestone list" where
  "materialize_agreement_milestones milestone_defs escrow_amount =
     (if milestone_defs = [] then Err NoMilestones
      else case try_fold (\<lambda>acc m. checked_add acc (md_amount m)) 0 milestone_defs of
        None \<Rightarrow> Err MilestoneOverflow
      | Some milestone_total \<Rightarrow>
          if milestone_total \<noteq> escrow_amount
          then Err (MilestoneTotalMismatch milestone_total escrow_amount)
          else if 20 < length milestone_defs then Err TooManyMilestones
          else case position (\<lambda>m. 1024 < str_len (md_description m)) milestone_defs of
            Some i \<Rightarrow> Err (MilestoneDescriptionTooLong i)
          | None \<Rightarrow>
              Ok (map (\<lambda>(i, m). materialize_milestone i m) (enumerate 0 milestone_defs)))"

subsection \<open>Settlement\<close>

type_synonym same_entity = "address \<Rightarrow> address \<Rightarrow> bool"

fun settlement_approver_is_independent ::
  "address \<Rightarrow> address \<Rightarrow> payout_share list \<Rightarrow> same_entity \<Rightarrow> bool" where
  "settlement_approver_is_independent proposer approver [] same_entity = True"
| "settlement_approver_is_independent proposer approver (a # as) same_entity =
     (if same_entity proposer (ps_recipient a)
      then settlement_approver_is_independent proposer approver as same_entity
      else if same_entity approver (ps_recipient a) then False
      else settlement_approver_is_independent proposer approver as same_entity)"

definition agreement_involves_third_party ::
  "address \<Rightarrow> address list \<Rightarrow> same_entity \<Rightarrow> bool" where
  "agreement_involves_third_party proposer recipients same_entity \<longleftrightarrow>
     recipients \<noteq> [] \<and> list_ex (\<lambda>r. \<not> same_entity proposer r) recipients"

definition agreement_service_provider_involves_third_party ::
  "address \<Rightarrow> address \<Rightarrow> same_entity \<Rightarrow> bool" where
  "agreement_service_provider_involves_third_party proposer service_provider same_entity \<longleftrightarrow>
     \<not> same_entity proposer service_provider"

text \<open>The validation loop over the allocations, returning the total of the shares.\<close>

fun check_allocations ::
  "address list \<Rightarrow> address set \<Rightarrow> u32 \<Rightarrow> payout_share list \<Rightarrow> agreement_error + u32" where
  "check_allocations parties seen total_bps [] = Ok total_bps"
| "check_allocations parties seen total_bps (a # as) =
     (if ps_share_bps a = 0 then Err ZeroShare
      else if ps_recipient a \<notin> set parties then Err AllocationNotParty
      else if ps_recipient a \<in> seen then Err DuplicateAllocation
      else check_allocations parties (insert (ps_recipient a) seen)
             (saturating_add total_bps (ucast (ps_share_bps a))) as)"

definition resolve_agreement_settlement_allocations ::
  "address \<Rightarrow> address list \<Rightarrow> address \<Rightarrow> payout_share list \<Rightarrow> same_entity
   \<Rightarrow> agreement_error + payout_share list" where
  "resolve_agreement_settlement_allocations proposer parties service_provider allocations same_entity =
     (if allocations \<noteq> [] then
        bind_result (check_allocations parties {} 0 allocations) (\<lambda>total_share_bps.
          if total_share_bps \<noteq> 10000 then Err SharesNotTotal
          else if \<not> agreement_involves_third_party proposer (map ps_recipient allocations) same_entity
          then Err NoThirdPartyRecipient
          else if \<not> list_ex (\<lambda>a. ps_recipient a = service_provider) allocations
          then Err ProviderWithoutShare
          else Ok allocations)
      else Ok [\<lparr>ps_recipient = service_provider, ps_share_bps = 10000\<rparr>])"

definition resolve_agreement_settlement_approver ::
  "address \<Rightarrow> address list \<Rightarrow> payout_share list \<Rightarrow> address option \<Rightarrow> same_entity
   \<Rightarrow> agreement_error + address" where
  "resolve_agreement_settlement_approver proposer parties allocations approver_opt same_entity =
     bind_result
       (case approver_opt of
          Some approver \<Rightarrow> if approver \<notin> set parties then Err ApproverNotParty else Ok approver
        | None \<Rightarrow> if 2 < length parties then Err ApproverRequired else Ok proposer)
       (\<lambda>approver.
          if \<not> settlement_approver_is_independent proposer approver allocations same_entity
          then Err ApproverNotIndependent
          else Ok approver)"

subsection \<open>Dispute reputation\<close>

fun outcome_code :: "party_outcome \<Rightarrow> nat" where
  "outcome_code Won = 0"
| "outcome_code Lost = 1"

text \<open>The comparison both sorts use: party bytes, then the outcome's discriminant.\<close>

definition effect_key :: "reputation_effect \<Rightarrow> u8 list \<times> nat" where
  "effect_key e = (addr_bytes (re_party e), outcome_code (re_outcome e))"

fun check_effects ::
  "address list \<Rightarrow> address set \<Rightarrow> bool \<Rightarrow> bool \<Rightarrow> reputation_effect list
   \<Rightarrow> agreement_error + bool \<times> bool" where
  "check_effects parties seen saw_winner saw_loser [] = Ok (saw_winner, saw_loser)"
| "check_effects parties seen saw_winner saw_loser (e # es) =
     (if re_party e \<notin> set parties then Err EffectNotParty
      else if re_party e \<in> seen then Err DuplicateEffect
      else check_effects parties (insert (re_party e) seen)
             (saw_winner \<or> re_outcome e = Won) (saw_loser \<or> re_outcome e = Lost) es)"

fun same_entity_pair :: "same_entity \<Rightarrow> address list \<Rightarrow> bool" where
  "same_entity_pair same_entity [] = False"
| "same_entity_pair same_entity (p # ps) =
     (list_ex (same_entity p) ps \<or> same_entity_pair same_entity ps)"

definition normalize_dispute_reputation_effects ::
  "address list \<Rightarrow> reputation_effect list \<Rightarrow> same_entity
   \<Rightarrow> agreement_error + reputation_effect list" where
  "normalize_dispute_reputation_effects parties effects same_entity =
     bind_result (check_effects parties {} False False effects) (\<lambda>(saw_winner, saw_loser).
       if effects \<noteq> [] \<and> (\<not> saw_winner \<or> \<not> saw_loser) then Err MissingWinnerOrLoser
       else if same_entity_pair same_entity (map re_party effects) then Err SameEntityEffects
       else Ok (sort_key effect_key effects))"

definition dispute_reputation_counterparty ::
  "address \<Rightarrow> party_outcome \<Rightarrow> reputation_effect list \<Rightarrow> same_entity \<Rightarrow> address option" where
  "dispute_reputation_counterparty party outcome effects same_entity =
     (case map re_party
             (filter (\<lambda>e. re_outcome e \<noteq> outcome \<and> \<not> same_entity party (re_party e)) effects) of
        [] \<Rightarrow> None
      | p # ps \<Rightarrow> Some (foldl min p ps))"

definition dispute_resolution_new ::
  "payout_share list \<Rightarrow> reputation_effect list \<Rightarrow> rstr \<Rightarrow> u64 \<Rightarrow> u32 option \<Rightarrow> dispute_resolution" where
  "dispute_resolution_new payouts effects reason resolved_at_block milestone_index =
     \<lparr>dr_payouts = payouts, dr_reputation_effects = sort_key effect_key effects,
      dr_reason = reason, dr_resolved_at_block = resolved_at_block,
      dr_milestone_index = milestone_index\<rparr>"

subsection \<open>Operations on a stored agreement\<close>

definition is_fully_accepted :: "agreement \<Rightarrow> bool" where
  "is_fully_accepted a \<longleftrightarrow> list_all (\<lambda>p. p \<in> set (ag_accepted_by a)) (ag_parties a)"

definition ag_is_expired :: "agreement \<Rightarrow> u64 \<Rightarrow> bool" where
  "ag_is_expired a current_time_ms \<longleftrightarrow> 0 < ag_expires_at a \<and> ag_expires_at a < current_time_ms"

definition has_milestones :: "agreement \<Rightarrow> bool" where
  "has_milestones a \<longleftrightarrow> ag_milestones a \<noteq> []"

definition all_milestones_complete :: "agreement \<Rightarrow> bool" where
  "all_milestones_complete a \<longleftrightarrow>
     ag_milestones a \<noteq> []
     \<and> list_all (\<lambda>m. ms_status m = MsCompleted \<or> ms_status m = MsResolved) (ag_milestones a)"

definition escrow_remaining :: "agreement \<Rightarrow> u64" where
  "escrow_remaining a = saturating_sub (ag_escrow_amount a) (ag_escrow_released a)"

definition record_escrow_release :: "agreement \<Rightarrow> u64 \<Rightarrow> agreement" where
  "record_escrow_release a amount =
     a\<lparr>ag_escrow_released := min (saturating_add (ag_escrow_released a) amount) (ag_escrow_amount a)\<rparr>"

definition release_remaining_escrow :: "agreement \<Rightarrow> agreement" where
  "release_remaining_escrow a = a\<lparr>ag_escrow_released := ag_escrow_amount a\<rparr>"

definition clear_dispute_state :: "agreement \<Rightarrow> agreement" where
  "clear_dispute_state a =
     a\<lparr>ag_dispute_reason := [], ag_disputed_milestone_index := None, ag_disputed_at := None,
       ag_arbitration_deadline_at := None, ag_arbitration_reassignments := 0,
       ag_prior_arbitrators := []\<rparr>"

definition normalize_for_expiry :: "agreement \<Rightarrow> agreement" where
  "normalize_for_expiry a =
     clear_dispute_state (a\<lparr>ag_status := AgExpired, ag_storage_deposit := 0\<rparr>)"

definition settlement_approver :: "agreement \<Rightarrow> address" where
  "settlement_approver a =
     (case ag_settlement_approver a of Some p \<Rightarrow> p | None \<Rightarrow> ag_proposer a)"

definition effective_settlement_allocations :: "agreement \<Rightarrow> payout_share list" where
  "effective_settlement_allocations a =
     (if ag_settlement_allocations a \<noteq> [] then ag_settlement_allocations a
      else [\<lparr>ps_recipient = ag_service_provider a, ps_share_bps = 10000\<rparr>])"

definition settlement_recipients :: "agreement \<Rightarrow> address list" where
  "settlement_recipients a = map ps_recipient (effective_settlement_allocations a)"

text \<open>\<open>milestones.get_mut(i)\<close> followed by an assignment to its resolution.\<close>

definition put_resolution :: "milestone list \<Rightarrow> nat \<Rightarrow> dispute_resolution \<Rightarrow> milestone list" where
  "put_resolution ms i r = ms[i := (ms ! i)\<lparr>ms_resolution := Some r\<rparr>]"

definition normalize_resolution_storage :: "agreement \<Rightarrow> agreement" where
  "normalize_resolution_storage a =
     (case ag_resolution a of
        None \<Rightarrow> a
      | Some r \<Rightarrow>
        (case dr_milestone_index r of
           None \<Rightarrow> a
         | Some index \<Rightarrow>
           (case get (ag_milestones a) (unat index) of
              None \<Rightarrow> a
            | Some m \<Rightarrow>
                (if ms_resolution m = None
                 then a\<lparr>ag_milestones := put_resolution (ag_milestones a) (unat index) r\<rparr>
                 else a)\<lparr>ag_resolution := None\<rparr>)))"

definition record_milestone_resolution :: "agreement \<Rightarrow> u32 \<Rightarrow> dispute_resolution \<Rightarrow> agreement" where
  "record_milestone_resolution a index r =
     (let b = normalize_resolution_storage a;
          c = (if unat index < length (ag_milestones b)
               then b\<lparr>ag_milestones := put_resolution (ag_milestones b) (unat index) r\<rparr> else b)
      in c\<lparr>ag_resolution := None\<rparr>)"

definition record_whole_agreement_resolution :: "agreement \<Rightarrow> dispute_resolution \<Rightarrow> agreement" where
  "record_whole_agreement_resolution a r =
     (normalize_resolution_storage a)\<lparr>ag_resolution := Some r\<rparr>"

definition resolution_for :: "agreement \<Rightarrow> u32 option \<Rightarrow> dispute_resolution option" where
  "resolution_for a milestone_index =
     (case milestone_index of
        Some index \<Rightarrow> Option.bind (get (ag_milestones a) (unat index)) ms_resolution
      | None \<Rightarrow> ag_resolution a)"

text \<open>\<open>distribute_amount\<close>: the product is taken in \<open>u128\<close>, the quotient cast back to \<open>u64\<close>.\<close>

fun distribute_loop :: "u64 \<Rightarrow> u64 \<Rightarrow> payout_share list \<Rightarrow> (address \<times> u64) list" where
  "distribute_loop amount distributed [] = []"
| "distribute_loop amount distributed (a # as) =
     (let payout_amount =
            (if as = [] then saturating_sub amount distributed
             else as_word (unat amount * unat (ps_share_bps a) div 10000))
      in (ps_recipient a, payout_amount)
         # distribute_loop amount (saturating_add distributed payout_amount) as)"

definition distribute_amount :: "u64 \<Rightarrow> payout_share list \<Rightarrow> (address \<times> u64) list" where
  "distribute_amount amount allocations = distribute_loop amount 0 allocations"

definition payout_amount_for_recipient :: "(address \<times> u64) list \<Rightarrow> address \<Rightarrow> u64" where
  "payout_amount_for_recipient payouts recipient =
     (case List.find (\<lambda>(candidate, _). candidate = recipient) payouts of
        Some (_, amount) \<Rightarrow> amount
      | None \<Rightarrow> 0)"

subsection \<open>Creation checks\<close>

definition validate_agreement_create_stateless ::
  "address \<Rightarrow> agreement_create_data \<Rightarrow> same_entity \<Rightarrow> agreement_error + unit" where
  "validate_agreement_create_stateless proposer d same_entity =
     (if length (ac_parties d) < 2 then Err TooFewParties
      else if 10 < length (ac_parties d) then Err (TooManyParties (length (ac_parties d)))
      else if proposer \<notin> set (ac_parties d) then Err ProposerNotParty
      else case first_dup {} (ac_parties d) of
        Some party \<Rightarrow> Err (DuplicateParty party)
      | None \<Rightarrow>
        if ac_escrow_amount d = 0 then Err ZeroEscrow
        else if 65536 < length (ac_terms d) then Err (TermsTooLarge (length (ac_terms d)))
        else bind_result (materialize_agreement_milestones (ac_milestones d) (ac_escrow_amount d)) (\<lambda>_.
          bind_result
            (case ac_arbitrator d of
               None \<Rightarrow> Ok ()
             | Some arbitrator \<Rightarrow>
                 if arbitrator \<in> set (ac_parties d) then Err ArbitratorIsParty
                 else if list_ex (same_entity arbitrator) (ac_parties d) then Err ArbitratorSameEntity
                 else Ok ()) (\<lambda>_.
          if ac_service_provider d \<notin> set (ac_parties d) then Err ProviderNotParty
          else if \<not> agreement_service_provider_involves_third_party proposer (ac_service_provider d) same_entity
          then Err ProviderSameEntity
          else bind_result
            (resolve_agreement_settlement_allocations proposer (ac_parties d) (ac_service_provider d)
               (ac_settlement_allocations d) same_entity) (\<lambda>settlement_allocations.
          bind_result
            (resolve_agreement_settlement_approver proposer (ac_parties d) settlement_allocations
               (ac_settlement_approver d) same_entity) (\<lambda>_. Ok ())))))"

subsection \<open>Milestone lemmas\<close>

lemma materialize_Ok:
  "materialize_agreement_milestones defs escrow = Ok ms \<longleftrightarrow>
     defs \<noteq> [] \<and> length defs \<le> 20 \<and> (\<forall>m \<in> set defs. str_len (md_description m) \<le> 1024)
     \<and> (\<Sum>m\<leftarrow>defs. unat (md_amount m)) = unat escrow
     \<and> ms = map (\<lambda>(i, m). materialize_milestone i m) (enumerate 0 defs)"
proof (cases "try_fold (\<lambda>acc m. checked_add acc (md_amount m)) (0 :: u64) defs")
  case None
  then have "2 ^ 64 \<le> (\<Sum>m\<leftarrow>defs. unat (md_amount m))"
    by (simp add: try_fold_checked_add_None)
  moreover have "unat escrow < 2 ^ 64" using unsigned_less [of escrow, where ?'a = nat] by simp
  ultimately have "(\<Sum>m\<leftarrow>defs. unat (md_amount m)) \<noteq> unat escrow" by linarith
  with None show ?thesis by (auto simp: materialize_agreement_milestones_def)
next
  case (Some t)
  then have "unat t = (\<Sum>m\<leftarrow>defs. unat (md_amount m))"
    by (simp add: try_fold_checked_add)
  then have "t = escrow \<longleftrightarrow> (\<Sum>m\<leftarrow>defs. unat (md_amount m)) = unat escrow"
    by (auto simp: word_unat_eq_iff)
  moreover have "position (\<lambda>m. 1024 < str_len (md_description m)) defs = None
      \<longleftrightarrow> (\<forall>m \<in> set defs. str_len (md_description m) \<le> 1024)"
    by (simp add: position_eq_None not_less)
  ultimately show ?thesis using Some
    by (cases "position (\<lambda>m. 1024 < str_len (md_description m)) defs")
      (auto simp: materialize_agreement_milestones_def)
qed

lemma materialize_nth:
  "materialize_agreement_milestones defs escrow = Ok ms \<Longrightarrow> i < length defs \<Longrightarrow>
   ms ! i = materialize_milestone i (defs ! i)"
  by (simp add: materialize_Ok nth_enumerate_eq)

lemma materialize_length:
  "materialize_agreement_milestones defs escrow = Ok ms \<Longrightarrow> length ms = length defs"
  by (simp add: materialize_Ok)

subsection \<open>Settlement lemmas\<close>

lemma approver_independent_iff:
  "settlement_approver_is_independent proposer approver as se \<longleftrightarrow>
     (\<forall>a \<in> set as. se proposer (ps_recipient a) \<or> \<not> se approver (ps_recipient a))"
  by (induction as) auto

definition shares_sum :: "payout_share list \<Rightarrow> nat" where
  "shares_sum as = (\<Sum>a\<leftarrow>as. unat (ps_share_bps a))"

lemma unat_ucast_u16: "unat (ucast (x :: u16) :: u32) = unat x"
  using unsigned_less [of x, where ?'a = nat]
  by (simp add: unsigned_ucast_eq take_bit_nat_eq_self)

lemma check_allocations_Ok:
  "check_allocations parties seen acc as = Ok t \<Longrightarrow>
     (\<forall>a \<in> set as. ps_share_bps a \<noteq> 0 \<and> ps_recipient a \<in> set parties)
     \<and> distinct (map ps_recipient as) \<and> set (map ps_recipient as) \<inter> seen = {}
     \<and> unat t = min (unat acc + shares_sum as) (2 ^ 32 - 1)"
proof (induction parties seen acc as arbitrary: t rule: check_allocations.induct)
  case (1 parties seen acc)
  have "unat acc < 2 ^ 32" using unsigned_less [of acc, where ?'a = nat] by simp
  with 1 show ?case by (auto simp: shares_sum_def)
next
  case (2 parties seen acc a as)
  let ?acc = "saturating_add acc (ucast (ps_share_bps a)) :: u32"
  from 2(2) have rec: "check_allocations parties (insert (ps_recipient a) seen) ?acc as = Ok t"
    and guards: "ps_share_bps a \<noteq> 0" "ps_recipient a \<in> set parties" "ps_recipient a \<notin> seen"
    by (auto split: if_splits)
  note IH = "2.IH" [OF guards(1) _ guards(3) rec]
  have "unat ?acc = min (unat acc + unat (ps_share_bps a)) (2 ^ 32 - 1)"
    by (simp add: word_nat_simps unat_ucast_u16)
  with IH guards show ?case
    by (auto simp: shares_sum_def)
qed

text \<open>What every resolved list of allocations satisfies.\<close>

definition wf_allocations :: "address list \<Rightarrow> address \<Rightarrow> payout_share list \<Rightarrow> bool" where
  "wf_allocations parties provider as \<longleftrightarrow>
     shares_sum as = 10000 \<and> distinct (map ps_recipient as)
     \<and> set (map ps_recipient as) \<subseteq> set parties
     \<and> list_ex (\<lambda>a. ps_recipient a = provider \<and> ps_share_bps a \<noteq> 0) as"

lemma resolve_allocations_Ok:
  assumes "as \<noteq> []"
  shows "resolve_agreement_settlement_allocations proposer parties provider as se = Ok r \<longleftrightarrow>
     check_allocations parties {} 0 as = Ok 10000
     \<and> agreement_involves_third_party proposer (map ps_recipient as) se
     \<and> list_ex (\<lambda>a. ps_recipient a = provider) as \<and> r = as"
  using assms
  by (cases "check_allocations parties {} 0 as")
    (simp_all add: resolve_agreement_settlement_allocations_def, blast)

lemma resolve_allocations_wf:
  assumes "resolve_agreement_settlement_allocations proposer parties provider as se = Ok r"
    and "provider \<in> set parties"
  shows "wf_allocations parties provider r"
proof (cases "as = []")
  case True
  with assms show ?thesis
    by (auto simp: resolve_agreement_settlement_allocations_def wf_allocations_def shares_sum_def)
next
  case False
  with assms(1) have t: "check_allocations parties {} 0 as = Ok 10000" "r = as"
    and prov: "list_ex (\<lambda>a. ps_recipient a = provider) as"
    by (simp_all add: resolve_allocations_Ok)
  from check_allocations_Ok [OF t(1)] have
    *: "\<forall>a \<in> set as. ps_share_bps a \<noteq> 0 \<and> ps_recipient a \<in> set parties"
       "distinct (map ps_recipient as)" "unat (10000 :: u32) = min (shares_sum as) (2 ^ 32 - 1)"
    by simp_all
  from *(3) have "shares_sum as = 10000" by (simp add: min_def split: if_splits)
  with * prov t show ?thesis
    by (auto simp: wf_allocations_def list_ex_iff)
qed

subsection \<open>Distribution lemmas\<close>

lemma div_10000_add_le: "x div 10000 + y div 10000 \<le> (x + y) div (10000 :: nat)"
  using div_add1_eq [of x y 10000] by linarith

lemma share_floor_sum:
  "(\<Sum>a\<leftarrow>as. n * unat (ps_share_bps a) div 10000) \<le> n * shares_sum as div 10000"
proof (induction as)
  case Nil
  then show ?case by (simp add: shares_sum_def)
next
  case (Cons a as)
  with div_10000_add_le [of "n * unat (ps_share_bps a)" "n * shares_sum as"] show ?case
    by (simp add: shares_sum_def distrib_left)
qed

lemma distribute_loop_fst: "map fst (distribute_loop amount d as) = map ps_recipient as"
  by (induction amount d as rule: distribute_loop.induct) (auto simp: Let_def)

lemma share_amount:
  assumes "unat s \<le> 10000"
  shows "unat (as_word (unat (amount :: u64) * unat (s :: u16) div 10000) :: u64)
         = unat amount * unat s div 10000"
proof -
  have "unat amount * unat s div 10000 \<le> unat amount * 10000 div 10000"
    using assms by (intro div_le_mono mult_le_mono2)
  also have "\<dots> = unat amount" by simp
  also have "unat amount < 2 ^ 64" using unsigned_less [of amount, where ?'a = nat] by simp
  finally show ?thesis by (intro unat_as_word) simp
qed

lemma distribute_loop_amounts:
  assumes "as \<noteq> []" "unat d + (unat amount * shares_sum as div 10000) \<le> unat amount"
    and "shares_sum as \<le> 10000"
  shows "map (unat \<circ> snd) (distribute_loop amount d as)
         = map (\<lambda>a. unat amount * unat (ps_share_bps a) div 10000) (butlast as)
           @ [unat amount - unat d
              - (\<Sum>a\<leftarrow>butlast as. unat amount * unat (ps_share_bps a) div 10000)]"
  using assms
proof (induction amount d as rule: distribute_loop.induct)
  case (2 amount d a as)
  show ?case
  proof (cases "as = []")
    case True
    then show ?thesis by (simp add: unat_saturating_sub)
  next
    case False
    let ?p = "as_word (unat amount * unat (ps_share_bps a) div 10000) :: u64"
    have s: "shares_sum (a # as) = unat (ps_share_bps a) + shares_sum as"
      by (simp add: shares_sum_def)
    with 2(4) have p: "unat ?p = unat amount * unat (ps_share_bps a) div 10000"
      by (intro share_amount) simp
    have split: "unat ?p + unat amount * shares_sum as div 10000
        \<le> unat amount * shares_sum (a # as) div 10000"
      using div_10000_add_le [of "unat amount * unat (ps_share_bps a)" "unat amount * shares_sum as"]
      by (simp add: p s distrib_left)
    with 2(3) have b: "unat d + unat ?p + unat amount * shares_sum as div 10000 \<le> unat amount"
      by simp
    have "unat amount < 2 ^ 64" using unsigned_less [of amount, where ?'a = nat] by simp
    with b have d: "unat (saturating_add d ?p) = unat d + unat ?p"
      by (simp add: word_nat_simps)
    have "map (unat \<circ> snd) (distribute_loop amount (saturating_add d ?p) as)
        = map (\<lambda>a. unat amount * unat (ps_share_bps a) div 10000) (butlast as)
           @ [unat amount - unat (saturating_add d ?p)
              - (\<Sum>a\<leftarrow>butlast as. unat amount * unat (ps_share_bps a) div 10000)]"
      by (rule "2.IH") (use False b d s 2(4) in auto)
    with False d p show ?thesis by (simp add: Let_def comp_def add.assoc)
  qed
qed simp

lemma distribute_amounts:
  assumes "as \<noteq> []" "shares_sum as \<le> 10000"
  shows "map (unat \<circ> snd) (distribute_amount amount as)
         = map (\<lambda>a. unat amount * unat (ps_share_bps a) div 10000) (butlast as)
           @ [unat amount - (\<Sum>a\<leftarrow>butlast as. unat amount * unat (ps_share_bps a) div 10000)]"
proof -
  have "unat amount * shares_sum as div 10000 \<le> unat amount * 10000 div 10000"
    using assms(2) by (intro div_le_mono mult_le_mono2)
  with assms show ?thesis
    unfolding distribute_amount_def by (subst distribute_loop_amounts) simp_all
qed

lemma butlast_shares:
  assumes "as \<noteq> []"
  shows "(\<Sum>a\<leftarrow>butlast as. n * unat (ps_share_bps a) div 10000) + n * unat (ps_share_bps (last as)) div 10000
         \<le> n * shares_sum as div 10000"
proof -
  have "as = butlast as @ [last as]" using assms by simp
  then have "(\<Sum>a\<leftarrow>as. n * unat (ps_share_bps a) div 10000)
      = (\<Sum>a\<leftarrow>butlast as. n * unat (ps_share_bps a) div 10000) + n * unat (ps_share_bps (last as)) div 10000"
    by (metis (no_types, lifting) list.map(1,2) map_append sum_list.append sum_list.Cons sum_list.Nil add_0_right)
  with share_floor_sum [of n as] show ?thesis by simp
qed

lemma distribute_sum:
  assumes "as \<noteq> []" "shares_sum as \<le> 10000"
  shows "(\<Sum>p\<leftarrow>distribute_amount amount as. unat (snd p)) = unat amount"
proof -
  have "unat amount * shares_sum as div 10000 \<le> unat amount * 10000 div 10000"
    using assms(2) by (intro div_le_mono mult_le_mono2)
  with butlast_shares [OF assms(1), of "unat amount"]
  have "(\<Sum>a\<leftarrow>butlast as. unat amount * unat (ps_share_bps a) div 10000) \<le> unat amount" by simp
  moreover have "(\<Sum>p\<leftarrow>distribute_amount amount as. unat (snd p))
      = sum_list (map (unat \<circ> snd) (distribute_amount amount as))" by (simp add: comp_def)
  ultimately show ?thesis by (simp add: distribute_amounts [OF assms])
qed

subsection \<open>Reputation effects\<close>

lemma check_effects_Ok:
  "check_effects parties seen w l es = Ok r \<longleftrightarrow>
     (\<forall>e \<in> set es. re_party e \<in> set parties) \<and> distinct (map re_party es)
     \<and> set (map re_party es) \<inter> seen = {}
     \<and> r = (w \<or> (\<exists>e \<in> set es. re_outcome e = Won), l \<or> (\<exists>e \<in> set es. re_outcome e = Lost))"
  by (induction parties seen w l es rule: check_effects.induct) auto

lemma same_entity_pair_iff:
  "same_entity_pair se ps \<longleftrightarrow> (\<exists>i j. i < j \<and> j < length ps \<and> se (ps ! i) (ps ! j))"
proof (induction ps)
  case Nil
  then show ?case by simp
next
  case (Cons p ps)
  have "(\<exists>i j. i < j \<and> j < length (p # ps) \<and> se ((p # ps) ! i) ((p # ps) ! j)) \<longleftrightarrow>
      (\<exists>j < length ps. se p (ps ! j)) \<or> (\<exists>i j. i < j \<and> j < length ps \<and> se (ps ! i) (ps ! j))"
    (is "?l \<longleftrightarrow> ?r")
  proof
    assume ?l
    then obtain i j where ij: "i < j" "j < Suc (length ps)" "se ((p # ps) ! i) ((p # ps) ! j)" by auto
    then obtain j' where "j = Suc j'" by (cases j) auto
    with ij show ?r by (cases i) auto
  next
    assume ?r
    then show ?l
    proof
      assume "\<exists>j < length ps. se p (ps ! j)"
      then obtain j where "j < length ps" "se p (ps ! j)" by blast
      then show ?l by (intro exI [of _ 0] exI [of _ "Suc j"]) simp
    next
      assume "\<exists>i j. i < j \<and> j < length ps \<and> se (ps ! i) (ps ! j)"
      then obtain i j where "i < j" "j < length ps" "se (ps ! i) (ps ! j)" by blast
      then show ?l by (intro exI [of _ "Suc i"] exI [of _ "Suc j"]) simp
    qed
  qed
  with Cons show ?case by (simp add: list_ex_length)
qed

lemma normalize_effects_Ok:
  "normalize_dispute_reputation_effects parties es se = Ok r \<longleftrightarrow>
     (\<forall>e \<in> set es. re_party e \<in> set parties) \<and> distinct (map re_party es)
     \<and> (es \<noteq> [] \<longrightarrow> (\<exists>e \<in> set es. re_outcome e = Won) \<and> (\<exists>e \<in> set es. re_outcome e = Lost))
     \<and> \<not> same_entity_pair se (map re_party es) \<and> r = sort_key effect_key es"
  by (auto simp: normalize_dispute_reputation_effects_def check_effects_Ok split: if_splits)

lemma inj_effect_key: "inj effect_key"
proof (rule injI)
  fix d e :: reputation_effect
  assume "effect_key d = effect_key e"
  then have "re_party d = re_party e" "outcome_code (re_outcome d) = outcome_code (re_outcome e)"
    by (auto simp: effect_key_def intro: address.expand)
  then show "d = e"
    by (cases "re_outcome d"; cases "re_outcome e") (auto intro: reputation_effect.equality)
qed

lemma sort_effects_canonical:
  assumes "mset es = mset es'"
  shows "sort_key effect_key es = sort_key effect_key es'"
  by (rule sort_key_inj_key_eq) (auto simp: assms intro: inj_on_subset [OF inj_effect_key])

subsection \<open>Stored resolutions\<close>

lemma length_put_resolution [simp]: "length (put_resolution ms i r) = length ms"
  by (simp add: put_resolution_def)

lemma put_resolution_amounts [simp]:
  "map ms_amount (put_resolution ms i r) = map ms_amount ms"
  by (cases "i < length ms") (auto simp: put_resolution_def list_eq_iff_nth_eq nth_list_update)

lemma nth_put_resolution:
  "j < length ms \<Longrightarrow>
   ms_resolution (put_resolution ms i r ! j) = (if j = i then Some r else ms_resolution (ms ! j))"
  by (auto simp: put_resolution_def nth_list_update)

text \<open>The terms of an agreement that no bookkeeping operation touches.\<close>

definition ag_terms_of :: "agreement \<Rightarrow> address list \<times> address \<times> address \<times> u64 \<times> u64 list" where
  "ag_terms_of a = (ag_parties a, ag_proposer a, ag_service_provider a, ag_escrow_amount a,
     map ms_amount (ag_milestones a))"

lemma normalize_resolution_storage_frame [simp]:
  "ag_terms_of (normalize_resolution_storage a) = ag_terms_of a"
  "ag_escrow_released (normalize_resolution_storage a) = ag_escrow_released a"
  "ag_escrow_amount (normalize_resolution_storage a) = ag_escrow_amount a"
  "length (ag_milestones (normalize_resolution_storage a)) = length (ag_milestones a)"
  by (simp_all add: normalize_resolution_storage_def ag_terms_of_def split: option.splits)

lemma normalize_keeps_filled:
  assumes "i < length (ag_milestones a)" "ms_resolution (ag_milestones a ! i) = Some r"
  shows "ms_resolution (ag_milestones (normalize_resolution_storage a) ! i) = Some r"
  using assms
  by (auto simp: normalize_resolution_storage_def nth_put_resolution split: option.splits)

lemma normalize_moves:
  assumes "ag_resolution a = Some r" "dr_milestone_index r = Some i"
    and "unat i < length (ag_milestones a)" "ms_resolution (ag_milestones a ! unat i) = None"
  shows "ms_resolution (ag_milestones (normalize_resolution_storage a) ! unat i) = Some r"
  using assms
  by (auto simp: normalize_resolution_storage_def nth_put_resolution split: option.splits)

subsection \<open>Bookkeeping as a state machine\<close>

datatype agreement_op =
    RecordEscrowRelease u64 | ReleaseRemainingEscrow | ClearDisputeState | NormalizeForExpiry
  | NormalizeResolutionStorage | RecordMilestoneResolution u32 dispute_resolution
  | RecordWholeAgreementResolution dispute_resolution

fun agreement_step :: "agreement \<Rightarrow> agreement_op \<Rightarrow> agreement" where
  "agreement_step a (RecordEscrowRelease amount) = record_escrow_release a amount"
| "agreement_step a ReleaseRemainingEscrow = release_remaining_escrow a"
| "agreement_step a ClearDisputeState = clear_dispute_state a"
| "agreement_step a NormalizeForExpiry = normalize_for_expiry a"
| "agreement_step a NormalizeResolutionStorage = normalize_resolution_storage a"
| "agreement_step a (RecordMilestoneResolution i r) = record_milestone_resolution a i r"
| "agreement_step a (RecordWholeAgreementResolution r) = record_whole_agreement_resolution a r"

definition escrow_inv :: "agreement \<Rightarrow> bool" where
  "escrow_inv a \<longleftrightarrow> ag_escrow_released a \<le> ag_escrow_amount a"

lemmas agreement_op_defs = record_escrow_release_def release_remaining_escrow_def
  clear_dispute_state_def normalize_for_expiry_def record_milestone_resolution_def
  record_whole_agreement_resolution_def

lemma agreement_step_terms: "ag_terms_of (agreement_step a op) = ag_terms_of a"
proof (cases op)
  case NormalizeResolutionStorage
  then show ?thesis by simp
next
  case (RecordMilestoneResolution i r)
  then show ?thesis
    using normalize_resolution_storage_frame(1) [of a]
    by (simp add: agreement_op_defs Let_def ag_terms_of_def)
next
  case (RecordWholeAgreementResolution r)
  then show ?thesis
    using normalize_resolution_storage_frame(1) [of a]
    by (simp add: agreement_op_defs ag_terms_of_def)
qed (simp_all add: agreement_op_defs ag_terms_of_def)

lemma agreement_step_amount: "ag_escrow_amount (agreement_step a op) = ag_escrow_amount a"
  using agreement_step_terms [of a op] by (simp add: ag_terms_of_def)

interpretation escrow: stateful_mono agreement_step escrow_inv "\<lambda>a. unat (ag_escrow_released a)"
proof
  fix a op
  assume inv: "escrow_inv a"
  show "escrow_inv (agreement_step a op)"
    using inv agreement_step_amount [of a op]
    by (cases op) (simp_all add: escrow_inv_def agreement_op_defs Let_def)
  show "unat (ag_escrow_released a) \<le> unat (ag_escrow_released (agreement_step a op))"
    using inv
    by (cases op)
      (auto simp: escrow_inv_def agreement_op_defs Let_def word_nat_simps word_le_nat_alt unat_u64_bound)
qed

lemma agreement_run_terms: "ag_terms_of (foldl agreement_step a ops) = ag_terms_of a"
  by (induction ops arbitrary: a) (simp_all add: agreement_step_terms)

subsection \<open>Properties\<close>

definition demo_party :: "u8 \<Rightarrow> address" where
  "demo_party b = Address (replicate 20 b)"

definition demo_shares :: "payout_share list" where
  "demo_shares = [\<lparr>ps_recipient = demo_party 1, ps_share_bps = 3333\<rparr>,
                  \<lparr>ps_recipient = demo_party 2, ps_share_bps = 6667\<rparr>]"

definition demo_create :: agreement_create_data where
  "demo_create =
     \<lparr>ac_parties = [demo_party 1, demo_party 2], ac_terms = [], ac_escrow_amount = 100,
      ac_expires_at = 0, ac_arbitrator = None,
      ac_milestones = [\<lparr>md_description = [], md_amount = 40\<rparr>, \<lparr>md_description = [], md_amount = 60\<rparr>],
      ac_service_provider = demo_party 2, ac_settlement_allocations = demo_shares,
      ac_settlement_approver = None\<rparr>"

lemma demo_party_eq [simp]: "demo_party a = demo_party b \<longleftrightarrow> a = b"
  by (simp add: demo_party_def numeral_eq_Suc)

lemma demo_shares_resolve:
  "resolve_agreement_settlement_allocations (demo_party 1) [demo_party 1, demo_party 2] (demo_party 2)
     demo_shares (=) = Ok demo_shares"
  by (simp add: resolve_agreement_settlement_allocations_def demo_shares_def saturating_add_def
      agreement_involves_third_party_def)

text \<open>(C25) Payout distribution conserves funds: for settlement allocations that creation
  accepted, the payouts of any released amount go to the recipients in order, sum to exactly
  that amount, every recipient but the last receives the floor of its basis-point share, and
  the last receives at least its floor (the rounding dust goes to it).\<close>

theorem distribute_conserves:
  assumes "resolve_agreement_settlement_allocations proposer parties provider as se = Ok r"
    and "provider \<in> set parties"
  shows "(\<Sum>p\<leftarrow>distribute_amount amount r. unat (snd p)) = unat amount
    \<and> map fst (distribute_amount amount r) = map ps_recipient r
    \<and> map (unat \<circ> snd) (butlast (distribute_amount amount r))
        = map (\<lambda>a. unat amount * unat (ps_share_bps a) div 10000) (butlast r)
    \<and> unat amount * unat (ps_share_bps (last r)) div 10000
        \<le> unat (snd (last (distribute_amount amount r)))"
proof -
  have sum: "shares_sum r = 10000" and ne: "r \<noteq> []"
    using resolve_allocations_wf [OF assms] by (auto simp: wf_allocations_def shares_sum_def)
  let ?fl = "\<lambda>a. unat amount * unat (ps_share_bps a) div 10000"
  have amounts: "map (unat \<circ> snd) (distribute_amount amount r)
      = map ?fl (butlast r) @ [unat amount - (\<Sum>a\<leftarrow>butlast r. ?fl a)]"
    using distribute_amounts [OF ne] sum by simp
  have dne: "distribute_amount amount r \<noteq> []" using amounts by auto
  have "map (unat \<circ> snd) (butlast (distribute_amount amount r)) = map ?fl (butlast r)"
    by (simp only: map_butlast amounts butlast_snoc)
  moreover have "unat (snd (last (distribute_amount amount r)))
      = unat amount - (\<Sum>a\<leftarrow>butlast r. ?fl a)"
    using last_map [OF dne, of "unat \<circ> snd"] amounts by simp
  moreover have "(\<Sum>a\<leftarrow>butlast r. ?fl a) + ?fl (last r) \<le> unat amount"
    using butlast_shares [OF ne, of "unat amount"] sum by simp
  ultimately show ?thesis
    using distribute_sum [OF ne, of amount] sum
    by (simp add: distribute_amount_def distribute_loop_fst)
qed

theorem distribute_conserves_witness:
  "(\<Sum>p\<leftarrow>distribute_amount 1000001 demo_shares. unat (snd p)) = 1000001"
  using distribute_conserves [OF demo_shares_resolve, of 1000001] by simp

text \<open>An accepted \<open>AgreementCreate\<close> payload is economically sound: distinct parties
  that include proposer and provider, at most ten; a positive escrow that the milestone
  amounts add up to; a provider and an arbitrator who are not the proposer's entity or a
  party; allocations worth exactly 10000 basis points among distinct parties with a non-zero
  share for the provider; and a settlement approver who is a party and cannot pay itself.\<close>

theorem accepted_create_is_sound:
  assumes "validate_agreement_create_stateless proposer d se = Ok ()"
  shows "distinct (ac_parties d) \<and> length (ac_parties d) \<le> 10
    \<and> {proposer, ac_service_provider d} \<subseteq> set (ac_parties d)
    \<and> \<not> se proposer (ac_service_provider d)
    \<and> 0 < unat (ac_escrow_amount d)
    \<and> (\<exists>ms. materialize_agreement_milestones (ac_milestones d) (ac_escrow_amount d) = Ok ms
          \<and> (\<Sum>m\<leftarrow>ms. unat (ms_amount m)) = unat (ac_escrow_amount d))
    \<and> (\<forall>arb. ac_arbitrator d = Some arb \<longrightarrow>
          arb \<notin> set (ac_parties d) \<and> (\<forall>p \<in> set (ac_parties d). \<not> se arb p))
    \<and> (\<exists>as approver.
          resolve_agreement_settlement_allocations proposer (ac_parties d) (ac_service_provider d)
            (ac_settlement_allocations d) se = Ok as
          \<and> wf_allocations (ac_parties d) (ac_service_provider d) as
          \<and> resolve_agreement_settlement_approver proposer (ac_parties d) as
              (ac_settlement_approver d) se = Ok approver
          \<and> approver \<in> set (ac_parties d)
          \<and> (\<forall>a \<in> set as. se proposer (ps_recipient a) \<or> \<not> se approver (ps_recipient a)))"
proof -
  from assms obtain ms as approver where
    parties: "distinct (ac_parties d)" "\<not> 10 < length (ac_parties d)" "proposer \<in> set (ac_parties d)"
      "ac_service_provider d \<in> set (ac_parties d)" "ac_escrow_amount d \<noteq> 0"
      "\<not> se proposer (ac_service_provider d)"
    and ms: "materialize_agreement_milestones (ac_milestones d) (ac_escrow_amount d) = Ok ms"
    and arb: "\<forall>arb. ac_arbitrator d = Some arb \<longrightarrow>
          arb \<notin> set (ac_parties d) \<and> (\<forall>p \<in> set (ac_parties d). \<not> se arb p)"
    and as: "resolve_agreement_settlement_allocations proposer (ac_parties d) (ac_service_provider d)
            (ac_settlement_allocations d) se = Ok as"
    and app: "resolve_agreement_settlement_approver proposer (ac_parties d) as
              (ac_settlement_approver d) se = Ok approver"
    by (auto simp: validate_agreement_create_stateless_def list_ex_iff
        agreement_service_provider_involves_third_party_def split: if_splits option.splits)
  have "(\<Sum>m\<leftarrow>ms. unat (ms_amount m)) = (\<Sum>m\<leftarrow>ac_milestones d. unat (md_amount m))"
    using ms by (simp add: materialize_Ok materialize_milestone_def case_prod_unfold comp_def
        flip: map_map [of "\<lambda>m. unat (md_amount m)" snd, unfolded comp_def])
  with ms have "(\<Sum>m\<leftarrow>ms. unat (ms_amount m)) = unat (ac_escrow_amount d)"
    by (simp add: materialize_Ok)
  moreover have "approver \<in> set (ac_parties d)
      \<and> (\<forall>a \<in> set as. se proposer (ps_recipient a) \<or> \<not> se approver (ps_recipient a))"
    using app parties(3)
    by (auto simp: resolve_agreement_settlement_approver_def approver_independent_iff
        split: option.splits if_splits)
  moreover have "0 < unat (ac_escrow_amount d)" using parties(5) by (simp add: unat_gt_0)
  ultimately show ?thesis
    using parties ms arb as app resolve_allocations_wf [OF as parties(4)]
    by (intro conjI exI [of _ ms] exI [of _ as] exI [of _ approver]) auto
qed

theorem accepted_create_is_sound_witness:
  "validate_agreement_create_stateless (demo_party 1) demo_create (=) = Ok ()
   \<and> length (ac_parties demo_create) \<le> 10"
proof -
  have "validate_agreement_create_stateless (demo_party 1) demo_create (=) = Ok ()"
    by (simp add: validate_agreement_create_stateless_def demo_create_def
        materialize_agreement_milestones_def checked_add_def str_len_def utf8_def
        agreement_service_provider_involves_third_party_def demo_shares_resolve
        resolve_agreement_settlement_approver_def approver_independent_iff)
  then show ?thesis using accepted_create_is_sound [of "demo_party 1" demo_create "(=)"] by simp
qed

text \<open>Milestone schedules: materialisation succeeds exactly for one to twenty
  milestones with short descriptions whose amounts add up to the escrow without overflow;
  the result numbers them from 0, all pending, with the defined amounts; and the canonical
  single-payment schedule is always accepted.\<close>

theorem materialize_milestones_correct:
  "(is_ok (materialize_agreement_milestones defs escrow) \<longleftrightarrow>
      0 < length defs \<and> length defs \<le> 20 \<and> list_all (\<lambda>m. str_len (md_description m) \<le> 1024) defs
      \<and> (\<Sum>m\<leftarrow>defs. unat (md_amount m)) = unat escrow)
   \<and> (case materialize_agreement_milestones defs escrow of
        Ok ms \<Rightarrow> map (unat \<circ> ms_index) ms = [0..<length defs] \<and> map ms_amount ms = map md_amount defs
          \<and> list_all (\<lambda>m. ms_status m = MsPending \<and> ms_resolution m = None) ms
      | Err e \<Rightarrow> True)
   \<and> is_ok (materialize_agreement_milestones (canonical_single_payment_milestones escrow) escrow)"
proof -
  have "map (unat \<circ> ms_index) ms = [0..<length defs] \<and> map ms_amount ms = map md_amount defs
          \<and> list_all (\<lambda>m. ms_status m = MsPending \<and> ms_resolution m = None) ms"
    if "materialize_agreement_milestones defs escrow = Ok ms" for ms
  proof (intro conjI)
    from that have len: "length defs \<le> 20" by (simp add: materialize_Ok)
    show "map (unat \<circ> ms_index) ms = [0..<length defs]"
    proof (rule nth_equalityI)
      fix i
      assume "i < length (map (unat \<circ> ms_index) ms)"
      then have "i < length defs" using that by (simp add: materialize_length)
      moreover from this len have "unat (as_word i :: u32) = i" by (intro unat_as_word) simp
      ultimately show "map (unat \<circ> ms_index) ms ! i = [0..<length defs] ! i"
        using that by (simp add: materialize_length materialize_nth materialize_milestone_def)
    qed (simp add: materialize_length [OF that])
    show "map ms_amount ms = map md_amount defs"
      by (rule nth_equalityI)
        (simp_all add: materialize_length [OF that] materialize_nth [OF that] materialize_milestone_def)
    show "list_all (\<lambda>m. ms_status m = MsPending \<and> ms_resolution m = None) ms"
      using that by (simp add: list_all_length materialize_nth materialize_length materialize_milestone_def)
  qed
  moreover have "is_ok (materialize_agreement_milestones (canonical_single_payment_milestones escrow) escrow)"
    by (simp add: is_ok_iff materialize_Ok canonical_single_payment_milestones_def str_len_def
        utf8_def utf8_char_def utf8_units_def)
  ultimately show ?thesis
    by (auto simp: is_ok_iff materialize_Ok list_all_iff split: sum.splits)
qed

text \<open>(C27) Escrow accounting over any sequence of bookkeeping operations: the released
  counter never exceeds the escrow and never decreases, released and remaining always add up
  to the escrow, and parties, provider, escrow and milestone amounts never change.\<close>

theorem escrow_accounting:
  assumes "ag_escrow_released a \<le> ag_escrow_amount a"
  shows "unat (ag_escrow_released a) \<le> unat (ag_escrow_released (foldl agreement_step a ops))
    \<and> unat (ag_escrow_released (foldl agreement_step a ops))
        + unat (escrow_remaining (foldl agreement_step a ops)) = unat (ag_escrow_amount a)
    \<and> ag_terms_of (foldl agreement_step a ops) = ag_terms_of a"
proof -
  let ?b = "foldl agreement_step a ops"
  have "escrow_inv a" using assms by (simp add: escrow_inv_def)
  then have "escrow_inv ?b" "unat (ag_escrow_released a) \<le> unat (ag_escrow_released ?b)"
    by (rule escrow.run_inv, rule escrow.run_mono)
  moreover have terms: "ag_terms_of ?b = ag_terms_of a" by (rule agreement_run_terms)
  then have "ag_escrow_amount ?b = ag_escrow_amount a" by (simp add: ag_terms_of_def)
  ultimately show ?thesis
    using terms by (simp add: escrow_remaining_def escrow_inv_def word_nat_simps word_le_nat_alt)
qed

definition demo_agreement :: agreement where
  "demo_agreement =
     \<lparr>ag_agreement_id = hash_zero, ag_parties = [demo_party 1, demo_party 2],
      ag_proposer = demo_party 1, ag_terms = [], ag_escrow_amount = 100, ag_status = AgActive,
      ag_created_at_block = 0, ag_expires_at = 0, ag_accepted_by = [], ag_arbitrator = None,
      ag_result_hash = None, ag_dispute_reason = [], ag_disputed_milestone_index = None,
      ag_disputed_at = None, ag_arbitration_deadline_at = None, ag_arbitration_reassignments = 0,
      ag_prior_arbitrators = [], ag_resolution = None,
      ag_milestones = [materialize_milestone 0 \<lparr>md_description = [], md_amount = 100\<rparr>],
      ag_escrow_released = 0, ag_arbitrator_fee_bps = 0, ag_service_provider = demo_party 2,
      ag_settlement_allocations = [], ag_storage_deposit = 0, ag_settlement_approver = None\<rparr>"

theorem escrow_accounting_witness:
  "ag_terms_of (foldl agreement_step demo_agreement [RecordEscrowRelease 70, RecordEscrowRelease 70])
     = ag_terms_of demo_agreement
   \<and> ag_escrow_released (foldl agreement_step demo_agreement [RecordEscrowRelease 70, RecordEscrowRelease 70]) = 100"
  using escrow_accounting [of demo_agreement "[RecordEscrowRelease 70, RecordEscrowRelease 70]"]
  by (simp add: demo_agreement_def record_escrow_release_def saturating_add_def)

text \<open>Normalised dispute effects are a canonical form: accepted effects name distinct
  parties of the agreement, no two of one entity, with a winner and a loser unless empty; the
  stored list is the given one sorted by party and outcome, so that two orders of the same
  effects that are both accepted are stored identically, and the sort \<open>DisputeResolution::new\<close>
  applies again changes nothing.\<close>

theorem normalized_effects_canonical:
  assumes "normalize_dispute_reputation_effects parties es se = Ok r"
  shows "mset r = mset es \<and> sorted (map effect_key r) \<and> distinct (map re_party r)
    \<and> set (map re_party r) \<subseteq> set parties
    \<and> (\<forall>i j. i < j \<and> j < length es \<longrightarrow> \<not> se (re_party (es ! i)) (re_party (es ! j)))
    \<and> (es \<noteq> [] \<longrightarrow> {Won, Lost} \<subseteq> re_outcome ` set r)
    \<and> (\<forall>es' r'. mset es' = mset es \<and> normalize_dispute_reputation_effects parties es' se = Ok r'
          \<longrightarrow> r' = r)
    \<and> dr_reputation_effects (dispute_resolution_new payouts r reason block index) = r"
proof -
  from assms have r: "r = sort_key effect_key es" and ok:
    "\<forall>e \<in> set es. re_party e \<in> set parties" "distinct (map re_party es)"
    "es \<noteq> [] \<longrightarrow> (\<exists>e \<in> set es. re_outcome e = Won) \<and> (\<exists>e \<in> set es. re_outcome e = Lost)"
    "\<not> same_entity_pair se (map re_party es)"
    by (auto simp: normalize_effects_Ok)
  have m: "mset r = mset es" by (simp add: r)
  then have "mset (map re_party r) = mset (map re_party es)" by simp
  with ok(2) have "distinct (map re_party r)" by (metis mset_eq_imp_distinct_iff)
  moreover have set_r: "set r = set es" using m by (metis set_mset_mset)
  moreover have "sort_key effect_key r = r" using sort_effects_canonical [OF m] r by simp
  moreover have "\<forall>es' r'. mset es' = mset es
      \<and> normalize_dispute_reputation_effects parties es' se = Ok r' \<longrightarrow> r' = r"
  proof (intro allI impI)
    fix es' r'
    assume "mset es' = mset es \<and> normalize_dispute_reputation_effects parties es' se = Ok r'"
    then have "mset es' = mset es" "r' = sort_key effect_key es'" by (simp_all add: normalize_effects_Ok)
    then show "r' = r" using sort_effects_canonical [of es' es] r by simp
  qed
  moreover have "\<not> se (re_party (es ! i)) (re_party (es ! j))" if "i < j" "j < length es" for i j
    using ok(4) that by (auto simp: same_entity_pair_iff)
  moreover have "{Won, Lost} \<subseteq> re_outcome ` set r" if "es \<noteq> []"
    using ok(3) that unfolding set_r by force
  moreover have "sorted (map effect_key r)" by (simp add: r)
  moreover have "set (map re_party r) \<subseteq> set parties" using ok(1) by (auto simp: set_r)
  ultimately show ?thesis
    using m by (intro conjI allI impI) (simp_all add: dispute_resolution_new_def)
qed

theorem normalized_effects_canonical_witness:
  "\<exists>r. normalize_dispute_reputation_effects [demo_party 1, demo_party 2]
         [\<lparr>re_party = demo_party 2, re_outcome = Lost\<rparr>, \<lparr>re_party = demo_party 1, re_outcome = Won\<rparr>] (=)
       = Ok r \<and> distinct (map re_party r)"
proof -
  let ?es = "[\<lparr>re_party = demo_party 2, re_outcome = Lost\<rparr>, \<lparr>re_party = demo_party 1, re_outcome = Won\<rparr>]"
  have "normalize_dispute_reputation_effects [demo_party 1, demo_party 2] ?es (=)
      = Ok (sort_key effect_key ?es)"
    by (subst normalize_effects_Ok) simp
  with normalized_effects_canonical [OF this] show ?thesis by blast
qed

text \<open>Dispute outcomes are kept where they belong: recording a milestone outcome makes
  it the answer for that milestone, leaves the whole-agreement slot empty and disturbs no
  outcome another milestone already has; recording a whole-agreement outcome makes it the
  top-level answer, and a milestone outcome that was parked at top level is moved to its
  milestone rather than lost.\<close>

theorem resolution_storage:
  fixes a defines "len \<equiv> length (ag_milestones a)"
  shows "resolution_for (record_milestone_resolution a i r) None = None
    \<and> resolution_for (record_milestone_resolution a i r) (Some i)
        = (if unat i < len then Some r else None)
    \<and> (\<forall>j old. j \<noteq> i \<and> resolution_for a (Some j) = Some old \<longrightarrow>
          resolution_for (record_milestone_resolution a i r) (Some j) = Some old)
    \<and> resolution_for (record_whole_agreement_resolution a r) None = Some r
    \<and> (\<forall>j old. resolution_for a (Some j) = Some old \<longrightarrow>
          resolution_for (record_whole_agreement_resolution a r) (Some j) = Some old)
    \<and> (\<forall>j old. resolution_for a None = Some old \<and> dr_milestone_index old = Some j
          \<and> unat j < len \<and> resolution_for a (Some j) = None \<longrightarrow>
          resolution_for (record_whole_agreement_resolution a r) (Some j) = Some old)"
proof -
  let ?b = "normalize_resolution_storage a"
  have keep: "resolution_for ?b (Some j) = Some old" if "resolution_for a (Some j) = Some old" for j old
    using that normalize_keeps_filled [of "unat j" a old]
    by (auto simp: resolution_for_def bind_eq_Some_conv)
  have move: "resolution_for ?b (Some j) = Some old"
    if "resolution_for a None = Some old" "dr_milestone_index old = Some j" "unat j < len"
      "resolution_for a (Some j) = None" for j old
    using that normalize_moves [of a old j]
    by (auto simp: resolution_for_def bind_eq_Some_conv len_def get_def)
  have whole: "resolution_for (record_whole_agreement_resolution a r) (Some j) = resolution_for ?b (Some j)" for j
    by (simp add: record_whole_agreement_resolution_def resolution_for_def)
  have mil: "resolution_for (record_milestone_resolution a i r) (Some j)
      = (if j = i \<and> unat i < len then Some r else resolution_for ?b (Some j))" for j
    by (auto simp: record_milestone_resolution_def resolution_for_def Let_def get_def len_def
        nth_put_resolution word_unat_eq_iff)
  have none: "resolution_for ?b (Some i) = None" if "\<not> unat i < len"
    using that by (simp add: resolution_for_def get_def len_def)
  show ?thesis
    using keep move none
    by (auto simp: mil whole) (simp_all add: resolution_for_def record_milestone_resolution_def
        record_whole_agreement_resolution_def Let_def)
qed

definition demo_resolution :: "u32 option \<Rightarrow> dispute_resolution" where
  "demo_resolution index = dispute_resolution_new demo_shares [] [] 7 index"

definition demo_parked :: agreement where
  "demo_parked =
     demo_agreement\<lparr>ag_milestones := map (\<lambda>i. materialize_milestone i \<lparr>md_description = [], md_amount = 50\<rparr>) [0, 1],
       ag_resolution := Some (demo_resolution (Some 1))\<rparr>"

theorem resolution_storage_witness:
  "resolution_for (record_whole_agreement_resolution demo_parked (demo_resolution None)) (Some 1)
     = Some (demo_resolution (Some 1))"
proof -
  have "resolution_for demo_parked None = Some (demo_resolution (Some 1))"
    "dr_milestone_index (demo_resolution (Some 1)) = Some 1"
    "unat (1 :: u32) < length (ag_milestones demo_parked)" "resolution_for demo_parked (Some 1) = None"
    by (simp_all add: resolution_for_def demo_parked_def demo_resolution_def dispute_resolution_new_def
        get_def materialize_milestone_def)
  then show ?thesis
    using resolution_storage [of demo_parked 0 "demo_resolution None"] by blast
qed

end
