(* ===== verification/Floats.thy ===== *)
theory Floats
  imports Complex_Main Prelude
begin

text \<open>
  IEEE 754 floating point, as Rust's \<open>f64\<close> and \<open>f32\<close> use it: a value is a NaN, an infinity or
  a signed rational, and every operation computes exactly and rounds once, to nearest with
  ties to even, with gradual underflow and overflow to infinity. NaN payloads are not
  distinguished. \<open>ln\<close> and \<open>powf\<close>, whose precision Rust leaves open, are not here: definitions
  that call them take them as arguments.

  The locale \<open>float_format\<close> holds what proofs use of rounding: it is monotone and leaves
  representable numbers alone. It is interpreted on both formats.
\<close>

subsection \<open>Rounding a rational\<close>

definition round_half_even :: "rat \<Rightarrow> int" where
  "round_half_even x =
     (let f = \<lfloor>x\<rfloor>; d = x - of_int f in
      if d < 1 / 2 then f else if 1 / 2 < d then f + 1 else if even f then f else f + 1)"

fun bit_count :: "nat \<Rightarrow> nat" where
  "bit_count n = (if n = 0 then 0 else Suc (bit_count (n div 2)))"

declare bit_count.simps [simp del]

text \<open>The exponent of the leading bit of a positive number.\<close>

definition ilog2 :: "rat \<Rightarrow> int" where
  "ilog2 q = (if 1 \<le> q then int (bit_count (nat \<lfloor>q\<rfloor>)) - 1
              else - int (bit_count (nat \<lceil>1 / q\<rceil> - 1)))"

text \<open>A format: the precision in bits, the exponent of the smallest positive number, and the
  exponent at which finite numbers end.\<close>

record float_fmt =
  fm_prec :: nat
  fm_min :: int
  fm_max :: int

definition F64 :: float_fmt where
  "F64 = \<lparr>fm_prec = 53, fm_min = - 1074, fm_max = 1024\<rparr>"

definition F32 :: float_fmt where
  "F32 = \<lparr>fm_prec = 24, fm_min = - 149, fm_max = 128\<rparr>"

definition quantum :: "float_fmt \<Rightarrow> rat \<Rightarrow> int" where
  "quantum F q = max (fm_min F) (ilog2 q - int (fm_prec F) + 1)"

definition round_mag :: "float_fmt \<Rightarrow> rat \<Rightarrow> rat" where
  "round_mag F q =
     (if q \<le> 0 then 0
      else of_int (round_half_even (q / 2 powi quantum F q)) * 2 powi quantum F q)"

subsection \<open>Values and operations\<close>

datatype float = NaN | Inf (inf_neg: bool) | Num (num_neg: bool) (num_mag: rat)

fun num_val :: "float \<Rightarrow> rat" where
  "num_val (Num n m) = (if n then - m else m)"
| "num_val _ = 0"

definition fround :: "float_fmt \<Rightarrow> bool \<Rightarrow> rat \<Rightarrow> float" where
  "fround F neg q = (let m = round_mag F q in if 2 powi fm_max F \<le> m then Inf neg else Num neg m)"

text \<open>The value a rounded result has as long as it does not overflow.\<close>

definition rnd :: "float_fmt \<Rightarrow> rat \<Rightarrow> rat" where
  "rnd F v = (if v < 0 then - round_mag F (- v) else round_mag F v)"

definition of_rat_lit :: "float_fmt \<Rightarrow> rat \<Rightarrow> float" where
  "of_rat_lit F r = fround F (r < 0) \<bar>r\<bar>"

definition of_u64 :: "float_fmt \<Rightarrow> 'a::len word \<Rightarrow> float" where
  "of_u64 F w = fround F False (of_nat (unat w))"

fun fneg :: "float \<Rightarrow> float" where
  "fneg NaN = NaN"
| "fneg (Inf s) = Inf (\<not> s)"
| "fneg (Num s m) = Num (\<not> s) m"

fun fadd :: "float_fmt \<Rightarrow> float \<Rightarrow> float \<Rightarrow> float" where
  "fadd F NaN y = NaN"
| "fadd F x NaN = NaN"
| "fadd F (Inf s) (Inf t) = (if s = t then Inf s else NaN)"
| "fadd F (Inf s) (Num t m) = Inf s"
| "fadd F (Num s m) (Inf t) = Inf t"
| "fadd F (Num s m) (Num t k) =
     (let r = num_val (Num s m) + num_val (Num t k) in
      if r = 0 then Num (s \<and> t) 0 else fround F (r < 0) \<bar>r\<bar>)"

definition fsub :: "float_fmt \<Rightarrow> float \<Rightarrow> float \<Rightarrow> float" where
  "fsub F x y = fadd F x (fneg y)"

fun fmul :: "float_fmt \<Rightarrow> float \<Rightarrow> float \<Rightarrow> float" where
  "fmul F NaN y = NaN"
| "fmul F x NaN = NaN"
| "fmul F (Inf s) (Inf t) = Inf (s \<noteq> t)"
| "fmul F (Inf s) (Num t m) = (if m = 0 then NaN else Inf (s \<noteq> t))"
| "fmul F (Num s m) (Inf t) = (if m = 0 then NaN else Inf (s \<noteq> t))"
| "fmul F (Num s m) (Num t k) = fround F (s \<noteq> t) (m * k)"

fun fdiv :: "float_fmt \<Rightarrow> float \<Rightarrow> float \<Rightarrow> float" where
  "fdiv F NaN y = NaN"
| "fdiv F x NaN = NaN"
| "fdiv F (Inf s) (Inf t) = NaN"
| "fdiv F (Inf s) (Num t m) = Inf (s \<noteq> t)"
| "fdiv F (Num s m) (Inf t) = Num (s \<noteq> t) 0"
| "fdiv F (Num s m) (Num t k) =
     (if k = 0 then (if m = 0 then NaN else Inf (s \<noteq> t)) else fround F (s \<noteq> t) (m / k))"

fun flt :: "float \<Rightarrow> float \<Rightarrow> bool" where
  "flt NaN y \<longleftrightarrow> False"
| "flt x NaN \<longleftrightarrow> False"
| "flt (Inf s) (Inf t) \<longleftrightarrow> s \<and> \<not> t"
| "flt (Inf s) (Num t m) \<longleftrightarrow> s"
| "flt (Num s m) (Inf t) \<longleftrightarrow> \<not> t"
| "flt (Num s m) (Num t k) \<longleftrightarrow> num_val (Num s m) < num_val (Num t k)"

fun feq :: "float \<Rightarrow> float \<Rightarrow> bool" where
  "feq (Inf s) (Inf t) \<longleftrightarrow> s = t"
| "feq (Num s m) (Num t k) \<longleftrightarrow> num_val (Num s m) = num_val (Num t k)"
| "feq _ _ \<longleftrightarrow> False"

definition fle :: "float \<Rightarrow> float \<Rightarrow> bool" where
  "fle x y \<longleftrightarrow> flt x y \<or> feq x y"

definition is_finite :: "float \<Rightarrow> bool" where
  "is_finite x \<longleftrightarrow> (case x of Num _ _ \<Rightarrow> True | _ \<Rightarrow> False)"

text \<open>\<open>f64::min\<close> and \<open>max\<close> return the other argument when one is a NaN; \<open>clamp\<close> keeps a NaN
  (its bounds are ordered constants here, so its assertion holds).\<close>

definition fmin :: "float \<Rightarrow> float \<Rightarrow> float" where
  "fmin x y = (if x = NaN then y else if y = NaN then x else if flt y x then y else x)"

definition fmax :: "float \<Rightarrow> float \<Rightarrow> float" where
  "fmax x y = (if x = NaN then y else if y = NaN then x else if flt x y then y else x)"

definition fclamp :: "float \<Rightarrow> float \<Rightarrow> float \<Rightarrow> float" where
  "fclamp lo hi x = (let y = (if flt x lo then lo else x) in if flt hi y then hi else y)"

abbreviation add64 :: "float \<Rightarrow> float \<Rightarrow> float" where "add64 \<equiv> fadd F64"
abbreviation sub64 :: "float \<Rightarrow> float \<Rightarrow> float" where "sub64 \<equiv> fsub F64"
abbreviation mul64 :: "float \<Rightarrow> float \<Rightarrow> float" where "mul64 \<equiv> fmul F64"
abbreviation div64 :: "float \<Rightarrow> float \<Rightarrow> float" where "div64 \<equiv> fdiv F64"
abbreviation lit64 :: "rat \<Rightarrow> float" where "lit64 \<equiv> of_rat_lit F64"
abbreviation as_f64 :: "'a::len word \<Rightarrow> float" where "as_f64 \<equiv> of_u64 F64"

text \<open>\<open>x as f32\<close>.\<close>

definition as_f32 :: "float \<Rightarrow> float" where
  "as_f32 x = (case x of Num s m \<Rightarrow> fround F32 s m | _ \<Rightarrow> x)"

text \<open>The value of a stored bit pattern (\<open>f64::from_bits\<close>).\<close>

definition f64_from_bits :: "f64_bits \<Rightarrow> float" where
  "f64_from_bits w =
     (let n = unat w; sign = 2 ^ 63 \<le> n; e = (n div 2 ^ 52) mod 2048; f = n mod 2 ^ 52 in
      if e = 2047 then (if f = 0 then Inf sign else NaN)
      else if e = 0 then Num sign (of_nat f * 2 powi (- 1074))
      else Num sign (of_nat (2 ^ 52 + f) * 2 powi (int e - 1075)))"

text \<open>Square roots are exact and then rounded. The integer root keeps more bits than the
  format, and half a unit stands for an inexact remainder, which rounds the same way.\<close>

fun isqrt :: "nat \<Rightarrow> nat" where
  "isqrt n = (if n = 0 then 0
     else let r = 2 * isqrt (n div 4) in if (r + 1) * (r + 1) \<le> n then r + 1 else r)"

declare isqrt.simps [simp del]

definition fsqrt :: "float_fmt \<Rightarrow> float \<Rightarrow> float" where
  "fsqrt F x =
     (case x of NaN \<Rightarrow> NaN
      | Inf s \<Rightarrow> (if s then NaN else Inf False)
      | Num s m \<Rightarrow>
          if m = 0 then Num s 0
          else if s then NaN
          else let e = ilog2 m div 2 - int (fm_prec F) - 8;
                   r = isqrt (nat \<lfloor>m / 2 powi (2 * e)\<rfloor>)
               in fround F False ((if of_nat (r * r) * 2 powi (2 * e) = m then of_nat r else of_nat r + 1 / 2)
                                  * 2 powi e))"

subsection \<open>Rounding to an integer\<close>

lemma round_half_even_int [simp]: "round_half_even (of_int n) = n"
  by (simp add: round_half_even_def)

lemma round_half_even_bounds: "\<lfloor>x\<rfloor> \<le> round_half_even x" "round_half_even x \<le> \<lfloor>x\<rfloor> + 1"
  by (auto simp: round_half_even_def Let_def)

lemma round_half_even_mono:
  assumes "x \<le> y"
  shows "round_half_even x \<le> round_half_even y"
proof (cases "\<lfloor>x\<rfloor> = \<lfloor>y\<rfloor>")
  case True
  with assms show ?thesis by (auto simp: round_half_even_def Let_def)
next
  case False
  with assms have "\<lfloor>x\<rfloor> + 1 \<le> \<lfloor>y\<rfloor>" using floor_mono [OF assms] by simp
  with round_half_even_bounds(2) [of x] round_half_even_bounds(1) [of y] show ?thesis by linarith
qed

lemma round_half_even_nonneg: "0 \<le> x \<Longrightarrow> 0 \<le> round_half_even x"
  using round_half_even_mono [of 0 x] round_half_even_int [of 0] by simp

lemma bit_count_bounds: "n < 2 ^ bit_count n" "0 < n \<Longrightarrow> 2 ^ (bit_count n - 1) \<le> n"
proof -
  have "n < 2 ^ bit_count n \<and> (0 < n \<longrightarrow> 2 ^ (bit_count n - 1) \<le> n)"
  proof (induction n rule: less_induct)
    case (less n)
    show ?case
    proof (cases "n = 0")
      case False
      then have b: "bit_count n = Suc (bit_count (n div 2))" by (simp add: bit_count.simps)
      have IH: "n div 2 < 2 ^ bit_count (n div 2)"
        "0 < n div 2 \<longrightarrow> 2 ^ (bit_count (n div 2) - 1) \<le> n div 2"
        using less [of "n div 2"] False by auto
      have "0 < n div 2 \<Longrightarrow> 0 < bit_count (n div 2)" by (subst bit_count.simps) simp
      then have "0 < n div 2 \<Longrightarrow> 2 ^ bit_count (n div 2) \<le> 2 * (n div 2)"
        using IH(2) by (cases "bit_count (n div 2)") auto
      moreover have "bit_count 0 = 0" by (simp add: bit_count.simps)
      ultimately show ?thesis using IH(1) b False
        by (cases "n div 2 = 0") auto
    qed (simp add: bit_count.simps)
  qed
  then show "n < 2 ^ bit_count n" "0 < n \<Longrightarrow> 2 ^ (bit_count n - 1) \<le> n" by auto
qed

lemma powi_pos [simp]: "0 < (2 :: rat) powi e"
  by (rule zero_less_power_int) simp

lemma powi_Suc: "(2 :: rat) powi (e + 1) = 2 * 2 powi e"
  by (simp add: power_int_add)

lemma powi_nat_add: "(2 :: rat) powi (int n + e) = 2 ^ n * 2 powi e"
  by (simp add: power_int_add)

lemma powi_split: "(2 :: rat) powi a = 2 powi (a - b) * 2 powi b"
  by (simp add: power_int_add [symmetric])

lemma powi_mono: "a \<le> b \<Longrightarrow> (2 :: rat) powi a \<le> 2 powi b"
  by (rule power_int_increasing) auto

lemma powi_nat: "0 \<le> e \<Longrightarrow> (2 :: rat) powi e = of_int (2 ^ nat e)"
  by (simp add: power_int_def)

lemma ilog2_bounds:
  assumes "0 < q"
  shows "2 powi ilog2 q \<le> q" "q < 2 powi (ilog2 q + 1)"
proof -
  have "2 powi ilog2 q \<le> q \<and> q < 2 powi (ilog2 q + 1)"
  proof (cases "1 \<le> q")
    case True
    let ?n = "nat \<lfloor>q\<rfloor>"
    have pos: "0 < ?n" using True by simp
    then have "0 < bit_count ?n" using bit_count_bounds(1) [of ?n] by (cases "bit_count ?n") auto
    then have e: "ilog2 q = int (bit_count ?n - 1)" "ilog2 q + 1 = int (bit_count ?n)"
      using True by (simp_all add: ilog2_def of_nat_diff)
    have n: "of_nat ?n \<le> q" "q < of_nat ?n + 1"
      using True floor_correct [of q] by (simp_all add: of_nat_nat)
    have "(2 :: rat) ^ (bit_count ?n - 1) \<le> of_nat ?n" "of_nat ?n + 1 \<le> (2 :: rat) ^ bit_count ?n"
      using bit_count_bounds [of ?n] pos
      by (metis of_nat_le_iff of_nat_numeral of_nat_power,
          metis Suc_leI of_nat_Suc of_nat_le_iff of_nat_numeral of_nat_power add.commute)
    with n have "(2 :: rat) ^ (bit_count ?n - 1) \<le> q" "q < 2 ^ bit_count ?n" by linarith+
    then have "2 powi ilog2 q \<le> q" by (simp only: e(1) power_int_of_nat)
    moreover have "q < 2 powi (ilog2 q + 1)"
      using \<open>q < 2 ^ bit_count ?n\<close> by (simp only: e(2) power_int_of_nat)
    ultimately show ?thesis ..
  next
    case False
    let ?c = "nat \<lceil>1 / q\<rceil>" let ?k = "bit_count (?c - 1)"
    have one: "1 < 1 / q" using False assms by simp
    then have c: "1 / q \<le> of_nat ?c" "of_nat ?c - 1 < 1 / q" "1 < ?c"
      by (simp_all add: of_nat_nat) linarith+
    have b: "?c - 1 < 2 ^ ?k" "2 ^ (?k - 1) \<le> ?c - 1" using bit_count_bounds [of "?c - 1"] c(3) by auto
    have "?c \<le> 2 ^ ?k" using b(1) by linarith
    then have "(of_nat ?c :: rat) \<le> 2 ^ ?k" by (metis of_nat_le_iff of_nat_numeral of_nat_power)
    with c(1) have "1 / q \<le> 2 ^ ?k" by linarith
    then have lo: "1 / 2 ^ ?k \<le> q" using assms by (simp add: field_simps)
    have "(2 :: rat) ^ (?k - 1) \<le> of_nat (?c - 1)" using b(2) by (metis of_nat_le_iff of_nat_numeral of_nat_power)
    also have "\<dots> < 1 / q" using c by (simp add: of_nat_diff)
    finally have hi: "q < 1 / 2 ^ (?k - 1)" using assms by (simp add: field_simps)
    have "?k \<noteq> 0"
    proof
      assume "?k = 0"
      with b(1) have "?c - 1 < 1" by (simp only: power_0)
      with c(3) show False by linarith
    qed
    then have e: "ilog2 q = - int ?k" "ilog2 q + 1 = - int (?k - 1)"
      using False by (simp_all add: ilog2_def of_nat_diff)
    have "2 powi ilog2 q \<le> q"
      using lo by (simp only: e(1) power_int_minus power_int_of_nat) (simp add: inverse_eq_divide)
    moreover have "q < 2 powi (ilog2 q + 1)"
      using hi by (simp only: e(2) power_int_minus power_int_of_nat) (simp add: inverse_eq_divide)
    ultimately show ?thesis ..
  qed
  then show "2 powi ilog2 q \<le> q" "q < 2 powi (ilog2 q + 1)" by auto
qed

lemma ilog2_mono: "0 < q \<Longrightarrow> q \<le> r \<Longrightarrow> ilog2 q \<le> ilog2 r"
proof (rule ccontr)
  assume "0 < q" "q \<le> r" "\<not> ilog2 q \<le> ilog2 r"
  then have "(2 :: rat) powi (ilog2 r + 1) \<le> 2 powi ilog2 q" by (intro powi_mono) simp
  with ilog2_bounds [of q] ilog2_bounds [of r] \<open>0 < q\<close> \<open>q \<le> r\<close> show False by linarith
qed

subsection \<open>Representable numbers and ranges\<close>

definition representable :: "float_fmt \<Rightarrow> rat \<Rightarrow> bool" where
  "representable F r \<longleftrightarrow> \<bar>r\<bar> < 2 powi fm_max F
     \<and> (\<exists>k e. r = of_int k * 2 powi e \<and> \<bar>k\<bar> \<le> 2 ^ fm_prec F \<and> fm_min F \<le> e)"

text \<open>A finite value between two bounds.\<close>

definition in_range :: "rat \<Rightarrow> rat \<Rightarrow> float \<Rightarrow> bool" where
  "in_range lo hi x \<longleftrightarrow>
     (case x of Num n m \<Rightarrow> 0 \<le> m \<and> lo \<le> num_val x \<and> num_val x \<le> hi | _ \<Rightarrow> False)"

lemma in_rangeE:
  assumes "in_range lo hi x"
  obtains n m where "x = Num n m" "0 \<le> m" "lo \<le> num_val x" "num_val x \<le> hi"
  using assms by (cases x) (auto simp: in_range_def)

lemma in_range_weaken: "in_range lo hi x \<Longrightarrow> lo' \<le> lo \<Longrightarrow> hi \<le> hi' \<Longrightarrow> in_range lo' hi' x"
  by (auto simp: in_range_def split: float.splits)

text \<open>Every value that arithmetic produces carries a nonnegative magnitude.\<close>

definition wf_float :: "float \<Rightarrow> bool" where
  "wf_float x \<longleftrightarrow> (case x of Num _ m \<Rightarrow> 0 \<le> m | _ \<Rightarrow> True)"

lemma wf_float_simps [simp]: "wf_float NaN" "wf_float (Inf s)" "wf_float (Num s m) \<longleftrightarrow> 0 \<le> m"
  by (simp_all add: wf_float_def)

lemma wf_in_range: "in_range a b x \<Longrightarrow> wf_float x"
  by (auto simp: in_range_def wf_float_def split: float.splits)

lemma in_range_not_special: "in_range lo hi x \<Longrightarrow> x \<noteq> NaN" "in_range lo hi x \<Longrightarrow> x \<noteq> Inf s"
  by (auto simp: in_range_def)

lemma in_range_self: "0 \<le> m \<Longrightarrow> in_range (num_val (Num n m)) (num_val (Num n m)) (Num n m)"
  by (simp add: in_range_def)

lemma in_range_neg: "in_range lo hi x \<Longrightarrow> in_range (- hi) (- lo) (fneg x)"
  by (cases x) (auto simp: in_range_def)

lemma num_val_fneg: "num_val (fneg x) = - num_val x"
  by (cases x) auto

lemma flt_in_range: "in_range a b x \<Longrightarrow> in_range c d y \<Longrightarrow> flt x y \<longleftrightarrow> num_val x < num_val y"
  by (auto elim!: in_rangeE)

lemma fle_in_range: "in_range a b x \<Longrightarrow> in_range c d y \<Longrightarrow> fle x y \<longleftrightarrow> num_val x \<le> num_val y"
  by (auto simp: fle_def elim!: in_rangeE)

lemma in_range_min:
  "in_range a b x \<Longrightarrow> in_range c d y \<Longrightarrow> in_range (min a c) (min b d) (fmin x y)"
  by (auto simp: fmin_def in_range_not_special flt_in_range) (auto simp: in_range_def split: float.splits)

lemma in_range_max:
  "in_range a b x \<Longrightarrow> in_range c d y \<Longrightarrow> in_range (max a c) (max b d) (fmax x y)"
  by (auto simp: fmax_def in_range_not_special flt_in_range) (auto simp: in_range_def split: float.splits)

text \<open>Clamping brings every value but a NaN between the bounds, an infinity included.\<close>

lemma in_range_clamp:
  assumes "in_range a a lo" "in_range b b hi" "a \<le> b" "x \<noteq> NaN" "\<And>n m. x = Num n m \<Longrightarrow> 0 \<le> m"
  shows "in_range a b (fclamp lo hi x)"
proof (cases x)
  case (Num n m)
  then show ?thesis using assms
    by (auto simp: fclamp_def Let_def elim!: in_rangeE) (auto simp: in_range_def)
next
  case (Inf s)
  then show ?thesis using assms
    by (auto simp: fclamp_def Let_def elim!: in_rangeE) (auto simp: in_range_def)
qed (use assms in simp)

lemma in_range_clamp_between:
  assumes "in_range a a' lo" "in_range b b' hi" "a \<le> b" "in_range c d x"
  shows "in_range a b' (fclamp lo hi x)"
proof -
  define y where "y = (if flt x lo then lo else x)"
  have y: "\<exists>e. in_range a e y"
    using assms(1,4) flt_in_range [OF assms(4,1)]
    by (auto simp: y_def in_range_def split: float.splits intro: exI [of _ a'] exI [of _ d])
  then obtain e where e: "in_range a e y" ..
  have "fclamp lo hi x = (if flt hi y then hi else y)" by (simp add: fclamp_def y_def Let_def)
  with flt_in_range [OF assms(2) e] assms(2,3) e show ?thesis
    by (auto simp: in_range_def split: float.splits)
qed

lemma fclamp_inside:
  "in_range a a lo \<Longrightarrow> in_range b b hi \<Longrightarrow> in_range a b x \<Longrightarrow> fclamp lo hi x = x"
  by (auto simp: fclamp_def Let_def elim!: in_rangeE)

subsection \<open>Rounding in a format\<close>

locale float_format =
  fixes F :: float_fmt
  assumes prec_pos: "1 \<le> fm_prec F" and min_neg: "fm_min F \<le> 0"
    and max_large: "int (fm_prec F) < fm_max F"
begin

lemma round_mag_nonneg: "0 \<le> round_mag F q"
  by (auto simp: round_mag_def intro!: mult_nonneg_nonneg round_half_even_nonneg)

lemma quantum_le: "0 < q \<Longrightarrow> q < 2 ^ fm_prec F * 2 powi quantum F q"
proof -
  assume "0 < q"
  then have "q < 2 powi (ilog2 q + 1)" by (rule ilog2_bounds)
  also have "\<dots> \<le> 2 powi (int (fm_prec F) + quantum F q)" by (rule powi_mono) (simp add: quantum_def)
  finally show ?thesis by (simp add: power_int_add)
qed

lemma pow_prec: "(2 :: 'a :: comm_semiring_1) ^ fm_prec F = 2 * 2 ^ (fm_prec F - 1)"
  using prec_pos by (cases "fm_prec F") auto

text \<open>Above the smallest exponent a number fills the precision.\<close>

lemma quantum_ge: "0 < q \<Longrightarrow> fm_min F < quantum F q \<Longrightarrow> 2 ^ (fm_prec F - 1) * 2 powi quantum F q \<le> q"
proof -
  assume "0 < q" "fm_min F < quantum F q"
  then have "quantum F q = ilog2 q - int (fm_prec F) + 1" by (auto simp: quantum_def)
  then have "ilog2 q = int (fm_prec F - 1) + quantum F q" using prec_pos by (simp add: of_nat_diff)
  then have "(2 :: rat) powi ilog2 q = 2 ^ (fm_prec F - 1) * 2 powi quantum F q"
    by (simp only: powi_nat_add)
  with ilog2_bounds(1) [OF \<open>0 < q\<close>] show ?thesis by simp
qed

lemma round_mag_mono:
  assumes "q \<le> r"
  shows "round_mag F q \<le> round_mag F r"
proof (cases "q \<le> 0")
  case True
  then show ?thesis by (simp add: round_mag_def [of F q] round_mag_nonneg)
next
  case False
  let ?a = "quantum F q" and ?b = "quantum F r"
  have pos: "0 < q" "0 < r" using False assms by auto
  have le: "?a \<le> ?b" using ilog2_mono [OF pos(1) assms] by (simp add: quantum_def)
  show ?thesis
  proof (cases "?a = ?b")
    case True
    have "round_half_even (q / 2 powi ?b) \<le> round_half_even (r / 2 powi ?b)"
      using assms by (intro round_half_even_mono divide_right_mono) auto
    then show ?thesis using pos True by (simp add: round_mag_def)
  next
    case False
    with le have "?a + 1 \<le> ?b" "fm_min F < ?b" by (auto simp: quantum_def)
    have "q / 2 powi ?a \<le> of_int (2 ^ fm_prec F)"
      using quantum_le [OF pos(1)] by (simp add: divide_le_eq)
    then have "round_half_even (q / 2 powi ?a) \<le> 2 ^ fm_prec F"
      using round_half_even_mono round_half_even_int by metis
    then have "round_mag F q \<le> of_int (2 ^ fm_prec F) * 2 powi ?a"
      using pos unfolding round_mag_def by (simp del: of_int_power)
    also have "\<dots> = of_int (2 ^ (fm_prec F - 1)) * 2 powi (?a + 1)"
      by (simp only: powi_Suc pow_prec of_int_mult of_int_numeral mult.assoc mult.left_commute)
    also have "\<dots> \<le> of_int (2 ^ (fm_prec F - 1)) * 2 powi ?b"
      using powi_mono [OF \<open>?a + 1 \<le> ?b\<close>] by (intro mult_left_mono) auto
    also have "\<dots> \<le> round_mag F r"
    proof -
      have "of_int (2 ^ (fm_prec F - 1)) \<le> r / 2 powi ?b"
        using quantum_ge [OF pos(2) \<open>fm_min F < ?b\<close>] by (simp add: le_divide_eq)
      then have "2 ^ (fm_prec F - 1) \<le> round_half_even (r / 2 powi ?b)"
        using round_half_even_mono round_half_even_int by metis
      then show ?thesis using pos unfolding round_mag_def by (simp del: of_int_power)
    qed
    finally show ?thesis .
  qed
qed

lemma round_mag_representable:
  assumes "representable F q" "0 \<le> q"
  shows "round_mag F q = q"
proof (cases "q = 0")
  case True
  then show ?thesis by (simp add: round_mag_def)
next
  case False
  with assms have pos: "0 < q" by simp
  from assms obtain k e where q: "q = of_int k * 2 powi e" "\<bar>k\<bar> \<le> 2 ^ fm_prec F" "fm_min F \<le> e"
    by (auto simp: representable_def)
  define a where "a = quantum F q"
  have ge: "2 ^ (fm_prec F - 1) * 2 powi a \<le> q" if "fm_min F < a"
    using quantum_ge [OF pos] that by (simp only: a_def)
  have "\<exists>n. q = of_int n * 2 powi a"
  proof (cases "a \<le> e")
    case True
    have "q = of_int k * (2 powi (e - a) * 2 powi a)" using q(1) by (simp only: powi_split [symmetric])
    also have "\<dots> = of_int (k * 2 ^ nat (e - a)) * 2 powi a"
      using True by (simp only: powi_nat [of "e - a"] of_int_mult mult.assoc diff_ge_0_iff_ge)
    finally show ?thesis ..
  next
    case False
    then have e: "e + 1 \<le> a" and gt: "fm_min F < a" using q(3) by auto
    define P where "P = (2 :: rat) ^ (fm_prec F - 1)"
    have P: "0 < P" "of_int (2 ^ (fm_prec F - 1)) = P" "(2 :: rat) ^ fm_prec F = 2 * P"
      by (simp_all add: P_def pow_prec del: power_Suc)
    have "of_int k \<le> 2 * P"
      using q(2) by (metis P(3) abs_le_D1 of_int_le_iff of_int_numeral of_int_power)
    then have "q \<le> P * 2 powi (e + 1)" by (simp add: q(1) powi_Suc)
    moreover have "P * 2 powi (e + 1) \<le> P * 2 powi a" using powi_mono [OF e] P(1) by simp
    ultimately have "q = P * 2 powi a" using ge [OF gt, folded P_def] by linarith
    then show ?thesis using P(2) by metis
  qed
  then obtain n where n: "q = of_int n * 2 powi a" ..
  then have d: "q / 2 powi a = of_int n" by (metis nonzero_mult_div_cancel_right powi_pos less_irrefl)
  have "round_mag F q = of_int (round_half_even (q / 2 powi a)) * 2 powi a"
    using pos by (simp add: round_mag_def a_def)
  also have "\<dots> = q" by (simp only: d round_half_even_int n [symmetric])
  finally show ?thesis .
qed

lemma round_mag_zero [simp]: "round_mag F 0 = 0"
  by (simp add: round_mag_def)

lemma representable_int:
  assumes "\<bar>k\<bar> \<le> 2 ^ fm_prec F"
  shows "representable F (of_int k)"
proof -
  have "\<bar>of_int k :: rat\<bar> \<le> 2 ^ fm_prec F"
    using assms by (metis of_int_abs of_int_le_iff of_int_numeral of_int_power)
  also have "\<dots> = 2 powi int (fm_prec F)" by simp
  also have "\<dots> < 2 powi fm_max F" using max_large by (intro power_int_strict_increasing) auto
  finally show ?thesis
    using assms min_neg unfolding representable_def
    by (intro conjI exI [of _ k] exI [of _ 0]) simp_all
qed

lemma representable_0 [simp]: "representable F 0"
  using representable_int [of 0] by simp

lemma representable_1 [simp]: "representable F 1"
  using representable_int [of 1] by simp

lemma representable_uminus [simp]: "representable F (- r) \<longleftrightarrow> representable F r"
proof -
  have "representable F (- r)" if "representable F r" for r
  proof -
    from that obtain k e where k: "r = of_int k * 2 powi e" "\<bar>k\<bar> \<le> 2 ^ fm_prec F" "fm_min F \<le> e"
      and "\<bar>r\<bar> < 2 powi fm_max F" by (auto simp: representable_def)
    then show ?thesis unfolding representable_def
      by (intro conjI exI [of _ "- k"] exI [of _ e]) auto
  qed
  from this [of r] this [of "- r"] show ?thesis by auto
qed

text \<open>Rounding keeps a value between representable bounds.\<close>

lemma fround_range:
  assumes "representable F lo" "representable F hi" "0 \<le> m"
    and "lo \<le> (if s then - m else m)" "(if s then - m else m) \<le> hi"
  shows "in_range lo hi (fround F s m)"
proof -
  have "\<exists>b. representable F b \<and> 0 \<le> b \<and> m \<le> b \<and> (if s then lo \<le> - b else b \<le> hi)"
  proof (cases s)
    case True
    with assms show ?thesis by (intro exI [of _ "- lo"]) auto
  next
    case False
    with assms show ?thesis by (intro exI [of _ hi]) auto
  qed
  then obtain b where b: "representable F b" "0 \<le> b" "m \<le> b" "if s then lo \<le> - b else b \<le> hi" by blast
  then have up: "round_mag F m \<le> b" using round_mag_mono round_mag_representable by metis
  moreover have "b < 2 powi fm_max F" using b by (simp add: representable_def)
  ultimately have fin: "fround F s m = Num s (round_mag F m)" by (simp add: fround_def Let_def)
  show ?thesis
  proof (cases s)
    case True
    have "- hi \<le> round_mag F m"
    proof (cases "hi \<le> 0")
      case True
      with \<open>s\<close> assms show ?thesis
        using round_mag_mono [of "- hi" m] round_mag_representable [of "- hi"] by simp
    next
      case False
      then show ?thesis using round_mag_nonneg [of m] by linarith
    qed
    then show ?thesis using True up b fin round_mag_nonneg [of m] by (auto simp: in_range_def)
  next
    case False
    have "lo \<le> round_mag F m"
    proof (cases "0 \<le> lo")
      case True
      with \<open>\<not> s\<close> assms show ?thesis
        using round_mag_mono [of lo m] round_mag_representable [of lo] by simp
    next
      case False
      then show ?thesis using round_mag_nonneg [of m] by linarith
    qed
    then show ?thesis using False up b fin round_mag_nonneg [of m] by (auto simp: in_range_def)
  qed
qed

lemma rnd_mono: "v \<le> w \<Longrightarrow> rnd F v \<le> rnd F w"
  using round_mag_mono [of v w] round_mag_mono [of "- w" "- v"] round_mag_nonneg [of w] round_mag_nonneg [of "- v"]
  by (auto simp: rnd_def)

lemma fround_val:
  assumes "in_range lo hi (fround F s m)" "0 \<le> m"
  shows "num_val (fround F s m) = rnd F (if s then - m else m)"
  using assms by (auto simp: fround_def Let_def in_range_def rnd_def split: if_splits)

lemma lit_range: "representable F r \<Longrightarrow> in_range r r (of_rat_lit F r)"
  unfolding of_rat_lit_def by (rule fround_range) auto

lemma lit_between: "representable F lo \<Longrightarrow> representable F hi \<Longrightarrow> lo \<le> r \<Longrightarrow> r \<le> hi \<Longrightarrow>
  in_range lo hi (of_rat_lit F r)"
  unfolding of_rat_lit_def by (rule fround_range) auto

lemma of_u64_range:
  "representable F lo \<Longrightarrow> representable F hi \<Longrightarrow> lo \<le> of_nat (unat w) \<Longrightarrow> of_nat (unat w) \<le> hi \<Longrightarrow>
   in_range lo hi (of_u64 F w)"
  unfolding of_u64_def by (rule fround_range) (simp_all only: if_False of_nat_0_le_iff)

lemma add_range:
  assumes "in_range a b x" "in_range c d y" "representable F lo" "representable F hi"
    and "lo \<le> a + c" "b + d \<le> hi"
  shows "in_range lo hi (fadd F x y)"
proof -
  from assms(1,2) obtain s m t k where xy: "x = Num s m" "y = Num t k" "0 \<le> m" "0 \<le> k"
    "a \<le> num_val x" "num_val x \<le> b" "c \<le> num_val y" "num_val y \<le> d" by (auto elim!: in_rangeE)
  define r where "r = num_val x + num_val y"
  have r: "lo \<le> r" "r \<le> hi" using xy assms(5,6) by (simp_all add: r_def)
  have "in_range lo hi (fround F (r < 0) \<bar>r\<bar>)"
    using assms(3,4) r by (intro fround_range) auto
  moreover have "fadd F x y = (if r = 0 then Num (s \<and> t) 0 else fround F (r < 0) \<bar>r\<bar>)"
    by (simp add: xy(1,2) r_def Let_def)
  ultimately show ?thesis using r by (auto simp: in_range_def)
qed

lemma add_val:
  assumes "in_range a b x" "in_range c d y" "in_range lo hi (fadd F x y)"
  shows "num_val (fadd F x y) = rnd F (num_val x + num_val y)"
proof -
  from assms(1,2) obtain s m t k where xy: "x = Num s m" "y = Num t k" by (auto elim!: in_rangeE)
  define r where "r = num_val x + num_val y"
  have e: "fadd F x y = (if r = 0 then Num (s \<and> t) 0 else fround F (r < 0) \<bar>r\<bar>)"
    by (simp add: xy r_def Let_def)
  show ?thesis
  proof (cases "r = 0")
    case True
    then show ?thesis using e by (simp add: r_def [symmetric] rnd_def)
  next
    case False
    with assms(3) e have "in_range lo hi (fround F (r < 0) \<bar>r\<bar>)" by simp
    from fround_val [OF this] False e show ?thesis by (auto simp: r_def [symmetric] split: if_splits)
  qed
qed

lemma sub_range:
  assumes "in_range a b x" "in_range c d y" "representable F lo" "representable F hi"
    and "lo \<le> a - d" "b - c \<le> hi"
  shows "in_range lo hi (fsub F x y)"
  unfolding fsub_def
  by (rule add_range [OF assms(1) in_range_neg [OF assms(2)] assms(3,4)]) (use assms(5,6) in simp_all)

lemma sub_val:
  assumes "in_range a b x" "in_range c d y" "in_range lo hi (fsub F x y)"
  shows "num_val (fsub F x y) = rnd F (num_val x - num_val y)"
  using add_val [OF assms(1) in_range_neg [OF assms(2)]] assms(3)
  by (simp add: fsub_def num_val_fneg)

lemma mul_range:
  assumes "in_range a b x" "in_range c d y" "representable F lo" "representable F hi"
    and "\<And>u v. a \<le> u \<Longrightarrow> u \<le> b \<Longrightarrow> c \<le> v \<Longrightarrow> v \<le> d \<Longrightarrow> lo \<le> u * v \<and> u * v \<le> hi"
  shows "in_range lo hi (fmul F x y)"
proof -
  from assms(1,2) obtain s m t k where xy: "x = Num s m" "y = Num t k" "0 \<le> m" "0 \<le> k"
    "a \<le> num_val x" "num_val x \<le> b" "c \<le> num_val y" "num_val y \<le> d" by (auto elim!: in_rangeE)
  have p: "num_val x * num_val y = (if s \<noteq> t then - (m * k) else m * k)" by (simp add: xy(1,2))
  have "lo \<le> num_val x * num_val y \<and> num_val x * num_val y \<le> hi" using assms(5) xy by blast
  then have "in_range lo hi (fround F (s \<noteq> t) (m * k))"
    unfolding p using assms(3,4) xy by (intro fround_range) auto
  then show ?thesis by (simp add: xy(1,2))
qed

lemma mul_val:
  assumes "in_range a b x" "in_range c d y" "in_range lo hi (fmul F x y)"
  shows "num_val (fmul F x y) = rnd F (num_val x * num_val y)"
proof -
  from assms(1,2) obtain s m t k where xy: "x = Num s m" "y = Num t k" "0 \<le> m" "0 \<le> k"
    by (auto elim!: in_rangeE)
  with fround_val [of lo hi "s \<noteq> t" "m * k"] assms(3) show ?thesis by (auto split: if_splits)
qed

text \<open>Products of nonnegative numbers.\<close>

lemma mul_nonneg_range:
  assumes "in_range a b x" "in_range c d y" "representable F (a * c)" "representable F (b * d)" "0 \<le> a" "0 \<le> c"
  shows "in_range (a * c) (b * d) (fmul F x y)"
  by (rule mul_range [OF assms(1-4)]) (use assms(5,6) in \<open>auto intro!: mult_mono\<close>)

lemma div_range:
  assumes "in_range a b x" "in_range c d y" "representable F lo" "representable F hi" "0 < c"
    and "\<And>u v. a \<le> u \<Longrightarrow> u \<le> b \<Longrightarrow> u = num_val x \<Longrightarrow> v = num_val y \<Longrightarrow> c \<le> v \<Longrightarrow> v \<le> d \<Longrightarrow>
           lo \<le> u / v \<and> u / v \<le> hi"
  shows "in_range lo hi (fdiv F x y)"
proof -
  from assms(1,2) obtain s m t k where xy: "x = Num s m" "y = Num t k" "0 \<le> m" "0 \<le> k"
    "a \<le> num_val x" "num_val x \<le> b" "c \<le> num_val y" "num_val y \<le> d" by (auto elim!: in_rangeE)
  with assms(5) have k: "\<not> t" "0 < k" by (auto split: if_splits)
  have p: "num_val x / num_val y = (if s \<noteq> t then - (m / k) else m / k)" using k by (simp add: xy(1,2))
  have "lo \<le> num_val x / num_val y \<and> num_val x / num_val y \<le> hi" using assms(6) xy by blast
  then have "in_range lo hi (fround F (s \<noteq> t) (m / k))"
    unfolding p using assms(3,4) xy k by (intro fround_range) auto
  then show ?thesis using k by (simp add: xy(1,2))
qed

lemma div_val:
  assumes "in_range a b x" "in_range c d y" "0 < c" "in_range lo hi (fdiv F x y)"
  shows "num_val (fdiv F x y) = rnd F (num_val x / num_val y)"
proof -
  from assms(1,2) obtain s m t k where xy: "x = Num s m" "y = Num t k" "0 \<le> m" "0 \<le> k"
    "c \<le> num_val y" by (auto elim!: in_rangeE)
  with assms(3) have "\<not> t" "0 < k" by (auto split: if_splits)
  with xy fround_val [of lo hi s "m / k"] assms(4) show ?thesis by (auto split: if_splits)
qed

end

interpretation f64: float_format F64
  by unfold_locales (simp_all add: F64_def)

interpretation f32: float_format F32
  by unfold_locales (simp_all add: F32_def)

subsection \<open>Sixty-four bits\<close>

lemma representable_64_nat: "n \<le> 2 ^ 53 \<Longrightarrow> representable F64 (of_nat n)"
  using f64.representable_int [of "int n"] by (simp add: F64_def)

lemma representable_64_numeral [simp]:
  "(numeral n :: nat) \<le> 2 ^ 53 \<Longrightarrow> representable F64 (numeral n)"
  using representable_64_nat [of "numeral n"] by simp

lemma representable_64_scaled:
  "\<bar>k\<bar> \<le> 2 ^ 53 \<Longrightarrow> - 1074 \<le> e \<Longrightarrow> e \<le> 900 \<Longrightarrow> representable F64 (of_int k * 2 powi e)"
proof -
  assume k: "\<bar>k\<bar> \<le> 2 ^ 53" and e: "- 1074 \<le> e" "e \<le> 900"
  have "\<bar>of_int k * 2 powi e :: rat\<bar> \<le> 2 ^ 53 * 2 powi 900"
  proof -
    have "\<bar>of_int k :: rat\<bar> \<le> 2 ^ 53" using k by (metis of_int_abs of_int_le_iff of_int_numeral of_int_power)
    moreover have "\<bar>(2 :: rat) powi e\<bar> = 2 powi e" by (rule abs_of_pos) simp
    ultimately show ?thesis unfolding abs_mult using powi_mono [OF e(2)]
      by (intro mult_mono) (assumption | simp only: zero_le_numeral zero_le_power abs_ge_zero)+
  qed
  also have "(2 :: rat) ^ 53 * 2 powi 900 = 2 powi 953" by (simp flip: power_int_add_numeral)
  also have "(2 :: rat) powi 953 < 2 powi 1024" by (rule power_int_strict_increasing) simp_all
  finally show ?thesis using k e unfolding representable_def F64_def by auto
qed

lemma representable_64_half [simp]: "representable F64 (1 / 2)"
  using representable_64_scaled [of 1 "- 1"] by (simp add: power_int_minus)

lemma representable_64_pow: "representable F64 (2 ^ 64)"
  using representable_64_scaled [of 1 64] by simp

lemmas representable_64_pow_numeral [simp] = representable_64_pow [simplified]

lemma as_f64_range: "in_range 0 (2 ^ 64) (as_f64 (w :: u64))"
proof (rule f64.of_u64_range)
  have "unat w \<le> 2 ^ 64" using unat_u64_bound(1) [of w] by simp
  then show "(of_nat (unat w) :: rat) \<le> 2 ^ 64" by (metis of_nat_le_iff of_nat_numeral of_nat_power)
qed (simp_all del: of_nat_unat)

lemma as_f64_val_mono: "unat a \<le> unat b \<Longrightarrow> num_val (as_f64 (a :: u64)) \<le> num_val (as_f64 (b :: u64))"
proof -
  assume ab: "unat a \<le> unat b"
  have *: "num_val (as_f64 w) = round_mag F64 (of_nat (unat w))" for w :: u64
    using as_f64_range [of w]
    by (auto simp: of_u64_def fround_def Let_def in_range_def split: if_splits)
  show ?thesis unfolding * by (rule f64.round_mag_mono) (simp only: of_nat_le_iff ab)
qed

lemma as_f64_exact: "unat w \<le> 2 ^ 53 \<Longrightarrow> as_f64 (w :: 'a::len word) = Num False (of_nat (unat w))"
proof -
  assume w: "unat w \<le> 2 ^ 53"
  then have r: "representable F64 (of_nat (unat w))" by (rule representable_64_nat)
  have "round_mag F64 (of_nat (unat w)) = of_nat (unat w)"
    by (rule f64.round_mag_representable [OF r]) (simp only: of_nat_0_le_iff)
  moreover have "(of_nat (unat w) :: rat) < 2 powi fm_max F64"
    using r by (simp add: representable_def del: of_nat_unat)
  ultimately show ?thesis by (simp add: of_u64_def fround_def Let_def del: of_nat_unat)
qed

lemma as_f64_pos: "w \<noteq> 0 \<Longrightarrow> in_range 1 (2 ^ 64) (as_f64 (w :: u64))"
proof (rule f64.of_u64_range)
  assume "w \<noteq> 0"
  then have "1 \<le> unat w" by (simp add: Suc_le_eq unat_gt_0)
  then show "(1 :: rat) \<le> of_nat (unat w)" by (metis of_nat_1 of_nat_le_iff)
  have "unat w \<le> 2 ^ 64" using unat_u64_bound(1) [of w] by simp
  then show "(of_nat (unat w) :: rat) \<le> 2 ^ 64" by (metis of_nat_le_iff of_nat_numeral of_nat_power)
qed (simp_all del: of_nat_unat)

text \<open>A quotient of counters is a share.\<close>

lemma ratio_range:
  assumes "unat a \<le> unat b" "b \<noteq> 0"
  shows "in_range 0 1 (div64 (as_f64 (a :: u64)) (as_f64 (b :: u64)))"
  by (rule f64.div_range [OF as_f64_range as_f64_pos [OF assms(2)]])
    (use as_f64_val_mono [OF assms(1)] in \<open>auto simp: divide_le_eq\<close>)

text \<open>Comparing a share with one half is exact as long as the counters are below \<open>2 ^ 52\<close>.\<close>

lemma half_less_ratio:
  assumes "unat (a :: u64) \<le> 2 ^ 52" "unat (b :: u64) \<le> 2 ^ 52" "b \<noteq> 0"
  shows "flt (lit64 (1 / 2)) (div64 (as_f64 a) (as_f64 b)) \<longleftrightarrow> unat b < 2 * unat a"
proof -
  define x y where "x = (of_nat (unat a) :: rat)" and "y = (of_nat (unat b) :: rat)"
  have y: "1 \<le> y" "y \<le> 2 ^ 52" and x: "0 \<le> x" "x \<le> 2 ^ 52"
  proof -
    have "1 \<le> unat b" using assms(3) by (simp add: Suc_le_eq unat_gt_0)
    then show "1 \<le> y" unfolding y_def by (metis of_nat_1 of_nat_le_iff)
    show "y \<le> 2 ^ 52" "x \<le> 2 ^ 52" unfolding x_def y_def
      using assms(1,2) by (metis of_nat_le_iff of_nat_numeral of_nat_power)+
    show "0 \<le> x" unfolding x_def by (rule of_nat_0_le_iff)
  qed
  have half: "in_range (1 / 2) (1 / 2) (lit64 (1 / 2))" by (rule f64.lit_range) simp
  have q: "div64 (as_f64 a) (as_f64 b) = fround F64 False (x / y)"
    using assms y(1) by (simp add: as_f64_exact x_def y_def del: of_nat_unat)
  have nat: "unat b < 2 * unat a \<longleftrightarrow> y + 1 \<le> 2 * x"
  proof -
    have "y + 1 \<le> 2 * x \<longleftrightarrow> (of_nat (unat b + 1) :: rat) \<le> of_nat (2 * unat a)"
      by (simp only: x_def y_def of_nat_add of_nat_mult of_nat_1 of_nat_numeral)
    also have "\<dots> \<longleftrightarrow> unat b + 1 \<le> 2 * unat a" by (rule of_nat_le_iff)
    finally show ?thesis by auto
  qed
  have nat': "2 * x \<le> y" if "\<not> y + 1 \<le> 2 * x"
  proof -
    from that nat have "2 * unat a \<le> unat b" by simp
    then have "(of_nat (2 * unat a) :: rat) \<le> of_nat (unat b)" by (rule of_nat_mono)
    then show ?thesis by (simp only: x_def y_def of_nat_mult of_nat_numeral)
  qed
  show ?thesis
  proof (cases "y + 1 \<le> 2 * x")
    case True
    let ?l = "of_int (2 ^ 52 + 1) * 2 powi (- 53) :: rat"
    have l: "?l = 1 / 2 + 1 / 2 ^ 53" by (simp add: power_int_minus field_simps)
    have "1 / 2 ^ 53 \<le> 1 / (2 * y)" using y by (intro divide_left_mono) simp_all
    moreover have "1 / 2 + 1 / (2 * y) \<le> x / y"
    proof -
      have "(y + 1) / (2 * y) \<le> (2 * x) / (2 * y)" using True y(1) by (intro divide_right_mono) simp_all
      moreover have "(y + 1) / (2 * y) = 1 / 2 + 1 / (2 * y)" using y(1) by (simp add: add_divide_distrib)
      ultimately show ?thesis by simp
    qed
    ultimately have "?l \<le> x / y" unfolding l by linarith
    moreover have "x / y \<le> 2 ^ 52"
      using x y by (simp add: divide_le_eq)
    moreover have "representable F64 ?l" by (rule representable_64_scaled) simp_all
    ultimately have "in_range ?l (2 ^ 52) (fround F64 False (x / y))"
      using x y by (intro f64.fround_range) (simp_all)
    then show ?thesis using flt_in_range [OF half] half nat True q unfolding l
      by (auto elim!: in_rangeE)
  next
    case False
    have "in_range 0 (1 / 2) (fround F64 False (x / y))"
      using nat' [OF False] x y by (intro f64.fround_range) (simp_all add: field_simps)
    then show ?thesis using flt_in_range [OF half] half nat False q by (auto elim!: in_rangeE)
  qed
qed

subsection \<open>Square roots\<close>

lemma isqrt_le: "isqrt n * isqrt n \<le> n"
proof (induction n rule: isqrt.induct)
  case (1 n)
  show ?case
  proof (cases "n = 0")
    case False
    let ?r = "2 * isqrt (n div 4)"
    have "isqrt (n div 4) * isqrt (n div 4) \<le> n div 4" using 1 False by blast
    then have "?r * ?r \<le> n" by (simp add: algebra_simps)
    then show ?thesis using False by (subst isqrt.simps, subst isqrt.simps) (auto simp: Let_def)
  qed (simp add: isqrt.simps)
qed

lemma mult_le_cancel_sq: "x * x \<le> 1 * 1 \<Longrightarrow> x \<le> (1 :: rat)"
  using mult_strict_mono [of 1 x 1 x] by (cases "x \<le> 1") auto

lemma mult_less_cancel_sq: "x * x < 1 * 1 \<Longrightarrow> x < (1 :: rat)"
  using mult_mono [of 1 x 1 x] by (cases "x < 1") auto

lemma sqrt_share:
  assumes "in_range 0 1 x"
  shows "in_range 0 1 (fsqrt F64 x)"
proof -
  from assms obtain s m where x: "x = Num s m" "0 \<le> m" "0 \<le> num_val x" "num_val x \<le> 1"
    by (auto elim!: in_rangeE)
  show ?thesis
  proof (cases "m = 0")
    case True
    then show ?thesis by (simp add: x fsqrt_def in_range_def)
  next
    case False
    with x have pos: "\<not> s" "0 < m" "m \<le> 1" by (auto split: if_splits)
    define e where "e = ilog2 m div 2 - int (fm_prec F64) - 8"
    define r where "r = isqrt (nat \<lfloor>m / 2 powi (2 * e)\<rfloor>)"
    define root where "root = (if of_nat (r * r) * 2 powi (2 * e) = m then of_nat r else of_nat r + 1 / 2 :: rat)"
    have "ilog2 m \<le> 0"
    proof (rule ccontr)
      assume "\<not> ilog2 m \<le> 0"
      then have "(2 :: rat) powi 1 \<le> 2 powi ilog2 m" by (intro powi_mono) simp
      with ilog2_bounds(1) [OF pos(2)] pos(3) show False by simp
    qed
    then have e: "e < 0" by (simp add: e_def F64_def)
    have sq: "(2 :: rat) powi (2 * e) = 2 powi e * 2 powi e"
      using powi_split [of "2 * e" e] by simp
    have inv: "(2 :: rat) powi e * 2 ^ nat (- e) = 1"
    proof -
      have "(2 :: rat) powi (int (nat (- e)) + e) = 1" using e by simp
      then show ?thesis by (simp only: powi_nat_add mult.commute)
    qed
    have "of_nat (r * r) \<le> (of_nat (nat \<lfloor>m / 2 powi (2 * e)\<rfloor>) :: rat)"
      unfolding r_def by (intro of_nat_mono isqrt_le)
    also have "\<dots> \<le> m / 2 powi (2 * e)" using pos(2) by (simp add: of_nat_nat)
    finally have le: "of_nat (r * r) * 2 powi (2 * e) \<le> m" by (simp add: le_divide_eq)
    have r2: "(of_nat r * 2 powi e) * (of_nat r * 2 powi e) = (of_nat (r * r) * 2 powi (2 * e) :: rat)"
      by (simp only: of_nat_mult sq mult.assoc mult.left_commute)
    have "0 \<le> root * 2 powi e \<and> root * 2 powi e \<le> 1"
    proof (cases "of_nat (r * r) * 2 powi (2 * e) = m")
      case True
      have "(of_nat r * 2 powi e) * (of_nat r * 2 powi e) \<le> (1 :: rat) * 1"
        by (simp only: r2 mult_1 True pos(3))
      then have "of_nat r * 2 powi e \<le> (1 :: rat)" by (rule mult_le_cancel_sq)
      with True show ?thesis by (simp add: root_def)
    next
      case False
      with le have "of_nat (r * r) * 2 powi (2 * e) < m" by (simp only: le_less) blast
      from less_le_trans [OF this pos(3)]
      have "(of_nat r * 2 powi e) * (of_nat r * 2 powi e) < (1 :: rat) * 1"
        by (simp only: r2 mult_1)
      then have lt: "of_nat r * 2 powi e < (1 :: rat)" by (rule mult_less_cancel_sq)
      have "2 powi e * of_nat r < (2 powi e * 2 ^ nat (- e) :: rat)"
        using lt unfolding inv by (simp only: mult.commute [of "2 powi e"])
      then have "(of_nat r :: rat) < 2 ^ nat (- e)" by (simp only: mult_less_cancel_left_pos powi_pos)
      then have "(of_nat r :: rat) < of_nat (2 ^ nat (- e))" by (simp only: of_nat_power of_nat_numeral)
      then have "r < 2 ^ nat (- e)" unfolding of_nat_less_iff .
      then have "r + 1 \<le> 2 ^ nat (- e)" by linarith
      then have "(of_nat (r + 1) :: rat) \<le> of_nat (2 ^ nat (- e))" by (simp only: of_nat_le_iff)
      then have "(of_nat r + 1 / 2 :: rat) \<le> 2 ^ nat (- e)"
        unfolding of_nat_add of_nat_1 of_nat_power of_nat_numeral by linarith
      then have "2 powi e * (of_nat r + 1 / 2) \<le> 2 powi e * (2 ^ nat (- e) :: rat)"
        by (simp only: mult_le_cancel_left_pos powi_pos)
      then have "(of_nat r + 1 / 2) * 2 powi e \<le> (1 :: rat)"
        unfolding inv by (simp only: mult.commute [of "2 powi e"])
      with False show ?thesis by (simp add: root_def)
    qed
    then have "in_range 0 1 (fround F64 False (root * 2 powi e))" by (intro f64.fround_range) simp_all
    moreover have "fsqrt F64 x = fround F64 False (root * 2 powi e)"
      using pos by (simp add: x fsqrt_def Let_def e_def r_def root_def)
    ultimately show ?thesis by simp
  qed
qed

end
