(* ===== verification/Reputation.thy ===== *)
theory Reputation
  imports Crypto Floats
begin

text \<open>
  Reputation (\<open>primitives/agent.rs\<close>, \<open>config.rs\<close>): the score of an agent with its counters and
  decay, the counters of a requester with the trust and fairness scores derived from them,
  and the policy that admits a requester to automatic matching.

  Scores are IEEE doubles and are computed as written. The logarithm and the power function
  have no fixed result in Rust; they are the fields of \<open>math_fns\<close>, and \<open>math_ok\<close> states what
  every implementation of them satisfies.
\<close>

record math_fns =
  m_ln :: "float \<Rightarrow> float"
  m_powf :: "float \<Rightarrow> float \<Rightarrow> float"

definition math_ok :: "math_fns \<Rightarrow> bool" where
  "math_ok M \<longleftrightarrow>
     (\<forall>x. in_range 1 (2 ^ 65) x \<longrightarrow> in_range 0 64 (m_ln M x))
     \<and> (\<forall>x y b. in_range 0 1 x \<and> in_range 0 b y \<longrightarrow> in_range 0 1 (m_powf M x y))"

subsection \<open>Protocol parameters\<close>

record matching_params =
  mx_feedback_blend_saturation_count :: u32
  mx_feedback_blend_max_weight :: float
  mx_neural_bonus_weight :: float
  mx_discovery_min_age_blocks :: u64
  mx_discovery_min_stake :: u64
  mx_max_match_tools_per_agent :: u16
  mx_requester_min_trust_score :: float
  mx_requester_max_cancellation_rate :: float
  mx_requester_max_dispute_rate :: float
  mx_requester_max_failed_report_rate :: float
  mx_requester_min_auto_match_backing :: u64
  mx_requester_min_tasks_for_trust :: u64
  mx_requester_min_rating_fairness :: float
  mx_requester_min_ratings_for_fairness :: u64
  mx_requester_min_reviewed_outcomes_for_failed_report_rate :: u64
  mx_agent_stake_per_reputation_point :: u64

definition matching_params_default :: matching_params where
  "matching_params_default =
     \<lparr>mx_feedback_blend_saturation_count = 20, mx_feedback_blend_max_weight = lit64 (3 / 10),
      mx_neural_bonus_weight = lit64 (3 / 10), mx_discovery_min_age_blocks = 100,
      mx_discovery_min_stake = 1000000, mx_max_match_tools_per_agent = 16,
      mx_requester_min_trust_score = lit64 35, mx_requester_max_cancellation_rate = lit64 (1 / 2),
      mx_requester_max_dispute_rate = lit64 (1 / 2),
      mx_requester_max_failed_report_rate = lit64 (1 / 2),
      mx_requester_min_auto_match_backing = 5000000, mx_requester_min_tasks_for_trust = 4,
      mx_requester_min_rating_fairness = lit64 (1 / 2), mx_requester_min_ratings_for_fairness = 4,
      mx_requester_min_reviewed_outcomes_for_failed_report_rate = 4,
      mx_agent_stake_per_reputation_point = 100000\<rparr>"

subsection \<open>The reputation of an agent\<close>

record reputation_data =
  rd_score :: float
  rd_tasks_completed :: u64
  rd_tasks_failed :: u64
  rd_cumulative_quality :: float
  rd_disputes_won :: u64
  rd_disputes_lost :: u64
  rd_last_updated :: u64
  rd_total_value_completed :: u64
  rd_value_weighted_quality :: float
  rd_ratings_received :: u64
  rd_total_value_rated :: u64

definition reputation_default :: reputation_data where
  "reputation_default =
     \<lparr>rd_score = lit64 0, rd_tasks_completed = 0, rd_tasks_failed = 0,
      rd_cumulative_quality = lit64 0, rd_disputes_won = 0, rd_disputes_lost = 0,
      rd_last_updated = 0, rd_total_value_completed = 0, rd_value_weighted_quality = lit64 0,
      rd_ratings_received = 0, rd_total_value_rated = 0\<rparr>"

definition DECAY_HALF_LIFE_MS :: float where
  "DECAY_HALF_LIFE_MS = mul64 (mul64 (mul64 (lit64 30) (lit64 24)) (lit64 3600)) (lit64 1000)"

definition resolved_task_count :: "reputation_data \<Rightarrow> u64" where
  "resolved_task_count r = saturating_add (rd_tasks_completed r) (rd_tasks_failed r)"

definition reliability :: "reputation_data \<Rightarrow> float" where
  "reliability r =
     (let total = resolved_task_count r in
      if total = 0 then lit64 0 else div64 (as_f64 (rd_tasks_completed r)) (as_f64 total))"

definition rep_avg_quality :: "reputation_data \<Rightarrow> float" where
  "rep_avg_quality r =
     (if rd_ratings_received r = 0 then lit64 0
      else div64 (rd_cumulative_quality r) (as_f64 (rd_ratings_received r)))"

definition weighted_avg_quality :: "reputation_data \<Rightarrow> float" where
  "weighted_avg_quality r =
     (if rd_total_value_rated r = 0 then lit64 0
      else div64 (rd_value_weighted_quality r) (as_f64 (rd_total_value_rated r)))"

definition effective_score :: "math_fns \<Rightarrow> reputation_data \<Rightarrow> u64 \<Rightarrow> float" where
  "effective_score M r current_time_ms =
     (if current_time_ms = 0 \<or> rd_last_updated r = 0 \<or> feq (rd_score r) (lit64 0) then rd_score r
      else let elapsed_ms = as_f64 (saturating_sub current_time_ms (rd_last_updated r));
               decay = m_powf M (lit64 (1 / 2)) (div64 elapsed_ms DECAY_HALF_LIFE_MS)
           in mul64 (rd_score r) decay)"

definition days_inactive :: "reputation_data \<Rightarrow> u64 \<Rightarrow> float" where
  "days_inactive r current_time_ms =
     (if rd_last_updated r = 0 then lit64 0
      else let elapsed_ms = as_f64 (saturating_sub current_time_ms (rd_last_updated r))
           in div64 elapsed_ms (mul64 (mul64 (lit64 24) (lit64 3600)) (lit64 1000)))"

text \<open>\<open>(fee as f64 / 1_000_000.0).clamp(0.01, 10.0)\<close>.\<close>

definition value_weight :: "u64 \<Rightarrow> float" where
  "value_weight fee = fclamp (lit64 (1 / 100)) (lit64 10) (div64 (as_f64 fee) (lit64 1000000))"

definition record_completion :: "reputation_data \<Rightarrow> u64 \<Rightarrow> u64 \<Rightarrow> reputation_data" where
  "record_completion r fee timestamp =
     (let weight = value_weight fee in
      r\<lparr>rd_tasks_completed := saturating_add (rd_tasks_completed r) 1,
        rd_total_value_completed := saturating_add (rd_total_value_completed r) fee,
        rd_score := fclamp (lit64 0) (lit64 100) (add64 (rd_score r) (mul64 (lit64 (1 / 2)) weight)),
        rd_last_updated := timestamp\<rparr>)"

definition record_rating :: "reputation_data \<Rightarrow> float \<Rightarrow> u64 \<Rightarrow> u64 \<Rightarrow> reputation_data" where
  "record_rating r quality fee timestamp =
     (let q = fclamp (lit64 0) (lit64 10) quality;
          weight = value_weight fee;
          delta = mul64 (mul64 (sub64 q (lit64 5)) weight) (lit64 (1 / 10))
      in r\<lparr>rd_cumulative_quality := add64 (rd_cumulative_quality r) q,
           rd_ratings_received := saturating_add (rd_ratings_received r) 1,
           rd_value_weighted_quality :=
             add64 (rd_value_weighted_quality r) (mul64 q (as_f64 fee)),
           rd_total_value_rated := saturating_add (rd_total_value_rated r) fee,
           rd_score := fclamp (lit64 0) (lit64 100) (add64 (rd_score r) delta),
           rd_last_updated := timestamp\<rparr>)"

definition record_failure :: "reputation_data \<Rightarrow> u64 \<Rightarrow> u64 \<Rightarrow> reputation_data" where
  "record_failure r fee timestamp =
     (let weight = value_weight fee in
      r\<lparr>rd_tasks_failed := saturating_add (rd_tasks_failed r) 1,
        rd_score := fclamp (lit64 0) (lit64 100) (sub64 (rd_score r) (mul64 (lit64 5) weight)),
        rd_last_updated := timestamp\<rparr>)"

text \<open>The payload that carries a rating; the quality is the double with the given bits.\<close>

record reputation_update_data =
  ru_task_id :: hash256
  ru_quality_score :: f64_bits
  ru_requester_accepted :: bool
  ru_feedback :: rstr

datatype rating_error = QualityNotFinite | QualityOutOfRange

definition validate_reputation_update :: "reputation_update_data \<Rightarrow> rating_error + unit" where
  "validate_reputation_update d =
     (let q = f64_from_bits (ru_quality_score d) in
      if \<not> is_finite q then Err QualityNotFinite
      else if \<not> (fle (lit64 0) q \<and> fle q (lit64 10)) then Err QualityOutOfRange
      else Ok ())"

subsection \<open>The reputation of a requester\<close>

record requester_reputation =
  rq_tasks_submitted :: u64
  rq_same_entity_submission_units_neutralized :: u64
  rq_tasks_fulfilled :: u64
  rq_tasks_cancelled :: u64
  rq_matched_agent_timeouts :: u64
  rq_ratings_given :: u64
  rq_failed_reports_given :: u64
  rq_avg_rating_given :: float
  rq_lowest_ratings_given :: u64
  rq_perfect_ratings_given :: u64
  rq_total_escrowed :: u64
  rq_total_settled_spend :: u64
  rq_auto_match_bonded_amount :: u64
  rq_task_disputes_initiated :: u64
  rq_agreement_disputes_initiated :: u64
  rq_last_active :: u64
  rq_storage_deposit :: u64

definition requester_default :: requester_reputation where
  "requester_default =
     \<lparr>rq_tasks_submitted = 0, rq_same_entity_submission_units_neutralized = 0,
      rq_tasks_fulfilled = 0, rq_tasks_cancelled = 0, rq_matched_agent_timeouts = 0,
      rq_ratings_given = 0, rq_failed_reports_given = 0, rq_avg_rating_given = lit64 0,
      rq_lowest_ratings_given = 0, rq_perfect_ratings_given = 0, rq_total_escrowed = 0,
      rq_total_settled_spend = 0, rq_auto_match_bonded_amount = 0,
      rq_task_disputes_initiated = 0, rq_agreement_disputes_initiated = 0, rq_last_active = 0,
      rq_storage_deposit = 0\<rparr>"

definition third_party_tasks_submitted :: "requester_reputation \<Rightarrow> u64" where
  "third_party_tasks_submitted r =
     saturating_sub (rq_tasks_submitted r) (rq_same_entity_submission_units_neutralized r)"

definition fulfillment_rate :: "requester_reputation \<Rightarrow> float" where
  "fulfillment_rate r =
     (let denominator = third_party_tasks_submitted r in
      if denominator = 0 then lit64 0 else div64 (as_f64 (rq_tasks_fulfilled r)) (as_f64 denominator))"

definition cancellation_rate :: "requester_reputation \<Rightarrow> float" where
  "cancellation_rate r =
     (let denominator = third_party_tasks_submitted r in
      if denominator = 0 then lit64 0 else div64 (as_f64 (rq_tasks_cancelled r)) (as_f64 denominator))"

definition dispute_rate :: "requester_reputation \<Rightarrow> float" where
  "dispute_rate r =
     (let denominator = third_party_tasks_submitted r in
      if denominator = 0 then lit64 0
      else div64 (as_f64 (rq_task_disputes_initiated r)) (as_f64 denominator))"

definition rating_confidence :: "requester_reputation \<Rightarrow> float" where
  "rating_confidence r = fmin (div64 (as_f64 (rq_ratings_given r)) (lit64 8)) (lit64 1)"

definition reviewed_outcomes :: "requester_reputation \<Rightarrow> u64" where
  "reviewed_outcomes r = saturating_add (rq_ratings_given r) (rq_failed_reports_given r)"

definition failed_report_rate :: "requester_reputation \<Rightarrow> float" where
  "failed_report_rate r =
     (let denominator = reviewed_outcomes r in
      if denominator = 0 then lit64 0
      else div64 (as_f64 (rq_failed_reports_given r)) (as_f64 denominator))"

text \<open>The step table of \<open>rating_fairness\<close> on the average rating.\<close>

definition fairness_base :: "float \<Rightarrow> float" where
  "fairness_base avg =
     (if flt avg (lit64 2) then lit64 (1 / 5)
      else if flt avg (lit64 3) then lit64 (2 / 5)
      else if flt avg (lit64 4) then lit64 (7 / 10)
      else if flt (lit64 (19 / 2)) avg then lit64 (9 / 20)
      else if flt (lit64 9) avg then lit64 (3 / 4)
      else lit64 1)"

definition rating_fairness :: "requester_reputation \<Rightarrow> float" where
  "rating_fairness r =
     (if rq_ratings_given r = 0 then lit64 (1 / 2)
      else
        let avg = fclamp (lit64 0) (lit64 10) (rq_avg_rating_given r);
            raw = fairness_base avg;
            lowest_share = div64 (as_f64 (rq_lowest_ratings_given r)) (as_f64 (rq_ratings_given r));
            perfect_share = div64 (as_f64 (rq_perfect_ratings_given r)) (as_f64 (rq_ratings_given r));
            raw = sub64 raw (mul64 lowest_share (lit64 (1 / 4)));
            raw = sub64 raw (mul64 perfect_share (lit64 (1 / 4)));
            raw = (if flt (lit64 (1 / 5)) lowest_share \<and> flt (lit64 (1 / 5)) perfect_share
                   then sub64 raw (mul64 (lit64 (7 / 20))
                          (fmin (div64 (fmin lowest_share perfect_share) (lit64 (1 / 2))) (lit64 1)))
                   else raw);
            raw = fclamp (lit64 0) (lit64 1) raw;
            confidence = rating_confidence r
        in add64 (lit64 (1 / 2)) (mul64 (sub64 raw (lit64 (1 / 2))) confidence))"

definition trust_score :: "math_fns \<Rightarrow> requester_reputation \<Rightarrow> float" where
  "trust_score M r =
     (let scored_submissions = third_party_tasks_submitted r in
      if scored_submissions = 0 then lit64 50
      else
        let fulfillment = mul64 (fulfillment_rate r) (lit64 35);
            no_cancel = mul64 (sub64 (lit64 1) (cancellation_rate r)) (lit64 25);
            fairness = mul64 (rating_fairness r) (lit64 20);
            neutral_reserved = lit64 10;
            volume = fmin (mul64 (m_ln M (add64 (as_f64 scored_submissions) (lit64 1))) (lit64 4)) (lit64 10)
        in add64 (add64 (add64 (add64 fulfillment no_cancel) fairness) neutral_reserved) volume)"

definition actual_spend :: "requester_reputation \<Rightarrow> u64" where
  "actual_spend r = rq_total_settled_spend r"

definition economic_backing :: "requester_reputation \<Rightarrow> u64" where
  "economic_backing r = rq_auto_match_bonded_amount r"

definition required_additional_auto_match_backing ::
  "requester_reputation \<Rightarrow> matching_params \<Rightarrow> u64" where
  "required_additional_auto_match_backing r p =
     saturating_sub (mx_requester_min_auto_match_backing p) (economic_backing r)"

record auto_match_policy =
  po_eligible :: bool
  po_economic_backing_policy_active :: bool
  po_trust_policy_active :: bool
  po_fairness_policy_active :: bool
  po_cancellation_policy_active :: bool
  po_dispute_policy_active :: bool
  po_failed_report_policy_active :: bool
  po_blocked_by_economic_backing :: bool
  po_blocked_by_trust :: bool
  po_blocked_by_rating_fairness :: bool
  po_blocked_by_cancellation_rate :: bool
  po_blocked_by_dispute_rate :: bool
  po_blocked_by_failed_report_rate :: bool
  po_min_auto_match_backing :: u64
  po_required_additional_backing :: u64
  po_min_trust_score :: float
  po_min_tasks_for_trust :: u64
  po_min_rating_fairness :: float
  po_min_ratings_for_fairness :: u64
  po_max_cancellation_rate :: float
  po_min_tasks_for_cancellation_rate :: u64
  po_max_dispute_rate :: float
  po_min_tasks_for_dispute_rate :: u64
  po_max_failed_report_rate :: float
  po_min_reviewed_outcomes_for_failed_report_rate :: u64

definition auto_match_policy_of ::
  "math_fns \<Rightarrow> requester_reputation \<Rightarrow> matching_params \<Rightarrow> auto_match_policy" where
  "auto_match_policy_of M r p =
     (let min_trust = fclamp (lit64 0) (lit64 100) (mx_requester_min_trust_score p);
          min_fairness = fclamp (lit64 0) (lit64 1) (mx_requester_min_rating_fairness p);
          max_cancellation_rate = fclamp (lit64 0) (lit64 1) (mx_requester_max_cancellation_rate p);
          max_dispute_rate = fclamp (lit64 0) (lit64 1) (mx_requester_max_dispute_rate p);
          max_failed_report_rate = fclamp (lit64 0) (lit64 1) (mx_requester_max_failed_report_rate p);
          min_backing = mx_requester_min_auto_match_backing p;
          scored_submissions = third_party_tasks_submitted r;
          economic_backing_policy_active = (0 < min_backing);
          blocked_by_economic_backing =
            (economic_backing_policy_active \<and> economic_backing r < min_backing);
          trust_policy_active = (mx_requester_min_tasks_for_trust p \<le> scored_submissions);
          fairness_policy_active = (mx_requester_min_ratings_for_fairness p \<le> rq_ratings_given r);
          cancellation_policy_active =
            (flt max_cancellation_rate (lit64 1) \<and> mx_requester_min_tasks_for_trust p \<le> scored_submissions);
          dispute_policy_active =
            (flt max_dispute_rate (lit64 1) \<and> mx_requester_min_tasks_for_trust p \<le> scored_submissions);
          failed_report_policy_active =
            (flt max_failed_report_rate (lit64 1)
             \<and> mx_requester_min_reviewed_outcomes_for_failed_report_rate p \<le> reviewed_outcomes r);
          blocked_by_trust = (trust_policy_active \<and> flt (trust_score M r) min_trust);
          blocked_by_rating_fairness = (fairness_policy_active \<and> flt (rating_fairness r) min_fairness);
          blocked_by_cancellation_rate =
            (cancellation_policy_active \<and> flt max_cancellation_rate (cancellation_rate r));
          blocked_by_dispute_rate = (dispute_policy_active \<and> flt max_dispute_rate (dispute_rate r));
          blocked_by_failed_report_rate =
            (failed_report_policy_active \<and> flt max_failed_report_rate (failed_report_rate r))
      in \<lparr>po_eligible = (\<not> blocked_by_economic_backing \<and> \<not> blocked_by_trust
            \<and> \<not> blocked_by_rating_fairness \<and> \<not> blocked_by_cancellation_rate
            \<and> \<not> blocked_by_dispute_rate \<and> \<not> blocked_by_failed_report_rate),
          po_economic_backing_policy_active = economic_backing_policy_active,
          po_trust_policy_active = trust_policy_active,
          po_fairness_policy_active = fairness_policy_active,
          po_cancellation_policy_active = cancellation_policy_active,
          po_dispute_policy_active = dispute_policy_active,
          po_failed_report_policy_active = failed_report_policy_active,
          po_blocked_by_economic_backing = blocked_by_economic_backing,
          po_blocked_by_trust = blocked_by_trust,
          po_blocked_by_rating_fairness = blocked_by_rating_fairness,
          po_blocked_by_cancellation_rate = blocked_by_cancellation_rate,
          po_blocked_by_dispute_rate = blocked_by_dispute_rate,
          po_blocked_by_failed_report_rate = blocked_by_failed_report_rate,
          po_min_auto_match_backing = min_backing,
          po_required_additional_backing = saturating_sub min_backing (economic_backing r),
          po_min_trust_score = min_trust,
          po_min_tasks_for_trust = mx_requester_min_tasks_for_trust p,
          po_min_rating_fairness = min_fairness,
          po_min_ratings_for_fairness = mx_requester_min_ratings_for_fairness p,
          po_max_cancellation_rate = max_cancellation_rate,
          po_min_tasks_for_cancellation_rate = mx_requester_min_tasks_for_trust p,
          po_max_dispute_rate = max_dispute_rate,
          po_min_tasks_for_dispute_rate = mx_requester_min_tasks_for_trust p,
          po_max_failed_report_rate = max_failed_report_rate,
          po_min_reviewed_outcomes_for_failed_report_rate =
            mx_requester_min_reviewed_outcomes_for_failed_report_rate p\<rparr>)"

definition allows_auto_match :: "math_fns \<Rightarrow> requester_reputation \<Rightarrow> matching_params \<Rightarrow> bool" where
  "allows_auto_match M r p = po_eligible (auto_match_policy_of M r p)"

record requester_reputation_view =
  rv_trust_score :: float
  rv_tasks_submitted :: u64
  rv_third_party_tasks_submitted :: u64
  rv_same_entity_submission_units_neutralized :: u64
  rv_tasks_fulfilled :: u64
  rv_tasks_cancelled :: u64
  rv_matched_agent_timeouts :: u64
  rv_fulfillment_rate :: float
  rv_cancellation_rate :: float
  rv_ratings_given :: u64
  rv_failed_reports_given :: u64
  rv_reviewed_outcomes :: u64
  rv_failed_report_rate :: float
  rv_avg_rating_given :: float
  rv_rating_fairness :: float
  rv_lowest_ratings_given :: u64
  rv_perfect_ratings_given :: u64
  rv_total_spent :: u64
  rv_total_escrowed :: u64
  rv_auto_match_bonded_amount :: u64
  rv_economic_backing :: u64
  rv_disputes_initiated :: u64
  rv_agreement_disputes_initiated :: u64
  rv_dispute_rate :: float
  rv_last_active :: u64
  rv_storage_deposit :: u64
  rv_auto_match_policy :: auto_match_policy

definition requester_read_view ::
  "math_fns \<Rightarrow> requester_reputation \<Rightarrow> matching_params \<Rightarrow> requester_reputation_view" where
  "requester_read_view M r p =
     \<lparr>rv_trust_score = trust_score M r,
      rv_tasks_submitted = rq_tasks_submitted r,
      rv_third_party_tasks_submitted = third_party_tasks_submitted r,
      rv_same_entity_submission_units_neutralized = rq_same_entity_submission_units_neutralized r,
      rv_tasks_fulfilled = rq_tasks_fulfilled r,
      rv_tasks_cancelled = rq_tasks_cancelled r,
      rv_matched_agent_timeouts = rq_matched_agent_timeouts r,
      rv_fulfillment_rate = fulfillment_rate r,
      rv_cancellation_rate = cancellation_rate r,
      rv_ratings_given = rq_ratings_given r,
      rv_failed_reports_given = rq_failed_reports_given r,
      rv_reviewed_outcomes = reviewed_outcomes r,
      rv_failed_report_rate = failed_report_rate r,
      rv_avg_rating_given = rq_avg_rating_given r,
      rv_rating_fairness = rating_fairness r,
      rv_lowest_ratings_given = rq_lowest_ratings_given r,
      rv_perfect_ratings_given = rq_perfect_ratings_given r,
      rv_total_spent = actual_spend r,
      rv_total_escrowed = rq_total_escrowed r,
      rv_auto_match_bonded_amount = rq_auto_match_bonded_amount r,
      rv_economic_backing = economic_backing r,
      rv_disputes_initiated = rq_task_disputes_initiated r,
      rv_agreement_disputes_initiated = rq_agreement_disputes_initiated r,
      rv_dispute_rate = dispute_rate r,
      rv_last_active = rq_last_active r,
      rv_storage_deposit = rq_storage_deposit r,
      rv_auto_match_policy = auto_match_policy_of M r p\<rparr>"

subsection \<open>Recording what a requester does\<close>

definition record_submission :: "requester_reputation \<Rightarrow> u64 \<Rightarrow> u64 \<Rightarrow> requester_reputation" where
  "record_submission r escrowed_fee timestamp =
     r\<lparr>rq_tasks_submitted := saturating_add (rq_tasks_submitted r) 1,
       rq_total_escrowed := saturating_add (rq_total_escrowed r) escrowed_fee,
       rq_last_active := timestamp\<rparr>"

definition record_decomposition :: "requester_reputation \<Rightarrow> u64 \<Rightarrow> u64 \<Rightarrow> requester_reputation" where
  "record_decomposition r subtask_count timestamp =
     r\<lparr>rq_tasks_submitted := saturating_add (rq_tasks_submitted r) (saturating_sub subtask_count 1),
       rq_last_active := timestamp\<rparr>"

definition record_fulfillment :: "requester_reputation \<Rightarrow> u64 \<Rightarrow> u64 \<Rightarrow> requester_reputation" where
  "record_fulfillment r settled_spend timestamp =
     r\<lparr>rq_tasks_fulfilled := saturating_add (rq_tasks_fulfilled r) 1,
       rq_total_settled_spend := saturating_add (rq_total_settled_spend r) settled_spend,
       rq_last_active := timestamp\<rparr>"

definition record_cancellation :: "requester_reputation \<Rightarrow> u64 \<Rightarrow> requester_reputation" where
  "record_cancellation r timestamp =
     r\<lparr>rq_tasks_cancelled := saturating_add (rq_tasks_cancelled r) 1, rq_last_active := timestamp\<rparr>"

definition record_matched_agent_timeout :: "requester_reputation \<Rightarrow> u64 \<Rightarrow> requester_reputation" where
  "record_matched_agent_timeout r timestamp =
     r\<lparr>rq_matched_agent_timeouts := saturating_add (rq_matched_agent_timeouts r) 1,
       rq_last_active := timestamp\<rparr>"

definition record_auto_match_bond :: "requester_reputation \<Rightarrow> u64 \<Rightarrow> u64 \<Rightarrow> requester_reputation" where
  "record_auto_match_bond r amount timestamp =
     r\<lparr>rq_auto_match_bonded_amount := saturating_add (rq_auto_match_bonded_amount r) amount,
       rq_last_active := timestamp\<rparr>"

definition record_rating_given :: "requester_reputation \<Rightarrow> float \<Rightarrow> u64 \<Rightarrow> requester_reputation" where
  "record_rating_given r quality timestamp =
     (let given = saturating_add (rq_ratings_given r) 1;
          q = fclamp (lit64 0) (lit64 10) quality
      in r\<lparr>rq_ratings_given := given,
           rq_lowest_ratings_given :=
             (if fle q (lit64 1) then saturating_add (rq_lowest_ratings_given r) 1
              else rq_lowest_ratings_given r),
           rq_perfect_ratings_given :=
             (if fle (lit64 10) q then saturating_add (rq_perfect_ratings_given r) 1
              else rq_perfect_ratings_given r),
           rq_avg_rating_given :=
             (if given = 1 then q
              else div64 (add64 (mul64 (rq_avg_rating_given r) (as_f64 (given - 1))) q) (as_f64 given)),
           rq_last_active := timestamp\<rparr>)"

definition record_failed_report :: "requester_reputation \<Rightarrow> u64 \<Rightarrow> requester_reputation" where
  "record_failed_report r timestamp =
     r\<lparr>rq_failed_reports_given := saturating_add (rq_failed_reports_given r) 1,
       rq_last_active := timestamp\<rparr>"

definition record_same_entity_submission_neutralization ::
  "requester_reputation \<Rightarrow> u64 \<Rightarrow> requester_reputation" where
  "record_same_entity_submission_neutralization r timestamp =
     (let remaining = saturating_sub (rq_tasks_submitted r)
                        (rq_same_entity_submission_units_neutralized r);
          r1 = (if 0 < remaining
                then r\<lparr>rq_same_entity_submission_units_neutralized :=
                         saturating_add (rq_same_entity_submission_units_neutralized r) 1\<rparr>
                else r)
      in r1\<lparr>rq_last_active := timestamp\<rparr>)"

definition record_dispute :: "requester_reputation \<Rightarrow> u64 \<Rightarrow> requester_reputation" where
  "record_dispute r timestamp =
     r\<lparr>rq_task_disputes_initiated := saturating_add (rq_task_disputes_initiated r) 1,
       rq_last_active := timestamp\<rparr>"

definition record_agreement_dispute :: "requester_reputation \<Rightarrow> u64 \<Rightarrow> requester_reputation" where
  "record_agreement_dispute r timestamp =
     r\<lparr>rq_agreement_disputes_initiated := saturating_add (rq_agreement_disputes_initiated r) 1,
       rq_last_active := timestamp\<rparr>"

subsection \<open>The score of an agent stays between 0 and 100\<close>

lemma lit_0 [simp]: "in_range 0 0 (lit64 0)" by (rule f64.lit_range) simp
lemma lit_1 [simp]: "in_range 1 1 (lit64 1)" by (rule f64.lit_range) simp
lemma lit_half [simp]: "in_range (1 / 2) (1 / 2) (lit64 (1 / 2))" by (rule f64.lit_range) simp

lemma lit_numeral [simp]:
  "(numeral n :: nat) \<le> 2 ^ 53 \<Longrightarrow> in_range (numeral n) (numeral n) (lit64 (numeral n))"
  by (rule f64.lit_range) (rule representable_64_numeral)

lemma in_range_val: "in_range a a x \<Longrightarrow> num_val x = a"
  by (auto elim!: in_rangeE)

lemma lit_vals [simp]: "num_val (lit64 0) = 0" "num_val (lit64 1) = 1" "num_val (lit64 (1 / 2)) = 1 / 2"
  using in_range_val [OF lit_0] in_range_val [OF lit_1] in_range_val [OF lit_half] by simp_all

lemma lit_val_numeral [simp]: "(numeral n :: nat) \<le> 2 ^ 53 \<Longrightarrow> num_val (lit64 (numeral n)) = numeral n"
  using in_range_val [OF lit_numeral] by simp

lemma lit_unit: "0 \<le> r \<Longrightarrow> r \<le> 1 \<Longrightarrow> in_range 0 1 (lit64 r)"
  by (rule f64.lit_between) simp_all

lemma value_weight_range: "in_range 0 10 (value_weight fee)"
proof -
  have hundredth: "in_range 0 1 (lit64 (1 / 100))" by (rule lit_unit) simp_all
  have "in_range 0 (2 ^ 64) (div64 (as_f64 fee) (lit64 1000000))"
    by (rule f64.div_range [OF as_f64_range lit_numeral])
      (auto simp: divide_le_eq intro: order_trans)
  with hundredth show ?thesis
    unfolding value_weight_def by (intro in_range_clamp_between [of 0 1 _ 10]) simp_all
qed

lemma mul_sym_range:
  assumes "in_range (- a) a x" "in_range (- b) b y" "representable F64 (a * b)"
  shows "in_range (- (a * b)) (a * b) (mul64 x y)"
proof (rule f64.mul_range [OF assms(1,2)])
  fix u v :: rat
  assume "- a \<le> u" "u \<le> a" "- b \<le> v" "v \<le> b"
  then have "\<bar>u * v\<bar> \<le> a * b" unfolding abs_mult by (intro mult_mono) auto
  then show "- (a * b) \<le> u * v \<and> u * v \<le> a * b" by linarith
qed (use assms(3) in simp_all)

definition score_in_bounds :: "reputation_data \<Rightarrow> bool" where
  "score_in_bounds r \<longleftrightarrow> in_range 0 100 (rd_score r)"

lemma clamp_score: "in_range a b x \<Longrightarrow> in_range 0 100 (fclamp (lit64 0) (lit64 100) x)"
  by (rule in_range_clamp_between [of 0 0 _ 100]) simp_all

lemma record_completion_bounds: "score_in_bounds r \<Longrightarrow> score_in_bounds (record_completion r fee t)"
proof -
  assume "score_in_bounds r"
  moreover have "in_range 0 5 (mul64 (lit64 (1 / 2)) (value_weight fee))"
    using f64.mul_nonneg_range [OF lit_half value_weight_range [of fee]] by simp
  ultimately have "in_range 0 105 (add64 (rd_score r) (mul64 (lit64 (1 / 2)) (value_weight fee)))"
    unfolding score_in_bounds_def by (rule f64.add_range) simp_all
  then show ?thesis by (simp add: score_in_bounds_def record_completion_def Let_def clamp_score)
qed

lemma clamp_quality:
  "q \<noteq> NaN \<Longrightarrow> wf_float q \<Longrightarrow> in_range 0 10 (fclamp (lit64 0) (lit64 10) q)"
  by (rule in_range_clamp) (simp_all add: wf_float_def)

lemma record_rating_bounds:
  assumes "score_in_bounds r" "q \<noteq> NaN" "wf_float q"
  shows "score_in_bounds (record_rating r q fee t)"
proof -
  let ?q = "fclamp (lit64 0) (lit64 10) q" let ?w = "value_weight fee"
  have "in_range (- 5) 5 (sub64 ?q (lit64 5))"
    by (rule f64.sub_range [OF clamp_quality [OF assms(2,3)] lit_numeral]) simp_all
  moreover have w: "in_range (- 10) 10 ?w" by (rule in_range_weaken [OF value_weight_range]) simp_all
  ultimately have "in_range (- (5 * 10)) (5 * 10) (mul64 (sub64 ?q (lit64 5)) ?w)"
    by (rule mul_sym_range) simp
  then have "in_range (- 50) 50 (mul64 (sub64 ?q (lit64 5)) ?w)" by simp
  moreover have "in_range (- 1) 1 (lit64 (1 / 10))"
    by (rule in_range_weaken [OF lit_unit]) simp_all
  ultimately have "in_range (- (50 * 1)) (50 * 1) (mul64 (mul64 (sub64 ?q (lit64 5)) ?w) (lit64 (1 / 10)))"
    by (rule mul_sym_range) simp
  then have "in_range (- 50) 50 (mul64 (mul64 (sub64 ?q (lit64 5)) ?w) (lit64 (1 / 10)))" by simp
  with assms(1) have "in_range (- 50) 150 (add64 (rd_score r) (mul64 (mul64 (sub64 ?q (lit64 5)) ?w) (lit64 (1 / 10))))"
    unfolding score_in_bounds_def by (rule f64.add_range) simp_all
  then show ?thesis by (simp add: score_in_bounds_def record_rating_def Let_def clamp_score)
qed

lemma record_failure_bounds: "score_in_bounds r \<Longrightarrow> score_in_bounds (record_failure r fee t)"
proof -
  assume "score_in_bounds r"
  moreover have "in_range 0 50 (mul64 (lit64 5) (value_weight fee))"
    using f64.mul_nonneg_range [OF lit_numeral [of "num.Bit1 (num.Bit0 num.One)"] value_weight_range [of fee]]
    by simp
  ultimately have "in_range (- 50) 100 (sub64 (rd_score r) (mul64 (lit64 5) (value_weight fee)))"
    unfolding score_in_bounds_def by (rule f64.sub_range) simp_all
  then show ?thesis by (simp add: score_in_bounds_def record_failure_def Let_def clamp_score)
qed

text \<open>What the chain records for an agent, in any order.\<close>

datatype reputation_op = RepCompletion u64 u64 | RepRating float u64 u64 | RepFailure u64 u64

fun reputation_step :: "reputation_data \<Rightarrow> reputation_op \<Rightarrow> reputation_data" where
  "reputation_step r (RepCompletion fee t) = record_completion r fee t"
| "reputation_step r (RepRating q fee t) = record_rating r q fee t"
| "reputation_step r (RepFailure fee t) = record_failure r fee t"

fun real_rating :: "reputation_op \<Rightarrow> bool" where
  "real_rating (RepRating q fee t) \<longleftrightarrow> q \<noteq> NaN \<and> wf_float q"
| "real_rating _ \<longleftrightarrow> True"

interpretation reputation: guarded reputation_step score_in_bounds real_rating
proof unfold_locales
  fix r op
  assume "score_in_bounds r" "real_rating op"
  then show "score_in_bounds (reputation_step r op)"
    by (cases op) (simp_all add: record_completion_bounds record_rating_bounds record_failure_bounds)
qed

lemma saturating_add_grows [simp]: "unat a \<le> unat (saturating_add (a :: u64) b)"
  using unat_u64_bound(2) [of a] by (simp add: unat_saturating_add)

lemma step_task_counts:
  "unat (rd_tasks_completed r) \<le> unat (rd_tasks_completed (reputation_step r op))"
  "unat (rd_tasks_failed r) \<le> unat (rd_tasks_failed (reputation_step r op))"
  by (cases op; simp add: record_completion_def record_rating_def record_failure_def Let_def)+

interpretation exposure: stateful_mono reputation_step "\<lambda>_. True" "\<lambda>r. unat (resolved_task_count r)"
proof unfold_locales
  fix r op
  show "unat (resolved_task_count r) \<le> unat (resolved_task_count (reputation_step r op))"
    using step_task_counts [of r op] by (simp add: resolved_task_count_def unat_saturating_add)
qed simp

lemma half_life_range: "in_range 2592000000 2592000000 DECAY_HALF_LIFE_MS"
proof -
  have "in_range 720 720 (mul64 (lit64 30) (lit64 24))"
    by (rule f64.mul_range [OF lit_numeral lit_numeral]) (auto dest!: antisym)
  then have "in_range 2592000 2592000 (mul64 (mul64 (lit64 30) (lit64 24)) (lit64 3600))"
    by (rule f64.mul_range [OF _ lit_numeral]) (auto dest!: antisym)
  then show ?thesis unfolding DECAY_HALF_LIFE_MS_def
    by (rule f64.mul_range [OF _ lit_numeral]) (auto dest!: antisym)
qed

lemma effective_score_bounds:
  assumes "math_ok M" "score_in_bounds r"
  shows "in_range 0 100 (effective_score M r now)"
proof -
  let ?e = "div64 (as_f64 (saturating_sub now (rd_last_updated r))) DECAY_HALF_LIFE_MS"
  have "in_range 0 (2 ^ 64) ?e"
    by (rule f64.div_range [OF as_f64_range half_life_range])
      (auto simp: divide_le_eq intro: order_trans)
  moreover have "in_range 0 1 (lit64 (1 / 2))" by (rule lit_unit) simp_all
  ultimately have "in_range 0 1 (m_powf M (lit64 (1 / 2)) ?e)" using assms(1) unfolding math_ok_def by blast
  with assms(2) have "in_range (0 * 0) (100 * 1) (mul64 (rd_score r) (m_powf M (lit64 (1 / 2)) ?e))"
    unfolding score_in_bounds_def by (rule f64.mul_nonneg_range) simp_all
  with assms(2) show ?thesis by (simp add: effective_score_def Let_def score_in_bounds_def)
qed

lemma score_in_bounds_default [simp]: "score_in_bounds reputation_default"
  by (simp add: score_in_bounds_def reputation_default_def) (rule in_range_weaken [OF lit_0], simp_all)

subsection \<open>Requester shares\<close>

text \<open>What keeps the fairness score meaningful: the shares are shares, and the average is a
  number (or an infinity), never a NaN.\<close>

definition ratings_consistent :: "requester_reputation \<Rightarrow> bool" where
  "ratings_consistent r \<longleftrightarrow>
     unat (rq_lowest_ratings_given r) \<le> unat (rq_ratings_given r)
     \<and> unat (rq_perfect_ratings_given r) \<le> unat (rq_ratings_given r)
     \<and> rq_avg_rating_given r \<noteq> NaN \<and> wf_float (rq_avg_rating_given r)"

lemma fround_not_NaN [simp]: "fround F s m \<noteq> NaN"
  by (simp add: fround_def Let_def)

lemma fround_wf [simp]: "wf_float (fround F64 s m)"
  by (simp add: fround_def Let_def f64.round_mag_nonneg)

lemma positive_num: "in_range 1 b y \<Longrightarrow> \<exists>m. y = Num False m \<and> 1 \<le> m"
  by (auto elim!: in_rangeE split: if_splits)

lemma mul_pos_not_NaN: "x \<noteq> NaN \<Longrightarrow> in_range 1 b y \<Longrightarrow> mul64 x y \<noteq> NaN \<and> wf_float (mul64 x y)"
  by (drule positive_num, cases x) auto

lemma div_pos_not_NaN: "x \<noteq> NaN \<Longrightarrow> in_range 1 b y \<Longrightarrow> div64 x y \<noteq> NaN \<and> wf_float (div64 x y)"
  by (drule positive_num, cases x) auto

lemma add_finite_not_NaN: "x \<noteq> NaN \<Longrightarrow> in_range a b y \<Longrightarrow> add64 x y \<noteq> NaN \<and> wf_float (add64 x y)"
  by (cases x; cases y) (auto simp: in_range_def Let_def)

lemma record_rating_given_consistent:
  assumes "ratings_consistent r" "q \<noteq> NaN" "wf_float q"
  shows "ratings_consistent (record_rating_given r q t)"
proof -
  define g where "g = saturating_add (rq_ratings_given r) 1"
  let ?q = "fclamp (lit64 0) (lit64 10) q"
  have q: "in_range 0 10 ?q" by (rule clamp_quality [OF assms(2,3)])
  have g: "unat g = min (unat (rq_ratings_given r) + 1) (2 ^ 64 - 1)"
    by (simp add: g_def unat_saturating_add)
  have bump: "unat (saturating_add c 1) \<le> unat g" "unat c \<le> unat g"
    if "unat c \<le> unat (rq_ratings_given r)" for c :: u64
    using that g unat_u64_bound(2) [of c] by (simp_all add: unat_saturating_add)
  have "1 \<le> unat g" using g by simp
  then have g0: "g \<noteq> 0" by auto
  have avg: "x \<noteq> NaN \<and> wf_float x"
    if "x = (if g = 1 then ?q
             else div64 (add64 (mul64 (rq_avg_rating_given r) (as_f64 (g - 1))) ?q) (as_f64 g))" for x
  proof (cases "g = 1")
    case True
    with that q show ?thesis by (auto dest: in_range_not_special(1) wf_in_range)
  next
    case False
    then have "g - 1 \<noteq> 0" by simp
    from mul_pos_not_NaN [OF _ as_f64_pos [OF this]] assms(1)
    have "mul64 (rq_avg_rating_given r) (as_f64 (g - 1)) \<noteq> NaN" by (simp add: ratings_consistent_def)
    from add_finite_not_NaN [OF this q] div_pos_not_NaN [OF _ as_f64_pos [OF g0]] False that
    show ?thesis by simp
  qed
  show ?thesis using assms(1) bump avg [OF refl]
    by (auto simp: ratings_consistent_def record_rating_given_def Let_def g_def)
qed

text \<open>Everything a requester does.\<close>

datatype requester_op = RqSubmission u64 u64 | RqDecomposition u64 u64 | RqFulfillment u64 u64
  | RqCancellation u64 | RqAgentTimeout u64 | RqBond u64 u64 | RqRating float u64
  | RqFailedReport u64 | RqNeutralization u64 | RqDispute u64 | RqAgreementDispute u64

fun requester_step :: "requester_reputation \<Rightarrow> requester_op \<Rightarrow> requester_reputation" where
  "requester_step r (RqSubmission fee t) = record_submission r fee t"
| "requester_step r (RqDecomposition n t) = record_decomposition r n t"
| "requester_step r (RqFulfillment spend t) = record_fulfillment r spend t"
| "requester_step r (RqCancellation t) = record_cancellation r t"
| "requester_step r (RqAgentTimeout t) = record_matched_agent_timeout r t"
| "requester_step r (RqBond amount t) = record_auto_match_bond r amount t"
| "requester_step r (RqRating q t) = record_rating_given r q t"
| "requester_step r (RqFailedReport t) = record_failed_report r t"
| "requester_step r (RqNeutralization t) = record_same_entity_submission_neutralization r t"
| "requester_step r (RqDispute t) = record_dispute r t"
| "requester_step r (RqAgreementDispute t) = record_agreement_dispute r t"

fun real_requester_rating :: "requester_op \<Rightarrow> bool" where
  "real_requester_rating (RqRating q t) \<longleftrightarrow> q \<noteq> NaN \<and> wf_float q"
| "real_requester_rating _ \<longleftrightarrow> True"

interpretation requester: guarded requester_step ratings_consistent real_requester_rating
proof unfold_locales
  fix r op
  assume "ratings_consistent r" "real_requester_rating op"
  then show "ratings_consistent (requester_step r op)"
    by (cases op) (simp_all add: record_rating_given_consistent, simp_all add: ratings_consistent_def
        record_submission_def record_decomposition_def record_fulfillment_def
        record_cancellation_def record_matched_agent_timeout_def record_auto_match_bond_def
        record_failed_report_def record_same_entity_submission_neutralization_def
        record_dispute_def record_agreement_dispute_def Let_def)
qed

lemma fairness_base_range: "in_range 0 1 (fairness_base avg)"
  by (simp add: fairness_base_def lit_unit)

lemma quarter_share: "in_range 0 1 x \<Longrightarrow> in_range 0 1 (mul64 x (lit64 (1 / 4)))"
  by (rule f64.mul_range [of 0 1 _ 0 1]) (auto simp: lit_unit mult_le_one)

lemma rating_fairness_range:
  assumes "ratings_consistent r"
  shows "in_range 0 1 (rating_fairness r)"
proof (cases "rq_ratings_given r = 0")
  case True
  then show ?thesis by (simp add: rating_fairness_def lit_unit)
next
  case False
  let ?low = "div64 (as_f64 (rq_lowest_ratings_given r)) (as_f64 (rq_ratings_given r))"
  let ?perf = "div64 (as_f64 (rq_perfect_ratings_given r)) (as_f64 (rq_ratings_given r))"
  let ?base = "fairness_base (fclamp (lit64 0) (lit64 10) (rq_avg_rating_given r))"
  define bimodal where "bimodal = mul64 (lit64 (7 / 20)) (fmin (div64 (fmin ?low ?perf) (lit64 (1 / 2))) (lit64 1))"
  define raw where "raw = sub64 (sub64 ?base (mul64 ?low (lit64 (1 / 4)))) (mul64 ?perf (lit64 (1 / 4)))"
  define raw' where "raw' = (if flt (lit64 (1 / 5)) ?low \<and> flt (lit64 (1 / 5)) ?perf then sub64 raw bimodal else raw)"
  have low: "in_range 0 1 ?low" and perf: "in_range 0 1 ?perf"
    using assms False by (auto simp: ratings_consistent_def intro: ratio_range)
  have "in_range (- 1) 1 (sub64 ?base (mul64 ?low (lit64 (1 / 4))))"
    by (rule f64.sub_range [OF fairness_base_range quarter_share [OF low]]) simp_all
  then have raw: "in_range (- 2) 1 raw" unfolding raw_def
    by (rule f64.sub_range [OF _ quarter_share [OF perf]]) simp_all
  have "in_range 0 1 (fmin ?low ?perf)" using in_range_min [OF low perf] by simp
  then have "in_range 0 2 (div64 (fmin ?low ?perf) (lit64 (1 / 2)))"
    by (rule f64.div_range [OF _ lit_half]) (auto simp: divide_le_eq)
  from in_range_min [OF this lit_1] have "in_range 0 1 (fmin (div64 (fmin ?low ?perf) (lit64 (1 / 2))) (lit64 1))"
    by (auto intro: in_range_weaken)
  then have "in_range (0 * 0) (1 * 1) bimodal" unfolding bimodal_def
    by (intro f64.mul_nonneg_range lit_unit) simp_all
  then have "in_range 0 1 bimodal" by simp
  from raw this have "in_range (- 3) 1 (sub64 raw bimodal)" by (rule f64.sub_range) simp_all
  with raw have "in_range (- 3) 1 raw'" by (auto simp: raw'_def intro: in_range_weaken)
  then have clamped: "in_range 0 1 (fclamp (lit64 0) (lit64 1) raw')"
    by (rule in_range_clamp_between [OF lit_0 lit_1, rotated]) simp
  have conf: "in_range (- 1) 1 (rating_confidence r)"
  proof -
    have "in_range 0 (2 ^ 64) (div64 (as_f64 (rq_ratings_given r)) (lit64 8))"
      by (rule f64.div_range [OF as_f64_range lit_numeral]) (auto simp: divide_le_eq intro: order_trans)
    from in_range_min [OF this lit_1] show ?thesis
      unfolding rating_confidence_def by (auto intro: in_range_weaken)
  qed
  have "in_range (- (1 / 2)) (1 / 2) (sub64 (fclamp (lit64 0) (lit64 1) raw') (lit64 (1 / 2)))"
    by (rule f64.sub_range [OF clamped lit_half]) simp_all
  from mul_sym_range [OF this conf]
  have "in_range (- (1 / 2)) (1 / 2) (mul64 (sub64 (fclamp (lit64 0) (lit64 1) raw') (lit64 (1 / 2))) (rating_confidence r))"
    by simp
  from f64.add_range [OF lit_half this]
  have "in_range 0 1 (add64 (lit64 (1 / 2)) (mul64 (sub64 (fclamp (lit64 0) (lit64 1) raw') (lit64 (1 / 2))) (rating_confidence r)))"
    by simp
  then show ?thesis using False
    unfolding rating_fairness_def Let_def raw'_def raw_def bimodal_def by simp
qed

text \<open>The trust score, when no more work is fulfilled or cancelled than was submitted.\<close>

lemma rate_range:
  "unat a \<le> unat n \<Longrightarrow>
   in_range 0 1 (let d = n in if d = 0 then lit64 0 else div64 (as_f64 (a :: u64)) (as_f64 (d :: u64)))"
  using ratio_range [of a n] by (auto simp: Let_def intro: in_range_weaken [OF lit_0])

lemma scaled_share: "in_range 0 1 x \<Longrightarrow> (numeral n :: nat) \<le> 2 ^ 53 \<Longrightarrow> in_range 0 (numeral n) (mul64 x (lit64 (numeral n)))"
  by (rule f64.mul_range [OF _ lit_numeral]) (auto simp: mult_left_le_one_le dest!: antisym)

lemma trust_score_range:
  assumes "math_ok M" "ratings_consistent r"
    and "unat (rq_tasks_fulfilled r) \<le> unat (third_party_tasks_submitted r)"
    and "unat (rq_tasks_cancelled r) \<le> unat (third_party_tasks_submitted r)"
  shows "in_range 0 100 (trust_score M r)"
proof (cases "third_party_tasks_submitted r = 0")
  case True
  then show ?thesis by (simp add: trust_score_def in_range_weaken [OF lit_numeral])
next
  case False
  let ?n = "as_f64 (third_party_tasks_submitted r)"
  have f: "in_range 0 35 (mul64 (fulfillment_rate r) (lit64 35))"
    unfolding fulfillment_rate_def by (rule scaled_share [OF rate_range [OF assms(3)]]) simp
  have "in_range 0 1 (cancellation_rate r)"
    unfolding cancellation_rate_def by (rule rate_range [OF assms(4)])
  from f64.sub_range [OF lit_1 this] have "in_range 0 1 (sub64 (lit64 1) (cancellation_rate r))" by simp
  then have c: "in_range 0 25 (mul64 (sub64 (lit64 1) (cancellation_rate r)) (lit64 25))"
    by (rule scaled_share) simp
  have fair: "in_range 0 20 (mul64 (rating_fairness r) (lit64 20))"
    by (rule scaled_share [OF rating_fairness_range [OF assms(2)]]) simp
  have "in_range 1 (2 ^ 65) (add64 ?n (lit64 1))"
    by (rule f64.add_range [OF as_f64_range lit_1])
      (use representable_64_scaled [of 1 65] in simp_all)
  with assms(1) have "in_range 0 64 (m_ln M (add64 ?n (lit64 1)))" by (simp add: math_ok_def)
  from f64.mul_nonneg_range [OF this lit_numeral [of "num.Bit0 (num.Bit0 num.One)"]]
  have "in_range 0 256 (mul64 (m_ln M (add64 ?n (lit64 1))) (lit64 4))" by simp
  from in_range_min [OF this lit_numeral [of "num.Bit0 (num.Bit1 (num.Bit0 num.One))"]]
  have v: "in_range 0 10 (fmin (mul64 (m_ln M (add64 ?n (lit64 1))) (lit64 4)) (lit64 10))"
    by simp
  have ten: "in_range 10 10 (lit64 10)" by simp
  from f64.add_range [OF f c, of 0 60] have "in_range 0 60 (add64 (mul64 (fulfillment_rate r) (lit64 35))
      (mul64 (sub64 (lit64 1) (cancellation_rate r)) (lit64 25)))" by simp
  from f64.add_range [OF this fair, of 0 80] f64.add_range [OF _ ten, of 0 80 _ 0 90] f64.add_range [OF _ v, of 0 90 _ 0 100] False
  show ?thesis by (simp add: trust_score_def Let_def)
qed

lemma f64_from_bits_wf [simp]: "wf_float (f64_from_bits w)"
  by (auto simp: f64_from_bits_def Let_def intro!: mult_nonneg_nonneg less_imp_le [OF powi_pos])

lemma validated_quality:
  assumes "validate_reputation_update d = Ok ()"
  shows "in_range 0 10 (f64_from_bits (ru_quality_score d))"
proof -
  let ?q = "f64_from_bits (ru_quality_score d)"
  from assms obtain s m where q: "?q = Num s m"
    by (auto simp: validate_reputation_update_def Let_def is_finite_def split: if_splits float.splits)
  with f64_from_bits_wf [of "ru_quality_score d"] have self: "in_range (num_val ?q) (num_val ?q) ?q"
    by (simp add: in_range_def)
  have "fle (lit64 0) ?q" "fle ?q (lit64 10)"
    using assms by (auto simp: validate_reputation_update_def Let_def split: if_splits)
  with fle_in_range [OF lit_0 self] fle_in_range [OF self lit_numeral [of "num.Bit0 (num.Bit1 (num.Bit0 num.One))"]]
  have "0 \<le> num_val ?q" "num_val ?q \<le> 10" by simp_all
  with self show ?thesis by (auto simp: in_range_def split: float.splits)
qed

subsection \<open>Eligibility\<close>

definition default_gates :: "math_fns \<Rightarrow> requester_reputation \<Rightarrow> bool" where
  "default_gates M r \<longleftrightarrow>
     (let n = unat (third_party_tasks_submitted r); reviewed = unat (reviewed_outcomes r) in
      5000000 \<le> unat (rq_auto_match_bonded_amount r)
      \<and> (n < 4 \<or> \<not> flt (trust_score M r) (lit64 35) \<and> 2 * unat (rq_tasks_cancelled r) \<le> n
           \<and> 2 * unat (rq_task_disputes_initiated r) \<le> n)
      \<and> (unat (rq_ratings_given r) < 4 \<or> \<not> flt (rating_fairness r) (lit64 (1 / 2)))
      \<and> (reviewed < 4 \<or> 2 * unat (rq_failed_reports_given r) \<le> reviewed))"

definition moderate_counters :: "requester_reputation \<Rightarrow> bool" where
  "moderate_counters r \<longleftrightarrow>
     unat (rq_tasks_submitted r) \<le> 2 ^ 52 \<and> unat (rq_tasks_cancelled r) \<le> 2 ^ 52
     \<and> unat (rq_task_disputes_initiated r) \<le> 2 ^ 52
     \<and> unat (rq_ratings_given r) + unat (rq_failed_reports_given r) \<le> 2 ^ 52"

lemma clamp_half: "fclamp (lit64 0) (lit64 1) (lit64 (1 / 2)) = lit64 (1 / 2)"
  by (rule fclamp_inside [OF lit_0 lit_1]) (rule lit_unit, simp_all)

lemma clamp_35: "fclamp (lit64 0) (lit64 100) (lit64 35) = lit64 35"
  by (rule fclamp_inside [of 0 _ 100])
    (simp_all add: in_range_weaken [OF lit_numeral])

lemma half_less_one: "flt (lit64 (1 / 2)) (lit64 1)"
  using flt_in_range [OF lit_half lit_1] by simp

lemma half_exceeded:
  assumes "unat n \<le> 2 ^ 52" "unat c \<le> 2 ^ 52" "4 \<le> n"
  shows "flt (lit64 (1 / 2)) (let d = n in if d = 0 then lit64 0 else div64 (as_f64 (c :: u64)) (as_f64 (d :: u64)))
    \<longleftrightarrow> unat n < 2 * unat c"
proof -
  have "n \<noteq> 0" using assms(3) by auto
  then show ?thesis using half_less_ratio [OF assms(2,1)] by (simp add: Let_def)
qed

lemma word_4_le: "4 \<le> (n :: u64) \<longleftrightarrow> 4 \<le> unat n"
  by (simp add: word_le_nat_alt)

lemma default_policy:
  assumes "moderate_counters r"
  shows "allows_auto_match M r matching_params_default \<longleftrightarrow> default_gates M r"
proof -
  let ?n = "third_party_tasks_submitted r" and ?v = "reviewed_outcomes r"
  have n: "unat ?n \<le> 2 ^ 52" and v: "unat ?v \<le> 2 ^ 52"
    using assms by (auto simp: moderate_counters_def third_party_tasks_submitted_def
        reviewed_outcomes_def unat_saturating_sub unat_saturating_add)
  have c: "4 \<le> ?n \<Longrightarrow> flt (lit64 (1 / 2)) (cancellation_rate r) \<longleftrightarrow> unat ?n < 2 * unat (rq_tasks_cancelled r)"
    and d: "4 \<le> ?n \<Longrightarrow> flt (lit64 (1 / 2)) (dispute_rate r) \<longleftrightarrow> unat ?n < 2 * unat (rq_task_disputes_initiated r)"
    and f: "4 \<le> ?v \<Longrightarrow> flt (lit64 (1 / 2)) (failed_report_rate r) \<longleftrightarrow> unat ?v < 2 * unat (rq_failed_reports_given r)"
    unfolding cancellation_rate_def dispute_rate_def failed_report_rate_def
    by (rule half_exceeded; use assms n v in \<open>simp add: moderate_counters_def\<close>)+
  have "allows_auto_match M r matching_params_default \<longleftrightarrow>
      \<not> rq_auto_match_bonded_amount r < 5000000
      \<and> \<not> (4 \<le> ?n \<and> flt (trust_score M r) (lit64 35))
      \<and> \<not> (4 \<le> rq_ratings_given r \<and> flt (rating_fairness r) (lit64 (1 / 2)))
      \<and> \<not> (4 \<le> ?n \<and> flt (lit64 (1 / 2)) (cancellation_rate r))
      \<and> \<not> (4 \<le> ?n \<and> flt (lit64 (1 / 2)) (dispute_rate r))
      \<and> \<not> (4 \<le> ?v \<and> flt (lit64 (1 / 2)) (failed_report_rate r))"
    by (simp add: allows_auto_match_def auto_match_policy_of_def Let_def matching_params_default_def
        clamp_half clamp_35 half_less_one economic_backing_def)
  also have "\<dots> \<longleftrightarrow> default_gates M r"
  proof -
    have bond: "rq_auto_match_bonded_amount r < 5000000 \<longleftrightarrow> \<not> 5000000 \<le> unat (rq_auto_match_bonded_amount r)"
      by (simp add: word_less_nat_alt not_le)
    have lt: "x < 4 \<longleftrightarrow> \<not> 4 \<le> x" and le: "2 * y \<le> x \<longleftrightarrow> \<not> x < 2 * y" for x y :: nat by auto
    show ?thesis using c d f unfolding default_gates_def Let_def word_4_le bond lt le by blast
  qed
  finally show ?thesis .
qed

subsection \<open>Properties\<close>

text \<open>(C35) The score of an agent never leaves the interval from 0 to 100 and is never a NaN,
  whatever sequence of completions, failures and ratings is recorded from a new agent, at any
  fee and with any rating that is a number (every validated payload carries one); decay keeps
  it there, and the count of resolved tasks never goes back.\<close>

theorem agent_score_bounded:
  assumes "math_ok M"
    and "list_all (\<lambda>op. case op of RepRating q fee t \<Rightarrow> q \<noteq> NaN \<and> wf_float q | _ \<Rightarrow> True) (ops @ ops')"
  shows "in_range 0 100 (rd_score (foldl reputation_step reputation_default ops))
    \<and> in_range 0 100 (effective_score M (foldl reputation_step reputation_default ops) now)
    \<and> unat (resolved_task_count (foldl reputation_step reputation_default ops))
        \<le> unat (resolved_task_count (foldl reputation_step reputation_default (ops @ ops')))
    \<and> (validate_reputation_update d = Ok () \<longrightarrow>
         real_rating (RepRating (f64_from_bits (ru_quality_score d)) fee t))"
proof -
  have "(\<lambda>op. case op of RepRating q fee t \<Rightarrow> q \<noteq> NaN \<and> wf_float q | _ \<Rightarrow> True) = real_rating"
    by (rule ext) (simp split: reputation_op.splits)
  with assms(2) have "score_in_bounds (foldl reputation_step reputation_default ops)"
    by (intro reputation.guarded_run) simp_all
  then show ?thesis
    using effective_score_bounds [OF assms(1)] exposure.run_mono validated_quality [of d]
    by (auto simp: score_in_bounds_def dest: in_range_not_special(1) wf_in_range)
qed

definition demo_math :: math_fns where
  "demo_math = \<lparr>m_ln = (\<lambda>_. Num False 1), m_powf = (\<lambda>_ _. Num False (1 / 2))\<rparr>"

lemma demo_math_ok: "math_ok demo_math"
  by (simp add: math_ok_def demo_math_def in_range_def)

theorem agent_score_bounded_witness:
  "in_range 0 100 (rd_score (foldl reputation_step reputation_default
     [RepCompletion 5000000 10, RepRating (lit64 2) 5000000 11, RepFailure 7 12]))"
  using agent_score_bounded [OF demo_math_ok, of "[RepCompletion 5000000 10, RepRating (lit64 2) 5000000 11, RepFailure 7 12]" "[]"]
    in_range_not_special(1) [OF lit_numeral [of "num.Bit0 num.One"]] wf_in_range [OF lit_numeral [of "num.Bit0 num.One"]]
  by simp

text \<open>A requester's derived scores stay in their documented ranges: after any sequence of
  recorded events with ratings that are numbers, the fairness score lies between 0 and 1, and
  the trust score between 0 and 100 as long as no more tasks were fulfilled or cancelled than
  were submitted to third parties.\<close>

theorem requester_scores_bounded:
  fixes ops
  defines "r \<equiv> foldl requester_step requester_default ops"
  assumes "math_ok M" "list_all real_requester_rating ops"
    and "unat (rq_tasks_fulfilled r) \<le> unat (third_party_tasks_submitted r)"
    and "unat (rq_tasks_cancelled r) \<le> unat (third_party_tasks_submitted r)"
  shows "in_range 0 1 (rating_fairness r) \<and> in_range 0 100 (trust_score M r)"
proof -
  have "ratings_consistent requester_default"
    using in_range_not_special(1) [OF lit_0] wf_in_range [OF lit_0]
    by (simp add: ratings_consistent_def requester_default_def)
  then have "ratings_consistent r" unfolding r_def by (rule requester.guarded_run [OF _ assms(3)])
  with rating_fairness_range trust_score_range [OF assms(2) _ assms(4,5)] show ?thesis by simp
qed

theorem requester_scores_bounded_witness:
  "in_range 0 100 (trust_score demo_math (foldl requester_step requester_default
     [RqSubmission 5 1, RqSubmission 5 2, RqFulfillment 5 3, RqRating (lit64 1) 4, RqCancellation 5]))"
  using requester_scores_bounded [OF demo_math_ok,
      of "[RqSubmission 5 1, RqSubmission 5 2, RqFulfillment 5 3, RqRating (lit64 1) 4, RqCancellation 5]"]
    in_range_not_special(1) [OF lit_1] wf_in_range [OF lit_1]
  by (simp add: requester_default_def record_submission_def record_fulfillment_def
      record_rating_given_def record_cancellation_def third_party_tasks_submitted_def
      saturating_add_def saturating_sub_def Let_def)

text \<open>(C36) Under the default protocol parameters the floating-point gate of automatic matching
  decides an integer condition: the bond covers the minimum; and from four submissions,
  ratings or reviewed outcomes on, at most half of the submissions were cancelled, at most
  half disputed, at most half of the outcomes reported as failed, and trust and fairness
  reach their minimum. It holds for counters up to \<open>2 ^ 52\<close>.\<close>

theorem auto_match_gate_exact:
  assumes "moderate_counters r"
  shows "allows_auto_match M r matching_params_default \<longleftrightarrow>
    (let n = unat (third_party_tasks_submitted r); reviewed = unat (reviewed_outcomes r) in
      5000000 \<le> unat (rq_auto_match_bonded_amount r)
      \<and> (n < 4 \<or> \<not> flt (trust_score M r) (lit64 35) \<and> 2 * unat (rq_tasks_cancelled r) \<le> n
           \<and> 2 * unat (rq_task_disputes_initiated r) \<le> n)
      \<and> (unat (rq_ratings_given r) < 4 \<or> \<not> flt (rating_fairness r) (lit64 (1 / 2)))
      \<and> (reviewed < 4 \<or> 2 * unat (rq_failed_reports_given r) \<le> reviewed))"
  using default_policy [OF assms] unfolding default_gates_def .

theorem auto_match_gate_exact_witness:
  "allows_auto_match demo_math (requester_default\<lparr>rq_auto_match_bonded_amount := 5000000\<rparr>) matching_params_default
   \<and> \<not> allows_auto_match demo_math (requester_default\<lparr>rq_auto_match_bonded_amount := 5000000,
        rq_tasks_submitted := 5, rq_tasks_cancelled := 3\<rparr>) matching_params_default"
  using auto_match_gate_exact [of "requester_default\<lparr>rq_auto_match_bonded_amount := 5000000\<rparr>" demo_math]
    auto_match_gate_exact [of "requester_default\<lparr>rq_auto_match_bonded_amount := 5000000,
        rq_tasks_submitted := 5, rq_tasks_cancelled := 3\<rparr>" demo_math]
  by (simp add: moderate_counters_def requester_default_def third_party_tasks_submitted_def
      reviewed_outcomes_def saturating_add_def saturating_sub_def)

end
