(* ===== verification/Arbitrator.thy ===== *)
theory Arbitrator
  imports Agreement Reputation
begin

text \<open>
  Arbitrators (\<open>ArbitratorProfile\<close> of \<open>primitives/agreement.rs\<close>) and the score that ranks them, in
  IEEE arithmetic with the logarithm as a parameter. The lemmas bound the score.
\<close>

record arbitrator_profile =
  ap_address :: address
  ap_name :: rstr
  ap_description :: rstr
  ap_stake :: u64
  ap_fee_bps :: u16
  ap_specializations :: "rstr list"
  ap_active :: bool
  ap_disputes_resolved :: u64
  ap_rulings_upheld :: u64
  ap_disputes_missed :: u64
  ap_total_fees_earned :: u64
  ap_registered_at :: u64
  ap_last_active :: u64
  ap_storage_deposit :: u64

definition arbitrator_stake_score :: "u64 \<Rightarrow> float" where
  "arbitrator_stake_score stake = fmin (div64 (as_f64 stake) (lit64 10000000)) (lit64 30)"

definition log_score :: "math_fns \<Rightarrow> u64 \<Rightarrow> rat \<Rightarrow> rat \<Rightarrow> float" where
  "log_score M n factor cap = fmin (mul64 (m_ln M (add64 (as_f64 n) (lit64 1))) (lit64 factor)) (lit64 cap)"

definition upheld_rate :: "arbitrator_profile \<Rightarrow> float" where
  "upheld_rate a =
     (if 0 < ap_disputes_resolved a
      then div64 (as_f64 (ap_rulings_upheld a)) (as_f64 (ap_disputes_resolved a)) else lit64 (1 / 2))"

definition arbitrator_fee_score :: "u16 \<Rightarrow> float" where
  "arbitrator_fee_score fee_bps =
     mul64 (sub64 (lit64 1) (fmin (div64 (as_f64 fee_bps) (lit64 1000)) (lit64 1))) (lit64 15)"

definition selection_score :: "math_fns \<Rightarrow> arbitrator_profile \<Rightarrow> float" where
  "selection_score M a =
     (let stake_score = arbitrator_stake_score (ap_stake a);
          volume_score = log_score M (ap_disputes_resolved a) 10 25;
          upheld_score = mul64 (upheld_rate a) (lit64 30);
          fee_score = arbitrator_fee_score (ap_fee_bps a);
          missed_penalty = log_score M (ap_disputes_missed a) 8 20
      in fmax (sub64 (add64 (add64 (add64 stake_score volume_score) upheld_score) fee_score) missed_penalty)
           (lit64 0))"

subsection \<open>Bounds\<close>

lemma capped_range:
  assumes "in_range 0 b x" "(numeral n :: nat) \<le> 2 ^ 53"
  shows "in_range 0 (numeral n) (fmin x (lit64 (numeral n)))"
  using in_range_min [OF assms(1) lit_numeral [OF assms(2)]] by (auto intro: in_range_weaken)

lemma arbitrator_stake_score_range: "in_range 0 30 (arbitrator_stake_score stake)"
proof -
  have "in_range 0 (2 ^ 64) (div64 (as_f64 stake) (lit64 10000000))"
    by (rule f64.div_range [OF as_f64_range lit_numeral]) (auto simp: divide_le_eq intro: order_trans)
  then show ?thesis unfolding arbitrator_stake_score_def by (rule capped_range) simp
qed

lemma log_score_range:
  assumes "math_ok M" "(numeral k :: nat) \<le> 2 ^ 53" "representable F64 (64 * numeral k)"
    and "(numeral n :: nat) \<le> 2 ^ 53"
  shows "in_range 0 (numeral n) (log_score M c (numeral k) (numeral n))"
proof -
  have "representable F64 (2 ^ 65)" using representable_64_scaled [of 1 65] by simp
  then have "in_range 1 (2 ^ 65) (add64 (as_f64 c) (lit64 1))"
    by (intro f64.add_range [OF as_f64_range lit_1]) simp_all
  then have "in_range 0 64 (m_ln M (add64 (as_f64 c) (lit64 1)))" using assms(1) by (simp add: math_ok_def)
  then have "in_range (0 * numeral k) (64 * numeral k)
      (mul64 (m_ln M (add64 (as_f64 c) (lit64 1))) (lit64 (numeral k)))"
    by (rule f64.mul_nonneg_range [OF _ lit_numeral [OF assms(2)] _ assms(3)]) simp_all
  then have "in_range 0 (64 * numeral k) (mul64 (m_ln M (add64 (as_f64 c) (lit64 1))) (lit64 (numeral k)))"
    by simp
  then show ?thesis unfolding log_score_def using assms(4) by (rule capped_range)
qed

lemma upheld_rate_range:
  assumes "unat (ap_rulings_upheld a) \<le> unat (ap_disputes_resolved a)"
  shows "in_range 0 1 (upheld_rate a)"
  using assms ratio_range [of "ap_rulings_upheld a" "ap_disputes_resolved a"]
  by (auto simp: upheld_rate_def word_gt_0 lit_unit)

lemma arbitrator_fee_score_range: "in_range 0 15 (arbitrator_fee_score fee_bps)"
proof -
  have b: "unat fee_bps \<le> 65536" using unsigned_less [of fee_bps, where ?'a = nat] by simp
  then have "(of_nat (unat fee_bps) :: rat) \<le> 65536" by (metis of_nat_le_iff of_nat_numeral)
  then have "in_range 0 65536 (as_f64 fee_bps)"
    by (intro f64.of_u64_range) (simp_all del: of_nat_unat)
  then have "in_range 0 65536 (div64 (as_f64 fee_bps) (lit64 1000))"
    by (rule f64.div_range [OF _ lit_numeral]) (auto simp: divide_le_eq intro: order_trans)
  from in_range_min [OF this lit_1]
  have "in_range 0 1 (fmin (div64 (as_f64 fee_bps) (lit64 1000)) (lit64 1))"
    by (auto intro: in_range_weaken)
  then have "in_range 0 1 (sub64 (lit64 1) (fmin (div64 (as_f64 fee_bps) (lit64 1000)) (lit64 1)))"
    by (rule f64.sub_range [OF lit_1]) simp_all
  then show ?thesis unfolding arbitrator_fee_score_def by (rule scaled_share) simp
qed

text \<open>The documented range, as long as no more rulings are upheld than were made.\<close>

lemma selection_score_range:
  assumes "math_ok M" "unat (ap_rulings_upheld a) \<le> unat (ap_disputes_resolved a)"
  shows "in_range 0 100 (selection_score M a)"
proof -
  have upheld: "in_range 0 30 (mul64 (upheld_rate a) (lit64 30))"
    by (rule scaled_share [OF upheld_rate_range [OF assms(2)]]) simp
  have volume: "in_range 0 25 (log_score M (ap_disputes_resolved a) 10 25)"
    by (rule log_score_range [OF assms(1)]) simp_all
  have missed: "in_range 0 20 (log_score M (ap_disputes_missed a) 8 20)"
    by (rule log_score_range [OF assms(1)]) simp_all
  have "in_range 0 55 (add64 (arbitrator_stake_score (ap_stake a)) (log_score M (ap_disputes_resolved a) 10 25))"
    by (rule f64.add_range [OF arbitrator_stake_score_range volume]) simp_all
  then have "in_range 0 85 (add64 (add64 (arbitrator_stake_score (ap_stake a))
      (log_score M (ap_disputes_resolved a) 10 25)) (mul64 (upheld_rate a) (lit64 30)))"
    by (rule f64.add_range [OF _ upheld]) simp_all
  then have "in_range 0 100 (add64 (add64 (add64 (arbitrator_stake_score (ap_stake a))
      (log_score M (ap_disputes_resolved a) 10 25)) (mul64 (upheld_rate a) (lit64 30)))
      (arbitrator_fee_score (ap_fee_bps a)))"
    by (rule f64.add_range [OF _ arbitrator_fee_score_range]) simp_all
  then have "in_range (- 20) 100 (sub64 (add64 (add64 (add64 (arbitrator_stake_score (ap_stake a))
      (log_score M (ap_disputes_resolved a) 10 25)) (mul64 (upheld_rate a) (lit64 30)))
      (arbitrator_fee_score (ap_fee_bps a))) (log_score M (ap_disputes_missed a) 8 20))"
    by (rule f64.sub_range [OF _ missed]) simp_all
  from in_range_max [OF this lit_0] show ?thesis by (simp add: selection_score_def Let_def)
qed

text \<open>A stake of 10 ZIN scores one point, not thirty.\<close>

lemma stake_score_at_ten_zin: "in_range 1 1 (arbitrator_stake_score 10000000)"
proof -
  have "in_range 10000000 10000000 (as_f64 (10000000 :: u64))"
    by (rule f64.of_u64_range) simp_all
  then have "in_range 1 1 (div64 (as_f64 (10000000 :: u64)) (lit64 10000000))"
    by (rule f64.div_range [OF _ lit_numeral]) (auto simp: divide_le_eq le_divide_eq)
  from in_range_min [OF this lit_numeral [of "num.Bit0 (num.Bit1 (num.Bit1 (num.Bit1 num.One)))"]]
  show ?thesis by (simp add: arbitrator_stake_score_def)
qed

end
