(* ===== verification/Subscription.thy ===== *)
theory Subscription
  imports Crypto
begin

text \<open>
  Recurring tool subscriptions (\<open>ToolSubscriptionPlan\<close>, \<open>ToolSubscription\<close> in
  \<open>primitives/tool.rs\<close>): starting from a plan, consuming and restoring allowance, advancing
  billing periods against the subscriber's reserve, and terminal shutdown.

  Money is accounted in \<open>u64\<close> with saturating arithmetic. The lemmas show that the
  saturation is never reached where it would lose funds: what leaves the reserve is exactly
  what the provider is credited or the subscriber is refunded.
\<close>

subsection \<open>Data\<close>

datatype overage_policy = OverageDeny | OveragePayAsYouGo

datatype subscription_status = SubActive | SubPaused | SubPastDue | SubCancelRequested | SubCancelled

record subscription_plan =
  sp_plan_id :: hash256
  sp_tool_id :: hash256
  sp_provider :: address
  sp_name :: rstr
  sp_price_per_period :: u64
  sp_period_ms :: u64
  sp_included_calls :: u32
  sp_included_credits :: u64
  sp_overage_policy :: overage_policy
  sp_active :: bool
  sp_created_at :: u64
  sp_created_at_block :: u64
  sp_updated_at :: u64
  sp_storage_deposit :: u64

record subscription =
  su_subscription_id :: hash256
  su_plan_id :: hash256
  su_tool_id :: hash256
  su_subscriber :: address
  su_provider :: address
  su_price_per_period :: u64
  su_period_ms :: u64
  su_included_calls :: u32
  su_included_credits :: u64
  su_overage_policy :: overage_policy
  su_current_period_start :: u64
  su_current_period_end :: u64
  su_next_renewal_at :: u64
  su_remaining_calls :: u32
  su_remaining_credits :: u64
  su_compensating_calls :: u32
  su_compensating_credits :: u64
  su_reserved_balance :: u64
  su_status :: subscription_status
  su_auto_renew :: bool
  su_created_at :: u64
  su_created_at_block :: u64
  su_storage_deposit :: u64
  su_cancelled_at :: "u64 option"

record subscription_coverage =
  cv_covered_amount :: u64
  cv_uncovered_amount :: u64
  cv_used_call :: bool

record advance_outcome =
  ao_renewed_periods :: u32
  ao_provider_credit :: u64

record shutdown_outcome =
  so_reserve_refund :: u64
  so_compensation_refund :: u64

subsection \<open>Operations\<close>

definition start_or_restart_from_plan ::
  "subscription option \<Rightarrow> hash256 \<Rightarrow> subscription_plan \<Rightarrow> address \<Rightarrow> u64 \<Rightarrow> u64 \<Rightarrow> u64 \<Rightarrow> bool \<Rightarrow> u64
   \<Rightarrow> subscription" where
  "start_or_restart_from_plan reusable subscription_id plan subscriber now_ms current_block
     reserve_amount auto_renew additional_storage_deposit =
     (let (compensating_calls, compensating_credits, existing_storage_deposit) =
            (case reusable of
               Some s \<Rightarrow> (su_compensating_calls s, su_compensating_credits s, su_storage_deposit s)
             | None \<Rightarrow> (0, 0, 0))
      in \<lparr>su_subscription_id = subscription_id, su_plan_id = sp_plan_id plan,
          su_tool_id = sp_tool_id plan, su_subscriber = subscriber,
          su_provider = sp_provider plan, su_price_per_period = sp_price_per_period plan,
          su_period_ms = sp_period_ms plan, su_included_calls = sp_included_calls plan,
          su_included_credits = sp_included_credits plan,
          su_overage_policy = sp_overage_policy plan, su_current_period_start = now_ms,
          su_current_period_end = saturating_add now_ms (sp_period_ms plan),
          su_next_renewal_at = saturating_add now_ms (sp_period_ms plan),
          su_remaining_calls = sp_included_calls plan,
          su_remaining_credits = sp_included_credits plan,
          su_compensating_calls = compensating_calls,
          su_compensating_credits = compensating_credits,
          su_reserved_balance = reserve_amount, su_status = SubActive,
          su_auto_renew = auto_renew, su_created_at = now_ms, su_created_at_block = current_block,
          su_storage_deposit = saturating_add existing_storage_deposit additional_storage_deposit,
          su_cancelled_at = None\<rparr>)"

definition can_accept_reserve_top_up :: "subscription \<Rightarrow> bool" where
  "can_accept_reserve_top_up s \<longleftrightarrow> su_status s \<in> {SubActive, SubPaused, SubPastDue}"

definition is_usable_at :: "subscription \<Rightarrow> u64 \<Rightarrow> bool" where
  "is_usable_at s now_ms \<longleftrightarrow>
     now_ms < su_current_period_end s \<and> su_status s \<in> {SubActive, SubCancelRequested}"

definition has_compensating_entitlement :: "subscription \<Rightarrow> bool" where
  "has_compensating_entitlement s \<longleftrightarrow> 0 < su_compensating_calls s \<or> 0 < su_compensating_credits s"

definition compensating_refund_value :: "subscription \<Rightarrow> u64 \<Rightarrow> u64" where
  "compensating_refund_value s call_value =
     saturating_add (su_compensating_credits s)
       (saturating_mul call_value (ucast (su_compensating_calls s)))"

definition requires_subscription_compatible_tool :: "subscription \<Rightarrow> bool" where
  "requires_subscription_compatible_tool s \<longleftrightarrow>
     su_status s \<noteq> SubCancelled \<or> 0 < su_reserved_balance s \<or> has_compensating_entitlement s"

definition is_invoke_usable_at :: "subscription \<Rightarrow> u64 \<Rightarrow> bool" where
  "is_invoke_usable_at s now_ms \<longleftrightarrow>
     is_usable_at s now_ms \<or> has_compensating_entitlement s \<and> su_status s \<noteq> SubPaused"

definition consume_allowance :: "subscription \<Rightarrow> u64 \<Rightarrow> subscription \<times> subscription_coverage" where
  "consume_allowance s tool_price =
     (if 0 < su_compensating_calls s then
        (s\<lparr>su_compensating_calls := su_compensating_calls s - 1\<rparr>,
         \<lparr>cv_covered_amount = tool_price, cv_uncovered_amount = 0, cv_used_call = True\<rparr>)
      else if 0 < su_remaining_calls s then
        (s\<lparr>su_remaining_calls := su_remaining_calls s - 1\<rparr>,
         \<lparr>cv_covered_amount = tool_price, cv_uncovered_amount = 0, cv_used_call = True\<rparr>)
      else
        let covered_from_compensation = min (su_compensating_credits s) tool_price;
            uncovered_after_compensation = saturating_sub tool_price covered_from_compensation;
            covered_from_period = min (su_remaining_credits s) uncovered_after_compensation;
            covered_amount = saturating_add covered_from_compensation covered_from_period
        in (s\<lparr>su_compensating_credits := saturating_sub (su_compensating_credits s) covered_from_compensation,
              su_remaining_credits := saturating_sub (su_remaining_credits s) covered_from_period\<rparr>,
            \<lparr>cv_covered_amount = covered_amount,
             cv_uncovered_amount = saturating_sub tool_price covered_amount, cv_used_call = False\<rparr>))"

definition restore_allowance_as_compensation :: "subscription \<Rightarrow> u64 \<Rightarrow> bool \<Rightarrow> subscription" where
  "restore_allowance_as_compensation s covered_amount used_call =
     (if used_call then s\<lparr>su_compensating_calls := saturating_add (su_compensating_calls s) 1\<rparr>
      else if 0 < covered_amount
      then s\<lparr>su_compensating_credits := saturating_add (su_compensating_credits s) covered_amount\<rparr>
      else s)"

definition terminate_for_unrecoverable_service_loss ::
  "subscription \<Rightarrow> u64 \<Rightarrow> u64 \<Rightarrow> subscription \<times> shutdown_outcome" where
  "terminate_for_unrecoverable_service_loss s now_ms call_value =
     (s\<lparr>su_reserved_balance := 0, su_compensating_calls := 0, su_compensating_credits := 0,
        su_auto_renew := False, su_status := SubCancelled,
        su_cancelled_at := (case su_cancelled_at s of None \<Rightarrow> Some now_ms | Some t \<Rightarrow> Some t)\<rparr>,
      \<lparr>so_reserve_refund = su_reserved_balance s,
       so_compensation_refund = compensating_refund_value s call_value\<rparr>)"

definition no_advance :: advance_outcome where
  "no_advance = \<lparr>ao_renewed_periods = 0, ao_provider_credit = 0\<rparr>"

text \<open>\<open>checked_div\<close> and the number of periods that have fallen due.\<close>

definition periods_due :: "subscription \<Rightarrow> u64 \<Rightarrow> u64" where
  "periods_due s now_ms =
     saturating_add
       (if su_period_ms s = 0 then 0
        else saturating_sub now_ms (su_current_period_end s) div su_period_ms s) 1"

definition affordable_periods :: "subscription \<Rightarrow> u64 \<Rightarrow> u64" where
  "affordable_periods s due =
     (if su_price_per_period s = 0 then due
      else min due (su_reserved_balance s div su_price_per_period s))"

text \<open>The tail of \<open>advance_periods\<close>, once a renewal is allowed.\<close>

definition renew_periods :: "subscription \<Rightarrow> u64 \<Rightarrow> subscription \<times> advance_outcome" where
  "renew_periods s now_ms =
     (let due = periods_due s now_ms;
          affordable = affordable_periods s due
      in if affordable = 0 then
           (s\<lparr>su_status := SubPastDue, su_remaining_calls := 0, su_remaining_credits := 0\<rparr>, no_advance)
         else
           let cost = (if 0 < su_price_per_period s
                       then saturating_mul (su_price_per_period s) affordable else 0);
               period_end = saturating_add (su_current_period_end s)
                              (saturating_mul (su_period_ms s) affordable);
               s1 = s\<lparr>su_reserved_balance := saturating_sub (su_reserved_balance s) cost,
                      su_current_period_end := period_end,
                      su_current_period_start := saturating_sub period_end (su_period_ms s),
                      su_next_renewal_at := period_end\<rparr>;
               outcome = \<lparr>ao_renewed_periods = ucast (min affordable 4294967295),
                          ao_provider_credit = cost\<rparr>
           in if affordable < due
              then (s1\<lparr>su_status := SubPastDue, su_remaining_calls := 0, su_remaining_credits := 0\<rparr>, outcome)
              else (s1\<lparr>su_remaining_calls := su_included_calls s,
                       su_remaining_credits := su_included_credits s, su_status := SubActive\<rparr>, outcome))"

definition advance_periods :: "subscription \<Rightarrow> u64 \<Rightarrow> bool \<Rightarrow> subscription \<times> advance_outcome" where
  "advance_periods s now_ms service_available =
     (if su_status s = SubCancelRequested \<and> su_current_period_end s \<le> now_ms
      then (s\<lparr>su_status := SubCancelled\<rparr>, no_advance)
      else if now_ms < su_current_period_end s then (s, no_advance)
      else if \<not> su_auto_renew s \<or> su_status s \<in> {SubCancelRequested, SubCancelled}
      then (s\<lparr>su_status := SubCancelled\<rparr>, no_advance)
      else if \<not> service_available then (s\<lparr>su_status := SubPaused\<rparr>, no_advance)
      else
        let s' = (if su_status s = SubPaused
                  then s\<lparr>su_current_period_start := now_ms, su_current_period_end := now_ms,
                         su_next_renewal_at := now_ms\<rparr>
                  else s)
        in renew_periods s' now_ms)"

subsection \<open>Renewal arithmetic\<close>

lemma unat_div_u64: "unat ((a :: u64) div b) = unat a div unat b"
  by (rule unat_div)

lemma affordable_cost:
  assumes "su_price_per_period s \<noteq> 0"
  shows "unat (su_price_per_period s) * unat (affordable_periods s due) \<le> unat (su_reserved_balance s)"
proof -
  have "unat (affordable_periods s due) \<le> unat (su_reserved_balance s) div unat (su_price_per_period s)"
    using assms by (simp add: affordable_periods_def word_nat_simps unat_div_u64)
  then have "unat (su_price_per_period s) * unat (affordable_periods s due)
      \<le> unat (su_price_per_period s) * (unat (su_reserved_balance s) div unat (su_price_per_period s))"
    by (rule mult_le_mono2)
  also have "\<dots> \<le> unat (su_reserved_balance s)" by simp
  finally show ?thesis .
qed

definition renewal_cost :: "subscription \<Rightarrow> u64 \<Rightarrow> nat" where
  "renewal_cost s due = unat (su_price_per_period s) * unat (affordable_periods s due)"

lemma renewal_cost_le:
  "su_price_per_period s \<noteq> 0 \<Longrightarrow> renewal_cost s due \<le> unat (su_reserved_balance s)"
  using affordable_cost [of s due] by (simp add: renewal_cost_def)

lemma unat_cost:
  "unat (if 0 < su_price_per_period s
         then saturating_mul (su_price_per_period s) (affordable_periods s due) else 0)
   = renewal_cost s due"
proof (cases "su_price_per_period s = 0")
  case True
  then show ?thesis by (simp add: renewal_cost_def)
next
  case False
  have "renewal_cost s due < 2 ^ 64"
    using renewal_cost_le [OF False, of due] unat_u64_bound(1) [of "su_reserved_balance s"] by simp
  with False show ?thesis
    by (simp add: renewal_cost_def word_gt_0 word_nat_simps)
qed

lemma renew_periods_reserve:
  "unat (su_reserved_balance (fst (renew_periods s now)))
     + unat (ao_provider_credit (snd (renew_periods s now))) = unat (su_reserved_balance s)"
proof -
  have "renewal_cost s due \<le> unat (su_reserved_balance s)" for due
    by (cases "su_price_per_period s = 0") (simp_all add: renewal_cost_le, simp add: renewal_cost_def)
  then show ?thesis
    unfolding renew_periods_def Let_def
    by (simp add: no_advance_def unat_saturating_sub unat_cost)
qed

lemma advance_periods_reserve:
  "unat (su_reserved_balance (fst (advance_periods s now avail)))
     + unat (ao_provider_credit (snd (advance_periods s now avail))) = unat (su_reserved_balance s)"
  using renew_periods_reserve [of s now]
    renew_periods_reserve [of "s\<lparr>su_current_period_start := now, su_current_period_end := now,
      su_next_renewal_at := now\<rparr>" now]
  by (simp add: advance_periods_def Let_def no_advance_def)

lemma renew_periods_frame:
  "su_price_per_period (fst (renew_periods s now)) = su_price_per_period s"
  "su_period_ms (fst (renew_periods s now)) = su_period_ms s"
  "su_auto_renew (fst (renew_periods s now)) = su_auto_renew s"
  "su_status (fst (renew_periods s now)) \<in> {SubActive, SubPastDue}"
  by (simp_all add: renew_periods_def Let_def)

lemma unat_periods_due:
  "su_period_ms s \<noteq> 0 \<Longrightarrow>
   unat (periods_due s now)
     = min ((unat now - unat (su_current_period_end s)) div unat (su_period_ms s) + 1) (2 ^ 64 - 1)"
  by (simp add: periods_due_def word_nat_simps unat_div_u64)

lemma periods_due_pos: "periods_due s now \<noteq> 0"
proof -
  have "0 < unat (periods_due s now)" by (simp add: periods_due_def word_nat_simps)
  then show ?thesis by auto
qed

text \<open>A full renewal reaches past the present unless the clock is at its end.\<close>

lemma renewal_reaches_now:
  assumes "su_period_ms s \<noteq> 0" "su_current_period_end s \<le> now" "now < - 1"
  shows "now < saturating_add (su_current_period_end s)
                 (saturating_mul (su_period_ms s) (periods_due s now))"
proof -
  let ?e = "unat (su_current_period_end s)" and ?p = "unat (su_period_ms s)"
    and ?n = "unat now" and ?d = "unat (periods_due s now)" and ?M = "(2 :: nat) ^ 64 - 1"
  have p: "0 < ?p" using assms(1) by (simp add: unat_gt_0)
  have n: "?n < ?M" using assms(3) by (simp add: word_less_nat_alt unat_max_word)
  have e: "?e \<le> ?n" using assms(2) by (simp add: word_le_nat_alt)
  have "?n < min (?e + min (?p * ?d) ?M) ?M"
  proof (cases "(?n - ?e) div ?p + 1 \<le> ?M")
    case True
    then have d: "?d = (?n - ?e) div ?p + 1"
      using unat_periods_due [OF assms(1), of now] by (simp add: min_def)
    have "?n - ?e < ?p * ((?n - ?e) div ?p + 1)"
      using p by (metis add.commute dividend_less_div_times mult.commute mult_Suc_right plus_1_eq_Suc)
    then have "?n < ?e + ?p * ?d" using e by (simp add: d)
    with n show ?thesis by (auto simp: min_def)
  next
    case False
    then have d: "?d = ?M"
      using unat_periods_due [OF assms(1), of now] by (simp add: min_def)
    have "?M \<le> ?p * ?d" using p unfolding d by simp
    with n show ?thesis by (auto simp: min_def)
  qed
  then show ?thesis by (simp add: word_less_nat_alt word_nat_simps)
qed

lemma renew_periods_active:
  assumes "su_status (fst (renew_periods s now)) = SubActive"
  shows "su_current_period_end (fst (renew_periods s now))
           = saturating_add (su_current_period_end s) (saturating_mul (su_period_ms s) (periods_due s now))"
    and "su_remaining_calls (fst (renew_periods s now)) = su_included_calls s"
    and "su_remaining_credits (fst (renew_periods s now)) = su_included_credits s"
proof -
  have "affordable_periods s (periods_due s now) \<le> periods_due s now"
    by (simp add: affordable_periods_def)
  moreover from assms have "\<not> affordable_periods s (periods_due s now) < periods_due s now"
    by (auto simp: renew_periods_def Let_def split: if_splits)
  ultimately have "affordable_periods s (periods_due s now) = periods_due s now" by simp
  with periods_due_pos [of s now] show
    "su_current_period_end (fst (renew_periods s now))
       = saturating_add (su_current_period_end s) (saturating_mul (su_period_ms s) (periods_due s now))"
    "su_remaining_calls (fst (renew_periods s now)) = su_included_calls s"
    "su_remaining_credits (fst (renew_periods s now)) = su_included_credits s"
    by (simp_all add: renew_periods_def Let_def)
qed

lemma renew_periods_past_due:
  assumes "su_status (fst (renew_periods s now)) = SubPastDue"
  shows "unat (su_reserved_balance (fst (renew_periods s now))) < unat (su_price_per_period s)"
proof -
  let ?due = "periods_due s now" and ?price = "unat (su_price_per_period s)"
    and ?r = "unat (su_reserved_balance s)"
  let ?a = "affordable_periods s ?due"
  have short: "?a = 0 \<or> ?a < ?due"
    using assms by (auto simp: renew_periods_def Let_def split: if_splits)
  have price: "su_price_per_period s \<noteq> 0"
    using short periods_due_pos [of s now] by (auto simp: affordable_periods_def)
  have "?a < ?due" using short periods_due_pos [of s now] by (auto simp: word_gt_0)
  with price have a: "unat ?a = ?r div ?price"
    by (auto simp: affordable_periods_def min_def unat_div_u64 split: if_splits)
  have credit: "unat (ao_provider_credit (snd (renew_periods s now))) = ?price * (?r div ?price)"
  proof (cases "?a = 0")
    case True
    then show ?thesis using a by (simp add: renew_periods_def Let_def no_advance_def)
  next
    case False
    then show ?thesis
      using unat_cost [of s ?due] a by (simp add: renew_periods_def Let_def renewal_cost_def)
  qed
  with renew_periods_reserve [of s now]
  have "unat (su_reserved_balance (fst (renew_periods s now))) = ?r - ?price * (?r div ?price)" by linarith
  also have "\<dots> = ?r mod ?price" by (simp add: minus_mult_div_eq_mod)
  also have "\<dots> < ?price" using price by (simp add: unat_gt_0)
  finally show ?thesis .
qed

lemma renew_broke:
  assumes "unat (su_reserved_balance s) < unat (su_price_per_period s)"
  shows "snd (renew_periods s now) = no_advance"
proof -
  have "su_reserved_balance s div su_price_per_period s = 0"
    using assms by (simp add: word_unat_eq_iff unat_div_u64)
  moreover have "su_price_per_period s \<noteq> 0" using assms by auto
  ultimately have "affordable_periods s due = 0" for due
    by (simp add: affordable_periods_def min_absorb2)
  then show ?thesis by (simp add: renew_periods_def Let_def)
qed

lemma renew_affordable_active:
  "su_status (fst (renew_periods s now)) = SubActive \<Longrightarrow> su_period_ms s \<noteq> 0 \<Longrightarrow>
   su_current_period_end s \<le> now \<Longrightarrow> now < - 1 \<Longrightarrow>
   now < su_current_period_end (fst (renew_periods s now))"
  by (simp add: renew_periods_active renewal_reaches_now)

text \<open>The three ways \<open>advance_periods\<close> can go.\<close>

definition resumed :: "subscription \<Rightarrow> u64 \<Rightarrow> subscription" where
  "resumed s now = (if su_status s = SubPaused
     then s\<lparr>su_current_period_start := now, su_current_period_end := now, su_next_renewal_at := now\<rparr>
     else s)"

definition renewal_allowed :: "subscription \<Rightarrow> u64 \<Rightarrow> bool \<Rightarrow> bool" where
  "renewal_allowed s now avail \<longleftrightarrow> su_current_period_end s \<le> now \<and> su_auto_renew s
     \<and> su_status s \<notin> {SubCancelRequested, SubCancelled} \<and> avail"

lemma advance_renews:
  "renewal_allowed s now avail \<Longrightarrow> advance_periods s now avail = renew_periods (resumed s now) now"
  by (auto simp: advance_periods_def renewal_allowed_def resumed_def Let_def)

lemma advance_early:
  "now < su_current_period_end s \<Longrightarrow> advance_periods s now avail = (s, no_advance)"
  by (simp add: advance_periods_def not_le [symmetric])

lemma advance_stops:
  assumes "\<not> renewal_allowed s now avail" "su_current_period_end s \<le> now"
  shows "advance_periods s now avail
     = (s\<lparr>su_status := su_status (fst (advance_periods s now avail))\<rparr>, no_advance)
   \<and> su_status (fst (advance_periods s now avail)) \<in> {SubPaused, SubCancelled}
   \<and> (su_status (fst (advance_periods s now avail)) = SubPaused \<longrightarrow> \<not> avail)"
  using assms by (auto simp: advance_periods_def renewal_allowed_def)

lemma resumed_simps [simp]:
  "su_period_ms (resumed s now) = su_period_ms s"
  "su_price_per_period (resumed s now) = su_price_per_period s"
  "su_included_calls (resumed s now) = su_included_calls s"
  "su_included_credits (resumed s now) = su_included_credits s"
  "su_auto_renew (resumed s now) = su_auto_renew s"
  "su_current_period_end s \<le> now \<Longrightarrow> su_current_period_end (resumed s now) \<le> now"
  by (simp_all add: resumed_def)

lemma advance_not_allowed_credit:
  "\<not> renewal_allowed s now avail \<Longrightarrow> snd (advance_periods s now avail) = no_advance"
  using advance_early [of now s avail] advance_stops [of s now avail] by (metis not_less snd_conv)

subsection \<open>Allowance\<close>

lemma consume_call:
  assumes "0 < su_compensating_calls s \<or> 0 < su_remaining_calls s"
  shows "snd (consume_allowance s price)
           = \<lparr>cv_covered_amount = price, cv_uncovered_amount = 0, cv_used_call = True\<rparr>"
  using assms by (auto simp: consume_allowance_def)

lemma consume_credits:
  fixes s price
  assumes "su_compensating_calls s = 0" "su_remaining_calls s = 0"
  defines "a \<equiv> unat (su_compensating_credits s)" and "b \<equiv> unat (su_remaining_credits s)"
    and "p \<equiv> unat price"
  shows "unat (cv_covered_amount (snd (consume_allowance s price))) = min (a + b) p"
    and "unat (cv_uncovered_amount (snd (consume_allowance s price))) = p - min (a + b) p"
    and "unat (su_compensating_credits (fst (consume_allowance s price))) = a - p"
    and "unat (su_remaining_credits (fst (consume_allowance s price))) = b - (p - a)"
    and "\<not> cv_used_call (snd (consume_allowance s price))"
    and "su_compensating_calls (fst (consume_allowance s price)) = 0"
    and "su_remaining_calls (fst (consume_allowance s price)) = 0"
proof -
  have "p \<le> 18446744073709551615" by (simp add: p_def unat_u64_bound)
  then show "unat (cv_covered_amount (snd (consume_allowance s price))) = min (a + b) p"
    "unat (cv_uncovered_amount (snd (consume_allowance s price))) = p - min (a + b) p"
    using assms by (simp_all add: consume_allowance_def Let_def word_nat_simps)
  show "unat (su_compensating_credits (fst (consume_allowance s price))) = a - p"
    "unat (su_remaining_credits (fst (consume_allowance s price))) = b - (p - a)"
    using assms by (simp_all add: consume_allowance_def Let_def word_nat_simps)
qed (use assms in \<open>simp_all add: consume_allowance_def Let_def\<close>)

lemma unat_u32_minus_one: "0 < x \<Longrightarrow> unat (x - 1 :: u32) + 1 = unat x"
  by (simp add: unat_minus_one word_gt_0 unat_gt_0)

subsection \<open>Sequences of operations on one subscription\<close>

record subscription_ledger =
  sl_subscription :: subscription
  sl_credited :: nat
  sl_refunded :: nat

datatype subscription_op =
    AdvancePeriods u64 bool | ConsumeAllowance u64 | RestoreAllowance u64 bool
  | TerminateForServiceLoss u64 u64

fun subscription_step :: "subscription_ledger \<Rightarrow> subscription_op \<Rightarrow> subscription_ledger" where
  "subscription_step l (AdvancePeriods now avail) =
     (let (s, outcome) = advance_periods (sl_subscription l) now avail
      in l\<lparr>sl_subscription := s, sl_credited := sl_credited l + unat (ao_provider_credit outcome)\<rparr>)"
| "subscription_step l (ConsumeAllowance price) =
     l\<lparr>sl_subscription := fst (consume_allowance (sl_subscription l) price)\<rparr>"
| "subscription_step l (RestoreAllowance covered used_call) =
     l\<lparr>sl_subscription := restore_allowance_as_compensation (sl_subscription l) covered used_call\<rparr>"
| "subscription_step l (TerminateForServiceLoss now call_value) =
     (let (s, outcome) = terminate_for_unrecoverable_service_loss (sl_subscription l) now call_value
      in l\<lparr>sl_subscription := s, sl_refunded := sl_refunded l + unat (so_reserve_refund outcome)\<rparr>)"

definition ledger_balanced :: "nat \<Rightarrow> subscription_ledger \<Rightarrow> bool" where
  "ledger_balanced funded l \<longleftrightarrow>
     unat (su_reserved_balance (sl_subscription l)) + sl_credited l + sl_refunded l = funded"

lemma consume_allowance_reserve [simp]:
  "su_reserved_balance (fst (consume_allowance s p)) = su_reserved_balance s"
  by (simp add: consume_allowance_def Let_def)

lemma restore_allowance_reserve [simp]:
  "su_reserved_balance (restore_allowance_as_compensation s c u) = su_reserved_balance s"
  by (simp add: restore_allowance_as_compensation_def)

interpretation ledger: stateful subscription_step "ledger_balanced funded" for funded
proof
  fix l op
  assume "ledger_balanced funded l"
  then show "ledger_balanced funded (subscription_step l op)"
    using advance_periods_reserve [of "sl_subscription l"]
    by (cases op)
      (auto simp: ledger_balanced_def case_prod_unfold Let_def
        terminate_for_unrecoverable_service_loss_def add.assoc add.left_commute)
qed

subsection \<open>Properties\<close>

definition demo_subscription :: subscription where
  "demo_subscription =
     \<lparr>su_subscription_id = hash_zero, su_plan_id = hash_zero, su_tool_id = hash_zero,
      su_subscriber = addr_zero, su_provider = treasury, su_price_per_period = 10,
      su_period_ms = 100, su_included_calls = 3, su_included_credits = 50,
      su_overage_policy = OverageDeny, su_current_period_start = 0, su_current_period_end = 100,
      su_next_renewal_at = 100, su_remaining_calls = 0, su_remaining_credits = 5,
      su_compensating_calls = 0, su_compensating_credits = 2, su_reserved_balance = 25,
      su_status = SubActive, su_auto_renew = True, su_created_at = 0, su_created_at_block = 0,
      su_storage_deposit = 0, su_cancelled_at = None\<rparr>"

text \<open>(C29) Billing conserves money. Advancing the billing clock moves exactly the provider's
  credit out of the reserve; nothing is billed before the period ends, nor when the
  subscription ends up paused or cancelled; an active result grants the full allowance and a
  period that contains the present; a past-due result cannot afford another period.\<close>

theorem advance_periods_correct:
  assumes "su_period_ms s \<noteq> 0" "now < - 1"
    and step: "advance_periods s now avail = (s', outcome)"
  shows "unat (su_reserved_balance s') + unat (ao_provider_credit outcome) = unat (su_reserved_balance s)
    \<and> (now < su_current_period_end s \<longrightarrow> s' = s \<and> outcome = no_advance)
    \<and> (su_status s' \<in> {SubPaused, SubCancelled} \<longrightarrow> outcome = no_advance)
    \<and> (su_current_period_end s \<le> now \<and> su_status s' = SubActive \<longrightarrow>
         now < su_current_period_end s' \<and> su_remaining_calls s' = su_included_calls s
         \<and> su_remaining_credits s' = su_included_credits s)
    \<and> (su_current_period_end s \<le> now \<and> su_status s' = SubPastDue \<longrightarrow>
         unat (su_reserved_balance s') < unat (su_price_per_period s))"
proof (cases "renewal_allowed s now avail")
  case True
  let ?t = "resumed s now"
  have ren: "renew_periods ?t now = (s', outcome)" using step True by (simp add: advance_renews)
  have t: "su_current_period_end s \<le> now" using True by (simp add: renewal_allowed_def)
  have "su_status s' \<in> {SubActive, SubPastDue}"
    using renew_periods_frame(4) [of ?t now] ren by simp
  then show ?thesis
    using renew_affordable_active [of ?t now] renew_periods_past_due [of ?t now]
      renew_periods_active [of ?t now] advance_periods_reserve [of s now avail] ren step t assms
    by auto
next
  case False
  then show ?thesis
    using step advance_early [of now s avail] advance_stops [of s now avail]
      advance_periods_reserve [of s now avail]
    by (cases "now < su_current_period_end s") (auto simp: not_less)
qed

theorem advance_periods_correct_witness:
  "advance_periods demo_subscription 350 True
     = (fst (advance_periods demo_subscription 350 True), \<lparr>ao_renewed_periods = 2, ao_provider_credit = 20\<rparr>)
   \<and> unat (su_reserved_balance (fst (advance_periods demo_subscription 350 True))) + 20 = 25"
proof -
  have step: "advance_periods demo_subscription 350 True
     = (fst (advance_periods demo_subscription 350 True), \<lparr>ao_renewed_periods = 2, ao_provider_credit = 20\<rparr>)"
    by (simp add: advance_periods_def renew_periods_def periods_due_def affordable_periods_def
        demo_subscription_def Let_def saturating_add_def saturating_sub_def saturating_mul_def
        min_def)
  then show ?thesis
    using advance_periods_correct [OF _ _ step] by (simp add: demo_subscription_def)
qed

text \<open>No double billing: advancing a second time at the same instant, under the same
  service availability, credits the provider nothing.\<close>

theorem advance_periods_no_double_billing:
  assumes "su_period_ms s \<noteq> 0" "now < - 1"
  shows "snd (advance_periods (fst (advance_periods s now avail)) now avail) = no_advance"
proof -
  let ?s = "fst (advance_periods s now avail)"
  show ?thesis
  proof (cases "renewal_allowed s now avail")
    case True
    let ?t = "resumed s now"
    have s: "?s = fst (renew_periods ?t now)" using True by (simp add: advance_renews)
    have lapsed: "su_current_period_end ?t \<le> now" using True by (simp add: renewal_allowed_def)
    show ?thesis
    proof (cases "su_status ?s = SubActive")
      case True
      then have "now < su_current_period_end ?s"
        unfolding s using assms lapsed by (intro renew_affordable_active) simp_all
      then show ?thesis by (simp add: advance_early)
    next
      case False
      then have past: "su_status ?s = SubPastDue" using renew_periods_frame(4) [of ?t now] s by simp
      then have "unat (su_reserved_balance ?s) < unat (su_price_per_period ?s)"
        using renew_periods_past_due [of ?t now] unfolding s by (simp add: renew_periods_frame)
      with past show ?thesis
        by (cases "renewal_allowed ?s now avail")
          (simp_all add: advance_not_allowed_credit advance_renews resumed_def renew_broke)
    qed
  next
    case False
    then have "\<not> renewal_allowed ?s now avail"
      using advance_early [of now s avail] advance_stops [of s now avail]
      by (cases "now < su_current_period_end s") (auto simp: renewal_allowed_def not_less)
    then show ?thesis by (rule advance_not_allowed_credit)
  qed
qed

theorem advance_periods_no_double_billing_witness:
  "snd (advance_periods (fst (advance_periods demo_subscription 350 True)) 350 True) = no_advance"
  using advance_periods_no_double_billing [of demo_subscription 350 True]
  by (simp add: demo_subscription_def)

text \<open>(C30) Over any sequence of billing, usage, compensation and shutdown operations, the
  reserve plus everything credited to the provider plus everything refunded stays equal to
  what the subscriber funded.\<close>

theorem subscription_reserve_conserved:
  "unat (su_reserved_balance (sl_subscription (foldl subscription_step l ops)))
     + sl_credited (foldl subscription_step l ops) + sl_refunded (foldl subscription_step l ops)
   = unat (su_reserved_balance (sl_subscription l)) + sl_credited l + sl_refunded l"
  using ledger.run_inv [of _ l ops] by (simp add: ledger_balanced_def)

text \<open>Consuming allowance accounts for the whole price: covered and uncovered parts sum
  to it; an included call covers it entirely and costs exactly one call; otherwise the
  covered part is taken from the credits, compensating credits first; the reserve is never
  touched.\<close>

theorem consume_allowance_exact:
  fixes s price defines "s' \<equiv> fst (consume_allowance s price)" and "c \<equiv> snd (consume_allowance s price)"
  shows "unat (cv_covered_amount c) + unat (cv_uncovered_amount c) = unat price
    \<and> (if cv_used_call c
       then cv_covered_amount c = price
         \<and> unat (su_compensating_calls s') + unat (su_remaining_calls s') + 1
             = unat (su_compensating_calls s) + unat (su_remaining_calls s)
         \<and> su_compensating_credits s' = su_compensating_credits s
         \<and> su_remaining_credits s' = su_remaining_credits s
       else su_compensating_calls s' = 0 \<and> su_remaining_calls s' = 0
         \<and> unat (su_compensating_credits s') + unat (su_remaining_credits s') + unat (cv_covered_amount c)
             = unat (su_compensating_credits s) + unat (su_remaining_credits s)
         \<and> (su_compensating_credits s' = 0 \<or> su_remaining_credits s' = su_remaining_credits s))
    \<and> su_reserved_balance s' = su_reserved_balance s"
proof -
  consider (comp) "0 < su_compensating_calls s" | (rem) "su_compensating_calls s = 0" "0 < su_remaining_calls s"
    | (cred) "su_compensating_calls s = 0" "su_remaining_calls s = 0"
    by (auto simp: word_gt_0)
  then show ?thesis
  proof cases
    case comp
    then show ?thesis
      using unat_u32_minus_one [OF comp] by (simp add: s'_def c_def consume_allowance_def)
  next
    case rem
    then show ?thesis
      using unat_u32_minus_one [OF rem(2)] by (simp add: s'_def c_def consume_allowance_def)
  next
    case cred
    note vals = consume_credits [OF cred, of price, folded s'_def c_def]
    have "su_compensating_credits s' \<noteq> 0 \<longrightarrow> su_remaining_credits s' = su_remaining_credits s"
      using vals(3,4) by (auto simp: word_unat_eq_iff)
    with vals show ?thesis by (auto simp: s'_def)
  qed
qed

text \<open>Compensation is worth what was consumed: after a covered invocation fails and its
  coverage is restored, a new invocation at the same price is covered at least as much.\<close>

theorem restored_allowance_covers_again:
  "unat (cv_covered_amount (snd (consume_allowance s price)))
   \<le> unat (cv_covered_amount (snd (consume_allowance
        (restore_allowance_as_compensation (fst (consume_allowance s price))
           (cv_covered_amount (snd (consume_allowance s price)))
           (cv_used_call (snd (consume_allowance s price)))) price)))"
proof -
  let ?c = "snd (consume_allowance s price)" and ?t = "fst (consume_allowance s price)"
  show ?thesis
  proof (cases "0 < su_compensating_calls s \<or> 0 < su_remaining_calls s")
    case True
    have "0 < saturating_add (su_compensating_calls ?t) 1"
      by (simp add: word_less_nat_alt word_nat_simps)
    with consume_call [OF True, of price] show ?thesis
      by (simp add: restore_allowance_as_compensation_def consume_call)
  next
    case False
    then have cred: "su_compensating_calls s = 0" "su_remaining_calls s = 0" by (auto simp: word_gt_0)
    note vals = consume_credits [OF cred, of price]
    let ?u = "restore_allowance_as_compensation ?t (cv_covered_amount ?c) (cv_used_call ?c)"
    have calls: "su_compensating_calls ?u = 0" "su_remaining_calls ?u = 0"
      using vals(5-7) by (simp_all add: restore_allowance_as_compensation_def)
    have "unat (cv_covered_amount ?c) \<le> unat (su_compensating_credits ?u)"
      using vals(5) unat_u64_bound(2) [of "cv_covered_amount ?c"]
      by (simp add: restore_allowance_as_compensation_def word_nat_simps word_gt_0 unat_eq_0)
    moreover have "unat (cv_covered_amount ?c) \<le> unat price" using vals(1) by simp
    ultimately show ?thesis using consume_credits(1) [OF calls, of price] by simp
  qed
qed

end
