(* ===== verification/Contract.thy ===== *)
theory Contract
  imports Wire
begin

text \<open>
  Contract records (\<open>primitives/contract.rs\<close>): callable export metadata, the authenticated
  ABI, the stored record with its validating (de)serialisation, deployer routes, call checks,
  contract addresses, and the token writes that contract executions stage and merge.

  Rust orders strings by their UTF-8 bytes, so sorting and binary search over export names go
  through \<open>utf8\<close>. The \<open>bincode\<close> encoder of these types is total, so the branches of the
  source that handle an encoding failure do not arise and are left out.
\<close>

subsection \<open>Constants and source languages\<close>

definition CONTRACT_ROUTE_SCHEME :: rstr where
  "CONTRACT_ROUTE_SCHEME = lit ''contractref://''"

definition CONTRACT_VM_PROFILE_ID :: rstr where
  "CONTRACT_VM_PROFILE_ID = lit ''zincha-wasm-int-v1''"

definition CONTRACT_VM_PROFILE_VERSION :: u32 where
  "CONTRACT_VM_PROFILE_VERSION = 1"

definition MAX_CONTRACT_CALLABLE_EXPORTS :: nat where "MAX_CONTRACT_CALLABLE_EXPORTS = 256"
definition MAX_CONTRACT_EXPORT_NAME_BYTES :: nat where "MAX_CONTRACT_EXPORT_NAME_BYTES = 128"
definition MAX_CONTRACT_ROUTE_NAME_BYTES :: nat where "MAX_CONTRACT_ROUTE_NAME_BYTES = 64"
definition MAX_CONTRACT_ABI_BYTES :: nat where "MAX_CONTRACT_ABI_BYTES = 256 * 1024"
definition MAX_CONTRACT_GAS :: u64 where "MAX_CONTRACT_GAS = 10000000"

datatype contract_source_language = SrcWat | SrcRust | SrcAssemblyScript

record verification_backend =
  vb_language :: contract_source_language
  vb_direct_bytecode_reproduction :: bool
  vb_requires_bytecode_witness :: bool
  vb_requires_build_recipe :: bool

definition supported_contract_verification_backends :: "verification_backend list" where
  "supported_contract_verification_backends =
     [\<lparr>vb_language = SrcWat, vb_direct_bytecode_reproduction = True,
       vb_requires_bytecode_witness = False, vb_requires_build_recipe = False\<rparr>,
      \<lparr>vb_language = SrcRust, vb_direct_bytecode_reproduction = False,
       vb_requires_bytecode_witness = True, vb_requires_build_recipe = True\<rparr>,
      \<lparr>vb_language = SrcAssemblyScript, vb_direct_bytecode_reproduction = False,
       vb_requires_bytecode_witness = True, vb_requires_build_recipe = True\<rparr>]"

subsection \<open>Export metadata\<close>

datatype contract_error =
    ProfileIdMismatch | ProfileVersionMismatch u32 | BytecodeHashMismatch | TooManyExports nat
  | EmptyExportName | ExportNameTooLong rstr | ExportsNotSorted | ExportsHashMismatch
  | AbiHashMismatch | AbiWithoutHash | HashWithoutAbi
  | AbiNameEmpty | AbiVersionEmpty | AbiTooLarge nat | AbiFunctionNameEmpty
  | AbiDuplicateFunction rstr
  | RouteNameEmpty | RouteNameTooLong nat | RouteNameDot | RouteNameUppercase | RouteNameCharacter
  | ContractNotFound address | ContractInactive address | ZeroGas | GasTooHigh u64
  | RouteNotFound address rstr
  | StorageRootMismatch | StorageBytesMismatch u64 u64 | StorageSlotCountMismatch u64 u64
  | EventAccumulatorMismatch

record export_metadata =
  em_profile_id :: rstr
  em_profile_version :: u32
  em_bytecode_hash :: hash256
  em_has_memory_export :: bool
  em_callable_exports :: "rstr list"
  em_callable_exports_hash :: hash256

definition hash_callable_exports :: "externs \<Rightarrow> rstr list \<Rightarrow> hash256" where
  "hash_callable_exports X exports = hash_bytes X (write_vec write_string exports)"

text \<open>\<open>windows(2).any(|w| w[0] >= w[1])\<close> in the byte order of strings.\<close>

fun any_window_not_increasing :: "rstr list \<Rightarrow> bool" where
  "any_window_not_increasing (a # b # rest) =
     (utf8 b \<le> utf8 a \<or> any_window_not_increasing (b # rest))"
| "any_window_not_increasing _ = False"

fun check_export_names :: "rstr list \<Rightarrow> contract_error + unit" where
  "check_export_names [] = Ok ()"
| "check_export_names (e # es) =
     (if e = [] then Err EmptyExportName
      else if MAX_CONTRACT_EXPORT_NAME_BYTES < str_len e then Err (ExportNameTooLong e)
      else check_export_names es)"

definition validate_for_bytecode_hash ::
  "externs \<Rightarrow> export_metadata \<Rightarrow> hash256 \<Rightarrow> contract_error + unit" where
  "validate_for_bytecode_hash X m expected =
     (if em_profile_id m \<noteq> CONTRACT_VM_PROFILE_ID then Err ProfileIdMismatch
      else if em_profile_version m \<noteq> CONTRACT_VM_PROFILE_VERSION
      then Err (ProfileVersionMismatch (em_profile_version m))
      else if em_bytecode_hash m \<noteq> expected then Err BytecodeHashMismatch
      else if MAX_CONTRACT_CALLABLE_EXPORTS < length (em_callable_exports m)
      then Err (TooManyExports (length (em_callable_exports m)))
      else bind_result (check_export_names (em_callable_exports m)) (\<lambda>_.
        if any_window_not_increasing (em_callable_exports m) then Err ExportsNotSorted
        else if em_callable_exports_hash m \<noteq> hash_callable_exports X (em_callable_exports m)
        then Err ExportsHashMismatch
        else Ok ()))"

definition export_metadata_new ::
  "externs \<Rightarrow> hash256 \<Rightarrow> bool \<Rightarrow> rstr list \<Rightarrow> contract_error + export_metadata" where
  "export_metadata_new X bytecode_hash has_memory_export exports =
     (let sorted_exports = remdups_adj (sort_key utf8 exports);
          metadata =
            \<lparr>em_profile_id = CONTRACT_VM_PROFILE_ID, em_profile_version = CONTRACT_VM_PROFILE_VERSION,
             em_bytecode_hash = bytecode_hash, em_has_memory_export = has_memory_export,
             em_callable_exports = sorted_exports,
             em_callable_exports_hash = hash_callable_exports X sorted_exports\<rparr>
      in bind_result (validate_for_bytecode_hash X metadata bytecode_hash) (\<lambda>_. Ok metadata))"

definition empty_for_bytecode_hash :: "externs \<Rightarrow> hash256 \<Rightarrow> export_metadata" where
  "empty_for_bytecode_hash X bytecode_hash =
     \<lparr>em_profile_id = CONTRACT_VM_PROFILE_ID, em_profile_version = CONTRACT_VM_PROFILE_VERSION,
      em_bytecode_hash = bytecode_hash, em_has_memory_export = False, em_callable_exports = [],
      em_callable_exports_hash = hash_callable_exports X []\<rparr>"

text \<open>\<open>binary_search_by\<close> over the byte order: halving the range \<open>[lo, hi)\<close>.\<close>

function bsearch :: "rstr list \<Rightarrow> rstr \<Rightarrow> nat \<Rightarrow> nat \<Rightarrow> bool" where
  "bsearch xs x lo hi =
     (if hi \<le> lo then False
      else let mid = lo + (hi - lo) div 2 in
        if utf8 (xs ! mid) < utf8 x then bsearch xs x (Suc mid) hi
        else if utf8 x < utf8 (xs ! mid) then bsearch xs x lo mid
        else True)"
  by pat_completeness auto
termination
  by (relation "measure (\<lambda>(xs, x, lo, hi). hi - lo)") auto

declare bsearch.simps [simp del]

definition callable :: "export_metadata \<Rightarrow> rstr \<Rightarrow> bool" where
  "callable m function_name \<longleftrightarrow>
     em_has_memory_export m \<and> function_name \<noteq> []
     \<and> bsearch (em_callable_exports m) function_name 0 (length (em_callable_exports m))"

subsection \<open>ABI\<close>

record abi_param =
  ap_name :: rstr
  ap_ty :: rstr
  ap_description :: rstr

record function_signature =
  fs_name :: rstr
  fs_description :: rstr
  fs_params :: "abi_param list"
  fs_returns :: "abi_param list"
  fs_mutates :: bool

record contract_abi =
  abi_name :: rstr
  abi_version :: rstr
  abi_functions :: "function_signature list"

definition write_abi_param :: "abi_param \<Rightarrow> u8 list" where
  "write_abi_param p = write_string (ap_name p) @ write_string (ap_ty p) @ write_string (ap_description p)"

definition write_function_signature :: "function_signature \<Rightarrow> u8 list" where
  "write_function_signature f =
     write_string (fs_name f) @ write_string (fs_description f)
     @ write_vec write_abi_param (fs_params f) @ write_vec write_abi_param (fs_returns f)
     @ write_bool (fs_mutates f)"

definition write_contract_abi :: "contract_abi \<Rightarrow> u8 list" where
  "write_contract_abi a =
     write_string (abi_name a) @ write_string (abi_version a)
     @ write_vec write_function_signature (abi_functions a)"

definition hash_contract_abi :: "externs \<Rightarrow> contract_abi \<Rightarrow> hash256" where
  "hash_contract_abi X abi = hash_bytes X (write_contract_abi abi)"

fun check_abi_functions :: "rstr set \<Rightarrow> function_signature list \<Rightarrow> contract_error + unit" where
  "check_abi_functions seen [] = Ok ()"
| "check_abi_functions seen (f # fs) =
     (let name = trim (fs_name f) in
      if name = [] then Err AbiFunctionNameEmpty
      else if name \<in> seen then Err (AbiDuplicateFunction name)
      else check_abi_functions (insert name seen) fs)"

definition validate_contract_abi_shape :: "externs \<Rightarrow> contract_abi \<Rightarrow> contract_error + hash256" where
  "validate_contract_abi_shape X abi =
     (if trim (abi_name abi) = [] then Err AbiNameEmpty
      else if trim (abi_version abi) = [] then Err AbiVersionEmpty
      else let encoded = write_contract_abi abi in
        if MAX_CONTRACT_ABI_BYTES < length encoded then Err (AbiTooLarge (length encoded))
        else bind_result (check_abi_functions {} (abi_functions abi)) (\<lambda>_. Ok (hash_bytes X encoded)))"

subsection \<open>Records\<close>

record contract_verification_record =
  vr_language :: contract_source_language
  vr_compiler :: rstr
  vr_source_hash :: hash256
  vr_bytecode_witness_hash :: "hash256 option"
  vr_build_recipe_hash :: "hash256 option"
  vr_verified_at_block :: u64

record contract_record =
  cr_address :: address
  cr_deployer :: address
  cr_bytecode_hash :: hash256
  cr_export_metadata :: export_metadata
  cr_created_at_block :: u64
  cr_updated_at_block :: u64
  cr_is_active :: bool
  cr_abi :: "contract_abi option"
  cr_abi_hash :: "hash256 option"
  cr_verified :: bool
  cr_source_hash :: "hash256 option"
  cr_verification :: "contract_verification_record option"
  cr_storage_deposit :: u64
  cr_verified_source_storage_deposit :: u64
  cr_storage_bytes :: u64
  cr_storage_slot_count :: u64
  cr_storage_generation :: u64
  cr_storage_reserve :: u64
  cr_storage_root :: hash256

record contract_record_wire =
  cw_address :: address
  cw_deployer :: address
  cw_bytecode_hash :: hash256
  cw_export_metadata :: export_metadata
  cw_created_at_block :: u64
  cw_updated_at_block :: u64
  cw_is_active :: bool
  cw_abi :: "contract_abi option"
  cw_abi_hash :: "hash256 option"
  cw_verified :: bool
  cw_source_hash :: "hash256 option"
  cw_verification :: "contract_verification_record option"
  cw_storage_deposit :: u64
  cw_verified_source_storage_deposit :: u64
  cw_storage_bytes :: u64
  cw_storage_slot_count :: u64
  cw_storage_generation :: u64
  cw_storage_reserve :: u64
  cw_storage_root :: hash256

definition validate_export_metadata_state :: "externs \<Rightarrow> contract_record \<Rightarrow> contract_error + unit" where
  "validate_export_metadata_state X r =
     validate_for_bytecode_hash X (cr_export_metadata r) (cr_bytecode_hash r)"

definition validate_canonical_abi_state :: "externs \<Rightarrow> contract_record \<Rightarrow> contract_error + unit" where
  "validate_canonical_abi_state X r =
     (case (cr_abi r, cr_abi_hash r) of
        (None, None) \<Rightarrow> Ok ()
      | (Some abi, Some abi_hash) \<Rightarrow>
          if hash_contract_abi X abi = abi_hash then Ok () else Err AbiHashMismatch
      | (Some _, None) \<Rightarrow> Err AbiWithoutHash
      | (None, Some _) \<Rightarrow> Err HashWithoutAbi)"

definition authenticated_abi :: "externs \<Rightarrow> contract_record \<Rightarrow> contract_abi option" where
  "authenticated_abi X r =
     (case validate_canonical_abi_state X r of Err _ \<Rightarrow> None | Ok _ \<Rightarrow> cr_abi r)"

definition set_authenticated_abi ::
  "externs \<Rightarrow> contract_record \<Rightarrow> contract_abi \<Rightarrow> contract_record \<times> hash256" where
  "set_authenticated_abi X r abi =
     (let abi_hash = hash_contract_abi X abi
      in (r\<lparr>cr_abi := Some abi, cr_abi_hash := Some abi_hash\<rparr>, abi_hash))"

definition record_from_wire :: "contract_record_wire \<Rightarrow> contract_record" where
  "record_from_wire w =
     \<lparr>cr_address = cw_address w, cr_deployer = cw_deployer w, cr_bytecode_hash = cw_bytecode_hash w,
      cr_export_metadata = cw_export_metadata w, cr_created_at_block = cw_created_at_block w,
      cr_updated_at_block = cw_updated_at_block w, cr_is_active = cw_is_active w,
      cr_abi = cw_abi w, cr_abi_hash = cw_abi_hash w, cr_verified = cw_verified w,
      cr_source_hash = cw_source_hash w, cr_verification = cw_verification w,
      cr_storage_deposit = cw_storage_deposit w,
      cr_verified_source_storage_deposit = cw_verified_source_storage_deposit w,
      cr_storage_bytes = cw_storage_bytes w, cr_storage_slot_count = cw_storage_slot_count w,
      cr_storage_generation = cw_storage_generation w, cr_storage_reserve = cw_storage_reserve w,
      cr_storage_root = cw_storage_root w\<rparr>"

definition wire_from_record :: "contract_record \<Rightarrow> contract_record_wire" where
  "wire_from_record r =
     \<lparr>cw_address = cr_address r, cw_deployer = cr_deployer r, cw_bytecode_hash = cr_bytecode_hash r,
      cw_export_metadata = cr_export_metadata r, cw_created_at_block = cr_created_at_block r,
      cw_updated_at_block = cr_updated_at_block r, cw_is_active = cr_is_active r,
      cw_abi = cr_abi r, cw_abi_hash = cr_abi_hash r, cw_verified = cr_verified r,
      cw_source_hash = cr_source_hash r, cw_verification = cr_verification r,
      cw_storage_deposit = cr_storage_deposit r,
      cw_verified_source_storage_deposit = cr_verified_source_storage_deposit r,
      cw_storage_bytes = cr_storage_bytes r, cw_storage_slot_count = cr_storage_slot_count r,
      cw_storage_generation = cr_storage_generation r, cw_storage_reserve = cr_storage_reserve r,
      cw_storage_root = cr_storage_root r\<rparr>"

text \<open>
  The serialiser and the deserialiser are arguments, as in the code; what they do with the wire form,
  whose implementation is derived, is theirs. The errors are theirs too, or a failed check.
\<close>

datatype 'e record_wire_error = RejectedRecord contract_error | FormatError 'e

definition serialize_record ::
  "externs \<Rightarrow> (contract_record_wire \<Rightarrow> 'e + 's) \<Rightarrow> contract_record \<Rightarrow> 'e record_wire_error + 's" where
  "serialize_record X serializer r =
     bind_result (map_err RejectedRecord (validate_export_metadata_state X r)) (\<lambda>_.
     bind_result (map_err RejectedRecord (validate_canonical_abi_state X r)) (\<lambda>_.
       map_err FormatError (serializer (wire_from_record r))))"

definition deserialize_record ::
  "externs \<Rightarrow> ('s \<Rightarrow> 'e + contract_record_wire) \<Rightarrow> 's \<Rightarrow> 'e record_wire_error + contract_record" where
  "deserialize_record X deserializer input =
     bind_result (map_err FormatError (deserializer input)) (\<lambda>w.
       let r = record_from_wire w in
       bind_result (map_err RejectedRecord (validate_export_metadata_state X r)) (\<lambda>_.
       bind_result (map_err RejectedRecord (validate_canonical_abi_state X r)) (\<lambda>_. Ok r)))"

subsection \<open>Routes and calls\<close>

fun check_route_chars :: "rstr \<Rightarrow> contract_error + rstr" where
  "check_route_chars [] = Ok []"
| "check_route_chars (ch # chs) =
     (if is_ascii_uppercase ch then Err RouteNameUppercase
      else if is_ascii_lowercase ch \<or> is_ascii_digit ch \<or> ch \<in> {0x2D, 0x5F, 0x2E}
      then bind_result (check_route_chars chs) (\<lambda>rest. Ok (ch # rest))
      else Err RouteNameCharacter)"

definition validate_and_normalize_contract_route_name :: "rstr \<Rightarrow> contract_error + rstr" where
  "validate_and_normalize_contract_route_name route_name =
     (let trimmed = trim route_name in
      if trimmed = [] then Err RouteNameEmpty
      else if MAX_CONTRACT_ROUTE_NAME_BYTES < str_len trimmed then Err (RouteNameTooLong (str_len trimmed))
      else if hd trimmed = 0x2E \<or> last trimmed = 0x2E then Err RouteNameDot
      else check_route_chars trimmed)"

record contract_route_key =
  rk_deployer :: address
  rk_route_name :: rstr

definition route_key_new :: "address \<Rightarrow> rstr \<Rightarrow> contract_error + contract_route_key" where
  "route_key_new deployer route_name =
     bind_result (validate_and_normalize_contract_route_name route_name) (\<lambda>n.
       Ok \<lparr>rk_deployer = deployer, rk_route_name = n\<rparr>)"

record contract_route_record =
  rr_deployer :: address
  rr_route_name :: rstr
  rr_target_contract_address :: address
  rr_revision :: u32
  rr_created_at_block :: u64
  rr_updated_at_block :: u64
  rr_storage_deposit :: u64

definition validate_top_level_contract_call_gas_limit :: "u64 \<Rightarrow> contract_error + unit" where
  "validate_top_level_contract_call_gas_limit gas_limit =
     (if gas_limit = 0 then Err ZeroGas
      else if MAX_CONTRACT_GAS < gas_limit then Err (GasTooHigh gas_limit)
      else Ok ())"

definition validate_top_level_contract_call_target ::
  "address \<Rightarrow> u64 \<Rightarrow> contract_record option \<Rightarrow> contract_error + contract_record" where
  "validate_top_level_contract_call_target contract_address gas_limit contract_opt =
     (case contract_opt of
        None \<Rightarrow> Err (ContractNotFound contract_address)
      | Some c \<Rightarrow>
          if \<not> cr_is_active c then Err (ContractInactive contract_address)
          else bind_result (validate_top_level_contract_call_gas_limit gas_limit) (\<lambda>_. Ok c))"

definition validate_top_level_contract_route_call_target ::
  "address \<Rightarrow> rstr \<Rightarrow> u64 \<Rightarrow> contract_route_record option \<Rightarrow> contract_record option
   \<Rightarrow> contract_error + contract_route_record \<times> contract_record" where
  "validate_top_level_contract_route_call_target deployer route_name gas_limit route_opt contract_opt =
     bind_result (route_key_new deployer route_name) (\<lambda>route_key.
       case route_opt of
         None \<Rightarrow> Err (RouteNotFound (rk_deployer route_key) (rk_route_name route_key))
       | Some route \<Rightarrow>
           bind_result (validate_top_level_contract_call_target (rr_target_contract_address route)
                          gas_limit contract_opt) (\<lambda>c. Ok (route, c)))"

definition contract_address_preimage :: "address \<Rightarrow> u64 \<Rightarrow> hash256 \<Rightarrow> u8 list" where
  "contract_address_preimage deployer nonce bytecode_hash =
     addr_bytes deployer @ to_be_bytes nonce @ hash_as_bytes bytecode_hash"

definition derive_contract_address_from_bytecode_hash ::
  "externs \<Rightarrow> address \<Rightarrow> u64 \<Rightarrow> hash256 \<Rightarrow> address" where
  "derive_contract_address_from_bytecode_hash X deployer nonce bytecode_hash =
     (let h = hash_bytes X (contract_address_preimage deployer nonce bytecode_hash)
      in Address (take 20 (drop 12 (hash_as_bytes h))))"

definition derive_contract_address :: "externs \<Rightarrow> address \<Rightarrow> u64 \<Rightarrow> u8 list \<Rightarrow> address" where
  "derive_contract_address X deployer nonce bytecode =
     derive_contract_address_from_bytecode_hash X deployer nonce (hash_bytes X bytecode)"

subsection \<open>Sorted export names\<close>

definition str_less :: "rstr \<Rightarrow> rstr \<Rightarrow> bool" where
  "str_less a b \<longleftrightarrow> utf8 a < utf8 b"

lemma windows_sorted:
  "\<not> any_window_not_increasing es \<longleftrightarrow> sorted_wrt str_less es"
proof (induction es rule: any_window_not_increasing.induct)
  case (1 a b rest)
  have trans: "str_less b c \<Longrightarrow> utf8 a < utf8 b \<Longrightarrow> str_less a c" for c
    by (auto simp: str_less_def)
  show ?case
    using 1 trans by (auto simp: not_le str_less_def)
qed simp_all

lemma check_export_names_Ok:
  "check_export_names es = Ok () \<longleftrightarrow>
     (\<forall>e \<in> set es. e \<noteq> [] \<and> str_len e \<le> MAX_CONTRACT_EXPORT_NAME_BYTES)"
  by (induction es) (auto simp: not_less)

lemma validate_metadata_Ok:
  "validate_for_bytecode_hash X m h = Ok () \<longleftrightarrow>
     em_profile_id m = CONTRACT_VM_PROFILE_ID \<and> em_profile_version m = CONTRACT_VM_PROFILE_VERSION
     \<and> em_bytecode_hash m = h \<and> length (em_callable_exports m) \<le> MAX_CONTRACT_CALLABLE_EXPORTS
     \<and> (\<forall>e \<in> set (em_callable_exports m). e \<noteq> [] \<and> str_len e \<le> MAX_CONTRACT_EXPORT_NAME_BYTES)
     \<and> sorted_wrt str_less (em_callable_exports m)
     \<and> em_callable_exports_hash m = hash_callable_exports X (em_callable_exports m)"
  by (auto simp: validate_for_bytecode_hash_def check_export_names_Ok windows_sorted [symmetric]
      not_less split: if_splits)

lemma bsearch_iff:
  "sorted_wrt str_less xs \<Longrightarrow> hi \<le> length xs \<Longrightarrow>
   bsearch xs x lo hi \<longleftrightarrow> (\<exists>i. lo \<le> i \<and> i < hi \<and> utf8 (xs ! i) = utf8 x)"
proof (induction "hi - lo" arbitrary: lo hi rule: less_induct)
  case less
  show ?case
  proof (cases "hi \<le> lo")
    case True
    then show ?thesis by (subst bsearch.simps) auto
  next
    case False
    define mid where "mid = lo + (hi - lo) div 2"
    have mid: "lo \<le> mid" "mid < hi" using False by (auto simp: mid_def)
    have lt: "utf8 (xs ! i) < utf8 (xs ! j)" if "i < j" "j < hi" for i j
      using that less.prems by (auto simp: sorted_wrt_iff_nth_less str_less_def)
    have step: "bsearch xs x lo hi =
        (if utf8 (xs ! mid) < utf8 x then bsearch xs x (Suc mid) hi
         else if utf8 x < utf8 (xs ! mid) then bsearch xs x lo mid else True)"
      using False by (subst bsearch.simps) (simp add: mid_def Let_def)
    consider "utf8 (xs ! mid) < utf8 x" | "utf8 x < utf8 (xs ! mid)" | "utf8 (xs ! mid) = utf8 x"
      by (metis less_linear)
    then show ?thesis
    proof cases
      case 1
      have "utf8 (xs ! i) \<noteq> utf8 x" if "i \<le> mid" for i
        using 1 lt [of i mid] that mid by (cases "i = mid") auto
      then show ?thesis
        using 1 step mid less.hyps [of hi "Suc mid"] less.prems
        by (auto simp: not_le) (metis not_less_eq_eq Suc_leD le_trans)+
    next
      case 2
      have "utf8 (xs ! i) \<noteq> utf8 x" if "mid \<le> i" "i < hi" for i
        using 2 lt [of mid i] that by (cases "i = mid") auto
      then show ?thesis
        using 2 step mid less.hyps [of mid lo] less.prems
        by (auto simp: not_less) (metis not_le less_trans)+
    next
      case 3
      then show ?thesis using step mid by auto
    qed
  qed
qed

lemma callable_iff:
  assumes "validate_for_bytecode_hash X m h = Ok ()"
    and "list_all wf_str (em_callable_exports m)" "wf_str f"
  shows "callable m f \<longleftrightarrow> em_has_memory_export m \<and> f \<in> set (em_callable_exports m)"
proof -
  from assms(1) have sorted: "sorted_wrt str_less (em_callable_exports m)"
    and ne: "\<forall>e \<in> set (em_callable_exports m). e \<noteq> []"
    by (simp_all add: validate_metadata_Ok)
  have "bsearch (em_callable_exports m) f 0 (length (em_callable_exports m)) \<longleftrightarrow>
      f \<in> set (em_callable_exports m)"
    using bsearch_iff [OF sorted order_refl, of f 0] assms(2,3)
    by (auto simp: in_set_conv_nth list_all_length utf8_inj)
  with ne show ?thesis by (auto simp: callable_def)
qed

lemma remdups_adj_strict:
  "sorted (map f xs) \<Longrightarrow> inj_on f (set xs) \<Longrightarrow> sorted_wrt (\<lambda>a b. f a < f b) (remdups_adj xs)"
proof (induction xs rule: remdups_adj.induct)
  case (3 x y xs)
  show ?case
  proof (cases "x = y")
    case True
    with 3 show ?thesis by (simp add: inj_on_def)
  next
    case False
    have "inj_on f (set (y # xs))" using 3(4) by (rule inj_on_subset) auto
    moreover have "sorted (map f (y # xs))" using 3(3) by simp
    ultimately have IH: "sorted_wrt (\<lambda>a b. f a < f b) (remdups_adj (y # xs))"
      using "3.IH"(2) [OF False] by blast
    have "f x \<noteq> f y" using 3(4) False by (auto dest: inj_onD)
    with 3(3) have "f x < f y" by auto
    moreover have "\<forall>z \<in> set (y # xs). f y \<le> f z" using 3(3) by auto
    ultimately have "\<forall>z \<in> set (y # xs). f x < f z" by force
    then have "\<forall>z \<in> set (remdups_adj (y # xs)). f x < f z" by simp
    moreover have "remdups_adj (x # y # xs) = x # remdups_adj (y # xs)" using False by simp
    ultimately show ?thesis using IH by (simp only: sorted_wrt.simps simp_thms)
  qed
qed simp_all

lemma sorted_exports:
  assumes "list_all wf_str es"
  shows "sorted_wrt str_less (remdups_adj (sort_key utf8 es))"
proof -
  have "inj_on utf8 (set (sort_key utf8 es))"
    using assms by (auto simp: inj_on_def utf8_inj list_all_iff)
  then have "sorted_wrt (\<lambda>a b. utf8 a < utf8 b) (remdups_adj (sort_key utf8 es))"
    by (intro remdups_adj_strict) simp_all
  then show ?thesis by (simp add: str_less_def [abs_def])
qed

subsection \<open>Encodings\<close>

definition valid_param :: "abi_param \<Rightarrow> bool" where
  "valid_param p \<longleftrightarrow> valid_string (ap_name p) \<and> valid_string (ap_ty p) \<and> valid_string (ap_description p)"

definition valid_function :: "function_signature \<Rightarrow> bool" where
  "valid_function f \<longleftrightarrow> valid_string (fs_name f) \<and> valid_string (fs_description f)
     \<and> valid_vec valid_param (fs_params f) \<and> valid_vec valid_param (fs_returns f)"

definition valid_abi :: "contract_abi \<Rightarrow> bool" where
  "valid_abi a \<longleftrightarrow> valid_string (abi_name a) \<and> valid_string (abi_version a)
     \<and> valid_vec valid_function (abi_functions a)"

interpretation paramw: wire_format write_abi_param valid_param
  by unfold_locales (simp add: write_abi_param_def valid_param_def wire_append_iffs)

interpretation functionw: wire_format write_function_signature valid_function
  by unfold_locales
    (simp add: write_function_signature_def valid_function_def wire_append_iffs
      paramw.vec_append_iff)

interpretation abiw: wire_format write_contract_abi valid_abi
  by unfold_locales
    (simp add: write_contract_abi_def valid_abi_def wire_append_iffs functionw.vec_append_iff)

lemma contract_address_preimage_inj:
  assumes "wf_addr d" "wf_addr d'" "wf_hash h" "wf_hash h'"
  shows "contract_address_preimage d n h = contract_address_preimage d' n' h' \<longleftrightarrow> d = d' \<and> n = n' \<and> h = h'"
proof -
  have "to_be_bytes n @ hash_as_bytes h = to_be_bytes n' @ hash_as_bytes h' \<longleftrightarrow> n = n' \<and> h = h'"
    by (auto simp: append_eq_same_len to_be_bytes_inj intro: hash256.expand)
  with addrw.append_iff [OF assms(1,2)] show ?thesis
    by (simp add: contract_address_preimage_def write_addr_def)
qed

subsection \<open>Route names\<close>

definition route_char :: "rchar \<Rightarrow> bool" where
  "route_char ch \<longleftrightarrow> is_ascii_lowercase ch \<or> is_ascii_digit ch \<or> ch \<in> {0x2D, 0x5F, 0x2E}"

lemma check_route_chars_Ok:
  "check_route_chars s = Ok n \<longleftrightarrow> list_all route_char s \<and> n = s"
  by (induction s arbitrary: n) (auto simp: route_char_def char_class_defs)

lemma route_name_Ok:
  "validate_and_normalize_contract_route_name s = Ok n \<longleftrightarrow>
     n = trim s \<and> n \<noteq> [] \<and> str_len n \<le> MAX_CONTRACT_ROUTE_NAME_BYTES
     \<and> hd n \<noteq> 0x2E \<and> last n \<noteq> 0x2E \<and> list_all route_char n"
  by (auto simp: validate_and_normalize_contract_route_name_def Let_def check_route_chars_Ok not_less)

subsection \<open>Records\<close>

lemma wire_record_inverse [simp]:
  "record_from_wire (wire_from_record r) = r" "wire_from_record (record_from_wire w) = w"
  by (simp_all add: record_from_wire_def wire_from_record_def)

lemma validate_abi_state_Ok:
  "validate_canonical_abi_state X r = Ok () \<longleftrightarrow> cr_abi_hash r = map_option (hash_contract_abi X) (cr_abi r)"
  by (auto simp: validate_canonical_abi_state_def split: option.splits)

subsection \<open>Properties\<close>

text \<open>Export metadata: construction keeps exactly the given names, sorted and without
  repetition, and what it returns passes validation; and for any metadata that passes
  validation the binary search of \<open>callable\<close> finds exactly the listed names, when the
  module exports its memory.\<close>

theorem export_metadata_correct:
  assumes "list_all wf_str exports" "wf_str f"
    and "export_metadata_new X h mem exports = Ok m"
  shows "set (em_callable_exports m) = set exports \<and> distinct (em_callable_exports m)
    \<and> validate_for_bytecode_hash X m h = Ok ()
    \<and> (callable m f \<longleftrightarrow> mem \<and> f \<in> set exports)"
proof -
  from assms(3) have m: "em_callable_exports m = remdups_adj (sort_key utf8 exports)"
    "em_has_memory_export m = mem" "validate_for_bytecode_hash X m h = Ok ()"
    by (auto simp: export_metadata_new_def Let_def)
  then have set: "set (em_callable_exports m) = set exports" by simp
  then have wf: "list_all wf_str (em_callable_exports m)" using assms(1) by (simp add: list_all_iff)
  have "sorted_wrt str_less (em_callable_exports m)" using sorted_exports [OF assms(1)] m by simp
  then have "distinct (em_callable_exports m)"
    by (auto simp: distinct_conv_nth sorted_wrt_iff_nth_less str_less_def)
      (metis less_irrefl linorder_neqE_nat)
  with set m callable_iff [OF m(3) wf assms(2)] show ?thesis by simp
qed

theorem export_metadata_correct_witness:
  "\<exists>m. export_metadata_new demo_externs hash_zero True [lit ''run'', lit ''init'', lit ''run''] = Ok m
     \<and> callable m (lit ''init'')"
proof -
  have wf: "list_all wf_str [lit ''run'', lit ''init'', lit ''run'']" "wf_str (lit ''init'')"
    by (simp_all add: wf_str_def is_scalar_def)
  have "\<exists>m. export_metadata_new demo_externs hash_zero True [lit ''run'', lit ''init'', lit ''run''] = Ok m"
    using sorted_exports [OF wf(1)]
    by (simp add: export_metadata_new_def Let_def validate_metadata_Ok del: list.map)
      (simp add: MAX_CONTRACT_CALLABLE_EXPORTS_def MAX_CONTRACT_EXPORT_NAME_BYTES_def str_len_def
        utf8_def utf8_char_def utf8_units_def)
  then obtain m where m: "export_metadata_new demo_externs hash_zero True
      [lit ''run'', lit ''init'', lit ''run''] = Ok m" by blast
  from export_metadata_correct [OF wf m] have "callable m (lit ''init'')" by simp
  with m show ?thesis by blast
qed

text \<open>Whatever the format, a record that was read passed the checks: its exports are listed once, in
  order and within the limits, under the hash that is stored with them, and bound to its bytecode and
  the profile of the machine; its ABI has its hash; so every lookup of an export is exact. Writing it
  again gives the format the same wire form that was read. Publishing an ABI leaves it authenticated.\<close>

theorem contract_record_admitted:
  assumes "deserialize_record X deserializer input = Ok r" and "m = cr_export_metadata r"
  shows "deserializer input = Ok (wire_from_record r)
   \<and> serialize_record X serializer r = map_err FormatError (serializer (wire_from_record r))
   \<and> em_bytecode_hash m = cr_bytecode_hash r \<and> em_profile_id m = CONTRACT_VM_PROFILE_ID
   \<and> em_profile_version m = CONTRACT_VM_PROFILE_VERSION
   \<and> length (em_callable_exports m) \<le> MAX_CONTRACT_CALLABLE_EXPORTS
   \<and> sorted_wrt str_less (em_callable_exports m)
   \<and> em_callable_exports_hash m = hash_callable_exports X (em_callable_exports m)
   \<and> (list_all wf_str (em_callable_exports m) \<longrightarrow> wf_str f \<longrightarrow>
        (callable m f \<longleftrightarrow> em_has_memory_export m \<and> f \<in> set (em_callable_exports m)))
   \<and> cr_abi_hash r = map_option (hash_contract_abi X) (cr_abi r) \<and> authenticated_abi X r = cr_abi r
   \<and> authenticated_abi X (fst (set_authenticated_abi X r abi)) = Some abi"
proof -
  from assms(1) obtain w where w: "deserializer input = Ok w" "r = record_from_wire w"
    and meta: "validate_export_metadata_state X r = Ok ()" and abi: "validate_canonical_abi_state X r = Ok ()"
    by (auto simp: deserialize_record_def Let_def map_err_def split: sum.splits)
  have valid: "validate_for_bytecode_hash X m (cr_bytecode_hash r) = Ok ()"
    using meta by (simp add: validate_export_metadata_state_def assms(2))
  have again: "serialize_record X serializer r = map_err FormatError (serializer (wire_from_record r))"
    by (simp add: serialize_record_def meta abi map_err_def)
  have wire: "deserializer input = Ok (wire_from_record r)" by (simp add: w)
  have same: "authenticated_abi X r = cr_abi r" by (simp add: authenticated_abi_def abi)
  have published: "authenticated_abi X (fst (set_authenticated_abi X r abi)) = Some abi"
    by (simp add: authenticated_abi_def set_authenticated_abi_def Let_def validate_canonical_abi_state_def)
  from valid show ?thesis
    using callable_iff [OF valid] abi again wire same published
    by (simp add: validate_metadata_Ok validate_abi_state_Ok)
qed

definition demo_record :: contract_record where
  "demo_record =
     \<lparr>cr_address = addr_zero, cr_deployer = addr_zero, cr_bytecode_hash = hash_zero,
      cr_export_metadata = empty_for_bytecode_hash demo_externs hash_zero, cr_created_at_block = 1,
      cr_updated_at_block = 1, cr_is_active = True, cr_abi = None, cr_abi_hash = None,
      cr_verified = False, cr_source_hash = None, cr_verification = None, cr_storage_deposit = 0,
      cr_verified_source_storage_deposit = 0, cr_storage_bytes = 0, cr_storage_slot_count = 0,
      cr_storage_generation = 0, cr_storage_reserve = 0, cr_storage_root = hash_zero\<rparr>"

theorem contract_record_admitted_witness:
  "authenticated_abi demo_externs demo_record = None
   \<and> serialize_record demo_externs (Inr :: contract_record_wire \<Rightarrow> unit + contract_record_wire) demo_record
     = Ok (wire_from_record demo_record)"
proof -
  have "deserialize_record demo_externs (Inr :: contract_record_wire \<Rightarrow> unit + contract_record_wire)
      (wire_from_record demo_record) = Ok demo_record"
    by (simp add: deserialize_record_def validate_export_metadata_state_def demo_record_def Let_def
        record_from_wire_def wire_from_record_def
        empty_for_bytecode_hash_def validate_metadata_Ok validate_canonical_abi_state_def)
  note facts = contract_record_admitted [OF this refl, where serializer = Inr and f = undefined and abi = undefined]
  have "cr_abi demo_record = None" by (simp add: demo_record_def)
  with facts show ?thesis by (auto simp: map_err_def)
qed

text \<open>Route names: an accepted name is the trimmed input, is non-empty, at most 64 bytes
  of lowercase letters, digits, dots, dashes and underscores with no dot at either end, and
  normalising it again changes nothing, so every route has one canonical key.\<close>

theorem route_name_canonical:
  assumes "validate_and_normalize_contract_route_name s = Ok n"
  shows "n = trim s \<and> 0 < length n \<and> str_len n \<le> 64 \<and> hd n \<noteq> 0x2E \<and> last n \<noteq> 0x2E
    \<and> list_all route_char n \<and> validate_and_normalize_contract_route_name n = Ok n"
  using assms by (auto simp: route_name_Ok MAX_CONTRACT_ROUTE_NAME_BYTES_def)

theorem route_name_canonical_witness:
  "validate_and_normalize_contract_route_name (lit ''swap.v1'') = Ok (lit ''swap.v1'')"
proof -
  have "trim (lit ''  swap.v1'') = lit ''swap.v1''"
    by (simp add: trim_def trim_start_def is_whitespace_def)
  then have "validate_and_normalize_contract_route_name (lit ''  swap.v1'') = Ok (lit ''swap.v1'')"
    by (simp add: route_name_Ok route_char_def char_class_defs MAX_CONTRACT_ROUTE_NAME_BYTES_def
        str_len_def utf8_def utf8_char_def utf8_units_def)
  from route_name_canonical [OF this] show ?thesis by simp
qed

text \<open>A deployed address commits to deployer, nonce and code: where SHA-256 does not
  collide on the last twenty bytes of the two preimages' hashes, equal contract addresses
  come from the same deployer, nonce and bytecode hash.\<close>

theorem contract_address_binds:
  assumes "wf_addr d" "wf_addr d'" "wf_hash h" "wf_hash h'"
    and "inj_on (\<lambda>m. drop 12 (hash_as_bytes (hash_bytes X m)))
           {contract_address_preimage d n h, contract_address_preimage d' n' h'}"
  shows "derive_contract_address_from_bytecode_hash X d n h
           = derive_contract_address_from_bytecode_hash X d' n' h'
         \<longleftrightarrow> d = d' \<and> n = n' \<and> h = h'"
  using inj_on_pair_eq [OF assms(5)] contract_address_preimage_inj [OF assms(1-4)]
  by (simp add: derive_contract_address_from_bytecode_hash_def Let_def)

theorem contract_address_binds_witness:
  "derive_contract_address_from_bytecode_hash
     (tag_externs (contract_address_preimage addr_zero 0 hash_zero)) addr_zero 0 hash_zero
   \<noteq> derive_contract_address_from_bytecode_hash
     (tag_externs (contract_address_preimage addr_zero 0 hash_zero)) addr_zero 1 hash_zero"
proof -
  let ?X = "tag_externs (contract_address_preimage addr_zero 0 hash_zero)"
  have wf: "wf_addr addr_zero" "wf_hash hash_zero"
    by (simp_all add: wf_addr_def addr_zero_def wf_hash_def hash_zero_def)
  have "inj_on (\<lambda>m. drop 12 (hash_as_bytes (hash_bytes ?X m)))
      {contract_address_preimage addr_zero 0 hash_zero, contract_address_preimage addr_zero 1 hash_zero}"
    by (auto simp: inj_on_def tag_hash_eq)
  from contract_address_binds [OF wf(1) wf(1) wf(2) wf(2) this] show ?thesis by simp
qed

end
