(* ===== verification/Tool_Job.thy ===== *)
theory Tool_Job
  imports Contract
begin

text \<open>
  Tools and escrowed tool jobs (\<open>primitives/tool.rs\<close>): reputation counters, search
  preferences with their presets and the weight total of \<open>ranked_score\<close>, the gas check of a
  contract-backed invocation, and the milestone bookkeeping of a \<open>ToolJob\<close>.

  Floating-point scores are not modelled; the fields that hold them carry bit patterns. Sums
  of amounts use the machine addition of \<open>u64\<close>, as \<open>iter().sum()\<close> does in a release build.
\<close>

subsection \<open>Reputation counters\<close>

record tool_reputation =
  tr_total_calls :: u64
  tr_successful_calls :: u64
  tr_failed_calls :: u64
  tr_cumulative_quality :: f64_bits
  tr_quality_ratings :: u64
  tr_total_revenue :: u64

definition verified_calls :: "tool_reputation \<Rightarrow> u64" where
  "verified_calls r = saturating_add (tr_successful_calls r) (tr_failed_calls r)"

definition record_access_grant :: "tool_reputation \<Rightarrow> tool_reputation" where
  "record_access_grant r = r\<lparr>tr_total_calls := saturating_add (tr_total_calls r) 1\<rparr>"

definition record_subscription_revenue :: "tool_reputation \<Rightarrow> u64 \<Rightarrow> tool_reputation" where
  "record_subscription_revenue r revenue =
     r\<lparr>tr_total_revenue := saturating_add (tr_total_revenue r) revenue\<rparr>"

definition record_settlement_revenue :: "tool_reputation \<Rightarrow> u64 \<Rightarrow> tool_reputation" where
  "record_settlement_revenue r revenue =
     r\<lparr>tr_total_revenue := saturating_add (tr_total_revenue r) revenue\<rparr>"

definition record_paid_access :: "tool_reputation \<Rightarrow> u64 \<Rightarrow> tool_reputation" where
  "record_paid_access r revenue =
     (let r' = record_access_grant r
      in r'\<lparr>tr_total_revenue := saturating_add (tr_total_revenue r') revenue\<rparr>)"

definition record_verified_outcome :: "tool_reputation \<Rightarrow> bool \<Rightarrow> tool_reputation" where
  "record_verified_outcome r success =
     (if success then r\<lparr>tr_successful_calls := saturating_add (tr_successful_calls r) 1\<rparr>
      else r\<lparr>tr_failed_calls := saturating_add (tr_failed_calls r) 1\<rparr>)"

subsection \<open>Search preferences\<close>

record tool_search_preferences =
  w_reliability :: u8
  w_price :: u8
  w_quality :: u8
  w_popularity :: u8
  w_freshness :: u8
  pref_max_price :: u64
  pref_min_success_rate :: f64_bits
  pref_discovery_threshold :: u32
  pref_discovery_boost :: u8

definition prefs_default :: tool_search_preferences where
  "prefs_default =
     \<lparr>w_reliability = 35, w_price = 25, w_quality = 20, w_popularity = 10, w_freshness = 10,
      pref_max_price = 0, pref_min_success_rate = 0, pref_discovery_threshold = 10,
      pref_discovery_boost = 10\<rparr>"

definition prefs_cheapest :: tool_search_preferences where
  "prefs_cheapest =
     prefs_default\<lparr>w_price := 60, w_reliability := 20, w_quality := 10, w_popularity := 5,
       w_freshness := 5\<rparr>"

definition prefs_most_reliable :: tool_search_preferences where
  "prefs_most_reliable =
     prefs_default\<lparr>w_reliability := 50, w_quality := 25, w_price := 10, w_popularity := 10,
       w_freshness := 5, pref_min_success_rate := 0x3FE999999999999A\<rparr>"

definition prefs_discover_new :: tool_search_preferences where
  "prefs_discover_new =
     prefs_default\<lparr>w_freshness := 40, w_price := 25, w_reliability := 15, w_quality := 10,
       w_popularity := 10, pref_discovery_boost := 20, pref_discovery_threshold := 20\<rparr>"

definition prefs_most_popular :: tool_search_preferences where
  "prefs_most_popular =
     prefs_default\<lparr>w_popularity := 40, w_reliability := 30, w_quality := 15, w_price := 10,
       w_freshness := 5\<rparr>"

text \<open>The divisor of \<open>ranked_score\<close>: five \<open>u8\<close> additions, then \<open>max(1)\<close>. In a checked build
  an overflowing addition panics; here that is \<open>None\<close>.\<close>

definition ranked_weight_total :: "tool_search_preferences \<Rightarrow> u8 option" where
  "ranked_weight_total p =
     map_option (max 1)
       (try_fold checked_add (w_reliability p)
          [w_price p, w_quality p, w_popularity p, w_freshness p])"

subsection \<open>Contract-backed invocation\<close>

definition DEFAULT_CONTRACT_TOOL_GAS_LIMIT :: u64 where
  "DEFAULT_CONTRACT_TOOL_GAS_LIMIT = 400000"

datatype gas_error = ZeroGasLimit | GasLimitTooHigh u64

definition validate_contract_tool_gas_limit :: "u64 \<Rightarrow> gas_error + u64" where
  "validate_contract_tool_gas_limit gas_limit =
     (if gas_limit = 0 then Err ZeroGasLimit
      else if MAX_CONTRACT_GAS < gas_limit then Err (GasLimitTooHigh gas_limit)
      else Ok gas_limit)"

subsection \<open>Tool jobs\<close>

datatype tool_job_status = JobOpen | JobSubmitted | JobDisputed

record tool_milestone_def =
  tmd_label :: rstr
  tmd_amount :: u64

datatype tool_milestone_status = TmPending | TmSubmitted | TmDisputed | TmCompleted

record tool_milestone =
  tm_label :: rstr
  tm_amount :: u64
  tm_status :: tool_milestone_status
  tm_submit_deadline :: "u64 option"
  tm_result_hash :: "hash256 option"
  tm_result_metadata :: "u8 list"
  tm_submitted_at :: "u64 option"
  tm_challenge_deadline :: "u64 option"
  tm_dispute_reason :: "rstr option"
  tm_disputed_at :: "u64 option"

definition tool_milestone_from :: "tool_milestone_def \<Rightarrow> tool_milestone" where
  "tool_milestone_from d =
     \<lparr>tm_label = tmd_label d, tm_amount = tmd_amount d, tm_status = TmPending,
      tm_submit_deadline = None, tm_result_hash = None, tm_result_metadata = [],
      tm_submitted_at = None, tm_challenge_deadline = None, tm_dispute_reason = None,
      tm_disputed_at = None\<rparr>"

record tool_job =
  tj_job_id :: hash256
  tj_tool_id :: hash256
  tj_requester :: address
  tj_provider :: address
  tj_arbitrator :: "address option"
  tj_amount_escrowed :: u64
  tj_storage_deposit :: u64
  tj_sla_ms :: u64
  tj_subscription_id :: "hash256 option"
  tj_subscription_covered_amount :: u64
  tj_subscription_used_call :: bool
  tj_input_data :: "u8 list"
  tj_input_hash :: hash256
  tj_status :: tool_job_status
  tj_opened_at :: u64
  tj_opened_at_block :: u64
  tj_challenge_window_ms :: u64
  tj_max_result_metadata_bytes :: u32
  tj_arbitrator_fee_bps :: u16
  tj_submit_deadline :: u64
  tj_result_hash :: "hash256 option"
  tj_result_metadata :: "u8 list"
  tj_submitted_at :: "u64 option"
  tj_challenge_deadline :: "u64 option"
  tj_dispute_reason :: "rstr option"
  tj_disputed_at :: "u64 option"
  tj_arbitration_deadline_at :: "u64 option"
  tj_arbitration_reassignments :: u8
  tj_prior_arbitrators :: "address list"
  tj_milestones :: "tool_milestone list"

definition is_milestone_job :: "tool_job \<Rightarrow> bool" where
  "is_milestone_job j \<longleftrightarrow> tj_milestones j \<noteq> []"

definition current_milestone_index :: "tool_job \<Rightarrow> nat option" where
  "current_milestone_index j = position (\<lambda>m. tm_status m \<noteq> TmCompleted) (tj_milestones j)"

definition current_milestone :: "tool_job \<Rightarrow> tool_milestone option" where
  "current_milestone j = Option.bind (current_milestone_index j) (get (tj_milestones j))"

definition completed_milestone_amount :: "tool_job \<Rightarrow> u64" where
  "completed_milestone_amount j =
     sum_list (map tm_amount (filter (\<lambda>m. tm_status m = TmCompleted) (tj_milestones j)))"

definition unpaid_amount_from :: "tool_job \<Rightarrow> nat \<Rightarrow> u64" where
  "unpaid_amount_from j start_idx =
     sum_list (map tm_amount (filter (\<lambda>m. tm_status m \<noteq> TmCompleted) (drop start_idx (tj_milestones j))))"

definition clear_transient_result_state :: "tool_job \<Rightarrow> tool_job" where
  "clear_transient_result_state j =
     j\<lparr>tj_result_hash := None, tj_result_metadata := [], tj_submitted_at := None,
       tj_challenge_deadline := None, tj_dispute_reason := None, tj_disputed_at := None,
       tj_arbitration_deadline_at := None, tj_arbitration_reassignments := 0,
       tj_prior_arbitrators := []\<rparr>"

definition reopen_milestone :: "u64 \<Rightarrow> tool_milestone \<Rightarrow> tool_milestone" where
  "reopen_milestone deadline m =
     m\<lparr>tm_status := TmPending, tm_submit_deadline := Some deadline, tm_result_hash := None,
       tm_result_metadata := [], tm_submitted_at := None, tm_challenge_deadline := None,
       tm_dispute_reason := None, tm_disputed_at := None\<rparr>"

definition open_current_milestone :: "tool_job \<Rightarrow> u64 \<Rightarrow> tool_job" where
  "open_current_milestone j now_ms =
     (let deadline = saturating_add now_ms (tj_sla_ms j)
      in case current_milestone_index j of
           None \<Rightarrow> j
         | Some idx \<Rightarrow>
             clear_transient_result_state
               (j\<lparr>tj_milestones := (tj_milestones j)[idx := reopen_milestone deadline (tj_milestones j ! idx)],
                  tj_status := JobOpen, tj_submit_deadline := deadline\<rparr>))"

subsection \<open>Lemmas\<close>

lemma sum_filter_split:
  "sum_list (map f (filter P xs)) + sum_list (map f (filter (\<lambda>x. \<not> P x) xs))
     = (sum_list (map f xs) :: u64)"
  by (induction xs) (auto simp: algebra_simps)

lemma current_index_before:
  assumes "current_milestone_index j = Some i"
  shows "i < length (tj_milestones j)" "tm_status (tj_milestones j ! i) \<noteq> TmCompleted"
    "filter (\<lambda>m. tm_status m \<noteq> TmCompleted) (take i (tj_milestones j)) = []"
proof -
  from assms have *: "i < length (tj_milestones j) \<and> tm_status (tj_milestones j ! i) \<noteq> TmCompleted
      \<and> (\<forall>k < i. tm_status (tj_milestones j ! k) = TmCompleted)"
    by (simp add: current_milestone_index_def position_eq_Some)
  then show "i < length (tj_milestones j)" "tm_status (tj_milestones j ! i) \<noteq> TmCompleted" by auto
  from * show "filter (\<lambda>m. tm_status m \<noteq> TmCompleted) (take i (tj_milestones j)) = []"
    by (auto simp: filter_empty_conv in_set_conv_nth)
qed

lemma unpaid_from_current:
  assumes "current_milestone_index j = Some i"
  shows "unpaid_amount_from j i = unpaid_amount_from j 0"
proof -
  have "filter (\<lambda>m. tm_status m \<noteq> TmCompleted) (tj_milestones j)
      = filter (\<lambda>m. tm_status m \<noteq> TmCompleted) (take i (tj_milestones j))
        @ filter (\<lambda>m. tm_status m \<noteq> TmCompleted) (drop i (tj_milestones j))"
    by (metis append_take_drop_id filter_append)
  then show ?thesis
    by (simp add: unpaid_amount_from_def current_index_before(3) [OF assms])
qed

subsection \<open>Properties\<close>

text \<open>Milestone money is partitioned: what completed milestones have paid plus what is
  unpaid from the current milestone on equals the total of all milestone amounts; when no
  milestone is current, everything has been paid.\<close>

theorem milestone_amounts_partition:
  "completed_milestone_amount j
     + (case current_milestone_index j of Some i \<Rightarrow> unpaid_amount_from j i | None \<Rightarrow> 0)
   = sum_list (map tm_amount (tj_milestones j))"
proof (cases "current_milestone_index j")
  case None
  then have "filter (\<lambda>m. tm_status m = TmCompleted) (tj_milestones j) = tj_milestones j"
    by (simp add: current_milestone_index_def position_eq_None filter_id_conv)
  with None show ?thesis by (simp add: completed_milestone_amount_def)
next
  case (Some i)
  then show ?thesis
    using sum_filter_split [of tm_amount "\<lambda>m. tm_status m = TmCompleted" "tj_milestones j"]
    by (simp add: unpaid_from_current completed_milestone_amount_def)
      (simp add: unpaid_amount_from_def)
qed

text \<open>Opening the current milestone: nothing happens when all are completed; otherwise
  the same milestone stays current, is pending with a deadline one SLA from now and no trace
  of an earlier submission or dispute, the job is open with that deadline, and every other
  milestone, every amount and the escrow are as before.\<close>

theorem open_current_milestone_correct:
  "case current_milestone_index j of
     None \<Rightarrow> open_current_milestone j now = j
   | Some i \<Rightarrow>
       (let j' = open_current_milestone j now;
            m' = tj_milestones j' ! i
        in current_milestone_index j' = Some i \<and> tm_status m' = TmPending
           \<and> tm_submit_deadline m' = Some (saturating_add now (tj_sla_ms j))
           \<and> tm_result_hash m' = None \<and> tm_submitted_at m' = None \<and> tm_disputed_at m' = None
           \<and> tj_status j' = JobOpen \<and> tj_submit_deadline j' = saturating_add now (tj_sla_ms j)
           \<and> tj_result_hash j' = None \<and> tj_disputed_at j' = None \<and> tj_prior_arbitrators j' = []
           \<and> tj_milestones j' = (tj_milestones j)[i := m']
           \<and> map tm_amount (tj_milestones j') = map tm_amount (tj_milestones j)
           \<and> tj_amount_escrowed j' = tj_amount_escrowed j
           \<and> completed_milestone_amount j' = completed_milestone_amount j)"
proof (cases "current_milestone_index j")
  case None
  then show ?thesis by (simp add: open_current_milestone_def Let_def)
next
  case (Some i)
  let ?j = "open_current_milestone j now" and ?d = "saturating_add now (tj_sla_ms j)"
  let ?m = "reopen_milestone ?d (tj_milestones j ! i)"
  note cur = current_index_before [OF Some]
  have ms: "tj_milestones ?j = (tj_milestones j)[i := ?m]"
    by (simp add: open_current_milestone_def Some clear_transient_result_state_def Let_def)
  have split: "tj_milestones j = take i (tj_milestones j) @ tj_milestones j ! i # drop (Suc i) (tj_milestones j)"
    "tj_milestones ?j = take i (tj_milestones j) @ ?m # drop (Suc i) (tj_milestones j)"
    using cur(1) by (simp_all add: ms id_take_nth_drop [symmetric] upd_conv_take_nth_drop)
  have "current_milestone_index ?j = Some i"
    using Some cur(1)
    by (auto simp: current_milestone_index_def position_eq_Some ms reopen_milestone_def)
  moreover have "map tm_amount (tj_milestones ?j) = map tm_amount (tj_milestones j)"
    by (subst split(1), subst split(2)) (simp add: reopen_milestone_def)
  moreover have "completed_milestone_amount ?j = completed_milestone_amount j"
    unfolding completed_milestone_amount_def
    by (subst split(1), subst split(2)) (simp add: reopen_milestone_def cur(2))
  ultimately show ?thesis
    using Some cur(1) by (simp add: Let_def ms reopen_milestone_def)
      (simp add: open_current_milestone_def clear_transient_result_state_def Let_def)
qed

text \<open>The divisor of \<open>ranked_score\<close>: the five presets' weights add up to 100, but the
  sum is computed in \<open>u8\<close>, so weights inside the documented range of 0 to 100 can overflow
  it; it is defined exactly when the weights sum to at most 255.\<close>

theorem ranked_weight_total_range:
  "map ranked_weight_total
     [prefs_default, prefs_cheapest, prefs_most_reliable, prefs_discover_new, prefs_most_popular]
     = [Some 100, Some 100, Some 100, Some 100, Some 100]
   \<and> (ranked_weight_total p \<noteq> None \<longleftrightarrow>
        unat (w_reliability p) + unat (w_price p) + unat (w_quality p) + unat (w_popularity p)
          + unat (w_freshness p) < 256)
   \<and> ranked_weight_total
       (prefs_default\<lparr>w_reliability := 100, w_price := 100, w_quality := 100\<rparr>) = None"
proof (intro conjI)
  let ?ws = "[w_price p, w_quality p, w_popularity p, w_freshness p]"
  have "try_fold checked_add (w_reliability p) ?ws \<noteq> None \<longleftrightarrow>
      unat (w_reliability p) + (\<Sum>x\<leftarrow>?ws. unat x) < 256"
    using try_fold_checked_add_None [of "\<lambda>x. x" "w_reliability p" ?ws] by auto
  then show "ranked_weight_total p \<noteq> None \<longleftrightarrow>
        unat (w_reliability p) + unat (w_price p) + unat (w_quality p) + unat (w_popularity p)
          + unat (w_freshness p) < 256"
    by (simp only: ranked_weight_total_def option.map_disc_iff) (simp add: add.assoc)
qed (simp_all add: ranked_weight_total_def prefs_default_def prefs_cheapest_def
      prefs_most_reliable_def prefs_discover_new_def prefs_most_popular_def checked_add_def)

end
