(* ===== verification/Tool_Access.thy ===== *)
theory Tool_Access
  imports Wire
begin

text \<open>
  Paid tool access (\<open>primitives/tool.rs\<close>): access tokens and their permanent receipts, the
  signed access request an invoker presents, and \<open>ToolVerifier\<close>, which a tool's endpoint
  runs on every request.

  The verifier talks to two traits. \<open>ChainVerifier\<close> answers questions about the chain and
  \<open>ReplayStore\<close> remembers which tokens were served; \<open>verify_access\<close> takes their operations as
  arguments. The contracts the trait comments state are the locales \<open>chain_verifier\<close> and
  \<open>replay_store\<close>, interpreted on the two implementations the source has,
  \<open>HashSetChainVerifier\<close> and \<open>InMemoryReplayStore\<close>; the security lemmas are proved once, in
  \<open>tool_verifier\<close>, from the contracts alone.
\<close>

subsection \<open>Tokens and receipts\<close>

record access_token =
  at_tool_id :: hash256
  at_invoker :: address
  at_token_id :: hash256
  at_block_number :: u64
  at_amount_paid :: u64
  at_issued_at :: u64
  at_nonce :: u64
  at_block_hash :: hash256
  at_consumed_by :: "hash256 option"

definition serialize_access_token :: "access_token \<Rightarrow> u8 list" where
  "serialize_access_token t =
     write_hash (at_tool_id t) @ write_addr (at_invoker t) @ write_hash (at_token_id t)
     @ write_u64 (at_block_number t) @ write_u64 (at_amount_paid t) @ write_u64 (at_issued_at t)
     @ write_u64 (at_nonce t) @ write_hash (at_block_hash t)
     @ write_option write_hash (at_consumed_by t)"

definition serialize_for_commitment :: "access_token \<Rightarrow> u8 list" where
  "serialize_for_commitment t = serialize_access_token (t\<lparr>at_block_hash := hash_zero\<rparr>)"

definition token_signable_bytes :: "access_token \<Rightarrow> u8 list" where
  "token_signable_bytes t =
     hash_as_bytes (at_tool_id t) @ addr_bytes (at_invoker t) @ hash_as_bytes (at_token_id t)
     @ to_be_bytes (at_block_number t) @ to_be_bytes (at_amount_paid t)
     @ to_be_bytes (at_issued_at t) @ to_be_bytes (at_nonce t)"

definition token_to_hex :: "externs \<Rightarrow> access_token \<Rightarrow> rstr" where
  "token_to_hex X t = hex_encode X (serialize_access_token t)"

record access_token_receipt =
  ar_token_id :: hash256
  ar_tool_id :: hash256
  ar_invoker :: address
  ar_amount_paid :: u64
  ar_issued_at :: u64
  ar_block_number :: u64
  ar_nonce :: u64

record token_consumption_record =
  tc_task_id :: hash256
  tc_storage_deposit :: u64

record receipt_with_proof =
  rp_receipt :: access_token_receipt
  rp_proof_siblings :: "(hash256 \<times> bool) list"
  rp_receipt_root :: hash256

definition CANONICAL_DOMAIN_V1 :: "u8 list" where
  "CANONICAL_DOMAIN_V1 = utf8 (lit ''ZINCHA_RECEIPT_V1'')"

definition receipt_from_token :: "access_token \<Rightarrow> access_token_receipt" where
  "receipt_from_token t =
     \<lparr>ar_token_id = at_token_id t, ar_tool_id = at_tool_id t, ar_invoker = at_invoker t,
      ar_amount_paid = at_amount_paid t, ar_issued_at = at_issued_at t,
      ar_block_number = at_block_number t, ar_nonce = at_nonce t\<rparr>"

definition canonical_bytes :: "access_token_receipt \<Rightarrow> u8 list" where
  "canonical_bytes r =
     CANONICAL_DOMAIN_V1 @ hash_as_bytes (ar_token_id r) @ hash_as_bytes (ar_tool_id r)
     @ addr_bytes (ar_invoker r) @ to_be_bytes (ar_amount_paid r) @ to_be_bytes (ar_issued_at r)
     @ to_be_bytes (ar_block_number r) @ to_be_bytes (ar_nonce r)"

definition leaf_hash :: "externs \<Rightarrow> access_token_receipt \<Rightarrow> hash256" where
  "leaf_hash X r = hash_bytes X (canonical_bytes r)"

subsection \<open>Access requests\<close>

record tool_access_request =
  rq_token :: access_token
  rq_invoker_proof :: "u8 list"
  rq_invoker_pubkey :: "u8 list"

definition access_request_new :: "externs \<Rightarrow> access_token \<Rightarrow> keypair \<Rightarrow> tool_access_request" where
  "access_request_new X token invoker_keypair =
     (let token_hash = hash_bytes X (token_signable_bytes token);
          sig = kp_sign X invoker_keypair (hash_as_bytes token_hash)
      in \<lparr>rq_token = token, rq_invoker_proof = sig_bytes sig,
          rq_invoker_pubkey = pk_bytes (kp_public_key X invoker_keypair)\<rparr>)"

datatype tool_verify_error =
    ChainVerificationFailed hash256 | InvalidInvokerProof | WrongTool hash256 hash256
  | InsufficientPayment u64 u64 | AlreadyConsumed hash256 | ReplayDetected hash256
  | TokenExpired u64 u64

subsection \<open>The two stores of the source\<close>

record hash_set_chain_verifier =
  hv_known_tokens :: "hash256 \<rightharpoonup> access_token"
  hv_consumptions :: "hash256 \<rightharpoonup> hash256"

definition chain_verifier_new :: hash_set_chain_verifier where
  "chain_verifier_new = \<lparr>hv_known_tokens = Map.empty, hv_consumptions = Map.empty\<rparr>"

definition add_token :: "hash_set_chain_verifier \<Rightarrow> access_token \<Rightarrow> hash_set_chain_verifier" where
  "add_token c token = c\<lparr>hv_known_tokens := (hv_known_tokens c)(at_token_id token \<mapsto> token)\<rparr>"

definition add_consumption ::
  "hash_set_chain_verifier \<Rightarrow> hash256 \<Rightarrow> hash256 \<Rightarrow> hash_set_chain_verifier" where
  "add_consumption c token_id task_id =
     c\<lparr>hv_consumptions := (hv_consumptions c)(token_id \<mapsto> task_id)\<rparr>"

definition verify_access_token :: "hash_set_chain_verifier \<Rightarrow> access_token \<Rightarrow> bool" where
  "verify_access_token c token =
     (case hv_known_tokens c (at_token_id token) of
        Some on_chain \<Rightarrow>
          at_block_hash on_chain = at_block_hash token
          \<and> at_tool_id on_chain = at_tool_id token
          \<and> at_invoker on_chain = at_invoker token
          \<and> at_amount_paid on_chain = at_amount_paid token
          \<and> at_block_number on_chain = at_block_number token
          \<and> at_issued_at on_chain = at_issued_at token
          \<and> at_nonce on_chain = at_nonce token
          \<and> at_block_hash on_chain \<noteq> hash_zero
      | None \<Rightarrow> False)"

definition get_consumed_by :: "hash_set_chain_verifier \<Rightarrow> hash256 \<Rightarrow> hash256 option" where
  "get_consumed_by c token_id = hv_consumptions c token_id"

record in_memory_replay_store =
  mr_used :: "hash256 set"

definition replay_store_new :: in_memory_replay_store where
  "replay_store_new = \<lparr>mr_used = {}\<rparr>"

text \<open>\<open>HashSet::insert\<close>: whether the value was new, and the set with it.\<close>

definition try_use :: "in_memory_replay_store \<Rightarrow> hash256 \<Rightarrow> bool \<times> in_memory_replay_store" where
  "try_use r token_id = (token_id \<notin> mr_used r, r\<lparr>mr_used := insert token_id (mr_used r)\<rparr>)"

subsection \<open>The verifier\<close>

record tool_verifier_config =
  tv_tool_id :: hash256
  tv_max_age_ms :: u64
  tv_min_price :: u64

definition tool_verifier_new :: "hash256 \<Rightarrow> tool_verifier_config" where
  "tool_verifier_new tool_id = \<lparr>tv_tool_id = tool_id, tv_max_age_ms = 3600000, tv_min_price = 0\<rparr>"

definition with_max_age_ms :: "tool_verifier_config \<Rightarrow> u64 \<Rightarrow> tool_verifier_config" where
  "with_max_age_ms v ms = v\<lparr>tv_max_age_ms := ms\<rparr>"

definition with_min_price :: "tool_verifier_config \<Rightarrow> u64 \<Rightarrow> tool_verifier_config" where
  "with_min_price v price = v\<lparr>tv_min_price := price\<rparr>"

text \<open>Step 3 of \<open>verify\<close>: the presenter holds the invoker's key.\<close>

definition check_invoker_proof :: "externs \<Rightarrow> tool_access_request \<Rightarrow> bool" where
  "check_invoker_proof X rq =
     (let token = rq_token rq;
          token_hash = hash_bytes X (token_signable_bytes token)
      in if length (rq_invoker_proof rq) \<noteq> 64 \<or> length (rq_invoker_pubkey rq) \<noteq> 32 then False
         else (case pk_from_bytes X (rq_invoker_pubkey rq) of
             Err _ \<Rightarrow> False
           | Ok invoker_pk \<Rightarrow>
               if from_public_key X invoker_pk \<noteq> at_invoker token then False
               else (case sig_from_bytes (rq_invoker_proof rq) of
                   Err _ \<Rightarrow> False
                 | Ok sig \<Rightarrow> is_ok (pk_verify X invoker_pk (hash_as_bytes token_hash) sig))))"

text \<open>\<open>ToolVerifier::verify\<close>. The two trait objects are the operations \<open>verify_token\<close>,
  \<open>consumed_by\<close> and \<open>use_token\<close>; the clock reading is \<open>now_ms\<close>; the replay store is threaded.\<close>

definition verify_access ::
  "externs \<Rightarrow> (access_token \<Rightarrow> bool) \<Rightarrow> (hash256 \<Rightarrow> hash256 option) \<Rightarrow> ('r \<Rightarrow> hash256 \<Rightarrow> bool \<times> 'r)
   \<Rightarrow> tool_verifier_config \<Rightarrow> u64 \<Rightarrow> 'r \<Rightarrow> tool_access_request \<Rightarrow> (tool_verify_error + unit) \<times> 'r" where
  "verify_access X verify_token consumed_by use_token v now_ms store rq =
     (let token = rq_token rq in
      if \<not> verify_token token then (Err (ChainVerificationFailed (at_token_id token)), store)
      else if at_tool_id token \<noteq> tv_tool_id v
      then (Err (WrongTool (tv_tool_id v) (at_tool_id token)), store)
      else if \<not> check_invoker_proof X rq then (Err InvalidInvokerProof, store)
      else if 0 < tv_min_price v \<and> at_amount_paid token < tv_min_price v
      then (Err (InsufficientPayment (at_amount_paid token) (tv_min_price v)), store)
      else (case consumed_by (at_token_id token) of
          Some task_id \<Rightarrow> (Err (AlreadyConsumed task_id), store)
        | None \<Rightarrow>
            if 0 < tv_max_age_ms v \<and> tv_max_age_ms v < saturating_sub now_ms (at_issued_at token)
            then (Err (TokenExpired (at_issued_at token) (tv_max_age_ms v)), store)
            else
              let (fresh, store') = use_token store (at_token_id token)
              in if \<not> fresh then (Err (ReplayDetected (at_token_id token)), store')
                 else (Ok (), store')))"

text \<open>A verifier serving a sequence of requests: each comes with the time and the state of
  the chain at which it is handled.\<close>

fun serve ::
  "externs \<Rightarrow> ('c \<Rightarrow> access_token \<Rightarrow> bool) \<Rightarrow> ('c \<Rightarrow> hash256 \<Rightarrow> hash256 option)
   \<Rightarrow> ('r \<Rightarrow> hash256 \<Rightarrow> bool \<times> 'r) \<Rightarrow> tool_verifier_config \<Rightarrow> 'r
   \<Rightarrow> (u64 \<times> 'c \<times> tool_access_request) list \<Rightarrow> (tool_verify_error + unit) list \<times> 'r" where
  "serve X verify_token consumed_by use_token v store [] = ([], store)"
| "serve X verify_token consumed_by use_token v store ((now, c, rq) # rqs) =
     (let (res, store') = verify_access X (verify_token c) (consumed_by c) use_token v now store rq;
          (ress, store'') = serve X verify_token consumed_by use_token v store' rqs
      in (res # ress, store''))"

subsection \<open>Encodings\<close>

definition wf_token :: "access_token \<Rightarrow> bool" where
  "wf_token t \<longleftrightarrow> wf_hash (at_tool_id t) \<and> wf_addr (at_invoker t) \<and> wf_hash (at_token_id t)
     \<and> wf_hash (at_block_hash t) \<and> valid_opt wf_hash (at_consumed_by t)"

definition wf_receipt :: "access_token_receipt \<Rightarrow> bool" where
  "wf_receipt r \<longleftrightarrow> wf_hash (ar_tool_id r) \<and> wf_addr (ar_invoker r) \<and> wf_hash (ar_token_id r)"

interpretation tokenw: wire_format serialize_access_token wf_token
  by unfold_locales
    (simp add: serialize_access_token_def wf_token_def wire_append_iffs hashw.option_append_iff)

lemma be_bytes_append_iff:
  fixes v w :: u64
  shows "to_be_bytes v @ r = to_be_bytes w @ s \<longleftrightarrow> v = w \<and> r = s"
  by (simp add: append_eq_same_len to_be_bytes_inj)

lemma hash_append_iff:
  "wf_hash a \<Longrightarrow> wf_hash b \<Longrightarrow> hash_as_bytes a @ r = hash_as_bytes b @ s \<longleftrightarrow> a = b \<and> r = s"
  using hashw.append_iff [of a b r s] by (simp add: write_hash_def)

lemma addr_append_iff:
  "wf_addr a \<Longrightarrow> wf_addr b \<Longrightarrow> addr_bytes a @ r = addr_bytes b @ s \<longleftrightarrow> a = b \<and> r = s"
  using addrw.append_iff [of a b r s] by (simp add: write_addr_def)

interpretation receiptw: wire_format canonical_bytes wf_receipt
  by unfold_locales
    (simp add: canonical_bytes_def wf_receipt_def be_bytes_append_iff hash_append_iff addr_append_iff)

lemma token_signable_bytes_inj:
  "wf_token t \<Longrightarrow> wf_token u \<Longrightarrow> token_signable_bytes t = token_signable_bytes u \<longleftrightarrow>
   receipt_from_token t = receipt_from_token u"
  by (auto simp: token_signable_bytes_def wf_token_def receipt_from_token_def be_bytes_append_iff
      hash_append_iff addr_append_iff to_be_bytes_inj intro: hash256.expand)

subsection \<open>Contracts of the traits\<close>

text \<open>\<open>ChainVerifier\<close>: a verified token agrees in every field with the record the chain
  keeps under its id, and that record is stamped with a block.\<close>

locale chain_verifier =
  fixes verify_token :: "'c \<Rightarrow> access_token \<Rightarrow> bool"
    and consumed_by :: "'c \<Rightarrow> hash256 \<Rightarrow> hash256 option"
    and on_chain :: "'c \<Rightarrow> hash256 \<Rightarrow> access_token option"
  assumes verified_on_chain:
    "verify_token c t \<Longrightarrow> \<exists>r. on_chain c (at_token_id t) = Some r
       \<and> receipt_from_token t = (receipt_from_token r)\<lparr>ar_token_id := at_token_id t\<rparr>
       \<and> at_block_hash t = at_block_hash r \<and> at_block_hash r \<noteq> hash_zero"
begin

lemma verified_same_id:
  assumes "verify_token c t" "verify_token c u" "at_token_id t = at_token_id u"
  shows "receipt_from_token t = receipt_from_token u \<and> at_block_hash t = at_block_hash u"
  using verified_on_chain [OF assms(1)] verified_on_chain [OF assms(2)] assms(3) by auto

end

text \<open>\<open>ReplayStore\<close>: an atomic check-and-mark.\<close>

locale replay_store =
  fixes use_token :: "'r \<Rightarrow> hash256 \<Rightarrow> bool \<times> 'r"
    and used :: "'r \<Rightarrow> hash256 set"
  assumes claim_iff: "fst (use_token r h) \<longleftrightarrow> h \<notin> used r"
    and claim_marks: "used (snd (use_token r h)) = insert h (used r)"

locale tool_verifier =
  chain_verifier verify_token consumed_by on_chain + replay_store use_token used
  for verify_token :: "'c \<Rightarrow> access_token \<Rightarrow> bool"
    and consumed_by :: "'c \<Rightarrow> hash256 \<Rightarrow> hash256 option"
    and on_chain :: "'c \<Rightarrow> hash256 \<Rightarrow> access_token option"
    and use_token :: "'r \<Rightarrow> hash256 \<Rightarrow> bool \<times> 'r"
    and used :: "'r \<Rightarrow> hash256 set"
begin

lemma verify_Ok:
  "fst (verify_access X (verify_token c) (consumed_by c) use_token v now store rq) = Ok () \<longleftrightarrow>
     verify_token c (rq_token rq) \<and> at_tool_id (rq_token rq) = tv_tool_id v
     \<and> check_invoker_proof X rq
     \<and> (0 < tv_min_price v \<longrightarrow> tv_min_price v \<le> at_amount_paid (rq_token rq))
     \<and> consumed_by c (at_token_id (rq_token rq)) = None
     \<and> (0 < tv_max_age_ms v \<longrightarrow> saturating_sub now (at_issued_at (rq_token rq)) \<le> tv_max_age_ms v)
     \<and> at_token_id (rq_token rq) \<notin> used store"
  using claim_iff [of store "at_token_id (rq_token rq)"]
  by (auto simp: verify_access_def Let_def case_prod_unfold not_less split: option.splits if_splits)

lemma verify_used:
  "used (snd (verify_access X (verify_token c) (consumed_by c) use_token v now store rq)) =
     (if fst (verify_access X (verify_token c) (consumed_by c) use_token v now store rq) = Ok ()
      then insert (at_token_id (rq_token rq)) (used store) else used store)"
  using claim_iff [of store "at_token_id (rq_token rq)"] claim_marks [of store "at_token_id (rq_token rq)"]
  by (auto simp: verify_access_def Let_def case_prod_unfold split: option.splits)

lemma serve_length:
  "length (fst (serve X verify_token consumed_by use_token v store rqs)) = length rqs"
  by (induction rqs arbitrary: store) (auto simp: Let_def case_prod_unfold)

lemma serve_no_replay:
  "distinct (map (\<lambda>(res, now, c, rq). at_token_id (rq_token rq))
     (filter (\<lambda>(res, _). res = Ok ()) (zip (fst (serve X verify_token consumed_by use_token v store rqs)) rqs)))
   \<and> set (map (\<lambda>(res, now, c, rq). at_token_id (rq_token rq))
     (filter (\<lambda>(res, _). res = Ok ()) (zip (fst (serve X verify_token consumed_by use_token v store rqs)) rqs)))
     \<inter> used store = {}"
proof (induction rqs arbitrary: store)
  case Nil
  then show ?case by simp
next
  case (Cons q rqs)
  obtain now c rq where q: "q = (now, c, rq)" by (cases q) auto
  let ?step = "verify_access X (verify_token c) (consumed_by c) use_token v now store rq"
  have "at_token_id (rq_token rq) \<notin> used store" if "fst ?step = Ok ()"
    using that verify_Ok by blast
  with Cons [of "snd ?step"] verify_used [of X c v now store rq] show ?case
    by (auto simp: q Let_def case_prod_unfold)
qed

end

subsection \<open>The source's implementations meet the contracts\<close>

interpretation hash_set_verifier: chain_verifier verify_access_token get_consumed_by hv_known_tokens
  by unfold_locales
    (auto simp: verify_access_token_def receipt_from_token_def split: option.splits)

interpretation memory_replay: replay_store try_use mr_used
  by unfold_locales (auto simp: try_use_def)

interpretation endpoint: tool_verifier verify_access_token get_consumed_by hv_known_tokens try_use mr_used
  by unfold_locales

subsection \<open>Properties\<close>

definition demo_token :: access_token where
  "demo_token =
     \<lparr>at_tool_id = Hash256 (replicate 32 1), at_invoker = Address (replicate 20 7),
      at_token_id = Hash256 (replicate 32 2), at_block_number = 9, at_amount_paid = 100,
      at_issued_at = 1000, at_nonce = 5, at_block_hash = Hash256 (replicate 32 3),
      at_consumed_by = None\<rparr>"

definition demo_invoker :: keypair where
  "demo_invoker = Keypair (replicate 32 7)"

definition demo_verifier :: tool_verifier_config where
  "demo_verifier = with_min_price (tool_verifier_new (Hash256 (replicate 32 1))) 50"

definition demo_chain :: hash_set_chain_verifier where
  "demo_chain = add_token chain_verifier_new demo_token"

lemma demo_invoker_address: "kp_address demo_externs demo_invoker = at_invoker demo_token"
  by (simp add: kp_address_def from_public_key_def kp_public_key_def demo_invoker_def demo_externs_def
      demo_token_def)

lemma wf_demo_invoker: "wf_keypair demo_invoker"
  by (simp add: wf_keypair_def demo_invoker_def)

lemma honest_proof:
  assumes "ed25519_ok X" "wf_keypair k" "kp_address X k = at_invoker token"
  shows "check_invoker_proof X (access_request_new X token k)"
proof -
  have "wf_pk X (kp_public_key X k)" using assms by (simp add: wf_kp_public_key)
  moreover have "wf_sig (kp_sign X k m)" for m using assms by (simp add: wf_kp_sign)
  moreover have "pk_verify X (kp_public_key X k) m (kp_sign X k m) = Ok ()" for m
    using assms by (simp add: sign_verify)
  ultimately show ?thesis
    using assms(3)
    by (simp add: check_invoker_proof_def access_request_new_def Let_def pk_from_bytes_def
        sig_from_bytes_def wf_pk_def wf_sig_def kp_address_def)
qed

text \<open>(C31) No replay: however the chain and the clock change between requests, the requests
  that one verifier accepts in a run carry pairwise different token ids, none of which was
  used before the run.\<close>

theorem accepted_tokens_distinct:
  fixes X v store rqs
  defines "results \<equiv> fst (serve X verify_access_token get_consumed_by try_use v store rqs)"
  defines "accepted \<equiv> map (\<lambda>(res, now, c, rq). at_token_id (rq_token rq))
                        (filter (\<lambda>(res, _). res = Ok ()) (zip results rqs))"
  shows "length results = length rqs \<and> distinct accepted \<and> set accepted \<inter> mr_used store = {}"
  using endpoint.serve_no_replay [of X v store rqs] endpoint.serve_length [of X v store rqs]
  by (simp add: results_def accepted_def)

text \<open>(C32) Authenticity: an accepted request presents a token all of whose fields equal the
  record the chain holds under its id, in a stamped block; it is for this tool; its paying
  address is derived from the presented key, whose signature over the token verifies; it
  paid at least the floor, is not consumed and not older than the maximum age.\<close>

theorem accepted_request_authentic:
  assumes "fst (verify_access X (verify_access_token c) (get_consumed_by c) try_use v now store rq) = Ok ()"
  defines "t \<equiv> rq_token rq"
  shows "(\<exists>r. hv_known_tokens c (at_token_id t) = Some r
        \<and> (at_tool_id t, at_invoker t, at_amount_paid t, at_block_number t, at_issued_at t,
            at_nonce t, at_block_hash t)
          = (at_tool_id r, at_invoker r, at_amount_paid r, at_block_number r, at_issued_at r,
            at_nonce r, at_block_hash r)
        \<and> at_block_hash r \<noteq> hash_zero)
    \<and> at_tool_id t = tv_tool_id v
    \<and> from_public_key X (PublicKey (rq_invoker_pubkey rq)) = at_invoker t
    \<and> ed_verify X (rq_invoker_pubkey rq) (hash_as_bytes (hash_bytes X (token_signable_bytes t)))
        (rq_invoker_proof rq)
    \<and> tv_min_price v \<le> at_amount_paid t
    \<and> hv_consumptions c (at_token_id t) = None
    \<and> (tv_max_age_ms v = 0 \<or> unat now \<le> unat (at_issued_at t) + unat (tv_max_age_ms v))"
proof -
  from assms(1) have ok: "verify_access_token c t" "at_tool_id t = tv_tool_id v"
    "check_invoker_proof X rq" "0 < tv_min_price v \<longrightarrow> tv_min_price v \<le> at_amount_paid t"
    "get_consumed_by c (at_token_id t) = None"
    "0 < tv_max_age_ms v \<longrightarrow> saturating_sub now (at_issued_at t) \<le> tv_max_age_ms v"
    unfolding endpoint.verify_Ok t_def by simp_all
  from hash_set_verifier.verified_on_chain [OF ok(1)] obtain r
    where "hv_known_tokens c (at_token_id t) = Some r"
      "receipt_from_token t = (receipt_from_token r)\<lparr>ar_token_id := at_token_id t\<rparr>"
      "at_block_hash t = at_block_hash r" "at_block_hash r \<noteq> hash_zero" by blast
  moreover have "from_public_key X (PublicKey (rq_invoker_pubkey rq)) = at_invoker t
    \<and> ed_verify X (rq_invoker_pubkey rq) (hash_as_bytes (hash_bytes X (token_signable_bytes t)))
        (rq_invoker_proof rq)"
    using ok(3)
    by (auto simp: check_invoker_proof_def t_def Let_def pk_from_bytes_def sig_from_bytes_def
        pk_verify_def split: if_splits)
  moreover have "tv_min_price v \<le> at_amount_paid t" using ok(4) by (cases "tv_min_price v = 0") (auto simp: word_gt_0)
  moreover have "tv_max_age_ms v = 0 \<or> unat now \<le> unat (at_issued_at t) + unat (tv_max_age_ms v)"
    using ok(6) by (auto simp: word_gt_0 word_le_nat_alt word_nat_simps)
  ultimately show ?thesis
    using ok(2,5) by (auto simp: get_consumed_by_def receipt_from_token_def)
qed

text \<open>Completeness: a request built by \<open>ToolAccessRequest::new\<close> with the payer's key,
  for a stamped, unconsumed, fresh, sufficiently paid token of this tool that the chain
  knows, is accepted the first time and refused as a replay the second time.\<close>

theorem honest_request_accepted_once:
  assumes "ed25519_ok X" "wf_keypair k" "kp_address X k = at_invoker t"
    and "hv_known_tokens c (at_token_id t) = Some t" "at_block_hash t \<noteq> hash_zero"
    and "at_tool_id t = tv_tool_id v" "tv_min_price v \<le> at_amount_paid t"
    and "hv_consumptions c (at_token_id t) = None"
    and "unat now \<le> unat (at_issued_at t) + unat (tv_max_age_ms v)"
    and "at_token_id t \<notin> mr_used store"
  shows "fst (serve X verify_access_token get_consumed_by try_use v store
           [(now, c, access_request_new X t k), (now, c, access_request_new X t k)])
         = [Ok (), Err (ReplayDetected (at_token_id t))]"
proof -
  have "verify_access_token c t" using assms(4,5) by (simp add: verify_access_token_def)
  moreover have "saturating_sub now (at_issued_at t) \<le> tv_max_age_ms v"
    using assms(9) by (simp add: word_le_nat_alt word_nat_simps)
  moreover have "rq_token (access_request_new X t k) = t"
    by (simp add: access_request_new_def Let_def)
  ultimately show ?thesis
    using assms(6-8,10) honest_proof [OF assms(1-3)]
    by (simp add: verify_access_def Let_def try_use_def get_consumed_by_def not_less)
qed

lemma demo_token_facts:
  "at_block_hash demo_token \<noteq> hash_zero" "at_tool_id demo_token = tv_tool_id demo_verifier"
  "tv_min_price demo_verifier \<le> at_amount_paid demo_token"
  "unat (2000 :: u64) \<le> unat (at_issued_at demo_token) + unat (tv_max_age_ms demo_verifier)"
  "saturating_sub 2000 (at_issued_at demo_token) \<le> tv_max_age_ms demo_verifier"
  "hv_known_tokens demo_chain (at_token_id demo_token) = Some demo_token"
  "hv_consumptions demo_chain (at_token_id demo_token) = None"
  by (simp_all add: demo_chain_def add_token_def chain_verifier_new_def demo_verifier_def
      with_min_price_def tool_verifier_new_def demo_token_def hash_zero_def saturating_sub_def)

lemma demo_accepted:
  "fst (verify_access demo_externs (verify_access_token demo_chain) (get_consumed_by demo_chain)
     try_use demo_verifier 2000 replay_store_new (access_request_new demo_externs demo_token demo_invoker)) = Ok ()"
proof -
  have "rq_token (access_request_new demo_externs demo_token demo_invoker) = demo_token"
    by (simp add: access_request_new_def Let_def)
  then show ?thesis
    unfolding endpoint.verify_Ok
    using honest_proof [OF demo_ed25519_ok wf_demo_invoker demo_invoker_address]
      demo_token_facts
    by (simp add: verify_access_token_def get_consumed_by_def replay_store_new_def)
qed

theorem accepted_request_authentic_witness:
  "hv_consumptions demo_chain (at_token_id demo_token) = None \<and> (50 :: u64) \<le> at_amount_paid demo_token"
  using accepted_request_authentic [OF demo_accepted]
  by (simp add: access_request_new_def Let_def demo_verifier_def with_min_price_def
      tool_verifier_new_def)

theorem honest_request_accepted_once_witness:
  "fst (serve demo_externs verify_access_token get_consumed_by try_use demo_verifier replay_store_new
     [(2000, demo_chain, access_request_new demo_externs demo_token demo_invoker),
      (2000, demo_chain, access_request_new demo_externs demo_token demo_invoker)])
   = [Ok (), Err (ReplayDetected (at_token_id demo_token))]"
  by (rule honest_request_accepted_once [OF demo_ed25519_ok wf_demo_invoker demo_invoker_address])
    (use demo_token_facts in \<open>simp_all add: replay_store_new_def\<close>)

text \<open>A rejected request never spends a replay key, and an accepted one spends exactly
  its own, so a token refused for any other reason can still be served later.\<close>

theorem rejection_keeps_replay_keys:
  fixes X c v now store rq
  defines "r \<equiv> verify_access X (verify_access_token c) (get_consumed_by c) try_use v now store rq"
  shows "mr_used (snd r) = (if is_ok (fst r) then insert (at_token_id (rq_token rq)) (mr_used store)
                            else mr_used store)
    \<and> (is_ok (fst r) \<longleftrightarrow> mr_used (snd r) \<noteq> mr_used store)"
proof -
  have "is_ok (fst r) \<longleftrightarrow> fst r = Ok ()" by (cases "fst r") auto
  then show ?thesis
    using endpoint.verify_used [of X c v now store rq] endpoint.verify_Ok [of X c v now store rq]
    unfolding r_def by auto
qed

text \<open>Receipts commit to what was bought: where SHA-256 does not collide on the two
  canonical encodings, equal leaf hashes mean equal receipts; and the consensus encoding of
  a token ignores the block hash that is stamped later but nothing else.\<close>

theorem receipt_and_token_commitments:
  assumes "wf_receipt r" "wf_receipt r'" "inj_on (hash_bytes X) {canonical_bytes r, canonical_bytes r'}"
    and "wf_token t" "wf_token u"
  shows "(leaf_hash X r = leaf_hash X r' \<longleftrightarrow> r = r')
    \<and> (serialize_for_commitment t = serialize_for_commitment u \<longleftrightarrow>
         t\<lparr>at_block_hash := hash_zero\<rparr> = u\<lparr>at_block_hash := hash_zero\<rparr>)"
proof -
  have "leaf_hash X r = leaf_hash X r' \<longleftrightarrow> r = r'"
    using assms(3) receiptw.enc_inj [OF assms(1,2)] by (auto simp: leaf_hash_def dest: inj_onD)
  moreover have "wf_token (t\<lparr>at_block_hash := hash_zero\<rparr>)" "wf_token (u\<lparr>at_block_hash := hash_zero\<rparr>)"
    using assms(4,5) by (simp_all add: wf_token_def hash_zero_def wf_hash_def)
  ultimately show ?thesis by (simp add: serialize_for_commitment_def tokenw.enc_inj)
qed

theorem receipt_and_token_commitments_witness:
  "leaf_hash (tag_externs (canonical_bytes (receipt_from_token demo_token))) (receipt_from_token demo_token)
   \<noteq> leaf_hash (tag_externs (canonical_bytes (receipt_from_token demo_token)))
       ((receipt_from_token demo_token)\<lparr>ar_amount_paid := 1\<rparr>)"
proof -
  have "wf_receipt (receipt_from_token demo_token)" "wf_token demo_token"
    "wf_receipt ((receipt_from_token demo_token)\<lparr>ar_amount_paid := 1\<rparr>)"
    by (simp_all add: wf_receipt_def wf_token_def receipt_from_token_def demo_token_def wf_hash_def
        wf_addr_def valid_opt_def)
  from receipt_and_token_commitments [OF this(1,3) tag_inj_on(1) this(2,2)]
  show ?thesis by (simp add: receipt_from_token_def demo_token_def)
qed

end
