(* ===== verification/Task.thy ===== *)
theory Task
  imports Wire Floats
begin

text \<open>
  Tasks (\<open>primitives/task.rs\<close>): the task record and its lifecycle fields, matching preferences
  with their normalised weights, and the derivation of subtask identifiers.
  \<open>Capability\<close> (\<open>primitives/agent.rs\<close>) is here too, since tasks and agents share it.
\<close>

subsection \<open>Capabilities\<close>

datatype capability = Capability (cap_str: rstr)

text \<open>\<open>str::to_lowercase\<close> is the Unicode mapping of the standard library: \<open>lower\<close>.\<close>

definition capability_new :: "(rstr \<Rightarrow> rstr) \<Rightarrow> rstr \<Rightarrow> capability" where
  "capability_new lower s = Capability (lower s)"

definition text_generation :: "(rstr \<Rightarrow> rstr) \<Rightarrow> capability" where
  "text_generation lower = capability_new lower (lit ''ai.text.generation'')"
definition image_generation :: "(rstr \<Rightarrow> rstr) \<Rightarrow> capability" where
  "image_generation lower = capability_new lower (lit ''ai.image.generation'')"
definition code_execution :: "(rstr \<Rightarrow> rstr) \<Rightarrow> capability" where
  "code_execution lower = capability_new lower (lit ''ai.code.execution'')"
definition data_analysis :: "(rstr \<Rightarrow> rstr) \<Rightarrow> capability" where
  "data_analysis lower = capability_new lower (lit ''ai.data.analysis'')"
definition web_search :: "(rstr \<Rightarrow> rstr) \<Rightarrow> capability" where
  "web_search lower = capability_new lower (lit ''ai.web.search'')"
definition translation :: "(rstr \<Rightarrow> rstr) \<Rightarrow> capability" where
  "translation lower = capability_new lower (lit ''ai.text.translation'')"
definition summarization :: "(rstr \<Rightarrow> rstr) \<Rightarrow> capability" where
  "summarization lower = capability_new lower (lit ''ai.text.summarization'')"
definition trading :: "(rstr \<Rightarrow> rstr) \<Rightarrow> capability" where
  "trading lower = capability_new lower (lit ''finance.trading'')"
definition reasoning :: "(rstr \<Rightarrow> rstr) \<Rightarrow> capability" where
  "reasoning lower = capability_new lower (lit ''ai.reasoning'')"
definition tool_use :: "(rstr \<Rightarrow> rstr) \<Rightarrow> capability" where
  "tool_use lower = capability_new lower (lit ''ai.tool.use'')"
definition audio_processing :: "(rstr \<Rightarrow> rstr) \<Rightarrow> capability" where
  "audio_processing lower = capability_new lower (lit ''ai.audio.processing'')"
definition video_processing :: "(rstr \<Rightarrow> rstr) \<Rightarrow> capability" where
  "video_processing lower = capability_new lower (lit ''ai.video.processing'')"
definition embedding_capability :: "(rstr \<Rightarrow> rstr) \<Rightarrow> capability" where
  "embedding_capability lower = capability_new lower (lit ''ai.embedding'')"
definition fine_tuning :: "(rstr \<Rightarrow> rstr) \<Rightarrow> capability" where
  "fine_tuning lower = capability_new lower (lit ''ai.fine-tuning'')"
definition validation :: "(rstr \<Rightarrow> rstr) \<Rightarrow> capability" where
  "validation lower = capability_new lower (lit ''ai.validation'')"

text \<open>Decoding normalises the string it reads.\<close>

definition capability_deserialize :: "(rstr \<Rightarrow> rstr) \<Rightarrow> rstr \<Rightarrow> capability" where
  "capability_deserialize lower raw = Capability (lower raw)"

subsection \<open>Matching preferences\<close>

text \<open>The minimum reputation is only stored here, so it is carried by its bit pattern
  (\<open>0x4008000000000000\<close> is 3.0).\<close>

record match_preferences =
  mp_w_semantic :: u8
  mp_w_reputation :: u8
  mp_w_price :: u8
  mp_w_freshness :: u8
  mp_w_stake :: u8
  mp_min_reputation :: f64_bits
  mp_max_price :: u64
  mp_discovery_threshold :: u32
  mp_discovery_boost :: u8

definition match_prefs_default :: match_preferences where
  "match_prefs_default =
     \<lparr>mp_w_semantic = 30, mp_w_reputation = 30, mp_w_price = 20, mp_w_freshness = 10,
      mp_w_stake = 10, mp_min_reputation = 0, mp_max_price = 0,
      mp_discovery_threshold = 10, mp_discovery_boost = 15\<rparr>"

definition match_quality_first :: match_preferences where
  "match_quality_first =
     match_prefs_default\<lparr>mp_w_reputation := 50, mp_w_semantic := 30, mp_w_price := 5,
       mp_w_freshness := 5, mp_w_stake := 10, mp_min_reputation := 0x4008000000000000\<rparr>"

definition match_cheapest :: match_preferences where
  "match_cheapest =
     match_prefs_default\<lparr>mp_w_price := 60, mp_w_reputation := 15, mp_w_semantic := 15,
       mp_w_freshness := 5, mp_w_stake := 5\<rparr>"

definition match_discover_new :: match_preferences where
  "match_discover_new =
     match_prefs_default\<lparr>mp_w_freshness := 40, mp_w_semantic := 30, mp_w_price := 15,
       mp_w_reputation := 10, mp_w_stake := 5, mp_discovery_boost := 30,
       mp_discovery_threshold := 20\<rparr>"

text \<open>\<open>u16::from\<close> widens, so the sum of five weights cannot overflow.\<close>

definition weight_sum :: "match_preferences \<Rightarrow> u16" where
  "weight_sum p =
     max (ucast (mp_w_semantic p) + ucast (mp_w_reputation p) + ucast (mp_w_price p)
          + ucast (mp_w_freshness p) + ucast (mp_w_stake p)) 1"

definition match_weights :: "match_preferences \<Rightarrow> float \<times> float \<times> float \<times> float \<times> float" where
  "match_weights p =
     (let total = as_f64 (weight_sum p) in
      (div64 (as_f64 (mp_w_semantic p)) total, div64 (as_f64 (mp_w_reputation p)) total,
       div64 (as_f64 (mp_w_price p)) total, div64 (as_f64 (mp_w_freshness p)) total,
       div64 (as_f64 (mp_w_stake p)) total))"

subsection \<open>Tasks\<close>

datatype task_status = Pending | Matched | InProgress | Submitted | Disputed | Fulfilled
  | Failed | Expired | Cancelled | Decomposed

record task =
  tk_task_id :: hash256
  tk_requester :: address
  tk_description :: rstr
  tk_description_embedding :: "f32_bits list"
  tk_neural_embedding :: "f32_bits list"
  tk_required_capabilities :: "capability list"
  tk_max_fee :: u64
  tk_priority :: u8
  tk_deadline :: u64
  tk_parameters :: "u8 list"
  tk_status :: task_status
  tk_matched_agent :: "address option"
  tk_submitted_at_block :: u64
  tk_agreed_fee :: u64
  tk_challenge_window_ms :: u64
  tk_result_hash :: "hash256 option"
  tk_submitted_at :: "u64 option"
  tk_challenge_deadline :: "u64 option"
  tk_dispute_reason :: "rstr option"
  tk_disputed_at :: "u64 option"
  tk_arbitrator :: "address option"
  tk_arbitrator_fee_bps :: u16
  tk_arbitration_deadline_at :: "u64 option"
  tk_arbitration_reassignments :: u8
  tk_prior_arbitrators :: "address list"
  tk_resolved_by :: "address option"
  tk_resolution_agent_wins :: "bool option"
  tk_resolution_reason :: "rstr option"
  tk_resolved_at :: "u64 option"
  tk_tools_used :: "hash256 list"
  tk_verified_tools :: "hash256 list"
  tk_subtask_ids :: "hash256 list"
  tk_parent_task :: "hash256 option"
  tk_dependencies :: "u32 list"
  tk_input_refs :: "hash256 list"
  tk_match_preferences :: match_preferences
  tk_rated :: bool
  tk_requester_submission_neutralized :: bool
  tk_storage_deposit :: u64

definition task_is_expired :: "task \<Rightarrow> u64 \<Rightarrow> bool" where
  "task_is_expired t current_time_ms \<longleftrightarrow> tk_deadline t < current_time_ms"

definition is_matchable :: "task \<Rightarrow> bool" where
  "is_matchable t \<longleftrightarrow> tk_status t = Pending"

definition is_subtask :: "task \<Rightarrow> bool" where
  "is_subtask t \<longleftrightarrow> tk_parent_task t \<noteq> None"

definition clear_submission_lifecycle :: "task \<Rightarrow> task" where
  "clear_submission_lifecycle t =
     t\<lparr>tk_submitted_at := None, tk_challenge_deadline := None, tk_dispute_reason := None,
       tk_disputed_at := None, tk_arbitration_deadline_at := None,
       tk_arbitration_reassignments := 0, tk_prior_arbitrators := [], tk_arbitrator := None,
       tk_arbitrator_fee_bps := 0\<rparr>"

definition clear_resolution_metadata :: "task \<Rightarrow> task" where
  "clear_resolution_metadata t =
     t\<lparr>tk_resolved_by := None, tk_resolution_agent_wins := None, tk_resolution_reason := None,
       tk_resolved_at := None\<rparr>"

definition subtask_preimage :: "externs \<Rightarrow> hash256 \<Rightarrow> nat \<Rightarrow> u8 list" where
  "subtask_preimage X parent index =
     utf8 (hash_to_hex X parent @ lit '':subtask:'' @ show_nat index)"

definition derive_subtask_id :: "externs \<Rightarrow> hash256 \<Rightarrow> nat \<Rightarrow> hash256" where
  "derive_subtask_id X parent index = hash_bytes X (subtask_preimage X parent index)"

subsection \<open>Lemmas\<close>

lemma unat_u8: "unat (w :: u8) < 256"
  using unsigned_less [of w, where ?'a = nat] by simp

lemma unat_u8_widen [simp]: "unat (ucast (w :: u8) :: u16) = unat w"
  using unat_u8 [of w] by (simp add: unsigned_ucast_eq take_bit_nat_eq_self)

lemma unat_weight_sum:
  "unat (weight_sum p) =
     max (unat (mp_w_semantic p) + unat (mp_w_reputation p) + unat (mp_w_price p)
          + unat (mp_w_freshness p) + unat (mp_w_stake p)) 1"
  using unat_u8 [of "mp_w_semantic p"] unat_u8 [of "mp_w_reputation p"] unat_u8 [of "mp_w_price p"]
    unat_u8 [of "mp_w_freshness p"] unat_u8 [of "mp_w_stake p"]
  by (simp add: weight_sum_def unat_max unat_word_ariths)

text \<open>Each weight is the correctly rounded share of its field, between 0 and 1.\<close>

lemma weight_share:
  assumes "unat (w :: u8) \<le> unat (weight_sum p)"
  shows "in_range 0 1 (div64 (as_f64 w) (as_f64 (weight_sum p)))"
proof -
  have b: "unat w \<le> 2 ^ 53" "unat (weight_sum p) \<le> 2 ^ 53"
    using unat_u8 [of w] unsigned_less [of "weight_sum p", where ?'a = nat] by simp_all
  have pos: "0 < unat (weight_sum p)" by (simp add: unat_weight_sum)
  have "div64 (as_f64 w) (as_f64 (weight_sum p))
      = fround F64 False (of_nat (unat w) / of_nat (unat (weight_sum p)))"
    using pos unfolding as_f64_exact [OF b(1)] as_f64_exact [OF b(2)] by (simp del: of_nat_unat)
  moreover have "in_range 0 1 \<dots>"
    using assms pos by (intro f64.fround_range) (simp_all add: divide_le_eq del: of_nat_unat)
  ultimately show ?thesis by simp
qed

lemma match_weights_range:
  assumes "match_weights p = (ws, wr, wp, wfr, wk)"
  shows "in_range 0 1 ws" "in_range 0 1 wr" "in_range 0 1 wp" "in_range 0 1 wfr" "in_range 0 1 wk"
  using assms by (auto simp: match_weights_def Let_def intro!: weight_share, auto simp: unat_weight_sum)

text \<open>Subtask identifiers: the text after the last colon is the index.\<close>

lemma hash_to_hex_chars:
  "hex_ok X \<Longrightarrow> c \<in> set (hash_to_hex X h) \<Longrightarrow> is_ascii_digit c \<or> 0x61 \<le> c \<and> c \<le> 0x66"
  by (auto simp: hex_ok_def hash_to_hex_def list_all_iff)

lemma hash_to_hex_inj: "hex_ok X \<Longrightarrow> hash_to_hex X a = hash_to_hex X b \<longleftrightarrow> a = b"
  by (metis hash256.expand hash_to_hex_def hex_ok_def option.inject)

lemma subtask_preimage_inj:
  assumes "hex_ok X" "wf_hash p" "wf_hash q"
  shows "subtask_preimage X p i = subtask_preimage X q j \<longleftrightarrow> p = q \<and> i = j"
proof -
  have wf: "wf_str (hash_to_hex X h @ lit '':subtask:'' @ show_nat n)" for h n
    using hash_to_hex_chars [OF assms(1), of _ h] show_nat_digits [of _ n]
    by (fastforce simp: wf_str_def is_scalar_def list_all_iff is_ascii_digit_def)
  have "length (hash_to_hex X p) = length (hash_to_hex X q)"
    using assms by (simp add: hex_ok_def hash_to_hex_def wf_hash_def)
  then show ?thesis
    using hash_to_hex_inj [OF assms(1)] unfolding subtask_preimage_def utf8_inj [OF wf wf]
    by (simp add: show_nat_inj)
qed

text \<open>The derived subtask identifiers separate both the parents and the positions.\<close>

lemma subtask_id_unique:
  assumes "hex_ok X" "wf_hash p" "wf_hash q"
    and "inj_on (hash_bytes X) {subtask_preimage X p i, subtask_preimage X q j}"
  shows "derive_subtask_id X p i = derive_subtask_id X q j \<longleftrightarrow> p = q \<and> i = j"
  unfolding derive_subtask_id_def hash_bytes_eq_iff [OF assms(4)] by (rule subtask_preimage_inj [OF assms(1-3)])

end
