(* ===== verification/Payload_Tool.thy ===== *)
theory Payload_Tool
  imports Subscription Tool_Job Tool_Access Task
begin

text \<open>
  The payloads of the tool transactions (\<open>primitives/tool.rs\<close>): what a tool owner, a
  requester or an arbitrator puts into \<open>Transaction.data\<close>. Each structure comes with its
  \<open>bincode\<close> encoding (\<open>write_*\<close>, fields in declaration order, enumerations as a 32-bit index,
  floats as their bit pattern), the values it can represent (\<open>valid_*\<close>) and an interpretation
  of \<open>wire_format\<close>: no payload's encoding is a prefix of another's. The rules are collected in
  \<open>wire_iffs\<close>.

  Decoding is left to the \<open>bincode\<close> crate, an argument of the functions that call it.
\<close>

named_theorems wire_iffs "equality of concatenated encodings"

lemma valid_opt_True [simp]: "valid_opt (\<lambda>_. True) x"
  by (simp add: valid_opt_def split: option.split)

lemma valid_vec_True [simp]: "valid_vec (\<lambda>_. True) = fits_u64"
  by (simp add: fun_eq_iff valid_vec_def list_all_iff)

subsection \<open>Building blocks\<close>

definition write_raw :: "u8 list \<Rightarrow> u8 list" where
  "write_raw bs = bs"

definition fits_32 :: "u8 list \<Rightarrow> bool" where
  "fits_32 bs \<longleftrightarrow> length bs = 32"

definition pk_fits :: "public_key \<Rightarrow> bool" where
  "pk_fits k \<longleftrightarrow> length (pk_bytes k) = 32"

definition write_capability :: "capability \<Rightarrow> u8 list" where
  "write_capability c = write_string (cap_str c)"

definition valid_capability :: "capability \<Rightarrow> bool" where
  "valid_capability c \<longleftrightarrow> valid_string (cap_str c)"

interpretation rawk: wire_format write_raw fits_32
  by unfold_locales (auto simp: write_raw_def fits_32_def append_eq_same_len)

interpretation pubk: wire_format write_pk pk_fits
  by unfold_locales (auto simp: write_pk_def pk_fits_def append_eq_same_len intro: public_key.expand)

interpretation capw: wire_format write_capability valid_capability
  by unfold_locales
    (auto simp: write_capability_def valid_capability_def stringw.append_iff intro: capability.expand)

interpretation u32s: wire_format "write_vec write_u32" fits_u64
  using u32w.vec_format by simp

interpretation caps: wire_format "write_vec write_capability" "valid_vec valid_capability"
  by (rule capw.vec_format)

lemmas u8w_iffs [wire_iffs] = u8w.append_iff u8w.option_append_iff
lemmas u16w_iffs [wire_iffs] = u16w.append_iff u16w.option_append_iff
lemmas u32w_iffs [wire_iffs] = u32w.append_iff u32w.option_append_iff u32w.vec_append_iff
lemmas u64w_iffs [wire_iffs] = u64w.append_iff u64w.option_append_iff
lemmas boolw_iffs [wire_iffs] = boolw.append_iff boolw.option_append_iff
lemmas bytesw_iffs [wire_iffs] = bytesw.append_iff bytesw.option_append_iff
lemmas stringw_iffs [wire_iffs] = stringw.append_iff stringw.option_append_iff stringw.vec_append_iff
lemmas hashw_iffs [wire_iffs] = hashw.append_iff hashw.option_append_iff hashw.vec_append_iff
lemmas addrw_iffs [wire_iffs] = addrw.append_iff addrw.option_append_iff addrw.vec_append_iff
lemmas sigw_iffs [wire_iffs] = sigw.append_iff sigw.option_append_iff
lemmas rawk_iffs [wire_iffs] = rawk.append_iff
lemmas pubk_iffs [wire_iffs] = pubk.append_iff pubk.option_append_iff
lemmas capw_iffs [wire_iffs] = capw.append_iff capw.vec_append_iff
lemmas u32s_iffs [wire_iffs] = u32s.option_append_iff
lemmas caps_iffs [wire_iffs] = caps.option_append_iff

subsection \<open>Registering and updating tools\<close>

datatype http_tool_settlement_mode =
    PrepaidAccess | ResultEscrowed | MeteredUsage | MilestoneEscrowed

definition write_http_tool_settlement_mode :: "http_tool_settlement_mode \<Rightarrow> u8 list" where
  "write_http_tool_settlement_mode p =
     write_u32 (case p of PrepaidAccess \<Rightarrow> 0 | ResultEscrowed \<Rightarrow> 1
       | MeteredUsage \<Rightarrow> 2 | MilestoneEscrowed \<Rightarrow> 3)"

interpretation modew: wire_format write_http_tool_settlement_mode "\<lambda>_. True"
  by unfold_locales (auto simp: write_http_tool_settlement_mode_def u32w.append_iff split: http_tool_settlement_mode.splits)

lemmas modew_iffs [wire_iffs] = modew.append_iff modew.option_append_iff

datatype tool_arbitration_policy =
    Protocol

definition write_tool_arbitration_policy :: "tool_arbitration_policy \<Rightarrow> u8 list" where
  "write_tool_arbitration_policy p =
     write_u32 (case p of Protocol \<Rightarrow> 0)"

interpretation policyw: wire_format write_tool_arbitration_policy "\<lambda>_. True"
  by unfold_locales (auto simp: write_tool_arbitration_policy_def u32w.append_iff split: tool_arbitration_policy.splits)

lemmas policyw_iffs [wire_iffs] = policyw.append_iff policyw.option_append_iff

definition write_overage_policy :: "overage_policy \<Rightarrow> u8 list" where
  "write_overage_policy p =
     write_u32 (case p of OverageDeny \<Rightarrow> 0 | OveragePayAsYouGo \<Rightarrow> 1)"

interpretation overagew: wire_format write_overage_policy "\<lambda>_. True"
  by unfold_locales (auto simp: write_overage_policy_def u32w.append_iff split: overage_policy.splits)

lemmas overagew_iffs [wire_iffs] = overagew.append_iff overagew.option_append_iff

record tool_register_data =
  trd_name :: rstr
  trd_description :: rstr
  trd_endpoint :: rstr
  trd_price_per_call :: u64
  trd_settlement_mode :: http_tool_settlement_mode
  trd_sla_ms :: u64
  trd_challenge_window_ms :: u64
  trd_max_result_metadata_bytes :: u32
  trd_arbitration_policy :: tool_arbitration_policy
  trd_capabilities :: "capability list"
  trd_match_enabled :: bool
  trd_neural_embedding :: "f32_bits list option"
  trd_version :: rstr

definition write_tool_register_data :: "tool_register_data \<Rightarrow> u8 list" where
  "write_tool_register_data d =
     write_string (trd_name d) @ write_string (trd_description d) @ write_string (trd_endpoint d)
     @ write_u64 (trd_price_per_call d) @ write_http_tool_settlement_mode (trd_settlement_mode d)
     @ write_u64 (trd_sla_ms d) @ write_u64 (trd_challenge_window_ms d)
     @ write_u32 (trd_max_result_metadata_bytes d)
     @ write_tool_arbitration_policy (trd_arbitration_policy d)
     @ write_vec write_capability (trd_capabilities d) @ write_bool (trd_match_enabled d)
     @ write_option (write_vec write_u32) (trd_neural_embedding d) @ write_string (trd_version d)"

definition valid_tool_register_data :: "tool_register_data \<Rightarrow> bool" where
  "valid_tool_register_data d \<longleftrightarrow>
     valid_string (trd_name d) \<and> valid_string (trd_description d)
     \<and> valid_string (trd_endpoint d) \<and> valid_vec valid_capability (trd_capabilities d)
     \<and> valid_opt fits_u64 (trd_neural_embedding d) \<and> valid_string (trd_version d)"

interpretation tool_registerw: wire_format write_tool_register_data valid_tool_register_data
  by unfold_locales (simp add: write_tool_register_data_def valid_tool_register_data_def wire_iffs)

record tool_update_data =
  tup_tool_id :: hash256
  tup_description :: "rstr option"
  tup_endpoint :: "rstr option"
  tup_price_per_call :: "u64 option"
  tup_settlement_mode :: "http_tool_settlement_mode option"
  tup_sla_ms :: "u64 option"
  tup_challenge_window_ms :: "u64 option"
  tup_max_result_metadata_bytes :: "u32 option"
  tup_arbitration_policy :: "tool_arbitration_policy option"
  tup_capabilities :: "capability list option"
  tup_match_enabled :: "bool option"
  tup_neural_embedding :: "f32_bits list option"
  tup_version :: "rstr option"
  tup_active :: "bool option"

definition write_tool_update_data :: "tool_update_data \<Rightarrow> u8 list" where
  "write_tool_update_data d =
     write_hash (tup_tool_id d) @ write_option write_string (tup_description d)
     @ write_option write_string (tup_endpoint d) @ write_option write_u64 (tup_price_per_call d)
     @ write_option write_http_tool_settlement_mode (tup_settlement_mode d)
     @ write_option write_u64 (tup_sla_ms d) @ write_option write_u64 (tup_challenge_window_ms d)
     @ write_option write_u32 (tup_max_result_metadata_bytes d)
     @ write_option write_tool_arbitration_policy (tup_arbitration_policy d)
     @ write_option (write_vec write_capability) (tup_capabilities d)
     @ write_option write_bool (tup_match_enabled d)
     @ write_option (write_vec write_u32) (tup_neural_embedding d)
     @ write_option write_string (tup_version d) @ write_option write_bool (tup_active d)"

definition valid_tool_update_data :: "tool_update_data \<Rightarrow> bool" where
  "valid_tool_update_data d \<longleftrightarrow>
     wf_hash (tup_tool_id d) \<and> valid_opt valid_string (tup_description d)
     \<and> valid_opt valid_string (tup_endpoint d)
     \<and> valid_opt (valid_vec valid_capability) (tup_capabilities d)
     \<and> valid_opt fits_u64 (tup_neural_embedding d)
     \<and> valid_opt valid_string (tup_version d)"

interpretation tool_updatew: wire_format write_tool_update_data valid_tool_update_data
  by unfold_locales (simp add: write_tool_update_data_def valid_tool_update_data_def wire_iffs)

subsection \<open>Subscriptions\<close>

record plan_create_data =
  spc_tool_id :: hash256
  spc_name :: rstr
  spc_price_per_period :: u64
  spc_period_ms :: u64
  spc_included_calls :: u32
  spc_included_credits :: u64
  spc_overage_policy :: overage_policy

definition write_plan_create_data :: "plan_create_data \<Rightarrow> u8 list" where
  "write_plan_create_data d =
     write_hash (spc_tool_id d) @ write_string (spc_name d) @ write_u64 (spc_price_per_period d)
     @ write_u64 (spc_period_ms d) @ write_u32 (spc_included_calls d)
     @ write_u64 (spc_included_credits d) @ write_overage_policy (spc_overage_policy d)"

definition valid_plan_create_data :: "plan_create_data \<Rightarrow> bool" where
  "valid_plan_create_data d \<longleftrightarrow>
     wf_hash (spc_tool_id d) \<and> valid_string (spc_name d)"

interpretation plan_createw: wire_format write_plan_create_data valid_plan_create_data
  by unfold_locales (simp add: write_plan_create_data_def valid_plan_create_data_def wire_iffs)

record plan_update_data =
  spu_plan_id :: hash256
  spu_name :: "rstr option"
  spu_price_per_period :: "u64 option"
  spu_period_ms :: "u64 option"
  spu_included_calls :: "u32 option"
  spu_included_credits :: "u64 option"
  spu_overage_policy :: "overage_policy option"
  spu_active :: "bool option"

definition write_plan_update_data :: "plan_update_data \<Rightarrow> u8 list" where
  "write_plan_update_data d =
     write_hash (spu_plan_id d) @ write_option write_string (spu_name d)
     @ write_option write_u64 (spu_price_per_period d) @ write_option write_u64 (spu_period_ms d)
     @ write_option write_u32 (spu_included_calls d)
     @ write_option write_u64 (spu_included_credits d)
     @ write_option write_overage_policy (spu_overage_policy d)
     @ write_option write_bool (spu_active d)"

definition valid_plan_update_data :: "plan_update_data \<Rightarrow> bool" where
  "valid_plan_update_data d \<longleftrightarrow>
     wf_hash (spu_plan_id d) \<and> valid_opt valid_string (spu_name d)"

interpretation plan_updatew: wire_format write_plan_update_data valid_plan_update_data
  by unfold_locales (simp add: write_plan_update_data_def valid_plan_update_data_def wire_iffs)

record subscription_start_data =
  sst_plan_id :: hash256
  sst_reserve_amount :: u64
  sst_auto_renew :: bool

definition write_subscription_start_data :: "subscription_start_data \<Rightarrow> u8 list" where
  "write_subscription_start_data d =
     write_hash (sst_plan_id d) @ write_u64 (sst_reserve_amount d) @ write_bool (sst_auto_renew d)"

definition valid_subscription_start_data :: "subscription_start_data \<Rightarrow> bool" where
  "valid_subscription_start_data d \<longleftrightarrow>
     wf_hash (sst_plan_id d)"

interpretation subscription_startw: wire_format write_subscription_start_data valid_subscription_start_data
  by unfold_locales (simp add: write_subscription_start_data_def valid_subscription_start_data_def wire_iffs)

record subscription_top_up_data =
  stu_subscription_id :: hash256
  stu_amount :: u64

definition write_subscription_top_up_data :: "subscription_top_up_data \<Rightarrow> u8 list" where
  "write_subscription_top_up_data d =
     write_hash (stu_subscription_id d) @ write_u64 (stu_amount d)"

definition valid_subscription_top_up_data :: "subscription_top_up_data \<Rightarrow> bool" where
  "valid_subscription_top_up_data d \<longleftrightarrow>
     wf_hash (stu_subscription_id d)"

interpretation subscription_top_upw: wire_format write_subscription_top_up_data valid_subscription_top_up_data
  by unfold_locales (simp add: write_subscription_top_up_data_def valid_subscription_top_up_data_def wire_iffs)

record subscription_cancel_data =
  scn_subscription_id :: hash256

definition write_subscription_cancel_data :: "subscription_cancel_data \<Rightarrow> u8 list" where
  "write_subscription_cancel_data d =
     write_hash (scn_subscription_id d)"

definition valid_subscription_cancel_data :: "subscription_cancel_data \<Rightarrow> bool" where
  "valid_subscription_cancel_data d \<longleftrightarrow>
     wf_hash (scn_subscription_id d)"

interpretation subscription_cancelw: wire_format write_subscription_cancel_data valid_subscription_cancel_data
  by unfold_locales (simp add: write_subscription_cancel_data_def valid_subscription_cancel_data_def wire_iffs)

record subscription_resume_data =
  srs_subscription_id :: hash256
  srs_reserve_amount :: u64

definition write_subscription_resume_data :: "subscription_resume_data \<Rightarrow> u8 list" where
  "write_subscription_resume_data d =
     write_hash (srs_subscription_id d) @ write_u64 (srs_reserve_amount d)"

definition valid_subscription_resume_data :: "subscription_resume_data \<Rightarrow> bool" where
  "valid_subscription_resume_data d \<longleftrightarrow>
     wf_hash (srs_subscription_id d)"

interpretation subscription_resumew: wire_format write_subscription_resume_data valid_subscription_resume_data
  by unfold_locales (simp add: write_subscription_resume_data_def valid_subscription_resume_data_def wire_iffs)

record subscription_renew_data =
  srn_subscription_id :: hash256

definition write_subscription_renew_data :: "subscription_renew_data \<Rightarrow> u8 list" where
  "write_subscription_renew_data d =
     write_hash (srn_subscription_id d)"

definition valid_subscription_renew_data :: "subscription_renew_data \<Rightarrow> bool" where
  "valid_subscription_renew_data d \<longleftrightarrow>
     wf_hash (srn_subscription_id d)"

interpretation subscription_reneww: wire_format write_subscription_renew_data valid_subscription_renew_data
  by unfold_locales (simp add: write_subscription_renew_data_def valid_subscription_renew_data_def wire_iffs)

subsection \<open>Invocations\<close>

definition write_tool_milestone_def :: "tool_milestone_def \<Rightarrow> u8 list" where
  "write_tool_milestone_def d =
     write_string (tmd_label d) @ write_u64 (tmd_amount d)"

definition valid_tool_milestone_def :: "tool_milestone_def \<Rightarrow> bool" where
  "valid_tool_milestone_def d \<longleftrightarrow>
     valid_string (tmd_label d)"

interpretation tool_milestone_defw: wire_format write_tool_milestone_def valid_tool_milestone_def
  by unfold_locales (simp add: write_tool_milestone_def_def valid_tool_milestone_def_def wire_iffs)

lemmas tool_milestone_defw_iffs [wire_iffs] = tool_milestone_defw.append_iff tool_milestone_defw.vec_append_iff

record tool_invoke_data =
  tin_tool_id :: hash256
  tin_input_data :: "u8 list"
  tin_max_metered_units :: "u64 option"
  tin_gas_limit :: u64
  tin_milestones :: "tool_milestone_def list"

definition write_tool_invoke_data :: "tool_invoke_data \<Rightarrow> u8 list" where
  "write_tool_invoke_data d =
     write_hash (tin_tool_id d) @ write_bytes (tin_input_data d)
     @ write_option write_u64 (tin_max_metered_units d) @ write_u64 (tin_gas_limit d)
     @ write_vec write_tool_milestone_def (tin_milestones d)"

definition valid_tool_invoke_data :: "tool_invoke_data \<Rightarrow> bool" where
  "valid_tool_invoke_data d \<longleftrightarrow>
     wf_hash (tin_tool_id d) \<and> fits_u64 (tin_input_data d)
     \<and> valid_vec valid_tool_milestone_def (tin_milestones d)"

interpretation tool_invokew: wire_format write_tool_invoke_data valid_tool_invoke_data
  by unfold_locales (simp add: write_tool_invoke_data_def valid_tool_invoke_data_def wire_iffs)

text \<open>\<open>decode_canonical_tool_payload\<close> calls \<open>bincode\<close> with fixed-width integers and
  \<open>reject_trailing_bytes\<close>. The argument \<open>de\<close> is the crate's deserializer for the payload's
  type: the value and the bytes it leaves, or nothing.\<close>

datatype decode_error = Malformed | TrailingBytes | BadGasLimit gas_error

definition decode_canonical_tool_payload ::
  "(u8 list \<Rightarrow> ('a \<times> u8 list) option) \<Rightarrow> u8 list \<Rightarrow> decode_error + 'a" where
  "decode_canonical_tool_payload de bs =
     (case de bs of
        None \<Rightarrow> Err Malformed
      | Some (x, rest) \<Rightarrow> if rest = [] then Ok x else Err TrailingBytes)"

definition tool_invoke_decode ::
  "(u8 list \<Rightarrow> (tool_invoke_data \<times> u8 list) option) \<Rightarrow> u8 list \<Rightarrow> decode_error + tool_invoke_data" where
  "tool_invoke_decode de bs =
     bind_result (decode_canonical_tool_payload de bs) (\<lambda>d.
       case validate_contract_tool_gas_limit (tin_gas_limit d) of
         Err e \<Rightarrow> Err (BadGasLimit e)
       | Ok _ \<Rightarrow> Ok d)"

subsection \<open>Results and usage\<close>

record result_submit_data =
  trs_job_id :: hash256
  trs_result_hash :: hash256
  trs_result_metadata :: "u8 list"
  trs_milestone_index :: "u32 option"

definition write_result_submit_data :: "result_submit_data \<Rightarrow> u8 list" where
  "write_result_submit_data d =
     write_hash (trs_job_id d) @ write_hash (trs_result_hash d)
     @ write_bytes (trs_result_metadata d) @ write_option write_u32 (trs_milestone_index d)"

definition valid_result_submit_data :: "result_submit_data \<Rightarrow> bool" where
  "valid_result_submit_data d \<longleftrightarrow>
     wf_hash (trs_job_id d) \<and> wf_hash (trs_result_hash d)
     \<and> fits_u64 (trs_result_metadata d)"

interpretation result_submitw: wire_format write_result_submit_data valid_result_submit_data
  by unfold_locales (simp add: write_result_submit_data_def valid_result_submit_data_def wire_iffs)

record result_accept_data =
  tra_job_id :: hash256
  tra_milestone_index :: "u32 option"

definition write_result_accept_data :: "result_accept_data \<Rightarrow> u8 list" where
  "write_result_accept_data d =
     write_hash (tra_job_id d) @ write_option write_u32 (tra_milestone_index d)"

definition valid_result_accept_data :: "result_accept_data \<Rightarrow> bool" where
  "valid_result_accept_data d \<longleftrightarrow>
     wf_hash (tra_job_id d)"

interpretation result_acceptw: wire_format write_result_accept_data valid_result_accept_data
  by unfold_locales (simp add: write_result_accept_data_def valid_result_accept_data_def wire_iffs)

record result_dispute_data =
  trp_job_id :: hash256
  trp_reason :: rstr
  trp_milestone_index :: "u32 option"

definition write_result_dispute_data :: "result_dispute_data \<Rightarrow> u8 list" where
  "write_result_dispute_data d =
     write_hash (trp_job_id d) @ write_string (trp_reason d)
     @ write_option write_u32 (trp_milestone_index d)"

definition valid_result_dispute_data :: "result_dispute_data \<Rightarrow> bool" where
  "valid_result_dispute_data d \<longleftrightarrow>
     wf_hash (trp_job_id d) \<and> valid_string (trp_reason d)"

interpretation result_disputew: wire_format write_result_dispute_data valid_result_dispute_data
  by unfold_locales (simp add: write_result_dispute_data_def valid_result_dispute_data_def wire_iffs)

record result_resolve_data =
  trv_job_id :: hash256
  trv_provider_wins :: bool
  trv_reason :: rstr
  trv_milestone_index :: "u32 option"

definition write_result_resolve_data :: "result_resolve_data \<Rightarrow> u8 list" where
  "write_result_resolve_data d =
     write_hash (trv_job_id d) @ write_bool (trv_provider_wins d) @ write_string (trv_reason d)
     @ write_option write_u32 (trv_milestone_index d)"

definition valid_result_resolve_data :: "result_resolve_data \<Rightarrow> bool" where
  "valid_result_resolve_data d \<longleftrightarrow>
     wf_hash (trv_job_id d) \<and> valid_string (trv_reason d)"

interpretation result_resolvew: wire_format write_result_resolve_data valid_result_resolve_data
  by unfold_locales (simp add: write_result_resolve_data_def valid_result_resolve_data_def wire_iffs)

record job_expire_data =
  tje_job_id :: hash256

definition write_job_expire_data :: "job_expire_data \<Rightarrow> u8 list" where
  "write_job_expire_data d =
     write_hash (tje_job_id d)"

definition valid_job_expire_data :: "job_expire_data \<Rightarrow> bool" where
  "valid_job_expire_data d \<longleftrightarrow>
     wf_hash (tje_job_id d)"

interpretation job_expirew: wire_format write_job_expire_data valid_job_expire_data
  by unfold_locales (simp add: write_job_expire_data_def valid_job_expire_data_def wire_iffs)

record usage_report_data =
  tur_session_id :: hash256
  tur_units_used :: u64
  tur_result_hash :: hash256
  tur_result_metadata :: "u8 list"

definition write_usage_report_data :: "usage_report_data \<Rightarrow> u8 list" where
  "write_usage_report_data d =
     write_hash (tur_session_id d) @ write_u64 (tur_units_used d) @ write_hash (tur_result_hash d)
     @ write_bytes (tur_result_metadata d)"

definition valid_usage_report_data :: "usage_report_data \<Rightarrow> bool" where
  "valid_usage_report_data d \<longleftrightarrow>
     wf_hash (tur_session_id d) \<and> wf_hash (tur_result_hash d)
     \<and> fits_u64 (tur_result_metadata d)"

interpretation usage_reportw: wire_format write_usage_report_data valid_usage_report_data
  by unfold_locales (simp add: write_usage_report_data_def valid_usage_report_data_def wire_iffs)

record usage_accept_data =
  tua_session_id :: hash256

definition write_usage_accept_data :: "usage_accept_data \<Rightarrow> u8 list" where
  "write_usage_accept_data d =
     write_hash (tua_session_id d)"

definition valid_usage_accept_data :: "usage_accept_data \<Rightarrow> bool" where
  "valid_usage_accept_data d \<longleftrightarrow>
     wf_hash (tua_session_id d)"

interpretation usage_acceptw: wire_format write_usage_accept_data valid_usage_accept_data
  by unfold_locales (simp add: write_usage_accept_data_def valid_usage_accept_data_def wire_iffs)

record usage_dispute_data =
  tud_session_id :: hash256
  tud_reason :: rstr

definition write_usage_dispute_data :: "usage_dispute_data \<Rightarrow> u8 list" where
  "write_usage_dispute_data d =
     write_hash (tud_session_id d) @ write_string (tud_reason d)"

definition valid_usage_dispute_data :: "usage_dispute_data \<Rightarrow> bool" where
  "valid_usage_dispute_data d \<longleftrightarrow>
     wf_hash (tud_session_id d) \<and> valid_string (tud_reason d)"

interpretation usage_disputew: wire_format write_usage_dispute_data valid_usage_dispute_data
  by unfold_locales (simp add: write_usage_dispute_data_def valid_usage_dispute_data_def wire_iffs)

record usage_resolve_data =
  tuv_session_id :: hash256
  tuv_provider_wins :: bool
  tuv_reason :: rstr

definition write_usage_resolve_data :: "usage_resolve_data \<Rightarrow> u8 list" where
  "write_usage_resolve_data d =
     write_hash (tuv_session_id d) @ write_bool (tuv_provider_wins d)
     @ write_string (tuv_reason d)"

definition valid_usage_resolve_data :: "usage_resolve_data \<Rightarrow> bool" where
  "valid_usage_resolve_data d \<longleftrightarrow>
     wf_hash (tuv_session_id d) \<and> valid_string (tuv_reason d)"

interpretation usage_resolvew: wire_format write_usage_resolve_data valid_usage_resolve_data
  by unfold_locales (simp add: write_usage_resolve_data_def valid_usage_resolve_data_def wire_iffs)

record usage_expire_data =
  tue_session_id :: hash256

definition write_usage_expire_data :: "usage_expire_data \<Rightarrow> u8 list" where
  "write_usage_expire_data d =
     write_hash (tue_session_id d)"

definition valid_usage_expire_data :: "usage_expire_data \<Rightarrow> bool" where
  "valid_usage_expire_data d \<longleftrightarrow>
     wf_hash (tue_session_id d)"

interpretation usage_expirew: wire_format write_usage_expire_data valid_usage_expire_data
  by unfold_locales (simp add: write_usage_expire_data_def valid_usage_expire_data_def wire_iffs)

end
