(* ===== verification/Tool_Listing.thy ===== *)
theory Tool_Listing
  imports Tool_Job Payload_Tool Reputation
begin

text \<open>
  A registered tool (\<open>ToolEntry\<close> of \<open>primitives/tool.rs\<close>): contract-backed endpoints and the route an
  invocation takes, who is paid, and the scores that rank tools, in IEEE arithmetic with the
  logarithm as a parameter; and the record of a metered session.

  The theorems say that printing a contract target and parsing it are inverse, which endpoints are
  accepted, and that a ranking score is a number within bounds unless the weights overflow.
\<close>

subsection \<open>Tools\<close>

datatype tool_invoke_route =
    ContractBacked | HttpPrepaidAccess | HttpResultEscrowed | HttpMeteredUsage | HttpMilestoneEscrowed

datatype contract_endpoint_target = TargetAddress address rstr | TargetRoute address rstr rstr

record tool_entry =
  te_tool_id :: hash256
  te_owner :: address
  te_name :: rstr
  te_description :: rstr
  te_endpoint :: rstr
  te_price_per_call :: u64
  te_settlement_mode :: http_tool_settlement_mode
  te_sla_ms :: u64
  te_challenge_window_ms :: u64
  te_max_result_metadata_bytes :: u32
  te_arbitration_policy :: tool_arbitration_policy
  te_capabilities :: "capability list"
  te_match_enabled :: bool
  te_description_embedding :: "f32_bits list"
  te_neural_embedding :: "f32_bits list"
  te_active :: bool
  te_deregistered_at :: u64
  te_version :: rstr
  te_registered_at_block :: u64
  te_reputation :: tool_reputation
  te_storage_deposit :: u64

subsection \<open>Endpoints\<close>

definition CONTRACT_SCHEME :: rstr where "CONTRACT_SCHEME = lit ''contract://''"

definition is_contract_endpoint :: "rstr \<Rightarrow> bool" where
  "is_contract_endpoint endpoint \<longleftrightarrow>
     starts_with endpoint CONTRACT_SCHEME \<or> starts_with endpoint CONTRACT_ROUTE_SCHEME"

definition is_contract_tool :: "tool_entry \<Rightarrow> bool" where
  "is_contract_tool e \<longleftrightarrow> is_contract_endpoint (te_endpoint e)"

definition contract_target_for_endpoint :: "externs \<Rightarrow> rstr \<Rightarrow> (address \<times> rstr) option" where
  "contract_target_for_endpoint X endpoint =
     Option.bind (strip_prefix endpoint CONTRACT_SCHEME) (\<lambda>path.
     Option.bind (split_once 0x2F path) (\<lambda>(addr_str, rest).
     if 0x3F \<in> set rest \<or> rest = [] then None
     else (case addr_from_hex X addr_str of Ok a \<Rightarrow> Some (a, rest) | Err _ \<Rightarrow> None)))"

text \<open>\<open>splitn(3, '/')\<close>: the third part keeps its slashes.\<close>

definition contract_route_for_endpoint :: "externs \<Rightarrow> rstr \<Rightarrow> (address \<times> rstr \<times> rstr) option" where
  "contract_route_for_endpoint X endpoint =
     Option.bind (strip_prefix endpoint CONTRACT_ROUTE_SCHEME) (\<lambda>path.
     (case split_once 0x2F path of
        None \<Rightarrow> None
      | Some (deployer_str, rest) \<Rightarrow>
          (case addr_from_hex X deployer_str of
             Err _ \<Rightarrow> None
           | Ok deployer \<Rightarrow>
               (case split_once 0x2F rest of
                  None \<Rightarrow> None
                | Some (route_name, function_name) \<Rightarrow>
                    if route_name = [] \<or> function_name = [] \<or> 0x3F \<in> set function_name then None
                    else if validate_and_normalize_contract_route_name route_name \<noteq> Ok route_name then None
                    else Some (deployer, route_name, function_name)))))"

definition contract_endpoint_target_of :: "externs \<Rightarrow> rstr \<Rightarrow> contract_endpoint_target option" where
  "contract_endpoint_target_of X endpoint =
     (case contract_target_for_endpoint X endpoint of
        Some (a, f) \<Rightarrow> Some (TargetAddress a f)
      | None \<Rightarrow>
          (case contract_route_for_endpoint X endpoint of
             Some (deployer, route_name, f) \<Rightarrow> Some (TargetRoute deployer route_name f)
           | None \<Rightarrow> None))"

datatype endpoint_error = EndpointHasQuery | InvalidContractEndpoint | InvalidRouteEndpoint

definition validate_contract_endpoint :: "externs \<Rightarrow> rstr \<Rightarrow> endpoint_error + unit" where
  "validate_contract_endpoint X endpoint =
     (if \<not> is_contract_endpoint endpoint then Ok ()
      else if 0x3F \<in> set endpoint then Err EndpointHasQuery
      else (case contract_endpoint_target_of X endpoint of
              Some _ \<Rightarrow> Ok ()
            | None \<Rightarrow>
                if starts_with endpoint CONTRACT_SCHEME then Err InvalidContractEndpoint
                else Err InvalidRouteEndpoint))"

definition contract_target_address_for_endpoint :: "externs \<Rightarrow> rstr \<Rightarrow> address option" where
  "contract_target_address_for_endpoint X endpoint =
     map_option fst (contract_target_for_endpoint X endpoint)"

subsection \<open>Routes\<close>

definition invoke_route_for :: "rstr \<Rightarrow> http_tool_settlement_mode \<Rightarrow> tool_invoke_route" where
  "invoke_route_for endpoint settlement_mode =
     (if is_contract_endpoint endpoint then ContractBacked
      else (case settlement_mode of
              PrepaidAccess \<Rightarrow> HttpPrepaidAccess | ResultEscrowed \<Rightarrow> HttpResultEscrowed
            | MeteredUsage \<Rightarrow> HttpMeteredUsage | MilestoneEscrowed \<Rightarrow> HttpMilestoneEscrowed))"

definition supports_subscriptions_for :: "rstr \<Rightarrow> http_tool_settlement_mode \<Rightarrow> bool" where
  "supports_subscriptions_for endpoint settlement_mode \<longleftrightarrow>
     invoke_route_for endpoint settlement_mode \<in> {HttpPrepaidAccess, HttpResultEscrowed, ContractBacked}"

definition invoke_route :: "tool_entry \<Rightarrow> tool_invoke_route" where
  "invoke_route e = invoke_route_for (te_endpoint e) (te_settlement_mode e)"

definition supports_subscriptions :: "tool_entry \<Rightarrow> bool" where
  "supports_subscriptions e = supports_subscriptions_for (te_endpoint e) (te_settlement_mode e)"

definition supports_contract_host_invoke :: "tool_entry \<Rightarrow> bool" where
  "supports_contract_host_invoke e \<longleftrightarrow> invoke_route e = HttpPrepaidAccess"

definition contract_target_address :: "externs \<Rightarrow> tool_entry \<Rightarrow> address option" where
  "contract_target_address X e = contract_target_address_for_endpoint X (te_endpoint e)"

definition subscription_payment_recipient :: "externs \<Rightarrow> tool_entry \<Rightarrow> address option" where
  "subscription_payment_recipient X e =
     (if is_contract_tool e then contract_target_address X e else Some (te_owner e))"

definition tool_has_capability :: "tool_entry \<Rightarrow> capability \<Rightarrow> bool" where
  "tool_has_capability e c \<longleftrightarrow> c \<in> set (te_capabilities e)"

definition tool_has_all_capabilities :: "tool_entry \<Rightarrow> capability list \<Rightarrow> bool" where
  "tool_has_all_capabilities e cs \<longleftrightarrow> list_all (tool_has_capability e) cs"

subsection \<open>Scores\<close>

definition verified_success_rate :: "tool_reputation \<Rightarrow> float option" where
  "verified_success_rate r =
     (if verified_calls r = 0 then None
      else Some (div64 (as_f64 (tr_successful_calls r)) (as_f64 (verified_calls r))))"

definition success_rate :: "tool_reputation \<Rightarrow> float" where
  "success_rate r =
     div64 (add64 (as_f64 (tr_successful_calls r)) (lit64 1)) (add64 (as_f64 (verified_calls r)) (lit64 2))"

definition avg_quality :: "tool_reputation \<Rightarrow> float" where
  "avg_quality r =
     (if tr_quality_ratings r = 0 then lit64 0
      else div64 (f64_from_bits (tr_cumulative_quality r)) (as_f64 (tr_quality_ratings r)))"

definition tool_price_score :: "u64 \<Rightarrow> float" where
  "tool_price_score price =
     mul64 (sub64 (lit64 1) (fmin (div64 (as_f64 price) (lit64 10000000)) (lit64 1))) (lit64 100)"

definition tool_popularity :: "math_fns \<Rightarrow> u64 \<Rightarrow> float" where
  "tool_popularity M total_calls =
     fmin (mul64 (m_ln M (add64 (as_f64 total_calls) (lit64 1))) (lit64 15)) (lit64 100)"

definition tool_freshness :: "u64 \<Rightarrow> u32 \<Rightarrow> float" where
  "tool_freshness total_calls threshold =
     (if total_calls < ucast threshold then lit64 100
      else mul64 (sub64 (lit64 1) (fmin (div64 (as_f64 total_calls) (lit64 1000)) (lit64 1))) (lit64 100))"

text \<open>The sum of the weights is computed in \<open>u8\<close>: where it overflows, a checked build panics.\<close>

definition ranked_score :: "math_fns \<Rightarrow> tool_entry \<Rightarrow> tool_search_preferences \<Rightarrow> float option" where
  "ranked_score M e prefs =
     map_option (\<lambda>total_weight.
       let total = as_f64 total_weight;
           share = (\<lambda>w. div64 (as_f64 w) total);
           r = te_reputation e;
           reliability = mul64 (success_rate r) (lit64 100);
           price_score = tool_price_score (te_price_per_call e);
           quality = mul64 (avg_quality r) (lit64 10);
           popularity = tool_popularity M (tr_total_calls r);
           freshness = tool_freshness (tr_total_calls r) (pref_discovery_threshold prefs);
           score = add64 (add64 (add64 (add64 (mul64 reliability (share (w_reliability prefs)))
             (mul64 price_score (share (w_price prefs)))) (mul64 quality (share (w_quality prefs))))
             (mul64 popularity (share (w_popularity prefs)))) (mul64 freshness (share (w_freshness prefs)))
       in if 0 < pref_discovery_threshold prefs \<and> tr_total_calls r < ucast (pref_discovery_threshold prefs)
          then add64 score (as_f64 (pref_discovery_boost prefs)) else score)
       (ranked_weight_total prefs)"

definition discovery_score :: "math_fns \<Rightarrow> tool_entry \<Rightarrow> float option" where
  "discovery_score M e = ranked_score M e prefs_default"

subsection \<open>Metered sessions\<close>

datatype tool_usage_session_status = SessionOpen | SessionReported | SessionDisputed

record tool_usage_session =
  us_session_id :: hash256
  us_tool_id :: hash256
  us_requester :: address
  us_provider :: address
  us_arbitrator :: "address option"
  us_amount_reserved :: u64
  us_storage_deposit :: u64
  us_price_per_unit :: u64
  us_max_units :: u64
  us_input_data :: "u8 list"
  us_input_hash :: hash256
  us_status :: tool_usage_session_status
  us_opened_at :: u64
  us_opened_at_block :: u64
  us_challenge_window_ms :: u64
  us_max_result_metadata_bytes :: u32
  us_arbitrator_fee_bps :: u16
  us_submit_deadline :: u64
  us_reported_units :: "u64 option"
  us_billed_amount :: "u64 option"
  us_result_hash :: "hash256 option"
  us_result_metadata :: "u8 list"
  us_submitted_at :: "u64 option"
  us_challenge_deadline :: "u64 option"
  us_dispute_reason :: "rstr option"
  us_disputed_at :: "u64 option"
  us_arbitration_deadline_at :: "u64 option"
  us_arbitration_reassignments :: u8
  us_prior_arbitrators :: "address list"

subsection \<open>Contract endpoints\<close>

lemma addr_to_hex_no_slash:
  assumes "hex_ok X"
  shows "0x2F \<notin> set (addr_to_hex X a)"
proof
  assume "0x2F \<in> set (addr_to_hex X a)"
  then obtain b where "0x2F \<in> set (hex_encode X b)"
    by (cases a) (auto simp: addr_to_hex_def ADDRESS_PREFIX_def to_raw_hex_def)
  moreover have "\<forall>c \<in> set (hex_encode X b). is_ascii_digit c \<or> 0x61 \<le> c \<and> c \<le> 0x66"
    using assms by (simp add: hex_ok_def list_all_iff)
  ultimately show False by (force simp: is_ascii_digit_def)
qed

text \<open>A contract target, printed, is parsed back, whatever the function is called.\<close>

lemma contract_target_printed:
  assumes "hex_ok X" "wf_addr a" "f \<noteq> []" "0x3F \<notin> set f"
  shows "contract_target_for_endpoint X (CONTRACT_SCHEME @ addr_to_hex X a @ 0x2F # f) = Some (a, f)"
proof -
  have "split_once 0x2F (addr_to_hex X a @ 0x2F # f) = Some (addr_to_hex X a, f)"
    using addr_to_hex_no_slash [OF assms(1)] by (simp add: split_once_eq_Some)
  then show ?thesis
    using assms by (simp add: contract_target_for_endpoint_def addr_hex_roundtrip_lemma)
qed

lemma contract_route_printed:
  assumes "hex_ok X" "wf_addr a" "f \<noteq> []" "0x3F \<notin> set f" "0x2F \<notin> set r" "r \<noteq> []"
    and "validate_and_normalize_contract_route_name r = Ok r"
  shows "contract_route_for_endpoint X (CONTRACT_ROUTE_SCHEME @ addr_to_hex X a @ 0x2F # r @ 0x2F # f)
    = Some (a, r, f)"
proof -
  have "split_once 0x2F (addr_to_hex X a @ 0x2F # r @ 0x2F # f) = Some (addr_to_hex X a, r @ 0x2F # f)"
    using addr_to_hex_no_slash [OF assms(1)] by (simp add: split_once_eq_Some)
  moreover have "split_once 0x2F (r @ 0x2F # f) = Some (r, f)"
    using assms(5) by (simp add: split_once_eq_Some)
  ultimately show ?thesis
    using assms by (simp add: contract_route_for_endpoint_def addr_hex_roundtrip_lemma)
qed

text \<open>An accepted endpoint is another kind of URL, or names a contract or a route and a function,
  and carries no query.\<close>

lemma accepted_endpoint:
  "validate_contract_endpoint X endpoint = Ok () \<longleftrightarrow>
   \<not> is_contract_endpoint endpoint
   \<or> (0x3F \<notin> set endpoint \<and> contract_endpoint_target_of X endpoint \<noteq> None)"
  by (auto simp: validate_contract_endpoint_def split: option.splits)

lemma address_target_wf:
  "contract_endpoint_target_of X endpoint = Some (TargetAddress a f) \<Longrightarrow>
   is_contract_endpoint endpoint \<and> f \<noteq> [] \<and> 0x3F \<notin> set f"
  by (auto simp: contract_endpoint_target_of_def contract_target_for_endpoint_def
      is_contract_endpoint_def bind_eq_Some_conv split: option.splits if_splits sum.splits)

text \<open>A contract-backed tool runs on chain whatever its settlement mode says.\<close>

lemma contract_tool_route:
  "invoke_route e = ContractBacked \<longleftrightarrow> is_contract_tool e"
  by (simp add: invoke_route_def invoke_route_for_def is_contract_tool_def
      split: http_tool_settlement_mode.split)

text \<open>A tool behind a contract route may be subscribed to, but nobody is named to be paid.\<close>

lemma route_tool_without_recipient:
  assumes "te_endpoint e = CONTRACT_ROUTE_SCHEME @ path"
  shows "supports_subscriptions e \<and> subscription_payment_recipient X e = None"
proof -
  have "is_contract_endpoint (te_endpoint e)" using assms by (simp add: is_contract_endpoint_def)
  moreover have "\<not> starts_with (te_endpoint e) CONTRACT_SCHEME"
    by (simp add: assms starts_with_def CONTRACT_ROUTE_SCHEME_def CONTRACT_SCHEME_def)
  ultimately show ?thesis
    by (auto simp: supports_subscriptions_def supports_subscriptions_for_def invoke_route_for_def
        subscription_payment_recipient_def is_contract_tool_def contract_target_address_def
        contract_target_address_for_endpoint_def contract_target_for_endpoint_def
        strip_prefix_eq_None [THEN iffD2])
qed

subsection \<open>Ranges of scores\<close>

lemma representable_2_65: "representable F64 (2 ^ 65)"
  using representable_64_scaled [of 1 65] by simp

lemma success_rate_range: "in_range 0 1 (success_rate r)"
proof -
  let ?s = "tr_successful_calls r" and ?v = "verified_calls r"
  have s: "in_range 1 (2 ^ 65) (add64 (as_f64 ?s) (lit64 1))"
    by (rule f64.add_range [OF as_f64_range lit_1 _ representable_2_65]) simp_all
  have two: "in_range 2 2 (lit64 2)" by (rule lit_numeral) simp
  have v: "in_range 2 (2 ^ 65) (add64 (as_f64 ?v) (lit64 2))"
    by (rule f64.add_range [OF as_f64_range lit_numeral _ representable_2_65]) simp_all
  have "unat ?s \<le> unat ?v"
    using unat_u64_bound(1) [of ?s] by (simp add: verified_calls_def word_nat_simps)
  then have "num_val (as_f64 ?s) \<le> num_val (as_f64 ?v)" by (rule as_f64_val_mono)
  then have "num_val (as_f64 ?s) + num_val (lit64 1) \<le> num_val (as_f64 ?v) + num_val (lit64 2)"
    by simp
  then have "num_val (add64 (as_f64 ?s) (lit64 1)) \<le> num_val (add64 (as_f64 ?v) (lit64 2))"
    unfolding f64.add_val [OF as_f64_range lit_1 s]
      f64.add_val [OF as_f64_range two v]
    by (intro f64.rnd_mono)
  then show ?thesis unfolding success_rate_def
    by (intro f64.div_range [OF s v]) (simp_all add: divide_le_eq)
qed

lemma complement_score_range:
  "in_range 0 1 x \<Longrightarrow> in_range 0 100 (mul64 (sub64 (lit64 1) x) (lit64 100))"
proof (rule scaled_share)
  assume "in_range 0 1 x"
  then show "in_range 0 1 (sub64 (lit64 1) x)" by (rule f64.sub_range [OF lit_1]) simp_all
qed simp

lemma tool_price_score_range: "in_range 0 100 (tool_price_score price)"
proof -
  have "in_range 0 (2 ^ 64) (div64 (as_f64 price) (lit64 10000000))"
    by (rule f64.div_range [OF as_f64_range lit_numeral]) (auto simp: divide_le_eq intro: order_trans)
  from in_range_min [OF this lit_1] show ?thesis
    unfolding tool_price_score_def by (intro complement_score_range) (auto intro: in_range_weaken)
qed

lemma tool_freshness_range: "in_range 0 100 (tool_freshness calls threshold)"
proof -
  have "in_range 0 (2 ^ 64) (div64 (as_f64 calls) (lit64 1000))"
    by (rule f64.div_range [OF as_f64_range lit_numeral]) (auto simp: divide_le_eq intro: order_trans)
  from in_range_min [OF this lit_1]
  have "in_range 0 100 (mul64 (sub64 (lit64 1) (fmin (div64 (as_f64 calls) (lit64 1000)) (lit64 1))) (lit64 100))"
    by (intro complement_score_range) (auto intro: in_range_weaken)
  then show ?thesis by (simp add: tool_freshness_def in_range_weaken [OF lit_numeral])
qed

lemma tool_popularity_range: "math_ok M \<Longrightarrow> in_range 0 100 (tool_popularity M calls)"
proof -
  assume M: "math_ok M"
  have "in_range 1 (2 ^ 65) (add64 (as_f64 calls) (lit64 1))"
    by (rule f64.add_range [OF as_f64_range lit_1 _ representable_2_65]) simp_all
  then have "in_range 0 64 (m_ln M (add64 (as_f64 calls) (lit64 1)))" using M by (simp add: math_ok_def)
  then have "in_range (0 * 15) (64 * 15) (mul64 (m_ln M (add64 (as_f64 calls) (lit64 1))) (lit64 15))"
    by (rule f64.mul_nonneg_range [OF _ lit_numeral]) simp_all
  from in_range_min [OF this lit_numeral [of "num.Bit0 (num.Bit0 (num.Bit1 (num.Bit0 (num.Bit0 (num.Bit1 num.One)))))"]]
  show ?thesis unfolding tool_popularity_def by (auto intro: in_range_weaken)
qed

lemma weighted_range:
  "in_range 0 100 x \<Longrightarrow> in_range 0 1 y \<Longrightarrow> in_range 0 100 (mul64 x y)"
  using f64.mul_nonneg_range [of 0 100 x 0 1 y] by simp

text \<open>Each weight is at most the total, so its share is at most one, exactly and rounded.\<close>

lemma share_range:
  fixes w total :: u8
  assumes "unat w \<le> unat total" "total \<noteq> 0"
  shows "in_range 0 1 (div64 (as_f64 w) (as_f64 total))"
proof -
  have b: "unat v \<le> 2 ^ 53" for v :: u8 using unsigned_less [of v, where ?'a = nat] by simp
  have pos: "0 < unat total" using assms(2) by (simp add: unat_gt_0)
  have "in_range 0 1 (fround F64 False (of_nat (unat w) / of_nat (unat total)))"
    using assms(1) pos by (intro f64.fround_range) (simp_all add: divide_le_eq del: of_nat_unat)
  then show ?thesis using pos by (simp add: as_f64_exact [OF b] del: of_nat_unat)
qed

lemma unat_checked_add: "checked_add a b = Some c \<Longrightarrow> unat c = unat a + unat (b :: 'a::len word)"
  by (auto simp: checked_add_def unat_add_lem split: if_splits)

lemma ranked_weights_le:
  assumes "ranked_weight_total p = Some t"
  shows "unat (w_reliability p) \<le> unat t" "unat (w_price p) \<le> unat t" "unat (w_quality p) \<le> unat t"
    "unat (w_popularity p) \<le> unat t" "unat (w_freshness p) \<le> unat t" "t \<noteq> 0"
  using assms
  by (auto simp: ranked_weight_total_def max_def word_le_nat_alt word_gt_0 split: option.splits if_splits
      dest!: unat_checked_add)

text \<open>A score, where the weights do not overflow: a number between 0 and 755, the boost included.\<close>

lemma ranked_score_range:
  assumes "math_ok M" "in_range 0 10 (avg_quality (te_reputation e))" "ranked_score M e p = Some s"
  shows "in_range 0 755 s"
proof -
  obtain t where t: "ranked_weight_total p = Some t" using assms(3) by (auto simp: ranked_score_def)
  note share = ranked_weights_le(1-5) [OF t, THEN share_range, OF ranked_weights_le(6) [OF t]]
  have "in_range (0 * 10) (10 * 10) (mul64 (avg_quality (te_reputation e)) (lit64 10))"
    by (rule f64.mul_nonneg_range [OF assms(2) lit_numeral]) simp_all
  then have quality: "in_range 0 100 (mul64 (avg_quality (te_reputation e)) (lit64 10))" by simp
  note add2 = f64.add_range [of 0 100 _ 0 100 _ 0 200] and add3 = f64.add_range [of 0 200 _ 0 100 _ 0 300]
    and add4 = f64.add_range [of 0 300 _ 0 100 _ 0 400] and add5 = f64.add_range [of 0 400 _ 0 100 _ 0 500]
  define base where "base = add64 (add64 (add64 (add64
      (mul64 (mul64 (success_rate (te_reputation e)) (lit64 100)) (div64 (as_f64 (w_reliability p)) (as_f64 t)))
      (mul64 (tool_price_score (te_price_per_call e)) (div64 (as_f64 (w_price p)) (as_f64 t))))
      (mul64 (mul64 (avg_quality (te_reputation e)) (lit64 10)) (div64 (as_f64 (w_quality p)) (as_f64 t))))
      (mul64 (tool_popularity M (tr_total_calls (te_reputation e))) (div64 (as_f64 (w_popularity p)) (as_f64 t))))
      (mul64 (tool_freshness (tr_total_calls (te_reputation e)) (pref_discovery_threshold p))
         (div64 (as_f64 (w_freshness p)) (as_f64 t)))"
  have "in_range 0 500 base" unfolding base_def
    by (intro add5 add4 add3 add2 weighted_range share scaled_share success_rate_range
        tool_price_score_range quality tool_popularity_range [OF assms(1)] tool_freshness_range) simp_all
  moreover have "in_range 0 255 (as_f64 (pref_discovery_boost p))"
  proof -
    have "unat (pref_discovery_boost p) \<le> 255"
      using unsigned_less [of "pref_discovery_boost p", where ?'a = nat] by simp
    then have "(of_nat (unat (pref_discovery_boost p)) :: rat) \<le> 255" by (metis of_nat_le_iff of_nat_numeral)
    then show ?thesis by (intro f64.of_u64_range) (simp_all del: of_nat_unat)
  qed
  ultimately have "in_range 0 755 base" "in_range 0 755 (add64 base (as_f64 (pref_discovery_boost p)))"
    by (auto intro: in_range_weaken f64.add_range)
  moreover have "s = base \<or> s = add64 base (as_f64 (pref_discovery_boost p))"
    using assms(3) by (auto simp: ranked_score_def t base_def Let_def split: if_splits)
  ultimately show ?thesis by auto
qed

end
