(* ===== verification/Contract_Storage.thy ===== *)
theory Contract_Storage
  imports Contract
begin

text \<open>
  The authenticated root of a contract's key-value storage (\<open>primitives/contract.rs\<close>):
  keys become nibble strings, and a Patricia trie of leaf, extension and branch nodes is
  hashed bottom-up without ever being built.

  A \<open>BTreeMap\<close> is the association list in the order its iterator visits it, strictly sorted
  by key (\<open>btree\<close>); a \<open>HashMap\<close> is a finite map. Instead of carrying an offset into the full
  keys, the recursion carries the remaining suffixes, \<open>key[offset..]\<close> in the source.

  The specification is the datatype \<open>trie\<close>: \<open>build_trie\<close> constructs the trie the recursion
  walks, \<open>subtree_root_eq\<close> shows the computed root is the hash of that trie, and
  \<open>trie_entries_build\<close> shows the trie holds exactly the entries. Binding of the root then
  follows by induction on tries.
\<close>

type_synonym nibbles = "u8 list"
type_synonym entry = "nibbles \<times> u8 list"
type_synonym btree = "(u8 list \<times> u8 list) list"

definition wf_btree :: "btree \<Rightarrow> bool" where
  "wf_btree m \<longleftrightarrow> sorted_wrt (<) (map fst m)"

subsection \<open>Nibbles and node encodings\<close>

definition bytes_to_nibbles :: "u8 list \<Rightarrow> nibbles" where
  "bytes_to_nibbles bytes = concat (map (\<lambda>b. [drop_bit 4 b, b AND 0x0F]) bytes)"

definition common_prefix_length :: "nibbles \<Rightarrow> nibbles \<Rightarrow> nat" where
  "common_prefix_length left right = length (takeWhile (\<lambda>(l, r). l = r) (zip left right))"

text \<open>\<open>chunks(2)\<close> of an even-length slice, packed.\<close>

fun pack_pairs :: "nibbles \<Rightarrow> u8 list" where
  "pack_pairs (a # b # rest) = (push_bit 4 a OR b) # pack_pairs rest"
| "pack_pairs _ = []"

definition hex_prefix_encode :: "nibbles \<Rightarrow> bool \<Rightarrow> u8 list" where
  "hex_prefix_encode nibs is_leaf =
     (let is_odd = odd (length nibs);
          flag = (if is_leaf then 2 else 0) + (if is_odd then 1 else 0) :: u8
      in if is_odd then (push_bit 4 flag OR hd nibs) # pack_pairs (tl nibs)
         else push_bit 4 flag # pack_pairs nibs)"

definition u32_len :: "u8 list \<Rightarrow> u8 list" where
  "u32_len xs = to_be_bytes (as_word (length xs) :: u32)"

definition leaf_bytes :: "nibbles \<Rightarrow> u8 list \<Rightarrow> u8 list" where
  "leaf_bytes key_end value =
     (let encoded_key = hex_prefix_encode key_end True
      in [0x01] @ u32_len encoded_key @ encoded_key @ u32_len value @ value)"

definition extension_bytes :: "nibbles \<Rightarrow> hash256 \<Rightarrow> u8 list" where
  "extension_bytes prefix child =
     (let encoded_prefix = hex_prefix_encode prefix False
      in [0x02] @ u32_len encoded_prefix @ encoded_prefix @ hash_as_bytes child)"

definition branch_bytes :: "hash256 list \<Rightarrow> u8 list option \<Rightarrow> u8 list" where
  "branch_bytes children value =
     [0x03] @ concat (map hash_as_bytes children)
     @ (case value of Some v \<Rightarrow> [0x01] @ u32_len v @ v | None \<Rightarrow> [0x00])"

definition hash_contract_storage_leaf :: "externs \<Rightarrow> nibbles \<Rightarrow> u8 list \<Rightarrow> hash256" where
  "hash_contract_storage_leaf X key_end value = hash_bytes X (leaf_bytes key_end value)"

definition hash_contract_storage_extension :: "externs \<Rightarrow> nibbles \<Rightarrow> hash256 \<Rightarrow> hash256" where
  "hash_contract_storage_extension X prefix child = hash_bytes X (extension_bytes prefix child)"

definition hash_contract_storage_branch :: "externs \<Rightarrow> hash256 list \<Rightarrow> u8 list option \<Rightarrow> hash256" where
  "hash_contract_storage_branch X children value = hash_bytes X (branch_bytes children value)"

subsection \<open>The recursion\<close>

definition shared_prefix_len :: "nibbles \<Rightarrow> entry list \<Rightarrow> nat" where
  "shared_prefix_len first_key rest =
     foldl (\<lambda>n (key, _). min n (common_prefix_length first_key key)) (length first_key) rest"

definition drop_prefix :: "nat \<Rightarrow> entry list \<Rightarrow> entry list" where
  "drop_prefix n es = map (\<lambda>(k, v). (drop n k, v)) es"

text \<open>The \<open>child_index\<close> of an entry, and the maximal runs of entries with one child index,
  each with the shared nibble removed.\<close>

definition child_index :: "entry \<Rightarrow> nat" where
  "child_index e = (case fst e of [] \<Rightarrow> 0 | n # _ \<Rightarrow> unat n)"

function child_runs :: "entry list \<Rightarrow> (nat \<times> entry list) list" where
  "child_runs [] = []"
| "child_runs (e # es) =
     (child_index e,
      drop_prefix 1 (e # takeWhile (\<lambda>d. child_index d = child_index e) es))
     # child_runs (dropWhile (\<lambda>d. child_index d = child_index e) es)"
  by pat_completeness auto
termination
  by (relation "measure length") (auto simp: le_imp_less_Suc length_dropWhile_le)

definition no_children :: "hash256 list" where
  "no_children = replicate 16 hash_zero"

definition put_children :: "(nat \<times> 'a) list \<Rightarrow> 'a list \<Rightarrow> 'a list" where
  "put_children runs cs = foldl (\<lambda>cs (i, h). cs[i := h]) cs runs"

definition split_value :: "entry list \<Rightarrow> u8 list option \<times> entry list" where
  "split_value es =
     (case es of [] \<Rightarrow> (None, [])
      | (k, v) # rest \<Rightarrow> if k = [] then (Some v, rest) else (None, es))"

definition entries_size :: "entry list \<Rightarrow> nat" where
  "entries_size es = (\<Sum>(k, v)\<leftarrow>es. Suc (length k))"

lemma entries_size_simps [simp]:
  "entries_size [] = 0"
  "entries_size ((k, v) # es) = Suc (length k) + entries_size es"
  "entries_size (es @ es') = entries_size es + entries_size es'"
  by (simp_all add: entries_size_def)

lemma entries_size_drop_le: "entries_size (drop_prefix n es) \<le> entries_size es"
  by (induction es) (auto simp: drop_prefix_def intro: add_mono)

lemma entries_size_takeWhile: "entries_size (takeWhile P es) \<le> entries_size es"
  by (metis entries_size_simps(3) le_add1 takeWhile_dropWhile_id)

lemma entries_size_dropWhile: "entries_size (dropWhile P es) \<le> entries_size es"
  by (metis entries_size_simps(3) le_add2 takeWhile_dropWhile_id)

lemma child_runs_size: "(i, g) \<in> set (child_runs es) \<Longrightarrow> entries_size g \<le> entries_size es"
proof (induction es rule: child_runs.induct)
  case (2 e es)
  let ?P = "\<lambda>d. child_index d = child_index e"
  have "entries_size (drop_prefix 1 (e # takeWhile ?P es)) \<le> entries_size (e # es)"
    using entries_size_drop_le [of 1 "e # takeWhile ?P es"] entries_size_takeWhile [of ?P es]
    by (cases e) (simp del: drop_prefix_def)
  moreover have "entries_size (dropWhile ?P es) \<le> entries_size (e # es)"
    using entries_size_dropWhile [of ?P es] by (cases e) simp
  ultimately show ?case using 2 by auto
qed simp

lemma child_runs_size_less:
  assumes "(i, g) \<in> set (child_runs (snd (split_value ((k, v) # es))))"
  shows "entries_size g < entries_size ((k, v) # es)"
proof (cases k)
  case Nil
  then show ?thesis using child_runs_size [of i g es] assms by (simp add: split_value_def)
next
  case (Cons n ns)
  let ?P = "\<lambda>d. child_index d = child_index (k, v)"
  have "entries_size (drop_prefix 1 (takeWhile ?P es)) \<le> entries_size es"
    using entries_size_drop_le entries_size_takeWhile le_trans by blast
  then have "entries_size (drop_prefix 1 ((k, v) # takeWhile ?P es)) < entries_size ((k, v) # es)"
    using Cons by (simp add: drop_prefix_def)
  moreover have "entries_size g \<le> entries_size es" if "(i, g) \<in> set (child_runs (dropWhile ?P es))"
    using child_runs_size [OF that] entries_size_dropWhile [of ?P es] by simp
  ultimately show ?thesis using assms Cons by (auto simp: split_value_def)
qed

lemma shared_prefix_len_le: "shared_prefix_len k es \<le> length k"
proof -
  have "foldl (\<lambda>n (key, _). min n (common_prefix_length k key)) m es \<le> m" for m
    by (induction es arbitrary: m) (auto intro: le_trans [OF _ min.cobounded1])
  then show ?thesis by (simp add: shared_prefix_len_def)
qed

lemma drop_prefix_size_less:
  assumes "0 < n" "n \<le> length k"
  shows "entries_size (drop_prefix n ((k, v) # es)) < entries_size ((k, v) # es)"
  using entries_size_drop_le [of n es] assms by (simp add: drop_prefix_def)

function contract_storage_subtree_root :: "externs \<Rightarrow> entry list \<Rightarrow> hash256" where
  "contract_storage_subtree_root X [] = hash_zero"
| "contract_storage_subtree_root X [(k, v)] = hash_contract_storage_leaf X k v"
| "contract_storage_subtree_root X ((k, v) # e # es) =
     (let n = shared_prefix_len k (e # es) in
      if 0 < n then
        hash_contract_storage_extension X (take n k)
          (contract_storage_subtree_root X (drop_prefix n ((k, v) # e # es)))
      else
        let (branch_value, rest) = split_value ((k, v) # e # es);
            children = put_children
              (map (\<lambda>(i, g). (i, contract_storage_subtree_root X g)) (child_runs rest)) no_children
        in hash_contract_storage_branch X children branch_value)"
  by pat_completeness auto

termination
proof (relation "measure (\<lambda>(X, es). entries_size es)", goal_cases)
  case 1
  then show ?case by simp
next
  case (2 X k v e es n)
  then show ?case
    using drop_prefix_size_less [of n k v "e # es"] shared_prefix_len_le [of k "e # es"] by simp
next
  case (3 X k v e es n p branch_value rest z i g)
  then have rest: "rest = snd (split_value ((k, v) # e # es))" by (metis snd_conv)
  from 3 have "(i, g) \<in> set (child_runs rest)" by auto
  then have "entries_size g < entries_size ((k, v) # e # es)"
    unfolding rest by (rule child_runs_size_less)
  then show ?case by simp
qed

definition compute_contract_storage_root :: "externs \<Rightarrow> btree \<Rightarrow> hash256" where
  "compute_contract_storage_root X storage =
     (if storage = [] then hash_zero
      else contract_storage_subtree_root X (map (\<lambda>(k, v). (bytes_to_nibbles k, v)) storage))"

definition btree_of_map :: "(u8 list \<rightharpoonup> u8 list) \<Rightarrow> btree" where
  "btree_of_map m = map (\<lambda>k. (k, the (m k))) (sorted_list_of_set (dom m))"

definition compute_contract_storage_root_from_hash_map ::
  "externs \<Rightarrow> (u8 list \<rightharpoonup> u8 list) \<Rightarrow> hash256" where
  "compute_contract_storage_root_from_hash_map X storage =
     (if dom storage = {} then hash_zero
      else compute_contract_storage_root X (btree_of_map storage))"

definition contract_storage_total_bytes :: "btree \<Rightarrow> u64" where
  "contract_storage_total_bytes storage = (\<Sum>(k, v)\<leftarrow>storage. as_word (length k + length v))"

definition verify_contract_storage_projection ::
  "externs \<Rightarrow> contract_record \<Rightarrow> btree option \<Rightarrow> contract_error + unit" where
  "verify_contract_storage_projection X r storage =
     (let actual_root = (case storage of Some m \<Rightarrow> compute_contract_storage_root X m | None \<Rightarrow> hash_zero)
      in if cr_storage_root r \<noteq> actual_root then Err StorageRootMismatch
         else let actual_bytes = (case storage of Some m \<Rightarrow> contract_storage_total_bytes m | None \<Rightarrow> 0)
           in if cr_storage_bytes r \<noteq> actual_bytes
              then Err (StorageBytesMismatch (cr_storage_bytes r) actual_bytes)
              else let actual_slots = (case storage of Some m \<Rightarrow> as_word (length m) | None \<Rightarrow> 0)
                in if cr_storage_slot_count r \<noteq> actual_slots
                   then Err (StorageSlotCountMismatch (cr_storage_slot_count r) actual_slots)
                   else Ok ())"

subsection \<open>Specification: tries\<close>

datatype trie =
    TEmpty
  | TLeaf nibbles "u8 list"
  | TExt nibbles trie
  | TBranch "trie list" "u8 list option"

fun trie_bytes :: "externs \<Rightarrow> trie \<Rightarrow> u8 list" and trie_hash :: "externs \<Rightarrow> trie \<Rightarrow> hash256" where
  "trie_bytes X TEmpty = []"
| "trie_bytes X (TLeaf k v) = leaf_bytes k v"
| "trie_bytes X (TExt p t) = extension_bytes p (trie_hash X t)"
| "trie_bytes X (TBranch ts v) = branch_bytes (map (trie_hash X) ts) v"
| "trie_hash X t = (if t = TEmpty then hash_zero else hash_bytes X (trie_bytes X t))"

text \<open>All preimages hashed for a trie.\<close>

fun trie_preimages :: "externs \<Rightarrow> trie \<Rightarrow> u8 list set" where
  "trie_preimages X TEmpty = {}"
| "trie_preimages X (TLeaf k v) = {leaf_bytes k v}"
| "trie_preimages X (TExt p t) = insert (extension_bytes p (trie_hash X t)) (trie_preimages X t)"
| "trie_preimages X (TBranch ts v) =
     insert (branch_bytes (map (trie_hash X) ts) v) (\<Union>t \<in> set ts. trie_preimages X t)"

fun trie_entries :: "trie \<Rightarrow> entry list" where
  "trie_entries TEmpty = []"
| "trie_entries (TLeaf k v) = [(k, v)]"
| "trie_entries (TExt p t) = map (\<lambda>(k, v). (p @ k, v)) (trie_entries t)"
| "trie_entries (TBranch ts v) =
     (case v of Some x \<Rightarrow> [([], x)] | None \<Rightarrow> [])
     @ concat (map (\<lambda>(i, es). map (\<lambda>(k, v). (of_nat i # k, v)) es)
         (enumerate 0 (map trie_entries ts)))"

function build_trie :: "entry list \<Rightarrow> trie" where
  "build_trie [] = TEmpty"
| "build_trie [(k, v)] = TLeaf k v"
| "build_trie ((k, v) # e # es) =
     (let n = shared_prefix_len k (e # es) in
      if 0 < n then TExt (take n k) (build_trie (drop_prefix n ((k, v) # e # es)))
      else
        let (branch_value, rest) = split_value ((k, v) # e # es)
        in TBranch (put_children (map (\<lambda>(i, g). (i, build_trie g)) (child_runs rest))
                      (replicate 16 TEmpty)) branch_value)"
  by pat_completeness auto
termination
proof (relation "measure entries_size", goal_cases)
  case 1
  then show ?case by simp
next
  case (2 k v e es n)
  then show ?case
    using drop_prefix_size_less [of n k v "e # es"] shared_prefix_len_le [of k "e # es"] by simp
next
  case (3 k v e es n p branch_value rest z i g)
  then have rest: "rest = snd (split_value ((k, v) # e # es))" by (metis snd_conv)
  from 3 have "(i, g) \<in> set (child_runs rest)" by auto
  then have "entries_size g < entries_size ((k, v) # e # es)"
    unfolding rest by (rule child_runs_size_less)
  then show ?case by simp
qed

declare trie_hash.simps [simp del]

lemma trie_hash_nonempty: "t \<noteq> TEmpty \<Longrightarrow> trie_hash X t = hash_bytes X (trie_bytes X t)"
  by (simp add: trie_hash.simps)

lemma trie_hash_empty [simp]: "trie_hash X TEmpty = hash_zero"
  by (simp add: trie_hash.simps)

lemma length_put_children [simp]: "length (put_children runs cs) = length cs"
  unfolding put_children_def by (induction runs arbitrary: cs) auto

lemma map_put_children:
  "map f (put_children runs cs) = put_children (map (\<lambda>(i, t). (i, f t)) runs) (map f cs)"
  unfolding put_children_def by (induction runs arbitrary: cs) (auto simp: map_update)

text \<open>Refinement: the offset recursion computes the hash of the trie.\<close>

lemma subtree_root_eq: "contract_storage_subtree_root X es = trie_hash X (build_trie es)"
proof (induction X es rule: contract_storage_subtree_root.induct)
  case (1 X)
  then show ?case by simp
next
  case (2 X k v)
  then show ?case by (simp add: trie_hash_nonempty hash_contract_storage_leaf_def)
next
  case (3 X k v e es)
  let ?n = "shared_prefix_len k (e # es)"
  show ?case
  proof (cases "0 < ?n")
    case True
    with 3(1) show ?thesis
      by (simp add: Let_def trie_hash_nonempty hash_contract_storage_extension_def)
  next
    case False
    obtain bv rest where sv: "split_value ((k, v) # e # es) = (bv, rest)" by (cases "split_value ((k, v) # e # es)")
    have runs: "map (\<lambda>p. (fst p, contract_storage_subtree_root X (snd p))) (child_runs rest)
        = map (\<lambda>p. (fst p, trie_hash X (build_trie (snd p)))) (child_runs rest)"
      using 3(2) [OF refl False sv [symmetric] refl] by auto
    from False sv show ?thesis
      by (simp add: Let_def trie_hash_nonempty hash_contract_storage_branch_def map_put_children
          no_children_def comp_def case_prod_unfold runs)
  qed
qed

subsection \<open>The trie holds the entries\<close>

definition wf_entries :: "entry list \<Rightarrow> bool" where
  "wf_entries es \<longleftrightarrow> sorted_wrt (<) (map fst es) \<and> (\<forall>e \<in> set es. \<forall>n \<in> set (fst e). n < 16)"

lemma append_less_cancel [simp]: "p @ a < p @ b \<longleftrightarrow> a < (b :: 'a::linorder list)"
  by (induction p) auto

lemma map_fst_drop_prefix: "map fst (drop_prefix n es) = map (drop n) (map fst es)"
  by (induction es) (auto simp: drop_prefix_def)

lemma take_eq_append: "take n k = p \<Longrightarrow> p @ drop n k = k"
  by auto

lemma sorted_wrt_map_drop:
  "sorted_wrt (<) ks \<Longrightarrow> \<forall>k \<in> set ks. take n k = p \<Longrightarrow> sorted_wrt (<) (map (drop n) (ks :: nibbles list))"
proof (induction ks)
  case (Cons k ks)
  have "drop n k < drop n k'" if "k' \<in> set ks" for k'
  proof -
    have "k < k'" using Cons.prems(1) that by simp
    then have "p @ drop n k < p @ drop n k'"
      using Cons.prems(2) that take_eq_append [of n k p] take_eq_append [of n k' p] by simp
    then show ?thesis by simp
  qed
  with Cons show ?case by simp
qed simp

lemma sorted_drop_prefix:
  "sorted_wrt (<) (map fst es) \<Longrightarrow> \<forall>e \<in> set es. take n (fst e) = p
   \<Longrightarrow> sorted_wrt (<) (map fst (drop_prefix n es))"
  unfolding map_fst_drop_prefix by (rule sorted_wrt_map_drop) auto

lemma wf_drop_prefix:
  assumes "wf_entries es" "\<forall>e \<in> set es. take n (fst e) = p"
  shows "wf_entries (drop_prefix n es)"
proof -
  have "\<forall>e \<in> set (drop_prefix n es). \<forall>x \<in> set (fst e). x < 16"
    using assms(1) by (fastforce simp: wf_entries_def drop_prefix_def dest: in_set_dropD)
  then show ?thesis using assms sorted_drop_prefix [of es n p] by (simp add: wf_entries_def)
qed

lemma restore_prefix:
  "\<forall>e \<in> set es. take n (fst e) = p \<Longrightarrow> map (\<lambda>(k, v). (p @ k, v)) (drop_prefix n es) = es"
proof (induction es)
  case (Cons e es)
  have "p @ drop n (fst e) = fst e" using Cons.prems take_eq_append [of n "fst e" p] by simp
  with Cons show ?case by (simp add: drop_prefix_def case_prod_unfold)
qed (simp add: drop_prefix_def)

lemma take_common_prefix: "n \<le> common_prefix_length a b \<Longrightarrow> take n a = take n b"
proof (induction a b arbitrary: n rule: list_induct2')
  case (4 x xs y ys)
  then show ?case by (cases n) (auto simp: common_prefix_length_def split: if_splits)
qed (auto simp: common_prefix_length_def)

lemma shared_prefix_common:
  assumes "(k', v') \<in> set es"
  shows "shared_prefix_len k es \<le> common_prefix_length k k'"
proof -
  have mono: "foldl (\<lambda>n (key, _). min n (common_prefix_length k key)) m es \<le> m" for m es
    by (induction es arbitrary: m) (auto intro: le_trans [OF _ min.cobounded1])
  have "foldl (\<lambda>n (key, _). min n (common_prefix_length k key)) m es \<le> common_prefix_length k k'" for m
    using assms
  proof (induction es arbitrary: m)
    case (Cons e es)
    show ?case
    proof (cases "e = (k', v')")
      case True
      then show ?thesis using mono [of "min m (common_prefix_length k k')" es] by simp
    next
      case False
      with Cons show ?thesis by auto
    qed
  qed simp
  then show ?thesis by (simp add: shared_prefix_len_def)
qed

lemma shared_prefix_take:
  "(k', v') \<in> set ((k, v) # es) \<Longrightarrow> take (shared_prefix_len k es) k' = take (shared_prefix_len k es) k"
  using take_common_prefix [OF shared_prefix_common, of k' v' es k] by auto

lemma concat_filter_index:
  "sorted (map h xs) \<Longrightarrow> concat (map (\<lambda>i. filter (\<lambda>x. h x = i) xs) [0..<n]) = filter (\<lambda>x. h x < n) xs"
proof (induction n)
  case (Suc n)
  have "filter (\<lambda>x. h x < n) xs @ filter (\<lambda>x. h x = n) xs = filter (\<lambda>x. h x < Suc n) xs"
    using Suc.prems
  proof (induction xs)
    case (Cons x xs)
    show ?case
    proof (cases "h x < n")
      case True
      with Cons show ?thesis by simp
    next
      case False
      with Cons.prems have "filter (\<lambda>x. h x < n) xs = []" by (auto simp: filter_empty_conv)
      with Cons False show ?thesis by auto
    qed
  qed simp
  with Suc show ?case by simp
qed simp

lemma set_dropWhileD: "x \<in> set (dropWhile P xs) \<Longrightarrow> x \<in> set xs"
  by (induction xs) (auto split: if_splits)

lemma put_child_runs:
  assumes "sorted (map child_index es)" "i < length cs"
  shows "put_children (child_runs es) cs ! i
    = (if filter (\<lambda>e. child_index e = i) es = [] then cs ! i
       else drop_prefix 1 (filter (\<lambda>e. child_index e = i) es))"
  using assms
proof (induction es arbitrary: cs rule: child_runs.induct)
  case (2 e es)
  let ?P = "\<lambda>d. child_index d = child_index e"
  let ?rest = "dropWhile ?P es" and ?g = "takeWhile ?P es"
  have es: "es = ?g @ ?rest" by simp
  have "sorted (map child_index (?g @ ?rest))" using 2(2) by simp
  then have srt: "sorted (map child_index ?rest)" unfolding map_append sorted_append by blast
  have gt: "\<forall>d \<in> set ?rest. child_index e < child_index d"
  proof (cases ?rest)
    case Nil
    then show ?thesis unfolding Nil by simp
  next
    case (Cons d ds)
    then have "child_index d \<noteq> child_index e" by (simp add: dropWhile_eq_Cons_conv)
    moreover have "d \<in> set ?rest" using Cons by simp
    then have "d \<in> set es" by (rule set_dropWhileD)
    ultimately have "child_index e < child_index d" using 2(2) by force
    with srt show ?thesis unfolding Cons by auto
  qed
  have split: "filter Q es = filter Q ?g @ filter Q ?rest" for Q
    using es by (metis filter_append)
  have "put_children (child_runs (e # es)) cs
      = put_children (child_runs ?rest) (cs[child_index e := drop_prefix 1 (e # ?g)])"
    by (simp add: put_children_def)
  also have "\<dots> ! i = (if filter (\<lambda>d. child_index d = i) ?rest = []
      then (cs[child_index e := drop_prefix 1 (e # ?g)]) ! i
      else drop_prefix 1 (filter (\<lambda>d. child_index d = i) ?rest))"
    using 2(3) srt by (intro 2(1)) simp_all
  also have "\<dots> = (if filter (\<lambda>d. child_index d = i) (e # es) = [] then cs ! i
       else drop_prefix 1 (filter (\<lambda>d. child_index d = i) (e # es)))"
  proof (cases "i = child_index e")
    case True
    have "filter ?P ?rest = []" using gt by (auto simp: filter_empty_conv)
    moreover have "filter ?P ?g = ?g" by (auto simp: filter_id_conv dest: set_takeWhileD)
    ultimately have "filter ?P es = ?g" using split [of ?P] by simp
    with \<open>filter ?P ?rest = []\<close> show ?thesis using True 2(3) by simp
  next
    case False
    have "filter (\<lambda>d. child_index d = i) ?g = []"
      using False by (auto simp: filter_empty_conv dest: set_takeWhileD)
    with False show ?thesis using split [of "\<lambda>d. child_index d = i"] by simp
  qed
  finally show ?case .
qed (simp add: put_children_def)

lemma wf_entries_tail: "wf_entries (e # es) \<Longrightarrow> wf_entries es"
  by (simp add: wf_entries_def)

lemma wf_entries_filter: "wf_entries es \<Longrightarrow> wf_entries (filter P es)"
proof (induction es)
  case (Cons e es)
  then show ?case by (auto simp: wf_entries_def)
qed simp

lemma nonempty_tail: "wf_entries (e # es) \<Longrightarrow> d \<in> set es \<Longrightarrow> fst d \<noteq> []"
  by (force simp: wf_entries_def)

lemma split_value_nonempty:
  assumes "wf_entries es" "split_value es = (bv, rest)"
  shows "wf_entries rest" "\<forall>d \<in> set rest. fst d \<noteq> []"
proof -
  have "wf_entries rest \<and> (\<forall>d \<in> set rest. fst d \<noteq> [])"
  proof (cases es)
    case Nil
    with assms show ?thesis by (simp add: split_value_def)
  next
    case (Cons e fs)
    have tl: "\<forall>d \<in> set fs. fst d \<noteq> []"
      using assms(1) Cons nonempty_tail by blast
    show ?thesis
    proof (cases "fst e = []")
      case True
      with assms(2) Cons have "rest = fs" by (simp add: split_value_def case_prod_unfold)
      with tl assms(1) Cons wf_entries_tail show ?thesis by blast
    next
      case False
      with assms(2) Cons have "rest = es" by (simp add: split_value_def case_prod_unfold)
      with tl False assms(1) Cons show ?thesis by simp
    qed
  qed
  then show "wf_entries rest" "\<forall>d \<in> set rest. fst d \<noteq> []" by blast+
qed

lemma child_index_mono: "fst d \<noteq> [] \<Longrightarrow> fst d < fst e \<Longrightarrow> child_index d \<le> child_index e"
  by (auto simp: child_index_def word_less_nat_alt less_imp_le split: list.splits)

lemma sorted_child_index:
  "wf_entries es \<Longrightarrow> \<forall>d \<in> set es. fst d \<noteq> [] \<Longrightarrow> sorted (map child_index es)"
proof (induction es)
  case (Cons e es)
  then have "\<forall>d \<in> set es. child_index e \<le> child_index d"
    by (auto simp: wf_entries_def intro: child_index_mono)
  with Cons show ?case by (auto simp: wf_entries_def)
qed simp

lemma child_index_less: "wf_entries es \<Longrightarrow> d \<in> set es \<Longrightarrow> child_index d < 16"
  by (cases "fst d") (auto simp: wf_entries_def child_index_def word_less_nat_alt)

lemma take_child_index:
  "fst d \<noteq> [] \<Longrightarrow> child_index d = i \<Longrightarrow> take 1 (fst d) = [of_nat i]"
  by (auto simp: child_index_def split: list.splits)

text \<open>The sixteen groups of a branch: the entries under each nibble, without it.\<close>

definition branch_groups :: "entry list \<Rightarrow> entry list list" where
  "branch_groups rest = put_children (child_runs rest) (replicate 16 [])"

lemma length_branch_groups [simp]: "length (branch_groups rest) = 16"
  by (simp add: branch_groups_def)

lemma branch_groups_nth:
  assumes "wf_entries rest" "\<forall>d \<in> set rest. fst d \<noteq> []" "i < 16"
  shows "branch_groups rest ! i = drop_prefix 1 (filter (\<lambda>e. child_index e = i) rest)"
  using put_child_runs [OF sorted_child_index [OF assms(1,2)], of i "replicate 16 []"] assms(3)
  by (simp add: branch_groups_def drop_prefix_def)

lemma set_put_children: "set (put_children runs cs) \<subseteq> set cs \<union> snd ` set runs"
proof (induction runs arbitrary: cs)
  case (Cons r runs)
  show ?case
    using Cons [of "cs[fst r := snd r]"] set_update_subset_insert [of cs "fst r" "snd r"]
    by (cases r) (auto simp: put_children_def)
qed (simp add: put_children_def)

lemma branch_groups_smaller:
  assumes "split_value ((k, v) # e # es) = (bv, rest)" "g \<in> set (branch_groups rest)"
  shows "entries_size g < entries_size ((k, v) # e # es)"
proof -
  have "g = [] \<or> (\<exists>i. (i, g) \<in> set (child_runs rest))"
    using assms(2) set_put_children [of "child_runs rest" "replicate 16 []"]
    by (auto simp: branch_groups_def)
  then show ?thesis
    using child_runs_size_less [of _ g k v "e # es"] assms(1) by (cases e) auto
qed

lemma build_trie_branch:
  assumes "shared_prefix_len k (e # es) = 0" "split_value ((k, v) # e # es) = (bv, rest)"
  shows "build_trie ((k, v) # e # es) = TBranch (map build_trie (branch_groups rest)) bv"
  using assms by (simp add: branch_groups_def map_put_children)

lemma build_trie_ext:
  assumes "0 < shared_prefix_len k (e # es)"
  shows "build_trie ((k, v) # e # es) = TExt (take (shared_prefix_len k (e # es)) k)
           (build_trie (drop_prefix (shared_prefix_len k (e # es)) ((k, v) # e # es)))"
  using assms by (simp add: Let_def)

declare build_trie.simps(3) [simp del]

lemma wf_branch_group:
  assumes "wf_entries rest" "\<forall>d \<in> set rest. fst d \<noteq> []" "g \<in> set (branch_groups rest)"
  shows "wf_entries g"
proof -
  obtain i where i: "i < 16" "g = branch_groups rest ! i"
    using assms(3) by (metis in_set_conv_nth length_branch_groups)
  have "\<forall>d \<in> set (filter (\<lambda>e. child_index e = i) rest). take 1 (fst d) = [of_nat i]"
    using assms(2) take_child_index by auto
  with i show ?thesis
    using wf_drop_prefix wf_entries_filter [OF assms(1)] branch_groups_nth [OF assms(1,2)] by metis
qed

lemma branch_groups_concat:
  assumes "wf_entries rest" "\<forall>d \<in> set rest. fst d \<noteq> []"
  shows "concat (map (\<lambda>(i, es). map (\<lambda>(k, v). (of_nat i # k, v)) es) (enumerate 0 (branch_groups rest)))
    = rest"
proof -
  have "map (\<lambda>(k, v). (of_nat i # k, v)) (branch_groups rest ! i)
      = filter (\<lambda>e. child_index e = i) rest" if "i < 16" for i
  proof -
    have "\<forall>d \<in> set (filter (\<lambda>e. child_index e = i) rest). take 1 (fst d) = [of_nat i]"
      using assms(2) take_child_index by auto
    from restore_prefix [OF this] show ?thesis
      unfolding branch_groups_nth [OF assms that] by simp
  qed
  then have "map (\<lambda>(i, es). map (\<lambda>(k, v). (of_nat i # k, v)) es) (enumerate 0 (branch_groups rest))
      = map (\<lambda>i. filter (\<lambda>e. child_index e = i) rest) [0..<16]"
    by (intro nth_equalityI) (simp_all add: nth_enumerate_eq)
  then show ?thesis
    using concat_filter_index [OF sorted_child_index [OF assms], of 16] child_index_less [OF assms(1)]
    by (simp add: filter_id_conv)
qed

lemma trie_entries_build: "wf_entries es \<Longrightarrow> trie_entries (build_trie es) = es"
proof (induction "entries_size es" arbitrary: es rule: less_induct)
  case less
  show ?case
  proof (cases es rule: build_trie.cases)
    case (3 k v e fs)
    let ?n = "shared_prefix_len k (e # fs)"
    show ?thesis
    proof (cases "0 < ?n")
      case True
      have pre: "\<forall>d \<in> set es. take ?n (fst d) = take ?n k"
        using shared_prefix_take [of _ _ k v "e # fs"] 3 by force
      have "trie_entries (build_trie (drop_prefix ?n es)) = drop_prefix ?n es"
        using less.hyps wf_drop_prefix [OF less.prems pre] drop_prefix_size_less [OF True]
          shared_prefix_len_le 3 by blast
      then show ?thesis using restore_prefix [OF pre] build_trie_ext [OF True] 3 by simp
    next
      case False
      obtain bv rest where sv: "split_value ((k, v) # e # fs) = (bv, rest)"
        by (cases "split_value ((k, v) # e # fs)")
      note ne = split_value_nonempty [OF less.prems [unfolded 3] sv]
      have "map trie_entries (map build_trie (branch_groups rest)) = branch_groups rest"
        using less.hyps branch_groups_smaller [OF sv] wf_branch_group [OF ne] 3
        by (auto intro!: map_idI)
      then have "trie_entries (build_trie es)
          = (case bv of Some x \<Rightarrow> [([], x)] | None \<Rightarrow> []) @ rest"
        using build_trie_branch [OF _ sv] False branch_groups_concat [OF ne] 3 by simp
      then show ?thesis using sv 3 by (auto simp: split_value_def split: if_splits)
    qed
  qed simp_all
qed

subsection \<open>The node encodings are injective\<close>

lemma nibble_take_bit: "(b :: u8) < 16 \<Longrightarrow> take_bit 4 b = b"
  by (simp add: word_unat_eq_iff unsigned_take_bit_eq word_less_nat_alt take_bit_nat_eq_self)

lemma nibble_bit: "(b :: u8) < 16 \<Longrightarrow> bit b n \<Longrightarrow> n < 4"
  by (metis bit_take_bit_iff nibble_take_bit)

lemma unpack_pair:
  assumes "(a :: u8) < 16" "b < 16"
  shows "drop_bit 4 (push_bit 4 a OR b) = a" "take_bit 4 (push_bit 4 a OR b) = b"
proof -
  show "drop_bit 4 (push_bit 4 a OR b) = a"
  proof (rule bit_word_eqI)
    fix n assume "n < LENGTH(8)"
    then show "bit (drop_bit 4 (push_bit 4 a OR b)) n \<longleftrightarrow> bit a n"
      using nibble_bit [OF assms(1), of n] nibble_bit [OF assms(2), of "4 + n"]
      by (auto simp: bit_simps)
  qed
  show "take_bit 4 (push_bit 4 a OR b) = b"
    using nibble_bit [OF assms(2)] by (intro bit_word_eqI) (auto simp: bit_simps)
qed

lemma pack_pair_inj:
  assumes "(a :: u8) < 16" "b < 16" "c < 16" "d < 16"
  shows "push_bit 4 a OR b = push_bit 4 c OR d \<longleftrightarrow> a = c \<and> b = d"
  using unpack_pair [OF assms(1,2)] unpack_pair [OF assms(3,4)] by metis

lemma pack_pair_inj_zero:
  assumes "(a :: u8) < 16" "c < 16" "d < 16"
  shows "push_bit 4 a = push_bit 4 c OR d \<longleftrightarrow> a = c \<and> d = 0"
    "push_bit 4 c OR d = push_bit 4 a \<longleftrightarrow> a = c \<and> d = 0"
  using pack_pair_inj [of a 0 c d] assms by auto

abbreviation all_nibbles :: "nibbles \<Rightarrow> bool" where
  "all_nibbles ns \<equiv> (\<forall>n \<in> set ns. n < 16)"

lemma pack_pairs_inj:
  assumes "all_nibbles xs" "all_nibbles ys" "even (length xs)" "even (length ys)"
  shows "pack_pairs xs = pack_pairs ys \<longleftrightarrow> xs = ys"
  using assms
proof (induction xs arbitrary: ys rule: pack_pairs.induct)
  case (1 a b rest)
  from 1(2-) show ?case
    by (cases ys rule: pack_pairs.cases) (auto simp: 1(1) pack_pair_inj)
next
  case "2_1"
  then show ?case by (cases ys rule: pack_pairs.cases) auto
qed auto

lemma length_pack_pairs: "length (pack_pairs xs) = length xs div 2"
  by (induction xs rule: pack_pairs.induct) auto

definition prefix_flag :: "bool \<Rightarrow> bool \<Rightarrow> u8" where
  "prefix_flag is_leaf is_odd = (if is_leaf then 2 else 0) + (if is_odd then 1 else 0)"

lemma prefix_flag_inj: "prefix_flag l o1 = prefix_flag l' o2 \<longleftrightarrow> l = l' \<and> o1 = o2"
  by (auto simp: prefix_flag_def)

lemma push_prefix_flag_inj:
  "push_bit 4 (prefix_flag l o1) = push_bit 4 (prefix_flag l' o2) \<longleftrightarrow> l = l' \<and> o1 = o2"
  by (auto simp: prefix_flag_def split: if_splits)

lemma prefix_flag_small: "prefix_flag l o1 < 16"
  by (auto simp: prefix_flag_def)

lemma hex_prefix_encode_flag:
  "hex_prefix_encode ns l =
     (if odd (length ns) then (push_bit 4 (prefix_flag l True) OR hd ns) # pack_pairs (tl ns)
      else (push_bit 4 (prefix_flag l False) OR 0) # pack_pairs ns)"
  by (simp add: hex_prefix_encode_def prefix_flag_def Let_def)

lemma hex_prefix_encode_inj:
  assumes "all_nibbles xs" "all_nibbles ys"
  shows "hex_prefix_encode xs l = hex_prefix_encode ys l' \<longleftrightarrow> xs = ys \<and> l = l'"
proof -
  have ne: "odd (length zs) \<Longrightarrow> zs = hd zs # tl zs" for zs :: nibbles by (cases zs) auto
  have hd: "odd (length zs) \<Longrightarrow> all_nibbles zs \<Longrightarrow> hd zs < 16 \<and> all_nibbles (tl zs)" for zs
    using ne by (metis list.set_intros)
  show ?thesis
  proof (cases "odd (length xs) \<longleftrightarrow> odd (length ys)")
    case True
    then show ?thesis
      using assms hd [of xs] hd [of ys] ne [of xs] ne [of ys]
      by (auto simp: hex_prefix_encode_flag pack_pair_inj prefix_flag_small prefix_flag_inj
          push_prefix_flag_inj pack_pairs_inj)
  next
    case False
    then have "hex_prefix_encode xs l \<noteq> hex_prefix_encode ys l'"
      using assms hd [of xs] hd [of ys]
      by (auto simp: hex_prefix_encode_flag pack_pair_inj_zero prefix_flag_small prefix_flag_inj)
    with False show ?thesis by auto
  qed
qed

lemma length_hex_prefix_encode: "length (hex_prefix_encode ns l) = Suc (length ns div 2)"
  by (cases ns) (auto simp: hex_prefix_encode_flag length_pack_pairs elim!: oddE)

abbreviation short :: "'a list \<Rightarrow> bool" where
  "short xs \<equiv> length xs < 2 ^ 32"

lemma u32_len_inj: "short xs \<Longrightarrow> short ys \<Longrightarrow> u32_len xs = u32_len ys \<longleftrightarrow> length xs = length ys"
  by (simp add: u32_len_def to_be_bytes_inj as_word_eq_iff)

lemma length_u32_len [simp]: "length (u32_len xs) = 4"
  by (simp add: u32_len_def)

lemma u32_framed_inj:
  assumes "short xs" "short ys"
  shows "u32_len xs @ xs @ r = u32_len ys @ ys @ s \<longleftrightarrow> xs = ys \<and> r = s"
  using u32_len_inj [OF assms] by (auto simp: append_eq_append_conv)

lemma short_hex_prefix: "short ns \<Longrightarrow> short (hex_prefix_encode ns l)"
  by (simp add: length_hex_prefix_encode)

lemma leaf_bytes_inj:
  assumes "all_nibbles k" "all_nibbles k'" "short k" "short k'" "short v" "short v'"
  shows "leaf_bytes k v = leaf_bytes k' v' \<longleftrightarrow> k = k' \<and> v = v'"
  using u32_framed_inj [OF assms(5,6), of "[]" "[]"]
  by (simp only: leaf_bytes_def Let_def append_Cons append_Nil append_Nil2 list.inject simp_thms
      u32_framed_inj [OF short_hex_prefix [OF assms(3)] short_hex_prefix [OF assms(4)]]
      hex_prefix_encode_inj [OF assms(1,2)])

lemma extension_bytes_inj:
  assumes "all_nibbles p" "all_nibbles p'" "short p" "short p'"
  shows "extension_bytes p h = extension_bytes p' h' \<longleftrightarrow> p = p' \<and> h = h'"
  by (simp only: extension_bytes_def Let_def append_Cons append_Nil list.inject simp_thms
      u32_framed_inj [OF short_hex_prefix [OF assms(3)] short_hex_prefix [OF assms(4)]]
      hex_prefix_encode_inj [OF assms(1,2)] hash256.expand hash256.inject)
    (metis hash256.expand)

lemma branch_bytes_inj:
  assumes "length cs = length cs'" "\<forall>h \<in> set cs. wf_hash h" "\<forall>h \<in> set cs'. wf_hash h"
    and "\<forall>x. v = Some x \<longrightarrow> short x" "\<forall>x. v' = Some x \<longrightarrow> short x"
  shows "branch_bytes cs v = branch_bytes cs' v' \<longleftrightarrow> cs = cs' \<and> v = v'"
proof -
  have len: "length (concat (map hash_as_bytes hs)) = 32 * length hs" if "\<forall>h \<in> set hs. wf_hash h" for hs
    using that by (induction hs) (auto simp: wf_hash_def)
  have "length x = length y" if "(x, y) \<in> set (zip (map hash_as_bytes cs) (map hash_as_bytes cs'))" for x y
    using set_zip_leftD [OF that] set_zip_rightD [OF that] assms(2,3) by (auto simp: wf_hash_def)
  then have "\<forall>(x, y) \<in> set (zip (map hash_as_bytes cs) (map hash_as_bytes cs')). length x = length y"
    by blast
  then have "concat (map hash_as_bytes cs) = concat (map hash_as_bytes cs')
      \<longleftrightarrow> map hash_as_bytes cs = map hash_as_bytes cs'"
    using assms(1) by (simp add: concat_eq_concat_iff)
  moreover have "inj hash_as_bytes" by (auto intro: injI hash256.expand)
  ultimately have cs: "concat (map hash_as_bytes cs) = concat (map hash_as_bytes cs') \<longleftrightarrow> cs = cs'"
    by (simp add: inj_map_eq_map)
  have v: "(case v of Some v \<Rightarrow> [0x01] @ u32_len v @ v | None \<Rightarrow> [0x00])
      = (case v' of Some v \<Rightarrow> [0x01] @ u32_len v @ v | None \<Rightarrow> [0x00 :: u8]) \<longleftrightarrow> v = v'"
    using assms(4,5) u32_framed_inj [of _ _ "[]" "[]"] by (auto split: option.splits)
  show ?thesis
    using cs v len [OF assms(2)] len [OF assms(3)] assms(1)
    by (simp add: branch_bytes_def)
qed

subsection \<open>Binding of tries\<close>

fun wf_trie :: "trie \<Rightarrow> bool" where
  "wf_trie TEmpty \<longleftrightarrow> True"
| "wf_trie (TLeaf k v) \<longleftrightarrow> all_nibbles k \<and> short k \<and> short v"
| "wf_trie (TExt p t) \<longleftrightarrow> all_nibbles p \<and> short p \<and> wf_trie t"
| "wf_trie (TBranch ts v) \<longleftrightarrow>
     length ts = 16 \<and> (\<forall>t \<in> set ts. wf_trie t) \<and> (case v of Some x \<Rightarrow> short x | None \<Rightarrow> True)"

lemma wf_hash_zero [simp]: "wf_hash hash_zero"
  by (simp add: wf_hash_def hash_zero_def)

lemma wf_trie_hash [simp]: "wf_hash (trie_hash X t)"
  by (simp add: trie_hash.simps)

lemma trie_bytes_preimage: "t \<noteq> TEmpty \<Longrightarrow> trie_bytes X t \<in> trie_preimages X t"
  by (cases t) auto

lemma trie_bytes_tag:
  "hd (trie_bytes X (TLeaf k v)) = 1"
  "hd (trie_bytes X (TExt p t)) = 2"
  "hd (trie_bytes X (TBranch ts bv)) = 3"
  by (simp_all add: leaf_bytes_def extension_bytes_def branch_bytes_def Let_def)

definition collision_free :: "externs \<Rightarrow> u8 list set \<Rightarrow> bool" where
  "collision_free X M \<longleftrightarrow> inj_on (hash_bytes X) M \<and> hash_zero \<notin> hash_bytes X ` M"

lemma collision_free_subset: "collision_free X M \<Longrightarrow> N \<subseteq> M \<Longrightarrow> collision_free X N"
  by (auto simp: collision_free_def intro: inj_on_subset)

lemma trie_hash_bytes_eq:
  assumes "collision_free X (trie_preimages X t \<union> trie_preimages X u)"
    and "trie_hash X t = trie_hash X u"
  shows "(t = TEmpty \<longleftrightarrow> u = TEmpty) \<and> (t \<noteq> TEmpty \<longrightarrow> trie_bytes X t = trie_bytes X u)"
proof -
  have "t \<noteq> TEmpty \<Longrightarrow> trie_hash X t \<noteq> hash_zero" "u \<noteq> TEmpty \<Longrightarrow> trie_hash X u \<noteq> hash_zero"
    using assms(1) trie_bytes_preimage [of _ X] trie_hash_nonempty [of _ X]
    unfolding collision_free_def by (metis Un_iff imageI)+
  then have empty: "t = TEmpty \<longleftrightarrow> u = TEmpty" using assms(2) by (metis trie_hash_empty)
  moreover have "trie_bytes X t = trie_bytes X u" if "t \<noteq> TEmpty" "u \<noteq> TEmpty"
    using assms that trie_bytes_preimage [of t X] trie_bytes_preimage [of u X]
    by (auto simp: trie_hash_nonempty collision_free_def dest: inj_onD)
  ultimately show ?thesis by blast
qed

lemma trie_hash_inj:
  assumes "wf_trie t" "wf_trie u" "collision_free X (trie_preimages X t \<union> trie_preimages X u)"
    and "trie_hash X t = trie_hash X u"
  shows "t = u"
  using assms
proof (induction t arbitrary: u)
  case TEmpty
  then show ?case using trie_hash_bytes_eq by metis
next
  case (TLeaf k v)
  then have "u \<noteq> TEmpty" "trie_bytes X u = trie_bytes X (TLeaf k v)"
    using trie_hash_bytes_eq [OF TLeaf.prems(3,4)] by auto
  then show ?case
    using TLeaf.prems(1,2) trie_bytes_tag [of X]
    by (cases u) (auto simp: leaf_bytes_inj dest: arg_cong [of _ _ hd])
next
  case (TExt p t)
  then have eq: "u \<noteq> TEmpty" "trie_bytes X u = trie_bytes X (TExt p t)"
    using trie_hash_bytes_eq [OF TExt.prems(3,4)] by auto
  then obtain q s where u: "u = TExt q s"
    using trie_bytes_tag [of X] by (cases u) (auto dest: arg_cong [of _ _ hd])
  then have "p = q" "trie_hash X t = trie_hash X s"
    using eq TExt.prems(1,2) by (auto simp: extension_bytes_inj)
  moreover have "t = s"
    using TExt.prems u calculation
    by (intro TExt.IH) (auto elim: collision_free_subset)
  ultimately show ?case using u by simp
next
  case (TBranch ts v)
  then have eq: "u \<noteq> TEmpty" "trie_bytes X u = trie_bytes X (TBranch ts v)"
    using trie_hash_bytes_eq [OF TBranch.prems(3,4)] by auto
  then obtain us w where u: "u = TBranch us w"
    using trie_bytes_tag [of X] by (cases u) (auto dest: arg_cong [of _ _ hd])
  have "branch_bytes (map (trie_hash X) us) w = branch_bytes (map (trie_hash X) ts) v
      \<longleftrightarrow> map (trie_hash X) us = map (trie_hash X) ts \<and> w = v"
    using TBranch.prems(1,2) u by (intro branch_bytes_inj) (auto split: option.splits)
  then have hs: "map (trie_hash X) us = map (trie_hash X) ts" "w = v"
    using eq u by auto
  have "ts = us"
  proof (rule nth_equalityI)
    show "length ts = length us" using map_eq_imp_length_eq [OF hs(1)] by simp
    fix i assume i: "i < length ts"
    then have mem: "ts ! i \<in> set ts" "us ! i \<in> set us" using map_eq_imp_length_eq [OF hs(1)] by auto
    show "ts ! i = us ! i"
    proof (rule TBranch.IH [OF mem(1)])
      show "wf_trie (ts ! i)" "wf_trie (us ! i)" using TBranch.prems(1,2) u mem by auto
      show "collision_free X (trie_preimages X (ts ! i) \<union> trie_preimages X (us ! i))"
        using TBranch.prems(3) u mem by (rule_tac collision_free_subset) auto
      show "trie_hash X (ts ! i) = trie_hash X (us ! i)"
        using hs(1) i map_eq_imp_length_eq [OF hs(1)] by (metis nth_map)
    qed
  qed
  with u hs show ?case by simp
qed

definition short_entries :: "entry list \<Rightarrow> bool" where
  "short_entries es \<longleftrightarrow> (\<forall>e \<in> set es. short (fst e) \<and> short (snd e))"

lemma short_drop_prefix: "short_entries es \<Longrightarrow> short_entries (drop_prefix n es)"
  by (auto simp: short_entries_def drop_prefix_def split: prod.splits; force)

lemma short_branch_group:
  assumes "wf_entries rest" "\<forall>d \<in> set rest. fst d \<noteq> []" "short_entries rest" "g \<in> set (branch_groups rest)"
  shows "short_entries g"
proof -
  obtain i where i: "i < 16" "g = branch_groups rest ! i"
    using assms(4) by (metis in_set_conv_nth length_branch_groups)
  have "short_entries (filter (\<lambda>e. child_index e = i) rest)"
    using assms(3) by (simp add: short_entries_def)
  then show ?thesis using i branch_groups_nth [OF assms(1,2)] short_drop_prefix by metis
qed

lemma wf_trie_build: "wf_entries es \<Longrightarrow> short_entries es \<Longrightarrow> wf_trie (build_trie es)"
proof (induction "entries_size es" arbitrary: es rule: less_induct)
  case less
  show ?case
  proof (cases es rule: build_trie.cases)
    case (2 k v)
    with less.prems show ?thesis by (simp add: wf_entries_def short_entries_def)
  next
    case (3 k v e fs)
    let ?n = "shared_prefix_len k (e # fs)"
    show ?thesis
    proof (cases "0 < ?n")
      case True
      have pre: "\<forall>d \<in> set es. take ?n (fst d) = take ?n k"
        using shared_prefix_take [of _ _ k v "e # fs"] 3 by force
      have "wf_trie (build_trie (drop_prefix ?n es))"
        using less.hyps wf_drop_prefix [OF less.prems(1) pre] drop_prefix_size_less [OF True]
          shared_prefix_len_le short_drop_prefix [OF less.prems(2)] 3 by blast
      moreover have "all_nibbles (take ?n k)" "short (take ?n k)"
        using less.prems 3 by (auto simp: wf_entries_def short_entries_def dest: in_set_takeD)
      ultimately show ?thesis using build_trie_ext [OF True] 3 by simp
    next
      case False
      obtain bv rest where sv: "split_value ((k, v) # e # fs) = (bv, rest)"
        by (cases "split_value ((k, v) # e # fs)")
      note ne = split_value_nonempty [OF less.prems(1) [unfolded 3] sv]
      have "set rest \<subseteq> set es" "bv = None \<or> bv = Some v"
        using sv 3 by (auto simp: split_value_def split: if_splits)
      then have "short_entries rest" "case bv of Some x \<Rightarrow> short x | None \<Rightarrow> True"
        using less.prems(2) 3 by (auto simp: short_entries_def)
      moreover have "\<forall>g \<in> set (branch_groups rest). wf_trie (build_trie g)"
        using less.hyps branch_groups_smaller [OF sv] wf_branch_group [OF ne]
          short_branch_group [OF ne calculation(1)] 3 by blast
      ultimately show ?thesis using build_trie_branch [OF _ sv] False 3 by simp
    qed
  qed simp
qed

subsection \<open>Keys as nibbles\<close>

lemma bytes_to_nibbles_simps [simp]:
  "bytes_to_nibbles [] = []"
  "bytes_to_nibbles (b # bs) = drop_bit 4 b # (b AND 0x0F) # bytes_to_nibbles bs"
  by (simp_all add: bytes_to_nibbles_def)

lemma low_nibble: "unat (b AND 0x0F) = unat (b :: u8) mod 16"
proof -
  have "b AND 0x0F = take_bit 4 b" by (simp add: take_bit_eq_mask mask_eq_exp_minus_1)
  then show ?thesis by (simp add: unsigned_take_bit_eq take_bit_eq_mod unat_mod)
qed

lemma high_nibble: "unat (drop_bit 4 (b :: u8)) = unat b div 16"
  by (simp add: drop_bit_eq_div unat_div)

lemma div_mod_16_less:
  "(x :: nat) < y \<longleftrightarrow> x div 16 < y div 16 \<or> x div 16 = y div 16 \<and> x mod 16 < y mod 16"
proof (cases "x div 16" "y div 16" rule: linorder_cases)
  case equal
  then show ?thesis using div_mult_mod_eq [of x 16] div_mult_mod_eq [of y 16] by linarith
qed (auto simp: div_le_mono leD not_less intro: le_less_trans dest: div_le_mono [of _ _ 16])

lemma div_mod_16_eq: "(x :: nat) = y \<longleftrightarrow> x div 16 = y div 16 \<and> x mod 16 = y mod 16"
  by (metis div_mult_mod_eq)

lemma byte_less_nibbles:
  "b < c \<longleftrightarrow> drop_bit 4 b < drop_bit 4 (c :: u8)
     \<or> drop_bit 4 b = drop_bit 4 c \<and> b AND 0x0F < c AND 0x0F"
  unfolding word_less_nat_alt word_unat_eq_iff low_nibble high_nibble by (rule div_mod_16_less)

lemma byte_eq_nibbles:
  "b = c \<longleftrightarrow> drop_bit 4 b = drop_bit 4 (c :: u8) \<and> b AND 0x0F = c AND 0x0F"
  unfolding word_unat_eq_iff low_nibble high_nibble by (rule div_mod_16_eq)

lemma all_nibbles_bytes: "all_nibbles (bytes_to_nibbles bs)"
proof (induction bs)
  case (Cons b bs)
  have "unat b < 256" using unsigned_less [of b, where ?'a = nat] by simp
  with Cons show ?case by (auto simp: word_less_nat_alt low_nibble high_nibble)
qed simp

lemma bytes_to_nibbles_inj: "bytes_to_nibbles a = bytes_to_nibbles b \<longleftrightarrow> a = b"
proof (induction a b rule: list_induct2')
  case (4 x xs y ys)
  then show ?case using byte_eq_nibbles [of x y] by auto
qed auto

lemma bytes_to_nibbles_less: "bytes_to_nibbles a < bytes_to_nibbles b \<longleftrightarrow> a < b"
proof (induction a b rule: list_induct2')
  case (4 x xs y ys)
  then show ?case using byte_less_nibbles [of x y] byte_eq_nibbles [of x y] by auto
qed auto

lemma length_bytes_to_nibbles: "length (bytes_to_nibbles bs) = 2 * length bs"
  by (induction bs) auto

definition nibble_entries :: "btree \<Rightarrow> entry list" where
  "nibble_entries m = map (\<lambda>(k, v). (bytes_to_nibbles k, v)) m"

lemma wf_nibble_entries: "wf_btree m \<Longrightarrow> wf_entries (nibble_entries m)"
proof -
  have "map fst (nibble_entries m) = map bytes_to_nibbles (map fst m)"
    by (simp add: nibble_entries_def case_prod_unfold)
  moreover have "sorted_wrt (<) (map bytes_to_nibbles ks) \<longleftrightarrow> sorted_wrt (<) ks" for ks
    by (simp add: sorted_wrt_map bytes_to_nibbles_less)
  moreover have "\<forall>e \<in> set (nibble_entries m). all_nibbles (fst e)"
    using all_nibbles_bytes by (auto simp: nibble_entries_def)
  ultimately show "wf_btree m \<Longrightarrow> wf_entries (nibble_entries m)"
    unfolding wf_entries_def wf_btree_def by (metis (no_types))
qed

lemma nibble_entries_inj: "nibble_entries m = nibble_entries m' \<longleftrightarrow> m = m'"
proof -
  have "inj (\<lambda>(k, v :: u8 list). (bytes_to_nibbles k, v))"
    by (auto intro!: injI simp: bytes_to_nibbles_inj)
  then show ?thesis unfolding nibble_entries_def by (rule inj_map_eq_map)
qed

subsection \<open>The storage commitment\<close>

text \<open>Every preimage hashed while the root of a storage map is computed.\<close>

definition storage_preimages :: "externs \<Rightarrow> btree \<Rightarrow> u8 list set" where
  "storage_preimages X m = trie_preimages X (build_trie (nibble_entries m))"

definition short_btree :: "btree \<Rightarrow> bool" where
  "short_btree m \<longleftrightarrow> (\<forall>(k, v) \<in> set m. 2 * length k < 2 ^ 32 \<and> short v)"

lemma short_nibble_entries: "short_btree m \<Longrightarrow> short_entries (nibble_entries m)"
  by (auto simp: short_btree_def short_entries_def nibble_entries_def length_bytes_to_nibbles)

lemma storage_root_trie:
  "compute_contract_storage_root X m = trie_hash X (build_trie (nibble_entries m))"
  by (simp add: compute_contract_storage_root_def subtree_root_eq nibble_entries_def)

lemma storage_root_inj:
  assumes "wf_btree m" "wf_btree m'" "short_btree m" "short_btree m'"
    and "collision_free X (storage_preimages X m \<union> storage_preimages X m')"
    and "compute_contract_storage_root X m = compute_contract_storage_root X m'"
  shows "m = m'"
proof -
  have "build_trie (nibble_entries m) = build_trie (nibble_entries m')"
    using assms wf_trie_build wf_nibble_entries short_nibble_entries
    by (intro trie_hash_inj) (auto simp: storage_root_trie storage_preimages_def)
  then have "nibble_entries m = nibble_entries m'"
    using trie_entries_build wf_nibble_entries assms(1,2) by metis
  then show ?thesis by (simp add: nibble_entries_inj)
qed

lemma wf_btree_of_map: "finite (dom m) \<Longrightarrow> wf_btree (btree_of_map m)"
  by (simp add: wf_btree_def btree_of_map_def comp_def)

lemma map_of_btree: "finite (dom m) \<Longrightarrow> map_of (btree_of_map m) = m"
proof
  fix k assume "finite (dom m)"
  then show "map_of (btree_of_map m) k = m k"
    by (cases "k \<in> dom m") (auto simp: btree_of_map_def map_of_map_keys domIff map_of_eq_None_iff)
qed

lemma btree_eqI: "wf_btree m \<Longrightarrow> wf_btree m' \<Longrightarrow> set m = set m' \<Longrightarrow> m = m'"
  by (rule map_sorted_distinct_set_unique [of fst])
    (auto simp: wf_btree_def strict_sorted_iff distinct_map)

lemma btree_of_map_of: "wf_btree m \<Longrightarrow> btree_of_map (map_of m) = m"
proof (rule btree_eqI)
  assume m: "wf_btree m"
  then have d: "distinct (map fst m)" by (auto simp: wf_btree_def strict_sorted_iff)
  show "wf_btree (btree_of_map (map_of m))" by (rule wf_btree_of_map) (rule finite_dom_map_of)
  have "map_of (btree_of_map (map_of m)) = map_of m" by (rule map_of_btree) (rule finite_dom_map_of)
  moreover have "distinct (map fst (btree_of_map (map_of m)))"
    by (simp add: btree_of_map_def comp_def finite_dom_map_of)
  ultimately show "set (btree_of_map (map_of m)) = set m"
    using d by (metis map_of_inject_set)
qed

lemma verify_projection_ok:
  "verify_contract_storage_projection X r (Some m) = Ok () \<longleftrightarrow>
     cr_storage_root r = compute_contract_storage_root X m
     \<and> cr_storage_bytes r = contract_storage_total_bytes m
     \<and> cr_storage_slot_count r = as_word (length m)"
  by (auto simp: verify_contract_storage_projection_def Let_def)

subsection \<open>Properties\<close>

text \<open>(C34) The storage root binds the whole storage: as long as SHA-256 does not collide on the
  nodes of the two tries (nor hits the all-zero value that stands for an absent child), two
  storage maps have the same root exactly when they are the same map. Keys are shorter than
  2 GiB and values than 4 GiB, so that the 32-bit length prefixes do not wrap.\<close>

theorem storage_root_binds:
  assumes "wf_btree m" "wf_btree m'" "short_btree m" "short_btree m'"
    and "collision_free X (storage_preimages X m \<union> storage_preimages X m')"
  shows "compute_contract_storage_root X m = compute_contract_storage_root X m' \<longleftrightarrow> m = m'"
  using storage_root_inj [OF assms] by blast

definition demo_storage :: "u8 \<Rightarrow> btree" where
  "demo_storage v = [([1], [v])]"

lemma demo_storage_facts:
  "wf_btree (demo_storage v)" "short_btree (demo_storage v)"
  "storage_preimages X (demo_storage v) = {leaf_bytes [0, 1] [v]}"
  by (simp_all add: demo_storage_def wf_btree_def short_btree_def storage_preimages_def
      nibble_entries_def)

lemma demo_storage_collision_free:
  "collision_free demo_externs ({leaf_bytes [0, 1] [2]} \<union> {leaf_bytes [0, 1] [3]})"
  by code_simp

theorem storage_root_binds_witness:
  "compute_contract_storage_root demo_externs (demo_storage 2)
     \<noteq> compute_contract_storage_root demo_externs (demo_storage 3)"
  using storage_root_binds [of "demo_storage 2" "demo_storage 3" demo_externs]
    demo_storage_collision_free
  by (simp add: demo_storage_facts) (simp add: demo_storage_def)

text \<open>The root of a \<open>HashMap\<close> does not depend on its iteration order: it is the root of the
  one ordered map with the same bindings, and so two maps with the same bindings agree.\<close>

theorem hash_map_root_is_ordered_root:
  "(wf_btree m \<longrightarrow> compute_contract_storage_root_from_hash_map X (map_of m)
      = compute_contract_storage_root X m)
   \<and> (finite (dom f) \<longrightarrow> (\<exists>m. wf_btree m \<and> map_of m = f
      \<and> compute_contract_storage_root_from_hash_map X f = compute_contract_storage_root X m))"
proof (intro conjI impI)
  assume "wf_btree m"
  then show "compute_contract_storage_root_from_hash_map X (map_of m) = compute_contract_storage_root X m"
    by (auto simp: compute_contract_storage_root_from_hash_map_def btree_of_map_of
        compute_contract_storage_root_def dom_map_of_conv_image_fst)
next
  assume f: "finite (dom f)"
  have "compute_contract_storage_root_from_hash_map X f = compute_contract_storage_root X (btree_of_map f)"
    by (auto simp: compute_contract_storage_root_from_hash_map_def compute_contract_storage_root_def
        btree_of_map_def)
  with wf_btree_of_map [OF f] map_of_btree [OF f]
  show "\<exists>m. wf_btree m \<and> map_of m = f
      \<and> compute_contract_storage_root_from_hash_map X f = compute_contract_storage_root X m"
    by blast
qed

theorem hash_map_root_is_ordered_root_witness:
  "compute_contract_storage_root_from_hash_map demo_externs [[1] \<mapsto> [2]]
     = compute_contract_storage_root demo_externs (demo_storage 2)"
  using hash_map_root_is_ordered_root [of "demo_storage 2" demo_externs "[[1] \<mapsto> [2]]"]
    demo_storage_facts(1) [of 2] by (simp add: demo_storage_def)

text \<open>Verifying a projection against the contract record accepts exactly the committed
  storage: once one storage map passes, any other map of the same kind is rejected, although
  only its root, its byte count and its slot count are compared.\<close>

theorem projection_accepts_only_committed:
  assumes "verify_contract_storage_projection X r (Some m) = Ok ()"
    and "wf_btree m" "wf_btree m'" "short_btree m" "short_btree m'"
    and "collision_free X (storage_preimages X m \<union> storage_preimages X m')"
  shows "verify_contract_storage_projection X r (Some m') = Ok () \<longleftrightarrow> m = m'"
  using assms(1) storage_root_inj [OF assms(2-6)] by (auto simp: verify_projection_ok)

theorem projection_accepts_only_committed_witness:
  "\<forall>r. verify_contract_storage_projection demo_externs
         (r\<lparr>cr_storage_root := compute_contract_storage_root demo_externs (demo_storage 2),
            cr_storage_bytes := 2, cr_storage_slot_count := 1\<rparr>) (Some (demo_storage 3)) \<noteq> Ok ()"
proof
  fix r :: contract_record
  let ?r = "r\<lparr>cr_storage_root := compute_contract_storage_root demo_externs (demo_storage 2),
            cr_storage_bytes := 2, cr_storage_slot_count := 1\<rparr>"
  have "verify_contract_storage_projection demo_externs ?r (Some (demo_storage 2)) = Ok ()"
    by (simp add: verify_projection_ok demo_storage_def contract_storage_total_bytes_def as_word_def)
  then show "verify_contract_storage_projection demo_externs ?r (Some (demo_storage 3)) \<noteq> Ok ()"
    using projection_accepts_only_committed [of demo_externs ?r "demo_storage 2" "demo_storage 3"]
      demo_storage_collision_free
    by (simp add: demo_storage_facts) (simp add: demo_storage_def)
qed

end
