(* ===== verification/Contract_Events.thy ===== *)
theory Contract_Events
  imports Merkle Contract_Storage "HOL-Library.Multiset"
begin

text \<open>
  The archive of contract events (\<open>primitives/contract.rs\<close>): the canonical order, the Merkle
  root of one block's events, and the accumulator that chains the blocks.

  The accumulator is a hash chain over the blocks of the sorted log (\<open>event_blocks\<close>); the lemmas
  show that appending one block to the log is one step of the chain, and that the chain
  determines the log.
\<close>

record contract_event =
  ce_contract_address :: address
  ce_topic :: rstr
  ce_data :: "u8 list"
  ce_block_number :: u64
  ce_tx_hash :: hash256
  ce_log_index :: u32

text \<open>Hashes and addresses compare by their bytes, strings by their UTF-8 bytes.\<close>

definition event_key_in_block ::
  "contract_event \<Rightarrow> u8 list \<times> u32 \<times> u8 list \<times> u8 list \<times> u8 list" where
  "event_key_in_block e =
     (addr_bytes (ce_contract_address e), ce_log_index e, hash_as_bytes (ce_tx_hash e),
      utf8 (ce_topic e), ce_data e)"

definition event_key ::
  "contract_event \<Rightarrow> u64 \<times> u8 list \<times> u32 \<times> u8 list \<times> u8 list \<times> u8 list" where
  "event_key e = (ce_block_number e, event_key_in_block e)"

definition sort_contract_events_canonically :: "contract_event list \<Rightarrow> contract_event list" where
  "sort_contract_events_canonically events = sort_key event_key events"

definition write_contract_event :: "contract_event \<Rightarrow> u8 list" where
  "write_contract_event e =
     write_addr (ce_contract_address e) @ write_string (ce_topic e) @ write_bytes (ce_data e)
     @ write_u64 (ce_block_number e) @ write_hash (ce_tx_hash e) @ write_u32 (ce_log_index e)"

definition hash_contract_event :: "externs \<Rightarrow> contract_event \<Rightarrow> hash256" where
  "hash_contract_event X event = hash_bytes X (write_contract_event event)"

definition compute_contract_event_block_root :: "externs \<Rightarrow> contract_event list \<Rightarrow> hash256" where
  "compute_contract_event_block_root X events =
     (if events = [] then hash_zero
      else root_from_hashes_owned X
             (map (hash_contract_event X) (sort_key event_key_in_block events)))"

definition accumulator_bytes :: "hash256 \<Rightarrow> u64 \<Rightarrow> nat \<Rightarrow> hash256 \<Rightarrow> u8 list" where
  "accumulator_bytes previous block_number event_count block_root =
     hash_as_bytes previous @ to_be_bytes block_number @ to_be_bytes (as_word event_count :: u64)
     @ hash_as_bytes block_root"

definition advance_contract_event_archive_accumulator ::
  "externs \<Rightarrow> hash256 \<Rightarrow> u64 \<Rightarrow> contract_event list \<Rightarrow> hash256" where
  "advance_contract_event_archive_accumulator X previous block_number block_events =
     (if block_events = [] then previous
      else hash_bytes X (accumulator_bytes previous block_number (length block_events)
             (compute_contract_event_block_root X block_events)))"

text \<open>The loop over the sorted log: one step per maximal run of events of one block.\<close>

function accumulate_blocks :: "externs \<Rightarrow> hash256 \<Rightarrow> contract_event list \<Rightarrow> hash256" where
  "accumulate_blocks X accumulator [] = accumulator"
| "accumulate_blocks X accumulator (e # es) =
     (let block_number = ce_block_number e;
          block_events = e # takeWhile (\<lambda>d. ce_block_number d = block_number) es
      in accumulate_blocks X
           (advance_contract_event_archive_accumulator X accumulator block_number block_events)
           (dropWhile (\<lambda>d. ce_block_number d = block_number) es))"
  by pat_completeness auto
termination
  by (relation "measure (\<lambda>(X, a, es). length es)")
    (auto simp: le_imp_less_Suc length_dropWhile_le)

definition compute_contract_event_archive_accumulator ::
  "externs \<Rightarrow> contract_event list \<Rightarrow> hash256" where
  "compute_contract_event_archive_accumulator X events =
     (if events = [] then hash_zero
      else accumulate_blocks X hash_zero (sort_contract_events_canonically events))"

definition verify_contract_event_archive_accumulator ::
  "externs \<Rightarrow> hash256 \<Rightarrow> contract_event list \<Rightarrow> contract_error + unit" where
  "verify_contract_event_archive_accumulator X expected events =
     (if expected \<noteq> compute_contract_event_archive_accumulator X events
      then Err EventAccumulatorMismatch else Ok ())"

subsection \<open>Canonical order\<close>

definition wf_event :: "contract_event \<Rightarrow> bool" where
  "wf_event e \<longleftrightarrow> wf_addr (ce_contract_address e) \<and> valid_string (ce_topic e)
     \<and> fits_u64 (ce_data e) \<and> wf_hash (ce_tx_hash e)"

lemma event_key_inj: "inj_on event_key {e. wf_event e}"
proof (rule inj_onI)
  fix a b assume "a \<in> {e. wf_event e}" "b \<in> {e. wf_event e}" "event_key a = event_key b"
  then have "ce_contract_address a = ce_contract_address b" "ce_topic a = ce_topic b"
    "ce_data a = ce_data b" "ce_block_number a = ce_block_number b" "ce_tx_hash a = ce_tx_hash b"
    "ce_log_index a = ce_log_index b"
    by (auto simp: event_key_def event_key_in_block_def wf_event_def valid_string_def wf_str_def
        utf8_inj intro: address.expand hash256.expand)
  then show "a = b" by simp
qed

lemma event_key_in_block_inj:
  assumes "\<forall>e \<in> set es. wf_event e \<and> ce_block_number e = n"
  shows "inj_on event_key_in_block (set es)"
proof (rule inj_onI)
  fix a b assume ab: "a \<in> set es" "b \<in> set es" "event_key_in_block a = event_key_in_block b"
  with assms have "event_key a = event_key b" by (simp add: event_key_def)
  with ab(1,2) assms event_key_inj show "a = b" by (auto dest: inj_onD)
qed

lemma sort_key_canonical:
  fixes f :: "'a \<Rightarrow> 'b::linorder"
  shows "mset xs = mset ys \<Longrightarrow> inj_on f (set xs) \<Longrightarrow> sort_key f xs = sort_key f ys"
  by (rule sort_key_inj_key_eq) auto

lemma sort_events_mset:
  assumes "mset xs = mset ys" "\<forall>e \<in> set xs. wf_event e"
  shows "sort_contract_events_canonically xs = sort_contract_events_canonically ys"
  unfolding sort_contract_events_canonically_def
  using assms by (intro sort_key_canonical inj_on_subset [OF event_key_inj]) auto

lemma block_root_mset:
  assumes "mset xs = mset ys" "\<forall>e \<in> set xs. wf_event e \<and> ce_block_number e = n"
  shows "compute_contract_event_block_root X xs = compute_contract_event_block_root X ys"
  using sort_key_canonical [OF assms(1) event_key_in_block_inj [OF assms(2)]] assms(1)
  by (auto simp: compute_contract_event_block_root_def)

lemma advance_mset:
  assumes "mset xs = mset ys" "\<forall>e \<in> set xs. wf_event e \<and> ce_block_number e = n"
  shows "advance_contract_event_archive_accumulator X a n xs
    = advance_contract_event_archive_accumulator X a n ys"
  using block_root_mset [OF assms] assms(1) mset_eq_length [OF assms(1)]
  by (auto simp: advance_contract_event_archive_accumulator_def)

lemma event_key_block_less: "ce_block_number a < ce_block_number b \<Longrightarrow> event_key a \<le> event_key b"
  by (simp add: event_key_def)

lemma sort_log_append:
  assumes "\<forall>e \<in> set log \<union> set bs. wf_event e"
    and "\<forall>a \<in> set log. \<forall>b \<in> set bs. ce_block_number a < ce_block_number b"
  shows "sort_contract_events_canonically (log @ bs)
    = sort_contract_events_canonically log @ sort_contract_events_canonically bs"
  unfolding sort_contract_events_canonically_def
  using assms event_key_block_less
  by (intro sort_key_inj_key_eq inj_on_subset [OF event_key_inj]) (auto simp: sorted_append)

subsection \<open>Blocks of the log\<close>

function event_blocks :: "contract_event list \<Rightarrow> (u64 \<times> contract_event list) list" where
  "event_blocks [] = []"
| "event_blocks (e # es) =
     (ce_block_number e, e # takeWhile (\<lambda>d. ce_block_number d = ce_block_number e) es)
     # event_blocks (dropWhile (\<lambda>d. ce_block_number d = ce_block_number e) es)"
  by pat_completeness auto
termination
  by (relation "measure length") (auto simp: le_imp_less_Suc length_dropWhile_le)

definition chain_blocks :: "externs \<Rightarrow> hash256 \<Rightarrow> (u64 \<times> contract_event list) list \<Rightarrow> hash256" where
  "chain_blocks X a bs = foldl (\<lambda>a (n, b). advance_contract_event_archive_accumulator X a n b) a bs"

lemma accumulate_chain: "accumulate_blocks X a es = chain_blocks X a (event_blocks es)"
  by (induction X a es rule: accumulate_blocks.induct) (simp_all add: chain_blocks_def Let_def)

lemma concat_event_blocks: "concat (map snd (event_blocks es)) = es"
  by (induction es rule: event_blocks.induct) simp_all

lemma event_blocks_uniform:
  "(n, b) \<in> set (event_blocks es) \<Longrightarrow> b \<noteq> [] \<and> (\<forall>e \<in> set b. e \<in> set es \<and> ce_block_number e = n)"
proof (induction es rule: event_blocks.induct)
  case (2 e es)
  let ?P = "\<lambda>d. ce_block_number d = ce_block_number e"
  show ?case
  proof (cases "(n, b) \<in> set (event_blocks (dropWhile ?P es))")
    case True
    with 2 set_dropWhileD [of _ ?P es] show ?thesis by (meson list.set_intros(2))
  next
    case False
    with 2(2) have nb: "n = ce_block_number e" "b = e # takeWhile ?P es" by simp_all
    have "x \<in> set (e # es) \<and> ?P x" if "x \<in> set b" for x
      using that set_takeWhileD [of x ?P es] unfolding nb by (metis list.set_intros set_ConsD)
    with nb show ?thesis by (metis list.distinct(1))
  qed
qed simp

lemma event_blocks_append:
  "\<forall>x \<in> set xs. \<forall>y \<in> set ys. ce_block_number x \<noteq> ce_block_number y \<Longrightarrow>
   event_blocks (xs @ ys) = event_blocks xs @ event_blocks ys"
proof (induction xs rule: event_blocks.induct)
  case (2 e es)
  let ?P = "\<lambda>d. ce_block_number d = ce_block_number e"
  have tw: "takeWhile ?P ys = []" "dropWhile ?P ys = ys" using 2(2) by (cases ys; force)+
  have "takeWhile ?P (es @ ys) = takeWhile ?P es \<and> dropWhile ?P (es @ ys) = dropWhile ?P es @ ys"
  proof (cases "\<forall>d \<in> set es. ?P d")
    case True
    then have "takeWhile ?P es = es" "dropWhile ?P es = []"
      by (simp_all add: takeWhile_eq_all_conv dropWhile_eq_Nil_conv)
    moreover have "takeWhile ?P (es @ ys) = es @ takeWhile ?P ys" "dropWhile ?P (es @ ys) = dropWhile ?P ys"
      using takeWhile_append2 [of es ?P ys] dropWhile_append2 [of es ?P ys] True by blast+
    ultimately show ?thesis using tw by (metis append_Nil append_Nil2)
  next
    case False
    then show ?thesis by (auto simp: takeWhile_append dropWhile_append)
  qed
  moreover have "event_blocks (dropWhile ?P es @ ys) = event_blocks (dropWhile ?P es) @ event_blocks ys"
  proof (rule 2(1))
    show "\<forall>x \<in> set (dropWhile ?P es). \<forall>y \<in> set ys. ce_block_number x \<noteq> ce_block_number y"
      using 2(2) set_dropWhileD [of _ ?P es] by (metis list.set_intros(2))
  qed
  ultimately show ?case by simp
qed simp

lemma event_blocks_one:
  assumes "bs \<noteq> []" "\<forall>e \<in> set bs. ce_block_number e = n"
  shows "event_blocks bs = [(n, bs)]"
proof (cases bs)
  case (Cons e es)
  then have "takeWhile (\<lambda>d. ce_block_number d = ce_block_number e) es = es"
    "dropWhile (\<lambda>d. ce_block_number d = ce_block_number e) es = []"
    using assms(2) by (simp_all add: takeWhile_eq_all_conv dropWhile_eq_Nil_conv)
  with Cons assms(2) show ?thesis by (simp only: event_blocks.simps) simp
qed (use assms in simp)

lemma archive_chain:
  "compute_contract_event_archive_accumulator X es
    = chain_blocks X hash_zero (event_blocks (sort_contract_events_canonically es))"
  by (auto simp: compute_contract_event_archive_accumulator_def accumulate_chain chain_blocks_def
      sort_contract_events_canonically_def)

lemma set_sort_events [simp]: "set (sort_contract_events_canonically es) = set es"
  by (simp add: sort_contract_events_canonically_def)

lemma mset_sort_events [simp]: "mset (sort_contract_events_canonically es) = mset es"
  by (simp add: sort_contract_events_canonically_def)

lemma archive_append:
  assumes "\<forall>e \<in> set log \<union> set bs. wf_event e"
    and "\<forall>e \<in> set log. ce_block_number e < n" "\<forall>e \<in> set bs. ce_block_number e = n"
  shows "compute_contract_event_archive_accumulator X (log @ bs)
    = advance_contract_event_archive_accumulator X
        (compute_contract_event_archive_accumulator X log) n bs"
proof (cases "bs = []")
  case True
  then show ?thesis by (simp add: advance_contract_event_archive_accumulator_def)
next
  case False
  let ?s = sort_contract_events_canonically
  have "?s (log @ bs) = ?s log @ ?s bs" using assms by (intro sort_log_append) auto
  moreover have "event_blocks (?s log @ ?s bs) = event_blocks (?s log) @ [(n, ?s bs)]"
    using assms False event_blocks_one [of "?s bs" n] mset_sort_events [of bs]
    by (subst event_blocks_append) (force simp del: mset_sort_events | force)+
  ultimately have "compute_contract_event_archive_accumulator X (log @ bs)
    = advance_contract_event_archive_accumulator X
        (compute_contract_event_archive_accumulator X log) n (?s bs)"
    by (simp add: archive_chain chain_blocks_def)
  then show ?thesis using advance_mset [of "?s bs" bs n] assms by simp
qed

subsection \<open>The chain determines the log\<close>

text \<open>Every preimage hashed along the chain: the events, their Merkle trees, and the chained
  buffers.\<close>

abbreviation event_leaves :: "externs \<Rightarrow> contract_event list \<Rightarrow> hash256 list" where
  "event_leaves X b \<equiv> map (hash_contract_event X) (sort_key event_key_in_block b)"

abbreviation block_bytes :: "externs \<Rightarrow> hash256 \<Rightarrow> u64 \<times> contract_event list \<Rightarrow> u8 list" where
  "block_bytes X a nb \<equiv>
     accumulator_bytes a (fst nb) (length (snd nb)) (compute_contract_event_block_root X (snd nb))"

definition block_preimages :: "externs \<Rightarrow> hash256 \<Rightarrow> u64 \<times> contract_event list \<Rightarrow> u8 list set" where
  "block_preimages X a nb =
     insert (block_bytes X a nb)
       (write_contract_event ` set (snd nb) \<union> tree_preimages X (event_leaves X (snd nb)))"

fun chain_preimages :: "externs \<Rightarrow> hash256 \<Rightarrow> (u64 \<times> contract_event list) list \<Rightarrow> u8 list set" where
  "chain_preimages X a [] = {}"
| "chain_preimages X a (nb # bs) = block_preimages X a nb \<union> chain_preimages X (chain_blocks X a [nb]) bs"

lemma chain_blocks_append: "chain_blocks X a (bs @ cs) = chain_blocks X (chain_blocks X a bs) cs"
  by (simp add: chain_blocks_def)

lemma chain_blocks_Nil [simp]: "chain_blocks X a [] = a"
  by (simp add: chain_blocks_def)

lemma chain_blocks_Cons: "chain_blocks X a (nb # bs) = chain_blocks X (chain_blocks X a [nb]) bs"
  by (simp add: chain_blocks_def)

lemma chain_preimages_snoc:
  "chain_preimages X a (bs @ [nb]) = chain_preimages X a bs \<union> block_preimages X (chain_blocks X a bs) nb"
  by (induction bs arbitrary: a) (auto simp: chain_blocks_Cons [of X _ _ "_ # _"] chain_blocks_def)

lemma chain_block: "snd nb \<noteq> [] \<Longrightarrow> chain_blocks X a [nb] = hash_bytes X (block_bytes X a nb)"
  by (simp add: chain_blocks_def advance_contract_event_archive_accumulator_def case_prod_unfold)

definition wf_block :: "u64 \<times> contract_event list \<Rightarrow> bool" where
  "wf_block nb \<longleftrightarrow> snd nb \<noteq> [] \<and> fits_u64 (snd nb) \<and> (\<forall>e \<in> set (snd nb). wf_event e)"

lemma wf_block_root [simp]: "wf_hash (compute_contract_event_block_root X es)"
proof (cases "es = []")
  case False
  have "wf_hash (tree_root X hs)" if "hs \<noteq> []" "list_all wf_hash hs" for hs
    using that
  proof (induction "length hs" arbitrary: hs rule: less_induct)
    case less
    show ?case
    proof (cases "1 < length hs")
      case True
      with less show ?thesis by (simp add: tree_root_step)
    next
      case False
      with less obtain h where "hs = [h]" by (cases hs) auto
      with less show ?thesis by (simp add: tree_root_single)
    qed
  qed
  moreover have "list_all wf_hash (event_leaves X es)"
    by (simp add: list_all_iff hash_contract_event_def)
  moreover have "event_leaves X es \<noteq> []"
    using False by (metis map_is_Nil_conv mset_sort mset_zero_iff)
  ultimately show ?thesis
    using False root_from_hashes [of "event_leaves X es" X]
    by (simp add: compute_contract_event_block_root_def root_from_hashes_owned_eq)
qed (simp add: compute_contract_event_block_root_def)

lemma accumulator_bytes_inj:
  assumes "wf_hash a" "wf_hash a'" "n < 2 ^ 64" "n' < 2 ^ 64"
    and "accumulator_bytes a b n r = accumulator_bytes a' b' n' r'"
  shows "a = a' \<and> b = b' \<and> n = n' \<and> r = r'"
proof -
  have "hash_as_bytes a = hash_as_bytes a'" "to_be_bytes b = to_be_bytes b'"
    "to_be_bytes (as_word n :: u64) = to_be_bytes (as_word n' :: u64)" "hash_as_bytes r = hash_as_bytes r'"
    using assms by (simp_all add: accumulator_bytes_def append_eq_same_len wf_hash_def)
  then show ?thesis using assms(3,4) by (auto simp: to_be_bytes_inj as_word_eq_iff intro: hash256.expand)
qed

lemma write_event_inj:
  "wf_event a \<Longrightarrow> wf_event b \<Longrightarrow> write_contract_event a = write_contract_event b \<longleftrightarrow> a = b"
  unfolding write_contract_event_def wf_event_def
  by (auto simp: addrw.append_iff stringw.append_iff bytesw.append_iff u64w.append_iff
      hashw.append_iff u32w.enc_inj)

lemma event_leaves_inj:
  assumes "event_leaves X b = event_leaves X b'" "\<forall>e \<in> set b \<union> set b'. wf_event e"
    and "inj_on (hash_bytes X) (write_contract_event ` (set b \<union> set b'))"
  shows "mset b = mset b'"
proof -
  let ?s = "sort_key event_key_in_block b" and ?s' = "sort_key event_key_in_block b'"
  have "inj_on (hash_contract_event X) (set b \<union> set b')"
  proof (rule inj_onI)
    fix d e assume de: "d \<in> set b \<union> set b'" "e \<in> set b \<union> set b'"
      "hash_contract_event X d = hash_contract_event X e"
    have "write_contract_event d = write_contract_event e"
    proof (rule inj_onD [OF assms(3)])
      show "hash_bytes X (write_contract_event d) = hash_bytes X (write_contract_event e)"
        using de(3) by (simp only: hash_contract_event_def)
    qed (use de(1,2) in blast)+
    then show "d = e" using write_event_inj [of d e] assms(2) de(1,2) by blast
  qed
  then have "inj_on (hash_contract_event X) (set ?s \<union> set ?s')" unfolding set_sort .
  from inj_on_map_eq_map [OF this] assms(1) have "?s = ?s'" by blast
  then show ?thesis by (metis mset_sort)
qed

lemma block_root_inj:
  assumes "compute_contract_event_block_root X b = compute_contract_event_block_root X b'"
    and "length b = length b'" "b \<noteq> []" "\<forall>e \<in> set b \<union> set b'. wf_event e"
    and "inj_on (hash_bytes X) (write_contract_event ` (set b \<union> set b')
        \<union> (tree_preimages X (event_leaves X b) \<union> tree_preimages X (event_leaves X b')))"
  shows "mset b = mset b'"
proof (rule event_leaves_inj)
  have ne: "b' \<noteq> []" using assms(2,3) by auto
  have sn: "sort_key event_key_in_block c \<noteq> []" if "c \<noteq> []" for c
    using that by (metis mset_sort mset_zero_iff)
  have "tree_root X (event_leaves X b) = tree_root X (event_leaves X b')"
    using assms(1,3) ne sn
    by (simp add: compute_contract_event_block_root_def root_from_hashes_owned_eq root_from_hashes)
  then show "event_leaves X b = event_leaves X b'"
    using assms(2,3,5) sn
    by (intro tree_root_inj [of X])
      (auto simp: list_all_iff hash_contract_event_def intro: inj_on_subset)
  show "inj_on (hash_bytes X) (write_contract_event ` (set b \<union> set b'))"
    using assms(5) by (rule inj_on_subset) auto
qed (rule assms(4))

lemma wf_chain_blocks: "wf_hash a \<Longrightarrow> list_all wf_block bs \<Longrightarrow> wf_hash (chain_blocks X a bs)"
proof (induction bs arbitrary: a)
  case (Cons nb bs)
  then show ?case by (subst chain_blocks_Cons) (auto simp: chain_block wf_block_def)
qed simp

lemma chain_inj:
  assumes "list_all wf_block bs" "list_all wf_block cs"
    and "collision_free X (chain_preimages X hash_zero bs \<union> chain_preimages X hash_zero cs)"
    and "chain_blocks X hash_zero bs = chain_blocks X hash_zero cs"
  shows "list_all2 (\<lambda>b c. fst b = fst c \<and> mset (snd b) = mset (snd c)) bs cs"
  using assms
proof (induction bs arbitrary: cs rule: rev_induct)
  case Nil
  show ?case
  proof (cases cs rule: rev_cases)
    case (snoc ds c)
    with Nil have "hash_bytes X (block_bytes X (chain_blocks X hash_zero ds) c) = hash_zero"
      by (simp add: chain_blocks_append chain_block wf_block_def)
    with Nil snoc show ?thesis
      by (auto simp: chain_preimages_snoc block_preimages_def collision_free_def image_iff)
  qed simp
next
  case (snoc b bs)
  show ?case
  proof (cases cs rule: rev_cases)
    case Nil
    with snoc have "hash_bytes X (block_bytes X (chain_blocks X hash_zero bs) b) = hash_zero"
      by (simp add: chain_blocks_append chain_block wf_block_def)
    with snoc Nil show ?thesis
      by (auto simp: chain_preimages_snoc block_preimages_def collision_free_def image_iff)
  next
    case cs: (snoc ds c)
    let ?a = "chain_blocks X hash_zero bs" and ?a' = "chain_blocks X hash_zero ds"
    have wf: "wf_block b" "wf_block c" using snoc.prems(1,2) cs by auto
    have hash: "hash_bytes X (block_bytes X ?a b) = hash_bytes X (block_bytes X ?a' c)"
      using snoc.prems(4) wf cs by (simp add: chain_blocks_append chain_block wf_block_def)
    have inj: "inj_on (hash_bytes X) (block_preimages X ?a b \<union> block_preimages X ?a' c)"
      using snoc.prems(3) cs
      by (auto simp: chain_preimages_snoc collision_free_def intro: inj_on_subset)
    have "block_bytes X ?a b = block_bytes X ?a' c"
      using inj_onD [OF inj hash] by (simp add: block_preimages_def)
    moreover have "wf_hash ?a" "wf_hash ?a'"
      using snoc.prems(1,2) cs by (simp_all add: wf_chain_blocks)
    moreover have "length (snd b) < 2 ^ 64" "length (snd c) < 2 ^ 64"
      using wf by (simp_all add: wf_block_def fits_u64_def)
    ultimately have eq: "?a = ?a'" "fst b = fst c" "length (snd b) = length (snd c)"
      "compute_contract_event_block_root X (snd b) = compute_contract_event_block_root X (snd c)"
      using accumulator_bytes_inj by blast+
    have "mset (snd b) = mset (snd c)"
      using eq(3,4) wf inj by (intro block_root_inj [of X])
        (auto simp: wf_block_def block_preimages_def intro: inj_on_subset)
    moreover have "list_all2 (\<lambda>b c. fst b = fst c \<and> mset (snd b) = mset (snd c)) bs ds"
      using snoc.prems cs eq(1)
      by (intro snoc.IH) (auto simp: chain_preimages_snoc elim: collision_free_subset)
    ultimately show ?thesis using cs eq(2) by (simp add: list_all2_appendI)
  qed
qed

subsection \<open>Properties\<close>

lemma mset_concat_blocks:
  "list_all2 (\<lambda>b c. fst b = fst c \<and> mset (snd b) = mset (snd c)) bs cs \<Longrightarrow>
   mset (concat (map snd bs)) = mset (concat (map snd cs))"
  by (induction rule: list_all2_induct) auto

definition archive_preimages :: "externs \<Rightarrow> contract_event list \<Rightarrow> u8 list set" where
  "archive_preimages X es =
     chain_preimages X hash_zero (event_blocks (sort_contract_events_canonically es))"

definition wf_log :: "contract_event list \<Rightarrow> bool" where
  "wf_log es \<longleftrightarrow> length es < 2 ^ 64 \<and> (\<forall>e \<in> set es. wf_event e)"

lemma wf_event_blocks:
  assumes "wf_log es"
  shows "list_all wf_block (event_blocks (sort_contract_events_canonically es))"
proof -
  let ?bs = "event_blocks (sort_contract_events_canonically es)"
  have "length (concat (map snd ?bs)) = length es"
    by (simp add: concat_event_blocks sort_contract_events_canonically_def)
  then have "length (snd nb) \<le> length es" if "nb \<in> set ?bs" for nb
    using that member_le_sum_list [of "length (snd nb)" "map length (map snd ?bs)"]
    by (simp add: length_concat)
  then show ?thesis
    using assms event_blocks_uniform [of _ _ "sort_contract_events_canonically es"]
    by (fastforce simp: list_all_iff wf_block_def wf_log_def fits_u64_def)
qed

text \<open>The archive accumulator can be maintained block by block: for events of one new block
  above every block in the log, advancing the old accumulator gives the accumulator recomputed
  from the whole extended log; and neither depends on the order in which events are listed.\<close>

theorem archive_accumulator_incremental:
  assumes "\<forall>e \<in> set log \<union> set bs. wf_event e"
    and "\<forall>e \<in> set log. ce_block_number e < n" "\<forall>e \<in> set bs. ce_block_number e = n"
    and "mset log' = mset log" "mset bs' = mset bs" "mset all_events = mset log + mset bs"
  shows "compute_contract_event_archive_accumulator X all_events
    = advance_contract_event_archive_accumulator X
        (compute_contract_event_archive_accumulator X log') n bs'"
proof -
  have "sort_contract_events_canonically all_events = sort_contract_events_canonically (log @ bs)"
    using assms(1,6) by (intro sort_events_mset [symmetric]) auto
  moreover have "sort_contract_events_canonically log' = sort_contract_events_canonically log"
    using assms(1,4) by (intro sort_events_mset [symmetric]) auto
  moreover have "advance_contract_event_archive_accumulator X a n bs
      = advance_contract_event_archive_accumulator X a n bs'" for a
    using assms(1,3,5) by (intro advance_mset) auto
  ultimately show ?thesis using archive_append [OF assms(1-3), of X] by (simp add: archive_chain)
qed

definition demo_event :: "u64 \<Rightarrow> u32 \<Rightarrow> contract_event" where
  "demo_event n i =
     \<lparr>ce_contract_address = addr_zero, ce_topic = [84], ce_data = [7],
      ce_block_number = n, ce_tx_hash = hash_zero, ce_log_index = i\<rparr>"

lemma wf_demo_event: "wf_event (demo_event n i)"
proof -
  have "valid_string [84]" by (simp add: valid_string_def wf_str_def is_scalar_def fits_u64_def utf8_def utf8_char_def
        utf8_units_def)
  then show ?thesis by (simp add: wf_event_def demo_event_def wf_addr_def addr_zero_def fits_u64_def)
qed

theorem archive_accumulator_incremental_witness:
  "compute_contract_event_archive_accumulator demo_externs
     [demo_event 2 1, demo_event 1 0, demo_event 2 0]
   = advance_contract_event_archive_accumulator demo_externs
       (compute_contract_event_archive_accumulator demo_externs [demo_event 1 0]) 2
       [demo_event 2 0, demo_event 2 1]"
  by (rule archive_accumulator_incremental [of "[demo_event 1 0]" "[demo_event 2 0, demo_event 2 1]"])
    (simp_all add: wf_demo_event, simp_all add: demo_event_def)

text \<open>The accumulator commits to the whole event log: absent SHA-256 collisions on what is
  hashed along the two chains (and a preimage of the all-zero value), two logs verify against
  the same committed accumulator only if they hold the same events with the same
  multiplicities.\<close>

theorem archive_accumulator_binds:
  assumes "wf_log es" "wf_log es'"
    and "collision_free X (archive_preimages X es \<union> archive_preimages X es')"
    and "verify_contract_event_archive_accumulator X acc es = Ok ()"
  shows "verify_contract_event_archive_accumulator X acc es' = Ok () \<longleftrightarrow> mset es' = mset es"
proof
  assume "verify_contract_event_archive_accumulator X acc es' = Ok ()"
  then have "compute_contract_event_archive_accumulator X es
      = compute_contract_event_archive_accumulator X es'"
    using assms(4) by (simp add: verify_contract_event_archive_accumulator_def split: if_splits)
  then have "list_all2 (\<lambda>b c. fst b = fst c \<and> mset (snd b) = mset (snd c))
      (event_blocks (sort_contract_events_canonically es))
      (event_blocks (sort_contract_events_canonically es'))"
    using assms(1-3) unfolding archive_chain archive_preimages_def
    by (intro chain_inj wf_event_blocks)
  from mset_concat_blocks [OF this] show "mset es' = mset es"
    by (simp add: concat_event_blocks)
next
  assume m: "mset es' = mset es"
  have "sort_contract_events_canonically es' = sort_contract_events_canonically es"
    using assms(1) m by (intro sort_events_mset [symmetric]) (auto simp: wf_log_def)
  then show "verify_contract_event_archive_accumulator X acc es' = Ok ()"
    using assms(4) by (simp add: verify_contract_event_archive_accumulator_def archive_chain)
qed

text \<open>A hash that keeps the last bytes of a message, so that the short logs below do not collide.\<close>

definition suffix_externs :: externs where
  "suffix_externs = demo_externs\<lparr>sha256 := (\<lambda>m. copy_into_zeroed 32 (rev m))\<rparr>"

lemma demo_logs_collision_free:
  "collision_free suffix_externs (archive_preimages suffix_externs [demo_event 1 1]
     \<union> archive_preimages suffix_externs [demo_event 1 2])"
  by code_simp

theorem archive_accumulator_binds_witness:
  "verify_contract_event_archive_accumulator suffix_externs
     (compute_contract_event_archive_accumulator suffix_externs [demo_event 1 1]) [demo_event 1 2]
   \<noteq> Ok ()"
  using archive_accumulator_binds [OF _ _ demo_logs_collision_free,
      of "compute_contract_event_archive_accumulator suffix_externs [demo_event 1 1]"]
  by (simp add: wf_log_def wf_demo_event verify_contract_event_archive_accumulator_def)
    (simp add: demo_event_def)

end
