(* ===== verification/Validator.thy ===== *)
theory Validator
  imports Wire
begin

text \<open>
  Validator metadata and epoch randomness (\<open>primitives/validator.rs\<close>): executor service claims,
  the commit and reveal of a VRF contribution, its record, and the signed evidence.
\<close>

definition MAX_VALIDATOR_EXECUTOR_SERVICES :: nat where "MAX_VALIDATOR_EXECUTOR_SERVICES = 32"
definition MAX_VALIDATOR_EXECUTOR_ENDPOINT_BYTES :: nat where
  "MAX_VALIDATOR_EXECUTOR_ENDPOINT_BYTES = 256"
definition MAX_VALIDATOR_VRF_OUTPUT_BYTES :: nat where "MAX_VALIDATOR_VRF_OUTPUT_BYTES = 128"
definition MAX_VALIDATOR_VRF_PROOF_BYTES :: nat where "MAX_VALIDATOR_VRF_PROOF_BYTES = 512"

definition VALIDATOR_VRF_PROOF_DOMAIN :: "u8 list" where
  "VALIDATOR_VRF_PROOF_DOMAIN = utf8 (lit ''zincha_validator_vrf_contribution_v2'')"
definition VALIDATOR_VRF_OUTPUT_DOMAIN :: "u8 list" where
  "VALIDATOR_VRF_OUTPUT_DOMAIN = utf8 (lit ''zincha_validator_vrf_output_v2'')"
definition VALIDATOR_VRF_COMMITMENT_DOMAIN :: "u8 list" where
  "VALIDATOR_VRF_COMMITMENT_DOMAIN = utf8 (lit ''zincha_validator_vrf_commitment_v1'')"
definition VALIDATOR_VRF_EVIDENCE_DOMAIN :: "u8 list" where
  "VALIDATOR_VRF_EVIDENCE_DOMAIN = utf8 (lit ''zincha_validator_vrf_evidence_v1'')"

subsection \<open>Data\<close>

record validator_executor_service =
  ves_partition_id :: u32
  ves_rpc_endpoint :: rstr
  ves_executor_public_key :: public_key

record validator_update_data =
  vu_executor_services :: "validator_executor_service list"
  vu_vrf_public_key :: "public_key option"

record vrf_commit_data =
  vc_target_epoch :: u64
  vc_commitment :: hash256

record vrf_contribution_data =
  vd_target_epoch :: u64
  vd_vrf_output :: "u8 list"
  vd_vrf_proof :: "u8 list"

record vrf_contribution_key =
  vk_target_epoch :: u64
  vk_validator :: address

definition vrf_contribution_key_new :: "u64 \<Rightarrow> address \<Rightarrow> vrf_contribution_key" where
  "vrf_contribution_key_new target_epoch validator =
     \<lparr>vk_target_epoch = target_epoch, vk_validator = validator\<rparr>"

record vrf_contribution_record =
  vr_validator :: address
  vr_target_epoch :: u64
  vr_commitment :: hash256
  vr_submitted_in_block :: u64
  vr_revealed_in_block :: "u64 option"
  vr_vrf_output :: "u8 list"
  vr_vrf_proof :: "u8 list"

datatype vrf_evidence_kind = EvCommit | EvContribution

fun evidence_rank :: "vrf_evidence_kind \<Rightarrow> u8" where
  "evidence_rank EvCommit = 0"
| "evidence_rank EvContribution = 1"

datatype signed_vrf_evidence =
    Commit (ev_validator: address) (ev_target_epoch: u64) (ev_commitment: hash256)
      (ev_public_key: public_key) (ev_signature: signature)
  | Contribution (ev_validator: address) (ev_target_epoch: u64) (ev_vrf_output: "u8 list")
      (ev_vrf_proof: "u8 list") (ev_public_key: public_key) (ev_signature: signature)

record vrf_evidence_key =
  vek_target_epoch :: u64
  vek_kind :: vrf_evidence_kind
  vek_validator :: address

datatype validator_error =
    TooManyServices nat | PartitionOutOfRange u32 | EmptyEndpoint | EndpointTooLong nat
  | DuplicatePartition u32 | ZeroCommitment | EmptyVrfOutput | VrfOutputTooLong nat
  | EmptyVrfProof | VrfProofTooLong nat | VrfProofNot64 nat | VrfOutputMismatch
  | RevealMismatch | EvidenceSignerMismatch | VrfKeyError key_error

subsection \<open>Validation\<close>

fun check_services :: "u32 \<Rightarrow> u32 set \<Rightarrow> validator_executor_service list \<Rightarrow> validator_error + unit" where
  "check_services num_partitions seen [] = Ok ()"
| "check_services num_partitions seen (s # ss) =
     (if num_partitions \<le> ves_partition_id s then Err (PartitionOutOfRange (ves_partition_id s))
      else if ves_rpc_endpoint s = [] then Err EmptyEndpoint
      else if MAX_VALIDATOR_EXECUTOR_ENDPOINT_BYTES < str_len (ves_rpc_endpoint s)
      then Err (EndpointTooLong (str_len (ves_rpc_endpoint s)))
      else if ves_partition_id s \<in> seen then Err (DuplicatePartition (ves_partition_id s))
      else check_services num_partitions (insert (ves_partition_id s) seen) ss)"

definition validate_validator_update :: "validator_update_data \<Rightarrow> u32 \<Rightarrow> validator_error + unit" where
  "validate_validator_update u num_partitions =
     (if MAX_VALIDATOR_EXECUTOR_SERVICES < length (vu_executor_services u)
      then Err (TooManyServices (length (vu_executor_services u)))
      else check_services num_partitions {} (vu_executor_services u))"

definition vrf_public_key_matches_address :: "externs \<Rightarrow> address \<Rightarrow> public_key \<Rightarrow> bool" where
  "vrf_public_key_matches_address X validator public_key \<longleftrightarrow> from_public_key X public_key = validator"

definition validate_commit :: "vrf_commit_data \<Rightarrow> validator_error + unit" where
  "validate_commit c = (if vc_commitment c = hash_zero then Err ZeroCommitment else Ok ())"

definition validate_contribution :: "vrf_contribution_data \<Rightarrow> validator_error + unit" where
  "validate_contribution d =
     (if vd_vrf_output d = [] then Err EmptyVrfOutput
      else if MAX_VALIDATOR_VRF_OUTPUT_BYTES < length (vd_vrf_output d)
      then Err (VrfOutputTooLong (length (vd_vrf_output d)))
      else if vd_vrf_proof d = [] then Err EmptyVrfProof
      else if MAX_VALIDATOR_VRF_PROOF_BYTES < length (vd_vrf_proof d)
      then Err (VrfProofTooLong (length (vd_vrf_proof d)))
      else Ok ())"

subsection \<open>Contributions\<close>

definition proof_signable_bytes :: "rstr \<Rightarrow> address \<Rightarrow> u64 \<Rightarrow> hash256 \<Rightarrow> u8 list" where
  "proof_signable_bytes chain_id validator target_epoch prior_seed =
     VALIDATOR_VRF_PROOF_DOMAIN @ utf8 chain_id @ addr_bytes validator @ to_le_bytes target_epoch
     @ hash_as_bytes prior_seed"

definition commitment_preimage :: "vrf_contribution_data \<Rightarrow> u8 list" where
  "commitment_preimage d =
     VALIDATOR_VRF_COMMITMENT_DOMAIN
     @ to_le_bytes (as_word (length (vd_vrf_output d)) :: u64) @ vd_vrf_output d
     @ to_le_bytes (as_word (length (vd_vrf_proof d)) :: u64) @ vd_vrf_proof d"

definition commitment_hash :: "externs \<Rightarrow> vrf_contribution_data \<Rightarrow> validator_error + hash256" where
  "commitment_hash X d =
     bind_result (validate_contribution d) (\<lambda>_. Ok (hash_bytes X (commitment_preimage d)))"

definition output_preimage ::
  "public_key \<Rightarrow> rstr \<Rightarrow> address \<Rightarrow> u64 \<Rightarrow> hash256 \<Rightarrow> u8 list \<Rightarrow> u8 list" where
  "output_preimage public_key chain_id validator target_epoch prior_seed vrf_proof =
     VALIDATOR_VRF_OUTPUT_DOMAIN @ pk_bytes public_key @ utf8 chain_id @ addr_bytes validator
     @ to_le_bytes target_epoch @ hash_as_bytes prior_seed @ vrf_proof"

definition expected_output_from_proof ::
  "externs \<Rightarrow> public_key \<Rightarrow> rstr \<Rightarrow> address \<Rightarrow> u64 \<Rightarrow> hash256 \<Rightarrow> u8 list
   \<Rightarrow> validator_error + u8 list" where
  "expected_output_from_proof X public_key chain_id validator target_epoch prior_seed vrf_proof =
     (if length vrf_proof \<noteq> 64 then Err (VrfProofNot64 (length vrf_proof))
      else (case sig_from_bytes vrf_proof of
          Err e \<Rightarrow> Err (VrfKeyError e)
        | Ok sig \<Rightarrow>
            Ok (hash_as_bytes (hash_bytes X
              (output_preimage public_key chain_id validator target_epoch prior_seed (sig_bytes sig))))))"

definition verify_for_validator ::
  "externs \<Rightarrow> vrf_contribution_data \<Rightarrow> rstr \<Rightarrow> address \<Rightarrow> public_key \<Rightarrow> hash256 \<Rightarrow> validator_error + unit" where
  "verify_for_validator X d chain_id validator public_key prior_seed =
     bind_result (validate_contribution d) (\<lambda>_.
       if length (vd_vrf_proof d) \<noteq> 64 then Err (VrfProofNot64 (length (vd_vrf_proof d)))
       else (case sig_from_bytes (vd_vrf_proof d) of
           Err e \<Rightarrow> Err (VrfKeyError e)
         | Ok sig \<Rightarrow>
           (case pk_verify X public_key
                   (proof_signable_bytes chain_id validator (vd_target_epoch d) prior_seed) sig of
              Err e \<Rightarrow> Err (VrfKeyError e)
            | Ok _ \<Rightarrow>
              bind_result (expected_output_from_proof X public_key chain_id validator
                             (vd_target_epoch d) prior_seed (vd_vrf_proof d)) (\<lambda>expected_output.
                if vd_vrf_output d \<noteq> expected_output then Err VrfOutputMismatch else Ok ()))))"

definition contribution_into_record ::
  "vrf_contribution_data \<Rightarrow> address \<Rightarrow> hash256 \<Rightarrow> u64 \<Rightarrow> vrf_contribution_record" where
  "contribution_into_record d validator commitment submitted_in_block =
     \<lparr>vr_validator = validator, vr_target_epoch = vd_target_epoch d, vr_commitment = commitment,
      vr_submitted_in_block = submitted_in_block, vr_revealed_in_block = Some submitted_in_block,
      vr_vrf_output = vd_vrf_output d, vr_vrf_proof = vd_vrf_proof d\<rparr>"

definition committed_only :: "address \<Rightarrow> u64 \<Rightarrow> hash256 \<Rightarrow> u64 \<Rightarrow> vrf_contribution_record" where
  "committed_only validator target_epoch commitment submitted_in_block =
     \<lparr>vr_validator = validator, vr_target_epoch = target_epoch, vr_commitment = commitment,
      vr_submitted_in_block = submitted_in_block, vr_revealed_in_block = None,
      vr_vrf_output = [], vr_vrf_proof = []\<rparr>"

definition is_revealed :: "vrf_contribution_record \<Rightarrow> bool" where
  "is_revealed r \<longleftrightarrow> vr_revealed_in_block r \<noteq> None"

definition reveal ::
  "externs \<Rightarrow> vrf_contribution_record \<Rightarrow> vrf_contribution_data \<Rightarrow> u64
   \<Rightarrow> validator_error + vrf_contribution_record" where
  "reveal X r d revealed_in_block =
     bind_result (commitment_hash X d) (\<lambda>commitment.
       if commitment \<noteq> vr_commitment r then Err RevealMismatch
       else Ok (r\<lparr>vr_revealed_in_block := Some revealed_in_block,
                  vr_vrf_output := vd_vrf_output d, vr_vrf_proof := vd_vrf_proof d\<rparr>))"

subsection \<open>Signed evidence\<close>

definition commit_signable_bytes :: "address \<Rightarrow> u64 \<Rightarrow> hash256 \<Rightarrow> public_key \<Rightarrow> u8 list" where
  "commit_signable_bytes validator target_epoch commitment public_key =
     VALIDATOR_VRF_EVIDENCE_DOMAIN @ [evidence_rank EvCommit] @ to_le_bytes target_epoch
     @ addr_bytes validator @ hash_as_bytes commitment @ pk_bytes public_key"

definition contribution_signable_bytes ::
  "address \<Rightarrow> u64 \<Rightarrow> u8 list \<Rightarrow> u8 list \<Rightarrow> public_key \<Rightarrow> u8 list" where
  "contribution_signable_bytes validator target_epoch vrf_output vrf_proof public_key =
     VALIDATOR_VRF_EVIDENCE_DOMAIN @ [evidence_rank EvContribution] @ to_le_bytes target_epoch
     @ addr_bytes validator
     @ to_le_bytes (as_word (length vrf_output) :: u32) @ vrf_output
     @ to_le_bytes (as_word (length vrf_proof) :: u32) @ vrf_proof @ pk_bytes public_key"

definition new_commit :: "externs \<Rightarrow> keypair \<Rightarrow> u64 \<Rightarrow> hash256 \<Rightarrow> signed_vrf_evidence" where
  "new_commit X keypair target_epoch commitment =
     (let validator = kp_address X keypair;
          public_key = kp_public_key X keypair;
          signable = commit_signable_bytes validator target_epoch commitment public_key
      in Commit validator target_epoch commitment public_key (kp_sign X keypair signable))"

definition new_contribution ::
  "externs \<Rightarrow> keypair \<Rightarrow> u64 \<Rightarrow> u8 list \<Rightarrow> u8 list \<Rightarrow> signed_vrf_evidence" where
  "new_contribution X keypair target_epoch vrf_output vrf_proof =
     (let validator = kp_address X keypair;
          public_key = kp_public_key X keypair;
          signable = contribution_signable_bytes validator target_epoch vrf_output vrf_proof public_key
      in Contribution validator target_epoch vrf_output vrf_proof public_key (kp_sign X keypair signable))"

fun evidence_kind :: "signed_vrf_evidence \<Rightarrow> vrf_evidence_kind" where
  "evidence_kind (Commit _ _ _ _ _) = EvCommit"
| "evidence_kind (Contribution _ _ _ _ _ _) = EvContribution"

definition pool_key :: "signed_vrf_evidence \<Rightarrow> vrf_evidence_key" where
  "pool_key e = \<lparr>vek_target_epoch = ev_target_epoch e, vek_kind = evidence_kind e,
                 vek_validator = ev_validator e\<rparr>"

fun write_evidence :: "signed_vrf_evidence \<Rightarrow> u8 list" where
  "write_evidence (Commit v e c k s) =
     write_u32 0 @ write_addr v @ write_u64 e @ write_hash c @ write_pk k @ write_sig s"
| "write_evidence (Contribution v e out pf k s) =
     write_u32 1 @ write_addr v @ write_u64 e @ write_bytes out @ write_bytes pf @ write_pk k
     @ write_sig s"

definition evidence_hash :: "externs \<Rightarrow> signed_vrf_evidence \<Rightarrow> hash256" where
  "evidence_hash X e = hash_bytes X (VALIDATOR_VRF_EVIDENCE_DOMAIN @ write_evidence e)"

fun evidence_signable :: "signed_vrf_evidence \<Rightarrow> u8 list" where
  "evidence_signable (Commit v e c k s) = commit_signable_bytes v e c k"
| "evidence_signable (Contribution v e out pf k s) = contribution_signable_bytes v e out pf k"

definition verify_evidence_signature :: "externs \<Rightarrow> signed_vrf_evidence \<Rightarrow> validator_error + unit" where
  "verify_evidence_signature X e =
     (if from_public_key X (ev_public_key e) \<noteq> ev_validator e then Err EvidenceSignerMismatch
      else (case pk_verify X (ev_public_key e) (evidence_signable e) (ev_signature e) of
          Err x \<Rightarrow> Err (VrfKeyError x)
        | Ok u \<Rightarrow> Ok u))"

fun commit_payload :: "signed_vrf_evidence \<Rightarrow> vrf_commit_data option" where
  "commit_payload (Commit _ e c _ _) = Some \<lparr>vc_target_epoch = e, vc_commitment = c\<rparr>"
| "commit_payload (Contribution _ _ _ _ _ _) = None"

fun contribution_payload :: "signed_vrf_evidence \<Rightarrow> vrf_contribution_data option" where
  "contribution_payload (Contribution _ e out pf _ _) =
     Some \<lparr>vd_target_epoch = e, vd_vrf_output = out, vd_vrf_proof = pf\<rparr>"
| "contribution_payload (Commit _ _ _ _ _) = None"

subsection \<open>Lemmas\<close>

lemma length_le_u64 [simp]: "length (to_le_bytes (w :: u64)) = 8"
  by simp

lemma check_services_Ok:
  "check_services n seen ss = Ok () \<longleftrightarrow>
     (\<forall>s \<in> set ss. ves_partition_id s < n \<and> ves_rpc_endpoint s \<noteq> []
        \<and> str_len (ves_rpc_endpoint s) \<le> MAX_VALIDATOR_EXECUTOR_ENDPOINT_BYTES)
     \<and> distinct (map ves_partition_id ss) \<and> seen \<inter> ves_partition_id ` set ss = {}"
  by (induction n seen ss rule: check_services.induct) auto

lemma validate_contribution_Ok:
  "validate_contribution d = Ok () \<longleftrightarrow>
     vd_vrf_output d \<noteq> [] \<and> length (vd_vrf_output d) \<le> 128
     \<and> vd_vrf_proof d \<noteq> [] \<and> length (vd_vrf_proof d) \<le> 512"
  by (auto simp: validate_contribution_def MAX_VALIDATOR_VRF_OUTPUT_BYTES_def
      MAX_VALIDATOR_VRF_PROOF_BYTES_def)

lemma commitment_hash_Ok:
  "commitment_hash X d = Ok h \<longleftrightarrow>
     validate_contribution d = Ok () \<and> h = hash_bytes X (commitment_preimage d)"
  by (auto simp: commitment_hash_def)

lemma reveal_Ok:
  "reveal X r d b = Ok r' \<longleftrightarrow>
     validate_contribution d = Ok () \<and> hash_bytes X (commitment_preimage d) = vr_commitment r
     \<and> r' = r\<lparr>vr_revealed_in_block := Some b, vr_vrf_output := vd_vrf_output d,
               vr_vrf_proof := vd_vrf_proof d\<rparr>"
  by (auto simp: reveal_def commitment_hash_Ok)

lemma framed_append_iff:
  assumes "LENGTH('a::len) mod 8 = 0" "length xs < 2 ^ LENGTH('a)" "length ys < 2 ^ LENGTH('a)"
  shows "to_le_bytes (as_word (length xs) :: 'a word) @ xs @ r
           = to_le_bytes (as_word (length ys) :: 'a word) @ ys @ s \<longleftrightarrow> xs = ys \<and> r = s"
proof -
  have "(as_word (length xs) :: 'a word) = as_word (length ys) \<longleftrightarrow> length xs = length ys"
    using assms(2,3) by (intro as_word_eq_iff)
  then show ?thesis using assms(1)
    by (auto simp: append_eq_same_len to_le_bytes_inj append_eq_append_conv)
qed

lemma commitment_preimage_inj:
  assumes "validate_contribution d = Ok ()" "validate_contribution d' = Ok ()"
  shows "commitment_preimage d = commitment_preimage d' \<longleftrightarrow>
    vd_vrf_output d = vd_vrf_output d' \<and> vd_vrf_proof d = vd_vrf_proof d'"
proof -
  have "length (vd_vrf_output e) < 2 ^ 64 \<and> length (vd_vrf_proof e) < 2 ^ 64"
    if "validate_contribution e = Ok ()" for e
    using that by (simp add: validate_contribution_Ok)
  with assms have len: "length (vd_vrf_output d) < 2 ^ LENGTH(64)" "length (vd_vrf_output d') < 2 ^ LENGTH(64)"
    "length (vd_vrf_proof d) < 2 ^ LENGTH(64)" "length (vd_vrf_proof d') < 2 ^ LENGTH(64)"
    by simp_all
  have "commitment_preimage d = commitment_preimage d' \<longleftrightarrow> vd_vrf_output d = vd_vrf_output d'
      \<and> to_le_bytes (as_word (length (vd_vrf_proof d)) :: u64) @ vd_vrf_proof d @ []
        = to_le_bytes (as_word (length (vd_vrf_proof d')) :: u64) @ vd_vrf_proof d' @ []"
    unfolding commitment_preimage_def same_append_eq append_Nil2
    by (rule framed_append_iff [OF _ len(1,2)]) simp
  then show ?thesis using framed_append_iff [OF _ len(3,4), of "[]" "[]"] by simp
qed

definition wf_evidence :: "signed_vrf_evidence \<Rightarrow> bool" where
  "wf_evidence e \<longleftrightarrow> wf_addr (ev_validator e) \<and> length (pk_bytes (ev_public_key e)) = 32
     \<and> (case e of Commit _ _ c _ _ \<Rightarrow> wf_hash c
          | Contribution _ _ out pf _ _ \<Rightarrow> length out < 2 ^ 32 \<and> length pf < 2 ^ 32)"

text \<open>An evidence item without its signature: what the signature is to commit to.\<close>

fun unsigned_evidence :: "signed_vrf_evidence \<Rightarrow> signed_vrf_evidence" where
  "unsigned_evidence (Commit v e c k s) = Commit v e c k (Signature [])"
| "unsigned_evidence (Contribution v e out pf k s) = Contribution v e out pf k (Signature [])"

lemma evidence_signable_inj:
  assumes "wf_evidence e" "wf_evidence e'"
  shows "evidence_signable e = evidence_signable e' \<longleftrightarrow> unsigned_evidence e = unsigned_evidence e'"
proof (cases e; cases e')
  fix v ep c k s v' ep' c' k' s'
  assume e: "e = Commit v ep c k s" "e' = Commit v' ep' c' k' s'"
  then show ?thesis using assms
    by (auto simp: wf_evidence_def wf_addr_def wf_hash_def commit_signable_bytes_def
        append_eq_same_len to_le_bytes_inj intro: address.expand hash256.expand public_key.expand)
next
  fix v ep out pf k s v' ep' out' pf' k' s'
  assume e: "e = Contribution v ep out pf k s" "e' = Contribution v' ep' out' pf' k' s'"
  with assms have len: "length (addr_bytes v) = length (addr_bytes v')"
    "length out < 2 ^ LENGTH(32)" "length out' < 2 ^ LENGTH(32)"
    "length pf < 2 ^ LENGTH(32)" "length pf' < 2 ^ LENGTH(32)"
    by (simp_all add: wf_evidence_def wf_addr_def)
  have m32: "LENGTH(32) mod 8 = 0" and l8: "length (to_le_bytes ep) = length (to_le_bytes ep')"
    by simp_all
  have "evidence_signable e = evidence_signable e' \<longleftrightarrow>
      to_le_bytes ep = to_le_bytes ep' \<and> addr_bytes v = addr_bytes v'
      \<and> out = out' \<and> pf = pf' \<and> pk_bytes k = pk_bytes k'"
    unfolding e evidence_signable.simps contribution_signable_bytes_def same_append_eq
      append_eq_same_len [OF len(1)] append_eq_same_len [OF l8]
      framed_append_iff [OF m32 len(2,3)] framed_append_iff [OF m32 len(4,5)]
    by blast
  then show ?thesis by (auto simp: e to_le_bytes_inj intro: address.expand public_key.expand)
qed (auto simp: commit_signable_bytes_def contribution_signable_bytes_def)

lemma new_evidence_verifies:
  assumes "ed25519_ok X" "wf_keypair kp"
  shows "verify_evidence_signature X (new_commit X kp epoch c) = Ok ()"
    "verify_evidence_signature X (new_contribution X kp epoch out pf) = Ok ()"
  using sign_verify [OF assms]
  by (simp_all add: verify_evidence_signature_def new_commit_def new_contribution_def Let_def kp_address_def)

lemma validate_commit_Ok [simp]: "validate_commit c = Ok () \<longleftrightarrow> vc_commitment c \<noteq> hash_zero"
  by (simp add: validate_commit_def)

lemma verify_for_validator_Ok:
  "verify_for_validator X d chain_id v k seed = Ok () \<longleftrightarrow>
     validate_contribution d = Ok () \<and> length (vd_vrf_proof d) = 64
     \<and> ed_verify X (pk_bytes k) (proof_signable_bytes chain_id v (vd_target_epoch d) seed) (vd_vrf_proof d)
     \<and> vd_vrf_output d = hash_as_bytes (hash_bytes X
          (output_preimage k chain_id v (vd_target_epoch d) seed (vd_vrf_proof d)))"
  by (cases "ed_verify X (pk_bytes k) (proof_signable_bytes chain_id v (vd_target_epoch d) seed) (vd_vrf_proof d)")
    (auto simp: verify_for_validator_def sig_from_bytes_def pk_verify_def expected_output_from_proof_def)

text \<open>The contribution an honest validator computes for an epoch: its proof is its signature
  over the domain-separated inputs, the output the hash derived from the proof.\<close>

definition honest_contribution ::
  "externs \<Rightarrow> keypair \<Rightarrow> rstr \<Rightarrow> u64 \<Rightarrow> hash256 \<Rightarrow> vrf_contribution_data" where
  "honest_contribution X kp chain_id epoch seed =
     (let v = kp_address X kp;
          proof = sig_bytes (kp_sign X kp (proof_signable_bytes chain_id v epoch seed))
      in \<lparr>vd_target_epoch = epoch,
          vd_vrf_output = hash_as_bytes (hash_bytes X
            (output_preimage (kp_public_key X kp) chain_id v epoch seed proof)),
          vd_vrf_proof = proof\<rparr>)"

lemma honest_contribution_valid:
  assumes "ed25519_ok X" "wf_keypair kp"
  shows "validate_contribution (honest_contribution X kp chain_id epoch seed) = Ok ()"
    "length (vd_vrf_proof (honest_contribution X kp chain_id epoch seed)) = 64"
proof -
  have "length (ed_sign X (secret_bytes kp) m) = 64" for m
    using assms by (simp add: ed25519_ok_def wf_keypair_def)
  moreover have "xs \<noteq> []" if "length xs = Suc n" for xs :: "u8 list" and n using that by auto
  ultimately show "validate_contribution (honest_contribution X kp chain_id epoch seed) = Ok ()"
    "length (vd_vrf_proof (honest_contribution X kp chain_id epoch seed)) = 64"
    by (auto simp: honest_contribution_def Let_def validate_contribution_Ok kp_sign_def
        simp flip: length_greater_0_conv)
qed

subsection \<open>Properties\<close>

text \<open>Epoch randomness, honest run: the contribution a validator derives from its key
  verifies against its canonical key, and reveals the record that was committed with its
  commitment hash, leaving the committed fields as they were. The validator has no freedom
  left once its proof is fixed: any contribution for the same epoch that verifies with the
  same proof has the same output.\<close>

theorem honest_vrf_contribution:
  fixes X kp chain_id epoch seed
  defines "d \<equiv> honest_contribution X kp chain_id epoch seed"
  assumes "ed25519_ok X" "wf_keypair kp"
  shows "verify_for_validator X d chain_id (kp_address X kp) (kp_public_key X kp) seed = Ok ()
    \<and> (\<exists>c. commitment_hash X d = Ok c
        \<and> reveal X (committed_only (kp_address X kp) epoch c b) d b' =
            Ok \<lparr>vr_validator = kp_address X kp, vr_target_epoch = epoch, vr_commitment = c,
                vr_submitted_in_block = b, vr_revealed_in_block = Some b',
                vr_vrf_output = vd_vrf_output d, vr_vrf_proof = vd_vrf_proof d\<rparr>)
    \<and> (verify_for_validator X d' chain_id (kp_address X kp) (kp_public_key X kp) seed = Ok ()
        \<and> vd_target_epoch d' = epoch \<and> vd_vrf_proof d' = vd_vrf_proof d \<longrightarrow> d' = d)"
proof -
  note ok = honest_contribution_valid [OF assms(2,3), of chain_id epoch seed, folded d_def]
  have sv: "ed_verify X (pk_bytes (kp_public_key X kp)) m (sig_bytes (kp_sign X kp m))" for m
    using assms(2,3) by (simp add: ed25519_ok_def wf_keypair_def kp_public_key_def kp_sign_def)
  have v: "verify_for_validator X d chain_id (kp_address X kp) (kp_public_key X kp) seed = Ok ()"
    using ok sv by (simp add: verify_for_validator_Ok) (simp add: d_def honest_contribution_def Let_def)
  moreover have "vd_target_epoch d = epoch" by (simp add: d_def honest_contribution_def Let_def)
  ultimately show ?thesis using ok
    by (auto simp: verify_for_validator_Ok reveal_Ok commitment_hash_Ok committed_only_def)
qed

theorem honest_vrf_contribution_witness:
  "verify_for_validator demo_externs (honest_contribution demo_externs (Keypair (replicate 32 7)) [] 3 hash_zero)
     [] (kp_address demo_externs (Keypair (replicate 32 7)))
     (kp_public_key demo_externs (Keypair (replicate 32 7))) hash_zero = Ok ()"
  using honest_vrf_contribution [of demo_externs "Keypair (replicate 32 7)"]
  by (simp add: wf_keypair_def)

text \<open>A commitment binds its reveal: where SHA-256 does not collide on the two
  contributions' preimages, a committed record that one contribution opens is opened by
  another exactly when that has the same output and the same proof.\<close>

theorem vrf_reveal_binding:
  assumes "reveal X r d b = Ok r'"
    and "inj_on (hash_bytes X) {commitment_preimage d, commitment_preimage d'}"
  shows "is_ok (reveal X r d' b') \<longleftrightarrow>
         vd_vrf_output d' = vd_vrf_output d \<and> vd_vrf_proof d' = vd_vrf_proof d"
proof -
  have valid: "validate_contribution d = Ok ()" and c: "hash_bytes X (commitment_preimage d) = vr_commitment r"
    using assms(1) by (auto simp: reveal_Ok)
  have same: "validate_contribution d' = Ok () \<and> commitment_preimage d' = commitment_preimage d"
    if "vd_vrf_output d' = vd_vrf_output d" "vd_vrf_proof d' = vd_vrf_proof d"
    using that valid by (simp add: validate_contribution_Ok commitment_preimage_def)
  show ?thesis
    using assms(2) c same commitment_preimage_inj [OF _ valid, of d']
    by (auto simp: is_ok_iff reveal_Ok dest: inj_onD)
qed

theorem vrf_reveal_binding_witness:
  defines "d \<equiv> \<lparr>vd_target_epoch = 1, vd_vrf_output = [1], vd_vrf_proof = [2]\<rparr>"
    and "d' \<equiv> \<lparr>vd_target_epoch = 1, vd_vrf_output = [1, 2], vd_vrf_proof = [2]\<rparr>"
    and "X \<equiv> tag_externs (commitment_preimage \<lparr>vd_target_epoch = 1, vd_vrf_output = [1], vd_vrf_proof = [2]\<rparr>)"
  shows "\<not> is_ok (reveal X (committed_only addr_zero 1 (hash_bytes X (commitment_preimage d)) 5) d' 7)"
proof -
  have "\<exists>r'. reveal X (committed_only addr_zero 1 (hash_bytes X (commitment_preimage d)) 5) d 6 = Ok r'"
    by (simp add: reveal_Ok validate_contribution_Ok committed_only_def d_def)
  moreover have "inj_on (hash_bytes X) {commitment_preimage d, commitment_preimage d'}"
    unfolding X_def d_def by (rule tag_inj_on)
  ultimately show ?thesis
    using vrf_reveal_binding [of X _ d 6 _ d' 7] by (auto simp: d_def d'_def)
qed

text \<open>Signed evidence: what a validator creates verifies, and the signed bytes determine
  the evidence up to its signature, whichever its kind, so a signature over one item is not a
  signature over any other.\<close>

theorem vrf_evidence_binding:
  assumes "ed25519_ok X" "wf_keypair kp"
    and "e = new_commit X kp epoch c \<and> wf_hash c
       \<or> e = new_contribution X kp epoch out pf \<and> length out < 2 ^ 32 \<and> length pf < 2 ^ 32"
    and "wf_evidence e'" "sha256_ok X"
  shows "verify_evidence_signature X e = Ok ()
    \<and> (evidence_signable e' = evidence_signable e \<longleftrightarrow> unsigned_evidence e' = unsigned_evidence e)"
proof -
  have "length (addr_bytes (kp_address X kp)) = 20"
    using assms(5) by (simp add: kp_address_def from_public_key_def sha256_ok_def)
  moreover have "length (pk_bytes (kp_public_key X kp)) = 32"
    using assms(1,2) by (simp add: kp_public_key_def ed25519_ok_def wf_keypair_def)
  ultimately have "wf_evidence e"
    using assms(3) by (auto simp: wf_evidence_def wf_addr_def new_commit_def new_contribution_def Let_def)
  with assms(3,4) new_evidence_verifies [OF assms(1,2)] evidence_signable_inj show ?thesis by auto
qed

theorem vrf_evidence_binding_witness:
  "verify_evidence_signature demo_externs (new_commit demo_externs (Keypair (replicate 32 7)) 4 hash_zero) = Ok ()"
  using vrf_evidence_binding [of demo_externs "Keypair (replicate 32 7)"
      "new_commit demo_externs (Keypair (replicate 32 7)) 4 hash_zero" 4 hash_zero "[]" "[]"
      "Commit addr_zero 0 hash_zero (PublicKey (replicate 32 0)) (Signature [])"]
  by (simp add: wf_keypair_def wf_hash_def hash_zero_def wf_evidence_def wf_addr_def addr_zero_def)

end
