(* ===== verification/Agent.thy ===== *)
theory Agent
  imports Task Reputation
begin

text \<open>
  Agents (\<open>primitives/agent.rs\<close>): the on-chain identity with its bounded windows of feedback
  and reputation events, the blend of its embeddings, the stake-backed cap on its reputation,
  its public view, and the score by which it is matched to tasks.

  Embeddings are lists of \<open>f32\<close> values. The sum of won and lost disputes in the matching score
  is an unchecked addition, which panics on overflow when overflow checks are on: that is the
  result \<open>None\<close>.
\<close>

subsection \<open>Feedback and events\<close>

record feedback_entry =
  fb_reviewer :: address
  fb_task_id :: hash256
  fb_quality :: float
  fb_requester_accepted :: bool
  fb_text :: rstr
  fb_embedding :: "float list"
  fb_timestamp :: u64
  fb_task_fee :: u64

definition MAX_FEEDBACK_ENTRIES :: nat where "MAX_FEEDBACK_ENTRIES = 50"
definition MAX_REPUTATION_EVENTS :: nat where "MAX_REPUTATION_EVENTS = 100"

datatype reputation_event_type = TaskCompleted | QualityRating | TaskFailed | AgreementCompleted
  | DisputeWon | DisputeLost | AgreementExpired

record reputation_event =
  re_event_type :: reputation_event_type
  re_reference_id :: hash256
  re_counterparty :: address
  re_score_before :: float
  re_score_after :: float
  re_value :: u64
  re_submitted_quality :: "float option"
  re_effective_quality :: "float option"
  re_requester_accepted :: "bool option"
  re_timestamp :: u64
  re_storage_deposit :: u64

definition score_change ::
  "reputation_event_type \<Rightarrow> hash256 \<Rightarrow> address \<Rightarrow> float \<Rightarrow> float \<Rightarrow> u64 \<Rightarrow> u64 \<Rightarrow> reputation_event" where
  "score_change event_type reference_id counterparty score_before score_after value timestamp =
     \<lparr>re_event_type = event_type, re_reference_id = reference_id, re_counterparty = counterparty,
      re_score_before = score_before, re_score_after = score_after, re_value = value,
      re_submitted_quality = None, re_effective_quality = None, re_requester_accepted = None,
      re_timestamp = timestamp, re_storage_deposit = 0\<rparr>"

definition quality_rating ::
  "hash256 \<Rightarrow> address \<Rightarrow> float \<Rightarrow> float \<Rightarrow> u64 \<Rightarrow> float \<Rightarrow> float \<Rightarrow> bool \<Rightarrow> u64 \<Rightarrow> reputation_event" where
  "quality_rating reference_id counterparty score_before score_after value submitted_quality
     effective_quality requester_accepted timestamp =
     \<lparr>re_event_type = QualityRating, re_reference_id = reference_id,
      re_counterparty = counterparty, re_score_before = score_before,
      re_score_after = score_after, re_value = value,
      re_submitted_quality = Some submitted_quality,
      re_effective_quality = Some effective_quality,
      re_requester_accepted = Some requester_accepted, re_timestamp = timestamp,
      re_storage_deposit = 0\<rparr>"

subsection \<open>Identity\<close>

record agent_identity =
  ai_address :: address
  ai_name :: rstr
  ai_description :: rstr
  ai_description_embedding :: "float list"
  ai_neural_embedding :: "float list"
  ai_model_hash :: hash256
  ai_capabilities :: "capability list"
  ai_owner :: address
  ai_stake :: u64
  ai_reputation :: reputation_data
  ai_registered_at_block :: u64
  ai_registered_at :: u64
  ai_active :: bool
  ai_deregistered_at :: u64
  ai_metadata :: "u8 list"
  ai_feedback :: "feedback_entry list"
  ai_feedback_embedding :: "float list"
  ai_reputation_history :: "reputation_event list"
  ai_min_fee :: u64
  ai_fee_schedule :: "(rstr \<times> u64) list"
  ai_storage_deposit :: u64

definition agent_new ::
  "address \<Rightarrow> rstr \<Rightarrow> rstr \<Rightarrow> float list \<Rightarrow> hash256 \<Rightarrow> capability list \<Rightarrow> address \<Rightarrow> agent_identity" where
  "agent_new addr name description description_embedding model_hash capabilities owner =
     \<lparr>ai_address = addr, ai_name = name, ai_description = description,
      ai_description_embedding = description_embedding, ai_neural_embedding = [],
      ai_model_hash = model_hash, ai_capabilities = capabilities, ai_owner = owner, ai_stake = 0,
      ai_reputation = reputation_default, ai_registered_at_block = 0, ai_registered_at = 0,
      ai_active = True, ai_deregistered_at = 0, ai_metadata = [], ai_feedback = [],
      ai_feedback_embedding = [], ai_reputation_history = [], ai_min_fee = 0,
      ai_fee_schedule = [], ai_storage_deposit = 0\<rparr>"

text \<open>\<open>add_feedback\<close>. The embedding update comes before the push and reads the new entry.\<close>

definition blend_feedback :: "float list \<Rightarrow> feedback_entry \<Rightarrow> float list" where
  "blend_feedback old entry =
     (if fb_embedding entry = [] then old
      else
        let weight = fclamp (lit64 (1 / 10)) (lit64 10)
                       (div64 (as_f64 (fb_task_fee entry)) (lit64 1000000));
            dim = length (fb_embedding entry)
        in if old = [] then fb_embedding entry
           else if length old = dim then
             (let alpha = as_f32 (div64 weight (add64 weight (lit64 5))) in
              map2 (\<lambda>val e. fadd F32 (fmul F32 val (fsub F32 (of_rat_lit F32 1) alpha)) (fmul F32 e alpha))
                old (fb_embedding entry))
           else old)"

definition add_feedback :: "agent_identity \<Rightarrow> feedback_entry \<Rightarrow> agent_identity" where
  "add_feedback a entry =
     (let kept = (if MAX_FEEDBACK_ENTRIES \<le> length (ai_feedback a) then tl (ai_feedback a)
                  else ai_feedback a)
      in a\<lparr>ai_feedback_embedding := blend_feedback (ai_feedback_embedding a) entry,
           ai_feedback := kept @ [entry]\<rparr>)"

definition add_reputation_event :: "agent_identity \<Rightarrow> reputation_event \<Rightarrow> agent_identity" where
  "add_reputation_event a event =
     (let kept = (if MAX_REPUTATION_EVENTS \<le> length (ai_reputation_history a)
                  then tl (ai_reputation_history a) else ai_reputation_history a)
      in a\<lparr>ai_reputation_history := kept @ [event]\<rparr>)"

definition effective_embedding :: "agent_identity \<Rightarrow> matching_params \<Rightarrow> float list" where
  "effective_embedding a p =
     (if ai_feedback_embedding a = [] \<or> ai_description_embedding a = []
      then ai_description_embedding a
      else if length (ai_feedback_embedding a) \<noteq> length (ai_description_embedding a)
      then ai_description_embedding a
      else
        let feedback_count = as_f64 (as_word (length (ai_feedback a)) :: u64);
            saturation_count = as_f64 (max (mx_feedback_blend_saturation_count p) 1);
            feedback_weight = fmin (div64 feedback_count saturation_count)
                                (mx_feedback_blend_max_weight p);
            desc_weight = sub64 (lit64 1) feedback_weight
        in map2 (\<lambda>d f. fadd F32 (fmul F32 d (as_f32 desc_weight)) (fmul F32 f (as_f32 feedback_weight)))
             (ai_description_embedding a) (ai_feedback_embedding a))"

subsection \<open>Stake-backed reputation\<close>

definition reputation_score_cap :: "agent_identity \<Rightarrow> matching_params \<Rightarrow> float" where
  "reputation_score_cap a p =
     (let stake_per_point = mx_agent_stake_per_reputation_point p in
      if stake_per_point = 0 then lit64 100
      else fclamp (lit64 0) (lit64 100) (div64 (as_f64 (ai_stake a)) (as_f64 stake_per_point)))"

definition backed_reputation_score :: "agent_identity \<Rightarrow> matching_params \<Rightarrow> float" where
  "backed_reputation_score a p = fmin (rd_score (ai_reputation a)) (reputation_score_cap a p)"

definition effective_reputation_score :: "math_fns \<Rightarrow> agent_identity \<Rightarrow> u64 \<Rightarrow> matching_params \<Rightarrow> float" where
  "effective_reputation_score M a current_time_ms p =
     fmin (effective_score M (ai_reputation a) current_time_ms) (reputation_score_cap a p)"

definition clamp_reputation_to_backing :: "agent_identity \<Rightarrow> matching_params \<Rightarrow> agent_identity" where
  "clamp_reputation_to_backing a p =
     (let cap = reputation_score_cap a p in
      if flt cap (rd_score (ai_reputation a))
      then a\<lparr>ai_reputation := (ai_reputation a)\<lparr>rd_score := cap\<rparr>\<rparr> else a)"

subsection \<open>Public view\<close>

record agent_reputation_view =
  av_stored_score :: float
  av_stake_backed_score_cap :: float
  av_backed_score :: float
  av_effective_score :: float
  av_tasks_completed :: u64
  av_tasks_failed :: u64
  av_cumulative_quality :: float
  av_disputes_won :: u64
  av_disputes_lost :: u64
  av_last_updated :: u64
  av_total_value_completed :: u64
  av_value_weighted_quality :: float
  av_ratings_received :: u64
  av_total_value_rated :: u64
  av_avg_quality :: float
  av_weighted_avg_quality :: float
  av_reliability :: float
  av_days_inactive :: float
  av_dispute_loss_ratio :: "float option"
  av_dispute_penalty :: "float option"

record agent_public_view =
  pv_address :: address
  pv_name :: rstr
  pv_description :: rstr
  pv_description_embedding :: "float list"
  pv_neural_embedding :: "float list"
  pv_model_hash :: hash256
  pv_capabilities :: "capability list"
  pv_owner :: address
  pv_stake :: u64
  pv_reputation :: agent_reputation_view
  pv_registered_at_block :: u64
  pv_registered_at :: u64
  pv_active :: bool
  pv_deregistered_at :: u64
  pv_metadata :: "u8 list"
  pv_feedback :: "feedback_entry list"
  pv_feedback_embedding :: "float list"
  pv_recent_reputation_events :: "reputation_event list"
  pv_reputation_history_total :: u64
  pv_min_fee :: u64
  pv_fee_schedule :: "(rstr \<times> u64) list"
  pv_storage_deposit :: u64

definition read_view_with_reputation_history_total ::
  "math_fns \<Rightarrow> agent_identity \<Rightarrow> u64 \<Rightarrow> matching_params \<Rightarrow> u64 \<Rightarrow> agent_public_view" where
  "read_view_with_reputation_history_total M a current_time_ms p reputation_history_total =
     (let r = ai_reputation a;
          total_disputes = saturating_add (rd_disputes_won r) (rd_disputes_lost r);
          dispute_loss_ratio =
            (if 0 < total_disputes
             then Some (div64 (as_f64 (rd_disputes_lost r)) (as_f64 total_disputes)) else None);
          dispute_penalty =
            map_option (\<lambda>loss_ratio. mul64 (mul64 loss_ratio (lit64 5))
                          (fmin (as_f64 (rd_disputes_lost r)) (lit64 10))) dispute_loss_ratio;
          view =
            \<lparr>av_stored_score = rd_score r,
             av_stake_backed_score_cap = reputation_score_cap a p,
             av_backed_score = backed_reputation_score a p,
             av_effective_score = effective_reputation_score M a current_time_ms p,
             av_tasks_completed = rd_tasks_completed r,
             av_tasks_failed = rd_tasks_failed r,
             av_cumulative_quality = rd_cumulative_quality r,
             av_disputes_won = rd_disputes_won r,
             av_disputes_lost = rd_disputes_lost r,
             av_last_updated = rd_last_updated r,
             av_total_value_completed = rd_total_value_completed r,
             av_value_weighted_quality = rd_value_weighted_quality r,
             av_ratings_received = rd_ratings_received r,
             av_total_value_rated = rd_total_value_rated r,
             av_avg_quality = rep_avg_quality r,
             av_weighted_avg_quality = weighted_avg_quality r,
             av_reliability = reliability r,
             av_days_inactive = days_inactive r current_time_ms,
             av_dispute_loss_ratio = dispute_loss_ratio,
             av_dispute_penalty = dispute_penalty\<rparr>
      in \<lparr>pv_address = ai_address a,
          pv_name = ai_name a,
          pv_description = ai_description a,
          pv_description_embedding = ai_description_embedding a,
          pv_neural_embedding = ai_neural_embedding a,
          pv_model_hash = ai_model_hash a,
          pv_capabilities = ai_capabilities a,
          pv_owner = ai_owner a,
          pv_stake = ai_stake a,
          pv_reputation = view,
          pv_registered_at_block = ai_registered_at_block a,
          pv_registered_at = ai_registered_at a,
          pv_active = ai_active a,
          pv_deregistered_at = ai_deregistered_at a,
          pv_metadata = ai_metadata a,
          pv_feedback = ai_feedback a,
          pv_feedback_embedding = ai_feedback_embedding a,
          pv_recent_reputation_events = ai_reputation_history a,
          pv_reputation_history_total = reputation_history_total,
          pv_min_fee = ai_min_fee a,
          pv_fee_schedule = ai_fee_schedule a,
          pv_storage_deposit = ai_storage_deposit a\<rparr>)"

definition agent_read_view ::
  "math_fns \<Rightarrow> agent_identity \<Rightarrow> u64 \<Rightarrow> matching_params \<Rightarrow> agent_public_view" where
  "agent_read_view M a current_time_ms p =
     read_view_with_reputation_history_total M a current_time_ms p
       (as_word (length (ai_reputation_history a)))"

subsection \<open>Matching\<close>

definition has_capability :: "agent_identity \<Rightarrow> capability \<Rightarrow> bool" where
  "has_capability a cap \<longleftrightarrow> cap \<in> set (ai_capabilities a)"

definition has_all_capabilities :: "agent_identity \<Rightarrow> capability list \<Rightarrow> bool" where
  "has_all_capabilities a caps \<longleftrightarrow> list_all (has_capability a) caps"

text \<open>\<open>loss_ratio * 5.0 * (disputes_lost as f64).min(10.0)\<close>, subtracted when there were disputes.\<close>

definition subtract_dispute_penalty :: "reputation_data \<Rightarrow> float \<Rightarrow> float option" where
  "subtract_dispute_penalty r score =
     (case checked_add (rd_disputes_won r) (rd_disputes_lost r) of
        None \<Rightarrow> None
      | Some total_disputes \<Rightarrow>
          Some (if 0 < total_disputes then
                  (let loss_ratio = div64 (as_f64 (rd_disputes_lost r)) (as_f64 total_disputes) in
                   sub64 score (mul64 (mul64 loss_ratio (lit64 5))
                                  (fmin (as_f64 (rd_disputes_lost r)) (lit64 10))))
                else score))"

definition base_score :: "agent_identity \<Rightarrow> float option" where
  "base_score a =
     (let r = ai_reputation a;
          score = add64 (add64 (mul64 (rd_score r) (lit64 (3 / 5)))
                           (mul64 (mul64 (reliability r) (lit64 100)) (lit64 (3 / 10))))
                    (mul64 (fmin (div64 (as_f64 (ai_stake a)) (lit64 1000000)) (lit64 100))
                       (lit64 (1 / 10)))
      in map_option (\<lambda>s. fmax s (lit64 0)) (subtract_dispute_penalty r score))"

definition quoted_price_score :: "u64 \<Rightarrow> u64 \<Rightarrow> float" where
  "quoted_price_score quoted_fee fee_budget =
     (if 0 < fee_budget then
        (let fee_ratio = fmin (div64 (as_f64 quoted_fee) (as_f64 fee_budget)) (lit64 1) in
         mul64 (sub64 (lit64 1) fee_ratio) (lit64 100))
      else lit64 50)"

definition eligible_for_discovery_boost :: "agent_identity \<Rightarrow> u64 \<Rightarrow> matching_params \<Rightarrow> bool" where
  "eligible_for_discovery_boost a current_block p \<longleftrightarrow>
     mx_discovery_min_age_blocks p \<le> saturating_sub current_block (ai_registered_at_block a)
     \<and> mx_discovery_min_stake p \<le> ai_stake a"

definition freshness_score :: "u64 \<Rightarrow> float" where
  "freshness_score resolved_tasks =
     mul64 (sub64 (lit64 1) (fsqrt F64 (fmin (div64 (as_f64 resolved_tasks) (lit64 100)) (lit64 1))))
       (lit64 100)"

definition matching_score_core ::
  "math_fns \<Rightarrow> agent_identity \<Rightarrow> float \<Rightarrow> match_preferences \<Rightarrow> float \<Rightarrow> u64 \<Rightarrow> u64 \<Rightarrow> matching_params
   \<Rightarrow> float option" where
  "matching_score_core M a semantic_similarity prefs price_score now_ms current_block p =
     (let (ws, wr, wp, wfr, wk) = match_weights prefs;
          semantic = mul64 (fclamp (lit64 0) (lit64 1) semantic_similarity) (lit64 100);
          reputation = fmin (effective_reputation_score M a now_ms p) (lit64 100);
          resolved_tasks = resolved_task_count (ai_reputation a);
          freshness = freshness_score resolved_tasks;
          stake = fmin (div64 (as_f64 (ai_stake a)) (lit64 1000000)) (lit64 100);
          score = add64 (add64 (add64 (add64 (mul64 semantic ws) (mul64 reputation wr))
                     (mul64 price_score wp)) (mul64 freshness wfr)) (mul64 stake wk);
          score = (if 0 < mp_discovery_threshold prefs
                      \<and> resolved_tasks < ucast (mp_discovery_threshold prefs)
                      \<and> eligible_for_discovery_boost a current_block p
                   then add64 score (as_f64 (mp_discovery_boost prefs)) else score)
      in map_option (\<lambda>s. fmax s (lit64 0)) (subtract_dispute_penalty (ai_reputation a) score))"

definition matching_score ::
  "math_fns \<Rightarrow> agent_identity \<Rightarrow> float \<Rightarrow> match_preferences \<Rightarrow> u64 \<Rightarrow> u64 \<Rightarrow> u64 \<Rightarrow> u64 \<Rightarrow> matching_params
   \<Rightarrow> float option" where
  "matching_score M a semantic_similarity prefs quoted_fee fee_budget now_ms current_block p =
     matching_score_core M a semantic_similarity prefs (quoted_price_score quoted_fee fee_budget)
       now_ms current_block p"

subsection \<open>Windows\<close>

text \<open>What a bounded window keeps of a growing log: its last entries.\<close>

definition last_n :: "nat \<Rightarrow> 'a list \<Rightarrow> 'a list" where
  "last_n n xs = drop (length xs - n) xs"

lemma last_n_push:
  assumes "0 < n"
  shows "(if n \<le> length (last_n n xs) then tl (last_n n xs) else last_n n xs) @ [x] = last_n n (xs @ [x])"
proof (cases "n \<le> length xs")
  case True
  with assms show ?thesis by (simp add: last_n_def tl_drop drop_Suc Suc_diff_le)
next
  case False
  then show ?thesis by (simp add: last_n_def)
qed

lemma length_last_n: "length (last_n n xs) = min n (length xs)"
  by (simp add: last_n_def)

lemma window_sizes [simp]: "0 < MAX_FEEDBACK_ENTRIES" "0 < MAX_REPUTATION_EVENTS"
  by (simp_all add: MAX_FEEDBACK_ENTRIES_def MAX_REPUTATION_EVENTS_def)

lemma feedback_window_push:
  assumes "ai_feedback a = last_n MAX_FEEDBACK_ENTRIES hist"
  shows "ai_feedback (add_feedback a e) = last_n MAX_FEEDBACK_ENTRIES (hist @ [e])"
  using last_n_push [of MAX_FEEDBACK_ENTRIES hist e] assms
  by (auto simp: add_feedback_def Let_def split: if_splits)

lemma event_window_push:
  assumes "ai_reputation_history a = last_n MAX_REPUTATION_EVENTS hist"
  shows "ai_reputation_history (add_reputation_event a e) = last_n MAX_REPUTATION_EVENTS (hist @ [e])"
  using last_n_push [of MAX_REPUTATION_EVENTS hist e] assms
  by (auto simp: add_reputation_event_def Let_def split: if_splits)

lemma feedback_window:
  "ai_feedback a = last_n MAX_FEEDBACK_ENTRIES hist \<Longrightarrow>
   ai_feedback (foldl add_feedback a es) = last_n MAX_FEEDBACK_ENTRIES (hist @ es)"
  by (induction es arbitrary: a hist) (simp_all add: feedback_window_push)

lemma event_window:
  "ai_reputation_history a = last_n MAX_REPUTATION_EVENTS hist \<Longrightarrow>
   ai_reputation_history (foldl add_reputation_event a es) = last_n MAX_REPUTATION_EVENTS (hist @ es)"
  by (induction es arbitrary: a hist) (simp_all add: event_window_push)

text \<open>What the two operations leave alone.\<close>

lemma event_step: "\<exists>h. add_reputation_event a e = a\<lparr>ai_reputation_history := h\<rparr>"
  by (auto simp: add_reputation_event_def Let_def)

lemma event_frame: "\<exists>h. foldl add_reputation_event a evs = a\<lparr>ai_reputation_history := h\<rparr>"
proof (induction evs rule: rev_induct)
  case Nil
  show ?case by (intro exI [of _ "ai_reputation_history a"]) simp
next
  case (snoc e evs)
  then obtain h where h: "foldl add_reputation_event a evs = a\<lparr>ai_reputation_history := h\<rparr>" ..
  show ?case using event_step [of "a\<lparr>ai_reputation_history := h\<rparr>" e] by (auto simp: h)
qed

lemma feedback_step:
  "\<exists>fb fe. add_feedback a e = a\<lparr>ai_feedback_embedding := fe, ai_feedback := fb\<rparr>"
  unfolding add_feedback_def Let_def by blast

lemma feedback_frame:
  "\<exists>fb fe. foldl add_feedback a es = a\<lparr>ai_feedback_embedding := fe, ai_feedback := fb\<rparr>"
proof (induction es rule: rev_induct)
  case Nil
  show ?case by (intro exI [of _ "ai_feedback a"] exI [of _ "ai_feedback_embedding a"]) simp
next
  case (snoc e es)
  then obtain fb fe where h: "foldl add_feedback a es = a\<lparr>ai_feedback_embedding := fe, ai_feedback := fb\<rparr>"
    by blast
  show ?case using feedback_step [of "a\<lparr>ai_feedback_embedding := fe, ai_feedback := fb\<rparr>" e] by (auto simp: h)
qed

text \<open>The blended embedding keeps the dimension of the first one.\<close>

lemma blend_dimension:
  "old \<noteq> [] \<Longrightarrow> length (blend_feedback old e) = length old"
  by (auto simp: blend_feedback_def Let_def)

lemma effective_embedding_dimension:
  "length (effective_embedding a p) = length (ai_description_embedding a)"
  by (auto simp: effective_embedding_def Let_def)

subsection \<open>Scores\<close>

lemma reputation_score_cap_range: "in_range 0 100 (reputation_score_cap a p)"
proof -
  have hundred: "in_range 0 100 (lit64 100)" by (rule in_range_weaken [OF lit_numeral]) simp_all
  have "in_range 0 100 (fclamp (lit64 0) (lit64 100) (div64 (as_f64 (ai_stake a)) (as_f64 k)))"
    if "k \<noteq> 0" for k :: u64
  proof (rule clamp_score)
    show "in_range 0 (2 ^ 64) (div64 (as_f64 (ai_stake a)) (as_f64 k))"
      by (rule f64.div_range [OF as_f64_range as_f64_pos [OF that]])
        (auto simp: divide_le_eq intro: order_trans mult_mono)
  qed
  with hundred show ?thesis by (simp add: reputation_score_cap_def Let_def)
qed

lemma fmin_val: "in_range a b x \<Longrightarrow> in_range c d y \<Longrightarrow> num_val (fmin x y) = min (num_val x) (num_val y)"
  by (auto simp: fmin_def in_range_not_special flt_in_range)

lemma fmax_val: "in_range a b x \<Longrightarrow> in_range c d y \<Longrightarrow> num_val (fmax x y) = max (num_val x) (num_val y)"
  by (auto simp: fmax_def in_range_not_special flt_in_range)

lemma clamped_to_backing:
  assumes "score_in_bounds (ai_reputation a)"
  shows "num_val (rd_score (ai_reputation (clamp_reputation_to_backing a p)))
         = min (num_val (rd_score (ai_reputation a))) (num_val (reputation_score_cap a p))"
    "reputation_score_cap (clamp_reputation_to_backing a p) p = reputation_score_cap a p"
  using assms flt_in_range [OF reputation_score_cap_range [of a p]]
  by (auto simp: clamp_reputation_to_backing_def Let_def score_in_bounds_def reputation_score_cap_def)

text \<open>The parts of the matching score.\<close>

lemma unit_times_hundred: "in_range 0 1 x \<Longrightarrow> in_range 0 100 (mul64 x (lit64 100))"
  by (rule scaled_share) simp_all

lemma weighted_part:
  assumes "in_range 0 100 x" "in_range 0 1 w"
  shows "in_range 0 100 (mul64 x w)"
  using f64.mul_nonneg_range [OF assms] by simp

lemma quotient_upto_one:
  "b \<noteq> 0 \<Longrightarrow> in_range 0 1 (fmin (div64 (as_f64 (a :: u64)) (as_f64 (b :: u64))) (lit64 1))"
proof -
  assume "b \<noteq> 0"
  then have "in_range 0 (2 ^ 64) (div64 (as_f64 a) (as_f64 b))"
    by (intro f64.div_range [OF as_f64_range as_f64_pos]) (auto simp: divide_le_eq intro: order_trans mult_mono)
  from in_range_min [OF this lit_1] show ?thesis by (auto intro: in_range_weaken)
qed

lemma price_score_range: "in_range 0 100 (quoted_price_score q b)"
proof (cases "0 < b")
  case True
  then have "b \<noteq> 0" by auto
  from f64.sub_range [OF lit_1 quotient_upto_one [OF this, of q]]
  have "in_range 0 1 (sub64 (lit64 1) (fmin (div64 (as_f64 q) (as_f64 b)) (lit64 1)))" by simp
  from unit_times_hundred [OF this] True show ?thesis by (simp add: quoted_price_score_def Let_def)
next
  case False
  then show ?thesis by (simp add: quoted_price_score_def in_range_weaken [OF lit_numeral])
qed

lemma price_score_antitone:
  assumes "unat q \<le> unat q'"
  shows "num_val (quoted_price_score q' b) \<le> num_val (quoted_price_score q b)"
proof (cases "0 < b")
  case True
  then have b: "b \<noteq> 0" by auto
  let ?d = "\<lambda>x :: u64. div64 (as_f64 x) (as_f64 b)"
  let ?m = "\<lambda>x :: u64. fmin (?d x) (lit64 1)"
  have dr: "in_range 0 (2 ^ 64) (?d x)" for x
    by (rule f64.div_range [OF as_f64_range as_f64_pos [OF b]])
      (auto simp: divide_le_eq intro: order_trans mult_mono)
  have "1 \<le> num_val (as_f64 b)" using as_f64_pos [OF b] by (auto elim!: in_rangeE)
  then have "num_val (as_f64 q) / num_val (as_f64 b) \<le> num_val (as_f64 q') / num_val (as_f64 b)"
    using as_f64_val_mono [OF assms] by (intro divide_right_mono) auto
  then have "num_val (?d q) \<le> num_val (?d q')"
    using f64.div_val [OF as_f64_range as_f64_pos [OF b] _ dr] f64.rnd_mono by simp
  then have m: "num_val (?m q) \<le> num_val (?m q')"
    by (simp add: fmin_val [OF dr lit_1] min_le_iff_disj)
  have sr: "in_range 0 1 (sub64 (lit64 1) (?m x))" for x
    using f64.sub_range [OF lit_1 quotient_upto_one [OF b, of x]] by simp
  have "num_val (sub64 (lit64 1) (?m q')) \<le> num_val (sub64 (lit64 1) (?m q))"
    using m by (simp add: f64.sub_val [OF lit_1 quotient_upto_one [OF b] sr] f64.rnd_mono)
  then have "num_val (mul64 (sub64 (lit64 1) (?m q')) (lit64 100)) \<le> num_val (mul64 (sub64 (lit64 1) (?m q)) (lit64 100))"
    by (simp add: f64.mul_val [OF sr lit_numeral unit_times_hundred [OF sr]] f64.rnd_mono)
  with True show ?thesis by (simp add: quoted_price_score_def Let_def)
qed (simp add: quoted_price_score_def)

lemma add_mono_left:
  assumes "in_range a b x" "in_range a b x'" "in_range c d y" "representable F64 lo" "representable F64 hi"
    and "lo \<le> a + c" "b + d \<le> hi" "num_val x \<le> num_val x'"
  shows "in_range lo hi (add64 x y)" "in_range lo hi (add64 x' y)" "num_val (add64 x y) \<le> num_val (add64 x' y)"
proof -
  show r: "in_range lo hi (add64 x y)" "in_range lo hi (add64 x' y)"
    by (rule f64.add_range [OF _ assms(3-7)]; fact assms(1,2))+
  show "num_val (add64 x y) \<le> num_val (add64 x' y)"
    using assms(8) by (simp add: f64.add_val [OF assms(1,3) r(1)] f64.add_val [OF assms(2,3) r(2)] f64.rnd_mono)
qed

lemma add_mono_right:
  assumes "in_range a b x" "in_range c d y" "in_range c d y'" "representable F64 lo" "representable F64 hi"
    and "lo \<le> a + c" "b + d \<le> hi" "num_val y \<le> num_val y'"
  shows "in_range lo hi (add64 x y)" "in_range lo hi (add64 x y')" "num_val (add64 x y) \<le> num_val (add64 x y')"
proof -
  show r: "in_range lo hi (add64 x y)" "in_range lo hi (add64 x y')"
    by (rule f64.add_range [OF assms(1) _ assms(4-7)]; fact assms(2,3))+
  show "num_val (add64 x y) \<le> num_val (add64 x y')"
    using assms(8) by (simp add: f64.add_val [OF assms(1,2) r(1)] f64.add_val [OF assms(1,3) r(2)] f64.rnd_mono)
qed

lemma penalty_range:
  assumes "unat (l :: u64) \<le> unat (n :: u64)" "n \<noteq> 0"
  shows "in_range 0 50 (mul64 (mul64 (div64 (as_f64 l) (as_f64 n)) (lit64 5)) (fmin (as_f64 l) (lit64 10)))"
proof -
  have "in_range 0 5 (mul64 (div64 (as_f64 l) (as_f64 n)) (lit64 5))"
    by (rule scaled_share [OF ratio_range [OF assms]]) simp
  moreover have "in_range 0 10 (fmin (as_f64 l) (lit64 10))"
    using in_range_min [OF as_f64_range [of l] lit_numeral [of "num.Bit0 (num.Bit1 (num.Bit0 num.One))"]]
    by (auto intro: in_range_weaken)
  ultimately have "in_range (0 * 0) (5 * 10) (mul64 (mul64 (div64 (as_f64 l) (as_f64 n)) (lit64 5)) (fmin (as_f64 l) (lit64 10)))"
    by (rule f64.mul_nonneg_range) simp_all
  then show ?thesis by simp
qed

text \<open>The final steps of a score, and that they keep the order of two scores.\<close>

definition settle_score :: "reputation_data \<Rightarrow> float \<Rightarrow> float option" where
  "settle_score r s = map_option (\<lambda>s. fmax s (lit64 0)) (subtract_dispute_penalty r s)"

lemma settle_score_mono:
  assumes "in_range 0 755 s" "in_range 0 755 s'" "num_val s \<le> num_val s'"
  shows "case (settle_score r s, settle_score r s') of
      (Some t, Some t') \<Rightarrow> in_range 0 755 t \<and> in_range 0 755 t' \<and> num_val t \<le> num_val t'
    | (None, None) \<Rightarrow> 2 ^ 64 \<le> unat (rd_disputes_won r) + unat (rd_disputes_lost r)
    | _ \<Rightarrow> False"
proof (cases "checked_add (rd_disputes_won r) (rd_disputes_lost r)")
  case None
  then show ?thesis by (simp add: settle_score_def subtract_dispute_penalty_def) (simp add: checked_add_eq_None)
next
  case (Some n)
  have lost: "unat (rd_disputes_lost r) \<le> unat n" using Some by (simp add: checked_add_eq_Some)
  have top: "in_range 0 755 (fmax t (lit64 0))" if "in_range (- 50) 755 t" for t
    using in_range_max [OF that lit_0] by (auto intro: in_range_weaken)
  have max_mono: "num_val (fmax t (lit64 0)) \<le> num_val (fmax t' (lit64 0))"
    if "in_range (- 50) 755 t" "in_range (- 50) 755 t'" "num_val t \<le> num_val t'" for t t'
    using that by (simp add: fmax_val [OF that(1) lit_0] fmax_val [OF that(2) lit_0])
  show ?thesis
  proof (cases "0 < n")
    case True
    then have "n \<noteq> 0" by auto
    from penalty_range [OF lost this] obtain p where p: "in_range 0 50 p"
      "p = mul64 (mul64 (div64 (as_f64 (rd_disputes_lost r)) (as_f64 n)) (lit64 5))
             (fmin (as_f64 (rd_disputes_lost r)) (lit64 10))" by blast
    have r: "in_range (- 50) 755 (sub64 t p)" if "in_range 0 755 t" for t
      by (rule f64.sub_range [OF that p(1)]) (use representable_64_numeral in simp_all)
    have "num_val (sub64 s p) \<le> num_val (sub64 s' p)"
      using assms(3) by (simp add: f64.sub_val [OF assms(1) p(1) r [OF assms(1)]]
          f64.sub_val [OF assms(2) p(1) r [OF assms(2)]] f64.rnd_mono)
    with max_mono [OF r [OF assms(1)] r [OF assms(2)]] top [OF r [OF assms(1)]] top [OF r [OF assms(2)]] Some True
    show ?thesis by (simp add: settle_score_def subtract_dispute_penalty_def Let_def p(2))
  next
    case False
    have w: "in_range (- 50) 755 s" "in_range (- 50) 755 s'"
      using assms(1,2) by (auto intro: in_range_weaken)
    with max_mono [OF w assms(3)] top [OF w(1)] top [OF w(2)] Some False
    show ?thesis by (simp add: settle_score_def subtract_dispute_penalty_def)
  qed
qed

lemma freshness_range: "in_range 0 100 (freshness_score n)"
proof -
  have "in_range 0 (2 ^ 64) (div64 (as_f64 n) (lit64 100))"
    by (rule f64.div_range [OF as_f64_range lit_numeral]) (auto simp: divide_le_eq intro: order_trans)
  from in_range_min [OF this lit_1] have "in_range 0 1 (fmin (div64 (as_f64 n) (lit64 100)) (lit64 1))"
    by (auto intro: in_range_weaken)
  from f64.sub_range [OF lit_1 sqrt_share [OF this]]
  have "in_range 0 1 (sub64 (lit64 1) (fsqrt F64 (fmin (div64 (as_f64 n) (lit64 100)) (lit64 1))))" by simp
  from unit_times_hundred [OF this] show ?thesis by (simp add: freshness_score_def)
qed

lemma stake_score_range: "in_range 0 100 (fmin (div64 (as_f64 (st :: u64)) (lit64 1000000)) (lit64 100))"
proof -
  have "in_range 0 (2 ^ 64) (div64 (as_f64 st) (lit64 1000000))"
    by (rule f64.div_range [OF as_f64_range lit_numeral]) (auto simp: divide_le_eq intro: order_trans)
  from in_range_min [OF this lit_numeral [of "num.Bit0 (num.Bit0 (num.Bit1 (num.Bit0 (num.Bit0 (num.Bit1 num.One)))))"]]
  show ?thesis by (auto intro: in_range_weaken)
qed

lemma boost_range: "in_range 0 255 (as_f64 (b :: u8))"
proof (rule f64.of_u64_range)
  have "unat b \<le> 255" using unat_u8 [of b] by simp
  then show "(of_nat (unat b) :: rat) \<le> 255" by (metis of_nat_le_iff of_nat_numeral)
qed (simp_all del: of_nat_unat)

lemma matching_core_mono:
  assumes "math_ok M" "score_in_bounds (ai_reputation a)" "sim \<noteq> NaN" "wf_float sim"
    and "in_range 0 100 P" "in_range 0 100 P'" "num_val P \<le> num_val P'"
  shows "\<exists>s s'. matching_score_core M a sim prefs P now blk p = settle_score (ai_reputation a) s
    \<and> matching_score_core M a sim prefs P' now blk p = settle_score (ai_reputation a) s'
    \<and> in_range 0 755 s \<and> in_range 0 755 s' \<and> num_val s \<le> num_val s'"
proof -
  obtain ws wr wp wfr wk where w: "match_weights prefs = (ws, wr, wp, wfr, wk)" by (metis prod.exhaust)
  note wr = match_weights_range [OF w]
  define t1 where "t1 = mul64 (mul64 (fclamp (lit64 0) (lit64 1) sim) (lit64 100)) ws"
  define t2 where "t2 = mul64 (fmin (effective_reputation_score M a now p) (lit64 100)) wr"
  define t4 where "t4 = mul64 (freshness_score (resolved_task_count (ai_reputation a))) wfr"
  define t5 where "t5 = mul64 (fmin (div64 (as_f64 (ai_stake a)) (lit64 1000000)) (lit64 100)) wk"
  define total where "total Q = add64 (add64 (add64 (add64 t1 t2) (mul64 Q wp)) t4) t5" for Q
  define boosted where "boosted Q = (if 0 < mp_discovery_threshold prefs
      \<and> resolved_task_count (ai_reputation a) < ucast (mp_discovery_threshold prefs)
      \<and> eligible_for_discovery_boost a blk p
      then add64 (total Q) (as_f64 (mp_discovery_boost prefs)) else total Q)" for Q
  have "in_range 0 1 (fclamp (lit64 0) (lit64 1) sim)"
    by (rule in_range_clamp) (use assms(3,4) in \<open>simp_all add: wf_float_def\<close>)
  then have t1: "in_range 0 100 t1" unfolding t1_def by (intro weighted_part unit_times_hundred wr(1))
  have "in_range 0 100 (effective_reputation_score M a now p)"
    using in_range_min [OF effective_score_bounds [OF assms(1,2)] reputation_score_cap_range [of a p]]
    by (simp add: effective_reputation_score_def)
  from in_range_min [OF this lit_numeral [of "num.Bit0 (num.Bit0 (num.Bit1 (num.Bit0 (num.Bit0 (num.Bit1 num.One)))))"]]
  have t2: "in_range 0 100 t2" unfolding t2_def by (intro weighted_part wr(2)) (auto intro: in_range_weaken)
  have t4: "in_range 0 100 t4" unfolding t4_def by (intro weighted_part wr(4) freshness_range)
  have t5: "in_range 0 100 t5" unfolding t5_def by (intro weighted_part wr(5) stake_score_range)
  have t12: "in_range 0 200 (add64 t1 t2)" by (rule f64.add_range [OF t1 t2]) simp_all
  have p: "in_range 0 100 (mul64 P wp)" "in_range 0 100 (mul64 P' wp)"
    by (intro weighted_part wr(3) assms(5,6))+
  have "num_val P * num_val wp \<le> num_val P' * num_val wp"
    using assms(7) wr(3) by (intro mult_right_mono) (auto elim!: in_rangeE)
  then have "num_val (mul64 P wp) \<le> num_val (mul64 P' wp)"
    by (simp add: f64.mul_val [OF assms(5) wr(3) p(1)] f64.mul_val [OF assms(6) wr(3) p(2)] f64.rnd_mono)
  note s1 = add_mono_right [OF t12 p _ _ _ _ this, of 0 300, simplified]
  note s2 = add_mono_left [OF s1(1,2) t4 _ _ _ _ s1(3), of 0 400, simplified]
  note s3 = add_mono_left [OF s2(1,2) t5 _ _ _ _ s2(3), of 0 500, simplified]
  have tot: "in_range 0 500 (total P)" "in_range 0 500 (total P')" "num_val (total P) \<le> num_val (total P')"
    using s3 by (simp_all add: total_def)
  have "in_range 0 755 (boosted P) \<and> in_range 0 755 (boosted P') \<and> num_val (boosted P) \<le> num_val (boosted P')"
    using add_mono_left [OF tot(1,2) boost_range _ _ _ _ tot(3), of 0 755 "mp_discovery_boost prefs"]
      tot in_range_weaken [OF tot(1)] in_range_weaken [OF tot(2)]
    by (simp add: boosted_def)
  moreover have "matching_score_core M a sim prefs Q now blk p = settle_score (ai_reputation a) (boosted Q)" for Q
    unfolding matching_score_core_def w settle_score_def boosted_def total_def t1_def t2_def t4_def t5_def Let_def
    by simp
  ultimately show ?thesis by blast
qed

subsection \<open>Properties\<close>

text \<open>(C37) Quoting a lower fee never costs an agent its rank: with everything else equal, the
  matching score at the lower quote is at least the score at the higher one, in the rounded
  arithmetic of the code. Both lie between 0 and 755; both are defined, except when the
  counters of won and lost disputes overflow on addition.\<close>

theorem matching_score_price_monotone:
  assumes "math_ok M" "in_range 0 100 (rd_score (ai_reputation a))" "sim \<noteq> NaN" "wf_float sim"
    and "quote \<le> quote'"
  shows "case (matching_score M a sim prefs quote' budget now blk p, matching_score M a sim prefs quote budget now blk p) of
      (Some t, Some t') \<Rightarrow> in_range 0 755 t \<and> in_range 0 755 t' \<and> num_val t \<le> num_val t'
    | (None, None) \<Rightarrow> 2 ^ 64 \<le> unat (rd_disputes_won (ai_reputation a)) + unat (rd_disputes_lost (ai_reputation a))
    | _ \<Rightarrow> False"
proof -
  have "num_val (quoted_price_score quote' budget) \<le> num_val (quoted_price_score quote budget)"
    using assms(5) by (intro price_score_antitone) (simp add: word_le_nat_alt)
  from matching_core_mono [OF assms(1) _ assms(3,4) price_score_range price_score_range this, of a prefs now blk p] assms(2)
  obtain s s' where "matching_score M a sim prefs quote' budget now blk p = settle_score (ai_reputation a) s"
    "matching_score M a sim prefs quote budget now blk p = settle_score (ai_reputation a) s'"
    "in_range 0 755 s" "in_range 0 755 s'" "num_val s \<le> num_val s'"
    by (auto simp: matching_score_def score_in_bounds_def)
  with settle_score_mono [of s s' "ai_reputation a"] show ?thesis by simp
qed

definition demo_agent :: agent_identity where
  "demo_agent = agent_new addr_zero [] [] [] hash_zero [] addr_zero"

theorem matching_score_price_monotone_witness:
  "\<exists>t t'. matching_score demo_math demo_agent (lit64 1) match_prefs_default 9 10 0 0 matching_params_default = Some t
     \<and> matching_score demo_math demo_agent (lit64 1) match_prefs_default 7 10 0 0 matching_params_default = Some t'
     \<and> num_val t \<le> num_val t'"
proof -
  have "in_range 0 100 (rd_score (ai_reputation demo_agent))"
    using score_in_bounds_default by (simp add: score_in_bounds_def demo_agent_def agent_new_def)
  from matching_score_price_monotone [OF demo_math_ok this in_range_not_special(1) [OF lit_1] wf_in_range [OF lit_1],
      of 7 9 match_prefs_default 10 0 0 matching_params_default]
  show ?thesis
    by (auto split: option.splits simp: demo_agent_def agent_new_def reputation_default_def)
qed

text \<open>What an agent's record shows is what the full log ends with: after any sequence of
  feedback and any sequence of reputation events, the record holds exactly the latest 50 and
  the latest 100 of them in order, nothing else of the agent is lost, and the embedding used
  for matching keeps the dimension of the description's.\<close>

theorem agent_windows_refine_log:
  fixes a es evs
  defines "b \<equiv> foldl add_reputation_event (foldl add_feedback a es) evs"
  assumes "length (ai_feedback a) \<le> 50" "length (ai_reputation_history a) \<le> 100"
  shows "ai_feedback b = drop (length (ai_feedback a @ es) - 50) (ai_feedback a @ es)
    \<and> ai_reputation_history b
        = drop (length (ai_reputation_history a @ evs) - 100) (ai_reputation_history a @ evs)
    \<and> b = a\<lparr>ai_feedback := ai_feedback b, ai_feedback_embedding := ai_feedback_embedding b,
         ai_reputation_history := ai_reputation_history b\<rparr>
    \<and> length (effective_embedding b p) = length (ai_description_embedding a)"
proof -
  obtain h where f: "b = (foldl add_feedback a es)\<lparr>ai_reputation_history := h\<rparr>"
    using event_frame unfolding b_def by blast
  obtain fb fe where g: "foldl add_feedback a es = a\<lparr>ai_feedback_embedding := fe, ai_feedback := fb\<rparr>"
    using feedback_frame by blast
  have fb: "ai_feedback b = ai_feedback (foldl add_feedback a es)"
    "ai_feedback_embedding b = ai_feedback_embedding (foldl add_feedback a es)"
    by (simp_all add: f)
  have hist: "ai_reputation_history (foldl add_feedback a es) = ai_reputation_history a"
    by (simp add: g)
  have "ai_feedback b = last_n MAX_FEEDBACK_ENTRIES (ai_feedback a @ es)"
    using fb feedback_window [of a "ai_feedback a" es] assms(2)
    by (simp add: last_n_def MAX_FEEDBACK_ENTRIES_def)
  moreover have "ai_reputation_history b = last_n MAX_REPUTATION_EVENTS (ai_reputation_history a @ evs)"
    using hist event_window [of "foldl add_feedback a es" "ai_reputation_history a" evs] assms(3)
    unfolding b_def by (simp add: last_n_def MAX_REPUTATION_EVENTS_def)
  moreover have same: "b = a\<lparr>ai_feedback := ai_feedback b, ai_feedback_embedding := ai_feedback_embedding b,
         ai_reputation_history := ai_reputation_history b\<rparr>"
    by (simp add: f g)
  moreover have "ai_description_embedding b = ai_description_embedding a" by (subst same) simp
  ultimately show ?thesis
    by (simp add: last_n_def MAX_FEEDBACK_ENTRIES_def MAX_REPUTATION_EVENTS_def effective_embedding_dimension)
qed

theorem agent_windows_refine_log_witness:
  "ai_feedback (foldl add_reputation_event (foldl add_feedback demo_agent []) []) = []"
  using agent_windows_refine_log [of demo_agent "[]" "[]"] by (simp add: demo_agent_def agent_new_def)

text \<open>Stake backs reputation: the usable scores and, after enforcement, the stored score
  never exceed the cap that the locked stake buys, enforcing the cap twice changes nothing
  more, and the public view reports exactly these numbers.\<close>

theorem stake_caps_reputation:
  fixes a p
  defines "b \<equiv> clamp_reputation_to_backing a p"
  assumes "math_ok M" "in_range 0 100 (rd_score (ai_reputation a))"
  shows "num_val (backed_reputation_score a p) \<le> num_val (reputation_score_cap a p)
    \<and> num_val (effective_reputation_score M a now p) \<le> num_val (reputation_score_cap a p)
    \<and> num_val (rd_score (ai_reputation b)) = num_val (backed_reputation_score a p)
    \<and> clamp_reputation_to_backing b p = b
    \<and> in_range 0 100 (reputation_score_cap a p)
    \<and> av_backed_score (pv_reputation (agent_read_view M a now p)) = backed_reputation_score a p
    \<and> av_effective_score (pv_reputation (agent_read_view M a now p)) = effective_reputation_score M a now p"
proof -
  have sb: "score_in_bounds (ai_reputation a)" using assms(3) by (simp add: score_in_bounds_def)
  note cap = reputation_score_cap_range [of a p]
  have "clamp_reputation_to_backing b p = b"
    using flt_in_range [OF cap assms(3)] flt_in_range [OF cap cap]
    by (auto simp: b_def clamp_reputation_to_backing_def Let_def reputation_score_cap_def)
  then show ?thesis
    using fmin_val [OF assms(3) cap] fmin_val [OF effective_score_bounds [OF assms(2) sb] cap] cap
      clamped_to_backing [OF sb, of p]
    by (simp add: b_def backed_reputation_score_def effective_reputation_score_def
        agent_read_view_def read_view_with_reputation_history_total_def Let_def)
qed

theorem stake_caps_reputation_witness:
  "num_val (effective_reputation_score demo_math demo_agent 5 matching_params_default)
   \<le> num_val (reputation_score_cap demo_agent matching_params_default)"
  using stake_caps_reputation [OF demo_math_ok, of demo_agent matching_params_default 5]
    score_in_bounds_default by (simp add: score_in_bounds_def demo_agent_def agent_new_def)

end
