(* ===== verification/Capability_Catalog.thy ===== *)
theory Capability_Catalog
  imports Crypto
begin

text \<open>
  The capability catalog (\<open>primitives/capability.rs\<close>): catalog entries with their status, and
  the validation of slugs.
\<close>

definition CAPABILITY_CATALOG_VERSION :: u32 where "CAPABILITY_CATALOG_VERSION = 1"
definition MAX_CAPABILITY_SLUG_BYTES :: nat where "MAX_CAPABILITY_SLUG_BYTES = 128"
definition MAX_CAPABILITY_ALIASES :: nat where "MAX_CAPABILITY_ALIASES = 32"
definition MAX_CAPABILITY_TEXT_BYTES :: nat where "MAX_CAPABILITY_TEXT_BYTES = 4096"

datatype capability_status = CapActive | CapPending | CapRejected | CapDeprecated

fun status_as_str :: "capability_status \<Rightarrow> rstr" where
  "status_as_str CapActive = lit ''active''"
| "status_as_str CapPending = lit ''pending''"
| "status_as_str CapRejected = lit ''rejected''"
| "status_as_str CapDeprecated = lit ''deprecated''"

definition status_parse :: "rstr \<Rightarrow> capability_status option" where
  "status_parse value =
     (if value = lit ''active'' then Some CapActive
      else if value = lit ''pending'' then Some CapPending
      else if value = lit ''rejected'' then Some CapRejected
      else if value = lit ''deprecated'' then Some CapDeprecated
      else None)"

datatype capability_source = Seed | UserProposed | Curated

definition status_default :: capability_status where "status_default = CapActive"
definition source_default :: capability_source where "source_default = Seed"

record capability_usage_summary =
  us_agent_count :: u64
  us_tool_count :: u64
  us_open_task_count :: u64
  us_market_sample_count :: u64

record capability_catalog_entry =
  ce_slug :: rstr
  ce_display_name :: rstr
  ce_description :: rstr
  ce_category :: rstr
  ce_parent :: "rstr option"
  ce_status :: capability_status
  ce_aliases :: "rstr list"
  ce_keywords :: "rstr list"
  ce_examples :: "rstr list"
  ce_related :: "rstr list"
  ce_proposer :: "address option"
  ce_source :: capability_source
  ce_created_at_block :: u64
  ce_updated_at_block :: u64
  ce_usage :: capability_usage_summary

subsection \<open>Slugs\<close>

datatype slug_error = SlugRequired | SlugTooLong nat | SlugNotLowercase | SlugForbiddenCharacter
  | SlugEmptySegment | SlugSegmentCount | SlugSegmentEmpty | SlugSegmentStart | SlugSegmentCharacter

definition slug_tail_char :: "rchar \<Rightarrow> bool" where
  "slug_tail_char ch \<longleftrightarrow> is_ascii_lowercase ch \<or> is_ascii_digit ch \<or> ch = 0x2D"

fun check_segments :: "rstr list \<Rightarrow> slug_error + unit" where
  "check_segments [] = Ok ()"
| "check_segments (segment # segments) =
     (case segment of
        [] \<Rightarrow> Err SlugSegmentEmpty
      | first # chars \<Rightarrow>
          if \<not> is_ascii_lowercase first then Err SlugSegmentStart
          else if \<not> list_all slug_tail_char chars then Err SlugSegmentCharacter
          else check_segments segments)"

text \<open>\<open>contains("..")\<close>.\<close>

fun has_double_dot :: "rstr \<Rightarrow> bool" where
  "has_double_dot (a # b # s) \<longleftrightarrow> a = 0x2E \<and> b = 0x2E \<or> has_double_dot (b # s)"
| "has_double_dot _ \<longleftrightarrow> False"

definition normalize_capability_slug :: "rstr \<Rightarrow> slug_error + rstr" where
  "normalize_capability_slug raw =
     (let value = trim raw in
      if value = [] then Err SlugRequired
      else if MAX_CAPABILITY_SLUG_BYTES < str_len value then Err (SlugTooLong (str_len value))
      else if value \<noteq> to_ascii_lowercase value then Err SlugNotLowercase
      else if \<exists>c \<in> set value. c \<in> {0x2F, 0x5F, 0x20, 0x09, 0x0A, 0x0D} then Err SlugForbiddenCharacter
      else if hd value = 0x2E \<or> last value = 0x2E \<or> has_double_dot value then Err SlugEmptySegment
      else let segments = split_on 0x2E value in
        if length segments < 2 \<or> 8 < length segments then Err SlugSegmentCount
        else bind_result (check_segments segments) (\<lambda>_. Ok value))"

subsection \<open>Lemmas\<close>

definition slug_segment :: "rstr \<Rightarrow> bool" where
  "slug_segment s \<longleftrightarrow> s \<noteq> [] \<and> is_ascii_lowercase (hd s) \<and> list_all slug_tail_char (tl s)"

lemma check_segments_Ok: "check_segments ss = Ok () \<longleftrightarrow> list_all slug_segment ss"
  by (induction ss rule: check_segments.induct) (auto simp: slug_segment_def split: list.splits)

lemma slug_segment_chars:
  "slug_segment s \<Longrightarrow> c \<in> set s \<Longrightarrow> is_ascii_lowercase c \<or> is_ascii_digit c \<or> c = 0x2D"
  by (cases s) (auto simp: slug_segment_def slug_tail_char_def list_all_iff)

lemma set_join_segments: "c \<in> set (join_with [d] ss) \<Longrightarrow> c = d \<or> (\<exists>s \<in> set ss. c \<in> set s)"
  by (induction "[d]" ss rule: join_with.induct) auto

lemma join_segments_ends:
  "ss \<noteq> [] \<Longrightarrow> list_all slug_segment ss \<Longrightarrow>
   join_with [d] ss \<noteq> [] \<and> hd (join_with [d] ss) = hd (hd ss) \<and> last (join_with [d] ss) = last (last ss)"
  by (induction "[d]" ss rule: join_with.induct) (auto simp: slug_segment_def)

lemma no_double_dot_in_segment: "0x2E \<notin> set s \<Longrightarrow> \<not> has_double_dot s"
  by (induction s rule: has_double_dot.induct) auto

lemma has_double_dot_segment_append:
  "s \<noteq> [] \<Longrightarrow> 0x2E \<notin> set s \<Longrightarrow> has_double_dot (s @ 0x2E # t) \<longleftrightarrow> has_double_dot (0x2E # t)"
  by (induction s rule: has_double_dot.induct) auto

lemma no_double_dot_join:
  "list_all slug_segment ss \<Longrightarrow> \<not> has_double_dot (join_with [0x2E] ss)"
proof (induction "[0x2E :: rchar]" ss rule: join_with.induct)
  case (2 s)
  then have "0x2E \<notin> set s" using slug_segment_chars [of s "0x2E"] by (auto simp: char_class_defs)
  then show ?case by (simp add: no_double_dot_in_segment)
next
  case (3 s t ss)
  then have s: "s \<noteq> []" "0x2E \<notin> set s" using slug_segment_chars [of s "0x2E"]
    by (auto simp: char_class_defs slug_segment_def)
  have "join_with [0x2E] (t # ss) \<noteq> [] \<and> hd (join_with [0x2E] (t # ss)) = hd t"
    using join_segments_ends [of "t # ss"] 3(2) by simp
  moreover have "hd t \<noteq> 0x2E" using 3(2) by (auto simp: slug_segment_def char_class_defs)
  ultimately have "has_double_dot (0x2E # join_with [0x2E] (t # ss)) \<longleftrightarrow> has_double_dot (join_with [0x2E] (t # ss))"
    by (cases "join_with [0x2E] (t # ss)") auto
  with 3 s show ?case by (simp add: has_double_dot_segment_append)
qed simp

lemma slug_Ok:
  "normalize_capability_slug raw = Ok v \<longleftrightarrow>
     v = trim raw \<and> str_len v \<le> 128
     \<and> (\<exists>ss. v = join_with [0x2E] ss \<and> 2 \<le> length ss \<and> length ss \<le> 8 \<and> list_all slug_segment ss)"
proof
  assume ok: "normalize_capability_slug raw = Ok v"
  then have "v = trim raw" "str_len v \<le> 128" "2 \<le> length (split_on 0x2E v)" "length (split_on 0x2E v) \<le> 8"
    "list_all slug_segment (split_on 0x2E v)"
    by (auto simp: normalize_capability_slug_def Let_def MAX_CAPABILITY_SLUG_BYTES_def check_segments_Ok
        not_less split: if_splits)
  then show "v = trim raw \<and> str_len v \<le> 128
     \<and> (\<exists>ss. v = join_with [0x2E] ss \<and> 2 \<le> length ss \<and> length ss \<le> 8 \<and> list_all slug_segment ss)"
    using join_split_on [of "0x2E" v] by metis
next
  assume "v = trim raw \<and> str_len v \<le> 128
     \<and> (\<exists>ss. v = join_with [0x2E] ss \<and> 2 \<le> length ss \<and> length ss \<le> 8 \<and> list_all slug_segment ss)"
  then obtain ss where v: "v = trim raw" "str_len v \<le> 128" "v = join_with [0x2E] ss"
    "2 \<le> length ss" "length ss \<le> 8" "list_all slug_segment ss" by blast
  then have ne: "ss \<noteq> []" by auto
  have chars: "is_ascii_lowercase c \<or> is_ascii_digit c \<or> c = 0x2D \<or> c = 0x2E" if "c \<in> set v" for c
    using set_join_segments [of c "0x2E" ss] slug_segment_chars that v(3,6) by (auto simp: list_all_iff)
  have split: "split_on 0x2E v = ss" unfolding v(3)
  proof (rule split_join [OF ne])
    fix s assume "s \<in> set ss"
    with v(6) have "slug_segment s" by (simp add: list_all_iff)
    from slug_segment_chars [OF this, of "0x2E"] show "0x2E \<notin> set s" by (auto simp: char_class_defs)
  qed
  have ends: "v \<noteq> []" "hd v = hd (hd ss)" "last v = last (last ss)"
    using join_segments_ends [OF ne v(6)] v(3) by auto
  have "slug_segment (hd ss)" "slug_segment (last ss)" using ne v(6) by (simp_all add: list_all_iff)
  then have dots: "\<not> (hd v = 0x2E \<or> last v = 0x2E \<or> has_double_dot v)"
    using ends slug_segment_chars [of "last ss" "last (last ss)"] no_double_dot_join [OF v(6)] v(3)
    by (auto simp: slug_segment_def char_class_defs)
  have lower: "\<not> v \<noteq> to_ascii_lowercase v" unfolding to_ascii_lowercase_def not_not
    by (rule map_idI [symmetric]) (use chars in \<open>fastforce simp: char_class_defs\<close>)
  have allowed: "\<not> (\<exists>c \<in> set v. c \<in> {0x2F, 0x5F, 0x20, 0x09, 0x0A, 0x0D})"
    using chars by (fastforce simp: char_class_defs)
  have len: "\<not> MAX_CAPABILITY_SLUG_BYTES < str_len v"
    using v(2) by (simp add: MAX_CAPABILITY_SLUG_BYTES_def)
  have count: "\<not> (length ss < 2 \<or> 8 < length ss)" using v(4,5) by simp
  have segs: "check_segments ss = Ok ()" using v(6) by (simp only: check_segments_Ok)
  show "normalize_capability_slug raw = Ok v"
    unfolding normalize_capability_slug_def Let_def v(1) [symmetric] split
    by (simp only: ends(1) dots lower allowed len count segs if_False bind_result_simps)
qed

lemma status_roundtrip: "status_parse (status_as_str s) = Some s"
  by (cases s) (simp_all add: status_parse_def)

subsection \<open>Properties\<close>

text \<open>Capability slugs: the accepted inputs are exactly those that, trimmed, are two to
  eight segments joined by dots, each a lowercase letter followed by lowercase letters,
  digits and hyphens, at most 128 bytes in all. The result is the trimmed text, and
  normalising it again returns it.\<close>

theorem capability_slug_language:
  "normalize_capability_slug raw = Ok v \<longleftrightarrow>
     v = trim raw \<and> str_len v \<le> 128
     \<and> (\<exists>ss. v = join_with [0x2E] ss \<and> 2 \<le> length ss \<and> length ss \<le> 8
          \<and> list_all (\<lambda>s. s \<noteq> [] \<and> is_ascii_lowercase (hd s)
               \<and> list_all (\<lambda>c. is_ascii_lowercase c \<or> is_ascii_digit c \<or> c = 0x2D) (tl s)) ss)
     \<and> normalize_capability_slug v = Ok v"
proof -
  have seg: "slug_segment = (\<lambda>s. s \<noteq> [] \<and> is_ascii_lowercase (hd s)
      \<and> list_all (\<lambda>c. is_ascii_lowercase c \<or> is_ascii_digit c \<or> c = 0x2D) (tl s))"
    by (rule ext) (simp add: slug_segment_def slug_tail_char_def [abs_def])
  show ?thesis unfolding seg [symmetric] using slug_Ok [of raw v] slug_Ok [of v v] trim_trim [of raw] by metis
qed

end
