(* ===== verification/Rpc_Delegation.thy ===== *)
theory Rpc_Delegation
  imports Wire
begin

text \<open>
  Read delegations (\<open>primitives/rpc_delegation.rs\<close>): an account lets a service key read some of
  its records until a deadline. Scopes are bits of a mask; the identifier of a delegation is
  derived from the delegator, the key and the service.
\<close>

definition RPC_READ_DELEGATION_VERSION :: u16 where "RPC_READ_DELEGATION_VERSION = 1"
definition RPC_READ_DELEGATION_ID_DOMAIN :: "u8 list" where
  "RPC_READ_DELEGATION_ID_DOMAIN = utf8 (lit ''zincha-rpc-read-delegation-id-v1'')"
definition RPC_READ_DELEGATION_MIN_LIFETIME_MS :: u64 where
  "RPC_READ_DELEGATION_MIN_LIFETIME_MS = 60 * 60 * 1000"
definition RPC_READ_DELEGATION_DEFAULT_LIFETIME_MS :: u64 where
  "RPC_READ_DELEGATION_DEFAULT_LIFETIME_MS = 30 * 24 * 60 * 60 * 1000"
definition RPC_READ_DELEGATION_MAX_LIFETIME_MS :: u64 where
  "RPC_READ_DELEGATION_MAX_LIFETIME_MS = 90 * 24 * 60 * 60 * 1000"
definition MAX_RPC_READ_DELEGATIONS_PER_DELEGATOR :: nat where
  "MAX_RPC_READ_DELEGATIONS_PER_DELEGATOR = 32"
definition MAX_RPC_READ_DELEGATION_SERVICE_ID_CHARS :: nat where
  "MAX_RPC_READ_DELEGATION_SERVICE_ID_CHARS = 256"
definition RPC_READ_SCOPE_ALL :: u64 where "RPC_READ_SCOPE_ALL = push_bit 8 1 - 1"

datatype rpc_read_scope = TaskRead | TaskLifecycleRead | AgreementRead | AgreementLifecycleRead
  | ToolJobRead | ToolJobLifecycleRead | ToolUsageSessionRead | ToolUsageSessionLifecycleRead

fun scope_index :: "rpc_read_scope \<Rightarrow> nat" where
  "scope_index TaskRead = 0"
| "scope_index TaskLifecycleRead = 1"
| "scope_index AgreementRead = 2"
| "scope_index AgreementLifecycleRead = 3"
| "scope_index ToolJobRead = 4"
| "scope_index ToolJobLifecycleRead = 5"
| "scope_index ToolUsageSessionRead = 6"
| "scope_index ToolUsageSessionLifecycleRead = 7"

definition all_scopes :: "rpc_read_scope list" where
  "all_scopes = [TaskRead, TaskLifecycleRead, AgreementRead, AgreementLifecycleRead, ToolJobRead,
     ToolJobLifecycleRead, ToolUsageSessionRead, ToolUsageSessionLifecycleRead]"

definition scope_mask :: "rpc_read_scope \<Rightarrow> u64" where
  "scope_mask s = push_bit (scope_index s) 1"

definition rpc_read_scope_mask :: "rpc_read_scope list \<Rightarrow> u64" where
  "rpc_read_scope_mask scopes = foldl (\<lambda>mask scope. mask OR scope_mask scope) 0 scopes"

record rpc_read_delegation =
  dg_version :: u16
  dg_delegation_id :: hash256
  dg_delegator :: address
  dg_delegate :: address
  dg_delegate_public_key :: "u8 list"
  dg_service_id :: rstr
  dg_service_id_hash :: hash256
  dg_scope_mask :: u64
  dg_created_at_block :: u64
  dg_updated_at_block :: u64
  dg_expires_at_ms :: u64
  dg_storage_deposit :: u64

definition delegation_grants :: "rpc_read_delegation \<Rightarrow> u64 \<Rightarrow> u64 \<Rightarrow> bool" where
  "delegation_grants d required_scope now_ms \<longleftrightarrow>
     now_ms < dg_expires_at_ms d \<and> dg_scope_mask d AND required_scope = required_scope"

datatype service_id_error = ServiceIdWhitespace | ServiceIdTooLong | ServiceIdControl

definition validate_rpc_read_delegation_service_id :: "rstr \<Rightarrow> service_id_error + unit" where
  "validate_rpc_read_delegation_service_id service_id =
     (if service_id = [] \<or> trim service_id \<noteq> service_id then Err ServiceIdWhitespace
      else if MAX_RPC_READ_DELEGATION_SERVICE_ID_CHARS < length service_id then Err ServiceIdTooLong
      else if \<exists>c \<in> set service_id. is_control c then Err ServiceIdControl
      else Ok ())"

definition delegation_id_preimage :: "address \<Rightarrow> u8 list \<Rightarrow> rstr \<Rightarrow> u8 list" where
  "delegation_id_preimage delegator delegate_public_key service_id =
     RPC_READ_DELEGATION_ID_DOMAIN @ addr_bytes delegator @ delegate_public_key
     @ to_be_bytes (as_word (length (utf8 service_id)) :: u32) @ utf8 service_id"

definition rpc_read_delegation_id :: "externs \<Rightarrow> address \<Rightarrow> u8 list \<Rightarrow> rstr \<Rightarrow> hash256" where
  "rpc_read_delegation_id X delegator delegate_public_key service_id =
     hash_bytes X (delegation_id_preimage delegator delegate_public_key service_id)"

definition rpc_read_delegate_address :: "externs \<Rightarrow> u8 list \<Rightarrow> key_error + address" where
  "rpc_read_delegate_address X public_key =
     bind_result (pk_from_bytes X public_key) (\<lambda>key. Ok (from_public_key X key))"

definition rpc_read_service_id_hash :: "externs \<Rightarrow> rstr \<Rightarrow> hash256" where
  "rpc_read_service_id_hash X service_id = hash_bytes X (utf8 service_id)"

subsection \<open>Lemmas\<close>

lemma scope_index_inj: "scope_index s = scope_index t \<longleftrightarrow> s = t"
  by (cases s; cases t) simp_all

lemma scope_index_bound: "scope_index s < 8"
  by (cases s) simp_all

lemma bit_scope_mask: "bit (scope_mask s) n \<longleftrightarrow> n = scope_index s"
  using scope_index_bound [of s]
  unfolding scope_mask_def bit_push_bit_iff bit_1_iff by auto

lemma bit_fold_mask:
  "bit (foldl (\<lambda>mask scope. mask OR scope_mask scope) m scopes) n \<longleftrightarrow> bit m n \<or> n \<in> scope_index ` set scopes"
  by (induction scopes arbitrary: m) (auto simp: bit_or_iff bit_scope_mask)

lemma bit_rpc_read_scope_mask: "bit (rpc_read_scope_mask scopes) n \<longleftrightarrow> n \<in> scope_index ` set scopes"
  by (simp add: rpc_read_scope_mask_def bit_fold_mask)

lemma and_eq_iff_bits:
  "(a :: u64) AND b = b \<longleftrightarrow> (\<forall>n. bit b n \<longrightarrow> bit a n)"
  using bit_imp_le_length [of b] by (auto simp: bit_eq_iff bit_and_iff)

lemma masks_subset:
  "rpc_read_scope_mask g AND rpc_read_scope_mask r = rpc_read_scope_mask r \<longleftrightarrow> set r \<subseteq> set g"
  by (auto simp: and_eq_iff_bits bit_rpc_read_scope_mask scope_index_inj)

lemma delegation_preimage_inj:
  assumes "wf_addr a" "wf_addr a'" "length k = 32" "length k' = 32"
    and "wf_str s" "wf_str s'"
  shows "delegation_id_preimage a k s = delegation_id_preimage a' k' s' \<longleftrightarrow> a = a' \<and> k = k' \<and> s = s'"
proof
  assume eq: "delegation_id_preimage a k s = delegation_id_preimage a' k' s'"
  have len: "length (addr_bytes a) = length (addr_bytes a')" "length k = length k'"
    "length (to_be_bytes (as_word (length (utf8 s)) :: u32)) = length (to_be_bytes (as_word (length (utf8 s')) :: u32))"
    using assms(1-4) by (simp_all add: wf_addr_def)
  from eq have "addr_bytes a = addr_bytes a' \<and> k = k' \<and> utf8 s = utf8 s'"
    unfolding delegation_id_preimage_def same_append_eq
      append_eq_same_len [OF len(1)] append_eq_same_len [OF len(2)] append_eq_same_len [OF len(3)]
    by blast
  then show "a = a' \<and> k = k' \<and> s = s'"
    using utf8_inj [OF assms(5,6)] by (auto intro: address.expand)
qed simp

lemma service_id_Ok:
  "validate_rpc_read_delegation_service_id s = Ok () \<longleftrightarrow>
     s \<noteq> [] \<and> trim s = s \<and> length s \<le> 256 \<and> (\<forall>c \<in> set s. \<not> is_control c)"
  by (auto simp: validate_rpc_read_delegation_service_id_def MAX_RPC_READ_DELEGATION_SERVICE_ID_CHARS_def)

subsection \<open>Properties\<close>

text \<open>Scope masks are sets: a delegation created for some scopes grants a request for others
  exactly while it has not expired and when every requested scope is among the granted ones;
  the full mask grants every scope, and no scopes at all are always granted before expiry.\<close>

theorem delegation_scopes_are_sets:
  "delegation_grants (d\<lparr>dg_scope_mask := rpc_read_scope_mask granted\<rparr>) (rpc_read_scope_mask required) now
     = (now < dg_expires_at_ms d \<and> set required \<subseteq> set granted)
   \<and> rpc_read_scope_mask all_scopes = RPC_READ_SCOPE_ALL
   \<and> set all_scopes = UNIV"
proof (intro conjI)
  show "delegation_grants (d\<lparr>dg_scope_mask := rpc_read_scope_mask granted\<rparr>) (rpc_read_scope_mask required) now
     = (now < dg_expires_at_ms d \<and> set required \<subseteq> set granted)"
    by (simp add: delegation_grants_def masks_subset)
  show "rpc_read_scope_mask all_scopes = RPC_READ_SCOPE_ALL"
    by (simp add: rpc_read_scope_mask_def all_scopes_def scope_mask_def RPC_READ_SCOPE_ALL_def)
  show "set all_scopes = UNIV"
    using rpc_read_scope.exhaust by (auto simp: all_scopes_def)
qed

text \<open>The identifier of a delegation commits to the delegator, the key and the service.\<close>

lemma delegation_id_unique:
  assumes "wf_addr a" "wf_addr a'" "length k = 32" "length k' = 32" "wf_str s" "wf_str s'"
    and "inj_on (hash_bytes X) {delegation_id_preimage a k s, delegation_id_preimage a' k' s'}"
  shows "rpc_read_delegation_id X a k s = rpc_read_delegation_id X a' k' s' \<longleftrightarrow> a = a' \<and> k = k' \<and> s = s'"
  unfolding rpc_read_delegation_id_def hash_bytes_eq_iff [OF assms(7)]
  by (rule delegation_preimage_inj [OF assms(1-6)])

end
