(* ===== verification/Entity_Link.thy ===== *)
theory Entity_Link
  imports Wire
begin

text \<open>
  Entity links (\<open>primitives/entity.rs\<close>): an address names the root address of the entity it
  belongs to, and the root signs the link.
\<close>

definition entity_link_preimage :: "externs \<Rightarrow> rstr \<Rightarrow> address \<Rightarrow> address \<Rightarrow> u8 list" where
  "entity_link_preimage X chain_id linked entity =
     utf8 (lit ''zincha:entity_link:'' @ chain_id @ [0x3A] @ addr_to_hex X linked @ [0x3A]
           @ addr_to_hex X entity)"

definition entity_link_message :: "externs \<Rightarrow> rstr \<Rightarrow> address \<Rightarrow> address \<Rightarrow> u8 list" where
  "entity_link_message X chain_id linked entity =
     hash_as_bytes (hash_bytes X (entity_link_preimage X chain_id linked entity))"

record entity_link_data =
  el_entity :: address
  el_authorizer_public_key :: "public_key option"
  el_authorizer_signature :: "signature option"

record entity_link_record =
  er_entity :: address
  er_storage_deposit :: u64

definition entity_link_record_new :: "address \<Rightarrow> u64 \<Rightarrow> entity_link_record" where
  "entity_link_record_new entity storage_deposit =
     \<lparr>er_entity = entity, er_storage_deposit = storage_deposit\<rparr>"

datatype entity_error = LinkToSelf | MissingAuthorizerKey | MissingAuthorizerSignature
  | AuthorizerNotRoot | AuthorizerSignature key_error

definition entity_link_verify ::
  "externs \<Rightarrow> entity_link_data \<Rightarrow> address \<Rightarrow> rstr \<Rightarrow> entity_error + unit" where
  "entity_link_verify X d sender chain_id =
     (if el_entity d = sender then Err LinkToSelf
      else bind_result (ok_or (el_authorizer_public_key d) MissingAuthorizerKey) (\<lambda>public_key.
        bind_result (ok_or (el_authorizer_signature d) MissingAuthorizerSignature) (\<lambda>sig.
          if from_public_key X public_key \<noteq> el_entity d then Err AuthorizerNotRoot
          else (case pk_verify X public_key (entity_link_message X chain_id sender (el_entity d)) sig of
              Err e \<Rightarrow> Err (AuthorizerSignature e)
            | Ok u \<Rightarrow> Ok u))))"

subsection \<open>Lemmas\<close>

lemma to_raw_hex_inj: "hex_ok X \<Longrightarrow> to_raw_hex X a = to_raw_hex X b \<longleftrightarrow> a = b"
  by (metis address.expand hex_ok_def option.inject to_raw_hex_def)

lemma addr_to_hex_inj: "hex_ok X \<Longrightarrow> addr_to_hex X a = addr_to_hex X b \<longleftrightarrow> a = b"
  by (simp add: addr_to_hex_def to_raw_hex_inj)

lemma length_addr_to_hex: "hex_ok X \<Longrightarrow> wf_addr a \<Longrightarrow> length (addr_to_hex X a) = 43"
  by (simp add: addr_to_hex_def to_raw_hex_def ADDRESS_PREFIX_def hex_ok_def wf_addr_def)

lemma addr_to_hex_ascii: "hex_ok X \<Longrightarrow> list_all (\<lambda>c. c < 128 \<and> c \<noteq> 0x3A) (addr_to_hex X a)"
proof -
  assume "hex_ok X"
  then have "list_all (\<lambda>c. is_ascii_digit c \<or> 0x61 \<le> c \<and> c \<le> 0x66) (to_raw_hex X a)"
    by (simp add: hex_ok_def to_raw_hex_def)
  then show ?thesis
    by (auto simp: addr_to_hex_def ADDRESS_PREFIX_def list_all_iff is_ascii_digit_def)
qed

lemma addr_to_hex_wf: "hex_ok X \<Longrightarrow> wf_str (addr_to_hex X a)"
  using addr_to_hex_ascii [of X a] by (auto simp: wf_str_def list_all_iff is_scalar_def)

lemma entity_preimage_inj:
  assumes "hex_ok X" "wf_addr l" "wf_addr l'" "wf_addr e" "wf_addr e'" "wf_str c" "wf_str c'"
  shows "entity_link_preimage X c l e = entity_link_preimage X c' l' e' \<longleftrightarrow> c = c' \<and> l = l' \<and> e = e'"
proof -
  have wf: "wf_str (lit ''zincha:entity_link:'' @ c @ [0x3A] @ addr_to_hex X l @ [0x3A] @ addr_to_hex X e)"
    if "wf_str c" for c l e
    using that addr_to_hex_wf [OF assms(1)] by (simp add: wf_str_def is_scalar_def)
  have len: "length (addr_to_hex X l) = length (addr_to_hex X l')"
    "length (addr_to_hex X e) = length (addr_to_hex X e')"
    using assms by (simp_all add: length_addr_to_hex)
  have "c @ [0x3A] @ addr_to_hex X l @ [0x3A] @ addr_to_hex X e
      = c' @ [0x3A] @ addr_to_hex X l' @ [0x3A] @ addr_to_hex X e'
    \<longleftrightarrow> c = c' \<and> addr_to_hex X l = addr_to_hex X l' \<and> addr_to_hex X e = addr_to_hex X e'"
    using len by (subst append_eq_append_conv) auto
  then show ?thesis
    unfolding entity_link_preimage_def utf8_inj [OF wf [OF assms(6)] wf [OF assms(7)]] same_append_eq
      addr_to_hex_inj [OF assms(1)] .
qed

lemma entity_link_verify_Ok:
  "entity_link_verify X d sender chain_id = Ok () \<longleftrightarrow>
     el_entity d \<noteq> sender
     \<and> (\<exists>k s. el_authorizer_public_key d = Some k \<and> el_authorizer_signature d = Some s
          \<and> from_public_key X k = el_entity d
          \<and> ed_verify X (pk_bytes k) (entity_link_message X chain_id sender (el_entity d)) (sig_bytes s))"
  by (auto simp: entity_link_verify_def pk_verify_def split: if_splits)

subsection \<open>Properties\<close>

text \<open>Linking an address to an entity: a link signed by the root verifies for its sender and
  chain; nothing verifies without a key whose address is the root and a signature by that key
  over the message of exactly this sender, root and chain. Two messages agree only for the
  same chain, address and root, where SHA-256 does not collide on the two texts.\<close>

theorem entity_link_authorized:
  assumes "ed25519_ok X" "wf_keypair kp" "hex_ok X" "kp_address X kp \<noteq> sender"
    and "wf_addr sender" "wf_addr sender'" "wf_addr e" "wf_addr e'" "wf_str c" "wf_str c'"
    and "inj_on (hash_bytes X) {entity_link_preimage X c sender e, entity_link_preimage X c' sender' e'}"
  shows "entity_link_verify X
      \<lparr>el_entity = kp_address X kp, el_authorizer_public_key = Some (kp_public_key X kp),
       el_authorizer_signature = Some (kp_sign X kp (entity_link_message X c sender (kp_address X kp)))\<rparr>
      sender c = Ok ()
    \<and> (entity_link_verify X d sender c = Ok () \<longleftrightarrow>
         el_entity d \<noteq> sender \<and> (\<exists>k s. el_authorizer_public_key d = Some k \<and> el_authorizer_signature d = Some s
          \<and> from_public_key X k = el_entity d
          \<and> ed_verify X (pk_bytes k) (entity_link_message X c sender (el_entity d)) (sig_bytes s)))
    \<and> (entity_link_message X c sender e = entity_link_message X c' sender' e' \<longleftrightarrow>
         c = c' \<and> sender = sender' \<and> e = e')"
proof -
  have "ed_verify X (pk_bytes (kp_public_key X kp)) m (sig_bytes (kp_sign X kp m))" for m
    using assms(1,2) by (simp add: ed25519_ok_def wf_keypair_def kp_public_key_def kp_sign_def)
  moreover have "from_public_key X (kp_public_key X kp) = kp_address X kp" by (simp add: kp_address_def)
  moreover have "entity_link_message X c sender e = entity_link_message X c' sender' e' \<longleftrightarrow>
      entity_link_preimage X c sender e = entity_link_preimage X c' sender' e'"
    using hash_bytes_eq_iff [OF assms(11)] by (auto simp: entity_link_message_def dest: hash256.expand)
  ultimately show ?thesis
    using assms(4) entity_preimage_inj [OF assms(3,5-10)] by (simp add: entity_link_verify_Ok)
qed

theorem entity_link_authorized_witness:
  "entity_link_message (tag_externs (entity_link_preimage demo_externs [] treasury addr_zero)) [] treasury addr_zero
   \<noteq> entity_link_message (tag_externs (entity_link_preimage demo_externs [] treasury addr_zero)) [0x61] treasury addr_zero"
proof -
  let ?X = "tag_externs (entity_link_preimage demo_externs [] treasury addr_zero)"
  let ?kp = "Keypair (replicate 32 7)"
  have same: "entity_link_preimage ?X [] treasury addr_zero = entity_link_preimage demo_externs [] treasury addr_zero"
    by (simp add: entity_link_preimage_def addr_to_hex_def to_raw_hex_def tag_externs_def)
  have inj: "inj_on (hash_bytes ?X) {entity_link_preimage ?X [] treasury addr_zero, entity_link_preimage ?X [0x61] treasury addr_zero}"
    unfolding same by (rule tag_inj_on)
  have "kp_address ?X ?kp \<noteq> treasury"
    by (simp add: kp_address_def from_public_key_def tag_externs_def treasury_def system_address_def numeral_eq_Suc)
  moreover have "wf_addr addr_zero" "wf_addr treasury" "wf_str []" "wf_str [0x61]" "wf_keypair ?kp"
    by (simp_all add: wf_addr_def addr_zero_def treasury_def system_address_def wf_str_def is_scalar_def wf_keypair_def)
  ultimately show ?thesis
    using entity_link_authorized [OF _ _ _ _ _ _ _ _ _ _ inj, of ?kp] by simp
qed

end
