(* ===== verification/Token.thy ===== *)
theory Token
  imports Entity_Link
begin

text \<open>
  ZIP-20 tokens (\<open>primitives/token.rs\<close>): metadata, allowance keys and the derivation of token
  identifiers.
\<close>

record token_storage_deposit =
  sd_payer :: address
  sd_amount :: u64

record token_metadata =
  tm_token_id :: hash256
  tm_name :: rstr
  tm_symbol :: rstr
  tm_decimals :: u8
  tm_total_supply :: u64
  tm_max_supply :: u64
  tm_burnable :: bool
  tm_creator :: address
  tm_mint_authority :: "address option"
  tm_created_at_block :: u64
  tm_metadata :: "u8 list"
  tm_storage_deposit :: u64

record allowance_key =
  ak_token_id :: hash256
  ak_owner :: address
  ak_spender :: address

definition MAX_TOKEN_SYMBOL :: nat where "MAX_TOKEN_SYMBOL = 10"
definition MAX_TOKEN_METADATA :: nat where "MAX_TOKEN_METADATA = 4096"

definition mintable :: "token_metadata \<Rightarrow> bool" where
  "mintable t \<longleftrightarrow> tm_mint_authority t \<noteq> None"

definition token_preimage :: "externs \<Rightarrow> address \<Rightarrow> rstr \<Rightarrow> u64 \<Rightarrow> u8 list" where
  "token_preimage X creator symbol nonce =
     utf8 (addr_to_hex X creator @ [0x3A] @ symbol @ [0x3A] @ show_nat (unat nonce))"

definition derive_token_id :: "externs \<Rightarrow> address \<Rightarrow> rstr \<Rightarrow> u64 \<Rightarrow> hash256" where
  "derive_token_id X creator symbol nonce = hash_bytes X (token_preimage X creator symbol nonce)"

subsection \<open>Lemmas\<close>

text \<open>A symbol may contain colons: the last one still marks the nonce.\<close>

lemma first_separator_unique:
  "c \<notin> set x \<Longrightarrow> c \<notin> set y \<Longrightarrow> x @ c # p = y @ c # q \<Longrightarrow> x = y \<and> p = q"
proof (induction x arbitrary: y)
  case Nil
  then show ?case by (cases y) auto
next
  case (Cons u x)
  then show ?case by (cases y) auto
qed

lemma last_separator_unique:
  assumes "c \<notin> set s" "c \<notin> set t" "a @ c # s = b @ c # t"
  shows "a = b \<and> s = t"
proof -
  from assms(3) have "rev (a @ c # s) = rev (b @ c # t)" by (rule arg_cong)
  then have "rev s @ c # rev a = rev t @ c # rev b" by simp
  then have "rev s = rev t \<and> rev a = rev b"
    using assms(1,2) by (intro first_separator_unique [of c]) simp_all
  then show ?thesis by simp
qed

lemma no_colon_in_number: "0x3A \<notin> set (show_nat n)"
  using show_nat_digits [of "0x3A" n] by (auto simp: is_ascii_digit_def)

lemma token_preimage_inj:
  assumes "hex_ok X" "wf_addr a" "wf_addr a'" "wf_str s" "wf_str s'"
  shows "token_preimage X a s n = token_preimage X a' s' n' \<longleftrightarrow> a = a' \<and> s = s' \<and> n = n'"
proof
  assume eq: "token_preimage X a s n = token_preimage X a' s' n'"
  have wf: "wf_str (addr_to_hex X a @ [0x3A] @ s @ [0x3A] @ show_nat (unat n))"
    if "wf_str s" for a s and n :: u64
    using that addr_to_hex_wf [OF assms(1), of a] show_nat_digits [of _ "unat n"]
    by (fastforce simp: wf_str_def is_scalar_def list_all_iff is_ascii_digit_def)
  have len: "length (addr_to_hex X a) = length (addr_to_hex X a')"
    using assms by (simp add: length_addr_to_hex)
  from eq have "addr_to_hex X a = addr_to_hex X a'
      \<and> s @ 0x3A # show_nat (unat n) = s' @ 0x3A # show_nat (unat n')"
    unfolding token_preimage_def utf8_inj [OF wf [OF assms(4)] wf [OF assms(5)]] append_eq_same_len [OF len]
    by simp
  then show "a = a' \<and> s = s' \<and> n = n'"
    using last_separator_unique [OF no_colon_in_number no_colon_in_number, of s "unat n" s' "unat n'"]
    by (auto simp: addr_to_hex_inj [OF assms(1)] show_nat_inj word_unat_eq_iff)
qed simp

subsection \<open>Properties\<close>

text \<open>A token identifier commits to the creator, the symbol and the nonce: where SHA-256
  does not collide on the two texts, equal identifiers come from the same creator, symbol and
  nonce, even for symbols that contain the separator.\<close>

theorem token_id_binds:
  assumes "hex_ok X" "wf_addr a" "wf_addr a'" "wf_str s" "wf_str s'"
    and "inj_on (hash_bytes X) {token_preimage X a s n, token_preimage X a' s' n'}"
  shows "derive_token_id X a s n = derive_token_id X a' s' n' \<longleftrightarrow> a = a' \<and> s = s' \<and> n = n'"
  unfolding derive_token_id_def hash_bytes_eq_iff [OF assms(6)]
  by (rule token_preimage_inj [OF assms(1-5)])

theorem token_id_binds_witness:
  fixes X defines "X \<equiv> tag_externs (token_preimage demo_externs addr_zero (lit ''A:1'') 2)"
  shows "derive_token_id X addr_zero (lit ''A:1'') 2 \<noteq> derive_token_id X addr_zero (lit ''A'') 12"
proof -
  have same: "token_preimage X addr_zero (lit ''A:1'') 2 = token_preimage demo_externs addr_zero (lit ''A:1'') 2"
    by (simp add: X_def token_preimage_def addr_to_hex_def to_raw_hex_def tag_externs_def)
  have "inj_on (hash_bytes X) {token_preimage X addr_zero (lit ''A:1'') 2, token_preimage X addr_zero (lit ''A'') 12}"
    unfolding same unfolding X_def by (rule tag_inj_on)
  from token_id_binds [OF _ _ _ _ _ this] show ?thesis
    by (simp add: X_def wf_addr_def addr_zero_def wf_str_def is_scalar_def)
qed

end
