(* ===== verification/Payload.thy ===== *)
theory Payload
  imports Payload_Tool Transaction Agreement Agent Validator Capability_Catalog Rpc_Delegation
    Token
begin

text \<open>
  The payloads of the other transactions: agents, tasks, agreements, validators, contracts,
  tokens, capabilities, read delegations, entity links and batches, from the files of
  \<open>primitives\<close> that declare them. They follow the pattern of \<open>Payload_Tool\<close>: structure,
  encoding, representable values, interpretation of \<open>wire_format\<close>.
\<close>

subsection \<open>Building blocks\<close>

definition valid_fee :: "rstr \<times> u64 \<Rightarrow> bool" where
  "valid_fee p \<longleftrightarrow> valid_string (fst p)"

definition valid_sibling :: "hash256 \<times> bool \<Rightarrow> bool" where
  "valid_sibling p \<longleftrightarrow> wf_hash (fst p)"

interpretation feew: wire_format "write_pair write_string write_u64" valid_fee
  using pair_format [OF stringw.wire_format_axioms u64w.wire_format_axioms]
  by (simp add: valid_fee_def [abs_def])

interpretation siblingw: wire_format "write_pair write_hash write_bool" valid_sibling
  using pair_format [OF hashw.wire_format_axioms boolw.wire_format_axioms]
  by (simp add: valid_sibling_def [abs_def])

interpretation fees: wire_format "write_vec (write_pair write_string write_u64)" "valid_vec valid_fee"
  by (rule feew.vec_format)

interpretation strings: wire_format "write_vec write_string" "valid_vec valid_string"
  by (rule stringw.vec_format)

interpretation stringo: wire_format "write_option write_string" "valid_opt valid_string"
  by (rule stringw.option_format)

definition write_tx_type :: "tx_type \<Rightarrow> u8 list" where
  "write_tx_type t = write_u32 (wire_code t)"

definition write_stake_target :: "stake_target \<Rightarrow> u8 list" where
  "write_stake_target p =
     write_u32 (case p of StakeAgent \<Rightarrow> 0 | StakeValidator \<Rightarrow> 1 | StakeRequesterAutoMatch \<Rightarrow> 2)"

interpretation tx_typew: wire_format write_tx_type "\<lambda>_. True"
  by unfold_locales (simp add: write_tx_type_def u32w.append_iff wire_code_inj)

interpretation stake_targetw: wire_format write_stake_target "\<lambda>_. True"
  by unfold_locales (auto simp: write_stake_target_def u32w.append_iff split: stake_target.splits)

lemmas feew_iffs [wire_iffs] = feew.vec_append_iff
lemmas siblingw_iffs [wire_iffs] = siblingw.vec_append_iff
lemmas fees_iffs [wire_iffs] = fees.option_append_iff
lemmas strings_iffs [wire_iffs] = strings.option_append_iff
lemmas stringo_iffs [wire_iffs] = stringo.option_append_iff
lemmas tx_typew_iffs [wire_iffs] = tx_typew.append_iff
lemmas abiw_iffs [wire_iffs] = abiw.append_iff

subsection \<open>Agents and tasks\<close>

definition write_entity_link_data :: "entity_link_data \<Rightarrow> u8 list" where
  "write_entity_link_data d =
     write_addr (el_entity d) @ write_option write_pk (el_authorizer_public_key d)
     @ write_option write_sig (el_authorizer_signature d)"

definition valid_entity_link_data :: "entity_link_data \<Rightarrow> bool" where
  "valid_entity_link_data d \<longleftrightarrow>
     wf_addr (el_entity d) \<and> valid_opt pk_fits (el_authorizer_public_key d)
     \<and> valid_opt wf_sig (el_authorizer_signature d)"

interpretation entity_linkw: wire_format write_entity_link_data valid_entity_link_data
  by unfold_locales (simp add: write_entity_link_data_def valid_entity_link_data_def wire_iffs)

record agent_register_data =
  ard_name :: rstr
  ard_description :: rstr
  ard_neural_embedding :: "f32_bits list option"
  ard_model_hash :: hash256
  ard_capabilities :: "capability list"
  ard_metadata :: "u8 list"
  ard_min_fee :: u64
  ard_fee_schedule :: "(rstr \<times> u64) list"

definition write_agent_register_data :: "agent_register_data \<Rightarrow> u8 list" where
  "write_agent_register_data d =
     write_string (ard_name d) @ write_string (ard_description d)
     @ write_option (write_vec write_u32) (ard_neural_embedding d) @ write_hash (ard_model_hash d)
     @ write_vec write_capability (ard_capabilities d) @ write_bytes (ard_metadata d)
     @ write_u64 (ard_min_fee d)
     @ write_vec (write_pair write_string write_u64) (ard_fee_schedule d)"

definition valid_agent_register_data :: "agent_register_data \<Rightarrow> bool" where
  "valid_agent_register_data d \<longleftrightarrow>
     valid_string (ard_name d) \<and> valid_string (ard_description d)
     \<and> valid_opt fits_u64 (ard_neural_embedding d) \<and> wf_hash (ard_model_hash d)
     \<and> valid_vec valid_capability (ard_capabilities d) \<and> fits_u64 (ard_metadata d)
     \<and> valid_vec valid_fee (ard_fee_schedule d)"

interpretation agent_registerw: wire_format write_agent_register_data valid_agent_register_data
  by unfold_locales (simp add: write_agent_register_data_def valid_agent_register_data_def wire_iffs)

record agent_update_data =
  aud_name :: "rstr option"
  aud_description :: "rstr option"
  aud_neural_embedding :: "f32_bits list option"
  aud_model_hash :: "hash256 option"
  aud_capabilities :: "capability list option"
  aud_metadata :: "u8 list option"
  aud_active :: "bool option"
  aud_min_fee :: "u64 option"
  aud_fee_schedule :: "(rstr \<times> u64) list option"

definition write_agent_update_data :: "agent_update_data \<Rightarrow> u8 list" where
  "write_agent_update_data d =
     write_option write_string (aud_name d) @ write_option write_string (aud_description d)
     @ write_option (write_vec write_u32) (aud_neural_embedding d)
     @ write_option write_hash (aud_model_hash d)
     @ write_option (write_vec write_capability) (aud_capabilities d)
     @ write_option write_bytes (aud_metadata d) @ write_option write_bool (aud_active d)
     @ write_option write_u64 (aud_min_fee d)
     @ write_option (write_vec (write_pair write_string write_u64)) (aud_fee_schedule d)"

definition valid_agent_update_data :: "agent_update_data \<Rightarrow> bool" where
  "valid_agent_update_data d \<longleftrightarrow>
     valid_opt valid_string (aud_name d) \<and> valid_opt valid_string (aud_description d)
     \<and> valid_opt fits_u64 (aud_neural_embedding d)
     \<and> valid_opt wf_hash (aud_model_hash d)
     \<and> valid_opt (valid_vec valid_capability) (aud_capabilities d)
     \<and> valid_opt fits_u64 (aud_metadata d)
     \<and> valid_opt (valid_vec valid_fee) (aud_fee_schedule d)"

interpretation agent_updatew: wire_format write_agent_update_data valid_agent_update_data
  by unfold_locales (simp add: write_agent_update_data_def valid_agent_update_data_def wire_iffs)

definition write_reputation_update_data :: "reputation_update_data \<Rightarrow> u8 list" where
  "write_reputation_update_data d =
     write_hash (ru_task_id d) @ write_u64 (ru_quality_score d)
     @ write_bool (ru_requester_accepted d) @ write_string (ru_feedback d)"

definition valid_reputation_update_data :: "reputation_update_data \<Rightarrow> bool" where
  "valid_reputation_update_data d \<longleftrightarrow>
     wf_hash (ru_task_id d) \<and> valid_string (ru_feedback d)"

interpretation reputation_updatew: wire_format write_reputation_update_data valid_reputation_update_data
  by unfold_locales (simp add: write_reputation_update_data_def valid_reputation_update_data_def wire_iffs)

definition write_match_preferences :: "match_preferences \<Rightarrow> u8 list" where
  "write_match_preferences d =
     write_u8 (mp_w_semantic d) @ write_u8 (mp_w_reputation d) @ write_u8 (mp_w_price d)
     @ write_u8 (mp_w_freshness d) @ write_u8 (mp_w_stake d) @ write_u64 (mp_min_reputation d)
     @ write_u64 (mp_max_price d) @ write_u32 (mp_discovery_threshold d)
     @ write_u8 (mp_discovery_boost d)"

interpretation match_preferencesw: wire_format write_match_preferences "\<lambda>_. True"
  by unfold_locales (simp add: write_match_preferences_def wire_iffs)

lemmas match_preferencesw_iffs [wire_iffs] = match_preferencesw.append_iff

record task_submit_data =
  tsd_description :: rstr
  tsd_neural_embedding :: "f32_bits list option"
  tsd_required_capabilities :: "capability list"
  tsd_max_fee :: u64
  tsd_priority :: u8
  tsd_deadline :: u64
  tsd_parameters :: "u8 list"
  tsd_match_preferences :: match_preferences

definition write_task_submit_data :: "task_submit_data \<Rightarrow> u8 list" where
  "write_task_submit_data d =
     write_string (tsd_description d)
     @ write_option (write_vec write_u32) (tsd_neural_embedding d)
     @ write_vec write_capability (tsd_required_capabilities d) @ write_u64 (tsd_max_fee d)
     @ write_u8 (tsd_priority d) @ write_u64 (tsd_deadline d) @ write_bytes (tsd_parameters d)
     @ write_match_preferences (tsd_match_preferences d)"

definition valid_task_submit_data :: "task_submit_data \<Rightarrow> bool" where
  "valid_task_submit_data d \<longleftrightarrow>
     valid_string (tsd_description d) \<and> valid_opt fits_u64 (tsd_neural_embedding d)
     \<and> valid_vec valid_capability (tsd_required_capabilities d)
     \<and> fits_u64 (tsd_parameters d)"

interpretation task_submitw: wire_format write_task_submit_data valid_task_submit_data
  by unfold_locales (simp add: write_task_submit_data_def valid_task_submit_data_def wire_iffs)

definition write_access_token_receipt :: "access_token_receipt \<Rightarrow> u8 list" where
  "write_access_token_receipt d =
     write_hash (ar_token_id d) @ write_hash (ar_tool_id d) @ write_addr (ar_invoker d)
     @ write_u64 (ar_amount_paid d) @ write_u64 (ar_issued_at d) @ write_u64 (ar_block_number d)
     @ write_u64 (ar_nonce d)"

definition valid_access_token_receipt :: "access_token_receipt \<Rightarrow> bool" where
  "valid_access_token_receipt d \<longleftrightarrow>
     wf_hash (ar_token_id d) \<and> wf_hash (ar_tool_id d) \<and> wf_addr (ar_invoker d)"

interpretation access_token_receiptw: wire_format write_access_token_receipt valid_access_token_receipt
  by unfold_locales (simp add: write_access_token_receipt_def valid_access_token_receipt_def wire_iffs)

lemmas access_token_receiptw_iffs [wire_iffs] = access_token_receiptw.append_iff

definition write_receipt_with_proof :: "receipt_with_proof \<Rightarrow> u8 list" where
  "write_receipt_with_proof d =
     write_access_token_receipt (rp_receipt d)
     @ write_vec (write_pair write_hash write_bool) (rp_proof_siblings d)
     @ write_hash (rp_receipt_root d)"

definition valid_receipt_with_proof :: "receipt_with_proof \<Rightarrow> bool" where
  "valid_receipt_with_proof d \<longleftrightarrow>
     valid_access_token_receipt (rp_receipt d)
     \<and> valid_vec valid_sibling (rp_proof_siblings d) \<and> wf_hash (rp_receipt_root d)"

interpretation receipt_with_proofw: wire_format write_receipt_with_proof valid_receipt_with_proof
  by unfold_locales (simp add: write_receipt_with_proof_def valid_receipt_with_proof_def wire_iffs)

lemmas receipt_with_proofw_iffs [wire_iffs] = receipt_with_proofw.append_iff receipt_with_proofw.vec_append_iff

record task_fulfill_data =
  tfd_task_id :: hash256
  tfd_result_hash :: hash256
  tfd_result_data :: "u8 list"
  tfd_tools_used :: "hash256 list"
  tfd_input_refs :: "hash256 list"
  tfd_receipt_proofs :: "receipt_with_proof list"

definition write_task_fulfill_data :: "task_fulfill_data \<Rightarrow> u8 list" where
  "write_task_fulfill_data d =
     write_hash (tfd_task_id d) @ write_hash (tfd_result_hash d) @ write_bytes (tfd_result_data d)
     @ write_vec write_hash (tfd_tools_used d) @ write_vec write_hash (tfd_input_refs d)
     @ write_vec write_receipt_with_proof (tfd_receipt_proofs d)"

definition valid_task_fulfill_data :: "task_fulfill_data \<Rightarrow> bool" where
  "valid_task_fulfill_data d \<longleftrightarrow>
     wf_hash (tfd_task_id d) \<and> wf_hash (tfd_result_hash d)
     \<and> fits_u64 (tfd_result_data d) \<and> valid_vec wf_hash (tfd_tools_used d)
     \<and> valid_vec wf_hash (tfd_input_refs d)
     \<and> valid_vec valid_receipt_with_proof (tfd_receipt_proofs d)"

interpretation task_fulfillw: wire_format write_task_fulfill_data valid_task_fulfill_data
  by unfold_locales (simp add: write_task_fulfill_data_def valid_task_fulfill_data_def wire_iffs)

record task_accept_data =
  tad_task_id :: hash256

definition write_task_accept_data :: "task_accept_data \<Rightarrow> u8 list" where
  "write_task_accept_data d =
     write_hash (tad_task_id d)"

definition valid_task_accept_data :: "task_accept_data \<Rightarrow> bool" where
  "valid_task_accept_data d \<longleftrightarrow>
     wf_hash (tad_task_id d)"

interpretation task_acceptw: wire_format write_task_accept_data valid_task_accept_data
  by unfold_locales (simp add: write_task_accept_data_def valid_task_accept_data_def wire_iffs)

record task_dispute_data =
  tdd_task_id :: hash256
  tdd_reason :: rstr

definition write_task_dispute_data :: "task_dispute_data \<Rightarrow> u8 list" where
  "write_task_dispute_data d =
     write_hash (tdd_task_id d) @ write_string (tdd_reason d)"

definition valid_task_dispute_data :: "task_dispute_data \<Rightarrow> bool" where
  "valid_task_dispute_data d \<longleftrightarrow>
     wf_hash (tdd_task_id d) \<and> valid_string (tdd_reason d)"

interpretation task_disputew: wire_format write_task_dispute_data valid_task_dispute_data
  by unfold_locales (simp add: write_task_dispute_data_def valid_task_dispute_data_def wire_iffs)

record task_resolve_data =
  tvd_task_id :: hash256
  tvd_agent_wins :: bool
  tvd_reason :: rstr

definition write_task_resolve_data :: "task_resolve_data \<Rightarrow> u8 list" where
  "write_task_resolve_data d =
     write_hash (tvd_task_id d) @ write_bool (tvd_agent_wins d) @ write_string (tvd_reason d)"

definition valid_task_resolve_data :: "task_resolve_data \<Rightarrow> bool" where
  "valid_task_resolve_data d \<longleftrightarrow>
     wf_hash (tvd_task_id d) \<and> valid_string (tvd_reason d)"

interpretation task_resolvew: wire_format write_task_resolve_data valid_task_resolve_data
  by unfold_locales (simp add: write_task_resolve_data_def valid_task_resolve_data_def wire_iffs)

record task_finalize_data =
  tnd_task_id :: hash256

definition write_task_finalize_data :: "task_finalize_data \<Rightarrow> u8 list" where
  "write_task_finalize_data d =
     write_hash (tnd_task_id d)"

definition valid_task_finalize_data :: "task_finalize_data \<Rightarrow> bool" where
  "valid_task_finalize_data d \<longleftrightarrow>
     wf_hash (tnd_task_id d)"

interpretation task_finalizew: wire_format write_task_finalize_data valid_task_finalize_data
  by unfold_locales (simp add: write_task_finalize_data_def valid_task_finalize_data_def wire_iffs)

record sub_task_def =
  std_description :: rstr
  std_required_capabilities :: "capability list"
  std_dependencies :: "u32 list"
  std_escrow :: u64

definition write_sub_task_def :: "sub_task_def \<Rightarrow> u8 list" where
  "write_sub_task_def d =
     write_string (std_description d) @ write_vec write_capability (std_required_capabilities d)
     @ write_vec write_u32 (std_dependencies d) @ write_u64 (std_escrow d)"

definition valid_sub_task_def :: "sub_task_def \<Rightarrow> bool" where
  "valid_sub_task_def d \<longleftrightarrow>
     valid_string (std_description d)
     \<and> valid_vec valid_capability (std_required_capabilities d)
     \<and> fits_u64 (std_dependencies d)"

interpretation sub_task_defw: wire_format write_sub_task_def valid_sub_task_def
  by unfold_locales (simp add: write_sub_task_def_def valid_sub_task_def_def wire_iffs)

lemmas sub_task_defw_iffs [wire_iffs] = sub_task_defw.append_iff sub_task_defw.vec_append_iff

record task_decompose_data =
  tpd_task_id :: hash256
  tpd_subtasks :: "sub_task_def list"

definition write_task_decompose_data :: "task_decompose_data \<Rightarrow> u8 list" where
  "write_task_decompose_data d =
     write_hash (tpd_task_id d) @ write_vec write_sub_task_def (tpd_subtasks d)"

definition valid_task_decompose_data :: "task_decompose_data \<Rightarrow> bool" where
  "valid_task_decompose_data d \<longleftrightarrow>
     wf_hash (tpd_task_id d) \<and> valid_vec valid_sub_task_def (tpd_subtasks d)"

interpretation task_decomposew: wire_format write_task_decompose_data valid_task_decompose_data
  by unfold_locales (simp add: write_task_decompose_data_def valid_task_decompose_data_def wire_iffs)

subsection \<open>Agreements\<close>

definition write_party_outcome :: "party_outcome \<Rightarrow> u8 list" where
  "write_party_outcome p =
     write_u32 (case p of Won \<Rightarrow> 0 | Lost \<Rightarrow> 1)"

interpretation outcomew: wire_format write_party_outcome "\<lambda>_. True"
  by unfold_locales (auto simp: write_party_outcome_def u32w.append_iff split: party_outcome.splits)

lemmas outcomew_iffs [wire_iffs] = outcomew.append_iff

definition write_milestone_def :: "milestone_def \<Rightarrow> u8 list" where
  "write_milestone_def d =
     write_string (md_description d) @ write_u64 (md_amount d)"

definition valid_milestone_def :: "milestone_def \<Rightarrow> bool" where
  "valid_milestone_def d \<longleftrightarrow>
     valid_string (md_description d)"

interpretation milestone_defw: wire_format write_milestone_def valid_milestone_def
  by unfold_locales (simp add: write_milestone_def_def valid_milestone_def_def wire_iffs)

lemmas milestone_defw_iffs [wire_iffs] = milestone_defw.append_iff milestone_defw.vec_append_iff

definition write_payout_share :: "payout_share \<Rightarrow> u8 list" where
  "write_payout_share d =
     write_addr (ps_recipient d) @ write_u16 (ps_share_bps d)"

definition valid_payout_share :: "payout_share \<Rightarrow> bool" where
  "valid_payout_share d \<longleftrightarrow>
     wf_addr (ps_recipient d)"

interpretation payout_sharew: wire_format write_payout_share valid_payout_share
  by unfold_locales (simp add: write_payout_share_def valid_payout_share_def wire_iffs)

lemmas payout_sharew_iffs [wire_iffs] = payout_sharew.append_iff payout_sharew.vec_append_iff

definition write_reputation_effect :: "reputation_effect \<Rightarrow> u8 list" where
  "write_reputation_effect d =
     write_addr (re_party d) @ write_party_outcome (re_outcome d)"

definition valid_reputation_effect :: "reputation_effect \<Rightarrow> bool" where
  "valid_reputation_effect d \<longleftrightarrow>
     wf_addr (re_party d)"

interpretation reputation_effectw: wire_format write_reputation_effect valid_reputation_effect
  by unfold_locales (simp add: write_reputation_effect_def valid_reputation_effect_def wire_iffs)

lemmas reputation_effectw_iffs [wire_iffs] = reputation_effectw.append_iff reputation_effectw.vec_append_iff

definition write_agreement_create_data :: "agreement_create_data \<Rightarrow> u8 list" where
  "write_agreement_create_data d =
     write_vec write_addr (ac_parties d) @ write_bytes (ac_terms d)
     @ write_u64 (ac_escrow_amount d) @ write_u64 (ac_expires_at d)
     @ write_option write_addr (ac_arbitrator d) @ write_vec write_milestone_def (ac_milestones d)
     @ write_addr (ac_service_provider d)
     @ write_vec write_payout_share (ac_settlement_allocations d)
     @ write_option write_addr (ac_settlement_approver d)"

definition valid_agreement_create_data :: "agreement_create_data \<Rightarrow> bool" where
  "valid_agreement_create_data d \<longleftrightarrow>
     valid_vec wf_addr (ac_parties d) \<and> fits_u64 (ac_terms d)
     \<and> valid_opt wf_addr (ac_arbitrator d)
     \<and> valid_vec valid_milestone_def (ac_milestones d) \<and> wf_addr (ac_service_provider d)
     \<and> valid_vec valid_payout_share (ac_settlement_allocations d)
     \<and> valid_opt wf_addr (ac_settlement_approver d)"

interpretation agreement_createw: wire_format write_agreement_create_data valid_agreement_create_data
  by unfold_locales (simp add: write_agreement_create_data_def valid_agreement_create_data_def wire_iffs)

record agreement_accept_data =
  aad_agreement_id :: hash256

definition write_agreement_accept_data :: "agreement_accept_data \<Rightarrow> u8 list" where
  "write_agreement_accept_data d =
     write_hash (aad_agreement_id d)"

definition valid_agreement_accept_data :: "agreement_accept_data \<Rightarrow> bool" where
  "valid_agreement_accept_data d \<longleftrightarrow>
     wf_hash (aad_agreement_id d)"

interpretation agreement_acceptw: wire_format write_agreement_accept_data valid_agreement_accept_data
  by unfold_locales (simp add: write_agreement_accept_data_def valid_agreement_accept_data_def wire_iffs)

record agreement_execute_data =
  aed_agreement_id :: hash256
  aed_result_hash :: hash256
  aed_milestone_index :: u32

definition write_agreement_execute_data :: "agreement_execute_data \<Rightarrow> u8 list" where
  "write_agreement_execute_data d =
     write_hash (aed_agreement_id d) @ write_hash (aed_result_hash d)
     @ write_u32 (aed_milestone_index d)"

definition valid_agreement_execute_data :: "agreement_execute_data \<Rightarrow> bool" where
  "valid_agreement_execute_data d \<longleftrightarrow>
     wf_hash (aed_agreement_id d) \<and> wf_hash (aed_result_hash d)"

interpretation agreement_executew: wire_format write_agreement_execute_data valid_agreement_execute_data
  by unfold_locales (simp add: write_agreement_execute_data_def valid_agreement_execute_data_def wire_iffs)

record agreement_dispute_data =
  agd_agreement_id :: hash256
  agd_reason :: rstr
  agd_milestone_index :: "u32 option"

definition write_agreement_dispute_data :: "agreement_dispute_data \<Rightarrow> u8 list" where
  "write_agreement_dispute_data d =
     write_hash (agd_agreement_id d) @ write_string (agd_reason d)
     @ write_option write_u32 (agd_milestone_index d)"

definition valid_agreement_dispute_data :: "agreement_dispute_data \<Rightarrow> bool" where
  "valid_agreement_dispute_data d \<longleftrightarrow>
     wf_hash (agd_agreement_id d) \<and> valid_string (agd_reason d)"

interpretation agreement_disputew: wire_format write_agreement_dispute_data valid_agreement_dispute_data
  by unfold_locales (simp add: write_agreement_dispute_data_def valid_agreement_dispute_data_def wire_iffs)

record agreement_resolve_data =
  agr_agreement_id :: hash256
  agr_payouts :: "payout_share list"
  agr_reputation_effects :: "reputation_effect list"
  agr_reason :: rstr
  agr_milestone_index :: "u32 option"

definition write_agreement_resolve_data :: "agreement_resolve_data \<Rightarrow> u8 list" where
  "write_agreement_resolve_data d =
     write_hash (agr_agreement_id d) @ write_vec write_payout_share (agr_payouts d)
     @ write_vec write_reputation_effect (agr_reputation_effects d) @ write_string (agr_reason d)
     @ write_option write_u32 (agr_milestone_index d)"

definition valid_agreement_resolve_data :: "agreement_resolve_data \<Rightarrow> bool" where
  "valid_agreement_resolve_data d \<longleftrightarrow>
     wf_hash (agr_agreement_id d) \<and> valid_vec valid_payout_share (agr_payouts d)
     \<and> valid_vec valid_reputation_effect (agr_reputation_effects d)
     \<and> valid_string (agr_reason d)"

interpretation agreement_resolvew: wire_format write_agreement_resolve_data valid_agreement_resolve_data
  by unfold_locales (simp add: write_agreement_resolve_data_def valid_agreement_resolve_data_def wire_iffs)

record agreement_cancel_data =
  agc_agreement_id :: hash256

definition write_agreement_cancel_data :: "agreement_cancel_data \<Rightarrow> u8 list" where
  "write_agreement_cancel_data d =
     write_hash (agc_agreement_id d)"

definition valid_agreement_cancel_data :: "agreement_cancel_data \<Rightarrow> bool" where
  "valid_agreement_cancel_data d \<longleftrightarrow>
     wf_hash (agc_agreement_id d)"

interpretation agreement_cancelw: wire_format write_agreement_cancel_data valid_agreement_cancel_data
  by unfold_locales (simp add: write_agreement_cancel_data_def valid_agreement_cancel_data_def wire_iffs)

record arbitrator_register_data =
  abd_name :: rstr
  abd_description :: rstr
  abd_stake :: u64
  abd_fee_bps :: u16
  abd_specializations :: "rstr list"

definition write_arbitrator_register_data :: "arbitrator_register_data \<Rightarrow> u8 list" where
  "write_arbitrator_register_data d =
     write_string (abd_name d) @ write_string (abd_description d) @ write_u64 (abd_stake d)
     @ write_u16 (abd_fee_bps d) @ write_vec write_string (abd_specializations d)"

definition valid_arbitrator_register_data :: "arbitrator_register_data \<Rightarrow> bool" where
  "valid_arbitrator_register_data d \<longleftrightarrow>
     valid_string (abd_name d) \<and> valid_string (abd_description d)
     \<and> valid_vec valid_string (abd_specializations d)"

interpretation arbitrator_registerw: wire_format write_arbitrator_register_data valid_arbitrator_register_data
  by unfold_locales (simp add: write_arbitrator_register_data_def valid_arbitrator_register_data_def wire_iffs)

subsection \<open>Validators\<close>

definition write_validator_executor_service :: "validator_executor_service \<Rightarrow> u8 list" where
  "write_validator_executor_service d =
     write_u32 (ves_partition_id d) @ write_string (ves_rpc_endpoint d)
     @ write_pk (ves_executor_public_key d)"

definition valid_validator_executor_service :: "validator_executor_service \<Rightarrow> bool" where
  "valid_validator_executor_service d \<longleftrightarrow>
     valid_string (ves_rpc_endpoint d) \<and> pk_fits (ves_executor_public_key d)"

interpretation validator_executor_servicew: wire_format write_validator_executor_service valid_validator_executor_service
  by unfold_locales (simp add: write_validator_executor_service_def valid_validator_executor_service_def wire_iffs)

lemmas validator_executor_servicew_iffs [wire_iffs] = validator_executor_servicew.append_iff validator_executor_servicew.vec_append_iff

definition write_validator_update_data :: "validator_update_data \<Rightarrow> u8 list" where
  "write_validator_update_data d =
     write_vec write_validator_executor_service (vu_executor_services d)
     @ write_option write_pk (vu_vrf_public_key d)"

definition valid_validator_update_data :: "validator_update_data \<Rightarrow> bool" where
  "valid_validator_update_data d \<longleftrightarrow>
     valid_vec valid_validator_executor_service (vu_executor_services d)
     \<and> valid_opt pk_fits (vu_vrf_public_key d)"

interpretation validator_updatew: wire_format write_validator_update_data valid_validator_update_data
  by unfold_locales (simp add: write_validator_update_data_def valid_validator_update_data_def wire_iffs)

definition write_vrf_commit_data :: "vrf_commit_data \<Rightarrow> u8 list" where
  "write_vrf_commit_data d =
     write_u64 (vc_target_epoch d) @ write_hash (vc_commitment d)"

definition valid_vrf_commit_data :: "vrf_commit_data \<Rightarrow> bool" where
  "valid_vrf_commit_data d \<longleftrightarrow>
     wf_hash (vc_commitment d)"

interpretation vrf_commitw: wire_format write_vrf_commit_data valid_vrf_commit_data
  by unfold_locales (simp add: write_vrf_commit_data_def valid_vrf_commit_data_def wire_iffs)

definition write_vrf_contribution_data :: "vrf_contribution_data \<Rightarrow> u8 list" where
  "write_vrf_contribution_data d =
     write_u64 (vd_target_epoch d) @ write_bytes (vd_vrf_output d) @ write_bytes (vd_vrf_proof d)"

definition valid_vrf_contribution_data :: "vrf_contribution_data \<Rightarrow> bool" where
  "valid_vrf_contribution_data d \<longleftrightarrow>
     fits_u64 (vd_vrf_output d) \<and> fits_u64 (vd_vrf_proof d)"

interpretation vrf_contributionw: wire_format write_vrf_contribution_data valid_vrf_contribution_data
  by unfold_locales (simp add: write_vrf_contribution_data_def valid_vrf_contribution_data_def wire_iffs)

subsection \<open>Contracts\<close>

definition write_contract_source_language :: "contract_source_language \<Rightarrow> u8 list" where
  "write_contract_source_language p =
     write_u32 (case p of SrcWat \<Rightarrow> 0 | SrcRust \<Rightarrow> 1 | SrcAssemblyScript \<Rightarrow> 2)"

interpretation languagew: wire_format write_contract_source_language "\<lambda>_. True"
  by unfold_locales (auto simp: write_contract_source_language_def u32w.append_iff split: contract_source_language.splits)

lemmas languagew_iffs [wire_iffs] = languagew.append_iff

record contract_source_proof =
  csp_language :: contract_source_language
  csp_compiler :: rstr
  csp_source_code :: rstr
  csp_bytecode_witness :: "rstr option"

definition write_contract_source_proof :: "contract_source_proof \<Rightarrow> u8 list" where
  "write_contract_source_proof d =
     write_contract_source_language (csp_language d) @ write_string (csp_compiler d)
     @ write_string (csp_source_code d) @ write_option write_string (csp_bytecode_witness d)"

definition valid_contract_source_proof :: "contract_source_proof \<Rightarrow> bool" where
  "valid_contract_source_proof d \<longleftrightarrow>
     valid_string (csp_compiler d) \<and> valid_string (csp_source_code d)
     \<and> valid_opt valid_string (csp_bytecode_witness d)"

interpretation contract_source_proofw: wire_format write_contract_source_proof valid_contract_source_proof
  by unfold_locales (simp add: write_contract_source_proof_def valid_contract_source_proof_def wire_iffs)

lemmas contract_source_proofw_iffs [wire_iffs] = contract_source_proofw.append_iff

record contract_deploy_data =
  cdd_bytecode :: "u8 list"

definition write_contract_deploy_data :: "contract_deploy_data \<Rightarrow> u8 list" where
  "write_contract_deploy_data d =
     write_bytes (cdd_bytecode d)"

definition valid_contract_deploy_data :: "contract_deploy_data \<Rightarrow> bool" where
  "valid_contract_deploy_data d \<longleftrightarrow>
     fits_u64 (cdd_bytecode d)"

interpretation contract_deployw: wire_format write_contract_deploy_data valid_contract_deploy_data
  by unfold_locales (simp add: write_contract_deploy_data_def valid_contract_deploy_data_def wire_iffs)

record contract_verify_data =
  cvd_contract_address :: address
  cvd_proof :: contract_source_proof

definition write_contract_verify_data :: "contract_verify_data \<Rightarrow> u8 list" where
  "write_contract_verify_data d =
     write_addr (cvd_contract_address d) @ write_contract_source_proof (cvd_proof d)"

definition valid_contract_verify_data :: "contract_verify_data \<Rightarrow> bool" where
  "valid_contract_verify_data d \<longleftrightarrow>
     wf_addr (cvd_contract_address d) \<and> valid_contract_source_proof (cvd_proof d)"

interpretation contract_verifyw: wire_format write_contract_verify_data valid_contract_verify_data
  by unfold_locales (simp add: write_contract_verify_data_def valid_contract_verify_data_def wire_iffs)

record contract_publish_abi_data =
  cpd_contract_address :: address
  cpd_abi :: contract_abi

definition write_contract_publish_abi_data :: "contract_publish_abi_data \<Rightarrow> u8 list" where
  "write_contract_publish_abi_data d =
     write_addr (cpd_contract_address d) @ write_contract_abi (cpd_abi d)"

definition valid_contract_publish_abi_data :: "contract_publish_abi_data \<Rightarrow> bool" where
  "valid_contract_publish_abi_data d \<longleftrightarrow>
     wf_addr (cpd_contract_address d) \<and> valid_abi (cpd_abi d)"

interpretation contract_publish_abiw: wire_format write_contract_publish_abi_data valid_contract_publish_abi_data
  by unfold_locales (simp add: write_contract_publish_abi_data_def valid_contract_publish_abi_data_def wire_iffs)

record contract_route_update_data =
  crd_route_name :: rstr
  crd_target_contract_address :: address

definition write_contract_route_update_data :: "contract_route_update_data \<Rightarrow> u8 list" where
  "write_contract_route_update_data d =
     write_string (crd_route_name d) @ write_addr (crd_target_contract_address d)"

definition valid_contract_route_update_data :: "contract_route_update_data \<Rightarrow> bool" where
  "valid_contract_route_update_data d \<longleftrightarrow>
     valid_string (crd_route_name d) \<and> wf_addr (crd_target_contract_address d)"

interpretation contract_route_updatew: wire_format write_contract_route_update_data valid_contract_route_update_data
  by unfold_locales (simp add: write_contract_route_update_data_def valid_contract_route_update_data_def wire_iffs)

record contract_route_call_data =
  crc_deployer :: address
  crc_route_name :: rstr
  crc_function :: rstr
  crc_args :: "u8 list"
  crc_gas_limit :: u64

definition write_contract_route_call_data :: "contract_route_call_data \<Rightarrow> u8 list" where
  "write_contract_route_call_data d =
     write_addr (crc_deployer d) @ write_string (crc_route_name d) @ write_string (crc_function d)
     @ write_bytes (crc_args d) @ write_u64 (crc_gas_limit d)"

definition valid_contract_route_call_data :: "contract_route_call_data \<Rightarrow> bool" where
  "valid_contract_route_call_data d \<longleftrightarrow>
     wf_addr (crc_deployer d) \<and> valid_string (crc_route_name d)
     \<and> valid_string (crc_function d) \<and> fits_u64 (crc_args d)"

interpretation contract_route_callw: wire_format write_contract_route_call_data valid_contract_route_call_data
  by unfold_locales (simp add: write_contract_route_call_data_def valid_contract_route_call_data_def wire_iffs)

record contract_call_data =
  ccd_contract_address :: address
  ccd_function :: rstr
  ccd_args :: "u8 list"
  ccd_gas_limit :: u64

definition write_contract_call_data :: "contract_call_data \<Rightarrow> u8 list" where
  "write_contract_call_data d =
     write_addr (ccd_contract_address d) @ write_string (ccd_function d)
     @ write_bytes (ccd_args d) @ write_u64 (ccd_gas_limit d)"

definition valid_contract_call_data :: "contract_call_data \<Rightarrow> bool" where
  "valid_contract_call_data d \<longleftrightarrow>
     wf_addr (ccd_contract_address d) \<and> valid_string (ccd_function d)
     \<and> fits_u64 (ccd_args d)"

interpretation contract_callw: wire_format write_contract_call_data valid_contract_call_data
  by unfold_locales (simp add: write_contract_call_data_def valid_contract_call_data_def wire_iffs)

subsection \<open>Tokens\<close>

record token_create_data =
  tcd_name :: rstr
  tcd_symbol :: rstr
  tcd_decimals :: u8
  tcd_initial_supply :: u64
  tcd_max_supply :: u64
  tcd_burnable :: bool
  tcd_mint_authority :: "address option"
  tcd_metadata :: "u8 list"

definition write_token_create_data :: "token_create_data \<Rightarrow> u8 list" where
  "write_token_create_data d =
     write_string (tcd_name d) @ write_string (tcd_symbol d) @ write_u8 (tcd_decimals d)
     @ write_u64 (tcd_initial_supply d) @ write_u64 (tcd_max_supply d)
     @ write_bool (tcd_burnable d) @ write_option write_addr (tcd_mint_authority d)
     @ write_bytes (tcd_metadata d)"

definition valid_token_create_data :: "token_create_data \<Rightarrow> bool" where
  "valid_token_create_data d \<longleftrightarrow>
     valid_string (tcd_name d) \<and> valid_string (tcd_symbol d)
     \<and> valid_opt wf_addr (tcd_mint_authority d) \<and> fits_u64 (tcd_metadata d)"

interpretation token_createw: wire_format write_token_create_data valid_token_create_data
  by unfold_locales (simp add: write_token_create_data_def valid_token_create_data_def wire_iffs)

record token_mint_data =
  tmt_token_id :: hash256
  tmt_to :: address
  tmt_amount :: u64

definition write_token_mint_data :: "token_mint_data \<Rightarrow> u8 list" where
  "write_token_mint_data d =
     write_hash (tmt_token_id d) @ write_addr (tmt_to d) @ write_u64 (tmt_amount d)"

definition valid_token_mint_data :: "token_mint_data \<Rightarrow> bool" where
  "valid_token_mint_data d \<longleftrightarrow>
     wf_hash (tmt_token_id d) \<and> wf_addr (tmt_to d)"

interpretation token_mintw: wire_format write_token_mint_data valid_token_mint_data
  by unfold_locales (simp add: write_token_mint_data_def valid_token_mint_data_def wire_iffs)

record token_transfer_data =
  ttd_token_id :: hash256
  ttd_to :: address
  ttd_amount :: u64

definition write_token_transfer_data :: "token_transfer_data \<Rightarrow> u8 list" where
  "write_token_transfer_data d =
     write_hash (ttd_token_id d) @ write_addr (ttd_to d) @ write_u64 (ttd_amount d)"

definition valid_token_transfer_data :: "token_transfer_data \<Rightarrow> bool" where
  "valid_token_transfer_data d \<longleftrightarrow>
     wf_hash (ttd_token_id d) \<and> wf_addr (ttd_to d)"

interpretation token_transferw: wire_format write_token_transfer_data valid_token_transfer_data
  by unfold_locales (simp add: write_token_transfer_data_def valid_token_transfer_data_def wire_iffs)

record token_approve_data =
  tpv_token_id :: hash256
  tpv_spender :: address
  tpv_amount :: u64

definition write_token_approve_data :: "token_approve_data \<Rightarrow> u8 list" where
  "write_token_approve_data d =
     write_hash (tpv_token_id d) @ write_addr (tpv_spender d) @ write_u64 (tpv_amount d)"

definition valid_token_approve_data :: "token_approve_data \<Rightarrow> bool" where
  "valid_token_approve_data d \<longleftrightarrow>
     wf_hash (tpv_token_id d) \<and> wf_addr (tpv_spender d)"

interpretation token_approvew: wire_format write_token_approve_data valid_token_approve_data
  by unfold_locales (simp add: write_token_approve_data_def valid_token_approve_data_def wire_iffs)

record token_burn_data =
  tbd_token_id :: hash256
  tbd_amount :: u64

definition write_token_burn_data :: "token_burn_data \<Rightarrow> u8 list" where
  "write_token_burn_data d =
     write_hash (tbd_token_id d) @ write_u64 (tbd_amount d)"

definition valid_token_burn_data :: "token_burn_data \<Rightarrow> bool" where
  "valid_token_burn_data d \<longleftrightarrow>
     wf_hash (tbd_token_id d)"

interpretation token_burnw: wire_format write_token_burn_data valid_token_burn_data
  by unfold_locales (simp add: write_token_burn_data_def valid_token_burn_data_def wire_iffs)

record token_update_authority_data =
  tyd_token_id :: hash256
  tyd_mint_authority :: "address option"

definition write_token_update_authority_data :: "token_update_authority_data \<Rightarrow> u8 list" where
  "write_token_update_authority_data d =
     write_hash (tyd_token_id d) @ write_option write_addr (tyd_mint_authority d)"

definition valid_token_update_authority_data :: "token_update_authority_data \<Rightarrow> bool" where
  "valid_token_update_authority_data d \<longleftrightarrow>
     wf_hash (tyd_token_id d) \<and> valid_opt wf_addr (tyd_mint_authority d)"

interpretation token_update_authorityw: wire_format write_token_update_authority_data valid_token_update_authority_data
  by unfold_locales (simp add: write_token_update_authority_data_def valid_token_update_authority_data_def wire_iffs)

subsection \<open>Capabilities\<close>

record capability_propose_data =
  cpr_slug :: rstr
  cpr_display_name :: rstr
  cpr_description :: rstr
  cpr_category :: rstr
  cpr_parent :: "rstr option"
  cpr_aliases :: "rstr list"
  cpr_keywords :: "rstr list"
  cpr_examples :: "rstr list"
  cpr_related :: "rstr list"

definition write_capability_propose_data :: "capability_propose_data \<Rightarrow> u8 list" where
  "write_capability_propose_data d =
     write_string (cpr_slug d) @ write_string (cpr_display_name d)
     @ write_string (cpr_description d) @ write_string (cpr_category d)
     @ write_option write_string (cpr_parent d) @ write_vec write_string (cpr_aliases d)
     @ write_vec write_string (cpr_keywords d) @ write_vec write_string (cpr_examples d)
     @ write_vec write_string (cpr_related d)"

definition valid_capability_propose_data :: "capability_propose_data \<Rightarrow> bool" where
  "valid_capability_propose_data d \<longleftrightarrow>
     valid_string (cpr_slug d) \<and> valid_string (cpr_display_name d)
     \<and> valid_string (cpr_description d) \<and> valid_string (cpr_category d)
     \<and> valid_opt valid_string (cpr_parent d) \<and> valid_vec valid_string (cpr_aliases d)
     \<and> valid_vec valid_string (cpr_keywords d) \<and> valid_vec valid_string (cpr_examples d)
     \<and> valid_vec valid_string (cpr_related d)"

interpretation capability_proposew: wire_format write_capability_propose_data valid_capability_propose_data
  by unfold_locales (simp add: write_capability_propose_data_def valid_capability_propose_data_def wire_iffs)

record capability_approve_data =
  cap_slug :: rstr
  cap_display_name :: "rstr option"
  cap_description :: "rstr option"
  cap_category :: "rstr option"
  cap_parent :: "rstr option option"
  cap_aliases :: "rstr list option"
  cap_keywords :: "rstr list option"
  cap_examples :: "rstr list option"
  cap_related :: "rstr list option"

definition write_capability_approve_data :: "capability_approve_data \<Rightarrow> u8 list" where
  "write_capability_approve_data d =
     write_string (cap_slug d) @ write_option write_string (cap_display_name d)
     @ write_option write_string (cap_description d) @ write_option write_string (cap_category d)
     @ write_option (write_option write_string) (cap_parent d)
     @ write_option (write_vec write_string) (cap_aliases d)
     @ write_option (write_vec write_string) (cap_keywords d)
     @ write_option (write_vec write_string) (cap_examples d)
     @ write_option (write_vec write_string) (cap_related d)"

definition valid_capability_approve_data :: "capability_approve_data \<Rightarrow> bool" where
  "valid_capability_approve_data d \<longleftrightarrow>
     valid_string (cap_slug d) \<and> valid_opt valid_string (cap_display_name d)
     \<and> valid_opt valid_string (cap_description d)
     \<and> valid_opt valid_string (cap_category d)
     \<and> valid_opt (valid_opt valid_string) (cap_parent d)
     \<and> valid_opt (valid_vec valid_string) (cap_aliases d)
     \<and> valid_opt (valid_vec valid_string) (cap_keywords d)
     \<and> valid_opt (valid_vec valid_string) (cap_examples d)
     \<and> valid_opt (valid_vec valid_string) (cap_related d)"

interpretation capability_approvew: wire_format write_capability_approve_data valid_capability_approve_data
  by unfold_locales (simp add: write_capability_approve_data_def valid_capability_approve_data_def wire_iffs)

record capability_reject_data =
  crj_slug :: rstr
  crj_reason :: rstr

definition write_capability_reject_data :: "capability_reject_data \<Rightarrow> u8 list" where
  "write_capability_reject_data d =
     write_string (crj_slug d) @ write_string (crj_reason d)"

definition valid_capability_reject_data :: "capability_reject_data \<Rightarrow> bool" where
  "valid_capability_reject_data d \<longleftrightarrow>
     valid_string (crj_slug d) \<and> valid_string (crj_reason d)"

interpretation capability_rejectw: wire_format write_capability_reject_data valid_capability_reject_data
  by unfold_locales (simp add: write_capability_reject_data_def valid_capability_reject_data_def wire_iffs)

record capability_deprecate_data =
  cde_slug :: rstr
  cde_replacement :: rstr
  cde_reason :: rstr

definition write_capability_deprecate_data :: "capability_deprecate_data \<Rightarrow> u8 list" where
  "write_capability_deprecate_data d =
     write_string (cde_slug d) @ write_string (cde_replacement d) @ write_string (cde_reason d)"

definition valid_capability_deprecate_data :: "capability_deprecate_data \<Rightarrow> bool" where
  "valid_capability_deprecate_data d \<longleftrightarrow>
     valid_string (cde_slug d) \<and> valid_string (cde_replacement d)
     \<and> valid_string (cde_reason d)"

interpretation capability_deprecatew: wire_format write_capability_deprecate_data valid_capability_deprecate_data
  by unfold_locales (simp add: write_capability_deprecate_data_def valid_capability_deprecate_data_def wire_iffs)

subsection \<open>Read delegations\<close>

record delegation_grant_data =
  dgd_delegate_public_key :: "u8 list"
  dgd_service_id :: rstr
  dgd_scope_mask :: u64
  dgd_expires_at_ms :: u64

definition write_delegation_grant_data :: "delegation_grant_data \<Rightarrow> u8 list" where
  "write_delegation_grant_data d =
     write_raw (dgd_delegate_public_key d) @ write_string (dgd_service_id d)
     @ write_u64 (dgd_scope_mask d) @ write_u64 (dgd_expires_at_ms d)"

definition valid_delegation_grant_data :: "delegation_grant_data \<Rightarrow> bool" where
  "valid_delegation_grant_data d \<longleftrightarrow>
     fits_32 (dgd_delegate_public_key d) \<and> valid_string (dgd_service_id d)"

interpretation delegation_grantw: wire_format write_delegation_grant_data valid_delegation_grant_data
  by unfold_locales (simp add: write_delegation_grant_data_def valid_delegation_grant_data_def wire_iffs)

record delegation_revoke_data =
  drd_delegation_id :: hash256

definition write_delegation_revoke_data :: "delegation_revoke_data \<Rightarrow> u8 list" where
  "write_delegation_revoke_data d =
     write_hash (drd_delegation_id d)"

definition valid_delegation_revoke_data :: "delegation_revoke_data \<Rightarrow> bool" where
  "valid_delegation_revoke_data d \<longleftrightarrow>
     wf_hash (drd_delegation_id d)"

interpretation delegation_revokew: wire_format write_delegation_revoke_data valid_delegation_revoke_data
  by unfold_locales (simp add: write_delegation_revoke_data_def valid_delegation_revoke_data_def wire_iffs)

subsection \<open>Batches\<close>

definition write_batch_operation :: "batch_operation \<Rightarrow> u8 list" where
  "write_batch_operation d =
     write_tx_type (bop_tx_type d) @ write_addr (bop_recipient d) @ write_u64 (bop_amount d)
     @ write_bytes (bop_data d)"

definition valid_batch_operation :: "batch_operation \<Rightarrow> bool" where
  "valid_batch_operation d \<longleftrightarrow>
     wf_addr (bop_recipient d) \<and> fits_u64 (bop_data d)"

interpretation batch_operationw: wire_format write_batch_operation valid_batch_operation
  by unfold_locales (simp add: write_batch_operation_def valid_batch_operation_def wire_iffs)

lemmas batch_operationw_iffs [wire_iffs] = batch_operationw.append_iff batch_operationw.vec_append_iff

record batch_data =
  btd_operations :: "batch_operation list"

definition write_batch_data :: "batch_data \<Rightarrow> u8 list" where
  "write_batch_data d =
     write_vec write_batch_operation (btd_operations d)"

definition valid_batch_data :: "batch_data \<Rightarrow> bool" where
  "valid_batch_data d \<longleftrightarrow>
     valid_vec valid_batch_operation (btd_operations d)"

interpretation batchw: wire_format write_batch_data valid_batch_data
  by unfold_locales (simp add: write_batch_data_def valid_batch_data_def wire_iffs)

end
