(* ===== verification/Wallet_Core.thy ===== *)
theory Wallet_Core
  imports Payload
begin

text \<open>
  The core of \<open>AgentWallet\<close> (\<open>wallet/agent_wallet.rs\<close>): the signing backend, the wallet's
  state, the nonce counter, neural embeddings, \<open>sign_transaction\<close>, and the transaction literal
  all builders share (\<open>build_tx\<close>). The builders themselves are in \<open>Wallet\<close>.

  What the wallet reads from outside is the record \<open>wallet_env\<close>, an argument: the clock, the
  embedding service (a \<open>curl\<close> process and its JSON answer) and the built-in embedder. Each
  builder takes its own, so the environment may change between calls. A builder returns its
  result and the wallet it leaves behind. \<open>bincode::serialize\<close> does not fail on the payload
  types, so its error branch does not occur.

  The contract between the wallet and its signing backend is the locale
  \<open>transaction_signer\<close>, interpreted on the backend the crate provides, an Ed25519 key pair.
\<close>

subsection \<open>State\<close>

record tx_signer =
  sg_public_key :: public_key
  sg_sign_transaction :: "transaction \<Rightarrow> hash256 \<Rightarrow> rstr + signature"

definition keypair_signer :: "externs \<Rightarrow> keypair \<Rightarrow> tx_signer" where
  "keypair_signer X kp =
     \<lparr>sg_public_key = kp_public_key X kp,
      sg_sign_transaction = (\<lambda>_ tx_hash. Ok (kp_sign X kp (hash_as_bytes tx_hash)))\<rparr>"

record agent_wallet =
  aw_signer :: tx_signer
  aw_chain_id :: rstr
  aw_nonce :: u64
  aw_rpc_endpoint :: rstr
  aw_embed_url :: "rstr option"
  aw_tx_validity_window :: "(u64 \<times> hash256 \<times> u64) option"
  aw_timestamp_ms :: "u64 option"

record wallet_env =
  we_now_ms :: u64
  we_fetch_embedding :: "rstr \<Rightarrow> rstr \<Rightarrow> rstr + f32_bits list"
  we_embed_text :: "rstr \<Rightarrow> f32_bits list"

datatype wallet_error =
    SenderNotSigner | SigningFailed rstr | SelfCheckFailed tx_error
  | VrfKeyNotSigner | VrfDataInvalid validator_error
  | BatchEmpty | BatchTooLarge | PayoutsEmpty | RatingInvalid rating_error
  | ServiceIdInvalid service_id_error | UnknownScope | InvalidCapability rstr slug_error
  | NoEmbedService | EmbeddingFailed rstr | NotHex | NotATransaction

type_synonym built = "(wallet_error + signed_transaction) \<times> agent_wallet"

subsection \<open>Construction and settings\<close>

definition wallet_from_signer :: "tx_signer \<Rightarrow> rstr \<Rightarrow> rstr \<Rightarrow> agent_wallet" where
  "wallet_from_signer signer chain_id rpc_endpoint =
     \<lparr>aw_signer = signer, aw_chain_id = chain_id, aw_nonce = 0, aw_rpc_endpoint = rpc_endpoint,
      aw_embed_url = None, aw_tx_validity_window = None, aw_timestamp_ms = None\<rparr>"

definition wallet_new :: "externs \<Rightarrow> keypair \<Rightarrow> rstr \<Rightarrow> rstr \<Rightarrow> agent_wallet" where
  "wallet_new X keypair chain_id rpc_endpoint =
     wallet_from_signer (keypair_signer X keypair) chain_id rpc_endpoint"

definition wallet_from_secret :: "externs \<Rightarrow> u8 list \<Rightarrow> rstr \<Rightarrow> rstr \<Rightarrow> agent_wallet" where
  "wallet_from_secret X secret chain_id rpc_endpoint =
     wallet_new X (from_secret_bytes secret) chain_id rpc_endpoint"

definition set_embed_url :: "agent_wallet \<Rightarrow> rstr \<Rightarrow> agent_wallet" where
  "set_embed_url w url = w\<lparr>aw_embed_url := Some url\<rparr>"

definition set_transaction_validity_window ::
  "agent_wallet \<Rightarrow> u64 \<Rightarrow> hash256 \<Rightarrow> u64 \<Rightarrow> agent_wallet" where
  "set_transaction_validity_window w reference_block_height reference_block_hash ttl_blocks =
     w\<lparr>aw_tx_validity_window :=
         Some (reference_block_height, reference_block_hash, max ttl_blocks 1)\<rparr>"

definition set_timestamp_ms :: "agent_wallet \<Rightarrow> u64 \<Rightarrow> agent_wallet" where
  "set_timestamp_ms w timestamp_ms = w\<lparr>aw_timestamp_ms := Some timestamp_ms\<rparr>"

definition clear_timestamp_ms :: "agent_wallet \<Rightarrow> agent_wallet" where
  "clear_timestamp_ms w = w\<lparr>aw_timestamp_ms := None\<rparr>"

definition signer_public_key :: "agent_wallet \<Rightarrow> public_key" where
  "signer_public_key w = sg_public_key (aw_signer w)"

definition wallet_address :: "externs \<Rightarrow> agent_wallet \<Rightarrow> address" where
  "wallet_address X w = from_public_key X (signer_public_key w)"

definition public_key_hex :: "externs \<Rightarrow> agent_wallet \<Rightarrow> rstr" where
  "public_key_hex X w = hex_encode X (pk_bytes (signer_public_key w))"

definition set_nonce :: "agent_wallet \<Rightarrow> u64 \<Rightarrow> agent_wallet" where
  "set_nonce w nonce = w\<lparr>aw_nonce := nonce\<rparr>"

definition next_nonce :: "agent_wallet \<Rightarrow> u64 \<times> agent_wallet" where
  "next_nonce w = (aw_nonce w, w\<lparr>aw_nonce := aw_nonce w + 1\<rparr>)"

definition transaction_timestamp_ms :: "wallet_env \<Rightarrow> agent_wallet \<Rightarrow> u64" where
  "transaction_timestamp_ms E w =
     (case aw_timestamp_ms w of Some t \<Rightarrow> t | None \<Rightarrow> we_now_ms E)"

subsection \<open>Embeddings\<close>

definition compute_embedding :: "wallet_env \<Rightarrow> agent_wallet \<Rightarrow> rstr \<Rightarrow> f32_bits list" where
  "compute_embedding E w t =
     (case aw_embed_url w of
        Some url \<Rightarrow> (case we_fetch_embedding E url t of Ok v \<Rightarrow> v | Err _ \<Rightarrow> we_embed_text E t)
      | None \<Rightarrow> we_embed_text E t)"

definition compute_neural_embedding :: "wallet_env \<Rightarrow> agent_wallet \<Rightarrow> rstr \<Rightarrow> f32_bits list option" where
  "compute_neural_embedding E w t =
     (case aw_embed_url w of
        None \<Rightarrow> None
      | Some url \<Rightarrow> (case we_fetch_embedding E url t of Ok v \<Rightarrow> Some v | Err _ \<Rightarrow> None))"

definition has_neural_embedding_service :: "agent_wallet \<Rightarrow> bool" where
  "has_neural_embedding_service w \<longleftrightarrow> aw_embed_url w \<noteq> None"

definition compute_neural_embedding_strict ::
  "wallet_env \<Rightarrow> agent_wallet \<Rightarrow> rstr \<Rightarrow> wallet_error + f32_bits list" where
  "compute_neural_embedding_strict E w t =
     bind_result (ok_or (aw_embed_url w) NoEmbedService) (\<lambda>url.
       case we_fetch_embedding E url t of Ok v \<Rightarrow> Ok v | Err e \<Rightarrow> Err (EmbeddingFailed e))"

definition semantic_profile_text :: "rstr \<Rightarrow> rstr \<Rightarrow> capability list \<Rightarrow> rstr" where
  "semantic_profile_text name description capabilities =
     name @ [0x20] @ description @ [0x20] @ join_with [0x20] (map cap_str capabilities)"

definition compute_agent_neural_embedding ::
  "wallet_env \<Rightarrow> agent_wallet \<Rightarrow> rstr \<Rightarrow> rstr \<Rightarrow> capability list \<Rightarrow> f32_bits list option" where
  "compute_agent_neural_embedding E w name description capabilities =
     compute_neural_embedding E w (semantic_profile_text name description capabilities)"

definition compute_agent_neural_embedding_strict ::
  "wallet_env \<Rightarrow> agent_wallet \<Rightarrow> rstr \<Rightarrow> rstr \<Rightarrow> capability list \<Rightarrow> wallet_error + f32_bits list" where
  "compute_agent_neural_embedding_strict E w name description capabilities =
     compute_neural_embedding_strict E w (semantic_profile_text name description capabilities)"

text \<open>The embedding of an agent update: kept when given, cleared when the profile changes
  without being complete.\<close>

definition update_embedding ::
  "wallet_env \<Rightarrow> agent_wallet \<Rightarrow> rstr option \<Rightarrow> rstr option \<Rightarrow> capability list option
   \<Rightarrow> f32_bits list option \<Rightarrow> f32_bits list option" where
  "update_embedding E w name description capabilities neural_embedding =
     (let semantic_update = name \<noteq> None \<or> description \<noteq> None \<or> capabilities \<noteq> None
      in case neural_embedding of
           Some embedding \<Rightarrow> Some embedding
         | None \<Rightarrow>
             if \<not> semantic_update then None
             else (case (name, description, capabilities) of
                     (Some n, Some d, Some cs) \<Rightarrow>
                       (case compute_agent_neural_embedding E w n d cs of
                          Some v \<Rightarrow> Some v | None \<Rightarrow> Some [])
                   | _ \<Rightarrow> Some []))"

subsection \<open>Signing\<close>

definition wallet_sign_transaction ::
  "externs \<Rightarrow> agent_wallet \<Rightarrow> transaction \<Rightarrow> wallet_error + signed_transaction" where
  "wallet_sign_transaction X w tx0 =
     (let tx = (if \<not> has_explicit_validity_window tx0
                then (case aw_tx_validity_window w of
                        Some (reference_height, reference_hash, ttl_blocks) \<Rightarrow>
                          set_validity_window tx0 reference_height reference_hash ttl_blocks
                      | None \<Rightarrow> tx0)
                else tx0);
          public_key = signer_public_key w;
          expected_sender = from_public_key X public_key
      in if tx_sender tx \<noteq> expected_sender then Err SenderNotSigner
         else let tx_hash = tx_hash_of X tx in
           case sg_sign_transaction (aw_signer w) tx tx_hash of
             Err e \<Rightarrow> Err (SigningFailed e)
           | Ok sig \<Rightarrow>
               let signed_tx = \<lparr>st_transaction = tx, st_signature = sig,
                                st_public_key = public_key, st_hash = tx_hash\<rparr>
               in case verify_signed X signed_tx of
                    Err e \<Rightarrow> Err (SelfCheckFailed e)
                  | Ok _ \<Rightarrow> Ok signed_tx)"

definition ensure_vrf_public_key_matches_signer ::
  "agent_wallet \<Rightarrow> public_key \<Rightarrow> wallet_error + unit" where
  "ensure_vrf_public_key_matches_signer w vrf_public_key =
     (if pk_bytes vrf_public_key \<noteq> pk_bytes (signer_public_key w) then Err VrfKeyNotSigner else Ok ())"

definition ensure_vrf_keypair_matches_signer ::
  "externs \<Rightarrow> agent_wallet \<Rightarrow> keypair \<Rightarrow> wallet_error + unit" where
  "ensure_vrf_keypair_matches_signer X w vrf_keypair =
     ensure_vrf_public_key_matches_signer w (kp_public_key X vrf_keypair)"

subsection \<open>The shared transaction literal\<close>

text \<open>Every builder fills in the same literal. Its fields are evaluated in order, so the nonce
  is taken before the transaction is signed, and stays taken when signing fails.\<close>

definition build_tx_with_priority_fee ::
  "externs \<Rightarrow> wallet_env \<Rightarrow> agent_wallet \<Rightarrow> tx_type \<Rightarrow> address \<Rightarrow> u64 \<Rightarrow> u64 \<Rightarrow> u64 \<Rightarrow> u8 list \<Rightarrow> built" where
  "build_tx_with_priority_fee X E w ty recipient amount fee max_priority_fee_per_gas data =
     (let (nonce, w') = next_nonce w;
          tx = \<lparr>tx_type_of = ty, tx_sender = wallet_address X w, tx_recipient = recipient,
                tx_amount = amount, tx_fee = fee,
                tx_max_priority_fee_per_gas = max_priority_fee_per_gas, tx_nonce = nonce,
                tx_timestamp = transaction_timestamp_ms E w', tx_reference_block_height = 0,
                tx_reference_block_hash = hash_zero, tx_max_valid_block_height = 0,
                tx_data = data, tx_chain_id = aw_chain_id w'\<rparr>
      in (wallet_sign_transaction X w' tx, w'))"

definition build_tx ::
  "externs \<Rightarrow> wallet_env \<Rightarrow> agent_wallet \<Rightarrow> tx_type \<Rightarrow> address \<Rightarrow> u64 \<Rightarrow> u64 \<Rightarrow> u8 list \<Rightarrow> built" where
  "build_tx X E w ty recipient amount fee data =
     build_tx_with_priority_fee X E w ty recipient amount fee 0 data"

text \<open>Checks made before the literal is evaluated: their error leaves the wallet alone.\<close>

definition guarded_build ::
  "agent_wallet \<Rightarrow> wallet_error + 'a \<Rightarrow> ('a \<Rightarrow> built) \<Rightarrow> built" where
  "guarded_build w checked k = (case checked of Err e \<Rightarrow> (Err e, w) | Ok x \<Rightarrow> k x)"

subsection \<open>Text form\<close>

definition tx_to_hex :: "externs \<Rightarrow> signed_transaction \<Rightarrow> rstr" where
  "tx_to_hex X signed_tx = hex_encode X (serialize_signed_transaction signed_tx)"

text \<open>\<open>de\<close> is \<open>bincode::deserialize\<close> at \<open>SignedTransaction\<close>, which ignores trailing bytes.\<close>

definition tx_from_hex ::
  "externs \<Rightarrow> (u8 list \<Rightarrow> (signed_transaction \<times> u8 list) option) \<Rightarrow> rstr
   \<Rightarrow> wallet_error + signed_transaction" where
  "tx_from_hex X de hex_str =
     bind_result (ok_or (hex_decode X hex_str) NotHex) (\<lambda>bytes.
       case de bytes of None \<Rightarrow> Err NotATransaction | Some (st, _) \<Rightarrow> Ok st)"

end
