(* ===== verification/Wallet.thy ===== *)
theory Wallet
  imports Wallet_Core
begin

text \<open>
  The builders of \<open>AgentWallet\<close> (\<open>wallet/agent_wallet.rs\<close>), in the order of the source. Each
  assembles its payload, encodes it and hands it to the shared transaction literal
  (\<open>build_tx\<close>). Validations that precede the literal leave the wallet alone on failure.
\<close>

subsection \<open>Capability names\<close>

definition normalize_capability_slug_field :: "rstr \<Rightarrow> rstr \<Rightarrow> wallet_error + rstr" where
  "normalize_capability_slug_field label s =
     (let normalized = to_ascii_lowercase (trim s) in
      case normalize_capability_slug normalized of
        Ok _ \<Rightarrow> Ok normalized
      | Err e \<Rightarrow> Err (InvalidCapability label e))"

fun normalize_capability_slug_list :: "rstr \<Rightarrow> rstr list \<Rightarrow> wallet_error + rstr list" where
  "normalize_capability_slug_list label [] = Ok []"
| "normalize_capability_slug_list label (s # ss) =
     bind_result (normalize_capability_slug_field label s) (\<lambda>t.
       bind_result (normalize_capability_slug_list label ss) (\<lambda>ts. Ok (t # ts)))"

fun normalize_opt :: "('a \<Rightarrow> wallet_error + 'a) \<Rightarrow> 'a option \<Rightarrow> wallet_error + 'a option" where
  "normalize_opt f None = Ok None"
| "normalize_opt f (Some x) = bind_result (f x) (\<lambda>y. Ok (Some y))"

definition normalize_capability_proposal ::
  "capability_propose_data \<Rightarrow> wallet_error + capability_propose_data" where
  "normalize_capability_proposal d =
     bind_result (normalize_capability_slug_field (lit ''slug'') (cpr_slug d)) (\<lambda>slug.
     bind_result (normalize_opt (normalize_capability_slug_field (lit ''parent'')) (cpr_parent d)) (\<lambda>parent.
     bind_result (normalize_capability_slug_list (lit ''alias'') (cpr_aliases d)) (\<lambda>aliases.
     bind_result (normalize_capability_slug_list (lit ''related'') (cpr_related d)) (\<lambda>related.
       Ok (d\<lparr>cpr_slug := slug, cpr_parent := parent, cpr_aliases := aliases,
             cpr_related := related\<rparr>)))))"

definition normalize_capability_approval ::
  "capability_approve_data \<Rightarrow> wallet_error + capability_approve_data" where
  "normalize_capability_approval d =
     bind_result (normalize_capability_slug_field (lit ''slug'') (cap_slug d)) (\<lambda>slug.
     bind_result (normalize_opt (normalize_opt (normalize_capability_slug_field (lit ''parent'')))
                    (cap_parent d)) (\<lambda>parent.
     bind_result (normalize_opt (normalize_capability_slug_list (lit ''alias'')) (cap_aliases d)) (\<lambda>aliases.
     bind_result (normalize_opt (normalize_capability_slug_list (lit ''related'')) (cap_related d)) (\<lambda>related.
       Ok (d\<lparr>cap_slug := slug, cap_parent := parent, cap_aliases := aliases,
             cap_related := related\<rparr>)))))"

definition normalize_capability_rejection ::
  "capability_reject_data \<Rightarrow> wallet_error + capability_reject_data" where
  "normalize_capability_rejection d =
     bind_result (normalize_capability_slug_field (lit ''slug'') (crj_slug d)) (\<lambda>slug.
       Ok (d\<lparr>crj_slug := slug\<rparr>))"

definition normalize_capability_deprecation ::
  "capability_deprecate_data \<Rightarrow> wallet_error + capability_deprecate_data" where
  "normalize_capability_deprecation d =
     bind_result (normalize_capability_slug_field (lit ''slug'') (cde_slug d)) (\<lambda>slug.
     bind_result (normalize_capability_slug_field (lit ''replacement'') (cde_replacement d)) (\<lambda>replacement.
       Ok (d\<lparr>cde_slug := slug, cde_replacement := replacement\<rparr>)))"

subsection \<open>Epoch randomness\<close>

definition build_validator_vrf_reveal_data ::
  "externs \<Rightarrow> agent_wallet \<Rightarrow> u64 \<Rightarrow> hash256 \<Rightarrow> keypair \<Rightarrow> wallet_error + vrf_contribution_data" where
  "build_validator_vrf_reveal_data X w target_epoch prior_seed vrf_keypair =
     bind_result (ensure_vrf_keypair_matches_signer X w vrf_keypair) (\<lambda>_.
       let signable = proof_signable_bytes (aw_chain_id w) (wallet_address X w) target_epoch prior_seed;
           proof_bytes = sig_bytes (kp_sign X vrf_keypair signable)
       in case expected_output_from_proof X (kp_public_key X vrf_keypair) (aw_chain_id w)
                 (wallet_address X w) target_epoch prior_seed proof_bytes of
            Err e \<Rightarrow> Err (VrfDataInvalid e)
          | Ok vrf_output \<Rightarrow>
              Ok \<lparr>vd_target_epoch = target_epoch, vd_vrf_output = vrf_output,
                  vd_vrf_proof = proof_bytes\<rparr>)"

subsection \<open>Builders\<close>

definition build_transfer ::
  "externs \<Rightarrow> wallet_env \<Rightarrow> agent_wallet \<Rightarrow> address \<Rightarrow> u64
   \<Rightarrow> u64 \<Rightarrow> built" where
  "build_transfer X E w recipient amount fee =
     build_tx X E w Transfer recipient amount fee []"

definition build_entity_link ::
  "externs \<Rightarrow> wallet_env \<Rightarrow> agent_wallet \<Rightarrow> address
   \<Rightarrow> keypair \<Rightarrow> u64 \<Rightarrow> built" where
  "build_entity_link X E w entity authorizer fee =
     build_tx X E w EntityLink addr_zero 0 fee
       (write_entity_link_data
         \<lparr>el_entity = entity, el_authorizer_public_key = Some (kp_public_key X authorizer),
          el_authorizer_signature = Some (kp_sign X authorizer
                    (entity_link_message X (aw_chain_id w) (wallet_address X w) entity))\<rparr>)"

definition build_transfer_with_priority_fee ::
  "externs \<Rightarrow> wallet_env \<Rightarrow> agent_wallet \<Rightarrow> address \<Rightarrow> u64
   \<Rightarrow> u64 \<Rightarrow> u64 \<Rightarrow> built" where
  "build_transfer_with_priority_fee X E w recipient amount fee max_priority_fee_per_gas =
     build_tx_with_priority_fee X E w Transfer recipient amount fee max_priority_fee_per_gas []"

definition build_register_agent_full ::
  "externs \<Rightarrow> wallet_env \<Rightarrow> agent_wallet \<Rightarrow> rstr \<Rightarrow> rstr
   \<Rightarrow> capability list \<Rightarrow> hash256 \<Rightarrow> u64
   \<Rightarrow> (rstr \<times> u64) list \<Rightarrow> u64 \<Rightarrow> built" where
  "build_register_agent_full X E w name description capabilities model_hash min_fee
       fee_schedule fee =
     build_tx X E w AgentRegister addr_zero 0 fee
       (write_agent_register_data
         \<lparr>ard_name = name, ard_description = description,
          ard_neural_embedding = compute_agent_neural_embedding E w name description capabilities,
          ard_model_hash = model_hash, ard_capabilities = capabilities, ard_metadata = [],
          ard_min_fee = min_fee, ard_fee_schedule = fee_schedule\<rparr>)"

definition build_register_agent ::
  "externs \<Rightarrow> wallet_env \<Rightarrow> agent_wallet \<Rightarrow> rstr \<Rightarrow> rstr
   \<Rightarrow> capability list \<Rightarrow> hash256 \<Rightarrow> u64 \<Rightarrow> built" where
  "build_register_agent X E w name description capabilities model_hash fee =
     build_register_agent_full X E w name description capabilities model_hash 0 [] fee"

definition build_submit_task_with_prefs ::
  "externs \<Rightarrow> wallet_env \<Rightarrow> agent_wallet \<Rightarrow> rstr
   \<Rightarrow> capability list \<Rightarrow> u64 \<Rightarrow> u8 \<Rightarrow> u64
   \<Rightarrow> u8 list \<Rightarrow> u64 \<Rightarrow> match_preferences \<Rightarrow> built" where
  "build_submit_task_with_prefs X E w description required_capabilities max_fee priority
       deadline_ms parameters txfee match_preferences =
     build_tx X E w TaskSubmit addr_zero 0 txfee
       (write_task_submit_data
         \<lparr>tsd_description = description,
          tsd_neural_embedding = compute_neural_embedding E w
              (description @ [0x20] @ join_with [0x20] (map cap_str required_capabilities)),
          tsd_required_capabilities = required_capabilities, tsd_max_fee = max_fee,
          tsd_priority = priority, tsd_deadline = deadline_ms, tsd_parameters = parameters,
          tsd_match_preferences = match_preferences\<rparr>)"

definition build_submit_task ::
  "externs \<Rightarrow> wallet_env \<Rightarrow> agent_wallet \<Rightarrow> rstr
   \<Rightarrow> capability list \<Rightarrow> u64 \<Rightarrow> u8 \<Rightarrow> u64
   \<Rightarrow> u8 list \<Rightarrow> u64 \<Rightarrow> built" where
  "build_submit_task X E w description required_capabilities max_fee priority deadline_ms
       parameters txfee =
     build_submit_task_with_prefs X E w description required_capabilities max_fee priority
       deadline_ms parameters txfee match_prefs_default"

definition build_register_validator_with_update ::
  "externs \<Rightarrow> wallet_env \<Rightarrow> agent_wallet \<Rightarrow> u64
   \<Rightarrow> validator_update_data \<Rightarrow> u64 \<Rightarrow> built" where
  "build_register_validator_with_update X E w stake update fee =
     (let update = (if vu_vrf_public_key update = None
                    then update\<lparr>vu_vrf_public_key := Some (signer_public_key w)\<rparr> else update);
          matched = (case vu_vrf_public_key update of
                       Some k \<Rightarrow> ensure_vrf_public_key_matches_signer w k
                     | None \<Rightarrow> Ok ())
      in case matched of
           Err e \<Rightarrow> (Err e, w)
         | Ok _ \<Rightarrow>
             build_tx X E w ValidatorRegister addr_zero stake fee
               (if vu_executor_services update = [] \<and> vu_vrf_public_key update = None then []
                else write_validator_update_data update))"

definition build_register_validator ::
  "externs \<Rightarrow> wallet_env \<Rightarrow> agent_wallet \<Rightarrow> u64 \<Rightarrow> u64
   \<Rightarrow> built" where
  "build_register_validator X E w stake fee =
     build_register_validator_with_update X E w stake
       \<lparr>vu_executor_services = [], vu_vrf_public_key = Some (signer_public_key w)\<rparr> fee"

definition build_register_validator_with_vrf_public_key ::
  "externs \<Rightarrow> wallet_env \<Rightarrow> agent_wallet \<Rightarrow> u64
   \<Rightarrow> public_key \<Rightarrow> u64 \<Rightarrow> built" where
  "build_register_validator_with_vrf_public_key X E w stake vrf_public_key fee =
     build_register_validator_with_update X E w stake
       \<lparr>vu_executor_services = [], vu_vrf_public_key = Some vrf_public_key\<rparr> fee"

definition build_update_validator ::
  "externs \<Rightarrow> wallet_env \<Rightarrow> agent_wallet \<Rightarrow> validator_update_data
   \<Rightarrow> u64 \<Rightarrow> built" where
  "build_update_validator X E w update fee =
     build_tx X E w ValidatorUpdate addr_zero 0 fee (write_validator_update_data update)"

definition build_reactivate_validator ::
  "externs \<Rightarrow> wallet_env \<Rightarrow> agent_wallet \<Rightarrow> u64 \<Rightarrow> built" where
  "build_reactivate_validator X E w fee =
     build_update_validator X E w \<lparr>vu_executor_services = [], vu_vrf_public_key = None\<rparr> fee"

definition build_update_validator_vrf_public_key ::
  "externs \<Rightarrow> wallet_env \<Rightarrow> agent_wallet \<Rightarrow> public_key
   \<Rightarrow> u64 \<Rightarrow> built" where
  "build_update_validator_vrf_public_key X E w vrf_public_key fee =
     guarded_build w (ensure_vrf_public_key_matches_signer w vrf_public_key) (\<lambda>_.
       build_update_validator X E w
         \<lparr>vu_executor_services = [], vu_vrf_public_key = Some vrf_public_key\<rparr> fee)"

definition build_validator_vrf_commit ::
  "externs \<Rightarrow> wallet_env \<Rightarrow> agent_wallet \<Rightarrow> u64 \<Rightarrow> hash256
   \<Rightarrow> keypair \<Rightarrow> u64 \<Rightarrow> built" where
  "build_validator_vrf_commit X E w target_epoch prior_seed vrf_keypair fee =
     guarded_build w (build_validator_vrf_reveal_data X w target_epoch prior_seed vrf_keypair) (\<lambda>reveal.
       case commitment_hash X reveal of
         Err e \<Rightarrow> (Err (VrfDataInvalid e), snd (next_nonce w))
       | Ok commitment \<Rightarrow>
           build_tx X E w ValidatorVrfCommit addr_zero 0 fee
             (write_vrf_commit_data \<lparr>vc_target_epoch = target_epoch, vc_commitment = commitment\<rparr>))"

definition build_validator_vrf_contribution ::
  "externs \<Rightarrow> wallet_env \<Rightarrow> agent_wallet \<Rightarrow> u64 \<Rightarrow> hash256
   \<Rightarrow> keypair \<Rightarrow> u64 \<Rightarrow> built" where
  "build_validator_vrf_contribution X E w target_epoch prior_seed vrf_keypair fee =
     guarded_build w (build_validator_vrf_reveal_data X w target_epoch prior_seed vrf_keypair) (\<lambda>reveal.
       build_tx X E w ValidatorVrfContribution addr_zero 0 fee (write_vrf_contribution_data reveal))"

definition build_create_agreement ::
  "externs \<Rightarrow> wallet_env \<Rightarrow> agent_wallet \<Rightarrow> address list
   \<Rightarrow> u8 list \<Rightarrow> u64 \<Rightarrow> u64 \<Rightarrow> address option
   \<Rightarrow> milestone_def list \<Rightarrow> address \<Rightarrow> payout_share list
   \<Rightarrow> address option \<Rightarrow> u64 \<Rightarrow> built" where
  "build_create_agreement X E w parties terms escrow_amount expires_at arbitrator milestones
       service_provider settlement_allocations approver fee =
     build_tx X E w AgreementCreate addr_zero escrow_amount fee
       (write_agreement_create_data
         \<lparr>ac_parties = parties, ac_terms = terms, ac_escrow_amount = escrow_amount,
          ac_expires_at = expires_at, ac_arbitrator = arbitrator,
          ac_milestones = (if milestones = [] then canonical_single_payment_milestones escrow_amount
             else milestones),
          ac_service_provider = service_provider,
          ac_settlement_allocations = settlement_allocations, ac_settlement_approver = approver\<rparr>)"

definition build_register_tool_with_settlement ::
  "externs \<Rightarrow> wallet_env \<Rightarrow> agent_wallet \<Rightarrow> rstr \<Rightarrow> rstr
   \<Rightarrow> rstr \<Rightarrow> u64 \<Rightarrow> http_tool_settlement_mode \<Rightarrow> u64
   \<Rightarrow> u64 \<Rightarrow> u32 \<Rightarrow> tool_arbitration_policy
   \<Rightarrow> capability list \<Rightarrow> rstr \<Rightarrow> u64 \<Rightarrow> built" where
  "build_register_tool_with_settlement X E w name description endpoint price_per_call
       settlement_mode sla_ms challenge_window_ms max_result_metadata_bytes arbitration_policy
       capabilities version fee =
     build_tx X E w ToolRegister addr_zero 0 fee
       (write_tool_register_data
         \<lparr>trd_name = name, trd_description = description, trd_endpoint = endpoint,
          trd_price_per_call = price_per_call, trd_settlement_mode = settlement_mode,
          trd_sla_ms = sla_ms, trd_challenge_window_ms = challenge_window_ms,
          trd_max_result_metadata_bytes = max_result_metadata_bytes,
          trd_arbitration_policy = arbitration_policy, trd_capabilities = capabilities,
          trd_match_enabled = True,
          trd_neural_embedding = compute_neural_embedding E w (semantic_profile_text name description capabilities),
          trd_version = version\<rparr>)"

definition build_register_tool ::
  "externs \<Rightarrow> wallet_env \<Rightarrow> agent_wallet \<Rightarrow> rstr \<Rightarrow> rstr
   \<Rightarrow> rstr \<Rightarrow> u64 \<Rightarrow> capability list \<Rightarrow> rstr
   \<Rightarrow> u64 \<Rightarrow> built" where
  "build_register_tool X E w name description endpoint price_per_call capabilities version fee =
     build_register_tool_with_settlement X E w name description endpoint price_per_call
       PrepaidAccess 3600000 900000 4096 Protocol capabilities version fee"

definition build_register_tool_result_escrowed ::
  "externs \<Rightarrow> wallet_env \<Rightarrow> agent_wallet \<Rightarrow> rstr \<Rightarrow> rstr
   \<Rightarrow> rstr \<Rightarrow> u64 \<Rightarrow> u64 \<Rightarrow> u64 \<Rightarrow> u32
   \<Rightarrow> capability list \<Rightarrow> rstr \<Rightarrow> u64 \<Rightarrow> built" where
  "build_register_tool_result_escrowed X E w name description endpoint price_per_call sla_ms
       challenge_window_ms max_result_metadata_bytes capabilities version fee =
     build_register_tool_with_settlement X E w name description endpoint price_per_call
       ResultEscrowed sla_ms challenge_window_ms max_result_metadata_bytes Protocol capabilities
       version fee"

definition build_register_tool_milestone_escrowed ::
  "externs \<Rightarrow> wallet_env \<Rightarrow> agent_wallet \<Rightarrow> rstr \<Rightarrow> rstr
   \<Rightarrow> rstr \<Rightarrow> u64 \<Rightarrow> u64 \<Rightarrow> u64 \<Rightarrow> u32
   \<Rightarrow> capability list \<Rightarrow> rstr \<Rightarrow> u64 \<Rightarrow> built" where
  "build_register_tool_milestone_escrowed X E w name description endpoint price_per_call
       sla_ms challenge_window_ms max_result_metadata_bytes capabilities version fee =
     build_register_tool_with_settlement X E w name description endpoint price_per_call
       MilestoneEscrowed sla_ms challenge_window_ms max_result_metadata_bytes Protocol capabilities
       version fee"

definition build_register_tool_metered_usage ::
  "externs \<Rightarrow> wallet_env \<Rightarrow> agent_wallet \<Rightarrow> rstr \<Rightarrow> rstr
   \<Rightarrow> rstr \<Rightarrow> u64 \<Rightarrow> u64 \<Rightarrow> u64 \<Rightarrow> u32
   \<Rightarrow> capability list \<Rightarrow> rstr \<Rightarrow> u64 \<Rightarrow> built" where
  "build_register_tool_metered_usage X E w name description endpoint price_per_unit sla_ms
       challenge_window_ms max_result_metadata_bytes capabilities version fee =
     build_register_tool_with_settlement X E w name description endpoint price_per_unit
       MeteredUsage sla_ms challenge_window_ms max_result_metadata_bytes Protocol capabilities
       version fee"

definition build_create_tool_subscription_plan ::
  "externs \<Rightarrow> wallet_env \<Rightarrow> agent_wallet \<Rightarrow> hash256 \<Rightarrow> rstr
   \<Rightarrow> u64 \<Rightarrow> u64 \<Rightarrow> u32 \<Rightarrow> u64 \<Rightarrow> overage_policy
   \<Rightarrow> u64 \<Rightarrow> built" where
  "build_create_tool_subscription_plan X E w tool_id name price_per_period period_ms
       included_calls included_credits overage_policy fee =
     build_tx X E w ToolSubscriptionPlanCreate addr_zero 0 fee
       (write_plan_create_data
         \<lparr>spc_tool_id = tool_id, spc_name = name, spc_price_per_period = price_per_period,
          spc_period_ms = period_ms, spc_included_calls = included_calls,
          spc_included_credits = included_credits, spc_overage_policy = overage_policy\<rparr>)"

definition build_update_tool_subscription_plan ::
  "externs \<Rightarrow> wallet_env \<Rightarrow> agent_wallet \<Rightarrow> plan_update_data
   \<Rightarrow> u64 \<Rightarrow> built" where
  "build_update_tool_subscription_plan X E w update fee =
     build_tx X E w ToolSubscriptionPlanUpdate addr_zero 0 fee (write_plan_update_data update)"

definition build_start_tool_subscription ::
  "externs \<Rightarrow> wallet_env \<Rightarrow> agent_wallet \<Rightarrow> hash256 \<Rightarrow> u64
   \<Rightarrow> bool \<Rightarrow> u64 \<Rightarrow> built" where
  "build_start_tool_subscription X E w plan_id reserve_amount auto_renew fee =
     build_tx X E w ToolSubscriptionStart addr_zero 0 fee
       (write_subscription_start_data
         \<lparr>sst_plan_id = plan_id, sst_reserve_amount = reserve_amount, sst_auto_renew = auto_renew\<rparr>)"

definition build_top_up_tool_subscription ::
  "externs \<Rightarrow> wallet_env \<Rightarrow> agent_wallet \<Rightarrow> hash256 \<Rightarrow> u64
   \<Rightarrow> u64 \<Rightarrow> built" where
  "build_top_up_tool_subscription X E w subscription_id amount fee =
     build_tx X E w ToolSubscriptionTopUp addr_zero 0 fee
       (write_subscription_top_up_data
         \<lparr>stu_subscription_id = subscription_id, stu_amount = amount\<rparr>)"

definition build_cancel_tool_subscription ::
  "externs \<Rightarrow> wallet_env \<Rightarrow> agent_wallet \<Rightarrow> hash256 \<Rightarrow> u64
   \<Rightarrow> built" where
  "build_cancel_tool_subscription X E w subscription_id fee =
     build_tx X E w ToolSubscriptionCancel addr_zero 0 fee
       (write_subscription_cancel_data
         \<lparr>scn_subscription_id = subscription_id\<rparr>)"

definition build_resume_tool_subscription_with_reserve ::
  "externs \<Rightarrow> wallet_env \<Rightarrow> agent_wallet \<Rightarrow> hash256 \<Rightarrow> u64
   \<Rightarrow> u64 \<Rightarrow> built" where
  "build_resume_tool_subscription_with_reserve X E w subscription_id reserve_amount fee =
     build_tx X E w ToolSubscriptionResume addr_zero 0 fee
       (write_subscription_resume_data
         \<lparr>srs_subscription_id = subscription_id, srs_reserve_amount = reserve_amount\<rparr>)"

definition build_resume_tool_subscription ::
  "externs \<Rightarrow> wallet_env \<Rightarrow> agent_wallet \<Rightarrow> hash256 \<Rightarrow> u64
   \<Rightarrow> built" where
  "build_resume_tool_subscription X E w subscription_id fee =
     build_resume_tool_subscription_with_reserve X E w subscription_id 0 fee"

definition build_renew_tool_subscription ::
  "externs \<Rightarrow> wallet_env \<Rightarrow> agent_wallet \<Rightarrow> hash256 \<Rightarrow> u64
   \<Rightarrow> built" where
  "build_renew_tool_subscription X E w subscription_id fee =
     build_tx X E w ToolSubscriptionRenew addr_zero 0 fee
       (write_subscription_renew_data
         \<lparr>srn_subscription_id = subscription_id\<rparr>)"

definition build_stake ::
  "externs \<Rightarrow> wallet_env \<Rightarrow> agent_wallet \<Rightarrow> u64
   \<Rightarrow> stake_target \<Rightarrow> u64 \<Rightarrow> built" where
  "build_stake X E w amount target fee =
     build_tx X E w Stake addr_zero amount fee (write_stake_target target)"

definition build_requester_auto_match_bond ::
  "externs \<Rightarrow> wallet_env \<Rightarrow> agent_wallet \<Rightarrow> u64 \<Rightarrow> u64
   \<Rightarrow> built" where
  "build_requester_auto_match_bond X E w amount fee =
     build_tx X E w Stake addr_zero amount fee (write_stake_target StakeRequesterAutoMatch)"

definition build_unstake ::
  "externs \<Rightarrow> wallet_env \<Rightarrow> agent_wallet \<Rightarrow> u64
   \<Rightarrow> stake_target \<Rightarrow> u64 \<Rightarrow> built" where
  "build_unstake X E w amount target fee =
     build_tx X E w Unstake addr_zero amount fee (write_stake_target target)"

definition build_exit_validator ::
  "externs \<Rightarrow> wallet_env \<Rightarrow> agent_wallet \<Rightarrow> u64 \<Rightarrow> built" where
  "build_exit_validator X E w fee =
     build_tx X E w ValidatorExit addr_zero 0 fee []"

definition build_fulfill_task ::
  "externs \<Rightarrow> wallet_env \<Rightarrow> agent_wallet \<Rightarrow> hash256
   \<Rightarrow> hash256 \<Rightarrow> u8 list \<Rightarrow> hash256 list \<Rightarrow> hash256 list
   \<Rightarrow> u64 \<Rightarrow> built" where
  "build_fulfill_task X E w task_id result_hash result_data tools_used input_refs fee =
     build_tx X E w TaskFulfill addr_zero 0 fee
       (write_task_fulfill_data
         \<lparr>tfd_task_id = task_id, tfd_result_hash = result_hash, tfd_result_data = result_data,
          tfd_tools_used = tools_used, tfd_input_refs = input_refs, tfd_receipt_proofs = []\<rparr>)"

definition build_fulfill_task_verified ::
  "externs \<Rightarrow> wallet_env \<Rightarrow> agent_wallet \<Rightarrow> hash256
   \<Rightarrow> hash256 \<Rightarrow> u8 list \<Rightarrow> hash256 list \<Rightarrow> hash256 list
   \<Rightarrow> receipt_with_proof list \<Rightarrow> u64 \<Rightarrow> built" where
  "build_fulfill_task_verified X E w task_id result_hash result_data tools_used input_refs
       receipt_proofs fee =
     build_tx X E w TaskFulfill addr_zero 0 fee
       (write_task_fulfill_data
         \<lparr>tfd_task_id = task_id, tfd_result_hash = result_hash, tfd_result_data = result_data,
          tfd_tools_used = tools_used, tfd_input_refs = input_refs,
          tfd_receipt_proofs = receipt_proofs\<rparr>)"

definition build_accept_task ::
  "externs \<Rightarrow> wallet_env \<Rightarrow> agent_wallet \<Rightarrow> hash256 \<Rightarrow> u64
   \<Rightarrow> built" where
  "build_accept_task X E w task_id fee =
     build_tx X E w TaskAccept addr_zero 0 fee
       (write_task_accept_data
         \<lparr>tad_task_id = task_id\<rparr>)"

definition build_dispute_task ::
  "externs \<Rightarrow> wallet_env \<Rightarrow> agent_wallet \<Rightarrow> hash256 \<Rightarrow> rstr
   \<Rightarrow> u64 \<Rightarrow> built" where
  "build_dispute_task X E w task_id reason fee =
     build_tx X E w TaskDispute addr_zero 0 fee
       (write_task_dispute_data
         \<lparr>tdd_task_id = task_id, tdd_reason = reason\<rparr>)"

definition build_resolve_task ::
  "externs \<Rightarrow> wallet_env \<Rightarrow> agent_wallet \<Rightarrow> hash256 \<Rightarrow> bool
   \<Rightarrow> rstr \<Rightarrow> u64 \<Rightarrow> built" where
  "build_resolve_task X E w task_id agent_wins reason fee =
     build_tx X E w TaskResolve addr_zero 0 fee
       (write_task_resolve_data
         \<lparr>tvd_task_id = task_id, tvd_agent_wins = agent_wins, tvd_reason = reason\<rparr>)"

definition build_finalize_task ::
  "externs \<Rightarrow> wallet_env \<Rightarrow> agent_wallet \<Rightarrow> hash256 \<Rightarrow> u64
   \<Rightarrow> built" where
  "build_finalize_task X E w task_id fee =
     build_tx X E w TaskFinalize addr_zero 0 fee
       (write_task_finalize_data
         \<lparr>tnd_task_id = task_id\<rparr>)"

definition build_cancel_task ::
  "externs \<Rightarrow> wallet_env \<Rightarrow> agent_wallet \<Rightarrow> hash256 \<Rightarrow> u64
   \<Rightarrow> built" where
  "build_cancel_task X E w task_id fee =
     build_tx X E w TaskCancel addr_zero 0 fee (hash_as_bytes task_id)"

definition build_decompose_task ::
  "externs \<Rightarrow> wallet_env \<Rightarrow> agent_wallet \<Rightarrow> hash256
   \<Rightarrow> sub_task_def list \<Rightarrow> u64 \<Rightarrow> built" where
  "build_decompose_task X E w task_id subtasks fee =
     build_tx X E w TaskDecompose addr_zero 0 fee
       (write_task_decompose_data
         \<lparr>tpd_task_id = task_id, tpd_subtasks = subtasks\<rparr>)"

definition build_batch ::
  "externs \<Rightarrow> wallet_env \<Rightarrow> agent_wallet \<Rightarrow> batch_operation list
   \<Rightarrow> u64 \<Rightarrow> built" where
  "build_batch X E w operations fee =
     (if operations = [] then (Err BatchEmpty, w)
      else if 16 < length operations then (Err BatchTooLarge, w)
      else build_tx X E w Batch addr_zero 0 fee (write_batch_data \<lparr>btd_operations = operations\<rparr>))"

definition build_update_agent_full ::
  "externs \<Rightarrow> wallet_env \<Rightarrow> agent_wallet \<Rightarrow> rstr option
   \<Rightarrow> rstr option \<Rightarrow> f32_bits list option \<Rightarrow> hash256 option
   \<Rightarrow> capability list option \<Rightarrow> u8 list option \<Rightarrow> bool option
   \<Rightarrow> u64 option \<Rightarrow> (rstr \<times> u64) list option \<Rightarrow> u64
   \<Rightarrow> built" where
  "build_update_agent_full X E w name description neural_embedding model_hash capabilities
       metadata active min_fee fee_schedule fee =
     build_tx X E w AgentUpdate addr_zero 0 fee
       (write_agent_update_data
         \<lparr>aud_name = name, aud_description = description,
          aud_neural_embedding = update_embedding E w name description capabilities neural_embedding,
          aud_model_hash = model_hash, aud_capabilities = capabilities, aud_metadata = metadata,
          aud_active = active, aud_min_fee = min_fee, aud_fee_schedule = fee_schedule\<rparr>)"

definition build_update_agent ::
  "externs \<Rightarrow> wallet_env \<Rightarrow> agent_wallet \<Rightarrow> rstr option
   \<Rightarrow> rstr option \<Rightarrow> hash256 option \<Rightarrow> capability list option
   \<Rightarrow> u8 list option \<Rightarrow> bool option \<Rightarrow> u64 \<Rightarrow> built" where
  "build_update_agent X E w name description model_hash capabilities metadata active fee =
     build_update_agent_full X E w name description None model_hash capabilities metadata active
       None None fee"

definition build_update_reputation_with_feedback ::
  "externs \<Rightarrow> wallet_env \<Rightarrow> agent_wallet \<Rightarrow> hash256
   \<Rightarrow> f64_bits \<Rightarrow> bool \<Rightarrow> rstr \<Rightarrow> u64 \<Rightarrow> built" where
  "build_update_reputation_with_feedback X E w task_id quality_score requester_accepted
       feedback fee =
     (let data = \<lparr>ru_task_id = task_id, ru_quality_score = quality_score,
                  ru_requester_accepted = requester_accepted, ru_feedback = take 500 feedback\<rparr>
      in case validate_reputation_update data of
           Err e \<Rightarrow> (Err (RatingInvalid e), w)
         | Ok _ \<Rightarrow>
             build_tx X E w ReputationUpdate addr_zero 0 fee (write_reputation_update_data data))"

definition build_update_reputation ::
  "externs \<Rightarrow> wallet_env \<Rightarrow> agent_wallet \<Rightarrow> hash256
   \<Rightarrow> f64_bits \<Rightarrow> bool \<Rightarrow> u64 \<Rightarrow> built" where
  "build_update_reputation X E w task_id quality_score requester_accepted fee =
     build_update_reputation_with_feedback X E w task_id quality_score requester_accepted [] fee"

definition build_purchase_tool_access ::
  "externs \<Rightarrow> wallet_env \<Rightarrow> agent_wallet \<Rightarrow> hash256
   \<Rightarrow> u8 list \<Rightarrow> u64 \<Rightarrow> built" where
  "build_purchase_tool_access X E w tool_id input_data fee =
     build_tx X E w ToolInvoke addr_zero 0 fee
       (write_tool_invoke_data
         \<lparr>tin_tool_id = tool_id, tin_input_data = input_data, tin_max_metered_units = None,
          tin_gas_limit = DEFAULT_CONTRACT_TOOL_GAS_LIMIT, tin_milestones = []\<rparr>)"

definition build_invoke_tool ::
  "externs \<Rightarrow> wallet_env \<Rightarrow> agent_wallet \<Rightarrow> hash256
   \<Rightarrow> u8 list \<Rightarrow> u64 \<Rightarrow> built" where
  "build_invoke_tool X E w tool_id input_data fee =
     build_tx X E w ToolInvoke addr_zero 0 fee
       (write_tool_invoke_data
         \<lparr>tin_tool_id = tool_id, tin_input_data = input_data, tin_max_metered_units = None,
          tin_gas_limit = DEFAULT_CONTRACT_TOOL_GAS_LIMIT, tin_milestones = []\<rparr>)"

definition build_invoke_metered_tool ::
  "externs \<Rightarrow> wallet_env \<Rightarrow> agent_wallet \<Rightarrow> hash256
   \<Rightarrow> u8 list \<Rightarrow> u64 \<Rightarrow> u64 \<Rightarrow> built" where
  "build_invoke_metered_tool X E w tool_id input_data max_metered_units fee =
     build_tx X E w ToolInvoke addr_zero 0 fee
       (write_tool_invoke_data
         \<lparr>tin_tool_id = tool_id, tin_input_data = input_data,
          tin_max_metered_units = Some max_metered_units,
          tin_gas_limit = DEFAULT_CONTRACT_TOOL_GAS_LIMIT, tin_milestones = []\<rparr>)"

definition build_invoke_milestone_tool ::
  "externs \<Rightarrow> wallet_env \<Rightarrow> agent_wallet \<Rightarrow> hash256
   \<Rightarrow> u8 list \<Rightarrow> tool_milestone_def list \<Rightarrow> u64 \<Rightarrow> built" where
  "build_invoke_milestone_tool X E w tool_id input_data milestones fee =
     build_tx X E w ToolInvoke addr_zero 0 fee
       (write_tool_invoke_data
         \<lparr>tin_tool_id = tool_id, tin_input_data = input_data, tin_max_metered_units = None,
          tin_gas_limit = DEFAULT_CONTRACT_TOOL_GAS_LIMIT, tin_milestones = milestones\<rparr>)"

definition build_submit_tool_result ::
  "externs \<Rightarrow> wallet_env \<Rightarrow> agent_wallet \<Rightarrow> hash256
   \<Rightarrow> hash256 \<Rightarrow> u8 list \<Rightarrow> u64 \<Rightarrow> built" where
  "build_submit_tool_result X E w job_id result_hash result_metadata fee =
     build_tx X E w ToolResultSubmit addr_zero 0 fee
       (write_result_submit_data
         \<lparr>trs_job_id = job_id, trs_result_hash = result_hash,
          trs_result_metadata = result_metadata, trs_milestone_index = None\<rparr>)"

definition build_submit_tool_milestone_result ::
  "externs \<Rightarrow> wallet_env \<Rightarrow> agent_wallet \<Rightarrow> hash256 \<Rightarrow> u32
   \<Rightarrow> hash256 \<Rightarrow> u8 list \<Rightarrow> u64 \<Rightarrow> built" where
  "build_submit_tool_milestone_result X E w job_id milestone_index result_hash result_metadata
       fee =
     build_tx X E w ToolResultSubmit addr_zero 0 fee
       (write_result_submit_data
         \<lparr>trs_job_id = job_id, trs_result_hash = result_hash,
          trs_result_metadata = result_metadata, trs_milestone_index = Some milestone_index\<rparr>)"

definition build_accept_tool_result ::
  "externs \<Rightarrow> wallet_env \<Rightarrow> agent_wallet \<Rightarrow> hash256 \<Rightarrow> u64
   \<Rightarrow> built" where
  "build_accept_tool_result X E w job_id fee =
     build_tx X E w ToolResultAccept addr_zero 0 fee
       (write_result_accept_data
         \<lparr>tra_job_id = job_id, tra_milestone_index = None\<rparr>)"

definition build_accept_tool_milestone_result ::
  "externs \<Rightarrow> wallet_env \<Rightarrow> agent_wallet \<Rightarrow> hash256 \<Rightarrow> u32
   \<Rightarrow> u64 \<Rightarrow> built" where
  "build_accept_tool_milestone_result X E w job_id milestone_index fee =
     build_tx X E w ToolResultAccept addr_zero 0 fee
       (write_result_accept_data
         \<lparr>tra_job_id = job_id, tra_milestone_index = Some milestone_index\<rparr>)"

definition build_dispute_tool_result ::
  "externs \<Rightarrow> wallet_env \<Rightarrow> agent_wallet \<Rightarrow> hash256 \<Rightarrow> rstr
   \<Rightarrow> u64 \<Rightarrow> built" where
  "build_dispute_tool_result X E w job_id reason fee =
     build_tx X E w ToolResultDispute addr_zero 0 fee
       (write_result_dispute_data
         \<lparr>trp_job_id = job_id, trp_reason = reason, trp_milestone_index = None\<rparr>)"

definition build_dispute_tool_milestone_result ::
  "externs \<Rightarrow> wallet_env \<Rightarrow> agent_wallet \<Rightarrow> hash256 \<Rightarrow> u32
   \<Rightarrow> rstr \<Rightarrow> u64 \<Rightarrow> built" where
  "build_dispute_tool_milestone_result X E w job_id milestone_index reason fee =
     build_tx X E w ToolResultDispute addr_zero 0 fee
       (write_result_dispute_data
         \<lparr>trp_job_id = job_id, trp_reason = reason, trp_milestone_index = Some milestone_index\<rparr>)"

definition build_resolve_tool_result ::
  "externs \<Rightarrow> wallet_env \<Rightarrow> agent_wallet \<Rightarrow> hash256 \<Rightarrow> bool
   \<Rightarrow> rstr \<Rightarrow> u64 \<Rightarrow> built" where
  "build_resolve_tool_result X E w job_id provider_wins reason fee =
     build_tx X E w ToolResultResolve addr_zero 0 fee
       (write_result_resolve_data
         \<lparr>trv_job_id = job_id, trv_provider_wins = provider_wins, trv_reason = reason,
          trv_milestone_index = None\<rparr>)"

definition build_resolve_tool_milestone_result ::
  "externs \<Rightarrow> wallet_env \<Rightarrow> agent_wallet \<Rightarrow> hash256 \<Rightarrow> u32
   \<Rightarrow> bool \<Rightarrow> rstr \<Rightarrow> u64 \<Rightarrow> built" where
  "build_resolve_tool_milestone_result X E w job_id milestone_index provider_wins reason fee =
     build_tx X E w ToolResultResolve addr_zero 0 fee
       (write_result_resolve_data
         \<lparr>trv_job_id = job_id, trv_provider_wins = provider_wins, trv_reason = reason,
          trv_milestone_index = Some milestone_index\<rparr>)"

definition build_expire_tool_job ::
  "externs \<Rightarrow> wallet_env \<Rightarrow> agent_wallet \<Rightarrow> hash256 \<Rightarrow> u64
   \<Rightarrow> built" where
  "build_expire_tool_job X E w job_id fee =
     build_tx X E w ToolJobExpire addr_zero 0 fee
       (write_job_expire_data
         \<lparr>tje_job_id = job_id\<rparr>)"

definition build_report_tool_usage ::
  "externs \<Rightarrow> wallet_env \<Rightarrow> agent_wallet \<Rightarrow> hash256 \<Rightarrow> u64
   \<Rightarrow> hash256 \<Rightarrow> u8 list \<Rightarrow> u64 \<Rightarrow> built" where
  "build_report_tool_usage X E w session_id units_used result_hash result_metadata fee =
     build_tx X E w ToolUsageReport addr_zero 0 fee
       (write_usage_report_data
         \<lparr>tur_session_id = session_id, tur_units_used = units_used, tur_result_hash = result_hash,
          tur_result_metadata = result_metadata\<rparr>)"

definition build_accept_tool_usage ::
  "externs \<Rightarrow> wallet_env \<Rightarrow> agent_wallet \<Rightarrow> hash256 \<Rightarrow> u64
   \<Rightarrow> built" where
  "build_accept_tool_usage X E w session_id fee =
     build_tx X E w ToolUsageAccept addr_zero 0 fee
       (write_usage_accept_data
         \<lparr>tua_session_id = session_id\<rparr>)"

definition build_dispute_tool_usage ::
  "externs \<Rightarrow> wallet_env \<Rightarrow> agent_wallet \<Rightarrow> hash256 \<Rightarrow> rstr
   \<Rightarrow> u64 \<Rightarrow> built" where
  "build_dispute_tool_usage X E w session_id reason fee =
     build_tx X E w ToolUsageDispute addr_zero 0 fee
       (write_usage_dispute_data
         \<lparr>tud_session_id = session_id, tud_reason = reason\<rparr>)"

definition build_resolve_tool_usage ::
  "externs \<Rightarrow> wallet_env \<Rightarrow> agent_wallet \<Rightarrow> hash256 \<Rightarrow> bool
   \<Rightarrow> rstr \<Rightarrow> u64 \<Rightarrow> built" where
  "build_resolve_tool_usage X E w session_id provider_wins reason fee =
     build_tx X E w ToolUsageResolve addr_zero 0 fee
       (write_usage_resolve_data
         \<lparr>tuv_session_id = session_id, tuv_provider_wins = provider_wins, tuv_reason = reason\<rparr>)"

definition build_expire_tool_usage ::
  "externs \<Rightarrow> wallet_env \<Rightarrow> agent_wallet \<Rightarrow> hash256 \<Rightarrow> u64
   \<Rightarrow> built" where
  "build_expire_tool_usage X E w session_id fee =
     build_tx X E w ToolUsageExpire addr_zero 0 fee
       (write_usage_expire_data
         \<lparr>tue_session_id = session_id\<rparr>)"

definition build_update_tool ::
  "externs \<Rightarrow> wallet_env \<Rightarrow> agent_wallet \<Rightarrow> hash256
   \<Rightarrow> tool_update_data \<Rightarrow> u64 \<Rightarrow> built" where
  "build_update_tool X E w tool_id update fee =
     build_tx X E w ToolUpdate addr_zero 0 fee (write_tool_update_data update)"

definition build_execute_milestone ::
  "externs \<Rightarrow> wallet_env \<Rightarrow> agent_wallet \<Rightarrow> hash256
   \<Rightarrow> hash256 \<Rightarrow> u32 \<Rightarrow> u64 \<Rightarrow> built" where
  "build_execute_milestone X E w agreement_id result_hash milestone_index fee =
     build_tx X E w AgreementExecute addr_zero 0 fee
       (write_agreement_execute_data
         \<lparr>aed_agreement_id = agreement_id, aed_result_hash = result_hash,
          aed_milestone_index = milestone_index\<rparr>)"

definition build_execute_agreement ::
  "externs \<Rightarrow> wallet_env \<Rightarrow> agent_wallet \<Rightarrow> hash256
   \<Rightarrow> hash256 \<Rightarrow> u64 \<Rightarrow> built" where
  "build_execute_agreement X E w agreement_id result_hash fee =
     build_execute_milestone X E w agreement_id result_hash 0 fee"

definition build_dispute_agreement_with_milestone ::
  "externs \<Rightarrow> wallet_env \<Rightarrow> agent_wallet \<Rightarrow> hash256 \<Rightarrow> rstr
   \<Rightarrow> u32 option \<Rightarrow> u64 \<Rightarrow> built" where
  "build_dispute_agreement_with_milestone X E w agreement_id reason milestone_index fee =
     build_tx X E w AgreementDispute addr_zero 0 fee
       (write_agreement_dispute_data
         \<lparr>agd_agreement_id = agreement_id, agd_reason = reason,
          agd_milestone_index = milestone_index\<rparr>)"

definition build_dispute_agreement ::
  "externs \<Rightarrow> wallet_env \<Rightarrow> agent_wallet \<Rightarrow> hash256 \<Rightarrow> rstr
   \<Rightarrow> u64 \<Rightarrow> built" where
  "build_dispute_agreement X E w agreement_id reason fee =
     build_dispute_agreement_with_milestone X E w agreement_id reason None fee"

definition build_accept_agreement ::
  "externs \<Rightarrow> wallet_env \<Rightarrow> agent_wallet \<Rightarrow> hash256 \<Rightarrow> u64
   \<Rightarrow> built" where
  "build_accept_agreement X E w agreement_id fee =
     build_tx X E w AgreementAccept addr_zero 0 fee
       (write_agreement_accept_data
         \<lparr>aad_agreement_id = agreement_id\<rparr>)"

definition build_resolve_agreement ::
  "externs \<Rightarrow> wallet_env \<Rightarrow> agent_wallet \<Rightarrow> hash256
   \<Rightarrow> payout_share list \<Rightarrow> reputation_effect list \<Rightarrow> rstr
   \<Rightarrow> u32 option \<Rightarrow> u64 \<Rightarrow> built" where
  "build_resolve_agreement X E w agreement_id payouts reputation_effects reason
       milestone_index fee =
     (if payouts = [] then (Err PayoutsEmpty, w)
      else build_tx X E w AgreementResolve addr_zero 0 fee
        (write_agreement_resolve_data
           \<lparr>agr_agreement_id = agreement_id, agr_payouts = payouts,
            agr_reputation_effects = reputation_effects, agr_reason = reason,
            agr_milestone_index = milestone_index\<rparr>))"

definition build_cancel_agreement ::
  "externs \<Rightarrow> wallet_env \<Rightarrow> agent_wallet \<Rightarrow> hash256 \<Rightarrow> u64
   \<Rightarrow> built" where
  "build_cancel_agreement X E w agreement_id fee =
     build_tx X E w AgreementCancel addr_zero 0 fee
       (write_agreement_cancel_data
         \<lparr>agc_agreement_id = agreement_id\<rparr>)"

definition build_register_arbitrator ::
  "externs \<Rightarrow> wallet_env \<Rightarrow> agent_wallet \<Rightarrow> rstr \<Rightarrow> rstr
   \<Rightarrow> u64 \<Rightarrow> u16 \<Rightarrow> rstr list \<Rightarrow> u64 \<Rightarrow> built" where
  "build_register_arbitrator X E w name description stake fee_bps specializations fee =
     build_tx X E w ArbitratorRegister addr_zero stake fee
       (write_arbitrator_register_data
         \<lparr>abd_name = name, abd_description = description, abd_stake = stake,
          abd_fee_bps = fee_bps, abd_specializations = specializations\<rparr>)"

definition build_deploy_contract ::
  "externs \<Rightarrow> wallet_env \<Rightarrow> agent_wallet \<Rightarrow> u8 list \<Rightarrow> u64
   \<Rightarrow> u64 \<Rightarrow> built" where
  "build_deploy_contract X E w bytecode initial_balance fee =
     build_tx X E w ContractDeploy addr_zero initial_balance fee
       (write_contract_deploy_data
         \<lparr>cdd_bytecode = bytecode\<rparr>)"

definition build_call_contract ::
  "externs \<Rightarrow> wallet_env \<Rightarrow> agent_wallet \<Rightarrow> address \<Rightarrow> rstr
   \<Rightarrow> u8 list \<Rightarrow> u64 \<Rightarrow> u64 \<Rightarrow> u64 \<Rightarrow> built" where
  "build_call_contract X E w contract_address function_name args call_value gas_limit fee =
     build_tx X E w ContractCall contract_address call_value fee
       (write_contract_call_data
         \<lparr>ccd_contract_address = contract_address, ccd_function = function_name, ccd_args = args,
          ccd_gas_limit = gas_limit\<rparr>)"

definition build_call_contract_route ::
  "externs \<Rightarrow> wallet_env \<Rightarrow> agent_wallet \<Rightarrow> address \<Rightarrow> rstr
   \<Rightarrow> rstr \<Rightarrow> u8 list \<Rightarrow> u64 \<Rightarrow> u64 \<Rightarrow> u64
   \<Rightarrow> built" where
  "build_call_contract_route X E w deployer route_name function_name args call_value gas_limit
       fee =
     build_tx X E w ContractRouteCall addr_zero call_value fee
       (write_contract_route_call_data
         \<lparr>crc_deployer = deployer, crc_route_name = route_name, crc_function = function_name,
          crc_args = args, crc_gas_limit = gas_limit\<rparr>)"

definition build_verify_contract_source ::
  "externs \<Rightarrow> wallet_env \<Rightarrow> agent_wallet \<Rightarrow> address
   \<Rightarrow> contract_source_proof \<Rightarrow> u64 \<Rightarrow> built" where
  "build_verify_contract_source X E w contract_address proof fee =
     build_tx X E w ContractVerify contract_address 0 fee
       (write_contract_verify_data
         \<lparr>cvd_contract_address = contract_address, cvd_proof = proof\<rparr>)"

definition build_publish_contract_abi ::
  "externs \<Rightarrow> wallet_env \<Rightarrow> agent_wallet \<Rightarrow> address
   \<Rightarrow> contract_abi \<Rightarrow> u64 \<Rightarrow> built" where
  "build_publish_contract_abi X E w contract_address abi fee =
     build_tx X E w ContractPublishAbi contract_address 0 fee
       (write_contract_publish_abi_data
         \<lparr>cpd_contract_address = contract_address, cpd_abi = abi\<rparr>)"

definition build_update_contract_route ::
  "externs \<Rightarrow> wallet_env \<Rightarrow> agent_wallet \<Rightarrow> rstr \<Rightarrow> address
   \<Rightarrow> u64 \<Rightarrow> built" where
  "build_update_contract_route X E w route_name target_contract_address fee =
     build_tx X E w ContractRouteUpdate addr_zero 0 fee
       (write_contract_route_update_data
         \<lparr>crd_route_name = route_name, crd_target_contract_address = target_contract_address\<rparr>)"

definition build_create_token ::
  "externs \<Rightarrow> wallet_env \<Rightarrow> agent_wallet \<Rightarrow> rstr \<Rightarrow> rstr
   \<Rightarrow> u8 \<Rightarrow> u64 \<Rightarrow> u64 option \<Rightarrow> address option
   \<Rightarrow> bool \<Rightarrow> u8 list \<Rightarrow> u64 \<Rightarrow> built" where
  "build_create_token X E w name symbol decimals initial_supply max_supply mint_authority
       burnable metadata fee =
     build_tx X E w TokenCreate addr_zero 0 fee
       (write_token_create_data
         \<lparr>tcd_name = name, tcd_symbol = symbol, tcd_decimals = decimals,
          tcd_initial_supply = initial_supply,
          tcd_max_supply = (case max_supply of
               Some explicit_max_supply \<Rightarrow> explicit_max_supply
             | None \<Rightarrow> if mint_authority = None then initial_supply else 0),
          tcd_burnable = burnable, tcd_mint_authority = mint_authority, tcd_metadata = metadata\<rparr>)"

definition build_transfer_token ::
  "externs \<Rightarrow> wallet_env \<Rightarrow> agent_wallet \<Rightarrow> hash256
   \<Rightarrow> address \<Rightarrow> u64 \<Rightarrow> u64 \<Rightarrow> built" where
  "build_transfer_token X E w token_id to amount fee =
     build_tx X E w TokenTransfer to 0 fee
       (write_token_transfer_data
         \<lparr>ttd_token_id = token_id, ttd_to = to, ttd_amount = amount\<rparr>)"

definition build_approve_token ::
  "externs \<Rightarrow> wallet_env \<Rightarrow> agent_wallet \<Rightarrow> hash256
   \<Rightarrow> address \<Rightarrow> u64 \<Rightarrow> u64 \<Rightarrow> built" where
  "build_approve_token X E w token_id spender amount fee =
     build_tx X E w TokenApprove spender 0 fee
       (write_token_approve_data
         \<lparr>tpv_token_id = token_id, tpv_spender = spender, tpv_amount = amount\<rparr>)"

definition build_mint_token ::
  "externs \<Rightarrow> wallet_env \<Rightarrow> agent_wallet \<Rightarrow> hash256
   \<Rightarrow> address \<Rightarrow> u64 \<Rightarrow> u64 \<Rightarrow> built" where
  "build_mint_token X E w token_id to amount fee =
     build_tx X E w TokenMint to 0 fee
       (write_token_mint_data
         \<lparr>tmt_token_id = token_id, tmt_to = to, tmt_amount = amount\<rparr>)"

definition build_update_token_mint_authority ::
  "externs \<Rightarrow> wallet_env \<Rightarrow> agent_wallet \<Rightarrow> hash256
   \<Rightarrow> address option \<Rightarrow> u64 \<Rightarrow> built" where
  "build_update_token_mint_authority X E w token_id mint_authority fee =
     build_tx X E w TokenUpdateAuthority addr_zero 0 fee
       (write_token_update_authority_data
         \<lparr>tyd_token_id = token_id, tyd_mint_authority = mint_authority\<rparr>)"

definition build_burn_token ::
  "externs \<Rightarrow> wallet_env \<Rightarrow> agent_wallet \<Rightarrow> hash256 \<Rightarrow> u64
   \<Rightarrow> u64 \<Rightarrow> built" where
  "build_burn_token X E w token_id amount fee =
     build_tx X E w TokenBurn addr_zero 0 fee
       (write_token_burn_data
         \<lparr>tbd_token_id = token_id, tbd_amount = amount\<rparr>)"

definition build_deregister_agent ::
  "externs \<Rightarrow> wallet_env \<Rightarrow> agent_wallet \<Rightarrow> u64 \<Rightarrow> built" where
  "build_deregister_agent X E w fee =
     build_tx X E w AgentDeregister addr_zero 0 fee []"

definition build_deregister_tool ::
  "externs \<Rightarrow> wallet_env \<Rightarrow> agent_wallet \<Rightarrow> hash256 \<Rightarrow> u64
   \<Rightarrow> built" where
  "build_deregister_tool X E w tool_id fee =
     build_tx X E w ToolDeregister addr_zero 0 fee (hash_as_bytes tool_id)"

definition build_deregister_arbitrator ::
  "externs \<Rightarrow> wallet_env \<Rightarrow> agent_wallet \<Rightarrow> u64 \<Rightarrow> built" where
  "build_deregister_arbitrator X E w fee =
     build_tx X E w ArbitratorDeregister addr_zero 0 fee []"

definition build_deactivate_contract ::
  "externs \<Rightarrow> wallet_env \<Rightarrow> agent_wallet \<Rightarrow> address \<Rightarrow> u64
   \<Rightarrow> built" where
  "build_deactivate_contract X E w contract_address fee =
     build_tx X E w ContractDeactivate addr_zero 0 fee (addr_bytes contract_address)"

definition build_destroy_token ::
  "externs \<Rightarrow> wallet_env \<Rightarrow> agent_wallet \<Rightarrow> hash256 \<Rightarrow> u64
   \<Rightarrow> built" where
  "build_destroy_token X E w token_id fee =
     build_tx X E w TokenDestroy addr_zero 0 fee (hash_as_bytes token_id)"

definition build_propose_capability ::
  "externs \<Rightarrow> wallet_env \<Rightarrow> agent_wallet \<Rightarrow> capability_propose_data
   \<Rightarrow> u64 \<Rightarrow> built" where
  "build_propose_capability X E w proposal fee =
     guarded_build w (normalize_capability_proposal proposal) (\<lambda>proposal.
       build_tx X E w CapabilityPropose addr_zero 0 fee (write_capability_propose_data proposal))"

definition build_approve_capability ::
  "externs \<Rightarrow> wallet_env \<Rightarrow> agent_wallet \<Rightarrow> capability_approve_data
   \<Rightarrow> u64 \<Rightarrow> built" where
  "build_approve_capability X E w approval fee =
     guarded_build w (normalize_capability_approval approval) (\<lambda>approval.
       build_tx X E w CapabilityApprove addr_zero 0 fee (write_capability_approve_data approval))"

definition build_reject_capability ::
  "externs \<Rightarrow> wallet_env \<Rightarrow> agent_wallet \<Rightarrow> capability_reject_data
   \<Rightarrow> u64 \<Rightarrow> built" where
  "build_reject_capability X E w rejection fee =
     guarded_build w (normalize_capability_rejection rejection) (\<lambda>rejection.
       build_tx X E w CapabilityReject addr_zero 0 fee (write_capability_reject_data rejection))"

definition build_deprecate_capability ::
  "externs \<Rightarrow> wallet_env \<Rightarrow> agent_wallet \<Rightarrow> capability_deprecate_data
   \<Rightarrow> u64 \<Rightarrow> built" where
  "build_deprecate_capability X E w deprecation fee =
     guarded_build w (normalize_capability_deprecation deprecation) (\<lambda>deprecation.
       build_tx X E w CapabilityDeprecate addr_zero 0 fee (write_capability_deprecate_data deprecation))"

definition build_rpc_read_delegation_grant ::
  "externs \<Rightarrow> wallet_env \<Rightarrow> agent_wallet \<Rightarrow> public_key
   \<Rightarrow> rstr \<Rightarrow> u64 \<Rightarrow> u64 \<Rightarrow> u64 \<Rightarrow> built" where
  "build_rpc_read_delegation_grant X E w delegate_public_key service_id scopes expires_at_ms
       fee =
     (case validate_rpc_read_delegation_service_id service_id of
        Err e \<Rightarrow> (Err (ServiceIdInvalid e), w)
      | Ok _ \<Rightarrow>
          if scopes = 0 \<or> scopes AND NOT RPC_READ_SCOPE_ALL \<noteq> 0 then (Err UnknownScope, w)
          else build_tx X E w RpcReadDelegationGrant addr_zero 0 fee
            (write_delegation_grant_data
               \<lparr>dgd_delegate_public_key = pk_bytes delegate_public_key,
                dgd_service_id = service_id, dgd_scope_mask = scopes,
                dgd_expires_at_ms = expires_at_ms\<rparr>))"

definition build_rpc_read_delegation_revoke ::
  "externs \<Rightarrow> wallet_env \<Rightarrow> agent_wallet \<Rightarrow> hash256 \<Rightarrow> u64
   \<Rightarrow> built" where
  "build_rpc_read_delegation_revoke X E w delegation_id fee =
     build_tx X E w RpcReadDelegationRevoke addr_zero 0 fee
       (write_delegation_revoke_data
         \<lparr>drd_delegation_id = delegation_id\<rparr>)"

end
