(* ===== verification/Wallet_Session.thy ===== *)
theory Wallet_Session
  imports Wallet "HOL-Library.Sublist"
begin

text \<open>
  What a wallet guarantees over a whole session: any sequence of builder calls, each with its
  own environment, interleaved with the settings that do not touch the nonce or the validity
  window. \<open>wallet_call\<close> has one rule per builder; \<open>wallet_session\<close> collects the results.

  The wallet checks every transaction it returns, so safety needs nothing of the signing
  backend. Liveness does: the locale \<open>transaction_signer\<close> states what a backend promises
  (it answers, with a signature that verifies), and is interpreted on the key pair backend.
\<close>

subsection \<open>One call\<close>

inductive wallet_call :: "externs \<Rightarrow> wallet_env \<Rightarrow> agent_wallet \<Rightarrow> built \<Rightarrow> bool"
  for X E w where
  "wallet_call X E w (build_transfer X E w recipient amount fee)"
| "wallet_call X E w (build_entity_link X E w entity authorizer fee)"
| "wallet_call X E w
     (build_transfer_with_priority_fee X E w recipient amount fee max_priority_fee_per_gas)"
| "wallet_call X E w
     (build_register_agent_full X E w name description capabilities model_hash min_fee
       fee_schedule fee)"
| "wallet_call X E w
     (build_register_agent X E w name description capabilities model_hash fee)"
| "wallet_call X E w
     (build_submit_task_with_prefs X E w description required_capabilities max_fee priority
       deadline_ms parameters txfee match_preferences)"
| "wallet_call X E w
     (build_submit_task X E w description required_capabilities max_fee priority deadline_ms
       parameters txfee)"
| "wallet_call X E w (build_register_validator_with_update X E w stake update fee)"
| "wallet_call X E w (build_register_validator X E w stake fee)"
| "wallet_call X E w
     (build_register_validator_with_vrf_public_key X E w stake vrf_public_key fee)"
| "wallet_call X E w (build_update_validator X E w update fee)"
| "wallet_call X E w (build_reactivate_validator X E w fee)"
| "wallet_call X E w (build_update_validator_vrf_public_key X E w vrf_public_key fee)"
| "wf_keypair vrf_keypair \<Longrightarrow>
     wallet_call X E w
     (build_validator_vrf_commit X E w target_epoch prior_seed vrf_keypair fee)"
| "wf_keypair vrf_keypair \<Longrightarrow>
     wallet_call X E w
     (build_validator_vrf_contribution X E w target_epoch prior_seed vrf_keypair fee)"
| "wallet_call X E w
     (build_create_agreement X E w parties terms escrow_amount expires_at arbitrator milestones
       service_provider settlement_allocations approver fee)"
| "wallet_call X E w
     (build_register_tool_with_settlement X E w name description endpoint price_per_call
       settlement_mode sla_ms challenge_window_ms max_result_metadata_bytes arbitration_policy
       capabilities version fee)"
| "wallet_call X E w
     (build_register_tool X E w name description endpoint price_per_call capabilities version
       fee)"
| "wallet_call X E w
     (build_register_tool_result_escrowed X E w name description endpoint price_per_call sla_ms
       challenge_window_ms max_result_metadata_bytes capabilities version fee)"
| "wallet_call X E w
     (build_register_tool_milestone_escrowed X E w name description endpoint price_per_call
       sla_ms challenge_window_ms max_result_metadata_bytes capabilities version fee)"
| "wallet_call X E w
     (build_register_tool_metered_usage X E w name description endpoint price_per_unit sla_ms
       challenge_window_ms max_result_metadata_bytes capabilities version fee)"
| "wallet_call X E w
     (build_create_tool_subscription_plan X E w tool_id name price_per_period period_ms
       included_calls included_credits overage_policy fee)"
| "wallet_call X E w (build_update_tool_subscription_plan X E w update fee)"
| "wallet_call X E w
     (build_start_tool_subscription X E w plan_id reserve_amount auto_renew fee)"
| "wallet_call X E w (build_top_up_tool_subscription X E w subscription_id amount fee)"
| "wallet_call X E w (build_cancel_tool_subscription X E w subscription_id fee)"
| "wallet_call X E w
     (build_resume_tool_subscription_with_reserve X E w subscription_id reserve_amount fee)"
| "wallet_call X E w (build_resume_tool_subscription X E w subscription_id fee)"
| "wallet_call X E w (build_renew_tool_subscription X E w subscription_id fee)"
| "wallet_call X E w (build_stake X E w amount target fee)"
| "wallet_call X E w (build_requester_auto_match_bond X E w amount fee)"
| "wallet_call X E w (build_unstake X E w amount target fee)"
| "wallet_call X E w (build_exit_validator X E w fee)"
| "wallet_call X E w
     (build_fulfill_task X E w task_id result_hash result_data tools_used input_refs fee)"
| "wallet_call X E w
     (build_fulfill_task_verified X E w task_id result_hash result_data tools_used input_refs
       receipt_proofs fee)"
| "wallet_call X E w (build_accept_task X E w task_id fee)"
| "wallet_call X E w (build_dispute_task X E w task_id reason fee)"
| "wallet_call X E w (build_resolve_task X E w task_id agent_wins reason fee)"
| "wallet_call X E w (build_finalize_task X E w task_id fee)"
| "wallet_call X E w (build_cancel_task X E w task_id fee)"
| "wallet_call X E w (build_decompose_task X E w task_id subtasks fee)"
| "wallet_call X E w (build_batch X E w operations fee)"
| "wallet_call X E w
     (build_update_agent_full X E w name description neural_embedding model_hash capabilities
       metadata active min_fee fee_schedule fee)"
| "wallet_call X E w
     (build_update_agent X E w name description model_hash capabilities metadata active fee)"
| "wallet_call X E w
     (build_update_reputation_with_feedback X E w task_id quality_score requester_accepted
       feedback fee)"
| "wallet_call X E w
     (build_update_reputation X E w task_id quality_score requester_accepted fee)"
| "wallet_call X E w (build_purchase_tool_access X E w tool_id input_data fee)"
| "wallet_call X E w (build_invoke_tool X E w tool_id input_data fee)"
| "wallet_call X E w
     (build_invoke_metered_tool X E w tool_id input_data max_metered_units fee)"
| "wallet_call X E w (build_invoke_milestone_tool X E w tool_id input_data milestones fee)"
| "wallet_call X E w (build_submit_tool_result X E w job_id result_hash result_metadata fee)"
| "wallet_call X E w
     (build_submit_tool_milestone_result X E w job_id milestone_index result_hash
       result_metadata fee)"
| "wallet_call X E w (build_accept_tool_result X E w job_id fee)"
| "wallet_call X E w (build_accept_tool_milestone_result X E w job_id milestone_index fee)"
| "wallet_call X E w (build_dispute_tool_result X E w job_id reason fee)"
| "wallet_call X E w
     (build_dispute_tool_milestone_result X E w job_id milestone_index reason fee)"
| "wallet_call X E w (build_resolve_tool_result X E w job_id provider_wins reason fee)"
| "wallet_call X E w
     (build_resolve_tool_milestone_result X E w job_id milestone_index provider_wins reason fee)"
| "wallet_call X E w (build_expire_tool_job X E w job_id fee)"
| "wallet_call X E w
     (build_report_tool_usage X E w session_id units_used result_hash result_metadata fee)"
| "wallet_call X E w (build_accept_tool_usage X E w session_id fee)"
| "wallet_call X E w (build_dispute_tool_usage X E w session_id reason fee)"
| "wallet_call X E w (build_resolve_tool_usage X E w session_id provider_wins reason fee)"
| "wallet_call X E w (build_expire_tool_usage X E w session_id fee)"
| "wallet_call X E w (build_update_tool X E w tool_id update fee)"
| "wallet_call X E w
     (build_execute_milestone X E w agreement_id result_hash milestone_index fee)"
| "wallet_call X E w (build_execute_agreement X E w agreement_id result_hash fee)"
| "wallet_call X E w
     (build_dispute_agreement_with_milestone X E w agreement_id reason milestone_index fee)"
| "wallet_call X E w (build_dispute_agreement X E w agreement_id reason fee)"
| "wallet_call X E w (build_accept_agreement X E w agreement_id fee)"
| "wallet_call X E w
     (build_resolve_agreement X E w agreement_id payouts reputation_effects reason
       milestone_index fee)"
| "wallet_call X E w (build_cancel_agreement X E w agreement_id fee)"
| "wallet_call X E w
     (build_register_arbitrator X E w name description stake fee_bps specializations fee)"
| "wallet_call X E w (build_deploy_contract X E w bytecode initial_balance fee)"
| "wallet_call X E w
     (build_call_contract X E w contract_address function_name args call_value gas_limit fee)"
| "wallet_call X E w
     (build_call_contract_route X E w deployer route_name function_name args call_value
       gas_limit fee)"
| "wallet_call X E w (build_verify_contract_source X E w contract_address proof fee)"
| "wallet_call X E w (build_publish_contract_abi X E w contract_address abi fee)"
| "wallet_call X E w
     (build_update_contract_route X E w route_name target_contract_address fee)"
| "wallet_call X E w
     (build_create_token X E w name symbol decimals initial_supply max_supply mint_authority
       burnable metadata fee)"
| "wallet_call X E w (build_transfer_token X E w token_id to amount fee)"
| "wallet_call X E w (build_approve_token X E w token_id spender amount fee)"
| "wallet_call X E w (build_mint_token X E w token_id to amount fee)"
| "wallet_call X E w (build_update_token_mint_authority X E w token_id mint_authority fee)"
| "wallet_call X E w (build_burn_token X E w token_id amount fee)"
| "wallet_call X E w (build_deregister_agent X E w fee)"
| "wallet_call X E w (build_deregister_tool X E w tool_id fee)"
| "wallet_call X E w (build_deregister_arbitrator X E w fee)"
| "wallet_call X E w (build_deactivate_contract X E w contract_address fee)"
| "wallet_call X E w (build_destroy_token X E w token_id fee)"
| "wallet_call X E w (build_propose_capability X E w proposal fee)"
| "wallet_call X E w (build_approve_capability X E w approval fee)"
| "wallet_call X E w (build_reject_capability X E w rejection fee)"
| "wallet_call X E w (build_deprecate_capability X E w deprecation fee)"
| "wallet_call X E w
     (build_rpc_read_delegation_grant X E w delegate_public_key service_id scopes expires_at_ms
       fee)"
| "wallet_call X E w (build_rpc_read_delegation_revoke X E w delegation_id fee)"

lemmas builder_defs =
  build_transfer_def build_entity_link_def build_transfer_with_priority_fee_def
  build_register_agent_full_def build_register_agent_def build_submit_task_with_prefs_def
  build_submit_task_def build_register_validator_with_update_def build_register_validator_def
  build_register_validator_with_vrf_public_key_def build_update_validator_def
  build_reactivate_validator_def build_update_validator_vrf_public_key_def
  build_validator_vrf_commit_def build_validator_vrf_contribution_def build_create_agreement_def
  build_register_tool_with_settlement_def build_register_tool_def
  build_register_tool_result_escrowed_def build_register_tool_milestone_escrowed_def
  build_register_tool_metered_usage_def build_create_tool_subscription_plan_def
  build_update_tool_subscription_plan_def build_start_tool_subscription_def
  build_top_up_tool_subscription_def build_cancel_tool_subscription_def
  build_resume_tool_subscription_with_reserve_def build_resume_tool_subscription_def
  build_renew_tool_subscription_def build_stake_def build_requester_auto_match_bond_def
  build_unstake_def build_exit_validator_def build_fulfill_task_def
  build_fulfill_task_verified_def build_accept_task_def build_dispute_task_def
  build_resolve_task_def build_finalize_task_def build_cancel_task_def build_decompose_task_def
  build_batch_def build_update_agent_full_def build_update_agent_def
  build_update_reputation_with_feedback_def build_update_reputation_def
  build_purchase_tool_access_def build_invoke_tool_def build_invoke_metered_tool_def
  build_invoke_milestone_tool_def build_submit_tool_result_def
  build_submit_tool_milestone_result_def build_accept_tool_result_def
  build_accept_tool_milestone_result_def build_dispute_tool_result_def
  build_dispute_tool_milestone_result_def build_resolve_tool_result_def
  build_resolve_tool_milestone_result_def build_expire_tool_job_def build_report_tool_usage_def
  build_accept_tool_usage_def build_dispute_tool_usage_def build_resolve_tool_usage_def
  build_expire_tool_usage_def build_update_tool_def build_execute_milestone_def
  build_execute_agreement_def build_dispute_agreement_with_milestone_def
  build_dispute_agreement_def build_accept_agreement_def build_resolve_agreement_def
  build_cancel_agreement_def build_register_arbitrator_def build_deploy_contract_def
  build_call_contract_def build_call_contract_route_def build_verify_contract_source_def
  build_publish_contract_abi_def build_update_contract_route_def build_create_token_def
  build_transfer_token_def build_approve_token_def build_mint_token_def
  build_update_token_mint_authority_def build_burn_token_def build_deregister_agent_def
  build_deregister_tool_def build_deregister_arbitrator_def build_deactivate_contract_def
  build_destroy_token_def build_propose_capability_def build_approve_capability_def
  build_reject_capability_def build_deprecate_capability_def build_rpc_read_delegation_grant_def
  build_rpc_read_delegation_revoke_def


definition within_window :: "agent_wallet \<Rightarrow> transaction \<Rightarrow> bool" where
  "within_window w t \<longleftrightarrow>
     (case aw_tx_validity_window w of
        None \<Rightarrow> tx_max_valid_block_height t = 0
      | Some (h, b, ttl) \<Rightarrow>
          tx_reference_block_height t = h \<and> tx_reference_block_hash t = b
          \<and> tx_max_valid_block_height t = saturating_add h (max ttl 1))"

text \<open>The outcome of a call on \<open>w\<close>: a checked transaction with the wallet's identity and
  its nonce, the counter advanced by one; or an error, the counter advanced by at most one and
  nothing else changed.\<close>

definition issues :: "externs \<Rightarrow> agent_wallet \<Rightarrow> signed_transaction \<Rightarrow> bool" where
  "issues X w st \<longleftrightarrow>
     verify_signed X st = Ok () \<and> st_public_key st = signer_public_key w
     \<and> tx_sender (st_transaction st) = wallet_address X w
     \<and> tx_chain_id (st_transaction st) = aw_chain_id w
     \<and> within_window w (st_transaction st)"

definition advanced :: "agent_wallet \<Rightarrow> agent_wallet" where
  "advanced w = w\<lparr>aw_nonce := aw_nonce w + 1\<rparr>"

definition outcome_ok :: "externs \<Rightarrow> agent_wallet \<Rightarrow> built \<Rightarrow> bool" where
  "outcome_ok X w r \<longleftrightarrow>
     (case fst r of
        Ok st \<Rightarrow> issues X w st \<and> tx_nonce (st_transaction st) = aw_nonce w \<and> snd r = advanced w
      | Err e \<Rightarrow> snd r = w \<or> snd r = advanced w)"

lemma sign_transaction_Ok:
  assumes "wallet_sign_transaction X w tx = Ok st" "tx_max_valid_block_height tx = 0"
  shows "verify_signed X st = Ok ()" "st_public_key st = signer_public_key w"
    "tx_sender (st_transaction st) = wallet_address X w"
    "tx_nonce (st_transaction st) = tx_nonce tx" "tx_chain_id (st_transaction st) = tx_chain_id tx"
    "within_window w (st_transaction st)"
  using assms
  by (auto simp: wallet_sign_transaction_def Let_def has_explicit_validity_window_def
      within_window_def set_validity_window_def wallet_address_def
      split: if_splits sum.splits option.splits)

lemma snd_build_tx [simp]:
  "snd (build_tx_with_priority_fee X E w ty rcp amount fee prio data) = advanced w"
  "snd (build_tx X E w ty rcp amount fee data) = advanced w"
  "snd (next_nonce w) = advanced w"
  by (simp_all add: build_tx_def build_tx_with_priority_fee_def next_nonce_def advanced_def Let_def)

lemma advanced_simps [simp]:
  "aw_signer (advanced w) = aw_signer w" "aw_chain_id (advanced w) = aw_chain_id w"
  "aw_tx_validity_window (advanced w) = aw_tx_validity_window w"
  "aw_nonce (advanced w) = aw_nonce w + 1"
  "signer_public_key (advanced w) = signer_public_key w"
  "wallet_address X (advanced w) = wallet_address X w"
  "within_window (advanced w) t = within_window w t"
  by (simp_all add: advanced_def signer_public_key_def wallet_address_def within_window_def)

lemma outcome_build_priority:
  "outcome_ok X w (build_tx_with_priority_fee X E w ty rcp amount fee prio data)"
proof (cases "fst (build_tx_with_priority_fee X E w ty rcp amount fee prio data)")
  case (Inl e)
  then show ?thesis by (simp add: outcome_ok_def)
next
  case (Inr st)
  let ?tx = "\<lparr>tx_type_of = ty, tx_sender = wallet_address X w, tx_recipient = rcp,
    tx_amount = amount, tx_fee = fee, tx_max_priority_fee_per_gas = prio, tx_nonce = aw_nonce w,
    tx_timestamp = transaction_timestamp_ms E (advanced w), tx_reference_block_height = 0,
    tx_reference_block_hash = hash_zero, tx_max_valid_block_height = 0, tx_data = data,
    tx_chain_id = aw_chain_id w\<rparr>"
  have "wallet_sign_transaction X (advanced w) ?tx = Ok st"
    using Inr by (simp add: build_tx_with_priority_fee_def next_nonce_def advanced_def)
  from sign_transaction_Ok [OF this] show ?thesis
    using Inr by (simp add: outcome_ok_def issues_def)
qed

lemma outcome_build: "outcome_ok X w (build_tx X E w ty rcp amount fee data)"
  by (simp add: build_tx_def outcome_build_priority)

lemma outcome_Err [simp]: "outcome_ok X w (Err e, w)" "outcome_ok X w (Err e, advanced w)"
  by (simp_all add: outcome_ok_def)

lemma outcome_guarded:
  "(\<And>x. checked = Ok x \<Longrightarrow> outcome_ok X w (k x)) \<Longrightarrow> outcome_ok X w (guarded_build w checked k)"
  by (simp add: guarded_build_def split: sum.split)

lemma call_outcome: "wallet_call X E w r \<Longrightarrow> outcome_ok X w r"
  by (cases rule: wallet_call.cases, assumption)
    (simp_all add: builder_defs Let_def outcome_build outcome_build_priority outcome_guarded
      split: sum.split)

subsection \<open>The signing backend\<close>

locale transaction_signer =
  fixes backend :: "externs \<Rightarrow> 'k \<Rightarrow> tx_signer"
    and usable :: "externs \<Rightarrow> 'k \<Rightarrow> bool"
  assumes answers: "usable X k \<Longrightarrow>
    \<exists>sig. sg_sign_transaction (backend X k) tx h = Ok sig
      \<and> ed_verify X (pk_bytes (sg_public_key (backend X k))) (hash_as_bytes h) (sig_bytes sig)"
begin

lemma sign_transaction_answers:
  assumes "usable X k" "aw_signer w = backend X k" "tx_sender tx = wallet_address X w"
  shows "\<exists>st. wallet_sign_transaction X w tx = Ok st"
  using assms(2,3) answers [OF assms(1)]
  by (auto simp: wallet_sign_transaction_def Let_def verify_signed_def pk_verify_def
      wallet_address_def signer_public_key_def set_validity_window_def split: option.split sum.split)
    (metis Inl_Inr_False sum.inject(2))+

lemma build_answers:
  assumes "usable X k" "aw_signer w = backend X k"
  shows "\<exists>st. fst (build_tx_with_priority_fee X E w ty rcp amount fee prio data) = Ok st"
  using sign_transaction_answers [OF assms(1), of "advanced w"] assms(2)
  by (simp add: build_tx_with_priority_fee_def next_nonce_def advanced_def [symmetric])

end

interpretation keypair_backend:
  transaction_signer keypair_signer "\<lambda>X kp. ed25519_ok X \<and> wf_keypair kp"
  by unfold_locales
    (simp add: keypair_signer_def kp_sign_def kp_public_key_def ed25519_ok_def wf_keypair_def)

text \<open>Errors that only name a defect of the caller's arguments.\<close>

fun input_error :: "wallet_error \<Rightarrow> bool" where
  "input_error SenderNotSigner \<longleftrightarrow> False"
| "input_error (SigningFailed _) \<longleftrightarrow> False"
| "input_error (SelfCheckFailed _) \<longleftrightarrow> False"
| "input_error _ \<longleftrightarrow> True"

definition answered :: "agent_wallet \<Rightarrow> built \<Rightarrow> bool" where
  "answered w r \<longleftrightarrow> (case fst r of Ok st \<Rightarrow> True | Err e \<Rightarrow> input_error e \<and> snd r = w)"

lemma answered_build:
  assumes "ed25519_ok X" "wf_keypair kp" "aw_signer w = keypair_signer X kp"
  shows "answered w (build_tx_with_priority_fee X E w ty rcp amount fee prio data)"
    "answered w (build_tx X E w ty rcp amount fee data)"
  using keypair_backend.build_answers [of X kp w] assms
  by (auto simp: answered_def build_tx_def) (metis old.sum.simps(6))+

lemma answered_Err [simp]: "answered w (Err e, w) \<longleftrightarrow> input_error e"
  by (simp add: answered_def)

lemma answered_guarded:
  "(\<And>x. checked = Ok x \<Longrightarrow> answered w (k x)) \<Longrightarrow> (\<And>e. checked = Err e \<Longrightarrow> input_error e) \<Longrightarrow>
   answered w (guarded_build w checked k)"
  by (simp add: guarded_build_def split: sum.split)

lemma guarded_build_simps [simp]:
  "guarded_build w (Ok x) k = k x" "guarded_build w (Err e) k = (Err e, w)"
  by (simp_all add: guarded_build_def)

lemma reveal_data_honest:
  assumes "ed25519_ok X" "wf_keypair vk"
  shows "build_validator_vrf_reveal_data X w epoch seed vk =
    (if kp_public_key X vk = signer_public_key w
     then Ok (honest_contribution X vk (aw_chain_id w) epoch seed) else Err VrfKeyNotSigner)"
proof -
  have "length (ed_sign X (secret_bytes vk) m) = 64" for m
    using assms by (simp add: ed25519_ok_def wf_keypair_def)
  then show ?thesis
    by (auto simp: build_validator_vrf_reveal_data_def ensure_vrf_keypair_matches_signer_def
        ensure_vrf_public_key_matches_signer_def expected_output_from_proof_def sig_from_bytes_def
        honest_contribution_def kp_sign_def Let_def wallet_address_def kp_address_def
        intro: public_key.expand)
qed

lemma slug_field_error:
  "normalize_capability_slug_field label s = Err e \<Longrightarrow> input_error e"
  by (auto simp: normalize_capability_slug_field_def Let_def split: sum.splits)

lemma slug_list_error:
  "normalize_capability_slug_list label ss = Err e \<Longrightarrow> input_error e"
  by (induction ss arbitrary: e) (auto simp: bind_result_eq_Err dest: slug_field_error)

lemma normalize_opt_error:
  "(\<And>x e. f x = Err e \<Longrightarrow> input_error e) \<Longrightarrow> normalize_opt f x = Err e \<Longrightarrow> input_error e"
  by (cases x) (auto simp: bind_result_eq_Err)

lemma capability_errors:
  "normalize_capability_proposal p = Err e \<Longrightarrow> input_error e"
  "normalize_capability_approval a = Err e \<Longrightarrow> input_error e"
  "normalize_capability_rejection r = Err e \<Longrightarrow> input_error e"
  "normalize_capability_deprecation d = Err e \<Longrightarrow> input_error e"
  by (auto simp: normalize_capability_proposal_def normalize_capability_approval_def
      normalize_capability_rejection_def normalize_capability_deprecation_def bind_result_eq_Err
      dest: slug_field_error slug_list_error normalize_opt_error [rotated])

lemma ensure_key_error:
  "ensure_vrf_public_key_matches_signer w k = Err e \<Longrightarrow> input_error e"
  by (auto simp: ensure_vrf_public_key_matches_signer_def split: if_splits)

lemma ensure_own_key [simp]: "ensure_vrf_public_key_matches_signer w (signer_public_key w) = Ok ()"
  by (simp add: ensure_vrf_public_key_matches_signer_def)

lemma call_answered:
  assumes "wallet_call X E w r" "ed25519_ok X" "wf_keypair kp" "aw_signer w = keypair_signer X kp"
  shows "answered w r"
  using assms(1)
  by (cases rule: wallet_call.cases)
    (simp_all add: builder_defs Let_def answered_build [OF assms(2-4)] answered_guarded
      capability_errors ensure_key_error reveal_data_honest [OF assms(2)] commitment_hash_def
      honest_contribution_valid [OF assms(2)],
     auto simp: answered_build [OF assms(2-4)] dest: ensure_key_error
       split: sum.splits option.splits if_splits)

subsection \<open>Sessions\<close>

inductive wallet_session ::
  "externs \<Rightarrow> agent_wallet \<Rightarrow> (wallet_error + signed_transaction) list \<Rightarrow> agent_wallet \<Rightarrow> bool"
  for X w where
  session_start: "wallet_session X w [] w"
| session_call: "wallet_session X w rs w1 \<Longrightarrow> wallet_call X E w1 (r, w2) \<Longrightarrow>
    wallet_session X w (rs @ [r]) w2"
| session_set_time: "wallet_session X w rs w1 \<Longrightarrow> wallet_session X w rs (set_timestamp_ms w1 t)"
| session_clear_time: "wallet_session X w rs w1 \<Longrightarrow> wallet_session X w rs (clear_timestamp_ms w1)"
| session_embed: "wallet_session X w rs w1 \<Longrightarrow> wallet_session X w rs (set_embed_url w1 url)"

definition issued :: "('e + 'a) list \<Rightarrow> 'a list" where
  "issued rs = [x. Ok x \<leftarrow> rs]"

definition nonces :: "signed_transaction list \<Rightarrow> u64 list" where
  "nonces sts = map (\<lambda>st. tx_nonce (st_transaction st)) sts"

lemma issued_simps [simp]:
  "issued [] = []" "issued (rs @ [Ok x]) = issued rs @ [x]" "issued (rs @ [Err e]) = issued rs"
  by (simp_all add: issued_def)

lemma nonces_simps [simp]:
  "nonces [] = []" "nonces (sts @ [st]) = nonces sts @ [tx_nonce (st_transaction st)]"
  "length (nonces sts) = length sts"
  by (simp_all add: nonces_def)

lemma length_issued: "length (issued rs) \<le> length rs"
  by (induction rs) (auto simp: issued_def split: sum.split)

text \<open>The identity of a wallet: what no session changes.\<close>

definition same_identity :: "agent_wallet \<Rightarrow> agent_wallet \<Rightarrow> bool" where
  "same_identity w w' \<longleftrightarrow> aw_signer w' = aw_signer w \<and> aw_chain_id w' = aw_chain_id w
     \<and> aw_tx_validity_window w' = aw_tx_validity_window w"

lemma same_identity_simps [simp]:
  "same_identity w w"
  "same_identity w (set_timestamp_ms w1 t) = same_identity w w1"
  "same_identity w (clear_timestamp_ms w1) = same_identity w w1"
  "same_identity w (set_embed_url w1 url) = same_identity w w1"
  "same_identity w (advanced w1) = same_identity w w1"
  "aw_nonce (set_timestamp_ms w1 t) = aw_nonce w1"
  "aw_nonce (clear_timestamp_ms w1) = aw_nonce w1"
  "aw_nonce (set_embed_url w1 url) = aw_nonce w1"
  by (simp_all add: same_identity_def set_timestamp_ms_def clear_timestamp_ms_def set_embed_url_def)

lemma issues_same_identity: "same_identity w w1 \<Longrightarrow> issues X w1 st = issues X w st"
  by (simp add: issues_def same_identity_def signer_public_key_def wallet_address_def
      within_window_def)

lemma session_identity: "wallet_session X w rs w' \<Longrightarrow> same_identity w w'"
proof (induction rule: wallet_session.induct)
  case (session_call rs w1 E r w2)
  then have "w2 = w1 \<or> w2 = advanced w1"
    using call_outcome [OF session_call.hyps(2)] by (auto simp: outcome_ok_def split: sum.splits)
  with session_call.IH show ?case by auto
qed simp_all

definition slots :: "agent_wallet \<Rightarrow> nat \<Rightarrow> u64 list" where
  "slots w k = map (\<lambda>i. aw_nonce w + of_nat i) [0..<k]"

lemma slots_Suc [simp]: "slots w (Suc k) = slots w k @ [aw_nonce w + of_nat k]"
  by (simp add: slots_def)

lemma distinct_slots: "k \<le> 2 ^ 64 \<Longrightarrow> distinct (slots w k)"
  by (auto simp: slots_def distinct_map inj_on_def of_nat_eq_iff take_bit_nat_eq_self
      word_of_nat_eq_iff)

lemma subseq_append_right_aux: "subseq xs ys \<Longrightarrow> subseq xs (ys @ zs)"
  using list_emb_append_mono [of "(=)" xs ys "[]" zs] by simp

lemma subseq_distinct: "subseq xs ys \<Longrightarrow> distinct ys \<Longrightarrow> distinct xs"
  by (induction rule: list_emb.induct) (auto dest: list_emb_set)

lemma session_safe:
  assumes "wallet_session X w rs w'"
  shows "list_all (issues X w) (issued rs)
    \<and> (\<exists>k \<le> length rs. aw_nonce w' = aw_nonce w + of_nat k \<and> subseq (nonces (issued rs)) (slots w k))"
  using assms
proof (induction rule: wallet_session.induct)
  case (session_call rs w1 E r w2)
  then obtain k where k: "k \<le> length rs" "aw_nonce w1 = aw_nonce w + of_nat k"
    "subseq (nonces (issued rs)) (slots w k)" by auto
  note out = call_outcome [OF session_call.hyps(2)]
  note id = issues_same_identity [OF session_identity [OF session_call.hyps(1)]]
  show ?case
  proof (cases r)
    case (Inr st)
    with out id have st: "issues X w st" "tx_nonce (st_transaction st) = aw_nonce w1" "w2 = advanced w1"
      by (auto simp: outcome_ok_def)
    then have "Suc k \<le> length (rs @ [r]) \<and> aw_nonce w2 = aw_nonce w + of_nat (Suc k)
        \<and> subseq (nonces (issued (rs @ [r]))) (slots w (Suc k))"
      using k Inr by (auto intro: list_emb_append_mono)
    then show ?thesis using st(1) session_call.IH Inr by auto
  next
    case (Inl e)
    with out consider "w2 = w1" | "w2 = advanced w1" by (auto simp: outcome_ok_def)
    then show ?thesis
    proof cases
      case 1
      with k Inl session_call.IH show ?thesis by (auto intro: le_SucI)
    next
      case 2
      then have "Suc k \<le> length (rs @ [r]) \<and> aw_nonce w2 = aw_nonce w + of_nat (Suc k)
          \<and> subseq (nonces (issued (rs @ [r]))) (slots w (Suc k))"
        using k Inl by (auto intro: subseq_append_right_aux)
      then show ?thesis using session_call.IH Inl by auto
    qed
  qed
qed simp_all

subsection \<open>What a builder puts into its transaction\<close>

lemma build_tx_Ok:
  assumes "build_tx X E w ty rcp amount fee data = (Ok st, w')"
  shows "tx_type_of (st_transaction st) = ty" "tx_recipient (st_transaction st) = rcp"
    "tx_amount (st_transaction st) = amount" "tx_fee (st_transaction st) = fee"
    "tx_data (st_transaction st) = data" "tx_nonce (st_transaction st) = aw_nonce w"
    "tx_sender (st_transaction st) = wallet_address X w"
    "tx_chain_id (st_transaction st) = aw_chain_id w" "verify_signed X st = Ok ()" "w' = advanced w"
  using assms
  by (auto simp: build_tx_def build_tx_with_priority_fee_def next_nonce_def advanced_def Let_def
      wallet_sign_transaction_def set_validity_window_def wallet_address_def
      split: if_splits sum.splits option.splits)

lemma keypair_build:
  assumes "ed25519_ok X" "wf_keypair kp" "aw_signer w = keypair_signer X kp"
  obtains st where "build_tx X E w ty rcp amount fee data = (Ok st, advanced w)"
  using keypair_backend.build_answers [of X kp w E ty rcp amount fee 0 data] assms
    snd_build_tx(2) [of X E w ty rcp amount fee data]
  by (metis build_tx_def prod.collapse)

lemma keypair_wallet_address:
  "aw_signer w = keypair_signer X kp \<Longrightarrow>
   wallet_address X w = kp_address X kp \<and> signer_public_key w = kp_public_key X kp"
  by (simp add: wallet_address_def signer_public_key_def keypair_signer_def kp_address_def)

subsection \<open>Capability names\<close>

definition canonical_slug :: "rstr \<Rightarrow> bool" where
  "canonical_slug s \<longleftrightarrow> normalize_capability_slug s = Ok s"

lemma lower_not_whitespace:
  "\<not> is_whitespace c \<Longrightarrow> \<not> is_whitespace (if is_ascii_uppercase c then c + 32 else c)"
  by (auto simp: is_whitespace_def is_ascii_uppercase_def)

lemma trim_lower_trim [simp]: "trim (to_ascii_lowercase (trim s)) = to_ascii_lowercase (trim s)"
  using trim_hd [of s] trim_last [of s]
  by (intro trim_id) (auto simp: to_ascii_lowercase_def hd_map last_map lower_not_whitespace)

lemma lower_lower [simp]: "to_ascii_lowercase (to_ascii_lowercase s) = to_ascii_lowercase s"
  by (auto simp: to_ascii_lowercase_def is_ascii_uppercase_def)

lemma slug_field_canonical:
  assumes "normalize_capability_slug_field label s = Ok t"
  shows "canonical_slug t" "normalize_capability_slug_field label t = Ok t"
proof -
  have t: "t = to_ascii_lowercase (trim s)" and "\<exists>u. normalize_capability_slug t = Ok u"
    using assms by (auto simp: normalize_capability_slug_field_def Let_def split: sum.splits)
  then have "normalize_capability_slug t = Ok t"
    by (auto simp: normalize_capability_slug_def Let_def split: if_splits)
  then show "canonical_slug t" "normalize_capability_slug_field label t = Ok t"
    by (simp_all add: canonical_slug_def normalize_capability_slug_field_def t)
qed

lemma slug_list_canonical:
  assumes "normalize_capability_slug_list label ss = Ok ts"
  shows "list_all canonical_slug ts \<and> normalize_capability_slug_list label ts = Ok ts"
  using assms by (induction ss arbitrary: ts) (auto simp: slug_field_canonical)

lemma normalize_opt_canonical:
  assumes "normalize_opt f x = Ok y" "\<And>a b. f a = Ok b \<Longrightarrow> P b \<and> f b = Ok b"
  shows "pred_option P y \<and> normalize_opt f y = Ok y"
  using assms(1) by (cases x) (auto dest: assms(2))

subsection \<open>A concrete wallet\<close>

definition demo_wallet :: agent_wallet where
  "demo_wallet = wallet_new demo_externs demo_keypair (lit ''zincha'') []"

definition demo_env :: wallet_env where
  "demo_env = \<lparr>we_now_ms = 1000, we_fetch_embedding = (\<lambda>_ _. Err []), we_embed_text = (\<lambda>_. [])\<rparr>"

lemma demo_wallet_simps [simp]:
  "aw_signer demo_wallet = keypair_signer demo_externs demo_keypair"
  "aw_nonce demo_wallet = 0" "aw_tx_validity_window demo_wallet = None"
  "aw_chain_id demo_wallet = lit ''zincha''"
  by (simp_all add: demo_wallet_def wallet_new_def wallet_from_signer_def)

lemmas demo_build = keypair_build [OF demo_ed25519_ok wf_demo_keypair]

text \<open>A transfer, then an unstake.\<close>

lemma demo_session:
  "\<exists>st st' w'. wallet_session demo_externs demo_wallet [Ok st, Ok st'] w'"
proof -
  obtain st where "build_transfer demo_externs demo_env demo_wallet addr_zero 5 1
      = (Ok st, advanced demo_wallet)"
    unfolding build_transfer_def by (rule demo_build [OF demo_wallet_simps(1)])
  then have 1: "wallet_call demo_externs demo_env demo_wallet (Ok st, advanced demo_wallet)"
    using wallet_call.intros(1) [of demo_externs demo_env demo_wallet addr_zero 5 1] by simp
  obtain st' where "build_exit_validator demo_externs demo_env (advanced demo_wallet) 1
      = (Ok st', advanced (advanced demo_wallet))"
    unfolding build_exit_validator_def by (rule demo_build [of "advanced demo_wallet"]) simp
  then have 2: "wallet_call demo_externs demo_env (advanced demo_wallet)
      (Ok st', advanced (advanced demo_wallet))"
    by (metis wallet_call.intros)
  show ?thesis
    using session_call [OF session_call [OF session_start 1] 2] by auto
qed

subsection \<open>Properties\<close>

text \<open>(C38) A wallet session, whatever the signing backend does. Every transaction a sequence of
  builder calls returns verifies, under the wallet's key, sender, chain and validity window.
  The issued nonces are taken in order from the consecutive slots that start at the wallet's
  counter, at most one slot per call, so no two of fewer than \<open>2 ^ 64\<close> calls share a nonce.\<close>

theorem wallet_session_safe:
  assumes "wallet_session X w rs w'"
  shows "list_all (\<lambda>st. verify_signed X st = Ok () \<and> st_public_key st = signer_public_key w
        \<and> tx_sender (st_transaction st) = wallet_address X w
        \<and> tx_chain_id (st_transaction st) = aw_chain_id w \<and> within_window w (st_transaction st))
      (issued rs)
    \<and> (\<exists>k \<le> length rs. aw_nonce w' = aw_nonce w + of_nat k \<and> subseq (nonces (issued rs)) (slots w k))
    \<and> (length rs < 2 ^ 64 \<longrightarrow> distinct (nonces (issued rs)))"
proof -
  from session_safe [OF assms] obtain k where k: "list_all (issues X w) (issued rs)" "k \<le> length rs"
    "aw_nonce w' = aw_nonce w + of_nat k" "subseq (nonces (issued rs)) (slots w k)" by blast
  have "distinct (nonces (issued rs))" if "length rs < 2 ^ 64"
    using subseq_distinct [OF k(4)] distinct_slots [of k w] k(2) that by simp
  with k show ?thesis by (auto simp: issues_def [abs_def])
qed

lemma session_answers:
  assumes "ed25519_ok X" "wf_keypair kp" "aw_signer w = keypair_signer X kp" "wallet_session X w rs w'"
  shows "nonces (issued rs) = slots w (length (issued rs))
    \<and> aw_nonce w' = aw_nonce w + of_nat (length (issued rs))
    \<and> list_all (\<lambda>r. case r of Ok _ \<Rightarrow> True | Err e \<Rightarrow> input_error e) rs"
  using assms(4)
proof (induction rule: wallet_session.induct)
  case (session_call rs w1 E r w2)
  have "aw_signer w1 = keypair_signer X kp"
    using session_identity [OF session_call.hyps(1)] assms(3) by (simp add: same_identity_def)
  then have "answered w1 (r, w2)" by (rule call_answered [OF session_call.hyps(2) assms(1,2)])
  moreover have "outcome_ok X w1 (r, w2)" by (rule call_outcome [OF session_call.hyps(2)])
  ultimately show ?case
    using session_call.IH by (cases r) (auto simp: answered_def outcome_ok_def)
qed (simp_all add: slots_def)

theorem wallet_session_safe_witness:
  "\<exists>st st' w'. wallet_session demo_externs demo_wallet [Ok st, Ok st'] w'
     \<and> verify_signed demo_externs st = Ok () \<and> distinct (nonces [st, st'])"
proof -
  obtain st st' w' where "wallet_session demo_externs demo_wallet [Ok st, Ok st'] w'"
    using demo_session by blast
  from this wallet_session_safe [OF this] show ?thesis by (auto simp: issued_def)
qed

text \<open>(C39) Liveness of a wallet with a key pair: every call either returns a transaction or names
  a defect of its arguments, and then takes no nonce. So the issued nonces are exactly the
  consecutive numbers from the wallet's counter on, without a gap.\<close>

theorem keypair_wallet_live:
  assumes "ed25519_ok X" "wf_keypair kp" "aw_signer w = keypair_signer X kp" "wallet_session X w rs w'"
  shows "nonces (issued rs) = map (\<lambda>i. aw_nonce w + of_nat i) [0..<length (issued rs)]
    \<and> aw_nonce w' = aw_nonce w + of_nat (length (issued rs))
    \<and> list_all (\<lambda>r. case r of Ok _ \<Rightarrow> True | Err e \<Rightarrow> input_error e) rs"
  using session_answers [OF assms] by (simp add: slots_def)

theorem keypair_wallet_live_witness:
  "\<exists>st st' w'. wallet_session demo_externs demo_wallet [Ok st, Ok st'] w'
     \<and> nonces [st, st'] = [0, 1] \<and> aw_nonce w' = 2"
proof -
  obtain st st' w' where s: "wallet_session demo_externs demo_wallet [Ok st, Ok st'] w'"
    using demo_session by blast
  from keypair_wallet_live [OF demo_ed25519_ok wf_demo_keypair _ s] s show ?thesis
    by (auto simp: issued_def)
qed

text \<open>(C40) A backend that fails leaves a hole: the nonce is taken before the transaction is
  signed, so the failed call returns an error and the next transaction carries the number
  after the missing one.\<close>

theorem failed_signing_skips_nonce:
  assumes "\<forall>tx h. sg_sign_transaction (aw_signer w) tx h = Err reason"
  shows "build_transfer X E w recipient amount fee = (Err (SigningFailed reason), w\<lparr>aw_nonce := aw_nonce w + 1\<rparr>)
    \<and> (wallet_call X E' (w\<lparr>aw_nonce := aw_nonce w + 1, aw_signer := s\<rparr>) (Ok st, w')
        \<longrightarrow> tx_nonce (st_transaction st) = aw_nonce w + 1)"
proof
  show "build_transfer X E w recipient amount fee
      = (Err (SigningFailed reason), w\<lparr>aw_nonce := aw_nonce w + 1\<rparr>)"
    using assms
    by (simp add: build_transfer_def build_tx_def build_tx_with_priority_fee_def next_nonce_def
        wallet_sign_transaction_def Let_def wallet_address_def signer_public_key_def
        set_validity_window_def split: option.split)
  show "wallet_call X E' (w\<lparr>aw_nonce := aw_nonce w + 1, aw_signer := s\<rparr>) (Ok st, w')
      \<longrightarrow> tx_nonce (st_transaction st) = aw_nonce w + 1"
    by (auto dest: call_outcome simp: outcome_ok_def)
qed

theorem failed_signing_skips_nonce_witness:
  "fst (build_transfer demo_externs demo_env
     (demo_wallet\<lparr>aw_signer := \<lparr>sg_public_key = PublicKey [], sg_sign_transaction = (\<lambda>_ _. Err [0])\<rparr>\<rparr>)
     addr_zero 5 1) = Err (SigningFailed [0])"
  using failed_signing_skips_nonce
    [of "demo_wallet\<lparr>aw_signer := \<lparr>sg_public_key = PublicKey [], sg_sign_transaction = (\<lambda>_ _. Err [0])\<rparr>\<rparr>" "[0]"]
  by simp

text \<open>Capability governance: a proposal or an approval that a builder accepts names
  capabilities, parents, aliases and related entries only by canonical slugs, whatever the case
  and surrounding space of the input; its texts are passed through; and normalising it again
  changes nothing.\<close>

theorem capability_builders_normalize:
  assumes "normalize_capability_proposal p = Ok p'" "normalize_capability_approval a = Ok a'"
  shows "canonical_slug (cpr_slug p') \<and> pred_option canonical_slug (cpr_parent p')
      \<and> list_all canonical_slug (cpr_aliases p') \<and> list_all canonical_slug (cpr_related p')
      \<and> cpr_display_name p' = cpr_display_name p \<and> cpr_description p' = cpr_description p
      \<and> cpr_category p' = cpr_category p \<and> cpr_keywords p' = cpr_keywords p
      \<and> normalize_capability_proposal p' = Ok p'
    \<and> canonical_slug (cap_slug a') \<and> pred_option (pred_option canonical_slug) (cap_parent a')
      \<and> pred_option (list_all canonical_slug) (cap_aliases a')
      \<and> pred_option (list_all canonical_slug) (cap_related a')
      \<and> cap_display_name a' = cap_display_name a \<and> cap_description a' = cap_description a
      \<and> normalize_capability_approval a' = Ok a'"
proof -
  note field = slug_field_canonical and list = slug_list_canonical
  obtain slug par al rel where p: "normalize_capability_slug_field (lit ''slug'') (cpr_slug p) = Ok slug"
      "normalize_opt (normalize_capability_slug_field (lit ''parent'')) (cpr_parent p) = Ok par"
      "normalize_capability_slug_list (lit ''alias'') (cpr_aliases p) = Ok al"
      "normalize_capability_slug_list (lit ''related'') (cpr_related p) = Ok rel"
      "p' = p\<lparr>cpr_slug := slug, cpr_parent := par, cpr_aliases := al, cpr_related := rel\<rparr>"
    using assms(1) by (auto simp: normalize_capability_proposal_def)
  obtain slug' par' al' rel' where a: "normalize_capability_slug_field (lit ''slug'') (cap_slug a) = Ok slug'"
      "normalize_opt (normalize_opt (normalize_capability_slug_field (lit ''parent''))) (cap_parent a) = Ok par'"
      "normalize_opt (normalize_capability_slug_list (lit ''alias'')) (cap_aliases a) = Ok al'"
      "normalize_opt (normalize_capability_slug_list (lit ''related'')) (cap_related a) = Ok rel'"
      "a' = a\<lparr>cap_slug := slug', cap_parent := par', cap_aliases := al', cap_related := rel'\<rparr>"
    using assms(2) by (auto simp: normalize_capability_approval_def)
  note np = field [OF p(1)] normalize_opt_canonical [OF p(2), of canonical_slug] list [OF p(3)] list [OF p(4)]
  note na = field [OF a(1)] normalize_opt_canonical [OF a(2), of "pred_option canonical_slug"]
    normalize_opt_canonical [OF a(3), of "list_all canonical_slug"]
    normalize_opt_canonical [OF a(4), of "list_all canonical_slug"]
  have "pred_option canonical_slug par \<and> normalize_opt (normalize_capability_slug_field (lit ''parent'')) par = Ok par"
    using field by (intro np(3)) blast
  moreover have "pred_option (pred_option canonical_slug) par'
      \<and> normalize_opt (normalize_opt (normalize_capability_slug_field (lit ''parent''))) par' = Ok par'"
    using field by (intro na(3) normalize_opt_canonical) blast+
  moreover have "pred_option (list_all canonical_slug) al'
      \<and> normalize_opt (normalize_capability_slug_list (lit ''alias'')) al' = Ok al'"
    using list by (intro na(4)) blast
  moreover have "pred_option (list_all canonical_slug) rel'
      \<and> normalize_opt (normalize_capability_slug_list (lit ''related'')) rel' = Ok rel'"
    using list by (intro na(5)) blast
  ultimately show ?thesis
    using np(1,2,4,5) na(1,2)
    by (simp add: p(5) a(5) normalize_capability_proposal_def normalize_capability_approval_def)
qed

lemmas slug_eval = normalize_capability_slug_field_def Let_def normalize_capability_slug_def
  trim_def trim_start_def char_class_defs to_ascii_lowercase_def str_len_def utf8_def
  utf8_char_def utf8_units_def MAX_CAPABILITY_SLUG_BYTES_def slug_tail_char_def

lemma demo_slugs:
  "normalize_capability_slug_field l (lit '' A.b'') = Ok (lit ''a.b'')"
  "normalize_capability_slug_field l (lit ''c.D'') = Ok (lit ''c.d'')"
  by (simp_all add: slug_eval)

theorem capability_builders_normalize_witness:
  fixes p a
  defines "p \<equiv> \<lparr>cpr_slug = lit '' A.b'', cpr_display_name = [], cpr_description = [],
      cpr_category = [], cpr_parent = Some (lit ''c.D''), cpr_aliases = [lit '' A.b''],
      cpr_keywords = [], cpr_examples = [], cpr_related = []\<rparr>"
    and "a \<equiv> \<lparr>cap_slug = lit '' A.b'', cap_display_name = None, cap_description = None,
      cap_category = None, cap_parent = Some None, cap_aliases = None, cap_keywords = None,
      cap_examples = None, cap_related = None\<rparr>"
  shows "\<exists>p'. normalize_capability_proposal p = Ok p' \<and> cpr_slug p' = lit ''a.b''
    \<and> canonical_slug (cpr_slug p')"
proof -
  have "normalize_capability_proposal p = Ok (p\<lparr>cpr_slug := lit ''a.b'',
      cpr_parent := Some (lit ''c.d''), cpr_aliases := [lit ''a.b'']\<rparr>)"
    and "normalize_capability_approval a = Ok (a\<lparr>cap_slug := lit ''a.b''\<rparr>)"
    unfolding p_def a_def normalize_capability_proposal_def normalize_capability_approval_def
    by (simp_all add: demo_slugs del: list.map)
  from this(1) capability_builders_normalize [OF this] show ?thesis by auto
qed

text \<open>Epoch randomness through a wallet: with the validator's own key pair, committing and then
  contributing both yield transactions, with consecutive nonces; the contribution carried by the
  second opens the commitment carried by the first, and verifies against the wallet's key,
  chain and address.\<close>

theorem wallet_vrf_round:
  assumes "ed25519_ok X" "wf_keypair kp" "aw_signer w = keypair_signer X kp"
  shows "\<exists>st st' w1 w2 c d.
      build_validator_vrf_commit X E w epoch seed kp fee = (Ok st, w1)
    \<and> build_validator_vrf_contribution X E' w1 epoch seed kp fee' = (Ok st', w2)
    \<and> tx_nonce (st_transaction st') = tx_nonce (st_transaction st) + 1
    \<and> tx_data (st_transaction st) = write_vrf_commit_data \<lparr>vc_target_epoch = epoch, vc_commitment = c\<rparr>
    \<and> tx_data (st_transaction st') = write_vrf_contribution_data d
    \<and> is_ok (reveal X (committed_only (tx_sender (st_transaction st)) epoch c b) d b')
    \<and> verify_for_validator X d (tx_chain_id (st_transaction st')) (tx_sender (st_transaction st'))
        (st_public_key st') seed = Ok ()"
proof -
  let ?d = "honest_contribution X kp (aw_chain_id w) epoch seed"
  note addr = keypair_wallet_address [OF assms(3)]
  note vrf = honest_vrf_contribution [OF assms(1,2), of "aw_chain_id w" epoch seed b b' ?d]
  obtain c where c: "commitment_hash X ?d = Ok c"
    "is_ok (reveal X (committed_only (kp_address X kp) epoch c b) ?d b')"
    using vrf by (auto simp: is_ok_iff)
  obtain st where st: "build_tx X E w ValidatorVrfCommit addr_zero 0 fee
      (write_vrf_commit_data \<lparr>vc_target_epoch = epoch, vc_commitment = c\<rparr>) = (Ok st, advanced w)"
    using keypair_build [OF assms] by blast
  obtain st' where st': "build_tx X E' (advanced w) ValidatorVrfContribution addr_zero 0 fee'
      (write_vrf_contribution_data ?d) = (Ok st', advanced (advanced w))"
    using keypair_build [OF assms(1,2), of "advanced w"] assms(3) by (metis advanced_simps(1))
  have pk: "st_public_key st' = kp_public_key X kp"
    using outcome_build [of X "advanced w" E' ValidatorVrfContribution addr_zero 0 fee'
        "write_vrf_contribution_data ?d"] addr by (simp add: st' outcome_ok_def issues_def)
  have "build_validator_vrf_commit X E w epoch seed kp fee = (Ok st, advanced w)"
    using addr by (simp add: build_validator_vrf_commit_def reveal_data_honest [OF assms(1,2)] c(1) st)
  moreover have "build_validator_vrf_contribution X E' (advanced w) epoch seed kp fee'
      = (Ok st', advanced (advanced w))"
    using addr by (simp add: build_validator_vrf_contribution_def reveal_data_honest [OF assms(1,2)] st')
  moreover have "verify_for_validator X ?d (aw_chain_id w) (kp_address X kp) (kp_public_key X kp) seed = Ok ()"
    using vrf by blast
  ultimately show ?thesis
    using build_tx_Ok [OF st] build_tx_Ok [OF st'] addr pk c(2)
    by (intro exI [of _ st] exI [of _ st'] exI [of _ "advanced w"] exI [of _ "advanced (advanced w)"]
        exI [of _ c] exI [of _ ?d]) simp
qed

theorem wallet_vrf_round_witness:
  "\<exists>st w1. build_validator_vrf_commit demo_externs demo_env demo_wallet 3 hash_zero demo_keypair 1 = (Ok st, w1)"
  using wallet_vrf_round [OF demo_ed25519_ok wf_demo_keypair demo_wallet_simps(1),
      of demo_env 3 hash_zero 1 demo_env 1 0 0]
  by blast

text \<open>Entity links through a wallet: a key pair wallet always issues the link transaction, and
  the payload it carries is accepted for the transaction's sender and chain exactly when the
  authorizer is the named entity and the wallet does not name itself.\<close>

theorem wallet_entity_link:
  assumes "ed25519_ok X" "wf_keypair kp" "aw_signer w = keypair_signer X kp" "wf_keypair authorizer"
  shows "\<exists>st d. build_entity_link X E w entity authorizer fee = (Ok st, w\<lparr>aw_nonce := aw_nonce w + 1\<rparr>)
    \<and> tx_data (st_transaction st) = write_entity_link_data d \<and> el_entity d = entity
    \<and> (entity_link_verify X d (tx_sender (st_transaction st)) (tx_chain_id (st_transaction st)) = Ok ()
        \<longleftrightarrow> entity = kp_address X authorizer \<and> entity \<noteq> wallet_address X w)"
proof -
  let ?d = "\<lparr>el_entity = entity, el_authorizer_public_key = Some (kp_public_key X authorizer),
    el_authorizer_signature = Some (kp_sign X authorizer
      (entity_link_message X (aw_chain_id w) (wallet_address X w) entity))\<rparr>"
  obtain st where st: "build_tx X E w EntityLink addr_zero 0 fee (write_entity_link_data ?d)
      = (Ok st, advanced w)"
    using keypair_build [OF assms(1-3)] by blast
  have "ed_verify X (pk_bytes (kp_public_key X authorizer)) m (sig_bytes (kp_sign X authorizer m))" for m
    using assms(1,4) by (simp add: ed25519_ok_def wf_keypair_def kp_public_key_def kp_sign_def)
  then show ?thesis
    using st build_tx_Ok [OF st]
    by (intro exI [of _ st] exI [of _ ?d])
      (auto simp: build_entity_link_def entity_link_verify_Ok kp_address_def advanced_def)
qed

theorem wallet_entity_link_witness:
  "\<exists>st d. fst (build_entity_link demo_externs demo_env demo_wallet addr_zero demo_keypair 1) = Ok st
     \<and> tx_data (st_transaction st) = write_entity_link_data d \<and> el_entity d = addr_zero"
  using wallet_entity_link [OF demo_ed25519_ok wf_demo_keypair _ wf_demo_keypair, of demo_wallet demo_env addr_zero 1]
  by auto

text \<open>A contract call is committed by its transaction hash: where SHA-256 does not collide on
  the two transactions, calls built with the same hash agree in sender, chain, nonce, contract,
  function, arguments, value, gas limit and fee.\<close>

theorem contract_call_committed:
  assumes "build_call_contract X E w c f a v g fee = (Ok st, w1)"
    and "build_call_contract X E' w' c' f' a' v' g' fee' = (Ok st', w1')"
    and "wf_tx (st_transaction st)" "wf_tx (st_transaction st')"
    and "valid_string f" "valid_string f'" "fits_u64 a" "fits_u64 a'"
    and "inj_on (hash_bytes X) {serialize_transaction (st_transaction st),
           serialize_transaction (st_transaction st')}"
    and "st_hash st = st_hash st'"
  shows "wallet_address X w = wallet_address X w' \<and> aw_chain_id w = aw_chain_id w'
    \<and> aw_nonce w = aw_nonce w' \<and> c = c' \<and> f = f' \<and> a = a' \<and> v = v' \<and> g = g' \<and> fee = fee'"
proof -
  let ?d = "\<lparr>ccd_contract_address = c, ccd_function = f, ccd_args = a, ccd_gas_limit = g\<rparr>"
  let ?d' = "\<lparr>ccd_contract_address = c', ccd_function = f', ccd_args = a', ccd_gas_limit = g'\<rparr>"
  note st = build_tx_Ok [OF assms(1) [unfolded build_call_contract_def]]
  note st' = build_tx_Ok [OF assms(2) [unfolded build_call_contract_def]]
  have eq: "st_transaction st = st_transaction st'"
    using tx_hash_binding [OF assms(3,4,9)] assms(10) st(9) st'(9) by (simp add: verify_signed_Ok)
  have "wf_addr c" "wf_addr c'" using assms(3,4) st(2) st'(2) by (auto simp: wf_tx_def)
  with assms(5-8) have "valid_contract_call_data ?d" "valid_contract_call_data ?d'"
    by (simp_all add: valid_contract_call_data_def)
  moreover have "write_contract_call_data ?d = write_contract_call_data ?d'"
    using eq st(5) st'(5) by simp
  ultimately have "?d = ?d'" by (simp add: contract_callw.enc_inj)
  with eq st st' show ?thesis by simp
qed

theorem contract_call_committed_witness:
  "\<exists>st w1. build_call_contract demo_externs demo_env demo_wallet addr_zero (lit ''f'') [1] 0 9 1 = (Ok st, w1)
     \<and> wf_tx (st_transaction st) \<and> valid_string (lit ''f'')
     \<and> inj_on (hash_bytes demo_externs) {serialize_transaction (st_transaction st)}
     \<and> aw_chain_id demo_wallet = lit ''zincha''"
proof -
  let ?data = "write_contract_call_data \<lparr>ccd_contract_address = addr_zero, ccd_function = lit ''f'',
      ccd_args = [1], ccd_gas_limit = 9\<rparr>"
  obtain st where st: "build_tx demo_externs demo_env demo_wallet ContractCall addr_zero 0 1 ?data
      = (Ok st, advanced demo_wallet)"
    by (rule demo_build [OF demo_wallet_simps(1)])
  have "tx_reference_block_hash (st_transaction st) = hash_zero"
    using st by (auto simp: build_tx_def build_tx_with_priority_fee_def next_nonce_def Let_def
        wallet_sign_transaction_def split: if_splits sum.splits option.splits)
  then have wf: "wf_tx (st_transaction st)"
    using build_tx_Ok [OF st] wf_from_public_key [OF demo_sha256_ok]
    by (simp add: wf_tx_def wallet_address_def wf_hash_def hash_zero_def wf_addr_def addr_zero_def
        fits_u64_def valid_string_def wf_str_def is_scalar_def utf8_def utf8_char_def utf8_units_def
        write_contract_call_data_def write_addr_def write_string_def write_bytes_def write_u64_def)
  have b: "build_call_contract demo_externs demo_env demo_wallet addr_zero (lit ''f'') [1] 0 9 1
      = (Ok st, advanced demo_wallet)"
    using st by (simp add: build_call_contract_def)
  have f: "valid_string (lit ''f'')" "fits_u64 [1 :: u8]"
    by (simp_all add: valid_string_def wf_str_def is_scalar_def fits_u64_def utf8_def utf8_char_def
        utf8_units_def)
  show ?thesis
    using contract_call_committed [OF b b wf wf f(1) f(1) f(2) f(2)] b wf f by auto
qed

end
