(* ===== verification/Utf8.thy ===== *)
theory Utf8
  imports Rust_Str
begin

text \<open>
  Reading text back from bytes: \<open>std::str::from_utf8\<close>, which accepts exactly the encodings of
  Unicode scalar values in their shortest form, and \<open>str::lines\<close>, which cuts at line feeds, drops
  the carriage return before one, and yields no empty last line. \<open>from_utf8\<close> is the inverse of
  \<open>utf8\<close> (\<open>from_utf8_iff\<close>).
\<close>

subsection \<open>Decoding\<close>

definition char_width :: "u8 \<Rightarrow> nat" where
  "char_width b = (if b < 0x80 then 1 else if b < 0xE0 then 2 else if b < 0xF0 then 3 else 4)"

fun units_char :: "nat list \<Rightarrow> rchar" where
  "units_char [a] = a"
| "units_char [a, b] = (a - 0xC0) * 64 + (b - 0x80)"
| "units_char [a, b, c] = (a - 0xE0) * 4096 + (b - 0x80) * 64 + (c - 0x80)"
| "units_char [a, b, c, d] = (a - 0xF0) * 262144 + (b - 0x80) * 4096 + (c - 0x80) * 64 + (d - 0x80)"
| "units_char _ = 0x110000"

definition decode_char :: "u8 list \<Rightarrow> (rchar \<times> u8 list) option" where
  "decode_char bs =
     (case bs of
        [] \<Rightarrow> None
      | b # _ \<Rightarrow>
          let head = take (char_width b) bs; c = units_char (map unat head)
          in if is_scalar c \<and> utf8_char c = head then Some (c, drop (char_width b) bs) else None)"

lemma char_width_pos: "0 < char_width b"
  by (simp add: char_width_def)

lemma decode_char_SomeD:
  "decode_char bs = Some (c, rest) \<Longrightarrow> is_scalar c \<and> bs = utf8_char c @ rest"
  by (auto simp: decode_char_def Let_def split: list.splits if_splits)

lemma utf8_char_not_Nil [simp]: "utf8_char c \<noteq> []"
  by (simp add: utf8_char_def utf8_units_def)

lemma decode_char_shorter: "decode_char bs = Some (c, rest) \<Longrightarrow> length rest < length bs"
  using decode_char_SomeD [of bs c rest] by (cases "utf8_char c") auto

function from_utf8 :: "u8 list \<Rightarrow> rstr option" where
  "from_utf8 bs =
     (if bs = [] then Some []
      else case decode_char bs of
             None \<Rightarrow> None
           | Some (c, rest) \<Rightarrow> map_option ((#) c) (from_utf8 rest))"
  by pat_completeness auto
termination
  by (relation "measure length") (auto dest: decode_char_shorter)

declare from_utf8.simps [simp del]

lemma unat_byte: "n < 256 \<Longrightarrow> unat (of_nat n :: u8) = n"
  by (simp add: unsigned_of_nat take_bit_nat_eq_self)

lemma of_nat_byte_less: "m < 256 \<Longrightarrow> n < 256 \<Longrightarrow> (of_nat m :: u8) < of_nat n \<longleftrightarrow> m < n"
  by (simp add: word_less_nat_alt unat_byte)

lemma char_width_of_nat:
  assumes "n < 256"
  shows "char_width (of_nat n) = (if n < 0x80 then 1 else if n < 0xE0 then 2 else if n < 0xF0 then 3 else 4)"
  using of_nat_byte_less [OF assms, of "0x80"] of_nat_byte_less [OF assms, of "0xE0"]
    of_nat_byte_less [OF assms, of "0xF0"]
  by (simp add: char_width_def)

lemma utf8_units_byte: "is_scalar c \<Longrightarrow> u \<in> set (utf8_units c) \<Longrightarrow> u < 256"
  by (auto simp: utf8_units_def is_scalar_def split: if_splits)

lemma base64_digits:
  fixes c :: nat
  shows "c div 64 * 64 + c mod 64 = c"
    and "c div 4096 * 4096 + c div 64 mod 64 * 64 + c mod 64 = c"
    and "c div 262144 * 262144 + c div 4096 mod 64 * 4096 + c div 64 mod 64 * 64 + c mod 64 = c"
proof -
  have a: "n div 64 * 64 + n mod 64 = n" for n :: nat by simp
  have b: "c div 4096 = c div 64 div 64" "c div 262144 = c div 64 div 64 div 64"
    by (simp_all add: div_mult2_eq [symmetric])
  show "c div 64 * 64 + c mod 64 = c" by simp
  show "c div 4096 * 4096 + c div 64 mod 64 * 64 + c mod 64 = c"
    using a [of c] a [of "c div 64"] b by linarith
  show "c div 262144 * 262144 + c div 4096 mod 64 * 4096 + c div 64 mod 64 * 64 + c mod 64 = c"
    using a [of c] a [of "c div 64"] a [of "c div 64 div 64"] unfolding b by linarith
qed

lemma units_char_utf8: "is_scalar c \<Longrightarrow> units_char (utf8_units c) = c"
  using base64_digits [of c] by (simp add: utf8_units_def is_scalar_def)

lemma length_utf8_units:
  assumes "is_scalar c"
  shows "char_width (hd (utf8_char c)) = length (utf8_units c)"
proof -
  have "hd (utf8_units c) < 256"
    using utf8_units_byte [OF assms] by (simp add: utf8_units_def)
  moreover have "hd (utf8_char c) = of_nat (hd (utf8_units c))"
    by (simp add: utf8_char_def utf8_units_def)
  ultimately have "char_width (hd (utf8_char c)) = (let n = hd (utf8_units c) in
      if n < 0x80 then 1 else if n < 0xE0 then 2 else if n < 0xF0 then 3 else 4)"
    by (simp add: char_width_of_nat Let_def)
  also have "\<dots> = length (utf8_units c)"
    using assms by (auto simp: utf8_units_def is_scalar_def Let_def split: if_splits)
  finally show ?thesis .
qed

lemma decode_char_utf8:
  assumes "is_scalar c"
  shows "decode_char (utf8_char c @ rest) = Some (c, rest)"
proof -
  obtain b bs where b: "utf8_char c = b # bs" by (cases "utf8_char c") auto
  then have "char_width b = length (utf8_char c)"
    using length_utf8_units [OF assms] b by (metis length_map list.sel(1) utf8_char_def)
  then have "take (char_width b) (utf8_char c @ rest) = utf8_char c"
    "drop (char_width b) (utf8_char c @ rest) = rest" by simp_all
  moreover have "map unat (utf8_char c) = utf8_units c"
    using utf8_units_byte [OF assms] by (simp add: utf8_char_def unat_byte map_idI)
  moreover have "utf8_char c @ rest = b # bs @ rest" by (simp add: b)
  ultimately show ?thesis
    using assms units_char_utf8 [OF assms] by (simp add: decode_char_def Let_def)
qed

lemma utf8_Cons: "utf8 (c # s) = utf8_char c @ utf8 s"
  by (simp add: utf8_def)

lemma utf8_simps [simp]: "utf8 [] = []" "utf8 (s @ t) = utf8 s @ utf8 t"
  by (simp_all add: utf8_def)

lemma from_utf8_utf8: "wf_str s \<Longrightarrow> from_utf8 (utf8 s) = Some s"
proof (induction s)
  case Nil
  then show ?case by (simp add: from_utf8.simps)
next
  case (Cons c s)
  then show ?case
    by (subst from_utf8.simps) (simp add: utf8_Cons decode_char_utf8 wf_str_def)
qed

lemma from_utf8_SomeD: "from_utf8 bs = Some s \<Longrightarrow> wf_str s \<and> utf8 s = bs"
proof (induction bs arbitrary: s rule: from_utf8.induct)
  case (1 bs)
  show ?case
  proof (cases "bs = []")
    case True
    with 1(2) show ?thesis by (simp add: from_utf8.simps wf_str_def)
  next
    case False
    with 1(2) obtain c rest t where d: "decode_char bs = Some (c, rest)"
      and t: "from_utf8 rest = Some t" "s = c # t"
      by (subst (asm) from_utf8.simps) (auto split: option.splits)
    with 1(1) [OF False d refl t(1)] decode_char_SomeD [OF d] show ?thesis
      by (simp add: wf_str_def utf8_Cons)
  qed
qed

lemma from_utf8_iff: "from_utf8 bs = Some s \<longleftrightarrow> wf_str s \<and> utf8 s = bs"
  using from_utf8_utf8 from_utf8_SomeD by blast

lemma utf8_ascii: "list_all (\<lambda>c. c < 0x80) s \<Longrightarrow> utf8 s = map of_nat s"
  by (induction s) (auto simp: utf8_Cons utf8_char_def utf8_units_def)

lemma wf_str_ascii: "list_all (\<lambda>c. c < 0x80) s \<Longrightarrow> wf_str s"
  by (auto simp: wf_str_def is_scalar_def list_all_iff)

lemma wf_str_append [simp]: "wf_str (s @ t) \<longleftrightarrow> wf_str s \<and> wf_str t"
  by (simp add: wf_str_def)

text \<open>Every byte of a multi-byte encoding is at least \<open>0x80\<close>: an ASCII byte is an ASCII character.\<close>

lemma ascii_byte_of_char:
  assumes "is_scalar c" "of_nat n \<in> set (utf8_char c)" "n < 0x80"
  shows "c = n"
proof -
  obtain u where u: "u \<in> set (utf8_units c)" "(of_nat n :: u8) = of_nat u"
    using assms(2) by (auto simp: utf8_char_def)
  then have "u < 256" using utf8_units_byte [OF assms(1)] by blast
  with u(2) assms(3) have "u = n" using unat_byte [of u] unat_byte [of n] by simp
  with u(1) assms(3) show ?thesis by (auto simp: utf8_units_def split: if_splits)
qed

lemma ascii_byte_utf8:
  assumes "wf_str s" "n < 0x80"
  shows "of_nat n \<in> set (utf8 s) \<longleftrightarrow> n \<in> set s"
proof
  assume "of_nat n \<in> set (utf8 s)"
  then obtain c where c: "c \<in> set s" "of_nat n \<in> set (utf8_char c)" by (auto simp: utf8_def)
  moreover have "is_scalar c" using c(1) assms(1) by (simp add: wf_str_def list_all_iff)
  ultimately show "n \<in> set s" using ascii_byte_of_char assms(2) by blast
next
  assume "n \<in> set s"
  then obtain a b where "s = a @ n # b" by (meson split_list)
  moreover have "of_nat n \<in> set (utf8_char n)"
    using assms(2) by (simp add: utf8_char_def utf8_units_def)
  ultimately show "of_nat n \<in> set (utf8 s)" by (simp add: utf8_Cons)
qed

lemma ascii_bytes_ascii_chars:
  assumes "wf_str s" "list_all (\<lambda>b. b < 0x80) (utf8 s)"
  shows "list_all (\<lambda>c. c < 0x80) s"
proof (rule ccontr)
  assume "\<not> list_all (\<lambda>c. c < 0x80) s"
  then obtain c where c: "c \<in> set s" "\<not> c < 0x80" by (auto simp: list_all_iff)
  then have sc: "is_scalar c" using assms(1) by (simp add: wf_str_def list_all_iff)
  have "hd (utf8_char c) \<in> set (utf8_char c)" by simp
  then have "hd (utf8_char c) \<in> set (utf8 s)"
    using c(1) by (simp only: utf8_def set_concat set_map image_image UN_iff) blast
  then have "hd (utf8_char c) < 0x80" using assms(2) by (simp add: list_all_iff)
  then have "char_width (hd (utf8_char c)) = 1" by (simp add: char_width_def)
  with length_utf8_units [OF sc] have "length (utf8_units c) = 1" by simp
  with c(2) show False by (simp add: utf8_units_def split: if_splits)
qed

subsection \<open>Lines\<close>

definition strip_cr :: "rstr \<Rightarrow> rstr" where
  "strip_cr s = (if s \<noteq> [] \<and> last s = 0x0D then butlast s else s)"

definition str_lines :: "rstr \<Rightarrow> rstr list" where
  "str_lines s =
     (let parts = split_on 0x0A s
      in map strip_cr (butlast parts) @ (if last parts = [] then [] else [last parts]))"

lemma str_lines_no_lf: "0x0A \<notin> set s \<Longrightarrow> str_lines s = (if s = [] then [] else [s])"
  by (simp add: str_lines_def split_on_fresh)

lemma str_lines_append_lf:
  "0x0A \<notin> set a \<Longrightarrow> str_lines (a @ 0x0A # b) = strip_cr a # str_lines b"
  by (simp add: str_lines_def Let_def split_on_append_sep)

end
