(* ===== verification/Conversation.thy ===== *)
theory Conversation
  imports Entity_Link Utf8
begin

text \<open>
  Conversations between parties of a task, agreement or tool session
  (\<open>crates/zincha-client/src/conversation.rs\<close>): the data exchanged, its validation, and what
  the client signs. Arbitrary JSON (\<open>serde_json::Value\<close>) is the type parameter \<open>'j\<close>.

  Third-party code is the record \<open>conv_externs\<close>, an argument: the text form of UUIDs, canonical
  JSON, and the contributory check of X25519; \<open>cx_crypto\<close> holds SHA-256, hex and Ed25519. Random
  values and the clock are arguments of the functions that draw them. Timestamps are \<open>i64\<close>,
  64-bit words read with \<open>sint\<close>.

  The signed texts join their fields with line feeds. The lemmas show that validation keeps line
  feeds out of the fields, so the texts can be split again: a signature binds every field.
\<close>

type_synonym i64 = "64 word"
type_synonym uuid = "128 word"

subsection \<open>Data\<close>

datatype subject_kind = SubjTask | SubjAgreement | SubjToolJob | SubjToolSession

fun subject_kind_as_str :: "subject_kind \<Rightarrow> rstr" where
  "subject_kind_as_str SubjTask = lit ''task''"
| "subject_kind_as_str SubjAgreement = lit ''agreement''"
| "subject_kind_as_str SubjToolJob = lit ''tool_job''"
| "subject_kind_as_str SubjToolSession = lit ''tool_session''"

record subject_ref =
  sr_network :: rstr
  sr_chain_id :: rstr
  sr_kind :: subject_kind
  sr_id :: rstr

datatype privacy_mode = PlatformReadable | EndToEnd

record conversation_key_delegation =
  kd_version :: u16
  kd_delegation_id :: uuid
  kd_participant_address :: rstr
  kd_participant_public_key :: rstr
  kd_subject :: subject_ref
  kd_home_service_id :: rstr
  kd_operational_signing_key :: rstr
  kd_encryption_key :: rstr
  kd_capabilities :: "rstr list"
  kd_not_before_ms :: i64
  kd_expires_at_ms :: i64
  kd_nonce :: rstr
  kd_signature :: rstr

record create_delegation_options =
  co_subject :: subject_ref
  co_home_service_id :: rstr
  co_not_before_ms :: i64
  co_expires_at_ms :: i64
  co_capabilities :: "rstr list"

record challenge_request =
  cr_participant_address :: rstr
  cr_subject :: subject_ref

record challenge_response =
  ch_challenge_id :: uuid
  ch_challenge :: rstr
  ch_expires_at_ms :: i64

record session_request =
  sq_challenge_id :: uuid
  sq_delegation :: conversation_key_delegation
  sq_challenge_signature :: rstr

record session_response =
  se_access_token :: rstr
  se_expires_at_ms :: i64

record resolve_conversation_request =
  rv_subject :: subject_ref
  rv_provider_address :: rstr
  rv_privacy_mode :: privacy_mode

record 'j conversation =
  cv_id :: rstr
  cv_tenant_id :: rstr
  cv_subject :: subject_ref
  cv_home_service_id :: rstr
  cv_privacy_mode :: privacy_mode
  cv_snapshot :: 'j
  cv_created_at_ms :: i64
  cv_updated_at_ms :: i64

datatype 'j message_part =
    PartText rstr
  | PartData 'j
  | PartArtifact uuid (part_digest: rstr) (part_media_type: rstr) u64

datatype 'j message_payload = Plaintext "'j message_part list" | Ciphertext rstr

record 'j submit_message_request =
  sm_message_id :: uuid
  sm_client_timestamp_ms :: i64
  sm_reply_to :: "uuid option"
  sm_key_epoch :: "u64 option"
  sm_payload :: "'j message_payload"
  sm_signing_key_id :: rstr
  sm_signature :: rstr

record 'j message_record =
  mr_conversation_id :: rstr
  mr_sequence :: i64
  mr_message_id :: uuid
  mr_sender :: rstr
  mr_client_timestamp_ms :: i64
  mr_accepted_at_ms :: i64
  mr_reply_to :: "uuid option"
  mr_key_epoch :: "u64 option"
  mr_payload :: "'j message_payload"
  mr_payload_digest :: rstr
  mr_signing_key_id :: rstr
  mr_signature :: rstr

record 'j conv_externs =
  cx_crypto :: externs
  cx_uuid_text :: "uuid \<Rightarrow> rstr"
  cx_jcs_payload :: "'j message_payload \<Rightarrow> u8 list option"
  cx_contributory :: "u8 list \<Rightarrow> u8 list \<Rightarrow> bool"

text \<open>
  What the code relies on: the text of a UUID identifies it, and is thirty-six characters, each
  a lower-case hexadecimal digit or a hyphen.
\<close>

definition uuid_char :: "rchar \<Rightarrow> bool" where
  "uuid_char c \<longleftrightarrow> is_ascii_digit c \<or> (0x61 \<le> c \<and> c \<le> 0x66) \<or> c = 0x2D"

definition uuid_ok :: "'j conv_externs \<Rightarrow> bool" where
  "uuid_ok C \<longleftrightarrow> inj (cx_uuid_text C)
     \<and> (\<forall>u. length (cx_uuid_text C u) = 36 \<and> list_all uuid_char (cx_uuid_text C u))"

datatype conv_error =
    BadSubject | BadIdentifier | BadServiceId | BadAddress | BadKeyEpoch | PlaintextWithEpoch
  | BadCiphertext | NotPlaintext | BadPartCount | BadArtifact | NonContributoryKey | BadValidity
  | BadCapabilities | NotCanonicalizable

subsection \<open>Validation\<close>

definition lower_hex_byte :: "u8 \<Rightarrow> bool" where
  "lower_hex_byte b \<longleftrightarrow> (0x30 \<le> b \<and> b \<le> 0x39) \<or> (0x61 \<le> b \<and> b \<le> 0x66)"

definition validate_conversation_id :: "rstr \<Rightarrow> conv_error + unit" where
  "validate_conversation_id s =
     (if str_len s \<noteq> 64 \<or> \<not> list_all lower_hex_byte (utf8 s) then Err BadIdentifier else Ok ())"

definition validate_subject_ref :: "subject_ref \<Rightarrow> conv_error + unit" where
  "validate_subject_ref s =
     (if trim (sr_network s) = [] \<or> 64 < str_len (sr_network s) \<or> list_ex is_control (sr_network s)
         \<or> trim (sr_chain_id s) = [] \<or> 128 < str_len (sr_chain_id s)
         \<or> list_ex is_control (sr_chain_id s)
      then Err BadSubject
      else (case validate_conversation_id (sr_id s) of Err _ \<Rightarrow> Err BadIdentifier | Ok u \<Rightarrow> Ok u))"

definition validate_service_id :: "rstr \<Rightarrow> conv_error + unit" where
  "validate_service_id s =
     (if trim s = [] \<or> 256 < length s \<or> list_ex is_control s then Err BadServiceId else Ok ())"

definition validate_conversation_address :: "rstr \<Rightarrow> conv_error + unit" where
  "validate_conversation_address s =
     bind_result (ok_or (strip_prefix s (lit ''zn1'')) BadAddress) (\<lambda>body.
       if str_len body \<noteq> 40 \<or> \<not> list_all lower_hex_byte (utf8 body) then Err BadAddress else Ok ())"

fun bad_artifact :: "'j message_part \<Rightarrow> bool" where
  "bad_artifact (PartArtifact _ digest media_type _) \<longleftrightarrow>
     str_len digest \<noteq> 64 \<or> \<not> list_all lower_hex_byte (utf8 digest) \<or> media_type = []
     \<or> 255 < str_len media_type \<or> list_ex is_control media_type"
| "bad_artifact _ \<longleftrightarrow> False"

fun validate_plaintext_payload :: "'j message_payload \<Rightarrow> conv_error + unit" where
  "validate_plaintext_payload (Ciphertext _) = Err NotPlaintext"
| "validate_plaintext_payload (Plaintext parts) =
     (if parts = [] \<or> 256 < length parts then Err BadPartCount
      else if list_ex bad_artifact parts then Err BadArtifact
      else Ok ())"

definition url_safe_byte :: "u8 \<Rightarrow> bool" where
  "url_safe_byte b \<longleftrightarrow> (0x30 \<le> b \<and> b \<le> 0x39) \<or> (0x41 \<le> b \<and> b \<le> 0x5A) \<or> (0x61 \<le> b \<and> b \<le> 0x7A)
     \<or> b = 0x2D \<or> b = 0x5F"

fun validate_message_payload :: "'j message_payload \<Rightarrow> u64 option \<Rightarrow> conv_error + unit" where
  "validate_message_payload (Plaintext parts) key_epoch =
     (if key_epoch \<noteq> None then Err PlaintextWithEpoch
      else validate_plaintext_payload (Plaintext parts))"
| "validate_message_payload (Ciphertext ciphertext) key_epoch =
     (if key_epoch = None \<or> ciphertext = [] \<or> str_len ciphertext mod 4 = 1
         \<or> \<not> list_all url_safe_byte (utf8 ciphertext)
      then Err BadCiphertext else Ok ())"

text \<open>The probe secret is the fixed array of thirty-two bytes \<open>0x42\<close>.\<close>

definition validate_x25519_public_key :: "'j conv_externs \<Rightarrow> u8 list \<Rightarrow> conv_error + unit" where
  "validate_x25519_public_key C public_key =
     (if cx_contributory C (replicate 32 0x42) public_key then Ok () else Err NonContributoryKey)"

definition fits_i64 :: "u64 \<Rightarrow> bool" where
  "fits_i64 n \<longleftrightarrow> n < push_bit 63 1"

subsection \<open>Delegations\<close>

definition show_i64 :: "i64 \<Rightarrow> rstr" where
  "show_i64 w = (if sint w < 0 then 0x2D # show_nat (nat (- sint w)) else show_nat (nat (sint w)))"

definition i64_saturating_add :: "i64 \<Rightarrow> i64 \<Rightarrow> i64" where
  "i64_saturating_add a b = word_of_int (max (- (2 ^ 63)) (min (2 ^ 63 - 1) (sint a + sint b)))"

definition i64_saturating_sub :: "i64 \<Rightarrow> i64 \<Rightarrow> i64" where
  "i64_saturating_sub a b =
     word_of_int (max (- (2 ^ 63)) (min (2 ^ 63 - 1) (sint a - sint b)))"

definition DELEGATION_DOMAIN :: rstr where
  "DELEGATION_DOMAIN = lit ''zincha-conversation-delegation-v1''"
definition CHALLENGE_DOMAIN :: rstr where
  "CHALLENGE_DOMAIN = lit ''zincha-conversation-challenge-v1''"
definition MESSAGE_DOMAIN :: rstr where
  "MESSAGE_DOMAIN = lit ''zincha-conversation-message-v1''"

text \<open>Collecting into a \<open>BTreeSet<String>\<close> sorts by bytes and drops duplicates.\<close>

definition btree_set :: "rstr list \<Rightarrow> rstr list" where
  "btree_set xs = remdups_adj (sort_key utf8 xs)"

definition delegation_fields :: "'j conv_externs \<Rightarrow> conversation_key_delegation \<Rightarrow> rstr list" where
  "delegation_fields C d =
     [DELEGATION_DOMAIN, show_nat (unat (kd_version d)), cx_uuid_text C (kd_delegation_id d),
      kd_participant_address d, kd_participant_public_key d, sr_network (kd_subject d),
      sr_chain_id (kd_subject d), subject_kind_as_str (sr_kind (kd_subject d)),
      sr_id (kd_subject d), kd_home_service_id d, kd_operational_signing_key d,
      kd_encryption_key d, join_with [0x2C] (btree_set (kd_capabilities d)),
      show_i64 (kd_not_before_ms d), show_i64 (kd_expires_at_ms d), kd_nonce d]"

definition delegation_signing_bytes :: "'j conv_externs \<Rightarrow> conversation_key_delegation \<Rightarrow> u8 list" where
  "delegation_signing_bytes C d = utf8 (join_with [0x0A] (delegation_fields C d))"

definition valid_capability_names :: "rstr list \<Rightarrow> bool" where
  "valid_capability_names cs \<longleftrightarrow>
     cs \<noteq> [] \<and> distinct cs \<and> list_all (\<lambda>c. c = lit ''read'' \<or> c = lit ''write'') cs"

text \<open>\<open>delegation_id\<close> and \<open>nonce\<close> are drawn at random.\<close>

definition create_delegation ::
  "'j conv_externs \<Rightarrow> uuid \<Rightarrow> u8 list \<Rightarrow> keypair \<Rightarrow> keypair \<Rightarrow> u8 list \<Rightarrow> create_delegation_options
   \<Rightarrow> conv_error + conversation_key_delegation" where
  "create_delegation C delegation_id nonce account operational encryption_public_key opts =
     (let X = cx_crypto C in
      bind_result (validate_subject_ref (co_subject opts)) (\<lambda>_.
      bind_result (validate_service_id (co_home_service_id opts)) (\<lambda>_.
      bind_result (validate_x25519_public_key C encryption_public_key) (\<lambda>_.
        if sint (co_expires_at_ms opts) \<le> sint (co_not_before_ms opts)
           \<or> 31 * 24 * 60 * 60 * 1000
               < sint (i64_saturating_sub (co_expires_at_ms opts) (co_not_before_ms opts))
        then Err BadValidity
        else if \<not> valid_capability_names (co_capabilities opts) then Err BadCapabilities
        else let d = \<lparr>kd_version = 1, kd_delegation_id = delegation_id,
                kd_participant_address = addr_to_hex X (kp_address X account),
                kd_participant_public_key = hex_encode X (pk_bytes (kp_public_key X account)),
                kd_subject = co_subject opts, kd_home_service_id = co_home_service_id opts,
                kd_operational_signing_key = hex_encode X (pk_bytes (kp_public_key X operational)),
                kd_encryption_key = hex_encode X encryption_public_key,
                kd_capabilities = co_capabilities opts,
                kd_not_before_ms = co_not_before_ms opts, kd_expires_at_ms = co_expires_at_ms opts,
                kd_nonce = hex_encode X nonce, kd_signature = []\<rparr>
          in Ok (d\<lparr>kd_signature :=
               hex_encode X (sig_bytes (kp_sign X account (delegation_signing_bytes C d)))\<rparr>)))))"

subsection \<open>Challenges and messages\<close>

definition challenge_signing_bytes :: "'j conv_externs \<Rightarrow> uuid \<Rightarrow> rstr \<Rightarrow> u8 list" where
  "challenge_signing_bytes C challenge_id challenge =
     utf8 (join_with [0x0A] [CHALLENGE_DOMAIN, cx_uuid_text C challenge_id, challenge])"

definition challenge_signature :: "'j conv_externs \<Rightarrow> keypair \<Rightarrow> challenge_response \<Rightarrow> rstr" where
  "challenge_signature C operational challenge =
     hex_encode (cx_crypto C) (sig_bytes (kp_sign (cx_crypto C) operational
       (challenge_signing_bytes C (ch_challenge_id challenge) (ch_challenge challenge))))"

definition payload_digest :: "'j conv_externs \<Rightarrow> 'j message_payload \<Rightarrow> conv_error + rstr" where
  "payload_digest C payload =
     bind_result (ok_or (cx_jcs_payload C payload) NotCanonicalizable) (\<lambda>bytes.
       Ok (hex_encode (cx_crypto C) (sha256 (cx_crypto C) bytes)))"

definition message_fields ::
  "'j conv_externs \<Rightarrow> rstr \<Rightarrow> rstr \<Rightarrow> 'j submit_message_request \<Rightarrow> rstr \<Rightarrow> rstr list" where
  "message_fields C conversation_id sender r digest =
     [MESSAGE_DOMAIN, conversation_id, cx_uuid_text C (sm_message_id r), sender,
      show_i64 (sm_client_timestamp_ms r),
      (case sm_reply_to r of None \<Rightarrow> [] | Some u \<Rightarrow> cx_uuid_text C u),
      (case sm_key_epoch r of None \<Rightarrow> [] | Some e \<Rightarrow> show_nat (unat e)),
      digest, sm_signing_key_id r]"

definition message_signing_bytes ::
  "'j conv_externs \<Rightarrow> rstr \<Rightarrow> rstr \<Rightarrow> 'j submit_message_request \<Rightarrow> rstr \<Rightarrow> u8 list" where
  "message_signing_bytes C conversation_id sender r digest =
     utf8 (join_with [0x0A] (message_fields C conversation_id sender r digest))"

text \<open>\<open>message_id\<close> is drawn at random, \<open>now\<close> read from the clock.\<close>

definition sign_message ::
  "'j conv_externs \<Rightarrow> uuid \<Rightarrow> i64 \<Rightarrow> keypair \<Rightarrow> uuid \<Rightarrow> rstr \<Rightarrow> rstr \<Rightarrow> 'j message_payload
   \<Rightarrow> uuid option \<Rightarrow> u64 option \<Rightarrow> conv_error + 'j submit_message_request" where
  "sign_message C message_id now operational delegation_id conversation_id sender payload reply_to key_epoch =
     bind_result (validate_conversation_id conversation_id) (\<lambda>_.
     bind_result (validate_conversation_address sender) (\<lambda>_.
       if (case key_epoch of None \<Rightarrow> False | Some e \<Rightarrow> \<not> fits_i64 e) then Err BadKeyEpoch
       else bind_result (validate_message_payload payload key_epoch) (\<lambda>_.
         let request = \<lparr>sm_message_id = message_id, sm_client_timestamp_ms = now,
               sm_reply_to = reply_to, sm_key_epoch = key_epoch, sm_payload = payload,
               sm_signing_key_id = cx_uuid_text C delegation_id, sm_signature = []\<rparr>
         in bind_result (payload_digest C (sm_payload request)) (\<lambda>digest.
              Ok (request\<lparr>sm_signature := hex_encode (cx_crypto C) (sig_bytes
                (kp_sign (cx_crypto C) operational
                  (message_signing_bytes C conversation_id sender request digest)))\<rparr>)))))"

end
