(* ===== verification/Conversation_Signing.thy ===== *)
theory Conversation_Signing
  imports Conversation
begin

text \<open>
  What a signature on a key delegation or on a message covers. The signed text is a list of
  fields joined by line feeds; validation keeps line feeds out of every field, so the text can be
  cut into its fields again (\<open>joined_fields_inj\<close>) and equal texts have equal fields.
\<close>

subsection \<open>Fields without line feeds\<close>

definition clean :: "rstr \<Rightarrow> bool" where
  "clean s \<longleftrightarrow> wf_str s \<and> 0x0A \<notin> set s"

lemma joined_fields_inj:
  assumes "utf8 (join_with [0x0A] fs) = utf8 (join_with [0x0A] gs)"
    and "list_all clean fs" "list_all clean gs" "fs \<noteq> []" "gs \<noteq> []"
  shows "fs = gs"
proof -
  have wf: "wf_str (join_with [0x0A] hs)" if "list_all clean hs" for hs
    using that by (induction "[0x0A :: rchar]" hs rule: join_with.induct)
      (auto simp: clean_def wf_str_def is_scalar_def)
  have cut: "split_on 0x0A (join_with [0x0A] hs) = hs" if "list_all clean hs" "hs \<noteq> []" for hs
    using that by (intro split_join) (auto simp: clean_def list_all_iff)
  have "join_with [0x0A] fs = join_with [0x0A] gs" using assms(1-3) wf utf8_inj by blast
  with cut assms(2-5) show ?thesis by metis
qed

lemma clean_ascii: "list_all (\<lambda>c. c < 0x80 \<and> c \<noteq> 0x0A) s \<Longrightarrow> clean s"
  using wf_str_ascii [of s] by (auto simp: clean_def list_all_iff)

lemma clean_append [simp]: "clean (s @ t) \<longleftrightarrow> clean s \<and> clean t"
  by (auto simp: clean_def)

lemma clean_Nil [simp]: "clean []"
  by (simp add: clean_def wf_str_def)

lemma clean_show_nat [simp]: "clean (show_nat n)"
  by (intro clean_ascii) (auto simp: list_all_iff is_ascii_digit_def dest!: show_nat_digits)

lemma clean_show_i64 [simp]: "clean (show_i64 w)"
proof -
  have "clean [0x2D]" by (simp add: clean_def wf_str_def is_scalar_def)
  then show ?thesis using clean_append [of "[0x2D]"] by (simp add: show_i64_def)
qed

lemma clean_hex: "hex_ok X \<Longrightarrow> clean (hex_encode X b)"
  by (intro clean_ascii) (fastforce simp: hex_ok_def list_all_iff is_ascii_digit_def)

lemma clean_uuid: "uuid_ok C \<Longrightarrow> clean (cx_uuid_text C u)"
  by (intro clean_ascii) (fastforce simp: uuid_ok_def uuid_char_def list_all_iff is_ascii_digit_def)

lemma clean_no_control: "wf_str s \<Longrightarrow> \<not> list_ex is_control s \<Longrightarrow> clean s"
  by (auto simp: clean_def list_ex_iff is_control_def)

lemma clean_lower_hex:
  assumes "wf_str s" "list_all lower_hex_byte (utf8 s)"
  shows "clean s"
proof -
  have "list_all (\<lambda>b. b < 0x80) (utf8 s)"
    using assms(2) unfolding lower_hex_byte_def list_all_iff by (auto simp: word_less_nat_alt word_le_nat_alt)
  moreover have "0x0A \<notin> set (utf8 s)"
    using assms(2) by (auto simp: lower_hex_byte_def list_all_iff)
  then have "0x0A \<notin> set s" using ascii_byte_utf8 [OF assms(1), of "0x0A"] by simp
  ultimately show ?thesis using assms(1) by (simp add: clean_def)
qed

lemma clean_kind [simp]: "clean (subject_kind_as_str k)"
  by (cases k) (simp_all add: clean_def wf_str_def is_scalar_def)

lemma clean_domains [simp]: "clean DELEGATION_DOMAIN" "clean MESSAGE_DOMAIN" "clean CHALLENGE_DOMAIN"
  by (simp_all add: clean_def wf_str_def is_scalar_def DELEGATION_DOMAIN_def MESSAGE_DOMAIN_def
      CHALLENGE_DOMAIN_def)

lemma subject_kind_inj: "subject_kind_as_str j = subject_kind_as_str k \<longleftrightarrow> j = k"
  by (cases j; cases k) simp_all

lemma show_nat_no_minus [simp]: "show_nat n \<noteq> 0x2D # s" "0x2D # s \<noteq> show_nat n"
proof -
  have "0x2D \<notin> set (show_nat n)" using show_nat_digits [of "0x2D" n] by (auto simp: is_ascii_digit_def)
  then show "show_nat n \<noteq> 0x2D # s" "0x2D # s \<noteq> show_nat n" by (metis list.set_intros(1))+
qed

lemma show_i64_inj: "show_i64 v = show_i64 w \<longleftrightarrow> v = w"
proof
  assume "show_i64 v = show_i64 w"
  then have "sint v = sint w"
    by (auto simp: show_i64_def show_nat_inj nat_eq_iff split: if_splits)
  then show "v = w" by (rule signed_word_eqI)
qed simp

lemma set_btree_set [simp]: "set (btree_set xs) = set xs"
  by (simp add: btree_set_def)

lemma btree_set_nonempty: "btree_set xs = [] \<longleftrightarrow> xs = []"
  using set_btree_set [of xs] by (metis set_empty)

subsection \<open>Delegations\<close>

text \<open>The texts a caller gives are valid Unicode, as every Rust string is.\<close>

definition valid_subject_texts :: "subject_ref \<Rightarrow> bool" where
  "valid_subject_texts s \<longleftrightarrow> wf_str (sr_network s) \<and> wf_str (sr_chain_id s) \<and> wf_str (sr_id s)"

lemma clean_subject:
  assumes "validate_subject_ref s = Ok ()" "valid_subject_texts s"
  shows "clean (sr_network s)" "clean (sr_chain_id s)" "clean (sr_id s)"
  using assms clean_no_control clean_lower_hex
  by (auto simp: validate_subject_ref_def validate_conversation_id_def valid_subject_texts_def
      split: if_splits sum.splits)

lemma clean_service: "validate_service_id s = Ok () \<Longrightarrow> wf_str s \<Longrightarrow> clean s"
  using clean_no_control by (auto simp: validate_service_id_def split: if_splits)

lemma clean_address: "hex_ok X \<Longrightarrow> clean (addr_to_hex X a)"
  using addr_to_hex_ascii [of X a] addr_to_hex_wf [of X a] clean_hex [of X "addr_bytes a"]
  by (simp add: addr_to_hex_def to_raw_hex_def ADDRESS_PREFIX_def clean_def wf_str_def is_scalar_def)

lemma clean_join: "list_all clean ss \<Longrightarrow> clean sep \<Longrightarrow> clean (join_with sep ss)"
  by (induction sep ss rule: join_with.induct) simp_all

lemma capability_clean:
  "valid_capability_names cs \<Longrightarrow> c \<in> set cs \<Longrightarrow> clean c \<and> 0x2C \<notin> set c"
proof -
  assume "valid_capability_names cs" "c \<in> set cs"
  then have "c = lit ''read'' \<or> c = lit ''write''"
    by (simp add: valid_capability_names_def list_all_iff)
  then show ?thesis by (elim disjE) (simp_all add: clean_def wf_str_def is_scalar_def)
qed

lemma created_delegation_fields:
  assumes created: "create_delegation C did nonce account operational enc opts = Ok d"
    and hex: "hex_ok (cx_crypto C)" and uuid: "uuid_ok C"
    and texts: "valid_subject_texts (co_subject opts)" "wf_str (co_home_service_id opts)"
  shows "list_all clean (delegation_fields C d)" "valid_capability_names (kd_capabilities d)"
proof -
  have ok: "validate_subject_ref (co_subject opts) = Ok ()" "validate_service_id (co_home_service_id opts) = Ok ()"
    and caps: "valid_capability_names (co_capabilities opts)"
    and d: "kd_subject d = co_subject opts" "kd_home_service_id d = co_home_service_id opts"
      "kd_capabilities d = co_capabilities opts"
      "kd_participant_address d = addr_to_hex (cx_crypto C) (kp_address (cx_crypto C) account)"
      "\<exists>b. kd_participant_public_key d = hex_encode (cx_crypto C) b"
      "\<exists>b. kd_operational_signing_key d = hex_encode (cx_crypto C) b"
      "\<exists>b. kd_encryption_key d = hex_encode (cx_crypto C) b"
      "\<exists>b. kd_nonce d = hex_encode (cx_crypto C) b"
    using created by (auto simp: create_delegation_def Let_def split: if_splits)
  show "valid_capability_names (kd_capabilities d)" using caps d(3) by simp
  have "list_all clean (btree_set (kd_capabilities d))"
    using capability_clean [OF caps] d(3) by (simp add: list_all_iff)
  moreover have "clean [0x2C]" by (simp add: clean_def wf_str_def is_scalar_def)
  ultimately have "clean (join_with [0x2C] (btree_set (kd_capabilities d)))" by (rule clean_join)
  with clean_subject [OF ok(1) texts(1)] clean_service [OF ok(2) texts(2)] clean_address [OF hex]
    clean_hex [OF hex] clean_uuid [OF uuid] d
  show "list_all clean (delegation_fields C d)"
    by (auto simp: delegation_fields_def)
qed

lemma delegation_fields_inj:
  assumes "delegation_fields C d = delegation_fields C d'" "uuid_ok C"
    and caps: "valid_capability_names (kd_capabilities d)" "valid_capability_names (kd_capabilities d')"
  shows "set (kd_capabilities d) = set (kd_capabilities d')
     \<and> d\<lparr>kd_capabilities := [], kd_signature := []\<rparr> = d'\<lparr>kd_capabilities := [], kd_signature := []\<rparr>"
proof -
  have cut: "split_on 0x2C (join_with [0x2C] (btree_set cs)) = btree_set cs"
    if "valid_capability_names cs" for cs
    using that capability_clean [OF that]
    by (intro split_join) (auto simp: btree_set_nonempty valid_capability_names_def)
  have "join_with [0x2C] (btree_set (kd_capabilities d)) = join_with [0x2C] (btree_set (kd_capabilities d'))"
    using assms(1) by (simp add: delegation_fields_def)
  then have "btree_set (kd_capabilities d) = btree_set (kd_capabilities d')"
    using cut caps by metis
  then have "set (kd_capabilities d) = set (kd_capabilities d')" by (metis set_btree_set)
  moreover have "kd_subject d = kd_subject d'"
    using assms(1) by (simp add: delegation_fields_def subject_kind_inj)
  moreover have "kd_delegation_id d = kd_delegation_id d'"
    using assms(1,2) by (simp add: delegation_fields_def uuid_ok_def inj_eq)
  moreover have "kd_version d = kd_version d'"
    "kd_participant_address d = kd_participant_address d'"
    "kd_participant_public_key d = kd_participant_public_key d'"
    "kd_home_service_id d = kd_home_service_id d'"
    "kd_operational_signing_key d = kd_operational_signing_key d'"
    "kd_encryption_key d = kd_encryption_key d'" "kd_not_before_ms d = kd_not_before_ms d'"
    "kd_expires_at_ms d = kd_expires_at_ms d'" "kd_nonce d = kd_nonce d'"
    using assms(1) by (simp_all add: delegation_fields_def show_nat_inj show_i64_inj word_unat_eq_iff)
  ultimately show ?thesis by (cases d; cases d') simp
qed

lemma btree_set_cong:
  assumes "set xs = set ys" "distinct xs" "distinct ys" "inj_on utf8 (set xs)"
  shows "btree_set xs = btree_set ys"
proof -
  have "map utf8 (sort_key utf8 xs) = map utf8 (sort_key utf8 ys)"
    using assms by (intro sorted_distinct_set_unique) (simp_all add: distinct_map)
  then have "sort_key utf8 xs = sort_key utf8 ys"
    using assms(1,4) by (simp add: inj_on_map_eq_map)
  with assms(2,3) show ?thesis by (simp add: btree_set_def)
qed

lemma capabilities_inj: "valid_capability_names cs \<Longrightarrow> distinct cs \<and> inj_on utf8 (set cs)"
  using capability_clean [of cs] utf8_inj by (auto simp: valid_capability_names_def clean_def inj_on_def)

lemma same_delegation_text:
  assumes "set (kd_capabilities d) = set (kd_capabilities d')"
    "d\<lparr>kd_capabilities := [], kd_signature := []\<rparr> = d'\<lparr>kd_capabilities := [], kd_signature := []\<rparr>"
    "valid_capability_names (kd_capabilities d)" "valid_capability_names (kd_capabilities d')"
  shows "delegation_signing_bytes C d = delegation_signing_bytes C d'"
proof -
  have "btree_set (kd_capabilities d) = btree_set (kd_capabilities d')"
    using assms(1,3,4) btree_set_cong capabilities_inj by blast
  with assms(2) show ?thesis
    by (cases d; cases d') (simp add: delegation_signing_bytes_def delegation_fields_def)
qed

lemma signing_bytes_ignore_signature:
  "delegation_signing_bytes C (d\<lparr>kd_signature := s\<rparr>) = delegation_signing_bytes C d"
  by (simp add: delegation_signing_bytes_def delegation_fields_def)

text \<open>A created key delegation carries a signature of the account over its signing text,
  and the text binds everything in it: a delegation created with other contents (but for the
  order of the capabilities) has another text, so its signature cannot be reused.\<close>

theorem delegation_signature_binds:
  assumes created: "create_delegation C did nonce account operational enc opts = Ok d"
    and texts: "valid_subject_texts (co_subject opts)" "wf_str (co_home_service_id opts)"
    and other: "create_delegation C did' nonce' account' operational' enc' opts' = Ok d'"
    and texts': "valid_subject_texts (co_subject opts')" "wf_str (co_home_service_id opts')"
    and externs: "hex_ok (cx_crypto C)" "ed25519_ok (cx_crypto C)" "uuid_ok C" "wf_keypair account"
  shows "(\<exists>s. hex_decode (cx_crypto C) (kd_signature d) = Some s
       \<and> pk_verify (cx_crypto C) (kp_public_key (cx_crypto C) account)
           (delegation_signing_bytes C d) (Signature s) = Ok ())
     \<and> (delegation_signing_bytes C d = delegation_signing_bytes C d'
         \<longleftrightarrow> set (kd_capabilities d) = set (kd_capabilities d')
            \<and> d\<lparr>kd_capabilities := [], kd_signature := []\<rparr> = d'\<lparr>kd_capabilities := [], kd_signature := []\<rparr>)"
proof -
  let ?X = "cx_crypto C"
  note f = created_delegation_fields [OF created externs(1,3) texts]
  note f' = created_delegation_fields [OF other externs(1,3) texts']
  have "kd_signature d = hex_encode ?X
      (sig_bytes (kp_sign ?X account (delegation_signing_bytes C (d\<lparr>kd_signature := []\<rparr>))))"
    using created by (auto simp: create_delegation_def Let_def split: if_splits)
  then have "hex_decode ?X (kd_signature d)
      = Some (sig_bytes (kp_sign ?X account (delegation_signing_bytes C d)))"
    using externs(1) by (simp add: hex_ok_def signing_bytes_ignore_signature)
  moreover have "pk_verify ?X (kp_public_key ?X account) (delegation_signing_bytes C d)
      (kp_sign ?X account (delegation_signing_bytes C d)) = Ok ()"
    using sign_verify [OF externs(2,4)] by simp
  ultimately have sig: "\<exists>s. hex_decode ?X (kd_signature d) = Some s
       \<and> pk_verify ?X (kp_public_key ?X account) (delegation_signing_bytes C d) (Signature s) = Ok ()"
    by auto
  have "delegation_fields C d = delegation_fields C d'"
    if "delegation_signing_bytes C d = delegation_signing_bytes C d'"
    using joined_fields_inj [OF that [unfolded delegation_signing_bytes_def] f(1) f'(1)]
    by (simp add: delegation_fields_def)
  moreover have "delegation_signing_bytes C d = delegation_signing_bytes C d'"
    if "set (kd_capabilities d) = set (kd_capabilities d')"
      "d\<lparr>kd_capabilities := [], kd_signature := []\<rparr> = d'\<lparr>kd_capabilities := [], kd_signature := []\<rparr>"
    using same_delegation_text [OF that f(2) f'(2)] .
  ultimately show ?thesis
    using sig delegation_fields_inj [OF _ externs(3) f(2) f'(2)] by blast
qed

subsection \<open>Messages\<close>

text \<open>The text a message's signature is over, from the request itself.\<close>

definition message_text :: "'j conv_externs \<Rightarrow> rstr \<Rightarrow> rstr \<Rightarrow> 'j submit_message_request \<Rightarrow> conv_error + u8 list" where
  "message_text C cid sender r =
     bind_result (payload_digest C (sm_payload r)) (\<lambda>digest.
       Ok (message_signing_bytes C cid sender r digest))"

lemma sign_message_eq_Ok:
  assumes "sign_message C mid now operational did cid sender payload reply_to key_epoch = Ok r"
  shows "validate_conversation_id cid = Ok ()" "validate_conversation_address sender = Ok ()"
    and "sm_signing_key_id r = cx_uuid_text C did" "sm_payload r = payload"
    and "\<exists>t. message_text C cid sender r = Ok t
        \<and> sm_signature r = hex_encode (cx_crypto C) (sig_bytes (kp_sign (cx_crypto C) operational t))"
  using assms
  by (auto simp: sign_message_def Let_def message_text_def message_signing_bytes_def message_fields_def
      split: if_splits)

lemma clean_conversation_id: "validate_conversation_id s = Ok () \<Longrightarrow> wf_str s \<Longrightarrow> clean s"
  using clean_lower_hex by (auto simp: validate_conversation_id_def split: if_splits)

lemma clean_conversation_address: "validate_conversation_address s = Ok () \<Longrightarrow> wf_str s \<Longrightarrow> clean s"
proof -
  assume "validate_conversation_address s = Ok ()" "wf_str s"
  then obtain body where "s = lit ''zn1'' @ body" "list_all lower_hex_byte (utf8 body)" "wf_str body"
    by (auto simp: validate_conversation_address_def wf_str_def split: if_splits)
  moreover have "clean (lit ''zn1'')" by (simp add: clean_def wf_str_def is_scalar_def)
  ultimately show ?thesis using clean_lower_hex clean_append by blast
qed

lemma message_fields_clean:
  assumes "clean cid" "clean sender" "clean digest" "clean (sm_signing_key_id r)" "uuid_ok C"
  shows "list_all clean (message_fields C cid sender r digest)"
  using assms clean_uuid [OF assms(5)] by (auto simp: message_fields_def split: option.splits)

lemma message_fields_inj:
  assumes eq: "message_fields C cid sender r digest = message_fields C cid' sender' r' digest'"
    and uuid: "uuid_ok C"
  shows "cid = cid' \<and> sender = sender' \<and> digest = digest'
     \<and> sm_message_id r = sm_message_id r' \<and> sm_client_timestamp_ms r = sm_client_timestamp_ms r'
     \<and> sm_reply_to r = sm_reply_to r' \<and> sm_key_epoch r = sm_key_epoch r'
     \<and> sm_signing_key_id r = sm_signing_key_id r'"
proof -
  have nonempty: "cx_uuid_text C u \<noteq> []" "[] \<noteq> cx_uuid_text C u" for u
    using uuid unfolding uuid_ok_def by (metis list.size(3) zero_neq_numeral)+
  have same: "cx_uuid_text C u = cx_uuid_text C v \<longleftrightarrow> u = v" for u v
    using uuid by (simp add: uuid_ok_def inj_eq)
  have num: "[] \<noteq> show_nat n" for n by (metis show_nat_not_Nil)
  have "sm_reply_to r = sm_reply_to r'"
    using eq by (cases "sm_reply_to r"; cases "sm_reply_to r'") (simp_all add: message_fields_def nonempty same)
  moreover have "sm_key_epoch r = sm_key_epoch r'"
    using eq by (cases "sm_key_epoch r"; cases "sm_key_epoch r'")
      (simp_all add: message_fields_def num show_nat_inj word_unat_eq_iff)
  ultimately show ?thesis using eq by (simp add: message_fields_def same show_i64_inj)
qed

lemma message_text_inj:
  assumes same_text: "message_text C cid sender r = Ok t" "message_text C cid' sender' r' = Ok t"
    and clean: "clean cid" "clean sender" "clean (sm_signing_key_id r)"
      "clean cid'" "clean sender'" "clean (sm_signing_key_id r')"
    and externs: "uuid_ok C" "hex_ok (cx_crypto C)"
    and no_collision: "inj_on (sha256 (cx_crypto C))
      {b. cx_jcs_payload C (sm_payload r) = Some b \<or> cx_jcs_payload C (sm_payload r') = Some b}"
  shows "cid = cid' \<and> sender = sender'
     \<and> r\<lparr>sm_payload := Ciphertext [], sm_signature := []\<rparr> = r'\<lparr>sm_payload := Ciphertext [], sm_signature := []\<rparr>
     \<and> cx_jcs_payload C (sm_payload r) = cx_jcs_payload C (sm_payload r')"
proof -
  let ?X = "cx_crypto C"
  obtain b where b: "cx_jcs_payload C (sm_payload r) = Some b"
      "t = message_signing_bytes C cid sender r (hex_encode ?X (sha256 ?X b))"
    using same_text(1) by (auto simp: message_text_def payload_digest_def)
  obtain b' where b': "cx_jcs_payload C (sm_payload r') = Some b'"
      "t = message_signing_bytes C cid' sender' r' (hex_encode ?X (sha256 ?X b'))"
    using same_text(2) by (auto simp: message_text_def payload_digest_def)
  have "message_fields C cid sender r (hex_encode ?X (sha256 ?X b))
      = message_fields C cid' sender' r' (hex_encode ?X (sha256 ?X b'))"
  proof (rule joined_fields_inj)
    show "utf8 (join_with [0x0A] (message_fields C cid sender r (hex_encode ?X (sha256 ?X b))))
        = utf8 (join_with [0x0A] (message_fields C cid' sender' r' (hex_encode ?X (sha256 ?X b'))))"
      using b(2) b'(2) by (simp add: message_signing_bytes_def)
    show "list_all clean (message_fields C cid sender r (hex_encode ?X (sha256 ?X b)))"
      and "list_all clean (message_fields C cid' sender' r' (hex_encode ?X (sha256 ?X b')))"
      using message_fields_clean clean externs clean_hex by blast+
  qed (simp_all add: message_fields_def)
  from message_fields_inj [OF this externs(1)]
  have same: "cid = cid'" "sender = sender'" "hex_encode ?X (sha256 ?X b) = hex_encode ?X (sha256 ?X b')"
    "sm_message_id r = sm_message_id r'" "sm_client_timestamp_ms r = sm_client_timestamp_ms r'"
    "sm_reply_to r = sm_reply_to r'" "sm_key_epoch r = sm_key_epoch r'"
    "sm_signing_key_id r = sm_signing_key_id r'"
    by blast+
  have "sha256 ?X b = sha256 ?X b'" using same(3) externs(2) by (metis hex_ok_def option.inject)
  then have "b = b'" using no_collision b(1) b'(1) by (auto dest: inj_onD)
  with same b(1) b'(1) show ?thesis by (cases r; cases r') simp
qed

text \<open>(C9) A signed message carries a signature of the operational key over a text that names the
  conversation, the sender and every field of the request: two messages with the same text agree in
  all of them and in the canonical form of their payload, unless SHA-256 collides on the two.\<close>

theorem message_signature_binds:
  assumes signed: "sign_message C mid now operational did cid sender payload reply_to key_epoch = Ok r"
    and texts: "wf_str cid" "wf_str sender"
    and other: "sign_message C mid' now' operational' did' cid' sender' payload' reply_to' key_epoch' = Ok r'"
    and texts': "wf_str cid'" "wf_str sender'"
    and externs: "hex_ok (cx_crypto C)" "ed25519_ok (cx_crypto C)" "uuid_ok C" "wf_keypair operational"
    and no_collision: "inj_on (sha256 (cx_crypto C))
      {b. cx_jcs_payload C payload = Some b \<or> cx_jcs_payload C payload' = Some b}"
  shows "(\<exists>t s. message_text C cid sender r = Ok t \<and> hex_decode (cx_crypto C) (sm_signature r) = Some s
       \<and> pk_verify (cx_crypto C) (kp_public_key (cx_crypto C) operational) t (Signature s) = Ok ())
     \<and> (message_text C cid sender r = message_text C cid' sender' r' \<longrightarrow>
         cid = cid' \<and> sender = sender'
         \<and> r\<lparr>sm_payload := Ciphertext [], sm_signature := []\<rparr> = r'\<lparr>sm_payload := Ciphertext [], sm_signature := []\<rparr>
         \<and> cx_jcs_payload C payload = cx_jcs_payload C payload')"
proof -
  let ?X = "cx_crypto C"
  note s = sign_message_eq_Ok [OF signed] and s' = sign_message_eq_Ok [OF other]
  obtain t where t: "message_text C cid sender r = Ok t"
      "sm_signature r = hex_encode ?X (sig_bytes (kp_sign ?X operational t))"
    using s(5) by blast
  have "hex_decode ?X (sm_signature r) = Some (sig_bytes (kp_sign ?X operational t))"
    using t(2) externs(1) by (simp add: hex_ok_def)
  moreover have "pk_verify ?X (kp_public_key ?X operational) t (kp_sign ?X operational t) = Ok ()"
    using sign_verify [OF externs(2,4)] by simp
  ultimately have "\<exists>s. hex_decode ?X (sm_signature r) = Some s
      \<and> pk_verify ?X (kp_public_key ?X operational) t (Signature s) = Ok ()"
    by (intro exI [of _ "sig_bytes (kp_sign ?X operational t)"]) simp
  moreover have "clean cid" "clean sender" "clean (sm_signing_key_id r)"
      "clean cid'" "clean sender'" "clean (sm_signing_key_id r')"
    using s(1-3) s'(1-3) texts texts' clean_conversation_id clean_conversation_address
      clean_uuid [OF externs(3)] by simp_all
  ultimately show ?thesis
    using t(1) message_text_inj [of C cid sender r t cid' sender' r'] externs no_collision s(4) s'(4)
    by auto
qed

subsection \<open>Witnesses\<close>

definition demo_conv :: "unit conv_externs" where
  "demo_conv =
     \<lparr>cx_crypto = demo_externs,
      cx_uuid_text = (\<lambda>u. demo_hex_encode (to_be_bytes u) @ lit ''----''),
      cx_jcs_payload = (\<lambda>_. Some [1]), cx_contributory = (\<lambda>_ _. True)\<rparr>"

lemma demo_conv_crypto [simp]: "cx_crypto demo_conv = demo_externs"
  by (simp add: demo_conv_def)

lemma demo_hex_inj: "demo_hex_encode a = demo_hex_encode b \<longleftrightarrow> a = b"
  by (metis demo_hex_roundtrip option.inject)

lemma demo_conv_uuid: "uuid_ok demo_conv"
proof -
  have "inj (cx_uuid_text demo_conv)"
    by (rule injI) (simp add: demo_conv_def demo_hex_inj to_be_bytes_inj)
  moreover have "list_all uuid_char (demo_hex_encode b)" for b
    using demo_hex_chars [of b] by (auto simp: uuid_char_def list_all_iff)
  ultimately show ?thesis
    by (simp add: uuid_ok_def demo_conv_def length_demo_hex uuid_char_def)
qed

definition demo_subject :: subject_ref where
  "demo_subject = \<lparr>sr_network = lit ''n'', sr_chain_id = lit ''c'', sr_kind = SubjTask,
     sr_id = replicate 64 0x61\<rparr>"

definition demo_delegation_options :: create_delegation_options where
  "demo_delegation_options =
     \<lparr>co_subject = demo_subject, co_home_service_id = lit ''s'', co_not_before_ms = 0,
      co_expires_at_ms = 1000, co_capabilities = [lit ''read'']\<rparr>"

lemma utf8_replicate_a: "utf8 (replicate n 0x61) = replicate n 0x61"
  by (simp add: utf8_ascii list_all_iff)

lemma demo_id_ok: "validate_conversation_id (replicate 64 0x61) = Ok ()"
  unfolding validate_conversation_id_def str_len_def utf8_replicate_a
  by (simp add: lower_hex_byte_def list_all_iff)

lemma wf_str_replicate_a: "wf_str (replicate n 0x61)"
  by (simp add: wf_str_def is_scalar_def list_all_iff)

lemma demo_options_ok:
  "validate_subject_ref (co_subject demo_delegation_options) = Ok ()"
  "validate_service_id (co_home_service_id demo_delegation_options) = Ok ()"
  "valid_subject_texts (co_subject demo_delegation_options)"
  "wf_str (co_home_service_id demo_delegation_options)"
  by (simp_all add: demo_delegation_options_def demo_subject_def validate_subject_ref_def demo_id_ok
      validate_service_id_def trim_def trim_start_def char_class_defs str_len_def utf8_def utf8_char_def
      utf8_units_def valid_subject_texts_def wf_str_replicate_a)
    (simp_all add: wf_str_def is_scalar_def)

definition demo_account :: keypair where
  "demo_account = Keypair (replicate 32 1)"

lemma demo_delegation:
  obtains d where "create_delegation demo_conv 1 [] demo_account demo_account [] demo_delegation_options = Ok d"
proof -
  have "\<not> (sint (co_expires_at_ms demo_delegation_options) \<le> sint (co_not_before_ms demo_delegation_options)
       \<or> 31 * 24 * 60 * 60 * 1000
         < sint (i64_saturating_sub (co_expires_at_ms demo_delegation_options)
             (co_not_before_ms demo_delegation_options)))"
    by (simp add: demo_delegation_options_def i64_saturating_sub_def)
  moreover have "valid_capability_names (co_capabilities demo_delegation_options)"
    by (simp add: valid_capability_names_def demo_delegation_options_def)
  ultimately have "\<exists>d. create_delegation demo_conv 1 [] demo_account demo_account []
      demo_delegation_options = Ok d"
    using demo_options_ok(1,2)
    by (simp add: create_delegation_def Let_def validate_x25519_public_key_def demo_conv_def)
  with that show ?thesis by blast
qed

theorem delegation_signature_binds_witness:
  "\<exists>d s. create_delegation demo_conv 1 [] demo_account demo_account [] demo_delegation_options = Ok d
     \<and> hex_decode demo_externs (kd_signature d) = Some s
     \<and> pk_verify demo_externs (kp_public_key demo_externs demo_account)
         (delegation_signing_bytes demo_conv d) (Signature s) = Ok ()"
proof -
  obtain d where d: "create_delegation demo_conv 1 [] demo_account demo_account []
      demo_delegation_options = Ok d"
    by (rule demo_delegation)
  have "wf_keypair demo_account" by (simp add: wf_keypair_def demo_account_def)
  with delegation_signature_binds [OF d demo_options_ok(3,4) d demo_options_ok(3,4)] d demo_conv_uuid
  show ?thesis by auto
qed

definition demo_sender :: rstr where
  "demo_sender = lit ''zn1'' @ replicate 40 0x61"

lemma demo_sender_ok: "validate_conversation_address demo_sender = Ok ()" "wf_str demo_sender"
proof -
  have "strip_prefix demo_sender (lit ''zn1'') = Some (replicate 40 0x61)"
    unfolding demo_sender_def by (rule strip_prefix_append)
  then have "validate_conversation_address demo_sender =
      (if str_len (replicate 40 0x61) \<noteq> 40 \<or> \<not> list_all lower_hex_byte (utf8 (replicate 40 0x61))
       then Err BadAddress else Ok ())"
    unfolding validate_conversation_address_def by (simp only: ok_or_simps bind_result_simps)
  then show "validate_conversation_address demo_sender = Ok ()"
    by (simp add: str_len_def utf8_replicate_a lower_hex_byte_def list_all_iff)
  have "wf_str (lit ''zn1'')" by (simp add: wf_str_def is_scalar_def)
  then show "wf_str demo_sender" using wf_str_replicate_a unfolding demo_sender_def wf_str_append by blast
qed

theorem message_signature_binds_witness:
  "\<exists>r t s. sign_message demo_conv 1 0 demo_account 2 (replicate 64 0x61) demo_sender
       (Plaintext [PartText (lit ''hi'')]) None None = Ok r
     \<and> message_text demo_conv (replicate 64 0x61) demo_sender r = Ok t
     \<and> hex_decode demo_externs (sm_signature r) = Some s
     \<and> pk_verify demo_externs (kp_public_key demo_externs demo_account) t (Signature s) = Ok ()"
proof -
  have "\<exists>r. sign_message demo_conv 1 0 demo_account 2 (replicate 64 0x61) demo_sender
       (Plaintext [PartText (lit ''hi'')]) None None = Ok r"
    by (simp add: sign_message_def demo_id_ok demo_sender_ok payload_digest_def demo_conv_def Let_def)
  then obtain r where r: "sign_message demo_conv 1 0 demo_account 2 (replicate 64 0x61) demo_sender
       (Plaintext [PartText (lit ''hi'')]) None None = Ok r" ..
  have "wf_keypair demo_account" by (simp add: wf_keypair_def demo_account_def)
  moreover have "inj_on (sha256 (cx_crypto demo_conv))
      {b. cx_jcs_payload demo_conv (Plaintext [PartText (lit ''hi'')]) = Some b
        \<or> cx_jcs_payload demo_conv (Plaintext [PartText (lit ''hi'')]) = Some b}"
    by (simp add: demo_conv_def inj_on_def)
  ultimately show ?thesis
    using message_signature_binds [OF r wf_str_replicate_a demo_sender_ok(2) r wf_str_replicate_a
        demo_sender_ok(2)] r demo_conv_uuid
    by auto
qed

end
