(* ===== verification/Conversation_E2e.thy ===== *)
theory Conversation_E2e
  imports Conversation_Signing
begin

text \<open>
  End-to-end encrypted payloads (\<open>crates/zincha-client/src/conversation.rs\<close>, \<open>encrypt_e2e\<close>,
  \<open>decrypt_e2e\<close>): the payload is sealed under a fresh content key, and the content key is sealed
  for each recipient under a key derived from a Diffie-Hellman secret.

  X25519, HKDF, XChaCha20-Poly1305, Base64 and the JSON of the envelope are the record
  \<open>e2e_externs\<close>; \<open>e2e_ok\<close> states what the code relies on. Random values are arguments
  (\<open>e2e_random\<close>, with one nonce for each recipient). The lemmas show that every recipient reads
  back the payload, that the result is a payload the client may send, and what a successful
  decryption guarantees.
\<close>

subsection \<open>Data\<close>

record e2e_recipient =
  er_key_id :: rstr
  er_public_key :: rstr

record e2e_wrapped_key =
  wk_key_id :: rstr
  wk_nonce :: rstr
  wk_ciphertext :: rstr

record e2e_envelope =
  en_version :: u16
  en_epoch :: u64
  en_ephemeral_public_key :: rstr
  en_content_nonce :: rstr
  en_ciphertext :: rstr
  en_recipients :: "e2e_wrapped_key list"

record 'j e2e_externs =
  ee_public :: "u8 list \<Rightarrow> u8 list"
  ee_dh :: "u8 list \<Rightarrow> u8 list \<Rightarrow> u8 list"
  ee_hkdf :: "u8 list \<Rightarrow> u8 list \<Rightarrow> u8 list \<Rightarrow> u8 list option"
  ee_seal :: "u8 list \<Rightarrow> u8 list \<Rightarrow> u8 list \<Rightarrow> u8 list \<Rightarrow> u8 list option"
  ee_open :: "u8 list \<Rightarrow> u8 list \<Rightarrow> u8 list \<Rightarrow> u8 list \<Rightarrow> u8 list option"
  ee_b64_encode :: "u8 list \<Rightarrow> rstr"
  ee_b64_decode :: "rstr \<Rightarrow> u8 list option"
  ee_jcs_envelope :: "e2e_envelope \<Rightarrow> u8 list option"
  ee_parse_envelope :: "u8 list \<Rightarrow> e2e_envelope option"
  ee_parse_payload :: "u8 list \<Rightarrow> 'j message_payload option"

record e2e_random =
  rn_ephemeral :: "u8 list"
  rn_content_key :: "u8 list"
  rn_content_nonce :: "u8 list"
  rn_nonce :: "nat \<Rightarrow> u8 list"

definition random_ok :: "e2e_random \<Rightarrow> bool" where
  "random_ok R \<longleftrightarrow> length (rn_content_key R) = 32 \<and> length (rn_content_nonce R) = 24
     \<and> (\<forall>k. length (rn_nonce R k) = 24)"

text \<open>
  Both ends of a key agreement compute the same secret and see the same contributory behaviour;
  opening undoes sealing under the same key, nonce and associated data; Base64 is read back and its
  text is made of the URL-safe alphabet, without a dangling character; and an envelope, which holds
  text and two integers, is read back from its canonical JSON, where integers are exact up to
  \<open>2 ^ 53\<close>. Nothing is said of the JSON of a payload: its parts may hold any JSON value, and a
  number such as \<open>1.0\<close> is read back from its canonical form as an integer.
\<close>

definition e2e_ok :: "'j conv_externs \<Rightarrow> 'j e2e_externs \<Rightarrow> bool" where
  "e2e_ok C V \<longleftrightarrow>
     (\<forall>a b. ee_dh V a (ee_public V b) = ee_dh V b (ee_public V a)
        \<and> cx_contributory C a (ee_public V b) = cx_contributory C b (ee_public V a))
     \<and> (\<forall>s. length (ee_public V s) = 32)
     \<and> (\<forall>key nonce msg aad c. ee_seal V key nonce msg aad = Some c \<longrightarrow> ee_open V key nonce c aad = Some msg)
     \<and> (\<forall>b. ee_b64_decode V (ee_b64_encode V b) = Some b)
     \<and> (\<forall>b. list_all (\<lambda>c. c < 0x80 \<and> url_safe_byte (of_nat c)) (ee_b64_encode V b)
          \<and> length (ee_b64_encode V b) mod 4 \<noteq> 1 \<and> (ee_b64_encode V b = [] \<longleftrightarrow> b = []))
     \<and> (\<forall>e b. ee_jcs_envelope V e = Some b \<longrightarrow> b \<noteq> [])
     \<and> (\<forall>e b. ee_jcs_envelope V e = Some b \<longrightarrow> unat (en_epoch e) \<le> 2 ^ 53 \<longrightarrow> ee_parse_envelope V b = Some e)"

text \<open>What a payload is read back as, after a trip through its canonical JSON.\<close>

definition payload_reread ::
  "'j conv_externs \<Rightarrow> 'j e2e_externs \<Rightarrow> 'j message_payload \<Rightarrow> 'j message_payload option" where
  "payload_reread C V p = Option.bind (cx_jcs_payload C p) (ee_parse_payload V)"

datatype e2e_error =
    E2eConv conv_error
  | EpochRange
  | BadRecipientCount
  | PayloadNotCanonical
  | SealFailed
  | BadRecipientId
  | DuplicateRecipient
  | BadRecipientKey
  | NonContributory
  | DeriveFailed
  | EnvelopeNotCanonical
  | NotCiphertext
  | BadEnvelope
  | EnvelopeMismatch
  | BadEnvelopeRecipients
  | BadEphemeralKey
  | NotARecipient
  | BadWrap
  | UnwrapFailed
  | BadContent
  | OpenFailed
  | BadPlaintext

definition e2e_conv :: "conv_error + 'a \<Rightarrow> e2e_error + 'a" where
  "e2e_conv r = (case r of Err e \<Rightarrow> Err (E2eConv e) | Ok x \<Rightarrow> Ok x)"

definition E2E_CONTENT_DOMAIN :: rstr where
  "E2E_CONTENT_DOMAIN = lit ''zincha-conversation-e2e-content-v1''"
definition E2E_WRAP_DOMAIN :: rstr where
  "E2E_WRAP_DOMAIN = lit ''zincha-conversation-e2e-wrap-v1''"

subsection \<open>Encryption\<close>

definition content_aad :: "rstr \<Rightarrow> u64 \<Rightarrow> u8 list" where
  "content_aad cid epoch = utf8 (join_with [0x0A] [E2E_CONTENT_DOMAIN, cid, show_nat (unat epoch)])"

definition wrap_aad :: "rstr \<Rightarrow> u64 \<Rightarrow> rstr \<Rightarrow> u8 list" where
  "wrap_aad cid epoch kid = utf8 (join_with [0x0A] [E2E_WRAP_DOMAIN, cid, show_nat (unat epoch), kid])"

definition bad_key_id :: "rstr \<Rightarrow> bool" where
  "bad_key_id kid \<longleftrightarrow> kid = [] \<or> 256 < str_len kid \<or> list_ex is_control kid"

definition wrap_key ::
  "'j e2e_externs \<Rightarrow> rstr \<Rightarrow> u64 \<Rightarrow> rstr \<Rightarrow> u8 list \<Rightarrow> e2e_error + u8 list" where
  "wrap_key V cid epoch kid shared =
     ok_or (ee_hkdf V (utf8 cid) shared (wrap_aad cid epoch kid)) DeriveFailed"

definition wrap_recipient ::
  "'j conv_externs \<Rightarrow> 'j e2e_externs \<Rightarrow> e2e_random \<Rightarrow> rstr \<Rightarrow> u64 \<Rightarrow> nat \<Rightarrow> e2e_recipient
   \<Rightarrow> e2e_error + e2e_wrapped_key" where
  "wrap_recipient C V R cid epoch k recipient =
     bind_result (ok_or (hex_decode (cx_crypto C) (er_public_key recipient)) BadRecipientKey) (\<lambda>bytes.
       if length bytes \<noteq> 32 then Err BadRecipientKey
       else if \<not> cx_contributory C (rn_ephemeral R) bytes then Err NonContributory
       else bind_result (wrap_key V cid epoch (er_key_id recipient) (ee_dh V (rn_ephemeral R) bytes)) (\<lambda>key.
            bind_result (ok_or (ee_seal V key (rn_nonce R k) (rn_content_key R)
                (wrap_aad cid epoch (er_key_id recipient))) SealFailed) (\<lambda>encrypted.
              Ok \<lparr>wk_key_id = er_key_id recipient, wk_nonce = ee_b64_encode V (rn_nonce R k),
                  wk_ciphertext = ee_b64_encode V encrypted\<rparr>)))"

fun wrap_recipients ::
  "'j conv_externs \<Rightarrow> 'j e2e_externs \<Rightarrow> e2e_random \<Rightarrow> rstr \<Rightarrow> u64 \<Rightarrow> rstr set \<Rightarrow> nat
   \<Rightarrow> e2e_recipient list \<Rightarrow> e2e_error + e2e_wrapped_key list" where
  "wrap_recipients C V R cid epoch seen k [] = Ok []"
| "wrap_recipients C V R cid epoch seen k (r # rs) =
     (if bad_key_id (er_key_id r) then Err BadRecipientId
      else if er_key_id r \<in> seen then Err DuplicateRecipient
      else bind_result (wrap_recipient C V R cid epoch k r) (\<lambda>w.
           bind_result (wrap_recipients C V R cid epoch (insert (er_key_id r) seen) (Suc k) rs) (\<lambda>ws.
             Ok (w # ws))))"

definition encrypt_e2e ::
  "'j conv_externs \<Rightarrow> 'j e2e_externs \<Rightarrow> e2e_random \<Rightarrow> rstr \<Rightarrow> u64 \<Rightarrow> 'j message_payload
   \<Rightarrow> e2e_recipient list \<Rightarrow> e2e_error + 'j message_payload" where
  "encrypt_e2e C V R cid epoch plaintext recipients =
     bind_result (e2e_conv (validate_conversation_id cid)) (\<lambda>_.
       if \<not> fits_i64 epoch then Err EpochRange
       else bind_result (e2e_conv (validate_plaintext_payload plaintext)) (\<lambda>_.
         if recipients = [] \<or> 256 < length recipients then Err BadRecipientCount
         else bind_result (ok_or (cx_jcs_payload C plaintext) PayloadNotCanonical) (\<lambda>encoded.
              bind_result (ok_or (ee_seal V (rn_content_key R) (rn_content_nonce R) encoded
                  (content_aad cid epoch)) SealFailed) (\<lambda>ciphertext.
              bind_result (wrap_recipients C V R cid epoch {} 0 recipients) (\<lambda>wrapped.
              bind_result (ok_or (ee_jcs_envelope V
                  \<lparr>en_version = 1, en_epoch = epoch,
                   en_ephemeral_public_key = hex_encode (cx_crypto C) (ee_public V (rn_ephemeral R)),
                   en_content_nonce = ee_b64_encode V (rn_content_nonce R),
                   en_ciphertext = ee_b64_encode V ciphertext, en_recipients = wrapped\<rparr>)
                  EnvelopeNotCanonical) (\<lambda>bytes.
                Ok (Ciphertext (ee_b64_encode V bytes))))))))"

subsection \<open>Decryption\<close>

definition decrypt_e2e ::
  "'j conv_externs \<Rightarrow> 'j e2e_externs \<Rightarrow> rstr \<Rightarrow> u64 \<Rightarrow> 'j message_payload \<Rightarrow> rstr \<Rightarrow> u8 list
   \<Rightarrow> e2e_error + 'j message_payload" where
  "decrypt_e2e C V cid expected_epoch payload kid secret =
     bind_result (e2e_conv (validate_conversation_id cid)) (\<lambda>_.
       if \<not> fits_i64 expected_epoch \<or> bad_key_id kid then Err EpochRange
       else case payload of
         Plaintext _ \<Rightarrow> Err NotCiphertext
       | Ciphertext ciphertext \<Rightarrow>
         bind_result (ok_or (ee_b64_decode V ciphertext) BadEnvelope) (\<lambda>bytes.
         bind_result (ok_or (ee_parse_envelope V bytes) BadEnvelope) (\<lambda>env.
           if en_version env \<noteq> 1 \<or> en_epoch env \<noteq> expected_epoch then Err EnvelopeMismatch
           else if en_recipients env = [] \<or> 256 < length (en_recipients env)
           then Err BadEnvelopeRecipients
           else if list_ex (\<lambda>r. bad_key_id (wk_key_id r)) (en_recipients env)
              \<or> \<not> distinct (map wk_key_id (en_recipients env)) then Err BadEnvelopeRecipients
           else bind_result (ok_or (hex_decode (cx_crypto C) (en_ephemeral_public_key env)) BadEphemeralKey) (\<lambda>ephemeral.
             if length ephemeral \<noteq> 32 then Err BadEphemeralKey
             else bind_result (ok_or (find (\<lambda>r. wk_key_id r = kid) (en_recipients env)) NotARecipient) (\<lambda>recipient.
               if \<not> cx_contributory C secret ephemeral then Err NonContributory
               else bind_result (wrap_key V cid expected_epoch kid (ee_dh V secret ephemeral)) (\<lambda>key.
                    bind_result (ok_or (ee_b64_decode V (wk_nonce recipient)) BadWrap) (\<lambda>nonce.
                    bind_result (ok_or (ee_b64_decode V (wk_ciphertext recipient)) BadWrap) (\<lambda>encrypted_key.
                      if length nonce \<noteq> 24 then Err BadWrap
                      else bind_result (ok_or (ee_open V key nonce encrypted_key
                          (wrap_aad cid expected_epoch kid)) UnwrapFailed) (\<lambda>content_key.
                        if length content_key \<noteq> 32 then Err BadContent
                        else bind_result (ok_or (ee_b64_decode V (en_content_nonce env)) BadContent) (\<lambda>content_nonce.
                          if length content_nonce \<noteq> 24 then Err BadContent
                          else bind_result (ok_or (ee_b64_decode V (en_ciphertext env)) BadContent) (\<lambda>encrypted.
                               bind_result (ok_or (ee_open V content_key content_nonce encrypted
                                   (content_aad cid expected_epoch)) OpenFailed) (\<lambda>encoded.
                               bind_result (ok_or (ee_parse_payload V encoded) BadPlaintext) (\<lambda>plaintext.
                               bind_result (e2e_conv (validate_plaintext_payload plaintext)) (\<lambda>_.
                                 Ok plaintext))))))))))))))"

subsection \<open>Lemmas\<close>

lemma e2e_ok_dh:
  assumes "e2e_ok C V"
  shows "ee_dh V a (ee_public V b) = ee_dh V b (ee_public V a)"
    and "cx_contributory C a (ee_public V b) = cx_contributory C b (ee_public V a)"
  using assms [unfolded e2e_ok_def, THEN conjunct1] by blast+

lemma e2e_okD:
  assumes "e2e_ok C V"
  shows "length (ee_public V s) = 32" "ee_b64_decode V (ee_b64_encode V b) = Some b"
    and "ee_seal V key nonce msg aad = Some c \<Longrightarrow> ee_open V key nonce c aad = Some msg"
    and "ee_jcs_envelope V e = Some b \<Longrightarrow> unat (en_epoch e) \<le> 2 ^ 53 \<Longrightarrow> ee_parse_envelope V b = Some e"
    and "ee_jcs_envelope V e = Some b \<Longrightarrow> b \<noteq> []"
  using assms [unfolded e2e_ok_def, THEN conjunct2] by simp_all

lemma e2e_conv_eq_Ok [simp]: "e2e_conv r = Ok x \<longleftrightarrow> r = Ok x"
  by (simp add: e2e_conv_def split: sum.splits)

lemma e2e_conv_Ok [simp]: "e2e_conv (Ok x) = Ok x"
  by simp

lemma wrap_recipients_ok:
  "wrap_recipients C V R cid epoch seen k rs = Ok ws \<Longrightarrow>
     map wk_key_id ws = map er_key_id rs \<and> distinct (map er_key_id rs)
     \<and> set (map er_key_id rs) \<inter> seen = {} \<and> list_all (\<lambda>r. \<not> bad_key_id (er_key_id r)) rs
     \<and> (\<forall>r \<in> set rs. \<exists>j. \<exists>w \<in> set ws. wrap_recipient C V R cid epoch j r = Ok w)"
proof (induction rs arbitrary: seen k ws)
  case (Cons r rs)
  then obtain w ws' where ok: "\<not> bad_key_id (er_key_id r)" "er_key_id r \<notin> seen"
      "wrap_recipient C V R cid epoch k r = Ok w"
      "wrap_recipients C V R cid epoch (insert (er_key_id r) seen) (Suc k) rs = Ok ws'" "ws = w # ws'"
    by (auto split: if_splits)
  moreover from ok(3) have "wk_key_id w = er_key_id r"
    by (auto simp: wrap_recipient_def split: if_splits)
  moreover note IH = Cons.IH [OF ok(4)]
  have "\<forall>x \<in> set (r # rs). \<exists>j. \<exists>w \<in> set ws. wrap_recipient C V R cid epoch j x = Ok w"
    using IH ok(3,5) by (metis list.set_intros set_ConsD)
  ultimately show ?case using IH by simp
qed simp

lemma wrap_recipient_key_id: "wrap_recipient C V R cid epoch k r = Ok w \<Longrightarrow> wk_key_id w = er_key_id r"
  by (auto simp: wrap_recipient_def split: if_splits)

lemma find_key_id:
  "distinct (map wk_key_id ws) \<Longrightarrow> w \<in> set ws \<Longrightarrow> find (\<lambda>r. wk_key_id r = wk_key_id w) ws = Some w"
  by (induction ws) (auto simp: image_iff)

lemma encrypt_e2e_eq_Ok:
  assumes "encrypt_e2e C V R cid epoch plaintext recipients = Ok payload"
  obtains encoded sealed wrapped bytes where
    "validate_conversation_id cid = Ok ()" "fits_i64 epoch"
    "validate_plaintext_payload plaintext = Ok ()" "recipients \<noteq> []" "length recipients \<le> 256"
    "cx_jcs_payload C plaintext = Some encoded"
    "ee_seal V (rn_content_key R) (rn_content_nonce R) encoded (content_aad cid epoch) = Some sealed"
    "wrap_recipients C V R cid epoch {} 0 recipients = Ok wrapped"
    "ee_jcs_envelope V
       \<lparr>en_version = 1, en_epoch = epoch,
        en_ephemeral_public_key = hex_encode (cx_crypto C) (ee_public V (rn_ephemeral R)),
        en_content_nonce = ee_b64_encode V (rn_content_nonce R),
        en_ciphertext = ee_b64_encode V sealed, en_recipients = wrapped\<rparr> = Some bytes"
    "payload = Ciphertext (ee_b64_encode V bytes)"
  using assms by (auto simp: encrypt_e2e_def split: if_splits)

text \<open>What a wrapped key opens to, with the secret of the recipient it was made for.\<close>

lemma unwrap_wrapped:
  assumes ok: "e2e_ok C V" and rand: "random_ok R"
    and wrap: "wrap_recipient C V R cid epoch k r = Ok w"
    and mine: "hex_decode (cx_crypto C) (er_public_key r) = Some (ee_public V secret)"
  obtains key where "cx_contributory C secret (ee_public V (rn_ephemeral R))"
    "wrap_key V cid epoch (er_key_id r) (ee_dh V secret (ee_public V (rn_ephemeral R))) = Ok key"
    "ee_b64_decode V (wk_nonce w) = Some (rn_nonce R k)"
    "\<exists>c. ee_b64_decode V (wk_ciphertext w) = Some c
       \<and> ee_open V key (rn_nonce R k) c (wrap_aad cid epoch (er_key_id r)) = Some (rn_content_key R)"
proof -
  note dh = e2e_ok_dh [OF ok, of "rn_ephemeral R" secret]
  obtain key c where key: "cx_contributory C (rn_ephemeral R) (ee_public V secret)"
      "wrap_key V cid epoch (er_key_id r) (ee_dh V (rn_ephemeral R) (ee_public V secret)) = Ok key"
      "ee_seal V key (rn_nonce R k) (rn_content_key R) (wrap_aad cid epoch (er_key_id r)) = Some c"
      "w = \<lparr>wk_key_id = er_key_id r, wk_nonce = ee_b64_encode V (rn_nonce R k),
            wk_ciphertext = ee_b64_encode V c\<rparr>"
    using wrap mine by (auto simp: wrap_recipient_def split: if_splits)
  show ?thesis
    by (rule that [of key]) (use key dh e2e_okD(2,3) [OF ok] in simp_all)
qed

text \<open>(C8) Every recipient of an encrypted payload reads the same thing: whoever holds the secret of a
  public key it was encrypted for, and decrypts with the recipient's key number, the same
  conversation and the same epoch, gets what the payload's canonical JSON is read as, checked again,
  and gets the payload itself whenever its canonical JSON is read back as the payload. For epochs up
  to \<open>2 ^ 53\<close>; nothing is assumed of the JSON of other payloads.\<close>

theorem e2e_roundtrip:
  assumes "e2e_ok C V" "random_ok R" "hex_ok (cx_crypto C)" "unat epoch \<le> 2 ^ 53"
    and "encrypt_e2e C V R cid epoch plaintext recipients = Ok payload"
    and "r \<in> set recipients" "hex_decode (cx_crypto C) (er_public_key r) = Some (ee_public V secret)"
  shows "decrypt_e2e C V cid epoch payload (er_key_id r) secret
       = bind_result (ok_or (payload_reread C V plaintext) BadPlaintext) (\<lambda>p.
           bind_result (e2e_conv (validate_plaintext_payload p)) (\<lambda>_. Ok p))
     \<and> (payload_reread C V plaintext = Some plaintext \<longrightarrow>
         decrypt_e2e C V cid epoch payload (er_key_id r) secret = Ok plaintext)"
proof -
  from assms(5) obtain encoded sealed wrapped bytes where enc:
    "validate_conversation_id cid = Ok ()" "fits_i64 epoch"
    "validate_plaintext_payload plaintext = Ok ()" "recipients \<noteq> []" "length recipients \<le> 256"
    "cx_jcs_payload C plaintext = Some encoded"
    "ee_seal V (rn_content_key R) (rn_content_nonce R) encoded (content_aad cid epoch) = Some sealed"
    "wrap_recipients C V R cid epoch {} 0 recipients = Ok wrapped"
    "ee_jcs_envelope V
       \<lparr>en_version = 1, en_epoch = epoch,
        en_ephemeral_public_key = hex_encode (cx_crypto C) (ee_public V (rn_ephemeral R)),
        en_content_nonce = ee_b64_encode V (rn_content_nonce R),
        en_ciphertext = ee_b64_encode V sealed, en_recipients = wrapped\<rparr> = Some bytes"
    "payload = Ciphertext (ee_b64_encode V bytes)"
    by (rule encrypt_e2e_eq_Ok)
  note w = wrap_recipients_ok [OF enc(8)]
  obtain k w where w1: "w \<in> set wrapped" "wrap_recipient C V R cid epoch k r = Ok w"
    using w assms(6) by blast
  have kid: "wk_key_id w = er_key_id r" by (rule wrap_recipient_key_id [OF w1(2)])
  have count: "length wrapped = length recipients"
    using w by (metis length_map)
  have ids: "distinct (map wk_key_id wrapped)" using w by simp
  have ids_ok: "\<not> list_ex (\<lambda>r. bad_key_id (wk_key_id r)) wrapped"
  proof -
    have "\<not> bad_key_id i" if "i \<in> set (map wk_key_id wrapped)" for i
      using that w by (auto simp: list_all_iff)
    then show ?thesis by (auto simp: list_ex_iff)
  qed
  have mine: "\<not> bad_key_id (er_key_id r)" using w assms(6) by (auto simp: list_all_iff)
  have found: "find (\<lambda>x. wk_key_id x = er_key_id r) wrapped = Some w"
    using find_key_id [OF ids w1(1)] kid by simp
  note externs = e2e_okD(1,2) [OF assms(1)] e2e_okD(3) [OF assms(1) enc(7)]
    e2e_okD(4) [OF assms(1) enc(9), unfolded e2e_envelope.select_convs, OF assms(4)]
  have hex: "hex_decode (cx_crypto C) (hex_encode (cx_crypto C) b) = Some b" for b
    using assms(3) by (simp add: hex_ok_def)
  from unwrap_wrapped [OF assms(1,2) w1(2) assms(7)] obtain key c where key:
    "cx_contributory C secret (ee_public V (rn_ephemeral R))"
    "wrap_key V cid epoch (er_key_id r) (ee_dh V secret (ee_public V (rn_ephemeral R))) = Ok key"
    "ee_b64_decode V (wk_nonce w) = Some (rn_nonce R k)" "ee_b64_decode V (wk_ciphertext w) = Some c"
    "ee_open V key (rn_nonce R k) c (wrap_aad cid epoch (er_key_id r)) = Some (rn_content_key R)"
    by blast
  have wrapped: "wrapped \<noteq> []" "\<not> 256 < length wrapped" using count enc(4,5) by auto
  have reread: "payload_reread C V plaintext = ee_parse_payload V encoded"
    by (simp add: payload_reread_def enc(6))
  have "decrypt_e2e C V cid epoch payload (er_key_id r) secret
      = bind_result (ok_or (ee_parse_payload V encoded) BadPlaintext) (\<lambda>p.
          bind_result (e2e_conv (validate_plaintext_payload p)) (\<lambda>_. Ok p))"
    using enc(1,2) mine wrapped assms(2)
    by (simp add: decrypt_e2e_def enc(10) externs ids_ok ids hex found key random_ok_def)
  with enc(3) show ?thesis by (simp add: reread)
qed

lemma b64_text:
  assumes "e2e_ok C V"
  shows "list_all url_safe_byte (utf8 (ee_b64_encode V b))" "str_len (ee_b64_encode V b) mod 4 \<noteq> 1"
    and "ee_b64_encode V b = [] \<longleftrightarrow> b = []"
proof -
  have chars: "list_all (\<lambda>c. c < 0x80 \<and> url_safe_byte (of_nat c)) (ee_b64_encode V b)"
    and len: "length (ee_b64_encode V b) mod 4 \<noteq> 1" and empty: "ee_b64_encode V b = [] \<longleftrightarrow> b = []"
    using assms [unfolded e2e_ok_def, THEN conjunct2] by simp_all
  then have bytes: "utf8 (ee_b64_encode V b) = map of_nat (ee_b64_encode V b)"
    by (intro utf8_ascii) (simp add: list_all_iff)
  show "list_all url_safe_byte (utf8 (ee_b64_encode V b))"
    using chars by (simp add: bytes list_all_iff)
  show "str_len (ee_b64_encode V b) mod 4 \<noteq> 1" using len by (simp add: str_len_def bytes)
  show "ee_b64_encode V b = [] \<longleftrightarrow> b = []" by (rule empty)
qed

text \<open>(C28) An encrypted payload can be sent: it passes the checks made before signing under its
  epoch. And it is bound to the epoch and to its recipients: under another epoch, or for a key
  number that is not among the recipients, decryption fails whatever the secret, for
  epochs up to \<open>2 ^ 53\<close>, whatever the JSON of payloads is read back as.\<close>

theorem e2e_payload_bound:
  assumes "e2e_ok C V" "unat epoch \<le> 2 ^ 53"
    and "encrypt_e2e C V R cid epoch plaintext recipients = Ok payload"
  shows "validate_message_payload payload (Some epoch) = Ok () \<and>
    (epoch' \<noteq> epoch \<or> kid \<notin> set (map er_key_id recipients)
       \<longrightarrow> \<not> is_ok (decrypt_e2e C V cid' epoch' payload kid secret))"
proof -
  from assms(3) obtain encoded sealed wrapped bytes where enc:
    "wrap_recipients C V R cid epoch {} 0 recipients = Ok wrapped"
    "ee_jcs_envelope V
       \<lparr>en_version = 1, en_epoch = epoch,
        en_ephemeral_public_key = hex_encode (cx_crypto C) (ee_public V (rn_ephemeral R)),
        en_content_nonce = ee_b64_encode V (rn_content_nonce R),
        en_ciphertext = ee_b64_encode V sealed, en_recipients = wrapped\<rparr> = Some bytes"
    "payload = Ciphertext (ee_b64_encode V bytes)"
    by (rule encrypt_e2e_eq_Ok)
  have ne: "bytes \<noteq> []" by (rule e2e_okD(5) [OF assms(1) enc(2)])
  with b64_text [OF assms(1), of bytes]
  have valid: "validate_message_payload payload (Some epoch) = Ok ()" by (simp add: enc(3))
  have refused: "\<not> is_ok (decrypt_e2e C V cid' epoch' payload kid secret)"
    if wrong: "epoch' \<noteq> epoch \<or> kid \<notin> set (map er_key_id recipients)"
  proof -
    note parse = e2e_okD(4) [OF assms(1) enc(2), unfolded e2e_envelope.select_convs, OF assms(2)]
    have ids: "set (map wk_key_id wrapped) = set (map er_key_id recipients)"
      using wrap_recipients_ok [OF enc(1)] by metis
    show "\<not> is_ok (decrypt_e2e C V cid' epoch' payload kid secret)"
    proof (cases "epoch' = epoch")
      case False
      then have "\<nexists>p. decrypt_e2e C V cid' epoch' payload kid secret = Ok p"
        by (auto simp: decrypt_e2e_def enc(3) e2e_okD(2) [OF assms(1)] parse split: if_splits)
      then show ?thesis by (simp add: is_ok_iff)
    next
      case True
      with wrong ids have "find (\<lambda>r. wk_key_id r = kid) wrapped = None"
        by (auto simp: find_None_iff)
      then have "\<nexists>p. decrypt_e2e C V cid' epoch' payload kid secret = Ok p"
        by (auto simp: decrypt_e2e_def enc(3) e2e_okD(2) [OF assms(1)] parse split: if_splits)
      then show ?thesis by (simp add: is_ok_iff)
    qed
  qed
  from valid refused show ?thesis by blast
qed

subsection \<open>Witnesses\<close>

definition demo_plaintext :: "unit message_payload" where
  "demo_plaintext = Plaintext [PartText (lit ''hi'')]"

definition demo_e2e_conv :: "unit conv_externs" where
  "demo_e2e_conv = demo_conv\<lparr>cx_jcs_payload := (\<lambda>p. if p = demo_plaintext then Some [1] else None)\<rparr>"

definition demo_random :: e2e_random where
  "demo_random =
     \<lparr>rn_ephemeral = [], rn_content_key = replicate 32 7, rn_content_nonce = replicate 24 5,
      rn_nonce = (\<lambda>_. replicate 24 9)\<rparr>"

definition demo_envelope :: e2e_envelope where
  "demo_envelope =
     \<lparr>en_version = 1, en_epoch = 3,
      en_ephemeral_public_key = demo_hex_encode (copy_into_zeroed 32 []),
      en_content_nonce = demo_hex_encode (replicate 24 5), en_ciphertext = demo_hex_encode [1],
      en_recipients = [\<lparr>wk_key_id = lit ''k'', wk_nonce = demo_hex_encode (replicate 24 9),
                        wk_ciphertext = demo_hex_encode (replicate 32 7)\<rparr>]\<rparr>"

definition demo_e2e :: "unit e2e_externs" where
  "demo_e2e =
     \<lparr>ee_public = copy_into_zeroed 32,
      ee_dh = (\<lambda>a p. map2 xor (copy_into_zeroed 32 a) p),
      ee_hkdf = (\<lambda>_ shared _. Some shared),
      ee_seal = (\<lambda>_ _ m _. Some m), ee_open = (\<lambda>_ _ c _. Some c),
      ee_b64_encode = demo_hex_encode, ee_b64_decode = demo_hex_decode,
      ee_jcs_envelope = (\<lambda>e. if e = demo_envelope then Some [1] else None),
      ee_parse_envelope = (\<lambda>b. if b = [1] then Some demo_envelope else None),
      ee_parse_payload = (\<lambda>b. if b = [1] then Some demo_plaintext else None)\<rparr>"

lemma map2_xor_commute: "map2 xor a b = map2 xor b (a :: u8 list)"
  by (induction a b rule: list_induct2') (simp_all add: xor.commute)

lemma demo_hex_b64: "list_all (\<lambda>c. c < 0x80 \<and> url_safe_byte (of_nat c)) (demo_hex_encode b)"
proof -
  have "c < 0x80 \<and> url_safe_byte (of_nat c)"
    if c: "is_ascii_digit c \<or> 0x61 \<le> c \<and> c \<le> 0x66" for c
  proof -
    have "c < 256" using c by (auto simp: is_ascii_digit_def)
    then have "unat (of_nat c :: u8) = c" by (rule unat_byte)
    with c show ?thesis by (auto simp: is_ascii_digit_def url_safe_byte_def word_le_nat_alt)
  qed
  with demo_hex_chars [of b] show ?thesis by (auto simp: list_all_iff)
qed

lemma demo_e2e_ok: "e2e_ok demo_e2e_conv demo_e2e"
proof -
  have "2 * n mod 4 \<noteq> Suc 0" for n :: nat by presburger
  then show ?thesis
    using demo_hex_b64 map2_xor_commute
    by (auto simp: e2e_ok_def demo_e2e_def demo_e2e_conv_def demo_conv_def demo_hex_roundtrip
        length_demo_hex split: if_splits) (metis length_0_conv length_demo_hex mult_is_0 zero_neq_numeral)+
qed

lemma demo_random_ok: "random_ok demo_random"
  by (simp add: random_ok_def demo_random_def)

definition demo_recipient :: e2e_recipient where
  "demo_recipient = \<lparr>er_key_id = lit ''k'', er_public_key = demo_hex_encode (copy_into_zeroed 32 [])\<rparr>"

lemma demo_recipient_key:
  "hex_decode (cx_crypto demo_e2e_conv) (er_public_key demo_recipient) = Some (ee_public demo_e2e [])"
  by (simp add: demo_e2e_conv_def demo_recipient_def demo_e2e_def demo_hex_roundtrip demo_externs_def)

lemma demo_key_id: "\<not> bad_key_id (lit ''k'')"
  by (simp add: bad_key_id_def str_len_def utf8_def utf8_char_def utf8_units_def is_control_def)

lemma demo_e2e_simps:
  "cx_jcs_payload demo_e2e_conv demo_plaintext = Some [1]" "cx_crypto demo_e2e_conv = demo_externs"
  "hex_encode demo_externs = demo_hex_encode" "ee_seal demo_e2e k n m a = Some m"
  "ee_b64_encode demo_e2e = demo_hex_encode" "ee_public demo_e2e = copy_into_zeroed 32"
  "ee_jcs_envelope demo_e2e demo_envelope = Some [1]"
  by (simp_all add: demo_e2e_conv_def demo_conv_def demo_externs_def demo_e2e_def)

lemma demo_encrypt:
  "encrypt_e2e demo_e2e_conv demo_e2e demo_random (replicate 64 0x61) 3 demo_plaintext [demo_recipient]
   = Ok (Ciphertext (demo_hex_encode [1]))"
proof -
  have "wrap_recipient demo_e2e_conv demo_e2e demo_random (replicate 64 0x61) 3 0 demo_recipient
      = Ok \<lparr>wk_key_id = lit ''k'', wk_nonce = demo_hex_encode (replicate 24 9),
            wk_ciphertext = demo_hex_encode (replicate 32 7)\<rparr>"
    using demo_recipient_key
    by (simp add: wrap_recipient_def wrap_key_def)
      (simp add: demo_e2e_conv_def demo_e2e_def demo_conv_def demo_random_def demo_recipient_def)
  moreover have "er_key_id demo_recipient = lit ''k''" by (simp add: demo_recipient_def)
  ultimately have wrapped: "wrap_recipients demo_e2e_conv demo_e2e demo_random (replicate 64 0x61) 3 {} 0
      [demo_recipient] = Ok (en_recipients demo_envelope)"
    using demo_key_id by (simp add: demo_envelope_def)
  have envelope: "\<lparr>en_version = 1, en_epoch = 3,
      en_ephemeral_public_key = demo_hex_encode (copy_into_zeroed 32 (rn_ephemeral demo_random)),
      en_content_nonce = demo_hex_encode (rn_content_nonce demo_random),
      en_ciphertext = demo_hex_encode [1], en_recipients = en_recipients demo_envelope\<rparr> = demo_envelope"
    by (simp add: demo_envelope_def demo_random_def)
  have "fits_i64 3" by (simp add: fits_i64_def)
  moreover have "validate_plaintext_payload demo_plaintext = Ok ()" by (simp add: demo_plaintext_def)
  ultimately show ?thesis
    by (simp add: encrypt_e2e_def demo_id_ok wrapped demo_e2e_simps envelope
        del: demo_hex_encode.simps wrap_recipients.simps)
qed

theorem e2e_roundtrip_witness:
  "decrypt_e2e demo_e2e_conv demo_e2e (replicate 64 0x61) 3 (Ciphertext (demo_hex_encode [1])) (lit ''k'') []
   = Ok demo_plaintext"
proof -
  have "hex_ok (cx_crypto demo_e2e_conv)" by (simp add: demo_e2e_conv_def)
  moreover have "payload_reread demo_e2e_conv demo_e2e demo_plaintext = Some demo_plaintext"
    by (simp add: payload_reread_def demo_e2e_simps) (simp add: demo_e2e_def)
  moreover have "er_key_id demo_recipient = lit ''k''" by (simp add: demo_recipient_def)
  moreover have "demo_recipient \<in> set [demo_recipient]" "unat (3 :: u64) \<le> 2 ^ 53" by simp_all
  ultimately show ?thesis
    using e2e_roundtrip [OF demo_e2e_ok demo_random_ok _ _ demo_encrypt _ demo_recipient_key] by metis
qed

theorem e2e_payload_bound_witness:
  "validate_message_payload (Ciphertext (demo_hex_encode [1]) :: unit message_payload) (Some 3) = Ok ()
   \<and> \<not> is_ok (decrypt_e2e demo_e2e_conv demo_e2e (replicate 64 0x61) 4
         (Ciphertext (demo_hex_encode [1])) (lit ''k'') [])"
proof -
  have "unat (3 :: u64) \<le> 2 ^ 53" by simp
  note bound = e2e_payload_bound [OF demo_e2e_ok this demo_encrypt]
  have "(4 :: u64) \<noteq> 3" by simp
  with bound show ?thesis by blast
qed

end
