(* ===== verification/Certificate_Pins.thy ===== *)
theory Certificate_Pins
  imports Conversation
begin

text \<open>
  Pinned TLS certificates of a conversation service
  (\<open>crates/zincha-client/src/conversation.rs\<close>, \<open>TlsCertificatePin\<close>, \<open>pinned_http_client\<close>,
  \<open>PinnedCertificateVerifier\<close>): the service advertises on chain the SHA-256 of its certificate
  and its validity; the verifier accepts exactly that certificate, within that validity widened
  by five minutes of clock skew. Parsing X.509 is an argument, which yields the validity in
  seconds. The handshake signatures are checked by the TLS library and are not modelled.
\<close>

record tls_certificate_pin =
  cp_sha256 :: rstr
  cp_not_before_ms :: i64
  cp_not_after_ms :: i64

datatype pin_error = BadPinHex | BadPinLength | PinMismatch | OutsideValidity | BadCertificate
  | ValidityOverflow | ValidityMismatch

type_synonym pin = "u8 list \<times> i64 \<times> i64"

fun parse_pins :: "externs \<Rightarrow> tls_certificate_pin list \<Rightarrow> pin_error + pin list" where
  "parse_pins X [] = Ok []"
| "parse_pins X (p # ps) =
     bind_result (ok_or (hex_decode X (cp_sha256 p)) BadPinHex) (\<lambda>bytes.
       if length bytes \<noteq> 32 then Err BadPinLength
       else bind_result (parse_pins X ps) (\<lambda>rest.
              Ok ((bytes, cp_not_before_ms p, cp_not_after_ms p) # rest)))"

definition i64_checked_mul :: "i64 \<Rightarrow> i64 \<Rightarrow> i64 option" where
  "i64_checked_mul a b =
     (if - (2 ^ 63) \<le> sint a * sint b \<and> sint a * sint b < 2 ^ 63 then Some (a * b) else None)"

definition CLOCK_SKEW_MS :: i64 where
  "CLOCK_SKEW_MS = 5 * 60 * 1000"

definition verify_server_cert ::
  "externs \<Rightarrow> (u8 list \<Rightarrow> (i64 \<times> i64) option) \<Rightarrow> pin list \<Rightarrow> i64 \<Rightarrow> u8 list \<Rightarrow> pin_error + unit" where
  "verify_server_cert X x509_validity pins now certificate =
     (let digest = sha256 X certificate in
      bind_result (ok_or (find (\<lambda>(expected, _, _). digest = expected) pins) PinMismatch)
        (\<lambda>(_, not_before, not_after).
          if sint (i64_saturating_add now CLOCK_SKEW_MS) < sint not_before
             \<or> sint not_after < sint (i64_saturating_sub now CLOCK_SKEW_MS)
          then Err OutsideValidity
          else bind_result (ok_or (x509_validity certificate) BadCertificate) (\<lambda>(before, after).
               bind_result (ok_or (i64_checked_mul before 1000) ValidityOverflow) (\<lambda>before_ms.
               bind_result (ok_or (i64_checked_mul after 1000) ValidityOverflow) (\<lambda>after_ms.
                 if (before_ms, after_ms) \<noteq> (not_before, not_after) then Err ValidityMismatch
                 else Ok ())))))"

subsection \<open>Lemmas\<close>

lemma sint_word_of_int_i64:
  "- (2 ^ 63) \<le> k \<Longrightarrow> k < 2 ^ 63 \<Longrightarrow> sint (word_of_int k :: i64) = k"
  by (simp add: signed_of_int signed_take_bit_int_eq_self)

lemma sint_i64_bounds: "- (2 ^ 63) \<le> sint (w :: i64)" "sint (w :: i64) < 2 ^ 63"
  using sint_ge [of w] sint_lt [of w] by simp_all

lemma sint_saturating_add:
  "sint (i64_saturating_add a b) = max (- (2 ^ 63)) (min (2 ^ 63 - 1) (sint a + sint b))"
  unfolding i64_saturating_add_def by (rule sint_word_of_int_i64) auto

lemma sint_saturating_sub:
  "sint (i64_saturating_sub a b) = max (- (2 ^ 63)) (min (2 ^ 63 - 1) (sint a - sint b))"
  unfolding i64_saturating_sub_def by (rule sint_word_of_int_i64) auto

lemma checked_mul_eq_Some:
  "i64_checked_mul a b = Some c \<longleftrightarrow> sint a * sint b = sint c"
proof
  assume "i64_checked_mul a b = Some c"
  then have "c = a * b" "- (2 ^ 63) \<le> sint a * sint b" "sint a * sint b < 2 ^ 63"
    by (simp_all add: i64_checked_mul_def split: if_splits)
  moreover have "a * b = word_of_int (sint a * sint b)" by simp
  ultimately show "sint a * sint b = sint c" using sint_word_of_int_i64 by metis
next
  assume eq: "sint a * sint b = sint c"
  have "a * b = word_of_int (sint a * sint b)" by simp
  with eq have "a * b = c" by simp
  then show "i64_checked_mul a b = Some c"
    using eq sint_i64_bounds [of c] by (simp add: i64_checked_mul_def)
qed

text \<open>Saturation does not change what the skewed comparison decides.\<close>

lemma skew_window:
  fixes now a b :: i64
  shows "\<not> (sint (i64_saturating_add now CLOCK_SKEW_MS) < sint b \<or> sint a < sint (i64_saturating_sub now CLOCK_SKEW_MS))
   \<longleftrightarrow> sint b - 300000 \<le> sint now \<and> sint now \<le> sint a + 300000"
proof -
  have "sint CLOCK_SKEW_MS = 300000" by (simp add: CLOCK_SKEW_MS_def)
  then show ?thesis
    using sint_i64_bounds [of now] sint_i64_bounds [of a] sint_i64_bounds [of b]
    by (auto simp: sint_saturating_add sint_saturating_sub max_def min_def)
qed

lemma find_pin:
  "distinct (map fst pins) \<Longrightarrow>
   find (\<lambda>(expected, _, _). digest = expected) pins = Some (p :: pin) \<longleftrightarrow> p \<in> set pins \<and> fst p = digest"
  by (induction pins) (auto split: prod.splits simp: image_iff)

text \<open>The verifier accepts a certificate exactly when its hash is pinned, the validity in the
  certificate, in milliseconds, is the advertised one, and the current time lies in it, give or
  take five minutes: saturating arithmetic makes no difference to the window.\<close>

theorem pinned_certificate_accepted_iff:
  assumes "distinct (map fst pins)"
  shows "verify_server_cert X x509_validity pins now certificate = Ok ()
     \<longleftrightarrow> (\<exists>b a before after.
           (sha256 X certificate, b, a) \<in> set pins
           \<and> sint b - 300000 \<le> sint now \<and> sint now \<le> sint a + 300000
           \<and> x509_validity certificate = Some (before, after)
           \<and> sint b = sint before * 1000 \<and> sint a = sint after * 1000)"
proof -
  have mul: "i64_checked_mul w 1000 = Some v \<longleftrightarrow> sint v = sint w * 1000" for w v
    using checked_mul_eq_Some [of w 1000 v] by auto
  show ?thesis
  proof (cases "find (\<lambda>(expected, _, _). sha256 X certificate = expected) pins")
    case None
    then have "\<forall>p \<in> set pins. fst p \<noteq> sha256 X certificate"
      by (auto simp: find_None_iff)
    then show ?thesis
      using None by (auto simp: verify_server_cert_def)
  next
    case (Some p)
    obtain h b a where p: "p = (h, b, a)" by (cases p)
    from Some find_pin [OF assms] have pin: "(sha256 X certificate, b, a) \<in> set pins"
      unfolding p by force
    have only: "(sha256 X certificate, b', a') \<in> set pins \<longleftrightarrow> b' = b \<and> a' = a" for b' a'
      using pin assms eq_key_imp_eq_value by (metis prod.inject)
    have "verify_server_cert X x509_validity pins now certificate = Ok ()
        \<longleftrightarrow> (sint b - 300000 \<le> sint now \<and> sint now \<le> sint a + 300000)
          \<and> (\<exists>before after. x509_validity certificate = Some (before, after)
              \<and> i64_checked_mul before 1000 = Some b \<and> i64_checked_mul after 1000 = Some a)"
      unfolding skew_window [symmetric] by (auto simp: verify_server_cert_def Some p)
    then show ?thesis by (auto simp: only mul)
  qed
qed

theorem pinned_certificate_accepted_iff_witness:
  "verify_server_cert demo_externs (\<lambda>_. Some (1, 2)) [(sha256 demo_externs [7], 1000, 2000)] 1500 [7] = Ok ()"
proof -
  have "distinct (map fst [(sha256 demo_externs [7], 1000 :: i64, 2000 :: i64)])" by simp
  from pinned_certificate_accepted_iff [OF this, of demo_externs "\<lambda>_. Some (1, 2)" 1500 "[7]"]
  show ?thesis by auto
qed

end
