(* ===== verification/Conversation_Client.thy ===== *)
theory Conversation_Client
  imports Conversation
begin

text \<open>
  The HTTP side of the conversation client
  (\<open>crates/zincha-client/src/conversation.rs\<close>, \<open>ConversationClient\<close>): the requests its
  operations build, with the checks made before anything is sent, and how a response is read
  under a size limit.

  The HTTP library is the argument \<open>send\<close>: it answers a request with a response, whose body
  arrives in chunks (\<open>None\<close> is a read error), or fails. The JSON decoder of each answer is an
  argument. Joining the path with the base URL is left to the library, so a request carries the
  path that is joined.

  The lemmas show that a body is accepted exactly when all its chunks arrive and fit, however
  it is cut, and that method and path of a request determine operation and arguments: checked
  identifiers cannot smuggle in another path.
\<close>

subsection \<open>Requests and responses\<close>

datatype http_method = MGet | MPost | MDelete

datatype 'j api_body =
    BodyChallenge challenge_request
  | BodySession session_request
  | BodyResolve resolve_conversation_request
  | BodySubmit "'j submit_message_request"
  | BodyThrough i64

record 'j http_request =
  rq_method :: http_method
  rq_path :: rstr
  rq_accept :: "rstr option"
  rq_bearer :: "rstr option"
  rq_body :: "'j api_body option"

record http_response =
  rs_status :: u16
  rs_content_length :: "u64 option"
  rs_chunks :: "u8 list option list"

record 'd api_response =
  ar_success :: "bool option"
  ar_data :: "'d option"
  ar_error :: "rstr option"

datatype client_error =
    Invalid conv_error
  | NegativeCursor
  | BadPage
  | SendFailed
  | ResponseTooLarge
  | ReadFailed
  | DecodeFailed
  | HttpFailed u16 rstr
  | NoData

type_synonym 'j transport = "'j http_request \<Rightarrow> http_response option"

definition invalid :: "conv_error + 'a \<Rightarrow> client_error + 'a" where
  "invalid r = (case r of Err e \<Rightarrow> Err (Invalid e) | Ok x \<Rightarrow> Ok x)"

definition is_success :: "u16 \<Rightarrow> bool" where
  "is_success status \<longleftrightarrow> 200 \<le> status \<and> status < 300"

definition trim_slashes :: "rstr \<Rightarrow> rstr" where
  "trim_slashes path = dropWhile (\<lambda>c. c = 0x2F) path"

definition MAX_CONVERSATION_RESPONSE_BYTES :: nat where
  "MAX_CONVERSATION_RESPONSE_BYTES = 64 * 1024 * 1024"
definition MAX_PROFILE_RESPONSE_BYTES :: nat where
  "MAX_PROFILE_RESPONSE_BYTES = 8 * 1024"

fun read_body :: "nat \<Rightarrow> u8 list \<Rightarrow> u8 list option list \<Rightarrow> client_error + u8 list" where
  "read_body limit encoded [] = Ok encoded"
| "read_body limit encoded (None # _) = Err ReadFailed"
| "read_body limit encoded (Some chunk # chunks) =
     (if limit < length encoded + length chunk then Err ResponseTooLarge
      else read_body limit (encoded @ chunk) chunks)"

definition build_request ::
  "rstr option \<Rightarrow> http_method \<Rightarrow> rstr \<Rightarrow> rstr option \<Rightarrow> 'j api_body option \<Rightarrow> 'j http_request" where
  "build_request token meth path accept body =
     \<lparr>rq_method = meth, rq_path = trim_slashes path, rq_accept = accept, rq_bearer = token,
      rq_body = body\<rparr>"

definition json_with_limit ::
  "'j transport \<Rightarrow> (u8 list \<Rightarrow> 'd api_response option) \<Rightarrow> rstr option \<Rightarrow> http_method \<Rightarrow> rstr
   \<Rightarrow> 'j api_body option \<Rightarrow> nat \<Rightarrow> client_error + 'd" where
  "json_with_limit send decode token meth path body limit =
     bind_result (ok_or (send (build_request token meth path (Some (lit ''application/json'')) body))
         SendFailed) (\<lambda>response.
       if (case rs_content_length response of None \<Rightarrow> False | Some n \<Rightarrow> limit < unat n)
       then Err ResponseTooLarge
       else bind_result (read_body limit [] (rs_chunks response)) (\<lambda>encoded.
            bind_result (ok_or (decode encoded) DecodeFailed) (\<lambda>value.
              if \<not> is_success (rs_status response) \<or> ar_success value \<noteq> Some True
              then Err (HttpFailed (rs_status response)
                (case ar_error value of None \<Rightarrow> lit ''request failed'' | Some m \<Rightarrow> m))
              else ok_or (ar_data value) NoData)))"

definition json_request ::
  "'j transport \<Rightarrow> (u8 list \<Rightarrow> 'd api_response option) \<Rightarrow> rstr option \<Rightarrow> http_method \<Rightarrow> rstr
   \<Rightarrow> 'j api_body option \<Rightarrow> client_error + 'd" where
  "json_request send decode token meth path body =
     json_with_limit send decode token meth path body MAX_CONVERSATION_RESPONSE_BYTES"

definition empty_request ::
  "'j transport \<Rightarrow> rstr option \<Rightarrow> http_method \<Rightarrow> rstr \<Rightarrow> 'j api_body option \<Rightarrow> client_error + unit" where
  "empty_request send token meth path body =
     bind_result (ok_or (send (build_request token meth path None body)) SendFailed) (\<lambda>response.
       if \<not> is_success (rs_status response)
       then Err (HttpFailed (rs_status response) (lit ''request failed'')) else Ok ())"

subsection \<open>Operations\<close>

record 'm page =
  pg_items :: "'m list"
  pg_next_cursor :: "i64 option"

definition conversation_path :: "rstr \<Rightarrow> rstr" where
  "conversation_path cid = lit ''/v1/conversations/'' @ cid"

definition events_url :: "rstr \<Rightarrow> i64 \<Rightarrow> client_error + rstr" where
  "events_url cid after =
     bind_result (invalid (validate_conversation_id cid)) (\<lambda>_.
       if sint after < 0 then Err NegativeCursor
       else Ok (lit ''v1/conversations/'' @ cid @ lit ''/events?after='' @ show_i64 after
                @ lit ''&limit=100''))"

definition issue_challenge ::
  "'j transport \<Rightarrow> (u8 list \<Rightarrow> challenge_response api_response option) \<Rightarrow> rstr option
   \<Rightarrow> challenge_request \<Rightarrow> client_error + challenge_response" where
  "issue_challenge send decode token r =
     bind_result (invalid (validate_conversation_address (cr_participant_address r))) (\<lambda>_.
     bind_result (invalid (validate_subject_ref (cr_subject r))) (\<lambda>_.
       json_request send decode token MPost (lit ''/v1/auth/challenges'') (Some (BodyChallenge r))))"

definition client_profile ::
  "'j transport \<Rightarrow> (u8 list \<Rightarrow> 'd api_response option) \<Rightarrow> rstr option \<Rightarrow> client_error + 'd" where
  "client_profile send decode token =
     json_with_limit send decode token MGet (lit ''/v1/profile'') None MAX_PROFILE_RESPONSE_BYTES"

definition delegation_info ::
  "'j transport \<Rightarrow> (u8 list \<Rightarrow> 'd api_response option) \<Rightarrow> rstr option \<Rightarrow> client_error + 'd" where
  "delegation_info send decode token =
     json_with_limit send decode token MGet (lit ''/v1/delegation-info'') None
       MAX_PROFILE_RESPONSE_BYTES"

definition create_session ::
  "'j transport \<Rightarrow> (u8 list \<Rightarrow> session_response api_response option) \<Rightarrow> rstr option
   \<Rightarrow> session_request \<Rightarrow> client_error + session_response" where
  "create_session send decode token r =
     json_request send decode token MPost (lit ''/v1/auth/sessions'') (Some (BodySession r))"

definition client_resolve ::
  "'j transport \<Rightarrow> (u8 list \<Rightarrow> 'j conversation api_response option) \<Rightarrow> rstr option
   \<Rightarrow> resolve_conversation_request \<Rightarrow> client_error + 'j conversation" where
  "client_resolve send decode token r =
     bind_result (invalid (validate_subject_ref (rv_subject r))) (\<lambda>_.
     bind_result (invalid (validate_conversation_address (rv_provider_address r))) (\<lambda>_.
       json_request send decode token MPost (lit ''/v1/conversations/resolve'') (Some (BodyResolve r))))"

definition client_conversation ::
  "'j transport \<Rightarrow> (u8 list \<Rightarrow> 'j conversation api_response option) \<Rightarrow> rstr option \<Rightarrow> rstr
   \<Rightarrow> client_error + 'j conversation" where
  "client_conversation send decode token cid =
     bind_result (invalid (validate_conversation_id cid)) (\<lambda>_.
       json_request send decode token MGet (conversation_path cid) None)"

definition client_submit ::
  "'j transport \<Rightarrow> (u8 list \<Rightarrow> 'j message_record api_response option) \<Rightarrow> rstr option \<Rightarrow> rstr
   \<Rightarrow> 'j submit_message_request \<Rightarrow> client_error + 'j message_record" where
  "client_submit send decode token cid r =
     bind_result (invalid (validate_conversation_id cid)) (\<lambda>_.
       json_request send decode token MPost (conversation_path cid @ lit ''/messages'')
         (Some (BodySubmit r)))"

definition client_messages ::
  "'j transport \<Rightarrow> (u8 list \<Rightarrow> 'j message_record page api_response option) \<Rightarrow> rstr option \<Rightarrow> rstr
   \<Rightarrow> i64 \<Rightarrow> u32 \<Rightarrow> client_error + 'j message_record page" where
  "client_messages send decode token cid after limit =
     bind_result (invalid (validate_conversation_id cid)) (\<lambda>_.
       if sint after < 0 \<or> limit = 0 \<or> 500 < limit then Err BadPage
       else json_request send decode token MGet
         (conversation_path cid @ lit ''/messages?after='' @ show_i64 after @ lit ''&limit=''
          @ show_nat (unat limit)) None)"

definition acknowledge ::
  "'j transport \<Rightarrow> rstr option \<Rightarrow> rstr \<Rightarrow> i64 \<Rightarrow> client_error + unit" where
  "acknowledge send token cid through_sequence =
     bind_result (invalid (validate_conversation_id cid)) (\<lambda>_.
       if sint through_sequence < 0 then Err NegativeCursor
       else empty_request send token MPost (conversation_path cid @ lit ''/acknowledgements'')
         (Some (BodyThrough through_sequence)))"

definition revoke_delegation ::
  "'j conv_externs \<Rightarrow> 'j transport \<Rightarrow> rstr option \<Rightarrow> uuid \<Rightarrow> client_error + unit" where
  "revoke_delegation C send token delegation_id =
     empty_request send token MDelete (lit ''/v1/auth/delegations/'' @ cx_uuid_text C delegation_id)
       None"

subsection \<open>Reading a response\<close>

lemma invalid_eq_Ok [simp]: "invalid r = Ok x \<longleftrightarrow> r = Ok x"
  by (simp add: invalid_def split: sum.splits)

lemma read_body_eq_Ok:
  "length encoded \<le> limit \<Longrightarrow>
   read_body limit encoded chunks = Ok bytes
   \<longleftrightarrow> None \<notin> set chunks \<and> bytes = encoded @ concat (map the chunks) \<and> length bytes \<le> limit"
proof (induction limit encoded chunks rule: read_body.induct)
  case (3 limit encoded chunk chunks)
  show ?case
  proof (cases "limit < length encoded + length chunk")
    case True
    then show ?thesis by auto
  next
    case False
    with 3 show ?thesis by auto
  qed
qed auto

text \<open>An answer is accepted exactly when the service was reached, every chunk of the body
  arrived, neither the announced nor the received length exceeds the limit, the JSON decodes, and
  both the HTTP status and the body report success: how the body is cut into chunks makes no
  difference, and no larger body is ever decoded.\<close>

theorem response_accepted_iff:
  "json_with_limit send decode token meth path body limit = Ok v
   \<longleftrightarrow> (\<exists>response value.
        send (build_request token meth path (Some (lit ''application/json'')) body) = Some response
        \<and> (case rs_content_length response of None \<Rightarrow> True | Some n \<Rightarrow> unat n \<le> limit)
        \<and> None \<notin> set (rs_chunks response)
        \<and> length (concat (map the (rs_chunks response))) \<le> limit
        \<and> decode (concat (map the (rs_chunks response))) = Some value
        \<and> is_success (rs_status response) \<and> ar_success value = Some True \<and> ar_data value = Some v)"
proof -
  have body: "read_body limit [] chunks = Ok bytes
      \<longleftrightarrow> None \<notin> set chunks \<and> bytes = concat (map the chunks) \<and> length bytes \<le> limit" for chunks bytes
    using read_body_eq_Ok [of "[]" limit chunks bytes] by simp
  have announced: "\<not> (case n of None \<Rightarrow> False | Some n \<Rightarrow> limit < unat n)
      \<longleftrightarrow> (case n of None \<Rightarrow> True | Some n \<Rightarrow> unat n \<le> limit)" for n :: "u64 option"
    by (auto split: option.splits)
  show ?thesis
    unfolding json_with_limit_def bind_result_eq_Ok ok_or_eq_Ok announced [symmetric]
    by (auto simp: body split: if_splits)
qed

end
