(* ===== verification/Conversation_Grant.thy ===== *)
theory Conversation_Grant
  imports Wallet_Session Conversation_Client
begin

text \<open>
  Granting a conversation service read access to the chain
  (\<open>crates/zincha-client/src/conversation.rs\<close>, \<open>grant_conversation_read_access\<close>): the client asks
  the service which key to delegate to, checks the lifetime against the service's bounds, builds
  the delegation with the wallet and submits it to the node. The node is the argument \<open>node\<close>,
  which receives the transaction in hexadecimal.
\<close>

record chain_read_key_info =
  ki_public_key :: rstr
  ki_address :: rstr

record conversation_delegation_info =
  di_protocol_version :: u16
  di_service_id :: rstr
  di_network :: rstr
  di_chain_id :: rstr
  di_active_key :: chain_read_key_info
  di_next_key :: "chain_read_key_info option"
  di_required_scopes :: "rstr list"
  di_required_scope_mask :: u64
  di_default_grant_lifetime_ms :: u64
  di_maximum_grant_lifetime_ms :: u64

datatype 'e grant_error =
    GrantInfo client_error
  | LifetimeOutOfBounds
  | DelegateKey key_error
  | DelegateKeyLength
  | ClockBeforeEpoch
  | ExpiryOverflow
  | GrantBuild wallet_error
  | GrantNode 'e

definition delegate_key :: "externs \<Rightarrow> rstr \<Rightarrow> 'e grant_error + public_key" where
  "delegate_key X s =
     bind_result (ok_or (hex_decode X s) (DelegateKey InvalidHex)) (\<lambda>bytes.
       if length bytes \<noteq> 32 then Err DelegateKeyLength
       else (case pk_from_bytes X bytes of Err e \<Rightarrow> Err (DelegateKey e) | Ok k \<Rightarrow> Ok k))"

definition grant_expiry :: "i64 \<Rightarrow> u64 \<Rightarrow> 'e grant_error + u64" where
  "grant_expiry now lifetime_ms =
     (if sint now < 0 then Err ClockBeforeEpoch
      else ok_or (checked_add (ucast now) lifetime_ms) ExpiryOverflow)"

text \<open>Everything that happens before the wallet is used.\<close>

definition grant_arguments ::
  "externs \<Rightarrow> 'j transport \<Rightarrow> (u8 list \<Rightarrow> conversation_delegation_info api_response option)
   \<Rightarrow> rstr option \<Rightarrow> i64 \<Rightarrow> u64 option
   \<Rightarrow> 'e grant_error + conversation_delegation_info \<times> public_key \<times> u64" where
  "grant_arguments X send decode token now lifetime =
     (case delegation_info send decode token of
        Err e \<Rightarrow> Err (GrantInfo e)
      | Ok info \<Rightarrow>
          let lifetime_ms = (case lifetime of None \<Rightarrow> di_default_grant_lifetime_ms info | Some l \<Rightarrow> l)
          in if lifetime_ms < RPC_READ_DELEGATION_MIN_LIFETIME_MS
                \<or> di_maximum_grant_lifetime_ms info < lifetime_ms
             then Err LifetimeOutOfBounds
             else bind_result (delegate_key X (ki_public_key (di_active_key info))) (\<lambda>key.
                  bind_result (grant_expiry now lifetime_ms) (\<lambda>expires_at_ms.
                    Ok (info, key, expires_at_ms))))"

definition grant_conversation_read_access ::
  "externs \<Rightarrow> wallet_env \<Rightarrow> 'j transport \<Rightarrow> (u8 list \<Rightarrow> conversation_delegation_info api_response option)
   \<Rightarrow> rstr option \<Rightarrow> (rstr \<Rightarrow> 'e + 'v) \<Rightarrow> i64 \<Rightarrow> agent_wallet \<Rightarrow> u64 option \<Rightarrow> u64
   \<Rightarrow> ('e grant_error + 'v) \<times> agent_wallet" where
  "grant_conversation_read_access X E send decode token node now w lifetime fee =
     (case grant_arguments X send decode token now lifetime of
        Err e \<Rightarrow> (Err e, w)
      | Ok (info, key, expires_at_ms) \<Rightarrow>
          (case build_rpc_read_delegation_grant X E w key (di_service_id info)
                  (di_required_scope_mask info) expires_at_ms fee of
             (Err e, w') \<Rightarrow> (Err (GrantBuild e), w')
           | (Ok tx, w') \<Rightarrow>
               (case node (tx_to_hex X tx) of
                  Err e \<Rightarrow> (Err (GrantNode e), w')
                | Ok v \<Rightarrow> (Ok v, w'))))"

lemma nat_sum_iff:
  fixes a b e :: int
  assumes "0 \<le> a" "0 \<le> b" "0 \<le> e"
  shows "nat a + nat b < n \<and> nat e = nat a + nat b \<longleftrightarrow> a + b < int n \<and> e = a + b"
  using assms by linarith

lemma grant_expiry_eq_Ok:
  "grant_expiry now lifetime_ms = Ok expires
   \<longleftrightarrow> 0 \<le> sint now \<and> sint now + uint lifetime_ms < 2 ^ 64
      \<and> uint expires = sint now + uint lifetime_ms"
proof (cases "sint now < 0")
  case True
  then show ?thesis by (simp add: grant_expiry_def)
next
  case False
  then have "uint now = sint now"
    using sint_lt [of now] by (simp add: uint_sint take_bit_int_eq_self)
  then have now: "unat now = nat (sint now)" by (metis unat_eq_nat_uint)
  have "grant_expiry now lifetime_ms = Ok expires
      \<longleftrightarrow> unat now + unat lifetime_ms < 2 ^ 64 \<and> unat expires = unat now + unat lifetime_ms"
    using False by (simp add: grant_expiry_def checked_add_eq_Some)
  also have "\<dots> \<longleftrightarrow> sint now + uint lifetime_ms < int (2 ^ 64)
        \<and> uint expires = sint now + uint lifetime_ms"
    unfolding now unat_eq_nat_uint [of lifetime_ms] unat_eq_nat_uint [of expires]
    using False by (intro nat_sum_iff) simp_all
  finally show ?thesis using False by simp
qed

text \<open>A granted delegation is the one the service asked for: the lifetime lies between an hour
  and the service's maximum, the transaction was built and signed by the wallet for the service's
  active key, identifier and scopes, it expires exactly the lifetime after now, without overflow, and
  it is what the node accepted.\<close>

theorem granted_delegation:
  assumes "grant_conversation_read_access X E send decode token node now w lifetime fee = (Ok v, w')"
  shows "\<exists>info tx key expires lifetime_ms.
     delegation_info send decode token = Ok info
     \<and> lifetime_ms = (case lifetime of None \<Rightarrow> di_default_grant_lifetime_ms info | Some l \<Rightarrow> l)
     \<and> RPC_READ_DELEGATION_MIN_LIFETIME_MS \<le> lifetime_ms \<and> lifetime_ms \<le> di_maximum_grant_lifetime_ms info
     \<and> hex_decode X (ki_public_key (di_active_key info)) = Some (pk_bytes key) \<and> wf_pk X key
     \<and> uint expires = sint now + uint lifetime_ms
     \<and> build_rpc_read_delegation_grant X E w key (di_service_id info) (di_required_scope_mask info)
         expires fee = (Ok tx, w')
     \<and> node (tx_to_hex X tx) = Ok v"
proof -
  obtain info key expires where args: "grant_arguments X send decode token now lifetime
      = (Ok (info, key, expires) :: 'a grant_error + _)"
    using assms by (auto simp: grant_conversation_read_access_def split: sum.splits)
  obtain tx where tx: "build_rpc_read_delegation_grant X E w key (di_service_id info)
      (di_required_scope_mask info) expires fee = (Ok tx, w')" "node (tx_to_hex X tx) = Ok v"
    using assms args
    by (auto simp: grant_conversation_read_access_def split: sum.splits prod.splits)
  from args have info: "delegation_info send decode token = Ok info"
    by (auto simp: grant_arguments_def Let_def split: sum.splits if_splits)
  let ?l = "case lifetime of None \<Rightarrow> di_default_grant_lifetime_ms info | Some l \<Rightarrow> l"
  have rest: "RPC_READ_DELEGATION_MIN_LIFETIME_MS \<le> ?l" "?l \<le> di_maximum_grant_lifetime_ms info"
    "(delegate_key X (ki_public_key (di_active_key info)) :: 'a grant_error + _) = Ok key"
    "(grant_expiry now ?l :: 'a grant_error + _) = Ok expires"
    using args info by (auto simp: grant_arguments_def Let_def split: if_splits)
  then have "hex_decode X (ki_public_key (di_active_key info)) = Some (pk_bytes key)" "wf_pk X key"
    by (auto simp: delegate_key_def pk_from_bytes_def wf_pk_def split: if_splits sum.splits)
  moreover have "uint expires = sint now + uint ?l" using rest(4) by (simp add: grant_expiry_eq_Ok)
  ultimately show ?thesis using info rest tx by blast
qed

definition demo_info :: conversation_delegation_info where
  "demo_info =
     \<lparr>di_protocol_version = 1, di_service_id = lit ''s'', di_network = [], di_chain_id = [],
      di_active_key = \<lparr>ki_public_key = demo_hex_encode (replicate 32 3), ki_address = []\<rparr>,
      di_next_key = None, di_required_scopes = [], di_required_scope_mask = 1,
      di_default_grant_lifetime_ms = 7200000, di_maximum_grant_lifetime_ms = 7200000\<rparr>"

abbreviation demo_send :: "unit transport" where
  "demo_send \<equiv> \<lambda>_. Some \<lparr>rs_status = 200, rs_content_length = None, rs_chunks = [Some [1]]\<rparr>"

abbreviation demo_info_decode :: "u8 list \<Rightarrow> conversation_delegation_info api_response option" where
  "demo_info_decode \<equiv> \<lambda>_. Some \<lparr>ar_success = Some True, ar_data = Some demo_info, ar_error = None\<rparr>"

lemma demo_info_received: "delegation_info demo_send demo_info_decode None = Ok demo_info"
  by (simp add: delegation_info_def json_with_limit_def MAX_PROFILE_RESPONSE_BYTES_def is_success_def)

lemma demo_grant_arguments:
  "(grant_arguments demo_externs demo_send demo_info_decode None 1000 None :: unit grant_error + _)
   = Ok (demo_info, PublicKey (replicate 32 3), 7201000)"
proof -
  have "(delegate_key demo_externs (demo_hex_encode (replicate 32 3)) :: unit grant_error + _)
      = Ok (PublicKey (replicate 32 3))"
    by (simp add: delegate_key_def demo_externs_def demo_hex_roundtrip pk_from_bytes_def)
  moreover have "(grant_expiry 1000 7200000 :: unit grant_error + u64) = Ok 7201000"
    by (simp add: grant_expiry_eq_Ok)
  ultimately show ?thesis
    by (simp add: grant_arguments_def demo_info_received)
      (simp add: demo_info_def RPC_READ_DELEGATION_MIN_LIFETIME_MS_def)
qed

theorem granted_delegation_witness:
  "\<exists>tx key expires. build_rpc_read_delegation_grant demo_externs demo_env demo_wallet key (lit ''s'') 1
       expires 5 = (Ok tx, advanced demo_wallet) \<and> uint expires = sint (1000 :: i64) + 7200000"
proof -
  have "validate_rpc_read_delegation_service_id (lit ''s'') = Ok ()"
    by (simp add: MAX_RPC_READ_DELEGATION_SERVICE_ID_CHARS_def
        validate_rpc_read_delegation_service_id_def trim_def trim_start_def char_class_defs
        str_len_def utf8_def utf8_char_def utf8_units_def)
  moreover have "(1 :: u64) AND NOT RPC_READ_SCOPE_ALL = 0"
    by (simp add: RPC_READ_SCOPE_ALL_def)
  ultimately have "\<exists>tx. build_rpc_read_delegation_grant demo_externs demo_env demo_wallet
      (PublicKey (replicate 32 3)) (lit ''s'') 1 7201000 5 = (Ok tx, advanced demo_wallet)"
    by (simp add: build_rpc_read_delegation_grant_def) (metis demo_build demo_wallet_simps(1))
  then obtain tx where "build_rpc_read_delegation_grant demo_externs demo_env demo_wallet
      (PublicKey (replicate 32 3)) (lit ''s'') 1 7201000 5 = (Ok tx, advanced demo_wallet)" ..
  then have "grant_conversation_read_access demo_externs demo_env demo_send demo_info_decode None
      (\<lambda>h. (Ok h :: unit + rstr)) 1000 demo_wallet None 5 = (Ok (tx_to_hex demo_externs tx), advanced demo_wallet)"
    unfolding grant_conversation_read_access_def demo_grant_arguments
    by (simp add: demo_info_def)
  from granted_delegation [OF this] show ?thesis
    unfolding demo_info_received by (auto simp: demo_info_def)
qed

end
