(* ===== verification/Ip_Addr.thy ===== *)
theory Ip_Addr
  imports Rust_Str
begin

text \<open>
  The literal IP addresses of Rust's standard library, as the profile checks of
  \<open>crates/zincha-client/src/conversation.rs\<close> use them: \<open>str::parse::<IpAddr>\<close>, \<open>to_string\<close>,
  \<open>is_loopback\<close> and \<open>is_ipv6\<close>. A parser takes a string to a value and what is left, and
  reads nothing when it fails. The lemmas show that a printed IPv4 address parses back.
\<close>

datatype ipv4_addr = Ipv4 u8 u8 u8 u8

datatype ip_addr = V4 ipv4_addr | V6 "u16 list"

subsection \<open>Parsing\<close>

definition to_digit :: "nat \<Rightarrow> rchar \<Rightarrow> nat option" where
  "to_digit radix c =
     (let d = (if 0x30 \<le> c \<and> c \<le> 0x39 then c - 0x30
               else if 0x61 \<le> c \<and> c \<le> 0x7A then c - 0x61 + 10
               else if 0x41 \<le> c \<and> c \<le> 0x5A then c - 0x41 + 10 else radix)
      in if d < radix then Some d else None)"

definition radix_value :: "nat \<Rightarrow> rstr \<Rightarrow> nat" where
  "radix_value radix ds = foldl (\<lambda>n c. n * radix + the (to_digit radix c)) 0 ds"

text \<open>All leading digits, at most so many, below the bound of the integer type.\<close>

definition read_number :: "nat \<Rightarrow> nat \<Rightarrow> bool \<Rightarrow> nat \<Rightarrow> rstr \<Rightarrow> (nat \<times> rstr) option" where
  "read_number radix max_digits allow_zero_prefix bound s =
     (let ds = takeWhile (\<lambda>c. to_digit radix c \<noteq> None) s; rest = drop (length ds) s in
      if ds = [] \<or> max_digits < length ds
         \<or> (\<not> allow_zero_prefix \<and> 1 < length ds \<and> hd ds = 0x30)
         \<or> bound \<le> radix_value radix ds
      then None else Some (radix_value radix ds, rest))"

definition read_given_char :: "rchar \<Rightarrow> rstr \<Rightarrow> rstr option" where
  "read_given_char c s = (case s of x # xs \<Rightarrow> if x = c then Some xs else None | [] \<Rightarrow> None)"

definition read_separator ::
  "rchar \<Rightarrow> bool \<Rightarrow> (rstr \<Rightarrow> 'a option) \<Rightarrow> rstr \<Rightarrow> 'a option" where
  "read_separator sep expected p s =
     (if expected then Option.bind (read_given_char sep s) p else p s)"

definition read_octet :: "bool \<Rightarrow> rstr \<Rightarrow> (nat \<times> rstr) option" where
  "read_octet expected s = read_separator 0x2E expected (read_number 10 3 False 256) s"

definition read_ipv4 :: "rstr \<Rightarrow> (ipv4_addr \<times> rstr) option" where
  "read_ipv4 s =
     Option.bind (read_octet False s) (\<lambda>(a, s).
     Option.bind (read_octet True s) (\<lambda>(b, s).
     Option.bind (read_octet True s) (\<lambda>(c, s).
     Option.bind (read_octet True s) (\<lambda>(d, s).
       Some (Ipv4 (of_nat a) (of_nat b) (of_nat c) (of_nat d), s)))))"

definition join_octets :: "u8 \<Rightarrow> u8 \<Rightarrow> u16" where
  "join_octets a b = word_of_nat (unat a * 256 + unat b)"

text \<open>Up to \<open>left\<close> groups; the last two may be written as an IPv4 address.\<close>

fun read_groups :: "bool \<Rightarrow> nat \<Rightarrow> rstr \<Rightarrow> u16 list \<times> bool \<times> rstr" where
  "read_groups later 0 s = ([], False, s)"
| "read_groups later (Suc left) s =
     (case (if 0 < left then read_separator 0x3A later read_ipv4 s else None) of
        Some (Ipv4 a b c d, s') \<Rightarrow> ([join_octets a b, join_octets c d], True, s')
      | None \<Rightarrow>
          (case read_separator 0x3A later (read_number 16 4 True 65536) s of
             None \<Rightarrow> ([], False, s)
           | Some (g, s') \<Rightarrow>
               (case read_groups True left s' of (gs, v4, t) \<Rightarrow> (of_nat g # gs, v4, t))))"

definition read_ipv6 :: "rstr \<Rightarrow> (u16 list \<times> rstr) option" where
  "read_ipv6 s =
     (case read_groups False 8 s of (head, head_ipv4, s1) \<Rightarrow>
        if length head = 8 then Some (head, s1)
        else if head_ipv4 then None
        else Option.bind (read_given_char 0x3A s1) (\<lambda>s2.
             Option.bind (read_given_char 0x3A s2) (\<lambda>s3.
             (case read_groups False (8 - (length head + 1)) s3 of (tail, _, s4) \<Rightarrow>
                Some (head @ replicate (8 - length head - length tail) 0 @ tail, s4)))))"

definition parse_ip :: "rstr \<Rightarrow> ip_addr option" where
  "parse_ip s =
     (case (case read_ipv4 s of Some (a, rest) \<Rightarrow> Some (V4 a, rest)
            | None \<Rightarrow> map_option (\<lambda>(g, rest). (V6 g, rest)) (read_ipv6 s)) of
        Some (a, []) \<Rightarrow> Some a
      | _ \<Rightarrow> None)"

subsection \<open>Printing and classifying\<close>

fun show_ipv4 :: "ipv4_addr \<Rightarrow> rstr" where
  "show_ipv4 (Ipv4 a b c d) =
     join_with [0x2E] (map (\<lambda>v. show_nat (unat v)) [a, b, c, d])"

fun show_hex :: "nat \<Rightarrow> rstr" where
  "show_hex n =
     (let digit = (\<lambda>d. if d < 10 then 0x30 + d else 0x61 + (d - 10)) in
      if n < 16 then [digit n] else show_hex (n div 16) @ [digit (n mod 16)])"

declare show_hex.simps [simp del]

text \<open>The first longest run of zero groups, as start and length.\<close>

definition zero_run_step ::
  "(nat \<times> nat) \<times> (nat \<times> nat) \<Rightarrow> nat \<times> u16 \<Rightarrow> (nat \<times> nat) \<times> (nat \<times> nat)" where
  "zero_run_step st x =
     (case st of (longest, current) \<Rightarrow> (case x of (i, g) \<Rightarrow>
        if g = 0
        then (let c = (if snd current = 0 then (i, 1) else (fst current, snd current + 1))
              in (if snd longest < snd c then c else longest, c))
        else (longest, (0, 0))))"

definition longest_zero_run :: "u16 list \<Rightarrow> nat \<times> nat" where
  "longest_zero_run gs = fst (foldl zero_run_step ((0, 0), (0, 0)) (zip [0..<length gs] gs))"

definition show_groups :: "u16 list \<Rightarrow> rstr" where
  "show_groups gs = join_with [0x3A] (map (\<lambda>g. show_hex (unat g)) gs)"

definition show_ipv6 :: "u16 list \<Rightarrow> rstr" where
  "show_ipv6 gs =
     (if take 6 gs = [0, 0, 0, 0, 0, 0xFFFF]
      then lit ''::ffff:'' @ join_with [0x2E] (map show_nat
             [unat (gs ! 6) div 256, unat (gs ! 6) mod 256, unat (gs ! 7) div 256, unat (gs ! 7) mod 256])
      else (case longest_zero_run gs of (start, n) \<Rightarrow>
             if 1 < n then show_groups (take start gs) @ lit ''::'' @ show_groups (drop (start + n) gs)
             else show_groups gs))"

fun show_ip :: "ip_addr \<Rightarrow> rstr" where
  "show_ip (V4 a) = show_ipv4 a"
| "show_ip (V6 gs) = show_ipv6 gs"

fun ip_is_loopback :: "ip_addr \<Rightarrow> bool" where
  "ip_is_loopback (V4 (Ipv4 a b c d)) \<longleftrightarrow> a = 127"
| "ip_is_loopback (V6 gs) \<longleftrightarrow> gs = [0, 0, 0, 0, 0, 0, 0, 1]"

fun is_ipv6 :: "ip_addr \<Rightarrow> bool" where
  "is_ipv6 (V4 a) \<longleftrightarrow> False"
| "is_ipv6 (V6 gs) \<longleftrightarrow> True"

subsection \<open>Lemmas\<close>

lemma to_digit_decimal: "is_ascii_digit c \<Longrightarrow> to_digit 10 c = Some (c - 0x30)"
  by (auto simp: to_digit_def is_ascii_digit_def Let_def)

lemma radix_value_show_nat: "radix_value 10 (show_nat n) = n"
proof (induction n rule: show_nat.induct)
  case (1 n)
  have d: "to_digit 10 (0x30 + m) = Some m" if "m < 10" for m
    using to_digit_decimal [of "0x30 + m"] that by (simp add: is_ascii_digit_def)
  show ?case
  proof (cases "n < 10")
    case True
    then show ?thesis using d [of n] by (simp add: show_nat.simps [of n] radix_value_def)
  next
    case False
    with 1 d [of "n mod 10"] show ?thesis
      by (simp add: show_nat.simps [of n] radix_value_def)
  qed
qed

lemma length_show_nat_le: "n < 10 ^ k \<Longrightarrow> 0 < k \<Longrightarrow> length (show_nat n) \<le> k"
proof (induction k arbitrary: n)
  case (Suc k)
  show ?case
  proof (cases "n < 10")
    case True
    then show ?thesis by (simp add: show_nat.simps [of n])
  next
    case False
    with Suc.prems have "0 < k" "n div 10 < 10 ^ k" by (cases k; simp add: less_mult_imp_div_less)+
    with Suc.IH have "length (show_nat (n div 10)) \<le> k" by blast
    with False show ?thesis by (simp add: show_nat.simps [of n])
  qed
qed simp

lemma hd_show_nat: "1 < length (show_nat n) \<Longrightarrow> hd (show_nat n) \<noteq> 0x30"
proof (induction n rule: show_nat.induct)
  case (1 n)
  then have n: "\<not> n < 10" by (simp add: show_nat.simps [of n] split: if_splits)
  show ?case
  proof (cases "n div 10 < 10")
    case True
    with n show ?thesis by (simp add: show_nat.simps [of n] show_nat.simps [of "n div 10"])
  next
    case False
    then have "1 < length (show_nat (n div 10))" by (simp add: show_nat.simps [of "n div 10"])
    with 1(1) [OF n] n show ?thesis by (simp add: show_nat.simps [of n])
  qed
qed

lemma read_octet_number:
  assumes "n < 256" "rest = [] \<or> \<not> is_ascii_digit (hd rest)"
  shows "read_number 10 3 False 256 (show_nat n @ rest) = Some (n, rest)"
proof -
  have stop: "takeWhile (\<lambda>c. to_digit 10 c \<noteq> None) rest = []"
  proof (cases rest)
    case (Cons c cs)
    with assms(2) have "to_digit 10 c = None" by (auto simp: to_digit_def is_ascii_digit_def Let_def)
    then show ?thesis by (simp add: Cons)
  qed simp
  have "takeWhile (\<lambda>c. to_digit 10 c \<noteq> None) (show_nat n @ rest) = show_nat n"
    using stop by (subst takeWhile_append2) (auto dest!: show_nat_digits simp: to_digit_decimal)
  moreover have "length (show_nat n) \<le> 3" using assms(1) by (intro length_show_nat_le) simp_all
  ultimately show ?thesis
    using hd_show_nat [of n] assms(1) by (auto simp: read_number_def Let_def radix_value_show_nat)
qed

text \<open>A printed IPv4 address parses back.\<close>

lemma parse_ip_show_ipv4: "parse_ip (show_ip (V4 a)) = Some (V4 a)"
proof (cases a)
  case (Ipv4 w x y z)
  have b: "unat v < 256" for v :: u8 using unsigned_less [of v, where ?'a = nat] by simp
  have dot: "read_octet True (0x2E # s) = read_number 10 3 False 256 s" for s
    by (simp add: read_octet_def read_separator_def read_given_char_def)
  have "read_ipv4 (show_ipv4 a) = Some (a, [])"
    by (simp add: Ipv4 read_ipv4_def read_octet_def [of False] read_separator_def dot
        read_octet_number [OF b] read_octet_number [OF b, of "[]", simplified] is_ascii_digit_def)
  then show ?thesis by (simp add: parse_ip_def)
qed

end
