(* ===== verification/Conversation_Profile.thy ===== *)
theory Conversation_Profile
  imports Conversation_Client Certificate_Pins Ip_Addr
begin

text \<open>
  Service profiles of the conversation client (\<open>crates/zincha-client/src/conversation.rs\<close>): the
  metadata an agent publishes on chain, its validation, and \<open>ConversationClient::from_profile\<close>,
  which tries the advertised interfaces in order and returns a client only for a service that
  answers with the authenticated profile. The URL library, the JSON codec and the network are
  arguments; a failed exchange is the list of causes of its error.

  The theorems say what a returned client is connected to, that only an unreachable interface is
  skipped, and that published metadata is read back.
\<close>

subsection \<open>Profiles\<close>

datatype conversation_interface =
    HttpsInterface rstr
  | ZinchaTlsV1 rstr u16 "tls_certificate_pin list"

record conversation_profile =
  pf_version :: u16
  pf_service_id :: rstr
  pf_interfaces :: "conversation_interface list"
  pf_privacy_modes :: "privacy_mode list"
  pf_protocol_versions :: "u16 list"

datatype transport_policy = AutoTransport | HttpsOnly | ZinchaTlsOnly

text \<open>The URL library: a parsed URL is an abstract value.\<close>

record 'u url_lib =
  ul_parse :: "rstr \<Rightarrow> 'u option"
  ul_text :: "'u \<Rightarrow> rstr"
  ul_scheme :: "'u \<Rightarrow> rstr"
  ul_username :: "'u \<Rightarrow> rstr"
  ul_password :: "'u \<Rightarrow> rstr option"
  ul_host :: "'u \<Rightarrow> rstr option"
  ul_path :: "'u \<Rightarrow> rstr"
  ul_query :: "'u \<Rightarrow> rstr option"
  ul_fragment :: "'u \<Rightarrow> rstr option"
  ul_set_path :: "'u \<Rightarrow> rstr \<Rightarrow> 'u"
  ul_clear_query :: "'u \<Rightarrow> 'u"
  ul_clear_fragment :: "'u \<Rightarrow> 'u"

text \<open>What the code relies on: an \<open>https\<close> text has that scheme, a setter changes its own
  component only, and a slash may be put after the path of a URL with a host.\<close>

definition same_origin :: "'u url_lib \<Rightarrow> 'u \<Rightarrow> 'u \<Rightarrow> bool" where
  "same_origin U u v \<longleftrightarrow> ul_scheme U u = ul_scheme U v \<and> ul_username U u = ul_username U v
     \<and> ul_password U u = ul_password U v \<and> ul_host U u = ul_host U v"

definition url_lib_ok :: "'u url_lib \<Rightarrow> bool" where
  "url_lib_ok U \<longleftrightarrow>
     (\<forall>s u. ul_parse U (lit ''https://'' @ s) = Some u \<longrightarrow> ul_scheme U u = lit ''https'')
     \<and> (\<forall>u p. same_origin U (ul_set_path U u p) u)
     \<and> (\<forall>u. same_origin U (ul_clear_query U u) u \<and> ul_path U (ul_clear_query U u) = ul_path U u
          \<and> ul_query U (ul_clear_query U u) = None)
     \<and> (\<forall>u. same_origin U (ul_clear_fragment U u) u
          \<and> ul_path U (ul_clear_fragment U u) = ul_path U u
          \<and> ul_query U (ul_clear_fragment U u) = ul_query U u
          \<and> ul_fragment U (ul_clear_fragment U u) = None)
     \<and> (\<forall>u. ul_host U u \<noteq> None \<longrightarrow>
          ul_path U (ul_set_path U u (ul_path U u @ [0x2F])) = ul_path U u @ [0x2F])"

record 'u profile_externs =
  px_crypto :: externs
  px_url :: "'u url_lib"
  px_jcs :: "conversation_profile \<Rightarrow> u8 list option"
  px_decode :: "u8 list \<Rightarrow> conversation_profile option"

datatype profile_error =
    UnsupportedProfile | ServiceIdInvalid conv_error | BadProfileCapabilities | BadInterfaceCount
  | InterfaceUrlTooLong | InterfaceUrlInvalid | UrlHasCredentials | UrlHasNoHost | UrlNotHttps
  | UrlHasQuery | HostNotLiteral | HostNotCanonical | BadPinCount | BadPin | DuplicateInterface
  | NotEncodable | ProfileTooLarge | ProfileUndecodable | ProfileMismatch | PinUnusable pin_error
  | HttpClientFailed | LiveProfileFailed client_error | NoSupportedInterface
  | AllUnreachable "rstr list"

definition MAX_HTTPS_INTERFACE_URL_LENGTH :: nat where "MAX_HTTPS_INTERFACE_URL_LENGTH = 2048"
definition MAX_PROTOCOL_VERSIONS :: nat where "MAX_PROTOCOL_VERSIONS = 64"

subsection \<open>Validation\<close>

definition host_is_loopback :: "rstr \<Rightarrow> bool" where
  "host_is_loopback host \<longleftrightarrow> to_ascii_lowercase host = lit ''localhost''
     \<or> (case parse_ip host of Some a \<Rightarrow> ip_is_loopback a | None \<Rightarrow> False)"

definition validate_conversation_url :: "'u url_lib \<Rightarrow> 'u \<Rightarrow> profile_error + unit" where
  "validate_conversation_url U u =
     (if ul_username U u \<noteq> [] \<or> ul_password U u \<noteq> None then Err UrlHasCredentials
      else bind_result (ok_or (ul_host U u) UrlHasNoHost) (\<lambda>host.
        if ul_scheme U u \<noteq> lit ''https'' \<and> \<not> (ul_scheme U u = lit ''http'' \<and> host_is_loopback host)
        then Err UrlNotHttps
        else if ul_query U u \<noteq> None \<or> ul_fragment U u \<noteq> None then Err UrlHasQuery
        else Ok ()))"

fun check_pins :: "rstr set \<Rightarrow> tls_certificate_pin list \<Rightarrow> profile_error + unit" where
  "check_pins hashes [] = Ok ()"
| "check_pins hashes (pin # pins) =
     (if str_len (cp_sha256 pin) \<noteq> 64 \<or> \<not> list_all lower_hex_byte (utf8 (cp_sha256 pin))
         \<or> sint (cp_not_after_ms pin) \<le> sint (cp_not_before_ms pin) \<or> cp_sha256 pin \<in> hashes
      then Err BadPin else check_pins (insert (cp_sha256 pin) hashes) pins)"

definition interface_identity ::
  "'u url_lib \<Rightarrow> conversation_interface \<Rightarrow> profile_error + rstr" where
  "interface_identity U i =
     (case i of
        HttpsInterface url \<Rightarrow>
          if MAX_HTTPS_INTERFACE_URL_LENGTH < length url then Err InterfaceUrlTooLong
          else bind_result (ok_or (ul_parse U url) InterfaceUrlInvalid) (\<lambda>parsed.
               bind_result (validate_conversation_url U parsed) (\<lambda>_.
                 if ul_scheme U parsed \<noteq> lit ''https'' then Err UrlNotHttps
                 else Ok (lit ''https:'' @ ul_text U parsed)))
      | ZinchaTlsV1 host port pins \<Rightarrow>
          bind_result (ok_or (parse_ip host) HostNotLiteral) (\<lambda>address.
            if host \<noteq> show_ip address \<or> port = 0 then Err HostNotCanonical
            else if pins = [] \<or> 2 < length pins then Err BadPinCount
            else bind_result (check_pins {} pins) (\<lambda>_.
              Ok (lit ''zincha_tls_v1:'' @ host @ [0x3A] @ show_nat (unat port)))))"

fun check_interfaces ::
  "'u url_lib \<Rightarrow> rstr set \<Rightarrow> conversation_interface list \<Rightarrow> profile_error + unit" where
  "check_interfaces U identities [] = Ok ()"
| "check_interfaces U identities (i # is) =
     bind_result (interface_identity U i) (\<lambda>identity.
       if identity \<in> identities then Err DuplicateInterface
       else check_interfaces U (insert identity identities) is)"

definition validate_conversation_profile ::
  "'u profile_externs \<Rightarrow> conversation_profile \<Rightarrow> profile_error + unit" where
  "validate_conversation_profile X p =
     (if pf_version p \<noteq> 2 \<or> 1 \<notin> set (pf_protocol_versions p) then Err UnsupportedProfile
      else case validate_service_id (pf_service_id p) of
        Err e \<Rightarrow> Err (ServiceIdInvalid e)
      | Ok _ \<Rightarrow>
          if pf_privacy_modes p = [] \<or> \<not> distinct (pf_privacy_modes p)
             \<or> pf_protocol_versions p = [] \<or> MAX_PROTOCOL_VERSIONS < length (pf_protocol_versions p)
             \<or> 0 \<in> set (pf_protocol_versions p)
             \<or> card (set (pf_protocol_versions p)) \<noteq> length (pf_protocol_versions p)
          then Err BadProfileCapabilities
          else if pf_interfaces p = [] \<or> 4 < length (pf_interfaces p) then Err BadInterfaceCount
          else bind_result (check_interfaces (px_url X) {} (pf_interfaces p)) (\<lambda>_.
               bind_result (ok_or (px_jcs X p) NotEncodable) (\<lambda>bytes.
                 if 4096 < length bytes then Err ProfileTooLarge else Ok ())))"

definition conversation_profile_from_metadata ::
  "'u profile_externs \<Rightarrow> u8 list \<Rightarrow> profile_error + conversation_profile" where
  "conversation_profile_from_metadata X metadata =
     (if 4096 < length metadata then Err ProfileTooLarge
      else bind_result (ok_or (px_decode X metadata) ProfileUndecodable) (\<lambda>profile.
           bind_result (validate_conversation_profile X profile) (\<lambda>_. Ok profile)))"

definition conversation_profile_metadata ::
  "'u profile_externs \<Rightarrow> conversation_profile \<Rightarrow> profile_error + u8 list" where
  "conversation_profile_metadata X profile =
     bind_result (validate_conversation_profile X profile) (\<lambda>_.
     bind_result (ok_or (px_jcs X profile) NotEncodable) (\<lambda>bytes.
       if 4096 < length bytes then Err ProfileTooLarge else Ok bytes))"

definition verify_conversation_service_profile ::
  "'u profile_externs \<Rightarrow> conversation_profile \<Rightarrow> conversation_profile \<Rightarrow> profile_error + unit" where
  "verify_conversation_service_profile X advertised live =
     bind_result (validate_conversation_profile X advertised) (\<lambda>_.
     bind_result (validate_conversation_profile X live) (\<lambda>_.
       if advertised \<noteq> live then Err ProfileMismatch else Ok ()))"

subsection \<open>Clients\<close>

text \<open>An HTTP client that trusts the system's authorities, or one that trusts pins only.\<close>

datatype conversation_http = PlainHttp | PinnedHttp "pin list"

record 'u conversation_client =
  cc_http :: conversation_http
  cc_base_url :: 'u
  cc_access_token :: "rstr option"

datatype io_error_kind =
    ConnectionRefused | NotConnected | AddrNotAvailable | TimedOut | NetworkUnreachable
  | HostUnreachable | OtherIo

text \<open>A request error says whether it is a timeout.\<close>

datatype error_cause = DnsCause | IoCause io_error_kind | TlsCause | RequestCause bool | OtherCause

text \<open>The network: whether a client can be built, how its requests are answered from a base URL,
  and why they fail.\<close>

record ('u, 'j) profile_net =
  pn_builds :: "conversation_http \<Rightarrow> bool"
  pn_send :: "conversation_http \<Rightarrow> 'u \<Rightarrow> 'j transport"
  pn_causes :: "conversation_http \<Rightarrow> 'u \<Rightarrow> error_cause list"
  pn_decode :: "u8 list \<Rightarrow> conversation_profile api_response option"

definition is_reachability_error :: "error_cause list \<Rightarrow> bool" where
  "is_reachability_error causes =
     (let requests = filter (\<lambda>c. case c of RequestCause _ \<Rightarrow> True | _ \<Rightarrow> False) causes;
          dns_failure = DnsCause \<in> set causes;
          reachable_io_failure = list_ex (\<lambda>c. c \<in> IoCause ` {ConnectionRefused, NotConnected,
            AddrNotAvailable, TimedOut, NetworkUnreachable, HostUnreachable}) causes;
          tls_failure = TlsCause \<in> set causes
      in requests \<noteq> [] \<and> \<not> tls_failure
         \<and> (last requests = RequestCause True \<or> dns_failure \<or> reachable_io_failure))"

text \<open>Only a failed exchange has causes of these types.\<close>

definition failure_causes ::
  "('u, 'j) profile_net \<Rightarrow> 'u conversation_client \<Rightarrow> client_error \<Rightarrow> error_cause list" where
  "failure_causes N c e =
     (if e = SendFailed \<or> e = ReadFailed then pn_causes N (cc_http c) (cc_base_url c) else [])"

definition with_http :: "'u url_lib \<Rightarrow> 'u \<Rightarrow> conversation_http \<Rightarrow> profile_error + 'u conversation_client" where
  "with_http U base_url http =
     bind_result (validate_conversation_url U base_url) (\<lambda>_.
       let u = (if ends_with (ul_path U base_url) [0x2F] then base_url
                else ul_set_path U base_url (ul_path U base_url @ [0x2F]))
       in Ok \<lparr>cc_http = http, cc_base_url = ul_clear_fragment U (ul_clear_query U u),
              cc_access_token = None\<rparr>)"

definition build_http ::
  "('u, 'j) profile_net \<Rightarrow> conversation_http \<Rightarrow> profile_error + conversation_http" where
  "build_http N http = (if pn_builds N http then Ok http else Err HttpClientFailed)"

definition conversation_client_new ::
  "'u url_lib \<Rightarrow> ('u, 'j) profile_net \<Rightarrow> rstr \<Rightarrow> profile_error + 'u conversation_client" where
  "conversation_client_new U N base_url =
     bind_result (ok_or (ul_parse U base_url) InterfaceUrlInvalid) (\<lambda>u.
     bind_result (with_http U u PlainHttp) (\<lambda>client.
     bind_result (build_http N PlainHttp) (\<lambda>_. Ok client)))"

definition with_access_token :: "rstr \<Rightarrow> 'u conversation_client \<Rightarrow> 'u conversation_client" where
  "with_access_token token c = c\<lparr>cc_access_token := Some token\<rparr>"

definition direct_tls_url :: "'u url_lib \<Rightarrow> rstr \<Rightarrow> u16 \<Rightarrow> profile_error + 'u" where
  "direct_tls_url U host port =
     bind_result (ok_or (parse_ip host) HostNotLiteral) (\<lambda>address.
       let authority = (if is_ipv6 address then [0x5B] @ show_ip address @ [0x5D] else show_ip address)
             @ [0x3A] @ show_nat (unat port)
       in ok_or (ul_parse U (lit ''https://'' @ authority @ [0x2F])) InterfaceUrlInvalid)"

definition pinned_http_client ::
  "externs \<Rightarrow> ('u, 'j) profile_net \<Rightarrow> tls_certificate_pin list \<Rightarrow> profile_error + conversation_http" where
  "pinned_http_client C N pins =
     (case parse_pins C pins of Err e \<Rightarrow> Err (PinUnusable e)
      | Ok parsed \<Rightarrow> build_http N (PinnedHttp parsed))"

text \<open>Where an interface is served and how it is reached; nothing when the policy excludes it.\<close>

definition interface_endpoint ::
  "'u profile_externs \<Rightarrow> ('u, 'j) profile_net \<Rightarrow> transport_policy \<Rightarrow> conversation_interface
   \<Rightarrow> (profile_error + 'u \<times> conversation_http) option" where
  "interface_endpoint X N policy i =
     (case i of
        HttpsInterface url \<Rightarrow>
          if policy \<noteq> ZinchaTlsOnly
          then Some (bind_result (ok_or (ul_parse (px_url X) url) InterfaceUrlInvalid) (\<lambda>u.
                     bind_result (build_http N PlainHttp) (\<lambda>http. Ok (u, http))))
          else None
      | ZinchaTlsV1 host port pins \<Rightarrow>
          if policy \<noteq> HttpsOnly
          then Some (bind_result (direct_tls_url (px_url X) host port) (\<lambda>u.
                     bind_result (pinned_http_client (px_crypto X) N pins) (\<lambda>http. Ok (u, http))))
          else None)"

definition live_profile ::
  "('u, 'j) profile_net \<Rightarrow> 'u conversation_client \<Rightarrow> client_error + conversation_profile" where
  "live_profile N c =
     client_profile (pn_send N (cc_http c) (cc_base_url c)) (pn_decode N) (cc_access_token c)"

fun try_interfaces ::
  "'u profile_externs \<Rightarrow> ('u, 'j) profile_net \<Rightarrow> transport_policy \<Rightarrow> conversation_profile
   \<Rightarrow> bool \<Rightarrow> rstr list \<Rightarrow> conversation_interface list \<Rightarrow> profile_error + 'u conversation_client" where
  "try_interfaces X N policy profile supported unreachable [] =
     (if \<not> supported then Err NoSupportedInterface else Err (AllUnreachable unreachable))"
| "try_interfaces X N policy profile supported unreachable (i # is) =
     (case interface_endpoint X N policy i of
        None \<Rightarrow> try_interfaces X N policy profile supported unreachable is
      | Some endpoint \<Rightarrow>
          bind_result endpoint (\<lambda>(u, http).
          bind_result (with_http (px_url X) u http) (\<lambda>client.
            case live_profile N client of
              Ok live \<Rightarrow>
                bind_result (verify_conversation_service_profile X profile live) (\<lambda>_.
                  Ok (client\<lparr>cc_access_token := None\<rparr>))
            | Err e \<Rightarrow>
                if policy = AutoTransport \<and> is_reachability_error (failure_causes N client e)
                then try_interfaces X N policy profile True
                       (unreachable @ [ul_text (px_url X) (cc_base_url client)]) is
                else Err (LiveProfileFailed e))))"

definition from_profile ::
  "'u profile_externs \<Rightarrow> ('u, 'j) profile_net \<Rightarrow> conversation_profile \<Rightarrow> transport_policy
   \<Rightarrow> profile_error + 'u conversation_client" where
  "from_profile X N profile policy =
     bind_result (validate_conversation_profile X profile) (\<lambda>_.
       try_interfaces X N policy profile False [] (pf_interfaces profile))"

subsection \<open>Validated interfaces\<close>

lemma check_interfaces_Ok:
  "check_interfaces U seen is = Ok () \<Longrightarrow> i \<in> set is \<Longrightarrow> \<exists>identity. interface_identity U i = Ok identity"
  by (induction U seen "is" rule: check_interfaces.induct) (auto split: if_splits)

lemma validate_profile_interfaces:
  "validate_conversation_profile X p = Ok () \<Longrightarrow> i \<in> set (pf_interfaces p) \<Longrightarrow>
   \<exists>identity. interface_identity (px_url X) i = Ok identity"
  by (auto simp: validate_conversation_profile_def split: if_splits sum.splits
      dest: check_interfaces_Ok)

lemma https_interface_identity:
  "interface_identity U (HttpsInterface url) = Ok identity \<Longrightarrow> ul_parse U url = Some u \<Longrightarrow>
   ul_scheme U u = lit ''https''"
  by (auto simp: interface_identity_def split: if_splits)

lemma validate_url_Ok:
  "validate_conversation_url U u = Ok () \<Longrightarrow>
   ul_username U u = [] \<and> ul_password U u = None \<and> ul_host U u \<noteq> None"
  by (auto simp: validate_conversation_url_def split: if_splits)

lemma same_origin_refl [simp]: "same_origin U u u"
  by (simp add: same_origin_def)

lemma same_origin_trans: "same_origin U u v \<Longrightarrow> same_origin U v w \<Longrightarrow> same_origin U u w"
  by (simp add: same_origin_def)

text \<open>What a client of this module never has, and what its base URL always looks like.\<close>

definition well_formed_client :: "'u url_lib \<Rightarrow> 'u conversation_client \<Rightarrow> bool" where
  "well_formed_client U c \<longleftrightarrow>
     ul_username U (cc_base_url c) = [] \<and> ul_password U (cc_base_url c) = None
     \<and> ul_query U (cc_base_url c) = None \<and> ul_fragment U (cc_base_url c) = None
     \<and> ends_with (ul_path U (cc_base_url c)) [0x2F] \<and> cc_access_token c = None"

lemma with_http_Ok:
  assumes "url_lib_ok U" "with_http U u http = Ok c"
  shows "cc_http c = http" "same_origin U (cc_base_url c) u" "well_formed_client U c"
proof -
  define v where "v = (if ends_with (ul_path U u) [0x2F] then u
                       else ul_set_path U u (ul_path U u @ [0x2F]))"
  from assms(2) have valid: "validate_conversation_url U u = Ok ()"
    and c: "c = \<lparr>cc_http = http, cc_base_url = ul_clear_fragment U (ul_clear_query U v),
                 cc_access_token = None\<rparr>"
    by (auto simp: with_http_def Let_def v_def)
  have v: "same_origin U v u" using assms(1) by (simp add: v_def url_lib_ok_def)
  have cl: "same_origin U (ul_clear_query U v) v"
    "same_origin U (ul_clear_fragment U (ul_clear_query U v)) (ul_clear_query U v)"
    using assms(1) unfolding url_lib_ok_def by blast+
  have keep: "ul_path U (ul_clear_fragment U (ul_clear_query U v)) = ul_path U v"
    "ul_query U (ul_clear_fragment U (ul_clear_query U v)) = None"
    "ul_fragment U (ul_clear_fragment U (ul_clear_query U v)) = None"
    using assms(1) by (simp_all add: url_lib_ok_def)
  have path: "ends_with (ul_path U v) [0x2F]"
    using assms(1) validate_url_Ok [OF valid]
    by (auto simp: v_def url_lib_ok_def ends_with_def starts_with_def)
  show "cc_http c = http" by (simp add: c)
  show so: "same_origin U (cc_base_url c) u"
    using same_origin_trans [OF cl(2) same_origin_trans [OF cl(1) v]] by (simp add: c)
  show "well_formed_client U c"
    using so validate_url_Ok [OF valid] keep path by (simp add: well_formed_client_def same_origin_def c)
qed

subsection \<open>Trying interfaces\<close>

definition reaches ::
  "'u profile_externs \<Rightarrow> ('u, 'j) profile_net \<Rightarrow> transport_policy \<Rightarrow> conversation_interface
   \<Rightarrow> 'u conversation_client \<Rightarrow> bool" where
  "reaches X N policy i c \<longleftrightarrow>
     (\<exists>u http. interface_endpoint X N policy i = Some (Ok (u, http)) \<and> with_http (px_url X) u http = Ok c)"

definition unreachable_interface ::
  "'u profile_externs \<Rightarrow> ('u, 'j) profile_net \<Rightarrow> transport_policy \<Rightarrow> conversation_interface \<Rightarrow> bool" where
  "unreachable_interface X N policy i \<longleftrightarrow>
     (\<exists>c e. reaches X N policy i c \<and> live_profile N c = Err e
        \<and> is_reachability_error (failure_causes N c e))"

lemma try_interfaces_Ok:
  "try_interfaces X N policy profile supported unreachable is = Ok c \<Longrightarrow>
   \<exists>before i after c'. is = before @ i # after \<and> c = c'\<lparr>cc_access_token := None\<rparr>
     \<and> reaches X N policy i c' \<and> live_profile N c' = Ok profile
     \<and> (\<forall>j \<in> set before. interface_endpoint X N policy j \<noteq> None \<longrightarrow>
          policy = AutoTransport \<and> unreachable_interface X N policy j)"
proof (induction X N policy profile supported unreachable "is" rule: try_interfaces.induct)
  case (1 X N policy profile supported unreachable)
  then show ?case by (simp split: if_splits)
next
  case (2 X N policy profile supported unreachable i "is")
  let ?P = "\<lambda>is before i after c'. is = before @ i # after \<and> c = c'\<lparr>cc_access_token := None\<rparr>
     \<and> reaches X N policy i c' \<and> live_profile N c' = Ok profile
     \<and> (\<forall>j \<in> set before. interface_endpoint X N policy j \<noteq> None \<longrightarrow>
          policy = AutoTransport \<and> unreachable_interface X N policy j)"
  have later: "\<exists>before i' after c'. ?P (i # is) before i' after c'"
    if "\<exists>before i' after c'. ?P is before i' after c'"
      and "interface_endpoint X N policy i \<noteq> None \<longrightarrow>
             policy = AutoTransport \<and> unreachable_interface X N policy i"
  proof -
    from that(1) obtain before i' after c' where "?P is before i' after c'" by blast
    with that(2) have "?P (i # is) (i # before) i' after c'" by simp
    then show ?thesis by blast
  qed
  show ?case
  proof (cases "interface_endpoint X N policy i")
    case None
    with 2(1,3) later show ?thesis by simp
  next
    case (Some endpoint)
    with 2(3) obtain u http client where e: "endpoint = Ok (u, http)"
      and client: "with_http (px_url X) u http = Ok client" by auto
    then have r: "reaches X N policy i client" using Some by (auto simp: reaches_def)
    show ?thesis
    proof (cases "live_profile N client")
      case (Inr live)
      with 2(3) Some e client have "c = client\<lparr>cc_access_token := None\<rparr>" "live = profile"
        by (auto simp: verify_conversation_service_profile_def split: if_splits)
      with r Inr have "?P (i # is) [] i is client" by simp
      then show ?thesis by blast
    next
      case (Inl err)
      with 2(3) Some e client
      have skip: "policy = AutoTransport" "is_reachability_error (failure_causes N client err)"
        by (auto split: if_splits)
      with r Inl have "unreachable_interface X N policy i" by (auto simp: unreachable_interface_def)
      moreover have "try_interfaces X N policy profile True
          (unreachable @ [ul_text (px_url X) (cc_base_url client)]) is = Ok c"
        using 2(3) Some e client Inl skip by simp
      ultimately show ?thesis using 2(2) [OF Some Inl] skip by (intro later) blast+
    qed
  qed
qed

text \<open>What a client is connected to: the endpoint of an interface.\<close>

definition served_by ::
  "'u profile_externs \<Rightarrow> ('u, 'j) profile_net \<Rightarrow> transport_policy \<Rightarrow> conversation_interface
   \<Rightarrow> 'u conversation_client \<Rightarrow> bool" where
  "served_by X N policy i c \<longleftrightarrow>
     (\<exists>u. interface_endpoint X N policy i = Some (Ok (u, cc_http c))
        \<and> same_origin (px_url X) (cc_base_url c) u
        \<and> ul_scheme (px_url X) (cc_base_url c) = lit ''https''
        \<and> (case i of HttpsInterface url \<Rightarrow> cc_http c = PlainHttp
           | ZinchaTlsV1 host port pins \<Rightarrow>
               \<exists>ps. parse_pins (px_crypto X) pins = Ok ps \<and> cc_http c = PinnedHttp ps))"

lemma reaches_served:
  assumes ok: "url_lib_ok (px_url X)" and r: "reaches X N policy i c"
    and identity: "interface_identity (px_url X) i = Ok identity"
  shows "served_by X N policy i c \<and> well_formed_client (px_url X) c"
proof -
  from r obtain u http where e: "interface_endpoint X N policy i = Some (Ok (u, http))"
    and w: "with_http (px_url X) u http = Ok c" by (auto simp: reaches_def)
  note c = with_http_Ok [OF ok w]
  have https: "ul_scheme (px_url X) u = lit ''https''"
  proof (cases i)
    case (HttpsInterface url)
    with e have "ul_parse (px_url X) url = Some u"
      by (auto simp: interface_endpoint_def split: if_splits)
    with HttpsInterface identity show ?thesis by (blast intro: https_interface_identity)
  next
    case (ZinchaTlsV1 host port pins)
    with e have "direct_tls_url (px_url X) host port = Ok u"
      by (auto simp: interface_endpoint_def split: if_splits)
    then obtain s where "ul_parse (px_url X) (lit ''https://'' @ s) = Some u"
      by (auto simp: direct_tls_url_def Let_def)
    with ok show ?thesis unfolding url_lib_ok_def by blast
  qed
  have "served_by X N policy i c"
    unfolding served_by_def
    using e c(1,2) https
    by (auto simp: same_origin_def interface_endpoint_def pinned_http_client_def build_http_def
        split: conversation_interface.splits if_splits sum.splits intro!: exI [of _ u])
  with c(3) show ?thesis by simp
qed

text \<open>(C10) A client built from an authenticated profile is connected to an interface that profile
  advertises and the policy allows, over HTTPS, with the advertised certificate pins where the
  interface has them, at a URL without credentials, carries no token yet, and the service answered
  with exactly that profile. Every allowed interface before it was unreachable, and only the
  automatic policy goes past one.\<close>

theorem profile_client_authentic:
  assumes "url_lib_ok (px_url X)" "from_profile X N profile policy = Ok c"
  shows "\<exists>before i after. pf_interfaces profile = before @ i # after
     \<and> served_by X N policy i c \<and> well_formed_client (px_url X) c
     \<and> live_profile N c = Ok profile
     \<and> (\<forall>j \<in> set before. interface_endpoint X N policy j \<noteq> None \<longrightarrow>
          policy = AutoTransport \<and> unreachable_interface X N policy j)"
proof -
  from assms(2) have valid: "validate_conversation_profile X profile = Ok ()"
    and tried: "try_interfaces X N policy profile False [] (pf_interfaces profile) = Ok c"
    by (auto simp: from_profile_def)
  from try_interfaces_Ok [OF tried] obtain before i after c' where
    split: "pf_interfaces profile = before @ i # after" and c: "c = c'\<lparr>cc_access_token := None\<rparr>"
    and r: "reaches X N policy i c'" and live: "live_profile N c' = Ok profile"
    and skipped: "\<forall>j \<in> set before. interface_endpoint X N policy j \<noteq> None \<longrightarrow>
          policy = AutoTransport \<and> unreachable_interface X N policy j" by blast
  obtain identity where "interface_identity (px_url X) i = Ok identity"
    using validate_profile_interfaces [OF valid, of i] split by auto
  from reaches_served [OF assms(1) r this]
  have s: "served_by X N policy i c'" "well_formed_client (px_url X) c'" by auto
  then have "c = c'" unfolding c by (cases c') (simp add: well_formed_client_def)
  with split s live skipped show ?thesis by blast
qed

text \<open>A URL is a host and a path here, always \<open>https\<close>.\<close>

definition demo_urls :: "(rstr \<times> rstr) url_lib" where
  "demo_urls =
     \<lparr>ul_parse = (\<lambda>s. map_option (\<lambda>h. (h, [])) (strip_prefix s (lit ''https://''))),
      ul_text = (\<lambda>(h, p). lit ''https://'' @ h @ p), ul_scheme = (\<lambda>_. lit ''https''),
      ul_username = (\<lambda>_. []), ul_password = (\<lambda>_. None), ul_host = (\<lambda>(h, p). Some h),
      ul_path = snd, ul_query = (\<lambda>_. None), ul_fragment = (\<lambda>_. None),
      ul_set_path = (\<lambda>(h, _) p. (h, p)), ul_clear_query = id, ul_clear_fragment = id\<rparr>"

definition demo_profile :: conversation_profile where
  "demo_profile =
     \<lparr>pf_version = 2, pf_service_id = lit ''svc'',
      pf_interfaces = [ZinchaTlsV1 (lit ''127.0.0.1'') 443
          [\<lparr>cp_sha256 = replicate 64 0x61, cp_not_before_ms = 0, cp_not_after_ms = 1\<rparr>],
        HttpsInterface (lit ''https://a'')],
      pf_privacy_modes = [EndToEnd], pf_protocol_versions = [1]\<rparr>"

definition demo_profile_externs :: "(rstr \<times> rstr) profile_externs" where
  "demo_profile_externs =
     \<lparr>px_crypto = demo_externs\<lparr>hex_decode := (\<lambda>_. Some (replicate 32 0))\<rparr>, px_url = demo_urls,
      px_jcs = (\<lambda>_. Some [1]), px_decode = (\<lambda>_. Some demo_profile)\<rparr>"

text \<open>The pinned endpoint times out; the other one answers with the profile.\<close>

definition demo_profile_net :: "(rstr \<times> rstr, unit) profile_net" where
  "demo_profile_net =
     \<lparr>pn_builds = (\<lambda>_. True),
      pn_send = (\<lambda>h _ _. if h = PlainHttp
        then Some \<lparr>rs_status = 200, rs_content_length = None, rs_chunks = [Some [1]]\<rparr> else None),
      pn_causes = (\<lambda>_ _. [RequestCause True]),
      pn_decode = (\<lambda>_. Some \<lparr>ar_success = Some True, ar_data = Some demo_profile, ar_error = None\<rparr>)\<rparr>"

lemma demo_urls_ok: "url_lib_ok demo_urls"
  by (simp add: url_lib_ok_def demo_urls_def same_origin_def split: prod.splits)

lemma utf8_repeated: "utf8 (replicate n 0x61) = replicate n 0x61"
  by (induction n) (simp_all add: utf8_def utf8_char_def utf8_units_def)

lemma demo_pins: "check_pins {} [\<lparr>cp_sha256 = replicate 64 0x61, cp_not_before_ms = 0, cp_not_after_ms = 1\<rparr>] = Ok ()"
  unfolding check_pins.simps str_len_def tls_certificate_pin.simps utf8_repeated
  by (simp add: list_all_iff lower_hex_byte_def)

lemma demo_tls_identity:
  "parse_ip (lit ''127.0.0.1'') = Some (V4 (Ipv4 127 0 0 1)) \<and> show_ip (V4 (Ipv4 127 0 0 1)) = lit ''127.0.0.1''
   \<and> show_nat 443 = lit ''443''"
  by code_simp

lemma demo_https_identity:
  "interface_identity demo_urls (HttpsInterface (lit ''https://a'')) = Ok (lit ''https:https://a'')"
  by code_simp

lemma demo_profile_valid: "validate_conversation_profile demo_profile_externs demo_profile = Ok ()"
proof -
  have "interface_identity demo_urls (ZinchaTlsV1 (lit ''127.0.0.1'') 443
      [\<lparr>cp_sha256 = replicate 64 0x61, cp_not_before_ms = 0, cp_not_after_ms = 1\<rparr>])
      = Ok (lit ''zincha_tls_v1:127.0.0.1:443'')"
    unfolding interface_identity_def using demo_pins demo_tls_identity by simp
  then have "check_interfaces demo_urls {} (pf_interfaces demo_profile) = Ok ()"
    unfolding demo_profile_def using demo_https_identity by simp
  then show ?thesis
    by (simp add: validate_conversation_profile_def demo_profile_externs_def)
      (simp add: demo_profile_def validate_service_id_def trim_def trim_start_def is_whitespace_def
        is_control_def MAX_PROTOCOL_VERSIONS_def)
qed

lemma demo_interfaces:
  "pf_interfaces demo_profile = [ZinchaTlsV1 (lit ''127.0.0.1'') 443
     [\<lparr>cp_sha256 = replicate 64 0x61, cp_not_before_ms = 0, cp_not_after_ms = 1\<rparr>],
     HttpsInterface (lit ''https://a'')]"
  by (simp add: demo_profile_def)

lemma demo_tls_endpoint:
  "interface_endpoint demo_profile_externs demo_profile_net AutoTransport
     (ZinchaTlsV1 (lit ''127.0.0.1'') 443 pins)
   = Some (Ok ((lit ''127.0.0.1:443/'', []),
       PinnedHttp (map (\<lambda>p. (replicate 32 0, cp_not_before_ms p, cp_not_after_ms p)) pins)))"
proof -
  have "parse_pins (px_crypto demo_profile_externs) pins
      = Ok (map (\<lambda>p. (replicate 32 0, cp_not_before_ms p, cp_not_after_ms p)) pins)"
    by (induction pins) (simp_all add: demo_profile_externs_def)
  moreover have "direct_tls_url (px_url demo_profile_externs) (lit ''127.0.0.1'') 443
      = Ok (lit ''127.0.0.1:443/'', [])" by code_simp
  ultimately show ?thesis
    by (simp add: interface_endpoint_def pinned_http_client_def build_http_def demo_profile_net_def)
qed

lemma demo_https_endpoint:
  "interface_endpoint demo_profile_externs demo_profile_net AutoTransport (HttpsInterface (lit ''https://a''))
   = Some (Ok ((lit ''a'', []), PlainHttp))"
  by code_simp

lemma demo_with_http:
  "with_http (px_url demo_profile_externs) (h, []) http
   = Ok \<lparr>cc_http = http, cc_base_url = (h, [0x2F]), cc_access_token = None\<rparr>"
  by (simp add: with_http_def validate_conversation_url_def demo_profile_externs_def demo_urls_def
      ends_with_def starts_with_def)

lemma demo_live:
  "live_profile demo_profile_net \<lparr>cc_http = http, cc_base_url = u, cc_access_token = None\<rparr>
   = (if http = PlainHttp then Ok demo_profile else Err SendFailed)"
  by (simp add: live_profile_def client_profile_def json_with_limit_def demo_profile_net_def
      is_success_def MAX_PROFILE_RESPONSE_BYTES_def)

lemma demo_causes: "pn_causes demo_profile_net h u = [RequestCause True]"
  by (simp add: demo_profile_net_def)

lemma demo_from_profile:
  "from_profile demo_profile_externs demo_profile_net demo_profile AutoTransport
   = Ok \<lparr>cc_http = PlainHttp, cc_base_url = (lit ''a'', lit ''/''), cc_access_token = None\<rparr>"
  by (simp add: from_profile_def demo_profile_valid demo_interfaces demo_tls_endpoint [simplified] demo_https_endpoint [simplified]
      demo_with_http demo_live verify_conversation_service_profile_def failure_causes_def
      is_reachability_error_def demo_causes)

lemma profile_client_authentic_witness:
  "\<exists>before i after. pf_interfaces demo_profile = before @ i # after
     \<and> served_by demo_profile_externs demo_profile_net AutoTransport i
         \<lparr>cc_http = PlainHttp, cc_base_url = (lit ''a'', lit ''/''), cc_access_token = None\<rparr>"
  using profile_client_authentic [OF _ demo_from_profile] demo_urls_ok
  by (auto simp: demo_profile_externs_def)

text \<open>Published metadata is read back as the profile that was published.\<close>

lemma profile_metadata_roundtrip:
  assumes "\<And>p bytes. px_jcs X p = Some bytes \<Longrightarrow> px_decode X bytes = Some p"
    and "conversation_profile_metadata X profile = Ok bytes"
  shows "conversation_profile_from_metadata X bytes = Ok profile"
  using assms
  by (auto simp: conversation_profile_metadata_def conversation_profile_from_metadata_def split: if_splits)

end
