(* ===== verification/Event_Stream.thy ===== *)
theory Event_Stream
  imports Conversation_Client
begin

text \<open>
  Following a conversation (\<open>crates/zincha-client/src/conversation.rs\<close>, \<open>events\<close>,
  \<open>sse_boundary\<close>, \<open>parse_sse_block\<close>): server-sent events are cut out of a byte stream that
  arrives in arbitrary chunks, messages are delivered in order of their sequence, a broken
  connection is retried with a growing delay from the last delivered sequence, and a requested
  resynchronisation is answered by paged reads.

  The stream is an endless loop, so the model is one step per connection: \<open>stream_step\<close> takes
  the state (cursor, delay, what was yielded and slept so far) and the outcome of the next
  connection attempt. Paged reads go through \<open>fetch\<close>, the result of the \<open>n\<close>-th call of
  \<open>messages\<close>. The loops over the buffer and over the pages are recursive functions with
  termination proofs: the first consumes the separator, the second only goes on when the cursor
  has moved forward.

  The lemmas show that cutting the bytes in chunks changes nothing, that an encoded event is
  read back, and what the messages delivered so far are, whatever the network does.
\<close>

subsection \<open>Cutting events out of the buffer\<close>

text \<open>\<open>windows(n).position(|w| w == pattern)\<close>.\<close>

definition window_position :: "u8 list \<Rightarrow> u8 list \<Rightarrow> nat option" where
  "window_position pat buffer =
     position (\<lambda>i. take (length pat) (drop i buffer) = pat)
       [0..<Suc (length buffer) - length pat]"

definition sse_boundary :: "u8 list \<Rightarrow> (nat \<times> nat) option" where
  "sse_boundary buffer =
     (let lf = map_option (\<lambda>i. (i, 2)) (window_position [0x0A, 0x0A] buffer);
          crlf = map_option (\<lambda>i. (i, 4)) (window_position [0x0D, 0x0A, 0x0D, 0x0A] buffer)
      in case (lf, crlf) of
           (Some left, Some right) \<Rightarrow> Some (if fst left \<le> fst right then left else right)
         | (Some v, None) \<Rightarrow> Some v
         | (None, Some v) \<Rightarrow> Some v
         | (None, None) \<Rightarrow> None)"

record parsed_sse_event =
  ev_kind :: "rstr option"
  ev_data :: "rstr option"

definition sse_line :: "parsed_sse_event \<Rightarrow> rstr \<Rightarrow> parsed_sse_event" where
  "sse_line event line =
     (case split_once 0x3A line of
        None \<Rightarrow> event
      | Some (name, value) \<Rightarrow>
          let v = (case strip_prefix value [0x20] of None \<Rightarrow> value | Some w \<Rightarrow> w)
          in if name = lit ''event'' then event\<lparr>ev_kind := Some v\<rparr>
             else if name = lit ''data''
             then event\<lparr>ev_data := Some (case ev_data event of None \<Rightarrow> v | Some d \<Rightarrow> d @ [0x0A] @ v)\<rparr>
             else event)"

datatype stream_error =
    Client client_error
  | AuthorizationRequired
  | StreamHttp u16
  | EventTooLarge
  | BadEventText
  | BadEventMessage
  | IncoherentPagination

definition parse_sse_block :: "u8 list \<Rightarrow> stream_error + parsed_sse_event" where
  "parse_sse_block block =
     bind_result (ok_or (from_utf8 block) BadEventText) (\<lambda>text.
       Ok (foldl sse_line \<lparr>ev_kind = None, ev_data = None\<rparr> (str_lines text)))"

definition MAX_SSE_EVENT_BYTES :: nat where
  "MAX_SSE_EVENT_BYTES = 256 * 1024"

text \<open>How the handling of an event, a chunk or a page ends: go on, resynchronise, or fail.\<close>

datatype flow = Go | Resync | Fail stream_error

type_synonym 'j decoder = "rstr \<Rightarrow> 'j message_record option"

definition handle_event ::
  "'j decoder \<Rightarrow> i64 \<Rightarrow> parsed_sse_event \<Rightarrow> 'j message_record list \<times> i64 \<times> flow" where
  "handle_event decode cursor event =
     (if ev_kind event = Some (lit ''message'') then
        (case ev_data event of
           None \<Rightarrow> ([], cursor, Go)
         | Some d \<Rightarrow> (case decode d of
             None \<Rightarrow> ([], cursor, Fail BadEventMessage)
           | Some m \<Rightarrow> if sint cursor < sint (mr_sequence m) then ([m], mr_sequence m, Go)
                       else ([], cursor, Go)))
      else if ev_kind event = Some (lit ''resync_required'') then ([], cursor, Resync)
      else if ev_kind event = Some (lit ''authorization_required'')
        then ([], cursor, Fail AuthorizationRequired)
      else ([], cursor, Go))"

lemma window_position_SomeD:
  assumes "window_position pat buffer = Some i"
  shows "i + length pat \<le> length buffer" "take (length pat) (drop i buffer) = pat"
    "\<And>j. j < i \<Longrightarrow> take (length pat) (drop j buffer) \<noteq> pat"
proof -
  let ?xs = "[0..<Suc (length buffer) - length pat]"
  have i: "i < length ?xs" and hit: "take (length pat) (drop (?xs ! i) buffer) = pat"
    and first: "\<forall>j < i. take (length pat) (drop (?xs ! j) buffer) \<noteq> pat"
    using assms unfolding window_position_def position_eq_Some by blast+
  from i show "i + length pat \<le> length buffer" by simp
  from i hit show "take (length pat) (drop i buffer) = pat" by simp
  fix j assume "j < i"
  with first i show "take (length pat) (drop j buffer) \<noteq> pat" by fastforce
qed

lemma window_position_eq_Some:
  "window_position pat buffer = Some i
   \<longleftrightarrow> i + length pat \<le> length buffer \<and> take (length pat) (drop i buffer) = pat
      \<and> (\<forall>j < i. take (length pat) (drop j buffer) \<noteq> pat)"
proof
  assume "window_position pat buffer = Some i"
  from window_position_SomeD [OF this] show "i + length pat \<le> length buffer
      \<and> take (length pat) (drop i buffer) = pat
      \<and> (\<forall>j < i. take (length pat) (drop j buffer) \<noteq> pat)" by blast
next
  assume r: "i + length pat \<le> length buffer \<and> take (length pat) (drop i buffer) = pat
      \<and> (\<forall>j < i. take (length pat) (drop j buffer) \<noteq> pat)"
  then show "window_position pat buffer = Some i"
    unfolding window_position_def position_eq_Some by (auto simp: nth_append)
qed

lemma window_position_eq_None:
  "window_position pat buffer = None
   \<longleftrightarrow> (\<forall>i. i + length pat \<le> length buffer \<longrightarrow> take (length pat) (drop i buffer) \<noteq> pat)"
  by (auto simp: window_position_def position_eq_None)

lemma sse_boundary_SomeD:
  "sse_boundary buffer = Some (b, n) \<Longrightarrow> 0 < n \<and> b + n \<le> length buffer"
  by (auto simp: sse_boundary_def Let_def dest!: window_position_SomeD(1)
      split: option.splits if_splits)

text \<open>The inner loop: every complete event of the buffer is handled and drained.\<close>

function process_buffer ::
  "'j decoder \<Rightarrow> i64 \<Rightarrow> u8 list \<Rightarrow> 'j message_record list \<times> i64 \<times> u8 list \<times> flow" where
  "process_buffer decode cursor buffer =
     (case sse_boundary buffer of
        None \<Rightarrow> ([], cursor, buffer, Go)
      | Some (boundary, separator_len) \<Rightarrow>
          let rest = drop (boundary + separator_len) buffer
          in case parse_sse_block (take boundary buffer) of
               Err e \<Rightarrow> ([], cursor, rest, Fail e)
             | Ok event \<Rightarrow>
                 (case handle_event decode cursor event of
                    (ys, cursor', flow) \<Rightarrow>
                      if flow = Go
                      then (case process_buffer decode cursor' rest of
                              (zs, c, r, f) \<Rightarrow> (ys @ zs, c, r, f))
                      else (ys, cursor', rest, flow)))"
  by pat_completeness auto
termination
  by (relation "measure (\<lambda>(_, _, buffer). length buffer)") (auto dest!: sse_boundary_SomeD)

declare process_buffer.simps [simp del]

text \<open>One connection: chunks until the body ends, a read error, a resync request or a failure.\<close>

fun read_events ::
  "'j decoder \<Rightarrow> i64 \<Rightarrow> u8 list \<Rightarrow> u8 list option list \<Rightarrow> 'j message_record list \<times> i64 \<times> flow" where
  "read_events decode cursor buffer [] = ([], cursor, Go)"
| "read_events decode cursor buffer (None # _) = ([], cursor, Go)"
| "read_events decode cursor buffer (Some chunk # chunks) =
     (if MAX_SSE_EVENT_BYTES < length buffer + length chunk
      then ([], cursor, Fail EventTooLarge)
      else (case process_buffer decode cursor (buffer @ chunk) of
              (ys, c, rest, flow) \<Rightarrow>
                if flow = Go
                then (case read_events decode c rest chunks of (zs, c', f) \<Rightarrow> (ys @ zs, c', f))
                else (ys, c, flow)))"

subsection \<open>Resynchronisation\<close>

fun take_page :: "i64 \<Rightarrow> 'j message_record list \<Rightarrow> 'j message_record list \<times> i64" where
  "take_page cursor [] = ([], cursor)"
| "take_page cursor (m # ms) =
     (if sint cursor < sint (mr_sequence m)
      then (case take_page (mr_sequence m) ms of (ys, c) \<Rightarrow> (m # ys, c))
      else take_page cursor ms)"

type_synonym 'j fetch = "nat \<Rightarrow> i64 \<Rightarrow> client_error + 'j message_record page"

text \<open>\<open>n\<close> counts the calls of \<open>messages\<close>.\<close>

function resync_pages ::
  "'j fetch \<Rightarrow> nat \<Rightarrow> i64 \<Rightarrow> 'j message_record list \<times> i64 \<times> nat \<times> stream_error option" where
  "resync_pages fetch n cursor =
     (case fetch n cursor of
        Err e \<Rightarrow> ([], cursor, Suc n, Some (Client e))
      | Ok page \<Rightarrow>
          (case take_page cursor (pg_items page) of
             (ys, c) \<Rightarrow>
               (case pg_next_cursor page of
                  None \<Rightarrow> (ys, c, Suc n, None)
                | Some next_cursor \<Rightarrow>
                    if sint c \<le> sint cursor \<or> next_cursor \<noteq> c
                    then (ys, c, Suc n, Some IncoherentPagination)
                    else (case resync_pages fetch (Suc n) c of
                            (zs, c', n', e) \<Rightarrow> (ys @ zs, c', n', e)))))"
  by pat_completeness auto
termination
proof (relation "measure (\<lambda>(_, _, cursor). nat (2 ^ 63 - sint cursor))", goal_cases)
  case 1
  then show ?case by simp
next
  case (2 fetch n cursor page p ys c)
  have "sint c < 2 ^ 63" using sint_lt [of c] by simp
  with 2 show ?case by simp
qed

declare resync_pages.simps [simp del]

subsection \<open>The reconnect loop\<close>

datatype connection = ConnectFailed | Connected u16 "u8 list option list"

record 'j stream_state =
  es_cursor :: i64
  es_delay_ms :: u64
  es_yielded :: "'j message_record list"
  es_slept :: "u64 list"
  es_pages :: nat
  es_error :: "stream_error option"

definition stream_start :: "i64 \<Rightarrow> 'j stream_state" where
  "stream_start after =
     \<lparr>es_cursor = after, es_delay_ms = 250, es_yielded = [], es_slept = [], es_pages = 0,
      es_error = None\<rparr>"

definition back_off :: "'j stream_state \<Rightarrow> 'j stream_state" where
  "back_off s =
     s\<lparr>es_slept := es_slept s @ [es_delay_ms s],
       es_delay_ms := min (saturating_mul (es_delay_ms s) 2) 30000\<rparr>"

definition retryable :: "u16 \<Rightarrow> bool" where
  "retryable status \<longleftrightarrow> status = 408 \<or> status = 429 \<or> (500 \<le> status \<and> status < 600)"

definition stream_step ::
  "'j decoder \<Rightarrow> 'j fetch \<Rightarrow> rstr \<Rightarrow> 'j stream_state \<Rightarrow> connection \<Rightarrow> 'j stream_state" where
  "stream_step decode fetch cid s connection =
     (if es_error s \<noteq> None then s
      else case events_url cid (es_cursor s) of
        Err e \<Rightarrow> s\<lparr>es_error := Some (Client e)\<rparr>
      | Ok _ \<Rightarrow>
        (case connection of
           ConnectFailed \<Rightarrow> back_off s
         | Connected status chunks \<Rightarrow>
             if status = 401 \<or> status = 403 then s\<lparr>es_error := Some AuthorizationRequired\<rparr>
             else if \<not> is_success status \<and> retryable status then back_off s
             else if \<not> is_success status then s\<lparr>es_error := Some (StreamHttp status)\<rparr>
             else (case read_events decode (es_cursor s) [] chunks of
                     (ys, c, flow) \<Rightarrow>
                       let t = s\<lparr>es_cursor := c, es_yielded := es_yielded s @ ys\<rparr>
                       in (case flow of
                             Fail e \<Rightarrow> t\<lparr>es_error := Some e\<rparr>
                           | Go \<Rightarrow> back_off t
                           | Resync \<Rightarrow>
                               (case resync_pages fetch (es_pages t) c of
                                  (zs, c', n, e) \<Rightarrow>
                                    let u = t\<lparr>es_cursor := c', es_pages := n,
                                                es_yielded := es_yielded t @ zs\<rparr>
                                    in (case e of
                                          Some x \<Rightarrow> u\<lparr>es_error := Some x\<rparr>
                                        | None \<Rightarrow> u\<lparr>es_delay_ms := 250\<rparr>))))))"

definition follow ::
  "'j decoder \<Rightarrow> 'j fetch \<Rightarrow> rstr \<Rightarrow> i64 \<Rightarrow> connection list \<Rightarrow> 'j stream_state" where
  "follow decode fetch cid after connections =
     foldl (stream_step decode fetch cid) (stream_start after) connections"

subsection \<open>Chunks do not matter\<close>

lemma take_pair_eq:
  "take 2 (drop j xs) = [a, b] \<longleftrightarrow> j + 2 \<le> length xs \<and> xs ! j = a \<and> xs ! Suc j = b"
proof (cases "j + 2 \<le> length xs")
  case True
  then have "take 2 (drop j xs) = [xs ! j, xs ! Suc j]"
    by (simp add: numeral_2_eq_2 Cons_nth_drop_Suc [symmetric])
  with True show ?thesis by simp
next
  case False
  then have "length (take 2 (drop j xs)) < 2" by simp
  with False show ?thesis by (metis length_Cons list.size(3) numeral_2_eq_2 less_irrefl)
qed

lemma window_position_append:
  "window_position pat buffer = Some i \<Longrightarrow> window_position pat (buffer @ ch) = Some i"
  by (auto simp: window_position_eq_Some)

lemma window_position_new:
  assumes "window_position pat buffer = None" "window_position pat (buffer @ ch) = Some j"
  shows "length buffer < j + length pat"
proof (rule ccontr)
  assume "\<not> length buffer < j + length pat"
  then have "take (length pat) (drop j (buffer @ ch)) = take (length pat) (drop j buffer)"
    "j + length pat \<le> length buffer" by simp_all
  then show False
    using assms by (metis window_position_SomeD(2) window_position_eq_None)
qed

lemma crlf_after_lf:
  assumes lf: "window_position [0x0A, 0x0A] buffer = Some i"
    and crlf: "window_position [0x0D, 0x0A, 0x0D, 0x0A] (buffer @ ch) = Some j"
    and new: "length buffer < j + 4"
  shows "i \<le> j"
proof (rule ccontr)
  assume "\<not> i \<le> j"
  moreover have i: "i + 2 \<le> length buffer" "take 2 (drop i buffer) = [0x0A, 0x0A]"
    using window_position_SomeD [OF lf] by (simp_all add: numeral_2_eq_2)
  ultimately have j: "i = Suc j" using new by simp
  have four: "length [0x0D, 0x0A, 0x0D, 0x0A :: u8] = 4" by simp
  have "take 4 (drop j (buffer @ ch)) = [0x0D, 0x0A, 0x0D, 0x0A]"
    using window_position_SomeD(2) [OF crlf] unfolding four .
  then have "take 4 (drop j (buffer @ ch)) ! 2 = 0x0D" by simp
  moreover have "j + 4 \<le> length (buffer @ ch)"
    using window_position_SomeD(1) [OF crlf] by simp
  moreover have "take 4 (drop j xs) ! 2 = xs ! (j + 2)" if "j + 4 \<le> length xs" for xs :: "u8 list"
    using that by simp
  ultimately have "(buffer @ ch) ! (j + 2) = 0x0D" by metis
  moreover have "buffer ! Suc i = 0x0A" using i(2) by (simp add: take_pair_eq)
  ultimately show False using i(1) j by (simp add: nth_append)
qed

lemma sse_boundary_append:
  assumes "sse_boundary buffer = Some bn"
  shows "sse_boundary (buffer @ ch) = Some bn"
proof (cases "window_position [0x0A, 0x0A] buffer")
  case None
  with assms obtain b where b: "window_position [0x0D, 0x0A, 0x0D, 0x0A] buffer = Some b"
      "bn = (b, 4)"
    by (auto simp: sse_boundary_def Let_def split: option.splits)
  have "b + 4 \<le> length buffer" using window_position_SomeD(1) [OF b(1)] by simp
  moreover have "length buffer < j + 2" if "window_position [0x0A, 0x0A] (buffer @ ch) = Some j" for j
    using window_position_new [OF None that] by simp
  ultimately show ?thesis
    using b window_position_append [OF b(1), of ch]
    by (fastforce simp: sse_boundary_def Let_def split: option.splits)
next
  case (Some i)
  note lf = window_position_append [OF Some, of ch]
  show ?thesis
  proof (cases "window_position [0x0D, 0x0A, 0x0D, 0x0A] buffer")
    case None
    then have "i \<le> j" if "window_position [0x0D, 0x0A, 0x0D, 0x0A] (buffer @ ch) = Some j" for j
      using crlf_after_lf [OF Some that] window_position_new [OF None that] by simp
    with None Some lf assms show ?thesis
      by (auto simp: sse_boundary_def Let_def split: option.splits)
  next
    case (Some j)
    with assms lf \<open>window_position [0x0A, 0x0A] buffer = Some i\<close> window_position_append [OF Some, of ch]
    show ?thesis by (simp add: sse_boundary_def Let_def)
  qed
qed

lemma process_buffer_append:
  "process_buffer decode cursor (buffer @ ch) =
     (case process_buffer decode cursor buffer of
        (ys, c, r, flow) \<Rightarrow>
          if flow = Go
          then (case process_buffer decode c (r @ ch) of (zs, c', r', f) \<Rightarrow> (ys @ zs, c', r', f))
          else (ys, c, r @ ch, flow))"
proof (induction decode cursor buffer rule: process_buffer.induct)
  case (1 decode cursor buffer)
  show ?case
  proof (cases "sse_boundary buffer")
    case None
    then show ?thesis
      by (simp add: process_buffer.simps [of decode cursor buffer] split: prod.splits)
  next
    case (Some bn)
    obtain b n where bn: "bn = (b, n)" by (cases bn)
    have len: "b + n \<le> length buffer" using sse_boundary_SomeD Some bn by blast
    have ext: "sse_boundary (buffer @ ch) = Some (b, n)"
      using sse_boundary_append Some bn by blast
    show ?thesis
    proof (cases "parse_sse_block (take b buffer)")
      case (Inl e)
      then show ?thesis
        using Some bn ext len
        by (simp add: process_buffer.simps [of decode cursor buffer]
            process_buffer.simps [of decode cursor "buffer @ ch"])
    next
      case (Inr event)
      obtain ys c flow where h: "handle_event decode cursor event = (ys, c, flow)"
        by (cases "handle_event decode cursor event")
      show ?thesis
      proof (cases "flow = Go")
        case False
        then show ?thesis
          using Some bn ext len Inr h
          by (simp add: process_buffer.simps [of decode cursor buffer]
              process_buffer.simps [of decode cursor "buffer @ ch"])
      next
        case True
        note IH = 1 [OF Some bn [symmetric] refl Inr h [symmetric] refl True]
        show ?thesis
          using Some bn ext len Inr h True IH
          by (simp add: process_buffer.simps [of decode cursor buffer]
              process_buffer.simps [of decode cursor "buffer @ ch"] split: prod.splits)
      qed
    qed
  qed
qed

lemma process_buffer_cases:
  assumes "process_buffer decode cursor buffer = (ys, c, r, flow)"
  obtains (none) "sse_boundary buffer = None" "ys = []" "c = cursor" "r = buffer" "flow = Go"
  | (bad) b n e where "sse_boundary buffer = Some (b, n)" "ys = []" "c = cursor"
      "r = drop (b + n) buffer" "flow = Fail e"
  | (stop) b n event where "sse_boundary buffer = Some (b, n)" "parse_sse_block (take b buffer) = Ok event"
      "handle_event decode cursor event = (ys, c, flow)" "flow \<noteq> Go" "r = drop (b + n) buffer"
  | (more) b n event zs k us where "sse_boundary buffer = Some (b, n)"
      "parse_sse_block (take b buffer) = Ok event" "handle_event decode cursor event = (zs, k, Go)"
      "process_buffer decode k (drop (b + n) buffer) = (us, c, r, flow)" "ys = zs @ us"
      "length (drop (b + n) buffer) < length buffer"
proof (cases "sse_boundary buffer")
  case None
  with assms have "ys = [] \<and> c = cursor \<and> r = buffer \<and> flow = Go"
    by (simp add: process_buffer.simps [of decode cursor buffer])
  with none None show ?thesis by blast
next
  case (Some bn)
  obtain b n where bn: "bn = (b, n)" by (cases bn)
  show ?thesis
  proof (cases "parse_sse_block (take b buffer)")
    case (Inl e)
    with assms Some bn have "ys = [] \<and> c = cursor \<and> r = drop (b + n) buffer \<and> flow = Fail e"
      by (simp add: process_buffer.simps [of decode cursor buffer])
    with bad Some bn show ?thesis by blast
  next
    case (Inr event)
    obtain zs k g where h: "handle_event decode cursor event = (zs, k, g)"
      by (cases "handle_event decode cursor event")
    show ?thesis
    proof (cases "g = Go")
      case True
      obtain us where "process_buffer decode k (drop (b + n) buffer) = (us, c, r, flow)" "ys = zs @ us"
        using assms Some bn Inr h True
        by (auto simp: process_buffer.simps [of decode cursor buffer] split: prod.splits)
      moreover have "length (drop (b + n) buffer) < length buffer"
        using sse_boundary_SomeD [of buffer b n] Some bn by auto
      ultimately show ?thesis using more Some bn Inr h True by blast
    next
      case False
      with assms Some bn Inr h have "zs = ys \<and> k = c \<and> g = flow \<and> r = drop (b + n) buffer"
        by (simp add: process_buffer.simps [of decode cursor buffer])
      with stop Some bn Inr h False show ?thesis by blast
    qed
  qed
qed

lemma process_buffer_rest:
  "process_buffer decode cursor buffer = (ys, c, r, Go) \<Longrightarrow> sse_boundary r = None"
proof (induction "length buffer" arbitrary: cursor buffer ys rule: less_induct)
  case less
  from less.prems show ?case
  proof (cases rule: process_buffer_cases)
    case (more b n event zs k us)
    show ?thesis by (rule less.hyps [OF more(6,4)])
  qed simp_all
qed

lemma process_buffer_shrinks:
  "process_buffer decode cursor buffer = (ys, c, r, f) \<Longrightarrow> length r \<le> length buffer"
proof (induction "length buffer" arbitrary: cursor buffer ys rule: less_induct)
  case less
  from less.prems show ?case
  proof (cases rule: process_buffer_cases)
    case (more b n event zs k us)
    with less.hyps [OF more(6,4)] show ?thesis by simp
  qed simp_all
qed

lemma process_buffer_incomplete:
  "sse_boundary buffer = None \<Longrightarrow> process_buffer decode cursor buffer = ([], cursor, buffer, Go)"
  by (simp add: process_buffer.simps)

lemma read_events_eq_process:
  assumes "length buffer + length (concat chunks) \<le> MAX_SSE_EVENT_BYTES" "sse_boundary buffer = None"
  shows "read_events decode cursor buffer (map Some chunks) =
     (case process_buffer decode cursor (buffer @ concat chunks) of (ys, c, r, f) \<Rightarrow> (ys, c, f))"
  using assms
proof (induction chunks arbitrary: buffer cursor)
  case Nil
  then show ?case by (simp add: process_buffer_incomplete)
next
  case (Cons ch chunks)
  obtain ys c r f where p: "process_buffer decode cursor (buffer @ ch) = (ys, c, r, f)"
    by (cases "process_buffer decode cursor (buffer @ ch)")
  have "length r \<le> length (buffer @ ch)"
    using process_buffer_shrinks [OF p] .
  show ?case
  proof (cases "f = Go")
    case True
    then have "sse_boundary r = None" using p process_buffer_rest by blast
    with True p Cons \<open>length r \<le> length (buffer @ ch)\<close>
    have "read_events decode c r (map Some chunks) =
        (case process_buffer decode c (r @ concat chunks) of (ys, c, r, f) \<Rightarrow> (ys, c, f))"
      by simp
    with True p Cons.prems(1) show ?thesis
      using process_buffer_append [of decode cursor "buffer @ ch" "concat chunks"]
      by (simp split: prod.splits)
  next
    case False
    with p Cons.prems(1) show ?thesis
      using process_buffer_append [of decode cursor "buffer @ ch" "concat chunks"] by simp
  qed
qed

subsection \<open>What a server sends\<close>

text \<open>
  A stream as the server means it: messages, comments (keep-alives), and the two requests. Each
  frame is its lines, each ended by a line feed, and an empty line; \<open>json\<close> prints a message.
\<close>

datatype 'j frame = FMessage "'j message_record" | FComment rstr | FResync | FAuthorization

fun frame_lines :: "('j message_record \<Rightarrow> rstr) \<Rightarrow> 'j frame \<Rightarrow> rstr list" where
  "frame_lines json (FMessage m) = [lit ''event: message'', lit ''data: '' @ json m]"
| "frame_lines json (FComment t) = [0x3A # t]"
| "frame_lines json FResync = [lit ''event: resync_required'']"
| "frame_lines json FAuthorization = [lit ''event: authorization_required'']"

definition frame_block :: "('j message_record \<Rightarrow> rstr) \<Rightarrow> 'j frame \<Rightarrow> u8 list" where
  "frame_block json f = utf8 (join_with [0x0A] (frame_lines json f))"

definition frame_bytes :: "('j message_record \<Rightarrow> rstr) \<Rightarrow> 'j frame \<Rightarrow> u8 list" where
  "frame_bytes json f = frame_block json f @ [0x0A, 0x0A]"

definition one_line :: "rstr \<Rightarrow> bool" where
  "one_line t \<longleftrightarrow> wf_str t \<and> 0x0A \<notin> set t \<and> 0x0D \<notin> set t"

fun frame_ok :: "'j decoder \<Rightarrow> ('j message_record \<Rightarrow> rstr) \<Rightarrow> 'j frame \<Rightarrow> bool" where
  "frame_ok decode json (FMessage m) \<longleftrightarrow> one_line (json m) \<and> decode (json m) = Some m"
| "frame_ok decode json (FComment t) \<longleftrightarrow> one_line t"
| "frame_ok decode json _ \<longleftrightarrow> True"

text \<open>What a client owes to the frames, without bytes.\<close>

fun interpret_frames :: "i64 \<Rightarrow> 'j frame list \<Rightarrow> 'j message_record list \<times> i64 \<times> flow" where
  "interpret_frames cursor [] = ([], cursor, Go)"
| "interpret_frames cursor (FMessage m # fs) =
     (if sint cursor < sint (mr_sequence m)
      then (case interpret_frames (mr_sequence m) fs of (ys, c, f) \<Rightarrow> (m # ys, c, f))
      else interpret_frames cursor fs)"
| "interpret_frames cursor (FComment _ # fs) = interpret_frames cursor fs"
| "interpret_frames cursor (FResync # _) = ([], cursor, Resync)"
| "interpret_frames cursor (FAuthorization # _) = ([], cursor, Fail AuthorizationRequired)"

lemma boundary_block:
  assumes cr: "0x0D \<notin> set B"
    and lflf: "\<And>j. Suc j < length B \<Longrightarrow> B ! j = 0x0A \<Longrightarrow> B ! Suc j \<noteq> 0x0A"
    and last: "B \<noteq> [] \<Longrightarrow> last B \<noteq> 0x0A"
  shows "sse_boundary (B @ 0x0A # 0x0A # rest) = Some (length B, 2)"
proof -
  let ?w = "B @ 0x0A # 0x0A # rest"
  have pair: "length [0x0A, 0x0A :: u8] = 2" by simp
  have miss: "take 2 (drop j ?w) \<noteq> [0x0A, 0x0A]" if j: "j < length B" for j
  proof (cases "Suc j < length B")
    case True
    then show ?thesis using lflf [OF True] by (auto simp: take_pair_eq nth_append)
  next
    case False
    with j have "j = length B - 1" "B \<noteq> []" by auto
    then have "?w ! j \<noteq> 0x0A" using last j by (simp add: nth_append last_conv_nth)
    then show ?thesis unfolding take_pair_eq by blast
  qed
  have "take 2 (drop (length B) ?w) = [0x0A, 0x0A]" by simp
  then have lf: "window_position [0x0A, 0x0A] ?w = Some (length B)"
    using miss unfolding window_position_eq_Some pair by simp
  have "length B \<le> j" if hit: "window_position [0x0D, 0x0A, 0x0D, 0x0A] ?w = Some j" for j
  proof (rule ccontr)
    assume "\<not> length B \<le> j"
    moreover have "take (length [0x0D, 0x0A, 0x0D, 0x0A :: u8]) (drop j ?w) = [0x0D, 0x0A, 0x0D, 0x0A]"
      using window_position_SomeD(2) [OF hit] .
    ultimately have "B ! j = 0x0D"
      by (cases "drop j B") (auto simp: nth_via_drop)
    with \<open>\<not> length B \<le> j\<close> cr show False by (metis not_le nth_mem)
  qed
  with lf show ?thesis by (auto simp: sse_boundary_def Let_def split: option.splits)
qed

lemma no_byte_of_line: "one_line t \<Longrightarrow> 0x0A \<notin> set (utf8 t) \<and> 0x0D \<notin> set (utf8 t)"
  using ascii_byte_utf8 [of t "0x0A"] ascii_byte_utf8 [of t "0x0D"] by (simp add: one_line_def)

lemma one_line_append [simp]: "one_line (s @ t) \<longleftrightarrow> one_line s \<and> one_line t"
  by (auto simp: one_line_def)

lemma one_line_lits [simp]:
  "one_line (lit ''event: message'')" "one_line (lit ''data: '')"
  "one_line (lit ''event: resync_required'')" "one_line (lit ''event: authorization_required'')"
  by (simp_all add: one_line_def wf_str_def is_scalar_def)

lemma frame_lines_one_line:
  "frame_ok decode json f \<Longrightarrow> l \<in> set (frame_lines json f) \<Longrightarrow> one_line l \<and> l \<noteq> []"
  by (cases f) (auto simp: one_line_def wf_str_def is_scalar_def)

lemma frame_block_bytes:
  assumes "frame_ok decode json f"
  obtains "frame_block json f = utf8 (hd (frame_lines json f))"
      "frame_lines json f = [hd (frame_lines json f)]"
  | a b where "frame_lines json f = [a, b]" "frame_block json f = utf8 a @ 0x0A # utf8 b"
  by (cases f) (auto simp: frame_block_def utf8_Cons utf8_char_def utf8_units_def)

lemma sse_boundary_frame:
  assumes ok: "frame_ok decode json f"
  shows "sse_boundary (frame_bytes json f @ rest) = Some (length (frame_block json f), 2)"
proof -
  have line: "0x0A \<notin> set (utf8 l) \<and> 0x0D \<notin> set (utf8 l) \<and> utf8 l \<noteq> []"
    if "l \<in> set (frame_lines json f)" for l
    using frame_lines_one_line [OF ok that] no_byte_of_line [of l]
    by (cases l) (auto simp: utf8_Cons)
  from ok show ?thesis
  proof (cases rule: frame_block_bytes)
    case 1
    then have "hd (frame_lines json f) \<in> set (frame_lines json f)"
      by (metis list.set_intros(1))
    from line [OF this] 1 show ?thesis
      unfolding frame_bytes_def append_assoc append.simps
      by (intro boundary_block) (auto dest: last_in_set nth_mem)
  next
    case (2 a b)
    then have a: "0x0A \<notin> set (utf8 a)" "0x0D \<notin> set (utf8 a)"
      and b: "0x0A \<notin> set (utf8 b)" "0x0D \<notin> set (utf8 b)" "utf8 b \<noteq> []"
      using line [of a] line [of b] by simp_all
    have "(utf8 a @ 0x0A # utf8 b) ! Suc j \<noteq> 0x0A"
      if j: "Suc j < length (utf8 a @ 0x0A # utf8 b)" "(utf8 a @ 0x0A # utf8 b) ! j = 0x0A" for j
    proof -
      have "\<not> j < length (utf8 a)" using j(2) a(1) by (metis nth_append nth_mem)
      then have "(utf8 a @ 0x0A # utf8 b) ! Suc j = utf8 b ! (j - length (utf8 a))"
        "j - length (utf8 a) < length (utf8 b)"
        using j(1) by (auto simp: nth_append)
      with b(1) show ?thesis by (metis nth_mem)
    qed
    with a b 2 show ?thesis
      unfolding frame_bytes_def append_assoc append.simps
      by (intro boundary_block) (auto dest: last_in_set)
  qed
qed

fun frame_event :: "('j message_record \<Rightarrow> rstr) \<Rightarrow> 'j frame \<Rightarrow> parsed_sse_event" where
  "frame_event json (FMessage m) = \<lparr>ev_kind = Some (lit ''message''), ev_data = Some (json m)\<rparr>"
| "frame_event json (FComment t) = \<lparr>ev_kind = None, ev_data = None\<rparr>"
| "frame_event json FResync = \<lparr>ev_kind = Some (lit ''resync_required''), ev_data = None\<rparr>"
| "frame_event json FAuthorization =
     \<lparr>ev_kind = Some (lit ''authorization_required''), ev_data = None\<rparr>"

lemma sse_lines_of_frame:
  "foldl sse_line \<lparr>ev_kind = None, ev_data = None\<rparr> (frame_lines json f) = frame_event json f"
  by (cases f) (simp_all add: sse_line_def strip_prefix_def starts_with_def)

lemma str_lines_frame:
  assumes ok: "frame_ok decode json f"
  shows "str_lines (join_with [0x0A] (frame_lines json f)) = frame_lines json f"
proof -
  have line: "0x0A \<notin> set l \<and> strip_cr l = l \<and> l \<noteq> []" if "l \<in> set (frame_lines json f)" for l
    using frame_lines_one_line [OF ok that] last_in_set [of l]
    unfolding one_line_def strip_cr_def by metis
  from ok show ?thesis
  proof (cases rule: frame_block_bytes)
    case 1
    then obtain l where "frame_lines json f = [l]" by blast
    with line show ?thesis by (simp add: str_lines_no_lf)
  next
    case (2 a b)
    with line show ?thesis by (simp add: str_lines_append_lf str_lines_no_lf)
  qed
qed

lemma wf_str_frame: "frame_ok decode json f \<Longrightarrow> wf_str (join_with [0x0A] (frame_lines json f))"
  by (cases f) (auto simp: one_line_def wf_str_def is_scalar_def)

lemma parse_frame:
  "frame_ok decode json f \<Longrightarrow> parse_sse_block (frame_block json f) = Ok (frame_event json f)"
  by (simp add: parse_sse_block_def frame_block_def from_utf8_utf8 wf_str_frame str_lines_frame
      sse_lines_of_frame)

subsection \<open>Connections\<close>

lemma handle_frame:
  "frame_ok decode json f \<Longrightarrow> handle_event decode cursor (frame_event json f) = interpret_frames cursor [f]"
  by (cases f) (simp_all add: handle_event_def)

lemma interpret_frames_Cons:
  "interpret_frames cursor (f # fs) =
     (case interpret_frames cursor [f] of
        (ys, c, flow) \<Rightarrow>
          if flow = Go
          then (case interpret_frames c fs of (zs, c', g) \<Rightarrow> (ys @ zs, c', g))
          else (ys, c, flow))"
  by (cases f) (auto split: prod.splits)

lemma interpret_frames_append:
  "interpret_frames cursor (fs @ gs) =
     (case interpret_frames cursor fs of
        (ys, c, flow) \<Rightarrow>
          if flow = Go
          then (case interpret_frames c gs of (zs, c', g) \<Rightarrow> (ys @ zs, c', g))
          else (ys, c, flow))"
  by (induction cursor fs rule: interpret_frames.induct) (auto split: prod.splits)

lemma process_buffer_frame:
  assumes "frame_ok decode json f"
  shows "process_buffer decode cursor (frame_bytes json f @ rest) =
     (case interpret_frames cursor [f] of
        (ys, c, flow) \<Rightarrow>
          if flow = Go
          then (case process_buffer decode c rest of (zs, c', r, g) \<Rightarrow> (ys @ zs, c', r, g))
          else (ys, c, rest, flow))"
  using sse_boundary_frame [OF assms, of rest] parse_frame [OF assms] handle_frame [OF assms, of cursor]
  by (subst process_buffer.simps) (simp add: frame_bytes_def)

definition frames_bytes :: "('j message_record \<Rightarrow> rstr) \<Rightarrow> 'j frame list \<Rightarrow> u8 list" where
  "frames_bytes json fs = concat (map (frame_bytes json) fs)"

lemma frames_bytes_simps [simp]:
  "frames_bytes json [] = []"
  "frames_bytes json (f # fs) = frame_bytes json f @ frames_bytes json fs"
  "frames_bytes json (fs @ gs) = frames_bytes json fs @ frames_bytes json gs"
  by (simp_all add: frames_bytes_def)

lemma prefix_of_append:
  "xs @ ys = us @ vs \<Longrightarrow> length us \<le> length xs \<Longrightarrow> \<exists>t. xs = us @ t"
  by (auto simp: append_eq_append_conv2)

text \<open>
  A prefix of a stream of frames: either all its bytes belong to whole frames and a piece of the
  next one, or a frame that ends the connection has been met.
\<close>

lemma process_prefix:
  assumes "list_all (frame_ok decode json) fs" "buffer @ rest = frames_bytes json fs"
    and "process_buffer decode cursor buffer = (ys, c, r, flow)"
  shows "if flow = Go
     then \<exists>gs hs. fs = gs @ hs \<and> interpret_frames cursor gs = (ys, c, Go) \<and> r @ rest = frames_bytes json hs
     else interpret_frames cursor fs = (ys, c, flow)"
  using assms
proof (induction fs arbitrary: buffer cursor ys)
  case Nil
  have "sse_boundary [] = None"
    using sse_boundary_SomeD [of "[]"] by (cases "sse_boundary []") fastforce+
  with Nil show ?case by (simp add: process_buffer_incomplete)
next
  case (Cons f fs)
  show ?case
  proof (cases "sse_boundary buffer")
    case None
    with Cons.prems have "ys = []" "c = cursor" "r = buffer" "flow = Go"
      by (simp_all add: process_buffer_incomplete)
    with Cons.prems(2) show ?thesis
      by (simp add: exI [of _ "[]"])
  next
    case (Some bn)
    obtain b n where bn: "bn = (b, n)" by (cases bn)
    have ok: "frame_ok decode json f" using Cons.prems(1) by simp
    have "sse_boundary (buffer @ rest) = Some (b, n)" using sse_boundary_append Some bn by blast
    with sse_boundary_frame [OF ok] Cons.prems(2) have "b + n = length (frame_bytes json f)"
      by (simp add: frame_bytes_def)
    moreover have "b + n \<le> length buffer" using sse_boundary_SomeD Some bn by blast
    ultimately have "length (frame_bytes json f) \<le> length buffer" by simp
    then obtain tail where tail: "buffer = frame_bytes json f @ tail"
      using Cons.prems(2) prefix_of_append by (metis frames_bytes_simps(2))
    then have rest: "tail @ rest = frames_bytes json fs" using Cons.prems(2) by simp
    obtain zs k g where i: "interpret_frames cursor [f] = (zs, k, g)"
      by (cases "interpret_frames cursor [f]")
    show ?thesis
    proof (cases "g = Go")
      case False
      with Cons.prems(3) i process_buffer_frame [OF ok, of cursor tail] tail show ?thesis
        by (simp add: interpret_frames_Cons [of cursor f fs])
    next
      case True
      obtain us where us: "process_buffer decode k tail = (us, c, r, flow)" "ys = zs @ us"
        using Cons.prems(3) i process_buffer_frame [OF ok, of cursor tail] tail True
        by (auto split: prod.splits)
      from Cons.prems(1) have "list_all (frame_ok decode json) fs" by simp
      note IH = Cons.IH [OF this rest us(1)]
      show ?thesis
      proof (cases "flow = Go")
        case False
        with IH True i us(2) show ?thesis by (simp add: interpret_frames_Cons [of cursor f fs])
      next
        case go: True
        with IH obtain gs hs where gs: "fs = gs @ hs" "interpret_frames k gs = (us, c, Go)"
            "r @ rest = frames_bytes json hs" by auto
        then have "interpret_frames cursor (f # gs) = (ys, c, Go)"
          using True i us(2) by (simp add: interpret_frames_Cons [of cursor f gs])
        with go gs show ?thesis by (metis append_Cons)
      qed
    qed
  qed
qed

text \<open>
  The same for a whole connection: what was delivered is what the frames received so far ask
  for, with no bound on the length of the stream.
\<close>

lemma read_events_prefix:
  assumes "list_all (frame_ok decode json) fs"
    and "buffer @ concat (map the (takeWhile (\<lambda>c. c \<noteq> None) chunks)) @ rest = frames_bytes json fs"
    and "read_events decode cursor buffer chunks = (ys, c, flow)"
    and "sse_boundary buffer = None"
  shows "(\<exists>gs hs. fs = gs @ hs \<and> interpret_frames cursor gs = (ys, c, Go))
     \<or> interpret_frames cursor fs = (ys, c, flow)"
  using assms
proof (induction chunks arbitrary: buffer cursor fs ys)
  case Nil
  then show ?case by (auto intro: exI [of _ "[]"])
next
  case (Cons ch chunks)
  have stop: ?case if "ys = []" "c = cursor"
    using that by (auto intro: exI [of _ "[]"])
  show ?case
  proof (cases ch)
    case None
    with Cons.prems(3) show ?thesis by (intro stop) simp_all
  next
    case (Some bytes)
    show ?thesis
    proof (cases "MAX_SSE_EVENT_BYTES < length buffer + length bytes")
      case True
      with Cons.prems(3) Some show ?thesis by (intro stop) simp_all
    next
      case False
      obtain zs k r g where p: "process_buffer decode cursor (buffer @ bytes) = (zs, k, r, g)"
        by (cases "process_buffer decode cursor (buffer @ bytes)")
      let ?later = "concat (map the (takeWhile (\<lambda>c. c \<noteq> None) chunks)) @ rest"
      have whole: "(buffer @ bytes) @ ?later = frames_bytes json fs"
        using Cons.prems(2) Some by simp
      note prefix = process_prefix [OF Cons.prems(1) whole p]
      show ?thesis
      proof (cases "g = Go")
        case False
        with prefix p Some Cons.prems(3) \<open>\<not> MAX_SSE_EVENT_BYTES < _\<close> show ?thesis by simp
      next
        case True
        with prefix obtain gs hs where gs: "fs = gs @ hs" "interpret_frames cursor gs = (zs, k, Go)"
            "r @ ?later = frames_bytes json hs" by auto
        obtain us where us: "read_events decode k r chunks = (us, c, flow)" "ys = zs @ us"
          using Cons.prems(3) Some False p True by (auto split: prod.splits)
        have "sse_boundary r = None" using p True process_buffer_rest by blast
        moreover have "list_all (frame_ok decode json) hs" using Cons.prems(1) gs(1) by simp
        ultimately have "(\<exists>gs' hs'. hs = gs' @ hs' \<and> interpret_frames k gs' = (us, c, Go))
            \<or> interpret_frames k hs = (us, c, flow)"
          using Cons.IH [OF _ gs(3) us(1)] by blast
        then show ?thesis
        proof
          assume "\<exists>gs' hs'. hs = gs' @ hs' \<and> interpret_frames k gs' = (us, c, Go)"
          then obtain gs' hs' where "hs = gs' @ hs'" "interpret_frames k gs' = (us, c, Go)" by blast
          with gs us(2) have "fs = (gs @ gs') @ hs'" "interpret_frames cursor (gs @ gs') = (ys, c, Go)"
            by (simp_all add: interpret_frames_append)
          then show ?thesis by blast
        next
          assume "interpret_frames k hs = (us, c, flow)"
          with gs us(2) show ?thesis by (simp add: interpret_frames_append)
        qed
      qed
    qed
  qed
qed

text \<open>Bounded frames and chunks never exceed the buffer, and everything is read.\<close>

lemma read_events_complete:
  assumes "list_all (frame_ok decode json) fs"
    and "buffer @ concat chunks = frames_bytes json fs" "sse_boundary buffer = None"
    and "list_all (\<lambda>f. length (frame_bytes json f) \<le> L) fs"
    and "list_all (\<lambda>ch. length ch + L \<le> MAX_SSE_EVENT_BYTES) chunks"
  shows "read_events decode cursor buffer (map Some chunks) = interpret_frames cursor fs"
  using assms
proof (induction chunks arbitrary: buffer cursor fs)
  case Nil
  have "fs = []"
  proof (rule ccontr)
    assume "fs \<noteq> []"
    then obtain f fs' where "fs = f # fs'" by (cases fs) auto
    with Nil sse_boundary_frame [of decode json f "frames_bytes json fs'"] show False by simp
  qed
  then show ?case by simp
next
  case (Cons ch chunks)
  have short: "length buffer \<le> L"
  proof (cases fs)
    case Nil
    with Cons.prems(2) show ?thesis by simp
  next
    case (Cons f fs')
    have "length buffer < length (frame_bytes json f)"
    proof (rule ccontr)
      assume "\<not> length buffer < length (frame_bytes json f)"
      then obtain tail where "buffer = frame_bytes json f @ tail"
        using Cons.prems(2) prefix_of_append [of buffer "concat (ch # chunks)"] Cons
        by (metis frames_bytes_simps(2) not_less)
      with sse_boundary_frame [of decode json f tail] Cons.prems(1,3) Cons show False by simp
    qed
    with Cons Cons.prems(4) show ?thesis by simp
  qed
  obtain zs k r g where p: "process_buffer decode cursor (buffer @ ch) = (zs, k, r, g)"
    by (cases "process_buffer decode cursor (buffer @ ch)")
  have fits: "\<not> MAX_SSE_EVENT_BYTES < length buffer + length ch" using short Cons.prems(5) by simp
  have "(buffer @ ch) @ concat chunks = frames_bytes json fs" using Cons.prems(2) by simp
  note prefix = process_prefix [OF Cons.prems(1) this p]
  show ?case
  proof (cases "g = Go")
    case False
    with prefix p fits show ?thesis by simp
  next
    case True
    with prefix obtain gs hs where gs: "fs = gs @ hs" "interpret_frames cursor gs = (zs, k, Go)"
        "r @ concat chunks = frames_bytes json hs" by auto
    have "sse_boundary r = None" using p True process_buffer_rest by blast
    then have "read_events decode k r (map Some chunks) = interpret_frames k hs"
      using Cons.IH [OF _ gs(3)] Cons.prems(1,4,5) gs(1) by simp
    with gs p True fits show ?thesis by (simp add: interpret_frames_append split: prod.splits)
  qed
qed

subsection \<open>What has been delivered\<close>

text \<open>Sequences that grow strictly from one cursor to another.\<close>

fun ascending :: "i64 \<Rightarrow> 'j message_record list \<Rightarrow> i64 \<Rightarrow> bool" where
  "ascending c [] d \<longleftrightarrow> c = d"
| "ascending c (m # ms) d \<longleftrightarrow> sint c < sint (mr_sequence m) \<and> ascending (mr_sequence m) ms d"

lemma ascending_append: "ascending c (xs @ ys) d \<longleftrightarrow> (\<exists>k. ascending c xs k \<and> ascending k ys d)"
  by (induction xs arbitrary: c) auto

lemma ascending_le: "ascending c ms d \<Longrightarrow> sint c \<le> sint d"
proof (induction ms arbitrary: c)
  case (Cons m ms)
  then have "sint (mr_sequence m) \<le> sint d" "sint c < sint (mr_sequence m)" by simp_all
  then show ?case by simp
qed simp

lemma ascending_last:
  "ascending c ms d \<Longrightarrow> d = (if ms = [] then c else mr_sequence (last ms))"
  by (induction ms arbitrary: c) auto

lemma ascending_sequences:
  "ascending c ms d \<Longrightarrow>
     sorted_wrt (<) (map (\<lambda>m. sint (mr_sequence m)) ms)
     \<and> (\<forall>m \<in> set ms. sint c < sint (mr_sequence m) \<and> sint (mr_sequence m) \<le> sint d)"
proof (induction ms arbitrary: c)
  case (Cons m ms)
  then have "sint (mr_sequence m) \<le> sint d" using ascending_le by fastforce
  with Cons.IH [of "mr_sequence m"] Cons.prems show ?case by auto
qed simp

lemma handle_event_ascending:
  "handle_event decode cursor event = (ys, c, flow) \<Longrightarrow> ascending cursor ys c"
  by (auto simp: handle_event_def split: if_splits option.splits)

lemma process_buffer_ascending:
  "process_buffer decode cursor buffer = (ys, c, r, flow) \<Longrightarrow> ascending cursor ys c"
proof (induction "length buffer" arbitrary: cursor buffer ys rule: less_induct)
  case less
  from less.prems show ?case
  proof (cases rule: process_buffer_cases)
    case (more b n event zs k us)
    with less.hyps [OF more(6,4)] handle_event_ascending [OF more(3)] show ?thesis
      by (auto simp: ascending_append)
  qed (simp_all add: handle_event_ascending)
qed

lemma read_events_ascending:
  "read_events decode cursor buffer chunks = (ys, c, flow) \<Longrightarrow> ascending cursor ys c"
proof (induction decode cursor buffer chunks arbitrary: ys rule: read_events.induct)
  case (3 decode cursor buffer chunk chunks)
  obtain zs k r g where p: "process_buffer decode cursor (buffer @ chunk) = (zs, k, r, g)"
    by (cases "process_buffer decode cursor (buffer @ chunk)")
  note up = process_buffer_ascending [OF p]
  show ?case
  proof (cases "\<not> MAX_SSE_EVENT_BYTES < length buffer + length chunk \<and> g = Go")
    case True
    then obtain us where us: "read_events decode k r chunks = (us, c, flow)" "ys = zs @ us"
      using 3(2) p by (auto split: prod.splits)
    have "ascending k us c" using 3(1) [OF _ p [symmetric] refl refl] us(1) True by simp
    with up us(2) show ?thesis by (auto simp: ascending_append)
  next
    case False
    with 3(2) p up show ?thesis by (auto split: if_splits)
  qed
qed auto

lemma take_page_ascending: "take_page cursor ms = (ys, c) \<Longrightarrow> ascending cursor ys c"
  by (induction cursor ms arbitrary: ys rule: take_page.induct) (auto split: if_splits prod.splits)

lemma resync_pages_cases:
  assumes "resync_pages fetch n cursor = (ys, c, n', e)"
  obtains (fail) x where "fetch n cursor = Err x" "ys = []" "c = cursor" "n' = Suc n" "e = Some (Client x)"
  | (stop) page where "fetch n cursor = Ok page" "take_page cursor (pg_items page) = (ys, c)" "n' = Suc n"
      "if pg_next_cursor page = None then e = None
       else (sint c \<le> sint cursor \<or> pg_next_cursor page \<noteq> Some c) \<and> e = Some IncoherentPagination"
  | (more) page zs k us where "fetch n cursor = Ok page" "take_page cursor (pg_items page) = (zs, k)"
      "pg_next_cursor page = Some k" "resync_pages fetch (Suc n) k = (us, c, n', e)" "ys = zs @ us"
      "nat (2 ^ 63 - sint k) < nat (2 ^ 63 - sint cursor)" "sint cursor < sint k"
proof (cases "fetch n cursor")
  case (Inl x)
  with assms have "ys = [] \<and> c = cursor \<and> n' = Suc n \<and> e = Some (Client x)"
    by (simp add: resync_pages.simps [of fetch n cursor])
  with fail Inl show ?thesis by blast
next
  case (Inr page)
  obtain zs k where t: "take_page cursor (pg_items page) = (zs, k)"
    by (cases "take_page cursor (pg_items page)")
  show ?thesis
  proof (cases "pg_next_cursor page = Some k \<and> sint cursor < sint k")
    case True
    then obtain us where "resync_pages fetch (Suc n) k = (us, c, n', e)" "ys = zs @ us"
      using assms Inr t by (auto simp: resync_pages.simps [of fetch n cursor] split: prod.splits)
    moreover have "nat (2 ^ 63 - sint k) < nat (2 ^ 63 - sint cursor)"
      using True sint_lt [of k] by simp
    ultimately show ?thesis using more Inr t True by blast
  next
    case False
    then have "zs = ys \<and> k = c \<and> n' = Suc n \<and> (if pg_next_cursor page = None then e = None
       else (sint c \<le> sint cursor \<or> pg_next_cursor page \<noteq> Some c) \<and> e = Some IncoherentPagination)"
      using assms Inr t
      by (cases "pg_next_cursor page") (auto simp: resync_pages.simps [of fetch n cursor] split: if_splits)
    with stop Inr t show ?thesis by blast
  qed
qed

lemma resync_pages_ascending:
  "resync_pages fetch n cursor = (ys, c, n', e) \<Longrightarrow>
   ascending cursor ys c \<and> n < n' \<and> n' \<le> n + length ys + 1"
proof (induction "nat (2 ^ 63 - sint cursor)" arbitrary: n cursor ys rule: less_induct)
  case less
  from less.prems show ?case
  proof (cases rule: resync_pages_cases)
    case (stop page)
    then show ?thesis using take_page_ascending by simp
  next
    case (more page zs k us)
    have up: "ascending cursor zs k" using more(2) by (rule take_page_ascending)
    moreover have "zs \<noteq> []" using up more(7) by auto
    ultimately show ?thesis using less.hyps [OF more(6,4)] more(5)
      by (cases zs) (auto simp: ascending_append)
  qed simp
qed

subsection \<open>The stream\<close>

text \<open>One attempt, split into what is read from the connection and what follows from it.\<close>

definition read_connection ::
  "'j decoder \<Rightarrow> rstr \<Rightarrow> 'j stream_state \<Rightarrow> connection
   \<Rightarrow> ('j message_record list \<times> i64 \<times> flow) option" where
  "read_connection decode cid s connection =
     (case connection of
        ConnectFailed \<Rightarrow> None
      | Connected status chunks \<Rightarrow>
          if es_error s = None \<and> is_ok (events_url cid (es_cursor s)) \<and> is_success status
          then Some (read_events decode (es_cursor s) [] chunks) else None)"

lemma success_not_refused: "is_success status \<Longrightarrow> status \<noteq> 401 \<and> status \<noteq> 403"
  by (auto simp: is_success_def)

lemma stream_step_quiet:
  assumes "read_connection decode cid s connection = None"
  shows "es_yielded (stream_step decode fetch cid s connection) = es_yielded s"
    and "es_cursor (stream_step decode fetch cid s connection) = es_cursor s"
    and "stream_step decode fetch cid s connection = back_off s
         \<or> (\<exists>e. stream_step decode fetch cid s connection = s\<lparr>es_error := e\<rparr>)"
proof -
  show quiet: "stream_step decode fetch cid s connection = back_off s
         \<or> (\<exists>e. stream_step decode fetch cid s connection = s\<lparr>es_error := e\<rparr>)"
  proof (cases "es_error s = None \<and> is_ok (events_url cid (es_cursor s))")
    case False
    then consider "es_error s \<noteq> None" | x where "es_error s = None" "events_url cid (es_cursor s) = Err x"
      by (cases "events_url cid (es_cursor s)") auto
    then show ?thesis
    proof cases
      case 1
      then have "stream_step decode fetch cid s connection = s\<lparr>es_error := es_error s\<rparr>"
        by (simp add: stream_step_def)
      then show ?thesis by blast
    next
      case (2 x)
      then have "stream_step decode fetch cid s connection = s\<lparr>es_error := Some (Client x)\<rparr>"
        by (simp add: stream_step_def)
      then show ?thesis by blast
    qed
  next
    case True
    then obtain u where url: "events_url cid (es_cursor s) = Ok u" by (auto simp: is_ok_iff)
    show ?thesis
    proof (cases connection)
      case ConnectFailed
      with True url show ?thesis by (simp add: stream_step_def)
    next
      case (Connected status chunks)
      with True assms have no: "\<not> is_success status" by (auto simp: read_connection_def)
      with True url Connected have "stream_step decode fetch cid s connection =
          (if status = 401 \<or> status = 403 then s\<lparr>es_error := Some AuthorizationRequired\<rparr>
           else if retryable status then back_off s else s\<lparr>es_error := Some (StreamHttp status)\<rparr>)"
        by (simp add: stream_step_def)
      then show ?thesis by (auto split: if_splits)
    qed
  qed
  show "es_yielded (stream_step decode fetch cid s connection) = es_yielded s"
    and "es_cursor (stream_step decode fetch cid s connection) = es_cursor s"
    using quiet by (auto simp: back_off_def)
qed

lemma stream_step_read:
  assumes "read_connection decode cid s connection = Some (ys, c, flow)"
    and "resync_pages fetch (es_pages s) c = (zs, c', n, e)"
  shows "stream_step decode fetch cid s connection =
     (let t = s\<lparr>es_cursor := c, es_yielded := es_yielded s @ ys\<rparr>
      in case flow of
           Fail x \<Rightarrow> t\<lparr>es_error := Some x\<rparr>
         | Go \<Rightarrow> back_off t
         | Resync \<Rightarrow>
             let u = s\<lparr>es_cursor := c', es_yielded := es_yielded s @ ys @ zs, es_pages := n\<rparr>
             in (case e of Some x \<Rightarrow> u\<lparr>es_error := Some x\<rparr> | None \<Rightarrow> u\<lparr>es_delay_ms := 250\<rparr>))"
proof -
  obtain status chunks where conn: "connection = Connected status chunks" "is_success status"
      "es_error s = None" "is_ok (events_url cid (es_cursor s))"
      "read_events decode (es_cursor s) [] chunks = (ys, c, flow)"
    using assms(1) by (cases connection) (auto simp: read_connection_def split: if_splits)
  from conn(4) obtain u where "events_url cid (es_cursor s) = Ok u" by (auto simp: is_ok_iff)
  with conn success_not_refused [OF conn(2)] assms(2) show ?thesis
    by (cases flow; cases e) (simp_all add: stream_step_def Let_def)
qed

text \<open>What holds of every state of the stream, whatever the network and the service do.\<close>

definition stream_inv :: "i64 \<Rightarrow> 'j stream_state \<Rightarrow> bool" where
  "stream_inv after s \<longleftrightarrow>
     ascending after (es_yielded s) (es_cursor s)
     \<and> 250 \<le> es_delay_ms s \<and> es_delay_ms s \<le> 30000
     \<and> list_all (\<lambda>d. 250 \<le> d \<and> d \<le> 30000) (es_slept s)"

lemma stream_start_inv: "stream_inv after (stream_start after)"
  by (simp add: stream_inv_def stream_start_def)

lemma back_off_delay:
  "250 \<le> d \<Longrightarrow> (d :: u64) \<le> 30000 \<Longrightarrow>
   250 \<le> min (saturating_mul d 2) 30000 \<and> min (saturating_mul d 2) 30000 \<le> 30000"
  by (simp add: word_le_nat_alt word_nat_simps)

lemma back_off_inv: "stream_inv after s \<Longrightarrow> stream_inv after (back_off s)"
  using back_off_delay [of "es_delay_ms s"] by (simp add: stream_inv_def back_off_def)

lemma stream_step_inv:
  assumes "stream_inv after s"
  shows "stream_inv after (stream_step decode fetch cid s connection)"
proof (cases "read_connection decode cid s connection")
  case None
  from stream_step_quiet(3) [OF None, of fetch] show ?thesis
    using assms back_off_inv [OF assms] by (auto simp: stream_inv_def)
next
  case (Some r)
  obtain ys c flow where r: "r = (ys, c, flow)" by (cases r)
  obtain zs c' n e where p: "resync_pages fetch (es_pages s) c = (zs, c', n, e)"
    by (cases "resync_pages fetch (es_pages s) c")
  have "ascending (es_cursor s) ys c"
    using Some r read_events_ascending
    by (fastforce simp: read_connection_def split: connection.splits if_splits)
  then have t: "stream_inv after (s\<lparr>es_cursor := c, es_yielded := es_yielded s @ ys\<rparr>)"
    using assms by (auto simp: stream_inv_def ascending_append)
  have "ascending c zs c'" using resync_pages_ascending [OF p] by simp
  with t have u: "stream_inv after
      (s\<lparr>es_cursor := c', es_yielded := es_yielded s @ ys @ zs, es_pages := n\<rparr>)"
    by (auto simp: stream_inv_def ascending_append)
  show ?thesis
    using stream_step_read [OF Some [unfolded r] p] t u back_off_inv [OF t]
    by (cases flow; cases e) (simp_all add: stream_inv_def)
qed

interpretation event_stream: stateful "stream_step decode fetch cid" "stream_inv after"
  by unfold_locales (rule stream_step_inv)

text \<open>(C15) Whatever the network delivers, however often the connection breaks and whatever the
  service answers to page requests, the messages yielded by \<open>events\<close> have strictly increasing
  sequences above the cursor the caller gave, so none is yielded twice or out of order; the
  cursor is the sequence of the last one; and every pause between two attempts lasts between a
  quarter of a second and thirty seconds.\<close>

theorem stream_order_and_backoff:
  "let s = follow decode fetch cid after connections
   in sorted_wrt (<) (map (\<lambda>m. sint (mr_sequence m)) (es_yielded s))
      \<and> list_all (\<lambda>m. sint after < sint (mr_sequence m)) (es_yielded s)
      \<and> es_cursor s = (if es_yielded s = [] then after else mr_sequence (last (es_yielded s)))
      \<and> list_all (\<lambda>d. 250 \<le> d \<and> d \<le> 30000) (es_slept s)"
proof -
  let ?s = "follow decode fetch cid after connections"
  have inv: "stream_inv after ?s"
    unfolding follow_def by (rule event_stream.run_inv) (rule stream_start_inv)
  then have up: "ascending after (es_yielded ?s) (es_cursor ?s)" by (simp add: stream_inv_def)
  have "list_all (\<lambda>m. sint after < sint (mr_sequence m)) (es_yielded ?s)"
    using ascending_sequences [OF up] by (simp add: list_all_iff)
  then show ?thesis
    using inv ascending_sequences [OF up] ascending_last [OF up]
    unfolding Let_def stream_inv_def by blast
qed

text \<open>The log of a conversation: its messages, in the order of their sequences.\<close>

definition log_ok :: "'j message_record list \<Rightarrow> bool" where
  "log_ok L \<longleftrightarrow> sorted_wrt (\<lambda>m n. sint (mr_sequence m) < sint (mr_sequence n)) L"

definition newer :: "i64 \<Rightarrow> 'j message_record list \<Rightarrow> 'j message_record list" where
  "newer c L = filter (\<lambda>m. sint c < sint (mr_sequence m)) L"

definition between :: "i64 \<Rightarrow> i64 \<Rightarrow> 'j message_record list \<Rightarrow> 'j message_record list" where
  "between c d L = filter (\<lambda>m. sint c < sint (mr_sequence m) \<and> sint (mr_sequence m) \<le> sint d) L"

definition delivers :: "'j message_record list \<Rightarrow> i64 \<Rightarrow> 'j message_record list \<Rightarrow> i64 \<Rightarrow> bool" where
  "delivers L c ys d \<longleftrightarrow> ys = between c d L \<and> ascending c ys d"

lemma delivers_none: "delivers L c [] c"
  by (simp add: delivers_def between_def filter_empty_conv)

lemma between_split:
  assumes "log_ok L" "sint c \<le> sint k" "sint k \<le> sint d"
  shows "between c d L = between c k L @ between k d L"
  using assms
proof (induction L)
  case Nil
  then show ?case by (simp add: between_def)
next
  case (Cons m L)
  then have IH: "between c d L = between c k L @ between k d L" by (simp add: log_ok_def)
  have later: "\<forall>n \<in> set L. sint (mr_sequence m) < sint (mr_sequence n)"
    using Cons.prems(1) by (simp add: log_ok_def)
  show ?case
  proof (cases "sint (mr_sequence m) \<le> sint k")
    case True
    with IH Cons.prems show ?thesis by (simp add: between_def)
  next
    case False
    with later have "between c k L = []" by (fastforce simp: between_def filter_empty_conv)
    with False IH Cons.prems show ?thesis by (simp add: between_def)
  qed
qed

lemma delivers_append:
  assumes "log_ok L" "delivers L c xs k" "delivers L k ys d"
  shows "delivers L c (xs @ ys) d"
proof -
  have "sint c \<le> sint k" "sint k \<le> sint d"
    using assms(2,3) ascending_le unfolding delivers_def by blast+
  from between_split [OF assms(1) this] have "between c d L = xs @ ys"
    using assms(2,3) by (simp add: delivers_def)
  with assms(2,3) show ?thesis by (auto simp: delivers_def ascending_append)
qed

text \<open>Any run of the next messages of the log is delivered without a gap.\<close>

lemma delivers_newer:
  assumes "log_ok L" "newer c L = ys @ rest" "ascending c ys d"
  shows "delivers L c ys d"
proof -
  have sorted: "log_ok (ys @ rest)"
    using assms(1) unfolding assms(2) [symmetric] newer_def log_ok_def by (rule sorted_wrt_filter)
  have "filter (\<lambda>m. sint (mr_sequence m) \<le> sint d) ys = ys"
    using ascending_sequences [OF assms(3)] by (simp add: filter_id_conv)
  moreover have "filter (\<lambda>m. sint (mr_sequence m) \<le> sint d) rest = []"
  proof (cases "ys = []")
    case True
    then have "d = c" using assms(3) by simp
    moreover have "set rest = set (newer c L)" using assms(2) True by simp
    then have "\<forall>m \<in> set rest. sint c < sint (mr_sequence m)" by (simp add: newer_def)
    ultimately show ?thesis by (fastforce simp: filter_empty_conv)
  next
    case False
    then have "d = mr_sequence (last ys)" "last ys \<in> set ys" using ascending_last [OF assms(3)] by simp_all
    with sorted show ?thesis by (fastforce simp: log_ok_def sorted_wrt_append filter_empty_conv)
  qed
  moreover have "between c d L = filter (\<lambda>m. sint (mr_sequence m) \<le> sint d) (newer c L)"
    by (simp add: between_def newer_def)
  ultimately show ?thesis using assms(2,3) by (simp add: delivers_def)
qed

text \<open>
  An honest service: on a connection it sends frames whose messages are a run of the messages
  after the cursor it was asked for (the bytes may break off anywhere), and a page is such a run
  too. It may fail, close and ask for resynchronisation at any time.
\<close>

fun frame_messages :: "'j frame list \<Rightarrow> 'j message_record list" where
  "frame_messages [] = []"
| "frame_messages (FMessage m # fs) = m # frame_messages fs"
| "frame_messages (_ # fs) = frame_messages fs"

definition is_run :: "'j message_record list \<Rightarrow> i64 \<Rightarrow> 'j message_record list \<Rightarrow> bool" where
  "is_run L c ms \<longleftrightarrow> (\<exists>rest. newer c L = ms @ rest)"

definition received :: "u8 list option list \<Rightarrow> u8 list" where
  "received chunks = concat (map the (takeWhile (\<lambda>c. c \<noteq> None) chunks))"

fun honest_connection ::
  "'j decoder \<Rightarrow> ('j message_record \<Rightarrow> rstr) \<Rightarrow> 'j message_record list \<Rightarrow> i64 \<Rightarrow> connection \<Rightarrow> bool" where
  "honest_connection decode json L c ConnectFailed \<longleftrightarrow> True"
| "honest_connection decode json L c (Connected status chunks) \<longleftrightarrow>
     (\<exists>fs rest. list_all (frame_ok decode json) fs \<and> is_run L c (frame_messages fs)
        \<and> received chunks @ rest = frames_bytes json fs)"

definition honest_fetch :: "'j message_record list \<Rightarrow> 'j fetch \<Rightarrow> bool" where
  "honest_fetch L fetch \<longleftrightarrow> (\<forall>n c page. fetch n c = Ok page \<longrightarrow> is_run L c (pg_items page))"

inductive honest_stream ::
  "'j decoder \<Rightarrow> ('j message_record \<Rightarrow> rstr) \<Rightarrow> 'j message_record list \<Rightarrow> 'j fetch \<Rightarrow> rstr \<Rightarrow> i64
   \<Rightarrow> 'j stream_state \<Rightarrow> bool"
  for decode json L fetch cid after where
  start: "honest_stream decode json L fetch cid after (stream_start after)"
| step: "honest_stream decode json L fetch cid after s \<Longrightarrow>
     honest_connection decode json L (es_cursor s) connection \<Longrightarrow>
     honest_stream decode json L fetch cid after (stream_step decode fetch cid s connection)"

text \<open>A run is delivered as it is: nothing of it is skipped.\<close>

lemma log_ok_newer: "log_ok L \<Longrightarrow> log_ok (newer c L)"
  unfolding newer_def log_ok_def by (rule sorted_wrt_filter)

lemma newer_Cons_run:
  "log_ok L \<Longrightarrow> newer c L = m # ms \<Longrightarrow> sint c < sint (mr_sequence m) \<and> newer (mr_sequence m) L = ms"
proof -
  assume L: "log_ok L" and eq: "newer c L = m # ms"
  have m: "sint c < sint (mr_sequence m)"
    using eq by (metis (mono_tags, lifting) filter_eq_ConsD newer_def)
  have "newer (mr_sequence m) (newer c L) = ms"
    using log_ok_newer [OF L, of c] unfolding eq
    by (simp add: log_ok_def newer_def filter_id_conv)
  moreover have "newer (mr_sequence m) (newer c L) = newer (mr_sequence m) L"
    using m by (auto simp: newer_def intro: filter_cong)
  ultimately show ?thesis using m by simp
qed

lemma interpret_run:
  assumes "log_ok L" "is_run L c (frame_messages fs)" "interpret_frames c fs = (ys, d, flow)"
  shows "is_run L c ys \<and> ascending c ys d"
  using assms(2,3)
proof (induction c fs arbitrary: ys rule: interpret_frames.induct)
  case (2 cursor m fs)
  then obtain rest where "newer cursor L = m # frame_messages fs @ rest" by (auto simp: is_run_def)
  note m = newer_Cons_run [OF assms(1) this]
  with 2(4) obtain zs where zs: "interpret_frames (mr_sequence m) fs = (zs, d, flow)" "ys = m # zs"
    by (auto split: prod.splits)
  have "is_run L (mr_sequence m) (frame_messages fs)" using m by (auto simp: is_run_def)
  with 2(1) zs m have z: "is_run L (mr_sequence m) zs \<and> ascending (mr_sequence m) zs d" by blast
  then have "is_run L cursor ys"
    using m \<open>newer cursor L = _\<close> zs(2) by (auto simp: is_run_def)
  with z m zs(2) show ?case by simp
qed (auto simp: is_run_def)

lemma take_page_run:
  "log_ok L \<Longrightarrow> is_run L c ms \<Longrightarrow> take_page c ms = (ys, d) \<Longrightarrow> ys = ms"
proof (induction c ms arbitrary: ys rule: take_page.induct)
  case (2 cursor m ms)
  then obtain rest where "newer cursor L = m # ms @ rest" by (auto simp: is_run_def)
  note m = newer_Cons_run [OF 2(3) this]
  with 2(5) obtain zs where zs: "take_page (mr_sequence m) ms = (zs, d)" "ys = m # zs"
    by (auto split: prod.splits)
  moreover have "is_run L (mr_sequence m) ms" using m by (auto simp: is_run_def)
  ultimately show ?case using 2(1) m 2(3) by blast
qed simp

lemma frame_messages_append: "frame_messages (fs @ gs) = frame_messages fs @ frame_messages gs"
  by (induction fs rule: frame_messages.induct) auto

lemma is_run_prefix: "is_run L c (xs @ ys) \<Longrightarrow> is_run L c xs"
  by (auto simp: is_run_def)

lemma delivers_run: "log_ok L \<Longrightarrow> is_run L c ys \<Longrightarrow> ascending c ys d \<Longrightarrow> delivers L c ys d"
  using delivers_newer by (fastforce simp: is_run_def)

lemma no_boundary_Nil: "sse_boundary [] = None"
  using sse_boundary_SomeD [of "[]"] by (cases "sse_boundary []") fastforce+

lemma connection_delivers:
  assumes L: "log_ok L" and honest: "honest_connection decode json L c (Connected status chunks)"
    and read: "read_events decode c [] chunks = (ys, d, flow)"
  shows "delivers L c ys d"
proof -
  obtain fs rest where fs: "list_all (frame_ok decode json) fs" "is_run L c (frame_messages fs)"
      "received chunks @ rest = frames_bytes json fs"
    using honest by auto
  from read_events_prefix [OF fs(1) _ read no_boundary_Nil, of rest] fs(3)
  consider gs hs where "fs = gs @ hs" "interpret_frames c gs = (ys, d, Go)"
    | "interpret_frames c fs = (ys, d, flow)"
    by (auto simp: received_def)
  then have "is_run L c ys \<and> ascending c ys d"
  proof cases
    case 1
    then have "is_run L c (frame_messages gs)"
      using fs(2) is_run_prefix by (auto simp: frame_messages_append)
    then show ?thesis using 1(2) by (rule interpret_run [OF L])
  next
    case 2
    then show ?thesis using fs(2) interpret_run [OF L] by blast
  qed
  then show ?thesis using delivers_run [OF L] by blast
qed

lemma take_page_delivers:
  assumes L: "log_ok L" and run: "is_run L c ms" and page: "take_page c ms = (ys, d)"
  shows "delivers L c ys d"
proof -
  have "ys = ms" using take_page_run [OF L run page] .
  with run take_page_ascending [OF page] show ?thesis using delivers_run [OF L] by blast
qed

lemma resync_pages_delivers:
  assumes L: "log_ok L" and honest: "honest_fetch L fetch"
  shows "resync_pages fetch n c = (ys, d, n', e) \<Longrightarrow> delivers L c ys d"
proof (induction "nat (2 ^ 63 - sint c)" arbitrary: n c ys rule: less_induct)
  case less
  have run: "is_run L c (pg_items page)" if "fetch n c = Ok page" for page
    using honest that by (simp add: honest_fetch_def)
  from less.prems show ?case
  proof (cases rule: resync_pages_cases)
    case (fail x)
    then show ?thesis by (simp add: delivers_none)
  next
    case (stop page)
    then show ?thesis using take_page_delivers [OF L run] by blast
  next
    case (more page zs k us)
    have "delivers L c zs k" using take_page_delivers [OF L run] more by blast
    with less.hyps [OF more(6,4)] more(5) show ?thesis using delivers_append [OF L] by blast
  qed
qed

lemma honest_stream_delivers:
  assumes L: "log_ok L" and honest: "honest_fetch L fetch"
  shows "honest_stream decode json L fetch cid after s \<Longrightarrow> delivers L after (es_yielded s) (es_cursor s)"
proof (induction rule: honest_stream.induct)
  case start
  then show ?case by (simp add: stream_start_def delivers_none)
next
  case (step s connection)
  show ?case
  proof (cases "read_connection decode cid s connection")
    case None
    then show ?thesis using step.IH stream_step_quiet(1,2) [OF None, of fetch] by simp
  next
    case (Some result)
    then obtain ys d flow where r: "read_connection decode cid s connection = Some (ys, d, flow)"
      by (cases result) simp
    then obtain status chunks where "connection = Connected status chunks"
        "read_events decode (es_cursor s) [] chunks = (ys, d, flow)"
      by (auto simp: read_connection_def split: connection.splits if_splits sum.splits)
    with step.hyps(2) connection_delivers [OF L] have "delivers L (es_cursor s) ys d" by blast
    with step.IH have one: "delivers L after (es_yielded s @ ys) d"
      using delivers_append [OF L] by blast
    obtain zs d' n' e where p: "resync_pages fetch (es_pages s) d = (zs, d', n', e)"
      by (cases "resync_pages fetch (es_pages s) d")
    from delivers_append [OF L one resync_pages_delivers [OF L honest p]]
    have "delivers L after (es_yielded s @ ys @ zs) d'" by simp
    with one show ?thesis using stream_step_read [OF r p] by (cases flow; cases e) (simp_all add: back_off_def)
  qed
qed

text \<open>(C3) Against a service that answers with runs of its log, wherever connections break, however
  often the client reconnects and resynchronises, and even when an attempt ends in an error, what
  has been yielded is at every moment exactly the part of the log between the caller's cursor and
  the current one: no message is lost, repeated or reordered.\<close>

theorem stream_delivers_log:
  assumes "log_ok L" "honest_fetch L fetch"
    and "honest_stream decode json L fetch cid after s"
  shows "es_yielded s = between after (es_cursor s) L"
  using honest_stream_delivers [OF assms(1,2,3)] by (simp add: delivers_def)

text \<open>(C13) A stream of frames of any length is read as the frames it was written from, however
  the network cuts it into chunks, as long as a frame and a chunk together stay within the buffer
  limit of 256 KiB.\<close>

theorem frames_read_in_any_chunks:
  assumes "list_all (frame_ok decode json) fs"
    and "concat chunks = frames_bytes json fs"
    and "list_all (\<lambda>f. length (frame_bytes json f) \<le> longest) fs"
    and "list_all (\<lambda>ch. length ch + longest \<le> MAX_SSE_EVENT_BYTES) chunks"
  shows "read_events decode cursor [] (map Some chunks) = interpret_frames cursor fs"
  using assms by (intro read_events_complete) (simp_all add: no_boundary_Nil)

text \<open>The pages of a service that has all of the log: a hundred messages, and the sequence of the
  last one while there are more.\<close>

definition log_page :: "'j message_record list \<Rightarrow> i64 \<Rightarrow> 'j message_record page" where
  "log_page L c =
     (let ms = take 100 (newer c L)
      in \<lparr>pg_items = ms,
          pg_next_cursor = (if length (newer c L) \<le> 100 then None else Some (mr_sequence (last ms)))\<rparr>)"

lemma newer_append_run:
  assumes "log_ok L" "newer c L = xs @ ys" "ascending c xs d"
  shows "newer d L = ys"
  using assms(2,3)
proof (induction xs arbitrary: c)
  case (Cons x xs)
  with newer_Cons_run [OF assms(1), of c x "xs @ ys"] Cons.IH [of "mr_sequence x"] show ?case by simp
qed simp

lemma take_page_log:
  assumes L: "log_ok L" and run: "is_run L c ms"
  shows "take_page c ms = (ms, if ms = [] then c else mr_sequence (last ms))"
proof -
  obtain ys d where p: "take_page c ms = (ys, d)" by (cases "take_page c ms")
  with take_page_run [OF L run p] ascending_last [OF take_page_ascending [OF p]] show ?thesis by simp
qed

lemma resync_log:
  assumes L: "log_ok L"
  shows "resync_pages (\<lambda>_ c. Ok (log_page L c)) n c =
     (newer c L, if newer c L = [] then c else mr_sequence (last (newer c L)),
      n + max 1 ((length (newer c L) + 99) div 100), None)"
proof (induction "length (newer c L)" arbitrary: c n rule: less_induct)
  case less
  let ?ms = "take 100 (newer c L)" and ?later = "drop 100 (newer c L)"
  have run: "is_run L c ?ms" by (metis append_take_drop_id is_run_def)
  note page = take_page_log [OF L run]
  show ?case
  proof (cases "length (newer c L) \<le> 100")
    case True
    then have "max 1 ((length (newer c L) + 99) div 100) = 1" by simp
    with True page show ?thesis
      by (subst resync_pages.simps) (simp add: log_page_def Let_def)
  next
    case False
    let ?d = "mr_sequence (last ?ms)"
    have ne: "?ms \<noteq> []" using False by (metis list.size(3) take_eq_Nil zero_le zero_neq_numeral)
    with page have step: "take_page c ?ms = (?ms, ?d)" by simp
    have up: "ascending c ?ms ?d" using take_page_ascending [OF step] .
    have later: "newer ?d L = ?later"
      using newer_append_run [OF L _ up] by (metis append_take_drop_id)
    have more: "sint c < sint ?d"
      using ascending_sequences [OF up] last_in_set [OF ne] by blast
    have "length (newer ?d L) < length (newer c L)" using False later by simp
    note IH = less.hyps [OF this, of "Suc n"]
    have ne': "?later \<noteq> []" using False by simp
    have count: "Suc n + max 1 ((length ?later + 99) div 100)
        = n + max 1 ((length (newer c L) + 99) div 100)"
      using False by simp
    have whole: "?ms @ ?later = newer c L" by simp
    have last: "last ?later = last (newer c L)" using ne' by (metis last_appendR whole)
    have next_page: "pg_items (log_page L c) = ?ms" "pg_next_cursor (log_page L c) = Some ?d"
      using False by (simp_all add: log_page_def Let_def)
    show ?thesis
      using more step next_page IH later ne' count last whole False
      by (subst resync_pages.simps) auto
  qed
qed

text \<open>(C14) Resynchronisation ends against any service, after at most one page request more than
  messages yielded; and against a service that pages through its log it yields every message after
  the cursor, asking for a hundred at a time, and leaves the cursor at the last one.\<close>

theorem resync_terminates_and_catches_up:
  assumes "log_ok L"
  shows "(case resync_pages fetch n c of (ys, d, n', e) \<Rightarrow> n < n' \<and> n' \<le> n + length ys + 1) \<and>
    resync_pages (\<lambda>_ c. Ok (log_page L c)) n c =
     (newer c L, if newer c L = [] then c else mr_sequence (last (newer c L)),
      n + max 1 ((length (newer c L) + 99) div 100), None)"
proof
  show "case resync_pages fetch n c of (ys, d, n', e) \<Rightarrow> n < n' \<and> n' \<le> n + length ys + 1"
    using resync_pages_ascending [of fetch n c] by (auto split: prod.splits)
qed (rule resync_log [OF assms])

subsection \<open>Witnesses\<close>

definition demo_message :: "unit message_record" where
  "demo_message =
     \<lparr>mr_conversation_id = [], mr_sequence = 5, mr_message_id = 0, mr_sender = [],
      mr_client_timestamp_ms = 0, mr_accepted_at_ms = 0, mr_reply_to = None, mr_key_epoch = None,
      mr_payload = Plaintext [], mr_payload_digest = [], mr_signing_key_id = [],
      mr_signature = []\<rparr>"

abbreviation demo_decode :: "unit decoder" where
  "demo_decode \<equiv> \<lambda>_. Some demo_message"

abbreviation demo_json :: "unit message_record \<Rightarrow> rstr" where
  "demo_json \<equiv> \<lambda>_. lit ''{}''"

abbreviation demo_frames :: "unit frame list" where
  "demo_frames \<equiv> [FComment (lit ''hi''), FMessage demo_message]"

lemma demo_frames_ok: "list_all (frame_ok demo_decode demo_json) demo_frames"
  by (simp add: one_line_def wf_str_def is_scalar_def)

lemma demo_frame_lengths:
  "list_all (\<lambda>f. length (frame_bytes demo_json f) \<le> 30) demo_frames"
  by (simp add: frame_bytes_def frame_block_def utf8_def utf8_char_def utf8_units_def)

lemma demo_interpret: "interpret_frames 0 demo_frames = ([demo_message], 5, Go)"
  by (simp add: demo_message_def)

lemma demo_length: "length (frames_bytes demo_json demo_frames) \<le> 60"
  using demo_frame_lengths by simp

theorem frames_read_in_any_chunks_witness:
  "read_events demo_decode 0 []
     (map Some [take 10 (frames_bytes demo_json demo_frames), drop 10 (frames_bytes demo_json demo_frames)])
   = ([demo_message], 5, Go)"
proof -
  have small: "list_all (\<lambda>ch. length ch + 30 \<le> MAX_SSE_EVENT_BYTES) [take 10 B, drop 10 B]"
    if "length B \<le> 60" for B :: "u8 list"
    using that by (auto simp: MAX_SSE_EVENT_BYTES_def min_def)
  have "list_all (\<lambda>ch. length ch + 30 \<le> MAX_SSE_EVENT_BYTES)
      [take 10 (frames_bytes demo_json demo_frames), drop 10 (frames_bytes demo_json demo_frames)]"
    using small [OF demo_length] .
  then have "read_events demo_decode 0 []
     (map Some [take 10 (frames_bytes demo_json demo_frames), drop 10 (frames_bytes demo_json demo_frames)])
     = interpret_frames 0 demo_frames"
    by (intro frames_read_in_any_chunks [OF demo_frames_ok _ demo_frame_lengths])
      (simp only: concat.simps append_take_drop_id append_Nil2)
  then show ?thesis unfolding demo_interpret .
qed

definition demo_cid :: rstr where
  "demo_cid = replicate 64 0x61"

lemma demo_cid_ok: "validate_conversation_id demo_cid = Ok ()"
proof -
  have "list_all (\<lambda>c. c < 0x80) demo_cid" by (simp add: demo_cid_def list_all_iff)
  then have "utf8 demo_cid = replicate 64 0x61" by (simp add: utf8_ascii demo_cid_def)
  then show ?thesis
    by (simp add: validate_conversation_id_def str_len_def lower_hex_byte_def list_all_iff)
qed

abbreviation demo_fetch :: "unit fetch" where
  "demo_fetch \<equiv> \<lambda>_ c. Ok (log_page [demo_message] c)"

lemma demo_log_ok: "log_ok [demo_message]"
  by (simp add: log_ok_def)

lemma demo_fetch_honest: "honest_fetch [demo_message] demo_fetch"
  by (simp add: honest_fetch_def is_run_def log_page_def newer_def)

abbreviation demo_connection :: connection where
  "demo_connection \<equiv> Connected 200 [Some (frames_bytes demo_json demo_frames)]"

theorem stream_delivers_log_witness:
  "es_yielded (follow demo_decode demo_fetch demo_cid 0 [demo_connection])
     = between 0 (es_cursor (follow demo_decode demo_fetch demo_cid 0 [demo_connection])) [demo_message]
   \<and> es_yielded (follow demo_decode demo_fetch demo_cid 0 [demo_connection]) = [demo_message]"
proof -
  let ?s = "follow demo_decode demo_fetch demo_cid 0 [demo_connection]"
  have "received [Some (frames_bytes demo_json demo_frames)] @ [] = frames_bytes demo_json demo_frames"
    by (simp add: received_def)
  moreover have "is_run [demo_message] 0 (frame_messages demo_frames)"
    by (simp add: is_run_def newer_def demo_message_def)
  ultimately have "honest_connection demo_decode demo_json [demo_message] 0 demo_connection"
    using demo_frames_ok unfolding honest_connection.simps by blast
  then have "honest_stream demo_decode demo_json [demo_message] demo_fetch demo_cid 0 ?s"
    using honest_stream.step [OF honest_stream.start, of demo_decode demo_json "[demo_message]" 0]
    by (simp add: follow_def stream_start_def)
  from stream_delivers_log [OF demo_log_ok demo_fetch_honest this]
  have "es_yielded ?s = between 0 (es_cursor ?s) [demo_message]" .
  moreover have "read_events demo_decode 0 [] (map Some [frames_bytes demo_json demo_frames])
      = ([demo_message], 5, Go)"
    using read_events_complete [OF demo_frames_ok _ no_boundary_Nil demo_frame_lengths,
        of "[frames_bytes demo_json demo_frames]" 0] demo_length demo_interpret
    by (simp add: MAX_SSE_EVENT_BYTES_def)
  then have "es_yielded ?s = [demo_message]"
    by (simp add: follow_def stream_step_def stream_start_def events_url_def demo_cid_ok
        invalid_def is_success_def back_off_def)
  ultimately show ?thesis by blast
qed

theorem resync_terminates_and_catches_up_witness:
  "resync_pages demo_fetch 0 0 = ([demo_message], 5, 1, None)"
  using resync_terminates_and_catches_up [THEN conjunct2, OF demo_log_ok, of 0 0]
  by (simp add: newer_def demo_message_def)

end
