(* ===== verification/Outbox.thy ===== *)
theory Outbox
  imports Conversation_Client
begin

text \<open>
  The durable outbox of the conversation client (\<open>crates/zincha-client/src/conversation.rs\<close>,
  \<open>QueuedMessage\<close> and \<open>FileOutbox\<close>): messages wait in one JSON file until the service has
  accepted them.

  The state is the file, \<open>disk\<close>: its bytes, if it exists, and how many temporary files were left
  behind. Every call of the operating system may fail; \<open>io\<close> says which ones do. An operation
  returns its result and the disk after it. The mutex makes operations one after the other. The
  JSON codec and the text of an error are the record \<open>outbox_env\<close>. Reading back is not the inverse
  of printing: the parts of a message may hold any JSON value, and \<open>serde_json\<close>, as the workspace
  builds it, may read a fraction back as its neighbour and refuses a value nested too deeply. So
  \<open>oe_reread\<close> gives what a printed request is read back as, if it can be read at all, and
  \<open>codec_ok\<close> says that a printed list is read back element by element, each with its own fields
  and its re-read request. A request is safe when it is read back as itself.

  The abstract outbox is the list of queued messages, with an operation for each operation of the
  code. The lemmas show that the file always holds the list before or after an operation, never
  anything in between, and what flushing does.
\<close>

subsection \<open>Data\<close>

record 'j queued_message =
  qm_conversation_id :: rstr
  qm_request :: "'j submit_message_request"
  qm_attempts :: u32
  qm_next_attempt_ms :: i64
  qm_last_error :: "rstr option"

record file_outbox =
  ob_has_parent :: bool
  ob_max_entries :: nat
  ob_max_bytes :: u64

definition DEFAULT_OUTBOX_MAX_ENTRIES :: nat where
  "DEFAULT_OUTBOX_MAX_ENTRIES = 1000"
definition DEFAULT_OUTBOX_MAX_BYTES :: u64 where
  "DEFAULT_OUTBOX_MAX_BYTES = 64 * 1024 * 1024"
definition MAX_OUTBOX_ERROR_CHARS :: nat where
  "MAX_OUTBOX_ERROR_CHARS = 1024"

datatype outbox_error =
    BadLimits
  | IdConflict
  | EntryLimit
  | ByteLimit
  | ReadError
  | DecodeError
  | EncodeError
  | MissingMessage
  | DirectoryError
  | TempError
  | RenameError
  | DirSyncError

record 'j outbox_env =
  oe_encode :: "'j queued_message list \<Rightarrow> u8 list option"
  oe_decode :: "u8 list \<Rightarrow> 'j queued_message list option"
  oe_reread :: "'j submit_message_request \<Rightarrow> 'j submit_message_request option"
  oe_error_text :: "client_error \<Rightarrow> rstr"

definition reread_item :: "'j outbox_env \<Rightarrow> 'j queued_message \<Rightarrow> 'j queued_message option" where
  "reread_item E i = map_option (\<lambda>r. i\<lparr>qm_request := r\<rparr>) (oe_reread E (qm_request i))"

definition codec_ok :: "'j outbox_env \<Rightarrow> bool" where
  "codec_ok E \<longleftrightarrow>
     (\<forall>items bytes. oe_encode E items = Some bytes \<longrightarrow>
        oe_decode E bytes = those (map (reread_item E) items))
     \<and> (\<forall>r r'. oe_reread E r = Some r' \<longrightarrow> sm_message_id r' = sm_message_id r)"

definition read_safely :: "'j outbox_env \<Rightarrow> 'j submit_message_request \<Rightarrow> bool" where
  "read_safely E r \<longleftrightarrow> oe_reread E r = Some r"

record disk =
  dk_file :: "u8 list option"
  dk_leftovers :: nat

record io =
  io_stat :: bool
  io_read :: bool
  io_mkdir :: bool
  io_open :: bool
  io_write :: bool
  io_sync :: bool
  io_rename :: bool
  io_dirsync :: bool
  io_remove :: bool

definition io_good :: io where
  "io_good = \<lparr>io_stat = True, io_read = True, io_mkdir = True, io_open = True, io_write = True,
     io_sync = True, io_rename = True, io_dirsync = True, io_remove = True\<rparr>"

definition outbox_new :: "bool \<Rightarrow> file_outbox" where
  "outbox_new has_parent =
     \<lparr>ob_has_parent = has_parent, ob_max_entries = DEFAULT_OUTBOX_MAX_ENTRIES,
      ob_max_bytes = DEFAULT_OUTBOX_MAX_BYTES\<rparr>"

definition outbox_with_limits :: "bool \<Rightarrow> nat \<Rightarrow> u64 \<Rightarrow> outbox_error + file_outbox" where
  "outbox_with_limits has_parent max_entries max_bytes =
     (if max_entries = 0 \<or> max_bytes = 0 then Err BadLimits
      else Ok \<lparr>ob_has_parent = has_parent, ob_max_entries = max_entries, ob_max_bytes = max_bytes\<rparr>)"

subsection \<open>Reading and replacing the file\<close>

definition load_unlocked ::
  "file_outbox \<Rightarrow> 'j outbox_env \<Rightarrow> io \<Rightarrow> disk \<Rightarrow> outbox_error + 'j queued_message list" where
  "load_unlocked ob E io d =
     (case dk_file d of
        None \<Rightarrow> if io_read io then Ok [] else Err ReadError
      | Some bytes \<Rightarrow>
          if io_stat io \<and> unat (ob_max_bytes ob) < length bytes then Err ByteLimit
          else if \<not> io_read io then Err ReadError
          else bind_result (ok_or (oe_decode E bytes) DecodeError) (\<lambda>items.
            if ob_max_entries ob < length items then Err EntryLimit else Ok items))"

text \<open>The steps after the temporary file was named; a failed one removes it, if that works.\<close>

definition replace_file :: "file_outbox \<Rightarrow> io \<Rightarrow> u8 list \<Rightarrow> disk \<Rightarrow> (outbox_error + unit) \<times> disk" where
  "replace_file ob io bytes d =
     (let abandoned = d\<lparr>dk_leftovers := dk_leftovers d + (if io_remove io then 0 else 1)\<rparr>
      in if \<not> io_open io then (Err TempError, d)
         else if \<not> io_write io \<or> \<not> io_sync io then (Err TempError, abandoned)
         else if \<not> io_rename io then (Err RenameError, abandoned)
         else let renamed = d\<lparr>dk_file := Some bytes\<rparr>
              in if ob_has_parent ob \<and> \<not> io_dirsync io then (Err DirSyncError, renamed)
                 else (Ok (), renamed))"

definition store_unlocked ::
  "file_outbox \<Rightarrow> 'j outbox_env \<Rightarrow> io \<Rightarrow> 'j queued_message list \<Rightarrow> disk
   \<Rightarrow> (outbox_error + unit) \<times> disk" where
  "store_unlocked ob E io items d =
     (if ob_max_entries ob < length items then (Err EntryLimit, d)
      else case oe_encode E items of
        None \<Rightarrow> (Err EncodeError, d)
      | Some bytes \<Rightarrow>
          if unat (ob_max_bytes ob) < length bytes then (Err ByteLimit, d)
          else if ob_has_parent ob \<and> \<not> io_mkdir io then (Err DirectoryError, d)
          else replace_file ob io bytes d)"

subsection \<open>Operations\<close>

definition message_id :: "'j queued_message \<Rightarrow> uuid" where
  "message_id item = sm_message_id (qm_request item)"

definition enqueue ::
  "file_outbox \<Rightarrow> 'j outbox_env \<Rightarrow> io \<Rightarrow> i64 \<Rightarrow> rstr \<Rightarrow> 'j submit_message_request \<Rightarrow> disk
   \<Rightarrow> (outbox_error + unit) \<times> disk" where
  "enqueue ob E io now cid r d =
     (case load_unlocked ob E io d of
        Err e \<Rightarrow> (Err e, d)
      | Ok items \<Rightarrow>
          (case find (\<lambda>i. message_id i = sm_message_id r) items of
             Some existing \<Rightarrow>
               if qm_conversation_id existing = cid \<and> qm_request existing = r then (Ok (), d)
               else (Err IdConflict, d)
           | None \<Rightarrow>
               if ob_max_entries ob \<le> length items then (Err EntryLimit, d)
               else store_unlocked ob E io
                 (items @ [\<lparr>qm_conversation_id = cid, qm_request = r, qm_attempts = 0,
                            qm_next_attempt_ms = now, qm_last_error = None\<rparr>]) d))"

definition due ::
  "file_outbox \<Rightarrow> 'j outbox_env \<Rightarrow> io \<Rightarrow> i64 \<Rightarrow> nat \<Rightarrow> disk \<Rightarrow> outbox_error + 'j queued_message list" where
  "due ob E io current_time_ms limit d =
     bind_result (load_unlocked ob E io d) (\<lambda>items.
       Ok (take limit (filter (\<lambda>i. sint (qm_next_attempt_ms i) \<le> sint current_time_ms) items)))"

definition mark_sent ::
  "file_outbox \<Rightarrow> 'j outbox_env \<Rightarrow> io \<Rightarrow> uuid \<Rightarrow> disk \<Rightarrow> (outbox_error + unit) \<times> disk" where
  "mark_sent ob E io mid d =
     (case load_unlocked ob E io d of
        Err e \<Rightarrow> (Err e, d)
      | Ok items \<Rightarrow> store_unlocked ob E io (filter (\<lambda>i. message_id i \<noteq> mid) items) d)"

definition retry_delay :: "u32 \<Rightarrow> i64" where
  "retry_delay attempts = (let d = 250 * 2 ^ min (unat attempts) 8 in of_nat (min d 60000))"

definition failed_item :: "rstr \<Rightarrow> i64 \<Rightarrow> 'j queued_message \<Rightarrow> 'j queued_message" where
  "failed_item error current_time_ms item =
     (let attempts = saturating_add (qm_attempts item) 1
      in item\<lparr>qm_attempts := attempts,
              qm_next_attempt_ms := i64_saturating_add current_time_ms (retry_delay attempts),
              qm_last_error := Some (take MAX_OUTBOX_ERROR_CHARS error)\<rparr>)"

fun update_first :: "('a \<Rightarrow> bool) \<Rightarrow> ('a \<Rightarrow> 'a) \<Rightarrow> 'a list \<Rightarrow> 'a list option" where
  "update_first p f [] = None"
| "update_first p f (x # xs) = (if p x then Some (f x # xs) else map_option ((#) x) (update_first p f xs))"

definition mark_failed ::
  "file_outbox \<Rightarrow> 'j outbox_env \<Rightarrow> io \<Rightarrow> uuid \<Rightarrow> rstr \<Rightarrow> i64 \<Rightarrow> disk \<Rightarrow> (outbox_error + unit) \<times> disk" where
  "mark_failed ob E io mid error current_time_ms d =
     (case load_unlocked ob E io d of
        Err e \<Rightarrow> (Err e, d)
      | Ok items \<Rightarrow>
          (case update_first (\<lambda>i. message_id i = mid) (failed_item error current_time_ms) items of
             None \<Rightarrow> (Err MissingMessage, d)
           | Some items' \<Rightarrow> store_unlocked ob E io items' d))"

text \<open>\<open>submit\<close> and \<open>ios\<close> are indexed by the position of the item in the batch: the service may
  answer and the disk may fail differently each time.\<close>

type_synonym 'j submit = "nat \<Rightarrow> rstr \<Rightarrow> 'j submit_message_request \<Rightarrow> client_error + 'j message_record"

fun flush_items ::
  "file_outbox \<Rightarrow> 'j outbox_env \<Rightarrow> (nat \<Rightarrow> io) \<Rightarrow> 'j submit \<Rightarrow> i64 \<Rightarrow> nat \<Rightarrow> nat
   \<Rightarrow> 'j queued_message list \<Rightarrow> disk \<Rightarrow> (outbox_error + nat) \<times> disk" where
  "flush_items ob E ios submit current k sent [] d = (Ok sent, d)"
| "flush_items ob E ios submit current k sent (item # items) d =
     (case submit k (qm_conversation_id item) (qm_request item) of
        Ok _ \<Rightarrow>
          (case mark_sent ob E (ios (Suc k)) (message_id item) d of
             (Err e, d') \<Rightarrow> (Err e, d')
           | (Ok _, d') \<Rightarrow> flush_items ob E ios submit current (Suc k) (Suc sent) items d')
      | Err error \<Rightarrow>
          (case mark_failed ob E (ios (Suc k)) (message_id item) (oe_error_text E error) current d of
             (Err e, d') \<Rightarrow> (Err e, d')
           | (Ok _, d') \<Rightarrow> flush_items ob E ios submit current (Suc k) sent items d'))"

definition flush ::
  "file_outbox \<Rightarrow> 'j outbox_env \<Rightarrow> (nat \<Rightarrow> io) \<Rightarrow> 'j submit \<Rightarrow> i64 \<Rightarrow> nat \<Rightarrow> disk
   \<Rightarrow> (outbox_error + nat) \<times> disk" where
  "flush ob E ios submit current limit d =
     (case due ob E (ios 0) current limit d of
        Err e \<Rightarrow> (Err e, d)
      | Ok items \<Rightarrow> flush_items ob E ios submit current 0 0 items d)"

subsection \<open>The abstract queue\<close>

datatype 'j outbox_op =
    Enqueue i64 rstr "'j submit_message_request"
  | MarkSent uuid
  | MarkFailed uuid rstr i64

fun run_outbox_op :: "file_outbox \<Rightarrow> 'j outbox_env \<Rightarrow> io \<Rightarrow> 'j outbox_op \<Rightarrow> disk \<Rightarrow> (outbox_error + unit) \<times> disk" where
  "run_outbox_op ob E io (Enqueue now cid r) d = enqueue ob E io now cid r d"
| "run_outbox_op ob E io (MarkSent mid) d = mark_sent ob E io mid d"
| "run_outbox_op ob E io (MarkFailed mid error now) d = mark_failed ob E io mid error now d"

text \<open>
  The queue holds at most one entry for a message. Failing changes when and how often it was
  tried, not where it stands.
\<close>

fun queue_op ::
  "nat \<Rightarrow> 'j outbox_op \<Rightarrow> 'j queued_message list \<Rightarrow> outbox_error + 'j queued_message list" where
  "queue_op limit (Enqueue now cid r) items =
     (if \<exists>i \<in> set items. message_id i = sm_message_id r
      then if \<exists>i \<in> set items. qm_conversation_id i = cid \<and> qm_request i = r then Ok items
           else Err IdConflict
      else if limit \<le> length items then Err EntryLimit
      else Ok (items @ [\<lparr>qm_conversation_id = cid, qm_request = r, qm_attempts = 0,
                         qm_next_attempt_ms = now, qm_last_error = None\<rparr>]))"
| "queue_op limit (MarkSent mid) items = Ok (filter (\<lambda>i. message_id i \<noteq> mid) items)"
| "queue_op limit (MarkFailed mid error now) items =
     (if \<exists>i \<in> set items. message_id i = mid
      then Ok (map (\<lambda>i. if message_id i = mid then failed_item error now i else i) items)
      else Err MissingMessage)"

text \<open>
  The file stands for a queue in two ways: what it reads as (\<open>stored\<close>), and what it was printed from
  (\<open>printed\<close>).
\<close>

definition stored :: "'j outbox_env \<Rightarrow> disk \<Rightarrow> 'j queued_message list \<Rightarrow> bool" where
  "stored E d items \<longleftrightarrow> (case dk_file d of None \<Rightarrow> items = [] | Some bytes \<Rightarrow> oe_decode E bytes = Some items)"

definition printed :: "'j outbox_env \<Rightarrow> disk \<Rightarrow> 'j queued_message list \<Rightarrow> bool" where
  "printed E d items \<longleftrightarrow> (case dk_file d of None \<Rightarrow> items = [] | Some bytes \<Rightarrow> oe_encode E items = Some bytes)"

definition bounded_queue :: "file_outbox \<Rightarrow> disk \<Rightarrow> 'j queued_message list \<Rightarrow> bool" where
  "bounded_queue ob d items \<longleftrightarrow> distinct (map message_id items) \<and> length items \<le> ob_max_entries ob
     \<and> (case dk_file d of None \<Rightarrow> True | Some bytes \<Rightarrow> length bytes \<le> unat (ob_max_bytes ob))"

definition well_stored :: "file_outbox \<Rightarrow> 'j outbox_env \<Rightarrow> disk \<Rightarrow> 'j queued_message list \<Rightarrow> bool" where
  "well_stored ob E d items \<longleftrightarrow> stored E d items \<and> bounded_queue ob d items"

definition well_printed :: "file_outbox \<Rightarrow> 'j outbox_env \<Rightarrow> disk \<Rightarrow> 'j queued_message list \<Rightarrow> bool" where
  "well_printed ob E d items \<longleftrightarrow> printed E d items \<and> bounded_queue ob d items"

lemma load_stored:
  "well_stored ob E d items \<Longrightarrow>
   load_unlocked ob E io d = (if io_read io then Ok items else Err ReadError)"
  by (cases "dk_file d")
    (simp_all add: well_stored_def bounded_queue_def stored_def load_unlocked_def)

lemma those_map_Some:
  "those (map f xs) = Some ys \<longleftrightarrow> list_all2 (\<lambda>x y. f x = Some y) xs ys"
proof (induction xs arbitrary: ys)
  case (Cons x xs)
  then show ?case by (cases ys) (auto split: option.splits)
qed auto

lemma printed_decode:
  "codec_ok E \<Longrightarrow> printed E d items \<Longrightarrow> dk_file d = Some bytes \<Longrightarrow>
   oe_decode E bytes = those (map (reread_item E) items)"
  by (auto simp: codec_ok_def printed_def)

lemma reread_ids:
  assumes "codec_ok E" "those (map (reread_item E) items) = Some L"
  shows "map message_id L = map message_id items" "length L = length items"
proof -
  have all: "list_all2 (\<lambda>i j. reread_item E i = Some j) items L"
    using assms(2) by (simp add: those_map_Some)
  have "list_all2 (\<lambda>i j. message_id j = message_id i) items L"
    by (rule list_all2_mono [OF all]) (use assms(1) in \<open>auto simp: reread_item_def codec_ok_def message_id_def\<close>)
  then show "map message_id L = map message_id items"
    by (induction items L rule: list_all2_induct) simp_all
  show "length L = length items" using list_all2_lengthD [OF all] by simp
qed

text \<open>A printed queue reads as the re-read one, if all of it can be read.\<close>

lemma printed_stored:
  assumes "codec_ok E" "well_printed ob E d items" "those (map (reread_item E) items) = Some L"
  shows "well_stored ob E d L"
proof -
  have "stored E d L"
    using assms(2,3) printed_decode [OF assms(1)]
    by (auto simp: stored_def well_printed_def printed_def split: option.splits)
  with assms(2) reread_ids [OF assms(1,3)] show ?thesis
    by (simp add: well_stored_def well_printed_def bounded_queue_def)
qed

lemma load_unreadable:
  assumes "codec_ok E" "well_printed ob E d items" "those (map (reread_item E) items) = None"
  shows "\<exists>e. load_unlocked ob E io d = Err e"
proof -
  have "dk_file d \<noteq> None" using assms(2,3) by (auto simp: well_printed_def printed_def split: option.splits)
  then obtain bytes where "dk_file d = Some bytes" by blast
  moreover from printed_decode [OF assms(1) _ this, of items] assms(2,3) have "oe_decode E bytes = None"
    by (simp add: well_printed_def)
  ultimately show ?thesis by (simp add: load_unlocked_def)
qed

lemma safe_item: "read_safely E (qm_request i) \<Longrightarrow> reread_item E i = Some i"
  by (simp add: read_safely_def reread_item_def)

lemma safe_items:
  "\<forall>i \<in> set items. read_safely E (qm_request i) \<Longrightarrow> those (map (reread_item E) items) = Some items"
  by (induction items) (simp_all add: safe_item)

lemma find_None_iff_ex: "find p xs = None \<longleftrightarrow> \<not> (\<exists>x \<in> set xs. p x)"
  by (induction xs) auto

lemma find_SomeD: "find p xs = Some x \<Longrightarrow> x \<in> set xs \<and> p x"
  by (auto simp: find_Some_iff)

lemma message_id_unique:
  "distinct (map message_id items) \<Longrightarrow> i \<in> set items \<Longrightarrow> j \<in> set items \<Longrightarrow>
   message_id i = message_id j \<Longrightarrow> i = j"
  by (metis distinct_map inj_onD)

lemma update_first_eq:
  "distinct (map k xs) \<Longrightarrow>
   update_first (\<lambda>x. k x = a) f xs =
     (if \<exists>x \<in> set xs. k x = a then Some (map (\<lambda>x. if k x = a then f x else x) xs) else None)"
proof (induction xs)
  case (Cons x xs)
  show ?case
  proof (cases "k x = a")
    case True
    then have "a \<notin> k ` set xs" using Cons.prems by auto
    then have "map (\<lambda>x. if k x = a then f x else x) xs = xs" by (intro map_idI) auto
    with True show ?thesis by simp
  next
    case False
    with Cons show ?thesis by simp
  qed
qed simp

lemma message_id_failed [simp]: "message_id (failed_item error now i) = message_id i"
  by (simp add: message_id_def failed_item_def Let_def)

lemma failed_item_content [simp]:
  "qm_conversation_id (failed_item error now i) = qm_conversation_id i"
  "qm_request (failed_item error now i) = qm_request i"
  by (simp_all add: failed_item_def Let_def)

lemma queue_op_distinct:
  assumes "distinct (map message_id items)" "queue_op limit opn items = Ok items'"
  shows "distinct (map message_id items')"
proof (cases opn)
  case (Enqueue now cid r)
  with assms show ?thesis by (fastforce simp: message_id_def image_iff split: if_splits)
next
  case (MarkSent mid)
  with assms show ?thesis by (auto simp: distinct_map_filter)
next
  case (MarkFailed mid error now)
  then have "map message_id items' = map message_id items"
    using assms(2) by (auto split: if_splits)
  with assms(1) show ?thesis by simp
qed

lemma replace_file_cases:
  assumes "replace_file ob io bytes d = (r, d')"
  obtains (written) "r = Ok () \<or> r = Err DirSyncError" "dk_file d' = Some bytes"
  | (kept) e where "r = Err e" "e \<noteq> DirSyncError" "dk_file d' = dk_file d"
  using assms by (auto simp: replace_file_def Let_def split: if_splits)

lemma store_unlocked_cases:
  assumes "store_unlocked ob E io items d = (r, d')"
  obtains (written) bytes where "r = Ok () \<or> r = Err DirSyncError" "oe_encode E items = Some bytes"
      "dk_file d' = Some bytes" "length items \<le> ob_max_entries ob"
      "length bytes \<le> unat (ob_max_bytes ob)"
  | (kept) e where "r = Err e" "e \<noteq> DirSyncError" "dk_file d' = dk_file d"
proof (cases "ob_max_entries ob < length items")
  case True
  with assms show ?thesis by (intro kept) (auto simp: store_unlocked_def)
next
  case False
  show ?thesis
  proof (cases "\<exists>bytes. oe_encode E items = Some bytes \<and> length bytes \<le> unat (ob_max_bytes ob)
      \<and> \<not> (ob_has_parent ob \<and> \<not> io_mkdir io)")
    case True
    then obtain bytes where b: "oe_encode E items = Some bytes" "length bytes \<le> unat (ob_max_bytes ob)"
      and dir: "\<not> (ob_has_parent ob \<and> \<not> io_mkdir io)" by blast
    then have "replace_file ob io bytes d = (r, d')"
      using assms False by (simp add: store_unlocked_def split: if_splits)
    then show ?thesis
      by (cases rule: replace_file_cases) (use b False written kept in \<open>auto\<close>)
  next
    case no: False
    then have "(\<exists>e. r = Err e \<and> e \<noteq> DirSyncError) \<and> d' = d"
      using assms False by (auto simp: store_unlocked_def split: option.splits if_splits)
    with kept show ?thesis by blast
  qed
qed

text \<open>
  One operation against the queue: the queue's error and an untouched disk, or the queue's next
  state in the file, or an error of the disk or of a limit with the file as it was.
\<close>

definition refines ::
  "file_outbox \<Rightarrow> 'j outbox_env \<Rightarrow> disk \<Rightarrow> 'j queued_message list
   \<Rightarrow> outbox_error + 'j queued_message list \<Rightarrow> (outbox_error + unit) \<times> disk \<Rightarrow> bool" where
  "refines ob E d items expected result \<longleftrightarrow>
     (case result of (r, d') \<Rightarrow>
       expected = Ok items \<and> r = Ok () \<and> d' = d
       \<or> (\<exists>items'. expected = Ok items' \<and> (r = Ok () \<or> r = Err DirSyncError) \<and> well_printed ob E d' items')
       \<or> (\<exists>e. expected = Err e \<and> r = Err e \<and> d' = d)
       \<or> (\<exists>e. r = Err e \<and> e \<noteq> DirSyncError \<and> dk_file d' = dk_file d))"

definition fits :: "file_outbox \<Rightarrow> 'j outbox_env \<Rightarrow> 'j queued_message list \<Rightarrow> bool" where
  "fits ob E items \<longleftrightarrow> (\<exists>bytes. oe_encode E items = Some bytes \<and> length bytes \<le> unat (ob_max_bytes ob))"

lemma store_refines:
  assumes "distinct (map message_id items')"
  shows "refines ob E d items (Ok items') (store_unlocked ob E io items' d)"
proof -
  obtain r d' where s: "store_unlocked ob E io items' d = (r, d')"
    by (cases "store_unlocked ob E io items' d")
  then show ?thesis
  proof (cases rule: store_unlocked_cases)
    case (written bytes)
    then have "well_printed ob E d' items'"
      using assms by (simp add: well_printed_def bounded_queue_def printed_def)
    with written(1) s show ?thesis by (simp add: refines_def)
  next
    case (kept e)
    with s show ?thesis by (simp add: refines_def)
  qed
qed

lemma refines_read_error: "refines ob E d items expected (Err ReadError, d)"
  by (simp add: refines_def)

lemma enqueue_refines:
  assumes "well_stored ob E d items"
  shows "refines ob E d items (queue_op (ob_max_entries ob) (Enqueue now cid r) items)
           (enqueue ob E io now cid r d)"
proof (cases "io_read io")
  case False
  with load_stored [OF assms] show ?thesis by (simp add: enqueue_def refines_read_error)
next
  case True
  note load = load_stored [OF assms, of io]
  have dist: "distinct (map message_id items)"
    using assms by (simp add: well_stored_def bounded_queue_def)
  show ?thesis
  proof (cases "find (\<lambda>i. message_id i = sm_message_id r) items")
    case None
    then have new: "\<not> (\<exists>i \<in> set items. message_id i = sm_message_id r)"
      by (simp add: find_None_iff_ex)
    let ?items = "items @ [\<lparr>qm_conversation_id = cid, qm_request = r, qm_attempts = 0,
        qm_next_attempt_ms = now, qm_last_error = None\<rparr>]"
    have "distinct (map message_id ?items)" using dist new by (auto simp: message_id_def)
    from store_refines [OF this, of ob E d items io] load True None new show ?thesis
      by (auto simp: enqueue_def refines_def)
  next
    case (Some i)
    from find_SomeD [OF this] have i: "i \<in> set items" "message_id i = sm_message_id r" by blast+
    then have "(\<exists>j \<in> set items. qm_conversation_id j = cid \<and> qm_request j = r)
        \<longleftrightarrow> qm_conversation_id i = cid \<and> qm_request i = r"
      using message_id_unique [OF dist] by (metis message_id_def)
    with i Some load True show ?thesis
      by (auto simp: enqueue_def refines_def)
  qed
qed

lemma mark_sent_refines:
  assumes "well_stored ob E d items"
  shows "refines ob E d items (queue_op (ob_max_entries ob) (MarkSent mid) items) (mark_sent ob E io mid d)"
proof (cases "io_read io")
  case False
  with load_stored [OF assms] show ?thesis by (simp add: mark_sent_def refines_read_error)
next
  case True
  have "distinct (map message_id (filter (\<lambda>i. message_id i \<noteq> mid) items))"
    using assms by (simp add: well_stored_def bounded_queue_def distinct_map_filter)
  from store_refines [OF this] load_stored [OF assms, of io] True show ?thesis
    by (simp add: mark_sent_def)
qed

lemma mark_failed_refines:
  assumes "well_stored ob E d items"
  shows "refines ob E d items (queue_op (ob_max_entries ob) (MarkFailed mid error now) items)
           (mark_failed ob E io mid error now d)"
proof (cases "io_read io")
  case False
  with load_stored [OF assms] show ?thesis by (simp add: mark_failed_def refines_read_error)
next
  case True
  have dist: "distinct (map message_id items)"
    using assms by (simp add: well_stored_def bounded_queue_def)
  note load = load_stored [OF assms, of io]
  show ?thesis
  proof (cases "\<exists>i \<in> set items. message_id i = mid")
    case False
    with load True show ?thesis
      by (simp add: mark_failed_def update_first_eq [OF dist] refines_def)
  next
    case found: True
    have "distinct (map message_id (map (\<lambda>i. if message_id i = mid then failed_item error now i else i) items))"
      using queue_op_distinct [OF dist, of "ob_max_entries ob" "MarkFailed mid error now"] found by simp
    from store_refines [OF this] found load True show ?thesis
      by (simp add: mark_failed_def update_first_eq [OF dist])
  qed
qed

lemma outbox_op_refines:
  assumes "well_stored ob E d items"
  shows "refines ob E d items (queue_op (ob_max_entries ob) opn items) (run_outbox_op ob E io opn d)"
  using enqueue_refines [OF assms] mark_sent_refines [OF assms] mark_failed_refines [OF assms]
  by (cases opn) simp_all

text \<open>On a disk that works, an operation whose next queue fits the limits answers what the queue
  answers.\<close>

lemma store_good:
  assumes "length items \<le> ob_max_entries ob" "fits ob E items"
  obtains d' where "store_unlocked ob E io_good items d = (Ok (), d')"
  using assms by (auto simp: fits_def store_unlocked_def replace_file_def io_good_def Let_def)

lemma outbox_op_answers:
  assumes w: "well_stored ob E d items"
    and fit: "\<And>items'. queue_op (ob_max_entries ob) opn items = Ok items' \<Longrightarrow> fits ob E items'"
  shows "fst (run_outbox_op ob E io_good opn d)
    = bind_result (queue_op (ob_max_entries ob) opn items) (\<lambda>_. Ok ())"
proof -
  have dist: "distinct (map message_id items)" and len: "length items \<le> ob_max_entries ob"
    using w by (simp_all add: well_stored_def bounded_queue_def)
  have load: "load_unlocked ob E io_good d = Ok items"
    using load_stored [OF w, of io_good] by (simp add: io_good_def)
  have store: "fst (store_unlocked ob E io_good items' d) = Ok ()"
    if "length items' \<le> ob_max_entries ob" "fits ob E items'" for items'
    using store_good [OF that, of d] by (metis fst_conv)
  show ?thesis
  proof (cases opn)
    case (Enqueue now cid r)
    show ?thesis
    proof (cases "find (\<lambda>i. message_id i = sm_message_id r) items")
      case None
      then have new: "\<not> (\<exists>i \<in> set items. message_id i = sm_message_id r)"
        by (simp add: find_None_iff_ex)
      show ?thesis
        using Enqueue load fit store new by (auto simp: enqueue_def None)
    next
      case (Some i)
      from find_SomeD [OF this] have i: "i \<in> set items" "message_id i = sm_message_id r" by blast+
      then have "(\<exists>j \<in> set items. qm_conversation_id j = cid \<and> qm_request j = r)
          \<longleftrightarrow> qm_conversation_id i = cid \<and> qm_request i = r"
        using message_id_unique [OF dist] by (metis message_id_def)
      with i Some load Enqueue show ?thesis by (auto simp: enqueue_def)
    qed
  next
    case (MarkSent mid)
    have "length (filter (\<lambda>i. message_id i \<noteq> mid) items) \<le> ob_max_entries ob"
      using len length_filter_le order_trans by blast
    from store [OF this] fit load MarkSent show ?thesis by (simp add: mark_sent_def)
  next
    case (MarkFailed mid error now)
    with load len fit store show ?thesis
      by (auto simp: mark_failed_def update_first_eq [OF dist])
  qed
qed

text \<open>(C5) Every operation of the outbox is an operation of the abstract queue that the file reads as,
  whatever fails on the way: either the file then is the print of exactly the next queue, within its
  limits, or the next queue is the one the file reads as already and nothing is written, or the
  operation reports the queue's own error (a message number bound to other content, a full queue,
  an unknown message) without writing, or it reports an error of the disk or of a limit with the
  file as it was. A call that reports that the directory could not be synchronised has replaced the
  file. When the disk works and the next queue fits the byte limit, the operation answers exactly
  what the queue answers. Nothing is assumed of the JSON codec.\<close>

theorem outbox_refines_queue:
  assumes "well_stored ob E d items"
  shows "refines ob E d items (queue_op (ob_max_entries ob) opn items) (run_outbox_op ob E io opn d)
     \<and> ((\<forall>items'. queue_op (ob_max_entries ob) opn items = Ok items' \<longrightarrow> fits ob E items') \<longrightarrow>
        fst (run_outbox_op ob E io_good opn d)
          = bind_result (queue_op (ob_max_entries ob) opn items) (\<lambda>_. Ok ()))"
  using outbox_op_refines [OF assms] outbox_op_answers [OF assms] by blast

subsection \<open>Runs\<close>

datatype 'j outbox_event =
    Op io "'j outbox_op"
  | Flush "nat \<Rightarrow> io" "'j submit" i64 nat

fun outbox_step :: "file_outbox \<Rightarrow> 'j outbox_env \<Rightarrow> disk \<Rightarrow> 'j outbox_event \<Rightarrow> disk" where
  "outbox_step ob E d (Op io opn) = snd (run_outbox_op ob E io opn d)"
| "outbox_step ob E d (Flush ios submit now limit) = snd (flush ob E ios submit now limit d)"

definition outbox_inv :: "file_outbox \<Rightarrow> 'j outbox_env \<Rightarrow> disk \<Rightarrow> bool" where
  "outbox_inv ob E d \<longleftrightarrow> (\<exists>items. well_printed ob E d items)"

definition queued ::
  "file_outbox \<Rightarrow> 'j outbox_env \<Rightarrow> rstr \<Rightarrow> 'j submit_message_request \<Rightarrow> disk \<Rightarrow> bool" where
  "queued ob E cid r d \<longleftrightarrow>
     (\<exists>items. well_printed ob E d items \<and> (\<exists>i \<in> set items. qm_conversation_id i = cid \<and> qm_request i = r))"

text \<open>Events that take a message off the queue for good reason.\<close>

fun acknowledges :: "rstr \<Rightarrow> 'j submit_message_request \<Rightarrow> 'j outbox_event \<Rightarrow> bool" where
  "acknowledges cid r (Op _ (MarkSent mid)) \<longleftrightarrow> mid = sm_message_id r"
| "acknowledges cid r (Op _ _) \<longleftrightarrow> False"
| "acknowledges cid r (Flush ios submit now limit) \<longleftrightarrow> (\<exists>k. is_ok (submit k cid r))"

lemma well_printed_cong: "dk_file d' = dk_file d \<Longrightarrow> well_printed ob E d' items = well_printed ob E d items"
  by (simp add: well_printed_def printed_def bounded_queue_def)

lemma op_unreadable: "load_unlocked ob E io d = Err e \<Longrightarrow> snd (run_outbox_op ob E io opn d) = d"
  by (cases opn) (simp_all add: enqueue_def mark_sent_def mark_failed_def)

text \<open>An operation on a printed queue leaves the file alone, or prints the next queue.\<close>

lemma op_printed:
  assumes "codec_ok E" "well_printed ob E d items"
  obtains (same) "dk_file (snd (run_outbox_op ob E io opn d)) = dk_file d"
  | (next_queue) L items' where "those (map (reread_item E) items) = Some L"
      "distinct (map message_id L)" "queue_op (ob_max_entries ob) opn L = Ok items'"
      "well_printed ob E (snd (run_outbox_op ob E io opn d)) items'"
proof (cases "those (map (reread_item E) items)")
  case None
  with load_unreadable [OF assms] op_unreadable same show ?thesis by metis
next
  case (Some L)
  have w: "well_stored ob E d L" using printed_stored [OF assms Some] .
  obtain r d' where run: "run_outbox_op ob E io opn d = (r, d')"
    by (cases "run_outbox_op ob E io opn d")
  have "distinct (map message_id L)" using w by (simp add: well_stored_def bounded_queue_def)
  with outbox_op_refines [OF w, of opn io] run Some show ?thesis
    by (auto simp: refines_def intro: same next_queue)
qed

lemma op_inv:
  assumes "codec_ok E" "outbox_inv ob E d"
  shows "outbox_inv ob E (snd (run_outbox_op ob E io opn d))"
proof -
  obtain items where w: "well_printed ob E d items" using assms(2) by (auto simp: outbox_inv_def)
  from assms(1) w show ?thesis
  proof (cases rule: op_printed [where opn = opn and io = io])
    case same
    from well_printed_cong [OF this] w show ?thesis unfolding outbox_inv_def by blast
  qed (auto simp: outbox_inv_def)
qed

lemma safe_item_kept:
  assumes "those (map (reread_item E) items) = Some L" "i \<in> set items" "read_safely E (qm_request i)"
  shows "i \<in> set L"
  using assms(1,2) unfolding those_map_Some
  by (induction rule: list_all2_induct) (auto simp: safe_item [OF assms(3)])

lemma queue_op_keeps:
  assumes "queue_op limit opn items = Ok items'" "i \<in> set items"
    and "qm_conversation_id i = cid" "qm_request i = r" "\<not> acknowledges cid r (Op io opn)"
  shows "\<exists>j \<in> set items'. qm_conversation_id j = cid \<and> qm_request j = r"
proof (cases opn)
  case (MarkFailed mid error now)
  let ?j = "if message_id i = mid then failed_item error now i else i"
  have "?j \<in> set items'" using assms(1,2) MarkFailed by (auto split: if_splits)
  moreover have "qm_conversation_id ?j = cid" "qm_request ?j = r" using assms by simp_all
  ultimately show ?thesis by blast
qed (use assms in \<open>auto simp: message_id_def split: if_splits\<close>)

lemma op_queued:
  assumes codec: "codec_ok E" and safe: "read_safely E r"
    and q: "queued ob E cid r d" and keep: "\<not> acknowledges cid r (Op io opn)"
  shows "queued ob E cid r (snd (run_outbox_op ob E io opn d))"
proof -
  obtain items i where w: "well_printed ob E d items"
    and i: "i \<in> set items" "qm_conversation_id i = cid" "qm_request i = r"
    using q by (auto simp: queued_def)
  from codec w show ?thesis
  proof (cases rule: op_printed [where opn = opn and io = io])
    case same
    with w i show ?thesis using well_printed_cong [OF same] by (auto simp: queued_def)
  next
    case (next_queue L items')
    have "i \<in> set L" using safe_item_kept [OF next_queue(1) i(1)] safe i(3) by simp
    from queue_op_keeps [OF next_queue(3) this i(2,3) keep] next_queue(4) show ?thesis
      by (auto simp: queued_def)
  qed
qed

text \<open>What flushing does with one item, as an operation.\<close>

definition batch_op :: "'j outbox_env \<Rightarrow> 'j submit \<Rightarrow> i64 \<Rightarrow> nat \<Rightarrow> 'j queued_message \<Rightarrow> 'j outbox_op" where
  "batch_op E submit now k i =
     (case submit k (qm_conversation_id i) (qm_request i) of
        Ok _ \<Rightarrow> MarkSent (message_id i)
      | Err error \<Rightarrow> MarkFailed (message_id i) (oe_error_text E error) now)"

lemma flush_items_Cons:
  "flush_items ob E ios submit now k n (i # items) d =
     (case run_outbox_op ob E (ios (Suc k)) (batch_op E submit now k i) d of
        (r, d') \<Rightarrow>
          (case r of
             Err e \<Rightarrow> (Err e, d')
           | Ok _ \<Rightarrow> flush_items ob E ios submit now (Suc k)
               (if is_ok (submit k (qm_conversation_id i) (qm_request i)) then Suc n else n) items d'))"
  by (cases "submit k (qm_conversation_id i) (qm_request i)")
    (simp_all add: batch_op_def split: prod.splits sum.splits)

lemma flush_items_inv:
  assumes "codec_ok E"
  shows "outbox_inv ob E d \<Longrightarrow> outbox_inv ob E (snd (flush_items ob E ios submit now k n items d))"
proof (induction items arbitrary: d k n)
  case (Cons i items)
  obtain r d' where run: "run_outbox_op ob E (ios (Suc k)) (batch_op E submit now k i) d = (r, d')"
    by (cases "run_outbox_op ob E (ios (Suc k)) (batch_op E submit now k i) d")
  with op_inv [OF assms Cons.prems, of "ios (Suc k)" "batch_op E submit now k i"]
  have "outbox_inv ob E d'" by simp
  with Cons.IH run show ?case
    by (cases r) (simp_all add: flush_items_Cons del: flush_items.simps)
qed simp

lemma flush_inv:
  "codec_ok E \<Longrightarrow> outbox_inv ob E d \<Longrightarrow> outbox_inv ob E (snd (flush ob E ios submit now limit d))"
  using flush_items_inv by (auto simp: flush_def split: sum.splits)

lemma flush_items_queued:
  assumes codec: "codec_ok E" and safe: "read_safely E r" and "queued ob E cid r d"
    and "\<forall>i \<in> set items. message_id i = sm_message_id r \<longrightarrow> qm_conversation_id i = cid \<and> qm_request i = r"
    and refused: "\<not> (\<exists>k. is_ok (submit k cid r))"
  shows "queued ob E cid r (snd (flush_items ob E ios submit now k n items d))"
  using assms(3,4)
proof (induction items arbitrary: d k n)
  case (Cons i items)
  let ?op = "batch_op E submit now k i"
  have keep: "\<not> acknowledges cid r (Op (ios (Suc k)) ?op)"
  proof (cases "submit k (qm_conversation_id i) (qm_request i)")
    case (Inl e)
    then show ?thesis by (simp add: batch_op_def)
  next
    case (Inr answer)
    have "message_id i \<noteq> sm_message_id r"
    proof
      assume "message_id i = sm_message_id r"
      with Cons.prems(2) Inr have "submit k cid r = Ok answer" by simp
      with refused show False by (auto simp: is_ok_iff)
    qed
    with Inr show ?thesis by (simp add: batch_op_def)
  qed
  obtain x d' where run: "run_outbox_op ob E (ios (Suc k)) ?op d = (x, d')"
    by (cases "run_outbox_op ob E (ios (Suc k)) ?op d")
  have "queued ob E cid r d'"
    using op_queued [OF codec safe Cons.prems(1) keep] run by simp
  with Cons.IH Cons.prems(2) run show ?case
    by (cases x) (simp_all add: flush_items_Cons del: flush_items.simps)
qed simp

lemma due_subset:
  assumes "well_stored ob E d items" "due ob E io now limit d = Ok batch"
  shows "set batch \<subseteq> set items"
  using assms load_stored [OF assms(1), of io]
  by (auto simp: due_def dest: in_set_takeD split: if_splits)

lemma flush_queued:
  assumes codec: "codec_ok E" and safe: "read_safely E r" and q: "queued ob E cid r d"
    and refused: "\<not> (\<exists>k. is_ok (submit k cid r))"
  shows "queued ob E cid r (snd (flush ob E ios submit now limit d))"
proof (cases "due ob E (ios 0) now limit d")
  case (Inl e)
  with q show ?thesis by (simp add: flush_def)
next
  case (Inr batch)
  obtain items j where w: "well_printed ob E d items"
    and j: "j \<in> set items" "qm_conversation_id j = cid" "qm_request j = r"
    using q by (auto simp: queued_def)
  obtain L where L: "those (map (reread_item E) items) = Some L"
    using load_unreadable [OF codec w, of "ios 0"] Inr
    by (cases "those (map (reread_item E) items)") (auto simp: due_def)
  have wL: "well_stored ob E d L" using printed_stored [OF codec w L] .
  have jL: "j \<in> set L" using safe_item_kept [OF L j(1)] safe j(3) by simp
  have "\<forall>i \<in> set batch. message_id i = sm_message_id r \<longrightarrow> qm_conversation_id i = cid \<and> qm_request i = r"
  proof (intro ballI impI)
    fix i assume "i \<in> set batch" "message_id i = sm_message_id r"
    then have "i = j"
      using wL j jL due_subset [OF wL Inr] message_id_unique [of L i j]
      by (auto simp: well_stored_def bounded_queue_def message_id_def)
    with j show "qm_conversation_id i = cid \<and> qm_request i = r" by simp
  qed
  note flush_items_queued [where submit = submit, OF codec safe q this refused]
  with Inr show ?thesis by (simp add: flush_def)
qed

lemma outbox_step_inv: "codec_ok E \<Longrightarrow> outbox_inv ob E d \<Longrightarrow> outbox_inv ob E (outbox_step ob E d event)"
  by (cases event) (simp_all add: op_inv flush_inv)

lemma outbox_step_queued:
  "codec_ok E \<Longrightarrow> read_safely E r \<Longrightarrow> queued ob E cid r d \<Longrightarrow> \<not> acknowledges cid r event \<Longrightarrow>
   queued ob E cid r (outbox_step ob E d event)"
  by (cases event) (simp_all add: op_queued flush_queued)

interpretation outbox: stateful "outbox_step ob E" "\<lambda>d. codec_ok E \<and> outbox_inv ob E d"
  by unfold_locales (simp add: outbox_step_inv)

interpretation waiting: guarded "outbox_step ob E"
    "\<lambda>d. codec_ok E \<and> read_safely E r \<and> queued ob E cid r d"
    "\<lambda>event. \<not> acknowledges cid r event"
  by unfold_locales (simp add: outbox_step_queued)

text \<open>Whoever reads the file finds a queued message in it, if its request is read back safely.\<close>

lemma queued_read:
  assumes "codec_ok E" "read_safely E r" "queued ob E cid r d" "load_unlocked ob E io d = Ok items"
  shows "\<exists>i \<in> set items. qm_conversation_id i = cid \<and> qm_request i = r"
proof -
  obtain its i where w: "well_printed ob E d its"
    and i: "i \<in> set its" "qm_conversation_id i = cid" "qm_request i = r"
    using assms(3) by (auto simp: queued_def)
  obtain L where L: "those (map (reread_item E) its) = Some L"
    using load_unreadable [OF assms(1) w, of io] assms(4)
    by (cases "those (map (reread_item E) its)") auto
  have "items = L"
    using load_stored [OF printed_stored [OF assms(1) w L], of io] assms(4) by (simp split: if_splits)
  moreover have "i \<in> set L" using safe_item_kept [OF L i(1)] assms(2) i(3) by simp
  ultimately show ?thesis using i by blast
qed

text \<open>(C4) A queued message whose request is read back as itself stays queued, with its conversation
  and content, through any sequence of operations and flushes of any messages, safe or not, with any
  failures of the disk and any answers of the service, until it is marked as sent or the service has
  accepted it; the file always is the print of at most \<open>max_entries\<close> messages with distinct numbers
  within the byte limit, and every successful reading of it finds the message unchanged.\<close>

theorem outbox_keeps_messages:
  assumes "codec_ok E" "read_safely E r" "queued ob E cid r d"
    and "list_all (\<lambda>event. \<not> acknowledges cid r event) events"
    and "d' = foldl (outbox_step ob E) d events"
  shows "queued ob E cid r d' \<and> outbox_inv ob E d'
     \<and> (\<forall>io items. load_unlocked ob E io d' = Ok items \<longrightarrow>
          (\<exists>i \<in> set items. qm_conversation_id i = cid \<and> qm_request i = r))"
proof -
  have q: "queued ob E cid r d'" using waiting.guarded_run [of E r ob cid d events] assms by simp
  then have "outbox_inv ob E d'" by (auto simp: queued_def outbox_inv_def)
  with q queued_read [OF assms(1,2) q] show ?thesis by blast
qed

text \<open>
  What happens to a message that is not read back as itself: the next operation that writes the file
  replaces it by what was read, under a signature that was made for the original; and if it cannot
  be read back at all, no operation reads the file any more.
\<close>

lemma unsafe_message_changes:
  assumes "codec_ok E" "well_printed ob E d items" "i \<in> set items" "oe_reread E (qm_request i) = Some r'"
    and "load_unlocked ob E io d = Ok items'"
  shows "i\<lparr>qm_request := r'\<rparr> \<in> set items' \<and> sm_message_id r' = message_id i"
proof -
  obtain L where L: "those (map (reread_item E) items) = Some L"
    using load_unreadable [OF assms(1,2), of io] assms(5)
    by (cases "those (map (reread_item E) items)") auto
  have "items' = L"
    using load_stored [OF printed_stored [OF assms(1,2) L], of io] assms(5) by (simp split: if_splits)
  moreover have "reread_item E i = Some (i\<lparr>qm_request := r'\<rparr>)"
    using assms(4) by (simp add: reread_item_def)
  then have "i\<lparr>qm_request := r'\<rparr> \<in> set L"
    using L assms(3) unfolding those_map_Some
    by (auto simp: list_all2_conv_all_nth in_set_conv_nth)
  ultimately show ?thesis using assms(1,4) by (auto simp: codec_ok_def message_id_def)
qed

lemma unreadable_message_blocks:
  assumes "codec_ok E" "well_printed ob E d items" "i \<in> set items" "oe_reread E (qm_request i) = None"
  shows "snd (run_outbox_op ob E io opn d) = d \<and> (\<exists>e. load_unlocked ob E io d = Err e)"
proof -
  have "those (map (reread_item E) items) = None"
    using assms(3,4) by (induction items) (auto simp: reread_item_def split: option.splits)
  from load_unreadable [OF assms(1,2) this, of io] op_unreadable show ?thesis by blast
qed

subsection \<open>Flushing when nothing fails\<close>

lemma mark_sent_good:
  assumes codec: "codec_ok E" and w: "well_stored ob E d items"
    and safe: "\<forall>i \<in> set items. read_safely E (qm_request i)"
    and fit: "fits ob E (filter (\<lambda>i. message_id i \<noteq> mid) items)"
  obtains d' where "mark_sent ob E io_good mid d = (Ok (), d')"
    "well_stored ob E d' (filter (\<lambda>i. message_id i \<noteq> mid) items)"
proof -
  let ?items = "filter (\<lambda>i. message_id i \<noteq> mid) items"
  obtain bytes where b: "oe_encode E ?items = Some bytes" "length bytes \<le> unat (ob_max_bytes ob)"
    using fit by (auto simp: fits_def)
  have len: "length ?items \<le> ob_max_entries ob"
    using w length_filter_le [of _ items] le_trans unfolding well_stored_def bounded_queue_def by blast
  then have "mark_sent ob E io_good mid d = (Ok (), d\<lparr>dk_file := Some bytes\<rparr>)"
    using load_stored [OF w, of io_good] b
    by (simp add: mark_sent_def store_unlocked_def replace_file_def io_good_def Let_def)
  moreover have "well_printed ob E (d\<lparr>dk_file := Some bytes\<rparr>) ?items"
    using w b len
    by (simp add: well_printed_def printed_def well_stored_def bounded_queue_def distinct_map_filter)
  moreover have "those (map (reread_item E) ?items) = Some ?items"
    by (rule safe_items) (use safe in auto)
  ultimately show ?thesis using that printed_stored [OF codec] by blast
qed

lemma flush_items_accepted:
  assumes codec: "codec_ok E" and safe: "\<forall>i \<in> set its. read_safely E (qm_request i)"
    and "\<forall>j < length batch. is_ok (submit (k + j) (qm_conversation_id (batch ! j)) (qm_request (batch ! j)))"
    and io: "\<forall>k. ios k = io_good" and "\<forall>P. fits ob E (filter P its)"
    and "well_stored ob E d its"
  shows "\<exists>d'. flush_items ob E ios submit now k n batch d = (Ok (n + length batch), d')
     \<and> well_stored ob E d' (filter (\<lambda>i. message_id i \<notin> message_id ` set batch) its)"
  using assms(2,3,5,6)
proof (induction batch arbitrary: d its k n)
  case (Cons b batch)
  let ?its = "filter (\<lambda>i. message_id i \<noteq> message_id b) its"
  have safe': "\<forall>i \<in> set ?its. read_safely E (qm_request i)" using Cons.prems(1) by auto
  have fit: "\<forall>P. fits ob E (filter P ?its)" using Cons.prems(3) by (simp add: filter_filter)
  obtain d' where d': "mark_sent ob E io_good (message_id b) d = (Ok (), d')" "well_stored ob E d' ?its"
    using mark_sent_good [OF codec Cons.prems(4,1), of "message_id b"] Cons.prems(3) by blast
  have "is_ok (submit k (qm_conversation_id b) (qm_request b))"
    using spec [OF Cons.prems(2), of 0] by simp
  then obtain answer where "submit k (qm_conversation_id b) (qm_request b) = Ok answer"
    by (auto simp: is_ok_iff)
  then have "flush_items ob E ios submit now k n (b # batch) d
      = flush_items ob E ios submit now (Suc k) (Suc n) batch d'"
    using d'(1) io by simp
  moreover have "\<forall>j < length batch. is_ok (submit (Suc k + j) (qm_conversation_id (batch ! j)) (qm_request (batch ! j)))"
    using Cons.prems(2) by auto
  note Cons.IH [OF safe' this fit d'(2), of "Suc n"]
  moreover have "filter (\<lambda>i. message_id i \<notin> message_id ` set batch) ?its
      = filter (\<lambda>i. message_id i \<notin> message_id ` set (b # batch)) its"
    by simp
  ultimately show ?case by (metis add_Suc_right add_Suc length_Cons)
qed simp

text \<open>(C26) When the disk works, every queued message is read back as itself, every selection of the
  queue prints within the byte limit, and the service accepts the due messages, asked one by one in
  their order, then a flush reports the number of due messages up to the limit and leaves exactly
  the others in the file, in their order.\<close>

theorem flush_delivers_due:
  assumes "codec_ok E" "\<forall>i \<in> set items. read_safely E (qm_request i)"
    and "well_stored ob E d items"
    and "batch = take limit (filter (\<lambda>i. sint (qm_next_attempt_ms i) \<le> sint now) items)"
    and "\<forall>k < length batch. is_ok (submit k (qm_conversation_id (batch ! k)) (qm_request (batch ! k)))"
    and "\<forall>k. ios k = io_good" and "\<forall>P. fits ob E (filter P items)"
  shows "\<exists>d'. flush ob E ios submit now limit d = (Ok (length batch), d')
     \<and> well_stored ob E d' (filter (\<lambda>i. i \<notin> set batch) items)"
proof -
  have "due ob E (ios 0) now limit d = Ok batch"
    using load_stored [OF assms(3), of "ios 0"] assms(4,6) by (simp add: due_def io_good_def)
  moreover obtain d' where "flush_items ob E ios submit now 0 0 batch d = (Ok (length batch), d')"
      and w: "well_stored ob E d' (filter (\<lambda>i. message_id i \<notin> message_id ` set batch) items)"
    using flush_items_accepted [OF assms(1,2) _ assms(6,7,3), of batch submit 0 now 0] assms(5) by auto
  moreover have "filter (\<lambda>i. message_id i \<notin> message_id ` set batch) items = filter (\<lambda>i. i \<notin> set batch) items"
  proof (rule filter_cong [OF refl])
    fix i assume i: "i \<in> set items"
    have sub: "set batch \<subseteq> set items" using assms(4) by (auto dest: in_set_takeD)
    have "i \<in> set batch" if "j \<in> set batch" "message_id i = message_id j" for j
      using message_id_unique [of items i j] i that sub assms(3)
      by (auto simp: well_stored_def bounded_queue_def)
    then show "message_id i \<notin> message_id ` set batch \<longleftrightarrow> i \<notin> set batch" by blast
  qed
  ultimately show ?thesis by (auto simp: flush_def)
qed

text \<open>The pause before the next attempt grows with the number of failures and stays between half a
  second and a minute; the stored error is cut to 1,024 characters.\<close>

theorem retry_backoff:
  fixes a b :: u32
  assumes "0 < a" "a \<le> b"
  shows "500 \<le> sint (retry_delay a) \<and> sint (retry_delay a) \<le> sint (retry_delay b)
     \<and> sint (retry_delay b) \<le> 60000
     \<and> (case qm_last_error (failed_item error now item) of None \<Rightarrow> False | Some e \<Rightarrow> length e \<le> 1024)"
proof -
  have delay: "sint (retry_delay x) = int (min (250 * 2 ^ min (unat x) 8) 60000)" for x :: u32
  proof -
    have "sint (of_nat m :: i64) = int m" if "m \<le> 60000" for m
      using that by (simp add: signed_of_nat signed_take_bit_int_eq_self)
    then show ?thesis by (simp add: retry_delay_def Let_def)
  qed
  have "unat a \<ge> 1" "unat a \<le> unat b" using assms by (simp_all add: word_le_nat_alt unat_gt_0 Suc_le_eq)
  then have "2 ^ 1 \<le> (2 :: nat) ^ min (unat a) 8" "(2 :: nat) ^ min (unat a) 8 \<le> 2 ^ min (unat b) 8"
    by (intro power_increasing; simp)+
  moreover have "500 \<le> int (min (250 * p) 60000) \<and> int (min (250 * p) 60000) \<le> int (min (250 * q) 60000)"
    if "2 \<le> p" "p \<le> q" for p q :: nat
    using that by auto
  ultimately have "500 \<le> sint (retry_delay a) \<and> sint (retry_delay a) \<le> sint (retry_delay b)"
    unfolding delay by simp
  moreover have "sint (retry_delay b) \<le> 60000" unfolding delay by simp
  ultimately have "500 \<le> sint (retry_delay a)" "sint (retry_delay a) \<le> sint (retry_delay b)"
    "sint (retry_delay b) \<le> 60000"
    by simp_all
  then show ?thesis by (simp add: failed_item_def Let_def MAX_OUTBOX_ERROR_CHARS_def)
qed

subsection \<open>Witnesses\<close>

definition demo_request :: "unit submit_message_request" where
  "demo_request =
     \<lparr>sm_message_id = 7, sm_client_timestamp_ms = 0, sm_reply_to = None, sm_key_epoch = None,
      sm_payload = Ciphertext [], sm_signing_key_id = [], sm_signature = []\<rparr>"

definition demo_item :: "unit queued_message" where
  "demo_item =
     \<lparr>qm_conversation_id = [], qm_request = demo_request, qm_attempts = 0,
      qm_next_attempt_ms = 0, qm_last_error = None\<rparr>"

definition demo_outbox_env :: "unit outbox_env" where
  "demo_outbox_env =
     \<lparr>oe_encode = (\<lambda>items. if items = [] then Some [0] else if items = [demo_item] then Some [1] else None),
      oe_decode = (\<lambda>bytes. if bytes = [0] then Some [] else if bytes = [1] then Some [demo_item] else None),
      oe_reread = (\<lambda>r. if r = demo_request then Some r else None),
      oe_error_text = (\<lambda>_. [])\<rparr>"

abbreviation demo_box :: file_outbox where
  "demo_box \<equiv> outbox_new True"

lemma demo_codec: "codec_ok demo_outbox_env"
  by (simp add: codec_ok_def demo_outbox_env_def reread_item_def demo_item_def)

lemma demo_safe: "read_safely demo_outbox_env demo_request"
  by (simp add: read_safely_def demo_outbox_env_def)

lemma demo_encode:
  "oe_encode demo_outbox_env [] = Some [0]" "oe_encode demo_outbox_env [demo_item] = Some [1]"
  "oe_decode demo_outbox_env [1] = Some [demo_item]"
  by (simp_all add: demo_outbox_env_def)

lemma demo_empty: "well_stored demo_box demo_outbox_env \<lparr>dk_file = None, dk_leftovers = 0\<rparr> []"
  by (simp add: well_stored_def bounded_queue_def stored_def)

lemma demo_bounded: "bounded_queue demo_box \<lparr>dk_file = Some [1], dk_leftovers = 0\<rparr> [demo_item]"
  by (simp add: bounded_queue_def outbox_new_def DEFAULT_OUTBOX_MAX_ENTRIES_def DEFAULT_OUTBOX_MAX_BYTES_def)

lemma demo_full:
  "well_stored demo_box demo_outbox_env \<lparr>dk_file = Some [1], dk_leftovers = 0\<rparr> [demo_item]"
  "well_printed demo_box demo_outbox_env \<lparr>dk_file = Some [1], dk_leftovers = 0\<rparr> [demo_item]"
  by (simp_all add: well_stored_def well_printed_def demo_bounded stored_def printed_def demo_encode)

theorem outbox_refines_queue_witness:
  "refines demo_box demo_outbox_env \<lparr>dk_file = None, dk_leftovers = 0\<rparr> [] (Ok [demo_item])
     (run_outbox_op demo_box demo_outbox_env io_good (Enqueue 0 [] demo_request)
        \<lparr>dk_file = None, dk_leftovers = 0\<rparr>)
   \<and> fst (run_outbox_op demo_box demo_outbox_env io_good (Enqueue 0 [] demo_request)
        \<lparr>dk_file = None, dk_leftovers = 0\<rparr>) = Ok ()"
proof -
  have "queue_op (ob_max_entries demo_box) (Enqueue 0 [] demo_request) [] = Ok [demo_item]"
    by (simp add: demo_item_def outbox_new_def DEFAULT_OUTBOX_MAX_ENTRIES_def)
  moreover have "fits demo_box demo_outbox_env [demo_item]"
    by (simp add: fits_def demo_encode outbox_new_def DEFAULT_OUTBOX_MAX_BYTES_def)
  ultimately show ?thesis
    using outbox_refines_queue [OF demo_empty, of "Enqueue 0 [] demo_request" io_good] by simp
qed

theorem outbox_keeps_messages_witness:
  "queued demo_box demo_outbox_env [] demo_request
     (foldl (outbox_step demo_box demo_outbox_env) \<lparr>dk_file = Some [1], dk_leftovers = 0\<rparr>
        [Op io_good (MarkSent 8), Flush (\<lambda>_. io_good) (\<lambda>_ _ _. Err SendFailed) 5 10])"
proof -
  have "queued demo_box demo_outbox_env [] demo_request \<lparr>dk_file = Some [1], dk_leftovers = 0\<rparr>"
    using demo_full(2) by (auto simp: queued_def demo_item_def)
  moreover have "list_all (\<lambda>event. \<not> acknowledges [] demo_request event)
      [Op io_good (MarkSent 8), Flush (\<lambda>_. io_good) (\<lambda>_ _ _. Err SendFailed) 5 10]"
    by (simp add: demo_request_def)
  ultimately show ?thesis using outbox_keeps_messages [OF demo_codec demo_safe _ _ refl] by blast
qed

theorem flush_delivers_due_witness:
  "\<exists>d'. flush demo_box demo_outbox_env (\<lambda>_. io_good) (\<lambda>_ _ _. Ok undefined) 5 10
       \<lparr>dk_file = Some [1], dk_leftovers = 0\<rparr> = (Ok 1, d') \<and> well_stored demo_box demo_outbox_env d' []"
proof -
  have fit: "fits demo_box demo_outbox_env (filter P [demo_item])" for P
    by (auto simp: fits_def demo_encode outbox_new_def DEFAULT_OUTBOX_MAX_BYTES_def)
  have batch: "[demo_item] = take 10 (filter (\<lambda>i. sint (qm_next_attempt_ms i) \<le> sint (5 :: i64)) [demo_item])"
    by (simp add: demo_item_def)
  have safe: "\<forall>i \<in> set [demo_item]. read_safely demo_outbox_env (qm_request i)"
    using demo_safe by (simp add: demo_item_def)
  from flush_delivers_due [OF demo_codec safe demo_full(1) batch, of "\<lambda>_ _ _. Ok undefined" "\<lambda>_. io_good"] fit
  show ?thesis by simp
qed

theorem retry_backoff_witness:
  "500 \<le> sint (retry_delay 1) \<and> sint (retry_delay 1) \<le> sint (retry_delay 20)
     \<and> sint (retry_delay 20) \<le> 60000"
  using retry_backoff [of 1 20 "[]" 0 demo_item] by simp

end
