(* ===== verification/Rust_Num.thy ===== *)
theory Rust_Num
  imports Rust_Str
begin

text \<open>
  Decimal numbers as the standard library parses them. \<open>str::parse\<close> on an unsigned integer
  takes an optional plus sign and one or more ASCII digits, and refuses a number the type
  cannot hold; \<open>parse_unsigned\<close> takes the size of the type. It inverts \<open>to_string\<close>
  (\<open>parse_unsigned_show\<close>), but accepts more than \<open>to_string\<close> prints: leading zeros and a sign.
\<close>

fun digits_value :: "nat \<Rightarrow> rstr \<Rightarrow> nat option" where
  "digits_value acc [] = Some acc"
| "digits_value acc (c # cs) =
     (if is_ascii_digit c then digits_value (acc * 10 + (c - 0x30)) cs else None)"

definition parse_unsigned :: "nat \<Rightarrow> rstr \<Rightarrow> nat option" where
  "parse_unsigned limit s =
     (let digits = (case s of [] \<Rightarrow> [] | c # cs \<Rightarrow> if c = 0x2B then cs else s) in
      if digits = [] then None
      else case digits_value 0 digits of
             None \<Rightarrow> None
           | Some n \<Rightarrow> if n < limit then Some n else None)"

abbreviation parse_u16 :: "rstr \<Rightarrow> nat option" where "parse_u16 \<equiv> parse_unsigned (2 ^ 16)"
abbreviation parse_u32 :: "rstr \<Rightarrow> nat option" where "parse_u32 \<equiv> parse_unsigned (2 ^ 32)"
abbreviation parse_u64 :: "rstr \<Rightarrow> nat option" where "parse_u64 \<equiv> parse_unsigned (2 ^ 64)"

lemma digits_value_append:
  "digits_value acc (s @ t) = (case digits_value acc s of None \<Rightarrow> None | Some n \<Rightarrow> digits_value n t)"
  by (induction acc s rule: digits_value.induct) auto

lemma digits_value_show: "digits_value 0 (show_nat n) = Some n"
proof (induction n rule: show_nat.induct)
  case (1 n)
  show ?case
  proof (cases "n < 10")
    case True
    then show ?thesis by (simp add: show_nat.simps [of n] is_ascii_digit_def)
  next
    case False
    then have "digits_value 0 (show_nat (n div 10)) = Some (n div 10)" by (rule 1)
    moreover have "n mod 10 < 10" by simp
    ultimately show ?thesis using False
      by (simp add: show_nat.simps [of n] digits_value_append is_ascii_digit_def)
  qed
qed

lemma show_nat_no_char:
  "\<not> is_ascii_digit c \<Longrightarrow> c \<notin> set (show_nat n)"
  using show_nat_digits by blast

lemma parse_unsigned_show [simp]:
  "parse_unsigned limit (show_nat n) = (if n < limit then Some n else None)"
proof (cases "show_nat n")
  case Nil
  then show ?thesis by simp
next
  case (Cons c cs)
  then have "c \<noteq> 0x2B" using show_nat_digits [of c n] by (auto simp: is_ascii_digit_def)
  with Cons digits_value_show [of n] show ?thesis
    by (simp add: parse_unsigned_def Let_def split del: if_split)
qed

lemma parse_unsigned_less: "parse_unsigned limit s = Some n \<Longrightarrow> n < limit"
  by (auto simp: parse_unsigned_def Let_def split: if_splits option.splits)

text \<open>Literal strings are compared as such, without computing their code points.\<close>

lemma lit_eq_iff: "(lit s = lit t) = (s = t)"
proof
  assume "lit s = lit t"
  then have "map (char_of :: nat \<Rightarrow> char) (lit s) = map char_of (lit t)" by simp
  then show "s = t" by (simp add: comp_def)
qed simp

end
