(* ===== verification/Mnemonic.thy ===== *)
theory Mnemonic
  imports Rust_Num Crypto Utf8
begin

text \<open>
  Keys from a mnemonic phrase (\<open>wallet/mnemonic.rs\<close>): derivation paths, and SLIP-0010
  derivation for Ed25519 over HMAC-SHA-512. The word list, the checksum and the seed of BIP-39
  are the \<open>bip39\<close> crate's, HMAC is the \<open>hmac\<close> crate's; both are the fields of a record.
  \<open>Hmac::new_from_slice\<close> takes a key of any length, so its error branch is not a branch here.

  The lemmas say that a derivation path has one normal form, which prints and parses back to its
  indices, and that the state of a derivation determines the whole path, unless HMAC collides.
\<close>

subsection \<open>External functions\<close>

record 'm mnemonic_externs =
  mx_generate :: "nat \<Rightarrow> rstr option"
  mx_parse :: "rstr \<Rightarrow> 'm option"
  mx_seed :: "'m \<Rightarrow> rstr \<Rightarrow> u8 list"
  mx_hmac_sha512 :: "u8 list \<Rightarrow> u8 list \<Rightarrow> u8 list"

definition mnemonic_ok :: "'m mnemonic_externs \<Rightarrow> bool" where
  "mnemonic_ok M \<longleftrightarrow>
     (\<forall>k m. length (mx_hmac_sha512 M k m) = 64)
     \<and> (\<forall>n p. mx_generate M n = Some p \<longrightarrow> mx_parse M (trim p) \<noteq> None)"

datatype mnemonic_error = GenerateMnemonic | ParseMnemonic | UnsupportedWordCount nat
  | PathMustStartWithM rstr | EmptySegment rstr | NotHardened rstr | InvalidIndex rstr
  | IndexTooLarge rstr

subsection \<open>Derivation paths\<close>

definition DEFAULT_DERIVATION_PATH :: rstr where
  "DEFAULT_DERIVATION_PATH = lit ''m''"

definition DEFAULT_MNEMONIC_WORD_COUNT :: nat where
  "DEFAULT_MNEMONIC_WORD_COUNT = 24"

definition is_hardened :: "rstr \<Rightarrow> bool" where
  "is_hardened segment \<longleftrightarrow>
     ends_with segment [0x27] \<or> ends_with segment [0x68] \<or> ends_with segment [0x48]"

fun parse_segments :: "rstr \<Rightarrow> rstr list \<Rightarrow> mnemonic_error + u32 list" where
  "parse_segments path [] = Ok []"
| "parse_segments path (segment # segments) =
     (if segment = [] then Err (EmptySegment path)
      else if \<not> is_hardened segment then Err (NotHardened path)
      else case parse_u32 (butlast segment) of
             None \<Rightarrow> Err (InvalidIndex path)
           | Some index \<Rightarrow>
               if 0x80000000 \<le> index then Err (IndexTooLarge path)
               else bind_result (parse_segments path segments) (\<lambda>indices. Ok (of_nat index # indices)))"

definition parse_derivation_path :: "rstr \<Rightarrow> mnemonic_error + u32 list" where
  "parse_derivation_path path =
     (case split_on 0x2F path of
        [] \<Rightarrow> Err (PathMustStartWithM path)
      | first # segments \<Rightarrow>
          if first = lit ''m'' then parse_segments path segments else Err (PathMustStartWithM path))"

definition path_segments_to_string :: "u32 list \<Rightarrow> rstr" where
  "path_segments_to_string indices =
     (if indices = [] then DEFAULT_DERIVATION_PATH
      else lit ''m'' @ concat (map (\<lambda>index. [0x2F] @ show_nat (unat index) @ [0x27]) indices))"

text \<open>The path the caller asks for: absent or blank is the default.\<close>

definition requested_path :: "rstr option \<Rightarrow> rstr" where
  "requested_path path =
     (case path of
        None \<Rightarrow> DEFAULT_DERIVATION_PATH
      | Some p \<Rightarrow> if trim p = [] then DEFAULT_DERIVATION_PATH else trim p)"

definition normalize_derivation_path :: "rstr option \<Rightarrow> mnemonic_error + rstr" where
  "normalize_derivation_path opt =
     (let path = requested_path opt in
      bind_result (parse_derivation_path path) (\<lambda>_.
      if path = DEFAULT_DERIVATION_PATH then Ok DEFAULT_DERIVATION_PATH
      else bind_result (parse_derivation_path path) (\<lambda>indices.
      Ok (path_segments_to_string indices))))"

subsection \<open>SLIP-0010\<close>

type_synonym slip10_node = "u8 list \<times> u8 list"

definition slip10_master :: "'m mnemonic_externs \<Rightarrow> u8 list \<Rightarrow> slip10_node" where
  "slip10_master M seed =
     (let digest = mx_hmac_sha512 M (utf8 (lit ''ed25519 seed'')) seed in
      (take 32 digest, drop 32 digest))"

definition child_data :: "u8 list \<Rightarrow> u32 \<Rightarrow> u8 list" where
  "child_data parent_secret index = [0] @ parent_secret @ to_be_bytes (index OR 0x80000000)"

definition slip10_child :: "'m mnemonic_externs \<Rightarrow> slip10_node \<Rightarrow> u32 \<Rightarrow> slip10_node" where
  "slip10_child M node index =
     (let digest = mx_hmac_sha512 M (snd node) (child_data (fst node) index) in
      (take 32 digest, drop 32 digest))"

definition slip10_node_at :: "'m mnemonic_externs \<Rightarrow> u8 list \<Rightarrow> u32 list \<Rightarrow> slip10_node" where
  "slip10_node_at M seed indices = foldl (slip10_child M) (slip10_master M seed) indices"

definition derive_slip10_ed25519_secret ::
  "'m mnemonic_externs \<Rightarrow> u8 list \<Rightarrow> rstr \<Rightarrow> mnemonic_error + u8 list" where
  "derive_slip10_ed25519_secret M seed path =
     bind_result (parse_derivation_path path) (\<lambda>indices. Ok (fst (slip10_node_at M seed indices)))"

subsection \<open>Keys\<close>

record derived_key =
  dk_keypair :: keypair
  dk_path :: rstr

record generated_key =
  gk_mnemonic :: rstr
  gk_keypair :: keypair
  gk_path :: rstr
  gk_word_count :: nat

definition derive_keypair_from_mnemonic_phrase ::
  "'m mnemonic_externs \<Rightarrow> rstr \<Rightarrow> rstr \<Rightarrow> rstr option \<Rightarrow> mnemonic_error + derived_key" where
  "derive_keypair_from_mnemonic_phrase M phrase passphrase path =
     bind_result (ok_or (mx_parse M (trim phrase)) ParseMnemonic) (\<lambda>mnemonic.
     bind_result (normalize_derivation_path path) (\<lambda>normalized.
     bind_result (derive_slip10_ed25519_secret M (mx_seed M mnemonic passphrase) normalized) (\<lambda>secret.
     Ok \<lparr>dk_keypair = from_secret_bytes secret, dk_path = normalized\<rparr>)))"

definition validate_word_count :: "nat \<Rightarrow> mnemonic_error + unit" where
  "validate_word_count n =
     (if n \<in> {12, 15, 18, 21, 24} then Ok () else Err (UnsupportedWordCount n))"

definition generate_mnemonic_key ::
  "'m mnemonic_externs \<Rightarrow> nat \<Rightarrow> rstr \<Rightarrow> rstr option \<Rightarrow> mnemonic_error + generated_key" where
  "generate_mnemonic_key M word_count passphrase path =
     bind_result (validate_word_count word_count) (\<lambda>_.
     bind_result (ok_or (mx_generate M word_count) GenerateMnemonic) (\<lambda>phrase.
     bind_result (derive_keypair_from_mnemonic_phrase M phrase passphrase path) (\<lambda>derived.
     Ok \<lparr>gk_mnemonic = phrase, gk_keypair = dk_keypair derived, gk_path = dk_path derived,
         gk_word_count = word_count\<rparr>)))"

subsection \<open>Paths\<close>

definition hardenable :: "u32 \<Rightarrow> bool" where
  "hardenable index \<longleftrightarrow> unat index < 0x80000000"

abbreviation segment_text :: "u32 \<Rightarrow> rstr" where
  "segment_text index \<equiv> show_nat (unat index) @ [0x27]"

lemma segment_text_hardened [simp]: "is_hardened (s @ [0x27])"
  by (simp add: is_hardened_def ends_with_def starts_with_def)

lemma unat_u32_less: "unat (x :: u32) < 2 ^ 32"
  using unsigned_less [of x, where ?'a = nat] by simp

lemma parse_segment_texts:
  "list_all hardenable indices \<Longrightarrow> parse_segments path (map segment_text indices) = Ok indices"
proof (induction indices)
  case (Cons index indices)
  then have "parse_u32 (show_nat (unat index)) = Some (unat index)" "\<not> 0x80000000 \<le> unat index"
    using unat_u32_less [of index] by (simp_all add: hardenable_def)
  with Cons show ?case by simp
qed simp

lemma join_Cons: "join_with sep (s # ts) = s @ concat (map (\<lambda>t. sep @ t) ts)"
  by (induction ts arbitrary: s) simp_all

lemma path_text_eq:
  "path_segments_to_string indices = join_with [0x2F] (lit ''m'' # map segment_text indices)"
  by (simp add: path_segments_to_string_def DEFAULT_DERIVATION_PATH_def join_Cons comp_def)

lemma segments_clean: "s \<in> set (lit ''m'' # map segment_text indices) \<Longrightarrow> 0x2F \<notin> set s"
  using show_nat_no_char [of "0x2F"] by (auto simp: is_ascii_digit_def)

lemma split_path_text:
  "split_on 0x2F (path_segments_to_string indices) = lit ''m'' # map segment_text indices"
  unfolding path_text_eq by (rule split_join) (use segments_clean in auto)

lemma parse_path_text:
  "list_all hardenable indices
    \<Longrightarrow> parse_derivation_path (path_segments_to_string indices) = Ok indices"
  by (simp add: parse_derivation_path_def split_path_text parse_segment_texts)

lemma parse_segments_hardenable:
  "parse_segments path segments = Ok indices \<Longrightarrow> list_all hardenable indices"
proof (induction path segments arbitrary: indices rule: parse_segments.induct)
  case (2 path segment segments)
  then show ?case
    by (auto simp: hardenable_def unsigned_of_nat take_bit_nat_eq_self split: if_splits option.splits
        dest: parse_unsigned_less)
qed simp

lemma parse_path_hardenable: "parse_derivation_path path = Ok indices \<Longrightarrow> list_all hardenable indices"
  by (auto simp: parse_derivation_path_def parse_segments_hardenable split: list.splits if_splits)

lemma parse_default: "parse_derivation_path DEFAULT_DERIVATION_PATH = Ok []"
  using parse_path_text [of "[]"] by (simp add: path_segments_to_string_def)

lemma normalize_eq:
  "normalize_derivation_path path = map_sum id path_segments_to_string (parse_derivation_path (requested_path path))"
proof (cases "requested_path path = DEFAULT_DERIVATION_PATH")
  case True
  then show ?thesis
    by (simp add: normalize_derivation_path_def parse_default path_segments_to_string_def)
next
  case False
  then show ?thesis
    by (cases "parse_derivation_path (requested_path path)") (simp_all add: normalize_derivation_path_def)
qed

lemma path_text_trim: "requested_path (Some (path_segments_to_string indices)) = path_segments_to_string indices"
proof -
  let ?t = "path_segments_to_string indices"
  have m: "\<exists>r. ?t = 0x6D # r"
    by (simp add: path_segments_to_string_def DEFAULT_DERIVATION_PATH_def)
  have "last ?t = 0x6D \<or> last ?t = 0x27"
    by (cases indices rule: rev_cases)
      (simp_all add: path_segments_to_string_def DEFAULT_DERIVATION_PATH_def)
  then have "\<not> is_whitespace (last ?t)" by (auto simp: is_whitespace_def)
  moreover have "\<not> is_whitespace (hd ?t)" using m by (auto simp: is_whitespace_def)
  ultimately have "trim ?t = ?t" by (simp add: trim_id)
  with m show ?thesis by (auto simp: requested_path_def)
qed

subsection \<open>Derivation\<close>

text \<open>The HMAC inputs a derivation uses, last first.\<close>

fun derivation_inputs :: "'m mnemonic_externs \<Rightarrow> u8 list \<Rightarrow> u32 list \<Rightarrow> (u8 list \<times> u8 list) list" where
  "derivation_inputs M seed [] = [(utf8 (lit ''ed25519 seed''), seed)]"
| "derivation_inputs M seed (index # reversed) =
     (snd (slip10_node_at M seed (rev reversed)),
      child_data (fst (slip10_node_at M seed (rev reversed))) index)
     # derivation_inputs M seed reversed"

abbreviation secret_of :: "'m mnemonic_externs \<Rightarrow> u8 list \<times> u8 list \<Rightarrow> u8 list" where
  "secret_of M \<equiv> \<lambda>(key, message). take 32 (mx_hmac_sha512 M key message)"

lemma node_at_secret:
  "fst (slip10_node_at M seed (rev reversed)) = secret_of M (hd (derivation_inputs M seed reversed))"
  by (cases reversed) (simp_all add: slip10_node_at_def slip10_master_def slip10_child_def Let_def)

lemma node_at_lengths:
  assumes "mnemonic_ok M"
  shows "length (fst (slip10_node_at M seed indices)) = 32"
    and "length (snd (slip10_node_at M seed indices)) = 32"
proof -
  have "length (fst (slip10_node_at M seed (rev is))) = 32 \<and> length (snd (slip10_node_at M seed (rev is))) = 32" for "is"
    using assms by (cases "is")
      (simp_all add: slip10_node_at_def slip10_master_def slip10_child_def Let_def mnemonic_ok_def)
  from this [of "rev indices"] show "length (fst (slip10_node_at M seed indices)) = 32"
    and "length (snd (slip10_node_at M seed indices)) = 32" by simp_all
qed

lemma hardened_inj:
  assumes "hardenable i" "hardenable j" "i OR 0x80000000 = (j OR 0x80000000 :: u32)"
  shows "i = j"
proof -
  have low: "(x OR 0x80000000) AND 0x7FFFFFFF = x" if "hardenable x" for x :: u32
  proof -
    have "x AND 0x7FFFFFFF = take_bit 31 x"
      by (simp add: take_bit_eq_mask mask_eq_exp_minus_1)
    also have "\<dots> = x"
      using that by (simp add: hardenable_def word_unat_eq_iff unsigned_take_bit_eq take_bit_nat_eq_self)
    finally have "x AND 0x7FFFFFFF = x" .
    then show ?thesis by (simp add: bit.conj_disj_distrib2)
  qed
  with assms show ?thesis by metis
qed

lemma child_data_inj:
  assumes "length s = 32" "length t = 32" "hardenable i" "hardenable j"
    and "child_data s i = child_data t j"
  shows "s = t \<and> i = j"
  using assms hardened_inj [OF assms(3,4)] by (simp add: child_data_def to_be_bytes_inj)

lemma hd_inputs:
  "hd (derivation_inputs M seed idx) \<in> set (derivation_inputs M seed idx)"
  by (cases idx) simp_all

lemma derivation_inj:
  assumes M: "mnemonic_ok M"
    and ok: "list_all hardenable idx" "list_all hardenable js"
    and free: "inj_on (secret_of M) (set (derivation_inputs M seed idx) \<union> set (derivation_inputs M seed' js))"
    and eq: "secret_of M (hd (derivation_inputs M seed idx)) = secret_of M (hd (derivation_inputs M seed' js))"
  shows "seed = seed' \<and> idx = js"
  using ok free eq
proof (induction idx arbitrary: js)
  case Nil
  from inj_onD [OF Nil(3,4)] hd_inputs
  have "hd (derivation_inputs M seed []) = hd (derivation_inputs M seed' js)" by blast
  then show ?case
  proof (cases js)
    case (Cons j js')
    with \<open>hd (derivation_inputs M seed []) = hd (derivation_inputs M seed' js)\<close>
    have "utf8 (lit ''ed25519 seed'') = snd (slip10_node_at M seed' (rev js'))" by simp
    then have "length (utf8 (lit ''ed25519 seed'')) = 32" by (simp add: node_at_lengths(2) [OF M])
    then show ?thesis by (simp add: utf8_ascii)
  qed simp
next
  case (Cons i idx)
  note lengths = node_at_lengths [OF M]
  from inj_onD [OF Cons.prems(3,4)] hd_inputs
  have hd_eq: "hd (derivation_inputs M seed (i # idx)) = hd (derivation_inputs M seed' js)" by blast
  show ?case
  proof (cases js)
    case Nil
    with hd_eq lengths(2) [of seed "rev idx"] show ?thesis by (auto simp: utf8_ascii)
  next
    case (Cons j js')
    with hd_eq have "child_data (fst (slip10_node_at M seed (rev idx))) i
        = child_data (fst (slip10_node_at M seed' (rev js'))) j" by simp
    with child_data_inj lengths(1) Cons Cons.prems(1,2)
    have parent: "fst (slip10_node_at M seed (rev idx)) = fst (slip10_node_at M seed' (rev js'))" "i = j"
      by (metis list.pred_inject(2))+
    moreover have "inj_on (secret_of M) (set (derivation_inputs M seed idx) \<union> set (derivation_inputs M seed' js'))"
      by (rule inj_on_subset [OF Cons.prems(3)]) (auto simp: Cons)
    ultimately have "seed = seed' \<and> idx = js'"
      using Cons.IH [of js'] Cons.prems(1,2) Cons by (simp add: node_at_secret)
    with parent Cons show ?thesis by simp
  qed
qed

lemma derive_secret_eq_Ok:
  "derive_slip10_ed25519_secret M seed path = Ok secret
   \<longleftrightarrow> (\<exists>idx. parse_derivation_path path = Ok idx \<and> secret = secret_of M (hd (derivation_inputs M seed (rev idx))))"
  using node_at_secret [of M seed "rev _"] by (auto simp: derive_slip10_ed25519_secret_def)

text \<open>The HMAC inputs that derive the secret at a path.\<close>

definition path_inputs :: "'m mnemonic_externs \<Rightarrow> u8 list \<Rightarrow> rstr \<Rightarrow> (u8 list \<times> u8 list) set" where
  "path_inputs M seed path =
     (case parse_derivation_path path of
        Err e \<Rightarrow> {} | Ok idx \<Rightarrow> set (derivation_inputs M seed (rev idx)))"

lemma derivation_path_canonical:
  assumes "normalize_derivation_path path = Ok q"
  shows "normalize_derivation_path (Some q) = Ok q"
    and "parse_derivation_path q = parse_derivation_path (requested_path path)"
    and "normalize_derivation_path path' = Ok q
       \<longleftrightarrow> parse_derivation_path (requested_path path') = parse_derivation_path q"
proof -
  from assms obtain idx where idx: "parse_derivation_path (requested_path path) = Ok idx"
    "q = path_segments_to_string idx"
    by (cases "parse_derivation_path (requested_path path)") (simp_all add: normalize_eq)
  note hard = parse_path_hardenable [OF idx(1)]
  then have q: "parse_derivation_path q = Ok idx" by (simp add: idx(2) parse_path_text)
  then show "parse_derivation_path q = parse_derivation_path (requested_path path)"
    by (simp add: idx(1))
  show "normalize_derivation_path (Some q) = Ok q"
    unfolding normalize_eq using q by (simp add: path_text_trim idx(2))
  show "normalize_derivation_path path' = Ok q
       \<longleftrightarrow> parse_derivation_path (requested_path path') = parse_derivation_path q"
  proof (cases "parse_derivation_path (requested_path path')")
    case (Inr js)
    then have "parse_derivation_path (path_segments_to_string js) = Ok js"
      using parse_path_hardenable parse_path_text by blast
    with Inr q show ?thesis by (auto simp: normalize_eq idx(2))
  qed (simp add: normalize_eq q)
qed

subsection \<open>Properties\<close>

text \<open>(C18) A generated key is recovered from what is shown to the user: the phrase, the passphrase
  and the printed path give the same key pair, and so does every path with the same indices. Its
  secret has 32 bytes, and the number of words is one BIP-39 allows.\<close>

theorem mnemonic_recovers_key:
  assumes "mnemonic_ok M" "generate_mnemonic_key M n passphrase path = Ok g"
    and "parse_derivation_path (requested_path path') = parse_derivation_path (requested_path path)"
  shows "derive_keypair_from_mnemonic_phrase M (gk_mnemonic g) passphrase (Some (gk_path g))
      = Ok \<lparr>dk_keypair = gk_keypair g, dk_path = gk_path g\<rparr>
    \<and> derive_keypair_from_mnemonic_phrase M (gk_mnemonic g) passphrase path'
      = Ok \<lparr>dk_keypair = gk_keypair g, dk_path = gk_path g\<rparr>
    \<and> wf_keypair (gk_keypair g) \<and> gk_word_count g = n \<and> n \<in> {12, 15, 18, 21, 24}"
proof -
  from assms(2) obtain d where d:
    "derive_keypair_from_mnemonic_phrase M (gk_mnemonic g) passphrase path = Ok d"
    "gk_keypair g = dk_keypair d" "gk_path g = dk_path d"
    and n: "gk_word_count g = n" "n \<in> {12, 15, 18, 21, 24}"
    by (auto simp: generate_mnemonic_key_def validate_word_count_def split: if_splits)
  from d(1) have q: "normalize_derivation_path path = Ok (dk_path d)"
    by (auto simp: derive_keypair_from_mnemonic_phrase_def)
  note canonical = derivation_path_canonical [OF q]
  with assms(3) have q': "normalize_derivation_path path' = Ok (dk_path d)" by simp
  from d(1) node_at_lengths(1) [OF assms(1)] have "wf_keypair (dk_keypair d)"
    by (auto simp: derive_keypair_from_mnemonic_phrase_def derive_slip10_ed25519_secret_def
        wf_keypair_def from_secret_bytes_def)
  moreover have "derive_keypair_from_mnemonic_phrase M (gk_mnemonic g) passphrase p = Ok d"
    if "normalize_derivation_path p = Ok (dk_path d)" for p
    using d(1) q that by (auto simp: derive_keypair_from_mnemonic_phrase_def)
  ultimately show ?thesis using canonical(1) q' d(2,3) n by simp
qed

text \<open>(C19) Keys at different paths, or of different seeds, are different: two derived secrets are
  equal exactly when the seeds and the indices of the paths are, unless HMAC-SHA-512 collides on
  the inputs the two derivations use.\<close>

theorem derived_secrets_isolated:
  assumes "mnemonic_ok M"
    and "derive_slip10_ed25519_secret M seed path = Ok secret"
    and "derive_slip10_ed25519_secret M seed' path' = Ok secret'"
    and "inj_on (secret_of M) (path_inputs M seed path \<union> path_inputs M seed' path')"
  shows "secret = secret' \<longleftrightarrow> seed = seed' \<and> parse_derivation_path path = parse_derivation_path path'"
proof -
  from assms(2,3) obtain idx jdx where idx: "parse_derivation_path path = Ok idx"
      "secret = secret_of M (hd (derivation_inputs M seed (rev idx)))"
    and jdx: "parse_derivation_path path' = Ok jdx"
      "secret' = secret_of M (hd (derivation_inputs M seed' (rev jdx)))"
    unfolding derive_secret_eq_Ok by blast
  have "seed = seed' \<and> rev idx = rev jdx" if "secret = secret'"
    by (rule derivation_inj [OF assms(1)])
      (use that assms(4) idx jdx parse_path_hardenable in \<open>auto simp: path_inputs_def list_all_rev\<close>)
  with idx jdx show ?thesis by auto
qed

subsection \<open>Witnesses\<close>

definition demo_mnemonic :: "rstr mnemonic_externs" where
  "demo_mnemonic =
     \<lparr>mx_generate = (\<lambda>_. Some (lit ''word'')), mx_parse = Some, mx_seed = (\<lambda>_ _. [2]),
      mx_hmac_sha512 = (\<lambda>key message. replicate 64 (if message = [] then 0 else last message))\<rparr>"

lemma demo_mnemonic_ok: "mnemonic_ok demo_mnemonic"
  by (simp add: mnemonic_ok_def demo_mnemonic_def)

lemma demo_paths:
  "parse_derivation_path (lit ''m/0h'') = Ok [0]" "parse_derivation_path (lit ''m/1h'') = Ok [1]"
  "requested_path (Some (lit '' m/01H '')) = lit ''m/01H''"
  "parse_derivation_path (lit ''m/01H'') = Ok [1]" "requested_path (Some (lit ''m/1h'')) = lit ''m/1h''"
  by (simp_all add: parse_derivation_path_def requested_path_def trim_def trim_start_def
      is_whitespace_def is_hardened_def ends_with_def starts_with_def parse_unsigned_def
      is_ascii_digit_def)

lemma last_be_bytes: "last (to_be_bytes (w :: u32)) = of_nat (unat w mod 256)"
proof -
  have "le_bytes 4 n = of_nat (n mod 256) # le_bytes 3 (n div 256)" for n
    using le_bytes.simps(2) [of 3 n] by simp
  then show ?thesis by (simp add: to_be_bytes_def to_le_bytes_def)
qed

lemma last_child_data: "last (child_data s i) = of_nat (unat (i OR 0x80000000) mod 256)"
proof -
  have "to_be_bytes (i OR 0x80000000) \<noteq> []" by (simp flip: length_0_conv)
  then show ?thesis by (simp add: child_data_def last_be_bytes)
qed

lemma child_data_not_Nil: "child_data s i \<noteq> []"
  by (simp add: child_data_def)

lemma demo_node:
  "fst (slip10_node_at demo_mnemonic [2] []) = replicate 32 2"
  "fst (slip10_node_at demo_mnemonic [2] [i]) = replicate 32 (of_nat (unat (i OR 0x80000000) mod 256))"
  by (simp_all add: slip10_node_at_def slip10_master_def slip10_child_def demo_mnemonic_def
      child_data_not_Nil last_child_data)

theorem derived_secrets_isolated_witness:
  "derive_slip10_ed25519_secret demo_mnemonic [2] (lit ''m/0h'') = Ok (replicate 32 0)
   \<and> derive_slip10_ed25519_secret demo_mnemonic [2] (lit ''m/1h'') = Ok (replicate 32 1)
   \<and> replicate 32 (0 :: u8) \<noteq> replicate 32 1"
proof -
  have zero: "derive_slip10_ed25519_secret demo_mnemonic [2] (lit ''m/0h'') = Ok (replicate 32 0)"
    and one: "derive_slip10_ed25519_secret demo_mnemonic [2] (lit ''m/1h'') = Ok (replicate 32 1)"
    using demo_paths by (simp_all add: derive_slip10_ed25519_secret_def demo_node)
  have free: "inj_on (secret_of demo_mnemonic)
      (path_inputs demo_mnemonic [2] (lit ''m/0h'') \<union> path_inputs demo_mnemonic [2] (lit ''m/1h''))"
    using demo_paths
    by (auto simp: path_inputs_def inj_on_def demo_mnemonic_def child_data_not_Nil last_child_data
        replicate_eq_replicate)
  show ?thesis
    using derived_secrets_isolated [OF demo_mnemonic_ok zero one free] zero one demo_paths by simp
qed

lemma demo_fields:
  "mx_generate demo_mnemonic n = Some (lit ''word'')" "mx_parse demo_mnemonic p = Some p"
  "mx_seed demo_mnemonic m p = [2]"
  by (simp_all add: demo_mnemonic_def)

lemma demo_generate:
  "generate_mnemonic_key demo_mnemonic 12 [] (Some (lit ''m/1h''))
   = Ok \<lparr>gk_mnemonic = lit ''word'', gk_keypair = Keypair (replicate 32 1),
         gk_path = path_segments_to_string [1], gk_word_count = 12\<rparr>"
proof -
  have "parse_derivation_path (path_segments_to_string [1]) = Ok [1]"
    by (rule parse_path_text) (simp add: hardenable_def)
  then show ?thesis using demo_paths
    by (simp add: generate_mnemonic_key_def validate_word_count_def normalize_eq
        derive_keypair_from_mnemonic_phrase_def derive_slip10_ed25519_secret_def
        from_secret_bytes_def demo_fields demo_node)
qed

theorem mnemonic_recovers_key_witness:
  "derive_keypair_from_mnemonic_phrase demo_mnemonic (lit ''word'') [] (Some (lit '' m/01H ''))
     = Ok \<lparr>dk_keypair = Keypair (replicate 32 1), dk_path = path_segments_to_string [1]\<rparr>"
  using mnemonic_recovers_key [OF demo_mnemonic_ok demo_generate, of "Some (lit '' m/01H '')"] demo_paths
  by simp

end
