(* ===== verification/Json.thy ===== *)
theory Json
  imports Rust_Num
begin

text \<open>
  JSON values as \<open>serde_json::Value\<close> holds them: the fields of an object have distinct names, and
  a number is an integer or a double (by its bit pattern). Parsing and printing JSON text is the
  \<open>serde_json\<close> crate's; what the program does with values is written over this type.
\<close>

datatype json = JNull | JBool bool | JInt int | JFloat f64_bits | JStr rstr
  | JArr "json list" | JObj "(rstr \<times> json) list"

text \<open>\<open>Value::get\<close> on a name is nothing for a value that is no object.\<close>

definition json_get :: "json \<Rightarrow> rstr \<Rightarrow> json option" where
  "json_get v k = (case v of JObj fields \<Rightarrow> map_of fields k | _ \<Rightarrow> None)"

definition json_as_str :: "json \<Rightarrow> rstr option" where
  "json_as_str v = (case v of JStr s \<Rightarrow> Some s | _ \<Rightarrow> None)"

definition as_u64 :: "json \<Rightarrow> u64 option" where
  "as_u64 v = (case v of JInt n \<Rightarrow> if 0 \<le> n \<and> n < 2 ^ 64 then Some (of_int n) else None | _ \<Rightarrow> None)"

definition as_bool :: "json \<Rightarrow> bool option" where
  "as_bool v = (case v of JBool b \<Rightarrow> Some b | _ \<Rightarrow> None)"

definition as_array :: "json \<Rightarrow> json list option" where
  "as_array v = (case v of JArr vs \<Rightarrow> Some vs | _ \<Rightarrow> None)"

definition as_object :: "json \<Rightarrow> (rstr \<times> json) list option" where
  "as_object v = (case v of JObj fields \<Rightarrow> Some fields | _ \<Rightarrow> None)"

text \<open>A byte sequence is an array of numbers that fit a byte.\<close>

definition json_of_bytes :: "u8 list \<Rightarrow> json" where
  "json_of_bytes bs = JArr (map (\<lambda>b. JInt (uint b)) bs)"

fun bytes_of_jsons :: "json list \<Rightarrow> u8 list option" where
  "bytes_of_jsons [] = Some []"
| "bytes_of_jsons (v # vs) =
     (case v of
        JInt n \<Rightarrow> if 0 \<le> n \<and> n < 256 then map_option ((#) (of_int n)) (bytes_of_jsons vs) else None
      | _ \<Rightarrow> None)"

definition json_to_bytes :: "json \<Rightarrow> u8 list option" where
  "json_to_bytes v = (case v of JArr vs \<Rightarrow> bytes_of_jsons vs | _ \<Rightarrow> None)"

lemma map_of_field:
  "map_of [] x = None"
  "map_of ((k, v) # ps) x = (if k = x then Some v else map_of ps x)"
  by simp_all

lemma map_of_fields_append:
  "map_of (ps @ qs) x = (case map_of ps x of None \<Rightarrow> map_of qs x | Some v \<Rightarrow> Some v)"
  by (simp add: map_add_def)

lemma json_get_JObj [simp]: "json_get (JObj fields) k = map_of fields k"
  by (simp add: json_get_def)

lemma json_as_str_JStr [simp]: "json_as_str (JStr s) = Some s"
  by (simp add: json_as_str_def)

lemma as_u64_JInt [simp]: "as_u64 (JInt (uint (w :: u64))) = Some w"
  using uint_bounded [of w] by (simp add: as_u64_def)

lemma as_object_JObj [simp]: "as_object (JObj fields) = Some fields"
  by (simp add: as_object_def)

lemma as_array_JArr [simp]: "as_array (JArr vs) = Some vs"
  by (simp add: as_array_def)

lemma json_bytes_roundtrip [simp]: "json_to_bytes (json_of_bytes bs) = Some bs"
proof -
  have "bytes_of_jsons (map (\<lambda>b. JInt (uint b)) bs) = Some bs"
  proof (induction bs)
    case (Cons b bs)
    with uint_bounded [of b] show ?case by simp
  qed simp
  then show ?thesis by (simp add: json_to_bytes_def json_of_bytes_def)
qed

end
