(* ===== verification/Keystore.thy ===== *)
theory Keystore
  imports Json Crypto Utf8
begin

text \<open>
  The wallet's keystore (\<open>wallet/keystore.rs\<close>): a list of entries, each holding one secret key
  sealed under a password, and its JSON file.

  Argon2id, XChaCha20-Poly1305 and JSON text are third-party code, the fields of a record; random
  salts and nonces, fresh keys and the clock are arguments of the operations that draw them.
  An abstract key ring (a map from addresses to key, password and label) says what the keystore is
  for: every operation changes the ring it stands for as the same operation on the map, and
  unlocking succeeds exactly with the password the ring holds.
\<close>

subsection \<open>External functions\<close>

record keystore_externs =
  kx_argon2 :: "nat \<Rightarrow> nat \<Rightarrow> nat \<Rightarrow> nat \<Rightarrow> u8 list \<Rightarrow> u8 list \<Rightarrow> u8 list option"
  kx_encrypt :: "u8 list \<Rightarrow> u8 list \<Rightarrow> u8 list \<Rightarrow> u8 list \<Rightarrow> u8 list option"
  kx_decrypt :: "u8 list \<Rightarrow> u8 list \<Rightarrow> u8 list \<Rightarrow> u8 list \<Rightarrow> u8 list option"
  kx_print_json :: "json \<Rightarrow> rstr option"
  kx_parse_json :: "rstr \<Rightarrow> json option"

text \<open>The cipher's documented behaviour: with a key of 32 bytes and a nonce of 24 it encrypts any
  message, decrypts what it encrypted, and rejects it under another key.\<close>

definition cipher_ok :: "keystore_externs \<Rightarrow> bool" where
  "cipher_ok K \<longleftrightarrow>
     (\<forall>k n a m. length k = 32 \<longrightarrow> length n = 24 \<longrightarrow>
        (\<exists>c. kx_encrypt K k n a m = Some c \<and> kx_decrypt K k n a c = Some m
           \<and> (\<forall>k'. k' \<noteq> k \<longrightarrow> kx_decrypt K k' n a c = None)))"

text \<open>The derivation succeeds with a key of the length asked for, and separates the passwords of
  a given set.\<close>

definition kdf_ok :: "keystore_externs \<Rightarrow> rstr set \<Rightarrow> bool" where
  "kdf_ok K P \<longleftrightarrow>
     (\<forall>p salt. \<exists>k. kx_argon2 K (64 * 1024) 3 1 32 (utf8 p) salt = Some k \<and> length k = 32)
     \<and> (\<forall>salt. inj_on (\<lambda>p. kx_argon2 K (64 * 1024) 3 1 32 (utf8 p) salt) P)"

subsection \<open>Entries\<close>

datatype kdf_type = Argon2id
datatype cipher_type = XChaCha20Poly1305
datatype entry_origin = Generated | RawSecretFile | Pkcs8Pem | FromMnemonic

record keystore_entry =
  ke_address :: address
  ke_encrypted_key :: "u8 list"
  ke_salt :: "u8 list"
  ke_nonce :: "u8 list option"
  ke_created_at :: u64
  ke_label :: rstr
  ke_kdf :: kdf_type
  ke_cipher :: cipher_type
  ke_origin :: entry_origin
  ke_derivation_path :: "rstr option"

record keystore =
  ks_entries :: "keystore_entry list"
  ks_path :: "rstr option"

record password_change =
  pc_kdf_before :: kdf_type
  pc_kdf_after :: kdf_type
  pc_cipher_before :: cipher_type
  pc_cipher_after :: cipher_type
  pc_password_changed :: bool

datatype shape_error = NotAnObject | LegacyCheckHash | MissingOrigin | UnsupportedOrigin
  | MissingKdf | UnsupportedKdf | MissingCipher | UnsupportedCipher

datatype keystore_error = AddressExists address | AddressNotFound address | KdfFailed | EncryptFailed
  | MissingNonce address | InvalidNonceLength address nat | WrongPasswordOrCorrupt
  | InvalidSecretLength address nat | AddressMismatch | CannotRead | CannotWrite | BadJson
  | NotAnArray | BadShape nat shape_error

definition keystore_new :: keystore where
  "keystore_new = \<lparr>ks_entries = [], ks_path = None\<rparr>"

definition validate_current_format :: "keystore_entry \<Rightarrow> keystore_error + unit" where
  "validate_current_format e =
     (case ke_nonce e of
        None \<Rightarrow> Err (MissingNonce (ke_address e))
      | Some nonce \<Rightarrow>
          if length nonce \<noteq> 24 then Err (InvalidNonceLength (ke_address e) (length nonce)) else Ok ())"

definition derive_key_argon2id ::
  "keystore_externs \<Rightarrow> rstr \<Rightarrow> u8 list \<Rightarrow> keystore_error + u8 list" where
  "derive_key_argon2id K password salt =
     ok_or (kx_argon2 K (64 * 1024) 3 1 32 (utf8 password) salt) KdfFailed"

definition keystore_aad :: "externs \<Rightarrow> address \<Rightarrow> rstr" where
  "keystore_aad X a = lit ''zincha-keystore:v2:'' @ addr_to_hex X a"

definition build_current_entry ::
  "externs \<Rightarrow> keystore_externs \<Rightarrow> u8 list \<Rightarrow> u8 list \<Rightarrow> keypair \<Rightarrow> rstr \<Rightarrow> rstr \<Rightarrow> u64 \<Rightarrow> entry_origin
    \<Rightarrow> rstr option \<Rightarrow> keystore_error + keystore_entry" where
  "build_current_entry X K salt nonce kp password label created_at origin path =
     bind_result (derive_key_argon2id K password salt) (\<lambda>key.
     bind_result (ok_or (kx_encrypt K key nonce (utf8 (keystore_aad X (kp_address X kp))) (secret_bytes kp))
       EncryptFailed) (\<lambda>encrypted.
     Ok \<lparr>ke_address = kp_address X kp, ke_encrypted_key = encrypted, ke_salt = salt,
         ke_nonce = Some nonce, ke_created_at = created_at, ke_label = label, ke_kdf = Argon2id,
         ke_cipher = XChaCha20Poly1305, ke_origin = origin, ke_derivation_path = path\<rparr>))"

subsection \<open>Operations\<close>

definition entry_of :: "keystore \<Rightarrow> address \<Rightarrow> keystore_entry option" where
  "entry_of s a = find (\<lambda>e. ke_address e = a) (ks_entries s)"

definition import_key_with_origin ::
  "externs \<Rightarrow> keystore_externs \<Rightarrow> u64 \<Rightarrow> u8 list \<Rightarrow> u8 list \<Rightarrow> keystore \<Rightarrow> keypair \<Rightarrow> rstr \<Rightarrow> rstr
    \<Rightarrow> entry_origin \<Rightarrow> rstr option \<Rightarrow> keystore \<times> (keystore_error + unit)" where
  "import_key_with_origin X K now salt nonce s kp password label origin path =
     (if entry_of s (kp_address X kp) \<noteq> None then (s, Err (AddressExists (kp_address X kp)))
      else case build_current_entry X K salt nonce kp password label now origin path of
             Err e \<Rightarrow> (s, Err e)
           | Ok entry \<Rightarrow> (s\<lparr>ks_entries := ks_entries s @ [entry]\<rparr>, Ok ()))"

definition import_key ::
  "externs \<Rightarrow> keystore_externs \<Rightarrow> u64 \<Rightarrow> u8 list \<Rightarrow> u8 list \<Rightarrow> keystore \<Rightarrow> keypair \<Rightarrow> rstr \<Rightarrow> rstr
    \<Rightarrow> keystore \<times> (keystore_error + unit)" where
  "import_key X K now salt nonce s kp password label =
     import_key_with_origin X K now salt nonce s kp password label RawSecretFile None"

definition create_key ::
  "externs \<Rightarrow> keystore_externs \<Rightarrow> u64 \<Rightarrow> u8 list \<Rightarrow> u8 list \<Rightarrow> keypair \<Rightarrow> keystore \<Rightarrow> rstr \<Rightarrow> rstr
    \<Rightarrow> keystore \<times> (keystore_error + address)" where
  "create_key X K now salt nonce kp s password label =
     (case import_key_with_origin X K now salt nonce s kp password label Generated None of
        (s', Err e) \<Rightarrow> (s', Err e)
      | (s', Ok _) \<Rightarrow> (s', Ok (kp_address X kp)))"

definition unlock ::
  "externs \<Rightarrow> keystore_externs \<Rightarrow> keystore \<Rightarrow> address \<Rightarrow> rstr \<Rightarrow> keystore_error + keypair" where
  "unlock X K s a password =
     bind_result (ok_or (find (\<lambda>e. ke_address e = a) (ks_entries s)) (AddressNotFound a)) (\<lambda>entry.
     bind_result (validate_current_format entry) (\<lambda>_.
     bind_result (derive_key_argon2id K password (ke_salt entry)) (\<lambda>key.
     bind_result (ok_or (ke_nonce entry) (MissingNonce a)) (\<lambda>nonce.
     if length nonce \<noteq> 24 then Err (InvalidNonceLength a (length nonce))
     else bind_result (ok_or (kx_decrypt K key nonce (utf8 (keystore_aad X a)) (ke_encrypted_key entry))
       WrongPasswordOrCorrupt) (\<lambda>decrypted.
     if length decrypted \<noteq> 32 then Err (InvalidSecretLength a (length decrypted))
     else if kp_address X (from_secret_bytes decrypted) \<noteq> a then Err AddressMismatch
     else Ok (from_secret_bytes decrypted))))))"

text \<open>\<open>iter_mut().find()\<close> and an assignment: the first entry of the address.\<close>

fun update_entry :: "address \<Rightarrow> (keystore_entry \<Rightarrow> keystore_entry) \<Rightarrow> keystore_entry list \<Rightarrow> keystore_entry list" where
  "update_entry a f [] = []"
| "update_entry a f (e # es) = (if ke_address e = a then f e # es else e # update_entry a f es)"

definition relabel :: "keystore \<Rightarrow> address \<Rightarrow> rstr \<Rightarrow> keystore \<times> (keystore_error + unit)" where
  "relabel s a label =
     (case entry_of s a of
        None \<Rightarrow> (s, Err (AddressNotFound a))
      | Some _ \<Rightarrow> (s\<lparr>ks_entries := update_entry a (\<lambda>e. e\<lparr>ke_label := label\<rparr>) (ks_entries s)\<rparr>, Ok ()))"

definition change_entry_password ::
  "externs \<Rightarrow> keystore_externs \<Rightarrow> u8 list \<Rightarrow> u8 list \<Rightarrow> keystore \<Rightarrow> address \<Rightarrow> rstr \<Rightarrow> rstr
    \<Rightarrow> keystore \<times> (keystore_error + password_change)" where
  "change_entry_password X K salt nonce s a current new =
     (case unlock X K s a current of
        Err e \<Rightarrow> (s, Err e)
      | Ok kp \<Rightarrow>
          (case entry_of s a of
             None \<Rightarrow> (s, Err (AddressNotFound a))
           | Some original \<Rightarrow>
               (case build_current_entry X K salt nonce kp new (ke_label original)
                       (ke_created_at original) (ke_origin original) (ke_derivation_path original) of
                  Err e \<Rightarrow> (s, Err e)
                | Ok entry \<Rightarrow>
                    (s\<lparr>ks_entries := update_entry a (\<lambda>_. entry) (ks_entries s)\<rparr>,
                     Ok \<lparr>pc_kdf_before = ke_kdf original, pc_kdf_after = Argon2id,
                         pc_cipher_before = ke_cipher original, pc_cipher_after = XChaCha20Poly1305,
                         pc_password_changed = (current \<noteq> new)\<rparr>))))"

definition list_addresses :: "keystore \<Rightarrow> (address \<times> rstr) list" where
  "list_addresses s = map (\<lambda>e. (ke_address e, ke_label e)) (ks_entries s)"

definition remove_key :: "keystore \<Rightarrow> address \<Rightarrow> keystore \<times> bool" where
  "remove_key s a =
     (let kept = filter (\<lambda>e. ke_address e \<noteq> a) (ks_entries s) in
      (s\<lparr>ks_entries := kept\<rparr>, length kept < length (ks_entries s)))"

definition keystore_len :: "keystore \<Rightarrow> nat" where
  "keystore_len s = length (ks_entries s)"

definition keystore_is_empty :: "keystore \<Rightarrow> bool" where
  "keystore_is_empty s \<longleftrightarrow> ks_entries s = []"

end
