(* ===== verification/Keystore_Ring.thy ===== *)
theory Keystore_Ring
  imports Keystore
begin

text \<open>
  What a keystore promises (\<open>wallet/keystore.rs\<close>), as operations on a key ring: a map from
  addresses to the key pair, the password that opens it and the label. \<open>holds\<close> relates a keystore
  to a ring; the locale \<open>stateful\<close> of the prelude is interpreted on the operations, so that the
  relation holds along every run.
\<close>

subsection \<open>Operations and the ring\<close>

datatype key_op =
    CreateKey keypair rstr rstr u64 "u8 list" "u8 list"
  | ImportKey keypair rstr rstr entry_origin "rstr option" u64 "u8 list" "u8 list"
  | Relabel address rstr
  | ChangePassword address rstr rstr "u8 list" "u8 list"
  | RemoveKey address

definition key_step :: "externs \<Rightarrow> keystore_externs \<Rightarrow> keystore \<Rightarrow> key_op \<Rightarrow> keystore" where
  "key_step X K s op =
     (case op of
        CreateKey kp password label now salt nonce \<Rightarrow> fst (create_key X K now salt nonce kp s password label)
      | ImportKey kp password label origin path now salt nonce \<Rightarrow>
          fst (import_key_with_origin X K now salt nonce s kp password label origin path)
      | Relabel a label \<Rightarrow> fst (relabel s a label)
      | ChangePassword a current new salt nonce \<Rightarrow>
          fst (change_entry_password X K salt nonce s a current new)
      | RemoveKey a \<Rightarrow> fst (remove_key s a))"

type_synonym key_ring = "address \<Rightarrow> (keypair \<times> rstr \<times> rstr) option"

definition ring_add :: "externs \<Rightarrow> keypair \<Rightarrow> rstr \<Rightarrow> rstr \<Rightarrow> key_ring \<Rightarrow> key_ring" where
  "ring_add X kp password label A =
     (if kp_address X kp \<in> dom A then A else A(kp_address X kp \<mapsto> (kp, password, label)))"

definition ring_step :: "externs \<Rightarrow> key_ring \<Rightarrow> key_op \<Rightarrow> key_ring" where
  "ring_step X A op =
     (case op of
        CreateKey kp password label _ _ _ \<Rightarrow> ring_add X kp password label A
      | ImportKey kp password label _ _ _ _ _ \<Rightarrow> ring_add X kp password label A
      | Relabel a label \<Rightarrow> (case A a of None \<Rightarrow> A | Some (kp, p, _) \<Rightarrow> A(a \<mapsto> (kp, p, label)))
      | ChangePassword a current new _ _ \<Rightarrow>
          (case A a of
             None \<Rightarrow> A
           | Some (kp, p, label) \<Rightarrow> if p = current then A(a \<mapsto> (kp, new, label)) else A)
      | RemoveKey a \<Rightarrow> A(a := None))"

fun op_ok :: "key_op \<Rightarrow> bool" where
  "op_ok (CreateKey kp _ _ _ salt nonce) \<longleftrightarrow> wf_keypair kp \<and> length salt = 32 \<and> length nonce = 24"
| "op_ok (ImportKey kp _ _ _ _ _ salt nonce) \<longleftrightarrow> wf_keypair kp \<and> length salt = 32 \<and> length nonce = 24"
| "op_ok (ChangePassword _ _ _ salt nonce) \<longleftrightarrow> length salt = 32 \<and> length nonce = 24"
| "op_ok _ \<longleftrightarrow> True"

fun op_passwords :: "key_op \<Rightarrow> rstr set" where
  "op_passwords (CreateKey _ p _ _ _ _) = {p}"
| "op_passwords (ImportKey _ p _ _ _ _ _ _) = {p}"
| "op_passwords (ChangePassword _ p q _ _) = {p, q}"
| "op_passwords _ = {}"

subsection \<open>Sealed entries\<close>

abbreviation kdf :: "keystore_externs \<Rightarrow> rstr \<Rightarrow> u8 list \<Rightarrow> u8 list option" where
  "kdf K p salt \<equiv> kx_argon2 K (64 * 1024) 3 1 32 (utf8 p) salt"

definition sealed :: "externs \<Rightarrow> keystore_externs \<Rightarrow> keystore_entry \<Rightarrow> keypair \<Rightarrow> rstr \<Rightarrow> bool" where
  "sealed X K e kp p \<longleftrightarrow>
     wf_keypair kp \<and> ke_address e = kp_address X kp
     \<and> (\<exists>key nonce. kdf K p (ke_salt e) = Some key \<and> ke_nonce e = Some nonce \<and> length nonce = 24
          \<and> kx_encrypt K key nonce (utf8 (keystore_aad X (ke_address e))) (secret_bytes kp)
              = Some (ke_encrypted_key e))"

lemma sealed_label [simp]: "sealed X K (e\<lparr>ke_label := l\<rparr>) kp p = sealed X K e kp p"
  by (simp add: sealed_def)

lemma build_sealed:
  assumes "build_current_entry X K salt nonce kp p label now origin path = Ok e"
    and "wf_keypair kp" "length nonce = 24"
  shows "sealed X K e kp p \<and> ke_label e = label \<and> ke_address e = kp_address X kp"
  using assms by (auto simp: build_current_entry_def derive_key_argon2id_def sealed_def)

lemma kdf_ok_key: "kdf_ok K P \<Longrightarrow> \<exists>k. kdf K p salt = Some k \<and> length k = 32"
  by (simp add: kdf_ok_def)

lemma kdf_ok_inj: "kdf_ok K P \<Longrightarrow> p \<in> P \<Longrightarrow> q \<in> P \<Longrightarrow> kdf K p salt = kdf K q salt \<longleftrightarrow> p = q"
  unfolding kdf_ok_def inj_on_def by blast

lemma cipher_okD:
  assumes "cipher_ok K" "length k = 32" "length n = 24" "kx_encrypt K k n a m = Some c"
  shows "kx_decrypt K k' n a c = (if k' = k then Some m else None)"
  using assms unfolding cipher_ok_def by (metis option.inject)

lemma build_succeeds:
  assumes "cipher_ok K" "kdf_ok K P" "length nonce = 24"
  shows "\<exists>e. build_current_entry X K salt nonce kp p label now origin path = Ok e"
proof -
  obtain k where k: "kdf K p salt = Some k" "length k = 32" using kdf_ok_key [OF assms(2)] by blast
  then obtain c where "kx_encrypt K k nonce (utf8 (keystore_aad X (kp_address X kp))) (secret_bytes kp) = Some c"
    using assms(1,3) unfolding cipher_ok_def by blast
  with k show ?thesis by (simp add: build_current_entry_def derive_key_argon2id_def)
qed

text \<open>Unlocking an entry that is sealed under a password succeeds with exactly that password.\<close>

lemma unlock_sealed:
  assumes "cipher_ok K" "kdf_ok K P" "sealed X K e kp p" "p \<in> P" "q \<in> P"
    and "entry_of s a = Some e" "ke_address e = a"
  shows "unlock X K s a q = (if q = p then Ok kp else Err WrongPasswordOrCorrupt)"
proof -
  from assms(3) obtain key nonce where key: "kdf K p (ke_salt e) = Some key" "ke_nonce e = Some nonce"
    "length nonce = 24" "kx_encrypt K key nonce (utf8 (keystore_aad X (ke_address e))) (secret_bytes kp)
      = Some (ke_encrypted_key e)" and kp: "wf_keypair kp" "ke_address e = kp_address X kp"
    unfolding sealed_def by blast
  obtain key' where key': "kdf K q (ke_salt e) = Some key'" using kdf_ok_key [OF assms(2)] by blast
  have len: "length key = 32" using kdf_ok_key [OF assms(2), of p "ke_salt e"] key(1) by simp
  have "key' = key \<longleftrightarrow> q = p"
    using kdf_ok_inj [OF assms(2,5,4), of "ke_salt e"] key(1) key' by simp
  then have "kx_decrypt K key' nonce (utf8 (keystore_aad X a)) (ke_encrypted_key e)
      = (if q = p then Some (secret_bytes kp) else None)"
    using cipher_okD [OF assms(1) len key(3,4), of key'] assms(7) by simp
  with assms(6,7) key(2,3) key' kp show ?thesis
    by (simp add: unlock_def entry_of_def validate_current_format_def derive_key_argon2id_def
        from_secret_bytes_def wf_keypair_def)
qed

subsection \<open>A keystore holds a ring\<close>

definition holds :: "externs \<Rightarrow> keystore_externs \<Rightarrow> rstr set \<Rightarrow> keystore \<Rightarrow> key_ring \<Rightarrow> bool" where
  "holds X K P s A \<longleftrightarrow>
     distinct (map ke_address (ks_entries s))
     \<and> dom A = ke_address ` set (ks_entries s)
     \<and> (\<forall>e \<in> set (ks_entries s).
          \<exists>kp p. A (ke_address e) = Some (kp, p, ke_label e) \<and> p \<in> P \<and> sealed X K e kp p)"

lemma holds_new: "holds X K P keystore_new Map.empty"
  by (simp add: holds_def keystore_new_def)

lemma entry_of_Some:
  "distinct (map ke_address (ks_entries s)) \<Longrightarrow>
     entry_of s a = Some e \<longleftrightarrow> e \<in> set (ks_entries s) \<and> ke_address e = a"
  unfolding entry_of_def
proof (induction "ks_entries s" arbitrary: s)
  case (Cons x xs)
  from Cons(1) [of "s\<lparr>ks_entries := xs\<rparr>"] Cons(2,3) show ?case
    by (cases "ks_entries s") (auto simp: image_iff)
qed simp

lemma entry_of_None: "entry_of s a = None \<longleftrightarrow> a \<notin> ke_address ` set (ks_entries s)"
  by (auto simp: entry_of_def find_None_iff)

lemma holds_entry:
  assumes "holds X K P s A"
  shows "case entry_of s a of
      None \<Rightarrow> A a = None
    | Some e \<Rightarrow> e \<in> set (ks_entries s) \<and> ke_address e = a
        \<and> (\<exists>kp p. A a = Some (kp, p, ke_label e) \<and> p \<in> P \<and> sealed X K e kp p)"
proof (cases "entry_of s a")
  case None
  then have "a \<notin> ke_address ` set (ks_entries s)" by (simp add: entry_of_None)
  with assms have "A a = None" by (auto simp: holds_def)
  with None show ?thesis by simp
next
  case (Some e)
  with assms have "e \<in> set (ks_entries s)" "ke_address e = a"
    by (simp_all add: holds_def entry_of_Some)
  with assms Some show ?thesis by (force simp: holds_def)
qed

lemma map_address_update:
  "find (\<lambda>e. ke_address e = a) es = Some e \<Longrightarrow> ke_address (f e) = a \<Longrightarrow>
     map ke_address (update_entry a f es) = map ke_address es"
  by (induction es) (auto split: if_splits)

lemma set_update_entry:
  "find (\<lambda>e. ke_address e = a) es = Some e \<Longrightarrow> distinct (map ke_address es) \<Longrightarrow>
     set (update_entry a f es) = insert (f e) {x \<in> set es. ke_address x \<noteq> a}"
proof (induction es)
  case (Cons x es)
  show ?case
  proof (cases "ke_address x = a")
    case True
    with Cons.prems(2) have "a \<notin> ke_address ` set es" by auto
    then have "\<forall>y \<in> set es. ke_address y \<noteq> a" by blast
    with True Cons.prems(1) show ?thesis by auto
  next
    case False
    with Cons show ?thesis by auto
  qed
qed simp

lemma holds_add:
  assumes "holds X K P s A" "A (ke_address e) = None" "sealed X K e kp p" "p \<in> P"
  shows "holds X K P (s\<lparr>ks_entries := ks_entries s @ [e]\<rparr>) (A(ke_address e \<mapsto> (kp, p, ke_label e)))"
proof -
  have "ke_address e \<notin> ke_address ` set (ks_entries s)"
    using assms(1,2) by (auto simp: holds_def)
  with assms show ?thesis by (auto simp: holds_def image_iff)
qed

lemma holds_update:
  assumes "holds X K P s A" "entry_of s a = Some e" "sealed X K (f e) kp p" "p \<in> P"
    and "ke_address (f e) = a"
  shows "holds X K P (s\<lparr>ks_entries := update_entry a f (ks_entries s)\<rparr>) (A(a \<mapsto> (kp, p, ke_label (f e))))"
proof -
  have parts: "distinct (map ke_address (ks_entries s))" "dom A = ke_address ` set (ks_entries s)"
    using assms(1) by (simp_all add: holds_def)
  note found = assms(2) [unfolded entry_of_def]
  have e: "e \<in> set (ks_entries s)" "ke_address e = a"
    using assms(2) parts by (simp_all add: entry_of_Some)
  note members = set_update_entry [OF found parts(1), of f]
  have "insert a (dom A) = ke_address ` set (update_entry a f (ks_entries s))"
    using e assms(5) by (auto simp: members parts(2))
  moreover have "distinct (map ke_address (update_entry a f (ks_entries s)))"
    using map_address_update [OF found, of f] assms(5) parts(1) by simp
  ultimately show ?thesis
    using assms(1,3-5) by (auto simp: holds_def members)
qed

lemma holds_remove:
  assumes "holds X K P s A"
  shows "holds X K P (s\<lparr>ks_entries := filter (\<lambda>e. ke_address e \<noteq> a) (ks_entries s)\<rparr>) (A(a := None))"
  using assms by (auto simp: holds_def distinct_map_filter)

lemma holds_import:
  assumes "cipher_ok K" "kdf_ok K P" "holds X K P s A" "wf_keypair kp" "length nonce = 24" "p \<in> P"
  shows "holds X K P (fst (import_key_with_origin X K now salt nonce s kp p label origin path))
      (ring_add X kp p label A)
    \<and> (is_ok (snd (import_key_with_origin X K now salt nonce s kp p label origin path))
       \<longleftrightarrow> kp_address X kp \<notin> dom A)"
proof (cases "entry_of s (kp_address X kp)")
  case None
  with holds_entry [OF assms(3), of "kp_address X kp"] have fresh: "A (kp_address X kp) = None" by simp
  obtain e where e: "build_current_entry X K salt nonce kp p label now origin path = Ok e"
    using build_succeeds [OF assms(1,2,5)] by blast
  with build_sealed [OF e assms(4,5)] fresh None holds_add [OF assms(3), of e kp p] assms(6)
  show ?thesis by (auto simp: import_key_with_origin_def ring_add_def)
next
  case (Some e)
  with holds_entry [OF assms(3), of "kp_address X kp"] assms(3) show ?thesis
    by (auto simp: import_key_with_origin_def ring_add_def)
qed

lemma holds_unlock:
  assumes "cipher_ok K" "kdf_ok K P" "holds X K P s A" "q \<in> P"
  shows "unlock X K s a q =
    (case A a of None \<Rightarrow> Err (AddressNotFound a)
     | Some (kp, p, label) \<Rightarrow> if q = p then Ok kp else Err WrongPasswordOrCorrupt)"
proof (cases "entry_of s a")
  case None
  with holds_entry [OF assms(3), of a] have "A a = None" by simp
  with None show ?thesis by (simp add: unlock_def entry_of_def)
next
  case (Some e)
  with holds_entry [OF assms(3), of a] obtain kp p where
    "ke_address e = a" "A a = Some (kp, p, ke_label e)" "p \<in> P" "sealed X K e kp p" by auto
  with unlock_sealed [OF assms(1,2) _ _ assms(4) Some] show ?thesis by simp
qed

lemma holds_relabel:
  assumes "holds X K P s A"
  shows "holds X K P (fst (relabel s a label)) (ring_step X A (Relabel a label))
    \<and> (is_ok (snd (relabel s a label)) \<longleftrightarrow> a \<in> dom A)"
proof (cases "entry_of s a")
  case None
  with holds_entry [OF assms, of a] assms show ?thesis
    by (auto simp: relabel_def ring_step_def)
next
  case (Some e)
  with holds_entry [OF assms, of a] obtain kp p where
    e: "ke_address e = a" "A a = Some (kp, p, ke_label e)" "p \<in> P" "sealed X K e kp p" by auto
  with holds_update [OF assms Some, of "\<lambda>e. e\<lparr>ke_label := label\<rparr>" kp p] Some show ?thesis
    by (auto simp: relabel_def ring_step_def)
qed

lemma holds_change:
  assumes "cipher_ok K" "kdf_ok K P" "holds X K P s A" "length nonce = 24" "p \<in> P" "q \<in> P"
  shows "holds X K P (fst (change_entry_password X K salt nonce s a p q))
      (ring_step X A (ChangePassword a p q salt nonce))
    \<and> (is_ok (snd (change_entry_password X K salt nonce s a p q))
       \<longleftrightarrow> (\<exists>kp label. A a = Some (kp, p, label)))"
proof (cases "A a")
  case None
  with holds_unlock [OF assms(1-3,5), of a] assms(3) show ?thesis
    by (simp add: change_entry_password_def ring_step_def)
next
  case (Some entry)
  then obtain kp p' label where entry: "A a = Some (kp, p', label)" by (cases entry) auto
  note unlocked = holds_unlock [OF assms(1-3,5), of a]
  show ?thesis
  proof (cases "p' = p")
    case False
    with entry unlocked assms(3) show ?thesis
      by (auto simp: change_entry_password_def ring_step_def)
  next
    case True
    with entry holds_entry [OF assms(3), of a] obtain e where
      e: "entry_of s a = Some e" "ke_address e = a" "label = ke_label e" "sealed X K e kp p"
      by (auto split: option.splits)
    then have kp: "wf_keypair kp" "kp_address X kp = a" by (simp_all add: sealed_def)
    obtain e' where e': "build_current_entry X K salt nonce kp q (ke_label e) (ke_created_at e)
        (ke_origin e) (ke_derivation_path e) = Ok e'"
      using build_succeeds [OF assms(1,2,4)] by blast
    with build_sealed [OF e' kp(1) assms(4)] kp e(3)
    have sealed': "sealed X K e' kp q" "ke_label e' = label" "ke_address e' = a" by simp_all
    from holds_update [OF assms(3) e(1), of "\<lambda>_. e'", OF sealed'(1) assms(6) sealed'(3)]
    show ?thesis using True entry unlocked e(1) e' sealed'(2)
      by (simp add: change_entry_password_def ring_step_def)
  qed
qed

lemma holds_step:
  assumes "cipher_ok K" "kdf_ok K P" "holds X K P s A" "op_ok op" "op_passwords op \<subseteq> P"
  shows "holds X K P (key_step X K s op) (ring_step X A op)"
proof (cases op)
  case (CreateKey kp p label now salt nonce)
  with assms holds_import [OF assms(1-3), of kp nonce p now salt label Generated None]
  show ?thesis by (auto simp: key_step_def ring_step_def create_key_def split: prod.splits sum.splits)
next
  case (ImportKey kp p label origin path now salt nonce)
  with assms holds_import [OF assms(1-3), of kp nonce p now salt label origin path]
  show ?thesis by (auto simp: key_step_def ring_step_def)
next
  case (ChangePassword a p q salt nonce)
  with assms holds_change [OF assms(1-3), of nonce p q salt a] show ?thesis
    by (auto simp: key_step_def)
next
  case (RemoveKey a)
  with holds_remove [OF assms(3)] show ?thesis
    by (simp add: key_step_def ring_step_def remove_key_def Let_def)
qed (use holds_relabel [OF assms(3)] in \<open>auto simp: key_step_def\<close>)

subsection \<open>Runs\<close>

interpretation vault: guarded
  "\<lambda>(s, A) op. (key_step X K s op, ring_step X A op)"
  "\<lambda>(s, A). cipher_ok K \<longrightarrow> kdf_ok K P \<longrightarrow> holds X K P s A"
  "\<lambda>op. op_ok op \<and> op_passwords op \<subseteq> P"
  for X K P
  by unfold_locales (auto intro: holds_step)

lemma foldl_pair:
  "foldl (\<lambda>(s, A) op. (f s op, g A op)) (s, A) ops = (foldl f s ops, foldl g A ops)"
  by (induction ops arbitrary: s A) simp_all

lemma holds_run:
  assumes "cipher_ok K" "kdf_ok K P" "list_all (\<lambda>op. op_ok op \<and> op_passwords op \<subseteq> P) ops"
  shows "holds X K P (foldl (key_step X K) keystore_new ops) (foldl (ring_step X) Map.empty ops)"
  using vault.guarded_run [of K P X "(keystore_new, Map.empty)" ops] assms holds_new
  by (auto simp: foldl_pair)

lemma holds_listing:
  assumes "holds X K P s A"
  shows "set (list_addresses s) = {(a, label). \<exists>kp p. A a = Some (kp, p, label)}"
    and "distinct (map fst (list_addresses s))"
proof -
  have dom: "dom A = ke_address ` set (ks_entries s)"
    and each: "\<forall>e \<in> set (ks_entries s). \<exists>kp p. A (ke_address e) = Some (kp, p, ke_label e)"
    using assms by (auto simp: holds_def)
  have "\<exists>e \<in> set (ks_entries s). a = ke_address e \<and> label = ke_label e" if "A a = Some (kp, p, label)"
    for a kp p label
  proof -
    from that dom have "a \<in> ke_address ` set (ks_entries s)" by blast
    then obtain e where e: "e \<in> set (ks_entries s)" "a = ke_address e" by blast
    with each that show ?thesis by fastforce
  qed
  with each show "set (list_addresses s) = {(a, label). \<exists>kp p. A a = Some (kp, p, label)}"
    by (force simp: list_addresses_def)
  show "distinct (map fst (list_addresses s))"
    using assms by (simp add: holds_def list_addresses_def comp_def)
qed

subsection \<open>Properties\<close>

text \<open>(C16) A keystore behaves as a map. After any sequence of creations, imports, renamings, password
  changes and removals, an address unlocks with exactly the password last set for it and to exactly
  the key it was added with; a stranger's address or password is refused with its error; and the
  listing shows every held address once, with its label. The cipher is assumed to decrypt what it
  encrypted and to reject another key, the key derivation to separate the passwords used.\<close>

theorem keystore_refines_ring:
  assumes "cipher_ok K" "kdf_ok K P"
    and "list_all (\<lambda>op. op_ok op \<and> op_passwords op \<subseteq> P) ops" "password \<in> P"
    and "s = foldl (key_step X K) keystore_new ops" "A = foldl (ring_step X) Map.empty ops"
  shows "unlock X K s a password =
      (case A a of None \<Rightarrow> Err (AddressNotFound a)
       | Some (kp, p, label) \<Rightarrow> if password = p then Ok kp else Err WrongPasswordOrCorrupt)
    \<and> set (list_addresses s) = {(a, label). \<exists>kp p. A a = Some (kp, p, label)}
    \<and> distinct (map fst (list_addresses s))"
proof -
  have h: "holds X K P s A" using holds_run [OF assms(1-3), of X] assms(5,6) by simp
  show ?thesis using holds_unlock [OF assms(1,2) h assms(4), of a] holds_listing [OF h] by blast
qed

subsection \<open>Witness\<close>

text \<open>A cipher that seals the message behind its key, and a derivation that copies the password.\<close>

definition demo_keystore_externs :: keystore_externs where
  "demo_keystore_externs =
     \<lparr>kx_argon2 = (\<lambda>_ _ _ _ p _. Some (copy_into_zeroed 32 p)),
      kx_encrypt = (\<lambda>k _ _ m. Some (k @ m)),
      kx_decrypt = (\<lambda>k _ _ c. if take (length k) c = k \<and> length k = 32 then Some (drop 32 c) else None),
      kx_print_json = (\<lambda>_. Some []), kx_parse_json = (\<lambda>_. None)\<rparr>"

lemma demo_cipher_ok: "cipher_ok demo_keystore_externs"
  by (auto simp: cipher_ok_def demo_keystore_externs_def)

lemma demo_kdf_ok: "kdf_ok demo_keystore_externs {lit ''a'', lit ''b'', lit ''c''}"
proof -
  have "inj_on (\<lambda>p. copy_into_zeroed 32 (utf8 p)) {lit ''a'', lit ''b'', lit ''c''}"
    by (auto simp: inj_on_def utf8_ascii copy_into_zeroed_def)
  then show ?thesis by (simp add: kdf_ok_def demo_keystore_externs_def inj_on_def)
qed

definition demo_kp :: keypair where
  "demo_kp = Keypair (replicate 32 7)"

definition demo_key_ops :: "key_op list" where
  "demo_key_ops =
     [CreateKey demo_kp (lit ''a'') (lit ''one'') 0 (replicate 32 0) (replicate 24 0),
      ChangePassword (kp_address demo_externs demo_kp) (lit ''a'') (lit ''b'') (replicate 32 0) (replicate 24 0),
      Relabel (kp_address demo_externs demo_kp) (lit ''two'')]"

theorem keystore_refines_ring_witness:
  "unlock demo_externs demo_keystore_externs
       (foldl (key_step demo_externs demo_keystore_externs) keystore_new demo_key_ops)
       (kp_address demo_externs demo_kp) (lit ''b'') = Ok demo_kp
   \<and> unlock demo_externs demo_keystore_externs
       (foldl (key_step demo_externs demo_keystore_externs) keystore_new demo_key_ops)
       (kp_address demo_externs demo_kp) (lit ''a'') = Err WrongPasswordOrCorrupt"
proof -
  have ops: "list_all (\<lambda>op. op_ok op \<and> op_passwords op \<subseteq> {lit ''a'', lit ''b'', lit ''c''}) demo_key_ops"
    by (simp add: demo_key_ops_def demo_kp_def wf_keypair_def)
  have ring: "foldl (ring_step demo_externs) Map.empty demo_key_ops (kp_address demo_externs demo_kp)
      = Some (demo_kp, lit ''b'', lit ''two'')"
    by (simp add: demo_key_ops_def ring_step_def ring_add_def)
  note refines = keystore_refines_ring [OF demo_cipher_ok demo_kdf_ok ops _ refl refl,
      of _ demo_externs "kp_address demo_externs demo_kp", unfolded ring]
  show ?thesis using refines [of "lit ''a''"] refines [of "lit ''b''"] by simp
qed

end
