(* ===== verification/Keystore_File.thy ===== *)
theory Keystore_File
  imports Keystore_Ring
begin

text \<open>
  The keystore's JSON file (\<open>wallet/keystore.rs\<close>): the value the derived serialiser writes for an
  entry, the shape check made before decoding, the derived decoder under \<open>deny_unknown_fields\<close>, and
  loading and saving. The shape check has refused any entry whose origin, derivation or cipher is
  not the string it must be, so the decoder reads them from strings.

  A file written by the program is read back as the same entries (\<open>keystore_file_roundtrip\<close>).
\<close>

subsection \<open>Entries as JSON\<close>

definition kdf_name :: "kdf_type \<Rightarrow> rstr" where
  "kdf_name k = (case k of Argon2id \<Rightarrow> lit ''argon2id'')"

definition cipher_name :: "cipher_type \<Rightarrow> rstr" where
  "cipher_name c = (case c of XChaCha20Poly1305 \<Rightarrow> lit ''xchacha20poly1305'')"

definition origin_name :: "entry_origin \<Rightarrow> rstr" where
  "origin_name o1 =
     (case o1 of Generated \<Rightarrow> lit ''generated'' | RawSecretFile \<Rightarrow> lit ''raw_secret_file''
      | Pkcs8Pem \<Rightarrow> lit ''pkcs8_pem'' | FromMnemonic \<Rightarrow> lit ''mnemonic'')"

definition origin_of_name :: "rstr \<Rightarrow> entry_origin option" where
  "origin_of_name s =
     (if s = lit ''generated'' then Some Generated
      else if s = lit ''raw_secret_file'' then Some RawSecretFile
      else if s = lit ''pkcs8_pem'' then Some Pkcs8Pem
      else if s = lit ''mnemonic'' then Some FromMnemonic else None)"

definition entry_fields :: "rstr list" where
  "entry_fields =
     [lit ''address'', lit ''encrypted_key'', lit ''salt'', lit ''nonce'', lit ''created_at'',
      lit ''label'', lit ''kdf'', lit ''cipher'', lit ''origin'', lit ''derivation_path'']"

definition entry_to_json :: "externs \<Rightarrow> keystore_entry \<Rightarrow> json" where
  "entry_to_json X e = JObj (
     [(lit ''address'', JStr (fixed_bytes_human X (addr_bytes (ke_address e)))),
      (lit ''encrypted_key'', json_of_bytes (ke_encrypted_key e)),
      (lit ''salt'', json_of_bytes (ke_salt e))]
     @ (case ke_nonce e of None \<Rightarrow> [] | Some n \<Rightarrow> [(lit ''nonce'', json_of_bytes n)])
     @ [(lit ''created_at'', JInt (uint (ke_created_at e))), (lit ''label'', JStr (ke_label e)),
        (lit ''kdf'', JStr (kdf_name (ke_kdf e))), (lit ''cipher'', JStr (cipher_name (ke_cipher e))),
        (lit ''origin'', JStr (origin_name (ke_origin e)))]
     @ (case ke_derivation_path e of None \<Rightarrow> [] | Some p \<Rightarrow> [(lit ''derivation_path'', JStr p)]))"

text \<open>An optional field with a default may be absent or \<open>null\<close>.\<close>

definition optional_field :: "json \<Rightarrow> rstr \<Rightarrow> (json \<Rightarrow> 'a option) \<Rightarrow> 'a option option" where
  "optional_field v k decode =
     (case json_get v k of
        None \<Rightarrow> Some None
      | Some x \<Rightarrow> if x = JNull then Some None else map_option Some (decode x))"

definition required_field :: "json \<Rightarrow> rstr \<Rightarrow> (json \<Rightarrow> 'a option) \<Rightarrow> 'a option" where
  "required_field v k decode = Option.bind (json_get v k) decode"

definition array_of_length :: "nat \<Rightarrow> u8 list \<Rightarrow> u8 list option" where
  "array_of_length n bs = (if length bs = n then Some bs else None)"

definition entry_from_json :: "externs \<Rightarrow> json \<Rightarrow> keystore_entry option" where
  "entry_from_json X v =
     (case as_object v of
        Some members \<Rightarrow>
          if \<not> list_all (\<lambda>(k, _). k \<in> set entry_fields) members then None
          else
            Option.bind (required_field v (lit ''address'') (\<lambda>x. Option.bind (json_as_str x)
              (fixed_bytes_from_human X 20))) (\<lambda>address.
            Option.bind (required_field v (lit ''encrypted_key'') json_to_bytes) (\<lambda>key.
            Option.bind (required_field v (lit ''salt'')
              (\<lambda>x. Option.bind (json_to_bytes x) (array_of_length 32))) (\<lambda>salt.
            Option.bind (optional_field v (lit ''nonce'') json_to_bytes) (\<lambda>nonce.
            Option.bind (required_field v (lit ''created_at'') as_u64) (\<lambda>created_at.
            Option.bind (required_field v (lit ''label'') json_as_str) (\<lambda>label.
            Option.bind (required_field v (lit ''kdf'') (\<lambda>x. Option.bind (json_as_str x)
              (\<lambda>s. if s = lit ''argon2id'' then Some Argon2id else None))) (\<lambda>kdf.
            Option.bind (required_field v (lit ''cipher'') (\<lambda>x. Option.bind (json_as_str x)
              (\<lambda>s. if s = lit ''xchacha20poly1305'' then Some XChaCha20Poly1305 else None))) (\<lambda>cipher.
            Option.bind (required_field v (lit ''origin'') (\<lambda>x. Option.bind (json_as_str x) origin_of_name)) (\<lambda>o1.
            Option.bind (optional_field v (lit ''derivation_path'') json_as_str) (\<lambda>path.
            Some \<lparr>ke_address = Address address, ke_encrypted_key = key, ke_salt = salt, ke_nonce = nonce,
                  ke_created_at = created_at, ke_label = label, ke_kdf = kdf, ke_cipher = cipher,
                  ke_origin = o1, ke_derivation_path = path\<rparr>))))))))))
      | _ \<Rightarrow> None)"

subsection \<open>The shape check\<close>

definition check_entry_shape :: "json \<Rightarrow> shape_error + unit" where
  "check_entry_shape entry =
     (case as_object entry of
        None \<Rightarrow> Err NotAnObject
      | Some members \<Rightarrow>
          if lit ''check_hash'' \<in> set (map fst members) then Err LegacyCheckHash
          else
            bind_result (ok_or (required_field entry (lit ''origin'') json_as_str) MissingOrigin) (\<lambda>o1.
            if o1 \<notin> {lit ''generated'', lit ''raw_secret_file'', lit ''pkcs8_pem'', lit ''mnemonic''}
            then Err UnsupportedOrigin
            else
              bind_result (ok_or (required_field entry (lit ''kdf'') json_as_str) MissingKdf) (\<lambda>kdf.
              if kdf \<noteq> lit ''argon2id'' then Err UnsupportedKdf
              else
                bind_result (ok_or (required_field entry (lit ''cipher'') json_as_str) MissingCipher) (\<lambda>cipher.
                if cipher \<noteq> lit ''xchacha20poly1305'' then Err UnsupportedCipher else Ok ()))))"

fun check_shapes :: "nat \<Rightarrow> json list \<Rightarrow> keystore_error + unit" where
  "check_shapes pos [] = Ok ()"
| "check_shapes pos (entry # entries) =
     (case check_entry_shape entry of
        Err e \<Rightarrow> Err (BadShape pos e)
      | Ok _ \<Rightarrow> check_shapes (pos + 1) entries)"

definition validate_keystore_json_shape :: "json \<Rightarrow> keystore_error + unit" where
  "validate_keystore_json_shape raw =
     bind_result (ok_or (as_array raw) NotAnArray) (\<lambda>entries. check_shapes 1 entries)"

subsection \<open>Parsing and printing\<close>

fun decode_entries :: "externs \<Rightarrow> json list \<Rightarrow> keystore_entry list option" where
  "decode_entries X [] = Some []"
| "decode_entries X (v # vs) =
     Option.bind (entry_from_json X v) (\<lambda>e. map_option ((#) e) (decode_entries X vs))"

fun validate_entries :: "keystore_entry list \<Rightarrow> keystore_error + unit" where
  "validate_entries [] = Ok ()"
| "validate_entries (e # es) = bind_result (validate_current_format e) (\<lambda>_. validate_entries es)"

definition from_json_str :: "externs \<Rightarrow> keystore_externs \<Rightarrow> rstr \<Rightarrow> keystore_error + keystore" where
  "from_json_str X K data =
     bind_result (ok_or (kx_parse_json K data) BadJson) (\<lambda>raw.
     bind_result (validate_keystore_json_shape raw) (\<lambda>_.
     bind_result (ok_or (Option.bind (as_array raw) (decode_entries X)) BadJson) (\<lambda>entries.
     bind_result (validate_entries entries) (\<lambda>_.
     Ok \<lparr>ks_entries = entries, ks_path = None\<rparr>))))"

definition keystore_json :: "externs \<Rightarrow> keystore \<Rightarrow> json" where
  "keystore_json X s = JArr (map (entry_to_json X) (ks_entries s))"

definition to_json_pretty :: "externs \<Rightarrow> keystore_externs \<Rightarrow> keystore \<Rightarrow> keystore_error + rstr" where
  "to_json_pretty X K s = ok_or (kx_print_json K (keystore_json X s)) BadJson"

text \<open>The disk: \<open>std::fs::write\<close> truncates the file before it writes, so that a failed write leaves
  whatever prefix reached the disk; \<open>faulty\<close> is what a failing write leaves, if it fails.\<close>

type_synonym file_system = "rstr \<Rightarrow> rstr option"

definition load :: "externs \<Rightarrow> keystore_externs \<Rightarrow> file_system \<Rightarrow> rstr \<Rightarrow> keystore_error + keystore" where
  "load X K disk path =
     bind_result (ok_or (disk path) CannotRead) (\<lambda>data.
     bind_result (from_json_str X K data) (\<lambda>s. Ok (s\<lparr>ks_path := Some path\<rparr>)))"

definition save ::
  "externs \<Rightarrow> keystore_externs \<Rightarrow> rstr option option \<Rightarrow> keystore \<Rightarrow> file_system \<Rightarrow> rstr \<Rightarrow> file_system \<times> (keystore_error + unit)" where
  "save X K faulty s disk path =
     (case to_json_pretty X K s of
        Err e \<Rightarrow> (disk, Err e)
      | Ok json \<Rightarrow>
          (case faulty of
             Some left \<Rightarrow> (disk(path := left), Err CannotWrite)
           | None \<Rightarrow> (disk(path \<mapsto> json), Ok ())))"

subsection \<open>Reading back what was written\<close>

definition storable :: "keystore_entry \<Rightarrow> bool" where
  "storable e \<longleftrightarrow>
     wf_addr (ke_address e) \<and> length (ke_salt e) = 32 \<and> validate_current_format e = Ok ()"

lemma kdf_name_inv: "kdf_name k = lit ''argon2id''"
  by (cases k) (simp add: kdf_name_def)

lemma cipher_name_inv: "cipher_name c = lit ''xchacha20poly1305''"
  by (cases c) (simp add: cipher_name_def)

lemma origin_name_inv: "origin_of_name (origin_name o1) = Some o1"
  by (cases o1) (simp_all add: origin_of_name_def origin_name_def)

lemma kdf_eta: "(k :: kdf_type) = Argon2id" and cipher_eta: "(c :: cipher_type) = XChaCha20Poly1305"
  by (cases k, simp) (cases c, simp)

lemmas entry_json_simps = entry_to_json_def required_field_def optional_field_def kdf_name_inv
  cipher_name_inv origin_name_inv


lemmas field_lookup = entry_to_json_def json_get_JObj map_of_fields_append map_of_field lit_eq_iff
  list.inject list.distinct char.inject option.simps simp_thms if_True if_False

lemma entry_json_fields:
  "json_get (entry_to_json X e) (lit ''address'') = Some (JStr (fixed_bytes_human X (addr_bytes (ke_address e))))"
  "json_get (entry_to_json X e) (lit ''encrypted_key'') = Some (json_of_bytes (ke_encrypted_key e))"
  "json_get (entry_to_json X e) (lit ''salt'') = Some (json_of_bytes (ke_salt e))"
  "json_get (entry_to_json X e) (lit ''created_at'') = Some (JInt (uint (ke_created_at e)))"
  "json_get (entry_to_json X e) (lit ''label'') = Some (JStr (ke_label e))"
  "json_get (entry_to_json X e) (lit ''kdf'') = Some (JStr (kdf_name (ke_kdf e)))"
  "json_get (entry_to_json X e) (lit ''cipher'') = Some (JStr (cipher_name (ke_cipher e)))"
  "json_get (entry_to_json X e) (lit ''origin'') = Some (JStr (origin_name (ke_origin e)))"
  "json_get (entry_to_json X e) (lit ''nonce'') = map_option json_of_bytes (ke_nonce e)"
  "json_get (entry_to_json X e) (lit ''derivation_path'') = map_option JStr (ke_derivation_path e)"
  by (cases "ke_nonce e"; cases "ke_derivation_path e"; simp only: field_lookup)+

definition json_members :: "json \<Rightarrow> (rstr \<times> json) list" where
  "json_members v = (case v of JObj ms \<Rightarrow> ms | _ \<Rightarrow> [])"

lemma entry_json_is_object: "entry_to_json X e = JObj (json_members (entry_to_json X e))"
  by (simp only: entry_to_json_def json_members_def json.case)

lemma entry_json_object: "as_object (entry_to_json X e) = Some (json_members (entry_to_json X e))"
  by (subst entry_json_is_object) simp

lemma entry_json_known: "list_all (\<lambda>(k, _). k \<in> set entry_fields) (json_members (entry_to_json X e))"
  by (cases "ke_nonce e"; cases "ke_derivation_path e";
      simp only: entry_to_json_def json_members_def json.case entry_fields_def list_all_append
        list.pred_inject prod.case list.set insert_iff option.simps simp_thms)

lemma legacy_unknown: "lit ''check_hash'' \<notin> set entry_fields"
  by (simp only: entry_fields_def list.set insert_iff empty_iff lit_eq_iff list.inject list.distinct
      char.inject simp_thms)

lemma entry_json_current: "lit ''check_hash'' \<notin> set (map fst (json_members (entry_to_json X e)))"
  using entry_json_known [of X e] legacy_unknown by (force simp: list_all_iff simp del: list.map)

lemma json_of_bytes_not_null: "json_of_bytes bs \<noteq> JNull"
  by (simp add: json_of_bytes_def)

lemma optional_nonce:
  "optional_field (entry_to_json X e) (lit ''nonce'') json_to_bytes = Some (ke_nonce e)"
  unfolding optional_field_def entry_json_fields
  by (cases "ke_nonce e") (simp_all add: json_of_bytes_not_null)

lemma optional_path:
  "optional_field (entry_to_json X e) (lit ''derivation_path'') json_as_str = Some (ke_derivation_path e)"
  unfolding optional_field_def entry_json_fields by (cases "ke_derivation_path e") simp_all

lemma entry_json_roundtrip:
  assumes "hex_ok X" "storable e"
  shows "entry_from_json X (entry_to_json X e) = Some e"
proof -
  have address: "fixed_bytes_from_human X 20 (fixed_bytes_human X (addr_bytes (ke_address e)))
      = Some (addr_bytes (ke_address e))"
    using assms by (simp add: fixed_bytes_human_def fixed_bytes_from_human_def hex_ok_def storable_def wf_addr_def)
  have salt: "array_of_length 32 (ke_salt e) = Some (ke_salt e)"
    using assms(2) by (simp add: storable_def array_of_length_def)
  show ?thesis
    unfolding entry_from_json_def required_field_def entry_json_object entry_json_fields optional_nonce
      optional_path option.case bind.bind_lunit json_as_str_JStr json_bytes_roundtrip address salt
      as_u64_JInt kdf_name_inv cipher_name_inv origin_name_inv
    using entry_json_known [of X e] by (simp add: kdf_eta [of "ke_kdf e"] cipher_eta [of "ke_cipher e"])
qed

lemma entry_json_shape: "check_entry_shape (entry_to_json X e) = Ok ()"
proof -
  have origin: "origin_name o1 \<in> {lit ''generated'', lit ''raw_secret_file'', lit ''pkcs8_pem'', lit ''mnemonic''}"
    for o1 by (cases o1) (simp_all add: origin_name_def)
  show ?thesis
    unfolding check_entry_shape_def required_field_def entry_json_object entry_json_fields
    using entry_json_current [of X e] origin [of "ke_origin e"] by (simp add: kdf_name_inv cipher_name_inv)
qed

lemma check_shapes_entries: "check_shapes pos (map (entry_to_json X) es) = Ok ()"
  by (induction es arbitrary: pos) (simp_all add: entry_json_shape)

lemma decode_written:
  "hex_ok X \<Longrightarrow> list_all storable es \<Longrightarrow> decode_entries X (map (entry_to_json X) es) = Some es"
  by (induction es) (simp_all add: entry_json_roundtrip)

lemma validate_storable: "list_all storable es \<Longrightarrow> validate_entries es = Ok ()"
  by (induction es) (simp_all add: storable_def)

lemma from_json_written:
  assumes "hex_ok X" "list_all storable (ks_entries s)" "kx_parse_json K data = Some (keystore_json X s)"
  shows "from_json_str X K data = Ok (s\<lparr>ks_path := None\<rparr>)"
  using assms
  by (simp add: from_json_str_def keystore_json_def validate_keystore_json_shape_def check_shapes_entries
      decode_written validate_storable)

subsection \<open>Every reachable keystore can be stored\<close>

lemma build_storable:
  assumes "sha256_ok X" "build_current_entry X K salt nonce kp p label now origin path = Ok e"
    and "length salt = 32" "length nonce = 24"
  shows "storable e"
  using assms(2-) wf_from_public_key [OF assms(1)]
  by (auto simp: build_current_entry_def storable_def validate_current_format_def kp_address_def)

lemma storable_relabel [simp]: "storable (e\<lparr>ke_label := l\<rparr>) = storable e"
  by (cases "ke_nonce e") (simp_all add: storable_def validate_current_format_def)

lemma update_storable:
  "list_all storable es \<Longrightarrow> (\<And>e. storable e \<Longrightarrow> storable (f e)) \<Longrightarrow> list_all storable (update_entry a f es)"
  by (induction es) auto

lemma import_storable:
  assumes "sha256_ok X" "list_all storable (ks_entries s)" "length salt = 32" "length nonce = 24"
  shows "list_all storable
    (ks_entries (fst (import_key_with_origin X K now salt nonce s kp p label origin path)))"
  using assms build_storable [OF assms(1) _ assms(3,4)]
  by (auto simp: import_key_with_origin_def split: sum.splits)

lemma step_storable:
  assumes "sha256_ok X" "list_all storable (ks_entries s)" "op_ok op"
  shows "list_all storable (ks_entries (key_step X K s op))"
proof (cases op)
  case (CreateKey kp p label now salt nonce)
  with assms import_storable [OF assms(1,2), of salt nonce K now kp p label Generated None] show ?thesis
    by (auto simp: key_step_def create_key_def split: prod.splits sum.splits)
next
  case (ImportKey kp p label origin path now salt nonce)
  with assms import_storable [OF assms(1,2), of salt nonce K now kp p label origin path] show ?thesis
    by (simp add: key_step_def)
next
  case (Relabel a label)
  with assms show ?thesis
    by (auto simp: key_step_def relabel_def split: option.splits intro: update_storable)
next
  case (ChangePassword a p q salt nonce)
  with assms build_storable [OF assms(1)] show ?thesis
    by (auto simp: key_step_def change_entry_password_def split: option.splits sum.splits
        intro!: update_storable)
next
  case (RemoveKey a)
  with assms show ?thesis by (auto simp: key_step_def remove_key_def Let_def list_all_iff)
qed

interpretation stored: guarded "key_step X K" "\<lambda>s. sha256_ok X \<longrightarrow> list_all storable (ks_entries s)" op_ok
  for X K
  by unfold_locales (auto intro: step_storable)

subsection \<open>Property\<close>

text \<open>(C21) A keystore survives its file. Whatever operations made it, the JSON it is saved as passes
  the shape check and decodes to the same entries in the same order, so that loading the file gives
  the keystore back; a save that fails changes no other file.\<close>

theorem keystore_file_roundtrip:
  assumes "sha256_ok X" "hex_ok X" "list_all op_ok ops" "s = foldl (key_step X K) keystore_new ops"
    and "to_json_pretty X K s = Ok data" "kx_parse_json K data = Some (keystore_json X s)"
  shows "from_json_str X K data = Ok s
    \<and> load X K (fst (save X K None s disk path)) path = Ok (s\<lparr>ks_path := Some path\<rparr>)
    \<and> (other \<noteq> path \<longrightarrow> fst (save X K faulty s disk path) other = disk other)"
proof -
  have "list_all storable (ks_entries s)"
    using stored.guarded_run [of X keystore_new ops K] assms(1,3,4) by (simp add: keystore_new_def)
  note read = from_json_written [OF assms(2) this assms(6)]
  have path: "ks_path (foldl (key_step X K) s0 ops) = ks_path s0" for s0
  proof (induction ops arbitrary: s0)
    case (Cons op ops)
    have "ks_path (key_step X K s0 op) = ks_path s0"
      by (cases op) (auto simp: key_step_def create_key_def import_key_with_origin_def relabel_def
          change_entry_password_def remove_key_def Let_def split: prod.splits sum.splits option.splits if_splits)
    with Cons show ?case by simp
  qed simp
  have same: "s\<lparr>ks_path := None\<rparr> = s"
    using path [of keystore_new] assms(4) by (simp add: keystore_new_def)
  have other: "fst (save X K faulty s disk path) other = disk other" if "other \<noteq> path"
    using that assms(5) by (cases faulty) (simp_all add: save_def)
  have "load X K (fst (save X K None s disk path)) path = Ok (s\<lparr>ks_path := Some path\<rparr>)"
    using read same assms(5) by (simp add: load_def save_def)
  with read same other show ?thesis by simp
qed

subsection \<open>Witness\<close>

definition demo_file_externs :: keystore_externs where
  "demo_file_externs = demo_keystore_externs\<lparr>kx_parse_json :=
     (\<lambda>_. Some (keystore_json demo_externs
        (foldl (key_step demo_externs demo_keystore_externs) keystore_new demo_key_ops)))\<rparr>"

lemma parser_unused:
  "build_current_entry X (K\<lparr>kx_parse_json := f\<rparr>) = build_current_entry X K"
  "unlock X (K\<lparr>kx_parse_json := f\<rparr>) = unlock X K"
  by (simp_all add: fun_eq_iff build_current_entry_def derive_key_argon2id_def unlock_def cong: if_cong)

lemma demo_file_step: "key_step X demo_file_externs s op = key_step X demo_keystore_externs s op"
  unfolding demo_file_externs_def
  by (cases op) (simp_all add: key_step_def create_key_def import_key_with_origin_def
      change_entry_password_def parser_unused
      cong: sum.case_cong option.case_cong)

theorem keystore_file_roundtrip_witness:
  "from_json_str demo_externs demo_file_externs []
   = Ok (foldl (key_step demo_externs demo_keystore_externs) keystore_new demo_key_ops)"
proof -
  let ?s = "foldl (key_step demo_externs demo_file_externs) keystore_new demo_key_ops"
  have same: "?s = foldl (key_step demo_externs demo_keystore_externs) keystore_new demo_key_ops"
    by (simp only: demo_file_step cong: foldl_cong)
  have ops: "list_all op_ok demo_key_ops" by (simp add: demo_key_ops_def demo_kp_def wf_keypair_def)
  have printed: "to_json_pretty demo_externs demo_file_externs ?s = Ok []"
    by (simp add: to_json_pretty_def demo_file_externs_def demo_keystore_externs_def)
  have parsed: "kx_parse_json demo_file_externs [] = Some (keystore_json demo_externs ?s)"
    unfolding same by (simp add: demo_file_externs_def)
  have "from_json_str demo_externs demo_file_externs [] = Ok ?s"
    using keystore_file_roundtrip [OF demo_sha256_ok demo_hex_ok ops refl printed parsed] by blast
  then show ?thesis by (simp only: same)
qed

end
