(* ===== verification/Embedding.thy ===== *)
theory Embedding
  imports Floats Utf8 "HOL-Library.Multiset"
begin

text \<open>
  The built-in text embedding (\<open>embedding/engine.rs\<close>): features of a text are hashed with FNV-1a into
  a vector of 128 single-precision numbers, which is scaled to unit length; similarities are cosines
  in double precision; a process-wide cache holds embeddings already computed.

  Lower-casing and the class of alphanumeric characters are the Unicode tables of the standard
  library, the fields of a record. A sum of floats starts at negative zero, as the standard library
  sums. The iteration order of the cache's hash map, which picks what an eviction removes, is an
  argument.
\<close>

record unicode =
  uc_to_lowercase :: "rstr \<Rightarrow> rstr"
  uc_is_alphanumeric :: "rchar \<Rightarrow> bool"

definition EMBEDDING_CACHE_MAX :: nat where "EMBEDDING_CACHE_MAX = 10000"
definition EMBEDDING_DIM :: nat where "EMBEDDING_DIM = 128"

subsection \<open>Vectors\<close>

datatype embedding_vector = EmbeddingVector (components: "float list")

abbreviation fzero :: float where "fzero \<equiv> Num False 0"
abbreviation lit32 :: "rat \<Rightarrow> float" where "lit32 \<equiv> of_rat_lit F32"

definition zero_vector :: embedding_vector where
  "zero_vector = EmbeddingVector (replicate EMBEDDING_DIM fzero)"

definition vector_dim :: "embedding_vector \<Rightarrow> nat" where
  "vector_dim v = length (components v)"

definition is_zero_vector :: "embedding_vector \<Rightarrow> bool" where
  "is_zero_vector v \<longleftrightarrow> list_all (\<lambda>x. feq x fzero) (components v)"

text \<open>\<open>f32::round\<close> rounds halves away from zero, and its result is a float; a float cast to an
  \<open>i32\<close> is truncated and saturates, and a NaN gives 0.\<close>

definition fround_away :: "float \<Rightarrow> float" where
  "fround_away x = (case x of Num s m \<Rightarrow> Num s (of_int \<lfloor>m + 1 / 2\<rfloor>) | _ \<Rightarrow> x)"

definition as_i32 :: "float \<Rightarrow> int" where
  "as_i32 x =
     (case x of
        NaN \<Rightarrow> 0
      | Inf s \<Rightarrow> if s then - (2 ^ 31) else 2 ^ 31 - 1
      | Num s m \<Rightarrow> if s then max (- (2 ^ 31)) (- \<lfloor>m\<rfloor>) else min (2 ^ 31 - 1) \<lfloor>m\<rfloor>)"

definition quantize :: "float \<Rightarrow> int" where
  "quantize x = as_i32 (fround_away (fmul F32 x (lit32 1000000)))"

definition to_consensus_bytes :: "embedding_vector \<Rightarrow> u8 list" where
  "to_consensus_bytes v = concat (map (\<lambda>x. to_le_bytes (word_of_int (quantize x) :: u32)) (components v))"

subsection \<open>Hashing features\<close>

definition fnv1a_seed :: "u8 list \<Rightarrow> u64 \<Rightarrow> u64" where
  "fnv1a_seed bytes seed = foldl (\<lambda>hash byte. (hash XOR ucast byte) * 0x100000001b3) seed bytes"

definition fnv1a :: "u8 list \<Rightarrow> u64" where
  "fnv1a bytes = fnv1a_seed bytes 0xcbf29ce484222325"

definition hash_feature :: "float list \<Rightarrow> u8 list \<Rightarrow> float \<Rightarrow> float list" where
  "hash_feature vec feature weight =
     (let h1 = fnv1a feature; h2 = fnv1a_seed feature 0x6c62272e07bb0142;
          dim = unat h1 mod length vec;
          sign = (if h2 AND 1 = 0 then lit32 1 else lit32 (- 1))
      in vec[dim := fadd F32 (vec ! dim) (fmul F32 sign weight)])"

subsection \<open>Features of a text\<close>

text \<open>\<open>s.split(|c| ...)\<close>.\<close>

fun split_where :: "(rchar \<Rightarrow> bool) \<Rightarrow> rstr \<Rightarrow> rstr list" where
  "split_where p [] = [[]]"
| "split_where p (x # xs) =
     (if p x then [] # split_where p xs
      else (case split_where p xs of [] \<Rightarrow> [[x]] | seg # segs \<Rightarrow> (x # seg) # segs))"

definition text_words :: "unicode \<Rightarrow> rstr \<Rightarrow> rstr list" where
  "text_words U txt1 =
     filter (\<lambda>w. w \<noteq> [])
       (split_where (\<lambda>c. \<not> uc_is_alphanumeric U c \<and> c \<noteq> 0x2E \<and> c \<noteq> 0x2D) (uc_to_lowercase U txt1))"

definition unigrams :: "rstr list \<Rightarrow> (u8 list \<times> float) list" where
  "unigrams ws = map (\<lambda>w. (utf8 w, lit32 1)) ws"

definition bigrams :: "rstr list \<Rightarrow> (u8 list \<times> float) list" where
  "bigrams ws = map (\<lambda>(v, w). (utf8 (v @ [0x5F] @ w), lit32 (3 / 2))) (zip ws (tl ws))"

definition trigrams_of :: "rstr \<Rightarrow> (u8 list \<times> float) list" where
  "trigrams_of w =
     (if str_len w < 3 then []
      else let chars = [0x23] @ w @ [0x23] in
           map (\<lambda>(a, b, c). (utf8 [a, b, c], lit32 (1 / 2))) (zip chars (zip (tl chars) (tl (tl chars)))))"

definition dotted_of :: "rstr \<Rightarrow> (u8 list \<times> float) list" where
  "dotted_of w =
     (if 0x2E \<in> set w
      then map (\<lambda>part. (utf8 part, lit32 2)) (split_on 0x2E w) @ [(utf8 w, lit32 3)] else [])"

definition text_features :: "rstr list \<Rightarrow> (u8 list \<times> float) list" where
  "text_features ws =
     unigrams ws @ bigrams ws @ concat (map trigrams_of ws) @ concat (map dotted_of ws)"

subsection \<open>Embedding and similarity\<close>

definition fsum :: "float_fmt \<Rightarrow> float list \<Rightarrow> float" where
  "fsum F xs = foldl (fadd F) (Num True 0) xs"

definition normalize_vector :: "float list \<Rightarrow> float list" where
  "normalize_vector vec =
     (let magnitude = fsqrt F32 (fsum F32 (map (\<lambda>x. fmul F32 x x) vec)) in
      if flt fzero magnitude then map (\<lambda>x. fdiv F32 x magnitude) vec else vec)"

definition embed_text :: "unicode \<Rightarrow> rstr \<Rightarrow> embedding_vector" where
  "embed_text U txt1 =
     (let vec = replicate EMBEDDING_DIM fzero; ws = text_words U txt1 in
      if ws = [] then EmbeddingVector vec
      else EmbeddingVector (normalize_vector
             (foldl (\<lambda>vec (feature, weight). hash_feature vec feature weight) vec (text_features ws))))"

text \<open>A single-precision number is a double-precision one (\<open>x as f64\<close> changes nothing).\<close>

definition vector_magnitude :: "float list \<Rightarrow> float" where
  "vector_magnitude xs = fsqrt F64 (fsum F64 (map (\<lambda>x. mul64 x x) xs))"

definition cosine_similarity :: "embedding_vector \<Rightarrow> embedding_vector \<Rightarrow> float" where
  "cosine_similarity a b =
     (let xs = components a; ys = components b in
      if length xs \<noteq> length ys then fzero
      else
        let dot = fsum F64 (map (\<lambda>(x, y). mul64 x y) (zip xs ys));
            mag_a = vector_magnitude xs; mag_b = vector_magnitude ys in
        if flt mag_a (lit64 (1 / 10 ^ 10)) \<or> flt mag_b (lit64 (1 / 10 ^ 10)) then fzero
        else fclamp (lit64 (- 1)) (lit64 1) (div64 dot (mul64 mag_a mag_b)))"

subsection \<open>The cache\<close>

record embedding_cache =
  ec_map :: "(rstr \<times> float list) list"
  ec_max :: nat

definition cache_new :: "nat \<Rightarrow> embedding_cache" where
  "cache_new n = \<lparr>ec_map = [], ec_max = n\<rparr>"

definition cache_get :: "embedding_cache \<Rightarrow> rstr \<Rightarrow> float list option" where
  "cache_get c t = map_of (ec_map c) t"

text \<open>\<open>order\<close> is the order in which the map's keys come. Inserting replaces the value of a key that
  is there.\<close>

definition cache_insert ::
  "(rstr list \<Rightarrow> rstr list) \<Rightarrow> rstr \<Rightarrow> float list \<Rightarrow> embedding_cache \<Rightarrow> embedding_cache" where
  "cache_insert order t v c =
     (let evicted = (if ec_max c \<le> length (ec_map c)
                     then take (ec_max c div 2) (order (map fst (ec_map c))) else []);
          kept = filter (\<lambda>(k, _). k \<notin> set evicted) (ec_map c)
      in c\<lparr>ec_map := (t, v) # filter (\<lambda>(k, _). k \<noteq> t) kept\<rparr>)"

text \<open>The two accesses lock the cache separately, and a poisoned lock is passed over: \<open>c1\<close> is the
  cache at the first access and \<open>c2\<close> at the second, \<open>None\<close> where the lock is poisoned. The result
  comes with the cache after the second access, if there is one.\<close>

definition embed_text_cached ::
  "unicode \<Rightarrow> (rstr list \<Rightarrow> rstr list) \<Rightarrow> embedding_cache option \<Rightarrow> embedding_cache option \<Rightarrow> rstr
    \<Rightarrow> embedding_vector \<times> embedding_cache option" where
  "embed_text_cached U order c1 c2 t =
     (case Option.bind c1 (\<lambda>c. cache_get c t) of
        Some cached \<Rightarrow> (EmbeddingVector cached, None)
      | None \<Rightarrow>
          let result = embed_text U t in
          (result, map_option (cache_insert order t (components result)) c2))"

subsection \<open>The cache is transparent\<close>

definition cache_ok :: "unicode \<Rightarrow> embedding_cache \<Rightarrow> bool" where
  "cache_ok U c \<longleftrightarrow>
     distinct (map fst (ec_map c))
     \<and> list_all (\<lambda>(t, v). v = components (embed_text U t)) (ec_map c)
     \<and> length (ec_map c) \<le> ec_max c"

lemma cache_new_ok: "cache_ok U (cache_new n)"
  by (simp add: cache_ok_def cache_new_def)

lemma distinct_map_filter_fst: "distinct (map fst xs) \<Longrightarrow> distinct (map fst (filter p xs))"
  by (induction xs) auto

lemma length_filter_keys:
  assumes "distinct (map fst xs)" "distinct ks" "set ks \<subseteq> set (map fst xs)"
  shows "length (filter (\<lambda>(k, _). k \<notin> set ks) xs) + length ks = length xs"
proof -
  have "length (filter (\<lambda>k. k \<notin> set ks) (map fst xs)) + length (filter (\<lambda>k. k \<in> set ks) (map fst xs))
      = length xs"
    using sum_length_filter_compl [of "\<lambda>k. k \<notin> set ks" "map fst xs"] by simp
  moreover have "set (filter (\<lambda>k. k \<in> set ks) (map fst xs)) = set ks" using assms(3) by auto
  then have "length (filter (\<lambda>k. k \<in> set ks) (map fst xs)) = length ks"
    using assms(1,2) by (metis distinct_card distinct_filter)
  moreover have "length (filter (\<lambda>k. k \<notin> set ks) (map fst xs)) = length (filter (\<lambda>(k, _). k \<notin> set ks) xs)"
    by (simp add: filter_map comp_def case_prod_unfold)
  ultimately show ?thesis by simp
qed

lemma cache_insert_ok:
  assumes "cache_ok U c" "2 \<le> ec_max c" "\<And>ks. mset (order ks) = mset ks"
  shows "cache_ok U (cache_insert order t (components (embed_text U t)) c)"
proof -
  define evicted where "evicted = (if ec_max c \<le> length (ec_map c)
      then take (ec_max c div 2) (order (map fst (ec_map c))) else [])"
  define kept where "kept = filter (\<lambda>(k, _). k \<notin> set evicted) (ec_map c)"
  from assms(1) have ok: "distinct (map fst (ec_map c))" "length (ec_map c) \<le> ec_max c"
    "list_all (\<lambda>(t, v). v = components (embed_text U t)) (ec_map c)"
    by (simp_all add: cache_ok_def)
  have "length kept < ec_max c"
  proof (cases "ec_max c \<le> length (ec_map c)")
    case True
    have keys: "distinct (order (map fst (ec_map c)))" "set (order (map fst (ec_map c))) = set (map fst (ec_map c))"
      "length (order (map fst (ec_map c))) = length (ec_map c)"
      using ok(1) assms(3) [of "map fst (ec_map c)"]
      by (metis mset_eq_imp_distinct_iff, metis mset_eq_setD, metis length_map mset_eq_length)
    then have "distinct evicted" "set evicted \<subseteq> set (map fst (ec_map c))" "length evicted = ec_max c div 2"
      using True ok(2) set_take_subset by (fastforce simp: evicted_def)+
    with length_filter_keys [OF ok(1), of evicted] ok(2) assms(2) show ?thesis
      by (simp add: kept_def)
  next
    case False
    have "length kept \<le> length (ec_map c)" by (simp add: kept_def)
    with False show ?thesis by simp
  qed
  moreover have "distinct (map fst kept)" using ok(1) by (simp add: kept_def distinct_map_filter_fst)
  moreover have "list_all (\<lambda>(t, v). v = components (embed_text U t)) kept"
    using ok(3) by (auto simp: kept_def list_all_iff)
  moreover have "cache_insert order t (components (embed_text U t)) c
      = c\<lparr>ec_map := (t, components (embed_text U t)) # filter (\<lambda>(k, _). k \<noteq> t) kept\<rparr>"
    by (simp add: cache_insert_def Let_def evicted_def kept_def)
  moreover from \<open>length kept < ec_max c\<close>
  have "length (filter (\<lambda>(k, _). k \<noteq> t) kept) < ec_max c" by (rule le_less_trans [OF length_filter_le])
  ultimately show ?thesis
    by (auto simp: cache_ok_def distinct_map_filter_fst list_all_iff)
qed

lemma cache_get_ok: "cache_ok U c \<Longrightarrow> cache_get c t = Some v \<Longrightarrow> v = components (embed_text U t)"
  by (auto simp: cache_ok_def cache_get_def list_all_iff dest: map_of_SomeD)

text \<open>The caches that any number of threads can leave, with any eviction order.\<close>

inductive cache_reachable :: "unicode \<Rightarrow> nat \<Rightarrow> embedding_cache \<Rightarrow> bool" for U n where
  created: "cache_reachable U n (cache_new n)"
| called: "(\<And>c. c1 = Some c \<Longrightarrow> cache_reachable U n c) \<Longrightarrow> cache_reachable U n c2
    \<Longrightarrow> (\<And>ks. mset (order ks) = mset ks) \<Longrightarrow> embed_text_cached U order c1 (Some c2) t = (r, Some c')
    \<Longrightarrow> cache_reachable U n c'"

lemma cached_result:
  assumes "\<And>c. c1 = Some c \<Longrightarrow> cache_ok U c"
  shows "fst (embed_text_cached U order c1 c2 t) = embed_text U t"
proof (cases "Option.bind c1 (\<lambda>c. cache_get c t)")
  case (Some v)
  then obtain c where "c1 = Some c" "cache_get c t = Some v" by (cases c1) auto
  with assms cache_get_ok have "v = components (embed_text U t)" by blast
  with Some show ?thesis by (simp add: embed_text_cached_def)
qed (simp add: embed_text_cached_def Let_def)

lemma cached_store:
  "embed_text_cached U order c1 c2 t = (r, Some c') \<Longrightarrow>
     \<exists>c. c2 = Some c \<and> c' = cache_insert order t (components (embed_text U t)) c"
  by (auto simp: embed_text_cached_def Let_def split: option.splits)

lemma reachable_ok: "cache_reachable U n c \<Longrightarrow> 2 \<le> n \<Longrightarrow> cache_ok U c \<and> ec_max c = n"
proof (induction rule: cache_reachable.induct)
  case created
  show ?case by (simp add: cache_new_ok) (simp add: cache_new_def)
next
  case (called c1 c2 order t r c')
  have call: "embed_text_cached U order c1 (Some c2) t = (r, Some c')" by fact
  have perm: "mset (order ks) = mset ks" for ks by fact
  from cached_store [OF call] have c': "c' = cache_insert order t (components (embed_text U t)) c2"
    by simp
  from called have c2: "cache_ok U c2" "ec_max c2 = n" by simp_all
  have "ec_max c' = n" using c2(2) by (simp add: c' cache_insert_def Let_def)
  with cache_insert_ok [OF c2(1) _ perm] c2(2) called.prems show ?case by (simp add: c')
qed

text \<open>The cache is transparent: from any caches that calls of any threads can leave, whatever the
  eviction removes and even with a poisoned lock, a cached call returns exactly the embedding of its
  text; a store leaves the text in the cache and never more entries than the limit.\<close>

theorem embedding_cache_transparent:
  assumes "2 \<le> n" "\<And>c. c1 = Some c \<Longrightarrow> cache_reachable U n c" "\<And>c. c2 = Some c \<Longrightarrow> cache_reachable U n c"
    and "\<And>ks. mset (order ks) = mset ks"
  shows "case embed_text_cached U order c1 c2 t of
      (r, c) \<Rightarrow> r = embed_text U t
        \<and> (case c of None \<Rightarrow> True
           | Some c' \<Rightarrow> cache_get c' t = Some (components r) \<and> length (ec_map c') \<le> n)"
proof -
  obtain r c where call: "embed_text_cached U order c1 c2 t = (r, c)" by fastforce
  have r: "r = embed_text U t"
    using cached_result [of c1 U order c2 t] assms(1,2) reachable_ok call by (metis fst_conv)
  show ?thesis
  proof (cases c)
    case (Some c')
    from cached_store [OF call [unfolded Some]] obtain c0 where c0: "c2 = Some c0"
      "c' = cache_insert order t (components (embed_text U t)) c0" by blast
    have "cache_reachable U n c'"
      by (rule called [OF assms(2) assms(3) [OF c0(1)] assms(4)]) (use call c0 Some in simp_all)
    then have "length (ec_map c') \<le> n"
      using reachable_ok [OF _ assms(1)] by (auto simp: cache_ok_def)
    moreover have "cache_get c' t = Some (components r)"
      by (simp add: c0 r cache_get_def cache_insert_def Let_def)
    ultimately show ?thesis using r call Some by simp
  qed (use r call in simp)
qed

definition demo_unicode :: unicode where
  "demo_unicode = \<lparr>uc_to_lowercase = to_ascii_lowercase,
     uc_is_alphanumeric = (\<lambda>c. is_ascii_lowercase c \<or> is_ascii_uppercase c \<or> is_ascii_digit c)\<rparr>"

theorem embedding_cache_transparent_witness:
  "fst (embed_text_cached demo_unicode rev (Some (cache_new 2)) (Some (cache_new 2)) [0x61]) = embed_text demo_unicode [0x61]"
proof -
  have "c = cache_new 2 \<Longrightarrow> cache_reachable demo_unicode 2 c" for c by (simp add: created)
  then show ?thesis
    using embedding_cache_transparent [of 2 "Some (cache_new 2)" demo_unicode "Some (cache_new 2)" rev "[0x61]"]
    by (simp add: case_prod_unfold)
qed

end
