(* ===== verification/Float_Bounds.thy ===== *)
theory Float_Bounds
  imports Embedding
begin

text \<open>
  Bounds for sums and square roots in any floating-point format, used where a computation folds over
  a vector: a sum of numbers bounded by a power of two stays below a larger one, a sum of numbers
  that are not negative is at least each of them, and a square root lies within a factor of two of
  the exact one.
\<close>

lemma isqrt_maximal: "n < (isqrt n + 1) * (isqrt n + 1)"
proof (induction n rule: isqrt.induct)
  case (1 n)
  show ?case
  proof (cases "n = 0")
    case False
    let ?q = "isqrt (n div 4)"
    have "n div 4 + 1 \<le> (?q + 1) * (?q + 1)" using 1 False by (metis Suc_eq_plus1 Suc_leI)
    then have "n < (2 * ?q + 2) * (2 * ?q + 2)" by (simp add: algebra_simps)
    then show ?thesis using False by (subst isqrt.simps, subst isqrt.simps) (auto simp: Let_def)
  qed (simp add: isqrt.simps)
qed

lemma square_le: "0 \<le> y \<Longrightarrow> x * x \<le> y * y \<Longrightarrow> x \<le> (y :: rat)"
  using mult_strict_mono [of y x y x] by (cases "x \<le> y") auto

context float_format
begin

lemma representable_pow: "int k < fm_max F \<Longrightarrow> representable F (2 ^ k)"
proof -
  assume k: "int k < fm_max F"
  have "(2 :: rat) ^ k = 2 powi int k" by simp
  also have "\<dots> < 2 powi fm_max F" using k by (intro power_int_strict_increasing) auto
  finally show ?thesis unfolding representable_def using min_neg
    by (intro conjI exI [of _ 1] exI [of _ "int k"]) auto
qed

lemma representable_scaled:
  assumes "n \<le> 2 ^ fm_prec F" "int (b + fm_prec F) < fm_max F"
  shows "representable F (of_nat n * 2 ^ b)"
proof -
  have "(of_nat n :: rat) \<le> 2 ^ fm_prec F"
    using assms(1) by (metis of_nat_le_iff of_nat_numeral of_nat_power)
  then have "(of_nat n * 2 ^ b :: rat) \<le> 2 ^ fm_prec F * 2 ^ b" by (rule mult_right_mono) simp
  also have "\<dots> = 2 powi int (b + fm_prec F)"
    by (simp only: power_int_of_nat power_add mult.commute)
  also have "\<dots> < 2 powi fm_max F" using assms(2) by (intro power_int_strict_increasing) auto
  finally have "\<bar>of_nat n * 2 ^ b :: rat\<bar> < 2 powi fm_max F" by simp
  moreover have "\<bar>int n\<bar> \<le> 2 ^ fm_prec F" using assms(1) by (metis abs_of_nat of_nat_le_iff of_nat_numeral of_nat_power)
  ultimately show ?thesis unfolding representable_def using min_neg
    by (intro conjI exI [of _ "int n"] exI [of _ "int b"]) auto
qed

text \<open>A sum of numbers between \<open>- s * 2 ^ b\<close> and \<open>2 ^ b\<close>, for \<open>s\<close> zero or one, grows by \<open>2 ^ b\<close>
  with each number.\<close>

lemma sum_step:
  assumes "s = 0 \<or> s = 1" "int (b + fm_prec F) < fm_max F" "n + 1 \<le> 2 ^ fm_prec F"
    and "in_range lo (of_nat n * 2 ^ b) acc" "in_range (- (s * 2 ^ b)) (2 ^ b) x"
    and "representable F lo'" "lo' \<le> lo - s * 2 ^ b"
  shows "in_range lo' (of_nat (n + 1) * 2 ^ b) (fadd F acc x)"
  using representable_scaled [OF assms(3,2)] assms(6,7)
  by (intro add_range [OF assms(4,5)]) (simp_all add: algebra_simps)

lemma sum_range_aux:
  assumes "s = 0 \<or> s = 1" "int (b + fm_prec F) < fm_max F" "n + length xs \<le> 2 ^ fm_prec F"
    and "in_range (- (s * (of_nat n * 2 ^ b))) (of_nat n * 2 ^ b) acc"
    and "list_all (in_range (- (s * 2 ^ b)) (2 ^ b)) xs"
  shows "in_range (- (s * (of_nat (n + length xs) * 2 ^ b))) (of_nat (n + length xs) * 2 ^ b)
    (foldl (fadd F) acc xs)"
  using assms
proof (induction xs arbitrary: acc n)
  case (Cons x xs)
  have "n + 1 \<le> 2 ^ fm_prec F" using Cons.prems(3) by simp
  from representable_scaled [OF this Cons.prems(2)]
  have rep: "representable F (- (s * (of_nat (n + 1) * 2 ^ b)))" using Cons.prems(1) by auto
  have "in_range (- (s * (of_nat (n + 1) * 2 ^ b))) (of_nat (n + 1) * 2 ^ b) (fadd F acc x)"
    by (rule sum_step [OF Cons.prems(1,2) _ Cons.prems(4) _ rep]) (use Cons.prems in \<open>auto simp: algebra_simps\<close>)
  from Cons.IH [OF Cons.prems(1,2) _ this] Cons.prems show ?case by simp
qed simp

lemma fsum_range:
  assumes "s = 0 \<or> s = 1" "int (b + fm_prec F) < fm_max F" "length xs \<le> 2 ^ fm_prec F"
    and "list_all (in_range (- (s * 2 ^ b)) (2 ^ b)) xs"
  shows "in_range (- (s * (of_nat (length xs) * 2 ^ b))) (of_nat (length xs) * 2 ^ b) (fsum F xs)"
  unfolding fsum_def
  using sum_range_aux [of s b 0 xs "Num True 0"] assms by (simp add: in_range_def)

lemma fsum_ge:
  assumes "int (b + fm_prec F) < fm_max F" "length xs \<le> 2 ^ fm_prec F" "list_all (in_range 0 (2 ^ b)) xs"
    and "x \<in> set xs" "v \<le> num_val x" "representable F v" "0 \<le> v"
  shows "in_range v (of_nat (length xs) * 2 ^ b) (fsum F xs)"
proof -
  have grow: "in_range v (of_nat (n + length ys) * 2 ^ b) (foldl (fadd F) acc ys)"
    if "in_range v (of_nat n * 2 ^ b) acc" "n + length ys \<le> 2 ^ fm_prec F"
      "list_all (in_range 0 (2 ^ b)) ys" for acc n ys
    using that
  proof (induction ys arbitrary: acc n)
    case (Cons y ys)
    have "in_range v (of_nat (n + 1) * 2 ^ b) (fadd F acc y)"
      by (rule sum_step [of 0 b n v]) (use Cons.prems assms(1,6) in auto)
    from Cons.IH [OF this] Cons.prems show ?case by simp
  qed simp
  obtain us ws where xs: "xs = us @ x # ws" using assms(4) by (meson split_list)
  have start: "in_range 0 (of_nat (length us) * 2 ^ b) (foldl (fadd F) (Num True 0) us)"
    using fsum_range [of 0 b us] assms(1-3) xs by (simp add: fsum_def)
  have x: "in_range v (2 ^ b) x"
    using assms(3,5) xs by (auto simp: in_range_def split: float.splits)
  have "length us + 1 \<le> 2 ^ fm_prec F" using assms(2) xs by simp
  from representable_scaled [OF this assms(1)] assms(6,7)
  have "in_range v (of_nat (length us + 1) * 2 ^ b) (fadd F (foldl (fadd F) (Num True 0) us) x)"
    by (intro add_range [OF start x]) (simp_all add: algebra_simps)
  then have "in_range v (of_nat (length us + 1 + length ws) * 2 ^ b)
      (foldl (fadd F) (fadd F (foldl (fadd F) (Num True 0) us) x) ws)"
    by (rule grow) (use assms(2,3) xs in auto)
  moreover have "fsum F xs = foldl (fadd F) (fadd F (foldl (fadd F) (Num True 0) us) x) ws"
    by (simp add: fsum_def xs)
  moreover have "length xs = length us + 1 + length ws" by (simp add: xs)
  ultimately show ?thesis by (simp only:)
qed

lemma fround_exact: "representable F m \<Longrightarrow> 0 \<le> m \<Longrightarrow> fround F s m = Num s m"
  by (simp add: fround_def round_mag_representable representable_def)

lemma of_rat_lit_exact: "representable F r \<Longrightarrow> of_rat_lit F r = Num (r < 0) \<bar>r\<bar>"
  by (cases "r < 0") (simp_all add: of_rat_lit_def fround_exact)

lemma fsqrt_range:
  assumes "in_range (lo * lo) (hi * hi) x" "0 \<le> lo" "0 \<le> hi"
    and "representable F (lo / 2)" "representable F (2 * hi)"
  shows "in_range (lo / 2) (2 * hi) (fsqrt F x)"
proof -
  from assms(1) obtain s m where x: "x = Num s m" "0 \<le> m" "lo * lo \<le> num_val x" "num_val x \<le> hi * hi"
    by (auto elim!: in_rangeE)
  have sq: "0 \<le> lo * lo" using assms(2) by simp
  show ?thesis
  proof (cases "m = 0")
    case True
    with x have "lo * lo \<le> 0" by (auto split: if_splits)
    with sq have "lo * lo = 0" by (rule order.antisym [rotated])
    then have "lo = 0" by simp
    with True x assms(3) show ?thesis by (simp add: fsqrt_def in_range_def)
  next
    case False
    with x(2) have m: "0 < m" by simp
    have "\<not> s"
    proof
      assume s
      with x have "lo * lo \<le> - m" by simp
      with sq m show False by linarith
    qed
    with x m have pos: "\<not> s" "0 < m" "lo * lo \<le> m" "m \<le> hi * hi" by simp_all
    define e where "e = ilog2 m div 2 - int (fm_prec F) - 8"
    define r where "r = isqrt (nat \<lfloor>m / 2 powi (2 * e)\<rfloor>)"
    define root where "root = (if of_nat (r * r) * 2 powi (2 * e) = m then of_nat r else of_nat r + 1 / 2 :: rat)"
    define u where "u = (2 :: rat) powi e"
    have u: "0 < u" "(2 :: rat) powi (2 * e) = u * u"
      using powi_split [of "2 * e" e] by (simp_all add: u_def)
    have floor: "of_nat (nat \<lfloor>m / (u * u)\<rfloor>) \<le> m / (u * u)" "m / (u * u) < of_nat (nat \<lfloor>m / (u * u)\<rfloor>) + 1"
      using pos(2) u(1) floor_correct [of "m / (u * u)"] by (simp_all add: of_nat_nat)
    have "2 * e \<le> ilog2 m" by (simp add: e_def)
    then have "u * u \<le> m" using powi_mono ilog2_bounds(1) [OF pos(2)] u(2) by (metis order.trans)
    then have "1 \<le> m / (u * u)" using u(1) by (simp add: le_divide_eq)
    then have one: "1 \<le> nat \<lfloor>m / (u * u)\<rfloor>" by (simp add: le_nat_iff le_floor_iff)
    have r1: "1 \<le> r"
      using isqrt_maximal [of "nat \<lfloor>m / (u * u)\<rfloor>"] one by (cases r) (auto simp: r_def u(2))
    have "of_nat (r * r) \<le> (of_nat (nat \<lfloor>m / (u * u)\<rfloor>) :: rat)"
      unfolding r_def u(2) by (intro of_nat_mono isqrt_le)
    with floor(1) have low: "of_nat (r * r) * (u * u) \<le> m"
      using u(1) by (metis order.trans le_divide_eq mult_pos_pos)
    have "of_nat (nat \<lfloor>m / (u * u)\<rfloor>) + 1 \<le> (of_nat ((r + 1) * (r + 1)) :: rat)"
      using isqrt_maximal [of "nat \<lfloor>m / (u * u)\<rfloor>"] unfolding r_def u(2)
      by (metis Suc_eq_plus1 Suc_leI of_nat_1 of_nat_add of_nat_mono)
    with floor(2) have "m / (u * u) < of_nat ((r + 1) * (r + 1))" by linarith
    then have high: "m < of_nat ((r + 1) * (r + 1)) * (u * u)" using u(1) by (simp add: divide_less_eq)
    have bounds: "of_nat r \<le> root" "root \<le> 2 * of_nat r" "of_nat (r + 1) \<le> 2 * (of_nat r :: rat)"
      using r1 by (auto simp: root_def)
    have "of_nat r * u \<le> hi"
    proof (rule square_le [OF assms(3)])
      have "(of_nat r * u) * (of_nat r * u) = of_nat (r * r) * (u * u)" by (simp add: algebra_simps)
      also have "\<dots> \<le> hi * hi" using low pos(4) by simp
      finally show "(of_nat r * u) * (of_nat r * u) \<le> hi * hi" .
    qed
    moreover have "root * u \<le> 2 * (of_nat r * u)" using bounds(2) u(1) by simp
    ultimately have up: "root * u \<le> 2 * hi" by linarith
    have "lo \<le> of_nat (r + 1) * u"
    proof (rule square_le)
      have "(of_nat (r + 1) * u) * (of_nat (r + 1) * u) = of_nat ((r + 1) * (r + 1)) * (u * u)"
        by (simp only: of_nat_mult mult.assoc mult.left_commute)
      with high pos(3) show "lo * lo \<le> (of_nat (r + 1) * u) * (of_nat (r + 1) * u)" by linarith
    qed (use u(1) in simp)
    moreover have "of_nat (r + 1) * u \<le> 2 * (of_nat r * u)" using bounds(3) u(1) by simp
    moreover have "of_nat r * u \<le> root * u" using bounds(1) u(1) by simp
    ultimately have down: "lo / 2 \<le> root * u" by linarith
    have "0 \<le> root * u" using bounds(1) u(1) by (simp add: root_def)
    then have "in_range (lo / 2) (2 * hi) (fround F False (root * u))"
      using up down assms(4,5) by (intro fround_range) auto
    moreover have "fsqrt F x = fround F False (root * u)"
      using pos False by (simp add: x fsqrt_def Let_def e_def r_def root_def u_def)
    ultimately show ?thesis by simp
  qed
qed

end

end
