(* ===== verification/Embedding_Bounds.thy ===== *)
theory Embedding_Bounds
  imports Float_Bounds
begin

text \<open>
  Embeddings as vectors (\<open>embedding/engine.rs\<close>): whatever the text, its vector has 128 finite
  components, and the cosine of two embeddings is a number between -1 and 1. The accumulators of
  \<open>hash_feature\<close> are multiples of one half that never pass \<open>2 ^ 27\<close>: past that the rounding absorbs
  every weight. A vector is scaled only when its magnitude is at least a quarter.
\<close>

subsection \<open>Accumulators\<close>

definition tame :: "float \<Rightarrow> bool" where
  "tame x \<longleftrightarrow> (\<exists>s k. x = Num s (of_nat k / 2) \<and> (of_nat k / 2 :: rat) \<le> 2 ^ 27)"

lemma representable_half: "k \<le> 2 ^ 24 \<Longrightarrow> representable F32 (of_nat k / 2)"
proof -
  assume k: "k \<le> 2 ^ 24"
  have "(of_nat k :: rat) \<le> of_nat (2 ^ 24)" using k by (simp only: of_nat_le_iff)
  then have "\<bar>of_nat k / 2 :: rat\<bar> < 2 powi 128" by simp
  with k show ?thesis unfolding representable_def F32_def
    by (intro conjI exI [of _ "int k"] exI [of _ "- 1"]) (auto simp: power_int_minus)
qed

lemma round_mag_pos:
  "0 < q \<Longrightarrow> round_mag F q = of_int (round_half_even (q / 2 powi quantum F q)) * 2 powi quantum F q"
  by (simp add: round_mag_def)

lemma round_half_multiple: "\<exists>n. round_mag F32 (of_nat k / 2) = of_nat n / 2"
proof (cases "k = 0")
  case True
  then show ?thesis by (intro exI [of _ 0]) simp
next
  case False
  let ?q = "of_nat k / 2 :: rat"
  define a where "a = quantum F32 ?q"
  have pos: "0 < ?q" using False by simp
  show ?thesis
  proof (cases "- 1 \<le> a")
    case True
    define z where "z = round_half_even (?q / 2 powi a)"
    have z: "0 \<le> z" unfolding z_def by (rule round_half_even_nonneg) simp
    have "(2 :: rat) powi (int (nat (a + 1)) + - 1) = 2 ^ nat (a + 1) * 2 powi (- 1)"
      by (rule powi_nat_add)
    then have "(2 :: rat) powi a = 2 ^ nat (a + 1) / 2"
      using True by (simp add: power_int_minus field_simps)
    moreover have "round_mag F32 ?q = of_int z * 2 powi a"
      unfolding round_mag_pos [OF pos] a_def z_def ..
    ultimately have "round_mag F32 ?q = of_nat (nat z * 2 ^ nat (a + 1)) / 2"
      using z by (simp add: of_nat_nat)
    then show ?thesis by blast
  next
    case False
    have "?q < 2 ^ 24 * 2 powi a" using f32.quantum_le [OF pos] by (simp add: a_def F32_def)
    also have "\<dots> \<le> 2 ^ 24 * 2 powi (- 2)" using False by (intro mult_left_mono powi_mono) auto
    finally have "?q < 2 ^ 22" by (simp add: power_int_minus)
    then have "(of_nat k :: rat) < of_nat (2 ^ 23)" by simp
    then have "k < 2 ^ 23" by (simp only: of_nat_less_iff)
    then have "representable F32 ?q" by (intro representable_half) simp
    then have "round_mag F32 ?q = ?q" using f32.round_mag_representable pos by simp
    then show ?thesis by blast
  qed
qed

lemma round_past_limit: "round_mag F32 (2 ^ 27 + 3) = 2 ^ 27"
proof -
  let ?q = "2 ^ 27 + 3 :: rat"
  have "ilog2 ?q = 27"
  proof (rule antisym)
    show "ilog2 ?q \<le> 27"
    proof (rule ccontr)
      assume "\<not> ilog2 ?q \<le> 27"
      then have "(2 :: rat) powi 28 \<le> 2 powi ilog2 ?q" by (intro powi_mono) simp
      with ilog2_bounds(1) [of ?q] show False by simp
    qed
    show "27 \<le> ilog2 ?q"
    proof (rule ccontr)
      assume "\<not> 27 \<le> ilog2 ?q"
      then have "(2 :: rat) powi (ilog2 ?q + 1) \<le> 2 powi 27" by (intro powi_mono) simp
      with ilog2_bounds(2) [of ?q] show False by simp
    qed
  qed
  then have quantum: "quantum F32 ?q = 4" by (simp add: quantum_def F32_def)
  have "\<lfloor>?q / 2 powi 4\<rfloor> = 8388608" by (rule floor_unique) simp_all
  then have half: "round_half_even (?q / 2 powi 4) = 8388608" by (simp add: round_half_even_def)
  have "0 < ?q" by simp
  from round_mag_pos [OF this, of F32] show ?thesis unfolding quantum half by simp
qed

text \<open>The weights a feature adds.\<close>

definition weight_ok :: "float \<Rightarrow> bool" where
  "weight_ok w \<longleftrightarrow> (\<exists>s k. w = Num s (of_nat k / 2) \<and> k \<le> 6)"

lemma tame_zero: "tame (Num s 0)"
  unfolding tame_def by (intro exI [of _ s] exI [of _ 0]) simp

lemma tame_round:
  assumes "(of_nat k / 2 :: rat) \<le> 2 ^ 27 + 3"
  shows "tame (fround F32 s (of_nat k / 2))"
proof -
  have "round_mag F32 (of_nat k / 2) \<le> round_mag F32 (2 ^ 27 + 3)" by (rule f32.round_mag_mono [OF assms])
  then have le: "round_mag F32 (of_nat k / 2) \<le> 2 ^ 27" by (simp only: round_past_limit)
  moreover have "(2 :: rat) ^ 27 < 2 powi fm_max F32" by (simp add: F32_def)
  ultimately have "fround F32 s (of_nat k / 2) = Num s (round_mag F32 (of_nat k / 2))"
    by (simp add: fround_def Let_def)
  with le round_half_multiple [of k] show ?thesis by (auto simp: tame_def)
qed

lemma tame_add:
  assumes "tame x" "weight_ok w"
  shows "tame (fadd F32 x w)"
proof -
  from assms obtain s k t j where x: "x = Num s (of_nat k / 2)" "(of_nat k / 2 :: rat) \<le> 2 ^ 27"
    and w: "w = Num t (of_nat j / 2)" "j \<le> 6" by (auto simp: tame_def weight_ok_def)
  define z where "z = (if s then - int k else int k) + (if t then - int j else int j)"
  have val: "num_val x + num_val w = of_int z / 2"
    by (simp add: x(1) w(1) z_def add_divide_distrib)
  have "\<bar>z\<bar> \<le> int k + 6" using w(2) by (auto simp: z_def)
  then have "\<bar>of_int z :: rat\<bar> \<le> of_int (int k + 6)" by (metis of_int_abs of_int_le_iff)
  then have le: "\<bar>of_int z / 2 :: rat\<bar> \<le> 2 ^ 27 + 3" using x(2) by (simp add: abs_if split: if_splits)
  have abs: "\<bar>of_int z / 2 :: rat\<bar> = of_nat (nat \<bar>z\<bar>) / 2" by (simp add: of_nat_nat)
  have add: "fadd F32 x w = (let r = num_val x + num_val w in
      if r = 0 then Num (s \<and> t) 0 else fround F32 (r < 0) \<bar>r\<bar>)"
    by (simp only: x(1) w(1) fadd.simps)
  show ?thesis
  proof (cases "num_val x + num_val w = 0")
    case True
    then show ?thesis using tame_zero by (simp add: add)
  next
    case False
    then have "fadd F32 x w = fround F32 (of_int z / 2 < (0 :: rat)) (of_nat (nat \<bar>z\<bar>) / 2)"
      by (simp only: add val Let_def abs if_False)
    moreover have "(of_nat (nat \<bar>z\<bar>) / 2 :: rat) \<le> 2 ^ 27 + 3" using le by (simp only: abs)
    ultimately show ?thesis by (simp only: tame_round)
  qed
qed

lemma lit32_half:
  "lit32 1 = Num False 1" "lit32 (- 1) = Num True 1" "lit32 (3 / 2) = Num False (3 / 2)"
  "lit32 (1 / 2) = Num False (1 / 2)" "lit32 2 = Num False 2" "lit32 3 = Num False 3"
proof -
  have rep: "representable F32 1" "representable F32 (- 1)" "representable F32 (3 / 2)"
    "representable F32 (1 / 2)" "representable F32 2" "representable F32 3"
    using representable_half [of 2] representable_half [of 3] representable_half [of 1]
      representable_half [of 4] representable_half [of 6] by simp_all
  from rep [THEN f32.of_rat_lit_exact] show
    "lit32 1 = Num False 1" "lit32 (- 1) = Num True 1" "lit32 (3 / 2) = Num False (3 / 2)"
    "lit32 (1 / 2) = Num False (1 / 2)" "lit32 2 = Num False 2" "lit32 3 = Num False 3"
    by simp_all
qed

definition feature_weight :: "float \<Rightarrow> bool" where
  "feature_weight w \<longleftrightarrow> (\<exists>k. w = Num False (of_nat k / 2) \<and> k \<le> 6)"

lemma feature_weights:
  "feature_weight (lit32 1)" "feature_weight (lit32 (3 / 2))" "feature_weight (lit32 (1 / 2))"
  "feature_weight (lit32 2)" "feature_weight (lit32 3)"
proof -
  have w: "k \<le> 6 \<Longrightarrow> feature_weight (Num False (of_nat k / 2))" for k
    unfolding feature_weight_def by blast
  from w [of 2] w [of 3] w [of 1] w [of 4] w [of 6] show
    "feature_weight (lit32 1)" "feature_weight (lit32 (3 / 2))" "feature_weight (lit32 (1 / 2))"
    "feature_weight (lit32 2)" "feature_weight (lit32 3)"
    by (simp_all add: lit32_half)
qed

lemma signed_weight: "feature_weight w \<Longrightarrow> weight_ok (fmul F32 (if b then lit32 1 else lit32 (- 1)) w)"
  unfolding feature_weight_def weight_ok_def lit32_half
  using representable_half f32.fround_exact by auto

lemma text_features_weights: "list_all (\<lambda>(f, w). feature_weight w) (text_features ws)"
  using feature_weights
  by (auto simp: text_features_def unigrams_def bigrams_def trigrams_of_def dotted_of_def list_all_iff
      Let_def split: if_splits)

lemma hash_feature_tame:
  assumes "list_all tame vec" "feature_weight w"
  shows "list_all tame (hash_feature vec f w) \<and> length (hash_feature vec f w) = length vec"
proof (cases "vec = []")
  case True
  then show ?thesis by (simp add: hash_feature_def Let_def)
next
  case False
  define d where "d = unat (fnv1a f) mod length vec"
  define c where "c \<longleftrightarrow> fnv1a_seed f 0x6c62272e07bb0142 AND 1 = 0"
  define y where "y = fadd F32 (vec ! d) (fmul F32 (if c then lit32 1 else lit32 (- 1)) w)"
  have "d < length vec" using False by (simp add: d_def)
  with assms(1) have "tame (vec ! d)" by (simp add: list_all_length)
  then have "tame y" unfolding y_def by (rule tame_add [OF _ signed_weight [OF assms(2)]])
  moreover have "hash_feature vec f w = vec[d := y]"
    unfolding hash_feature_def Let_def y_def d_def c_def ..
  ultimately show ?thesis
    using assms(1) set_update_subset_insert [of vec d y] by (auto simp: list_all_iff)
qed

lemma accumulate_tame:
  "list_all tame vec \<Longrightarrow> list_all (\<lambda>(f, w). feature_weight w) fs \<Longrightarrow>
    list_all tame (foldl (\<lambda>vec (f, w). hash_feature vec f w) vec fs)
    \<and> length (foldl (\<lambda>vec (f, w). hash_feature vec f w) vec fs) = length vec"
  by (induction fs arbitrary: vec) (auto simp: hash_feature_tame)

subsection \<open>Scaling\<close>

abbreviation finite_component :: "float \<Rightarrow> bool" where
  "finite_component \<equiv> in_range (- (2 ^ 29)) (2 ^ 29)"

lemma tame_range: "tame x \<Longrightarrow> in_range (- (2 ^ 27)) (2 ^ 27) x"
  by (auto simp: tame_def in_range_def)

lemma representable_32_pow: "k \<le> 127 \<Longrightarrow> representable F32 (2 ^ k)"
  by (rule f32.representable_pow) (simp add: F32_def)

lemma representable_quarter: "representable F32 (1 / 4)"
  unfolding representable_def F32_def by (intro conjI exI [of _ 1] exI [of _ "- 2"]) (auto simp: power_int_minus)

lemma square_bound:
  assumes "- b \<le> u" "u \<le> b" "- b \<le> v" "v \<le> (b :: rat)"
  shows "\<bar>u * v\<bar> \<le> b * b"
proof -
  have "\<bar>u\<bar> \<le> b" "\<bar>v\<bar> \<le> b" using assms by auto
  then show ?thesis unfolding abs_mult by (intro mult_mono) auto
qed

lemma square_tame:
  assumes "tame x"
  shows "in_range 0 (2 ^ 54) (fmul F32 x x)" "num_val x \<noteq> 0 \<Longrightarrow> 1 / 4 \<le> num_val (fmul F32 x x)"
    "num_val x = 0 \<Longrightarrow> \<exists>s. fmul F32 x x = Num s 0"
proof -
  from assms obtain s k where x: "x = Num s (of_nat k / 2)" "(of_nat k / 2 :: rat) \<le> 2 ^ 27"
    by (auto simp: tame_def)
  have mul: "fmul F32 x x = fround F32 False (of_nat k / 2 * (of_nat k / 2))" by (simp add: x)
  have up: "(of_nat k / 2 * (of_nat k / 2) :: rat) \<le> 2 ^ 54"
    using mult_mono [OF x(2) x(2)] by simp
  from up show "in_range 0 (2 ^ 54) (fmul F32 x x)"
    unfolding mul using representable_32_pow [of 54] by (intro f32.fround_range) simp_all
  show "1 / 4 \<le> num_val (fmul F32 x x)" if "num_val x \<noteq> 0"
  proof -
    from that x have "1 \<le> k" by (cases k) (auto split: if_splits)
    then have one: "(1 :: rat) \<le> of_nat k" by simp
    have "1 / 4 \<le> (of_nat k / 2 * (of_nat k / 2) :: rat)" using mult_mono [OF one one] by simp
    with up have "in_range (1 / 4) (2 ^ 54) (fmul F32 x x)"
      unfolding mul using representable_32_pow [of 54] representable_quarter
      by (intro f32.fround_range) simp_all
    then show ?thesis by (auto elim: in_rangeE)
  qed
  show "\<exists>s. fmul F32 x x = Num s 0" if "num_val x = 0"
    using that x f32.fround_exact [of 0 False] by (auto split: if_splits)
qed

lemma fsum_zeros: "list_all (\<lambda>x. \<exists>s. x = Num s 0) xs \<Longrightarrow> \<exists>s. fsum F32 xs = Num s 0"
proof -
  have "list_all (\<lambda>x. \<exists>s. x = Num s 0) xs \<Longrightarrow> \<exists>s. foldl (fadd F32) (Num t 0) xs = Num s 0" for t
    by (induction xs arbitrary: t) auto
  then show "list_all (\<lambda>x. \<exists>s. x = Num s 0) xs \<Longrightarrow> \<exists>s. fsum F32 xs = Num s 0"
    by (simp add: fsum_def)
qed

lemma tame_finite: "tame x \<Longrightarrow> finite_component x"
  by (rule in_range_weaken [OF tame_range]) simp_all

lemma normalize_range:
  assumes "list_all tame vec" "length vec \<le> 2 ^ 24"
  shows "list_all finite_component (normalize_vector vec)"
proof -
  let ?squares = "map (\<lambda>x. fmul F32 x x) vec"
  have all: "list_all (in_range 0 (2 ^ 54)) ?squares"
    using assms(1) square_tame(1) by (auto simp: list_all_iff)
  have unscaled: "list_all finite_component vec"
    using assms(1) tame_finite by (auto simp: list_all_iff)
  show ?thesis
  proof (cases "\<exists>x \<in> set vec. num_val x \<noteq> 0")
    case True
    then obtain x where x: "x \<in> set vec" "num_val x \<noteq> 0" by blast
    then have "1 / 4 \<le> num_val (fmul F32 x x)" using assms(1) square_tame(2) by (auto simp: list_all_iff)
    then have "in_range (1 / 4) (of_nat (length ?squares) * 2 ^ 54) (fsum F32 ?squares)"
      using assms(2) x(1) representable_quarter
      by (intro f32.fsum_ge [OF _ _ all]) (auto simp: F32_def)
    moreover have "(of_nat (length ?squares) * 2 ^ 54 :: rat) \<le> 2 ^ 39 * 2 ^ 39"
    proof -
      have "(of_nat (length vec) :: rat) \<le> of_nat (2 ^ 24)" using assms(2) by (simp only: of_nat_le_iff)
      then show ?thesis by simp
    qed
    ultimately have "in_range (1 / 2 * (1 / 2)) (2 ^ 39 * 2 ^ 39) (fsum F32 ?squares)"
      by (elim in_range_weaken) simp_all
    then have mag: "in_range (1 / 2 / 2) (2 * 2 ^ 39) (fsqrt F32 (fsum F32 ?squares))"
      using representable_quarter representable_32_pow [of 40] by (intro f32.fsqrt_range) simp_all
    have "finite_component (fdiv F32 x (fsqrt F32 (fsum F32 ?squares)))" if "tame x" for x
    proof (rule f32.div_range [OF tame_range [OF that] mag])
      fix u v :: rat
      assume u: "- (2 ^ 27) \<le> u" "u \<le> 2 ^ 27" and v: "1 / 2 / 2 \<le> v"
      have "\<bar>u\<bar> / v \<le> 2 ^ 27 / (1 / 4)" using u v by (intro frac_le) auto
      moreover have "\<bar>u / v\<bar> = \<bar>u\<bar> / v" using v by simp
      moreover have "2 ^ 27 / (1 / 4) = (2 ^ 29 :: rat)" by simp
      ultimately have "\<bar>u / v\<bar> \<le> 2 ^ 29" by (simp only:)
      then show "- (2 ^ 29) \<le> u / v \<and> u / v \<le> 2 ^ 29" by linarith
    qed (use representable_32_pow [of 29] in simp_all)
    with assms(1) unscaled show ?thesis by (auto simp: normalize_vector_def Let_def list_all_iff)
  next
    case False
    then have "list_all (\<lambda>x. \<exists>s. x = Num s 0) ?squares"
      using assms(1) square_tame(3) by (auto simp: list_all_iff)
    from fsum_zeros [OF this] obtain s where "fsum F32 ?squares = Num s 0" by blast
    with unscaled show ?thesis by (simp add: normalize_vector_def fsqrt_def Let_def)
  qed
qed

lemma embedding_components:
  "list_all finite_component (components (embed_text U t)) \<and> vector_dim (embed_text U t) = 128"
proof -
  have zero: "list_all tame (replicate 128 fzero)" using tame_zero by (simp add: list_all_iff)
  from accumulate_tame [OF zero text_features_weights [of "text_words U t"]]
  have acc: "list_all tame (foldl (\<lambda>vec (f, w). hash_feature vec f w) (replicate 128 fzero) (text_features (text_words U t)))"
    "length (foldl (\<lambda>vec (f, w). hash_feature vec f w) (replicate 128 fzero) (text_features (text_words U t))) = 128"
    by simp_all
  have len: "length (normalize_vector vec) = length vec" for vec
    by (simp add: normalize_vector_def Let_def)
  have "finite_component fzero" by (simp add: in_range_def)
  with normalize_range [OF acc(1)] acc(2) len show ?thesis
    by (auto simp: embed_text_def vector_dim_def EMBEDDING_DIM_def Let_def list_all_iff)
qed

subsection \<open>Cosines\<close>

lemma fmul_commute: "fmul F x y = fmul F y x"
  by (cases x; cases y; simp only: fmul.simps mult.commute neq_commute)

lemma zip_mul_commute: "map (\<lambda>(x, y). fmul F x y) (zip xs ys) = map (\<lambda>(x, y). fmul F x y) (zip ys xs)"
  by (induction xs ys rule: list_induct2') (auto simp: fmul_commute)

lemma cosine_symmetric: "cosine_similarity a b = cosine_similarity b a"
proof -
  let ?dot = "\<lambda>a b. fsum F64 (map (\<lambda>(x, y). mul64 x y) (zip (components a) (components b)))"
  have dot: "?dot a b = ?dot b a" by (simp only: zip_mul_commute)
  have mag: "mul64 (vector_magnitude (components a)) (vector_magnitude (components b))
      = mul64 (vector_magnitude (components b)) (vector_magnitude (components a))"
    by (rule fmul_commute)
  show ?thesis
    unfolding cosine_similarity_def Let_def dot mag by (auto simp: eq_commute)
qed

lemma representable_64_pow2: "k \<le> 1000 \<Longrightarrow> representable F64 (2 ^ k)"
  by (rule f64.representable_pow) (simp add: F64_def)

lemma representable_64_powi: "- 1074 \<le> e \<Longrightarrow> e \<le> 900 \<Longrightarrow> representable F64 (2 powi e)"
  using representable_64_scaled [of 1 e] by simp

lemma product_range:
  assumes "finite_component x" "finite_component y"
  shows "in_range (- (2 ^ 58)) (2 ^ 58) (mul64 x y)"
proof (rule f64.mul_range [OF assms])
  fix u v :: rat
  assume uv: "- (2 ^ 29) \<le> u" "u \<le> 2 ^ 29" "- (2 ^ 29) \<le> v" "v \<le> 2 ^ 29"
  have "(2 :: rat) ^ 29 * 2 ^ 29 = 2 ^ 58" by simp
  with square_bound [OF uv] show "- (2 ^ 58) \<le> u * v \<and> u * v \<le> 2 ^ 58" by linarith
qed (use representable_64_pow2 [of 58] in simp_all)

lemma square_range:
  assumes "finite_component x"
  shows "in_range 0 (2 ^ 58) (mul64 x x)"
proof -
  from product_range [OF assms assms] have r: "in_range (- (2 ^ 58)) (2 ^ 58) (mul64 x x)" .
  from assms obtain s m where x: "x = Num s m" "0 \<le> m" by (auto elim: in_rangeE)
  then have "mul64 x x = fround F64 False (m * m)" by simp
  with r show ?thesis by (auto simp: fround_def Let_def in_range_def f64.round_mag_nonneg split: if_splits)
qed

lemma scaled_le: "n \<le> 128 \<Longrightarrow> (of_nat n * 2 ^ 58 :: rat) \<le> 2 ^ 65"
proof -
  assume "n \<le> 128"
  then have "(of_nat n :: rat) \<le> of_nat 128" by (simp only: of_nat_le_iff)
  then show ?thesis by simp
qed

lemma dot_range:
  assumes "list_all finite_component xs" "list_all finite_component ys" "length xs \<le> 128"
  shows "in_range (- (2 ^ 65)) (2 ^ 65) (fsum F64 (map (\<lambda>(x, y). mul64 x y) (zip xs ys)))"
proof -
  let ?ps = "map (\<lambda>(x, y). mul64 x y) (zip xs ys)"
  have "list_all (in_range (- (1 * 2 ^ 58)) (2 ^ 58)) ?ps"
    using assms(1,2)
    by (auto simp only: list_all_iff set_map image_iff prod.case mult_1
        intro!: product_range dest: set_zip_leftD set_zip_rightD)
  from f64.fsum_range [OF _ _ _ this] assms(3)
  have "in_range (- (1 * (of_nat (length ?ps) * 2 ^ 58))) (of_nat (length ?ps) * 2 ^ 58) (fsum F64 ?ps)"
    by (simp add: F64_def)
  moreover have "(of_nat (length ?ps) * 2 ^ 58 :: rat) \<le> 2 ^ 65"
    by (rule scaled_le) (use assms(3) in simp)
  ultimately show ?thesis by (elim in_range_weaken) linarith+
qed

lemma magnitude_range:
  assumes "list_all finite_component xs" "length xs \<le> 128"
  shows "in_range 0 (2 ^ 34) (vector_magnitude xs)"
proof -
  let ?ps = "map (\<lambda>x. mul64 x x) xs"
  have "list_all (in_range (- (0 * 2 ^ 58)) (2 ^ 58)) ?ps"
    using assms(1) square_range by (auto simp: list_all_iff)
  from f64.fsum_range [OF _ _ _ this] assms(2)
  have "in_range 0 (of_nat (length ?ps) * 2 ^ 58) (fsum F64 ?ps)" by (simp add: F64_def)
  moreover have "(of_nat (length ?ps) * 2 ^ 58 :: rat) \<le> 2 ^ 65"
    by (rule scaled_le) (use assms(2) in simp)
  then have "(of_nat (length ?ps) * 2 ^ 58 :: rat) \<le> 2 ^ 33 * 2 ^ 33" by simp
  ultimately have "in_range (0 * 0) (2 ^ 33 * 2 ^ 33) (fsum F64 ?ps)"
    by (elim in_range_weaken) simp_all
  from f64.fsqrt_range [OF this] show ?thesis
    using representable_64_pow2 [of 34] by (simp add: vector_magnitude_def)
qed

lemma tiny_range: "in_range (2 powi (- 34)) 1 (lit64 (1 / 10 ^ 10))"
  by (rule f64.lit_between) (use representable_64_powi [of "- 34"] in \<open>simp_all add: power_int_minus\<close>)

lemma not_tiny:
  assumes "in_range 0 hi x" "\<not> flt x (lit64 (1 / 10 ^ 10))"
  shows "in_range (2 powi (- 34)) hi x"
proof -
  from tiny_range have "2 powi (- 34) \<le> num_val (lit64 (1 / 10 ^ 10))" by (auto elim: in_rangeE)
  with assms flt_in_range [OF assms(1) tiny_range] have "2 powi (- 34) \<le> num_val x" by simp
  with assms(1) show ?thesis by (auto simp: in_range_def split: float.splits)
qed

lemma cosine_range:
  assumes "list_all finite_component (components a)" "list_all finite_component (components b)"
    and "vector_dim a \<le> 128" "vector_dim b \<le> 128"
  shows "in_range (- 1) 1 (cosine_similarity a b)"
proof -
  let ?xs = "components a" and ?ys = "components b"
  have zero: "in_range (- 1) 1 fzero" by (simp add: in_range_def)
  have "in_range (- 1) 1 (fclamp (lit64 (- 1)) (lit64 1)
      (div64 (fsum F64 (map (\<lambda>(x, y). mul64 x y) (zip ?xs ?ys)))
        (mul64 (vector_magnitude ?xs) (vector_magnitude ?ys))))"
    if "\<not> flt (vector_magnitude ?xs) (lit64 (1 / 10 ^ 10))" "\<not> flt (vector_magnitude ?ys) (lit64 (1 / 10 ^ 10))"
  proof -
    note dot = dot_range [OF assms(1,2) assms(3) [unfolded vector_dim_def]]
    note mags = not_tiny [OF magnitude_range [OF assms(1) assms(3) [unfolded vector_dim_def]] that(1)]
      not_tiny [OF magnitude_range [OF assms(2) assms(4) [unfolded vector_dim_def]] that(2)]
    have "in_range (2 powi (- 34) * 2 powi (- 34)) (2 ^ 34 * 2 ^ 34)
        (mul64 (vector_magnitude ?xs) (vector_magnitude ?ys))"
      by (rule f64.mul_nonneg_range [OF mags])
        (use representable_64_powi [of "- 68"] representable_64_pow2 [of 68] in \<open>simp_all add: power_int_minus\<close>)
    then have product: "in_range (2 powi (- 68)) (2 ^ 68) (mul64 (vector_magnitude ?xs) (vector_magnitude ?ys))"
      by (simp add: power_int_minus)
    have "in_range (- (2 ^ 133)) (2 ^ 133) (div64 (fsum F64 (map (\<lambda>(x, y). mul64 x y) (zip ?xs ?ys)))
        (mul64 (vector_magnitude ?xs) (vector_magnitude ?ys)))"
    proof (rule f64.div_range [OF dot product])
      fix u v :: rat
      assume u: "- (2 ^ 65) \<le> u" "u \<le> 2 ^ 65" and v: "2 powi (- 68) \<le> v"
      have pos: "0 < v" using v by (rule less_le_trans [rotated]) simp
      have "\<bar>u\<bar> / v \<le> 2 ^ 65 / 2 powi (- 68)" using u v by (intro frac_le) auto
      moreover have "\<bar>u / v\<bar> = \<bar>u\<bar> / v" using pos by simp
      moreover have "2 ^ 65 / 2 powi (- 68) = (2 ^ 133 :: rat)" by (simp add: power_int_minus)
      ultimately have "\<bar>u / v\<bar> \<le> 2 ^ 133" by (simp only:)
      then show "- (2 ^ 133) \<le> u / v \<and> u / v \<le> 2 ^ 133" by linarith
    qed (use representable_64_pow2 [of 133] in simp_all)
    moreover have "in_range (- 1) (- 1) (lit64 (- 1))" "in_range 1 1 (lit64 1)"
      by (rule f64.lit_range, simp)+
    ultimately show ?thesis by (intro in_range_clamp_between) (assumption | simp)+
  qed
  with zero show ?thesis by (simp add: cosine_similarity_def Let_def)
qed

subsection \<open>Properties\<close>

lemma length_consensus_bytes: "length (to_consensus_bytes v) = 4 * vector_dim v"
  by (simp add: to_consensus_bytes_def vector_dim_def length_concat comp_def sum_list_triv)

text \<open>(C23) An embedding is a vector of its type: whatever the text, however long and in whatever script,
  it has 128 components, each a finite number, and its consensus encoding has 512 bytes.\<close>

theorem embedding_well_formed:
  "vector_dim (embed_text U t) = 128 \<and> list_all is_finite (components (embed_text U t))
   \<and> length (to_consensus_bytes (embed_text U t)) = 512"
proof -
  have "is_finite x" if "finite_component x" for x
    using that by (auto simp: is_finite_def in_range_def split: float.splits)
  then have "list_all is_finite xs" if "list_all finite_component xs" for xs
    using that by (auto simp: list_all_iff)
  then show ?thesis using embedding_components [of U t] by (simp add: length_consensus_bytes)
qed

text \<open>(C24) The similarity of two embeddings is a number, lies between -1 and 1, and does not depend on
  the order of the texts; no text makes it overflow or not a number.\<close>

theorem embedding_similarity_bounded:
  "in_range (- 1) 1 (cosine_similarity (embed_text U s) (embed_text U t))
   \<and> cosine_similarity (embed_text U s) (embed_text U t) = cosine_similarity (embed_text U t) (embed_text U s)"
  using cosine_range embedding_components [of U s] embedding_components [of U t] cosine_symmetric by simp

end
