(* ===== verification/Request_Signing.thy ===== *)
theory Request_Signing
  imports Conversation_Signing
begin

text \<open>
  Signed requests to a node (\<open>crates/zincha-client/src/lib.rs\<close>): the text a participant or its
  delegate signs for one request, and the headers that carry it. The text is a list of fields
  joined by line feeds, under one of two prefixes; as long as no field has a line feed, which no
  HTTP request line or header can carry either, a signature covers exactly one request.

  The clock and the random nonce, used where the caller names none, are arguments.
\<close>

definition SIGNED_REQUEST_PREFIX :: rstr where
  "SIGNED_REQUEST_PREFIX = lit ''zincha-rpc-signed-request-v1''"

definition DELEGATED_REQUEST_PREFIX :: rstr where
  "DELEGATED_REQUEST_PREFIX = lit ''zincha-rpc-delegated-read-v1''"

definition to_ascii_uppercase :: "rstr \<Rightarrow> rstr" where
  "to_ascii_uppercase s = map (\<lambda>c. if is_ascii_lowercase c then c - 32 else c) s"

record signed_request_parts =
  sp_message :: rstr
  sp_body_sha256 :: rstr
  sp_timestamp_ms :: u64
  sp_nonce :: rstr
  sp_address :: rstr
  sp_public_key :: rstr
  sp_signature :: rstr

definition random_nonce_hex :: "externs \<Rightarrow> u8 list \<Rightarrow> rstr" where
  "random_nonce_hex X random = hex_encode X random"

definition signed_request_fields ::
  "externs \<Rightarrow> keypair \<Rightarrow> rstr \<Rightarrow> rstr \<Rightarrow> u8 list \<Rightarrow> u64 \<Rightarrow> rstr \<Rightarrow> rstr list" where
  "signed_request_fields X signer meth target body timestamp nonce =
     [SIGNED_REQUEST_PREFIX, to_ascii_uppercase meth, target, show_nat (unat timestamp), nonce,
      hash_to_hex X (hash_bytes X body), addr_to_hex X (kp_address X signer),
      hex_encode X (pk_bytes (kp_public_key X signer))]"

definition signed_request_parts_of ::
  "externs \<Rightarrow> u64 \<Rightarrow> u8 list \<Rightarrow> keypair \<Rightarrow> rstr \<Rightarrow> rstr \<Rightarrow> u8 list \<Rightarrow> u64 option \<Rightarrow> rstr option
    \<Rightarrow> signed_request_parts" where
  "signed_request_parts_of X now random signer meth target body timestamp nonce =
     (let timestamp_ms = (case timestamp of None \<Rightarrow> now | Some t \<Rightarrow> t);
          nonce_txt = (case nonce of None \<Rightarrow> random_nonce_hex X random | Some n \<Rightarrow> n);
          message = join_with [0x0A] (signed_request_fields X signer meth target body timestamp_ms nonce_txt)
      in \<lparr>sp_message = message, sp_body_sha256 = hash_to_hex X (hash_bytes X body),
          sp_timestamp_ms = timestamp_ms, sp_nonce = nonce_txt,
          sp_address = addr_to_hex X (kp_address X signer),
          sp_public_key = hex_encode X (pk_bytes (kp_public_key X signer)),
          sp_signature = hex_encode X (sig_bytes (kp_sign X signer (utf8 message)))\<rparr>)"

text \<open>The headers, in the order of their names.\<close>

definition signed_request_headers ::
  "externs \<Rightarrow> u64 \<Rightarrow> u8 list \<Rightarrow> keypair \<Rightarrow> rstr \<Rightarrow> rstr \<Rightarrow> u8 list \<Rightarrow> u64 option \<Rightarrow> rstr option
    \<Rightarrow> (rstr \<times> rstr) list" where
  "signed_request_headers X now random signer meth target body timestamp nonce =
     (let parts = signed_request_parts_of X now random signer meth target body timestamp nonce in
      [(lit ''x-zincha-address'', sp_address parts),
       (lit ''x-zincha-body-sha256'', sp_body_sha256 parts),
       (lit ''x-zincha-nonce'', sp_nonce parts),
       (lit ''x-zincha-public-key'', sp_public_key parts),
       (lit ''x-zincha-signature'', sp_signature parts),
       (lit ''x-zincha-timestamp-ms'', show_nat (unat (sp_timestamp_ms parts)))])"

definition delegated_request_fields ::
  "externs \<Rightarrow> keypair \<Rightarrow> rstr \<Rightarrow> rstr \<Rightarrow> u8 list \<Rightarrow> u64 \<Rightarrow> rstr \<Rightarrow> hash256 \<Rightarrow> rstr list" where
  "delegated_request_fields X signer meth target body timestamp nonce delegation =
     [DELEGATED_REQUEST_PREFIX, to_ascii_uppercase meth, target, show_nat (unat timestamp), nonce,
      hash_to_hex X (hash_bytes X body), addr_to_hex X (kp_address X signer),
      hex_encode X (pk_bytes (kp_public_key X signer)), hash_to_hex X delegation]"

definition delegated_request_headers ::
  "externs \<Rightarrow> u64 \<Rightarrow> u8 list \<Rightarrow> keypair \<Rightarrow> rstr \<Rightarrow> rstr \<Rightarrow> u8 list \<Rightarrow> rstr \<Rightarrow> u64 option \<Rightarrow> rstr option
    \<Rightarrow> (rstr \<times> rstr) list option" where
  "delegated_request_headers X now random signer meth target body delegation_id timestamp nonce =
     (case hash_from_hex X delegation_id of
        None \<Rightarrow> None
      | Some delegation \<Rightarrow>
          let timestamp_ms = (case timestamp of None \<Rightarrow> now | Some t \<Rightarrow> t);
              nonce_txt = (case nonce of None \<Rightarrow> random_nonce_hex X random | Some n \<Rightarrow> n);
              message = join_with [0x0A]
                (delegated_request_fields X signer meth target body timestamp_ms nonce_txt delegation)
          in Some
            [(lit ''x-zincha-address'', addr_to_hex X (kp_address X signer)),
             (lit ''x-zincha-body-sha256'', hash_to_hex X (hash_bytes X body)),
             (lit ''x-zincha-delegation-id'', hash_to_hex X delegation),
             (lit ''x-zincha-nonce'', nonce_txt),
             (lit ''x-zincha-public-key'', hex_encode X (pk_bytes (kp_public_key X signer))),
             (lit ''x-zincha-signature'', hex_encode X (sig_bytes (kp_sign X signer (utf8 message)))),
             (lit ''x-zincha-timestamp-ms'', show_nat (unat timestamp_ms))])"

subsection \<open>Fields\<close>

text \<open>The two texts in one: with a delegation or without.\<close>

definition request_fields ::
  "externs \<Rightarrow> hash256 option \<Rightarrow> keypair \<Rightarrow> rstr \<Rightarrow> rstr \<Rightarrow> u8 list \<Rightarrow> u64 \<Rightarrow> rstr \<Rightarrow> rstr list" where
  "request_fields X delegation signer meth target body timestamp nonce =
     (case delegation of
        None \<Rightarrow> signed_request_fields X signer meth target body timestamp nonce
      | Some d \<Rightarrow> delegated_request_fields X signer meth target body timestamp nonce d)"

lemma upper_clean:
  assumes "clean s"
  shows "clean (to_ascii_uppercase s)"
proof -
  define f where "f = (\<lambda>c :: rchar. if is_ascii_lowercase c then c - 32 else c)"
  have "is_scalar (f c) \<and> f c \<noteq> 0x0A" if "c \<in> set s" for c
    using assms that
    by (auto simp: f_def clean_def wf_str_def list_all_iff is_scalar_def is_ascii_lowercase_def)
  moreover have "to_ascii_uppercase s = map f s" by (simp add: to_ascii_uppercase_def f_def)
  ultimately show ?thesis by (fastforce simp: clean_def wf_str_def list_all_iff)
qed

lemma clean_addr: "hex_ok X \<Longrightarrow> clean (addr_to_hex X a)"
proof -
  have "clean ADDRESS_PREFIX" by (simp add: ADDRESS_PREFIX_def clean_def wf_str_def is_scalar_def)
  then show "hex_ok X \<Longrightarrow> ?thesis" by (simp add: addr_to_hex_def to_raw_hex_def clean_hex)
qed

lemma clean_prefixes: "clean SIGNED_REQUEST_PREFIX" "clean DELEGATED_REQUEST_PREFIX"
  by (simp_all add: clean_def wf_str_def is_scalar_def SIGNED_REQUEST_PREFIX_def DELEGATED_REQUEST_PREFIX_def)

lemma request_fields_clean:
  assumes "hex_ok X" "clean meth" "clean target" "clean nonce"
  shows "list_all clean (request_fields X d k meth target body ts nonce)"
  using assms clean_prefixes
  by (cases d) (simp_all add: request_fields_def signed_request_fields_def delegated_request_fields_def
      upper_clean clean_addr clean_hex hash_to_hex_def)

lemma hex_inj: "hex_ok X \<Longrightarrow> hex_encode X a = hex_encode X b \<longleftrightarrow> a = b"
  unfolding hex_ok_def by (metis option.inject)

lemma request_fields_inj:
  assumes "hex_ok X" "inj_on (hash_bytes X) {body, body'}"
    and "request_fields X d k meth target body ts nonce = request_fields X d' k' meth' target' body' ts' nonce'"
  shows "d = d' \<and> to_ascii_uppercase meth = to_ascii_uppercase meth' \<and> target = target' \<and> body = body'
    \<and> ts = ts' \<and> nonce = nonce' \<and> kp_public_key X k = kp_public_key X k'"
proof -
  have hash: "hash_to_hex X g = hash_to_hex X h \<longleftrightarrow> g = h" for g h
    by (auto simp: hash_to_hex_def hex_inj [OF assms(1)] intro: hash256.expand)
  have key: "pk_bytes p = pk_bytes q \<longleftrightarrow> p = q" for p q by (auto intro: public_key.expand)
  have body: "hash_bytes X body = hash_bytes X body' \<longleftrightarrow> body = body'"
    by (rule hash_bytes_eq_iff [OF assms(2)])
  show ?thesis
    using assms(3)
    by (cases d; cases d')
      (auto simp: request_fields_def signed_request_fields_def delegated_request_fields_def hash key body
        hex_inj [OF assms(1)] show_nat_inj word_unat_eq_iff [symmetric])
qed

subsection \<open>Property\<close>

text \<open>The header of a request that carries its signature.\<close>

definition signature_header :: "(rstr \<times> rstr) list \<Rightarrow> rstr option" where
  "signature_header headers = map_of headers (lit ''x-zincha-signature'')"

lemma signature_headers:
  "signature_header (signed_request_headers X now rnd k meth target body (Some ts) (Some nonce))
    = Some (hex_encode X (sig_bytes (kp_sign X k
        (utf8 (join_with [0x0A] (request_fields X None k meth target body ts nonce))))))"
  "hash_from_hex X did = Some d \<Longrightarrow>
   map_option signature_header (delegated_request_headers X now rnd k meth target body did (Some ts) (Some nonce))
    = Some (Some (hex_encode X (sig_bytes (kp_sign X k
        (utf8 (join_with [0x0A] (request_fields X (Some d) k meth target body ts nonce)))))))"
  by (simp_all add: signature_header_def signed_request_headers_def signed_request_parts_of_def
      delegated_request_headers_def request_fields_def Let_def)

text \<open>(C20) The headers of a signed or delegated request carry a signature of the signer's key over the
  request's text, and that text covers one request only: two texts are the same only for the same
  delegation (or none in both), method, target, time, nonce, body and key, unless SHA-256 collides
  on the bodies.\<close>

theorem request_signature_binds:
  assumes "hex_ok X" "ed25519_ok X" "wf_keypair k" "list_all clean [meth, target, nonce, meth', target', nonce']"
    and "inj_on (hash_bytes X) {body, body'}"
    and "message = (\<lambda>d k meth target body ts nonce.
        utf8 (join_with [0x0A] (request_fields X d k meth target body ts nonce)))"
  shows "(\<exists>sig. signature_header (signed_request_headers X now rnd k meth target body (Some ts) (Some nonce))
          = Some (hex_encode X (sig_bytes sig))
        \<and> pk_verify X (kp_public_key X k) (message None k meth target body ts nonce) sig = Ok ())
    \<and> (hash_from_hex X did = Some delegation \<longrightarrow>
        (\<exists>headers sig.
          delegated_request_headers X now rnd k meth target body did (Some ts) (Some nonce) = Some headers
          \<and> signature_header headers = Some (hex_encode X (sig_bytes sig))
          \<and> pk_verify X (kp_public_key X k) (message (Some delegation) k meth target body ts nonce) sig = Ok ()))
    \<and> (message d k meth target body ts nonce = message d' k' meth' target' body' ts' nonce' \<longrightarrow>
        d = d' \<and> to_ascii_uppercase meth = to_ascii_uppercase meth' \<and> target = target' \<and> body = body'
        \<and> ts = ts' \<and> nonce = nonce' \<and> kp_public_key X k = kp_public_key X k')"
proof -
  have verified: "pk_verify X (kp_public_key X k) m (kp_sign X k m) = Ok ()" for m
    using sign_verify [OF assms(2,3)] by simp
  have fields: "list_all clean (request_fields X d k meth target body ts nonce)"
    "list_all clean (request_fields X d' k' meth' target' body' ts' nonce')"
    using assms(1,4) by (simp_all add: request_fields_clean)
  have nonempty: "request_fields X d k meth target body ts nonce \<noteq> []" for d k meth target body ts nonce
    by (cases d) (simp_all add: request_fields_def signed_request_fields_def delegated_request_fields_def)
  have binds: "d = d' \<and> to_ascii_uppercase meth = to_ascii_uppercase meth' \<and> target = target' \<and> body = body'
        \<and> ts = ts' \<and> nonce = nonce' \<and> kp_public_key X k = kp_public_key X k'"
    if "message d k meth target body ts nonce = message d' k' meth' target' body' ts' nonce'"
    using that joined_fields_inj [OF _ fields nonempty nonempty] request_fields_inj [OF assms(1,5)]
    unfolding assms(6) by blast
  have plain: "\<exists>sig. signature_header (signed_request_headers X now rnd k meth target body (Some ts) (Some nonce))
          = Some (hex_encode X (sig_bytes sig))
        \<and> pk_verify X (kp_public_key X k) (message None k meth target body ts nonce) sig = Ok ()"
    unfolding assms(6) signature_headers(1) using verified by blast
  have delegated: "\<exists>headers sig.
          delegated_request_headers X now rnd k meth target body did (Some ts) (Some nonce) = Some headers
          \<and> signature_header headers = Some (hex_encode X (sig_bytes sig))
          \<and> pk_verify X (kp_public_key X k) (message (Some delegation) k meth target body ts nonce) sig = Ok ()"
    if "hash_from_hex X did = Some delegation"
    using signature_headers(2) [OF that, of now rnd k meth target body ts nonce] verified
    unfolding assms(6) map_option_eq_Some by blast
  from plain delegated binds show ?thesis by blast
qed

theorem request_signature_binds_witness:
  "utf8 (join_with [0x0A] (request_fields demo_externs None (Keypair (replicate 32 7)) (lit ''GET'')
      (lit ''/v1/tasks/1'') [] 5 (lit ''n'')))
   \<noteq> utf8 (join_with [0x0A] (request_fields demo_externs (Some hash_zero) (Keypair (replicate 32 7)) (lit ''GET'')
      (lit ''/v1/tasks/1'') [] 5 (lit ''n'')))"
proof -
  have key: "wf_keypair (Keypair (replicate 32 7))" by (simp add: wf_keypair_def)
  have texts: "list_all clean [lit ''GET'', lit ''/v1/tasks/1'', lit ''n'', lit ''GET'', lit ''/v1/tasks/1'', lit ''n'']"
    by (simp add: clean_def wf_str_def is_scalar_def)
  have free: "inj_on (hash_bytes demo_externs) {[], []}" by simp
  show ?thesis
    using request_signature_binds [OF demo_hex_ok demo_ed25519_ok key texts free refl,
        where d = None and d' = "Some hash_zero" and ts = 5 and ts' = 5]
    by blast
qed

end
