(* ===== verification/Release.thy ===== *)
theory Release
  imports Rust_Num
begin

text \<open>
  The named releases of the network (\<open>release.rs\<close>): their aliases, chain identifiers and end
  points. Every release is found by its slug and by the name of its stage, however they are
  written; the chain identifier of the upgrade release is that of the main network, so a chain
  identifier names one release per chain (\<open>release_lookup\<close>).
\<close>

datatype release_name = Polaris | Vega | Sirius | Altair | Lyra

datatype release_stage = Devnet | PublicTestnet | IncentivizedTestnet | Mainnet | MainnetUpgrade

definition stage_as_str :: "release_stage \<Rightarrow> rstr" where
  "stage_as_str s =
     (case s of Devnet \<Rightarrow> lit ''devnet'' | PublicTestnet \<Rightarrow> lit ''public-testnet''
      | IncentivizedTestnet \<Rightarrow> lit ''incentivized-testnet'' | Mainnet \<Rightarrow> lit ''mainnet''
      | MainnetUpgrade \<Rightarrow> lit ''mainnet-upgrade'')"

record release_spec =
  rl_name :: release_name
  rl_slug :: rstr
  rl_display_name :: rstr
  rl_stage :: release_stage
  rl_chain_id :: rstr
  rl_rpc_url :: rstr
  rl_websocket_url :: rstr
  rl_boot_nodes :: "rstr list"
  rl_explorer_url :: "rstr option"
  rl_faucet_url :: "rstr option"

definition VEGA_BOOT_NODES :: "rstr list" where
  "VEGA_BOOT_NODES =
     [lit ''/dns4/boot-1.vega.zincha.com/tcp/30333'', lit ''/dns4/boot-2.vega.zincha.com/tcp/30333'']"

definition SIRIUS_BOOT_NODES :: "rstr list" where
  "SIRIUS_BOOT_NODES =
     [lit ''/dns4/boot-1.sirius.zincha.com/tcp/30333'', lit ''/dns4/boot-2.sirius.zincha.com/tcp/30333'']"

definition release_spec_of :: "release_name \<Rightarrow> release_spec" where
  "release_spec_of n =
     (case n of
        Polaris \<Rightarrow>
          \<lparr>rl_name = n, rl_slug = lit ''polaris'', rl_display_name = lit ''Polaris'', rl_stage = Devnet,
           rl_chain_id = lit ''zincha-polaris-1'', rl_rpc_url = lit ''https://polaris.zincha.com'',
           rl_websocket_url = lit ''wss://polaris.zincha.com'', rl_boot_nodes = [],
           rl_explorer_url = Some (lit ''https://polaris.zinscan.com''),
           rl_faucet_url = Some (lit ''https://faucet.polaris.zincha.com'')\<rparr>
      | Vega \<Rightarrow>
          \<lparr>rl_name = n, rl_slug = lit ''vega'', rl_display_name = lit ''Vega'', rl_stage = PublicTestnet,
           rl_chain_id = lit ''zincha-vega-1'', rl_rpc_url = lit ''https://vega.zincha.com'',
           rl_websocket_url = lit ''wss://vega.zincha.com'', rl_boot_nodes = VEGA_BOOT_NODES,
           rl_explorer_url = Some (lit ''https://vega.zinscan.com''),
           rl_faucet_url = Some (lit ''https://faucet.vega.zincha.com'')\<rparr>
      | Sirius \<Rightarrow>
          \<lparr>rl_name = n, rl_slug = lit ''sirius'', rl_display_name = lit ''Sirius'',
           rl_stage = IncentivizedTestnet,
           rl_chain_id = lit ''zincha-sirius-1'', rl_rpc_url = lit ''https://sirius.zincha.com'',
           rl_websocket_url = lit ''wss://sirius.zincha.com'', rl_boot_nodes = SIRIUS_BOOT_NODES,
           rl_explorer_url = Some (lit ''https://sirius.zinscan.com''),
           rl_faucet_url = Some (lit ''https://faucet.sirius.zincha.com'')\<rparr>
      | Altair \<Rightarrow>
          \<lparr>rl_name = n, rl_slug = lit ''altair'', rl_display_name = lit ''Altair'', rl_stage = Mainnet,
           rl_chain_id = lit ''zincha-altair-1'', rl_rpc_url = lit ''https://altair.zincha.com'',
           rl_websocket_url = lit ''wss://altair.zincha.com'', rl_boot_nodes = [],
           rl_explorer_url = Some (lit ''https://altair.zinscan.com''), rl_faucet_url = None\<rparr>
      | Lyra \<Rightarrow>
          \<lparr>rl_name = n, rl_slug = lit ''lyra'', rl_display_name = lit ''Lyra'', rl_stage = MainnetUpgrade,
           rl_chain_id = lit ''zincha-altair-1'', rl_rpc_url = lit ''https://lyra.zincha.com'',
           rl_websocket_url = lit ''wss://lyra.zincha.com'', rl_boot_nodes = [],
           rl_explorer_url = Some (lit ''https://lyra.zinscan.com''), rl_faucet_url = None\<rparr>)"

definition parse_alias :: "rstr \<Rightarrow> release_name option" where
  "parse_alias raw =
     (let normalized = map (\<lambda>c. if c = 0x5F then 0x2D else c) (to_ascii_lowercase (trim raw)) in
      if normalized \<in> {lit ''polaris'', lit ''devnet''} then Some Polaris
      else if normalized \<in> {lit ''vega'', lit ''public-testnet'', lit ''testnet''} then Some Vega
      else if normalized \<in> {lit ''sirius'', lit ''incentivized-testnet'', lit ''incentivized''} then Some Sirius
      else if normalized \<in> {lit ''altair'', lit ''mainnet''} then Some Altair
      else if normalized \<in> {lit ''lyra'', lit ''mainnet-upgrade''} then Some Lyra
      else None)"

definition release_slug :: "release_name \<Rightarrow> rstr" where
  "release_slug n = rl_slug (release_spec_of n)"

definition release_display_name :: "release_name \<Rightarrow> rstr" where
  "release_display_name n = rl_display_name (release_spec_of n)"

text \<open>\<open>FromStr\<close>: the error keeps the text that was not understood.\<close>

definition release_from_str :: "rstr \<Rightarrow> rstr + release_name" where
  "release_from_str raw = ok_or (parse_alias raw) raw"

definition release_parse_error :: "rstr \<Rightarrow> rstr" where
  "release_parse_error raw =
     lit ''unknown release '' @ raw @ lit ''; expected one of polaris, vega, sirius, altair, lyra''"

definition release_from_chain_id :: "rstr \<Rightarrow> release_name option" where
  "release_from_chain_id chain_id =
     (if chain_id = lit ''zincha-polaris-1'' then Some Polaris
      else if chain_id = lit ''zincha-vega-1'' then Some Vega
      else if chain_id = lit ''zincha-sirius-1'' then Some Sirius
      else if chain_id = lit ''zincha-altair-1'' then Some Altair
      else None)"

definition spec_for_chain_id :: "rstr \<Rightarrow> release_spec option" where
  "spec_for_chain_id chain_id = map_option release_spec_of (release_from_chain_id chain_id)"

definition canonical_rpc_url_for_alias :: "rstr \<Rightarrow> rstr option" where
  "canonical_rpc_url_for_alias raw = map_option (\<lambda>n. rl_rpc_url (release_spec_of n)) (parse_alias raw)"

definition canonical_websocket_url_for_alias :: "rstr \<Rightarrow> rstr option" where
  "canonical_websocket_url_for_alias raw =
     map_option (\<lambda>n. rl_websocket_url (release_spec_of n)) (parse_alias raw)"

text \<open>A text of lower-case letters and hyphens is its own normal form.\<close>

definition plain_alias :: "rstr \<Rightarrow> bool" where
  "plain_alias s \<longleftrightarrow> list_all (\<lambda>c. is_ascii_lowercase c \<or> c = 0x2D) s"

lemma plain_normal:
  assumes "plain_alias s"
  shows "map (\<lambda>c. if c = 0x5F then 0x2D else c) (to_ascii_lowercase (trim s)) = s"
proof -
  have "\<not> is_whitespace c" if "c \<in> set s" for c
    using assms that
    by (fastforce simp: plain_alias_def list_all_iff is_ascii_lowercase_def is_whitespace_def)
  then have "trim s = s" by (intro trim_id) (cases "s = []", auto)
  moreover have "to_ascii_lowercase s = s"
    unfolding to_ascii_lowercase_def
    using assms by (intro map_idI) (auto simp: plain_alias_def list_all_iff is_ascii_lowercase_def
        is_ascii_uppercase_def)
  moreover have "map (\<lambda>c. if c = 0x5F then 0x2D else c) s = s"
    using assms by (intro map_idI) (auto simp: plain_alias_def list_all_iff is_ascii_lowercase_def)
  ultimately show ?thesis by simp
qed

lemma plain_slugs:
  "plain_alias (release_slug n)" "plain_alias (stage_as_str (rl_stage (release_spec_of n)))"
  by (cases n; simp add: release_slug_def release_spec_of_def stage_as_str_def plain_alias_def
      is_ascii_lowercase_def)+

lemmas literal_cases = lit_eq_iff insert_iff empty_iff list.inject list.distinct char.inject simp_thms
  if_True if_False

theorem release_lookup:
  "release_from_str (release_slug n) = Ok n"
  "parse_alias (stage_as_str (rl_stage (release_spec_of n))) = Some n"
  "release_from_chain_id (rl_chain_id (release_spec_of n)) = Some (if n = Lyra then Altair else n)"
proof -
  have "parse_alias (release_slug n) = Some n"
    unfolding parse_alias_def plain_normal [OF plain_slugs(1)] Let_def
    by (cases n; simp only: release_slug_def release_spec_of_def release_name.case release_spec.simps literal_cases)
  then show "release_from_str (release_slug n) = Ok n" by (simp add: release_from_str_def)
  show "parse_alias (stage_as_str (rl_stage (release_spec_of n))) = Some n"
    unfolding parse_alias_def plain_normal [OF plain_slugs(2)] Let_def
    by (cases n; simp only: release_spec_of_def stage_as_str_def release_name.case release_stage.case
        release_spec.simps literal_cases)
  show "release_from_chain_id (rl_chain_id (release_spec_of n)) = Some (if n = Lyra then Altair else n)"
    unfolding release_from_chain_id_def
    by (cases n; simp only: release_spec_of_def release_name.case release_name.distinct
        release_spec.simps literal_cases)
qed

end
