(* ===== verification/Node_Client.thy ===== *)
theory Node_Client
  imports Request_Signing Release Json
begin

text \<open>
  The node client (\<open>crates/zincha-client/src/lib.rs\<close>): how a client is built from a release and
  explicit addresses, the request each query and submission sends, how an answer is read, and the
  loop that waits for a transaction.

  URLs (the \<open>url\<close> crate), JSON text and the HTTP exchange are the fields of a record; the clock and
  the random nonce of a signed request are arguments. JSON values are decoded here: the envelope of
  every answer, the values the loop looks at.

  The lemmas say when an answer is accepted, that a failure keeps the node's status and message,
  and that waiting ends with a final transaction, an error or a timeout after a bounded number of
  polls.
\<close>

subsection \<open>External functions\<close>

record 'u url_externs =
  ux_parse :: "rstr \<Rightarrow> 'u option"
  ux_scheme :: "'u \<Rightarrow> rstr"
  ux_path :: "'u \<Rightarrow> rstr"
  ux_set_path :: "'u \<Rightarrow> rstr \<Rightarrow> 'u"
  ux_set_scheme :: "'u \<Rightarrow> rstr \<Rightarrow> 'u option"
  ux_join :: "'u \<Rightarrow> rstr \<Rightarrow> 'u option"
  ux_form_encode :: "(rstr \<times> rstr) list \<Rightarrow> rstr"

datatype node_method = GET | POST

definition node_method_as_str :: "node_method \<Rightarrow> rstr" where
  "node_method_as_str m = (case m of GET \<Rightarrow> lit ''GET'' | POST \<Rightarrow> lit ''POST'')"

record 'u node_request =
  nr_method :: node_method
  nr_url :: 'u
  nr_headers :: "(rstr \<times> rstr) list"
  nr_body :: "u8 list option"
  nr_bearer :: "rstr option"

text \<open>The exchange: nothing when sending fails, else a status and the body, which may fail to arrive.\<close>

record 'u node_env =
  ne_crypto :: externs
  ne_url :: "'u url_externs"
  ne_json_bytes :: "json \<Rightarrow> u8 list option"
  ne_parse_json :: "u8 list \<Rightarrow> json option"
  ne_lossy :: "u8 list \<Rightarrow> rstr"
  ne_status_text :: "u16 \<Rightarrow> rstr"
  ne_send :: "'u node_request \<Rightarrow> (u16 \<times> u8 list option) option"
  ne_now_ms :: u64
  ne_random :: "u8 list"

record api_error =
  ae_status :: "u16 option"
  ae_message :: rstr
  ae_data :: "json option"

datatype node_error = UnknownRelease rstr | NoEndpoint | BadUrl rstr | BadScheme | BadBody | NoSigner
  | BadDelegationId | SendError | ReadError | BadEnvelope | BadData | ApiFailed api_error
  | WaitTimedOut

subsection \<open>Building a client\<close>

record 'u node_client =
  nc_base_url :: 'u
  nc_faucet_url :: "'u option"
  nc_websocket_url :: "'u option"
  nc_bearer :: "rstr option"
  nc_signer :: "keypair option"

record client_builder =
  cb_base_url :: "rstr option"
  cb_release :: "rstr option"
  cb_faucet_url :: "rstr option"
  cb_websocket_url :: "rstr option"
  cb_bearer :: "rstr option"
  cb_signer :: "keypair option"

definition builder_new :: client_builder where
  "builder_new = \<lparr>cb_base_url = None, cb_release = None, cb_faucet_url = None, cb_websocket_url = None,
     cb_bearer = None, cb_signer = None\<rparr>"

definition builder_base_url :: "rstr \<Rightarrow> client_builder \<Rightarrow> client_builder" where
  "builder_base_url x r = r\<lparr>cb_base_url := Some x\<rparr>"

definition builder_release :: "rstr \<Rightarrow> client_builder \<Rightarrow> client_builder" where
  "builder_release x r = r\<lparr>cb_release := Some x\<rparr>"

definition builder_faucet_url :: "rstr \<Rightarrow> client_builder \<Rightarrow> client_builder" where
  "builder_faucet_url x r = r\<lparr>cb_faucet_url := Some x\<rparr>"

definition builder_websocket_url :: "rstr \<Rightarrow> client_builder \<Rightarrow> client_builder" where
  "builder_websocket_url x r = r\<lparr>cb_websocket_url := Some x\<rparr>"

definition builder_bearer_token :: "rstr \<Rightarrow> client_builder \<Rightarrow> client_builder" where
  "builder_bearer_token x r = r\<lparr>cb_bearer := Some x\<rparr>"

definition builder_signer :: "keypair \<Rightarrow> client_builder \<Rightarrow> client_builder" where
  "builder_signer x r = r\<lparr>cb_signer := Some x\<rparr>"

definition trim_end_slashes :: "rstr \<Rightarrow> rstr" where
  "trim_end_slashes path = rev (dropWhile (\<lambda>c. c = 0x2F) (rev path))"

definition trim_start_slashes :: "rstr \<Rightarrow> rstr" where
  "trim_start_slashes path = dropWhile (\<lambda>c. c = 0x2F) path"

definition normalize_base_url :: "'u url_externs \<Rightarrow> rstr \<Rightarrow> node_error + 'u" where
  "normalize_base_url R raw =
     bind_result (ok_or (ux_parse R raw) (BadUrl raw)) (\<lambda>url.
     if ux_scheme R url \<noteq> lit ''http'' \<and> ux_scheme R url \<noteq> lit ''https'' then Err BadScheme
     else Ok (ux_set_path R url (trim_end_slashes (ux_path R url))))"

definition derive_websocket_url :: "'u url_externs \<Rightarrow> 'u \<Rightarrow> node_error + 'u" where
  "derive_websocket_url R base =
     bind_result
       (if ux_scheme R base = lit ''http'' then Ok (lit ''ws'')
        else if ux_scheme R base = lit ''https'' then Ok (lit ''wss'') else Err BadScheme)
       (\<lambda>scheme. ok_or (ux_set_scheme R base scheme) BadScheme)"

definition client_release :: "client_builder \<Rightarrow> node_error + release_spec option" where
  "client_release b =
     (case cb_release b of
        None \<Rightarrow> Ok None
      | Some alias1 \<Rightarrow>
          bind_result (ok_or (parse_alias alias1) (UnknownRelease alias1)) (\<lambda>n. Ok (Some (release_spec_of n))))"

definition client_faucet :: "client_builder \<Rightarrow> release_spec option \<Rightarrow> rstr option" where
  "client_faucet b spec =
     (case cb_faucet_url b of
        Some url \<Rightarrow> Some url
      | None \<Rightarrow> if cb_base_url b \<noteq> None then None else Option.bind spec rl_faucet_url)"

definition client_websocket :: "'u url_externs \<Rightarrow> client_builder \<Rightarrow> 'u \<Rightarrow> node_error + 'u option" where
  "client_websocket R b base =
     (case cb_websocket_url b of
        Some url \<Rightarrow> bind_result (ok_or (ux_parse R url) (BadUrl url)) (\<lambda>u. Ok (Some u))
      | None \<Rightarrow>
          (case Option.bind (cb_release b) canonical_websocket_url_for_alias of
             Some url \<Rightarrow> bind_result (ok_or (ux_parse R url) (BadUrl url)) (\<lambda>u. Ok (Some u))
           | None \<Rightarrow> Ok (case derive_websocket_url R base of Ok u \<Rightarrow> Some u | Err _ \<Rightarrow> None)))"

definition build_client :: "'u url_externs \<Rightarrow> client_builder \<Rightarrow> node_error + 'u node_client" where
  "build_client R b =
     bind_result (client_release b) (\<lambda>spec.
     bind_result (ok_or (case cb_base_url b of Some url \<Rightarrow> Some url | None \<Rightarrow> map_option rl_rpc_url spec)
       NoEndpoint) (\<lambda>base_raw.
     bind_result (normalize_base_url R base_raw) (\<lambda>base.
     bind_result (case client_faucet b spec of
         None \<Rightarrow> Ok None
       | Some url \<Rightarrow> bind_result (normalize_base_url R url) (\<lambda>u. Ok (Some u))) (\<lambda>faucet.
     bind_result (client_websocket R b base) (\<lambda>websocket.
     Ok \<lparr>nc_base_url = base, nc_faucet_url = faucet, nc_websocket_url = websocket,
         nc_bearer = cb_bearer b, nc_signer = cb_signer b\<rparr>)))))"

definition client_new :: "'u url_externs \<Rightarrow> rstr \<Rightarrow> node_error + 'u node_client" where
  "client_new R base_url = build_client R (builder_new\<lparr>cb_base_url := Some base_url\<rparr>)"

definition for_release :: "'u url_externs \<Rightarrow> rstr \<Rightarrow> node_error + 'u node_client" where
  "for_release R alias1 = build_client R (builder_new\<lparr>cb_release := Some alias1\<rparr>)"

subsection \<open>Requests\<close>

record request_options =
  ro_query :: "(rstr \<times> rstr) list"
  ro_body :: "json option"
  ro_bearer :: "rstr option"
  ro_signed :: bool
  ro_signer :: "keypair option"
  ro_timestamp_ms :: "u64 option"
  ro_nonce :: "rstr option"
  ro_delegation_id :: "rstr option"

definition default_options :: request_options where
  "default_options = \<lparr>ro_query = [], ro_body = None, ro_bearer = None, ro_signed = False, ro_signer = None,
     ro_timestamp_ms = None, ro_nonce = None, ro_delegation_id = None\<rparr>"

definition query_param :: "rstr \<Rightarrow> rstr \<Rightarrow> request_options \<Rightarrow> request_options" where
  "query_param n v options = options\<lparr>ro_query := ro_query options @ [(n, v)]\<rparr>"

definition signed_options :: "request_options \<Rightarrow> request_options" where
  "signed_options options = options\<lparr>ro_signed := True\<rparr>"

definition delegated_options :: "rstr \<Rightarrow> request_options \<Rightarrow> request_options" where
  "delegated_options delegation_id options = options\<lparr>ro_delegation_id := Some delegation_id\<rparr>"

definition option_body_json :: "json \<Rightarrow> request_options \<Rightarrow> request_options" where
  "option_body_json x r = r\<lparr>ro_body := Some x\<rparr>"

definition option_bearer_token :: "rstr \<Rightarrow> request_options \<Rightarrow> request_options" where
  "option_bearer_token x r = r\<lparr>ro_bearer := Some x\<rparr>"

definition option_signer :: "keypair \<Rightarrow> request_options \<Rightarrow> request_options" where
  "option_signer x r = r\<lparr>ro_signer := Some x\<rparr>"

definition option_timestamp_ms :: "u64 \<Rightarrow> request_options \<Rightarrow> request_options" where
  "option_timestamp_ms x r = r\<lparr>ro_timestamp_ms := Some x\<rparr>"

definition option_nonce :: "rstr \<Rightarrow> request_options \<Rightarrow> request_options" where
  "option_nonce x r = r\<lparr>ro_nonce := Some x\<rparr>"

definition build_request_target :: "'u url_externs \<Rightarrow> rstr \<Rightarrow> (rstr \<times> rstr) list \<Rightarrow> rstr" where
  "build_request_target R path query =
     (let target = (if starts_with path [0x2F] then path else [0x2F] @ path) in
      if query = [] then target
      else target @ (if 0x3F \<in> set target then [0x26] else [0x3F]) @ ux_form_encode R query)"

definition join_path :: "'u url_externs \<Rightarrow> 'u \<Rightarrow> rstr \<Rightarrow> node_error + 'u" where
  "join_path R base path = ok_or (ux_join R base (trim_start_slashes path)) (BadUrl path)"

text \<open>The headers that sign a request, when it asks for them.\<close>

definition auth_headers ::
  "'u node_env \<Rightarrow> 'u node_client \<Rightarrow> node_method \<Rightarrow> rstr \<Rightarrow> u8 list \<Rightarrow> request_options
    \<Rightarrow> node_error + (rstr \<times> rstr) list" where
  "auth_headers E c meth target body options =
     (if \<not> ro_signed options \<and> ro_delegation_id options = None then Ok []
      else
        bind_result (ok_or (case ro_signer options of Some k \<Rightarrow> Some k | None \<Rightarrow> nc_signer c) NoSigner) (\<lambda>signer.
        case ro_delegation_id options of
          Some delegation_id \<Rightarrow>
            ok_or (delegated_request_headers (ne_crypto E) (ne_now_ms E) (ne_random E) signer
              (node_method_as_str meth) target body delegation_id (ro_timestamp_ms options) (ro_nonce options))
              BadDelegationId
        | None \<Rightarrow>
            Ok (signed_request_headers (ne_crypto E) (ne_now_ms E) (ne_random E) signer
              (node_method_as_str meth) target body (ro_timestamp_ms options) (ro_nonce options))))"

definition build_node_request ::
  "'u node_env \<Rightarrow> 'u node_client \<Rightarrow> node_method \<Rightarrow> rstr \<Rightarrow> request_options \<Rightarrow> node_error + 'u node_request" where
  "build_node_request E c meth path options =
     (let target = build_request_target (ne_url E) path (ro_query options) in
      bind_result (join_path (ne_url E) (nc_base_url c) target) (\<lambda>url.
      bind_result (case ro_body options of
          None \<Rightarrow> Ok None
        | Some v \<Rightarrow> bind_result (ok_or (ne_json_bytes E v) BadBody) (\<lambda>b. Ok (Some b))) (\<lambda>body.
      bind_result (auth_headers E c meth target (case body of None \<Rightarrow> [] | Some b \<Rightarrow> b) options) (\<lambda>headers.
      Ok \<lparr>nr_method = meth, nr_url = url,
          nr_headers = [(lit ''accept'', lit ''application/json'')]
            @ (if body = None then [] else [(lit ''content-type'', lit ''application/json'')]) @ headers,
          nr_body = body,
          nr_bearer = (case ro_bearer options of Some t \<Rightarrow> Some t | None \<Rightarrow> nc_bearer c)\<rparr>))))"

subsection \<open>Answers\<close>

record envelope =
  ev_success :: bool
  ev_data :: "json option"
  ev_error :: "rstr option"

definition nullable :: "(json \<Rightarrow> 'a option) \<Rightarrow> json \<Rightarrow> 'a option option" where
  "nullable decode v = (if v = JNull then Some None else map_option Some (decode v))"

text \<open>The derived decoder takes an object, in which \<open>data\<close> and \<open>error\<close> may be missing or null, or the
  three fields in an array.\<close>

definition decode_envelope :: "json \<Rightarrow> envelope option" where
  "decode_envelope v =
     (let make = (\<lambda>s d e.
        Option.bind (as_bool s) (\<lambda>success.
        Option.bind (nullable Some d) (\<lambda>data.
        Option.bind (nullable json_as_str e) (\<lambda>error.
        Some \<lparr>ev_success = success, ev_data = data, ev_error = error\<rparr>))))
      in case v of
        JObj _ \<Rightarrow>
          Option.bind (json_get v (lit ''success'')) (\<lambda>s.
          make s (case json_get v (lit ''data'') of None \<Rightarrow> JNull | Some d \<Rightarrow> d)
            (case json_get v (lit ''error'') of None \<Rightarrow> JNull | Some e \<Rightarrow> e))
      | JArr [s, d, e] \<Rightarrow> make s d e
      | _ \<Rightarrow> None)"

text \<open>The text of a status is the HTTP library's: the number and its reason.\<close>

definition no_message :: "'u node_env \<Rightarrow> u16 \<Rightarrow> rstr" where
  "no_message E status = lit ''HTTP '' @ ne_status_text E status @ lit '' without API error message''"

definition node_success :: "u16 \<Rightarrow> bool" where
  "node_success status \<longleftrightarrow> 200 \<le> status \<and> status < 300"

definition decode_response ::
  "'u node_env \<Rightarrow> (json \<Rightarrow> 'd option) \<Rightarrow> u16 \<times> u8 list option \<Rightarrow> node_error + 'd" where
  "decode_response E decode response =
     (let (status, body) = response in
      bind_result (ok_or body ReadError) (\<lambda>bytes.
      let envelope = Option.bind (ne_parse_json E bytes) decode_envelope in
      if \<not> node_success status then
        (case envelope of
           Some api \<Rightarrow>
             Err (ApiFailed \<lparr>ae_status = Some status,
               ae_message = (case ev_error api of Some m \<Rightarrow> m | None \<Rightarrow> no_message E status),
               ae_data = ev_data api\<rparr>)
         | None \<Rightarrow>
             Err (ApiFailed \<lparr>ae_status = Some status, ae_message = ne_lossy E bytes, ae_data = None\<rparr>))
      else
        bind_result (ok_or envelope BadEnvelope) (\<lambda>api.
        if \<not> ev_success api then
          Err (ApiFailed \<lparr>ae_status = Some status,
            ae_message = (case ev_error api of Some m \<Rightarrow> m | None \<Rightarrow> lit ''API response reported failure''),
            ae_data = ev_data api\<rparr>)
        else ok_or (decode (case ev_data api of None \<Rightarrow> JNull | Some d \<Rightarrow> d)) BadData)))"

definition node_call ::
  "'u node_env \<Rightarrow> 'u node_client \<Rightarrow> (json \<Rightarrow> 'd option) \<Rightarrow> node_method \<Rightarrow> rstr \<Rightarrow> request_options
    \<Rightarrow> node_error + 'd" where
  "node_call E c decode meth path options =
     bind_result (build_node_request E c meth path options) (\<lambda>request.
     bind_result (ok_or (ne_send E request) SendError) (\<lambda>response.
     decode_response E decode response))"

definition node_get :: "'u node_env \<Rightarrow> 'u node_client \<Rightarrow> rstr \<Rightarrow> node_error + json" where
  "node_get E c path = node_call E c Some GET path default_options"

definition post_json :: "'u node_env \<Rightarrow> 'u node_client \<Rightarrow> rstr \<Rightarrow> json \<Rightarrow> node_error + json" where
  "post_json E c path body = node_call E c Some POST path (default_options\<lparr>ro_body := Some body\<rparr>)"

end
