(* ===== verification/Node_Queries.thy ===== *)
theory Node_Queries
  imports Node_Client
begin

text \<open>
  The queries and submissions of the node client (\<open>crates/zincha-client/src/lib.rs\<close>), one
  definition per operation, and the loop that waits for a transaction. An operation is the request
  it makes: its method, path and options.
\<close>

subsection \<open>Query parameters\<close>

definition opt_param :: "rstr \<Rightarrow> rstr option \<Rightarrow> request_options \<Rightarrow> request_options" where
  "opt_param n v options = (case v of None \<Rightarrow> options | Some x \<Rightarrow> query_param n x options)"

definition opt_number :: "rstr \<Rightarrow> u64 option \<Rightarrow> request_options \<Rightarrow> request_options" where
  "opt_number n v = opt_param n (map_option (\<lambda>w. show_nat (unat w)) v)"

record page_query =
  pq_limit :: "u64 option"
  pq_cursor :: "rstr option"

definition page_limit :: "u64 \<Rightarrow> page_query \<Rightarrow> page_query" where
  "page_limit x r = r\<lparr>pq_limit := Some x\<rparr>"

definition page_cursor :: "rstr \<Rightarrow> page_query \<Rightarrow> page_query" where
  "page_cursor x r = r\<lparr>pq_cursor := Some x\<rparr>"

definition page_options :: "page_query \<Rightarrow> request_options" where
  "page_options q =
     opt_param (lit ''cursor'') (pq_cursor q) (opt_number (lit ''limit'') (pq_limit q) default_options)"

definition history_options :: "page_query \<Rightarrow> request_options" where
  "history_options q =
     opt_param (lit ''cursor'') (pq_cursor q) (opt_number (lit ''limit'') (pq_limit q) default_options)"

definition participant_options :: "page_query \<Rightarrow> request_options" where
  "participant_options q =
     opt_param (lit ''cursor'') (pq_cursor q)
       (opt_number (lit ''limit'') (pq_limit q) (signed_options default_options))"

record capability_list_query =
  cl_limit :: "u64 option"
  cl_cursor :: "rstr option"
  cl_status :: "rstr option"
  cl_category :: "rstr option"
  cl_parent :: "rstr option"

definition capability_list_limit :: "u64 \<Rightarrow> capability_list_query \<Rightarrow> capability_list_query" where
  "capability_list_limit x r = r\<lparr>cl_limit := Some x\<rparr>"

definition capability_list_cursor :: "rstr \<Rightarrow> capability_list_query \<Rightarrow> capability_list_query" where
  "capability_list_cursor x r = r\<lparr>cl_cursor := Some x\<rparr>"

definition capability_list_status :: "rstr \<Rightarrow> capability_list_query \<Rightarrow> capability_list_query" where
  "capability_list_status x r = r\<lparr>cl_status := Some x\<rparr>"

definition capability_list_category :: "rstr \<Rightarrow> capability_list_query \<Rightarrow> capability_list_query" where
  "capability_list_category x r = r\<lparr>cl_category := Some x\<rparr>"

definition capability_list_parent :: "rstr \<Rightarrow> capability_list_query \<Rightarrow> capability_list_query" where
  "capability_list_parent x r = r\<lparr>cl_parent := Some x\<rparr>"

definition capability_list_options :: "capability_list_query \<Rightarrow> request_options" where
  "capability_list_options q =
     opt_param (lit ''parent'') (cl_parent q)
      (opt_param (lit ''category'') (cl_category q)
       (opt_param (lit ''status'') (cl_status q)
        (opt_param (lit ''cursor'') (cl_cursor q)
         (opt_number (lit ''limit'') (cl_limit q) default_options))))"

record capability_search_query =
  cq_limit :: "u64 option"
  cq_cursor :: "rstr option"
  cq_status :: "rstr option"
  cq_category :: "rstr option"

definition capability_search_limit :: "u64 \<Rightarrow> capability_search_query \<Rightarrow> capability_search_query" where
  "capability_search_limit x r = r\<lparr>cq_limit := Some x\<rparr>"

definition capability_search_cursor :: "rstr \<Rightarrow> capability_search_query \<Rightarrow> capability_search_query" where
  "capability_search_cursor x r = r\<lparr>cq_cursor := Some x\<rparr>"

definition capability_search_status :: "rstr \<Rightarrow> capability_search_query \<Rightarrow> capability_search_query" where
  "capability_search_status x r = r\<lparr>cq_status := Some x\<rparr>"

definition capability_search_category :: "rstr \<Rightarrow> capability_search_query \<Rightarrow> capability_search_query" where
  "capability_search_category x r = r\<lparr>cq_category := Some x\<rparr>"

definition capability_search_options :: "rstr \<Rightarrow> capability_search_query \<Rightarrow> request_options" where
  "capability_search_options text1 q =
     opt_param (lit ''category'') (cq_category q)
      (opt_param (lit ''status'') (cq_status q)
       (opt_param (lit ''cursor'') (cq_cursor q)
        (opt_number (lit ''limit'') (cq_limit q) (query_param (lit ''q'') text1 default_options))))"

record pending_task_query =
  pt_limit :: "u64 option"
  pt_cursor :: "rstr option"
  pt_discover_capabilities :: "rstr list"
  pt_discover_min_fee :: "u64 option"
  pt_discover_fees :: "(rstr \<times> u64) list"

definition pending_task_limit :: "u64 \<Rightarrow> pending_task_query \<Rightarrow> pending_task_query" where
  "pending_task_limit x r = r\<lparr>pt_limit := Some x\<rparr>"

definition pending_task_cursor :: "rstr \<Rightarrow> pending_task_query \<Rightarrow> pending_task_query" where
  "pending_task_cursor x r = r\<lparr>pt_cursor := Some x\<rparr>"

definition pending_task_discover_capability :: "rstr \<Rightarrow> pending_task_query \<Rightarrow> pending_task_query" where
  "pending_task_discover_capability x r = r\<lparr>pt_discover_capabilities := pt_discover_capabilities r @ [x]\<rparr>"

definition pending_task_discover_min_fee :: "u64 \<Rightarrow> pending_task_query \<Rightarrow> pending_task_query" where
  "pending_task_discover_min_fee x r = r\<lparr>pt_discover_min_fee := Some x\<rparr>"

definition pending_task_discover_fee :: "rstr \<times> u64 \<Rightarrow> pending_task_query \<Rightarrow> pending_task_query" where
  "pending_task_discover_fee x r = r\<lparr>pt_discover_fees := pt_discover_fees r @ [x]\<rparr>"

definition pending_task_options :: "pending_task_query \<Rightarrow> request_options" where
  "pending_task_options q =
     (let o1 = opt_param (lit ''cursor'') (pt_cursor q)
                 (opt_number (lit ''limit'') (pt_limit q) default_options);
          o2 = foldl (\<lambda>options c. query_param (lit ''discover_capability'') c options) o1
                 (pt_discover_capabilities q);
          o3 = opt_number (lit ''discover_min_fee'') (pt_discover_min_fee q) o2
      in foldl (\<lambda>options (c, fee). query_param (lit ''discover_fee'') (c @ [0x3A] @ show_nat (unat fee)) options)
           o3 (pt_discover_fees q))"

subsection \<open>Public queries\<close>

type_synonym 'u node = "'u node_env \<times> 'u node_client"

abbreviation ask :: "'u node \<Rightarrow> rstr \<Rightarrow> request_options \<Rightarrow> node_error + json" where
  "ask n path options \<equiv> node_call (fst n) (snd n) Some GET path options"

definition chain_info :: "'u node \<Rightarrow> node_error + json" where
  "chain_info n = node_get (fst n) (snd n) (lit ''/v1/chain/info'')"

definition balance :: "'u node \<Rightarrow> rstr \<Rightarrow> node_error + json" where
  "balance n address = node_get (fst n) (snd n) (lit ''/v1/accounts/'' @ address @ lit ''/balance'')"

definition node_nonce :: "'u node \<Rightarrow> rstr \<Rightarrow> node_error + json" where
  "node_nonce n address = node_get (fst n) (snd n) (lit ''/v1/accounts/'' @ address @ lit ''/nonce'')"

definition node_requester_reputation :: "'u node \<Rightarrow> rstr \<Rightarrow> node_error + json" where
  "node_requester_reputation n address = node_get (fst n) (snd n) (lit ''/v1/requesters/'' @ address)"

definition node_validators :: "'u node \<Rightarrow> node_error + json" where
  "node_validators n = node_get (fst n) (snd n) (lit ''/v1/consensus/validators'')"

definition account_transactions :: "'u node \<Rightarrow> rstr \<Rightarrow> page_query \<Rightarrow> node_error + json" where
  "account_transactions n address q =
     ask n (lit ''/v1/accounts/'' @ address @ lit ''/transactions'') (history_options q)"

definition node_agents :: "'u node \<Rightarrow> page_query \<Rightarrow> node_error + json" where
  "node_agents n q = ask n (lit ''/v1/agents'') (page_options q)"

definition node_tools :: "'u node \<Rightarrow> page_query \<Rightarrow> node_error + json" where
  "node_tools n q = ask n (lit ''/v1/tools'') (page_options q)"

definition node_contracts :: "'u node \<Rightarrow> page_query \<Rightarrow> node_error + json" where
  "node_contracts n q = ask n (lit ''/v1/contracts'') (page_options q)"

definition node_tokens :: "'u node \<Rightarrow> page_query \<Rightarrow> node_error + json" where
  "node_tokens n q = ask n (lit ''/v1/tokens'') (page_options q)"

definition node_arbitrators :: "'u node \<Rightarrow> page_query \<Rightarrow> node_error + json" where
  "node_arbitrators n q = ask n (lit ''/v1/arbitrators'') (page_options q)"

definition rpc_read_delegation_query :: "'u node \<Rightarrow> rstr \<Rightarrow> node_error + json" where
  "rpc_read_delegation_query n d = node_get (fst n) (snd n) (lit ''/v1/rpc-read-delegations/'' @ d)"

definition rpc_read_delegations_by_delegator :: "'u node \<Rightarrow> rstr \<Rightarrow> page_query \<Rightarrow> node_error + json" where
  "rpc_read_delegations_by_delegator n address q =
     ask n (lit ''/v1/rpc-read-delegations/delegator/'' @ address) (page_options q)"

definition rpc_read_delegations_by_delegate :: "'u node \<Rightarrow> rstr \<Rightarrow> page_query \<Rightarrow> node_error + json" where
  "rpc_read_delegations_by_delegate n address q =
     ask n (lit ''/v1/rpc-read-delegations/delegate/'' @ address) (page_options q)"

definition rpc_read_delegation_lifecycle_events :: "'u node \<Rightarrow> rstr \<Rightarrow> u64 \<Rightarrow> u64 \<Rightarrow> node_error + json" where
  "rpc_read_delegation_lifecycle_events n address after_seq limit =
     ask n (lit ''/v1/rpc-read-delegations/delegate/'' @ address @ lit ''/lifecycle-events'')
       (query_param (lit ''limit'') (show_nat (unat limit))
         (query_param (lit ''after_seq'') (show_nat (unat after_seq)) default_options))"

definition market_rates :: "'u node \<Rightarrow> page_query \<Rightarrow> node_error + json" where
  "market_rates n q = ask n (lit ''/v1/market-rates'') (page_options q)"

definition pending_tasks :: "'u node \<Rightarrow> pending_task_query \<Rightarrow> node_error + json" where
  "pending_tasks n q = ask n (lit ''/v1/tasks/pending'') (pending_task_options q)"

definition contract_transactions :: "'u node \<Rightarrow> rstr \<Rightarrow> page_query \<Rightarrow> node_error + json" where
  "contract_transactions n address q =
     ask n (lit ''/v1/contracts/'' @ address @ lit ''/transactions'') (history_options q)"

definition token_transactions :: "'u node \<Rightarrow> rstr \<Rightarrow> page_query \<Rightarrow> node_error + json" where
  "token_transactions n token_id q =
     ask n (lit ''/v1/tokens/'' @ token_id @ lit ''/transactions'') (history_options q)"

definition node_capabilities :: "'u node \<Rightarrow> capability_list_query \<Rightarrow> node_error + json" where
  "node_capabilities n q = ask n (lit ''/v1/capabilities'') (capability_list_options q)"

definition capability_search :: "'u node \<Rightarrow> rstr \<Rightarrow> capability_search_query \<Rightarrow> node_error + json" where
  "capability_search n text1 q =
     ask n (lit ''/v1/capabilities/search'') (capability_search_options text1 q)"

definition node_capability :: "'u node \<Rightarrow> rstr \<Rightarrow> node_error + json" where
  "node_capability n slug = node_get (fst n) (snd n) (lit ''/v1/capabilities/'' @ slug)"

definition capability_categories :: "'u node \<Rightarrow> node_error + json" where
  "capability_categories n = node_get (fst n) (snd n) (lit ''/v1/capabilities/categories'')"

definition task_opportunity :: "'u node \<Rightarrow> rstr \<Rightarrow> node_error + json" where
  "task_opportunity n task_id =
     node_get (fst n) (snd n) (lit ''/v1/tasks/'' @ task_id @ lit ''/opportunity'')"

definition transaction_status :: "'u node \<Rightarrow> rstr \<Rightarrow> node_error + json" where
  "transaction_status n hash = node_get (fst n) (snd n) (lit ''/v1/tx/'' @ hash)"

subsection \<open>Queries of participants, signed\<close>

definition node_task :: "'u node \<Rightarrow> rstr \<Rightarrow> node_error + json" where
  "node_task n task_id = ask n (lit ''/v1/tasks/'' @ task_id) (signed_options default_options)"

definition node_agreement :: "'u node \<Rightarrow> rstr \<Rightarrow> node_error + json" where
  "node_agreement n i = ask n (lit ''/v1/agreements/'' @ i) (signed_options default_options)"

definition agreements_by_party :: "'u node \<Rightarrow> rstr \<Rightarrow> page_query \<Rightarrow> node_error + json" where
  "agreements_by_party n address q =
     ask n (lit ''/v1/agreements/party/'' @ address) (participant_options q)"

definition agreements_by_arbitrator :: "'u node \<Rightarrow> rstr \<Rightarrow> page_query \<Rightarrow> node_error + json" where
  "agreements_by_arbitrator n address q =
     ask n (lit ''/v1/agreements/arbitrator/'' @ address) (participant_options q)"

definition node_tool_job :: "'u node \<Rightarrow> rstr \<Rightarrow> node_error + json" where
  "node_tool_job n i = ask n (lit ''/v1/tool-jobs/'' @ i) (signed_options default_options)"

definition tool_jobs_by_requester :: "'u node \<Rightarrow> rstr \<Rightarrow> page_query \<Rightarrow> node_error + json" where
  "tool_jobs_by_requester n address q =
     ask n (lit ''/v1/tool-jobs/requester/'' @ address) (participant_options q)"

definition tool_jobs_by_provider :: "'u node \<Rightarrow> rstr \<Rightarrow> page_query \<Rightarrow> node_error + json" where
  "tool_jobs_by_provider n address q =
     ask n (lit ''/v1/tool-jobs/provider/'' @ address) (participant_options q)"

definition tool_usage_session_query :: "'u node \<Rightarrow> rstr \<Rightarrow> node_error + json" where
  "tool_usage_session_query n i =
     ask n (lit ''/v1/tool-usage-sessions/'' @ i) (signed_options default_options)"

definition tool_usage_sessions_by_requester :: "'u node \<Rightarrow> rstr \<Rightarrow> page_query \<Rightarrow> node_error + json" where
  "tool_usage_sessions_by_requester n address q =
     ask n (lit ''/v1/tool-usage-sessions/requester/'' @ address) (participant_options q)"

definition tool_usage_sessions_by_provider :: "'u node \<Rightarrow> rstr \<Rightarrow> page_query \<Rightarrow> node_error + json" where
  "tool_usage_sessions_by_provider n address q =
     ask n (lit ''/v1/tool-usage-sessions/provider/'' @ address) (participant_options q)"

subsection \<open>Submissions\<close>

definition opt_member :: "rstr \<Rightarrow> u64 option \<Rightarrow> (rstr \<times> json) list" where
  "opt_member k v = (case v of None \<Rightarrow> [] | Some w \<Rightarrow> [(k, JInt (uint w))])"

definition submit_signed_transaction_hex :: "'u node \<Rightarrow> rstr \<Rightarrow> node_error + json" where
  "submit_signed_transaction_hex n tx =
     post_json (fst n) (snd n) (lit ''/v1/tx/submit'') (JObj [(lit ''signed_tx_hex'', JStr tx)])"

definition submit_batch :: "'u node \<Rightarrow> rstr list \<Rightarrow> node_error + json" where
  "submit_batch n txs =
     post_json (fst n) (snd n) (lit ''/v1/tx/submit/batch'')
       (JObj [(lit ''signed_transactions_hex'', JArr (map JStr txs))])"

definition submit_protected :: "'u node \<Rightarrow> rstr \<Rightarrow> rstr option \<Rightarrow> u64 option \<Rightarrow> node_error + json" where
  "submit_protected n tx bearer max_priority_fee =
     node_call (fst n) (snd n) Some POST (lit ''/v1/tx/submit/protected'')
       (default_options\<lparr>ro_bearer := bearer,
          ro_body := Some (JObj ([(lit ''signed_tx_hex'', JStr tx)]
            @ opt_member (lit ''max_priority_fee_per_gas'') max_priority_fee))\<rparr>)"

record bundle_options =
  bo_bearer :: "rstr option"
  bo_atomic :: bool
  bo_expiration_height :: u64
  bo_max_total_fee :: "u64 option"
  bo_max_priority_fee :: "u64 option"

definition bundle_options_new :: "u64 \<Rightarrow> bundle_options" where
  "bundle_options_new height = \<lparr>bo_bearer = None, bo_atomic = True, bo_expiration_height = height,
     bo_max_total_fee = None, bo_max_priority_fee = None\<rparr>"

definition submit_orderflow_bundle :: "'u node \<Rightarrow> rstr list \<Rightarrow> bundle_options \<Rightarrow> node_error + json" where
  "submit_orderflow_bundle n txs b =
     node_call (fst n) (snd n) Some POST (lit ''/v1/orderflow/bundles'')
       (default_options\<lparr>ro_bearer := bo_bearer b,
          ro_body := Some (JObj ([(lit ''signed_transactions_hex'', JArr (map JStr txs)),
              (lit ''atomic'', JBool (bo_atomic b)),
              (lit ''expiration_height'', JInt (uint (bo_expiration_height b)))]
            @ opt_member (lit ''max_total_fee'') (bo_max_total_fee b)
            @ opt_member (lit ''max_priority_fee_per_gas'') (bo_max_priority_fee b)))\<rparr>)"

definition request_faucet :: "'u node \<Rightarrow> rstr \<Rightarrow> u64 option \<Rightarrow> u64 option \<Rightarrow> node_error + json" where
  "request_faucet n address amount_micro amount =
     (let c = (case nc_faucet_url (snd n) of
                 None \<Rightarrow> snd n | Some url \<Rightarrow> (snd n)\<lparr>nc_base_url := url\<rparr>) in
      post_json (fst n) c (lit ''/v1/faucet'')
        (JObj ([(lit ''address'', JStr address)] @ opt_member (lit ''amount_micro_zin'') amount_micro
          @ opt_member (lit ''amount_zin'') amount)))"

subsection \<open>Waiting for a transaction\<close>

text \<open>\<open>or_else\<close> on the field of the value and the same field of its \<open>transaction\<close>.\<close>

definition status_field :: "json \<Rightarrow> rstr \<Rightarrow> json option" where
  "status_field v k = Option.bind (json_get v (lit ''transaction'')) (\<lambda>t. json_get t k)"

definition is_pending_transaction_status :: "json \<Rightarrow> bool" where
  "is_pending_transaction_status v =
     (let status =
            (case Option.bind (json_get v (lit ''status'')) json_as_str of
               Some s \<Rightarrow> s
             | None \<Rightarrow>
                 (case Option.bind (status_field v (lit ''status'')) json_as_str of
                    Some s \<Rightarrow> s | None \<Rightarrow> lit ''unknown''));
          terminal =
            (Option.bind (case json_get v (lit ''terminal'') of
                            Some t \<Rightarrow> Some t | None \<Rightarrow> status_field v (lit ''terminal'')) as_bool = Some True)
      in \<not> (terminal \<and> status \<in> {lit ''confirmed'', lit ''rejected''}))"

text \<open>The loop over what the polls see: each poll has its answer and the time since the start, read
  after it. With \<open>n\<close> polls it may not be over yet.\<close>

fun wait_loop :: "(nat \<Rightarrow> (node_error + json) \<times> nat) \<Rightarrow> nat \<Rightarrow> nat \<Rightarrow> nat \<Rightarrow> (node_error + json) option" where
  "wait_loop polls timeout i 0 = None"
| "wait_loop polls timeout i (Suc n) =
     (case polls i of
        (Err e, _) \<Rightarrow> Some (Err e)
      | (Ok status, elapsed) \<Rightarrow>
          if \<not> is_pending_transaction_status status then Some (Ok status)
          else if timeout \<le> elapsed then Some (Err WaitTimedOut)
          else wait_loop polls timeout (i + 1) n)"

definition wait_for_transaction ::
  "(nat \<Rightarrow> 'u node_env) \<Rightarrow> (nat \<Rightarrow> nat) \<Rightarrow> 'u node_client \<Rightarrow> rstr \<Rightarrow> nat \<Rightarrow> nat \<Rightarrow> (node_error + json) option" where
  "wait_for_transaction envs clock c hash timeout n =
     wait_loop (\<lambda>i. (transaction_status (envs i, c) hash, clock i)) timeout 0 n"

subsection \<open>Lemmas\<close>

lemma wait_loop_result:
  assumes "0 < interval" "\<And>i. i * interval \<le> snd (polls i)" "timeout < (i + n) * interval"
  shows "\<exists>r j. wait_loop polls timeout i (Suc n) = Some r \<and> i \<le> j \<and> j \<le> i + n
    \<and> (\<forall>l. i \<le> l \<and> l < j \<longrightarrow> (\<exists>v. fst (polls l) = Ok v \<and> is_pending_transaction_status v))
    \<and> (case r of
        Ok v \<Rightarrow> fst (polls j) = Ok v \<and> \<not> is_pending_transaction_status v
      | Err e \<Rightarrow> fst (polls j) = Err e
          \<or> e = WaitTimedOut \<and> timeout \<le> snd (polls j) \<and> (\<exists>v. fst (polls j) = Ok v \<and> is_pending_transaction_status v))"
  using assms(3)
proof (induction n arbitrary: i)
  case 0
  then have "timeout \<le> snd (polls i)" using assms(2) [of i] by simp
  then show ?case
    by (cases "polls i"; cases "fst (polls i)") (auto intro!: exI [of _ i])
next
  case (Suc n)
  obtain answer elapsed where poll: "polls i = (answer, elapsed)" by fastforce
  show ?case
  proof (cases "\<exists>v. answer = Ok v \<and> is_pending_transaction_status v \<and> elapsed < timeout")
    case True
    from Suc.prems have "timeout < (i + 1 + n) * interval" by simp
    from Suc.IH [OF this] obtain r j where r: "wait_loop polls timeout (i + 1) (Suc n) = Some r"
      "i + 1 \<le> j" "j \<le> i + 1 + n"
      "\<forall>l. i + 1 \<le> l \<and> l < j \<longrightarrow> (\<exists>v. fst (polls l) = Ok v \<and> is_pending_transaction_status v)"
      "case r of
        Ok v \<Rightarrow> fst (polls j) = Ok v \<and> \<not> is_pending_transaction_status v
      | Err e \<Rightarrow> fst (polls j) = Err e
          \<or> e = WaitTimedOut \<and> timeout \<le> snd (polls j) \<and> (\<exists>v. fst (polls j) = Ok v \<and> is_pending_transaction_status v)"
      by blast
    have "wait_loop polls timeout i (Suc (Suc n)) = Some r"
      using True r(1) poll by (auto simp del: wait_loop.simps simp: wait_loop.simps(2) [of _ _ i])
    moreover have "\<forall>l. i \<le> l \<and> l < j \<longrightarrow> (\<exists>v. fst (polls l) = Ok v \<and> is_pending_transaction_status v)"
      using r(4) True poll by (metis Suc_eq_plus1 Suc_leI fst_conv le_neq_implies_less)
    ultimately show ?thesis using r(2,3,5) by (intro exI [of _ r] exI [of _ j]) auto
  next
    case False
    with poll show ?thesis
      by (cases answer) (auto intro!: exI [of _ i])
  qed
qed

lemma decode_response_Ok:
  "decode_response E decode (status, Some bytes) = Ok v \<longleftrightarrow>
     node_success status \<and> (\<exists>api. Option.bind (ne_parse_json E bytes) decode_envelope = Some api
       \<and> ev_success api \<and> decode (case ev_data api of None \<Rightarrow> JNull | Some d \<Rightarrow> d) = Some v)"
  by (cases "Option.bind (ne_parse_json E bytes) decode_envelope")
    (auto simp: decode_response_def Let_def)

lemma auth_headers_signed:
  assumes "ed25519_ok X" "X = ne_crypto E" "wf_keypair k"
    and "(case ro_signer options of Some k \<Rightarrow> Some k | None \<Rightarrow> nc_signer c) = Some k"
    and "ro_signed options \<or> ro_delegation_id options \<noteq> None"
    and "auth_headers E c meth target body options = Ok headers"
  shows "\<exists>d ts nonce sig.
      map_of headers (lit ''x-zincha-signature'') = Some (hex_encode X (sig_bytes sig))
    \<and> map_of headers (lit ''x-zincha-timestamp-ms'') = Some (show_nat (unat ts))
    \<and> map_of headers (lit ''x-zincha-nonce'') = Some nonce
    \<and> map_of headers (lit ''x-zincha-public-key'') = Some (hex_encode X (pk_bytes (kp_public_key X k)))
    \<and> map_of headers (lit ''x-zincha-body-sha256'') = Some (hash_to_hex X (hash_bytes X body))
    \<and> map_of headers (lit ''x-zincha-delegation-id'') = map_option (hash_to_hex X) d
    \<and> d = Option.bind (ro_delegation_id options) (hash_from_hex X)
    \<and> pk_verify X (kp_public_key X k)
        (utf8 (join_with [0x0A] (request_fields X d k (node_method_as_str meth) target body ts nonce))) sig = Ok ()"
proof -
  have verified: "pk_verify X (kp_public_key X k) m (kp_sign X k m) = Ok ()" for m
    using sign_verify [OF assms(1,3)] by simp
  define ts where "ts = (case ro_timestamp_ms options of None \<Rightarrow> ne_now_ms E | Some t \<Rightarrow> t)"
  define nonce where "nonce = (case ro_nonce options of None \<Rightarrow> random_nonce_hex X (ne_random E) | Some n \<Rightarrow> n)"
  show ?thesis
  proof (cases "ro_delegation_id options")
    case None
    then have "headers = signed_request_headers X (ne_now_ms E) (ne_random E) k (node_method_as_str meth)
        target body (ro_timestamp_ms options) (ro_nonce options)"
      using assms(2,4-6) by (simp add: auth_headers_def)
    then have h: "headers = (let message = join_with [0x0A] (signed_request_fields X k (node_method_as_str meth) target body ts nonce)
      in [(lit ''x-zincha-address'', addr_to_hex X (kp_address X k)),
       (lit ''x-zincha-body-sha256'', hash_to_hex X (hash_bytes X body)),
       (lit ''x-zincha-nonce'', nonce),
       (lit ''x-zincha-public-key'', hex_encode X (pk_bytes (kp_public_key X k))),
       (lit ''x-zincha-signature'', hex_encode X (sig_bytes (kp_sign X k (utf8 message)))),
       (lit ''x-zincha-timestamp-ms'', show_nat (unat ts))])"
      by (simp only: signed_request_headers_def signed_request_parts_of_def Let_def ts_def nonce_def
          signed_request_parts.simps)
    show ?thesis
      unfolding h Let_def map_of_field
      by (intro exI [of _ None] exI [of _ ts] exI [of _ nonce]
          exI [of _ "kp_sign X k (utf8 (join_with [0x0A] (signed_request_fields X k (node_method_as_str meth) target body ts nonce)))"])
        (simp only: lit_eq_iff list.inject list.distinct char.inject simp_thms if_True if_False None
          bind.bind_lzero option.map request_fields_def option.case verified)
  next
    case (Some did)
    with assms(2,4-6) obtain d where d: "hash_from_hex X did = Some d"
      "delegated_request_headers X (ne_now_ms E) (ne_random E) k (node_method_as_str meth) target body did
        (ro_timestamp_ms options) (ro_nonce options) = Some headers"
      by (cases "hash_from_hex X did") (simp_all add: auth_headers_def delegated_request_headers_def)
    then have h: "headers = (let message = join_with [0x0A] (delegated_request_fields X k (node_method_as_str meth) target body ts nonce d)
      in [(lit ''x-zincha-address'', addr_to_hex X (kp_address X k)),
       (lit ''x-zincha-body-sha256'', hash_to_hex X (hash_bytes X body)),
       (lit ''x-zincha-delegation-id'', hash_to_hex X d),
       (lit ''x-zincha-nonce'', nonce),
       (lit ''x-zincha-public-key'', hex_encode X (pk_bytes (kp_public_key X k))),
       (lit ''x-zincha-signature'', hex_encode X (sig_bytes (kp_sign X k (utf8 message)))),
       (lit ''x-zincha-timestamp-ms'', show_nat (unat ts))])"
      by (simp only: delegated_request_headers_def Let_def ts_def nonce_def option.case option.inject)
    show ?thesis
      unfolding h Let_def map_of_field
      by (intro exI [of _ "Some d"] exI [of _ ts] exI [of _ nonce]
          exI [of _ "kp_sign X k (utf8 (join_with [0x0A] (delegated_request_fields X k (node_method_as_str meth) target body ts nonce d)))"])
        (simp only: lit_eq_iff list.inject list.distinct char.inject simp_thms if_True if_False Some d(1)
          bind.bind_lunit option.map request_fields_def option.case verified)
  qed
qed

subsection \<open>Properties\<close>

text \<open>(C22) Waiting for a transaction ends. When the sleep between two polls lasts the interval at
  least, so that the clock of poll \<open>i\<close> shows \<open>i\<close> intervals or more, the loop is over after
  \<open>timeout div interval + 2\<close> polls. All polls before the last saw a pending transaction, and the last
  one decides: its final status is the result, or its error, or the transaction is still pending, the
  time is up and the result is the timeout.\<close>

theorem wait_for_transaction_ends:
  assumes "0 < interval" "\<forall>i. i * interval \<le> clock i"
  shows "\<exists>r j. wait_for_transaction envs clock c hash timeout (timeout div interval + 2) = Some r
    \<and> j \<le> timeout div interval + 1
    \<and> (\<forall>l<j. \<exists>v. transaction_status (envs l, c) hash = Ok v \<and> is_pending_transaction_status v)
    \<and> (case r of
        Ok v \<Rightarrow> transaction_status (envs j, c) hash = Ok v \<and> \<not> is_pending_transaction_status v
      | Err e \<Rightarrow> transaction_status (envs j, c) hash = Err e
          \<or> e = WaitTimedOut \<and> timeout \<le> clock j
            \<and> (\<exists>v. transaction_status (envs j, c) hash = Ok v \<and> is_pending_transaction_status v))"
proof -
  have "timeout < (0 + (timeout div interval + 1)) * interval"
    using assms(1) by (metis add.left_neutral add.commute dividend_less_div_times mult.commute mult_Suc_right plus_1_eq_Suc)
  from wait_loop_result [OF assms(1) _ this, of "\<lambda>i. (transaction_status (envs i, c) hash, clock i)",
      unfolded fst_conv snd_conv] assms(2)
  have "\<exists>r j. wait_for_transaction envs clock c hash timeout (Suc (timeout div interval + 1)) = Some r
    \<and> 0 \<le> j \<and> j \<le> 0 + (timeout div interval + 1)
    \<and> (\<forall>l. 0 \<le> l \<and> l < j \<longrightarrow> (\<exists>v. transaction_status (envs l, c) hash = Ok v \<and> is_pending_transaction_status v))
    \<and> (case r of
        Ok v \<Rightarrow> transaction_status (envs j, c) hash = Ok v \<and> \<not> is_pending_transaction_status v
      | Err e \<Rightarrow> transaction_status (envs j, c) hash = Err e
          \<or> e = WaitTimedOut \<and> timeout \<le> clock j
            \<and> (\<exists>v. transaction_status (envs j, c) hash = Ok v \<and> is_pending_transaction_status v))"
    unfolding wait_for_transaction_def by blast
  moreover have "Suc (timeout div interval + 1) = timeout div interval + 2" by simp
  ultimately show ?thesis by (simp only: le0 simp_thms add_0_left)
qed

lemma map_of_headers:
  "k \<noteq> lit ''accept'' \<Longrightarrow> k \<noteq> lit ''content-type'' \<Longrightarrow>
   map_of ([(lit ''accept'', v)] @ (if b then [] else [(lit ''content-type'', w)]) @ hs) k = map_of hs k"
  by simp

lemma auth_header_names:
  "lit ''x-zincha-signature'' \<noteq> lit ''accept''" "lit ''x-zincha-signature'' \<noteq> lit ''content-type''"
  "lit ''x-zincha-timestamp-ms'' \<noteq> lit ''accept''" "lit ''x-zincha-timestamp-ms'' \<noteq> lit ''content-type''"
  "lit ''x-zincha-nonce'' \<noteq> lit ''accept''" "lit ''x-zincha-nonce'' \<noteq> lit ''content-type''"
  "lit ''x-zincha-public-key'' \<noteq> lit ''accept''" "lit ''x-zincha-public-key'' \<noteq> lit ''content-type''"
  "lit ''x-zincha-body-sha256'' \<noteq> lit ''accept''" "lit ''x-zincha-body-sha256'' \<noteq> lit ''content-type''"
  "lit ''x-zincha-delegation-id'' \<noteq> lit ''accept''" "lit ''x-zincha-delegation-id'' \<noteq> lit ''content-type''"
  by (simp_all only: lit_eq_iff list.inject list.distinct char.inject simp_thms)

text \<open>What a request that was built consists of.\<close>

lemma build_node_request_Ok:
  assumes "build_node_request E c meth path options = Ok request"
  shows "\<exists>headers. auth_headers E c meth (build_request_target (ne_url E) path (ro_query options))
        (case nr_body request of None \<Rightarrow> [] | Some b \<Rightarrow> b) options = Ok headers
    \<and> nr_method request = meth
    \<and> join_path (ne_url E) (nc_base_url c) (build_request_target (ne_url E) path (ro_query options)) = Ok (nr_url request)
    \<and> nr_headers request = [(lit ''accept'', lit ''application/json'')]
        @ (if nr_body request = None then [] else [(lit ''content-type'', lit ''application/json'')]) @ headers"
  using assms by (auto simp: build_node_request_def Let_def)

text \<open>(C17) A request built with signed or delegated options is never sent unsigned: a signer was found,
  the options' own or else the client's, and the headers carry a signature by its key that verifies
  over the text for exactly the method, the target whose URL the request has, and the body sent,
  with the time, nonce, public key, body hash and delegation that the other headers show.\<close>

theorem signed_request_is_signed:
  assumes "ed25519_ok (ne_crypto E)" "ro_signed options \<or> ro_delegation_id options \<noteq> None"
    and "build_node_request E c meth path options = Ok request"
    and "pred_option wf_keypair (ro_signer options)" "pred_option wf_keypair (nc_signer c)"
  shows "\<exists>k d ts nonce sig.
      (case ro_signer options of Some k \<Rightarrow> Some k | None \<Rightarrow> nc_signer c) = Some k
    \<and> join_path (ne_url E) (nc_base_url c) (build_request_target (ne_url E) path (ro_query options)) = Ok (nr_url request)
    \<and> map_of (nr_headers request) (lit ''x-zincha-signature'') = Some (hex_encode (ne_crypto E) (sig_bytes sig))
    \<and> map_of (nr_headers request) (lit ''x-zincha-timestamp-ms'') = Some (show_nat (unat ts))
    \<and> map_of (nr_headers request) (lit ''x-zincha-nonce'') = Some nonce
    \<and> map_of (nr_headers request) (lit ''x-zincha-public-key'')
        = Some (hex_encode (ne_crypto E) (pk_bytes (kp_public_key (ne_crypto E) k)))
    \<and> map_of (nr_headers request) (lit ''x-zincha-body-sha256'')
        = Some (hash_to_hex (ne_crypto E) (hash_bytes (ne_crypto E) (case nr_body request of None \<Rightarrow> [] | Some b \<Rightarrow> b)))
    \<and> map_of (nr_headers request) (lit ''x-zincha-delegation-id'') = map_option (hash_to_hex (ne_crypto E)) d
    \<and> d = Option.bind (ro_delegation_id options) (hash_from_hex (ne_crypto E))
    \<and> pk_verify (ne_crypto E) (kp_public_key (ne_crypto E) k)
        (utf8 (join_with [0x0A] (request_fields (ne_crypto E) d k (node_method_as_str (nr_method request))
          (build_request_target (ne_url E) path (ro_query options))
          (case nr_body request of None \<Rightarrow> [] | Some b \<Rightarrow> b) ts nonce))) sig = Ok ()"
proof -
  let ?target = "build_request_target (ne_url E) path (ro_query options)"
  let ?body = "case nr_body request of None \<Rightarrow> [] | Some b \<Rightarrow> b"
  from build_node_request_Ok [OF assms(3)] obtain headers where h:
    "auth_headers E c meth ?target ?body options = Ok headers" "nr_method request = meth"
    "join_path (ne_url E) (nc_base_url c) ?target = Ok (nr_url request)"
    "nr_headers request = [(lit ''accept'', lit ''application/json'')]
        @ (if nr_body request = None then [] else [(lit ''content-type'', lit ''application/json'')]) @ headers"
    by blast
  obtain k where k: "(case ro_signer options of Some k \<Rightarrow> Some k | None \<Rightarrow> nc_signer c) = Some k"
    using h(1) assms(2) by (auto simp: auth_headers_def ok_or_def split: option.splits if_splits)
  then have wf: "wf_keypair k" using assms(4,5) by (auto split: option.splits)
  from auth_headers_signed [OF assms(1) refl wf k assms(2) h(1)] show ?thesis
    unfolding h(2,4) using k h(3)
    by (simp only: map_of_headers [OF auth_header_names(1,2)] map_of_headers [OF auth_header_names(3,4)]
        map_of_headers [OF auth_header_names(5,6)] map_of_headers [OF auth_header_names(7,8)]
        map_of_headers [OF auth_header_names(9,10)] map_of_headers [OF auth_header_names(11,12)]) blast
qed

subsection \<open>Witnesses\<close>

text \<open>URLs as texts, an exchange that answers with an empty body, and its JSON: no fields.\<close>

definition demo_url_externs :: "rstr url_externs" where
  "demo_url_externs = \<lparr>ux_parse = Some, ux_scheme = (\<lambda>_. lit ''http''), ux_path = id,
     ux_set_path = (\<lambda>_ p. p), ux_set_scheme = (\<lambda>u _. Some u), ux_join = (\<lambda>b p. Some (b @ [0x2F] @ p)),
     ux_form_encode = concat \<circ> map fst\<rparr>"

definition demo_node_env :: "rstr node_env" where
  "demo_node_env = \<lparr>ne_crypto = demo_externs, ne_url = demo_url_externs, ne_json_bytes = (\<lambda>_. Some []),
     ne_parse_json = (\<lambda>_. Some (JObj [(lit ''success'', JBool True)])), ne_lossy = (\<lambda>_. []),
     ne_status_text = (\<lambda>_. []), ne_send = (\<lambda>_. Some (200, Some [])), ne_now_ms = 5, ne_random = []\<rparr>"

definition demo_node_client :: "rstr node_client" where
  "demo_node_client = \<lparr>nc_base_url = lit ''http://node'', nc_faucet_url = None, nc_websocket_url = None,
     nc_bearer = None, nc_signer = Some (Keypair (replicate 32 7))\<rparr>"

theorem wait_for_transaction_ends_witness:
  "\<exists>r. wait_for_transaction (\<lambda>_. demo_node_env) (\<lambda>i. i * 10) demo_node_client (lit ''ab'') 25 4 = Some r"
  using wait_for_transaction_ends [where interval = 10 and clock = "\<lambda>i. i * 10" and timeout = 25
      and envs = "\<lambda>_. demo_node_env" and c = demo_node_client and hash = "lit ''ab''"]
  by (simp del: wait_loop.simps) blast

theorem signed_request_is_signed_witness:
  "case build_node_request demo_node_env demo_node_client GET (lit ''/v1/tasks/1'') (signed_options default_options) of
     Err e \<Rightarrow> False
   | Ok r \<Rightarrow> \<exists>sig. map_of (nr_headers r) (lit ''x-zincha-signature'') = Some sig"
proof -
  have signed: "ro_signed (signed_options default_options) \<or> ro_delegation_id (signed_options default_options) \<noteq> None"
    "pred_option wf_keypair (ro_signer (signed_options default_options))"
    "pred_option wf_keypair (nc_signer demo_node_client)" "ed25519_ok (ne_crypto demo_node_env)"
    by (simp_all add: signed_options_def default_options_def demo_node_client_def wf_keypair_def
        demo_node_env_def demo_ed25519_ok)
  obtain r where r: "build_node_request demo_node_env demo_node_client GET (lit ''/v1/tasks/1'')
      (signed_options default_options) = Ok r"
    by (simp add: build_node_request_def Let_def join_path_def ok_or_def auth_headers_def signed_options_def
        default_options_def demo_node_client_def demo_node_env_def demo_url_externs_def)
  show ?thesis
    unfolding r using signed_request_is_signed [OF signed(4,1) r signed(2,3)] by auto
qed

end
