(* ===== verification/Cli_Env.thy ===== *)
theory Cli_Env
  imports Node_Queries Keystore_File Wallet_Session
begin

text \<open>
  What the commands of the command line share (\<open>crates/zincha-cli-core/src/support.rs\<close> and
  \<open>secret.rs\<close>): parsing of arguments, reading of files, and where a signing key comes from.

  What a command reads from outside is the record \<open>cli_env\<close>: the node client, the wallet's
  environment, the files with their permissions, environment variables, the terminal, and the JSON
  decoders of the files that hold structured arguments. A path is its text.
\<close>

subsection \<open>The environment of a command\<close>

record json_decoders =
  jd_fee_schedule :: "u8 list \<Rightarrow> (rstr \<times> u64) list option"
  jd_match_preferences :: "u8 list \<Rightarrow> match_preferences option"
  jd_subtasks :: "u8 list \<Rightarrow> sub_task_def list option"
  jd_executor_services :: "u8 list \<Rightarrow> validator_executor_service list option"
  jd_tool_milestones :: "u8 list \<Rightarrow> tool_milestone_def list option"
  jd_milestones :: "u8 list \<Rightarrow> milestone_def list option"
  jd_payout_shares :: "u8 list \<Rightarrow> payout_share list option"
  jd_reputation_effects :: "u8 list \<Rightarrow> reputation_effect list option"
  jd_source_proof :: "u8 list \<Rightarrow> contract_source_proof option"
  jd_abi :: "u8 list \<Rightarrow> contract_abi option"

record 'u cli_env =
  ce_node :: "'u node"
  ce_url_text :: "'u \<Rightarrow> rstr"
  ce_wallet :: wallet_env
  ce_keystore :: keystore_externs
  ce_files :: "rstr \<Rightarrow> u8 list option"
  ce_owner_only :: "rstr \<Rightarrow> bool"
  ce_writable :: "rstr \<Rightarrow> bool"
  ce_can_protect :: "rstr \<Rightarrow> bool"
  ce_env_var :: "rstr \<Rightarrow> rstr option"
  ce_prompt :: "rstr \<Rightarrow> rstr option"
  ce_now_ms :: "u64 option"
  ce_bearer :: "rstr option"
  ce_lower :: "rstr \<Rightarrow> rstr"
  ce_decoders :: json_decoders

abbreviation ce_crypto :: "'u cli_env \<Rightarrow> externs" where
  "ce_crypto E \<equiv> ne_crypto (fst (ce_node E))"

datatype cli_error =
    BadAddress rstr key_error | BadHash rstr | BadHex rstr | BadPublicKeyHex rstr | PublicKeyLength
  | BadPublicKey rstr key_error | FileUnreadable rstr | BadJsonFile rstr | NotOwnerOnly rstr
  | HexAndFile | NoHexOrFile | NoKeySource | BadSecretHex | SecretLength | NoKeystoreAddress
  | KeystoreFailed keystore_error | TwoPasswordSources | NoPasswordEnv rstr | NoPasswordSource
  | ReferenceIncomplete | TtlNotPositive | OfflineIncomplete | NodeFailed node_error | NoChainId
  | NoNonce | NoTtlLimit | TtlRequired | TtlOutOfRange | NoReferenceHeight | NoReferenceHash
  | ValidityOverflow | WalletFailed wallet_error | ClockBeforeEpoch | EmptyValidatorUpdate
  | UnsupportedSettlementMode rstr | UnsupportedArbitrationPolicy rstr | UnsupportedOveragePolicy rstr
  | NoSignedTransaction | NoBearerToken | WaitWithoutSubmit | FileExists rstr | FileUnwritable rstr
  | FileUnprotected rstr | WrongSubcommand

subsection \<open>Arguments (\<open>support.rs\<close>)\<close>

definition parse_address :: "externs \<Rightarrow> rstr \<Rightarrow> cli_error + address" where
  "parse_address X raw =
     map_err (BadAddress raw) (addr_from_hex X raw)"

definition parse_hash :: "externs \<Rightarrow> rstr \<Rightarrow> cli_error + hash256" where
  "parse_hash X raw = ok_or (hash_from_hex X raw) (BadHash raw)"

definition parse_public_key :: "externs \<Rightarrow> rstr \<Rightarrow> cli_error + public_key" where
  "parse_public_key X raw =
     bind_result (ok_or (hex_decode X raw) (BadPublicKeyHex raw)) (\<lambda>bytes.
     if length bytes \<noteq> 32 then Err PublicKeyLength
     else map_err (BadPublicKey raw) (pk_from_bytes X bytes))"

definition parse_hex_bytes :: "externs \<Rightarrow> rstr option \<Rightarrow> cli_error + u8 list" where
  "parse_hex_bytes X raw =
     (case raw of
        Some v \<Rightarrow> if v \<noteq> [] then ok_or (hex_decode X v) (BadHex v) else Ok []
      | None \<Rightarrow> Ok [])"

definition parse_capabilities :: "(rstr \<Rightarrow> rstr) \<Rightarrow> rstr list \<Rightarrow> cli_error + capability list" where
  "parse_capabilities lower values = Ok (map (capability_new lower) values)"

text \<open>\<open>iter().map(f).collect::<Result<Vec<_>>>()\<close>: the first error, or all results.\<close>

fun collect_results :: "('a \<Rightarrow> 'e + 'b) \<Rightarrow> 'a list \<Rightarrow> 'e + 'b list" where
  "collect_results f [] = Ok []"
| "collect_results f (x # xs) =
     bind_result (f x) (\<lambda>y. bind_result (collect_results f xs) (\<lambda>ys. Ok (y # ys)))"

text \<open>\<open>option.map(f).transpose()\<close>.\<close>

definition transpose_option :: "('a \<Rightarrow> 'e + 'b) \<Rightarrow> 'a option \<Rightarrow> 'e + 'b option" where
  "transpose_option f v =
     (case v of None \<Rightarrow> Ok None | Some x \<Rightarrow> bind_result (f x) (\<lambda>y. Ok (Some y)))"

subsection \<open>Files (\<open>support.rs\<close>)\<close>

definition read_json_file :: "'u cli_env \<Rightarrow> (u8 list \<Rightarrow> 'a option) \<Rightarrow> rstr \<Rightarrow> cli_error + 'a" where
  "read_json_file E decode path =
     bind_result (ok_or (ce_files E path) (FileUnreadable path)) (\<lambda>bytes.
     ok_or (decode bytes) (BadJsonFile path))"

definition read_public_text_file :: "'u cli_env \<Rightarrow> rstr \<Rightarrow> cli_error + rstr" where
  "read_public_text_file E path =
     ok_or (Option.bind (ce_files E path) from_utf8) (FileUnreadable path)"

definition check_owner_only :: "'u cli_env \<Rightarrow> rstr \<Rightarrow> cli_error + unit" where
  "check_owner_only E path =
     (if ce_files E path = None then Ok ()
      else if \<not> ce_owner_only E path then Err (NotOwnerOnly path) else Ok ())"

definition read_text_file :: "'u cli_env \<Rightarrow> rstr \<Rightarrow> cli_error + rstr" where
  "read_text_file E path =
     bind_result (check_owner_only E path) (\<lambda>_. read_public_text_file E path)"

definition read_hex_or_file :: "'u cli_env \<Rightarrow> rstr option \<Rightarrow> rstr option \<Rightarrow> cli_error + rstr" where
  "read_hex_or_file E v path =
     (case (v, path) of
        (Some _, Some _) \<Rightarrow> Err HexAndFile
      | (Some s, None) \<Rightarrow> Ok (trim s)
      | (None, Some p) \<Rightarrow> bind_result (read_public_text_file E p) (\<lambda>s. Ok (trim s))
      | (None, None) \<Rightarrow> Err NoHexOrFile)"

text \<open>\<open>write_private_file\<close>: the texts written, and the result.\<close>

definition write_private_file ::
  "'u cli_env \<Rightarrow> rstr \<Rightarrow> rstr \<Rightarrow> bool \<Rightarrow> (rstr \<times> rstr) list \<times> (cli_error + unit)" where
  "write_private_file E path contents force =
     (if ce_files E path \<noteq> None \<and> \<not> force then ([], Err (FileExists path))
      else if \<not> ce_writable E path then ([], Err (FileUnwritable path))
      else if \<not> ce_can_protect E path then ([(path, contents)], Err (FileUnprotected path))
      else ([(path, contents)], Ok ()))"

definition now_millis :: "'u cli_env \<Rightarrow> cli_error + u64" where
  "now_millis E = ok_or (ce_now_ms E) ClockBeforeEpoch"

subsection \<open>Keys (\<open>secret.rs\<close>)\<close>

record password_source =
  ps_password_file :: "rstr option"
  ps_password_env :: "rstr option"

record key_source =
  kc_secret_key :: "rstr option"
  kc_key_file :: "rstr option"
  kc_keystore :: "rstr option"
  kc_keystore_address :: "rstr option"
  kc_password :: password_source

definition is_ascii_hexdigit :: "rchar \<Rightarrow> bool" where
  "is_ascii_hexdigit c \<longleftrightarrow> is_ascii_digit c \<or> 0x41 \<le> c \<and> c \<le> 0x46 \<or> 0x61 \<le> c \<and> c \<le> 0x66"

definition secret_to_keypair :: "externs \<Rightarrow> rstr \<Rightarrow> cli_error + keypair" where
  "secret_to_keypair X secret =
     bind_result (ok_or (hex_decode X secret) BadSecretHex) (\<lambda>bytes.
     if length bytes \<noteq> 32 then Err SecretLength else Ok (from_secret_bytes bytes))"

definition load_secret_key :: "'u cli_env \<Rightarrow> rstr \<Rightarrow> cli_error + keypair" where
  "load_secret_key E raw =
     (if str_len raw = 64 \<and> list_all is_ascii_hexdigit raw then secret_to_keypair (ce_crypto E) raw
      else bind_result (read_text_file E raw) (\<lambda>secret. secret_to_keypair (ce_crypto E) (trim secret)))"

definition parse_keystore_address :: "externs \<Rightarrow> rstr option \<Rightarrow> cli_error + address" where
  "parse_keystore_address X raw = bind_result (ok_or raw NoKeystoreAddress) (parse_address X)"

definition trim_line_end :: "rstr \<Rightarrow> rstr" where
  "trim_line_end s = rev (dropWhile (\<lambda>c. c = 0x0D \<or> c = 0x0A) (rev s))"

definition load_password :: "'u cli_env \<Rightarrow> password_source \<Rightarrow> rstr \<Rightarrow> cli_error + rstr" where
  "load_password E args prompt =
     (case (ps_password_file args, ps_password_env args) of
        (Some _, Some _) \<Rightarrow> Err TwoPasswordSources
      | (Some path, None) \<Rightarrow> bind_result (read_text_file E path) (\<lambda>s. Ok (trim_line_end s))
      | (None, Some name) \<Rightarrow> ok_or (ce_env_var E name) (NoPasswordEnv name)
      | (None, None) \<Rightarrow> ok_or (ce_prompt E prompt) NoPasswordSource)"

definition text_files :: "'u cli_env \<Rightarrow> file_system" where
  "text_files E path = Option.bind (ce_files E path) from_utf8"

definition load_keypair :: "'u cli_env \<Rightarrow> key_source \<Rightarrow> cli_error + keypair" where
  "load_keypair E args =
     (case (kc_secret_key args, kc_key_file args, kc_keystore args) of
        (Some raw, None, None) \<Rightarrow> load_secret_key E raw
      | (None, Some path, None) \<Rightarrow>
          bind_result (read_text_file E path) (\<lambda>secret. secret_to_keypair (ce_crypto E) (trim secret))
      | (None, None, Some path) \<Rightarrow>
          bind_result (check_owner_only E path) (\<lambda>_.
          bind_result (parse_keystore_address (ce_crypto E) (kc_keystore_address args)) (\<lambda>address.
          bind_result (load_password E (kc_password args) (lit ''Keystore password'')) (\<lambda>password.
          map_err KeystoreFailed
            (bind_result (load (ce_crypto E) (ce_keystore E) (text_files E) path)
              (\<lambda>s. unlock (ce_crypto E) (ce_keystore E) s address password)))))
      | _ \<Rightarrow> Err NoKeySource)"

subsection \<open>Lemmas\<close>

lemma from_secret_wf: "length bytes = 32 \<Longrightarrow> wf_keypair (from_secret_bytes bytes)"
  by (simp add: from_secret_bytes_def wf_keypair_def)

lemma secret_to_keypair_wf: "secret_to_keypair X s = Ok k \<Longrightarrow> wf_keypair k"
  by (auto simp: secret_to_keypair_def from_secret_wf split: if_splits)

lemma load_secret_key_wf: "load_secret_key E raw = Ok k \<Longrightarrow> wf_keypair k"
  by (auto simp: load_secret_key_def dest: secret_to_keypair_wf split: if_splits)

text \<open>A key that the keystore unlocks is checked against the address it is stored under.\<close>

lemma unlock_key: "unlock X K s a password = Ok kp \<Longrightarrow> wf_keypair kp \<and> kp_address X kp = a"
  by (auto simp: unlock_def from_secret_wf split: if_splits)

lemma load_keypair_wf: "load_keypair E args = Ok k \<Longrightarrow> wf_keypair k"
  by (auto simp: load_keypair_def dest: secret_to_keypair_wf load_secret_key_wf unlock_key
      split: option.splits)

end
