(* ===== verification/Cli_Wallet.thy ===== *)
theory Cli_Wallet
  imports Cli_Env
begin

text \<open>
  The wallet a transaction command signs with (\<open>crates/zincha-cli-core/src/tx.rs\<close>): the build
  arguments, the chain metadata and the nonce read from the node, and the validity window.

  \<open>resolved_wallet\<close> collects what holds of every wallet that resolves; \<open>Cli_Tx\<close> composes it with what
  a wallet guarantees of its transactions.
\<close>

subsection \<open>Build arguments\<close>

definition DEFAULT_TX_FEE :: u64 where "DEFAULT_TX_FEE = 500000"
definition DEFAULT_TOOL_SLA_MS :: u64 where "DEFAULT_TOOL_SLA_MS = 3600000"
definition DEFAULT_TOOL_CHALLENGE_WINDOW_MS :: u64 where "DEFAULT_TOOL_CHALLENGE_WINDOW_MS = 900000"
definition DEFAULT_TOOL_MAX_RESULT_METADATA_BYTES :: u32 where
  "DEFAULT_TOOL_MAX_RESULT_METADATA_BYTES = 4096"

record tx_build_args =
  tb_key_source :: key_source
  tb_nonce :: "u64 option"
  tb_chain_id :: "rstr option"
  tb_timestamp_ms :: "u64 option"
  tb_reference_block_height :: "u64 option"
  tb_reference_block_hash :: "rstr option"
  tb_ttl_blocks :: "u64 option"
  tb_embed_url :: "rstr option"
  tb_offline :: bool
  tb_submit :: bool
  tb_wait :: bool
  tb_wait_timeout_secs :: u64
  tb_wait_interval_ms :: u64
  tb_signed_tx_out :: "rstr option"
  tb_force :: bool

definition validate_reference_args :: "tx_build_args \<Rightarrow> cli_error + unit" where
  "validate_reference_args b =
     (if (tb_reference_block_height b \<noteq> None) \<noteq> (tb_reference_block_hash b \<noteq> None)
      then Err ReferenceIncomplete
      else if tb_ttl_blocks b = Some 0 then Err TtlNotPositive
      else Ok ())"

subsection \<open>Reading chain metadata\<close>

text \<open>\<open>find_map\<close> over the keys.\<close>

fun find_field :: "(json \<Rightarrow> 'a option) \<Rightarrow> json \<Rightarrow> rstr list \<Rightarrow> 'a option" where
  "find_field decode v [] = None"
| "find_field decode v (k # ks) =
     (case Option.bind (json_get v k) decode of Some x \<Rightarrow> Some x | None \<Rightarrow> find_field decode v ks)"

definition extract_u64 :: "json option \<Rightarrow> rstr list \<Rightarrow> u64 option" where
  "extract_u64 v keys = Option.bind v (\<lambda>j. find_field as_u64 j keys)"

definition extract_string :: "json option \<Rightarrow> rstr list \<Rightarrow> rstr option" where
  "extract_string v keys = Option.bind v (\<lambda>j. find_field json_as_str j keys)"

text \<open>The sum \<open>nonce + 1\<close> wraps in release builds.\<close>

definition extract_nonce :: "json \<Rightarrow> cli_error + u64" where
  "extract_nonce v =
     ok_or
       (case extract_u64 (Some v) [lit ''next_nonce'', lit ''nonce'', lit ''account_nonce''] of
          Some n \<Rightarrow> Some n
        | None \<Rightarrow>
            map_option (\<lambda>n. n + 1)
              (Option.bind (Option.bind (json_get v (lit ''account'')) (\<lambda>a. json_get a (lit ''nonce''))) as_u64))
       NoNonce"

subsection \<open>The validity window\<close>

definition apply_validity_window ::
  "externs \<Rightarrow> agent_wallet \<Rightarrow> tx_build_args \<Rightarrow> json option \<Rightarrow> cli_error + agent_wallet" where
  "apply_validity_window X w b info =
     bind_result (validate_reference_args b) (\<lambda>_.
     if info = None \<and> tb_reference_block_height b = None \<and> tb_ttl_blocks b = None then Ok w
     else
       let advertised_ttl = extract_u64 info [lit ''transaction_ttl_blocks''] in
       if info \<noteq> None \<and> advertised_ttl = None then Err NoTtlLimit
       else
         bind_result (ok_or (case tb_ttl_blocks b of Some t \<Rightarrow> Some t | None \<Rightarrow> advertised_ttl) TtlRequired) (\<lambda>ttl.
         if ttl = 0 \<or> (case advertised_ttl of Some limit \<Rightarrow> limit < ttl | None \<Rightarrow> False) then Err TtlOutOfRange
         else
           bind_result
             (case (tb_reference_block_height b, tb_reference_block_hash b) of
                (Some height, Some hash) \<Rightarrow> bind_result (parse_hash X hash) (\<lambda>h. Ok (height, h))
              | _ \<Rightarrow>
                  bind_result (ok_or (extract_u64 info [lit ''transaction_reference_block_height''])
                    NoReferenceHeight) (\<lambda>height.
                  bind_result (ok_or (extract_string info [lit ''transaction_reference_block_hash''])
                    NoReferenceHash) (\<lambda>hash.
                  bind_result (parse_hash X hash) (\<lambda>h. Ok (height, h)))))
             (\<lambda>(height, hash).
           bind_result (ok_or (checked_add height ttl) ValidityOverflow) (\<lambda>_.
           Ok (set_transaction_validity_window w height hash ttl)))))"

subsection \<open>Resolving the wallet\<close>

definition resolve_wallet_embed_url_from :: "tx_build_args \<Rightarrow> rstr option \<Rightarrow> rstr option" where
  "resolve_wallet_embed_url_from b env_value =
     (case tb_embed_url b of Some u \<Rightarrow> Some u | None \<Rightarrow> env_value)"

definition resolve_wallet_embed_url :: "'u cli_env \<Rightarrow> tx_build_args \<Rightarrow> rstr option" where
  "resolve_wallet_embed_url E b =
     resolve_wallet_embed_url_from b (ce_env_var E (lit ''ZINCHA_EMBED_URL''))"

definition transaction_chain_info :: "'u cli_env \<Rightarrow> tx_build_args \<Rightarrow> cli_error + json option" where
  "transaction_chain_info E b =
     (if tb_offline b \<or> \<not> tb_submit b \<and> tb_nonce b \<noteq> None \<and> tb_chain_id b \<noteq> None then Ok None
      else bind_result (map_err NodeFailed (chain_info (ce_node E))) (\<lambda>v. Ok (Some v)))"

definition transaction_nonce :: "'u cli_env \<Rightarrow> tx_build_args \<Rightarrow> address \<Rightarrow> cli_error + u64" where
  "transaction_nonce E b address =
     (case tb_nonce b of
        Some n \<Rightarrow> Ok n
      | None \<Rightarrow>
          if tb_offline b then Err OfflineIncomplete
          else bind_result (map_err NodeFailed (node_nonce (ce_node E) (addr_to_hex (ce_crypto E) address)))
                 extract_nonce)"

definition starting_wallet ::
  "'u cli_env \<Rightarrow> tx_build_args \<Rightarrow> keypair \<Rightarrow> rstr \<Rightarrow> u64 \<Rightarrow> agent_wallet" where
  "starting_wallet E b keypair chain_id nonce =
     (let w = wallet_new (ce_crypto E) keypair chain_id
                 (ce_url_text E (nc_base_url (snd (ce_node E))));
          w = (case resolve_wallet_embed_url E b of Some url \<Rightarrow> set_embed_url w url | None \<Rightarrow> w);
          w = set_nonce w nonce
      in case tb_timestamp_ms b of Some t \<Rightarrow> set_timestamp_ms w t | None \<Rightarrow> w)"

definition resolve_wallet :: "'u cli_env \<Rightarrow> tx_build_args \<Rightarrow> cli_error + agent_wallet" where
  "resolve_wallet E b =
     bind_result (validate_reference_args b) (\<lambda>_.
     bind_result (load_keypair E (tb_key_source b)) (\<lambda>keypair.
     if tb_offline b \<and> (tb_chain_id b = None \<or> tb_nonce b = None) then Err OfflineIncomplete
     else
       bind_result (transaction_chain_info E b) (\<lambda>info.
       bind_result (ok_or (case tb_chain_id b of
           Some c \<Rightarrow> Some c
         | None \<Rightarrow> extract_string info [lit ''chain_id'', lit ''chainId'']) NoChainId) (\<lambda>chain_id.
       bind_result (transaction_nonce E b (kp_address (ce_crypto E) keypair)) (\<lambda>nonce.
       apply_validity_window (ce_crypto E) (starting_wallet E b keypair chain_id nonce) b info)))))"

subsection \<open>What holds of a resolved wallet\<close>

text \<open>The window that the arguments and the chain's metadata allow: a positive length within the
  advertised limit, an explicit length and reference taken as given, others from the metadata, and
  an expiry that fits. Without a window, no window was asked for and no metadata was read.\<close>

definition window_allowed ::
  "externs \<Rightarrow> tx_build_args \<Rightarrow> json option \<Rightarrow> (u64 \<times> hash256 \<times> u64) option \<Rightarrow> bool" where
  "window_allowed X b info window =
     (let advertised = extract_u64 info [lit ''transaction_ttl_blocks''] in
      case window of
        None \<Rightarrow> info = None \<and> tb_reference_block_height b = None \<and> tb_ttl_blocks b = None
      | Some (height, hash, ttl) \<Rightarrow>
          0 < ttl \<and> unat height + unat ttl < 2 ^ 64
          \<and> (case tb_ttl_blocks b of Some t \<Rightarrow> ttl = t | None \<Rightarrow> advertised = Some ttl)
          \<and> (info = None \<or> (\<exists>limit. advertised = Some limit \<and> ttl \<le> limit))
          \<and> (case tb_reference_block_height b of
               Some h \<Rightarrow> height = h \<and> Option.bind (tb_reference_block_hash b) (hash_from_hex X) = Some hash
             | None \<Rightarrow>
                 extract_u64 info [lit ''transaction_reference_block_height''] = Some height
                 \<and> Option.bind (extract_string info [lit ''transaction_reference_block_hash'']) (hash_from_hex X)
                   = Some hash))"

lemma checked_add_Some: "checked_add (a :: u64) b = Some c \<Longrightarrow> unat a + unat b < 2 ^ 64"
  by (auto simp: checked_add_def split: if_splits)

lemma max_one: "ttl \<noteq> 0 \<Longrightarrow> max ttl 1 = (ttl :: u64)"
  by (metis max_def order_antisym_conv unat_gt_0 word_le_nat_alt Suc_leI unat_1 One_nat_def)

lemma apply_validity_window_Ok:
  assumes "apply_validity_window X w b info = Ok w'" "aw_tx_validity_window w = None"
  shows "\<exists>window. w' = w\<lparr>aw_tx_validity_window := window\<rparr> \<and> window_allowed X b info window"
proof (cases "info = None \<and> tb_reference_block_height b = None \<and> tb_ttl_blocks b = None")
  case True
  with assms have "w' = w\<lparr>aw_tx_validity_window := None\<rparr>" "window_allowed X b info None"
    by (simp_all add: apply_validity_window_def window_allowed_def)
  then show ?thesis by blast
next
  case False
  with assms(1) obtain ttl height hash where w: "w' = set_transaction_validity_window w height hash ttl"
    and ttl: "ttl \<noteq> 0" "(case tb_ttl_blocks b of Some t \<Rightarrow> ttl = t
        | None \<Rightarrow> extract_u64 info [lit ''transaction_ttl_blocks''] = Some ttl)"
      "info = None \<or> (\<exists>limit. extract_u64 info [lit ''transaction_ttl_blocks''] = Some limit \<and> ttl \<le> limit)"
    and reference: "(case tb_reference_block_height b of
        Some h \<Rightarrow> height = h \<and> Option.bind (tb_reference_block_hash b) (hash_from_hex X) = Some hash
      | None \<Rightarrow>
          extract_u64 info [lit ''transaction_reference_block_height''] = Some height
          \<and> Option.bind (extract_string info [lit ''transaction_reference_block_hash'']) (hash_from_hex X)
            = Some hash)"
    and expiry: "checked_add height ttl \<noteq> None"
    by (auto simp: apply_validity_window_def Let_def validate_reference_args_def parse_hash_def ok_or_def not_less
        split: if_splits option.splits)
  have "max ttl 1 = ttl" using ttl(1) by (rule max_one)
  with w have "w' = w\<lparr>aw_tx_validity_window := Some (height, hash, ttl)\<rparr>"
    by (simp add: set_transaction_validity_window_def)
  moreover have "window_allowed X b info (Some (height, hash, ttl))"
  proof -
    have "0 < ttl" using ttl(1) by (simp add: word_neq_0_conv)
    moreover have "unat height + unat ttl < 2 ^ 64" using expiry checked_add_Some [of height ttl] by blast
    ultimately show ?thesis
      unfolding window_allowed_def Let_def option.case prod.case using ttl(2,3) reference by blast
  qed
  ultimately show ?thesis by blast
qed

text \<open>Every wallet that resolves: it signs with the key of the key source, for the chain and from the
  nonce that the arguments name or else the node reports, in a window that the arguments and the
  metadata allow, and the metadata were read unless the command is offline or needs none.\<close>

definition resolved :: "'u cli_env \<Rightarrow> tx_build_args \<Rightarrow> agent_wallet \<Rightarrow> bool" where
  "resolved E b w \<longleftrightarrow>
     (\<exists>keypair info.
        load_keypair E (tb_key_source b) = Ok keypair \<and> wf_keypair keypair
      \<and> aw_signer w = keypair_signer (ce_crypto E) keypair
      \<and> (case tb_nonce b of
           Some n \<Rightarrow> aw_nonce w = n
         | None \<Rightarrow> \<exists>v. node_nonce (ce_node E) (addr_to_hex (ce_crypto E) (kp_address (ce_crypto E) keypair)) = Ok v
             \<and> extract_nonce v = Ok (aw_nonce w))
      \<and> (case info of
           None \<Rightarrow> (tb_offline b \<or> \<not> tb_submit b) \<and> tb_chain_id b = Some (aw_chain_id w)
         | Some v \<Rightarrow> chain_info (ce_node E) = Ok v
             \<and> (case tb_chain_id b of
                  Some c \<Rightarrow> aw_chain_id w = c
                | None \<Rightarrow> extract_string info [lit ''chain_id'', lit ''chainId''] = Some (aw_chain_id w)))
      \<and> window_allowed (ce_crypto E) b info (aw_tx_validity_window w))"

lemma starting_wallet_simps [simp]:
  "aw_signer (starting_wallet E b keypair cid nonce) = keypair_signer (ce_crypto E) keypair"
  "aw_nonce (starting_wallet E b keypair cid nonce) = nonce"
  "aw_chain_id (starting_wallet E b keypair cid nonce) = cid"
  "aw_tx_validity_window (starting_wallet E b keypair cid nonce) = None"
  by (simp_all add: starting_wallet_def Let_def wallet_new_def wallet_from_signer_def
      set_embed_url_def set_nonce_def set_timestamp_ms_def split: option.split)

lemma resolve_wallet_resolved:
  assumes "resolve_wallet E b = Ok w"
  shows "resolved E b w"
proof -
  let ?X = "ce_crypto E"
  from assms obtain keypair info cid nonce where
    key: "load_keypair E (tb_key_source b) = Ok keypair"
    and offline: "\<not> (tb_offline b \<and> (tb_chain_id b = None \<or> tb_nonce b = None))"
    and info: "transaction_chain_info E b = Ok info"
    and cid: "(case tb_chain_id b of Some c \<Rightarrow> Some c
        | None \<Rightarrow> extract_string info [lit ''chain_id'', lit ''chainId'']) = Some cid"
    and nonce: "transaction_nonce E b (kp_address ?X keypair) = Ok nonce"
    and window: "apply_validity_window ?X (starting_wallet E b keypair cid nonce) b info = Ok w"
    unfolding resolve_wallet_def bind_result_eq_Ok ok_or_eq_Ok by (auto split: if_splits)
  from apply_validity_window_Ok [OF window] have w: "aw_signer w = keypair_signer ?X keypair"
    "aw_nonce w = nonce" "aw_chain_id w = cid" "window_allowed ?X b info (aw_tx_validity_window w)"
    by auto
  have chain: "case info of
           None \<Rightarrow> (tb_offline b \<or> \<not> tb_submit b) \<and> tb_chain_id b = Some cid
         | Some v \<Rightarrow> chain_info (ce_node E) = Ok v
             \<and> (case tb_chain_id b of
                  Some c \<Rightarrow> cid = c
                | None \<Rightarrow> extract_string info [lit ''chain_id'', lit ''chainId''] = Some cid)"
    using info cid offline
    by (auto simp: transaction_chain_info_def extract_string_def split: if_splits option.splits)
  have "case tb_nonce b of
           Some n \<Rightarrow> nonce = n
         | None \<Rightarrow> \<exists>v. node_nonce (ce_node E) (addr_to_hex ?X (kp_address ?X keypair)) = Ok v
             \<and> extract_nonce v = Ok nonce"
    using nonce by (auto simp: transaction_nonce_def split: option.splits if_splits)
  with key load_keypair_wf [OF key] w chain show ?thesis
    unfolding resolved_def by blast
qed

end
