(* ===== verification/Cli_Command.thy ===== *)
theory Cli_Command
  imports Cli_Wallet
begin

text \<open>
  The transaction commands of the command line (\<open>crates/zincha-cli-core/src/tx.rs\<close>): one constructor
  per command with its arguments, and one definition per command that builds a transaction. Each
  parses its arguments in the order of the code, some before the wallet is resolved and some after,
  and calls one of the wallet's builders.
\<close>

subsection \<open>Commands\<close>

datatype stake_target_arg = ArgAgent | ArgValidator | ArgRequesterAutoMatch

definition stake_target_of :: "stake_target_arg \<Rightarrow> stake_target" where
  "stake_target_of t =
     (case t of ArgAgent \<Rightarrow> StakeAgent | ArgValidator \<Rightarrow> StakeValidator
      | ArgRequesterAutoMatch \<Rightarrow> StakeRequesterAutoMatch)"

text \<open>The variants of the enum \<open>TxCommands\<close>, grouped in its order by what they are about.\<close>

datatype submit_command =
    CmdSubmitSigned "rstr option" "rstr option"
  | CmdSubmitBatch "rstr list" "rstr list"
  | CmdSubmitProtected "rstr option" "rstr option" "u64 option"
  | CmdSubmitBundle "rstr list" "rstr list" bool u64 "u64 option" "u64 option"
  | CmdWait rstr u64 u64

datatype account_command =
    CmdTransfer tx_build_args rstr u64 u64 "u64 option"
  | CmdEntityLink tx_build_args rstr rstr u64
  | CmdRegisterAgent tx_build_args rstr rstr "rstr list" "rstr option" "u64 option" "rstr option" u64
  | CmdUpdateAgent tx_build_args "rstr option" "rstr option" "rstr option" "rstr list" "rstr option"
      "bool option" "u64 option" "rstr option" u64
  | CmdDeregisterAgent tx_build_args u64
  | CmdCapabilityPropose tx_build_args rstr rstr rstr rstr "rstr option" "rstr list" "rstr list"
      "rstr list" "rstr list" u64
  | CmdCapabilityApprove tx_build_args rstr "rstr option" "rstr option" "rstr option" "rstr option"
      "rstr list" "rstr list" "rstr list" "rstr list" u64
  | CmdCapabilityReject tx_build_args rstr rstr u64
  | CmdCapabilityDeprecate tx_build_args rstr rstr rstr u64
  | CmdBondRequesterAutoMatch tx_build_args u64 u64

datatype task_command =
    CmdSubmitTask tx_build_args rstr "rstr list" u64 u8 "u64 option" "rstr option" "rstr option" u64
  | CmdFulfillTask tx_build_args rstr "rstr option" "rstr option" "rstr list" "rstr list" u64
  | CmdAcceptTask tx_build_args rstr u64
  | CmdDisputeTask tx_build_args rstr rstr u64
  | CmdResolveTask tx_build_args rstr bool rstr u64
  | CmdFinalizeTask tx_build_args rstr u64
  | CmdCancelTask tx_build_args rstr u64
  | CmdDecomposeTask tx_build_args rstr rstr u64
  | CmdUpdateReputation tx_build_args rstr f64_bits bool "rstr option" u64

datatype validator_command =
    CmdRegisterValidator tx_build_args u64 "rstr option" "rstr option" u64
  | CmdUpdateValidator tx_build_args "rstr option" "rstr option" u64
  | CmdReactivateValidator tx_build_args u64
  | CmdStake tx_build_args stake_target_arg u64 u64
  | CmdUnstake tx_build_args stake_target_arg u64 u64
  | CmdExitValidator tx_build_args u64

datatype tool_command =
    CmdRegisterTool tx_build_args rstr rstr rstr u64 "rstr list" rstr u64 u64 u32 rstr rstr u64
  | CmdInvokeTool tx_build_args rstr "rstr option" u64
  | CmdInvokeMeteredTool tx_build_args rstr "rstr option" u64 u64
  | CmdInvokeMilestoneTool tx_build_args rstr "rstr option" rstr u64
  | CmdSubmitToolResult tx_build_args rstr "rstr option" "rstr option" "u32 option" u64
  | CmdAcceptToolResult tx_build_args rstr "u32 option" u64
  | CmdDisputeToolResult tx_build_args rstr rstr "u32 option" u64
  | CmdResolveToolResult tx_build_args rstr bool rstr "u32 option" u64
  | CmdReportToolUsage tx_build_args rstr u64 "rstr option" "rstr option" u64
  | CmdAcceptToolUsage tx_build_args rstr u64
  | CmdDisputeToolUsage tx_build_args rstr rstr u64
  | CmdResolveToolUsage tx_build_args rstr bool rstr u64

datatype subscription_command =
    CmdCreateToolSubscriptionPlan tx_build_args rstr rstr u64 u64 u32 u64 rstr u64
  | CmdUpdateToolSubscriptionPlan tx_build_args rstr "rstr option" "u64 option" "u64 option" "u32
      option" "u64 option" "rstr option" "bool option" u64
  | CmdStartToolSubscription tx_build_args rstr u64 bool u64
  | CmdTopUpToolSubscription tx_build_args rstr u64 u64
  | CmdCancelToolSubscription tx_build_args rstr u64
  | CmdResumeToolSubscription tx_build_args rstr u64 u64
  | CmdRenewToolSubscription tx_build_args rstr u64
  | CmdUpdateTool tx_build_args rstr "rstr option" "rstr option" "u64 option" "rstr option" "bool
      option" "rstr list" u64
  | CmdDeregisterTool tx_build_args rstr u64

datatype agreement_command =
    CmdCreateAgreement tx_build_args "rstr list" "rstr option" u64 u64 "rstr option" "rstr option"
      rstr "rstr option" "rstr option" u64
  | CmdAcceptAgreement tx_build_args rstr u64
  | CmdExecuteAgreement tx_build_args rstr rstr "u32 option" u64
  | CmdDisputeAgreement tx_build_args rstr rstr "u32 option" u64
  | CmdResolveAgreement tx_build_args rstr rstr "rstr option" rstr "u32 option" u64
  | CmdCancelAgreement tx_build_args rstr u64
  | CmdRegisterArbitrator tx_build_args rstr rstr u64 u16 "rstr list" u64
  | CmdDeregisterArbitrator tx_build_args u64

datatype contract_command =
    CmdDeployContract tx_build_args "rstr option" "rstr option" u64 u64
  | CmdCallContract tx_build_args rstr rstr "rstr option" u64 u64 u64
  | CmdCallContractRoute tx_build_args rstr rstr rstr "rstr option" u64 u64 u64
  | CmdUpdateContractRoute tx_build_args rstr rstr u64
  | CmdVerifyContractSource tx_build_args rstr rstr u64
  | CmdPublishContractAbi tx_build_args rstr rstr u64
  | CmdDeactivateContract tx_build_args rstr u64

datatype token_command =
    CmdCreateToken tx_build_args rstr rstr u8 u64 "u64 option" "rstr option" bool u64
  | CmdTransferToken tx_build_args rstr rstr u64 u64
  | CmdApproveToken tx_build_args rstr rstr u64 u64
  | CmdMintToken tx_build_args rstr rstr u64 u64
  | CmdUpdateTokenMintAuthority tx_build_args rstr "rstr option" u64
  | CmdBurnToken tx_build_args rstr u64 u64
  | CmdDestroyToken tx_build_args rstr u64

datatype tx_command =
    SubmitTx submit_command
  | AccountTx account_command
  | TaskTx task_command
  | ValidatorTx validator_command
  | ToolTx tool_command
  | SubscriptionTx subscription_command
  | AgreementTx agreement_command
  | ContractTx contract_command
  | TokenTx token_command

subsection \<open>Parsing arguments\<close>

definition parse_optional_hash :: "externs \<Rightarrow> rstr option \<Rightarrow> cli_error + hash256" where
  "parse_optional_hash X raw =
     bind_result (transpose_option (parse_hash X) raw) (\<lambda>v.
     Ok (case v of None \<Rightarrow> hash_zero | Some h \<Rightarrow> h))"

definition parse_hashes :: "externs \<Rightarrow> rstr list \<Rightarrow> cli_error + hash256 list" where
  "parse_hashes X values = collect_results (parse_hash X) values"

definition parse_addresses :: "externs \<Rightarrow> rstr list \<Rightarrow> cli_error + address list" where
  "parse_addresses X values = collect_results (parse_address X) values"

definition parse_settlement_mode :: "rstr \<Rightarrow> cli_error + http_tool_settlement_mode" where
  "parse_settlement_mode raw =
     (if raw = lit ''prepaid_access'' \<or> raw = lit ''prepaid'' then Ok PrepaidAccess
      else if raw = lit ''result_escrowed'' \<or> raw = lit ''result-escrowed'' then Ok ResultEscrowed
      else if raw = lit ''metered_usage'' \<or> raw = lit ''metered'' then Ok MeteredUsage
      else if raw = lit ''milestone_escrowed'' \<or> raw = lit ''milestone-escrowed'' then Ok MilestoneEscrowed
      else Err (UnsupportedSettlementMode raw))"

definition parse_arbitration_policy :: "rstr \<Rightarrow> cli_error + tool_arbitration_policy" where
  "parse_arbitration_policy raw =
     (if raw = lit ''protocol'' then Ok Protocol else Err (UnsupportedArbitrationPolicy raw))"

definition parse_overage_policy :: "rstr \<Rightarrow> cli_error + overage_policy" where
  "parse_overage_policy raw =
     (if raw = lit ''deny'' then Ok OverageDeny
      else if raw = lit ''pay_as_you_go'' \<or> raw = lit ''pay-as-you-go'' then Ok OveragePayAsYouGo
      else Err (UnsupportedOveragePolicy raw))"

definition validator_update ::
  "'u cli_env \<Rightarrow> rstr option \<Rightarrow> rstr option \<Rightarrow> bool \<Rightarrow> cli_error + validator_update_data" where
  "validator_update E vrf_public_key executor_services_file require_any_change =
     bind_result (transpose_option (read_json_file E (jd_executor_services (ce_decoders E)))
       executor_services_file) (\<lambda>services.
     bind_result (transpose_option (parse_public_key (ce_crypto E)) vrf_public_key) (\<lambda>vrf_key.
     let update = \<lparr>vu_executor_services = (case services of None \<Rightarrow> [] | Some s \<Rightarrow> s),
                   vu_vrf_public_key = vrf_key\<rparr> in
     if require_any_change \<and> vu_executor_services update = [] \<and> vu_vrf_public_key update = None
     then Err EmptyValidatorUpdate else Ok update))"

text \<open>\<open>(!xs.is_empty()).then_some(xs)\<close>.\<close>

definition nonempty :: "'a list \<Rightarrow> 'a list option" where
  "nonempty xs = (if xs = [] then None else Some xs)"

subsection \<open>Building and signing\<close>

type_synonym tx_built = "cli_error + rstr \<times> signed_transaction \<times> tx_build_args"

definition signed_by :: "built \<Rightarrow> cli_error + signed_transaction" where
  "signed_by r = map_err WalletFailed (fst r)"

definition simple_tx ::
  "'u cli_env \<Rightarrow> tx_build_args \<Rightarrow> rstr \<Rightarrow> (agent_wallet \<Rightarrow> cli_error + signed_transaction) \<Rightarrow> tx_built" where
  "simple_tx E build label f =
     bind_result (resolve_wallet E build) (\<lambda>w.
     bind_result (f w) (\<lambda>signed. Ok (label, signed, build)))"

subsection \<open>Transfers and agents\<close>

definition cmd_transfer ::
  "'u cli_env \<Rightarrow> tx_build_args \<Rightarrow> rstr \<Rightarrow> u64 \<Rightarrow> u64
   \<Rightarrow> u64 option \<Rightarrow> tx_built" where
  "cmd_transfer E build to_text amount fee max_priority_fee_per_gas =
     (let X = ce_crypto E; W = ce_wallet E in
     simple_tx E build (lit ''tx-transfer'') (\<lambda>w.
        bind_result (parse_address X to_text) (\<lambda>a_to_text.
        signed_by
          ((case max_priority_fee_per_gas of
            Some priority \<Rightarrow> build_transfer_with_priority_fee X W w a_to_text amount
            fee priority
          | None \<Rightarrow> build_transfer X W w a_to_text amount fee)))))"

definition cmd_entity_link ::
  "'u cli_env \<Rightarrow> tx_build_args \<Rightarrow> rstr \<Rightarrow> rstr \<Rightarrow> u64
   \<Rightarrow> tx_built" where
  "cmd_entity_link E build entity authorizer_secret_key fee =
     (let X = ce_crypto E; W = ce_wallet E in
     simple_tx E build (lit ''tx-entity-link'') (\<lambda>w.
        bind_result (load_secret_key E authorizer_secret_key) (\<lambda>authorizer.
        bind_result (parse_address X entity) (\<lambda>a_entity.
        signed_by
          (build_entity_link X W w a_entity authorizer fee)))))"

definition cmd_register_agent ::
  "'u cli_env \<Rightarrow> tx_build_args \<Rightarrow> rstr \<Rightarrow> rstr \<Rightarrow>
   rstr list \<Rightarrow> rstr option \<Rightarrow> u64 option \<Rightarrow> rstr option
   \<Rightarrow> u64 \<Rightarrow> tx_built" where
  "cmd_register_agent E build name_text description capabilities model_hash min_fee
     fee_schedule_file fee =
     (let X = ce_crypto E; W = ce_wallet E in
     simple_tx E build (lit ''tx-register-agent'') (\<lambda>w.
        bind_result (transpose_option (read_json_file E (jd_fee_schedule (ce_decoders E)))
            fee_schedule_file) (\<lambda>schedule.
        bind_result (parse_optional_hash X model_hash) (\<lambda>h_model_hash.
        bind_result (parse_capabilities (ce_lower E) capabilities) (\<lambda>caps.
        signed_by
          (build_register_agent_full X W w name_text description caps h_model_hash
            (case min_fee of None \<Rightarrow> 0 | Some m \<Rightarrow> m)
            (case schedule of None \<Rightarrow> [] | Some v \<Rightarrow> v) fee))))))"

definition cmd_update_agent ::
  "'u cli_env \<Rightarrow> tx_build_args \<Rightarrow> rstr option \<Rightarrow> rstr option
   \<Rightarrow> rstr option \<Rightarrow> rstr list \<Rightarrow> rstr option \<Rightarrow> bool
   option \<Rightarrow> u64 option \<Rightarrow> rstr option \<Rightarrow> u64 \<Rightarrow>
   tx_built" where
  "cmd_update_agent E build name_text description model_hash capabilities metadata_hex active
     min_fee fee_schedule_file fee =
     (let X = ce_crypto E; W = ce_wallet E in
     simple_tx E build (lit ''tx-update-agent'') (\<lambda>w.
        bind_result (transpose_option (parse_hash X) model_hash) (\<lambda>hash.
        bind_result (transpose_option (parse_capabilities (ce_lower E)) (nonempty capabilities))
            (\<lambda>caps.
        bind_result (transpose_option (\<lambda>h. parse_hex_bytes X (Some h)) metadata_hex)
            (\<lambda>metadata.
        bind_result (transpose_option (read_json_file E (jd_fee_schedule (ce_decoders E)))
            fee_schedule_file) (\<lambda>schedule.
        signed_by
          (build_update_agent_full X W w name_text description None hash caps metadata active
            min_fee schedule fee)))))))"

definition cmd_deregister_agent ::
  "'u cli_env \<Rightarrow> tx_build_args \<Rightarrow> u64 \<Rightarrow> tx_built" where
  "cmd_deregister_agent E build fee =
     (let X = ce_crypto E; W = ce_wallet E in
     simple_tx E build (lit ''tx-deregister-agent'') (\<lambda>w.
        signed_by
          (build_deregister_agent X W w fee)))"

subsection \<open>Capabilities\<close>

definition cmd_capability_propose ::
  "'u cli_env \<Rightarrow> tx_build_args \<Rightarrow> rstr \<Rightarrow> rstr \<Rightarrow>
   rstr \<Rightarrow> rstr \<Rightarrow> rstr option \<Rightarrow> rstr list \<Rightarrow> rstr
   list \<Rightarrow> rstr list \<Rightarrow> rstr list \<Rightarrow> u64 \<Rightarrow> tx_built" where
  "cmd_capability_propose E build slug display_name description category parent aliases keywords
     examples related fee =
     (let X = ce_crypto E; W = ce_wallet E in
     simple_tx E build (lit ''tx-capability-propose'') (\<lambda>w.
        signed_by
          (build_propose_capability X W w
            \<lparr>cpr_slug = slug, cpr_display_name = display_name, cpr_description =
            description,
             cpr_category = category, cpr_parent = parent, cpr_aliases = aliases,
             cpr_keywords = keywords, cpr_examples = examples, cpr_related = related\<rparr> fee)))"

definition cmd_capability_approve ::
  "'u cli_env \<Rightarrow> tx_build_args \<Rightarrow> rstr \<Rightarrow> rstr option
   \<Rightarrow> rstr option \<Rightarrow> rstr option \<Rightarrow> rstr option \<Rightarrow>
   rstr list \<Rightarrow> rstr list \<Rightarrow> rstr list \<Rightarrow> rstr list
   \<Rightarrow> u64 \<Rightarrow> tx_built" where
  "cmd_capability_approve E build slug display_name description category parent aliases keywords
     examples related fee =
     (let X = ce_crypto E; W = ce_wallet E in
     simple_tx E build (lit ''tx-capability-approve'') (\<lambda>w.
        signed_by
          (build_approve_capability X W w
            \<lparr>cap_slug = slug, cap_display_name = display_name, cap_description =
            description,
             cap_category = category, cap_parent = map_option Some parent,
             cap_aliases = nonempty aliases, cap_keywords = nonempty keywords,
             cap_examples = nonempty examples, cap_related = nonempty related\<rparr> fee)))"

definition cmd_capability_reject ::
  "'u cli_env \<Rightarrow> tx_build_args \<Rightarrow> rstr \<Rightarrow> rstr \<Rightarrow> u64
   \<Rightarrow> tx_built" where
  "cmd_capability_reject E build slug reason fee =
     (let X = ce_crypto E; W = ce_wallet E in
     simple_tx E build (lit ''tx-capability-reject'') (\<lambda>w.
        signed_by
          (build_reject_capability X W w \<lparr>crj_slug = slug, crj_reason = reason\<rparr>
            fee)))"

definition cmd_capability_deprecate ::
  "'u cli_env \<Rightarrow> tx_build_args \<Rightarrow> rstr \<Rightarrow> rstr \<Rightarrow>
   rstr \<Rightarrow> u64 \<Rightarrow> tx_built" where
  "cmd_capability_deprecate E build slug replacement reason fee =
     (let X = ce_crypto E; W = ce_wallet E in
     simple_tx E build (lit ''tx-capability-deprecate'') (\<lambda>w.
        signed_by
          (build_deprecate_capability X W w
            \<lparr>cde_slug = slug, cde_replacement = replacement, cde_reason = reason\<rparr>
            fee)))"

subsection \<open>Tasks\<close>

definition cmd_bond_requester_auto_match ::
  "'u cli_env \<Rightarrow> tx_build_args \<Rightarrow> u64 \<Rightarrow> u64 \<Rightarrow>
   tx_built" where
  "cmd_bond_requester_auto_match E build amount fee =
     (let X = ce_crypto E; W = ce_wallet E in
     simple_tx E build (lit ''tx-bond-requester-auto-match'') (\<lambda>w.
        signed_by
          (build_requester_auto_match_bond X W w amount fee)))"

definition cmd_submit_task ::
  "'u cli_env \<Rightarrow> tx_build_args \<Rightarrow> rstr \<Rightarrow> rstr list
   \<Rightarrow> u64 \<Rightarrow> u8 \<Rightarrow> u64 option \<Rightarrow> rstr option
   \<Rightarrow> rstr option \<Rightarrow> u64 \<Rightarrow> tx_built" where
  "cmd_submit_task E build description capabilities max_fee priority deadline_ms parameters_hex
     match_prefs_file fee =
     (let X = ce_crypto E; W = ce_wallet E in
     simple_tx E build (lit ''tx-submit-task'') (\<lambda>w.
        bind_result (now_millis E) (\<lambda>now.
        bind_result (Ok (case deadline_ms of Some d \<Rightarrow> d | None \<Rightarrow> now +
            600000)) (\<lambda>deadline.
        bind_result (parse_hex_bytes X parameters_hex) (\<lambda>parameters.
        bind_result (transpose_option (read_json_file E (jd_match_preferences (ce_decoders E)))
            match_prefs_file) (\<lambda>prefs.
        bind_result (parse_capabilities (ce_lower E) capabilities) (\<lambda>caps.
        signed_by
          ((case prefs of
            Some p \<Rightarrow> build_submit_task_with_prefs X W w description caps max_fee
            priority deadline parameters fee p
          | None \<Rightarrow> build_submit_task X W w description caps max_fee priority deadline
            parameters fee)))))))))"

definition cmd_fulfill_task ::
  "'u cli_env \<Rightarrow> tx_build_args \<Rightarrow> rstr \<Rightarrow> rstr option
   \<Rightarrow> rstr option \<Rightarrow> rstr list \<Rightarrow> rstr list \<Rightarrow> u64
   \<Rightarrow> tx_built" where
  "cmd_fulfill_task E build task_id result_hash result_data_hex tools_used input_refs fee =
     (let X = ce_crypto E; W = ce_wallet E in
     simple_tx E build (lit ''tx-fulfill-task'') (\<lambda>w.
        bind_result (parse_hash X task_id) (\<lambda>h_task_id.
        bind_result (parse_optional_hash X result_hash) (\<lambda>h_result_hash.
        bind_result (parse_hex_bytes X result_data_hex) (\<lambda>b_result_data_hex.
        bind_result (parse_hashes X tools_used) (\<lambda>tools.
        bind_result (parse_hashes X input_refs) (\<lambda>inputs.
        signed_by
          (build_fulfill_task X W w h_task_id h_result_hash b_result_data_hex tools inputs
            fee))))))))"

definition cmd_accept_task ::
  "'u cli_env \<Rightarrow> tx_build_args \<Rightarrow> rstr \<Rightarrow> u64 \<Rightarrow>
   tx_built" where
  "cmd_accept_task E build task_id fee =
     (let X = ce_crypto E; W = ce_wallet E in
     simple_tx E build (lit ''tx-accept-task'') (\<lambda>w.
        bind_result (parse_hash X task_id) (\<lambda>h_task_id.
        signed_by
          (build_accept_task X W w h_task_id fee))))"

definition cmd_dispute_task ::
  "'u cli_env \<Rightarrow> tx_build_args \<Rightarrow> rstr \<Rightarrow> rstr \<Rightarrow> u64
   \<Rightarrow> tx_built" where
  "cmd_dispute_task E build task_id reason fee =
     (let X = ce_crypto E; W = ce_wallet E in
     simple_tx E build (lit ''tx-dispute-task'') (\<lambda>w.
        bind_result (parse_hash X task_id) (\<lambda>h_task_id.
        signed_by
          (build_dispute_task X W w h_task_id reason fee))))"

definition cmd_resolve_task ::
  "'u cli_env \<Rightarrow> tx_build_args \<Rightarrow> rstr \<Rightarrow> bool \<Rightarrow>
   rstr \<Rightarrow> u64 \<Rightarrow> tx_built" where
  "cmd_resolve_task E build task_id agent_wins reason fee =
     (let X = ce_crypto E; W = ce_wallet E in
     simple_tx E build (lit ''tx-resolve-task'') (\<lambda>w.
        bind_result (parse_hash X task_id) (\<lambda>h_task_id.
        signed_by
          (build_resolve_task X W w h_task_id agent_wins reason fee))))"

definition cmd_finalize_task ::
  "'u cli_env \<Rightarrow> tx_build_args \<Rightarrow> rstr \<Rightarrow> u64 \<Rightarrow>
   tx_built" where
  "cmd_finalize_task E build task_id fee =
     (let X = ce_crypto E; W = ce_wallet E in
     simple_tx E build (lit ''tx-finalize-task'') (\<lambda>w.
        bind_result (parse_hash X task_id) (\<lambda>h_task_id.
        signed_by
          (build_finalize_task X W w h_task_id fee))))"

definition cmd_cancel_task ::
  "'u cli_env \<Rightarrow> tx_build_args \<Rightarrow> rstr \<Rightarrow> u64 \<Rightarrow>
   tx_built" where
  "cmd_cancel_task E build task_id fee =
     (let X = ce_crypto E; W = ce_wallet E in
     simple_tx E build (lit ''tx-cancel-task'') (\<lambda>w.
        bind_result (parse_hash X task_id) (\<lambda>h_task_id.
        signed_by
          (build_cancel_task X W w h_task_id fee))))"

definition cmd_decompose_task ::
  "'u cli_env \<Rightarrow> tx_build_args \<Rightarrow> rstr \<Rightarrow> rstr \<Rightarrow> u64
   \<Rightarrow> tx_built" where
  "cmd_decompose_task E build task_id subtasks_file fee =
     (let X = ce_crypto E; W = ce_wallet E in
     simple_tx E build (lit ''tx-decompose-task'') (\<lambda>w.
        bind_result (read_json_file E (jd_subtasks (ce_decoders E)) subtasks_file)
            (\<lambda>subtasks.
        bind_result (parse_hash X task_id) (\<lambda>h_task_id.
        signed_by
          (build_decompose_task X W w h_task_id subtasks fee)))))"

definition cmd_update_reputation ::
  "'u cli_env \<Rightarrow> tx_build_args \<Rightarrow> rstr \<Rightarrow> f64_bits \<Rightarrow>
   bool \<Rightarrow> rstr option \<Rightarrow> u64 \<Rightarrow> tx_built" where
  "cmd_update_reputation E build task_id quality requester_accepted feedback fee =
     (let X = ce_crypto E; W = ce_wallet E in
     simple_tx E build (lit ''tx-update-reputation'') (\<lambda>w.
        bind_result (parse_hash X task_id) (\<lambda>h_task_id.
        signed_by
          ((case feedback of
            Some t \<Rightarrow> build_update_reputation_with_feedback X W w h_task_id quality
            requester_accepted t fee
          | None \<Rightarrow> build_update_reputation X W w h_task_id quality requester_accepted
            fee)))))"

subsection \<open>Validators and stakes\<close>

definition cmd_register_validator ::
  "'u cli_env \<Rightarrow> tx_build_args \<Rightarrow> u64 \<Rightarrow> rstr option
   \<Rightarrow> rstr option \<Rightarrow> u64 \<Rightarrow> tx_built" where
  "cmd_register_validator E build stake vrf_public_key executor_services_file fee =
     (let X = ce_crypto E; W = ce_wallet E in
     simple_tx E build (lit ''tx-register-validator'') (\<lambda>w.
        bind_result (validator_update E vrf_public_key executor_services_file False)
            (\<lambda>update.
        signed_by
          (build_register_validator_with_update X W w stake update fee))))"

definition cmd_update_validator ::
  "'u cli_env \<Rightarrow> tx_build_args \<Rightarrow> rstr option \<Rightarrow> rstr option
   \<Rightarrow> u64 \<Rightarrow> tx_built" where
  "cmd_update_validator E build vrf_public_key executor_services_file fee =
     (let X = ce_crypto E; W = ce_wallet E in
     simple_tx E build (lit ''tx-update-validator'') (\<lambda>w.
        bind_result (validator_update E vrf_public_key executor_services_file True)
            (\<lambda>update.
        signed_by
          (build_update_validator X W w update fee))))"

definition cmd_reactivate_validator ::
  "'u cli_env \<Rightarrow> tx_build_args \<Rightarrow> u64 \<Rightarrow> tx_built" where
  "cmd_reactivate_validator E build fee =
     (let X = ce_crypto E; W = ce_wallet E in
     simple_tx E build (lit ''tx-reactivate-validator'') (\<lambda>w.
        signed_by
          (build_reactivate_validator X W w fee)))"

definition cmd_stake ::
  "'u cli_env \<Rightarrow> tx_build_args \<Rightarrow> stake_target_arg \<Rightarrow> u64
   \<Rightarrow> u64 \<Rightarrow> tx_built" where
  "cmd_stake E build target_arg amount fee =
     (let X = ce_crypto E; W = ce_wallet E in
     simple_tx E build (lit ''tx-stake'') (\<lambda>w.
        signed_by
          (build_stake X W w amount (stake_target_of target_arg) fee)))"

definition cmd_unstake ::
  "'u cli_env \<Rightarrow> tx_build_args \<Rightarrow> stake_target_arg \<Rightarrow> u64
   \<Rightarrow> u64 \<Rightarrow> tx_built" where
  "cmd_unstake E build target_arg amount fee =
     (let X = ce_crypto E; W = ce_wallet E in
     simple_tx E build (lit ''tx-unstake'') (\<lambda>w.
        signed_by
          (build_unstake X W w amount (stake_target_of target_arg) fee)))"

definition cmd_exit_validator ::
  "'u cli_env \<Rightarrow> tx_build_args \<Rightarrow> u64 \<Rightarrow> tx_built" where
  "cmd_exit_validator E build fee =
     (let X = ce_crypto E; W = ce_wallet E in
     simple_tx E build (lit ''tx-exit-validator'') (\<lambda>w.
        signed_by
          (build_exit_validator X W w fee)))"

subsection \<open>Tools\<close>

definition cmd_register_tool ::
  "'u cli_env \<Rightarrow> tx_build_args \<Rightarrow> rstr \<Rightarrow> rstr \<Rightarrow>
   rstr \<Rightarrow> u64 \<Rightarrow> rstr list \<Rightarrow> rstr \<Rightarrow> u64
   \<Rightarrow> u64 \<Rightarrow> u32 \<Rightarrow> rstr \<Rightarrow> rstr \<Rightarrow> u64
   \<Rightarrow> tx_built" where
  "cmd_register_tool E build name_text description endpoint price capabilities settlement_mode
     sla_ms challenge_window_ms max_result_metadata_bytes arbitration_policy version fee =
     (let X = ce_crypto E; W = ce_wallet E in
     simple_tx E build (lit ''tx-register-tool'') (\<lambda>w.
        bind_result (parse_settlement_mode settlement_mode) (\<lambda>mode.
        bind_result (parse_arbitration_policy arbitration_policy) (\<lambda>policy.
        bind_result (parse_capabilities (ce_lower E) capabilities) (\<lambda>caps.
        signed_by
          (build_register_tool_with_settlement X W w name_text description endpoint price mode
            sla_ms
            challenge_window_ms max_result_metadata_bytes policy caps version fee))))))"

definition cmd_invoke_tool ::
  "'u cli_env \<Rightarrow> tx_build_args \<Rightarrow> rstr \<Rightarrow> rstr option
   \<Rightarrow> u64 \<Rightarrow> tx_built" where
  "cmd_invoke_tool E build tool_id input_hex fee =
     (let X = ce_crypto E; W = ce_wallet E in
     simple_tx E build (lit ''tx-invoke-tool'') (\<lambda>w.
        bind_result (parse_hash X tool_id) (\<lambda>h_tool_id.
        bind_result (parse_hex_bytes X input_hex) (\<lambda>b_input_hex.
        signed_by
          (build_invoke_tool X W w h_tool_id b_input_hex fee)))))"

definition cmd_invoke_metered_tool ::
  "'u cli_env \<Rightarrow> tx_build_args \<Rightarrow> rstr \<Rightarrow> rstr option
   \<Rightarrow> u64 \<Rightarrow> u64 \<Rightarrow> tx_built" where
  "cmd_invoke_metered_tool E build tool_id input_hex max_units fee =
     (let X = ce_crypto E; W = ce_wallet E in
     simple_tx E build (lit ''tx-invoke-metered-tool'') (\<lambda>w.
        bind_result (parse_hash X tool_id) (\<lambda>h_tool_id.
        bind_result (parse_hex_bytes X input_hex) (\<lambda>b_input_hex.
        signed_by
          (build_invoke_metered_tool X W w h_tool_id b_input_hex max_units fee)))))"

definition cmd_invoke_milestone_tool ::
  "'u cli_env \<Rightarrow> tx_build_args \<Rightarrow> rstr \<Rightarrow> rstr option
   \<Rightarrow> rstr \<Rightarrow> u64 \<Rightarrow> tx_built" where
  "cmd_invoke_milestone_tool E build tool_id input_hex milestones_file fee =
     (let X = ce_crypto E; W = ce_wallet E in
     bind_result (read_json_file E (jd_tool_milestones (ce_decoders E)) milestones_file)
            (\<lambda>milestones.
     simple_tx E build (lit ''tx-invoke-milestone-tool'') (\<lambda>w.
        bind_result (parse_hash X tool_id) (\<lambda>h_tool_id.
        bind_result (parse_hex_bytes X input_hex) (\<lambda>b_input_hex.
        signed_by
          (build_invoke_milestone_tool X W w h_tool_id b_input_hex milestones fee))))))"

definition cmd_submit_tool_result ::
  "'u cli_env \<Rightarrow> tx_build_args \<Rightarrow> rstr \<Rightarrow> rstr option
   \<Rightarrow> rstr option \<Rightarrow> u32 option \<Rightarrow> u64 \<Rightarrow> tx_built" where
  "cmd_submit_tool_result E build job_id result_hash result_metadata_hex milestone_index fee =
     (let X = ce_crypto E; W = ce_wallet E in
     bind_result (parse_optional_hash X result_hash) (\<lambda>h_result_hash.
     bind_result (parse_hex_bytes X result_metadata_hex) (\<lambda>metadata.
     simple_tx E build (lit ''tx-submit-tool-result'') (\<lambda>w.
        bind_result (parse_hash X job_id) (\<lambda>h_job_id.
        signed_by
          ((case milestone_index of
            Some index \<Rightarrow> build_submit_tool_milestone_result X W w h_job_id index
            h_result_hash metadata fee
          | None \<Rightarrow> build_submit_tool_result X W w h_job_id h_result_hash metadata
            fee)))))))"

definition cmd_accept_tool_result ::
  "'u cli_env \<Rightarrow> tx_build_args \<Rightarrow> rstr \<Rightarrow> u32 option
   \<Rightarrow> u64 \<Rightarrow> tx_built" where
  "cmd_accept_tool_result E build job_id milestone_index fee =
     (let X = ce_crypto E; W = ce_wallet E in
     simple_tx E build (lit ''tx-accept-tool-result'') (\<lambda>w.
        bind_result (parse_hash X job_id) (\<lambda>h_job_id.
        signed_by
          ((case milestone_index of
            Some index \<Rightarrow> build_accept_tool_milestone_result X W w h_job_id index fee
          | None \<Rightarrow> build_accept_tool_result X W w h_job_id fee)))))"

definition cmd_dispute_tool_result ::
  "'u cli_env \<Rightarrow> tx_build_args \<Rightarrow> rstr \<Rightarrow> rstr \<Rightarrow> u32
   option \<Rightarrow> u64 \<Rightarrow> tx_built" where
  "cmd_dispute_tool_result E build job_id reason milestone_index fee =
     (let X = ce_crypto E; W = ce_wallet E in
     simple_tx E build (lit ''tx-dispute-tool-result'') (\<lambda>w.
        bind_result (parse_hash X job_id) (\<lambda>h_job_id.
        signed_by
          ((case milestone_index of
            Some index \<Rightarrow> build_dispute_tool_milestone_result X W w h_job_id index
            reason fee
          | None \<Rightarrow> build_dispute_tool_result X W w h_job_id reason fee)))))"

definition cmd_resolve_tool_result ::
  "'u cli_env \<Rightarrow> tx_build_args \<Rightarrow> rstr \<Rightarrow> bool \<Rightarrow>
   rstr \<Rightarrow> u32 option \<Rightarrow> u64 \<Rightarrow> tx_built" where
  "cmd_resolve_tool_result E build job_id provider_wins reason milestone_index fee =
     (let X = ce_crypto E; W = ce_wallet E in
     simple_tx E build (lit ''tx-resolve-tool-result'') (\<lambda>w.
        bind_result (parse_hash X job_id) (\<lambda>h_job_id.
        signed_by
          ((case milestone_index of
            Some index \<Rightarrow> build_resolve_tool_milestone_result X W w h_job_id index
            provider_wins reason fee
          | None \<Rightarrow> build_resolve_tool_result X W w h_job_id provider_wins reason
            fee)))))"

definition cmd_report_tool_usage ::
  "'u cli_env \<Rightarrow> tx_build_args \<Rightarrow> rstr \<Rightarrow> u64 \<Rightarrow> rstr
   option \<Rightarrow> rstr option \<Rightarrow> u64 \<Rightarrow> tx_built" where
  "cmd_report_tool_usage E build session_id units_used result_hash result_metadata_hex fee =
     (let X = ce_crypto E; W = ce_wallet E in
     simple_tx E build (lit ''tx-report-tool-usage'') (\<lambda>w.
        bind_result (parse_hash X session_id) (\<lambda>h_session_id.
        bind_result (parse_optional_hash X result_hash) (\<lambda>h_result_hash.
        bind_result (parse_hex_bytes X result_metadata_hex) (\<lambda>b_result_metadata_hex.
        signed_by
          (build_report_tool_usage X W w h_session_id units_used h_result_hash
            b_result_metadata_hex fee))))))"

definition cmd_accept_tool_usage ::
  "'u cli_env \<Rightarrow> tx_build_args \<Rightarrow> rstr \<Rightarrow> u64 \<Rightarrow>
   tx_built" where
  "cmd_accept_tool_usage E build session_id fee =
     (let X = ce_crypto E; W = ce_wallet E in
     simple_tx E build (lit ''tx-accept-tool-usage'') (\<lambda>w.
        bind_result (parse_hash X session_id) (\<lambda>h_session_id.
        signed_by
          (build_accept_tool_usage X W w h_session_id fee))))"

definition cmd_dispute_tool_usage ::
  "'u cli_env \<Rightarrow> tx_build_args \<Rightarrow> rstr \<Rightarrow> rstr \<Rightarrow> u64
   \<Rightarrow> tx_built" where
  "cmd_dispute_tool_usage E build session_id reason fee =
     (let X = ce_crypto E; W = ce_wallet E in
     simple_tx E build (lit ''tx-dispute-tool-usage'') (\<lambda>w.
        bind_result (parse_hash X session_id) (\<lambda>h_session_id.
        signed_by
          (build_dispute_tool_usage X W w h_session_id reason fee))))"

definition cmd_resolve_tool_usage ::
  "'u cli_env \<Rightarrow> tx_build_args \<Rightarrow> rstr \<Rightarrow> bool \<Rightarrow>
   rstr \<Rightarrow> u64 \<Rightarrow> tx_built" where
  "cmd_resolve_tool_usage E build session_id provider_wins reason fee =
     (let X = ce_crypto E; W = ce_wallet E in
     simple_tx E build (lit ''tx-resolve-tool-usage'') (\<lambda>w.
        bind_result (parse_hash X session_id) (\<lambda>h_session_id.
        signed_by
          (build_resolve_tool_usage X W w h_session_id provider_wins reason fee))))"

subsection \<open>Subscriptions\<close>

definition cmd_create_tool_subscription_plan ::
  "'u cli_env \<Rightarrow> tx_build_args \<Rightarrow> rstr \<Rightarrow> rstr \<Rightarrow> u64
   \<Rightarrow> u64 \<Rightarrow> u32 \<Rightarrow> u64 \<Rightarrow> rstr \<Rightarrow> u64
   \<Rightarrow> tx_built" where
  "cmd_create_tool_subscription_plan E build tool_id name_text price_per_period period_ms
     included_calls included_credits overage_policy fee =
     (let X = ce_crypto E; W = ce_wallet E in
     simple_tx E build (lit ''tx-create-tool-subscription-plan'') (\<lambda>w.
        bind_result (parse_hash X tool_id) (\<lambda>h_tool_id.
        bind_result (parse_overage_policy overage_policy) (\<lambda>policy.
        signed_by
          (build_create_tool_subscription_plan X W w h_tool_id name_text price_per_period
            period_ms
            included_calls included_credits policy fee)))))"

definition cmd_update_tool_subscription_plan ::
  "'u cli_env \<Rightarrow> tx_build_args \<Rightarrow> rstr \<Rightarrow> rstr option
   \<Rightarrow> u64 option \<Rightarrow> u64 option \<Rightarrow> u32 option \<Rightarrow> u64
   option \<Rightarrow> rstr option \<Rightarrow> bool option \<Rightarrow> u64 \<Rightarrow>
   tx_built" where
  "cmd_update_tool_subscription_plan E build plan_id name_text price_per_period period_ms
     included_calls included_credits overage_policy active fee =
     (let X = ce_crypto E; W = ce_wallet E in
     bind_result (parse_hash X plan_id) (\<lambda>h_plan_id.
     bind_result (transpose_option parse_overage_policy overage_policy) (\<lambda>policy.
     simple_tx E build (lit ''tx-update-tool-subscription-plan'') (\<lambda>w.
        signed_by
          (build_update_tool_subscription_plan X W w
            \<lparr>spu_plan_id = h_plan_id, spu_name = name_text, spu_price_per_period =
            price_per_period,
             spu_period_ms = period_ms, spu_included_calls = included_calls,
             spu_included_credits = included_credits, spu_overage_policy = policy,
             spu_active = active\<rparr> fee)))))"

definition cmd_start_tool_subscription ::
  "'u cli_env \<Rightarrow> tx_build_args \<Rightarrow> rstr \<Rightarrow> u64 \<Rightarrow> bool
   \<Rightarrow> u64 \<Rightarrow> tx_built" where
  "cmd_start_tool_subscription E build plan_id reserve_amount auto_renew fee =
     (let X = ce_crypto E; W = ce_wallet E in
     simple_tx E build (lit ''tx-start-tool-subscription'') (\<lambda>w.
        bind_result (parse_hash X plan_id) (\<lambda>h_plan_id.
        signed_by
          (build_start_tool_subscription X W w h_plan_id reserve_amount auto_renew fee))))"

definition cmd_top_up_tool_subscription ::
  "'u cli_env \<Rightarrow> tx_build_args \<Rightarrow> rstr \<Rightarrow> u64 \<Rightarrow> u64
   \<Rightarrow> tx_built" where
  "cmd_top_up_tool_subscription E build subscription_id amount fee =
     (let X = ce_crypto E; W = ce_wallet E in
     simple_tx E build (lit ''tx-top-up-tool-subscription'') (\<lambda>w.
        bind_result (parse_hash X subscription_id) (\<lambda>h_subscription_id.
        signed_by
          (build_top_up_tool_subscription X W w h_subscription_id amount fee))))"

definition cmd_cancel_tool_subscription ::
  "'u cli_env \<Rightarrow> tx_build_args \<Rightarrow> rstr \<Rightarrow> u64 \<Rightarrow>
   tx_built" where
  "cmd_cancel_tool_subscription E build subscription_id fee =
     (let X = ce_crypto E; W = ce_wallet E in
     simple_tx E build (lit ''tx-cancel-tool-subscription'') (\<lambda>w.
        bind_result (parse_hash X subscription_id) (\<lambda>h_subscription_id.
        signed_by
          (build_cancel_tool_subscription X W w h_subscription_id fee))))"

definition cmd_resume_tool_subscription ::
  "'u cli_env \<Rightarrow> tx_build_args \<Rightarrow> rstr \<Rightarrow> u64 \<Rightarrow> u64
   \<Rightarrow> tx_built" where
  "cmd_resume_tool_subscription E build subscription_id reserve_amount fee =
     (let X = ce_crypto E; W = ce_wallet E in
     simple_tx E build (lit ''tx-resume-tool-subscription'') (\<lambda>w.
        bind_result (parse_hash X subscription_id) (\<lambda>h_subscription_id.
        signed_by
          (build_resume_tool_subscription_with_reserve X W w h_subscription_id reserve_amount
            fee))))"

definition cmd_renew_tool_subscription ::
  "'u cli_env \<Rightarrow> tx_build_args \<Rightarrow> rstr \<Rightarrow> u64 \<Rightarrow>
   tx_built" where
  "cmd_renew_tool_subscription E build subscription_id fee =
     (let X = ce_crypto E; W = ce_wallet E in
     simple_tx E build (lit ''tx-renew-tool-subscription'') (\<lambda>w.
        bind_result (parse_hash X subscription_id) (\<lambda>h_subscription_id.
        signed_by
          (build_renew_tool_subscription X W w h_subscription_id fee))))"

definition cmd_update_tool ::
  "'u cli_env \<Rightarrow> tx_build_args \<Rightarrow> rstr \<Rightarrow> rstr option
   \<Rightarrow> rstr option \<Rightarrow> u64 option \<Rightarrow> rstr option \<Rightarrow>
   bool option \<Rightarrow> rstr list \<Rightarrow> u64 \<Rightarrow> tx_built" where
  "cmd_update_tool E build tool_id description endpoint price_per_call settlement_mode active
     capabilities fee =
     (let X = ce_crypto E; W = ce_wallet E in
     bind_result (parse_hash X tool_id) (\<lambda>h_tool_id.
     bind_result (transpose_option parse_settlement_mode settlement_mode) (\<lambda>mode.
     bind_result (transpose_option (parse_capabilities (ce_lower E)) (nonempty capabilities))
            (\<lambda>caps.
     simple_tx E build (lit ''tx-update-tool'') (\<lambda>w.
        signed_by
          (build_update_tool X W w h_tool_id
            \<lparr>tup_tool_id = h_tool_id, tup_description = description, tup_endpoint =
            endpoint,
             tup_price_per_call = price_per_call, tup_settlement_mode = mode, tup_sla_ms = None,
             tup_challenge_window_ms = None, tup_max_result_metadata_bytes = None,
             tup_arbitration_policy = None, tup_capabilities = caps, tup_match_enabled = None,
             tup_neural_embedding = None, tup_version = None, tup_active = active\<rparr> fee))))))"

definition cmd_deregister_tool ::
  "'u cli_env \<Rightarrow> tx_build_args \<Rightarrow> rstr \<Rightarrow> u64 \<Rightarrow>
   tx_built" where
  "cmd_deregister_tool E build tool_id fee =
     (let X = ce_crypto E; W = ce_wallet E in
     simple_tx E build (lit ''tx-deregister-tool'') (\<lambda>w.
        bind_result (parse_hash X tool_id) (\<lambda>h_tool_id.
        signed_by
          (build_deregister_tool X W w h_tool_id fee))))"

subsection \<open>Agreements and arbitrators\<close>

definition cmd_create_agreement ::
  "'u cli_env \<Rightarrow> tx_build_args \<Rightarrow> rstr list \<Rightarrow> rstr option
   \<Rightarrow> u64 \<Rightarrow> u64 \<Rightarrow> rstr option \<Rightarrow> rstr option
   \<Rightarrow> rstr \<Rightarrow> rstr option \<Rightarrow> rstr option \<Rightarrow> u64
   \<Rightarrow> tx_built" where
  "cmd_create_agreement E build parties terms_hex escrow_amount expires_at arbitrator
     milestones_file service_provider settlement_allocations_file approver fee =
     (let X = ce_crypto E; W = ce_wallet E in
     simple_tx E build (lit ''tx-create-agreement'') (\<lambda>w.
        bind_result (transpose_option (read_json_file E (jd_milestones (ce_decoders E)))
            milestones_file) (\<lambda>milestones.
        bind_result (transpose_option (read_json_file E (jd_payout_shares (ce_decoders E)))
            settlement_allocations_file) (\<lambda>allocations.
        bind_result (parse_addresses X parties) (\<lambda>addresses.
        bind_result (parse_hex_bytes X terms_hex) (\<lambda>b_terms_hex.
        bind_result (transpose_option (parse_address X) arbitrator) (\<lambda>a_arbitrator.
        bind_result (parse_address X service_provider) (\<lambda>a_service_provider.
        bind_result (transpose_option (parse_address X) approver) (\<lambda>a_approver.
        signed_by
          (build_create_agreement X W w addresses b_terms_hex escrow_amount expires_at
            a_arbitrator
            (case milestones of None \<Rightarrow> [] | Some v \<Rightarrow> v) a_service_provider
            (case allocations of None \<Rightarrow> [] | Some v \<Rightarrow> v) a_approver
            fee))))))))))"

definition cmd_accept_agreement ::
  "'u cli_env \<Rightarrow> tx_build_args \<Rightarrow> rstr \<Rightarrow> u64 \<Rightarrow>
   tx_built" where
  "cmd_accept_agreement E build agreement_id fee =
     (let X = ce_crypto E; W = ce_wallet E in
     simple_tx E build (lit ''tx-accept-agreement'') (\<lambda>w.
        bind_result (parse_hash X agreement_id) (\<lambda>h_agreement_id.
        signed_by
          (build_accept_agreement X W w h_agreement_id fee))))"

definition cmd_execute_agreement ::
  "'u cli_env \<Rightarrow> tx_build_args \<Rightarrow> rstr \<Rightarrow> rstr \<Rightarrow> u32
   option \<Rightarrow> u64 \<Rightarrow> tx_built" where
  "cmd_execute_agreement E build agreement_id result_hash milestone_index fee =
     (let X = ce_crypto E; W = ce_wallet E in
     simple_tx E build (lit ''tx-execute-agreement'') (\<lambda>w.
        bind_result (parse_hash X agreement_id) (\<lambda>h_agreement_id.
        bind_result (parse_hash X result_hash) (\<lambda>h_result_hash.
        signed_by
          ((case milestone_index of
            Some index \<Rightarrow> build_execute_milestone X W w h_agreement_id h_result_hash
            index fee
          | None \<Rightarrow> build_execute_agreement X W w h_agreement_id h_result_hash fee))))))"

definition cmd_dispute_agreement ::
  "'u cli_env \<Rightarrow> tx_build_args \<Rightarrow> rstr \<Rightarrow> rstr \<Rightarrow> u32
   option \<Rightarrow> u64 \<Rightarrow> tx_built" where
  "cmd_dispute_agreement E build agreement_id reason milestone_index fee =
     (let X = ce_crypto E; W = ce_wallet E in
     simple_tx E build (lit ''tx-dispute-agreement'') (\<lambda>w.
        bind_result (parse_hash X agreement_id) (\<lambda>h_agreement_id.
        signed_by
          (build_dispute_agreement_with_milestone X W w h_agreement_id reason milestone_index
            fee))))"

definition cmd_resolve_agreement ::
  "'u cli_env \<Rightarrow> tx_build_args \<Rightarrow> rstr \<Rightarrow> rstr \<Rightarrow>
   rstr option \<Rightarrow> rstr \<Rightarrow> u32 option \<Rightarrow> u64 \<Rightarrow>
   tx_built" where
  "cmd_resolve_agreement E build agreement_id payouts_file reputation_effects_file reason
     milestone_index fee =
     (let X = ce_crypto E; W = ce_wallet E in
     bind_result (read_json_file E (jd_payout_shares (ce_decoders E)) payouts_file)
            (\<lambda>payouts.
     bind_result (transpose_option (read_json_file E (jd_reputation_effects (ce_decoders E)))
            reputation_effects_file) (\<lambda>effects.
     simple_tx E build (lit ''tx-resolve-agreement'') (\<lambda>w.
        bind_result (parse_hash X agreement_id) (\<lambda>h_agreement_id.
        signed_by
          (build_resolve_agreement X W w h_agreement_id payouts
            (case effects of None \<Rightarrow> [] | Some v \<Rightarrow> v) reason
            milestone_index fee))))))"

definition cmd_cancel_agreement ::
  "'u cli_env \<Rightarrow> tx_build_args \<Rightarrow> rstr \<Rightarrow> u64 \<Rightarrow>
   tx_built" where
  "cmd_cancel_agreement E build agreement_id fee =
     (let X = ce_crypto E; W = ce_wallet E in
     simple_tx E build (lit ''tx-cancel-agreement'') (\<lambda>w.
        bind_result (parse_hash X agreement_id) (\<lambda>h_agreement_id.
        signed_by
          (build_cancel_agreement X W w h_agreement_id fee))))"

definition cmd_register_arbitrator ::
  "'u cli_env \<Rightarrow> tx_build_args \<Rightarrow> rstr \<Rightarrow> rstr \<Rightarrow> u64
   \<Rightarrow> u16 \<Rightarrow> rstr list \<Rightarrow> u64 \<Rightarrow> tx_built" where
  "cmd_register_arbitrator E build name_text description stake fee_bps specializations fee =
     (let X = ce_crypto E; W = ce_wallet E in
     simple_tx E build (lit ''tx-register-arbitrator'') (\<lambda>w.
        signed_by
          (build_register_arbitrator X W w name_text description stake fee_bps specializations
            fee)))"

definition cmd_deregister_arbitrator ::
  "'u cli_env \<Rightarrow> tx_build_args \<Rightarrow> u64 \<Rightarrow> tx_built" where
  "cmd_deregister_arbitrator E build fee =
     (let X = ce_crypto E; W = ce_wallet E in
     simple_tx E build (lit ''tx-deregister-arbitrator'') (\<lambda>w.
        signed_by
          (build_deregister_arbitrator X W w fee)))"

subsection \<open>Contracts\<close>

definition cmd_deploy_contract ::
  "'u cli_env \<Rightarrow> tx_build_args \<Rightarrow> rstr option \<Rightarrow> rstr option
   \<Rightarrow> u64 \<Rightarrow> u64 \<Rightarrow> tx_built" where
  "cmd_deploy_contract E build bytecode_hex bytecode_file initial_balance fee =
     (let X = ce_crypto E; W = ce_wallet E in
     bind_result (read_hex_or_file E bytecode_hex bytecode_file) (\<lambda>hex.
     bind_result (ok_or (hex_decode X hex) (BadHex hex)) (\<lambda>bytecode.
     simple_tx E build (lit ''tx-deploy-contract'') (\<lambda>w.
        signed_by
          (build_deploy_contract X W w bytecode initial_balance fee)))))"

definition cmd_call_contract ::
  "'u cli_env \<Rightarrow> tx_build_args \<Rightarrow> rstr \<Rightarrow> rstr \<Rightarrow>
   rstr option \<Rightarrow> u64 \<Rightarrow> u64 \<Rightarrow> u64 \<Rightarrow> tx_built" where
  "cmd_call_contract E build contract_address function_name args_hex call_value gas_limit fee =
     (let X = ce_crypto E; W = ce_wallet E in
     simple_tx E build (lit ''tx-call-contract'') (\<lambda>w.
        bind_result (parse_address X contract_address) (\<lambda>a_contract_address.
        bind_result (parse_hex_bytes X args_hex) (\<lambda>b_args_hex.
        signed_by
          (build_call_contract X W w a_contract_address function_name b_args_hex call_value
            gas_limit fee)))))"

definition cmd_call_contract_route ::
  "'u cli_env \<Rightarrow> tx_build_args \<Rightarrow> rstr \<Rightarrow> rstr \<Rightarrow>
   rstr \<Rightarrow> rstr option \<Rightarrow> u64 \<Rightarrow> u64 \<Rightarrow> u64
   \<Rightarrow> tx_built" where
  "cmd_call_contract_route E build deployer route_name function_name args_hex call_value
     gas_limit fee =
     (let X = ce_crypto E; W = ce_wallet E in
     simple_tx E build (lit ''tx-call-contract-route'') (\<lambda>w.
        bind_result (parse_address X deployer) (\<lambda>a_deployer.
        bind_result (parse_hex_bytes X args_hex) (\<lambda>b_args_hex.
        signed_by
          (build_call_contract_route X W w a_deployer route_name function_name b_args_hex
            call_value gas_limit fee)))))"

definition cmd_update_contract_route ::
  "'u cli_env \<Rightarrow> tx_build_args \<Rightarrow> rstr \<Rightarrow> rstr \<Rightarrow> u64
   \<Rightarrow> tx_built" where
  "cmd_update_contract_route E build route_name target_contract_address fee =
     (let X = ce_crypto E; W = ce_wallet E in
     simple_tx E build (lit ''tx-update-contract-route'') (\<lambda>w.
        bind_result (parse_address X target_contract_address) (\<lambda>a_target_contract_address.
        signed_by
          (build_update_contract_route X W w route_name a_target_contract_address fee))))"

definition cmd_verify_contract_source ::
  "'u cli_env \<Rightarrow> tx_build_args \<Rightarrow> rstr \<Rightarrow> rstr \<Rightarrow> u64
   \<Rightarrow> tx_built" where
  "cmd_verify_contract_source E build contract_address proof_file fee =
     (let X = ce_crypto E; W = ce_wallet E in
     bind_result (read_json_file E (jd_source_proof (ce_decoders E)) proof_file) (\<lambda>proof.
     simple_tx E build (lit ''tx-verify-contract-source'') (\<lambda>w.
        bind_result (parse_address X contract_address) (\<lambda>a_contract_address.
        signed_by
          (build_verify_contract_source X W w a_contract_address proof fee)))))"

definition cmd_publish_contract_abi ::
  "'u cli_env \<Rightarrow> tx_build_args \<Rightarrow> rstr \<Rightarrow> rstr \<Rightarrow> u64
   \<Rightarrow> tx_built" where
  "cmd_publish_contract_abi E build contract_address abi_file fee =
     (let X = ce_crypto E; W = ce_wallet E in
     bind_result (read_json_file E (jd_abi (ce_decoders E)) abi_file) (\<lambda>abi.
     simple_tx E build (lit ''tx-publish-contract-abi'') (\<lambda>w.
        bind_result (parse_address X contract_address) (\<lambda>a_contract_address.
        signed_by
          (build_publish_contract_abi X W w a_contract_address abi fee)))))"

definition cmd_deactivate_contract ::
  "'u cli_env \<Rightarrow> tx_build_args \<Rightarrow> rstr \<Rightarrow> u64 \<Rightarrow>
   tx_built" where
  "cmd_deactivate_contract E build contract_address fee =
     (let X = ce_crypto E; W = ce_wallet E in
     simple_tx E build (lit ''tx-deactivate-contract'') (\<lambda>w.
        bind_result (parse_address X contract_address) (\<lambda>a_contract_address.
        signed_by
          (build_deactivate_contract X W w a_contract_address fee))))"

subsection \<open>Tokens\<close>

definition cmd_create_token ::
  "'u cli_env \<Rightarrow> tx_build_args \<Rightarrow> rstr \<Rightarrow> rstr \<Rightarrow> u8
   \<Rightarrow> u64 \<Rightarrow> u64 option \<Rightarrow> rstr option \<Rightarrow> bool
   \<Rightarrow> u64 \<Rightarrow> tx_built" where
  "cmd_create_token E build name_text symbol decimals initial_supply max_supply mint_authority
     burnable fee =
     (let X = ce_crypto E; W = ce_wallet E in
     simple_tx E build (lit ''tx-create-token'') (\<lambda>w.
        bind_result (transpose_option (parse_address X) mint_authority)
            (\<lambda>a_mint_authority.
        signed_by
          (build_create_token X W w name_text symbol decimals initial_supply max_supply
            a_mint_authority burnable [] fee))))"

definition cmd_transfer_token ::
  "'u cli_env \<Rightarrow> tx_build_args \<Rightarrow> rstr \<Rightarrow> rstr \<Rightarrow> u64
   \<Rightarrow> u64 \<Rightarrow> tx_built" where
  "cmd_transfer_token E build token_id to_text amount fee =
     (let X = ce_crypto E; W = ce_wallet E in
     simple_tx E build (lit ''tx-transfer-token'') (\<lambda>w.
        bind_result (parse_hash X token_id) (\<lambda>h_token_id.
        bind_result (parse_address X to_text) (\<lambda>a_to_text.
        signed_by
          (build_transfer_token X W w h_token_id a_to_text amount fee)))))"

definition cmd_approve_token ::
  "'u cli_env \<Rightarrow> tx_build_args \<Rightarrow> rstr \<Rightarrow> rstr \<Rightarrow> u64
   \<Rightarrow> u64 \<Rightarrow> tx_built" where
  "cmd_approve_token E build token_id spender amount fee =
     (let X = ce_crypto E; W = ce_wallet E in
     simple_tx E build (lit ''tx-approve-token'') (\<lambda>w.
        bind_result (parse_hash X token_id) (\<lambda>h_token_id.
        bind_result (parse_address X spender) (\<lambda>a_spender.
        signed_by
          (build_approve_token X W w h_token_id a_spender amount fee)))))"

definition cmd_mint_token ::
  "'u cli_env \<Rightarrow> tx_build_args \<Rightarrow> rstr \<Rightarrow> rstr \<Rightarrow> u64
   \<Rightarrow> u64 \<Rightarrow> tx_built" where
  "cmd_mint_token E build token_id to_text amount fee =
     (let X = ce_crypto E; W = ce_wallet E in
     simple_tx E build (lit ''tx-mint-token'') (\<lambda>w.
        bind_result (parse_hash X token_id) (\<lambda>h_token_id.
        bind_result (parse_address X to_text) (\<lambda>a_to_text.
        signed_by
          (build_mint_token X W w h_token_id a_to_text amount fee)))))"

definition cmd_update_token_mint_authority ::
  "'u cli_env \<Rightarrow> tx_build_args \<Rightarrow> rstr \<Rightarrow> rstr option
   \<Rightarrow> u64 \<Rightarrow> tx_built" where
  "cmd_update_token_mint_authority E build token_id mint_authority fee =
     (let X = ce_crypto E; W = ce_wallet E in
     simple_tx E build (lit ''tx-update-token-mint-authority'') (\<lambda>w.
        bind_result (parse_hash X token_id) (\<lambda>h_token_id.
        bind_result (transpose_option (parse_address X) mint_authority)
            (\<lambda>a_mint_authority.
        signed_by
          (build_update_token_mint_authority X W w h_token_id a_mint_authority fee)))))"

definition cmd_burn_token ::
  "'u cli_env \<Rightarrow> tx_build_args \<Rightarrow> rstr \<Rightarrow> u64 \<Rightarrow> u64
   \<Rightarrow> tx_built" where
  "cmd_burn_token E build token_id amount fee =
     (let X = ce_crypto E; W = ce_wallet E in
     simple_tx E build (lit ''tx-burn-token'') (\<lambda>w.
        bind_result (parse_hash X token_id) (\<lambda>h_token_id.
        signed_by
          (build_burn_token X W w h_token_id amount fee))))"

definition cmd_destroy_token ::
  "'u cli_env \<Rightarrow> tx_build_args \<Rightarrow> rstr \<Rightarrow> u64 \<Rightarrow>
   tx_built" where
  "cmd_destroy_token E build token_id fee =
     (let X = ce_crypto E; W = ce_wallet E in
     simple_tx E build (lit ''tx-destroy-token'') (\<lambda>w.
        bind_result (parse_hash X token_id) (\<lambda>h_token_id.
        signed_by
          (build_destroy_token X W w h_token_id fee))))"

subsection \<open>Dispatch\<close>

primrec account_command_args :: "account_command \<Rightarrow> tx_build_args" where
  "account_command_args (CmdTransfer build to_text amount fee max_priority_fee_per_gas) = build"
| "account_command_args (CmdEntityLink build entity authorizer_secret_key fee) = build"
| "account_command_args (CmdRegisterAgent build name_text description capabilities model_hash
     min_fee fee_schedule_file fee) = build"
| "account_command_args (CmdUpdateAgent build name_text description model_hash capabilities
     metadata_hex active min_fee fee_schedule_file fee) = build"
| "account_command_args (CmdDeregisterAgent build fee) = build"
| "account_command_args (CmdCapabilityPropose build slug display_name description category parent
     aliases keywords examples related fee) = build"
| "account_command_args (CmdCapabilityApprove build slug display_name description category parent
     aliases keywords examples related fee) = build"
| "account_command_args (CmdCapabilityReject build slug reason fee) = build"
| "account_command_args (CmdCapabilityDeprecate build slug replacement reason fee) = build"
| "account_command_args (CmdBondRequesterAutoMatch build amount fee) = build"

primrec build_account_command :: "'u cli_env \<Rightarrow> account_command \<Rightarrow> tx_built" where
  "build_account_command E (CmdTransfer build to_text amount fee max_priority_fee_per_gas) =
     cmd_transfer E build to_text amount fee max_priority_fee_per_gas"
| "build_account_command E (CmdEntityLink build entity authorizer_secret_key fee) =
     cmd_entity_link E build entity authorizer_secret_key fee"
| "build_account_command E (CmdRegisterAgent build name_text description capabilities model_hash
     min_fee fee_schedule_file fee) =
     cmd_register_agent E build name_text description capabilities model_hash min_fee
       fee_schedule_file fee"
| "build_account_command E (CmdUpdateAgent build name_text description model_hash capabilities
     metadata_hex active min_fee fee_schedule_file fee) =
     cmd_update_agent E build name_text description model_hash capabilities metadata_hex active
       min_fee fee_schedule_file fee"
| "build_account_command E (CmdDeregisterAgent build fee) =
     cmd_deregister_agent E build fee"
| "build_account_command E (CmdCapabilityPropose build slug display_name description category
     parent aliases keywords examples related fee) =
     cmd_capability_propose E build slug display_name description category parent aliases
       keywords examples related fee"
| "build_account_command E (CmdCapabilityApprove build slug display_name description category
     parent aliases keywords examples related fee) =
     cmd_capability_approve E build slug display_name description category parent aliases
       keywords examples related fee"
| "build_account_command E (CmdCapabilityReject build slug reason fee) =
     cmd_capability_reject E build slug reason fee"
| "build_account_command E (CmdCapabilityDeprecate build slug replacement reason fee) =
     cmd_capability_deprecate E build slug replacement reason fee"
| "build_account_command E (CmdBondRequesterAutoMatch build amount fee) =
     cmd_bond_requester_auto_match E build amount fee"

primrec task_command_args :: "task_command \<Rightarrow> tx_build_args" where
  "task_command_args (CmdSubmitTask build description capabilities max_fee priority deadline_ms
     parameters_hex match_prefs_file fee) = build"
| "task_command_args (CmdFulfillTask build task_id result_hash result_data_hex tools_used
     input_refs fee) = build"
| "task_command_args (CmdAcceptTask build task_id fee) = build"
| "task_command_args (CmdDisputeTask build task_id reason fee) = build"
| "task_command_args (CmdResolveTask build task_id agent_wins reason fee) = build"
| "task_command_args (CmdFinalizeTask build task_id fee) = build"
| "task_command_args (CmdCancelTask build task_id fee) = build"
| "task_command_args (CmdDecomposeTask build task_id subtasks_file fee) = build"
| "task_command_args (CmdUpdateReputation build task_id quality requester_accepted feedback fee) =
     build"

primrec build_task_command :: "'u cli_env \<Rightarrow> task_command \<Rightarrow> tx_built" where
  "build_task_command E (CmdSubmitTask build description capabilities max_fee priority deadline_ms
     parameters_hex match_prefs_file fee) =
     cmd_submit_task E build description capabilities max_fee priority deadline_ms parameters_hex
       match_prefs_file fee"
| "build_task_command E (CmdFulfillTask build task_id result_hash result_data_hex tools_used
     input_refs fee) =
     cmd_fulfill_task E build task_id result_hash result_data_hex tools_used input_refs fee"
| "build_task_command E (CmdAcceptTask build task_id fee) =
     cmd_accept_task E build task_id fee"
| "build_task_command E (CmdDisputeTask build task_id reason fee) =
     cmd_dispute_task E build task_id reason fee"
| "build_task_command E (CmdResolveTask build task_id agent_wins reason fee) =
     cmd_resolve_task E build task_id agent_wins reason fee"
| "build_task_command E (CmdFinalizeTask build task_id fee) =
     cmd_finalize_task E build task_id fee"
| "build_task_command E (CmdCancelTask build task_id fee) =
     cmd_cancel_task E build task_id fee"
| "build_task_command E (CmdDecomposeTask build task_id subtasks_file fee) =
     cmd_decompose_task E build task_id subtasks_file fee"
| "build_task_command E (CmdUpdateReputation build task_id quality requester_accepted feedback fee)
     =
     cmd_update_reputation E build task_id quality requester_accepted feedback fee"

primrec validator_command_args :: "validator_command \<Rightarrow> tx_build_args" where
  "validator_command_args (CmdRegisterValidator build stake vrf_public_key executor_services_file
     fee) = build"
| "validator_command_args (CmdUpdateValidator build vrf_public_key executor_services_file fee) =
     build"
| "validator_command_args (CmdReactivateValidator build fee) = build"
| "validator_command_args (CmdStake build target_arg amount fee) = build"
| "validator_command_args (CmdUnstake build target_arg amount fee) = build"
| "validator_command_args (CmdExitValidator build fee) = build"

primrec build_validator_command :: "'u cli_env \<Rightarrow> validator_command \<Rightarrow> tx_built" where
  "build_validator_command E (CmdRegisterValidator build stake vrf_public_key
     executor_services_file fee) =
     cmd_register_validator E build stake vrf_public_key executor_services_file fee"
| "build_validator_command E (CmdUpdateValidator build vrf_public_key executor_services_file fee) =
     cmd_update_validator E build vrf_public_key executor_services_file fee"
| "build_validator_command E (CmdReactivateValidator build fee) =
     cmd_reactivate_validator E build fee"
| "build_validator_command E (CmdStake build target_arg amount fee) =
     cmd_stake E build target_arg amount fee"
| "build_validator_command E (CmdUnstake build target_arg amount fee) =
     cmd_unstake E build target_arg amount fee"
| "build_validator_command E (CmdExitValidator build fee) =
     cmd_exit_validator E build fee"

primrec tool_command_args :: "tool_command \<Rightarrow> tx_build_args" where
  "tool_command_args (CmdRegisterTool build name_text description endpoint price capabilities
     settlement_mode sla_ms challenge_window_ms max_result_metadata_bytes arbitration_policy
     version fee) = build"
| "tool_command_args (CmdInvokeTool build tool_id input_hex fee) = build"
| "tool_command_args (CmdInvokeMeteredTool build tool_id input_hex max_units fee) = build"
| "tool_command_args (CmdInvokeMilestoneTool build tool_id input_hex milestones_file fee) = build"
| "tool_command_args (CmdSubmitToolResult build job_id result_hash result_metadata_hex
     milestone_index fee) = build"
| "tool_command_args (CmdAcceptToolResult build job_id milestone_index fee) = build"
| "tool_command_args (CmdDisputeToolResult build job_id reason milestone_index fee) = build"
| "tool_command_args (CmdResolveToolResult build job_id provider_wins reason milestone_index fee) =
     build"
| "tool_command_args (CmdReportToolUsage build session_id units_used result_hash
     result_metadata_hex fee) = build"
| "tool_command_args (CmdAcceptToolUsage build session_id fee) = build"
| "tool_command_args (CmdDisputeToolUsage build session_id reason fee) = build"
| "tool_command_args (CmdResolveToolUsage build session_id provider_wins reason fee) = build"

primrec build_tool_command :: "'u cli_env \<Rightarrow> tool_command \<Rightarrow> tx_built" where
  "build_tool_command E (CmdRegisterTool build name_text description endpoint price capabilities
     settlement_mode sla_ms challenge_window_ms max_result_metadata_bytes arbitration_policy
     version fee) =
     cmd_register_tool E build name_text description endpoint price capabilities settlement_mode
       sla_ms challenge_window_ms max_result_metadata_bytes arbitration_policy version fee"
| "build_tool_command E (CmdInvokeTool build tool_id input_hex fee) =
     cmd_invoke_tool E build tool_id input_hex fee"
| "build_tool_command E (CmdInvokeMeteredTool build tool_id input_hex max_units fee) =
     cmd_invoke_metered_tool E build tool_id input_hex max_units fee"
| "build_tool_command E (CmdInvokeMilestoneTool build tool_id input_hex milestones_file fee) =
     cmd_invoke_milestone_tool E build tool_id input_hex milestones_file fee"
| "build_tool_command E (CmdSubmitToolResult build job_id result_hash result_metadata_hex
     milestone_index fee) =
     cmd_submit_tool_result E build job_id result_hash result_metadata_hex milestone_index fee"
| "build_tool_command E (CmdAcceptToolResult build job_id milestone_index fee) =
     cmd_accept_tool_result E build job_id milestone_index fee"
| "build_tool_command E (CmdDisputeToolResult build job_id reason milestone_index fee) =
     cmd_dispute_tool_result E build job_id reason milestone_index fee"
| "build_tool_command E (CmdResolveToolResult build job_id provider_wins reason milestone_index
     fee) =
     cmd_resolve_tool_result E build job_id provider_wins reason milestone_index fee"
| "build_tool_command E (CmdReportToolUsage build session_id units_used result_hash
     result_metadata_hex fee) =
     cmd_report_tool_usage E build session_id units_used result_hash result_metadata_hex fee"
| "build_tool_command E (CmdAcceptToolUsage build session_id fee) =
     cmd_accept_tool_usage E build session_id fee"
| "build_tool_command E (CmdDisputeToolUsage build session_id reason fee) =
     cmd_dispute_tool_usage E build session_id reason fee"
| "build_tool_command E (CmdResolveToolUsage build session_id provider_wins reason fee) =
     cmd_resolve_tool_usage E build session_id provider_wins reason fee"

primrec subscription_command_args :: "subscription_command \<Rightarrow> tx_build_args" where
  "subscription_command_args (CmdCreateToolSubscriptionPlan build tool_id name_text
     price_per_period period_ms included_calls included_credits overage_policy fee) = build"
| "subscription_command_args (CmdUpdateToolSubscriptionPlan build plan_id name_text
     price_per_period period_ms included_calls included_credits overage_policy active fee) =
     build"
| "subscription_command_args (CmdStartToolSubscription build plan_id reserve_amount auto_renew fee)
     = build"
| "subscription_command_args (CmdTopUpToolSubscription build subscription_id amount fee) = build"
| "subscription_command_args (CmdCancelToolSubscription build subscription_id fee) = build"
| "subscription_command_args (CmdResumeToolSubscription build subscription_id reserve_amount fee) =
     build"
| "subscription_command_args (CmdRenewToolSubscription build subscription_id fee) = build"
| "subscription_command_args (CmdUpdateTool build tool_id description endpoint price_per_call
     settlement_mode active capabilities fee) = build"
| "subscription_command_args (CmdDeregisterTool build tool_id fee) = build"

primrec build_subscription_command :: "'u cli_env \<Rightarrow> subscription_command \<Rightarrow> tx_built" where
  "build_subscription_command E (CmdCreateToolSubscriptionPlan build tool_id name_text
     price_per_period period_ms included_calls included_credits overage_policy fee) =
     cmd_create_tool_subscription_plan E build tool_id name_text price_per_period period_ms
       included_calls included_credits overage_policy fee"
| "build_subscription_command E (CmdUpdateToolSubscriptionPlan build plan_id name_text
     price_per_period period_ms included_calls included_credits overage_policy active fee) =
     cmd_update_tool_subscription_plan E build plan_id name_text price_per_period period_ms
       included_calls included_credits overage_policy active fee"
| "build_subscription_command E (CmdStartToolSubscription build plan_id reserve_amount auto_renew
     fee) =
     cmd_start_tool_subscription E build plan_id reserve_amount auto_renew fee"
| "build_subscription_command E (CmdTopUpToolSubscription build subscription_id amount fee) =
     cmd_top_up_tool_subscription E build subscription_id amount fee"
| "build_subscription_command E (CmdCancelToolSubscription build subscription_id fee) =
     cmd_cancel_tool_subscription E build subscription_id fee"
| "build_subscription_command E (CmdResumeToolSubscription build subscription_id reserve_amount
     fee) =
     cmd_resume_tool_subscription E build subscription_id reserve_amount fee"
| "build_subscription_command E (CmdRenewToolSubscription build subscription_id fee) =
     cmd_renew_tool_subscription E build subscription_id fee"
| "build_subscription_command E (CmdUpdateTool build tool_id description endpoint price_per_call
     settlement_mode active capabilities fee) =
     cmd_update_tool E build tool_id description endpoint price_per_call settlement_mode active
       capabilities fee"
| "build_subscription_command E (CmdDeregisterTool build tool_id fee) =
     cmd_deregister_tool E build tool_id fee"

primrec agreement_command_args :: "agreement_command \<Rightarrow> tx_build_args" where
  "agreement_command_args (CmdCreateAgreement build parties terms_hex escrow_amount expires_at
     arbitrator milestones_file service_provider settlement_allocations_file approver fee) =
     build"
| "agreement_command_args (CmdAcceptAgreement build agreement_id fee) = build"
| "agreement_command_args (CmdExecuteAgreement build agreement_id result_hash milestone_index fee)
     = build"
| "agreement_command_args (CmdDisputeAgreement build agreement_id reason milestone_index fee) =
     build"
| "agreement_command_args (CmdResolveAgreement build agreement_id payouts_file
     reputation_effects_file reason milestone_index fee) = build"
| "agreement_command_args (CmdCancelAgreement build agreement_id fee) = build"
| "agreement_command_args (CmdRegisterArbitrator build name_text description stake fee_bps
     specializations fee) = build"
| "agreement_command_args (CmdDeregisterArbitrator build fee) = build"

primrec build_agreement_command :: "'u cli_env \<Rightarrow> agreement_command \<Rightarrow> tx_built" where
  "build_agreement_command E (CmdCreateAgreement build parties terms_hex escrow_amount expires_at
     arbitrator milestones_file service_provider settlement_allocations_file approver fee) =
     cmd_create_agreement E build parties terms_hex escrow_amount expires_at arbitrator
       milestones_file service_provider settlement_allocations_file approver fee"
| "build_agreement_command E (CmdAcceptAgreement build agreement_id fee) =
     cmd_accept_agreement E build agreement_id fee"
| "build_agreement_command E (CmdExecuteAgreement build agreement_id result_hash milestone_index
     fee) =
     cmd_execute_agreement E build agreement_id result_hash milestone_index fee"
| "build_agreement_command E (CmdDisputeAgreement build agreement_id reason milestone_index fee) =
     cmd_dispute_agreement E build agreement_id reason milestone_index fee"
| "build_agreement_command E (CmdResolveAgreement build agreement_id payouts_file
     reputation_effects_file reason milestone_index fee) =
     cmd_resolve_agreement E build agreement_id payouts_file reputation_effects_file reason
       milestone_index fee"
| "build_agreement_command E (CmdCancelAgreement build agreement_id fee) =
     cmd_cancel_agreement E build agreement_id fee"
| "build_agreement_command E (CmdRegisterArbitrator build name_text description stake fee_bps
     specializations fee) =
     cmd_register_arbitrator E build name_text description stake fee_bps specializations fee"
| "build_agreement_command E (CmdDeregisterArbitrator build fee) =
     cmd_deregister_arbitrator E build fee"

primrec contract_command_args :: "contract_command \<Rightarrow> tx_build_args" where
  "contract_command_args (CmdDeployContract build bytecode_hex bytecode_file initial_balance fee) =
     build"
| "contract_command_args (CmdCallContract build contract_address function_name args_hex call_value
     gas_limit fee) = build"
| "contract_command_args (CmdCallContractRoute build deployer route_name function_name args_hex
     call_value gas_limit fee) = build"
| "contract_command_args (CmdUpdateContractRoute build route_name target_contract_address fee) =
     build"
| "contract_command_args (CmdVerifyContractSource build contract_address proof_file fee) = build"
| "contract_command_args (CmdPublishContractAbi build contract_address abi_file fee) = build"
| "contract_command_args (CmdDeactivateContract build contract_address fee) = build"

primrec build_contract_command :: "'u cli_env \<Rightarrow> contract_command \<Rightarrow> tx_built" where
  "build_contract_command E (CmdDeployContract build bytecode_hex bytecode_file initial_balance
     fee) =
     cmd_deploy_contract E build bytecode_hex bytecode_file initial_balance fee"
| "build_contract_command E (CmdCallContract build contract_address function_name args_hex
     call_value gas_limit fee) =
     cmd_call_contract E build contract_address function_name args_hex call_value gas_limit fee"
| "build_contract_command E (CmdCallContractRoute build deployer route_name function_name args_hex
     call_value gas_limit fee) =
     cmd_call_contract_route E build deployer route_name function_name args_hex call_value
       gas_limit fee"
| "build_contract_command E (CmdUpdateContractRoute build route_name target_contract_address fee) =
     cmd_update_contract_route E build route_name target_contract_address fee"
| "build_contract_command E (CmdVerifyContractSource build contract_address proof_file fee) =
     cmd_verify_contract_source E build contract_address proof_file fee"
| "build_contract_command E (CmdPublishContractAbi build contract_address abi_file fee) =
     cmd_publish_contract_abi E build contract_address abi_file fee"
| "build_contract_command E (CmdDeactivateContract build contract_address fee) =
     cmd_deactivate_contract E build contract_address fee"

primrec token_command_args :: "token_command \<Rightarrow> tx_build_args" where
  "token_command_args (CmdCreateToken build name_text symbol decimals initial_supply max_supply
     mint_authority burnable fee) = build"
| "token_command_args (CmdTransferToken build token_id to_text amount fee) = build"
| "token_command_args (CmdApproveToken build token_id spender amount fee) = build"
| "token_command_args (CmdMintToken build token_id to_text amount fee) = build"
| "token_command_args (CmdUpdateTokenMintAuthority build token_id mint_authority fee) = build"
| "token_command_args (CmdBurnToken build token_id amount fee) = build"
| "token_command_args (CmdDestroyToken build token_id fee) = build"

primrec build_token_command :: "'u cli_env \<Rightarrow> token_command \<Rightarrow> tx_built" where
  "build_token_command E (CmdCreateToken build name_text symbol decimals initial_supply max_supply
     mint_authority burnable fee) =
     cmd_create_token E build name_text symbol decimals initial_supply max_supply mint_authority
       burnable fee"
| "build_token_command E (CmdTransferToken build token_id to_text amount fee) =
     cmd_transfer_token E build token_id to_text amount fee"
| "build_token_command E (CmdApproveToken build token_id spender amount fee) =
     cmd_approve_token E build token_id spender amount fee"
| "build_token_command E (CmdMintToken build token_id to_text amount fee) =
     cmd_mint_token E build token_id to_text amount fee"
| "build_token_command E (CmdUpdateTokenMintAuthority build token_id mint_authority fee) =
     cmd_update_token_mint_authority E build token_id mint_authority fee"
| "build_token_command E (CmdBurnToken build token_id amount fee) =
     cmd_burn_token E build token_id amount fee"
| "build_token_command E (CmdDestroyToken build token_id fee) =
     cmd_destroy_token E build token_id fee"

text \<open>The build arguments of a command, and the transaction it builds; a submission does not come here.\<close>

definition command_args :: "tx_command \<Rightarrow> tx_build_args option" where
  "command_args cmd =
     (case cmd of
        SubmitTx _ \<Rightarrow> None
      | AccountTx c \<Rightarrow> Some (account_command_args c)
      | TaskTx c \<Rightarrow> Some (task_command_args c)
      | ValidatorTx c \<Rightarrow> Some (validator_command_args c)
      | ToolTx c \<Rightarrow> Some (tool_command_args c)
      | SubscriptionTx c \<Rightarrow> Some (subscription_command_args c)
      | AgreementTx c \<Rightarrow> Some (agreement_command_args c)
      | ContractTx c \<Rightarrow> Some (contract_command_args c)
      | TokenTx c \<Rightarrow> Some (token_command_args c))"

definition build_signed_transaction :: "'u cli_env \<Rightarrow> tx_command \<Rightarrow> tx_built" where
  "build_signed_transaction E cmd =
     (case cmd of
        SubmitTx _ \<Rightarrow> Err WrongSubcommand
      | AccountTx c \<Rightarrow> build_account_command E c
      | TaskTx c \<Rightarrow> build_task_command E c
      | ValidatorTx c \<Rightarrow> build_validator_command E c
      | ToolTx c \<Rightarrow> build_tool_command E c
      | SubscriptionTx c \<Rightarrow> build_subscription_command E c
      | AgreementTx c \<Rightarrow> build_agreement_command E c
      | ContractTx c \<Rightarrow> build_contract_command E c
      | TokenTx c \<Rightarrow> build_token_command E c)"

lemmas cmd_defs =
  cmd_transfer_def cmd_entity_link_def cmd_register_agent_def cmd_update_agent_def
  cmd_deregister_agent_def cmd_capability_propose_def cmd_capability_approve_def
  cmd_capability_reject_def cmd_capability_deprecate_def cmd_bond_requester_auto_match_def
  cmd_submit_task_def cmd_fulfill_task_def cmd_accept_task_def cmd_dispute_task_def
  cmd_resolve_task_def cmd_finalize_task_def cmd_cancel_task_def cmd_decompose_task_def
  cmd_update_reputation_def cmd_register_validator_def cmd_update_validator_def
  cmd_reactivate_validator_def cmd_stake_def cmd_unstake_def cmd_exit_validator_def
  cmd_register_tool_def cmd_invoke_tool_def cmd_invoke_metered_tool_def
  cmd_invoke_milestone_tool_def cmd_submit_tool_result_def cmd_accept_tool_result_def
  cmd_dispute_tool_result_def cmd_resolve_tool_result_def cmd_report_tool_usage_def
  cmd_accept_tool_usage_def cmd_dispute_tool_usage_def cmd_resolve_tool_usage_def
  cmd_create_tool_subscription_plan_def cmd_update_tool_subscription_plan_def
  cmd_start_tool_subscription_def cmd_top_up_tool_subscription_def
  cmd_cancel_tool_subscription_def cmd_resume_tool_subscription_def
  cmd_renew_tool_subscription_def cmd_update_tool_def cmd_deregister_tool_def
  cmd_create_agreement_def cmd_accept_agreement_def cmd_execute_agreement_def
  cmd_dispute_agreement_def cmd_resolve_agreement_def cmd_cancel_agreement_def
  cmd_register_arbitrator_def cmd_deregister_arbitrator_def cmd_deploy_contract_def
  cmd_call_contract_def cmd_call_contract_route_def cmd_update_contract_route_def
  cmd_verify_contract_source_def cmd_publish_contract_abi_def cmd_deactivate_contract_def
  cmd_create_token_def cmd_transfer_token_def cmd_approve_token_def cmd_mint_token_def
  cmd_update_token_mint_authority_def cmd_burn_token_def cmd_destroy_token_def

lemmas build_command_simps =
  build_account_command.simps account_command_args.simps
  build_task_command.simps task_command_args.simps
  build_validator_command.simps validator_command_args.simps
  build_tool_command.simps tool_command_args.simps
  build_subscription_command.simps subscription_command_args.simps
  build_agreement_command.simps agreement_command_args.simps
  build_contract_command.simps contract_command_args.simps
  build_token_command.simps token_command_args.simps

end
