(* ===== verification/Cli_Tx.thy ===== *)
theory Cli_Tx
  imports Cli_Command
begin

text \<open>
  Running a transaction command (\<open>run_tx\<close>, \<open>finish_transaction\<close> in
  \<open>crates/zincha-cli-core/src/tx.rs\<close>): what it writes to files and sends to the node, in order, and its
  result. Printing is left out; a result that would be printed is a value.

  The theorems say that a command signs with the key, the chain, the nonce and the validity window it
  was given, whatever the command and the node's answers, and that it writes and submits only what it
  was asked to.
\<close>

subsection \<open>Running a command\<close>

datatype cli_effect = Written rstr rstr | Submitted "rstr list"

record tx_report =
  tr_signed :: signed_transaction
  tr_signed_tx_hex :: rstr
  tr_signed_tx_file :: "rstr option"
  tr_submission :: "json option"
  tr_wait :: "json option"

datatype tx_output = Answer rstr json | Report rstr tx_report

text \<open>The polls of a waiting command: the environment and the clock at each, and how many the model
  looks at.\<close>

record 'u polling =
  po_envs :: "nat \<Rightarrow> 'u node_env"
  po_clock :: "nat \<Rightarrow> nat"
  po_polls :: nat

type_synonym cli_run = "cli_effect list \<times> (cli_error + tx_output) option"

definition wait_for ::
  "'u cli_env \<Rightarrow> 'u polling \<Rightarrow> rstr \<Rightarrow> u64 \<Rightarrow> (node_error + json) option" where
  "wait_for E P hash timeout_secs =
     wait_for_transaction (po_envs P) (po_clock P) (snd (ce_node E)) hash (unat timeout_secs * 1000) (po_polls P)"

definition finish_transaction ::
  "'u cli_env \<Rightarrow> 'u polling \<Rightarrow> rstr \<Rightarrow> signed_transaction \<Rightarrow> tx_build_args \<Rightarrow> cli_run" where
  "finish_transaction E P label st b =
     (let hex = tx_to_hex (ce_crypto E) st;
          (written, result) = (case tb_signed_tx_out b of
             None \<Rightarrow> ([], Ok ())
           | Some path \<Rightarrow> write_private_file E path hex (tb_force b));
          effects = map (\<lambda>(path, contents). Written path contents) written;
          report = \<lparr>tr_signed = st, tr_signed_tx_hex = hex, tr_signed_tx_file = tb_signed_tx_out b,
                    tr_submission = None, tr_wait = None\<rparr>
      in case result of
           Err e \<Rightarrow> (effects, Some (Err e))
         | Ok _ \<Rightarrow>
             if tb_wait b \<and> \<not> tb_submit b then (effects, Some (Err WaitWithoutSubmit))
             else if \<not> tb_submit b then (effects, Some (Ok (Report label report)))
             else
               let effects = effects @ [Submitted [hex]] in
               (case submit_signed_transaction_hex (ce_node E) hex of
                  Err e \<Rightarrow> (effects, Some (Err (NodeFailed e)))
                | Ok submission \<Rightarrow>
                    let report = report\<lparr>tr_submission := Some submission\<rparr> in
                    if \<not> tb_wait b then (effects, Some (Ok (Report label report)))
                    else
                      (effects,
                       map_option (\<lambda>r. case r of
                           Err e \<Rightarrow> Err (NodeFailed e)
                         | Ok final \<Rightarrow> Ok (Report label (report\<lparr>tr_wait := Some final\<rparr>)))
                         (wait_for E P (hash_to_hex (ce_crypto E) (st_hash st)) (tb_wait_timeout_secs b)))))"

definition collect_signed_hexes :: "'u cli_env \<Rightarrow> rstr list \<Rightarrow> rstr list \<Rightarrow> cli_error + rstr list" where
  "collect_signed_hexes E values files =
     bind_result (collect_results (\<lambda>p. bind_result (read_public_text_file E p) (\<lambda>s. Ok (trim s))) files) (\<lambda>texts.
     if values @ texts = [] then Err NoSignedTransaction else Ok (values @ texts))"

definition require_bearer :: "'u cli_env \<Rightarrow> cli_error + rstr" where
  "require_bearer E = ok_or (ce_bearer E) NoBearerToken"

text \<open>A request made after its arguments are there.\<close>

definition submitting ::
  "rstr \<Rightarrow> cli_error + rstr list \<Rightarrow> (rstr list \<Rightarrow> node_error + json) \<Rightarrow> cli_run" where
  "submitting label args send =
     (case args of
        Err e \<Rightarrow> ([], Some (Err e))
      | Ok hexes \<Rightarrow> ([Submitted hexes], Some (map_err NodeFailed (bind_result (send hexes) (\<lambda>v. Ok (Answer label v))))))"

definition run_submit_command :: "'u cli_env \<Rightarrow> 'u polling \<Rightarrow> submit_command \<Rightarrow> cli_run" where
  "run_submit_command E P cmd =
     (case cmd of
        CmdSubmitSigned hex file \<Rightarrow>
          submitting (lit ''tx-submit-signed'') (bind_result (read_hex_or_file E hex file) (\<lambda>h. Ok [h]))
            (\<lambda>hexes. submit_signed_transaction_hex (ce_node E) (hd hexes))
      | CmdSubmitBatch hexes files \<Rightarrow>
          submitting (lit ''tx-submit-batch'') (collect_signed_hexes E hexes files) (submit_batch (ce_node E))
      | CmdSubmitProtected hex file priority \<Rightarrow>
          submitting (lit ''tx-submit-protected'')
            (bind_result (require_bearer E) (\<lambda>_. bind_result (read_hex_or_file E hex file) (\<lambda>h. Ok [h])))
            (\<lambda>hexes. submit_protected (ce_node E) (hd hexes) (ce_bearer E) priority)
      | CmdSubmitBundle hexes files atomic height max_total_fee priority \<Rightarrow>
          submitting (lit ''tx-submit-bundle'')
            (bind_result (require_bearer E) (\<lambda>_. collect_signed_hexes E hexes files))
            (\<lambda>hexes. submit_orderflow_bundle (ce_node E) hexes
              \<lparr>bo_bearer = ce_bearer E, bo_atomic = atomic, bo_expiration_height = height,
               bo_max_total_fee = max_total_fee, bo_max_priority_fee = priority\<rparr>)
      | CmdWait hash timeout_secs interval_ms \<Rightarrow>
          ([], map_option (\<lambda>r. map_err NodeFailed (bind_result r (\<lambda>v. Ok (Answer (lit ''tx-wait'') v))))
                 (wait_for E P hash timeout_secs)))"

definition run_tx :: "'u cli_env \<Rightarrow> 'u polling \<Rightarrow> tx_command \<Rightarrow> cli_run" where
  "run_tx E P cmd =
     (case cmd of
        SubmitTx c \<Rightarrow> run_submit_command E P c
      | _ \<Rightarrow>
          (case build_signed_transaction E cmd of
             Err e \<Rightarrow> ([], Some (Err e))
           | Ok (label, st, b) \<Rightarrow> finish_transaction E P label st b))"

subsection \<open>Every command signs through the resolved wallet\<close>

text \<open>What a command that builds a transaction may return.\<close>

definition signs_as :: "'u cli_env \<Rightarrow> tx_build_args \<Rightarrow> tx_built \<Rightarrow> bool" where
  "signs_as E b r \<longleftrightarrow>
     (\<forall>label st b'. r = Ok (label, st, b') \<longrightarrow> b' = b \<and>
        (\<exists>w. resolve_wallet E b = Ok w \<and> issues (ce_crypto E) w st
          \<and> tx_nonce (st_transaction st) = aw_nonce w))"

definition call_signs :: "'u cli_env \<Rightarrow> agent_wallet \<Rightarrow> cli_error + signed_transaction \<Rightarrow> bool" where
  "call_signs E w r \<longleftrightarrow>
     (\<forall>st. r = Ok st \<longrightarrow> issues (ce_crypto E) w st \<and> tx_nonce (st_transaction st) = aw_nonce w)"

lemma signs_as_bind: "(\<And>x. signs_as E b (k x)) \<Longrightarrow> signs_as E b (bind_result r k)"
  unfolding signs_as_def bind_result_eq_Ok by blast

lemma signs_as_simple: "(\<And>w. call_signs E w (f w)) \<Longrightarrow> signs_as E b (simple_tx E b label f)"
  by (auto simp: signs_as_def simple_tx_def call_signs_def)

lemma call_signs_bind: "(\<And>x. call_signs E w (k x)) \<Longrightarrow> call_signs E w (bind_result r k)"
  unfolding call_signs_def bind_result_eq_Ok by blast

lemma call_signs_signed: "wallet_call (ce_crypto E) (ce_wallet E) w r \<Longrightarrow> call_signs E w (signed_by r)"
  using call_outcome [of "ce_crypto E" "ce_wallet E" w r]
  by (auto simp: call_signs_def signed_by_def outcome_ok_def)

lemma wallet_call_option:
  "wallet_call X W w a \<Longrightarrow> (\<And>v. wallet_call X W w (f v)) \<Longrightarrow> wallet_call X W w (case z of None \<Rightarrow> a | Some v \<Rightarrow> f v)"
  by (cases z) simp_all

lemmas signing_rules = signs_as_bind signs_as_simple call_signs_bind call_signs_signed
  wallet_call_option wallet_call.intros

lemma account_signs: "signs_as E (account_command_args c) (build_account_command E c)"
  by (cases c; simp only: build_command_simps cmd_defs Let_def; intro signing_rules)

lemma task_signs: "signs_as E (task_command_args c) (build_task_command E c)"
  by (cases c; simp only: build_command_simps cmd_defs Let_def; intro signing_rules)

lemma validator_signs: "signs_as E (validator_command_args c) (build_validator_command E c)"
  by (cases c; simp only: build_command_simps cmd_defs Let_def; intro signing_rules)

lemma tool_signs: "signs_as E (tool_command_args c) (build_tool_command E c)"
  by (cases c; simp only: build_command_simps cmd_defs Let_def; intro signing_rules)

lemma subscription_signs: "signs_as E (subscription_command_args c) (build_subscription_command E c)"
  by (cases c; simp only: build_command_simps cmd_defs Let_def; intro signing_rules)

lemma agreement_signs: "signs_as E (agreement_command_args c) (build_agreement_command E c)"
  by (cases c; simp only: build_command_simps cmd_defs Let_def; intro signing_rules)

lemma contract_signs: "signs_as E (contract_command_args c) (build_contract_command E c)"
  by (cases c; simp only: build_command_simps cmd_defs Let_def; intro signing_rules)

lemma token_signs: "signs_as E (token_command_args c) (build_token_command E c)"
  by (cases c; simp only: build_command_simps cmd_defs Let_def; intro signing_rules)

lemma command_signs:
  assumes "build_signed_transaction E cmd = Ok (label, st, b)"
  shows "command_args cmd = Some b
    \<and> (\<exists>w. resolve_wallet E b = Ok w \<and> issues (ce_crypto E) w st \<and> tx_nonce (st_transaction st) = aw_nonce w)"
proof (cases cmd)
  case (AccountTx c)
  with assms account_signs [of E c] show ?thesis
    by (simp add: build_signed_transaction_def command_args_def signs_as_def)
next
  case (TaskTx c)
  with assms task_signs [of E c] show ?thesis
    by (simp add: build_signed_transaction_def command_args_def signs_as_def)
next
  case (ValidatorTx c)
  with assms validator_signs [of E c] show ?thesis
    by (simp add: build_signed_transaction_def command_args_def signs_as_def)
next
  case (ToolTx c)
  with assms tool_signs [of E c] show ?thesis
    by (simp add: build_signed_transaction_def command_args_def signs_as_def)
next
  case (SubscriptionTx c)
  with assms subscription_signs [of E c] show ?thesis
    by (simp add: build_signed_transaction_def command_args_def signs_as_def)
next
  case (AgreementTx c)
  with assms agreement_signs [of E c] show ?thesis
    by (simp add: build_signed_transaction_def command_args_def signs_as_def)
next
  case (ContractTx c)
  with assms contract_signs [of E c] show ?thesis
    by (simp add: build_signed_transaction_def command_args_def signs_as_def)
next
  case (TokenTx c)
  with assms token_signs [of E c] show ?thesis
    by (simp add: build_signed_transaction_def command_args_def signs_as_def)
qed (use assms in \<open>simp add: build_signed_transaction_def\<close>)

lemma expiry_within_window:
  assumes "within_window w t" "window_allowed X b info (aw_tx_validity_window w)"
  shows "case aw_tx_validity_window w of
      None \<Rightarrow> tx_max_valid_block_height t = 0
    | Some (height, hash, ttl) \<Rightarrow> tx_reference_block_height t = height \<and> tx_reference_block_hash t = hash
        \<and> unat (tx_max_valid_block_height t) = unat height + unat ttl"
proof (cases "aw_tx_validity_window w")
  case None
  with assms(1) show ?thesis by (simp add: within_window_def)
next
  case (Some v)
  obtain height hash ttl where v: "v = (height, hash, ttl)" by (cases v)
  with Some assms(2) have "0 < ttl" "unat height + unat ttl < 2 ^ 64"
    by (simp_all add: window_allowed_def Let_def)
  moreover from this have "max ttl 1 = ttl"
    by (simp add: max_one word_neq_0_conv)
  ultimately have "unat (saturating_add height (max ttl 1)) = unat height + unat ttl"
    by (simp add: unat_saturating_add)
  with assms(1) Some v show ?thesis by (simp add: within_window_def)
qed

subsection \<open>Properties\<close>

text \<open>(C6) A transaction command signs what it was told. Whatever the command, its arguments and the
  node's answers, a transaction it builds verifies under the key of its key source and is sent from
  that key's address; its nonce and chain are the ones in the arguments or else those the node
  reported; and it expires exactly a positive number of blocks after a reference block, both given
  in the arguments or else advertised by the node, never more blocks than the node advertises, and
  never never, unless the command read no metadata and asked for no window.\<close>

theorem cli_signs_as_told:
  assumes "build_signed_transaction E cmd = Ok (label, st, b)" "t = st_transaction st" "X = ce_crypto E"
  shows "command_args cmd = Some b
    \<and> (\<exists>keypair info window.
        load_keypair E (tb_key_source b) = Ok keypair
      \<and> verify_signed X st = Ok () \<and> st_public_key st = kp_public_key X keypair
      \<and> tx_sender t = kp_address X keypair
      \<and> (case tb_nonce b of
           Some n \<Rightarrow> tx_nonce t = n
         | None \<Rightarrow> \<exists>v. node_nonce (ce_node E) (addr_to_hex X (kp_address X keypair)) = Ok v
             \<and> extract_nonce v = Ok (tx_nonce t))
      \<and> (case info of
           None \<Rightarrow> (tb_offline b \<or> \<not> tb_submit b) \<and> tb_chain_id b = Some (tx_chain_id t)
         | Some v \<Rightarrow> chain_info (ce_node E) = Ok v
             \<and> (case tb_chain_id b of
                  Some c \<Rightarrow> tx_chain_id t = c
                | None \<Rightarrow> extract_string info [lit ''chain_id'', lit ''chainId''] = Some (tx_chain_id t)))
      \<and> window_allowed X b info window
      \<and> (case window of
           None \<Rightarrow> tx_max_valid_block_height t = 0
         | Some (height, hash, ttl) \<Rightarrow> tx_reference_block_height t = height \<and> tx_reference_block_hash t = hash
             \<and> unat (tx_max_valid_block_height t) = unat height + unat ttl))"
proof -
  from command_signs [OF assms(1)] obtain w where w: "command_args cmd = Some b"
    "resolve_wallet E b = Ok w" "issues X w st" "tx_nonce t = aw_nonce w"
    unfolding assms(2,3) by blast
  from resolve_wallet_resolved [OF w(2)] obtain keypair info where r:
    "load_keypair E (tb_key_source b) = Ok keypair" "aw_signer w = keypair_signer X keypair"
    "case tb_nonce b of Some n \<Rightarrow> aw_nonce w = n
      | None \<Rightarrow> \<exists>v. node_nonce (ce_node E) (addr_to_hex X (kp_address X keypair)) = Ok v
          \<and> extract_nonce v = Ok (aw_nonce w)"
    "case info of None \<Rightarrow> (tb_offline b \<or> \<not> tb_submit b) \<and> tb_chain_id b = Some (aw_chain_id w)
      | Some v \<Rightarrow> chain_info (ce_node E) = Ok v
          \<and> (case tb_chain_id b of Some c \<Rightarrow> aw_chain_id w = c
             | None \<Rightarrow> extract_string info [lit ''chain_id'', lit ''chainId''] = Some (aw_chain_id w))"
    "window_allowed X b info (aw_tx_validity_window w)"
    unfolding resolved_def assms(3) by blast
  from w(3) have t: "verify_signed X st = Ok ()" "st_public_key st = signer_public_key w"
    "tx_sender t = wallet_address X w" "tx_chain_id t = aw_chain_id w" "within_window w t"
    by (simp_all add: issues_def assms(2))
  have key: "signer_public_key w = kp_public_key X keypair" "wallet_address X w = kp_address X keypair"
    using r(2) by (simp_all add: signer_public_key_def wallet_address_def keypair_signer_def kp_address_def)
  show ?thesis
    unfolding t(2,3,4) key w(4)
    using w(1) r(1,3,4,5) t(1) expiry_within_window [OF t(5) r(5)] by blast
qed

definition writes_as_told :: "'u cli_env \<Rightarrow> signed_transaction \<Rightarrow> tx_build_args \<Rightarrow> rstr \<times> rstr \<Rightarrow> bool" where
  "writes_as_told E st b = (\<lambda>(path, contents).
     tb_signed_tx_out b = Some path \<and> contents = tx_to_hex (ce_crypto E) st
     \<and> (tb_force b \<or> ce_files E path = None))"

lemma finish_transaction_effects:
  "\<exists>ws ss. fst (finish_transaction E P label st b) = map (\<lambda>(p, c). Written p c) ws @ ss
     \<and> list_all (writes_as_told E st b) ws
     \<and> (ss = [] \<or> ss = [Submitted [tx_to_hex (ce_crypto E) st]] \<and> tb_submit b)"
proof -
  obtain ws r where w: "(case tb_signed_tx_out b of None \<Rightarrow> ([], Ok ())
      | Some path \<Rightarrow> write_private_file E path (tx_to_hex (ce_crypto E) st) (tb_force b)) = (ws, r)"
    by fastforce
  then have "list_all (writes_as_told E st b) ws"
    by (auto simp: write_private_file_def writes_as_told_def split: option.splits if_splits)
  moreover have "\<exists>ss. fst (finish_transaction E P label st b) = map (\<lambda>(p, c). Written p c) ws @ ss
     \<and> (ss = [] \<or> ss = [Submitted [tx_to_hex (ce_crypto E) st]] \<and> tb_submit b)"
    unfolding finish_transaction_def Let_def w prod.case by (auto split: sum.split)
  ultimately show ?thesis by blast
qed

lemma run_tx_building:
  "command_args cmd = Some b \<Longrightarrow> run_tx E P cmd =
     (case build_signed_transaction E cmd of
        Err e \<Rightarrow> ([], Some (Err e))
      | Ok (label, st, b) \<Rightarrow> finish_transaction E P label st b)"
  by (cases cmd) (simp_all add: run_tx_def command_args_def)

text \<open>The texts a submission command was given, if they can be submitted: the one on the command line or
  in the file, or all of those on the command line followed by those in the files, in their order,
  with the blanks around the contents of a file removed. Waiting submits nothing, and a protected
  submission needs the bearer token.\<close>

definition file_text :: "'u cli_env \<Rightarrow> rstr \<Rightarrow> rstr option" where
  "file_text E path = map_option trim (Option.bind (ce_files E path) from_utf8)"

definition given_text :: "'u cli_env \<Rightarrow> rstr option \<Rightarrow> rstr option \<Rightarrow> rstr list option" where
  "given_text E hex file =
     (case (hex, file) of
        (Some s, None) \<Rightarrow> Some [trim s]
      | (None, Some path) \<Rightarrow> map_option (\<lambda>s. [s]) (file_text E path)
      | _ \<Rightarrow> None)"

definition given_texts :: "'u cli_env \<Rightarrow> rstr list \<Rightarrow> rstr list \<Rightarrow> rstr list option" where
  "given_texts E hexes files =
     (if hexes = [] \<and> files = [] then None
      else map_option ((@) hexes) (those (map (file_text E) files)))"

fun asked_texts :: "'u cli_env \<Rightarrow> submit_command \<Rightarrow> rstr list option" where
  "asked_texts E (CmdSubmitSigned hex file) = given_text E hex file"
| "asked_texts E (CmdSubmitBatch hexes files) = given_texts E hexes files"
| "asked_texts E (CmdSubmitProtected hex file _) =
     (if ce_bearer E = None then None else given_text E hex file)"
| "asked_texts E (CmdSubmitBundle hexes files _ _ _ _) =
     (if ce_bearer E = None then None else given_texts E hexes files)"
| "asked_texts E (CmdWait _ _ _) = None"

text \<open>The node's answer to the request of a submission command, with the texts it was given.\<close>

fun node_answers :: "'u cli_env \<Rightarrow> submit_command \<Rightarrow> rstr list \<Rightarrow> node_error + json \<Rightarrow> bool" where
  "node_answers E (CmdSubmitSigned _ _) texts r \<longleftrightarrow> texts = [hd texts] \<and>
     r = submit_signed_transaction_hex (ce_node E) (hd texts)"
| "node_answers E (CmdSubmitBatch _ _) texts r \<longleftrightarrow> r = submit_batch (ce_node E) texts"
| "node_answers E (CmdSubmitProtected _ _ priority) texts r \<longleftrightarrow> texts = [hd texts] \<and>
     r = submit_protected (ce_node E) (hd texts) (ce_bearer E) priority"
| "node_answers E (CmdSubmitBundle _ _ atomic height fee priority) texts r \<longleftrightarrow>
     r = submit_orderflow_bundle (ce_node E) texts
       \<lparr>bo_bearer = ce_bearer E, bo_atomic = atomic, bo_expiration_height = height,
        bo_max_total_fee = fee, bo_max_priority_fee = priority\<rparr>"
| "node_answers E (CmdWait _ _ _) texts r \<longleftrightarrow> False"

lemma read_file_text:
  "bind_result (read_public_text_file E p) (\<lambda>s. Ok (trim s)) = ok_or (file_text E p) (FileUnreadable p)"
  by (cases "Option.bind (ce_files E p) from_utf8") (simp_all add: read_public_text_file_def file_text_def)

lemma read_hex_given:
  "(case given_text E hex file of
      Some texts \<Rightarrow> bind_result (read_hex_or_file E hex file) (\<lambda>h. Ok [h]) = Ok texts \<and> texts = [hd texts]
    | None \<Rightarrow> \<exists>e. bind_result (read_hex_or_file E hex file) (\<lambda>h. Ok [h]) = Err e)"
  by (auto simp: given_text_def read_hex_or_file_def read_file_text split: option.splits)

lemma collect_file_texts:
  "(case those (map (file_text E) files) of
      Some texts \<Rightarrow> collect_results (\<lambda>p. ok_or (file_text E p) (FileUnreadable p)) files = Ok texts
        \<and> length texts = length files
    | None \<Rightarrow> \<exists>e. collect_results (\<lambda>p. ok_or (file_text E p) (FileUnreadable p)) files = Err e)"
proof (induction files)
  case (Cons p files)
  then show ?case by (cases "file_text E p") (auto split: option.splits)
qed simp

lemma collect_given:
  "(case given_texts E hexes files of
      Some texts \<Rightarrow> collect_signed_hexes E hexes files = Ok texts
    | None \<Rightarrow> \<exists>e. collect_signed_hexes E hexes files = Err e)"
proof (cases "those (map (file_text E) files)")
  case None
  then have "files \<noteq> []" by auto
  with None collect_file_texts [of E files] show ?thesis
    by (auto simp: given_texts_def collect_signed_hexes_def read_file_text)
next
  case (Some texts)
  with collect_file_texts [of E files] have "texts = [] \<longleftrightarrow> files = []" by auto
  with Some collect_file_texts [of E files] show ?thesis
    by (simp add: given_texts_def collect_signed_hexes_def read_file_text)
qed

lemma submission_as_asked:
  "case asked_texts E c of
     None \<Rightarrow> fst (run_submit_command E P c) = []
   | Some texts \<Rightarrow> fst (run_submit_command E P c) = [Submitted texts]
       \<and> (\<exists>label answer. node_answers E c texts answer
            \<and> snd (run_submit_command E P c)
              = Some (map_err NodeFailed (bind_result answer (\<lambda>v. Ok (Answer label v)))))"
proof (cases c)
  case (CmdSubmitSigned hex path)
  with read_hex_given [of E hex path] show ?thesis
    by (auto simp: run_submit_command_def submitting_def split: option.splits)
next
  case (CmdSubmitBatch hexes files)
  with collect_given [of E hexes files] show ?thesis
    by (auto simp: run_submit_command_def submitting_def split: option.splits)
next
  case (CmdSubmitProtected hex path priority)
  with read_hex_given [of E hex path] show ?thesis
    by (cases "ce_bearer E")
      (auto simp: run_submit_command_def submitting_def require_bearer_def split: option.splits)
next
  case (CmdSubmitBundle hexes files atomic height fee priority)
  with collect_given [of E hexes files] show ?thesis
    by (cases "ce_bearer E")
      (auto simp: run_submit_command_def submitting_def require_bearer_def split: option.splits)
next
  case (CmdWait hash timeout_secs interval_ms)
  then show ?thesis by (simp add: run_submit_command_def)
qed

lemma building_effects:
  assumes "command_args cmd = Some b0"
  shows "case build_signed_transaction E cmd of
      Err e \<Rightarrow> run_tx E P cmd = ([], Some (Err e))
    | Ok (label, st, b) \<Rightarrow> \<exists>ws ss. fst (run_tx E P cmd) = map (\<lambda>(p, c). Written p c) ws @ ss
        \<and> list_all (writes_as_told E st b) ws
        \<and> (ss = [] \<or> ss = [Submitted [tx_to_hex (ce_crypto E) st]] \<and> tb_submit b)"
  using finish_transaction_effects
  by (auto simp: run_tx_building [OF assms] split: sum.split)

text \<open>(C7) A command writes and sends only what it was asked to. A command that builds a transaction
  writes a file only where \<open>--signed-tx-out\<close> names it, with the text of that transaction, replaces
  one only with \<open>--force\<close>, and then, with \<open>--submit\<close>, sends exactly that transaction, at most once;
  when it cannot be built, nothing is written or sent. A submission command writes nothing and sends
  exactly once exactly the texts it was given, all of them and in their order, and returns the node's
  answer to that request; when a text is missing or unreadable, or the bearer token that it needs is
  missing, and for \<open>tx wait\<close>, nothing is sent.\<close>

theorem cli_effects_as_told:
  "case cmd of
     SubmitTx c \<Rightarrow>
       (case asked_texts E c of
          None \<Rightarrow> fst (run_tx E P cmd) = []
        | Some texts \<Rightarrow> fst (run_tx E P cmd) = [Submitted texts]
            \<and> (\<exists>label answer. node_answers E c texts answer
                 \<and> snd (run_tx E P cmd)
                   = Some (map_err NodeFailed (bind_result answer (\<lambda>v. Ok (Answer label v))))))
   | _ \<Rightarrow>
       (case build_signed_transaction E cmd of
          Err e \<Rightarrow> run_tx E P cmd = ([], Some (Err e))
        | Ok (label, st, b) \<Rightarrow> \<exists>ws ss. fst (run_tx E P cmd) = map (\<lambda>(p, c). Written p c) ws @ ss
            \<and> list_all (writes_as_told E st b) ws
            \<and> (ss = [] \<or> ss = [Submitted [tx_to_hex (ce_crypto E) st]] \<and> tb_submit b))"
proof (cases "command_args cmd")
  case None
  then obtain c where "cmd = SubmitTx c" by (cases cmd) (simp_all add: command_args_def)
  with submission_as_asked [of E P c] show ?thesis by (simp add: run_tx_def split: option.splits)
next
  case (Some b0)
  from building_effects [OF this, of E P] show ?thesis
    by (cases cmd) (use Some in \<open>simp_all add: command_args_def\<close>)
qed

subsection \<open>Witness\<close>

text \<open>An offline command with a key on the command line, a nonce, a chain and a window.\<close>

definition demo_decoders :: json_decoders where
  "demo_decoders = \<lparr>jd_fee_schedule = (\<lambda>_. None), jd_match_preferences = (\<lambda>_. None), jd_subtasks = (\<lambda>_. None),
     jd_executor_services = (\<lambda>_. None), jd_tool_milestones = (\<lambda>_. None), jd_milestones = (\<lambda>_. None),
     jd_payout_shares = (\<lambda>_. None), jd_reputation_effects = (\<lambda>_. None), jd_source_proof = (\<lambda>_. None),
     jd_abi = (\<lambda>_. None)\<rparr>"

definition demo_cli_env :: "rstr cli_env" where
  "demo_cli_env = \<lparr>ce_node = (demo_node_env, demo_node_client), ce_url_text = id, ce_wallet = demo_env,
     ce_keystore = demo_keystore_externs, ce_files = (\<lambda>_. None), ce_owner_only = (\<lambda>_. True),
     ce_writable = (\<lambda>_. True), ce_can_protect = (\<lambda>_. True), ce_env_var = (\<lambda>_. None),
     ce_prompt = (\<lambda>_. None), ce_now_ms = Some 1, ce_bearer = None, ce_lower = id, ce_decoders = demo_decoders\<rparr>"

definition demo_build_args :: tx_build_args where
  "demo_build_args = \<lparr>
     tb_key_source = \<lparr>kc_secret_key = Some (demo_hex_encode (replicate 32 7)), kc_key_file = None,
       kc_keystore = None, kc_keystore_address = None,
       kc_password = \<lparr>ps_password_file = None, ps_password_env = None\<rparr>\<rparr>,
     tb_nonce = Some 5, tb_chain_id = Some (lit ''zincha''), tb_timestamp_ms = None,
     tb_reference_block_height = Some 100, tb_reference_block_hash = Some (demo_hex_encode []),
     tb_ttl_blocks = Some 50, tb_embed_url = None, tb_offline = True, tb_submit = False, tb_wait = False,
     tb_wait_timeout_secs = 45, tb_wait_interval_ms = 500, tb_signed_tx_out = None, tb_force = False\<rparr>"

lemma demo_cli_crypto [simp]: "ce_crypto demo_cli_env = demo_externs"
  by (simp add: demo_cli_env_def demo_node_env_def)

lemma demo_load_keypair: "load_keypair demo_cli_env (tb_key_source demo_build_args) = Ok demo_keypair"
proof -
  have hex: "str_len (demo_hex_encode (replicate 32 7)) = 64"
    "list_all is_ascii_hexdigit (demo_hex_encode (replicate 32 7))"
    by code_simp+
  have "hex_decode demo_externs (demo_hex_encode (replicate 32 7)) = Some (replicate 32 7)"
    by (simp add: demo_externs_def demo_hex_roundtrip)
  with hex show ?thesis
    by (simp add: load_keypair_def demo_build_args_def load_secret_key_def secret_to_keypair_def
        from_secret_bytes_def demo_keypair_def)
qed

lemma demo_resolve:
  "resolve_wallet demo_cli_env demo_build_args
   = Ok ((starting_wallet demo_cli_env demo_build_args demo_keypair (lit ''zincha'') 5)
           \<lparr>aw_tx_validity_window := Some (100, Hash256 (replicate 32 0), 50)\<rparr>)"
proof -
  have "parse_hash demo_externs (demo_hex_encode []) = Ok (Hash256 (replicate 32 0))"
    by (simp add: parse_hash_def hash_from_hex_def demo_externs_def copy_into_zeroed_def)
  moreover have "checked_add (100 :: u64) 50 = Some 150" by (simp add: checked_add_def)
  ultimately show ?thesis
    unfolding resolve_wallet_def demo_load_keypair
    by (simp add: validate_reference_args_def demo_build_args_def transaction_chain_info_def
        transaction_nonce_def apply_validity_window_def extract_u64_def set_transaction_validity_window_def)
qed

theorem cli_signs_as_told_witness:
  "\<exists>st. build_signed_transaction demo_cli_env (AccountTx (CmdDeregisterAgent demo_build_args 1))
        = Ok (lit ''tx-deregister-agent'', st, demo_build_args)
    \<and> verify_signed demo_externs st = Ok () \<and> tx_nonce (st_transaction st) = 5
    \<and> tx_chain_id (st_transaction st) = lit ''zincha''
    \<and> unat (tx_max_valid_block_height (st_transaction st)) = 150"
proof -
  let ?w = "(starting_wallet demo_cli_env demo_build_args demo_keypair (lit ''zincha'') 5)
           \<lparr>aw_tx_validity_window := Some (100, Hash256 (replicate 32 0), 50)\<rparr>"
  obtain st where "build_deregister_agent demo_externs (ce_wallet demo_cli_env) ?w 1 = (Ok st, advanced ?w)"
    unfolding build_deregister_agent_def by (rule demo_build [of ?w]) simp
  then have "cmd_deregister_agent demo_cli_env demo_build_args 1
      = Ok (lit ''tx-deregister-agent'', st, demo_build_args)"
    by (simp only: cmd_deregister_agent_def Let_def simple_tx_def demo_resolve bind_result_simps demo_cli_crypto
        signed_by_def map_err_def fst_conv sum.case)
  then have st: "build_signed_transaction demo_cli_env (AccountTx (CmdDeregisterAgent demo_build_args 1))
      = Ok (lit ''tx-deregister-agent'', st, demo_build_args)"
    by (simp only: build_signed_transaction_def tx_command.case build_account_command.simps)
  have args: "tb_nonce demo_build_args = Some 5" "tb_chain_id demo_build_args = Some (lit ''zincha'')"
    "tb_reference_block_height demo_build_args = Some 100" "tb_ttl_blocks demo_build_args = Some 50"
    by (simp_all add: demo_build_args_def)
  have told: "verify_signed demo_externs st = Ok () \<and> tx_nonce (st_transaction st) = 5
    \<and> tx_chain_id (st_transaction st) = lit ''zincha''
    \<and> unat (tx_max_valid_block_height (st_transaction st)) = 150"
    using cli_signs_as_told [OF st refl refl] 
    by (auto simp: args window_allowed_def Let_def split: option.splits simp del: list.map)
  with st show ?thesis by blast
qed

end
