(* ===== verification/Cli_Query.thy ===== *)
theory Cli_Query
  imports Cli_Tx
begin

text \<open>
  The query commands of the command line (\<open>crates/zincha-cli-core/src/query.rs\<close>): one constructor
  per subcommand, in three groups, and the request each makes. Argument syntax (clap) and printing
  are left out; a result is the label and the value that are printed.

  A signed query is modelled up to the request it makes, since what it sends is what matters: the
  theorem says that the request is signed with the key of the key source and asks only for the
  address of that key.
\<close>

datatype query_error = QueryCli cli_error | QueryNode node_error | BadDiscoverFee rstr
  | SignerMismatch rstr rstr | NoQueryPath

subsection \<open>Commands\<close>

datatype chain_query =
    QChain | QBlock rstr | QBlocks "u64 option" | QAccount rstr | QAccountNonce rstr
  | QAccountTransactions rstr "u64 option" "rstr option" | QTx rstr | QValidators
  | QEvents "rstr option" "u64 option" | QMarketRates "u64 option" "rstr option"
  | QRequesterReputation rstr

datatype market_query =
    QAgent rstr | QAgents "u64 option" "rstr option"
  | QCapabilities "u64 option" "rstr option" "rstr option" "rstr option" "rstr option"
  | QCapability rstr
  | QCapabilitySearch rstr "u64 option" "rstr option" "rstr option" "rstr option"
  | QCapabilityCategories | QTaskOpportunity rstr
  | QPendingTasks "u64 option" "rstr option" "rstr list" "u64 option" "rstr list"
  | QTool rstr | QTools "u64 option" "rstr option" | QSubscription rstr

datatype contract_query =
    QContract rstr | QContracts "u64 option" "rstr option"
  | QContractTransactions rstr "u64 option" "rstr option" | QRoute rstr rstr
  | QToken rstr | QTokens "u64 option" "rstr option"
  | QTokenTransactions rstr "u64 option" "rstr option"
  | QArbitrator rstr | QArbitrators "u64 option" "rstr option"

datatype signed_query =
    QTask key_source rstr | QAgreement key_source rstr | QToolJob key_source rstr
  | QToolUsageSession key_source rstr
  | QAgreementsByParty key_source rstr "u64 option" "rstr option"
  | QAgreementsByArbitrator key_source rstr "u64 option" "rstr option"
  | QToolJobsByRequester key_source rstr "u64 option" "rstr option"
  | QToolJobsByProvider key_source rstr "u64 option" "rstr option"
  | QUsageSessionsByRequester key_source rstr "u64 option" "rstr option"
  | QUsageSessionsByProvider key_source rstr "u64 option" "rstr option"
  | QParticipant key_source rstr

datatype query_command = ChainQuery chain_query | MarketQuery market_query
  | ContractQuery contract_query | SignedQuery signed_query | PathQuery "rstr option"

subsection \<open>Parameters\<close>

definition with_opt :: "('a \<Rightarrow> 'q \<Rightarrow> 'q) \<Rightarrow> 'a option \<Rightarrow> 'q \<Rightarrow> 'q" where
  "with_opt set_field v q = (case v of None \<Rightarrow> q | Some x \<Rightarrow> set_field x q)"

definition empty_page :: page_query where
  "empty_page = \<lparr>pq_limit = None, pq_cursor = None\<rparr>"

definition transaction_history_query :: "u64 option \<Rightarrow> rstr option \<Rightarrow> page_query" where
  "transaction_history_query limit cursor = with_opt page_cursor cursor (with_opt page_limit limit empty_page)"

definition cursor_page_query :: "u64 option \<Rightarrow> rstr option \<Rightarrow> page_query" where
  "cursor_page_query limit cursor = with_opt page_cursor cursor (with_opt page_limit limit empty_page)"

definition participant_workflow_query :: "u64 option \<Rightarrow> rstr option \<Rightarrow> page_query" where
  "participant_workflow_query limit cursor = with_opt page_cursor cursor (with_opt page_limit limit empty_page)"

definition capability_list_query_of ::
  "u64 option \<Rightarrow> rstr option \<Rightarrow> rstr option \<Rightarrow> rstr option \<Rightarrow> rstr option \<Rightarrow> capability_list_query" where
  "capability_list_query_of limit cursor status category parent =
     with_opt capability_list_parent parent
      (with_opt capability_list_category category
       (with_opt capability_list_status status
        (with_opt capability_list_cursor cursor
         (with_opt capability_list_limit limit
           \<lparr>cl_limit = None, cl_cursor = None, cl_status = None, cl_category = None, cl_parent = None\<rparr>))))"

definition capability_search_query_of ::
  "u64 option \<Rightarrow> rstr option \<Rightarrow> rstr option \<Rightarrow> rstr option \<Rightarrow> capability_search_query" where
  "capability_search_query_of limit cursor status category =
     with_opt capability_search_category category
      (with_opt capability_search_status status
       (with_opt capability_search_cursor cursor
        (with_opt capability_search_limit limit
          \<lparr>cq_limit = None, cq_cursor = None, cq_status = None, cq_category = None\<rparr>)))"

definition discover_fee_entry :: "rstr \<Rightarrow> query_error + rstr \<times> u64" where
  "discover_fee_entry entry =
     bind_result (ok_or (split_once 0x3A entry) (BadDiscoverFee entry)) (\<lambda>(capability, fee).
     bind_result (ok_or (parse_u64 fee) (BadDiscoverFee entry)) (\<lambda>n. Ok (capability, of_nat n)))"

fun add_discover_fees :: "rstr list \<Rightarrow> pending_task_query \<Rightarrow> query_error + pending_task_query" where
  "add_discover_fees [] q = Ok q"
| "add_discover_fees (entry # entries) q =
     bind_result (discover_fee_entry entry) (\<lambda>e. add_discover_fees entries (pending_task_discover_fee e q))"

definition pending_task_list_query ::
  "u64 option \<Rightarrow> rstr option \<Rightarrow> rstr list \<Rightarrow> u64 option \<Rightarrow> rstr list \<Rightarrow> query_error + pending_task_query" where
  "pending_task_list_query limit cursor capabilities min_fee fees =
     (let q = with_opt pending_task_cursor cursor (with_opt pending_task_limit limit
                \<lparr>pt_limit = None, pt_cursor = None, pt_discover_capabilities = [],
                 pt_discover_min_fee = None, pt_discover_fees = []\<rparr>);
          q' = foldl (\<lambda>q c. pending_task_discover_capability c q) q capabilities
      in add_discover_fees fees (with_opt pending_task_discover_min_fee min_fee q'))"

definition get_with_limit :: "'u node \<Rightarrow> rstr \<Rightarrow> u64 option \<Rightarrow> node_error + json" where
  "get_with_limit n path limit =
     (case limit of
        Some l \<Rightarrow> ask n path (query_param (lit ''limit'') (show_nat (unat l)) default_options)
      | None \<Rightarrow> node_get (fst n) (snd n) path)"

subsection \<open>Public queries\<close>

abbreviation get_at :: "'u node \<Rightarrow> rstr \<Rightarrow> node_error + json" where
  "get_at n path \<equiv> node_get (fst n) (snd n) path"

primrec run_chain_query :: "'u node \<Rightarrow> chain_query \<Rightarrow> rstr \<times> (node_error + json)" where
  "run_chain_query n QChain = (lit ''query-chain'', chain_info n)"
| "run_chain_query n (QBlock height_or_hash) =
     (lit ''query-block'', get_at n (lit ''/v1/blocks/'' @ height_or_hash))"
| "run_chain_query n (QBlocks limit) = (lit ''query-blocks'', get_with_limit n (lit ''/v1/blocks'') limit)"
| "run_chain_query n (QAccount address) = (lit ''query-account'', balance n address)"
| "run_chain_query n (QAccountNonce address) = (lit ''query-account-nonce'', node_nonce n address)"
| "run_chain_query n (QAccountTransactions address limit cursor) =
     (lit ''query-account-transactions'',
      account_transactions n address (transaction_history_query limit cursor))"
| "run_chain_query n (QTx hash) = (lit ''query-tx'', transaction_status n hash)"
| "run_chain_query n QValidators = (lit ''query-validators'', node_validators n)"
| "run_chain_query n (QEvents topic limit) =
     (lit ''query-events'', ask n (lit ''/v1/events'')
       (opt_number (lit ''limit'') limit (opt_param (lit ''topic'') topic default_options)))"
| "run_chain_query n (QMarketRates limit cursor) =
     (lit ''query-market-rates'', market_rates n (cursor_page_query limit cursor))"
| "run_chain_query n (QRequesterReputation address) =
     (lit ''query-requester-reputation'', node_requester_reputation n address)"

primrec run_market_query :: "'u node \<Rightarrow> market_query \<Rightarrow> query_error + rstr \<times> (node_error + json)" where
  "run_market_query n (QAgent address) = Ok (lit ''query-agent'', get_at n (lit ''/v1/agents/'' @ address))"
| "run_market_query n (QAgents limit cursor) =
     Ok (lit ''query-agents'', node_agents n (cursor_page_query limit cursor))"
| "run_market_query n (QCapabilities limit cursor status category parent) =
     Ok (lit ''query-capabilities'',
         node_capabilities n (capability_list_query_of limit cursor status category parent))"
| "run_market_query n (QCapability slug) = Ok (lit ''query-capability'', node_capability n slug)"
| "run_market_query n (QCapabilitySearch text1 limit cursor status category) =
     Ok (lit ''query-capability-search'',
         capability_search n text1 (capability_search_query_of limit cursor status category))"
| "run_market_query n QCapabilityCategories =
     Ok (lit ''query-capability-categories'', capability_categories n)"
| "run_market_query n (QTaskOpportunity task_id) =
     Ok (lit ''query-task-opportunity'', task_opportunity n task_id)"
| "run_market_query n (QPendingTasks limit cursor capabilities min_fee fees) =
     bind_result (pending_task_list_query limit cursor capabilities min_fee fees) (\<lambda>q.
       Ok (lit ''query-pending-tasks'', pending_tasks n q))"
| "run_market_query n (QTool tool_id) = Ok (lit ''query-tool'', get_at n (lit ''/v1/tools/'' @ tool_id))"
| "run_market_query n (QTools limit cursor) =
     Ok (lit ''query-tools'', node_tools n (cursor_page_query limit cursor))"
| "run_market_query n (QSubscription subscription_id) =
     Ok (lit ''query-subscription'', get_at n (lit ''/v1/tool-subscriptions/'' @ subscription_id))"

primrec run_contract_query :: "'u node \<Rightarrow> contract_query \<Rightarrow> rstr \<times> (node_error + json)" where
  "run_contract_query n (QContract address) =
     (lit ''query-contract'', get_at n (lit ''/v1/contracts/'' @ address))"
| "run_contract_query n (QContracts limit cursor) =
     (lit ''query-contracts'', node_contracts n (cursor_page_query limit cursor))"
| "run_contract_query n (QContractTransactions address limit cursor) =
     (lit ''query-contract-transactions'',
      contract_transactions n address (transaction_history_query limit cursor))"
| "run_contract_query n (QRoute deployer route_name) =
     (lit ''query-route'', get_at n (lit ''/v1/contracts/routes/'' @ deployer @ [0x2F] @ route_name))"
| "run_contract_query n (QToken token_id) =
     (lit ''query-token'', get_at n (lit ''/v1/tokens/'' @ token_id))"
| "run_contract_query n (QTokens limit cursor) =
     (lit ''query-tokens'', node_tokens n (cursor_page_query limit cursor))"
| "run_contract_query n (QTokenTransactions token_id limit cursor) =
     (lit ''query-token-transactions'',
      token_transactions n token_id (transaction_history_query limit cursor))"
| "run_contract_query n (QArbitrator address) =
     (lit ''query-arbitrator'', get_at n (lit ''/v1/arbitrators/'' @ address))"
| "run_contract_query n (QArbitrators limit cursor) =
     (lit ''query-arbitrators'', node_arbitrators n (cursor_page_query limit cursor))"

subsection \<open>Signed queries\<close>

text \<open>The path and the options of the request; each function ends with \<open>client.request\<close> on them.\<close>

type_synonym node_query = "rstr \<times> request_options"

definition signed_get :: "rstr \<Rightarrow> keypair \<Rightarrow> node_query" where
  "signed_get path keypair = (path, option_signer keypair (signed_options default_options))"

abbreviation query_keypair :: "'u cli_env \<Rightarrow> key_source \<Rightarrow> query_error + keypair" where
  "query_keypair E signer \<equiv> map_err QueryCli (load_keypair E signer)"

definition signed_workflow_list ::
  "'u cli_env \<Rightarrow> key_source \<Rightarrow> rstr \<Rightarrow> rstr \<Rightarrow> u64 option \<Rightarrow> rstr option \<Rightarrow> query_error + node_query" where
  "signed_workflow_list E signer address path limit cursor =
     bind_result (query_keypair E signer) (\<lambda>keypair.
       let signer_address = addr_to_hex (ce_crypto E) (kp_address (ce_crypto E) keypair) in
       if signer_address \<noteq> address then Err (SignerMismatch signer_address address)
       else let q = participant_workflow_query limit cursor in
            Ok (path, opt_param (lit ''cursor'') (pq_cursor q) (opt_number (lit ''limit'') (pq_limit q)
                        (option_signer keypair (signed_options default_options)))))"

definition SCOPE_PREFIXES :: "rstr list" where
  "SCOPE_PREFIXES = [lit ''/v1/accounts/'', lit ''/v1/agents/'', lit ''/v1/requesters/'']"

fun enforce_prefixes :: "rstr list \<Rightarrow> rstr \<Rightarrow> rstr \<Rightarrow> query_error + unit" where
  "enforce_prefixes [] path signer_address = Ok ()"
| "enforce_prefixes (p # ps) path signer_address =
     (case strip_prefix path p of
        None \<Rightarrow> enforce_prefixes ps path signer_address
      | Some rest \<Rightarrow>
          let path_address = hd (split_on 0x2F rest) in
          if path_address \<noteq> [] \<and> path_address \<noteq> signer_address
          then Err (SignerMismatch signer_address path_address)
          else enforce_prefixes ps path signer_address)"

definition enforce_address_scope :: "rstr \<Rightarrow> rstr \<Rightarrow> query_error + unit" where
  "enforce_address_scope path signer_address = enforce_prefixes SCOPE_PREFIXES path signer_address"

definition run_participant_query :: "'u cli_env \<Rightarrow> key_source \<Rightarrow> rstr \<Rightarrow> query_error + node_query" where
  "run_participant_query E signer path =
     bind_result (query_keypair E signer) (\<lambda>keypair.
     bind_result (enforce_address_scope path (addr_to_hex (ce_crypto E) (kp_address (ce_crypto E) keypair)))
       (\<lambda>_. Ok (signed_get path keypair)))"

definition signed_item :: "'u cli_env \<Rightarrow> key_source \<Rightarrow> rstr \<Rightarrow> query_error + node_query" where
  "signed_item E signer path = bind_result (query_keypair E signer) (\<lambda>keypair. Ok (signed_get path keypair))"

primrec signed_request :: "'u cli_env \<Rightarrow> signed_query \<Rightarrow> query_error + node_query" where
  "signed_request E (QTask signer task_id) = signed_item E signer (lit ''/v1/tasks/'' @ task_id)"
| "signed_request E (QAgreement signer i) = signed_item E signer (lit ''/v1/agreements/'' @ i)"
| "signed_request E (QToolJob signer i) = signed_item E signer (lit ''/v1/tool-jobs/'' @ i)"
| "signed_request E (QToolUsageSession signer i) = signed_item E signer (lit ''/v1/tool-usage-sessions/'' @ i)"
| "signed_request E (QAgreementsByParty signer address limit cursor) =
     signed_workflow_list E signer address (lit ''/v1/agreements/party/'' @ address) limit cursor"
| "signed_request E (QAgreementsByArbitrator signer address limit cursor) =
     signed_workflow_list E signer address (lit ''/v1/agreements/arbitrator/'' @ address) limit cursor"
| "signed_request E (QToolJobsByRequester signer address limit cursor) =
     signed_workflow_list E signer address (lit ''/v1/tool-jobs/requester/'' @ address) limit cursor"
| "signed_request E (QToolJobsByProvider signer address limit cursor) =
     signed_workflow_list E signer address (lit ''/v1/tool-jobs/provider/'' @ address) limit cursor"
| "signed_request E (QUsageSessionsByRequester signer address limit cursor) =
     signed_workflow_list E signer address (lit ''/v1/tool-usage-sessions/requester/'' @ address) limit cursor"
| "signed_request E (QUsageSessionsByProvider signer address limit cursor) =
     signed_workflow_list E signer address (lit ''/v1/tool-usage-sessions/provider/'' @ address) limit cursor"
| "signed_request E (QParticipant signer path) = run_participant_query E signer path"

primrec signed_label :: "signed_query \<Rightarrow> rstr" where
  "signed_label (QTask _ _) = lit ''query-task''"
| "signed_label (QAgreement _ _) = lit ''query-agreement''"
| "signed_label (QToolJob _ _) = lit ''query-tool-job''"
| "signed_label (QToolUsageSession _ _) = lit ''query-tool-usage-session''"
| "signed_label (QAgreementsByParty _ _ _ _) = lit ''query-agreements-by-party''"
| "signed_label (QAgreementsByArbitrator _ _ _ _) = lit ''query-agreements-by-arbitrator''"
| "signed_label (QToolJobsByRequester _ _ _ _) = lit ''query-tool-jobs-by-requester''"
| "signed_label (QToolJobsByProvider _ _ _ _) = lit ''query-tool-jobs-by-provider''"
| "signed_label (QUsageSessionsByRequester _ _ _ _) = lit ''query-tool-usage-sessions-by-requester''"
| "signed_label (QUsageSessionsByProvider _ _ _ _) = lit ''query-tool-usage-sessions-by-provider''"
| "signed_label (QParticipant _ _) = lit ''query-participant''"

definition run_query :: "'u cli_env \<Rightarrow> query_command \<Rightarrow> query_error + rstr \<times> json" where
  "run_query E command =
     (let n = ce_node E;
          answered = (\<lambda>(label, r). bind_result (map_err QueryNode r) (\<lambda>v. Ok (label, v)))
      in case command of
        ChainQuery q \<Rightarrow> answered (run_chain_query n q)
      | MarketQuery q \<Rightarrow> bind_result (run_market_query n q) answered
      | ContractQuery q \<Rightarrow> answered (run_contract_query n q)
      | SignedQuery q \<Rightarrow> bind_result (signed_request E q) (\<lambda>(path, options).
          answered (signed_label q, ask n path options))
      | PathQuery path \<Rightarrow> bind_result (ok_or path NoQueryPath) (\<lambda>p.
          answered (lit ''query'', get_at n p)))"

subsection \<open>Whose data a signed query asks for\<close>

primrec query_signer :: "signed_query \<Rightarrow> key_source" where
  "query_signer (QTask s _) = s"
| "query_signer (QAgreement s _) = s"
| "query_signer (QToolJob s _) = s"
| "query_signer (QToolUsageSession s _) = s"
| "query_signer (QAgreementsByParty s _ _ _) = s"
| "query_signer (QAgreementsByArbitrator s _ _ _) = s"
| "query_signer (QToolJobsByRequester s _ _ _) = s"
| "query_signer (QToolJobsByProvider s _ _ _) = s"
| "query_signer (QUsageSessionsByRequester s _ _ _) = s"
| "query_signer (QUsageSessionsByProvider s _ _ _) = s"
| "query_signer (QParticipant s _) = s"

text \<open>The address a listing names, or the segment after one of the scoped prefixes of a path.\<close>

definition names_address :: "rstr \<Rightarrow> rstr \<Rightarrow> bool" where
  "names_address path a \<longleftrightarrow> a \<noteq> [] \<and> 0x2F \<notin> set a
     \<and> (\<exists>p \<in> set SCOPE_PREFIXES. path = p @ a \<or> (\<exists>rest. path = p @ a @ 0x2F # rest))"

primrec asks_for :: "signed_query \<Rightarrow> rstr \<Rightarrow> bool" where
  "asks_for (QTask _ _) a \<longleftrightarrow> False"
| "asks_for (QAgreement _ _) a \<longleftrightarrow> False"
| "asks_for (QToolJob _ _) a \<longleftrightarrow> False"
| "asks_for (QToolUsageSession _ _) a \<longleftrightarrow> False"
| "asks_for (QAgreementsByParty _ b _ _) a \<longleftrightarrow> a = b"
| "asks_for (QAgreementsByArbitrator _ b _ _) a \<longleftrightarrow> a = b"
| "asks_for (QToolJobsByRequester _ b _ _) a \<longleftrightarrow> a = b"
| "asks_for (QToolJobsByProvider _ b _ _) a \<longleftrightarrow> a = b"
| "asks_for (QUsageSessionsByRequester _ b _ _) a \<longleftrightarrow> a = b"
| "asks_for (QUsageSessionsByProvider _ b _ _) a \<longleftrightarrow> a = b"
| "asks_for (QParticipant _ path) a \<longleftrightarrow> names_address path a"

text \<open>What a request of the query carries.\<close>

definition signed_by_key :: "keypair \<Rightarrow> request_options \<Rightarrow> bool" where
  "signed_by_key keypair options \<longleftrightarrow> ro_signed options \<and> ro_signer options = Some keypair
     \<and> ro_delegation_id options = None \<and> ro_body options = None"

lemma signed_get_key: "signed_get path keypair = (p, options) \<Longrightarrow> signed_by_key keypair options"
  by (auto simp: signed_get_def signed_by_key_def option_signer_def signed_options_def default_options_def)

lemma opt_param_key [simp]: "signed_by_key k (opt_param n v options) = signed_by_key k options"
  by (simp add: opt_param_def query_param_def signed_by_key_def split: option.split)

lemma signed_item_Ok:
  "signed_item E signer path = Ok (p, options) \<Longrightarrow>
   \<exists>k. load_keypair E signer = Ok k \<and> signed_by_key k options"
  by (auto simp: signed_item_def dest: signed_get_key)

lemma signed_workflow_list_Ok:
  "signed_workflow_list E signer address path limit cursor = Ok (p, options) \<Longrightarrow>
   \<exists>k. load_keypair E signer = Ok k \<and> signed_by_key k options
     \<and> address = addr_to_hex (ce_crypto E) (kp_address (ce_crypto E) k)"
  by (auto simp: signed_workflow_list_def Let_def opt_number_def signed_get_key [OF signed_get_def]
      split: if_splits)

lemma first_segment: "0x2F \<notin> set a \<Longrightarrow> hd (split_on 0x2F (a @ rest)) = a @ hd (split_on 0x2F rest)"
proof (induction a)
  case (Cons x a)
  then show ?case by (cases "split_on 0x2F (a @ rest)"; cases "split_on 0x2F rest") (auto split: list.splits)
qed simp

lemma enforce_prefixes_Ok:
  "enforce_prefixes ps path signer = Ok () \<Longrightarrow> p \<in> set ps \<Longrightarrow> path = p @ rest \<Longrightarrow>
   hd (split_on 0x2F rest) \<noteq> [] \<Longrightarrow> hd (split_on 0x2F rest) = signer"
  by (induction ps path signer rule: enforce_prefixes.induct)
    (auto simp: Let_def split: option.splits if_splits)

lemma scope_enforced:
  assumes "enforce_address_scope path signer = Ok ()" "names_address path a"
  shows "a = signer"
proof -
  from assms(2) obtain p r where a: "a \<noteq> []" "0x2F \<notin> set a" and p: "p \<in> set SCOPE_PREFIXES"
    and path: "path = p @ r" "r = a \<or> (\<exists>rest. r = a @ 0x2F # rest)" by (auto simp: names_address_def)
  have "hd (split_on 0x2F r) = a"
    using path(2) first_segment [OF a(2), of "[]"] first_segment [OF a(2)] by auto
  with enforce_prefixes_Ok [OF assms(1) [unfolded enforce_address_scope_def] p path(1)] a(1)
  show ?thesis by simp
qed

text \<open>Whatever a signed query sends is signed with the key of its key source and with nothing
  else, and where the query names an address, in a listing or after a scoped prefix of a
  participant path, it is the address of that key: a query for another's data is refused before
  anything is sent.\<close>

theorem cli_query_own_data:
  assumes "signed_request E q = Ok (path, options)"
  shows "\<exists>keypair. load_keypair E (query_signer q) = Ok keypair \<and> signed_by_key keypair options
     \<and> (\<forall>a. asks_for q a \<longrightarrow> a = addr_to_hex (ce_crypto E) (kp_address (ce_crypto E) keypair))"
  using assms
  by (cases q) (auto dest!: signed_item_Ok signed_workflow_list_Ok
      simp: run_participant_query_def dest: signed_get_key scope_enforced)

theorem cli_query_own_data_witness:
  "\<exists>path options keypair.
     signed_request demo_cli_env (QAgreementsByParty (tb_key_source demo_build_args)
       (addr_to_hex demo_externs (kp_address demo_externs demo_keypair)) None None) = Ok (path, options)
     \<and> signed_by_key keypair options"
proof -
  obtain path options where r: "signed_request demo_cli_env (QAgreementsByParty (tb_key_source demo_build_args)
       (addr_to_hex demo_externs (kp_address demo_externs demo_keypair)) None None) = Ok (path, options)"
    by (simp add: signed_workflow_list_def demo_load_keypair map_err_def Let_def)
  show ?thesis using cli_query_own_data [OF r] r by blast
qed

text \<open>The check reads the path as it was typed; the client adds a missing slash, so a path without
  one escapes it.\<close>

lemma scope_without_slash:
  "enforce_address_scope (lit ''v1/accounts/zn1other'') signer = Ok ()
   \<and> build_request_target R (lit ''v1/accounts/zn1other'') [] = lit ''/v1/accounts/zn1other''"
  by (simp add: enforce_address_scope_def SCOPE_PREFIXES_def strip_prefix_def starts_with_def
      build_request_target_def)

end
