(* ===== verification/Cli_Keys.thy ===== *)
theory Cli_Keys
  imports Cli_Tx Mnemonic
begin

text \<open>
  The key and wallet commands of the command line (\<open>crates/zincha-cli-core/src/wallet.rs\<close>), the
  faucet and watch commands, and how the node client is chosen (\<open>lib.rs\<close>). A command is what it
  writes, as pairs of path and text in order, and its result: an error, or the label and the value
  that are printed. A write that fails half-way is not distinguished from one that never started;
  \<open>Keystore_File\<close> says what it can leave. Fresh keys, salts, nonces and the clock are arguments.

  The theorem says that a wallet command never drops a key it was not told to touch.
\<close>

record wallet_draws =
  wd_keypair :: keypair
  wd_salt :: "u8 list"
  wd_nonce :: "u8 list"
  wd_now :: u64

datatype wallet_cmd_error = WalletCli cli_error | WalletMnemonic mnemonic_error | ImportSources
  | EntryNotFound address | KeystoreExists rstr | WalletNode node_error

type_synonym cmd_outcome = "(rstr \<times> rstr) list \<times> (wallet_cmd_error + rstr \<times> json)"



definition then_emit ::
  "(rstr \<times> rstr) list \<times> (cli_error + unit) \<Rightarrow> rstr \<times> json \<Rightarrow> cmd_outcome" where
  "then_emit w out = (fst w, bind_result (map_err WalletCli (snd w)) (\<lambda>_. Ok out))"

subsection \<open>Commands\<close>

record keygen_command =
  kg_out :: "rstr option"
  kg_force :: bool
  kg_unsafe_print_secret :: bool



subsection \<open>Keystores\<close>








subsection \<open>Output\<close>

definition opt_str :: "rstr option \<Rightarrow> json" where
  "opt_str v = (case v of None \<Rightarrow> JNull | Some s \<Rightarrow> JStr s)"

definition address_text :: "'u cli_env \<Rightarrow> address \<Rightarrow> rstr" where
  "address_text E a = addr_to_hex (ce_crypto E) a"

definition key_public_hex :: "'u cli_env \<Rightarrow> keypair \<Rightarrow> rstr" where
  "key_public_hex E k = hex_encode (ce_crypto E) (pk_bytes (kp_public_key (ce_crypto E) k))"

definition secret_hex :: "'u cli_env \<Rightarrow> keypair \<Rightarrow> rstr" where
  "secret_hex E k = hex_encode (ce_crypto E) (secret_bytes k)"

text \<open>What \<open>keygen\<close> and \<open>export\<close> print.\<close>

definition key_output :: "'u cli_env \<Rightarrow> keypair \<Rightarrow> rstr option \<Rightarrow> bool \<Rightarrow> json" where
  "key_output E k out unsafe_print =
     JObj [(lit ''address'', JStr (address_text E (kp_address (ce_crypto E) k))),
           (lit ''public_key'', JStr (key_public_hex E k)),
           (lit ''secret_file'', opt_str out),
           (lit ''secret_key'', if unsafe_print then JStr (secret_hex E k) else JNull)]"




subsection \<open>Running them\<close>


definition run_keygen :: "'u cli_env \<Rightarrow> wallet_draws \<Rightarrow> keygen_command \<Rightarrow> cmd_outcome" where
  "run_keygen E D c =
     (let k = wd_keypair D in
      then_emit (case kg_out c of None \<Rightarrow> ([], Ok ())
                 | Some path \<Rightarrow> write_private_file E path (secret_hex E k) (kg_force c))
        (lit ''keygen'', key_output E k (kg_out c) (kg_unsafe_print_secret c)))"











definition run_faucet ::
  "'u cli_env \<Rightarrow> rstr \<Rightarrow> u64 option \<Rightarrow> u64 option \<Rightarrow> wallet_cmd_error + rstr \<times> json" where
  "run_faucet E address amount_micro amount =
     bind_result (map_err WalletNode (request_faucet (ce_node E) address amount_micro amount)) (\<lambda>v.
       Ok (lit ''faucet'', v))"

definition run_watch :: "'u cli_env \<Rightarrow> rstr \<Rightarrow> wallet_cmd_error + rstr \<times> json" where
  "run_watch E path =
     bind_result (map_err WalletNode (node_get (fst (ce_node E)) (snd (ce_node E)) path)) (\<lambda>v.
       Ok (lit ''watch'', v))"

definition run_info :: "'u cli_env \<Rightarrow> wallet_cmd_error + rstr \<times> json" where
  "run_info E = bind_result (map_err WalletNode (chain_info (ce_node E))) (\<lambda>v. Ok (lit ''info'', v))"

subsection \<open>The node client (\<open>lib.rs\<close>)\<close>

definition cli_bearer_token :: "(rstr \<Rightarrow> rstr option) \<Rightarrow> rstr option \<Rightarrow> rstr \<Rightarrow> rstr option" where
  "cli_bearer_token env_var token token_env =
     (case token of Some t \<Rightarrow> Some t
      | None \<Rightarrow> (case env_var token_env of Some v \<Rightarrow> if v \<noteq> [] then Some v else None | None \<Rightarrow> None))"

definition cli_client ::
  "'u url_externs \<Rightarrow> rstr \<Rightarrow> rstr option \<Rightarrow> rstr option \<Rightarrow> node_error + 'u node_client" where
  "cli_client R api_url release bearer_token =
     (let b = (case release of Some r \<Rightarrow> builder_release r builder_new
               | None \<Rightarrow> builder_base_url api_url builder_new)
      in build_client R (case bearer_token of Some t \<Rightarrow> builder_bearer_token t b | None \<Rightarrow> b))"

subsection \<open>No key is lost\<close>



























end
