(* ===== verification/Cli_Surface.thy ===== *)
theory Cli_Surface
  imports Cli_Query
begin

text \<open>
  The published surface of the command line (\<open>crates/zincha-cli-core/src/surface.rs\<close>): the table of
  typed queries with the endpoint each asks, and the assertions run at every start. The theorem ties
  the table to the queries: each asks exactly the endpoint its entry declares.
\<close>

subsection \<open>Tables\<close>

datatype surface_category = SurfacePublic | SurfaceParticipant | SurfaceProvider | SurfaceOmitted

datatype surface_entry = SurfaceEntry (se_command: string) (se_category: surface_category) (se_rationale: string)

datatype query_endpoint =
  QueryEndpoint (qe_command: string) (qe_method: string) (qe_template: string) (qe_category: surface_category)

definition TX_SURFACE :: "surface_entry list" where
  "TX_SURFACE = [
     SurfaceEntry ''transfer'' SurfacePublic
       ''ordinary value transfer'',
     SurfaceEntry ''entity-link'' SurfacePublic
       ''public identity graph transaction'',
     SurfaceEntry ''agent-*'' SurfacePublic
       ''public agent lifecycle'',
     SurfaceEntry ''capability-*'' SurfacePublic
       ''public capability catalog proposal and curator lifecycle'',
     SurfaceEntry ''task-*'' SurfacePublic
       ''public requester/agent task lifecycle'',
     SurfaceEntry ''tool-*'' SurfacePublic
       ''public tool lifecycle, invocation, results, usage, subscriptions'',
     SurfaceEntry ''agreement-*'' SurfacePublic
       ''public agreement lifecycle'',
     SurfaceEntry ''arbitrator-*'' SurfacePublic
       ''public dispute-arbitrator lifecycle'',
     SurfaceEntry ''validator-register/update/exit stake/unstake'' SurfacePublic
       ''public validator and stake transactions accepted by submit API'',
     SurfaceEntry ''contract-*'' SurfacePublic
       ''public contract deployment, calls, routes, verification, ABI'',
     SurfaceEntry ''token-*'' SurfacePublic
       ''ZIP-20 token lifecycle'',
     SurfaceEntry ''conversation-*'' SurfaceParticipant
       ''provider-hosted participant conversation lifecycle'',
     SurfaceEntry ''submit-protected submit-bundle'' SurfaceProvider
       ''provider-gated orderflow utilities that require bearer auth'',
     SurfaceEntry ''validator-vrf-* protocol-params-update finality-* node-* operator-*'' SurfaceOmitted
       ''consensus, operator, node management, and internal maintenance are outside the public SDK boundary'']"

definition TYPED_QUERY_ENDPOINTS :: "query_endpoint list" where
  "TYPED_QUERY_ENDPOINTS = [
     QueryEndpoint ''chain'' ''GET'' ''/v1/chain/info'' SurfacePublic,
     QueryEndpoint ''block'' ''GET'' ''/v1/blocks/{height_or_hash}'' SurfacePublic,
     QueryEndpoint ''blocks'' ''GET'' ''/v1/blocks'' SurfacePublic,
     QueryEndpoint ''account'' ''GET'' ''/v1/accounts/{address}/balance'' SurfacePublic,
     QueryEndpoint ''account-nonce'' ''GET'' ''/v1/accounts/{address}/nonce'' SurfacePublic,
     QueryEndpoint ''account-transactions'' ''GET'' ''/v1/accounts/{address}/transactions'' SurfacePublic,
     QueryEndpoint ''agent'' ''GET'' ''/v1/agents/{address}'' SurfacePublic,
     QueryEndpoint ''agents'' ''GET'' ''/v1/agents'' SurfacePublic,
     QueryEndpoint ''requester-reputation'' ''GET'' ''/v1/requesters/{address}'' SurfacePublic,
     QueryEndpoint ''capabilities'' ''GET'' ''/v1/capabilities'' SurfacePublic,
     QueryEndpoint ''capability'' ''GET'' ''/v1/capabilities/{slug}'' SurfacePublic,
     QueryEndpoint ''capability-search'' ''GET'' ''/v1/capabilities/search'' SurfacePublic,
     QueryEndpoint ''capability-categories'' ''GET'' ''/v1/capabilities/categories'' SurfacePublic,
     QueryEndpoint ''task'' ''GET'' ''/v1/tasks/{task_id}'' SurfaceParticipant,
     QueryEndpoint ''task-opportunity'' ''GET'' ''/v1/tasks/{task_id}/opportunity'' SurfacePublic,
     QueryEndpoint ''pending-tasks'' ''GET'' ''/v1/tasks/pending'' SurfacePublic,
     QueryEndpoint ''tool'' ''GET'' ''/v1/tools/{tool_id}'' SurfacePublic,
     QueryEndpoint ''tools'' ''GET'' ''/v1/tools'' SurfacePublic,
     QueryEndpoint ''subscription'' ''GET'' ''/v1/tool-subscriptions/{subscription_id}'' SurfacePublic,
     QueryEndpoint ''agreement'' ''GET'' ''/v1/agreements/{agreement_id}'' SurfaceParticipant,
     QueryEndpoint ''agreements-by-party'' ''GET'' ''/v1/agreements/party/{address}'' SurfaceParticipant,
     QueryEndpoint ''agreements-by-arbitrator'' ''GET'' ''/v1/agreements/arbitrator/{address}'' SurfaceParticipant,
     QueryEndpoint ''tool-job'' ''GET'' ''/v1/tool-jobs/{job_id}'' SurfaceParticipant,
     QueryEndpoint ''tool-jobs-by-requester'' ''GET'' ''/v1/tool-jobs/requester/{address}'' SurfaceParticipant,
     QueryEndpoint ''tool-jobs-by-provider'' ''GET'' ''/v1/tool-jobs/provider/{address}'' SurfaceParticipant,
     QueryEndpoint ''tool-usage-session'' ''GET'' ''/v1/tool-usage-sessions/{session_id}'' SurfaceParticipant,
     QueryEndpoint ''tool-usage-sessions-by-requester'' ''GET'' ''/v1/tool-usage-sessions/requester/{address}'' SurfaceParticipant,
     QueryEndpoint ''tool-usage-sessions-by-provider'' ''GET'' ''/v1/tool-usage-sessions/provider/{address}'' SurfaceParticipant,
     QueryEndpoint ''contract'' ''GET'' ''/v1/contracts/{address}'' SurfacePublic,
     QueryEndpoint ''contracts'' ''GET'' ''/v1/contracts'' SurfacePublic,
     QueryEndpoint ''contract-transactions'' ''GET'' ''/v1/contracts/{address}/transactions'' SurfacePublic,
     QueryEndpoint ''route'' ''GET'' ''/v1/contracts/routes/{deployer}/{route_name}'' SurfacePublic,
     QueryEndpoint ''token'' ''GET'' ''/v1/tokens/{token_id}'' SurfacePublic,
     QueryEndpoint ''tokens'' ''GET'' ''/v1/tokens'' SurfacePublic,
     QueryEndpoint ''token-transactions'' ''GET'' ''/v1/tokens/{token_id}/transactions'' SurfacePublic,
     QueryEndpoint ''arbitrator'' ''GET'' ''/v1/arbitrators/{address}'' SurfacePublic,
     QueryEndpoint ''arbitrators'' ''GET'' ''/v1/arbitrators'' SurfacePublic,
     QueryEndpoint ''market-rates'' ''GET'' ''/v1/market-rates'' SurfacePublic,
     QueryEndpoint ''events'' ''GET'' ''/v1/events'' SurfacePublic,
     QueryEndpoint ''tx'' ''GET'' ''/v1/tx/{hash}'' SurfacePublic,
     QueryEndpoint ''validators'' ''GET'' ''/v1/consensus/validators'' SurfacePublic,
     QueryEndpoint ''participant'' ''GET'' ''<signed participant path>'' SurfaceParticipant]"

text \<open>\<open>path.contains(word)\<close>.\<close>

fun is_prefix_of :: "string \<Rightarrow> string \<Rightarrow> bool" where
  "is_prefix_of [] s = True"
| "is_prefix_of (c # w) [] = False"
| "is_prefix_of (c # w) (x # s) = (c = x \<and> is_prefix_of w s)"

fun contains_text :: "string \<Rightarrow> string \<Rightarrow> bool" where
  "contains_text [] w = (w = [])"
| "contains_text (x # s) w = (is_prefix_of w (x # s) \<or> contains_text s w)"

definition excluded_words :: "string list" where
  "excluded_words = [''operator'', ''mempool'', ''pipeline'', ''finality'', ''testing'', ''internal'',
     ''readiness'', ''orderflow'']"

definition endpoint_is_public :: "query_endpoint \<Rightarrow> bool" where
  "endpoint_is_public e \<longleftrightarrow>
     qe_method e = ''GET'' \<and> qe_category e \<noteq> SurfaceProvider \<and> qe_category e \<noteq> SurfaceOmitted
     \<and> qe_template e \<noteq> ''/v1/tasks''
     \<and> list_all (\<lambda>w. \<not> contains_text (qe_template e) w) excluded_words
     \<and> (\<not> contains_text (qe_template e) ''consensus'' \<or> qe_template e = ''/v1/consensus/validators'')"

definition assert_public_surface :: bool where
  "assert_public_surface \<longleftrightarrow>
     TX_SURFACE \<noteq> []
     \<and> list_ex (\<lambda>e. se_category e = SurfaceProvider) TX_SURFACE
     \<and> list_ex (\<lambda>e. se_category e = SurfaceOmitted) TX_SURFACE
     \<and> list_all (\<lambda>e. trim (lit (se_command e)) \<noteq> [] \<and> trim (lit (se_rationale e)) \<noteq> []) TX_SURFACE
     \<and> list_all endpoint_is_public TYPED_QUERY_ENDPOINTS"

subsection \<open>The endpoint of a query\<close>

text \<open>A template with its holes filled in order.\<close>

function expand :: "rstr \<Rightarrow> rstr list \<Rightarrow> rstr" where
  "expand [] args = []"
| "expand (c # cs) args =
     (if c = 0x7B
      then (case args of [] \<Rightarrow> [] | a # as \<Rightarrow> a @ expand (drop 1 (dropWhile (\<lambda>x. x \<noteq> 0x7D) cs)) as)
      else c # expand cs args)"
  by pat_completeness auto
termination
  by (relation "measure (\<lambda>(cs, args). length cs)")
    (auto intro: le_less_trans [OF diff_le_self le_less_trans [OF length_dropWhile_le]])

primrec chain_endpoint :: "chain_query \<Rightarrow> query_endpoint \<times> rstr list" where
  "chain_endpoint (QChain) =
     (QueryEndpoint ''chain'' ''GET'' ''/v1/chain/info'' SurfacePublic, [])"
| "chain_endpoint (QBlock a) =
     (QueryEndpoint ''block'' ''GET'' ''/v1/blocks/{height_or_hash}'' SurfacePublic, [a])"
| "chain_endpoint (QBlocks _) =
     (QueryEndpoint ''blocks'' ''GET'' ''/v1/blocks'' SurfacePublic, [])"
| "chain_endpoint (QAccount a) =
     (QueryEndpoint ''account'' ''GET'' ''/v1/accounts/{address}/balance'' SurfacePublic, [a])"
| "chain_endpoint (QAccountNonce a) =
     (QueryEndpoint ''account-nonce'' ''GET'' ''/v1/accounts/{address}/nonce'' SurfacePublic, [a])"
| "chain_endpoint (QAccountTransactions a _ _) =
     (QueryEndpoint ''account-transactions'' ''GET'' ''/v1/accounts/{address}/transactions'' SurfacePublic, [a])"
| "chain_endpoint (QTx a) =
     (QueryEndpoint ''tx'' ''GET'' ''/v1/tx/{hash}'' SurfacePublic, [a])"
| "chain_endpoint (QValidators) =
     (QueryEndpoint ''validators'' ''GET'' ''/v1/consensus/validators'' SurfacePublic, [])"
| "chain_endpoint (QEvents _ _) =
     (QueryEndpoint ''events'' ''GET'' ''/v1/events'' SurfacePublic, [])"
| "chain_endpoint (QMarketRates _ _) =
     (QueryEndpoint ''market-rates'' ''GET'' ''/v1/market-rates'' SurfacePublic, [])"
| "chain_endpoint (QRequesterReputation a) =
     (QueryEndpoint ''requester-reputation'' ''GET'' ''/v1/requesters/{address}'' SurfacePublic, [a])"

primrec market_endpoint :: "market_query \<Rightarrow> query_endpoint \<times> rstr list" where
  "market_endpoint (QAgent a) =
     (QueryEndpoint ''agent'' ''GET'' ''/v1/agents/{address}'' SurfacePublic, [a])"
| "market_endpoint (QAgents _ _) =
     (QueryEndpoint ''agents'' ''GET'' ''/v1/agents'' SurfacePublic, [])"
| "market_endpoint (QCapabilities _ _ _ _ _) =
     (QueryEndpoint ''capabilities'' ''GET'' ''/v1/capabilities'' SurfacePublic, [])"
| "market_endpoint (QCapability a) =
     (QueryEndpoint ''capability'' ''GET'' ''/v1/capabilities/{slug}'' SurfacePublic, [a])"
| "market_endpoint (QCapabilitySearch _ _ _ _ _) =
     (QueryEndpoint ''capability-search'' ''GET'' ''/v1/capabilities/search'' SurfacePublic, [])"
| "market_endpoint (QCapabilityCategories) =
     (QueryEndpoint ''capability-categories'' ''GET'' ''/v1/capabilities/categories'' SurfacePublic, [])"
| "market_endpoint (QTaskOpportunity a) =
     (QueryEndpoint ''task-opportunity'' ''GET'' ''/v1/tasks/{task_id}/opportunity'' SurfacePublic, [a])"
| "market_endpoint (QPendingTasks _ _ _ _ _) =
     (QueryEndpoint ''pending-tasks'' ''GET'' ''/v1/tasks/pending'' SurfacePublic, [])"
| "market_endpoint (QTool a) =
     (QueryEndpoint ''tool'' ''GET'' ''/v1/tools/{tool_id}'' SurfacePublic, [a])"
| "market_endpoint (QTools _ _) =
     (QueryEndpoint ''tools'' ''GET'' ''/v1/tools'' SurfacePublic, [])"
| "market_endpoint (QSubscription a) =
     (QueryEndpoint ''subscription'' ''GET'' ''/v1/tool-subscriptions/{subscription_id}'' SurfacePublic, [a])"

primrec contract_endpoint :: "contract_query \<Rightarrow> query_endpoint \<times> rstr list" where
  "contract_endpoint (QContract a) =
     (QueryEndpoint ''contract'' ''GET'' ''/v1/contracts/{address}'' SurfacePublic, [a])"
| "contract_endpoint (QContracts _ _) =
     (QueryEndpoint ''contracts'' ''GET'' ''/v1/contracts'' SurfacePublic, [])"
| "contract_endpoint (QContractTransactions a _ _) =
     (QueryEndpoint ''contract-transactions'' ''GET'' ''/v1/contracts/{address}/transactions'' SurfacePublic, [a])"
| "contract_endpoint (QRoute a b) =
     (QueryEndpoint ''route'' ''GET'' ''/v1/contracts/routes/{deployer}/{route_name}'' SurfacePublic, [a, b])"
| "contract_endpoint (QToken a) =
     (QueryEndpoint ''token'' ''GET'' ''/v1/tokens/{token_id}'' SurfacePublic, [a])"
| "contract_endpoint (QTokens _ _) =
     (QueryEndpoint ''tokens'' ''GET'' ''/v1/tokens'' SurfacePublic, [])"
| "contract_endpoint (QTokenTransactions a _ _) =
     (QueryEndpoint ''token-transactions'' ''GET'' ''/v1/tokens/{token_id}/transactions'' SurfacePublic, [a])"
| "contract_endpoint (QArbitrator a) =
     (QueryEndpoint ''arbitrator'' ''GET'' ''/v1/arbitrators/{address}'' SurfacePublic, [a])"
| "contract_endpoint (QArbitrators _ _) =
     (QueryEndpoint ''arbitrators'' ''GET'' ''/v1/arbitrators'' SurfacePublic, [])"

primrec signed_endpoint :: "signed_query \<Rightarrow> query_endpoint \<times> rstr list" where
  "signed_endpoint (QTask _ a) =
     (QueryEndpoint ''task'' ''GET'' ''/v1/tasks/{task_id}'' SurfaceParticipant, [a])"
| "signed_endpoint (QAgreement _ a) =
     (QueryEndpoint ''agreement'' ''GET'' ''/v1/agreements/{agreement_id}'' SurfaceParticipant, [a])"
| "signed_endpoint (QToolJob _ a) =
     (QueryEndpoint ''tool-job'' ''GET'' ''/v1/tool-jobs/{job_id}'' SurfaceParticipant, [a])"
| "signed_endpoint (QToolUsageSession _ a) =
     (QueryEndpoint ''tool-usage-session'' ''GET'' ''/v1/tool-usage-sessions/{session_id}'' SurfaceParticipant, [a])"
| "signed_endpoint (QAgreementsByParty _ a _ _) =
     (QueryEndpoint ''agreements-by-party'' ''GET'' ''/v1/agreements/party/{address}'' SurfaceParticipant, [a])"
| "signed_endpoint (QAgreementsByArbitrator _ a _ _) =
     (QueryEndpoint ''agreements-by-arbitrator'' ''GET'' ''/v1/agreements/arbitrator/{address}'' SurfaceParticipant, [a])"
| "signed_endpoint (QToolJobsByRequester _ a _ _) =
     (QueryEndpoint ''tool-jobs-by-requester'' ''GET'' ''/v1/tool-jobs/requester/{address}'' SurfaceParticipant, [a])"
| "signed_endpoint (QToolJobsByProvider _ a _ _) =
     (QueryEndpoint ''tool-jobs-by-provider'' ''GET'' ''/v1/tool-jobs/provider/{address}'' SurfaceParticipant, [a])"
| "signed_endpoint (QUsageSessionsByRequester _ a _ _) =
     (QueryEndpoint ''tool-usage-sessions-by-requester'' ''GET'' ''/v1/tool-usage-sessions/requester/{address}'' SurfaceParticipant, [a])"
| "signed_endpoint (QUsageSessionsByProvider _ a _ _) =
     (QueryEndpoint ''tool-usage-sessions-by-provider'' ''GET'' ''/v1/tool-usage-sessions/provider/{address}'' SurfaceParticipant, [a])"
| "signed_endpoint (QParticipant _ p) =
     (QueryEndpoint ''participant'' ''GET'' ''<signed participant path>'' SurfaceParticipant, [])"

lemmas endpoint_in_table = TYPED_QUERY_ENDPOINTS_def list.set

lemma chain_endpoint_listed: "fst (chain_endpoint q) \<in> set TYPED_QUERY_ENDPOINTS"
  by (cases q; simp only: chain_endpoint.simps fst_conv endpoint_in_table) ((rule insertI1 | rule insertI2)+)

lemma market_endpoint_listed: "fst (market_endpoint q) \<in> set TYPED_QUERY_ENDPOINTS"
  by (cases q; simp only: market_endpoint.simps fst_conv endpoint_in_table) ((rule insertI1 | rule insertI2)+)

lemma contract_endpoint_listed: "fst (contract_endpoint q) \<in> set TYPED_QUERY_ENDPOINTS"
  by (cases q; simp only: contract_endpoint.simps fst_conv endpoint_in_table) ((rule insertI1 | rule insertI2)+)

lemma signed_endpoint_listed: "fst (signed_endpoint q) \<in> set TYPED_QUERY_ENDPOINTS"
  by (cases q; simp only: signed_endpoint.simps fst_conv endpoint_in_table) ((rule insertI1 | rule insertI2)+)

subsection \<open>The queries follow the table\<close>

definition endpoint_path :: "query_endpoint \<times> rstr list \<Rightarrow> rstr" where
  "endpoint_path e = expand (lit (qe_template (fst e))) (snd e)"

definition endpoint_label :: "query_endpoint \<times> rstr list \<Rightarrow> rstr" where
  "endpoint_label e = lit ''query-'' @ lit (qe_command (fst e))"

lemma expand_simps:
  "expand [] args = []" "c \<noteq> 0x7B \<Longrightarrow> expand (c # cs) args = c # expand cs args"
  "expand (0x7B # cs) (a # as) = a @ expand (drop 1 (dropWhile (\<lambda>x. x \<noteq> 0x7D) cs)) as"
  by simp_all

declare expand.simps [simp del] expand_simps [simp]

lemma ro_signed_params [simp]:
  "ro_signed (query_param n v options) = ro_signed options"
  "ro_signed (opt_param n w options) = ro_signed options"
  "ro_signed (opt_number n l options) = ro_signed options"
  "\<not> ro_signed default_options"
  by (simp_all add: query_param_def opt_param_def opt_number_def default_options_def split: option.split)

lemma ro_signed_fold [simp]:
  "ro_signed (foldl (\<lambda>options c. query_param n c options) o1 cs) = ro_signed o1"
  "ro_signed (foldl (\<lambda>options (c, fee). query_param n (f c fee) options) o1 fs) = ro_signed o1"
  by (induction cs arbitrary: o1; simp) (induction fs arbitrary: o1; simp split: prod.split)

lemmas option_defs = page_options_def history_options_def capability_list_options_def
  capability_search_options_def pending_task_options_def Let_def

lemmas public_query_defs = node_get_def chain_info_def balance_def node_nonce_def
  account_transactions_def transaction_status_def node_validators_def market_rates_def
  node_requester_reputation_def node_agents_def node_capabilities_def node_capability_def
  capability_search_def capability_categories_def task_opportunity_def pending_tasks_def node_tools_def
  node_contracts_def contract_transactions_def node_tokens_def token_transactions_def node_arbitrators_def

lemmas endpoint_defs = endpoint_path_def endpoint_label_def

text \<open>A request of a query, for its endpoint.\<close>

definition asks_endpoint ::
  "'u node \<Rightarrow> query_endpoint \<times> rstr list \<Rightarrow> rstr \<times> (node_error + json) \<Rightarrow> bool" where
  "asks_endpoint n e r \<longleftrightarrow>
     (\<exists>options. r = (endpoint_label e, ask n (endpoint_path e) options) \<and> \<not> ro_signed options)"

lemma asks_endpointI:
  "r = (label, ask n path options) \<Longrightarrow>
   label = endpoint_label e \<and> path = endpoint_path e \<and> \<not> ro_signed options \<Longrightarrow> asks_endpoint n e r"
  by (auto simp: asks_endpoint_def)

lemma get_with_limit_ask:
  "get_with_limit n path limit = ask n path (opt_number (lit ''limit'') limit default_options)"
  by (simp add: get_with_limit_def opt_number_def opt_param_def node_get_def split: option.split)

lemma chain_query_endpoint: "asks_endpoint n (chain_endpoint q) (run_chain_query n q)"
  by (cases q; (hypsubst, rule asks_endpointI,
      simp only: run_chain_query.simps public_query_defs get_with_limit_ask option_defs,
      simp add: endpoint_defs))

lemma contract_query_endpoint: "asks_endpoint n (contract_endpoint q) (run_contract_query n q)"
  by (cases q; (hypsubst, rule asks_endpointI,
      simp only: run_contract_query.simps public_query_defs option_defs, simp add: endpoint_defs))

lemma market_query_endpoint:
  "run_market_query n q = Ok r \<Longrightarrow> asks_endpoint n (market_endpoint q) r"
proof (cases q)
  case (QPendingTasks limit cursor capabilities min_fee fees)
  moreover assume "run_market_query n q = Ok r"
  ultimately obtain p where r: "r = (lit ''query-pending-tasks'', ask n (lit ''/v1/tasks/pending'') (pending_task_options p))"
    by (auto simp: pending_tasks_def)
  have "\<not> ro_signed (pending_task_options p)" by (simp add: pending_task_options_def Let_def case_prod_beta)
  with QPendingTasks show ?thesis by (intro asks_endpointI [OF r]) (simp add: endpoint_defs)
qed (simp only: run_market_query.simps sum.inject, hypsubst, rule asks_endpointI,
    simp only: public_query_defs option_defs, simp add: endpoint_defs)+

lemma signed_query_endpoint:
  "signed_request E q = Ok (path, options) \<Longrightarrow>
   (path = endpoint_path (signed_endpoint q) \<or> qe_command (fst (signed_endpoint q)) = ''participant'')
   \<and> endpoint_label (signed_endpoint q) = signed_label q \<and> ro_signed options
   \<and> qe_category (fst (signed_endpoint q)) = SurfaceParticipant"
  by (cases q) (auto simp: endpoint_defs signed_item_def signed_get_def signed_workflow_list_def Let_def
      run_participant_query_def option_signer_def signed_options_def split: if_splits)

lemma open_category:
  "qe_category (fst (chain_endpoint c)) \<noteq> SurfaceParticipant"
  "qe_category (fst (market_endpoint m)) \<noteq> SurfaceParticipant"
  "qe_category (fst (contract_endpoint q)) \<noteq> SurfaceParticipant"
  by (cases c, simp_all) (cases m, simp_all, cases q, simp_all)

text \<open>A typed query that is answered asked exactly the endpoint its entry in the published
  table declares, with the holes of the template filled by the arguments, under the label of that
  entry, and signed exactly when the table lists it as a participant's; only the path of
  \<open>participant\<close> is the caller's.\<close>

theorem typed_queries_follow_table:
  assumes "run_query E command = Ok (label, v)" "\<And>p. command \<noteq> PathQuery p"
  shows "\<exists>entry \<in> set TYPED_QUERY_ENDPOINTS. \<exists>args path options.
    label = lit ''query-'' @ lit (qe_command entry)
    \<and> ask (ce_node E) path options = Ok v
    \<and> (path = expand (lit (qe_template entry)) args \<or> qe_command entry = ''participant'')
    \<and> (ro_signed options \<longleftrightarrow> qe_category entry = SurfaceParticipant)"
proof -
  have public: ?thesis if "asks_endpoint (ce_node E) e r" "fst e \<in> set TYPED_QUERY_ENDPOINTS"
    "qe_category (fst e) \<noteq> SurfaceParticipant" "fst r = label" "snd r = Ok v" for e r
  proof -
    from that(1) obtain options where "r = (endpoint_label e, ask (ce_node E) (endpoint_path e) options)"
      and "\<not> ro_signed options" by (auto simp: asks_endpoint_def)
    with that(2-) show ?thesis
      by (intro bexI [of _ "fst e"] exI [of _ "snd e"] exI [of _ "endpoint_path e"] exI [of _ options])
        (simp_all only: endpoint_label_def endpoint_path_def fst_conv snd_conv simp_thms)
  qed
  show ?thesis
  proof (cases command)
    case (ChainQuery q)
    with assms(1) have "fst (run_chain_query (ce_node E) q) = label" "snd (run_chain_query (ce_node E) q) = Ok v"
      by (auto simp: run_query_def Let_def split: prod.splits)
    with public [OF chain_query_endpoint chain_endpoint_listed open_category(1)] show ?thesis by blast
  next
    case (ContractQuery q)
    with assms(1) have "fst (run_contract_query (ce_node E) q) = label" "snd (run_contract_query (ce_node E) q) = Ok v"
      by (auto simp: run_query_def Let_def split: prod.splits)
    with public [OF contract_query_endpoint contract_endpoint_listed open_category(3)] show ?thesis by blast
  next
    case (MarketQuery q)
    with assms(1) obtain r where "run_market_query (ce_node E) q = Ok r" "fst r = label" "snd r = Ok v"
      by (auto simp: run_query_def Let_def split: prod.splits)
    with public [OF market_query_endpoint market_endpoint_listed open_category(2)] show ?thesis by blast
  next
    case (SignedQuery q)
    with assms(1) obtain path options where r: "signed_request E q = Ok (path, options)"
      and v: "label = signed_label q" "ask (ce_node E) path options = Ok v"
      by (auto simp: run_query_def Let_def)
    from signed_query_endpoint [OF r] v signed_endpoint_listed [of q] show ?thesis
      by (intro bexI [of _ "fst (signed_endpoint q)"] exI [of _ "snd (signed_endpoint q)"]
          exI [of _ path] exI [of _ options])
        (auto simp only: endpoint_label_def endpoint_path_def simp_thms)
  next
    case (PathQuery p)
    with assms(2) show ?thesis by blast
  qed
qed

lemma demo_chain_query: "\<exists>v. run_query demo_cli_env (ChainQuery QChain) = Ok (lit ''query-chain'', v)"
  by (simp add: run_query_def chain_info_def node_get_def node_call_def build_node_request_def Let_def
      join_path_def auth_headers_def default_options_def demo_cli_env_def demo_node_env_def demo_node_client_def
      demo_url_externs_def decode_response_def decode_envelope_def nullable_def node_success_def as_bool_def)

theorem typed_queries_follow_table_witness:
  "\<exists>entry \<in> set TYPED_QUERY_ENDPOINTS. \<exists>args.
     lit ''query-chain'' = lit ''query-'' @ lit (qe_command entry)
     \<and> (\<exists>path. path = expand (lit (qe_template entry)) args \<or> qe_command entry = ''participant'')"
proof -
  obtain v where "run_query demo_cli_env (ChainQuery QChain) = Ok (lit ''query-chain'', v)"
    using demo_chain_query by blast
  from typed_queries_follow_table [OF this] show ?thesis by blast
qed

end
