(* ===== verification/Spec2Isabelle.thy ===== *)
theory Spec2Isabelle
  imports Merkle Transaction Agreement Arbitrator Subscription Tool_Job Tool_Listing Tool_Access Contract
    Contract_Storage Contract_Events Validator Agent
    Capability_Catalog Rpc_Delegation Token
    Payload_Tool Payload Wallet_Core Wallet Wallet_Session
    Conversation_Signing Conversation_E2e Certificate_Pins Conversation_Client Conversation_Grant
    Conversation_Profile
    Event_Stream Outbox
    Mnemonic Keystore_File Embedding_Bounds Node_Queries
    Cli_Tx Cli_Query Cli_Keys Cli_Surface
begin

text \<open>
  Verification of the Zincha Rust SDK (\<open>src/crates\<close>).

  The SDK is the client side of a chain of agents, tools and contracts. Its core crate,
  \<open>zincha-primitives\<close>, holds the data that clients and validators share and the rules that
  both must compute alike: hashing, signing, Merkle proofs, transactions, agreements with
  escrow, paid tools with subscriptions, jobs and access tokens, and WASM contracts with their
  authenticated storage and event archive. The crate \<open>zincha-client\<close>
  calls a node and conversation services over HTTP; \<open>zincha-cli-core\<close> and \<open>zincha-cli\<close> parse
  arguments and print.

  \<^bold>\<open>Conventions.\<close> Unsigned integers are words of their width and keep the wrap-around or
  saturation the source names. Bytes are \<open>u8 list\<close>; a \<open>Hash256\<close> and an \<open>Address\<close> wrap their
  bytes, and \<open>wf_hash\<close>, \<open>wf_addr\<close> state the array lengths that Rust's types fix. Strings are
  lists of code points (\<open>rstr\<close>) with their UTF-8 form (\<open>utf8\<close>). A \<open>Result\<close> is a sum with one
  error datatype per component that names the failing branch; message texts are left out.
  Mutating methods return the updated record. SHA-256, hex and Ed25519 are third-party crates:
  the record \<open>externs\<close>, an argument of everything that uses them. What the code relies on is
  stated by \<open>sha256_ok\<close>, \<open>hex_ok\<close> and \<open>ed25519_ok\<close>, and collision resistance only ever as
  injectivity of the hash on the explicit set of preimages that the operations at hand hash.

  \<^bold>\<open>Theories\<close>, all sources under \<open>src/crates/zincha-primitives/src\<close> unless noted:
  \<^item> \<open>Prelude\<close>, \<open>Rust_Str\<close>: integers, results, duplicate checks, strings; the locales
    \<open>stateful\<close> and \<open>stateful_mono\<close> for invariants over sequences of operations.
  \<^item> \<open>Crypto\<close> (\<open>crypto/hash.rs\<close>, \<open>crypto/keys.rs\<close>): hashes, addresses, keys, signatures.
  \<^item> \<open>Merkle\<close> (\<open>crypto/merkle.rs\<close>): layers, in-place root, proofs; completeness, soundness and
    binding of proofs and roots.
  \<^item> \<open>Wire\<close>: the bincode encoding. The Rust code calls the bincode crate; the byte layout is
    read off \<open>src/sdk/python/src/zincha/bincode.py\<close>, which the repository keeps byte-compatible.
    The locale \<open>wire_format\<close> (no encoding is a proper prefix of another value's) is
    interpreted on every writer, and gives injectivity of all encodings built from them.
  \<^item> \<open>Tx_Type\<close>, \<open>Transaction\<close> (\<open>primitives/transaction.rs\<close>): the type table, canonical encoding,
    signing and verification, validity window, synthetic hashes of batches.
  \<^item> \<open>Agreement\<close> (\<open>primitives/agreement.rs\<close>): milestones, settlement, creation checks, escrow
    counter, dispute outcomes, payouts. \<open>agreement_step\<close> sequences the bookkeeping methods.
    \<open>Arbitrator\<close>: arbitrator profiles and the bounds of their score.
  \<^item> \<open>Subscription\<close>, \<open>Tool_Job\<close>, \<open>Tool_Access\<close> (\<open>primitives/tool.rs\<close>): the billing clock and
    allowances, escrowed jobs with milestones, and access tokens with the verifier a tool runs.
    \<open>Tool_Listing\<close>: registered tools, contract endpoints, who is paid, and the ranking score.
    The verifier's two trait objects are the locales \<open>chain_verifier\<close> and \<open>replay_store\<close>.
  \<^item> \<open>Contract\<close>, \<open>Contract_Storage\<close>, \<open>Contract_Events\<close> (\<open>primitives/contract.rs\<close>): contract
    records, ABI, routes, addresses; the storage trie root, refined to the hash of an explicit
    trie; the event accumulator, refined to a hash chain of blocks.

  \<^item> \<open>Validator\<close> (\<open>primitives/validator.rs\<close>): executor claims, the commit and reveal of epoch
    randomness, signed evidence.
  \<^item> \<open>Floats\<close>: IEEE 754 binary32 and binary64 arithmetic with round-to-nearest-even on exact
    rationals; \<open>Reputation\<close> and \<open>Agent\<close> (\<open>primitives/agent.rs\<close>, policy in \<open>config.rs\<close>) use it for
    the scores the code computes with \<open>f64\<close>. \<open>ln\<close> and \<open>powf\<close> are the record \<open>math_fns\<close>, an
    argument, with the ranges the code relies on stated by \<open>math_ok\<close>.
  \<^item> \<open>Task\<close> (\<open>primitives/task.rs\<close>): the task record, its lifecycle helpers, matching preferences.
  \<^item> \<open>Capability_Catalog\<close> (\<open>primitives/capability.rs\<close>), \<open>Rpc_Delegation\<close>
    (\<open>primitives/rpc_delegation.rs\<close>), \<open>Entity_Link\<close> (\<open>primitives/entity.rs\<close>), \<open>Token\<close>
    (\<open>primitives/token.rs\<close>): slugs, delegation scopes, entity links, token identifiers.
  \<^item> \<open>Payload_Tool\<close>, \<open>Payload\<close>: the payload structures of all transaction types (files of
    \<open>primitives\<close>) with their encodings, each an instance of \<open>wire_format\<close>.
  \<^item> \<open>Wallet_Core\<close>, \<open>Wallet\<close> (\<open>wallet/agent_wallet.rs\<close>): the wallet's state, signing, and one
    definition per transaction builder. \<open>Wallet_Session\<close>: sequences of builder calls
    (\<open>wallet_session\<close>), the locale \<open>transaction_signer\<close>, and what payloads issued by a wallet
    guarantee to the components that check them.

  \<^item> \<open>Rust_Num\<close>, \<open>Json\<close>: parsing of numbers, JSON values (their text is a parameter).
  \<^item> \<open>Mnemonic\<close> (\<open>wallet/mnemonic.rs\<close>): key generation from a phrase and SLIP-0010 derivation.
    \<open>Keystore\<close> (\<open>wallet/keystore.rs\<close>): the encrypted entries and their operations;
    \<open>Keystore_Ring\<close> refines them to a map from addresses to keys, passwords and labels;
    \<open>Keystore_File\<close>: the JSON file, its shape check, decoding, loading and saving.
  \<^item> \<open>Embedding\<close> (\<open>embedding/engine.rs\<close>): feature hashing, normalisation, similarity and the cache,
    with \<open>f32\<close> and \<open>f64\<close> kept; \<open>Float_Bounds\<close> and \<open>Embedding_Bounds\<close>: no overflow, and the ranges.

  The node client (\<open>src/crates/zincha-client/src/lib.rs\<close>):
  \<^item> \<open>Release\<close> (\<open>release.rs\<close> of \<open>zincha-primitives\<close>): the table of releases.
  \<^item> \<open>Request_Signing\<close>: the texts and headers that sign a request; \<open>Node_Client\<close>: building a client
    and a request, reading an answer; \<open>Node_Queries\<close>: one definition per query and submission, and
    the loop that waits for a transaction.

  The conversation client (\<open>src/crates/zincha-client/src/conversation.rs\<close>):
  \<^item> \<open>Utf8\<close>: reading text from bytes, the inverse of \<open>utf8\<close>.
  \<^item> \<open>Conversation\<close>: delegations, challenges, messages and their validation;
    \<open>Conversation_Signing\<close>: the signed texts bind every field. \<open>Conversation_E2e\<close>: encrypted
    payloads, over cryptographic parameters with the laws \<open>e2e_ok\<close>; what the JSON of a payload is
    read back as is left open, since it may hold any JSON value.
  \<^item> \<open>Conversation_Client\<close>: requests and bounded responses; \<open>Certificate_Pins\<close>: the certificate a
    client accepts; \<open>Conversation_Grant\<close>: a read delegation built with the wallet.
    \<open>Conversation_Profile\<close>: service profiles, their validation over \<open>Ip_Addr\<close> (the standard
    library's addresses), and what a client built from a profile is connected to.
  \<^item> \<open>Event_Stream\<close>: the stream of messages as a step per connection attempt, with the network's
    behaviour as an argument; every reachable state delivers a run of the log without gaps.
  \<^item> \<open>Outbox\<close>: the durable queue, with a failure of any system call; refined to a list, with the
    locales \<open>stateful\<close> and \<open>guarded\<close> for sequences of operations. The refinement assumes nothing of
    the JSON codec; runs assume \<open>codec_ok\<close>, that a printed list is read back element by element,
    and speak of messages whose JSON is read back as they were, beside any other messages.

  The command line (\<open>src/crates/zincha-cli-core/src\<close>):
  \<^item> \<open>Cli_Env\<close> (\<open>support.rs\<close>, \<open>secret.rs\<close>): arguments, files and key sources; the environment of a
    command is a record. \<open>Cli_Wallet\<close> (\<open>tx.rs\<close>): resolving the wallet and its validity window.
    \<open>Cli_Command\<close>: the transaction commands and one definition per command; \<open>Cli_Tx\<close>: running them,
    composed with the guarantees of the wallet and of the node client.
    \<open>Cli_Query\<close> (\<open>query.rs\<close>): the query commands, which request each sends, and what a signed one
    signs. \<open>Cli_Keys\<close> (\<open>wallet.rs\<close>, \<open>watch.rs\<close>, \<open>lib.rs\<close>): key and wallet commands; none loses a
    stored key that it was not told to touch. \<open>Cli_Surface\<close> (\<open>surface.rs\<close>): the published tables
    of commands and endpoints, and that the typed queries ask the endpoints listed for them.

  \<^bold>\<open>Loops and bounds.\<close> Every loop terminates and is a total recursive function; no fuel is used,
  but for the loop that waits for a transaction, which polls as often as its time limit lets it:
  \<open>wait_for_transaction_ends\<close> shows that \<open>timeout div interval + 2\<close> polls are enough.
  The stream of events is endless by design: the model is one step per connection, and the loops
  inside a step terminate by a measure (the bytes left, the distance of the cursor to the largest
  sequence).
  Bounds in hypotheses (\<open>fits_u64\<close>, \<open>short\<close>) say that a length fits the width of the prefix
  that encodes it.

  \<^bold>\<open>Not modelled.\<close> Generation of keys from OS entropy, PEM and BLAKE3 are third-party.
  The conversation commands of the command line, its argument syntax and printing, and the SDKs in
  other languages are I/O around these rules.
\<close>

end
